(* ===== verification/PyFloat.thy ===== *)
theory PyFloat
  imports Complex_Main
begin

text \<open>
  Python's \<open>float\<close> as the scripts under \<open>scripts/qwen\<close> use it: IEEE 754 binary64 values as
  exact rationals plus the two infinities and NaN, with the correctly rounded operations of
  the language (true division of integers, conversion of integers, addition, subtraction,
  multiplication and division of floats). Rounding is to nearest, ties to even, with
  53 bits of precision, gradual underflow at \<open>2^-1074\<close> and overflow at \<open>2^1024\<close>.
  The sign of zero is not kept: no operation used by the scripts can observe it.
\<close>

datatype pfloat = FNum rat | FInf | FNegInf | FNaN

section \<open>Rounding\<close>

text \<open>Powers of two with an integer exponent.\<close>

definition pow2 :: "int \<Rightarrow> rat" where
  "pow2 e = (if 0 \<le> e then 2 ^ nat e else 1 / 2 ^ nat (- e))"

function ilog2 :: "int \<Rightarrow> int" where
  "ilog2 n = (if n < 2 then 0 else 1 + ilog2 (n div 2))"
  by pat_completeness auto
termination
  by (relation "measure nat") auto

declare ilog2.simps [simp del]

text \<open>The exponent of the leading bit of a positive rational.\<close>

definition flog2 :: "rat \<Rightarrow> int" where
  "flog2 q = (let (n, d) = quotient_of q;
                  e = ilog2 n - ilog2 d
              in if q < pow2 e then e - 1 else e)"

text \<open>Nearest integer, ties to even.\<close>

definition round_even :: "rat \<Rightarrow> int" where
  "round_even x = (let f = floor x; r = x - of_int f
                   in if r < 1 / 2 then f else if 1 / 2 < r then f + 1
                      else if even f then f else f + 1)"

definition ulp_exp :: "rat \<Rightarrow> int" where
  "ulp_exp x = max (flog2 \<bar>x\<bar> - 52) (- 1074)"

definition round_rat :: "rat \<Rightarrow> rat" where
  "round_rat x = (if x = 0 then 0
                  else of_int (round_even (x / pow2 (ulp_exp x))) * pow2 (ulp_exp x))"

definition fl_max :: rat where
  "fl_max = 2 ^ 1024"

text \<open>The bound as a literal, for evaluation.\<close>

lemma fl_max_literal [code]: "fl_max = 179769313486231590772930519078902473361797697894230657273430081157732675805500963132708477322407536021120113879871393357658789768814416622492847430639474124377767893424865485276302219601246094119453082952085005768838150682342462881473913110540827237163350510684586298239947245938479716304835356329624224137216"
  by (simp add: fl_max_def)

definition round_fl :: "rat \<Rightarrow> pfloat" where
  "round_fl x = (let y = round_rat x
                 in if fl_max \<le> y then FInf else if y \<le> - fl_max then FNegInf else FNum y)"

section \<open>Comparisons\<close>

text \<open>Comparisons with NaN are false; an integer is compared exactly.\<close>

fun fl_less :: "pfloat \<Rightarrow> pfloat \<Rightarrow> bool" where
  "fl_less FNaN _ = False"
| "fl_less _ FNaN = False"
| "fl_less FInf _ = False"
| "fl_less _ FNegInf = False"
| "fl_less FNegInf _ = True"
| "fl_less _ FInf = True"
| "fl_less (FNum x) (FNum y) = (x < y)"

fun fl_eq :: "pfloat \<Rightarrow> pfloat \<Rightarrow> bool" where
  "fl_eq FNaN _ = False"
| "fl_eq _ FNaN = False"
| "fl_eq x y = (x = y)"

definition fl_le :: "pfloat \<Rightarrow> pfloat \<Rightarrow> bool" where
  "fl_le x y \<longleftrightarrow> fl_less x y \<or> fl_eq x y"

fun fl_finite :: "pfloat \<Rightarrow> bool" where
  "fl_finite (FNum _) = True"
| "fl_finite _ = False"

lemma fl_less_FNum [simp]: "fl_less (FNum x) (FNum y) \<longleftrightarrow> x < y"
  by simp

lemma fl_le_FNum [simp]: "fl_le (FNum x) (FNum y) \<longleftrightarrow> x \<le> y"
  by (auto simp: fl_le_def)

section \<open>Arithmetic\<close>

fun fl_neg :: "pfloat \<Rightarrow> pfloat" where
  "fl_neg (FNum x) = FNum (- x)"
| "fl_neg FInf = FNegInf"
| "fl_neg FNegInf = FInf"
| "fl_neg FNaN = FNaN"

fun fl_add :: "pfloat \<Rightarrow> pfloat \<Rightarrow> pfloat" where
  "fl_add FNaN _ = FNaN"
| "fl_add _ FNaN = FNaN"
| "fl_add FInf FNegInf = FNaN"
| "fl_add FNegInf FInf = FNaN"
| "fl_add FInf _ = FInf"
| "fl_add _ FInf = FInf"
| "fl_add FNegInf _ = FNegInf"
| "fl_add _ FNegInf = FNegInf"
| "fl_add (FNum x) (FNum y) = round_fl (x + y)"

definition fl_sub :: "pfloat \<Rightarrow> pfloat \<Rightarrow> pfloat" where
  "fl_sub x y = fl_add x (fl_neg y)"

definition inf_of_sign :: "rat \<Rightarrow> pfloat" where
  "inf_of_sign s = (if s = 0 then FNaN else if 0 < s then FInf else FNegInf)"

fun fl_sign :: "pfloat \<Rightarrow> rat" where
  "fl_sign (FNum x) = sgn x"
| "fl_sign FInf = 1"
| "fl_sign FNegInf = - 1"
| "fl_sign FNaN = 0"

fun fl_mul :: "pfloat \<Rightarrow> pfloat \<Rightarrow> pfloat" where
  "fl_mul (FNum x) (FNum y) = round_fl (x * y)"
| "fl_mul x y = (if x = FNaN \<or> y = FNaN then FNaN else inf_of_sign (fl_sign x * fl_sign y))"

text \<open>Division by a non-zero float; the caller raises \<open>ZeroDivisionError\<close> on zero.\<close>

fun fl_div :: "pfloat \<Rightarrow> pfloat \<Rightarrow> pfloat" where
  "fl_div (FNum x) (FNum y) = round_fl (x / y)"
| "fl_div FNaN _ = FNaN"
| "fl_div _ FNaN = FNaN"
| "fl_div (FNum x) _ = FNum 0"
| "fl_div x (FNum y) = (if 0 \<le> y then x else fl_neg x)"
| "fl_div x y = FNaN"

section \<open>Rounding is monotone and exact on representable values\<close>

lemma pow2_powi: "pow2 e = 2 powi e"
  by (simp add: pow2_def power_int_def power_one_over inverse_eq_divide)

lemma pow2_pos [simp]: "0 < pow2 e"
  by (simp add: pow2_powi)

lemma pow2_nonneg [simp]: "0 \<le> pow2 e"
  by (simp add: less_imp_le)

lemma pow2_nonzero [simp]: "pow2 e \<noteq> 0"
  using pow2_pos [of e] by linarith

lemma pow2_add: "pow2 (a + b) = pow2 a * pow2 b"
  by (simp add: pow2_powi power_int_add)

lemma pow2_diff: "pow2 (a - b) = pow2 a / pow2 b"
  by (simp add: pow2_powi power_int_diff)

lemma pow2_mono: "a \<le> b \<Longrightarrow> pow2 a \<le> pow2 b"
  by (simp add: pow2_powi power_int_increasing)

lemma pow2_less_iff: "pow2 a < pow2 b \<longleftrightarrow> a < b"
proof (cases "a < b")
  case True
  then show ?thesis by (simp add: pow2_powi power_int_strict_increasing)
next
  case False
  then have "pow2 b \<le> pow2 a" by (simp add: pow2_mono)
  then show ?thesis using False by linarith
qed

lemma pow2_of_nat: "0 \<le> e \<Longrightarrow> pow2 e = of_int (2 ^ nat e)"
  by (simp add: pow2_def)

lemma ilog2_1: "ilog2 1 = 0"
  by (simp add: ilog2.simps)

lemma ilog2_bounds: "1 \<le> n \<Longrightarrow> 0 \<le> ilog2 n \<and> pow2 (ilog2 n) \<le> of_int n \<and> of_int n < pow2 (ilog2 n + 1)"
proof (induction n rule: ilog2.induct)
  case (1 n)
  show ?case
  proof (cases "n < 2")
    case True
    then have "n = 1" using 1 by simp
    then show ?thesis by (simp add: ilog2_1 pow2_def)
  next
    case False
    then have IH: "0 \<le> ilog2 (n div 2)" "pow2 (ilog2 (n div 2)) \<le> of_int (n div 2)"
      "of_int (n div 2) < pow2 (ilog2 (n div 2) + 1)"
      using 1(1) by auto
    have e: "ilog2 n = 1 + ilog2 (n div 2)" using False by (simp add: ilog2.simps [of n])
    have p: "pow2 (1 + ilog2 (n div 2)) = 2 * pow2 (ilog2 (n div 2))"
      "pow2 (1 + ilog2 (n div 2) + 1) = 2 * pow2 (ilog2 (n div 2) + 1)"
      by (simp_all add: pow2_add) (simp_all add: pow2_def)
    have "of_int (n div 2) < (of_int (2 ^ nat (ilog2 (n div 2) + 1)) :: rat)"
      using IH(1,3) pow2_of_nat [of "ilog2 (n div 2) + 1"] by simp
    then have "n div 2 < 2 ^ nat (ilog2 (n div 2) + 1)" by (simp only: of_int_less_iff)
    then have "n < 2 * 2 ^ nat (ilog2 (n div 2) + 1)" by linarith
    then have "(of_int n :: rat) < of_int (2 * 2 ^ nat (ilog2 (n div 2) + 1))" by (simp only: of_int_less_iff)
    then have u: "of_int n < pow2 (1 + ilog2 (n div 2) + 1)"
      using IH(1) pow2_of_nat [of "ilog2 (n div 2) + 1"] p(2) by simp
    have "2 * (n div 2) \<le> n" by simp
    then have "(2 :: rat) * of_int (n div 2) \<le> of_int n"
      by (metis of_int_le_iff of_int_mult of_int_numeral)
    then have "pow2 (1 + ilog2 (n div 2)) \<le> of_int n" using IH(2) p(1) by linarith
    then show ?thesis using u IH(1) e by simp
  qed
qed

lemma flog2_bounds:
  assumes "0 < q"
  shows "pow2 (flog2 q) \<le> q \<and> q < pow2 (flog2 q + 1)"
proof -
  obtain n d where nd: "quotient_of q = (n, d)" by fastforce
  have d: "0 < d" and q: "q = of_int n / of_int d"
    using quotient_of_denom_pos [OF nd] quotient_of_div [OF nd] by auto
  then have n: "0 < n" using assms by (simp add: zero_less_divide_iff)
  let ?e = "ilog2 n - ilog2 d"
  have N: "pow2 (ilog2 n) \<le> of_int n" "of_int n < pow2 (ilog2 n + 1)"
    and D: "pow2 (ilog2 d) \<le> of_int d" "of_int d < pow2 (ilog2 d + 1)"
    using ilog2_bounds [of n] ilog2_bounds [of d] n d by auto
  have dp: "(0 :: rat) < of_int d" using d by simp
  have "q \<le> of_int n / pow2 (ilog2 d)"
    unfolding q using D(1) n dp by (intro divide_left_mono) auto
  also have "\<dots> < pow2 (ilog2 n + 1) / pow2 (ilog2 d)" using N(2) by (simp add: divide_strict_right_mono)
  finally have up: "q < pow2 (?e + 1)" by (simp add: pow2_diff [symmetric] algebra_simps)
  have "pow2 (ilog2 n) / pow2 (ilog2 d + 1) \<le> pow2 (ilog2 n) / of_int d"
    using D(2) dp by (intro divide_left_mono) auto
  also have "\<dots> \<le> q" unfolding q using N(1) dp by (simp add: divide_right_mono)
  finally have low: "pow2 (?e - 1) \<le> q" by (simp add: pow2_diff [symmetric] algebra_simps)
  show ?thesis using up low by (simp add: flog2_def nd Let_def)
qed

lemma flog2_mono:
  assumes "0 < x" and "x \<le> y"
  shows "flog2 x \<le> flog2 y"
proof -
  have "pow2 (flog2 x) \<le> x" "y < pow2 (flog2 y + 1)"
    using flog2_bounds [of x] flog2_bounds [of y] assms by auto
  then have "pow2 (flog2 x) < pow2 (flog2 y + 1)" using assms(2) by linarith
  then show ?thesis by (simp add: pow2_less_iff)
qed

lemma round_even_of_int [simp]: "round_even (of_int n) = n"
  by (simp add: round_even_def)

lemma round_even_floor: "floor x \<le> round_even x \<and> round_even x \<le> floor x + 1"
  by (simp add: round_even_def Let_def)

lemma round_even_mono:
  assumes "x \<le> y"
  shows "round_even x \<le> round_even y"
proof (cases "floor x = floor y")
  case True
  then show ?thesis using assms by (auto simp: round_even_def Let_def)
next
  case False
  then have "floor x + 1 \<le> floor y" using floor_mono [OF assms] by linarith
  then show ?thesis using round_even_floor [of x] round_even_floor [of y] by linarith
qed

lemma round_even_minus: "round_even (- x) = - round_even x"
proof (cases "x = of_int (floor x)")
  case True
  then show ?thesis by (metis of_int_minus round_even_of_int)
next
  case False
  then have "floor (- x) = - floor x - 1"
    by (simp add: floor_minus ceiling_altdef)
  then show ?thesis by (auto simp: round_even_def Let_def)
qed

lemma round_rat_0 [simp]: "round_rat 0 = 0"
  by (simp add: round_rat_def)

lemma round_rat_minus: "round_rat (- x) = - round_rat x"
  by (simp add: round_rat_def ulp_exp_def round_even_minus)

lemma round_rat_nonneg: "0 \<le> x \<Longrightarrow> 0 \<le> round_rat x"
  using round_even_mono [of 0 "x / pow2 (ulp_exp x)"] round_even_of_int [of 0]
  by (simp add: round_rat_def zero_le_mult_iff)

text \<open>A multiple of the unit in the last place bounds the rounding on either side.\<close>

lemma round_rat_le_grid:
  assumes "0 < x" and "x \<le> of_int m * pow2 (ulp_exp x)"
  shows "round_rat x \<le> of_int m * pow2 (ulp_exp x)"
proof -
  have "x / pow2 (ulp_exp x) \<le> of_int m" using assms(2) by (simp add: divide_le_eq)
  from round_even_mono [OF this] show ?thesis using assms(1) by (simp add: round_rat_def)
qed

lemma round_rat_ge_grid:
  assumes "0 < x" and "of_int m * pow2 (ulp_exp x) \<le> x"
  shows "of_int m * pow2 (ulp_exp x) \<le> round_rat x"
proof -
  have "of_int m \<le> x / pow2 (ulp_exp x)" using assms(2) by (simp add: le_divide_eq)
  from round_even_mono [OF this] show ?thesis using assms(1) by (simp add: round_rat_def)
qed

lemma round_rat_mono_pos:
  assumes "0 < x" and "x \<le> y"
  shows "round_rat x \<le> round_rat y"
proof (cases "ulp_exp x = ulp_exp y")
  case True
  have "x / pow2 (ulp_exp x) \<le> y / pow2 (ulp_exp x)" by (rule divide_right_mono [OF assms(2)]) simp
  from round_even_mono [OF this] show ?thesis using assms True by (simp add: round_rat_def)
next
  case False
  have y: "0 < y" using assms by linarith
  have l: "flog2 x \<le> flog2 y" by (rule flog2_mono [OF assms])
  then have less: "ulp_exp x < ulp_exp y" "flog2 x < flog2 y" and ey: "ulp_exp y = flog2 y - 52"
    using False assms y by (auto simp: ulp_exp_def)
  let ?B = "pow2 (flog2 y)"
  have xB: "x \<le> ?B" using flog2_bounds [OF assms(1)] pow2_mono [of "flog2 x + 1" "flog2 y"] less by linarith
  have grid: "?B = of_int (2 ^ nat (flog2 y - e)) * pow2 e" if "e \<le> flog2 y" for e
    using that pow2_of_nat [of "flog2 y - e"] pow2_add [of "flog2 y - e" e] by simp
  have "round_rat x \<le> ?B"
    using round_rat_le_grid [OF assms(1), of "2 ^ nat (flog2 y - ulp_exp x)"] xB grid [of "ulp_exp x"] less ey by simp
  also have "?B \<le> round_rat y"
    using round_rat_ge_grid [OF y, of "2 ^ nat (flog2 y - ulp_exp y)"] flog2_bounds [OF y] grid [of "ulp_exp y"] ey by simp
  finally show ?thesis .
qed

lemma round_rat_mono:
  assumes "x \<le> y"
  shows "round_rat x \<le> round_rat y"
proof -
  consider "0 < x" | "x = 0" | "x < 0" "y < 0" | "x < 0" "0 \<le> y" by linarith
  then show ?thesis
  proof cases
    case 1
    then show ?thesis using assms by (rule round_rat_mono_pos)
  next
    case 2
    then show ?thesis using assms round_rat_nonneg by simp
  next
    case 3
    then show ?thesis
      using round_rat_mono_pos [of "- y" "- x"] assms by (simp add: round_rat_minus)
  next
    case 4
    then show ?thesis
      using round_rat_nonneg [of y] round_rat_nonneg [of "- x"] by (simp add: round_rat_minus)
  qed
qed

text \<open>Integers of at most 53 bits are not rounded.\<close>

lemma round_rat_int:
  assumes "\<bar>n\<bar> \<le> 2 ^ 53"
  shows "round_rat (of_int n) = of_int n"
proof -
  have pos: "round_rat (of_int n) = of_int n" if n: "0 < n" "n \<le> 2 ^ 53" for n
  proof -
    let ?e = "ulp_exp (of_int n)"
    have "pow2 (flog2 (of_int n)) \<le> of_int n" using flog2_bounds [of "of_int n"] n by simp
    also have "(of_int n :: rat) \<le> of_int (2 ^ 53)" using n(2) by (simp only: of_int_le_iff)
    also have "(of_int (2 ^ 53) :: rat) < pow2 54" by (simp add: pow2_def)
    finally have f: "flog2 (of_int n) < 54" by (simp add: pow2_less_iff)
    show ?thesis
    proof (cases "?e \<le> 0")
      case True
      have "(of_int n :: rat) = of_int (n * 2 ^ nat (- ?e)) * pow2 ?e"
        using True by (simp add: pow2_def)
      then have "of_int n / pow2 ?e = (of_int (n * 2 ^ nat (- ?e)) :: rat)" by (simp add: field_simps)
      then have "round_even (of_int n / pow2 ?e) = n * 2 ^ nat (- ?e)" by (metis round_even_of_int)
      then show ?thesis using n True by (simp add: round_rat_def pow2_def)
    next
      case False
      then have e: "?e = 1" and fl: "flog2 (of_int n) = 53" using f n by (auto simp: ulp_exp_def)
      have "pow2 53 \<le> of_int n" using flog2_bounds [of "of_int n"] n fl by simp
      then have "(of_int (2 ^ 53) :: rat) \<le> of_int n" by (simp add: pow2_def)
      then have "2 ^ 53 \<le> n" by (simp only: of_int_le_iff)
      then have "n = 2 ^ 53" using n by simp
      then have "(of_int n :: rat) / pow2 1 = of_int (2 ^ 52)" by (simp add: pow2_def)
      then have "round_even (of_int n / pow2 ?e) = 2 ^ 52" using e by (metis round_even_of_int)
      then show ?thesis using \<open>n = 2 ^ 53\<close> e by (simp add: round_rat_def pow2_def)
    qed
  qed
  consider "0 < n" | "n = 0" | "n < 0" by linarith
  then show ?thesis
  proof cases
    case 3
    then show ?thesis using pos [of "- n"] assms by (simp add: round_rat_minus)
  qed (use pos assms in auto)
qed

lemma round_rat_1 [simp]: "round_rat 1 = 1"
  using round_rat_int [of 1] by simp

lemma round_fl_unit:
  assumes "0 \<le> x" and "x \<le> 1"
  shows "round_fl x = FNum (round_rat x)" and "0 \<le> round_rat x" and "round_rat x \<le> 1"
proof -
  show b: "0 \<le> round_rat x" "round_rat x \<le> 1"
    using round_rat_nonneg [OF assms(1)] round_rat_mono [OF assms(2)] by auto
  have "(1 :: rat) < fl_max" by (simp add: fl_max_def)
  then show "round_fl x = FNum (round_rat x)" using b by (simp add: round_fl_def Let_def)
qed

end
