(* ===== verification/Py.thy ===== *)
theory Py
  imports PyFloat "HOL-Library.AList"
begin

text \<open>
  The part of Python that the scripts share: exceptions as values of a result type, the
  dynamically typed values that \<open>json.loads\<close> returns, and the operations on them
  (subscription, \<open>dict.get\<close>, equality, ordering, truth). A JSON object is an association
  list in insertion order; strings are lists of characters.
\<close>

named_theorems py_simps \<open>characterisations of the primitive operations\<close>
named_theorems ok_simps \<open>when a computation returns normally\<close>

section \<open>Exceptions and results\<close>

datatype py_error =
    ValueError string
  | TypeError
  | KeyError string
  | IndexError
  | AttributeError
  | ZeroDivisionError
  | OverflowError
  | AssertionError
  | OSError string
  | StopIteration
  | ResourceBlocked string

type_synonym 'a result = "py_error + 'a"

text \<open>Sequencing: the first exception ends the computation.\<close>

fun bnd :: "'a result \<Rightarrow> ('a \<Rightarrow> 'b result) \<Rightarrow> 'b result" where
  "bnd (Inl e) f = Inl e"
| "bnd (Inr x) f = f x"

text \<open>\<open>if not ok: raise ValueError(message)\<close>, the helper \<open>require\<close> of the scripts.\<close>

definition req :: "bool \<Rightarrow> string \<Rightarrow> 'b result \<Rightarrow> 'b result" where
  "req ok message k = (if ok then k else Inl (ValueError message))"

text \<open>A condition that may itself raise.\<close>

definition reqm :: "bool result \<Rightarrow> string \<Rightarrow> 'b result \<Rightarrow> 'b result" where
  "reqm c message k = bnd c (\<lambda>ok. req ok message k)"

text \<open>Short-circuit \<open>and\<close> and \<open>or\<close> of conditions that may raise.\<close>

definition andm :: "bool result \<Rightarrow> bool result \<Rightarrow> bool result" where
  "andm a b = bnd a (\<lambda>x. if x then b else Inr False)"

definition orm :: "bool result \<Rightarrow> bool result \<Rightarrow> bool result" where
  "orm a b = bnd a (\<lambda>x. if x then Inr True else b)"

definition notm :: "bool result \<Rightarrow> bool result" where
  "notm a = bnd a (\<lambda>x. Inr (\<not> x))"

text \<open>Loops over a list: \<open>for x in xs: state = body(state, x)\<close>, and list comprehensions.\<close>

fun foldm :: "('s \<Rightarrow> 'x \<Rightarrow> 's result) \<Rightarrow> 's \<Rightarrow> 'x list \<Rightarrow> 's result" where
  "foldm f s [] = Inr s"
| "foldm f s (x # xs) = bnd (f s x) (\<lambda>s'. foldm f s' xs)"

fun mapm :: "('x \<Rightarrow> 'y result) \<Rightarrow> 'x list \<Rightarrow> 'y list result" where
  "mapm f [] = Inr []"
| "mapm f (x # xs) = bnd (f x) (\<lambda>y. bnd (mapm f xs) (\<lambda>ys. Inr (y # ys)))"

text \<open>\<open>all(...)\<close> and \<open>any(...)\<close> over conditions that may raise, left to right.\<close>

fun allm :: "('x \<Rightarrow> bool result) \<Rightarrow> 'x list \<Rightarrow> bool result" where
  "allm p [] = Inr True"
| "allm p (x # xs) = andm (p x) (allm p xs)"

fun anym :: "('x \<Rightarrow> bool result) \<Rightarrow> 'x list \<Rightarrow> bool result" where
  "anym p [] = Inr False"
| "anym p (x # xs) = orm (p x) (anym p xs)"

fun returns :: "'a result \<Rightarrow> bool" where
  "returns (Inr _) = True"
| "returns (Inl _) = False"

text \<open>
  For evaluation, sequencing is a case distinction and a check is a conditional, so that nothing
  after an exception is evaluated.
\<close>

lemma bnd_case [code_unfold]: "bnd m f = (case m of Inl e \<Rightarrow> Inl e | Inr x \<Rightarrow> f x)"
  by (cases m) auto

lemma req_if [code_unfold]: "req ok message k = (if ok then k else Inl (ValueError message))"
  by (rule req_def)

lemma andm_case [code_unfold]: "andm a b = (case a of Inl e \<Rightarrow> Inl e | Inr x \<Rightarrow> if x then b else Inr False)"
  by (cases a) (auto simp: andm_def)

lemma orm_case [code_unfold]: "orm a b = (case a of Inl e \<Rightarrow> Inl e | Inr x \<Rightarrow> if x then Inr True else b)"
  by (cases a) (auto simp: orm_def)

lemma reqm_case [code_unfold]: "reqm c message k = (case c of Inl e \<Rightarrow> Inl e | Inr ok \<Rightarrow> if ok then k else Inl (ValueError message))"
  by (cases c) (auto simp: reqm_def req_def)

lemma bnd_eq_Inr [ok_simps]: "(bnd step k = Inr v) = (\<exists>u. step = Inr u \<and> k u = Inr v)"
  by (cases step) auto

lemma bnd_eq_Inl: "(bnd step k = Inl e) = (step = Inl e \<or> (\<exists>u. step = Inr u \<and> k u = Inl e))"
  by (cases step) auto

lemma bnd_cong [fundef_cong]:
  "m = m' \<Longrightarrow> (\<And>x. m' = Inr x \<Longrightarrow> f x = g x) \<Longrightarrow> bnd m f = bnd m' g"
  by (cases m') auto

lemma bnd_Inr_right [simp]: "bnd m Inr = m"
  by (cases m) auto

lemma bnd_assoc: "bnd (bnd m f) g = bnd m (\<lambda>x. bnd (f x) g)"
  by (cases m) auto

lemma req_eq_Inr [ok_simps]: "req c msg k = Inr y \<longleftrightarrow> c \<and> k = Inr y"
  by (simp add: req_def)

lemma reqm_eq_Inr [ok_simps]: "reqm c msg k = Inr y \<longleftrightarrow> c = Inr True \<and> k = Inr y"
  by (cases c) (auto simp: reqm_def req_def)

lemma andm_eq_True [ok_simps]: "andm a b = Inr True \<longleftrightarrow> a = Inr True \<and> b = Inr True"
  by (cases a) (auto simp: andm_def)

lemma orm_eq_False [ok_simps]: "orm a b = Inr False \<longleftrightarrow> a = Inr False \<and> b = Inr False"
  by (cases a) (auto simp: orm_def)

lemma notm_eq_Inr [ok_simps]: "notm a = Inr c \<longleftrightarrow> a = Inr (\<not> c)"
  by (cases a) (auto simp: notm_def)

lemma andm_Inr [simp]: "andm (Inr x) b = (if x then b else Inr False)"
  by (simp add: andm_def)

lemma orm_Inr [simp]: "orm (Inr x) b = (if x then Inr True else b)"
  by (simp add: orm_def)

lemma notm_Inr [simp]: "notm (Inr x) = Inr (\<not> x)"
  by (simp add: notm_def)

lemma req_True [simp]: "req True msg k = k" and req_False [simp]: "req False msg k = Inl (ValueError msg)"
  by (simp_all add: req_def)

lemma reqm_Inr [simp]: "reqm (Inr x) msg k = req x msg k"
  by (simp add: reqm_def)

lemma allm_eq_True [ok_simps]: "allm p xs = Inr True \<longleftrightarrow> (\<forall>x\<in>set xs. p x = Inr True)"
  by (induction xs) (auto simp: ok_simps)

lemma anym_eq_False [ok_simps]: "anym p xs = Inr False \<longleftrightarrow> (\<forall>x\<in>set xs. p x = Inr False)"
  by (induction xs) (auto simp: ok_simps)

lemma foldm_append: "foldm f s (xs @ ys) = bnd (foldm f s xs) (\<lambda>t. foldm f t ys)"
  by (induction xs arbitrary: s) (auto simp: bnd_assoc)

text \<open>An invariant of the loop body holds after the loop.\<close>

lemma foldm_invariant:
  assumes "foldm f s xs = Inr t" and "I s"
    and "\<And>u x v. x \<in> set xs \<Longrightarrow> I u \<Longrightarrow> f u x = Inr v \<Longrightarrow> I v"
  shows "I t"
  using assms by (induction xs arbitrary: s) (auto simp: ok_simps)

lemma mapm_eq_Inr: "mapm f xs = Inr ys \<longleftrightarrow> list_all2 (\<lambda>x y. f x = Inr y) xs ys"
  by (induction xs arbitrary: ys) (auto simp: ok_simps list_all2_Cons1)

lemma mapm_witness: "mapm f xs = Inr ys \<Longrightarrow> y \<in> set ys \<Longrightarrow> \<exists>x\<in>set xs. f x = Inr y"
  by (induction xs arbitrary: ys) (auto simp: ok_simps)

lemma mapm_length: "mapm f xs = Inr ys \<Longrightarrow> length ys = length xs"
  by (auto simp: mapm_eq_Inr dest: list_all2_lengthD)

section \<open>Values\<close>

datatype pyval =
    PNone
  | PBool bool
  | PInt int
  | PFloat pfloat
  | PStr string
  | PList "pyval list"
  | PDict "(string \<times> pyval) list"
  | PTuple "pyval list"
  | PSet "pyval list"
  | PMap "(pyval \<times> pyval) list"

text \<open>
  \<open>PDict\<close> is a dictionary all of whose keys are strings, as \<open>json.loads\<close> and keyword calls of
  \<open>dict\<close> build it; \<open>PMap\<close> is a dictionary keyed by other hashable values, which the scripts only
  build locally. A set is listed in an arbitrary order without repetition.
\<close>

text \<open>Type tests: \<open>type(v) is int\<close> excludes Booleans, \<open>isinstance(v, int)\<close> includes them.\<close>

fun is_int :: "pyval \<Rightarrow> bool" where
  "is_int (PInt _) = True" | "is_int _ = False"

fun is_float :: "pyval \<Rightarrow> bool" where
  "is_float (PFloat _) = True" | "is_float _ = False"

fun is_bool :: "pyval \<Rightarrow> bool" where
  "is_bool (PBool _) = True" | "is_bool _ = False"

fun is_str :: "pyval \<Rightarrow> bool" where
  "is_str (PStr _) = True" | "is_str _ = False"

fun is_list :: "pyval \<Rightarrow> bool" where
  "is_list (PList _) = True" | "is_list _ = False"

fun is_dict :: "pyval \<Rightarrow> bool" where
  "is_dict (PDict _) = True" | "is_dict _ = False"

lemma is_int_iff [py_simps]: "is_int v \<longleftrightarrow> (\<exists>i. v = PInt i)" by (cases v) auto
lemma is_bool_iff [py_simps]: "is_bool v \<longleftrightarrow> (\<exists>i. v = PBool i)" by (cases v) auto
lemma is_float_iff [py_simps]: "is_float v \<longleftrightarrow> (\<exists>i. v = PFloat i)" by (cases v) auto
lemma is_str_iff [py_simps]: "is_str v \<longleftrightarrow> (\<exists>s. v = PStr s)" by (cases v) auto
lemma is_list_iff [py_simps]: "is_list v \<longleftrightarrow> (\<exists>xs. v = PList xs)" by (cases v) auto
lemma is_dict_iff [py_simps]: "is_dict v \<longleftrightarrow> (\<exists>d. v = PDict d)" by (cases v) auto

text \<open>Truth value testing.\<close>

fun truthy :: "pyval \<Rightarrow> bool" where
  "truthy PNone = False"
| "truthy (PBool b) = b"
| "truthy (PInt i) = (i \<noteq> 0)"
| "truthy (PFloat x) = (x \<noteq> FNum 0)"
| "truthy (PStr s) = (s \<noteq> [])"
| "truthy (PList xs) = (xs \<noteq> [])"
| "truthy (PDict d) = (d \<noteq> [])"
| "truthy (PTuple xs) = (xs \<noteq> [])"
| "truthy (PSet xs) = (xs \<noteq> [])"
| "truthy (PMap m) = (m \<noteq> [])"

text \<open>
  The number a value counts as: Booleans are the integers 0 and 1, and integers and floats
  compare exactly.
\<close>

fun num_of :: "pyval \<Rightarrow> pfloat option" where
  "num_of (PBool b) = Some (FNum (if b then 1 else 0))"
| "num_of (PInt i) = Some (FNum (of_int i))"
| "num_of (PFloat x) = Some x"
| "num_of _ = None"

text \<open>
  \<open>==\<close> on values: structural on lists and tuples, insensitive to order on dictionaries and sets.
\<close>

fun all_equal :: "(pyval \<Rightarrow> bool) list \<Rightarrow> pyval list \<Rightarrow> bool" where
  "all_equal [] ys = (ys = [])"
| "all_equal (p # ps) ys = (case ys of [] \<Rightarrow> False | y # ys' \<Rightarrow> p y \<and> all_equal ps ys')"

fun entries_equal :: "(string \<times> (pyval \<Rightarrow> bool)) list \<Rightarrow> (string \<times> pyval) list \<Rightarrow> bool" where
  "entries_equal [] e = True"
| "entries_equal ((k, p) # d) e =
     (case map_of e k of None \<Rightarrow> False | Some w \<Rightarrow> p w \<and> entries_equal d e)"

fun keyed_equal :: "((pyval \<Rightarrow> bool) \<times> (pyval \<Rightarrow> bool)) list \<Rightarrow> (pyval \<times> pyval) list \<Rightarrow> bool" where
  "keyed_equal [] n = True"
| "keyed_equal ((k, p) # m) n =
     (case find (\<lambda>q. k (fst q)) n of None \<Rightarrow> False | Some q \<Rightarrow> p (snd q) \<and> keyed_equal m n)"

definition num_equal :: "pfloat \<Rightarrow> pyval \<Rightarrow> bool" where
  "num_equal x w = (case num_of w of Some y \<Rightarrow> fl_eq x y | None \<Rightarrow> False)"

primrec py_eq :: "pyval \<Rightarrow> pyval \<Rightarrow> bool" where
  "py_eq PNone = (\<lambda>w. w = PNone)"
| "py_eq (PBool b) = num_equal (FNum (if b then 1 else 0))"
| "py_eq (PInt i) = num_equal (FNum (of_int i))"
| "py_eq (PFloat x) = num_equal x"
| "py_eq (PStr s) = (\<lambda>w. w = PStr s)"
| "py_eq (PList xs) = (\<lambda>w. case w of PList ys \<Rightarrow> all_equal (map py_eq xs) ys | _ \<Rightarrow> False)"
| "py_eq (PDict d) = (\<lambda>w. case w of
     PDict e \<Rightarrow> length d = length e \<and> entries_equal (map (map_prod id py_eq) d) e | _ \<Rightarrow> False)"
| "py_eq (PTuple xs) = (\<lambda>w. case w of PTuple ys \<Rightarrow> all_equal (map py_eq xs) ys | _ \<Rightarrow> False)"
| "py_eq (PSet xs) = (\<lambda>w. case w of
     PSet ys \<Rightarrow> length xs = length ys \<and> list_all (\<lambda>p. list_ex p ys) (map py_eq xs) | _ \<Rightarrow> False)"
| "py_eq (PMap m) = (\<lambda>w. case w of
     PMap n \<Rightarrow> length m = length n \<and> keyed_equal (map (map_prod py_eq py_eq) m) n | _ \<Rightarrow> False)"

lemma py_eq_PInt_PInt [simp]: "py_eq (PInt i) (PInt j) \<longleftrightarrow> i = j"
  by (simp add: num_equal_def)

lemma num_equal_PInt [simp]: "num_equal (FNum (of_int i)) (PInt j) \<longleftrightarrow> i = j"
  by (simp add: num_equal_def)

lemma py_eq_PStr [simp]: "py_eq v (PStr s) \<longleftrightarrow> v = PStr s"
  by (cases v) (auto simp: num_equal_def)

lemma py_eq_PNone [simp]: "py_eq v PNone \<longleftrightarrow> v = PNone"
  by (cases v) (auto simp: num_equal_def)

lemma py_eq_sym_PInt: "py_eq v (PInt i) \<longleftrightarrow> py_eq (PInt i) v"
  by (cases v) (auto simp: num_equal_def split: option.splits elim: fl_eq.elims)

text \<open>
  Ordering (\<open><\<close> when \<open>strict\<close>, else \<open><=\<close>): numbers by value, strings by code points, lists and tuples
  by their first differing element, sets by inclusion; anything else raises \<open>TypeError\<close>.
\<close>

fun str_order :: "bool \<Rightarrow> string \<Rightarrow> string \<Rightarrow> bool" where
  "str_order strict [] t = (if strict then t \<noteq> [] else True)"
| "str_order strict (c # s) t =
     (case t of [] \<Rightarrow> False | d # t' \<Rightarrow> if c = d then str_order strict s t' else (of_char c :: nat) < of_char d)"

fun seq_order :: "bool \<Rightarrow> ((pyval \<Rightarrow> bool) \<times> (bool \<Rightarrow> pyval \<Rightarrow> bool result)) list \<Rightarrow> pyval list \<Rightarrow> bool result" where
  "seq_order strict [] ys = Inr (if strict then ys \<noteq> [] else True)"
| "seq_order strict ((same, ordered) # xs) ys =
     (case ys of [] \<Rightarrow> Inr False | y # ys' \<Rightarrow> if same y then seq_order strict xs ys' else ordered strict y)"

definition num_order :: "bool \<Rightarrow> pfloat \<Rightarrow> pyval \<Rightarrow> bool result" where
  "num_order strict x w =
     (case num_of w of None \<Rightarrow> Inl TypeError | Some y \<Rightarrow> Inr (if strict then fl_less x y else fl_le x y))"

primrec py_order :: "pyval \<Rightarrow> bool \<Rightarrow> pyval \<Rightarrow> bool result" where
  "py_order PNone = (\<lambda>strict w. Inl TypeError)"
| "py_order (PBool b) = (\<lambda>strict. num_order strict (FNum (if b then 1 else 0)))"
| "py_order (PInt i) = (\<lambda>strict. num_order strict (FNum (of_int i)))"
| "py_order (PFloat x) = (\<lambda>strict. num_order strict x)"
| "py_order (PStr s) = (\<lambda>strict w. case w of PStr t \<Rightarrow> Inr (str_order strict s t) | _ \<Rightarrow> Inl TypeError)"
| "py_order (PList xs) = (\<lambda>strict w. case w of
     PList ys \<Rightarrow> seq_order strict (zip (map py_eq xs) (map py_order xs)) ys | _ \<Rightarrow> Inl TypeError)"
| "py_order (PDict d) = (\<lambda>strict w. Inl TypeError)"
| "py_order (PTuple xs) = (\<lambda>strict w. case w of
     PTuple ys \<Rightarrow> seq_order strict (zip (map py_eq xs) (map py_order xs)) ys | _ \<Rightarrow> Inl TypeError)"
| "py_order (PSet xs) = (\<lambda>strict w. case w of
     PSet ys \<Rightarrow> Inr (list_all (\<lambda>p. list_ex p ys) (map py_eq xs) \<and> (strict \<longrightarrow> length xs < length ys))
   | _ \<Rightarrow> Inl TypeError)"
| "py_order (PMap m) = (\<lambda>strict w. Inl TypeError)"

definition py_less :: "pyval \<Rightarrow> pyval \<Rightarrow> bool result" where
  "py_less v w = py_order v True w"

definition py_le :: "pyval \<Rightarrow> pyval \<Rightarrow> bool result" where
  "py_le v w = py_order v False w"

lemma py_less_PInt [simp]: "py_less (PInt i) (PInt j) = Inr (i < j)"
  by (simp add: py_less_def num_order_def)

lemma py_le_PInt [simp]: "py_le (PInt i) (PInt j) = Inr (i \<le> j)"
  by (simp add: py_le_def num_order_def)

section \<open>Objects and lists\<close>

text \<open>\<open>d.get(k, default)\<close>, \<open>d.get(k)\<close>, \<open>k in d\<close> and \<open>d[k]\<close> with a string key.\<close>

fun dget_or :: "pyval \<Rightarrow> string \<Rightarrow> pyval \<Rightarrow> pyval result" where
  "dget_or (PDict d) k dflt = Inr (case map_of d k of None \<Rightarrow> dflt | Some v \<Rightarrow> v)"
| "dget_or _ k dflt = Inl AttributeError"

definition dget :: "pyval \<Rightarrow> string \<Rightarrow> pyval result" where
  "dget v k = dget_or v k PNone"

fun ditem :: "pyval \<Rightarrow> string \<Rightarrow> pyval result" where
  "ditem (PDict d) k = (case map_of d k of None \<Rightarrow> Inl (KeyError k) | Some v \<Rightarrow> Inr v)"
| "ditem _ k = Inl TypeError"

text \<open>\<open>d.get(k)\<close> and \<open>k in d\<close> on a value already known to be an object.\<close>

definition aget :: "(string \<times> pyval) list \<Rightarrow> string \<Rightarrow> pyval" where
  "aget d k = (case map_of d k of None \<Rightarrow> PNone | Some v \<Rightarrow> v)"

definition ahas :: "(string \<times> 'v) list \<Rightarrow> string \<Rightarrow> bool" where
  "ahas d k \<longleftrightarrow> map_of d k \<noteq> None"

definition aitem :: "(string \<times> 'v) list \<Rightarrow> string \<Rightarrow> 'v result" where
  "aitem d k = (case map_of d k of None \<Rightarrow> Inl (KeyError k) | Some v \<Rightarrow> Inr v)"

lemma dget_PDict [simp]: "dget (PDict d) k = Inr (aget d k)"
  by (simp add: dget_def aget_def split: option.splits)

lemma ditem_PDict [simp]: "ditem (PDict d) k = aitem d k"
  by (simp add: aitem_def split: option.splits)

lemma aitem_eq_Inr: "aitem d k = Inr v \<longleftrightarrow> map_of d k = Some v"
  by (simp add: aitem_def split: option.splits)

lemma ditem_eq_Inr [ok_simps]: "ditem v k = Inr w \<longleftrightarrow> (\<exists>d. v = PDict d \<and> map_of d k = Some w)"
  by (cases v) (auto simp: aitem_def split: option.splits)

lemma dget_eq_Inr [ok_simps]: "dget v k = Inr w \<longleftrightarrow> (\<exists>d. v = PDict d \<and> w = aget d k)"
  by (cases v) (auto simp: dget_def aget_def)

text \<open>\<open>xs[i]\<close> with Python's negative indices, \<open>len\<close>, and iteration over a value.\<close>

definition len :: "'a list \<Rightarrow> int" where
  "len xs = int (length xs)"

definition place :: "'a list \<Rightarrow> int \<Rightarrow> nat option" where
  "place xs i =
     (if 0 \<le> i then (if i < len xs then Some (nat i) else None)
      else if - len xs \<le> i then Some (nat (len xs + i)) else None)"

definition litem :: "'a list \<Rightarrow> int \<Rightarrow> 'a result" where
  "litem xs i = (case place xs i of None \<Rightarrow> Inl IndexError | Some j \<Rightarrow> Inr (xs ! j))"

lemma place_less: "place xs i = Some j \<Longrightarrow> j < length xs"
  by (auto simp: place_def len_def split: if_splits)

fun py_len :: "pyval \<Rightarrow> int result" where
  "py_len (PStr s) = Inr (len s)"
| "py_len (PList xs) = Inr (len xs)"
| "py_len (PDict d) = Inr (len d)"
| "py_len (PTuple xs) = Inr (len xs)"
| "py_len (PSet xs) = Inr (len xs)"
| "py_len (PMap m) = Inr (len m)"
| "py_len _ = Inl TypeError"

text \<open>Iterating a value: list elements, object keys, characters; anything else raises.\<close>

fun iter :: "pyval \<Rightarrow> pyval list result" where
  "iter (PList xs) = Inr xs"
| "iter (PDict d) = Inr (map (PStr \<circ> fst) d)"
| "iter (PStr s) = Inr (map (\<lambda>c. PStr [c]) s)"
| "iter (PTuple xs) = Inr xs"
| "iter (PSet xs) = Inr xs"
| "iter (PMap m) = Inr (map fst m)"
| "iter _ = Inl TypeError"

text \<open>Members of a set or keys of an object must be hashable.\<close>

fun hashable :: "pyval \<Rightarrow> bool" where
  "hashable (PList _) = False"
| "hashable (PDict _) = False"
| "hashable (PSet _) = False"
| "hashable (PMap _) = False"
| "hashable (PTuple xs) = list_all hashable xs"
| "hashable _ = True"

text \<open>\<open>d[k] = v\<close> and \<open>d.pop(k)\<close>: a new key goes to the end.\<close>

definition aput :: "('k \<times> 'v) list \<Rightarrow> 'k \<Rightarrow> 'v \<Rightarrow> ('k \<times> 'v) list" where
  "aput d k v = AList.update k v d"

lemma map_of_aput [simp]: "map_of (aput d k v) = (map_of d)(k \<mapsto> v)"
  by (simp add: aput_def update_conv')

lemma length_remove1_Suc: "k \<in> set xs \<Longrightarrow> Suc (length (remove1 k xs)) = length xs"
  by (induction xs) auto

lemma litem_nonneg: "0 \<le> i \<Longrightarrow> i < len xs \<Longrightarrow> litem xs i = Inr (xs ! nat i)"
  by (simp add: litem_def place_def)

lemma litem_eq_Inr_nonneg: "0 \<le> i \<Longrightarrow> litem xs i = Inr v \<longleftrightarrow> i < len xs \<and> v = xs ! nat i"
  by (auto simp: litem_def place_def)

lemma litem_zero [simp]: "litem (x # xs) 0 = Inr x"
  by (simp add: litem_def place_def len_def)

lemma litem_last: "xs \<noteq> [] \<Longrightarrow> litem xs (- 1) = Inr (last xs)"
  by (cases xs rule: rev_cases) (auto simp: litem_def place_def len_def)

text \<open>\<open>bucket[i] += 1\<close>.\<close>

definition list_incr :: "int list \<Rightarrow> int \<Rightarrow> int list result" where
  "list_incr bucket i =
     (case place bucket i of
        None \<Rightarrow> Inl IndexError
      | Some j \<Rightarrow> Inr (bucket[j := bucket ! j + 1]))"

lemma sum_list_incr: "j < length xs \<Longrightarrow> sum_list (xs[j := xs ! j + 1]) = sum_list xs + (1 :: int)"
proof (induction xs arbitrary: j)
  case (Cons x xs)
  then show ?case by (cases j) auto
qed simp

lemma list_incr_sum: "list_incr b i = Inr b' \<Longrightarrow> sum_list b' = sum_list b + 1 \<and> length b' = length b"
  by (auto simp: list_incr_def sum_list_incr place_less split: option.splits)

lemma list_incr_returns: "0 \<le> i \<Longrightarrow> i < len b \<Longrightarrow> returns (list_incr b i)"
  by (simp add: list_incr_def place_def)

section \<open>Slices, digits and division\<close>

text \<open>\<open>[xs[i:i + n] for i in range(0, len(xs), n)]\<close> for a positive \<open>n\<close>.\<close>

function chunks :: "nat \<Rightarrow> 'a list \<Rightarrow> 'a list list" where
  "chunks n xs = (if n = 0 \<or> xs = [] then [] else take n xs # chunks n (drop n xs))"
  by pat_completeness auto
termination
  by (relation "measure (\<lambda>(n, xs). length xs)") auto

declare chunks.simps [simp del]

lemma chunks_Nil [simp]: "chunks n [] = []"
  by (simp add: chunks.simps)

lemma concat_chunks: "0 < n \<Longrightarrow> concat (chunks n xs) = xs"
proof (induction n xs rule: chunks.induct)
  case (1 n xs)
  then show ?case by (cases "xs = []") (simp_all add: chunks.simps [of n xs])
qed

lemma set_chunks: "g \<in> set (chunks n xs) \<Longrightarrow> set g \<subseteq> set xs"
proof (induction n xs rule: chunks.induct)
  case (1 n xs)
  then show ?case
    by (cases "n = 0 \<or> xs = []")
      (auto simp: chunks.simps [of n xs] dest: in_set_takeD in_set_dropD split: if_splits)
qed

lemma chunks_append: "length g = n \<Longrightarrow> 0 < n \<Longrightarrow> chunks n (g @ xs) = g # chunks n xs"
  by (subst chunks.simps) auto

text \<open>\<open>re.fullmatch('[0-9a-f]{64}', s)\<close> and the equivalent tests spelled out in the scripts.\<close>

definition hex_digits :: string where
  "hex_digits = ''0123456789abcdef''"

definition is_sha256 :: "string \<Rightarrow> bool" where
  "is_sha256 s \<longleftrightarrow> length s = 64 \<and> list_all (\<lambda>c. c \<in> set hex_digits) s"

text \<open>True division of integers: correctly rounded, raising on zero and on overflow.\<close>

definition int_truediv :: "int \<Rightarrow> int \<Rightarrow> pfloat result" where
  "int_truediv a b =
     (if b = 0 then Inl ZeroDivisionError
      else case round_fl (of_int a / of_int b) of FNum x \<Rightarrow> Inr (FNum x) | _ \<Rightarrow> Inl OverflowError)"

text \<open>\<open>for position, x in enumerate(xs, start)\<close>.\<close>

definition enumerate_from :: "nat \<Rightarrow> 'a list \<Rightarrow> (nat \<times> 'a) list" where
  "enumerate_from start xs = zip [start..<start + length xs] xs"

lemma enumerate_from_simps [simp]:
  "enumerate_from n [] = []" "enumerate_from n (x # xs) = (n, x) # enumerate_from (Suc n) xs"
  by (simp_all add: enumerate_from_def upt_rec)

text \<open>A loop invariant that counts the elements already seen.\<close>

lemma foldm_enumerate_invariant:
  assumes "foldm f s (map g (enumerate_from n xs)) = Inr t" and "I n s"
    and "\<And>m u x v. I m u \<Longrightarrow> f u (g (m, x)) = Inr v \<Longrightarrow> I (Suc m) v"
  shows "I (n + length xs) t"
  using assms(1,2)
proof (induction xs arbitrary: n s)
  case (Cons x xs)
  then obtain u where "f s (g (n, x)) = Inr u" "foldm f u (map g (enumerate_from (Suc n) xs)) = Inr t"
    by (auto simp: ok_simps)
  with Cons.IH [OF this(2)] assms(3) [OF Cons.prems(2)] show ?case by simp
qed simp

text \<open>\<open>str(n)\<close> for a natural number.\<close>

fun dec :: "nat \<Rightarrow> string" where
  "dec n = (if n < 10 then [char_of (48 + n)] else dec (n div 10) @ [char_of (48 + n mod 10)])"

declare dec.simps [simp del]

lemma mapm_cong [fundef_cong]:
  "xs = ys \<Longrightarrow> (\<And>x. x \<in> set ys \<Longrightarrow> f x = g x) \<Longrightarrow> mapm f xs = mapm g ys"
proof -
  have "(\<And>x. x \<in> set ys \<Longrightarrow> f x = g x) \<Longrightarrow> mapm f ys = mapm g ys"
    by (induction ys) auto
  then show "xs = ys \<Longrightarrow> (\<And>x. x \<in> set ys \<Longrightarrow> f x = g x) \<Longrightarrow> mapm f xs = mapm g ys" by simp
qed

end
