(* ===== verification/PyJson.thy ===== *)
theory PyJson
  imports Py
begin

text \<open>
  \<open>json.loads\<close> as \<open>evidence_index.parse\<close> calls it: the scanner of the standard library on UTF-8
  bytes, with the hooks of the script that refuse non-finite numbers and repeated keys. Strings
  stay UTF-8 encoded. Every refusal of the scanner is a \<open>ValueError\<close>. Documents in UTF-16 or
  UTF-32, which the library also detects, are refused here, and its recursion limit is left out.
\<close>

section \<open>Bytes\<close>

definition code :: "char \<Rightarrow> int" where
  "code c = of_char c"

definition byte_char :: "int \<Rightarrow> char" where
  "byte_char n = char_of n"

definition cont_byte :: "char \<Rightarrow> bool" where
  "cont_byte c \<longleftrightarrow> 128 \<le> code c \<and> code c < 192"

text \<open>Well-formed UTF-8; encoded surrogates pass (\<open>errors='surrogatepass'\<close>).\<close>

fun utf8_ok :: "string \<Rightarrow> bool" where
  "utf8_ok [] = True"
| "utf8_ok (a # s) =
     (if code a < 128 then utf8_ok s
      else case s of
        [] \<Rightarrow> False
      | b # s' \<Rightarrow>
          if 194 \<le> code a \<and> code a < 224 then cont_byte b \<and> utf8_ok s'
          else case s' of
            [] \<Rightarrow> False
          | c # s'' \<Rightarrow>
              if 224 \<le> code a \<and> code a < 240
              then cont_byte b \<and> cont_byte c \<and> (code a = 224 \<longrightarrow> 160 \<le> code b) \<and> utf8_ok s''
              else case s'' of
                [] \<Rightarrow> False
              | d # s''' \<Rightarrow> 240 \<le> code a \<and> code a \<le> 244 \<and> cont_byte b \<and> cont_byte c \<and> cont_byte d \<and>
                  (code a = 240 \<longrightarrow> 144 \<le> code b) \<and> (code a = 244 \<longrightarrow> code b < 144) \<and> utf8_ok s''')"

definition utf8_encode :: "int \<Rightarrow> string" where
  "utf8_encode n =
     (if n < 128 then [byte_char n]
      else if n < 2048 then [byte_char (192 + n div 64), byte_char (128 + n mod 64)]
      else if n < 65536 then [byte_char (224 + n div 4096), byte_char (128 + n div 64 mod 64), byte_char (128 + n mod 64)]
      else [byte_char (240 + n div 262144), byte_char (128 + n div 4096 mod 64),
            byte_char (128 + n div 64 mod 64), byte_char (128 + n mod 64)])"

section \<open>Lexical elements\<close>

definition bad :: "'a result" where
  "bad = Inl (ValueError ''Invalid JSON'')"

definition is_ws :: "char \<Rightarrow> bool" where
  "is_ws c \<longleftrightarrow> c \<in> {CHR '' '', CHR 0x09, CHR 0x0A, CHR 0x0D}"

definition skip_ws :: "string \<Rightarrow> string" where
  "skip_ws s = dropWhile is_ws s"

definition is_digit :: "char \<Rightarrow> bool" where
  "is_digit c \<longleftrightarrow> 48 \<le> code c \<and> code c \<le> 57"

definition digits_value :: "string \<Rightarrow> int" where
  "digits_value s = foldl (\<lambda>n c. 10 * n + (code c - 48)) 0 s"

fun hex_value :: "char \<Rightarrow> int option" where
  "hex_value c =
     (if is_digit c then Some (code c - 48)
      else if 97 \<le> code c \<and> code c \<le> 102 then Some (code c - 87)
      else if 65 \<le> code c \<and> code c \<le> 70 then Some (code c - 55) else None)"

fun hex4 :: "string \<Rightarrow> (int \<times> string) option" where
  "hex4 (a # b # c # d # s) =
     (case (hex_value a, hex_value b, hex_value c, hex_value d) of
        (Some w, Some x, Some y, Some z) \<Rightarrow> Some (4096 * w + 256 * x + 16 * y + z, s)
      | _ \<Rightarrow> None)"
| "hex4 _ = None"

text \<open>A \<open>\\u\<close> escape; a high surrogate followed by an escaped low one is one character.\<close>

definition unicode_escape :: "string \<Rightarrow> (string \<times> string) option" where
  "unicode_escape s =
     (case hex4 s of
        None \<Rightarrow> None
      | Some (u, s') \<Rightarrow>
          (if 55296 \<le> u \<and> u \<le> 56319 \<and> take 2 s' = [CHR 0x5C, CHR ''u'']
           then case hex4 (drop 2 s') of
                  None \<Rightarrow> None
                | Some (v, s'') \<Rightarrow>
                    if 56320 \<le> v \<and> v \<le> 57343
                    then Some (utf8_encode (65536 + (u - 55296) * 1024 + (v - 56320)), s'')
                    else Some (utf8_encode u, s')
           else Some (utf8_encode u, s')))"

definition simple_escape :: "char \<Rightarrow> char option" where
  "simple_escape c =
     map_of [(CHR 0x22, CHR 0x22), (CHR 0x5C, CHR 0x5C), (CHR ''/'', CHR ''/''), (CHR ''b'', CHR 0x08),
       (CHR ''f'', CHR 0x0C), (CHR ''n'', CHR 0x0A), (CHR ''r'', CHR 0x0D), (CHR ''t'', CHR 0x09)] c"

text \<open>The rest of a string after its opening quote; the fuel bounds the characters read.\<close>

fun scan_string :: "nat \<Rightarrow> string \<Rightarrow> (string \<times> string) result" where
  "scan_string 0 s = bad"
| "scan_string (Suc n) [] = bad"
| "scan_string (Suc n) (c # s) =
     (if c = CHR 0x22 then Inr ([], s)
      else if c = CHR 0x5C then
        (case s of
           [] \<Rightarrow> bad
         | e # s' \<Rightarrow>
             if e = CHR ''u'' then
               (case unicode_escape s' of
                  None \<Rightarrow> bad
                | Some (u, s'') \<Rightarrow> bnd (scan_string n s'') (\<lambda>(t, r). Inr (u @ t, r)))
             else (case simple_escape e of
                     None \<Rightarrow> bad
                   | Some d \<Rightarrow> bnd (scan_string n s') (\<lambda>(t, r). Inr (d # t, r))))
      else if code c < 32 then bad
      else bnd (scan_string n s) (\<lambda>(t, r). Inr (c # t, r)))"

text \<open>
  Numbers: an integer part, then optionally a fraction and an exponent. Without either the value
  is an exact integer of at most 4300 digits; otherwise the nearest float, which the hook
  \<open>finite\<close> of the script refuses when it overflows.
\<close>

definition scan_fraction :: "string \<Rightarrow> string \<times> string" where
  "scan_fraction s =
     (case s of
        c # s' \<Rightarrow> if c = CHR ''.'' \<and> takeWhile is_digit s' \<noteq> [] then (takeWhile is_digit s', dropWhile is_digit s') else ([], s)
      | [] \<Rightarrow> ([], s))"

definition scan_exponent :: "string \<Rightarrow> int option \<times> string" where
  "scan_exponent s =
     (case s of
        e # s' \<Rightarrow>
          let neg = (s' \<noteq> [] \<and> hd s' = CHR ''-'');
              ds = (if s' \<noteq> [] \<and> (hd s' = CHR ''-'' \<or> hd s' = CHR ''+'') then tl s' else s');
              k = digits_value (takeWhile is_digit ds)
          in if (e = CHR ''e'' \<or> e = CHR ''E'') \<and> takeWhile is_digit ds \<noteq> []
             then (Some (if neg then - k else k), dropWhile is_digit ds) else (None, s)
      | [] \<Rightarrow> (None, s))"

definition pow10 :: "int \<Rightarrow> rat" where
  "pow10 k = (if 0 \<le> k then 10 ^ nat k else 1 / 10 ^ nat (- k))"

definition number_value :: "bool \<Rightarrow> string \<Rightarrow> string \<Rightarrow> int option \<Rightarrow> pyval result" where
  "number_value neg int_part fraction exponent =
     (if fraction = [] \<and> exponent = None
      then (if 4300 < length int_part then Inl (ValueError ''Exceeds the limit for integer string conversion'')
            else Inr (PInt (if neg then - digits_value int_part else digits_value int_part)))
      else case round_fl ((if neg then - 1 else 1) * of_int (digits_value (int_part @ fraction)) *
                  pow10 ((case exponent of None \<Rightarrow> 0 | Some k \<Rightarrow> k) - len fraction)) of
             FNum x \<Rightarrow> Inr (PFloat (FNum x))
           | _ \<Rightarrow> Inl (ValueError ''Non-finite JSON number''))"

definition scan_unsigned :: "bool \<Rightarrow> string \<Rightarrow> string \<Rightarrow> (pyval \<times> string) result" where
  "scan_unsigned neg int_part s =
     (case scan_fraction s of (fraction, s') \<Rightarrow>
      case scan_exponent s' of (exponent, s'') \<Rightarrow>
      bnd (number_value neg int_part fraction exponent) (\<lambda>v. Inr (v, s'')))"

definition scan_digits :: "bool \<Rightarrow> string \<Rightarrow> (pyval \<times> string) result" where
  "scan_digits neg s =
     (if takeWhile is_digit s = [] then bad
      else if hd s = CHR ''0'' then scan_unsigned neg [CHR ''0''] (tl s)
      else scan_unsigned neg (takeWhile is_digit s) (dropWhile is_digit s))"

definition scan_number :: "string \<Rightarrow> (pyval \<times> string) result" where
  "scan_number s = (if s \<noteq> [] \<and> hd s = CHR ''-'' then scan_digits True (tl s) else scan_digits False s)"

definition starts :: "string \<Rightarrow> string \<Rightarrow> bool" where
  "starts p s \<longleftrightarrow> take (length p) s = p"

text \<open>\<open>object_pairs_hook=unique\<close>.\<close>

definition unique :: "(string \<times> pyval) list \<Rightarrow> pyval result" where
  "unique pairs = bnd (foldm (\<lambda>result (key, value).
      if ahas result key then Inl (ValueError (''Duplicate JSON key: '' @ key))
      else Inr (result @ [(key, value)])) [] pairs) (\<lambda>d. Inr (PDict d))"

section \<open>Values\<close>

fun scan_value :: "nat \<Rightarrow> string \<Rightarrow> (pyval \<times> string) result"
and scan_items :: "nat \<Rightarrow> string \<Rightarrow> (pyval list \<times> string) result"
and scan_pairs :: "nat \<Rightarrow> string \<Rightarrow> ((string \<times> pyval) list \<times> string) result"
where
  "scan_value 0 s = bad"
| "scan_value (Suc n) s =
     (if s = [] then bad
      else if hd s = CHR 0x22 then bnd (scan_string n (tl s)) (\<lambda>(t, r). Inr (PStr t, r))
      else if hd s = CHR ''{'' then
        (let s = skip_ws (tl s)
         in if s \<noteq> [] \<and> hd s = CHR ''}'' then Inr (PDict [], tl s)
            else bnd (scan_pairs n s) (\<lambda>(ps, r). bnd (unique ps) (\<lambda>d. Inr (d, r))))
      else if hd s = CHR ''['' then
        (let s = skip_ws (tl s)
         in if s \<noteq> [] \<and> hd s = CHR '']'' then Inr (PList [], tl s)
            else bnd (scan_items n s) (\<lambda>(xs, r). Inr (PList xs, r)))
      else if starts ''null'' s then Inr (PNone, drop 4 s)
      else if starts ''true'' s then Inr (PBool True, drop 4 s)
      else if starts ''false'' s then Inr (PBool False, drop 5 s)
      else if starts ''NaN'' s \<or> starts ''Infinity'' s \<or> starts ''-Infinity'' s
        then Inl (ValueError ''Non-finite JSON number'')
      else scan_number s)"
| "scan_items 0 s = bad"
| "scan_items (Suc n) s =
     bnd (scan_value n s) (\<lambda>(x, r).
     let r = skip_ws r
     in if r = [] then bad
        else if hd r = CHR '']'' then Inr ([x], tl r)
        else if hd r = CHR '','' then bnd (scan_items n (skip_ws (tl r))) (\<lambda>(xs, r'). Inr (x # xs, r'))
        else bad)"
| "scan_pairs 0 s = bad"
| "scan_pairs (Suc n) s =
     (if s = [] \<or> hd s \<noteq> CHR 0x22 then bad
      else bnd (scan_string n (tl s)) (\<lambda>(k, r).
        let r = skip_ws r
        in if r = [] \<or> hd r \<noteq> CHR '':'' then bad
           else bnd (scan_value n (skip_ws (tl r))) (\<lambda>(v, r).
             let r = skip_ws r
             in if r = [] then bad
                else if hd r = CHR ''}'' then Inr ([(k, v)], tl r)
                else if hd r = CHR '','' then bnd (scan_pairs n (skip_ws (tl r))) (\<lambda>(ps, r'). Inr ((k, v) # ps, r'))
                else bad)))"

definition bom :: string where
  "bom = [CHR 0xEF, CHR 0xBB, CHR 0xBF]"

text \<open>\<open>parse(raw)\<close>: the scanner's fuel is \<open>2 * length + 1\<close> of the input.\<close>

definition parse :: "string \<Rightarrow> pyval result" where
  "parse raw =
     (if \<not> utf8_ok raw then Inl (ValueError ''Invalid UTF-8'')
      else let s = (if starts bom raw then drop 3 raw else raw)
           in bnd (scan_value (2 * length s + 1) (skip_ws s)) (\<lambda>(v, r).
              if skip_ws r = [] then Inr v else Inl (ValueError ''Extra data'')))"

section \<open>What an accepted document holds\<close>

text \<open>Every object has distinct keys and every number is finite, at every depth.\<close>

fun strict_json :: "pyval \<Rightarrow> bool" where
  "strict_json (PList xs) = (\<forall>x\<in>set xs. strict_json x)"
| "strict_json (PDict d) = (distinct (map fst d) \<and> (\<forall>p\<in>set d. strict_json (snd p)))"
| "strict_json (PFloat x) = fl_finite x"
| "strict_json (PTuple xs) = False"
| "strict_json (PSet xs) = False"
| "strict_json (PMap m) = False"
| "strict_json _ = True"

lemma unique_eq_Inr: "unique pairs = Inr v \<longleftrightarrow> distinct (map fst pairs) \<and> v = PDict pairs"
proof -
  have "foldm (\<lambda>result (key, value). if ahas result key then Inl (ValueError (''Duplicate JSON key: '' @ key))
      else Inr (result @ [(key, value)])) d ps = Inr e \<longleftrightarrow> distinct (map fst (d @ ps)) \<and> e = d @ ps"
    if "distinct (map fst d)" for d ps and e :: "(string \<times> pyval) list"
    using that
  proof (induction ps arbitrary: d)
    case Nil
    then show ?case by auto
  next
    case (Cons p ps)
    obtain k v where p: "p = (k, v)" by fastforce
    show ?case
    proof (cases "ahas d k")
      case True
      then have "k \<in> fst ` set d" by (auto simp: ahas_def map_of_eq_None_iff)
      then show ?thesis using True by (auto simp: p)
    next
      case False
      then have "k \<notin> fst ` set d" by (auto simp: ahas_def map_of_eq_None_iff)
      then have "distinct (map fst (d @ [(k, v)]))" using Cons.prems by auto
      from Cons.IH [OF this] show ?thesis using False by (auto simp: p)
    qed
  qed
  from this [of "[]"] show ?thesis by (auto simp: unique_def ok_simps)
qed

lemma scan_number_strict: "scan_number s = Inr (v, r) \<Longrightarrow> strict_json v"
  by (auto simp: scan_number_def scan_digits_def scan_unsigned_def number_value_def bad_def ok_simps
      split: if_splits prod.splits pfloat.splits)

declare scan_value.simps [simp del] scan_items.simps [simp del] scan_pairs.simps [simp del]

lemma scan_strict:
  "(scan_value n s = Inr (v, r) \<longrightarrow> strict_json v) \<and>
   (scan_items n s = Inr (xs, r) \<longrightarrow> (\<forall>x\<in>set xs. strict_json x)) \<and>
   (scan_pairs n s = Inr (ps, r) \<longrightarrow> (\<forall>p\<in>set ps. strict_json (snd p)))"
proof (induction n arbitrary: s v r xs ps)
  case 0
  then show ?case by (simp add: scan_value.simps scan_items.simps scan_pairs.simps bad_def)
next
  case (Suc n)
  have "strict_json v" if "scan_value (Suc n) s = Inr (v, r)"
    using that Suc.IH scan_number_strict
    by (auto simp: scan_value.simps bad_def ok_simps Let_def unique_eq_Inr split: if_splits)
  moreover have "\<forall>x\<in>set xs. strict_json x" if w: "scan_items (Suc n) s = Inr (xs, r)"
  proof -
    obtain x r1 where "scan_value n s = Inr (x, r1)" using w by (auto simp: scan_items.simps ok_simps)
    moreover have "strict_json x" using calculation Suc.IH by blast
    ultimately show ?thesis using w Suc.IH
      by (auto simp: scan_items.simps bad_def ok_simps Let_def split: if_splits)
  qed
  moreover have "\<forall>p\<in>set ps. strict_json (snd p)" if w: "scan_pairs (Suc n) s = Inr (ps, r)"
  proof -
    have IH1: "scan_value n t = Inr (u, q) \<Longrightarrow> strict_json u"
      and IH3: "scan_pairs n t = Inr (qs, q) \<Longrightarrow> (a, b) \<in> set qs \<Longrightarrow> strict_json b" for t u q qs a b
      using Suc.IH by fastforce+
    from w show ?thesis
      by (auto simp: scan_pairs.simps bad_def ok_simps Let_def split: if_splits dest: IH1 IH3)
  qed
  ultimately show ?case by blast
qed

lemma parse_strict: "parse raw = Inr v \<Longrightarrow> strict_json v"
  using scan_strict by (auto simp: parse_def ok_simps Let_def split: if_splits)

section \<open>The fuel suffices\<close>

text \<open>Scanning never returns more than it was given, and consumes what it reads.\<close>

lemma length_skip_ws: "length (skip_ws s) \<le> length s"
  by (simp add: skip_ws_def length_dropWhile_le)

lemma length_tl_skip: "s \<noteq> [] \<Longrightarrow> length (skip_ws (tl s)) < length s"
  using length_skip_ws [of "tl s"] by (cases s) auto

lemma hex4_length: "hex4 s = Some (u, r) \<Longrightarrow> length r < length s"
  by (induction s rule: hex4.induct) (auto split: option.splits)

lemma unicode_escape_length: "unicode_escape s = Some (u, r) \<Longrightarrow> length r < length s"
  by (auto simp: unicode_escape_def split: option.splits if_splits prod.splits dest!: hex4_length)

lemma scan_string_length: "scan_string n s = Inr (t, r) \<Longrightarrow> length r < length s"
proof (induction n arbitrary: s t r)
  case 0
  then show ?case by (simp add: bad_def)
next
  case (Suc n)
  obtain c cs where s: "s = c # cs" using Suc.prems by (cases s) (auto simp: bad_def)
  have IH: "length q < length p" if "scan_string n p = Inr (w, q)" for p w q using Suc.IH that .
  consider (quote) "c = CHR 0x22" | (plain) "c \<noteq> CHR 0x22" "c \<noteq> CHR 0x5C"
    | (escape) e es where "c = CHR 0x5C" "cs = e # es"
    using Suc.prems by (cases cs) (auto simp: s bad_def split: if_splits)
  then show ?case
  proof cases
    case quote
    then show ?thesis using Suc.prems by (simp add: s)
  next
    case plain
    then show ?thesis using Suc.prems by (auto simp: s bad_def ok_simps split: if_splits dest: IH)
  next
    case escape
    then show ?thesis using Suc.prems
      by (fastforce simp: s bad_def ok_simps split: if_splits option.splits dest: IH unicode_escape_length)
  qed
qed

lemma scan_string_fuel: "length s \<le> n \<Longrightarrow> length s \<le> m \<Longrightarrow> scan_string (Suc n) s = scan_string (Suc m) s"
proof (induction n arbitrary: s m)
  case 0
  then show ?case by simp
next
  case (Suc n)
  show ?case
  proof (cases s)
    case Nil
    then show ?thesis by simp
  next
    case (Cons c cs)
    then obtain k where k: "m = Suc k" using Suc.prems by (cases m) auto
    have same: "scan_string (Suc n) t = scan_string (Suc k) t" if "length t \<le> length cs" for t
      using Suc.IH [of t k] Suc.prems Cons k that by simp
    have u: "scan_string (Suc n) r = scan_string (Suc k) r" if "cs = e # es" "unicode_escape es = Some (x, r)" for e es x r
      using that unicode_escape_length same [of r] by fastforce
    have v: "scan_string (Suc n) es = scan_string (Suc k) es" if "cs = e # es" for e es
      using that same [of es] by simp
    show ?thesis
      by (simp only: Cons k scan_string.simps(3) [of "Suc n"] scan_string.simps(3) [of "Suc k"] same [OF order_refl])
        (auto simp del: scan_string.simps simp: u v split: list.splits option.splits prod.splits)
  qed
qed

lemma scan_fraction_length: "scan_fraction s = (f, r) \<Longrightarrow> length r \<le> length s"
  by (auto simp: scan_fraction_def length_dropWhile_le le_SucI split: list.splits if_splits)

lemma scan_exponent_length: "scan_exponent s = (f, r) \<Longrightarrow> length r \<le> length s"
proof (cases s)
  case (Cons e es)
  assume "scan_exponent s = (f, r)"
  then have "r = s \<or> r = dropWhile is_digit es \<or> r = dropWhile is_digit (tl es)"
    by (auto simp: scan_exponent_def Cons Let_def split: if_splits)
  moreover have "length (dropWhile is_digit es) \<le> length s" "length (dropWhile is_digit (tl es)) \<le> length s"
    using length_dropWhile_le [of is_digit es] length_dropWhile_le [of is_digit "tl es"] by (auto simp: Cons)
  ultimately show ?thesis by auto
qed (simp add: scan_exponent_def)

lemma scan_digits_length:
  assumes "scan_digits neg s = Inr (v, r)"
  shows "length r < length s"
proof -
  obtain int_part t where t: "scan_unsigned neg int_part t = Inr (v, r)"
    and l: "length t < length s"
  proof (cases "hd s = CHR ''0''")
    case True
    then show thesis using assms that [of "[CHR ''0'']" "tl s"]
      by (cases s) (auto simp: scan_digits_def bad_def split: if_splits)
  next
    case False
    have ne: "takeWhile is_digit s \<noteq> []" using assms by (auto simp: scan_digits_def bad_def)
    moreover have "length (takeWhile is_digit s) + length (dropWhile is_digit s) = length s"
      by (metis length_append takeWhile_dropWhile_id)
    ultimately have "length (dropWhile is_digit s) < length s" by (cases "takeWhile is_digit s") auto
    then show thesis using assms that [of "takeWhile is_digit s" "dropWhile is_digit s"] False
      by (auto simp: scan_digits_def bad_def split: if_splits)
  qed
  obtain f s' e s'' where f: "scan_fraction t = (f, s')" and e: "scan_exponent s' = (e, s'')" by fastforce
  have "r = s''" using t f e by (auto simp: scan_unsigned_def ok_simps)
  then show ?thesis using scan_fraction_length [OF f] scan_exponent_length [OF e] l by simp
qed

lemma scan_number_length: "scan_number s = Inr (v, r) \<Longrightarrow> length r < length s"
  by (cases s) (auto simp: scan_number_def split: if_splits dest: scan_digits_length)

lemma scan_length:
  "(scan_value n s = Inr (v, r) \<longrightarrow> length r < length s) \<and>
   (scan_items n s = Inr (xs, r) \<longrightarrow> length r < length s) \<and>
   (scan_pairs n s = Inr (ps, r) \<longrightarrow> length r < length s)"
proof (induction n arbitrary: s v r xs ps)
  case 0
  then show ?case by (simp add: scan_value.simps scan_items.simps scan_pairs.simps bad_def)
next
  case (Suc n)
  have IH: "scan_value n t = Inr (u, q) \<Longrightarrow> length q < length t"
    "scan_items n t = Inr (us, q) \<Longrightarrow> length q < length t"
    "scan_pairs n t = Inr (qs, q) \<Longrightarrow> length q < length t" for t u q us qs
    using Suc.IH by blast+
  have sk: "length (skip_ws (tl t)) < length t" if "t \<noteq> []" for t using length_tl_skip [OF that] .
  have tl: "length (tl t) < length t" if "t \<noteq> []" for t :: string using that by (cases t) auto
  have ws: "length (tl (skip_ws t)) < k" if "skip_ws t \<noteq> []" "length t \<le> k" for t k
    using that length_skip_ws [of t] tl [of "skip_ws t"] by linarith
  have nxt: "length (skip_ws (tl (skip_ws t))) < length t" if "skip_ws t \<noteq> []" for t
    using sk [OF that] length_skip_ws [of t] by linarith
  have "length r < length s" if w: "scan_value (Suc n) s = Inr (v, r)"
  proof -
    have "s \<noteq> []" using w by (auto simp: scan_value.simps bad_def)
    then show ?thesis using w tl sk [of s]
      by (auto simp: scan_value.simps bad_def ok_simps Let_def unique_eq_Inr split: if_splits
          dest!: scan_string_length scan_number_length IH intro: less_trans)
  qed
  moreover have "length r < length s" if w: "scan_items (Suc n) s = Inr (xs, r)"
  proof -
    obtain x q where x: "scan_value n s = Inr (x, q)" using w by (auto simp: scan_items.simps ok_simps)
    then have "length q < length s" by (rule IH)
    moreover have "skip_ws q \<noteq> []" using w x by (auto simp: scan_items.simps bad_def)
    moreover have "r = tl (skip_ws q) \<or> length r < length (skip_ws (tl (skip_ws q)))"
      using w x by (auto simp: scan_items.simps bad_def ok_simps Let_def split: if_splits dest: IH)
    ultimately show ?thesis using ws [of q "length q"] nxt [of q] by force
  qed
  moreover have "length r < length s" if w: "scan_pairs (Suc n) s = Inr (ps, r)"
  proof -
    have s: "s \<noteq> []" using w by (auto simp: scan_pairs.simps bad_def)
    obtain k q where k: "scan_string n (tl s) = Inr (k, q)"
      using w by (auto simp: scan_pairs.simps bad_def ok_simps split: if_splits)
    obtain x p where x: "scan_value n (skip_ws (tl (skip_ws q))) = Inr (x, p)" and q: "skip_ws q \<noteq> []"
      using w k by (auto simp: scan_pairs.simps bad_def ok_simps Let_def split: if_splits)
    have p: "skip_ws p \<noteq> []" using w k x by (auto simp: scan_pairs.simps bad_def Let_def split: if_splits)
    have "r = tl (skip_ws p) \<or> length r < length (skip_ws (tl (skip_ws p)))"
      using w k x by (auto simp: scan_pairs.simps bad_def ok_simps Let_def split: if_splits dest: IH)
    then show ?thesis
      using ws [OF p order_refl] nxt [OF p] nxt [OF q] IH(1) [OF x] scan_string_length [OF k] tl [OF s] by force
  qed
  ultimately show ?case by blast
qed

text \<open>More fuel than the bound changes nothing, so \<open>parse\<close> never fails for want of fuel.\<close>

lemma scan_fuel:
  "(2 * length s + 1 \<le> n \<longrightarrow> 2 * length s + 1 \<le> m \<longrightarrow> scan_value n s = scan_value m s) \<and>
   (2 * length s + 2 \<le> n \<longrightarrow> 2 * length s + 2 \<le> m \<longrightarrow> scan_items n s = scan_items m s) \<and>
   (2 * length s + 2 \<le> n \<longrightarrow> 2 * length s + 2 \<le> m \<longrightarrow> scan_pairs n s = scan_pairs m s)"
proof (induction n arbitrary: s m)
  case 0
  then show ?case by simp
next
  case (Suc n)
  have IH: "2 * length t + 1 \<le> n \<Longrightarrow> 2 * length t + 1 \<le> k \<Longrightarrow> scan_value n t = scan_value k t"
    "2 * length t + 2 \<le> n \<Longrightarrow> 2 * length t + 2 \<le> k \<Longrightarrow> scan_items n t = scan_items k t"
    "2 * length t + 2 \<le> n \<Longrightarrow> 2 * length t + 2 \<le> k \<Longrightarrow> scan_pairs n t = scan_pairs k t" for t k
    using Suc.IH by blast+
  have len: "length q < length t" if "scan_value k t = Inr (u, q)" for k t u q
    using that scan_length by blast
  have sk: "length (skip_ws (tl t)) < length t" if "t \<noteq> []" for t using length_tl_skip [OF that] .
  have nxt: "length (skip_ws (tl (skip_ws t))) < length t" if "skip_ws t \<noteq> []" for t
    using sk [OF that] length_skip_ws [of t] by linarith
  have string: "scan_string n t = scan_string k t" if l: "length t < n" "length t < k" for t k
  proof -
    obtain n' k' where "n = Suc n'" "k = Suc k'" using l by (cases n; cases k) auto
    then show ?thesis using scan_string_fuel [of t n' k'] l by simp
  qed
  have "scan_value (Suc n) s = scan_value m s" if b: "2 * length s + 1 \<le> Suc n" "2 * length s + 1 \<le> m"
  proof (cases "s = []")
    case True
    then show ?thesis using b by (cases m) (auto simp: scan_value.simps)
  next
    case False
    then obtain k where m: "m = Suc k" using b by (cases m) auto
    have tl: "length (tl s) < length s" using False by (cases s) auto
    then have "scan_string n (tl s) = scan_string k (tl s)" using that m by (intro string) auto
    moreover have "scan_items n (skip_ws (tl s)) = scan_items k (skip_ws (tl s))"
      "scan_pairs n (skip_ws (tl s)) = scan_pairs k (skip_ws (tl s))"
      using that m sk [OF False] by (auto intro: IH)
    ultimately show ?thesis unfolding m scan_value.simps Let_def by (simp only:)
  qed
  moreover have "scan_items (Suc n) s = scan_items m s" if b: "2 * length s + 2 \<le> Suc n" "2 * length s + 2 \<le> m"
  proof -
    obtain k where m: "m = Suc k" using b by (cases m) auto
    have v: "scan_value n s = scan_value k s" using b m by (intro IH) auto
    have "scan_items n (skip_ws (tl (skip_ws q))) = scan_items k (skip_ws (tl (skip_ws q)))"
      if "scan_value k s = Inr (x, q)" "skip_ws q \<noteq> []" for x q
      using len [OF that(1)] nxt [OF that(2)] b m by (intro IH) auto
    then show ?thesis unfolding m scan_items.simps v Let_def
      by (intro bnd_cong refl) (simp split: prod.split)
  qed
  moreover have "scan_pairs (Suc n) s = scan_pairs m s" if b: "2 * length s + 2 \<le> Suc n" "2 * length s + 2 \<le> m"
  proof (cases "s = []")
    case True
    then show ?thesis using b by (cases m) (auto simp: scan_pairs.simps)
  next
    case False
    obtain k where m: "m = Suc k" using b by (cases m) auto
    have tl: "length (tl s) < length s" using False by (cases s) auto
    then have st: "scan_string n (tl s) = scan_string k (tl s)" using b m by (intro string) auto
    have v: "scan_value n (skip_ws (tl (skip_ws q))) = scan_value k (skip_ws (tl (skip_ws q)))"
      if "scan_string k (tl s) = Inr (x, q)" "skip_ws q \<noteq> []" for x q
      using scan_string_length [OF that(1)] nxt [OF that(2)] tl b m by (intro IH) auto
    have w: "scan_pairs n (skip_ws (tl (skip_ws p))) = scan_pairs k (skip_ws (tl (skip_ws p)))"
      if "scan_string k (tl s) = Inr (x, q)" "skip_ws q \<noteq> []"
        "scan_value k (skip_ws (tl (skip_ws q))) = Inr (y, p)" "skip_ws p \<noteq> []" for x q y p
      using scan_string_length [OF that(1)] nxt [OF that(2)] len [OF that(3)] nxt [OF that(4)] tl b m
      by (intro IH) auto
    show ?thesis
    proof (cases "scan_string k (tl s)")
      case (Inl e)
      then show ?thesis by (simp add: m scan_pairs.simps st)
    next
      case (Inr xq)
      obtain x q where xq: "xq = (x, q)" by fastforce
      show ?thesis
      proof (cases "skip_ws q = []")
        case True
        then show ?thesis using Inr by (simp add: m scan_pairs.simps st xq)
      next
        case q: False
        note str = Inr [unfolded xq]
        show ?thesis
          using v [OF str q] w [OF str q]
          by (cases "scan_value k (skip_ws (tl (skip_ws q)))")
            (auto simp: m scan_pairs.simps st str Let_def)
      qed
    qed
  qed
  ultimately show ?case by blast
qed

end
