(* ===== verification/RouteTrace.thy ===== *)
theory RouteTrace
  imports PyJson
begin

text \<open>
  \<open>scripts/qwen/route_trace.py\<close>: the reader of a committed route capture. One definition per
  event of the protocol; \<open>trace_row\<close> is the body of the loop and \<open>decode\<close> the whole reader.
\<close>

section \<open>Bytes into lines\<close>

text \<open>\<open>bytes.splitlines(keepends=True)\<close>: lines end at LF, CR or CR LF.\<close>

fun split_keep :: "string \<Rightarrow> string \<Rightarrow> string list" where
  "split_keep line [] = (if line = [] then [] else [line])"
| "split_keep line (c # s) =
     (if c = CHR 0x0A then (line @ [c]) # split_keep [] s
      else if c = CHR 0x0D then
        (case s of
           d # s' \<Rightarrow> if d = CHR 0x0A then (line @ [c, d]) # split_keep [] s' else (line @ [c]) # split_keep [] s
         | [] \<Rightarrow> [line @ [c]])
      else split_keep (line @ [c]) s)"

definition splitlines_keep :: "string \<Rightarrow> string list" where
  "splitlines_keep raw = split_keep [] raw"

lemma concat_split_keep: "concat (split_keep line s) = line @ s"
  by (induction line s rule: split_keep.induct) (auto split: list.splits)

definition line_pointer :: "nat \<Rightarrow> string" where
  "line_pointer i = ''line:'' @ dec i"

section \<open>State\<close>

text \<open>
  A request and a forward keep the recorded details and the fields the reader adds; the token
  lists, limits and identities the reader reads back from the details are fields of their own.
\<close>

record request =
  rq_details :: "(string \<times> pyval) list"
  rq_id :: int
  rq_pointer :: string
  rq_aborted :: bool
  rq_initial_sizes :: "(string \<times> int) list"
  rq_input :: "int list"
  rq_max_tokens :: int
  rq_prime :: bool

record forward =
  fw_details :: "(string \<times> pyval) list"
  fw_id :: int
  fw_request_id :: int
  fw_pointer :: string
  fw_rows :: "(string \<times> pyval) list"
  fw_epoch :: nat
  fw_input :: "int list"
  fw_offset :: int
  fw_tokens :: int
  fw_session :: string
  fw_phase :: string

record last_event =
  le_event :: pyval
  le_pointer :: string
  le_ns :: int

record trace_state =
  ts_rows :: "(string \<times> pyval) list"
  ts_committed :: "forward list"
  ts_requests :: "(request \<times> (string \<times> pyval) list) list"
  ts_request :: "request option"
  ts_active :: "forward option"
  ts_request_id :: int
  ts_forward_id :: int
  ts_timestamp :: int
  ts_header :: "(string \<times> pyval) list option"
  ts_terminal :: "string option"
  ts_last :: "last_event option"
  ts_aborted :: int
  ts_epoch :: nat
  ts_states :: "(string \<times> int list) list"
  ts_session :: "string option"

definition trace_init :: trace_state where
  "trace_init = \<lparr>ts_rows = [], ts_committed = [], ts_requests = [], ts_request = None, ts_active = None,
     ts_request_id = 0, ts_forward_id = 0, ts_timestamp = 0, ts_header = None, ts_terminal = None,
     ts_last = None, ts_aborted = 0, ts_epoch = 0, ts_states = [], ts_session = None\<rparr>"

definition session_tokens :: "(string \<times> int list) list \<Rightarrow> string \<Rightarrow> int list" where
  "session_tokens states session = (case map_of states session of None \<Rightarrow> [] | Some ts \<Rightarrow> ts)"

section \<open>Checks of the details\<close>

definition token_ok :: "pyval \<Rightarrow> bool" where
  "token_ok t = (case t of PInt i \<Rightarrow> 0 \<le> i \<and> i < 248320 | _ \<Rightarrow> False)"

fun the_int :: "pyval \<Rightarrow> int" where
  "the_int (PInt i) = i" | "the_int _ = 0"

text \<open>\<open>tokens(value, empty)\<close>; the checked token IDs are returned.\<close>

definition tokens :: "pyval \<Rightarrow> bool \<Rightarrow> int list result" where
  "tokens v allow_empty =
     (case v of
        PList ts \<Rightarrow> req (\<not> (ts = [] \<and> \<not> allow_empty) \<and> len ts \<le> 8192 \<and> list_all token_ok ts)
          ''Invalid token IDs'' (Inr (map the_int ts))
      | _ \<Rightarrow> Inl (ValueError ''Invalid token IDs''))"

fun nonempty_str :: "pyval \<Rightarrow> bool" where
  "nonempty_str (PStr s) = (s \<noteq> [])" | "nonempty_str _ = False"

fun the_str :: "pyval \<Rightarrow> string" where
  "the_str (PStr s) = s" | "the_str _ = []"

definition expert_ok :: "pyval \<Rightarrow> bool" where
  "expert_ok e = (case e of PInt i \<Rightarrow> 0 \<le> i \<and> i < 512 | _ \<Rightarrow> False)"

section \<open>One definition per event\<close>

definition on_request_begin :: "string \<Rightarrow> (string \<times> pyval) list \<Rightarrow> trace_state \<Rightarrow> trace_state result" where
  "on_request_begin pointer d s =
     req (ts_request s = None \<and> ts_active s = None) ''Overlapping route requests''
     (bnd (tokens (aget d ''input_token_ids'') False) (\<lambda>input.
      req (is_int (aget d ''max_tokens'') \<and> 1 \<le> the_int (aget d ''max_tokens'') \<and> is_bool (aget d ''prime''))
        ''Invalid request output limit or prime flag''
        (Inr (s\<lparr>ts_request_id := ts_request_id s + 1,
           ts_request := Some \<lparr>rq_details = d, rq_id = ts_request_id s + 1, rq_pointer = pointer,
             rq_aborted = False, rq_initial_sizes = map (\<lambda>(k, v). (k, len v)) (ts_states s),
             rq_input = input, rq_max_tokens = the_int (aget d ''max_tokens''),
             rq_prime = (aget d ''prime'' = PBool True)\<rparr>\<rparr>))))"

definition forward_geometry :: "(string \<times> pyval) list \<Rightarrow> int list \<Rightarrow> bool" where
  "forward_geometry d input \<longleftrightarrow>
     is_int (aget d ''offset'') \<and> 0 \<le> the_int (aget d ''offset'') \<and> is_int (aget d ''tokens'') \<and>
     the_int (aget d ''tokens'') = len input \<and>
     the_int (aget d ''offset'') + the_int (aget d ''tokens'') \<le> 8192 \<and>
     nonempty_str (aget d ''session_id'') \<and> nonempty_str (aget d ''request_phase'') \<and>
     is_int (aget d ''expert_slots'') \<and> 1 \<le> the_int (aget d ''expert_slots'')"

definition on_forward_begin :: "string \<Rightarrow> (string \<times> pyval) list \<Rightarrow> trace_state \<Rightarrow> trace_state result" where
  "on_forward_begin pointer d s =
     req (ts_request s \<noteq> None \<and> ts_active s = None) ''Forward needs one active request''
     (bnd (tokens (aget d ''input_token_ids'') False) (\<lambda>input.
      req (forward_geometry d input) ''Invalid forward identity or geometry''
      (let session = the_str (aget d ''session_id'')
       in req (the_int (aget d ''offset'') = len (session_tokens (ts_states s) session))
            ''Forward offset does not continue the recorded session''
            (Inr (s\<lparr>ts_forward_id := ts_forward_id s + 1,
               ts_active := Some \<lparr>fw_details = d, fw_id = ts_forward_id s + 1,
                 fw_request_id = ts_request_id s, fw_pointer = pointer, fw_rows = [],
                 fw_epoch = ts_epoch s, fw_input = input, fw_offset = the_int (aget d ''offset''),
                 fw_tokens = the_int (aget d ''tokens''), fw_session = session,
                 fw_phase = the_str (aget d ''request_phase'')\<rparr>\<rparr>)))))"

text \<open>\<open>len(set(selected)) != 10\<close> over checked integers.\<close>

definition selected_ok :: "pyval list \<Rightarrow> bool" where
  "selected_ok g \<longleftrightarrow> list_all expert_ok g \<and> len (remdups (map the_int g)) = 10"

definition committed_row :: "forward \<Rightarrow> (string \<times> pyval) list \<Rightarrow> int \<Rightarrow> pyval \<Rightarrow> nat \<Rightarrow> (string \<times> pyval) list" where
  "committed_row f header layer routes epoch =
     [(''layer'', PInt layer), (''routes'', routes), (''offset'', PInt (fw_offset f)),
      (''tokens'', PInt (fw_tokens f)), (''request_phase'', PStr (fw_phase f)),
      (''request_id'', PInt (fw_request_id f)),
      (''session_id'', PStr (fw_session f @ '':'' @ dec epoch)), (''build'', aget header ''build''),
      (''artifact_revision'', aget header ''artifact_revision'')]"

definition on_routes :: "string \<Rightarrow> (string \<times> pyval) list \<Rightarrow> (string \<times> pyval) list \<Rightarrow> trace_state \<Rightarrow> trace_state result" where
  "on_routes pointer d header s =
     (case ts_active s of
        None \<Rightarrow> Inl (ValueError ''Missing, repeated or reordered route layer'')
      | Some f \<Rightarrow>
          req (is_int (aget d ''layer'') \<and> the_int (aget d ''layer'') = len (fw_rows f) \<and> the_int (aget d ''layer'') < 48)
            ''Missing, repeated or reordered route layer''
          (case aget d ''routes'' of
             PList routes \<Rightarrow>
               req (len routes = fw_tokens f * 10) ''Missing top-10 routes''
               (req (list_all selected_ok (chunks 10 routes)) ''Invalid selected experts''
                (Inr (s\<lparr>ts_active := Some (f\<lparr>fw_rows := fw_rows f @
                   [(pointer, PDict (committed_row f header (the_int (aget d ''layer'')) (PList routes) (ts_epoch s)))]\<rparr>)\<rparr>)))
           | _ \<Rightarrow> Inl (ValueError ''Missing top-10 routes'')))"

definition on_forward_commit :: "(string \<times> pyval) list \<Rightarrow> trace_state \<Rightarrow> trace_state result" where
  "on_forward_commit d s =
     (case ts_active s of
        None \<Rightarrow> Inl (ValueError ''Commit needs all 48 layers and the exact resulting position'')
      | Some f \<Rightarrow>
          req (len (fw_rows f) = 48 \<and> is_int (aget d ''position'') \<and>
               the_int (aget d ''position'') = fw_offset f + fw_tokens f)
            ''Commit needs all 48 layers and the exact resulting position''
            (Inr (s\<lparr>ts_rows := ts_rows s @ fw_rows f, ts_session := Some (fw_session f),
               ts_states := aput (ts_states s) (fw_session f)
                 (session_tokens (ts_states s) (fw_session f) @ fw_input f),
               ts_committed := ts_committed s @ [f\<lparr>fw_rows := []\<rparr>], ts_active := None\<rparr>)))"

definition boundary_row :: "string \<Rightarrow> string \<Rightarrow> string \<times> pyval" where
  "boundary_row pointer reason = (pointer, PDict [(''cache_boundary'', PStr reason)])"

text \<open>An active forward implies an active request, so \<open>request['aborted']\<close> is always assigned.\<close>

definition on_forward_abort :: "string \<Rightarrow> (string \<times> pyval) list \<Rightarrow> trace_state \<Rightarrow> trace_state result" where
  "on_forward_abort pointer d s =
     (case ts_active s of
        None \<Rightarrow> Inl (ValueError ''Invalid aborted forward'')
      | Some f \<Rightarrow>
          req (is_int (aget d ''captured_layers'') \<and> the_int (aget d ''captured_layers'') = len (fw_rows f))
            ''Invalid aborted forward''
            (case ts_request s of
               None \<Rightarrow> Inl TypeError
             | Some r \<Rightarrow>
                 Inr (s\<lparr>ts_aborted := ts_aborted s + 1,
                   ts_rows := ts_rows s @ [boundary_row pointer ''forward_abort''],
                   ts_request := Some (r\<lparr>rq_aborted := True\<rparr>), ts_active := None\<rparr>)))"

definition finish_reasons :: "pyval list" where
  "finish_reasons = [PStr ''length'', PStr ''stop'', PStr ''primed'']"

text \<open>The stopping rule of a request.\<close>

definition stopping_rule :: "request \<Rightarrow> pyval \<Rightarrow> int list \<Rightarrow> bool" where
  "stopping_rule r reason output \<longleftrightarrow>
     len output \<le> rq_max_tokens r \<and> rq_prime r = (reason = PStr ''primed'') \<and>
     \<not> (rq_prime r \<and> output \<noteq> []) \<and> \<not> (\<not> rq_prime r \<and> output = []) \<and>
     \<not> (reason = PStr ''length'' \<and> len output \<noteq> rq_max_tokens r) \<and>
     \<not> (reason = PStr ''stop'' \<and> last output \<notin> {248044, 248046})"

definition request_matches :: "trace_state \<Rightarrow> request \<Rightarrow> int list \<Rightarrow> int \<Rightarrow> bool" where
  "request_matches s r output reused \<longleftrightarrow>
     (case ts_session s of
        None \<Rightarrow> False
      | Some session \<Rightarrow> map_of (ts_states s) session = Some (rq_input r @ butlast output) \<and>
          (case map_of (rq_initial_sizes r) session of None \<Rightarrow> 0 | Some n \<Rightarrow> n) = reused)"

definition on_request_end :: "(string \<times> pyval) list \<Rightarrow> trace_state \<Rightarrow> trace_state result" where
  "on_request_end d s =
     (case ts_request s of
        None \<Rightarrow> Inl (ValueError ''Cannot complete a missing, aborted or active request'')
      | Some r \<Rightarrow>
          req (ts_active s = None \<and> \<not> rq_aborted r) ''Cannot complete a missing, aborted or active request''
          (bnd (tokens (aget d ''output_token_ids'') True) (\<lambda>output.
           req (list_ex (py_eq (aget d ''finish_reason'')) finish_reasons \<and> is_int (aget d ''reused_tokens'') \<and>
                0 \<le> the_int (aget d ''reused_tokens'') \<and> the_int (aget d ''reused_tokens'') \<le> len (rq_input r))
             ''Invalid request result''
           (req (stopping_rule r (aget d ''finish_reason'') output) ''Output does not match the request stopping rule''
           (req (request_matches s r output (the_int (aget d ''reused_tokens'')))
             ''Committed inputs or reused computation do not match the request result''
             (Inr (s\<lparr>ts_requests := ts_requests s @ [(r\<lparr>rq_initial_sizes := []\<rparr>, d)], ts_request := None\<rparr>)))))))"

definition on_cache_reset :: "string \<Rightarrow> trace_state \<Rightarrow> trace_state result" where
  "on_cache_reset pointer s =
     req (ts_active s = None) ''Cannot reset cache in a forward''
       (Inr (s\<lparr>ts_epoch := ts_epoch s + 1, ts_rows := ts_rows s @ [boundary_row pointer ''cache_reset'']\<rparr>))"

definition on_trace_end :: "(string \<times> pyval) list \<Rightarrow> trace_state \<Rightarrow> trace_state result" where
  "on_trace_end d s =
     (case aget d ''status'' of
        PStr status \<Rightarrow>
          req (status = ''incomplete'' \<or> status = ''complete'' \<and> ts_request s = None \<and> ts_active s = None)
            ''Invalid route termination'' (Inr (s\<lparr>ts_terminal := Some status\<rparr>))
      | _ \<Rightarrow> Inl (ValueError ''Invalid route termination''))"

definition on_event :: "nat \<Rightarrow> string \<Rightarrow> string \<Rightarrow> (string \<times> pyval) list \<Rightarrow> trace_state \<Rightarrow> trace_state result" where
  "on_event sequence pointer event d s =
     (if event = ''trace_begin'' then
        (case aget d ''identity'' of
           PDict identity \<Rightarrow> req (sequence = 1) ''Invalid route header'' (Inr (s\<lparr>ts_header := Some identity\<rparr>))
         | _ \<Rightarrow> Inl (ValueError ''Invalid route header''))
      else case ts_header s of
        None \<Rightarrow> Inl (ValueError ''Route header must be first'')
      | Some header \<Rightarrow>
          if event = ''request_begin'' then on_request_begin pointer d s
          else if event = ''forward_begin'' then on_forward_begin pointer d s
          else if event = ''routes'' then on_routes pointer d header s
          else if event = ''forward_commit'' then on_forward_commit d s
          else if event = ''forward_abort'' then on_forward_abort pointer d s
          else if event = ''request_end'' then on_request_end d s
          else if event = ''cache_reset'' then on_cache_reset pointer s
          else if event = ''trace_end'' then on_trace_end d s
          else Inl (ValueError ''Unknown route event''))"

definition same_int :: "pyval \<Rightarrow> int \<Rightarrow> bool" where
  "same_int v n \<longleftrightarrow> v = PInt n"

definition KIND :: string where "KIND = ''qwen_route_trace_v1''"

definition trace_row :: "trace_state \<Rightarrow> nat \<times> string \<times> pyval \<Rightarrow> trace_state result" where
  "trace_row s entry =
     (case entry of (sequence, pointer, row) \<Rightarrow>
      case row of
        PDict r \<Rightarrow>
          req (aget r ''kind'' = PStr KIND \<and> same_int (aget r ''sequence'') (int sequence) \<and> ts_terminal s = None)
            ''Invalid route sequence or events after termination''
          (req (is_int (aget r ''monotonic_ns'') \<and> ts_timestamp s \<le> the_int (aget r ''monotonic_ns''))
             ''Route timestamps must be monotonic integers''
          (case aget r ''details'' of
             PDict d \<Rightarrow>
               (let now = the_int (aget r ''monotonic_ns'');
                    s = s\<lparr>ts_timestamp := now,
                          ts_last := Some \<lparr>le_event = aget r ''event'', le_pointer = pointer, le_ns = now\<rparr>\<rparr>
                in bnd (case aget r ''event'' of
                          PStr event \<Rightarrow> on_event sequence pointer event d s
                        | _ \<Rightarrow> Inl (ValueError (if ts_header s = None then ''Route header must be first'' else ''Unknown route event'')))
                     (\<lambda>t. req (same_int (aget r ''request_id'') (ts_request_id t) \<and>
                               same_int (aget r ''forward_id'') (ts_forward_id t))
                            ''Mismatched route request or forward ID'' (Inr t)))
           | _ \<Rightarrow> Inl (ValueError ''Route event details must be an object'')))
      | _ \<Rightarrow> Inl (ValueError ''Invalid route sequence or events after termination''))"

section \<open>The report\<close>

record trace_report =
  tr_rows :: "(string \<times> pyval) list"
  tr_committed :: "forward list"
  tr_requests :: "(request \<times> (string \<times> pyval) list) list"
  tr_identity :: "(string \<times> pyval) list option"
  tr_status :: string
  tr_complete :: bool
  tr_events :: int
  tr_partial_final_line :: bool
  tr_aborted_forwards :: int
  tr_active_request :: "request option"
  tr_active_forward :: "forward option"
  tr_uncommitted_layer_passes :: int
  tr_last_event :: "last_event option"

definition request_summary :: "request \<Rightarrow> request" where
  "request_summary r = r\<lparr>rq_details := AList.delete ''input_token_ids'' (rq_details r), rq_input := [],
     rq_initial_sizes := []\<rparr>"

definition forward_summary :: "forward \<Rightarrow> forward" where
  "forward_summary f = f\<lparr>fw_details := AList.delete ''input_token_ids'' (fw_details f), fw_input := [], fw_rows := []\<rparr>"

definition trace_report :: "trace_state \<Rightarrow> int \<Rightarrow> bool \<Rightarrow> trace_report" where
  "trace_report s events partial = \<lparr>
     tr_rows = ts_rows s, tr_committed = ts_committed s, tr_requests = ts_requests s,
     tr_identity = ts_header s,
     tr_status = (case ts_terminal s of None \<Rightarrow> ''unfinished'' | Some t \<Rightarrow> t),
     tr_complete = (ts_terminal s = Some ''complete''), tr_events = events,
     tr_partial_final_line = partial, tr_aborted_forwards = ts_aborted s,
     tr_active_request = map_option request_summary (ts_request s),
     tr_active_forward = map_option forward_summary (ts_active s),
     tr_uncommitted_layer_passes = (case ts_active s of None \<Rightarrow> 0 | Some f \<Rightarrow> len (fw_rows f)),
     tr_last_event = ts_last s\<rparr>"

text \<open>A partial final line is dropped before parsing.\<close>

definition whole_lines :: "string \<Rightarrow> string list \<times> bool" where
  "whole_lines raw =
     (let lines = splitlines_keep raw;
          partial = (lines \<noteq> [] \<and> last (last lines) \<noteq> CHR 0x0A)
      in (if partial then butlast lines else lines, partial))"

definition read_events :: "(nat \<times> pyval) list \<Rightarrow> trace_state result" where
  "read_events events = foldm trace_row trace_init (map (\<lambda>(i, v). (i, line_pointer i, v)) events)"

definition decode :: "string \<Rightarrow> trace_report result" where
  "decode raw =
     req (len raw \<le> 16 * 1024 ^ 2) ''Route trace exceeds 16MiB''
     (let (lines, partial) = whole_lines raw
      in req (len lines \<le> 20000) ''Route event count exceeded''
         (bnd (mapm parse lines) (\<lambda>rows.
          req (rows \<noteq> []) ''Missing route trace header''
          (bnd (read_events (enumerate_from 1 rows)) (\<lambda>s.
           req (\<not> (ts_terminal s \<noteq> None \<and> partial)) ''Trailing bytes after route termination''
             (Inr (trace_report s (len rows) partial)))))))"

definition progress :: "string \<Rightarrow> trace_report result" where
  "progress bytes = bnd (decode (take (16 * 1024 ^ 2 + 1) bytes)) (\<lambda>report.
     Inr (report\<lparr>tr_rows := [], tr_committed := [], tr_requests := []\<rparr>))"

end
