(* ===== verification/TraceHistory.thy ===== *)
theory TraceHistory
  imports RouteTrace
begin

text \<open>
  What a trace accepted by \<open>route_trace.decode\<close> records: the history of every session is the
  concatenation of its committed forwards, each forward continues its session, and the rows of
  the trace are complete 48-layer windows separated by cache boundaries.
\<close>

section \<open>Histories and windows\<close>

text \<open>The tokens that a list of committed forwards puts into one session.\<close>

definition history :: "forward list \<Rightarrow> string \<Rightarrow> int list" where
  "history fs session = concat (map fw_input (filter (\<lambda>f. fw_session f = session) fs))"

lemma history_snoc [simp]:
  "history (fs @ [f]) session = history fs session @ (if fw_session f = session then fw_input f else [])"
  by (simp add: history_def)

lemma history_Nil [simp]: "history [] session = []"
  by (simp add: history_def)

definition forward_ok :: "forward \<Rightarrow> bool" where
  "forward_ok f \<longleftrightarrow> fw_tokens f = len (fw_input f) \<and> 1 \<le> fw_tokens f \<and> 0 \<le> fw_offset f \<and>
     fw_offset f + fw_tokens f \<le> 8192 \<and> fw_session f \<noteq> [] \<and> fw_phase f \<noteq> [] \<and> 1 \<le> fw_request_id f"

text \<open>Every forward starts where its session's earlier forwards ended.\<close>

definition contiguous :: "forward list \<Rightarrow> bool" where
  "contiguous fs \<longleftrightarrow> (\<forall>i<length fs. fw_offset (fs ! i) = len (history (take i fs) (fw_session (fs ! i))))"

lemma contiguous_snoc:
  "contiguous (fs @ [f]) \<longleftrightarrow> contiguous fs \<and> fw_offset f = len (history fs (fw_session f))"
  by (auto simp: contiguous_def nth_append less_Suc_eq all_conj_distrib)

definition window_row :: "(string \<times> pyval) list \<Rightarrow> forward \<Rightarrow> int \<Rightarrow> string \<times> pyval \<Rightarrow> bool" where
  "window_row header f layer row \<longleftrightarrow>
     (\<exists>pointer routes. row = (pointer, PDict (committed_row f header layer (PList routes) (fw_epoch f))) \<and>
        len routes = fw_tokens f * 10 \<and> list_all selected_ok (chunks 10 routes))"

definition window_rows :: "(string \<times> pyval) list \<Rightarrow> forward \<Rightarrow> (string \<times> pyval) list \<Rightarrow> bool" where
  "window_rows header f rows \<longleftrightarrow> (\<forall>i<length rows. window_row header f (int i) (rows ! i))"

lemma window_rows_Nil [simp]: "window_rows header f []"
  by (simp add: window_rows_def)

lemma window_rows_snoc:
  "window_rows header f (rows @ [row]) \<longleftrightarrow> window_rows header f rows \<and> window_row header f (len rows) row"
  by (auto simp: window_rows_def nth_append less_Suc_eq len_def)

text \<open>The rows of the trace: whole windows of the committed forwards, in order, and boundaries.\<close>

inductive trace_rows :: "(string \<times> pyval) list \<Rightarrow> forward list \<Rightarrow> (string \<times> pyval) list \<Rightarrow> bool"
  for header
where
  start: "trace_rows header [] []"
| boundary: "trace_rows header fs rows \<Longrightarrow> trace_rows header fs (rows @ [boundary_row pointer reason])"
| window: "trace_rows header fs rows \<Longrightarrow> forward_ok f \<Longrightarrow> window_rows header f ws \<Longrightarrow> len ws = 48 \<Longrightarrow>
    trace_rows header (fs @ [f]) (rows @ ws)"

lemma trace_rows_forward_ok: "trace_rows header fs rows \<Longrightarrow> f \<in> set fs \<Longrightarrow> forward_ok f"
  by (induction rule: trace_rows.induct) auto

section \<open>The invariant\<close>

text \<open>A completed request found exactly its own tokens in a session that had been committed.\<close>

definition request_recorded :: "forward list \<Rightarrow> request \<times> (string \<times> pyval) list \<Rightarrow> bool" where
  "request_recorded fs entry \<longleftrightarrow>
     (\<exists>n session output. tokens (aget (snd entry) ''output_token_ids'') True = Inr output \<and>
        history (take n fs) session = rq_input (fst entry) @ butlast output \<and>
        stopping_rule (fst entry) (aget (snd entry) ''finish_reason'') output)"

lemma request_recorded_snoc: "request_recorded fs entry \<Longrightarrow> request_recorded (fs @ [f]) entry"
proof -
  assume "request_recorded fs entry"
  then obtain n session outs where r: "tokens (aget (snd entry) ''output_token_ids'') True = Inr outs"
    "history (take n fs) session = rq_input (fst entry) @ butlast outs"
    "stopping_rule (fst entry) (aget (snd entry) ''finish_reason'') outs"
    unfolding request_recorded_def by blast
  have "take (min n (length fs)) (fs @ [f]) = take n fs" by (simp add: min_def)
  then have "history (take (min n (length fs)) (fs @ [f])) session = rq_input (fst entry) @ butlast outs"
    using r(2) by simp
  with r(1,3) show ?thesis unfolding request_recorded_def by blast
qed

definition active_ok :: "(string \<times> pyval) list \<Rightarrow> trace_state \<Rightarrow> bool" where
  "active_ok header s \<longleftrightarrow>
     (\<forall>f. ts_active s = Some f \<longrightarrow> forward_ok f \<and> ts_request s \<noteq> None \<and> fw_epoch f = ts_epoch s \<and>
        fw_offset f = len (history (ts_committed s) (fw_session f)) \<and> len (fw_rows f) \<le> 48 \<and>
        window_rows header f (fw_rows f))"

definition session_inv :: "(string \<times> pyval) list \<Rightarrow> trace_state \<Rightarrow> bool" where
  "session_inv header s \<longleftrightarrow>
     ts_header s = Some header \<and> active_ok header s \<and>
     (\<forall>session. session_tokens (ts_states s) session = history (ts_committed s) session) \<and>
     contiguous (ts_committed s) \<and> trace_rows header (ts_committed s) (ts_rows s) \<and>
     (\<forall>entry\<in>set (ts_requests s). request_recorded (ts_committed s) entry) \<and>
     0 \<le> ts_request_id s \<and> (ts_request s \<noteq> None \<longrightarrow> 1 \<le> ts_request_id s) \<and>
     (\<forall>f\<in>set (ts_committed s). fw_request_id f \<le> ts_request_id s) \<and>
     (\<forall>f. ts_active s = Some f \<longrightarrow> fw_request_id f \<le> ts_request_id s) \<and>
     (ts_terminal s = Some ''complete'' \<longrightarrow> ts_request s = None \<and> ts_active s = None)"

definition trace_inv :: "nat \<Rightarrow> trace_state \<Rightarrow> bool" where
  "trace_inv n s \<longleftrightarrow>
     (if n = 0 then s = trace_init else \<exists>header. session_inv header s) \<and> ts_request_id s \<le> int n"

lemma tokens_eq_Inr: "tokens v e = Inr ts \<Longrightarrow> (e \<or> ts \<noteq> []) \<and> len ts \<le> 8192"
  by (cases v) (auto simp: tokens_def ok_simps len_def)

lemma request_begin_inv:
  "session_inv header s \<Longrightarrow> on_request_begin pointer d s = Inr t \<Longrightarrow> ts_terminal s = None \<Longrightarrow> session_inv header t"
  by (fastforce simp: on_request_begin_def ok_simps session_inv_def active_ok_def)

lemma forward_begin_inv:
  assumes "session_inv header s" "on_forward_begin pointer d s = Inr t" "ts_terminal s = None"
  shows "session_inv header t"
proof -
  obtain input where "tokens (aget d ''input_token_ids'') False = Inr input"
    using assms(2) by (auto simp: on_forward_begin_def ok_simps)
  moreover have "nonempty_str v \<Longrightarrow> the_str v \<noteq> []" for v by (cases v) auto
  ultimately show ?thesis using assms tokens_eq_Inr [of _ False input]
    by (auto simp: on_forward_begin_def ok_simps Let_def session_inv_def active_ok_def forward_ok_def
        forward_geometry_def len_def Suc_le_eq)
qed

lemma routes_inv:
  assumes "session_inv header s" "on_routes pointer d header s = Inr t" "ts_terminal s = None"
  shows "session_inv header t"
proof -
  obtain f routes where f: "ts_active s = Some f" "the_int (aget d ''layer'') = len (fw_rows f)"
    "len (fw_rows f) < 48" "len routes = fw_tokens f * 10" "list_all selected_ok (chunks 10 routes)"
    and t: "t = s\<lparr>ts_active := Some (f\<lparr>fw_rows := fw_rows f @ [(pointer, PDict (committed_row f header
       (len (fw_rows f)) (PList routes) (ts_epoch s)))]\<rparr>)\<rparr>"
    using assms(2) by (auto simp: on_routes_def ok_simps split: option.splits pyval.splits)
  have e: "fw_epoch f = ts_epoch s" "forward_ok f" "window_rows header f (fw_rows f)"
    using assms(1) f(1) by (auto simp: session_inv_def active_ok_def)
  have upd: "window_rows header (f\<lparr>fw_rows := ws\<rparr>) rs = window_rows header f rs" for ws rs
    by (simp add: window_rows_def window_row_def committed_row_def)
  have upd1: "window_row header (f\<lparr>fw_rows := ws\<rparr>) l w = window_row header f l w" for ws l w
    by (simp add: window_row_def committed_row_def)
  have "window_row header f (len (fw_rows f)) (pointer, PDict (committed_row f header
       (len (fw_rows f)) (PList routes) (ts_epoch s)))"
    using f e by (auto simp: window_row_def)
  then show ?thesis using assms(1,3) f e
    by (auto simp: t session_inv_def active_ok_def upd upd1 window_rows_snoc forward_ok_def len_def)
qed

lemma commit_inv:
  assumes "session_inv header s" "on_forward_commit d s = Inr t" "ts_terminal s = None"
  shows "session_inv header t"
proof -
  obtain f where f: "ts_active s = Some f" "len (fw_rows f) = 48"
    and t: "t = s\<lparr>ts_rows := ts_rows s @ fw_rows f, ts_session := Some (fw_session f),
      ts_states := aput (ts_states s) (fw_session f) (session_tokens (ts_states s) (fw_session f) @ fw_input f),
      ts_committed := ts_committed s @ [f\<lparr>fw_rows := []\<rparr>], ts_active := None\<rparr>"
    using assms(2) by (auto simp: on_forward_commit_def ok_simps split: option.splits)
  have a: "forward_ok (f\<lparr>fw_rows := []\<rparr>)" "window_rows header (f\<lparr>fw_rows := []\<rparr>) (fw_rows f)"
    "fw_offset f = len (history (ts_committed s) (fw_session f))" "fw_request_id f \<le> ts_request_id s"
    using assms(1) f(1)
    by (auto simp: session_inv_def active_ok_def forward_ok_def window_rows_def window_row_def committed_row_def)
  have "trace_rows header (ts_committed s @ [f\<lparr>fw_rows := []\<rparr>]) (ts_rows s @ fw_rows f)"
    using assms(1) a f(2) by (auto simp: session_inv_def intro: trace_rows.window)
  moreover have "session_tokens (aput (ts_states s) (fw_session f) (session_tokens (ts_states s) (fw_session f) @ fw_input f)) k =
      history (ts_committed s @ [f\<lparr>fw_rows := []\<rparr>]) k" for k
    using assms(1) by (auto simp: session_inv_def session_tokens_def)
  ultimately show ?thesis using assms(1,3) a(3,4) request_recorded_snoc
    by (auto simp: t session_inv_def active_ok_def contiguous_snoc)
qed

lemma stopping_rule_sizes: "stopping_rule (r\<lparr>rq_initial_sizes := x\<rparr>) reason outs = stopping_rule r reason outs"
  unfolding stopping_rule_def by simp

lemma request_end_inv:
  assumes "session_inv header s" "on_request_end d s = Inr t" "ts_terminal s = None"
  shows "session_inv header t"
proof -
  obtain r outs where out: "tokens (aget d ''output_token_ids'') True = Inr outs"
    "stopping_rule r (aget d ''finish_reason'') outs"
    "request_matches s r outs (the_int (aget d ''reused_tokens''))"
    and t: "t = s\<lparr>ts_requests := ts_requests s @ [(r\<lparr>rq_initial_sizes := []\<rparr>, d)], ts_request := None\<rparr>"
    and act: "ts_active s = None"
    using assms(2) by (auto simp: on_request_end_def ok_simps split: option.splits)
  obtain session where "map_of (ts_states s) session = Some (rq_input r @ butlast outs)"
    using out(3) by (auto simp: request_matches_def split: option.splits)
  then have "session_tokens (ts_states s) session = rq_input r @ butlast outs"
    by (simp add: session_tokens_def)
  then have "history (take (length (ts_committed s)) (ts_committed s)) session = rq_input r @ butlast outs"
    using assms(1) by (simp add: session_inv_def)
  then have "request_recorded (ts_committed s) (r\<lparr>rq_initial_sizes := []\<rparr>, d)"
    using out unfolding request_recorded_def
    by (intro exI [of _ "length (ts_committed s)"] exI [of _ session] exI [of _ outs]) (simp add: stopping_rule_sizes)
  then show ?thesis using assms(1,3) act by (auto simp: t session_inv_def active_ok_def)
qed

lemma other_events_inv:
  assumes "session_inv header s" "ts_terminal s = None"
  shows "on_forward_abort pointer d s = Inr t \<Longrightarrow> session_inv header t"
    and "on_cache_reset pointer s = Inr t \<Longrightarrow> session_inv header t"
    and "on_trace_end d s = Inr t \<Longrightarrow> session_inv header t"
  using assms
  by (auto simp: on_forward_abort_def on_cache_reset_def on_trace_end_def ok_simps session_inv_def active_ok_def
      intro: trace_rows.boundary split: option.splits pyval.splits)

lemma on_event_inv:
  assumes "session_inv header s" "ts_terminal s = None" "on_event n pointer event d s = Inr t" "n \<noteq> 1"
  shows "session_inv header t"
proof -
  have h: "ts_header s = Some header" using assms(1) by (simp add: session_inv_def)
  show ?thesis using assms(3,4)
    by (auto simp: on_event_def h split: if_splits pyval.splits
        intro: request_begin_inv [OF assms(1) _ assms(2)] forward_begin_inv [OF assms(1) _ assms(2)]
          routes_inv [OF assms(1) _ assms(2)] commit_inv [OF assms(1) _ assms(2)]
          request_end_inv [OF assms(1) _ assms(2)] other_events_inv [OF assms(1,2)])
qed

lemma on_event_request_id: "on_event n pointer event d s = Inr t \<Longrightarrow> ts_request_id t \<le> ts_request_id s + 1"
  by (auto simp: on_event_def on_request_begin_def on_forward_begin_def on_routes_def on_forward_commit_def
      on_forward_abort_def on_request_end_def on_cache_reset_def on_trace_end_def ok_simps Let_def
      split: if_splits pyval.splits option.splits)

lemma session_inv_stamp:
  "session_inv header s \<Longrightarrow> session_inv header (s\<lparr>ts_timestamp := now, ts_last := e\<rparr>)"
  by (simp add: session_inv_def active_ok_def)

lemma trace_row_inv:
  assumes inv: "trace_inv n s" and run: "trace_row s (Suc n, pointer, row) = Inr t"
  shows "trace_inv (Suc n) t"
proof -
  obtain r where r: "row = PDict r" using run by (cases row) (auto simp: trace_row_def)
  obtain d where d: "aget r ''details'' = PDict d" and open_trace: "ts_terminal s = None"
    using run by (auto simp: trace_row_def r ok_simps split: pyval.splits)
  obtain event where e: "aget r ''event'' = PStr event"
    using run d by (auto simp: trace_row_def r ok_simps Let_def split: pyval.splits)
  let ?s = "s\<lparr>ts_timestamp := the_int (aget r ''monotonic_ns''),
    ts_last := Some \<lparr>le_event = PStr event, le_pointer = pointer, le_ns = the_int (aget r ''monotonic_ns'')\<rparr>\<rparr>"
  have ev: "on_event (Suc n) pointer event d ?s = Inr t"
    using run d e by (auto simp: trace_row_def r ok_simps Let_def)
  have id: "ts_request_id t \<le> int (Suc n)"
    using on_event_request_id [OF ev] inv by (simp add: trace_inv_def)
  show ?thesis
  proof (cases "n = 0")
    case True
    then have s: "s = trace_init" using inv by (simp add: trace_inv_def)
    obtain identity where "t = ?s\<lparr>ts_header := Some identity\<rparr>"
      using ev by (auto simp: on_event_def s trace_init_def ok_simps split: if_splits pyval.splits)
    then have "session_inv identity t"
      by (auto simp: s trace_init_def session_inv_def active_ok_def session_tokens_def contiguous_def intro: trace_rows.start)
    then show ?thesis using id by (auto simp: trace_inv_def)
  next
    case False
    then obtain header where "session_inv header ?s"
      using inv session_inv_stamp by (fastforce simp: trace_inv_def)
    from on_event_inv [OF this _ ev] False open_trace id show ?thesis by (auto simp: trace_inv_def)
  qed
qed

lemma read_events_inv:
  assumes "read_events (enumerate_from 1 rows) = Inr s"
  shows "trace_inv (length rows) s"
proof -
  have *: "foldm trace_row trace_init (map (\<lambda>(i, v). (i, line_pointer i, v)) (enumerate_from 1 rows)) = Inr s"
    using assms by (simp add: read_events_def)
  have "1 \<le> 1 + length rows \<and> trace_inv (1 + length rows - 1) s"
    by (rule foldm_enumerate_invariant [OF *, where I = "\<lambda>n s. 1 \<le> n \<and> trace_inv (n - 1) s"])
       (auto simp: trace_inv_def [of 0] trace_init_def dest!: trace_row_inv [of "_ - Suc 0"] split: prod.splits)
  then show ?thesis by simp
qed

lemma decode_eq_Inr:
  assumes "decode raw = Inr r"
  obtains header s where "session_inv header s" and "tr_rows r = ts_rows s"
    and "tr_committed r = ts_committed s" and "tr_requests r = ts_requests s" and "tr_identity r = Some header"
    and "tr_complete r = (ts_terminal s = Some ''complete'')"
    and "tr_active_request r = map_option request_summary (ts_request s)"
    and "tr_active_forward r = map_option forward_summary (ts_active s)" and "ts_request_id s \<le> 20000"
proof -
  obtain lines partial rows s where "rows \<noteq> []" "read_events (enumerate_from 1 rows) = Inr s"
    and len: "len lines \<le> 20000" "mapm parse lines = Inr rows"
    and r: "r = trace_report s (len rows) partial"
    using assms by (auto simp: decode_def ok_simps split: prod.splits)
  then have inv: "trace_inv (length rows) s" by (auto intro: read_events_inv)
  with \<open>rows \<noteq> []\<close> obtain header where h: "session_inv header s" by (auto simp: trace_inv_def)
  have "ts_request_id s \<le> 20000"
    using inv len(1) mapm_length [OF len(2)] by (simp add: trace_inv_def len_def)
  then show thesis
    by (intro that [OF h]) (use h in \<open>auto simp: r trace_report_def session_inv_def\<close>)
qed

end
