(* ===== verification/RouteSegments.thy ===== *)
theory RouteSegments
  imports Py
begin

text \<open>
  The constants, the argument checks and \<open>route_segments\<close> of \<open>scripts/qwen/cache_simulation.py\<close>:
  the loop that cuts a recorded route trace into segments of complete 48-layer windows. One
  definition per step of the loop body; \<open>route_row\<close> is the body and \<open>route_segments\<close> the loop
  with its final report.
\<close>

section \<open>Constants and argument checks\<close>

definition LAYERS :: int where "LAYERS = 48"
definition EXPERTS :: int where "EXPERTS = 512"
definition TOP_K :: int where "TOP_K = 10"
definition PAYLOAD_BYTES :: int where "PAYLOAD_BYTES = 2764800"
definition SLOT_BYTES :: int where "SLOT_BYTES = 2768896"
definition MAX_ACCESSES :: int where "MAX_ACCESSES = 250000"
definition MAX_POLICY_STEPS :: int where "MAX_POLICY_STEPS = 9000000"

definition REVISIONS :: "string list" where
  "REVISIONS = [''aa7c790e804bbf9d491ddb109c3d61bc4a555f7c'', ''b2c422f3c643e36f04227a64d61796b44a4b1029'']"

definition DEFAULT_BUDGETS :: "int list" where
  "DEFAULT_BUDGETS = [0, 1024, 2048, 4096, 6144, 8192]"

text \<open>The integer check; the message keeps the label and leaves the interpolated bounds out.\<close>

definition integer :: "pyval \<Rightarrow> int \<Rightarrow> int \<Rightarrow> string \<Rightarrow> int result" where
  "integer value minimum maximum label =
     (case value of
        PInt i \<Rightarrow> if minimum \<le> i \<and> i \<le> maximum then Inr i
                 else Inl (ValueError (label @ '' must be an integer in range''))
      | _ \<Rightarrow> Inl (ValueError (label @ '' must be an integer in range'')))"

lemma integer_eq_Inr [ok_simps]: "integer v lo hi label = Inr i \<longleftrightarrow> v = PInt i \<and> lo \<le> i \<and> i \<le> hi"
  by (cases v) (auto simp: integer_def)

definition check_format :: "(string \<times> pyval) list \<Rightarrow> unit result" where
  "check_format row = foldm (\<lambda>_ (key, expected).
     req (\<not> (ahas row key \<and> (\<not> is_int (aget row key) \<or> \<not> py_eq (aget row key) (PInt expected))))
       (''Variable-size or alternate expert formats are not supported: '' @ key) (Inr ())) ()
     [(''expert_payload_bytes'', PAYLOAD_BYTES), (''expert_stride_bytes'', SLOT_BYTES),
      (''expert_bits'', 4), (''expert_group_size'', 64)]"

section \<open>State of the loop\<close>

record route_event =
  ev_pointer :: string
  ev_layer :: int
  ev_offset :: int
  ev_tokens :: int
  ev_phase :: pyval
  ev_session :: pyval
  ev_request_id :: pyval
  ev_keys :: "int list"

record access_span =
  sp_start :: nat
  sp_end :: nat
  sp_request_id :: pyval
  sp_phase :: pyval

record segment =
  sg_start_offset :: int
  sg_end_offset :: int
  sg_phase :: pyval
  sg_session_id :: pyval
  sg_first_source_pointer :: string
  sg_last_source_pointer :: string
  sg_windows :: int
  sg_single_token_windows :: int
  sg_accesses :: "int list"
  sg_phases :: "pyval list"
  sg_access_spans :: "access_span list"

record barrier =
  ba_reason :: pyval
  ba_source_pointer :: string

record routes_state =
  rs_segments :: "segment list"
  rs_pending :: "route_event list"
  rs_identity :: "(string \<times> string) option"
  rs_excluded :: int
  rs_missing_routes :: int
  rs_filtered :: int
  rs_incomplete :: int
  rs_explicit_events :: int
  rs_logical_routes :: int
  rs_passes :: int
  rs_barriers :: "barrier list"
  rs_can_continue :: bool

definition routes_init :: routes_state where
  "routes_init = \<lparr>rs_segments = [], rs_pending = [], rs_identity = None, rs_excluded = 0,
     rs_missing_routes = 0, rs_filtered = 0, rs_incomplete = 0, rs_explicit_events = 0,
     rs_logical_routes = 0, rs_passes = 0, rs_barriers = [], rs_can_continue = False\<rparr>"

definition discard :: "pyval \<Rightarrow> string \<Rightarrow> routes_state \<Rightarrow> routes_state" where
  "discard reason pointer s = s\<lparr>
     rs_excluded := rs_excluded s + len (rs_pending s),
     rs_incomplete := rs_incomplete s + (if rs_pending s \<noteq> [] then 1 else 0),
     rs_pending := [], rs_can_continue := False,
     rs_barriers := rs_barriers s @ [\<lparr>ba_reason = reason, ba_source_pointer = pointer\<rparr>]\<rparr>"

section \<open>One row\<close>

text \<open>Artifact revision and build fingerprint of a row; an unhashable revision raises.\<close>

definition route_identity :: "(string \<times> pyval) list \<Rightarrow> (string \<times> string) result" where
  "route_identity row =
     (let revision = aget row ''artifact_revision''; build = aget row ''build''
      in if \<not> hashable revision then Inl TypeError
         else case revision of
           PStr r \<Rightarrow>
             req (r \<in> set REVISIONS)
               ''Cache simulation requires a pinned Q4 or mixed-4/8 artifact with Q4 experts''
               (case build of
                  PStr b \<Rightarrow> req (is_sha256 b) ''Route entry requires a full native build fingerprint'' (Inr (r, b))
                | _ \<Rightarrow> Inl (ValueError ''Route entry requires a full native build fingerprint''))
         | _ \<Rightarrow> Inl (ValueError ''Cache simulation requires a pinned Q4 or mixed-4/8 artifact with Q4 experts''))"

text \<open>The routes of one layer pass: top-10 expert IDs per token, no expert twice for a token.\<close>

definition route_list :: "pyval \<Rightarrow> int \<Rightarrow> int list result" where
  "route_list routes tokens =
     (case routes of
        PList rs \<Rightarrow>
          req (len rs = tokens * TOP_K) ''Routes must contain exactly tokens * top-10 expert IDs''
          (bnd (mapm (\<lambda>route. integer route 0 (EXPERTS - 1) ''expert'') rs) (\<lambda>ids.
           req (list_all (\<lambda>g. len (remdups g) = TOP_K) (chunks (nat TOP_K) ids))
             ''A token cannot select the same expert twice'' (Inr ids)))
      | _ \<Rightarrow> Inl (ValueError ''Routes must contain exactly tokens * top-10 expert IDs''))"

fun none_or_str :: "pyval \<Rightarrow> bool" where
  "none_or_str PNone = True"
| "none_or_str (PStr _) = True"
| "none_or_str _ = False"

definition route_event_of :: "bool \<Rightarrow> string \<Rightarrow> (string \<times> pyval) list \<Rightarrow> route_event result" where
  "route_event_of explicit_boundaries pointer row =
     bnd (check_format row) (\<lambda>_.
     bnd (integer (aget row ''layer'') 0 (LAYERS - 1) ''layer'') (\<lambda>layer.
     bnd (integer (aget row ''offset'') 0 8191 ''offset'') (\<lambda>offset.
     bnd (integer (aget row ''tokens'') 1 (8192 - offset) ''tokens'') (\<lambda>tokens.
     bnd (route_list (aget row ''routes'') tokens) (\<lambda>routes.
     let event = \<lparr>ev_pointer = pointer, ev_layer = layer, ev_offset = offset, ev_tokens = tokens,
           ev_phase = aget row ''request_phase'', ev_session = aget row ''session_id'',
           ev_request_id = aget row ''request_id'',
           ev_keys = map (\<lambda>e. layer * EXPERTS + e) (sort (remdups routes))\<rparr>
     in bnd (if explicit_boundaries then integer (ev_request_id event) 1 MAX_ACCESSES ''request_id'' else Inr 0) (\<lambda>_.
        req (none_or_str (ev_phase event) \<and> none_or_str (ev_session event))
          ''Phase/session identity must be a string when recorded'' (Inr event)))))))"

definition same_window :: "route_event \<Rightarrow> route_event \<Rightarrow> bool" where
  "same_window e f \<longleftrightarrow> ev_offset e = ev_offset f \<and> ev_tokens e = ev_tokens f \<and>
     py_eq (ev_phase e) (ev_phase f) \<and> py_eq (ev_session e) (ev_session f) \<and>
     py_eq (ev_request_id e) (ev_request_id f)"

text \<open>The segment a completed window extends, or a new one.\<close>

definition open_segment :: "bool \<Rightarrow> route_event \<Rightarrow> string \<Rightarrow> routes_state \<Rightarrow> routes_state" where
  "open_segment explicit_boundaries first pointer s =
     (if rs_can_continue s \<and> rs_segments s \<noteq> [] \<and>
         sg_end_offset (last (rs_segments s)) = ev_offset first \<and>
         (explicit_boundaries \<or> py_eq (sg_phase (last (rs_segments s))) (ev_phase first)) \<and>
         py_eq (sg_session_id (last (rs_segments s))) (ev_session first)
      then s
      else s\<lparr>rs_barriers := rs_barriers s @
               (if rs_segments s \<noteq> [] \<and> rs_can_continue s
                then [\<lparr>ba_reason = PStr ''position_phase_or_session_boundary'', ba_source_pointer = ev_pointer first\<rparr>]
                else []),
             rs_segments := rs_segments s @ [\<lparr>sg_start_offset = ev_offset first, sg_end_offset = ev_offset first,
               sg_phase = ev_phase first, sg_session_id = ev_session first,
               sg_first_source_pointer = ev_pointer first, sg_last_source_pointer = pointer,
               sg_windows = 0, sg_single_token_windows = 0, sg_accesses = [], sg_phases = [],
               sg_access_spans = []\<rparr>]\<rparr>)"

definition extend_spans :: "nat \<Rightarrow> nat \<Rightarrow> route_event \<Rightarrow> access_span list \<Rightarrow> access_span list" where
  "extend_spans start stop first spans =
     (if spans \<noteq> [] \<and> py_eq (sp_request_id (last spans)) (ev_request_id first) \<and>
         py_eq (sp_phase (last spans)) (ev_phase first)
      then butlast spans @ [(last spans)\<lparr>sp_end := stop\<rparr>]
      else spans @ [\<lparr>sp_start = start, sp_end = stop, sp_request_id = ev_request_id first, sp_phase = ev_phase first\<rparr>])"

definition extend_segment :: "bool \<Rightarrow> route_event list \<Rightarrow> route_event \<Rightarrow> segment \<Rightarrow> segment" where
  "extend_segment explicit_boundaries window event g =
     (let first = hd window;
          start = length (sg_accesses g);
          accesses = sg_accesses g @ concat (map ev_keys window)
      in g\<lparr>sg_phases := (if explicit_boundaries \<and> \<not> list_ex (\<lambda>q. py_eq q (ev_phase first)) (sg_phases g)
                         then sg_phases g @ [ev_phase first] else sg_phases g),
           sg_accesses := accesses,
           sg_access_spans := (if explicit_boundaries
                               then extend_spans start (length accesses) first (sg_access_spans g)
                               else sg_access_spans g),
           sg_end_offset := ev_offset event + ev_tokens event,
           sg_last_source_pointer := ev_pointer event,
           sg_windows := sg_windows g + 1,
           sg_single_token_windows := sg_single_token_windows g + (if ev_tokens event = 1 then 1 else 0)\<rparr>)"

definition total_accesses :: "segment list \<Rightarrow> int" where
  "total_accesses segments = sum_list (map (\<lambda>g. len (sg_accesses g)) segments)"

text \<open>All 48 layers of a window are pending: account for it and extend or open a segment.\<close>

definition close_window :: "bool \<Rightarrow> route_event \<Rightarrow> routes_state \<Rightarrow> routes_state result" where
  "close_window explicit_boundaries event s =
     (let window = rs_pending s;
          s = open_segment explicit_boundaries (hd window) (ev_pointer event) s;
          g = extend_segment explicit_boundaries window event (last (rs_segments s));
          s = s\<lparr>rs_segments := butlast (rs_segments s) @ [g],
                rs_logical_routes := rs_logical_routes s + ev_tokens event * TOP_K * LAYERS,
                rs_passes := rs_passes s + LAYERS, rs_pending := [], rs_can_continue := True\<rparr>
      in req (total_accesses (rs_segments s) \<le> MAX_ACCESSES)
           ''Cache trace exceeds bounded demand count; select a smaller source'' (Inr s))"

text \<open>A pending window that the event does not continue is discarded first.\<close>

definition resume_window :: "route_event \<Rightarrow> routes_state \<Rightarrow> routes_state" where
  "resume_window event s =
     (if rs_pending s \<noteq> [] \<and> (ev_layer event \<noteq> len (rs_pending s) \<or>
         \<not> same_window event (hd (rs_pending s)))
      then discard (PStr ''incomplete_or_discontinuous_window'') (ev_pointer event) s else s)"

definition place_event :: "bool \<Rightarrow> route_event \<Rightarrow> routes_state \<Rightarrow> routes_state result" where
  "place_event explicit_boundaries event s =
     (let s = resume_window event s
      in if rs_pending s = [] \<and> ev_layer event \<noteq> 0
         then Inr (s\<lparr>rs_excluded := rs_excluded s + 1, rs_can_continue := False\<rparr>)
         else let s = s\<lparr>rs_pending := rs_pending s @ [event]\<rparr>
              in if len (rs_pending s) \<noteq> LAYERS then Inr s
                 else close_window explicit_boundaries event s)"

definition route_row :: "string option \<Rightarrow> bool \<Rightarrow> routes_state \<Rightarrow> string \<times> pyval \<Rightarrow> routes_state result" where
  "route_row phase explicit_boundaries s entry =
     (case entry of (pointer, value) \<Rightarrow>
      (case value of
         PDict row \<Rightarrow>
           if explicit_boundaries \<and> ahas row ''cache_boundary''
           then Inr (discard (aget row ''cache_boundary'') pointer
                       (s\<lparr>rs_explicit_events := rs_explicit_events s + 1\<rparr>))
           else if (case phase of None \<Rightarrow> False | Some q \<Rightarrow> \<not> py_eq (aget row ''request_phase'') (PStr q))
           then Inr ((discard (PStr ''phase_filter'') pointer s)\<lparr>rs_filtered := rs_filtered s + 1\<rparr>)
           else if \<not> ahas row ''routes''
           then Inr ((discard (PStr ''missing_routes'') pointer s)\<lparr>rs_missing_routes := rs_missing_routes s + 1\<rparr>)
           else bnd (route_identity row) (\<lambda>current.
                req (rs_identity s = None \<or> rs_identity s = Some current)
                  ''Do not combine artifact revisions or native builds in a cache curve''
                (bnd (route_event_of explicit_boundaries pointer row) (\<lambda>event.
                 place_event explicit_boundaries event (s\<lparr>rs_identity := Some current\<rparr>))))
       | _ \<Rightarrow> Inl (ValueError ''Route trace entries must be objects'')))"

section \<open>The report\<close>

record coverage =
  co_identity :: "(string \<times> string) option"
  co_input_passes :: int
  co_explicit_boundary_events :: int
  co_included_passes :: int
  co_excluded_incomplete_passes :: int
  co_missing_route_passes :: int
  co_filtered_passes :: int
  co_incomplete_windows :: int
  co_logical_router_selections :: int
  co_demand_record_accesses :: int
  co_within_pass_grouped_selections :: int
  co_compulsory_misses :: int
  co_segment_count :: int
  co_boundary_count :: int
  co_boundaries :: "barrier list"
  co_boundary_details_truncated :: bool
  co_segments :: "segment list"
  co_segment_details_truncated :: bool
  co_phase_filter :: "string option"

text \<open>Segment summaries leave the accesses and their spans out.\<close>

definition segment_summary :: "segment \<Rightarrow> segment" where
  "segment_summary g = g\<lparr>sg_accesses := [], sg_access_spans := []\<rparr>"

definition route_segments ::
  "(string \<times> pyval) list \<Rightarrow> string option \<Rightarrow> bool \<Rightarrow> (segment list \<times> coverage) result" where
  "route_segments rows phase explicit_boundaries =
     bnd (foldm (route_row phase explicit_boundaries) routes_init rows) (\<lambda>s.
     let s = (if rs_pending s \<noteq> []
              then discard (PStr ''incomplete_final_window'') (ev_pointer (last (rs_pending s))) s else s);
         segments = rs_segments s;
         demands = total_accesses segments
     in Inr (segments, \<lparr>
          co_identity = rs_identity s,
          co_input_passes = len rows - rs_explicit_events s,
          co_explicit_boundary_events = rs_explicit_events s,
          co_included_passes = rs_passes s,
          co_excluded_incomplete_passes = rs_excluded s,
          co_missing_route_passes = rs_missing_routes s,
          co_filtered_passes = rs_filtered s,
          co_incomplete_windows = rs_incomplete s,
          co_logical_router_selections = rs_logical_routes s,
          co_demand_record_accesses = demands,
          co_within_pass_grouped_selections = rs_logical_routes s - demands,
          co_compulsory_misses = sum_list (map (\<lambda>g. len (remdups (sg_accesses g))) segments),
          co_segment_count = len segments,
          co_boundary_count = len (rs_barriers s),
          co_boundaries = take 20 (rs_barriers s),
          co_boundary_details_truncated = (20 < length (rs_barriers s)),
          co_segments = map segment_summary (take 20 segments),
          co_segment_details_truncated = (20 < length segments),
          co_phase_filter = phase\<rparr>))"

section \<open>What an accepted event looks like\<close>

text \<open>
  The keys of one layer pass: distinct, ascending, inside the layer's range of expert keys, at
  least one and at most one per routed selection.
\<close>

definition event_ok :: "route_event \<Rightarrow> bool" where
  "event_ok e \<longleftrightarrow> 0 \<le> ev_layer e \<and> ev_layer e < LAYERS \<and> 0 \<le> ev_offset e \<and> 1 \<le> ev_tokens e \<and>
     ev_offset e + ev_tokens e \<le> 8192 \<and> ev_keys e \<noteq> [] \<and> distinct (ev_keys e) \<and> sorted (ev_keys e) \<and>
     len (ev_keys e) \<le> ev_tokens e * TOP_K \<and>
     (\<forall>k\<in>set (ev_keys e). ev_layer e * EXPERTS \<le> k \<and> k < (ev_layer e + 1) * EXPERTS)"

lemma route_list_eq_Inr:
  assumes "route_list routes tokens = Inr ids"
  shows "len ids = tokens * TOP_K" and "\<forall>e\<in>set ids. 0 \<le> e \<and> e < EXPERTS"
    and "routes = PList (map PInt ids)"
    and "\<forall>g\<in>set (chunks (nat TOP_K) ids). len (remdups g) = TOP_K"
proof -
  obtain rs where rs: "routes = PList rs" "len rs = tokens * TOP_K"
    and m: "mapm (\<lambda>route. integer route 0 (EXPERTS - 1) ''expert'') rs = Inr ids"
    and d: "list_all (\<lambda>g. len (remdups g) = TOP_K) (chunks (nat TOP_K) ids)"
    using assms by (auto simp: route_list_def ok_simps split: pyval.splits)
  from m have a: "list_all2 (\<lambda>r i. r = PInt i \<and> 0 \<le> i \<and> i \<le> EXPERTS - 1) rs ids"
    by (simp add: mapm_eq_Inr ok_simps)
  then have l: "length ids = length rs" by (auto dest: list_all2_lengthD)
  then show "len ids = tokens * TOP_K" using rs by (simp add: len_def)
  have "rs = map PInt ids"
    using a by (auto simp: list_all2_conv_all_nth intro: nth_equalityI)
  then show "routes = PList (map PInt ids)" using rs by simp
  show "\<forall>e\<in>set ids. 0 \<le> e \<and> e < EXPERTS"
    using a by (force simp: list_all2_conv_all_nth in_set_conv_nth)
  show "\<forall>g\<in>set (chunks (nat TOP_K) ids). len (remdups g) = TOP_K"
    using d by (simp add: list_all_iff)
qed

lemma route_event_of_ok:
  assumes "route_event_of explicit_boundaries pointer row = Inr e"
  shows "event_ok e"
proof -
  obtain layer offset tokens routes where
    b: "0 \<le> layer" "layer \<le> LAYERS - 1" "0 \<le> offset" "1 \<le> tokens" "tokens \<le> 8192 - offset"
    and r: "route_list (aget row ''routes'') tokens = Inr routes"
    and e: "ev_layer e = layer" "ev_offset e = offset" "ev_tokens e = tokens"
      "ev_keys e = map (\<lambda>e. layer * EXPERTS + e) (sort (remdups routes))"
    using assms by (auto simp: route_event_of_def ok_simps Let_def)
  note R = route_list_eq_Inr [OF r]
  have "routes \<noteq> []" using R(1) b(4) by (auto simp: len_def TOP_K_def)
  then have "sort (remdups routes) \<noteq> []" by (metis set_empty set_remdups set_sort)
  moreover have "int (length (remdups routes)) \<le> int (length routes)" by simp
  then have "int (length (remdups routes)) \<le> tokens * TOP_K" using R(1) by (simp only: len_def)
  moreover have "sorted (map (\<lambda>e. layer * EXPERTS + e) (sort (remdups routes)))"
    by (simp add: sorted_map)
  ultimately show ?thesis
    using b R(2) by (auto simp: event_ok_def e len_def distinct_map inj_on_def algebra_simps)
qed

section \<open>The invariant of the loop\<close>

text \<open>
  Pending events are layers 0, 1, ... of one window. A segment holds only keys of the checkpoint
  and, when spans are kept, the last span ends with its accesses.
\<close>

definition pending_ok :: "route_event list \<Rightarrow> bool" where
  "pending_ok es \<longleftrightarrow> (\<forall>i<length es. event_ok (es ! i) \<and> ev_layer (es ! i) = int i \<and> ev_tokens (es ! i) = ev_tokens (hd es))"

definition keys_ok :: "int list \<Rightarrow> bool" where
  "keys_ok ks \<longleftrightarrow> (\<forall>k\<in>set ks. 0 \<le> k \<and> k < LAYERS * EXPERTS)"

definition segment_ok :: "bool \<Rightarrow> segment \<Rightarrow> bool" where
  "segment_ok explicit_boundaries g \<longleftrightarrow> keys_ok (sg_accesses g) \<and> sg_accesses g \<noteq> [] \<and>
     (if explicit_boundaries
      then sg_access_spans g \<noteq> [] \<and> sp_end (last (sg_access_spans g)) = length (sg_accesses g)
      else sg_access_spans g = [])"

definition routes_inv :: "bool \<Rightarrow> routes_state \<Rightarrow> bool" where
  "routes_inv explicit_boundaries s \<longleftrightarrow>
     pending_ok (rs_pending s) \<and> len (rs_pending s) < LAYERS \<and>
     (\<forall>g\<in>set (rs_segments s). segment_ok explicit_boundaries g) \<and>
     total_accesses (rs_segments s) \<le> rs_logical_routes s \<and>
     (rs_can_continue s \<longrightarrow> rs_segments s \<noteq> [])"

text \<open>Every row is accounted for once: in a complete window, pending, or in one of the exclusions.\<close>

definition rows_seen :: "routes_state \<Rightarrow> int" where
  "rows_seen s = rs_passes s + rs_excluded s + rs_missing_routes s + rs_filtered s +
     rs_explicit_events s + len (rs_pending s)"

lemma routes_init_inv: "routes_inv explicit_boundaries routes_init"
  by (simp add: routes_inv_def routes_init_def pending_ok_def total_accesses_def len_def LAYERS_def)

lemma pending_ok_Nil [simp]: "pending_ok []"
  by (simp add: pending_ok_def)

lemma discard_inv: "routes_inv explicit_boundaries s \<Longrightarrow> routes_inv explicit_boundaries (discard reason pointer s)"
  by (simp add: routes_inv_def discard_def pending_ok_def len_def LAYERS_def)

lemma discard_rows_seen: "rows_seen (discard reason pointer s) = rows_seen s"
  by (simp add: rows_seen_def discard_def len_def)

lemma pending_ok_snoc:
  assumes "pending_ok es" and "event_ok e" and "ev_layer e = len es"
    and "es = [] \<or> ev_tokens e = ev_tokens (hd es)"
  shows "pending_ok (es @ [e])"
  unfolding pending_ok_def
proof (intro allI impI)
  fix i
  assume i: "i < length (es @ [e])"
  have hd: "ev_tokens (hd (es @ [e])) = (if es = [] then ev_tokens e else ev_tokens (hd es))"
    by (cases es) auto
  show "event_ok ((es @ [e]) ! i) \<and> ev_layer ((es @ [e]) ! i) = int i \<and>
        ev_tokens ((es @ [e]) ! i) = ev_tokens (hd (es @ [e]))"
  proof (cases "i < length es")
    case True
    then show ?thesis using assms(1) hd by (auto simp: pending_ok_def nth_append)
  next
    case False
    then have "i = length es" using i by simp
    then show ?thesis using assms(2,3,4) hd by (auto simp: len_def)
  qed
qed

lemma window_keys:
  assumes "pending_ok es"
  shows "len es \<le> LAYERS \<Longrightarrow> keys_ok (concat (map ev_keys es))"
    and "len (concat (map ev_keys es)) \<le> len es * (ev_tokens (hd es) * TOP_K)"
proof -
  have ev: "event_ok e \<and> ev_tokens e = ev_tokens (hd es) \<and> ev_layer e < len es" if "e \<in> set es" for e
    using assms that by (force simp: pending_ok_def in_set_conv_nth len_def)
  show "keys_ok (concat (map ev_keys es))" if l: "len es \<le> LAYERS"
  proof -
    have "0 \<le> k \<and> k < LAYERS * EXPERTS" if e: "e \<in> set es" "k \<in> set (ev_keys e)" for e k
      using ev [OF e(1)] e(2) l by (fastforce simp: event_ok_def LAYERS_def EXPERTS_def)
    then show ?thesis by (auto simp: keys_ok_def)
  qed
  have "len (concat (map ev_keys fs)) \<le> len fs * (ev_tokens (hd es) * TOP_K)" if "set fs \<subseteq> set es" for fs
    using that
  proof (induction fs)
    case Nil
    then show ?case by (simp add: len_def)
  next
    case (Cons f fs)
    then show ?case using ev [of f] by (auto simp: event_ok_def len_def algebra_simps)
  qed
  then show "len (concat (map ev_keys es)) \<le> len es * (ev_tokens (hd es) * TOP_K)" by simp
qed

lemma open_segment_facts:
  assumes "rs_can_continue s \<longrightarrow> rs_segments s \<noteq> []"
  shows "rs_segments (open_segment ex first pointer s) \<noteq> []"
    and "total_accesses (rs_segments (open_segment ex first pointer s)) = total_accesses (rs_segments s)"
    and "\<forall>g\<in>set (butlast (rs_segments (open_segment ex first pointer s))). g \<in> set (rs_segments s)"
    and "last (rs_segments (open_segment ex first pointer s)) \<in> set (rs_segments s) \<or>
         sg_accesses (last (rs_segments (open_segment ex first pointer s))) = [] \<and>
         sg_access_spans (last (rs_segments (open_segment ex first pointer s))) = []"
    and "rs_logical_routes (open_segment ex first pointer s) = rs_logical_routes s"
    and "rs_passes (open_segment ex first pointer s) = rs_passes s"
    and "rs_excluded (open_segment ex first pointer s) = rs_excluded s"
    and "rs_missing_routes (open_segment ex first pointer s) = rs_missing_routes s"
    and "rs_filtered (open_segment ex first pointer s) = rs_filtered s"
    and "rs_explicit_events (open_segment ex first pointer s) = rs_explicit_events s"
    and "rs_pending (open_segment ex first pointer s) = rs_pending s"
  using assms by (auto simp: open_segment_def total_accesses_def len_def dest: in_set_butlastD)

lemma last_extend_spans: "extend_spans start stop first spans \<noteq> [] \<and> sp_end (last (extend_spans start stop first spans)) = stop"
  by (simp add: extend_spans_def)

lemma extend_segment_ok:
  assumes g: "segment_ok ex g \<or> sg_accesses g = [] \<and> sg_access_spans g = []"
    and w: "pending_ok window" "len window = LAYERS"
  shows "segment_ok ex (extend_segment ex window event g)"
    and "len (sg_accesses (extend_segment ex window event g)) \<le>
         len (sg_accesses g) + LAYERS * (ev_tokens (hd window) * TOP_K)"
proof -
  obtain e es where win: "window = e # es" using w(2) by (cases window) (auto simp: len_def LAYERS_def)
  then have "ev_keys e \<noteq> []" using w(1) by (force simp: pending_ok_def event_ok_def)
  then have ne: "concat (map ev_keys window) \<noteq> []" using win by simp
  have k: "keys_ok (concat (map ev_keys window))"
    using window_keys(1) [OF w(1)] w(2) by simp
  show "segment_ok ex (extend_segment ex window event g)"
    using g k ne last_extend_spans
    by (auto simp: segment_ok_def extend_segment_def Let_def keys_ok_def)
  show "len (sg_accesses (extend_segment ex window event g)) \<le>
         len (sg_accesses g) + LAYERS * (ev_tokens (hd window) * TOP_K)"
    using window_keys(2) [OF w(1)] w(2) by (simp add: extend_segment_def Let_def len_def)
qed

lemma total_accesses_last:
  "gs \<noteq> [] \<Longrightarrow> total_accesses gs = total_accesses (butlast gs) + len (sg_accesses (last gs))"
  by (cases gs rule: rev_cases) (auto simp: total_accesses_def)

text \<open>Closing a window fails only when its demands would exceed the bound.\<close>

lemma close_window_bound:
  assumes s: "pending_ok (rs_pending s)" "len (rs_pending s) = LAYERS"
    "\<forall>g\<in>set (rs_segments s). segment_ok ex g" "total_accesses (rs_segments s) \<le> rs_logical_routes s"
    "rs_can_continue s \<longrightarrow> rs_segments s \<noteq> []"
    and tok: "ev_tokens event = ev_tokens (hd (rs_pending s))"
    and run: "close_window ex event s = Inl err"
  shows "MAX_ACCESSES < rs_logical_routes s + ev_tokens event * TOP_K * LAYERS"
proof -
  let ?o = "open_segment ex (hd (rs_pending s)) (ev_pointer event) s"
  let ?g = "extend_segment ex (rs_pending s) event (last (rs_segments ?o))"
  note O = open_segment_facts [OF s(5), of ex "hd (rs_pending s)" "ev_pointer event"]
  have old: "segment_ok ex (last (rs_segments ?o)) \<or> sg_accesses (last (rs_segments ?o)) = [] \<and> sg_access_spans (last (rs_segments ?o)) = []"
    using O(4) s(3) by blast
  note E = extend_segment_ok [OF old s(1,2), of event]
  have "total_accesses (butlast (rs_segments ?o) @ [?g]) \<le> rs_logical_routes s + ev_tokens event * TOP_K * LAYERS"
    using E(2) s(4) O(2) total_accesses_last [OF O(1)] tok
    by (simp add: total_accesses_def algebra_simps)
  moreover have "MAX_ACCESSES < total_accesses (butlast (rs_segments ?o) @ [?g])"
    using run by (simp add: close_window_def Let_def req_def split: if_splits)
  ultimately show ?thesis by simp
qed

lemma close_window_inv:
  assumes s: "pending_ok (rs_pending s)" "len (rs_pending s) = LAYERS"
    "\<forall>g\<in>set (rs_segments s). segment_ok ex g" "total_accesses (rs_segments s) \<le> rs_logical_routes s"
    "rs_can_continue s \<longrightarrow> rs_segments s \<noteq> []"
    and tok: "ev_tokens event = ev_tokens (hd (rs_pending s))"
    and run: "close_window ex event s = Inr t"
  shows "routes_inv ex t \<and> rows_seen t = rows_seen s"
proof -
  let ?o = "open_segment ex (hd (rs_pending s)) (ev_pointer event) s"
  let ?g = "extend_segment ex (rs_pending s) event (last (rs_segments ?o))"
  note O = open_segment_facts [OF s(5), of ex "hd (rs_pending s)" "ev_pointer event"]
  have old: "segment_ok ex (last (rs_segments ?o)) \<or> sg_accesses (last (rs_segments ?o)) = [] \<and> sg_access_spans (last (rs_segments ?o)) = []"
    using O(4) s(3) by blast
  note E = extend_segment_ok [OF old s(1,2), of event]
  have t: "t = ?o\<lparr>rs_segments := butlast (rs_segments ?o) @ [?g],
      rs_logical_routes := rs_logical_routes ?o + ev_tokens event * TOP_K * LAYERS,
      rs_passes := rs_passes ?o + LAYERS, rs_pending := [], rs_can_continue := True\<rparr>"
    using run by (simp add: close_window_def Let_def ok_simps)
  have "total_accesses (butlast (rs_segments ?o) @ [?g]) \<le> rs_logical_routes s + ev_tokens event * TOP_K * LAYERS"
    using E(2) s(4) O(2) total_accesses_last [OF O(1)] tok
    by (simp add: total_accesses_def algebra_simps)
  then have "routes_inv ex t"
    using E(1) O(3,5) s(3) by (auto simp: t routes_inv_def len_def LAYERS_def)
  moreover have "rows_seen t = rows_seen s"
    using O(6,7,8,9,10,11) s(2) by (simp add: t rows_seen_def len_def)
  ultimately show ?thesis ..
qed

lemma place_event_inv:
  assumes inv: "routes_inv ex s" and ev: "event_ok event" and run: "place_event ex event s = Inr t"
  shows "routes_inv ex t \<and> rows_seen t = rows_seen s + 1"
proof -
  define u where "u = resume_window event s"
  have u: "routes_inv ex u" "rows_seen u = rows_seen s"
    using inv discard_inv discard_rows_seen by (auto simp: u_def resume_window_def)
  have match: "rs_pending u = [] \<or> ev_layer event = len (rs_pending u) \<and> ev_tokens event = ev_tokens (hd (rs_pending u))"
    by (auto simp: u_def resume_window_def discard_def same_window_def)
  show ?thesis
  proof (cases "rs_pending u = [] \<and> ev_layer event \<noteq> 0")
    case True
    then have "t = u\<lparr>rs_excluded := rs_excluded u + 1, rs_can_continue := False\<rparr>"
      using run by (simp add: place_event_def u_def [symmetric] Let_def)
    then show ?thesis using u by (simp add: routes_inv_def rows_seen_def)
  next
    case False
    let ?v = "u\<lparr>rs_pending := rs_pending u @ [event]\<rparr>"
    have layer: "ev_layer event = len (rs_pending u)" using False match by (auto simp: len_def)
    have p: "pending_ok (rs_pending ?v)"
      using pending_ok_snoc [of "rs_pending u" event] u(1) ev layer match by (auto simp: routes_inv_def)
    have seen: "rows_seen ?v = rows_seen s + 1" using u(2) by (simp add: rows_seen_def len_def)
    show ?thesis
    proof (cases "len (rs_pending ?v) = LAYERS")
      case False
      then have "t = ?v" using run \<open>\<not> (rs_pending u = [] \<and> ev_layer event \<noteq> 0)\<close>
        by (simp add: place_event_def u_def [symmetric] Let_def)
      then show ?thesis using u(1) p False seen by (auto simp: routes_inv_def len_def)
    next
      case True
      then have "close_window ex event ?v = Inr t"
        using run \<open>\<not> (rs_pending u = [] \<and> ev_layer event \<noteq> 0)\<close>
        by (simp add: place_event_def u_def [symmetric] Let_def)
      moreover have "ev_tokens event = ev_tokens (hd (rs_pending ?v))"
        using match by (cases "rs_pending u") auto
      ultimately show ?thesis
        using close_window_inv [of ?v ex event t] p True u(1) seen by (simp add: routes_inv_def)
    qed
  qed
qed

lemma route_row_inv:
  assumes inv: "routes_inv ex s" and run: "route_row phase ex s entry = Inr t"
  shows "routes_inv ex t \<and> rows_seen t = rows_seen s + 1"
proof -
  obtain pointer v where entry: "entry = (pointer, v)" by fastforce
  obtain row where row: "v = PDict row"
    using run by (cases v) (auto simp: route_row_def entry)
  consider (boundary) "t = discard (aget row ''cache_boundary'') pointer (s\<lparr>rs_explicit_events := rs_explicit_events s + 1\<rparr>)"
    | (filtered) "t = (discard (PStr ''phase_filter'') pointer s)\<lparr>rs_filtered := rs_filtered s + 1\<rparr>"
    | (missing) "t = (discard (PStr ''missing_routes'') pointer s)\<lparr>rs_missing_routes := rs_missing_routes s + 1\<rparr>"
    | (event) current e where "route_event_of ex pointer row = Inr e"
        "place_event ex e (s\<lparr>rs_identity := Some current\<rparr>) = Inr t"
    using run by (auto simp: route_row_def entry row ok_simps split: if_splits)
  then show ?thesis
  proof cases
    case boundary
    then show ?thesis using inv by (simp add: routes_inv_def rows_seen_def discard_def len_def LAYERS_def)
  next
    case filtered
    then show ?thesis using inv by (simp add: routes_inv_def rows_seen_def discard_def len_def LAYERS_def)
  next
    case missing
    then show ?thesis using inv by (simp add: routes_inv_def rows_seen_def discard_def len_def LAYERS_def)
  next
    case event
    have "routes_inv ex (s\<lparr>rs_identity := Some current\<rparr>)" using inv by (simp add: routes_inv_def)
    from place_event_inv [OF this route_event_of_ok [OF event(1)] event(2)]
    show ?thesis by (simp add: rows_seen_def)
  qed
qed

lemma routes_loop_inv:
  "routes_inv ex s \<Longrightarrow> foldm (route_row phase ex) s rows = Inr t \<Longrightarrow>
   routes_inv ex t \<and> rows_seen t = rows_seen s + len rows"
proof (induction rows arbitrary: s)
  case Nil
  then show ?case by (simp add: len_def)
next
  case (Cons row rows)
  then obtain u where u: "route_row phase ex s row = Inr u" "foldm (route_row phase ex) u rows = Inr t"
    by (auto simp: ok_simps)
  from route_row_inv [OF Cons.prems(1) u(1)] Cons.IH [OF _ u(2)] show ?case by (simp add: len_def)
qed

text \<open>What a successful call returns, over the state after the loop.\<close>

lemma route_segments_eq_Inr:
  assumes "route_segments rows phase ex = Inr (segments, report)"
  obtains s where "routes_inv ex s" "rows_seen s = len rows" "rs_pending s = []"
    "segments = rs_segments s" "co_included_passes report = rs_passes s"
    "co_excluded_incomplete_passes report = rs_excluded s" "co_missing_route_passes report = rs_missing_routes s"
    "co_filtered_passes report = rs_filtered s" "co_input_passes report = len rows - rs_explicit_events s"
    "co_logical_router_selections report = rs_logical_routes s"
    "co_demand_record_accesses report = total_accesses (rs_segments s)"
    "co_compulsory_misses report = sum_list (map (\<lambda>g. len (remdups (sg_accesses g))) (rs_segments s))"
    "co_identity report = rs_identity s"
    "co_within_pass_grouped_selections report = rs_logical_routes s - total_accesses (rs_segments s)"
proof -
  obtain t where t: "foldm (route_row phase ex) routes_init rows = Inr t"
    using assms by (auto simp: route_segments_def ok_simps)
  define s where "s = (if rs_pending t \<noteq> []
    then discard (PStr ''incomplete_final_window'') (ev_pointer (last (rs_pending t))) t else t)"
  have "routes_inv ex t" "rows_seen t = len rows"
    using routes_loop_inv [OF routes_init_inv t] by (auto simp: rows_seen_def routes_init_def len_def)
  then have "routes_inv ex s" "rows_seen s = len rows" "rs_pending s = []"
    by (auto simp: s_def discard_inv discard_rows_seen) (simp add: discard_def)
  then show thesis
    by (rule that) (use assms t in \<open>auto simp: route_segments_def s_def [symmetric] Let_def\<close>)
qed

section \<open>Every pass is accounted for\<close>

text \<open>
  C7: \<open>route_segments\<close> loses no row: the layer passes of the input are exactly those included in
  complete windows, excluded with an incomplete window, without routes, or filtered by phase.
  The recorded demands never exceed the logical selections, and every segment holds only expert
  keys of the checkpoint.
\<close>

theorem route_segments_account:
  assumes "route_segments rows phase explicit_boundaries = Inr (segments, report)"
  shows "co_input_passes report = co_included_passes report + co_excluded_incomplete_passes report +
      co_missing_route_passes report + co_filtered_passes report \<and>
    0 \<le> co_within_pass_grouped_selections report \<and>
    co_demand_record_accesses report = total_accesses segments \<and>
    (\<forall>g\<in>set segments. segment_ok explicit_boundaries g)"
proof -
  obtain s where s: "routes_inv explicit_boundaries s" "rows_seen s = len rows" "rs_pending s = []"
    "segments = rs_segments s" "co_included_passes report = rs_passes s"
    "co_excluded_incomplete_passes report = rs_excluded s" "co_missing_route_passes report = rs_missing_routes s"
    "co_filtered_passes report = rs_filtered s" "co_input_passes report = len rows - rs_explicit_events s"
    "co_logical_router_selections report = rs_logical_routes s"
    "co_demand_record_accesses report = total_accesses (rs_segments s)"
    "co_within_pass_grouped_selections report = rs_logical_routes s - total_accesses (rs_segments s)"
    using route_segments_eq_Inr [OF assms] by metis
  then show ?thesis by (simp add: routes_inv_def rows_seen_def len_def)
qed

definition sample_route_row :: "int \<Rightarrow> (string \<times> pyval) list" where
  "sample_route_row layer =
     [(''layer'', PInt layer), (''offset'', PInt 0), (''tokens'', PInt 1),
      (''routes'', PList (map PInt [0..9])), (''build'', PStr (replicate 64 CHR ''a'')),
      (''artifact_revision'', PStr (hd REVISIONS))]"

lemma route_segments_account_witness:
  "\<exists>segments report.
     route_segments [(''line:1'', PDict (sample_route_row 0)), (''line:2'', PDict []), (''line:3'', PDict (sample_route_row 5))]
       None False = Inr (segments, report) \<and>
     co_input_passes report = 3 \<and> co_excluded_incomplete_passes report = 2 \<and> co_missing_route_passes report = 1 \<and>
     co_input_passes report = co_included_passes report + co_excluded_incomplete_passes report +
       co_missing_route_passes report + co_filtered_passes report"
proof -
  let ?rows = "[(''line:1'', PDict (sample_route_row 0)), (''line:2'', PDict []), (''line:3'', PDict (sample_route_row 5))]"
  have e: "map_sum id (\<lambda>(g, r). (co_input_passes r, co_excluded_incomplete_passes r, co_missing_route_passes r))
      (route_segments ?rows None False) = Inr (3, 2, 1)" by code_simp
  then obtain segments report where r: "route_segments ?rows None False = Inr (segments, report)"
    by (cases "route_segments ?rows None False") auto
  show ?thesis using e route_segments_account [OF r] r by (intro exI [of _ segments] exI [of _ report]) simp
qed

section \<open>One complete window\<close>

text \<open>
  The 48 passes of a single token, each selecting the experts 0..9: the smallest input that opens a
  segment. The witnesses of the simulator run on it.
\<close>

definition single_row :: "int \<Rightarrow> (string \<times> pyval) list" where
  "single_row layer =
     [(''artifact_revision'', PStr (hd REVISIONS)), (''build'', PStr (replicate 64 CHR ''a'')), (''layer'', PInt layer),
      (''offset'', PInt 0), (''routes'', PList (map PInt [0..9])), (''tokens'', PInt 1)]"

definition single_event :: "string \<Rightarrow> int \<Rightarrow> route_event" where
  "single_event pointer layer = \<lparr>ev_pointer = pointer, ev_layer = layer, ev_offset = 0, ev_tokens = 1, ev_phase = PNone,
     ev_session = PNone, ev_request_id = PNone, ev_keys = map (\<lambda>e. layer * EXPERTS + e) [0..9]\<rparr>"

abbreviation single_identity :: "string \<times> string" where
  "single_identity \<equiv> (hd REVISIONS, replicate 64 CHR ''a'')"

lemma single_row_event:
  assumes "0 \<le> layer" and "layer < 48"
  shows "route_identity (single_row layer) = Inr single_identity"
    and "route_event_of False pointer (single_row layer) = Inr (single_event pointer layer)"
proof -
  have "is_sha256 (replicate 64 CHR ''a'')" by code_simp
  then show "route_identity (single_row layer) = Inr single_identity"
    by (simp add: route_identity_def single_row_def aget_def req_def REVISIONS_def)
  have r: "route_list (PList (map PInt [0..9])) 1 = Inr [0..9]" by code_simp
  have s: "sort (remdups [0..9::int]) = [0..9]" by code_simp
  show "route_event_of False pointer (single_row layer) = Inr (single_event pointer layer)"
    using assms by (simp add: route_event_of_def single_row_def check_format_def aget_def ahas_def req_def integer_def
      LAYERS_def r s single_event_def del: upto_rec_numeral)
qed

definition single_rows :: "(nat \<Rightarrow> string) \<Rightarrow> (string \<times> pyval) list" where
  "single_rows pointer = map (\<lambda>l. (pointer l, PDict (single_row (int l)))) [0..<48]"

lemma single_step:
  assumes "0 \<le> layer" and "layer < 48" and "rs_identity s = None \<or> rs_identity s = Some single_identity"
  shows "route_row None False s (pointer, PDict (single_row layer)) =
    place_event False (single_event pointer layer) (s\<lparr>rs_identity := Some single_identity\<rparr>)"
proof -
  have "ahas (single_row layer) ''routes''" by (simp add: single_row_def ahas_def)
  then show ?thesis using assms by (auto simp: route_row_def single_row_event req_def)
qed

definition single_events :: "(nat \<Rightarrow> string) \<Rightarrow> nat \<Rightarrow> route_event list" where
  "single_events pointer k = map (\<lambda>l. single_event (pointer l) (int l)) [0..<k]"

lemma single_events_simps:
  "single_events pointer 0 = []" "single_events pointer (Suc k) = single_events pointer k @ [single_event (pointer k) (int k)]"
  "length (single_events pointer k) = k" "(single_events pointer k = []) = (k = 0)"
  by (simp_all add: single_events_def)

lemma hd_single_events: "0 < k \<Longrightarrow> hd (single_events pointer k) = single_event (pointer 0) 0"
  by (simp add: single_events_def hd_map)

lemma same_single_event: "same_window (single_event p l) (single_event q m)"
  by (simp add: same_window_def single_event_def)

lemma single_resumes:
  "rs_pending s = single_events pointer k \<Longrightarrow> resume_window (single_event p (int k)) s = s"
  by (cases "k = 0") (simp_all add: resume_window_def single_events_simps len_def hd_single_events same_single_event,
    simp add: single_event_def)

lemma single_placed:
  assumes "rs_pending s = single_events pointer k" and "k < 47"
  shows "place_event False (single_event (pointer k) (int k)) s = Inr (s\<lparr>rs_pending := single_events pointer (Suc k)\<rparr>)"
  using assms by (simp add: place_event_def single_resumes single_events_simps len_def LAYERS_def Let_def)
    (auto simp: single_event_def)

lemma single_rows_pending:
  assumes "k < 48"
  shows "foldm (route_row None False) routes_init (map (\<lambda>l. (pointer l, PDict (single_row (int l)))) [0..<k]) =
    Inr (routes_init\<lparr>rs_pending := single_events pointer k, rs_identity := (if k = 0 then None else Some single_identity)\<rparr>)"
  using assms
proof (induction k)
  case 0
  then show ?case by (simp add: single_events_simps routes_init_def)
next
  case (Suc k)
  let ?s = "routes_init\<lparr>rs_pending := single_events pointer k, rs_identity := (if k = 0 then None else Some single_identity)\<rparr>"
  have "route_row None False ?s (pointer k, PDict (single_row (int k))) =
    place_event False (single_event (pointer k) (int k)) (?s\<lparr>rs_identity := Some single_identity\<rparr>)"
    by (rule single_step) (use Suc.prems in auto)
  then show ?case using Suc single_placed [of "?s\<lparr>rs_identity := Some single_identity\<rparr>" pointer k]
    by (simp add: foldm_append)
qed

definition single_segment :: "(nat \<Rightarrow> string) \<Rightarrow> segment" where
  "single_segment pointer = \<lparr>sg_start_offset = 0, sg_end_offset = 1, sg_phase = PNone, sg_session_id = PNone,
     sg_first_source_pointer = pointer 0, sg_last_source_pointer = pointer 47, sg_windows = 1,
     sg_single_token_windows = 1, sg_accesses = concat (map (\<lambda>l. map (\<lambda>e. int l * EXPERTS + e) [0..9]) [0..<48]),
     sg_phases = [], sg_access_spans = []\<rparr>"

lemma single_segment_accesses: "len (sg_accesses (single_segment pointer)) = 480"
  by (simp add: single_segment_def len_def length_concat comp_def sum_list_triv)

lemma single_extended:
  "extend_segment False (single_events pointer 48) (single_event (pointer 47) 47)
     \<lparr>sg_start_offset = 0, sg_end_offset = 0, sg_phase = PNone, sg_session_id = PNone,
      sg_first_source_pointer = pointer 0, sg_last_source_pointer = pointer 47, sg_windows = 0, sg_single_token_windows = 0,
      sg_accesses = [], sg_phases = [], sg_access_spans = []\<rparr> = single_segment pointer"
  unfolding extend_segment_def Let_def single_segment_def single_events_def map_map comp_def
  by (simp add: single_event_def del: upt_rec_numeral)

lemma single_closed:
  "foldm (route_row None False) routes_init (single_rows pointer) =
    Inr (routes_init\<lparr>rs_segments := [single_segment pointer], rs_identity := Some single_identity,
      rs_logical_routes := 480, rs_passes := 48, rs_can_continue := True\<rparr>)"
proof -
  have u: "[0..<48] = [0..<47] @ [47::nat]" by code_simp
  have e: "single_events pointer 47 @ [single_event (pointer 47) 47] = single_events pointer 48"
    using single_events_simps(2) [of pointer 47] by simp
  have h: "hd (single_events pointer 48) = single_event (pointer 0) 0" by (rule hd_single_events) simp
  let ?s = "routes_init\<lparr>rs_pending := single_events pointer 47, rs_identity := Some single_identity\<rparr>"
  have last_step: "route_row None False ?s (pointer 47, PDict (single_row 47)) =
    place_event False (single_event (pointer 47) 47) ?s" by (subst single_step) simp_all
  have total: "total_accesses [single_segment pointer] \<le> MAX_ACCESSES"
    by (simp add: total_accesses_def single_segment_accesses MAX_ACCESSES_def)
  have close: "close_window False (single_event (pointer 47) 47) (?s\<lparr>rs_pending := single_events pointer 48\<rparr>) =
      Inr (routes_init\<lparr>rs_segments := [single_segment pointer], rs_identity := Some single_identity,
        rs_logical_routes := 480, rs_passes := 48, rs_can_continue := True\<rparr>)"
    using total single_extended [of pointer]
    by (simp add: close_window_def open_segment_def routes_init_def Let_def h TOP_K_def LAYERS_def req_def)
      (simp add: single_event_def TOP_K_def LAYERS_def)
  have "place_event False (single_event (pointer 47) 47) ?s =
    close_window False (single_event (pointer 47) 47) (?s\<lparr>rs_pending := single_events pointer 48\<rparr>)"
    using single_resumes [of ?s pointer 47 "pointer 47"]
    by (simp add: place_event_def Let_def e single_events_simps len_def LAYERS_def)
  then show ?thesis
    unfolding single_rows_def u map_append foldm_append
    using single_rows_pending [of 47 pointer] last_step close by simp
qed

lemma single_cut:
  "\<exists>report. route_segments (single_rows pointer) None False = Inr ([single_segment pointer], report) \<and>
     co_identity report = Some single_identity \<and> co_demand_record_accesses report = 480"
  unfolding route_segments_def single_closed by (simp add: routes_init_def Let_def total_accesses_def single_segment_accesses)

end
