(* ===== verification/TraceCoverage.thy ===== *)
theory TraceCoverage
  imports TraceHistory RouteSegments
begin

text \<open>
  The two readers together: the rows that \<open>route_trace.decode\<close> returns are complete windows in
  the order \<open>cache_simulation.route_segments\<close> expects, so every committed forward is counted and
  none of its passes is excluded, filtered or missing.
\<close>

section \<open>One window of a committed forward\<close>

definition header_identity :: "(string \<times> pyval) list \<Rightarrow> string \<Rightarrow> string \<Rightarrow> bool" where
  "header_identity header revision build \<longleftrightarrow>
     aget header ''artifact_revision'' = PStr revision \<and> revision \<in> set REVISIONS \<and>
     aget header ''build'' = PStr build \<and> is_sha256 build"

lemma committed_row_get:
  "aget (committed_row f header layer routes epoch) k =
     (if k = ''layer'' then PInt layer else if k = ''routes'' then routes
      else if k = ''offset'' then PInt (fw_offset f) else if k = ''tokens'' then PInt (fw_tokens f)
      else if k = ''request_phase'' then PStr (fw_phase f) else if k = ''request_id'' then PInt (fw_request_id f)
      else if k = ''session_id'' then PStr (fw_session f @ '':'' @ dec epoch)
      else if k = ''build'' then aget header ''build''
      else if k = ''artifact_revision'' then aget header ''artifact_revision'' else PNone)"
  by (simp add: committed_row_def aget_def)

lemma committed_row_has:
  "ahas (committed_row f header layer routes epoch) k \<longleftrightarrow>
     k \<in> {''layer'', ''routes'', ''offset'', ''tokens'', ''request_phase'', ''request_id'', ''session_id'', ''build'', ''artifact_revision''}"
  by (simp add: committed_row_def ahas_def)

lemma list_all_chunks: "0 < n \<Longrightarrow> list_all P xs \<longleftrightarrow> (\<forall>g\<in>set (chunks n xs). list_all P g)"
proof -
  assume "0 < n"
  then have "set xs = \<Union> (set ` set (chunks n xs))" using concat_chunks [of n xs] by (metis set_concat)
  then show ?thesis by (auto simp: list_all_iff)
qed

lemma chunks_map: "chunks n (map f xs) = map (map f) (chunks n xs)"
proof (induction n xs rule: chunks.induct)
  case (1 n xs)
  then show ?case
    by (cases "n = 0 \<or> xs = []") (auto simp: chunks.simps [of n xs] chunks.simps [of n "map f xs"] take_map drop_map)
qed

text \<open>The trace reader's check of the routes implies the simulator's.\<close>

lemma route_list_committed:
  assumes "len routes = n * 10" and "list_all selected_ok (chunks 10 routes)"
  shows "route_list (PList routes) n = Inr (map the_int routes)"
proof -
  have ok: "list_all expert_ok routes"
    using assms(2) by (subst list_all_chunks [of 10]) (auto simp: list_all_iff selected_ok_def)
  then have "mapm (\<lambda>route. integer route 0 (EXPERTS - 1) ''expert'') routes = Inr (map the_int routes)"
    by (induction routes) (auto simp: expert_ok_def integer_def EXPERTS_def split: pyval.splits)
  moreover have "list_all (\<lambda>g. len (remdups g) = TOP_K) (chunks (nat TOP_K) (map the_int routes))"
    using assms(2) by (auto simp: TOP_K_def chunks_map list_all_iff selected_ok_def)
  ultimately show ?thesis using assms(1) by (simp add: route_list_def TOP_K_def)
qed

definition window_event :: "forward \<Rightarrow> int \<Rightarrow> string \<Rightarrow> pyval list \<Rightarrow> route_event" where
  "window_event f layer pointer routes = \<lparr>ev_pointer = pointer, ev_layer = layer, ev_offset = fw_offset f,
     ev_tokens = fw_tokens f, ev_phase = PStr (fw_phase f),
     ev_session = PStr (fw_session f @ '':'' @ dec (fw_epoch f)), ev_request_id = PInt (fw_request_id f),
     ev_keys = map (\<lambda>e. layer * EXPERTS + e) (sort (remdups (map the_int routes)))\<rparr>"

text \<open>The expert records a committed row demands: its distinct experts. Boundaries demand none.\<close>

fun row_demand :: "string \<times> pyval \<Rightarrow> int" where
  "row_demand (pointer, PDict d) =
     (case aget d ''routes'' of PList rs \<Rightarrow> len (remdups (map the_int rs)) | _ \<Rightarrow> 0)"
| "row_demand _ = 0"

definition trace_demands :: "(string \<times> pyval) list \<Rightarrow> int" where
  "trace_demands rows = sum_list (map row_demand rows)"

lemma trace_demands_append: "trace_demands (xs @ ys) = trace_demands xs + trace_demands ys"
  by (simp add: trace_demands_def)

lemma row_demand_nonneg: "0 \<le> row_demand row"
  by (cases row rule: row_demand.cases) (auto simp: len_def split: pyval.split)

lemma trace_demands_nonneg: "0 \<le> trace_demands rows"
  by (auto simp: trace_demands_def row_demand_nonneg intro!: sum_list_nonneg)

lemma row_demand_window:
  "row_demand (pointer, PDict (committed_row f header layer (PList routes) epoch)) =
     len (ev_keys (window_event f layer pointer routes))"
  by (simp add: committed_row_get window_event_def len_def)

lemma window_row_event:
  assumes h: "header_identity header revision build" and f: "forward_ok f" "fw_request_id f \<le> MAX_ACCESSES"
    and row: "window_row header f layer (pointer, v)" and l: "0 \<le> layer" "layer < 48"
    and ident: "rs_identity s = None \<or> rs_identity s = Some (revision, build)"
  obtains routes where "route_row None True s (pointer, v) =
    place_event True (window_event f layer pointer routes) (s\<lparr>rs_identity := Some (revision, build)\<rparr>)"
    and "event_ok (window_event f layer pointer routes)"
    and "len (ev_keys (window_event f layer pointer routes)) = row_demand (pointer, v)"
proof -
  obtain routes where v: "v = PDict (committed_row f header layer (PList routes) (fw_epoch f))"
    and routes: "len routes = fw_tokens f * 10" "list_all selected_ok (chunks 10 routes)"
    using row by (auto simp: window_row_def)
  let ?row = "committed_row f header layer (PList routes) (fw_epoch f)"
  have "check_format ?row = Inr ()" by (simp add: check_format_def committed_row_has)
  moreover have "route_identity ?row = Inr (revision, build)"
    using h by (simp add: route_identity_def header_identity_def committed_row_get Let_def)
  ultimately have ev: "route_event_of True pointer ?row = Inr (window_event f layer pointer routes)"
    using route_list_committed [OF routes] f l
    by (simp add: route_event_of_def committed_row_get forward_ok_def window_event_def integer_def Let_def LAYERS_def)
  have "route_row None True s (pointer, v) =
      place_event True (window_event f layer pointer routes) (s\<lparr>rs_identity := Some (revision, build)\<rparr>)"
    using ident ev \<open>route_identity ?row = Inr (revision, build)\<close>
    by (auto simp: route_row_def v committed_row_has committed_row_get)
  then show thesis using route_event_of_ok [OF ev] by (rule that) (simp add: v row_demand_window del: row_demand.simps)
qed

section \<open>The loop over a whole window\<close>

definition same_forward :: "forward \<Rightarrow> route_event list \<Rightarrow> bool" where
  "same_forward f es \<longleftrightarrow> (\<forall>e\<in>set es. \<exists>layer pointer routes. e = window_event f layer pointer routes)"

lemma window_event_same: "same_window (window_event f l p r) (window_event f l' p' r')"
  by (simp add: same_window_def window_event_def)

lemma pending_event:
  assumes "same_forward f (rs_pending s)" and "len (rs_pending s) < 47"
  shows "place_event True (window_event f (len (rs_pending s)) pointer routes) s =
    Inr (s\<lparr>rs_pending := rs_pending s @ [window_event f (len (rs_pending s)) pointer routes]\<rparr>)"
proof -
  have "resume_window (window_event f (len (rs_pending s)) pointer routes) s = s"
    using assms(1) window_event_same
    by (cases "rs_pending s") (auto simp: resume_window_def same_forward_def window_event_def same_window_def)
  then show ?thesis using assms(2)
    by (auto simp: place_event_def Let_def LAYERS_def len_def window_event_def)
qed

lemma closing_event:
  assumes "same_forward f (rs_pending s)" and "len (rs_pending s) = 47"
  shows "place_event True (window_event f 47 pointer routes) s =
    close_window True (window_event f 47 pointer routes) (s\<lparr>rs_pending := rs_pending s @ [window_event f 47 pointer routes]\<rparr>)"
proof -
  have "resume_window (window_event f 47 pointer routes) s = s"
    using assms window_event_same
    by (cases "rs_pending s") (auto simp: resume_window_def same_forward_def window_event_def same_window_def)
  then show ?thesis using assms(2)
    by (auto simp: place_event_def Let_def LAYERS_def len_def)
qed

text \<open>What the simulator has counted after some windows and boundaries.\<close>

definition all_counted :: "int \<Rightarrow> int \<Rightarrow> int \<Rightarrow> string \<Rightarrow> string \<Rightarrow> routes_state \<Rightarrow> bool" where
  "all_counted windows token_count demands revision build s \<longleftrightarrow>
     routes_inv True s \<and> total_accesses (rs_segments s) = demands \<and> rs_logical_routes s = 480 * token_count \<and> rs_pending s = [] \<and> rs_passes s = 48 * windows \<and> rs_excluded s = 0 \<and> rs_missing_routes s = 0 \<and>
     rs_filtered s = 0 \<and> rs_incomplete s = 0 \<and>
     rs_identity s = (if windows = 0 then None else Some (revision, build))"

definition event_demands :: "route_event list \<Rightarrow> int" where
  "event_demands es = sum_list (map (\<lambda>e. len (ev_keys e)) es)"

lemma event_demands_snoc: "event_demands (es @ [e]) = event_demands es + len (ev_keys e)"
  by (simp add: event_demands_def)

lemma len_window_keys: "len (concat (map ev_keys es)) = event_demands es"
  by (induction es) (auto simp: event_demands_def len_def)

definition demand_bound :: py_error where
  "demand_bound = ValueError ''Cache trace exceeds bounded demand count; select a smaller source''"

text \<open>Closing a window adds its demands, and fails exactly when the total exceeds the bound.\<close>

lemma close_window_demands:
  assumes "rs_can_continue s \<longrightarrow> rs_segments s \<noteq> []"
  defines "demanded \<equiv> total_accesses (rs_segments s) + event_demands (rs_pending s)"
  shows "(\<exists>t. close_window True e s = Inr t \<and> total_accesses (rs_segments t) = demanded \<and> demanded \<le> MAX_ACCESSES) \<or>
    close_window True e s = Inl demand_bound \<and> MAX_ACCESSES < demanded"
proof -
  let ?o = "open_segment True (hd (rs_pending s)) (ev_pointer e) s"
  let ?g = "extend_segment True (rs_pending s) e (last (rs_segments ?o))"
  note O = open_segment_facts [OF assms(1), of True "hd (rs_pending s)" "ev_pointer e"]
  have "len (sg_accesses ?g) = len (sg_accesses (last (rs_segments ?o))) + event_demands (rs_pending s)"
    using len_window_keys [of "rs_pending s"] by (simp add: extend_segment_def Let_def len_def)
  then have "total_accesses (butlast (rs_segments ?o) @ [?g]) = demanded"
    using total_accesses_last [OF O(1)] O(2) by (simp add: demanded_def total_accesses_def)
  then show ?thesis using O(11)
    by (auto simp: close_window_def Let_def req_def demand_bound_def)
qed

lemma partial_window:
  assumes h: "header_identity header revision build" and f: "forward_ok f" "fw_request_id f \<le> MAX_ACCESSES"
    and ws: "window_rows header f ws" "len ws \<le> 47"
    and s: "all_counted n m d revision build s"
  shows "ws = [] \<or> (\<exists>es. same_forward f es \<and> length es = length ws \<and> event_demands es = trace_demands ws \<and>
     foldm (route_row None True) s ws = Inr (s\<lparr>rs_identity := Some (revision, build), rs_pending := es\<rparr>))"
  using ws
proof (induction ws rule: rev_induct)
  case Nil
  then show ?case by simp
next
  case (snoc w ws)
  obtain pointer v where w: "w = (pointer, v)" by fastforce
  have wr: "window_rows header f ws" "window_row header f (len ws) (pointer, v)" and l: "len ws < 47"
    using snoc.prems by (auto simp: window_rows_snoc w len_def)
  obtain es where es: "same_forward f es" "length es = length ws" "event_demands es = trace_demands ws"
    and run: "foldm (route_row None True) s ws =
      Inr (if ws = [] then s else s\<lparr>rs_identity := Some (revision, build), rs_pending := es\<rparr>)"
  proof (cases "ws = []")
    case True
    then show thesis using that [of "[]"] by (simp add: same_forward_def event_demands_def trace_demands_def)
  next
    case False
    then show thesis using snoc.IH wr(1) l that by auto
  qed
  let ?t = "if ws = [] then s else s\<lparr>rs_identity := Some (revision, build), rs_pending := es\<rparr>"
  have id: "rs_identity ?t = None \<or> rs_identity ?t = Some (revision, build)"
    using s by (auto simp: all_counted_def)
  obtain routes where r: "route_row None True ?t (pointer, v) =
      place_event True (window_event f (len ws) pointer routes) (?t\<lparr>rs_identity := Some (revision, build)\<rparr>)"
    and demand: "len (ev_keys (window_event f (len ws) pointer routes)) = row_demand (pointer, v)"
    by (rule window_row_event [OF h f wr(2) _ _ id]) (use l in \<open>auto simp: len_def\<close>)
  let ?u = "?t\<lparr>rs_identity := Some (revision, build)\<rparr>"
  have p: "rs_pending ?u = es" using s es by (auto simp: all_counted_def)
  then have "len (rs_pending ?u) = len ws" using es(2) by (simp add: len_def)
  then have "route_row None True ?t (pointer, v) =
      Inr (?u\<lparr>rs_pending := es @ [window_event f (len ws) pointer routes]\<rparr>)"
    using r pending_event [of f ?u pointer routes] p es(1) l by simp
  then have "foldm (route_row None True) s (ws @ [w]) =
      Inr (s\<lparr>rs_identity := Some (revision, build), rs_pending := es @ [window_event f (len ws) pointer routes]\<rparr>)"
    using run by (simp add: foldm_append w)
  moreover have "same_forward f (es @ [window_event f (len ws) pointer routes])"
    using es(1) by (auto simp: same_forward_def)
  moreover have "event_demands (es @ [window_event f (len ws) pointer routes]) = trace_demands (ws @ [w])"
    using es(3) demand by (simp add: event_demands_snoc trace_demands_append w) (simp add: trace_demands_def)
  ultimately show ?case using es(2) by auto
qed

lemma close_window_counters:
  assumes "close_window True e s = Inr t"
  shows "rs_logical_routes t = rs_logical_routes s + ev_tokens e * TOP_K * LAYERS" and "rs_passes t = rs_passes s + LAYERS"
    and "rs_pending t = []" and "rs_excluded t = rs_excluded s" and "rs_missing_routes t = rs_missing_routes s"
    and "rs_filtered t = rs_filtered s" and "rs_incomplete t = rs_incomplete s" and "rs_identity t = rs_identity s"
  using assms by (auto simp: close_window_def Let_def ok_simps open_segment_def)

lemma whole_window:
  assumes h: "header_identity header revision build" and f: "forward_ok f" "fw_request_id f \<le> MAX_ACCESSES"
    and ws: "window_rows header f ws" "len ws = 48"
    and s: "all_counted n m d revision build s" "0 \<le> n"
  shows "(\<exists>t. foldm (route_row None True) s ws = Inr t \<and>
           all_counted (1 + n) (m + fw_tokens f) (d + trace_demands ws) revision build t) \<and> d + trace_demands ws \<le> MAX_ACCESSES \<or>
         foldm (route_row None True) s ws = Inl demand_bound \<and> MAX_ACCESSES < d + trace_demands ws"
proof -
  obtain vs w where ws': "ws = vs @ [w]" using ws(2) by (cases ws rule: rev_cases) (auto simp: len_def)
  obtain pointer v where w: "w = (pointer, v)" by fastforce
  have vs: "window_rows header f vs" "len vs = 47" "window_row header f 47 (pointer, v)"
    using ws by (auto simp: ws' window_rows_snoc w len_def)
  obtain es where es: "same_forward f es" "length es = length vs" "event_demands es = trace_demands vs"
    and run: "foldm (route_row None True) s vs = Inr (s\<lparr>rs_identity := Some (revision, build), rs_pending := es\<rparr>)"
    using partial_window [OF h f vs(1) _ s(1)] vs(2) by (auto simp: len_def)
  let ?t = "s\<lparr>rs_identity := Some (revision, build), rs_pending := es\<rparr>"
  have inv: "routes_inv True ?t" using routes_loop_inv [OF _ run] s(1) by (simp add: all_counted_def)
  obtain routes where step: "route_row None True ?t (pointer, v) =
      place_event True (window_event f 47 pointer routes) (?t\<lparr>rs_identity := Some (revision, build)\<rparr>)"
    and ok: "event_ok (window_event f 47 pointer routes)"
    and demand: "len (ev_keys (window_event f 47 pointer routes)) = row_demand (pointer, v)"
    by (rule window_row_event [OF h f vs(3), of ?t]) auto
  let ?e = "window_event f 47 pointer routes"
  let ?u = "?t\<lparr>rs_pending := es @ [?e]\<rparr>"
  have close: "foldm (route_row None True) s ws = close_window True ?e ?u"
    using closing_event [of f "?t\<lparr>rs_identity := Some (revision, build)\<rparr>" pointer routes] es vs(2) run step
    by (simp add: ws' w foldm_append len_def)
  have tok: "ev_tokens e = fw_tokens f" if "e \<in> set es" for e
    using es(1) that by (auto simp: same_forward_def window_event_def)
  have ne: "es \<noteq> []" using es(2) vs(2) by (auto simp: len_def)
  have pend: "pending_ok (rs_pending ?u)"
    using pending_ok_snoc [of es ?e] inv ok es vs(2) tok [of "hd es"] ne
    by (auto simp: routes_inv_def window_event_def len_def)
  have u: "len (rs_pending ?u) = LAYERS" "\<forall>g\<in>set (rs_segments ?u). segment_ok True g"
    "total_accesses (rs_segments ?u) \<le> rs_logical_routes ?u" "rs_can_continue ?u \<longrightarrow> rs_segments ?u \<noteq> []"
    "ev_tokens ?e = ev_tokens (hd (rs_pending ?u))" "rs_logical_routes ?u = 480 * m"
    using inv es(2) vs(2) tok [of "hd es"] ne s(1)
    by (auto simp: routes_inv_def len_def LAYERS_def all_counted_def window_event_def)
  have demands: "total_accesses (rs_segments ?u) + event_demands (rs_pending ?u) = d + trace_demands ws"
    using es(3) demand s(1)
    by (simp add: event_demands_snoc ws' trace_demands_append w all_counted_def) (simp add: trace_demands_def)
  show ?thesis
  proof (cases "close_window True ?e ?u")
    case (Inl err)
    then show ?thesis using close_window_demands [OF u(4), of ?e] close demands by auto
  next
    case (Inr t)
    have "routes_inv True t" using close_window_inv [OF pend u(1-5) Inr] by simp
    moreover have "total_accesses (rs_segments t) = d + trace_demands ws" "d + trace_demands ws \<le> MAX_ACCESSES"
      using close_window_demands [OF u(4), of ?e] Inr demands by auto
    moreover have "rs_logical_routes t = 480 * (m + fw_tokens f)"
      using close_window_counters(1) [OF Inr] u(6) by (simp add: window_event_def TOP_K_def LAYERS_def)
    ultimately have "all_counted (1 + n) (m + fw_tokens f) (d + trace_demands ws) revision build t"
      using close_window_counters(2-) [OF Inr] s by (simp add: all_counted_def LAYERS_def)
    then show ?thesis using Inr close \<open>d + trace_demands ws \<le> MAX_ACCESSES\<close> by simp
  qed
qed

lemma boundary_counted:
  assumes "all_counted n m d revision build s"
  shows "\<exists>t. foldm (route_row None True) s [boundary_row pointer reason] = Inr t \<and> all_counted n m d revision build t"
proof -
  have run: "foldm (route_row None True) s [boundary_row pointer reason] = Inr (discard (PStr reason) pointer
      (s\<lparr>rs_explicit_events := rs_explicit_events s + 1\<rparr>))"
    by (simp add: boundary_row_def route_row_def ahas_def aget_def)
  moreover have "routes_inv True (discard (PStr reason) pointer (s\<lparr>rs_explicit_events := rs_explicit_events s + 1\<rparr>))"
    using assms routes_loop_inv [OF _ run] by (auto simp: all_counted_def)
  ultimately show ?thesis using assms by (simp add: discard_def all_counted_def len_def)
qed

definition committed_tokens :: "forward list \<Rightarrow> int" where
  "committed_tokens fs = sum_list (map fw_tokens fs)"

lemma boundary_demand: "trace_demands (rows @ [boundary_row pointer reason]) = trace_demands rows"
  by (simp add: trace_demands_def boundary_row_def aget_def)

lemma trace_rows_counted:
  assumes "trace_rows header fs rows" and h: "header_identity header revision build"
    and "\<forall>f\<in>set fs. fw_request_id f \<le> MAX_ACCESSES"
  shows "(\<exists>t. foldm (route_row None True) routes_init rows = Inr t \<and>
      all_counted (len fs) (committed_tokens fs) (trace_demands rows) revision build t) \<and> trace_demands rows \<le> MAX_ACCESSES \<or>
    foldm (route_row None True) routes_init rows = Inl demand_bound \<and> MAX_ACCESSES < trace_demands rows"
  using assms(1,3)
proof (induction rule: trace_rows.induct)
  case start
  then show ?case using routes_init_inv
    by (simp add: all_counted_def routes_init_def len_def committed_tokens_def trace_demands_def total_accesses_def MAX_ACCESSES_def)
next
  case (boundary fs rows pointer reason)
  then show ?case
    using boundary_counted [of "len fs" "committed_tokens fs" "trace_demands rows" revision build _ pointer reason]
    by (auto simp: foldm_append boundary_demand simp del: foldm.simps)
next
  case (window fs rows f ws)
  have c: "committed_tokens (fs @ [f]) = committed_tokens fs + fw_tokens f" by (simp add: committed_tokens_def)
  have id: "fw_request_id f \<le> MAX_ACCESSES" "\<forall>f\<in>set fs. fw_request_id f \<le> MAX_ACCESSES" using window.prems by simp_all
  from window.IH [OF id(2)] show ?case
  proof (elim disjE conjE exE)
    fix t
    assume t: "foldm (route_row None True) routes_init rows = Inr t"
      "all_counted (len fs) (committed_tokens fs) (trace_demands rows) revision build t"
    from whole_window [OF h window.hyps(2) id(1) window.hyps(3,4) t(2)] t(1) c
    show ?thesis by (auto simp: foldm_append len_def add.commute trace_demands_append)
  next
    assume "foldm (route_row None True) routes_init rows = Inl demand_bound" "MAX_ACCESSES < trace_demands rows"
    then show ?thesis using trace_demands_nonneg [of ws] by (auto simp: foldm_append trace_demands_append)
  qed
qed

text \<open>
  A trace of a pinned artifact that was read completely is cut into segments without losing a
  pass: all 48 passes of every committed forward are included, and nothing is excluded.
\<close>

lemma read_trace_counted:
  assumes "read_events (enumerate_from 1 rows) = Inr s" and "len rows \<le> 20000"
    and "ts_header s = Some header" and "header_identity header revision build"
  shows "if trace_demands (ts_rows s) \<le> MAX_ACCESSES
    then \<exists>segments report. route_segments (ts_rows s) None True = Inr (segments, report) \<and>
       co_included_passes report = 48 * len (ts_committed s) \<and>
       co_excluded_incomplete_passes report = 0 \<and> co_missing_route_passes report = 0 \<and>
       co_filtered_passes report = 0 \<and> co_incomplete_windows report = 0 \<and>
       co_logical_router_selections report = 480 * committed_tokens (ts_committed s) \<and>
       co_demand_record_accesses report = trace_demands (ts_rows s) \<and>
       co_identity report = (if ts_committed s = [] then None else Some (revision, build))
    else route_segments (ts_rows s) None True = Inl demand_bound"
proof -
  have inv: "trace_inv (length rows) s" by (rule read_events_inv [OF assms(1)])
  have "length rows \<noteq> 0" using inv assms(3) by (auto simp: trace_inv_def trace_init_def)
  then have s: "session_inv header s" "ts_request_id s \<le> 20000"
    using inv assms(2,3) by (auto simp: trace_inv_def session_inv_def len_def)
  then have "\<forall>f\<in>set (ts_committed s). fw_request_id f \<le> MAX_ACCESSES"
    by (fastforce simp: session_inv_def MAX_ACCESSES_def)
  then show ?thesis
    using trace_rows_counted [OF _ assms(4), of "ts_committed s" "ts_rows s"] s
    by (auto simp: session_inv_def route_segments_def all_counted_def Let_def len_def)
qed

text \<open>A committed row demands at most ten records per token.\<close>

lemma window_demand: "window_row header f layer row \<Longrightarrow> row_demand row \<le> fw_tokens f * 10"
proof -
  assume "window_row header f layer row"
  then obtain pointer routes where row: "row = (pointer, PDict (committed_row f header layer (PList routes) (fw_epoch f)))"
    and n: "len routes = fw_tokens f * 10" by (auto simp: window_row_def)
  have "len (remdups (map the_int routes)) \<le> len routes"
    using length_remdups_leq [of "map the_int routes"] by (simp add: len_def)
  then show ?thesis by (simp add: row committed_row_get n)
qed

lemma window_demands:
  assumes "window_rows header f ws"
  shows "trace_demands ws \<le> len ws * (fw_tokens f * 10)"
  using assms
proof (induction ws rule: rev_induct)
  case Nil
  then show ?case by (simp add: trace_demands_def len_def)
next
  case (snoc w ws)
  then have "window_rows header f ws" and w: "window_row header f (len ws) w" by (simp_all add: window_rows_snoc)
  moreover have "row_demand w \<le> fw_tokens f * 10" by (rule window_demand [OF w])
  ultimately show ?case using snoc.IH
    by (simp add: trace_demands_append len_def distrib_right) (simp add: trace_demands_def)
qed

lemma trace_demands_le: "trace_rows header fs rows \<Longrightarrow> trace_demands rows \<le> 480 * committed_tokens fs"
proof (induction rule: trace_rows.induct)
  case start
  then show ?case by (simp add: trace_demands_def committed_tokens_def)
next
  case (boundary fs rows pointer reason)
  then show ?case by (simp add: boundary_demand)
next
  case (window fs rows f ws)
  then show ?case using window_demands [of header f ws]
    by (simp add: trace_demands_append committed_tokens_def)
qed

end
