(* ===== verification/PyDump.thy ===== *)
theory PyDump
  imports PyJson "HOL-Library.Char_ord" "HOL-Library.List_Lexorder" "HOL-Library.Multiset"
begin

text \<open>
  \<open>evidence_index.encoded\<close>: \<open>json.dumps\<close> with sorted keys, compact separators, ASCII output and no
  non-finite numbers. Reading the text back with \<open>parse\<close> gives the value with its keys sorted.
  The decimal text of a float is a parameter.
\<close>

section \<open>Text\<close>

text \<open>The code points of well-formed UTF-8.\<close>

fun utf8_decode :: "string \<Rightarrow> int list" where
  "utf8_decode [] = []"
| "utf8_decode (a # s) =
     (if code a < 128 then code a # utf8_decode s
      else if code a < 224 then
        (case s of b # s' \<Rightarrow> ((code a - 192) * 64 + (code b - 128)) # utf8_decode s' | [] \<Rightarrow> [])
      else if code a < 240 then
        (case s of b # c # s' \<Rightarrow> ((code a - 224) * 4096 + (code b - 128) * 64 + (code c - 128)) # utf8_decode s' | _ \<Rightarrow> [])
      else (case s of b # c # d # s' \<Rightarrow>
              ((code a - 240) * 262144 + (code b - 128) * 4096 + (code c - 128) * 64 + (code d - 128)) # utf8_decode s'
            | _ \<Rightarrow> []))"

definition hex_digit :: "int \<Rightarrow> char" where
  "hex_digit d = (if d < 10 then byte_char (48 + d) else byte_char (87 + d))"

definition u_escape :: "int \<Rightarrow> string" where
  "u_escape n = [CHR 0x5C, CHR ''u'', hex_digit (n div 4096), hex_digit (n div 256 mod 16),
     hex_digit (n div 16 mod 16), hex_digit (n mod 16)]"

definition escapes :: "(int \<times> char) list" where
  "escapes = [(34, CHR 0x22), (92, CHR 0x5C), (8, CHR ''b''), (12, CHR ''f''), (10, CHR ''n''),
     (13, CHR ''r''), (9, CHR ''t'')]"

definition escape_char :: "int \<Rightarrow> string" where
  "escape_char n =
     (case map_of escapes n of
        Some c \<Rightarrow> [CHR 0x5C, c]
      | None \<Rightarrow>
          if 32 \<le> n \<and> n \<le> 126 then [byte_char n]
          else if n < 65536 then u_escape n
          else u_escape (55296 + (n - 65536) div 1024) @ u_escape (56320 + (n - 65536) mod 1024))"

definition dump_string :: "string \<Rightarrow> string" where
  "dump_string s = CHR 0x22 # concat (map escape_char (utf8_decode s)) @ [CHR 0x22]"

definition dump_int :: "int \<Rightarrow> string result" where
  "dump_int i =
     (if 4300 < length (dec (nat \<bar>i\<bar>)) then Inl (ValueError ''Exceeds the limit for integer string conversion'')
      else Inr (if i < 0 then CHR ''-'' # dec (nat (- i)) else dec (nat i)))"

fun commas :: "string list \<Rightarrow> string" where
  "commas [] = []"
| "commas [t] = t"
| "commas (t # ts) = t @ CHR '','' # commas ts"

definition dump_pair :: "string \<times> string \<Rightarrow> string" where
  "dump_pair p = dump_string (fst p) @ CHR '':'' # snd p"

fun dumps :: "(pfloat \<Rightarrow> string) \<Rightarrow> pyval \<Rightarrow> string result" where
  "dumps float_repr PNone = Inr ''null''"
| "dumps float_repr (PBool b) = Inr (if b then ''true'' else ''false'')"
| "dumps float_repr (PInt i) = dump_int i"
| "dumps float_repr (PFloat x) =
     (if fl_finite x then Inr (float_repr x) else Inl (ValueError ''Out of range float values are not JSON compliant''))"
| "dumps float_repr (PStr s) = Inr (dump_string s)"
| "dumps float_repr (PList xs) =
     bnd (mapm (dumps float_repr) xs) (\<lambda>ts. Inr (CHR ''['' # commas ts @ '']''))"
| "dumps float_repr (PDict d) =
     bnd (mapm (\<lambda>p. bnd (dumps float_repr (snd p)) (\<lambda>t. Inr (fst p, t))) d) (\<lambda>ps.
     Inr (CHR ''{'' # commas (map dump_pair (sort_key fst ps)) @ ''}''))"
| "dumps float_repr (PTuple xs) =
     bnd (mapm (dumps float_repr) xs) (\<lambda>ts. Inr (CHR ''['' # commas ts @ '']''))"
| "dumps float_repr (PSet xs) = Inl TypeError"
| "dumps float_repr (PMap m) = Inl TypeError"

text \<open>
  Only dictionaries with string keys are dumped by the scripts; the last equation stands for the
  others.
\<close>

definition encoded :: "(pfloat \<Rightarrow> string) \<Rightarrow> pyval \<Rightarrow> string result" where
  "encoded float_repr v = dumps float_repr v"

section \<open>Digits\<close>

lemma code_byte_char: "0 \<le> n \<Longrightarrow> n < 256 \<Longrightarrow> code (byte_char n) = n"
  by (simp add: code_def byte_char_def)

lemma code_char_of: "n < 256 \<Longrightarrow> code (char_of n) = int n" for n :: nat
  by (simp add: code_def) (metis of_char_of of_nat_of_char mod_less)

lemma code_nat: "code c = int (of_char c)"
  by (simp only: code_def of_nat_of_char)

lemma code_nonneg: "0 \<le> code c"
  by (simp only: code_nat)


lemma byte_char_code: "byte_char (code c) = c"
  by (simp add: code_def byte_char_def)

lemma code_inject: "code c = code d \<longleftrightarrow> c = d"
  by (metis byte_char_code)

lemma dec_digits: "list_all is_digit (dec n) \<and> dec n \<noteq> []"
proof (induction n rule: dec.induct)
  case (1 n)
  have d: "is_digit (char_of (48 + m))" if "m < 10" for m :: nat
    using that by (simp add: is_digit_def code_char_of)
  show ?case using 1 d by (subst (1 2) dec.simps) auto
qed

lemma digits_value_snoc: "digits_value (s @ [c]) = 10 * digits_value s + (code c - 48)"
  by (simp add: digits_value_def)

lemma digits_value_dec: "digits_value (dec n) = int n"
proof (induction n rule: dec.induct)
  case (1 n)
  show ?case
  proof (cases "n < 10")
    case True
    then show ?thesis by (subst dec.simps) (simp add: digits_value_def code_char_of)
  next
    case False
    have "digits_value (dec n) = 10 * int (n div 10) + int (n mod 10)"
      using 1 False by (subst dec.simps) (simp add: digits_value_snoc code_char_of)
    then show ?thesis by presburger
  qed
qed

lemma hd_dec: "hd (dec n) = CHR ''0'' \<longleftrightarrow> n = 0"
proof (induction n rule: dec.induct)
  case (1 n)
  show ?case
  proof (cases "n < 10")
    case True
    have "char_of (48 + n) = CHR ''0'' \<longleftrightarrow> code (char_of (48 + n)) = 48"
      using code_inject [of "char_of (48 + n)" "CHR ''0''"] by (simp add: code_def)
    then show ?thesis using True by (subst dec.simps) (simp add: code_char_of)
  next
    case False
    then show ?thesis using 1 dec_digits [of "n div 10"] by (subst dec.simps) auto
  qed
qed

section \<open>Reading back\<close>

definition delimited :: "string \<Rightarrow> bool" where
  "delimited r \<longleftrightarrow> r = [] \<or> hd r \<in> set '',]}'' \<or> is_ws (hd r)"

text \<open>Values without floats, with plain ASCII strings and distinct keys at every depth.\<close>

fun plain_json :: "pyval \<Rightarrow> bool" where
  "plain_json (PFloat x) = False"
| "plain_json (PStr s) = list_all (\<lambda>c. code c < 128) s"
| "plain_json (PList xs) = (\<forall>x\<in>set xs. plain_json x)"
| "plain_json (PDict d) =
     (distinct (map fst d) \<and> (\<forall>p\<in>set d. list_all (\<lambda>c. code c < 128) (fst p) \<and> plain_json (snd p)))"
| "plain_json (PTuple xs) = False"
| "plain_json (PSet xs) = False"
| "plain_json (PMap m) = False"
| "plain_json _ = True"

fun sort_json :: "pyval \<Rightarrow> pyval" where
  "sort_json (PList xs) = PList (map sort_json xs)"
| "sort_json (PDict d) = PDict (sort_key fst (map (\<lambda>p. (fst p, sort_json (snd p))) d))"
| "sort_json v = v"

lemma utf8_decode_ascii: "list_all (\<lambda>c. code c < 128) s \<Longrightarrow> utf8_decode s = map code s"
  by (induction s) auto

lemma hex_value_digit: "0 \<le> d \<Longrightarrow> d < 16 \<Longrightarrow> hex_value (hex_digit d) = Some d"
  by (auto simp: hex_digit_def code_byte_char is_digit_def)

lemma unicode_escape_u:
  assumes "0 \<le> n" "n < 128"
  shows "unicode_escape (drop 2 (u_escape n) @ s) = Some ([byte_char n], s)"
proof -
  have "n div 4096 = 0" "n div 256 mod 16 = 0" "n div 16 mod 16 = n div 16" using assms by auto
  then have "hex4 (drop 2 (u_escape n) @ s) = Some (n, s)"
    using assms by (simp add: u_escape_def hex_value_digit del: hex_value.simps)
  then show ?thesis using assms by (simp add: unicode_escape_def utf8_encode_def)
qed

lemma scan_escape:
  assumes "code c < 128"
  shows "scan_string (Suc n) (escape_char (code c) @ s) = bnd (scan_string n s) (\<lambda>(t, r). Inr (c # t, r))"
proof -
  show ?thesis
  proof (cases "map_of escapes (code c)")
    case (Some d)
    then have "(code c, d) \<in> set escapes" by (rule map_of_SomeD)
    then have "code c = 34 \<and> d = CHR 0x22 \<or> code c = 92 \<and> d = CHR 0x5C \<or> code c = 8 \<and> d = CHR ''b'' \<or>
        code c = 12 \<and> d = CHR ''f'' \<or> code c = 10 \<and> d = CHR ''n'' \<or> code c = 13 \<and> d = CHR ''r'' \<or>
        code c = 9 \<and> d = CHR ''t''"
      by (simp add: escapes_def)
    then have "simple_escape d = Some c \<and> d \<noteq> CHR ''u''"
      using byte_char_code [of c] by (elim disjE conjE) (auto simp: simple_escape_def byte_char_def char_of_def)
    then show ?thesis using Some by (simp add: escape_char_def)
  next
    case None
    then have k: "c \<noteq> CHR 0x22" "c \<noteq> CHR 0x5C" by (auto simp: escapes_def code_def)
    show ?thesis
    proof (cases "32 \<le> code c \<and> code c \<le> 126")
      case True
      then show ?thesis using k None by (simp add: escape_char_def byte_char_code)
    next
      case False
      then have e: "escape_char (code c) = u_escape (code c)" using assms None by (auto simp: escape_char_def)
      have eq: "u_escape (code c) @ s = CHR 0x5C # CHR ''u'' # drop 2 (u_escape (code c)) @ s"
        by (simp add: u_escape_def)
      have "scan_string (Suc n) (CHR 0x5C # CHR ''u'' # drop 2 (u_escape (code c)) @ s) =
          bnd (scan_string n s) (\<lambda>(t, r). Inr (c # t, r))"
        using unicode_escape_u [of "code c" s] assms code_nonneg [of c] by (simp add: byte_char_code)
      then show ?thesis by (simp only: e eq)
    qed
  qed
qed

lemma scan_dumped_string:
  assumes "list_all (\<lambda>c. code c < 128) s" and "length (concat (map escape_char (map code s))) < n"
  shows "scan_string n (concat (map escape_char (map code s)) @ CHR 0x22 # r) = Inr (s, r)"
  using assms
proof (induction s arbitrary: n)
  case Nil
  then show ?case by (cases n) auto
next
  case (Cons c s)
  then obtain m where m: "n = Suc m" by (cases n) auto
  have "escape_char (code c) \<noteq> []" by (auto simp: escape_char_def u_escape_def split: option.splits)
  then have "length (concat (map escape_char (map code s))) < m" using Cons.prems(2) m by (cases "escape_char (code c)") auto
  then show ?case using Cons m scan_escape [of c m] by simp
qed


section \<open>The round trip\<close>

lemma takeWhile_digits:
  assumes "list_all is_digit ds" and "r = [] \<or> \<not> is_digit (hd r)"
  shows "takeWhile is_digit (ds @ r) = ds" and "dropWhile is_digit (ds @ r) = r"
  using assms by (cases r; induction ds; simp add: list_all_iff)+

lemma delimited_number:
  assumes "delimited r"
  shows "r = [] \<or> \<not> is_digit (hd r)" and "scan_fraction r = ([], r)" and "scan_exponent r = (None, r)"
proof -
  have "r = [] \<or> hd r \<in> {CHR '','', CHR '']'', CHR ''}'', CHR '' '', CHR 0x09, CHR 0x0A, CHR 0x0D}"
    using assms by (auto simp: delimited_def is_ws_def)
  then show "r = [] \<or> \<not> is_digit (hd r)" "scan_fraction r = ([], r)" "scan_exponent r = (None, r)"
    by (cases r; auto simp: is_digit_def code_def scan_fraction_def scan_exponent_def Let_def)+
qed

lemma scan_dumped_digits:
  assumes "delimited r" and "length (dec m) \<le> 4300"
  shows "scan_digits neg (dec m @ r) = Inr (PInt (if neg then - int m else int m), r)"
proof -
  note D = dec_digits [of m] takeWhile_digits [OF _ delimited_number(1) [OF assms(1)], of "dec m"]
  have num: "scan_unsigned neg (dec m) r = Inr (PInt (if neg then - int m else int m), r)"
    using assms delimited_number [OF assms(1)] by (simp add: scan_unsigned_def number_value_def digits_value_dec)
  show ?thesis
  proof (cases "m = 0")
    case True
    then have "dec m = [CHR ''0'']" using hd_dec [of 0] by (simp add: dec.simps [of 0])
    then show ?thesis using num D True by (simp add: scan_digits_def)
  next
    case False
    then have "hd (dec m @ r) \<noteq> CHR ''0''" using hd_dec [of m] D(1) by simp
    then show ?thesis using num D by (simp add: scan_digits_def)
  qed
qed

lemma hd_dec_digit: "dec m = c # s \<Longrightarrow> is_digit c"
  using dec_digits [of m] by simp

text \<open>A value's text starts with neither white space nor a closing bracket.\<close>

definition opens :: "string \<Rightarrow> bool" where
  "opens t \<longleftrightarrow> t \<noteq> [] \<and> \<not> is_ws (hd t) \<and> hd t \<notin> set '']},''"

lemma skip_ws_opens: "opens t \<Longrightarrow> skip_ws (t @ r) = t @ r"
  by (cases t) (auto simp: opens_def skip_ws_def)

lemma dump_string_ascii:
  "list_all (\<lambda>c. code c < 128) s \<Longrightarrow> dump_string s = CHR 0x22 # concat (map escape_char (map code s)) @ [CHR 0x22]"
  by (simp add: dump_string_def utf8_decode_ascii)

lemma opens_dump_string: "opens (dump_string s)"
  by (simp add: opens_def dump_string_def is_ws_def)

lemma scan_value_string:
  assumes "list_all (\<lambda>c. code c < 128) s" and "length (dump_string s) \<le> n"
  shows "scan_value (Suc n) (dump_string s @ r) = Inr (PStr s, r)"
  using scan_dumped_string [OF assms(1), of n r] assms
  by (simp add: scan_value.simps dump_string_ascii)

definition reads_back :: "string \<Rightarrow> pyval \<Rightarrow> bool" where
  "reads_back t w \<longleftrightarrow> opens t \<and>
     (\<forall>n r. 2 * length t + 1 \<le> n \<longrightarrow> delimited r \<longrightarrow> scan_value n (t @ r) = Inr (w, r))"

lemma delimited_Cons [simp]: "delimited (CHR '','' # r)" "delimited (CHR '']'' # r)" "delimited (CHR ''}'' # r)"
  by (simp_all add: delimited_def)

lemma skip_ws_Cons [simp]: "\<not> is_ws c \<Longrightarrow> skip_ws (c # r) = c # r"
  by (simp add: skip_ws_def)

lemma not_ws [simp]: "\<not> is_ws CHR '',''" "\<not> is_ws CHR '']''" "\<not> is_ws CHR ''}''" "\<not> is_ws CHR '':''"
  by (simp_all add: is_ws_def)

lemma commas_Cons: "ts \<noteq> [] \<Longrightarrow> commas (t # ts) = t @ CHR '','' # commas ts"
  by (cases ts) auto

lemma opens_append: "opens t \<Longrightarrow> opens (t @ r)"
  by (cases t) (auto simp: opens_def)

lemma opens_commas: "ts \<noteq> [] \<Longrightarrow> opens (hd ts) \<Longrightarrow> opens (commas ts)"
  by (cases ts rule: commas.cases) (auto intro: opens_append)

lemma scan_items_commas:
  "list_all2 reads_back ts ws \<Longrightarrow> ts \<noteq> [] \<Longrightarrow> 2 * length (commas ts) + 2 \<le> n \<Longrightarrow>
   scan_items n (commas ts @ CHR '']'' # r) = Inr (ws, r)"
proof (induction ts arbitrary: ws n)
  case (Cons t ts)
  then obtain w ws' where ws: "ws = w # ws'" "reads_back t w" "list_all2 reads_back ts ws'"
    by (auto simp: list_all2_Cons1)
  obtain m where m: "n = Suc m" using Cons.prems(3) by (cases n) auto
  show ?case
  proof (cases "ts = []")
    case True
    then have "scan_value m (t @ CHR '']'' # r) = Inr (w, CHR '']'' # r)"
      using ws(2) Cons.prems(3) by (auto simp: reads_back_def m)
    then show ?thesis using True ws by (simp add: m scan_items.simps)
  next
    case False
    have "scan_value m (t @ CHR '','' # commas ts @ CHR '']'' # r) = Inr (w, CHR '','' # commas ts @ CHR '']'' # r)"
      using ws(2) Cons.prems(3) False by (auto simp: reads_back_def m commas_Cons)
    moreover have "skip_ws (commas ts @ CHR '']'' # r) = commas ts @ CHR '']'' # r"
      using ws(3) False by (intro skip_ws_opens opens_commas) (auto simp: neq_Nil_conv list_all2_Cons1 reads_back_def)
    moreover have "scan_items m (commas ts @ CHR '']'' # r) = Inr (ws', r)"
      using Cons.IH [OF ws(3) False, of m] Cons.prems(3) False by (simp add: m commas_Cons)
    ultimately show ?thesis using False ws by (simp add: m scan_items.simps commas_Cons)
  qed
qed simp

definition ascii_key :: "string \<times> string \<Rightarrow> bool" where
  "ascii_key p \<longleftrightarrow> list_all (\<lambda>c. code c < 128) (fst p)"

lemma scan_pairs_commas:
  "list_all2 (\<lambda>p q. fst p = fst q \<and> ascii_key p \<and> reads_back (snd p) (snd q)) ps qs \<Longrightarrow> ps \<noteq> [] \<Longrightarrow>
   2 * length (commas (map dump_pair ps)) + 2 \<le> n \<Longrightarrow>
   scan_pairs n (commas (map dump_pair ps) @ CHR ''}'' # r) = Inr (qs, r)"
proof (induction ps arbitrary: qs n)
  case (Cons p ps)
  then obtain q qs' where qs: "qs = q # qs'" "fst p = fst q" "ascii_key p" "reads_back (snd p) (snd q)"
    "list_all2 (\<lambda>p q. fst p = fst q \<and> ascii_key p \<and> reads_back (snd p) (snd q)) ps qs'"
    by (auto simp: list_all2_Cons1)
  obtain m where m: "n = Suc m" using Cons.prems(3) by (cases n) auto
  let ?k = "concat (map escape_char (map code (fst p)))"
  have d: "dump_pair p = CHR 0x22 # ?k @ CHR 0x22 # CHR '':'' # snd p"
    using qs(3) by (simp add: dump_pair_def dump_string_ascii ascii_key_def)
  have key: "scan_string m (?k @ CHR 0x22 # s) = Inr (fst p, s)" if "length ?k < m" for s
    using scan_dumped_string [OF _ that] qs(3) by (simp add: ascii_key_def)
  have val: "skip_ws (snd p @ s) = snd p @ s" for s using qs(4) by (auto simp: reads_back_def intro: skip_ws_opens)
  have o: "opens (dump_pair x)" for x
    using opens_append [OF opens_dump_string] by (simp add: dump_pair_def)
  show ?case
  proof (cases "ps = []")
    case True
    then have "scan_value m (snd p @ CHR ''}'' # r) = Inr (snd q, CHR ''}'' # r)"
      using qs(4) Cons.prems(3) by (auto simp: reads_back_def m d)
    then show ?thesis using True qs key Cons.prems(3) by (simp add: m scan_pairs.simps d val)
  next
    case False
    let ?rest = "commas (map dump_pair ps) @ CHR ''}'' # r"
    have "scan_value m (snd p @ CHR '','' # ?rest) = Inr (snd q, CHR '','' # ?rest)"
      using qs(4) Cons.prems(3) False by (auto simp: reads_back_def m commas_Cons d)
    moreover have "skip_ws ?rest = ?rest"
      using False o by (intro skip_ws_opens opens_commas) (auto simp: neq_Nil_conv)
    moreover have "scan_pairs m ?rest = Inr (qs', r)"
      using Cons.IH [OF qs(5) False, of m] Cons.prems(3) False by (simp add: m commas_Cons d)
    moreover have "length ?k < m" using Cons.prems(3) False by (simp add: m commas_Cons d)
    ultimately show ?thesis using False qs key by (cases q) (simp add: m scan_pairs.simps commas_Cons d val)
  qed
qed simp

lemma sort_key_fst_map:
  "(\<And>p. fst (g p) = fst p) \<Longrightarrow> sort_key fst (map g xs) = map g (sort_key fst xs)"
proof (induction xs)
  case (Cons p xs)
  have "insort_key fst (g p) (map g ys) = map g (insort_key fst p ys)" for ys
    using Cons.prems by (induction ys) auto
  then show ?case using Cons by simp
qed simp

lemma distinct_sort_key: "distinct (map fst (sort_key fst xs)) \<longleftrightarrow> distinct (map fst xs)"
  by (rule mset_eq_imp_distinct_iff) simp

text \<open>A literal, and what the scanner makes of it.\<close>

lemma reads_back_literals:
  "reads_back ''null'' PNone" "reads_back ''true'' (PBool True)" "reads_back ''false'' (PBool False)"
proof -
  have s: "scan_value n (''null'' @ r) = Inr (PNone, r)" "scan_value n (''true'' @ r) = Inr (PBool True, r)"
    "scan_value n (''false'' @ r) = Inr (PBool False, r)" if "0 < n" for n r
    using that by (cases n; simp add: scan_value.simps starts_def)+
  show "reads_back ''null'' PNone" "reads_back ''true'' (PBool True)" "reads_back ''false'' (PBool False)"
    using s by (simp_all add: reads_back_def opens_def is_ws_def)
qed

lemma reads_back_int:
  assumes "dump_int i = Inr t"
  shows "reads_back t (PInt i)"
proof -
  have len: "length (dec (nat \<bar>i\<bar>)) \<le> 4300" using assms by (simp add: dump_int_def split: if_splits)
  have digit: "c \<notin> {CHR 0x22, CHR ''{'', CHR ''['', CHR ''n'', CHR ''t'', CHR ''f'', CHR ''N'', CHR ''I'', CHR ''-'',
      CHR '']'', CHR ''}'', CHR '',''} \<and> \<not> is_ws c" if "is_digit c" for c
    using that by (auto simp: is_digit_def code_def is_ws_def)
  show ?thesis
  proof (cases "i < 0")
    case True
    then have t: "t = CHR ''-'' # dec (nat (- i))" and len: "length (dec (nat (- i))) \<le> 4300"
      using assms len by (auto simp: dump_int_def)
    obtain c s where d: "dec (nat (- i)) = c # s" using dec_digits [of "nat (- i)"] by (cases "dec (nat (- i))") auto
    have "scan_value n (t @ r) = Inr (PInt i, r)" if "0 < n" "delimited r" for n r
      using scan_dumped_digits [OF that(2) len, of True] digit [OF hd_dec_digit [OF d]] that(1) True
      by (cases n) (auto simp: scan_value.simps t starts_def scan_number_def d)
    then show ?thesis by (auto simp: reads_back_def opens_def t is_ws_def)
  next
    case False
    then have t: "t = dec (nat i)" and len: "length (dec (nat i)) \<le> 4300"
      using assms len by (auto simp: dump_int_def)
    obtain c s where d: "dec (nat i) = c # s" using dec_digits [of "nat i"] by (cases "dec (nat i)") auto
    note c = digit [OF hd_dec_digit [OF d]]
    have "scan_value n (t @ r) = Inr (PInt i, r)" if "0 < n" "delimited r" for n r
      using scan_dumped_digits [OF that(2) len, of False] c that(1) False
      by (cases n) (auto simp: scan_value.simps t starts_def scan_number_def d)
    then show ?thesis using c by (auto simp: reads_back_def opens_def t d)
  qed
qed

lemma reads_back_string:
  assumes "list_all (\<lambda>c. code c < 128) s"
  shows "reads_back (dump_string s) (PStr s)"
proof -
  have "scan_value n (dump_string s @ r) = Inr (PStr s, r)" if "2 * length (dump_string s) + 1 \<le> n" for n r
    using that scan_value_string [OF assms, of "n - 1" r] by (cases n) auto
  then show ?thesis using opens_dump_string by (simp add: reads_back_def)
qed

lemma reads_back_list:
  assumes "list_all2 reads_back ts ws"
  shows "reads_back (CHR ''['' # commas ts @ '']'') (PList ws)"
proof -
  have "scan_value n (CHR ''['' # commas ts @ CHR '']'' # r) = Inr (PList ws, r)"
    if n: "2 * length (commas ts) + 5 \<le> n" for n r
  proof (cases "ts = []")
    case True
    then show ?thesis using n assms by (cases n) (auto simp: scan_value.simps)
  next
    case False
    then have o: "opens (commas ts)" using assms
      by (intro opens_commas) (auto simp: neq_Nil_conv list_all2_Cons1 reads_back_def)
    then have "skip_ws (commas ts @ CHR '']'' # r) = commas ts @ CHR '']'' # r" by (rule skip_ws_opens)
    moreover have "hd (commas ts @ CHR '']'' # r) \<noteq> CHR '']''" using o by (auto simp: opens_def)
    ultimately show ?thesis
      using n scan_items_commas [OF assms False, of "n - 1" r] by (cases n) (auto simp: scan_value.simps Let_def)
  qed
  then show ?thesis by (simp add: reads_back_def opens_def is_ws_def)
qed

lemma reads_back_dict:
  assumes "list_all2 (\<lambda>p q. fst p = fst q \<and> ascii_key p \<and> reads_back (snd p) (snd q)) ps qs"
    and "distinct (map fst qs)"
  shows "reads_back (CHR ''{'' # commas (map dump_pair ps) @ ''}'') (PDict qs)"
proof -
  have "scan_value n (CHR ''{'' # commas (map dump_pair ps) @ CHR ''}'' # r) = Inr (PDict qs, r)"
    if n: "2 * length (commas (map dump_pair ps)) + 5 \<le> n" for n r
  proof (cases "ps = []")
    case True
    then show ?thesis using n assms by (cases n) (auto simp: scan_value.simps)
  next
    case False
    have o: "opens (commas (map dump_pair ps))" using False opens_append [OF opens_dump_string]
      by (intro opens_commas) (auto simp: neq_Nil_conv dump_pair_def)
    then have "skip_ws (commas (map dump_pair ps) @ CHR ''}'' # r) = commas (map dump_pair ps) @ CHR ''}'' # r"
      by (rule skip_ws_opens)
    moreover have "hd (commas (map dump_pair ps) @ CHR ''}'' # r) \<noteq> CHR ''}''" using o by (auto simp: opens_def)
    moreover have "unique qs = Inr (PDict qs)" using assms(2) by (simp add: unique_eq_Inr)
    ultimately show ?thesis
      using n scan_pairs_commas [OF assms(1) False, of "n - 1" r] by (cases n) (auto simp: scan_value.simps Let_def)
  qed
  then show ?thesis by (simp add: reads_back_def opens_def is_ws_def)
qed

lemma dumps_reads_back:
  "plain_json v \<Longrightarrow> dumps float_repr v = Inr t \<Longrightarrow> reads_back t (sort_json v)"
proof (induction v arbitrary: t)
  case (PList xs)
  then obtain ts where ts: "mapm (dumps float_repr) xs = Inr ts" and t: "t = CHR ''['' # commas ts @ '']''"
    by (auto simp: ok_simps)
  have "list_all2 reads_back ts (map sort_json xs)"
    using PList ts by (auto simp: mapm_eq_Inr list_all2_conv_all_nth)
  from reads_back_list [OF this] show ?case by (simp add: t)
next
  case (PDict d)
  then obtain ps where ps: "mapm (\<lambda>p. bnd (dumps float_repr (snd p)) (\<lambda>t. Inr (fst p, t))) d = Inr ps"
    and t: "t = CHR ''{'' # commas (map dump_pair (sort_key fst ps)) @ ''}''"
    by (auto simp: ok_simps)
  define g where "g p = (fst p, projr (dumps float_repr (snd p)))" for p :: "string \<times> pyval"
  define h where "h p = (fst p, sort_json (snd p))" for p :: "string \<times> pyval"
  have each: "ps = map g d \<and> (\<forall>p\<in>set d. dumps float_repr (snd p) = Inr (snd (g p)))"
    using ps
  proof (induction d arbitrary: ps)
    case (Cons p d)
    then show ?case by (auto simp: ok_simps g_def)
  qed simp
  have "list_all2 (\<lambda>p q. fst p = fst q \<and> ascii_key p \<and> reads_back (snd p) (snd q)) (map g d') (map h d')"
    if "set d' \<subseteq> set d" for d'
  proof -
    have "fst (g p) = fst (h p) \<and> ascii_key (g p) \<and> reads_back (snd (g p)) (snd (h p))" if p: "p \<in> set d" for p
    proof -
      have "reads_back (snd (g p)) (sort_json (snd p))"
        by (rule PDict.IH [OF p, of "snd p"]) (use PDict.prems(1) each p in \<open>auto simp: snds.simps\<close>)
      then show ?thesis using PDict.prems(1) p by (simp add: g_def h_def ascii_key_def)
    qed
    then show ?thesis using that by (induction d') auto
  qed
  then have "list_all2 (\<lambda>p q. fst p = fst q \<and> ascii_key p \<and> reads_back (snd p) (snd q))
      (map g (sort_key fst d)) (map h (sort_key fst d))" by simp
  moreover have "distinct (map fst (map h (sort_key fst d)))"
    using PDict.prems(1) distinct_sort_key [of d] by (simp add: h_def comp_def)
  ultimately have "reads_back (CHR ''{'' # commas (map dump_pair (map g (sort_key fst d))) @ ''}'')
      (PDict (map h (sort_key fst d)))" by (rule reads_back_dict)
  moreover have "sort_key fst (map g d) = map g (sort_key fst d)" by (rule sort_key_fst_map) (simp add: g_def)
  moreover have "sort_key fst (map h d) = map h (sort_key fst d)" by (rule sort_key_fst_map) (simp add: h_def)
  moreover have "sort_json (PDict d) = PDict (sort_key fst (map h d))" by (simp add: h_def [abs_def])
  ultimately show ?case using each by (simp only: t)
next
  case (PBool b)
  then show ?case using reads_back_literals by (cases b) simp_all
next
  case (PInt i)
  then show ?case using reads_back_int by simp
next
  case (PStr x)
  then show ?case using reads_back_string by auto
qed (use reads_back_literals in simp_all)

section \<open>Whole documents\<close>

text \<open>The text is ASCII without control characters, so it is well-formed and one line.\<close>

definition printable :: "char \<Rightarrow> bool" where
  "printable c \<longleftrightarrow> 32 \<le> code c \<and> code c < 127"

lemma printable_chars [simp]:
  "printable CHR ''-''" "printable CHR ''[''" "printable CHR '']''" "printable CHR ''{''" "printable CHR ''}''"
  "printable CHR '',''" "printable CHR '':''" "printable CHR 0x22" "printable CHR 0x5C" "printable CHR ''u''"
  by (simp_all add: printable_def code_def)

lemma printable_digit: "0 \<le> d \<Longrightarrow> d < 16 \<Longrightarrow> printable (hex_digit d)"
  by (auto simp: hex_digit_def code_byte_char printable_def)

lemma u_escape_printable: "0 \<le> n \<Longrightarrow> n < 65536 \<Longrightarrow> list_all printable (u_escape n)"
  by (auto simp: u_escape_def intro!: printable_digit)

lemma escape_char_printable:
  assumes "0 \<le> n" "n < 128"
  shows "list_all printable (escape_char n)"
proof (cases "map_of escapes n")
  case None
  then show ?thesis using assms u_escape_printable [of n]
    by (auto simp: escape_char_def printable_def code_byte_char)
next
  case (Some d)
  then have "(n, d) \<in> set escapes" by (rule map_of_SomeD)
  then have "printable d" by (auto simp: escapes_def printable_def code_def)
  then show ?thesis using Some by (simp add: escape_char_def)
qed

lemma dump_string_printable: "list_all (\<lambda>c. code c < 128) s \<Longrightarrow> list_all printable (dump_string s)"
  using escape_char_printable [OF code_nonneg]
  by (fastforce simp: dump_string_ascii list_all_iff printable_def code_def)

lemma digits_printable: "list_all is_digit s \<Longrightarrow> list_all printable s"
  by (auto simp: list_all_iff is_digit_def printable_def)

lemma commas_printable: "list_all (list_all printable) ts \<Longrightarrow> list_all printable (commas ts)"
  by (induction ts rule: commas.induct) auto

lemma dumps_printable:
  "plain_json v \<Longrightarrow> dumps float_repr v = Inr t \<Longrightarrow> list_all printable t"
proof (induction v arbitrary: t)
  case (PInt i)
  then have "t = CHR ''-'' # dec (nat (- i)) \<or> t = dec (nat i)" by (auto simp: dump_int_def split: if_splits)
  then show ?case using digits_printable dec_digits by auto
next
  case (PList xs)
  then obtain ts where ts: "mapm (dumps float_repr) xs = Inr ts" and t: "t = CHR ''['' # commas ts @ '']''"
    by (auto simp: ok_simps)
  have "list_all (list_all printable) ts"
    unfolding list_all_iff [of _ ts]
  proof
    fix u
    assume "u \<in> set ts"
    then obtain x where "x \<in> set xs" "dumps float_repr x = Inr u"
      using mapm_witness [OF ts] by blast
    then show "list_all printable u" using PList by simp
  qed
  from commas_printable [OF this] show ?case by (simp add: t)
next
  case (PDict d)
  then obtain ps where ps: "mapm (\<lambda>p. bnd (dumps float_repr (snd p)) (\<lambda>t. Inr (fst p, t))) d = Inr ps"
    and t: "t = CHR ''{'' # commas (map dump_pair (sort_key fst ps)) @ ''}''"
    by (auto simp: ok_simps)
  have "list_all printable (dump_pair q)" if q: "q \<in> set ps" for q
  proof -
    obtain p where p: "p \<in> set d" "dumps float_repr (snd p) = Inr (snd q)" "fst p = fst q"
      using mapm_witness [OF ps q] by (auto simp: ok_simps)
    have "list_all printable (snd q)"
      by (rule PDict.IH [OF p(1), of "snd p"]) (use PDict.prems(1) p in \<open>auto simp: snds.simps\<close>)
    then show ?thesis using dump_string_printable [of "fst q"] PDict.prems(1) p
      by (auto simp: dump_pair_def)
  qed
  then have "list_all printable (commas (map dump_pair (sort_key fst ps)))"
    by (intro commas_printable) (simp add: list_all_iff)
  then show ?case by (simp add: t)
next
  case (PStr x)
  then show ?case using dump_string_printable by auto
qed (auto simp: printable_def code_def split: if_splits)

lemma printable_utf8: "list_all printable s \<Longrightarrow> utf8_ok s"
  by (induction s) (auto simp: printable_def)

lemma printable_no_bom: "list_all printable s \<Longrightarrow> \<not> starts bom s"
  by (cases s) (auto simp: starts_def bom_def printable_def code_def)

lemma parse_line:
  assumes "plain_json v" and "dumps float_repr v = Inr t" and "w = [] \<or> w = [CHR 0x0A]"
  shows "parse (t @ w) = Inr (sort_json v)"
proof -
  have b: "reads_back t (sort_json v)" and p: "list_all printable t"
    using dumps_reads_back dumps_printable assms by blast+
  have "utf8_ok (t @ w)" using printable_utf8 [OF p] p assms(3)
    by (induction t) (auto simp: code_def printable_def)
  moreover have "t \<noteq> []" using b by (simp add: reads_back_def opens_def)
  then have "\<not> starts bom (t @ w)" using p by (cases t) (auto simp: starts_def bom_def printable_def code_def)
  moreover have "skip_ws (t @ w) = t @ w" using b by (auto simp: reads_back_def intro: skip_ws_opens)
  moreover have "delimited w" using assms(3) by (auto simp: delimited_def is_ws_def)
  then have "scan_value (2 * length (t @ w) + 1) (t @ w) = Inr (sort_json v, w)"
    using b by (simp add: reads_back_def)
  moreover have "skip_ws w = []" using assms(3) by (auto simp: skip_ws_def is_ws_def)
  ultimately show ?thesis by (simp add: parse_def)
qed

end
