(* ===== verification/TraceCapture.thy ===== *)
theory TraceCapture
  imports TraceCoverage PyDump
begin

text \<open>
  The reader accepts what a recorder writes: a capture of one request with one committed forward
  is read completely, and \<open>decode\<close> on the text of recorded rows is the reader's loop on the rows.
\<close>

section \<open>The events of a capture\<close>

text \<open>One recorded event, with its keys in sorted order.\<close>

definition event_row :: "nat \<Rightarrow> string \<Rightarrow> (string \<times> pyval) list \<Rightarrow> int \<Rightarrow> int \<Rightarrow> pyval" where
  "event_row sequence event details request_id forward_id =
     PDict [(''details'', PDict details), (''event'', PStr event), (''forward_id'', PInt forward_id),
       (''kind'', PStr KIND), (''monotonic_ns'', PInt (int sequence)), (''request_id'', PInt request_id),
       (''sequence'', PInt (int sequence))]"

definition begin_rows :: "(string \<times> pyval) list \<Rightarrow> int list \<Rightarrow> string \<Rightarrow> string \<Rightarrow> pyval list" where
  "begin_rows identity input session phase =
     [event_row 1 ''trace_begin'' [(''identity'', PDict identity)] 0 0,
      event_row 2 ''request_begin''
        [(''input_token_ids'', PList (map PInt input)), (''max_tokens'', PInt 1), (''prime'', PBool False)] 1 0,
      event_row 3 ''forward_begin''
        [(''expert_slots'', PInt 1), (''input_token_ids'', PList (map PInt input)), (''offset'', PInt 0),
         (''request_phase'', PStr phase), (''session_id'', PStr session), (''tokens'', PInt (len input))] 1 1]"

definition layer_row :: "nat \<times> pyval list \<Rightarrow> pyval" where
  "layer_row entry = event_row (fst entry + 4) ''routes''
     [(''layer'', PInt (int (fst entry))), (''routes'', PList (snd entry))] 1 1"

definition end_rows :: "int list \<Rightarrow> int \<Rightarrow> pyval list" where
  "end_rows input token =
     [event_row 52 ''forward_commit'' [(''position'', PInt (len input))] 1 1,
      event_row 53 ''request_end''
        [(''finish_reason'', PStr ''length''), (''output_token_ids'', PList [PInt token]), (''reused_tokens'', PInt 0)] 1 1,
      event_row 54 ''trace_end'' [(''status'', PStr ''complete'')] 1 1]"

definition capture :: "(string \<times> pyval) list \<Rightarrow> int list \<Rightarrow> string \<Rightarrow> string \<Rightarrow> pyval list list \<Rightarrow> int \<Rightarrow> pyval list" where
  "capture identity input session phase layers token =
     begin_rows identity input session phase @ map layer_row (enumerate_from 0 layers) @ end_rows input token"

definition captured_forward :: "int list \<Rightarrow> string \<Rightarrow> string \<Rightarrow> forward" where
  "captured_forward input session phase = \<lparr>
     fw_details = [(''expert_slots'', PInt 1), (''input_token_ids'', PList (map PInt input)), (''offset'', PInt 0),
       (''request_phase'', PStr phase), (''session_id'', PStr session), (''tokens'', PInt (len input))],
     fw_id = 1, fw_request_id = 1, fw_pointer = line_pointer 3, fw_rows = [], fw_epoch = 0, fw_input = input,
     fw_offset = 0, fw_tokens = len input, fw_session = session, fw_phase = phase\<rparr>"

section \<open>Reading the capture\<close>

definition token_list :: "int list \<Rightarrow> bool" where
  "token_list ts \<longleftrightarrow> ts \<noteq> [] \<and> len ts \<le> 8192 \<and> (\<forall>t\<in>set ts. 0 \<le> t \<and> t < 248320)"

lemma tokens_PInt: "token_list ts \<Longrightarrow> tokens (PList (map PInt ts)) e = Inr ts"
  by (auto simp: tokens_def token_list_def token_ok_def list_all_iff len_def comp_def)

definition indexed :: "nat \<times> pyval \<Rightarrow> nat \<times> string \<times> pyval" where
  "indexed = (\<lambda>(i, v). (i, line_pointer i, v))"

lemma read_events_append:
  "read_events (enumerate_from 1 (xs @ ys)) =
     bnd (read_events (enumerate_from 1 xs)) (\<lambda>s. foldm trace_row s (map indexed (enumerate_from (1 + length xs) ys)))"
proof -
  have "enumerate_from n (xs @ ys) = enumerate_from n xs @ enumerate_from (n + length xs) ys" for n
    by (induction xs arbitrary: n) auto
  then show ?thesis by (simp add: read_events_def foldm_append indexed_def)
qed

definition opened_state :: "(string \<times> pyval) list \<Rightarrow> int list \<Rightarrow> string \<Rightarrow> string \<Rightarrow> trace_state" where
  "opened_state identity input session phase = trace_init\<lparr>
     ts_request := Some \<lparr>rq_details = [(''input_token_ids'', PList (map PInt input)), (''max_tokens'', PInt 1),
         (''prime'', PBool False)], rq_id = 1, rq_pointer = line_pointer 2, rq_aborted = False, rq_initial_sizes = [],
       rq_input = input, rq_max_tokens = 1, rq_prime = False\<rparr>,
     ts_active := Some (captured_forward input session phase), ts_request_id := 1, ts_forward_id := 1,
     ts_timestamp := 3, ts_header := Some identity,
     ts_last := Some \<lparr>le_event = PStr ''forward_begin'', le_pointer = line_pointer 3, le_ns = 3\<rparr>\<rparr>"

lemmas event_simps = trace_row_def event_row_def on_event_def same_int_def KIND_def aget_def

lemma begin_rows_read:
  assumes "token_list input" "session \<noteq> []" "phase \<noteq> []"
  shows "read_events (enumerate_from 1 (begin_rows identity input session phase)) =
    Inr (opened_state identity input session phase)"
  using assms tokens_PInt [OF assms(1)]
  by (auto simp: read_events_def begin_rows_def event_simps trace_init_def on_request_begin_def on_forward_begin_def
      forward_geometry_def opened_state_def captured_forward_def session_tokens_def token_list_def len_def numeral_2_eq_2 numeral_3_eq_3)

text \<open>The state after some layers of the forward.\<close>

definition layers_state :: "(string \<times> pyval) list \<Rightarrow> int list \<Rightarrow> string \<Rightarrow> string \<Rightarrow> pyval list list \<Rightarrow> trace_state" where
  "layers_state identity input session phase layers =
     (let f = captured_forward input session phase; n = length layers
      in (opened_state identity input session phase)\<lparr>
        ts_active := Some (f\<lparr>fw_rows := map (\<lambda>(i, routes). (line_pointer (i + 4),
          PDict (committed_row f identity (int i) (PList routes) 0))) (enumerate_from 0 layers)\<rparr>),
        ts_timestamp := int (n + 3),
        ts_last := Some \<lparr>le_event = PStr (if n = 0 then ''forward_begin'' else ''routes''),
          le_pointer = line_pointer (n + 3), le_ns = int (n + 3)\<rparr>\<rparr>)"

definition layer_routes :: "int list \<Rightarrow> pyval list \<Rightarrow> bool" where
  "layer_routes input routes \<longleftrightarrow> len routes = len input * 10 \<and> list_all selected_ok (chunks 10 routes)"

lemma enumerate_from_snoc: "enumerate_from n (xs @ [x]) = enumerate_from n xs @ [(n + length xs, x)]"
  by (induction xs arbitrary: n) auto

lemma length_enumerate_from [simp]: "length (enumerate_from n xs) = length xs"
  by (simp add: enumerate_from_def)

lemma layer_rows_read:
  assumes "\<forall>routes\<in>set layers. layer_routes input routes" and "length layers \<le> 48"
  shows "foldm trace_row (opened_state identity input session phase)
      (map indexed (enumerate_from 4 (map layer_row (enumerate_from 0 layers)))) =
    Inr (layers_state identity input session phase layers)"
  using assms
proof (induction layers rule: rev_induct)
  case Nil
  then show ?case by (simp add: layers_state_def opened_state_def trace_init_def captured_forward_def)
next
  case (snoc routes layers)
  let ?s = "layers_state identity input session phase layers" and ?n = "length layers"
  have "trace_row ?s (?n + 4, line_pointer (?n + 4), layer_row (?n, routes)) =
      Inr (layers_state identity input session phase (layers @ [routes]))"
    using snoc.prems
    by (auto simp: event_simps layer_row_def layers_state_def opened_state_def captured_forward_def on_routes_def
        trace_init_def layer_routes_def Let_def enumerate_from_snoc len_def committed_row_def add.commute)
  then show ?case using snoc by (simp add: enumerate_from_snoc foldm_append indexed_def add.commute)
qed

definition closed_state :: "(string \<times> pyval) list \<Rightarrow> int list \<Rightarrow> string \<Rightarrow> trace_state \<Rightarrow> bool" where
  "closed_state identity input session s \<longleftrightarrow>
     ts_terminal s = Some ''complete'' \<and> ts_header s = Some identity \<and> ts_active s = None \<and> ts_request s = None \<and>
     ts_aborted s = 0 \<and> ts_states s = [(session, input)] \<and> len (ts_rows s) = 48 \<and>
     len (ts_committed s) = 1 \<and> len (ts_requests s) = 1"

lemma end_rows_read:
  assumes "length layers = 48" and "token_list input" and "0 \<le> token" and "token < 248320"
  shows "\<exists>s. foldm trace_row (layers_state identity input session phase layers)
      (map indexed (enumerate_from 52 (end_rows input token))) = Inr s \<and> closed_state identity input session s"
  using assms
  by (auto simp: end_rows_def event_simps layers_state_def opened_state_def captured_forward_def on_forward_commit_def
      on_request_end_def on_trace_end_def trace_init_def Let_def indexed_def session_tokens_def closed_state_def
      tokens_def token_ok_def finish_reasons_def stopping_rule_def request_matches_def aput_def len_def)

lemma capture_read:
  assumes "token_list input" and "session \<noteq> []" and "phase \<noteq> []"
    and "\<forall>routes\<in>set layers. layer_routes input routes" and "length layers = 48" and "0 \<le> token" and "token < 248320"
  shows "\<exists>s. read_events (enumerate_from 1 (capture identity input session phase layers token)) = Inr s \<and>
    closed_state identity input session s"
proof -
  have l: "length (begin_rows identity input session phase) = 3" by (simp add: begin_rows_def)
  have e: "enumerate_from n (xs @ ys) = enumerate_from n xs @ enumerate_from (n + length xs) ys" for n and xs ys :: "pyval list"
    by (induction xs arbitrary: n) auto
  have i: "indexed = (\<lambda>(i, v). (i, line_pointer i, v))" by (simp add: indexed_def)
  show ?thesis
    using layer_rows_read [OF assms(4), of identity session phase] end_rows_read [OF assms(5,1,6,7), of identity session phase]
      begin_rows_read [OF assms(1-3), of identity] assms(5)
    by (simp add: capture_def read_events_def l e foldm_append i)
qed

section \<open>The text of a capture\<close>

definition document :: "string list \<Rightarrow> string" where
  "document texts = concat (map (\<lambda>t. t @ [CHR 0x0A]) texts)"

lemma split_keep_printable:
  assumes "list_all printable t"
  shows "split_keep line (t @ CHR 0x0A # s) = (line @ t @ [CHR 0x0A]) # split_keep [] s"
proof -
  have "c \<noteq> CHR 0x0A \<and> c \<noteq> CHR 0x0D" if "printable c" for c
    using that by (auto simp: printable_def code_def)
  then show ?thesis using assms by (induction t arbitrary: line) auto
qed

lemma split_document: "\<forall>t\<in>set texts. list_all printable t \<Longrightarrow> splitlines_keep (document texts) = map (\<lambda>t. t @ [CHR 0x0A]) texts"
  by (induction texts) (auto simp: splitlines_keep_def document_def split_keep_printable)

lemma parse_document:
  assumes "\<forall>v\<in>set rows. plain_json v" and "mapm (dumps float_repr) rows = Inr texts"
  shows "mapm parse (map (\<lambda>t. t @ [CHR 0x0A]) texts) = Inr (map sort_json rows)"
    and "\<forall>t\<in>set texts. list_all printable t"
proof -
  have "list_all2 (\<lambda>v t. dumps float_repr v = Inr t) rows texts" using assms(2) by (simp add: mapm_eq_Inr)
  then show "mapm parse (map (\<lambda>t. t @ [CHR 0x0A]) texts) = Inr (map sort_json rows)"
    using assms(1) by (induction rule: list_all2_induct) (auto simp: parse_line)
  show "\<forall>t\<in>set texts. list_all printable t"
    using mapm_witness [OF assms(2)] dumps_printable assms(1) by blast
qed

lemma decode_document:
  assumes "\<forall>v\<in>set rows. plain_json v" and "mapm (dumps float_repr) rows = Inr texts"
    and "len (document texts) \<le> 16 * 1024 ^ 2" and "len rows \<le> 20000" and "rows \<noteq> []"
  shows "decode (document texts) =
    bnd (read_events (enumerate_from 1 (map sort_json rows))) (\<lambda>s. Inr (trace_report s (len rows) False))"
proof -
  note P = parse_document [OF assms(1,2)]
  have n: "length texts = length rows" using mapm_length [OF assms(2)] .
  then have "texts \<noteq> []" using assms(5) by auto
  then have w: "whole_lines (document texts) = (map (\<lambda>t. t @ [CHR 0x0A]) texts, False)"
    using split_document [OF P(2)] by (simp add: whole_lines_def last_map)
  show ?thesis using assms(3,4,5) n P(1) by (simp add: decode_def w len_def)
qed

section \<open>Properties of an accepted trace\<close>

text \<open>
  C2: an accepted route trace is a consistent history. Every committed forward starts at the
  position its session had reached, every session's recorded tokens are the concatenation of its
  committed forwards, and each completed request found in its session exactly its own input
  followed by its output without the last token, under its stopping rule.
\<close>

theorem trace_history_consistent:
  assumes "read_events (enumerate_from 1 rows) = Inr s" and "rows \<noteq> []"
  shows "contiguous (ts_committed s) \<and>
    (\<forall>session. session_tokens (ts_states s) session = history (ts_committed s) session) \<and>
    (\<forall>entry\<in>set (ts_requests s). request_recorded (ts_committed s) entry)"
  using read_events_inv [OF assms(1)] assms(2) by (auto simp: trace_inv_def session_inv_def)

definition sample_layers :: "pyval list list" where
  "sample_layers = replicate 48 (map PInt [0..9])"

definition sample_capture :: "pyval list" where
  "sample_capture = capture [(''artifact_revision'', PStr (hd REVISIONS)), (''build'', PStr (replicate 64 CHR ''a''))]
     [5] ''s'' ''decode'' sample_layers 7"

lemma sample_capture_read:
  "\<exists>s. read_events (enumerate_from 1 sample_capture) = Inr s \<and>
    closed_state [(''artifact_revision'', PStr (hd REVISIONS)), (''build'', PStr (replicate 64 CHR ''a''))] [5] ''s'' s"
  unfolding sample_capture_def
proof (rule capture_read)
  have "layer_routes [5] (map PInt [0..9])" by code_simp
  then show "\<forall>routes\<in>set sample_layers. layer_routes [5] routes" by (simp add: sample_layers_def)
qed (simp_all add: token_list_def sample_layers_def len_def)

lemma sample_capture_rows: "sample_capture \<noteq> []" "len sample_capture \<le> 20000"
  by (simp_all add: sample_capture_def capture_def begin_rows_def end_rows_def sample_layers_def len_def)

lemma trace_history_consistent_witness:
  "\<exists>s. read_events (enumerate_from 1 sample_capture) = Inr s \<and> contiguous (ts_committed s) \<and>
     len (ts_requests s) = 1 \<and> history (ts_committed s) ''s'' = [5]"
proof -
  obtain s where s: "read_events (enumerate_from 1 sample_capture) = Inr s"
    "ts_states s = [(''s'', [5])]" "len (ts_requests s) = 1"
    using sample_capture_read by (auto simp: closed_state_def)
  have "session_tokens (ts_states s) ''s'' = [5]" by (simp add: s(2) session_tokens_def)
  then show ?thesis using trace_history_consistent [OF s(1) sample_capture_rows(1)] s(1,3) by force
qed

text \<open>
  C3: the two readers agree. When a trace of a pinned artifact is accepted, \<open>route_segments\<close> with
  explicit boundaries accepts its rows exactly when their demands, the distinct experts of every committed
  layer pass, are within its bound of 250000. It then counts every committed forward completely: 48
  passes each, every selection and every demand, nothing excluded, missing or filtered, and the same artifact.
  Beyond the bound the demand bound is the exception it raises, and no other.
\<close>

theorem trace_fully_covered:
  assumes "read_events (enumerate_from 1 rows) = Inr s" and "len rows \<le> 20000"
    and "ts_header s = Some header" and "header_identity header revision build"
  shows "if trace_demands (ts_rows s) \<le> MAX_ACCESSES
    then \<exists>segments report. route_segments (ts_rows s) None True = Inr (segments, report) \<and>
       co_included_passes report = 48 * len (ts_committed s) \<and>
       co_excluded_incomplete_passes report = 0 \<and> co_missing_route_passes report = 0 \<and>
       co_filtered_passes report = 0 \<and> co_incomplete_windows report = 0 \<and>
       co_logical_router_selections report = 480 * committed_tokens (ts_committed s) \<and>
       co_demand_record_accesses report = trace_demands (ts_rows s) \<and>
       co_identity report = (if ts_committed s = [] then None else Some (revision, build))
    else route_segments (ts_rows s) None True = Inl demand_bound"
  by (rule read_trace_counted [OF assms])

lemma trace_fully_covered_witness:
  "\<exists>s segments report. read_events (enumerate_from 1 sample_capture) = Inr s \<and>
     route_segments (ts_rows s) None True = Inr (segments, report) \<and> co_included_passes report = 48"
proof -
  obtain s where s: "read_events (enumerate_from 1 sample_capture) = Inr s"
    "ts_header s = Some [(''artifact_revision'', PStr (hd REVISIONS)), (''build'', PStr (replicate 64 CHR ''a''))]"
    "len (ts_committed s) = 1" "ts_states s = [(''s'', [5])]"
    using sample_capture_read by (auto simp: closed_state_def)
  have inv: "trace_inv (length sample_capture) s" by (rule read_events_inv [OF s(1)])
  have "session_tokens (ts_states s) ''s'' = [5]" by (simp add: s(4) session_tokens_def)
  then have "history (ts_committed s) ''s'' = [5]"
    using inv sample_capture_rows(1) by (auto simp: trace_inv_def session_inv_def)
  moreover obtain f where f: "ts_committed s = [f]" using s(3) by (cases "ts_committed s") (auto simp: len_def)
  ultimately have "fw_input f = [5]" by (auto simp: history_def split: if_splits)
  moreover have rows: "trace_rows header (ts_committed s) (ts_rows s)" if "ts_header s = Some header" for header
    using inv sample_capture_rows(1) that by (auto simp: trace_inv_def session_inv_def)
  ultimately have t: "trace_demands (ts_rows s) \<le> MAX_ACCESSES"
    using trace_demands_le [OF rows [OF s(2)]] trace_rows_forward_ok [OF rows [OF s(2)], of f]
    by (simp add: f committed_tokens_def forward_ok_def len_def MAX_ACCESSES_def)
  have h: "header_identity [(''artifact_revision'', PStr (hd REVISIONS)), (''build'', PStr (replicate 64 CHR ''a''))]
      (hd REVISIONS) (replicate 64 CHR ''a'')"
    by (simp add: header_identity_def aget_def REVISIONS_def is_sha256_def hex_digits_def list_all_iff)
  show ?thesis
    using trace_fully_covered [OF s(1) sample_capture_rows(2) s(2) h] s(1,3) t by auto
qed

text \<open>
  C8: the reader is not vacuous: a capture of one request with one committed forward at offset 0 of any
  valid input, session, phase and 48 layers of valid routes, and one output token under a limit of one, is
  read to a complete trace with no active work left and its 48 rows committed.
\<close>

theorem capture_accepted:
  assumes "token_list input" and "session \<noteq> []" and "phase \<noteq> []"
    and "\<forall>routes\<in>set layers. layer_routes input routes" and "length layers = 48" and "0 \<le> token" and "token < 248320"
  shows "\<exists>s. read_events (enumerate_from 1 (capture identity input session phase layers token)) = Inr s \<and>
    closed_state identity input session s"
  by (rule capture_read [OF assms])

lemma capture_accepted_witness:
  "\<exists>s. read_events (enumerate_from 1 (capture [] [5] ''s'' ''decode'' (replicate 48 (map PInt [0..9])) 7)) = Inr s \<and>
    closed_state [] [5] ''s'' s"
proof (rule capture_accepted)
  have "layer_routes [5] (map PInt [0..9])" by code_simp
  then show "\<forall>routes\<in>set (replicate 48 (map PInt [0..9])). layer_routes [5] routes" by simp
qed (simp_all add: token_list_def len_def)

text \<open>
  C9: reading back what was written: for a value without floats, with ASCII strings and distinct
  keys, \<open>parse\<close> of the text that \<open>encoded\<close> produces is the value with its keys sorted.
\<close>

theorem encoded_parse:
  assumes "plain_json v" and "encoded float_repr v = Inr t"
  shows "parse t = Inr (sort_json v)"
  using parse_line [OF assms(1), of float_repr t "[]"] assms(2) by (simp add: encoded_def)

lemma encoded_parse_witness:
  "\<exists>t. encoded (\<lambda>_. []) (PDict [(''b'', PList [PInt 1, PNone]), (''a'', PBool True)]) = Inr t \<and>
     parse t = Inr (PDict [(''a'', PBool True), (''b'', PList [PInt 1, PNone])])"
proof -
  let ?v = "PDict [(''b'', PList [PInt 1, PNone]), (''a'', PBool True)]"
  have p: "plain_json ?v" by code_simp
  have s: "sort_json ?v = PDict [(''a'', PBool True), (''b'', PList [PInt 1, PNone])]" by code_simp
  have "returns (encoded (\<lambda>_. []) ?v)" by code_simp
  then obtain t where t: "encoded (\<lambda>_. []) ?v = Inr t" by (cases "encoded (\<lambda>_. []) ?v") auto
  show ?thesis using encoded_parse [OF p t] t s by auto
qed

text \<open>
  C12: whatever \<open>parse\<close> accepts has distinct keys in every object and only finite numbers, at every
  depth.
\<close>

theorem parse_accepts_strict:
  assumes "parse raw = Inr v"
  shows "strict_json v"
  by (rule parse_strict [OF assms])

lemma parse_accepts_strict_witness:
  "parse ''[1,{}]'' = Inr (PList [PInt 1, PDict []]) \<and> strict_json (PList [PInt 1, PDict []])"
proof -
  have "parse ''[1,{}]'' = Inr (PList [PInt 1, PDict []])" by code_simp
  then show ?thesis using parse_accepts_strict by blast
qed

end
