(* ===== verification/DemandCache.thy ===== *)
theory DemandCache
  imports Py
begin

text \<open>
  The contract of a demand cache with mandatory admission, as a locale, and what follows from
  it for any run over a fixed access sequence. The caches of \<open>cache_simulation.py\<close> (CLOCK,
  segmented LRU and Belady's oracle) and of \<open>block_cache_replay.py\<close> are interpretations.
  A second locale describes eviction of the record used furthest in the future, and a third
  compares it with an arbitrary demand cache: no demand cache of the same capacity misses
  less often on the same sequence.
\<close>

section \<open>Running a cache over a sequence\<close>

text \<open>
  \<open>for position, key in enumerate(sequence): hit = cache.access(key, position)\<close>: the list of
  hits and the final state, or the first exception.
\<close>

fun run_cache :: "('c \<Rightarrow> 'k \<Rightarrow> nat \<Rightarrow> (bool \<times> 'c) result) \<Rightarrow> 'c \<Rightarrow> 'k list \<Rightarrow> nat \<Rightarrow> (bool list \<times> 'c) result"
where
  "run_cache acc c [] p = Inr ([], c)"
| "run_cache acc c (k # ks) p =
     bnd (acc c k p) (\<lambda>(h, c'). bnd (run_cache acc c' ks (Suc p)) (\<lambda>(hs, c''). Inr (h # hs, c'')))"

definition miss_count :: "bool list \<Rightarrow> nat" where
  "miss_count hs = length (filter Not hs)"

lemma miss_count_simps [simp]:
  "miss_count [] = 0"
  "miss_count (h # hs) = (if h then 0 else 1) + miss_count hs"
  by (simp_all add: miss_count_def)

text \<open>The next position at or after \<open>p\<close> that asks for \<open>x\<close>; the length of the sequence if none.\<close>

definition next_use :: "'k list \<Rightarrow> nat \<Rightarrow> 'k \<Rightarrow> nat" where
  "next_use seq p x = p + length (takeWhile (\<lambda>y. y \<noteq> x) (drop p seq))"

lemma next_use_ge: "p \<le> next_use seq p x"
  by (simp add: next_use_def)

lemma next_use_here [simp]: "p < length seq \<Longrightarrow> next_use seq p (seq ! p) = p"
  by (simp add: next_use_def Cons_nth_drop_Suc [symmetric])

lemma next_use_later: "p < length seq \<Longrightarrow> x \<noteq> seq ! p \<Longrightarrow> next_use seq p x = next_use seq (Suc p) x"
  by (simp add: next_use_def Cons_nth_drop_Suc [symmetric])

lemma next_use_le: "p \<le> length seq \<Longrightarrow> next_use seq p x \<le> length seq"
  using length_takeWhile_le [of "\<lambda>y. y \<noteq> x" "drop p seq"] by (simp add: next_use_def)

lemma next_use_end: "x \<notin> set (drop p seq) \<Longrightarrow> p \<le> length seq \<Longrightarrow> next_use seq p x = length seq"
proof -
  assume "x \<notin> set (drop p seq)" and p: "p \<le> length seq"
  then have "takeWhile (\<lambda>y. y \<noteq> x) (drop p seq) = drop p seq"
    by (subst takeWhile_eq_all_conv) blast
  then show ?thesis using p unfolding next_use_def by (simp only: length_drop)
qed

text \<open>How many of the records of \<open>X\<close> are asked for again before position \<open>t\<close>.\<close>

definition due :: "'k list \<Rightarrow> nat \<Rightarrow> nat \<Rightarrow> 'k set \<Rightarrow> nat" where
  "due seq p t X = card {x \<in> X. next_use seq p x < t}"

lemma due_le_card: "finite X \<Longrightarrow> due seq p t X \<le> card X"
  by (auto simp: due_def intro: card_mono)

lemma due_mono: "finite Y \<Longrightarrow> X \<subseteq> Y \<Longrightarrow> due seq p t X \<le> due seq p t Y"
  by (auto simp: due_def intro!: card_mono)

lemma due_past: "t \<le> p \<Longrightarrow> due seq p t X = 0"
proof -
  assume t: "t \<le> p"
  have "\<not> next_use seq p x < t" for x
    using next_use_ge [of p seq x] t by simp
  then show ?thesis by (simp add: due_def)
qed

lemma due_split:
  assumes "finite X"
  shows "due seq p t X = due seq p t (X - {x}) + (if x \<in> X \<and> next_use seq p x < t then 1 else 0)"
proof (cases "x \<in> X \<and> next_use seq p x < t")
  case True
  then have "{y \<in> X. next_use seq p y < t} = insert x {y \<in> X - {x}. next_use seq p y < t}" by auto
  then show ?thesis using True assms by (simp add: due_def)
next
  case False
  then have "{y \<in> X. next_use seq p y < t} = {y \<in> X - {x}. next_use seq p y < t}" by auto
  then show ?thesis using False by (simp add: due_def)
qed

lemma due_all:
  assumes "finite X" and "\<forall>w\<in>X. next_use seq p w < t"
  shows "due seq p t X = card X"
  using assms by (auto simp: due_def intro!: arg_cong [where f = card])

lemma due_advance: "p < length seq \<Longrightarrow> seq ! p \<notin> X \<Longrightarrow> due seq (Suc p) t X = due seq p t X"
  unfolding due_def using next_use_later [of p seq]
  by (intro arg_cong [where f = card]) (auto, metis+)

section \<open>The contract\<close>

locale demand_cache =
  fixes acc :: "'c \<Rightarrow> 'k \<Rightarrow> nat \<Rightarrow> (bool \<times> 'c) result"
    and resident :: "'c \<Rightarrow> 'k set"
    and invar :: "nat \<Rightarrow> 'c \<Rightarrow> bool"
    and cap :: nat
    and seq :: "'k list"
  assumes step: "invar p c \<Longrightarrow> p < length seq \<Longrightarrow>
      \<exists>c'. acc c (seq ! p) p = Inr (seq ! p \<in> resident c, c') \<and> invar (Suc p) c' \<and>
        resident c' \<subseteq> insert (seq ! p) (resident c) \<and> (0 < cap \<longrightarrow> seq ! p \<in> resident c')"
    and bounded: "invar p c \<Longrightarrow> finite (resident c) \<and> card (resident c) \<le> cap"
begin

lemma run_step:
  assumes "invar p c" and "p < length seq"
  obtains c' where "acc c (seq ! p) p = Inr (seq ! p \<in> resident c, c')" and "invar (Suc p) c'"
    and "resident c' \<subseteq> insert (seq ! p) (resident c)" and "0 < cap \<longrightarrow> seq ! p \<in> resident c'"
    and "run_cache acc c (drop p seq) p =
      bnd (run_cache acc c' (drop (Suc p) seq) (Suc p))
        (\<lambda>(hs, c''). Inr ((seq ! p \<in> resident c) # hs, c''))"
  using step [OF assms] assms(2) by (auto simp: Cons_nth_drop_Suc [symmetric])

text \<open>A run never raises, reports one outcome per access and ends in a good state.\<close>

lemma run_returns:
  "invar p c \<Longrightarrow> p \<le> length seq \<Longrightarrow>
   \<exists>hs c'. run_cache acc c (drop p seq) p = Inr (hs, c') \<and> length hs = length seq - p \<and>
     invar (length seq) c'"
proof (induction "length seq - p" arbitrary: p c)
  case 0
  then show ?case by simp
next
  case (Suc n)
  then have p: "p < length seq" by simp
  obtain c' where c': "invar (Suc p) c'"
    and run: "run_cache acc c (drop p seq) p = bnd (run_cache acc c' (drop (Suc p) seq) (Suc p))
        (\<lambda>(hs, c''). Inr ((seq ! p \<in> resident c) # hs, c''))"
    using run_step [OF Suc.prems(1) p] by blast
  have "n = length seq - Suc p" "Suc p \<le> length seq" using Suc.hyps(2) p by auto
  from Suc.hyps(1) [OF this(1) c' this(2)] show ?case
    unfolding run using p by auto
qed

text \<open>Every record that is asked for and not resident at the start is missed at least once.\<close>

lemma compulsory:
  "invar p c \<Longrightarrow> p \<le> length seq \<Longrightarrow> run_cache acc c (drop p seq) p = Inr (hs, c') \<Longrightarrow>
   card (set (drop p seq) - resident c) \<le> miss_count hs"
proof (induction "length seq - p" arbitrary: p c hs)
  case 0
  then show ?case by simp
next
  case (Suc n)
  then have p: "p < length seq" by simp
  let ?x = "seq ! p"
  obtain c1 where c1: "invar (Suc p) c1" "resident c1 \<subseteq> insert ?x (resident c)"
    and run: "run_cache acc c (drop p seq) p = bnd (run_cache acc c1 (drop (Suc p) seq) (Suc p))
        (\<lambda>(hs, c''). Inr ((?x \<in> resident c) # hs, c''))"
    using run_step [OF Suc.prems(1) p] by blast
  from Suc.prems(3) obtain hs1 where hs: "hs = (?x \<in> resident c) # hs1"
    and run1: "run_cache acc c1 (drop (Suc p) seq) (Suc p) = Inr (hs1, c')"
    unfolding run by (auto simp: ok_simps)
  have IH: "card (set (drop (Suc p) seq) - resident c1) \<le> miss_count hs1"
    using Suc.hyps p c1(1) run1 by auto
  have D: "set (drop p seq) = insert ?x (set (drop (Suc p) seq))"
    using p by (simp add: Cons_nth_drop_Suc [symmetric])
  let ?A = "set (drop p seq) - resident c" and ?B = "set (drop (Suc p) seq) - resident c1"
  have "?A - {?x} \<subseteq> ?B" using c1(2) by (auto simp: D)
  then have le: "card (?A - {?x}) \<le> card ?B" by (intro card_mono) auto
  show ?case
  proof (cases "?x \<in> resident c")
    case True
    then have "?A - {?x} = ?A" by auto
    then show ?thesis using le IH True by (simp add: hs)
  next
    case False
    then have "card ?A = Suc (card (?A - {?x}))"
      by (intro card.remove) (auto simp: D)
    then show ?thesis using le IH False by (simp add: hs)
  qed
qed

text \<open>Without capacity every access misses.\<close>

lemma no_capacity:
  "invar p c \<Longrightarrow> p \<le> length seq \<Longrightarrow> cap = 0 \<Longrightarrow>
   run_cache acc c (drop p seq) p = Inr (hs, c') \<Longrightarrow> miss_count hs = length seq - p"
proof (induction "length seq - p" arbitrary: p c hs)
  case 0
  then show ?case by simp
next
  case (Suc n)
  then have p: "p < length seq" by simp
  obtain c1 where c1: "invar (Suc p) c1"
    and run: "run_cache acc c (drop p seq) p = bnd (run_cache acc c1 (drop (Suc p) seq) (Suc p))
        (\<lambda>(hs, c''). Inr ((seq ! p \<in> resident c) # hs, c''))"
    using run_step [OF Suc.prems(1) p] by blast
  obtain hs1 where hs: "hs = (seq ! p \<in> resident c) # hs1"
    and run1: "run_cache acc c1 (drop (Suc p) seq) (Suc p) = Inr (hs1, c')"
    using Suc.prems(4) unfolding run by (auto simp: ok_simps)
  have "resident c = {}" using bounded [OF Suc.prems(1)] Suc.prems(3) by auto
  then show ?case
    using Suc.hyps(1) [of "Suc p" c1 hs1] Suc.hyps(2) c1 run1 p Suc.prems(3) by (simp add: hs)
qed

text \<open>A record asked for twice in a row is found the second time.\<close>

lemma immediate_reuse:
  assumes "invar p c" and "Suc p < length seq" and "seq ! Suc p = seq ! p" and "0 < cap"
    and "acc c (seq ! p) p = Inr (h, c')" and "acc c' (seq ! Suc p) (Suc p) = Inr (h', c'')"
  shows h'
proof -
  have p: "p < length seq" using assms(2) by simp
  obtain d where d: "acc c (seq ! p) p = Inr (seq ! p \<in> resident c, d)" "invar (Suc p) d" "seq ! p \<in> resident d"
    using step [OF assms(1) p] assms(4) by auto
  then have "c' = d" using assms(5) by simp
  then show h' using step [OF d(2) assms(2)] assms(3,6) d(3) by auto
qed

end

section \<open>Evicting the record used furthest in the future\<close>

locale furthest_in_future = demand_cache +
  assumes on_hit: "invar p c \<Longrightarrow> p < length seq \<Longrightarrow> acc c (seq ! p) p = Inr (h, c') \<Longrightarrow>
      seq ! p \<in> resident c \<Longrightarrow> resident c' = resident c"
    and on_room: "invar p c \<Longrightarrow> p < length seq \<Longrightarrow> acc c (seq ! p) p = Inr (h, c') \<Longrightarrow>
      seq ! p \<notin> resident c \<Longrightarrow> card (resident c) < cap \<Longrightarrow> resident c' = insert (seq ! p) (resident c)"
    and on_full: "invar p c \<Longrightarrow> p < length seq \<Longrightarrow> acc c (seq ! p) p = Inr (h, c') \<Longrightarrow>
      seq ! p \<notin> resident c \<Longrightarrow> 0 < cap \<Longrightarrow> card (resident c) = cap \<Longrightarrow>
      \<exists>v\<in>resident c. resident c' = insert (seq ! p) (resident c - {v}) \<and>
        (\<forall>w\<in>resident c. next_use seq (Suc p) w \<le> next_use seq (Suc p) v)"
begin

text \<open>
  After a miss the oracle holds the requested record, and per horizon either as many soon-due
  records as before or a full house of them.
\<close>

lemma due_after:
  assumes inv: "invar p c" and p: "p < length seq" and acc: "acc c (seq ! p) p = Inr (h, c')"
    and pos: "0 < cap"
  shows "due seq p t (resident c - {seq ! p}) \<le> due seq p t (resident c' - {seq ! p}) \<or>
         due seq p t (resident c' - {seq ! p}) = cap - 1"
proof -
  let ?x = "seq ! p"
  have fin: "finite (resident c)" and le: "card (resident c) \<le> cap" using bounded [OF inv] by auto
  show ?thesis
  proof (cases "?x \<in> resident c \<or> card (resident c) < cap")
    case True
    then have "resident c' - {?x} = resident c - {?x}"
      using on_hit [OF inv p acc] on_room [OF inv p acc] by (cases "?x \<in> resident c") auto
    then show ?thesis by simp
  next
    case False
    then have x: "?x \<notin> resident c" and full: "card (resident c) = cap" using le by auto
    obtain v where v: "v \<in> resident c" and c': "resident c' = insert ?x (resident c - {v})"
      and far: "\<forall>w\<in>resident c. next_use seq (Suc p) w \<le> next_use seq (Suc p) v"
      using on_full [OF inv p acc x pos full] by blast
    have same: "next_use seq p w = next_use seq (Suc p) w" if "w \<in> resident c" for w
      using that x p by (metis next_use_later)
    have eq: "resident c' - {?x} = resident c - {v}" using x c' by auto
    show ?thesis
    proof (cases "next_use seq p v < t")
      case True
      then have "\<forall>w\<in>resident c - {v}. next_use seq p w < t"
        using far same v by fastforce
      then have "due seq p t (resident c - {v}) = card (resident c - {v})"
        by (intro due_all) (use fin in auto)
      then show ?thesis using eq full v by simp
    next
      case False
      then have "due seq p t (resident c) = due seq p t (resident c - {v})"
        using due_split [OF fin, of seq p t v] by simp
      then show ?thesis using eq x by simp
    qed
  qed
qed

end

locale against_oracle =
  opt: furthest_in_future acc1 resident1 invar1 cap seq +
  alt: demand_cache acc2 resident2 invar2 cap seq
  for acc1 :: "'c \<Rightarrow> 'k \<Rightarrow> nat \<Rightarrow> (bool \<times> 'c) result"
    and resident1 :: "'c \<Rightarrow> 'k set" and invar1 :: "nat \<Rightarrow> 'c \<Rightarrow> bool"
    and acc2 :: "'d \<Rightarrow> 'k \<Rightarrow> nat \<Rightarrow> (bool \<times> 'd) result"
    and resident2 :: "'d \<Rightarrow> 'k set" and invar2 :: "nat \<Rightarrow> 'd \<Rightarrow> bool"
    and cap :: nat and seq :: "'k list"
begin

text \<open>
  The other cache is ahead by at most \<open>\<phi>\<close> when, for every horizon, it holds at most \<open>\<phi>\<close> more
  soon-due records than the opt.
\<close>

definition ahead :: "nat \<Rightarrow> nat \<Rightarrow> 'c \<Rightarrow> 'd \<Rightarrow> bool" where
  "ahead p \<phi> c d \<longleftrightarrow> (\<forall>t\<le>length seq. due seq p t (resident2 d) \<le> due seq p t (resident1 c) + \<phi>)"

lemma ahead_step:
  assumes inv: "invar1 p c" "invar2 p d" and p: "p < length seq" and pos: "0 < cap"
    and a: "ahead p \<phi> c d"
    and c': "acc1 c (seq ! p) p = Inr (seq ! p \<in> resident1 c, c')" "invar1 (Suc p) c'" "seq ! p \<in> resident1 c'"
    and d': "invar2 (Suc p) d'" "resident2 d' \<subseteq> insert (seq ! p) (resident2 d)" "seq ! p \<in> resident2 d'"
  obtains \<phi>' where "ahead (Suc p) \<phi>' c' d'"
    and "(if seq ! p \<in> resident1 c then 0 else 1) + \<phi>' = (if seq ! p \<in> resident2 d then 0 else 1) + \<phi>"
proof -
  let ?x = "seq ! p"
  have fin: "finite (resident1 c)" "finite (resident2 d)" "finite (resident1 c')" "finite (resident2 d')"
    and cd': "card (resident2 d') \<le> cap"
    using opt.bounded alt.bounded inv c'(2) d'(1) by auto
  have split1: "due seq p t (resident1 c) = due seq p t (resident1 c - {?x}) + (if ?x \<in> resident1 c \<and> p < t then 1 else 0)" for t
    using due_split [OF fin(1), of seq p t ?x] p by simp
  have split2: "due seq p t (resident2 d) = due seq p t (resident2 d - {?x}) + (if ?x \<in> resident2 d \<and> p < t then 1 else 0)" for t
    using due_split [OF fin(2), of seq p t ?x] p by simp
  have none: "due seq p (Suc p) (X - {?x}) = 0" for X
  proof -
    have "\<not> next_use seq p y < Suc p" if "y \<noteq> ?x" for y
      using next_use_ge [of "Suc p" seq y] next_use_later [OF p that] by simp
    then have "{y \<in> X - {?x}. next_use seq p y < Suc p} = {}" by auto
    then show ?thesis by (simp only: due_def card.empty)
  qed
  have "0 < \<phi>" if "?x \<notin> resident1 c" "?x \<in> resident2 d"
  proof -
    have "due seq p (Suc p) (resident2 d) \<le> due seq p (Suc p) (resident1 c) + \<phi>"
      using a p by (simp add: ahead_def)
    moreover have "due seq p (Suc p) (resident1 c) = due seq p (Suc p) (resident1 c - {?x})"
      using split1 [of "Suc p"] that(1) by (simp only: simp_thms if_False add_0_right)
    moreover have "due seq p (Suc p) (resident2 d) = due seq p (Suc p) (resident2 d - {?x}) + 1"
      using split2 [of "Suc p"] that(2) by (simp only: simp_thms lessI if_True)
    ultimately show ?thesis using none [of "resident1 c"] by linarith
  qed
  then obtain \<phi>' where \<phi>': "(if ?x \<in> resident1 c then 0 else 1) + \<phi>' = (if ?x \<in> resident2 d then 0 else 1) + \<phi>"
    by (cases "?x \<in> resident1 c"; cases "?x \<in> resident2 d") (auto dest: gr0_implies_Suc)
  have "due seq (Suc p) t (resident2 d') \<le> due seq (Suc p) t (resident1 c') + \<phi>'" if t: "t \<le> length seq" for t
  proof -
    let ?j = "if next_use seq (Suc p) ?x < t then 1 else 0 :: nat"
    let ?b = "due seq p t (resident2 d' - {?x})" and ?a = "due seq p t (resident1 c' - {?x})"
    have e2: "due seq (Suc p) t (resident2 d') = ?b + ?j"
      using due_split [OF fin(4), of seq "Suc p" t ?x] d'(3) p by (simp add: due_advance)
    have e1: "due seq (Suc p) t (resident1 c') = ?a + ?j"
      using due_split [OF fin(3), of seq "Suc p" t ?x] c'(3) p by (simp add: due_advance)
    have b1: "?b \<le> due seq p t (resident2 d - {?x})" using d'(2) fin by (intro due_mono) auto
    have "?b \<le> card (resident2 d' - {?x})" using fin by (intro due_le_card) auto
    then have b2: "?b \<le> cap - 1" using d'(3) cd' fin by simp
    have "?b \<le> ?a + \<phi>'"
    proof (cases "p < t")
      case False
      then have "?b = 0" by (simp add: due_past)
      then show ?thesis by simp
    next
      case True
      have "due seq p t (resident2 d - {?x}) + (if ?x \<in> resident2 d then 1 else 0) \<le>
            due seq p t (resident1 c - {?x}) + (if ?x \<in> resident1 c then 1 else 0) + \<phi>"
      proof -
        have "due seq p t (resident2 d) \<le> due seq p t (resident1 c) + \<phi>"
          using a t by (simp add: ahead_def)
        moreover have "due seq p t (resident1 c) = due seq p t (resident1 c - {?x}) + (if ?x \<in> resident1 c then 1 else 0)"
          using split1 [of t] by (simp only: True simp_thms)
        moreover have "due seq p t (resident2 d) = due seq p t (resident2 d - {?x}) + (if ?x \<in> resident2 d then 1 else 0)"
          using split2 [of t] by (simp only: True simp_thms)
        ultimately show ?thesis by linarith
      qed
      then have "due seq p t (resident2 d - {?x}) \<le> due seq p t (resident1 c - {?x}) + \<phi>'"
        using \<phi>' by (auto split: if_splits)
      then show ?thesis
        using opt.due_after [OF inv(1) p c'(1) pos, of t] b1 b2 by linarith
    qed
    then show ?thesis by (simp add: e1 e2)
  qed
  then have "ahead (Suc p) \<phi>' c' d'" by (simp add: ahead_def)
  then show thesis using \<phi>' that by blast
qed

lemma oracle_misses_le:
  "invar1 p c \<Longrightarrow> invar2 p d \<Longrightarrow> p \<le> length seq \<Longrightarrow> 0 < cap \<Longrightarrow> ahead p \<phi> c d \<Longrightarrow>
   run_cache acc1 c (drop p seq) p = Inr (hs, c') \<Longrightarrow> run_cache acc2 d (drop p seq) p = Inr (gs, d') \<Longrightarrow>
   miss_count hs \<le> miss_count gs + \<phi>"
proof (induction "length seq - p" arbitrary: p c d \<phi> hs gs)
  case 0
  then show ?case by simp
next
  case (Suc n)
  then have p: "p < length seq" by simp
  let ?x = "seq ! p"
  obtain c1 where c1: "acc1 c ?x p = Inr (?x \<in> resident1 c, c1)" "invar1 (Suc p) c1" "?x \<in> resident1 c1"
    and run1: "run_cache acc1 c (drop p seq) p = bnd (run_cache acc1 c1 (drop (Suc p) seq) (Suc p))
        (\<lambda>(hs, c''). Inr ((?x \<in> resident1 c) # hs, c''))"
    using opt.run_step [OF Suc.prems(1) p] Suc.prems(4) by metis
  obtain d1 where d1: "invar2 (Suc p) d1" "resident2 d1 \<subseteq> insert ?x (resident2 d)" "?x \<in> resident2 d1"
    and run2: "run_cache acc2 d (drop p seq) p = bnd (run_cache acc2 d1 (drop (Suc p) seq) (Suc p))
        (\<lambda>(hs, c''). Inr ((?x \<in> resident2 d) # hs, c''))"
    using alt.run_step [OF Suc.prems(2) p] Suc.prems(4) by metis
  obtain hs1 where hs: "hs = (?x \<in> resident1 c) # hs1" "run_cache acc1 c1 (drop (Suc p) seq) (Suc p) = Inr (hs1, c')"
    using Suc.prems(6) unfolding run1 by (auto simp: ok_simps)
  obtain gs1 where gs: "gs = (?x \<in> resident2 d) # gs1" "run_cache acc2 d1 (drop (Suc p) seq) (Suc p) = Inr (gs1, d')"
    using Suc.prems(7) unfolding run2 by (auto simp: ok_simps)
  obtain \<phi>' where a: "ahead (Suc p) \<phi>' c1 d1"
    and \<phi>': "(if ?x \<in> resident1 c then 0 else 1) + \<phi>' = (if ?x \<in> resident2 d then 0 else 1) + \<phi>"
    using ahead_step [OF Suc.prems(1,2) p Suc.prems(4,5) c1 d1] by blast
  have "miss_count hs1 \<le> miss_count gs1 + \<phi>'"
    using Suc.hyps(1) [of "Suc p" c1 d1 \<phi>' hs1 gs1] Suc.hyps(2) p c1(2) d1(1) a hs(2) gs(2) Suc.prems(4)
    by simp
  then show ?case using \<phi>' by (auto simp: hs gs split: if_splits)
qed

text \<open>From an empty start the oracle misses least.\<close>

lemma oracle_optimal:
  assumes "invar1 0 c" and "invar2 0 d" and "resident1 c = {}" and "resident2 d = {}"
    and "run_cache acc1 c seq 0 = Inr (hs, c')" and "run_cache acc2 d seq 0 = Inr (gs, d')"
  shows "miss_count hs \<le> miss_count gs"
proof (cases "cap = 0")
  case True
  then show ?thesis using opt.no_capacity [of 0 c hs c'] alt.no_capacity [of 0 d gs d'] assms by simp
next
  case False
  have "ahead 0 0 c d" using assms by (simp add: ahead_def due_def)
  then show ?thesis using oracle_misses_le [of 0 c d 0 hs c' gs d'] assms False by simp
qed

end

end
