(* ===== verification/SimClock.thy ===== *)
theory SimClock
  imports DemandCache
begin

text \<open>
  Class \<open>Clock\<close> of \<open>scripts/qwen/cache_simulation.py\<close>: second-chance replacement over a ring of
  slots. The model keeps the Python state (slot array, reference bits, key lookup, hand) and
  every access of the original, including the errors that an inconsistent state would raise.
\<close>

record clock =
  cl_capacity :: nat
  cl_slots :: "int option list"
  cl_referenced :: "bool list"
  cl_lookup :: "int \<rightharpoonup> nat"
  cl_hand :: nat

definition clock_init :: "nat \<Rightarrow> clock" where
  "clock_init capacity = \<lparr>cl_capacity = capacity, cl_slots = replicate capacity None,
     cl_referenced = replicate capacity False, cl_lookup = Map.empty, cl_hand = 0\<rparr>"

lemma count_true_clear:
  "i < length bs \<Longrightarrow> bs ! i \<Longrightarrow> length (filter id (bs[i := False])) < length (filter id bs)"
proof (induction bs arbitrary: i)
  case Nil
  then show ?case by simp
next
  case (Cons b bs)
  then show ?case by (cases i) auto
qed

text \<open>\<open>while self.referenced[self.hand]\<close>: clear the bit and advance the hand around the ring.\<close>

function clock_sweep :: "nat \<Rightarrow> bool list \<Rightarrow> nat \<Rightarrow> (bool list \<times> nat) result" where
  "clock_sweep capacity referenced hand =
     (if length referenced \<le> hand then Inl IndexError
      else if referenced ! hand
           then clock_sweep capacity (referenced[hand := False]) ((hand + 1) mod capacity)
           else Inr (referenced, hand))"
  by pat_completeness auto

termination
  by (relation "measure (\<lambda>(capacity, referenced, hand). length (filter id referenced))")
     (auto simp: count_true_clear)

declare clock_sweep.simps [simp del]

definition clock_access :: "clock \<Rightarrow> int \<Rightarrow> nat \<Rightarrow> (bool \<times> clock) result" where
  "clock_access c key position =
     (case cl_lookup c key of
        Some slot \<Rightarrow>
          (if slot < length (cl_referenced c)
           then Inr (True, c\<lparr>cl_referenced := (cl_referenced c)[slot := True]\<rparr>)
           else Inl IndexError)
      | None \<Rightarrow>
          if cl_capacity c = 0 then Inr (False, c)
          else bnd (clock_sweep (cl_capacity c) (cl_referenced c) (cl_hand c)) (\<lambda>(referenced, slot).
               if length (cl_slots c) \<le> slot then Inl IndexError
               else bnd (case cl_slots c ! slot of
                           None \<Rightarrow> Inr (cl_lookup c)
                         | Some old \<Rightarrow> if old \<in> dom (cl_lookup c) then Inr ((cl_lookup c)(old := None))
                                      else Inl (KeyError [])) (\<lambda>lookup.
               Inr (False, c\<lparr>cl_slots := (cl_slots c)[slot := Some key],
                            cl_lookup := lookup(key \<mapsto> slot),
                            cl_referenced := referenced[slot := True],
                            cl_hand := (slot + 1) mod cl_capacity c\<rparr>))))"

definition clock_resident :: "clock \<Rightarrow> int set" where
  "clock_resident c = dom (cl_lookup c)"

section \<open>The sweep\<close>

text \<open>
  With the hand inside the ring the sweep always stops, at a slot whose bit is clear, and it
  only clears bits.
\<close>

lemma clock_sweep_stops:
  "hand < capacity \<Longrightarrow> length referenced = capacity \<Longrightarrow>
   \<exists>r h. clock_sweep capacity referenced hand = Inr (r, h) \<and> h < capacity \<and> length r = capacity \<and>
     \<not> r ! h \<and> (\<forall>i<capacity. r ! i \<longrightarrow> referenced ! i)"
proof (induction capacity referenced hand rule: clock_sweep.induct)
  case (1 capacity referenced hand)
  show ?case
  proof (cases "referenced ! hand")
    case True
    have "(hand + 1) mod capacity < capacity" using 1(2) by simp
    with 1(1) [OF _ True] 1(2,3) obtain r h where
      "clock_sweep capacity (referenced[hand := False]) ((hand + 1) mod capacity) = Inr (r, h)"
      "h < capacity" "length r = capacity" "\<not> r ! h" "\<forall>i<capacity. r ! i \<longrightarrow> referenced[hand := False] ! i"
      by auto
    moreover have "referenced[hand := False] ! i \<longrightarrow> referenced ! i" if "i < capacity" for i
      using that 1(3) by (cases "i = hand") (auto simp: nth_list_update)
    ultimately show ?thesis using True 1(2,3) by (subst clock_sweep.simps) auto
  next
    case False
    then show ?thesis using 1(2,3) by (subst clock_sweep.simps) auto
  qed
qed

lemma clock_sweep_distance:
  "hand < capacity \<Longrightarrow> length referenced = capacity \<Longrightarrow> d < capacity \<Longrightarrow>
   \<not> referenced ! ((hand + d) mod capacity) \<Longrightarrow> \<forall>e<d. referenced ! ((hand + e) mod capacity) \<Longrightarrow>
   \<exists>r. clock_sweep capacity referenced hand = Inr (r, (hand + d) mod capacity) \<and>
     length r = capacity \<and>
     (\<forall>i<capacity. r ! i = (referenced ! i \<and> (\<forall>e<d. i \<noteq> (hand + e) mod capacity)))"
proof (induction d arbitrary: hand referenced)
  case 0
  then show ?case by (subst clock_sweep.simps) auto
next
  case (Suc d)
  let ?h = "(hand + 1) mod capacity" and ?r = "referenced[hand := False]"
  have cap: "0 < capacity" using Suc.prems(1) by simp
  have here: "referenced ! hand" using Suc.prems(1,5) by (auto dest: spec [of _ 0])
  have shift: "(?h + e) mod capacity = (hand + Suc e) mod capacity" for e
    by (simp add: mod_add_left_eq)
  have ne: "(hand + Suc e) mod capacity \<noteq> hand" if "Suc e < capacity" for e
  proof
    assume "(hand + Suc e) mod capacity = hand"
    then have "(hand + Suc e) mod capacity = (hand + 0) mod capacity" using Suc.prems(1) by simp
    then have "capacity dvd Suc e" by (simp add: mod_eq_dvd_iff_nat)
    then show False using that by (auto dest: dvd_imp_le)
  qed
  have sub: "?r ! ((hand + Suc e) mod capacity) = referenced ! ((hand + Suc e) mod capacity)" if "Suc e < capacity" for e
    using ne [OF that] by simp
  have "?h < capacity" "length ?r = capacity" "d < capacity" using cap Suc.prems(2,3) by simp_all
  moreover have "\<not> ?r ! ((?h + d) mod capacity)"
    unfolding shift using sub [OF Suc.prems(3)] Suc.prems(4) by simp
  moreover have "?r ! ((?h + e) mod capacity)" if "e < d" for e
    unfolding shift using sub [of e] Suc.prems(3) that Suc.prems(5) [rule_format, of "Suc e"] by simp
  ultimately obtain r where r: "clock_sweep capacity ?r ?h = Inr (r, (?h + d) mod capacity)" "length r = capacity"
    "\<forall>i<capacity. r ! i = (?r ! i \<and> (\<forall>e<d. i \<noteq> (?h + e) mod capacity))"
    using Suc.IH by blast
  have "clock_sweep capacity referenced hand = clock_sweep capacity ?r ?h"
    using here Suc.prems(1,2) by (subst clock_sweep.simps) simp
  moreover have "r ! i = (referenced ! i \<and> (\<forall>e<Suc d. i \<noteq> (hand + e) mod capacity))" if i: "i < capacity" for i
  proof -
    have "(\<forall>e<Suc d. i \<noteq> (hand + e) mod capacity) = (i \<noteq> hand \<and> (\<forall>e<d. i \<noteq> (hand + Suc e) mod capacity))"
      using Suc.prems(1) by (auto simp: less_Suc_eq_0_disj)
    moreover have "r ! i = (?r ! i \<and> (\<forall>e<d. i \<noteq> (hand + Suc e) mod capacity))"
      using r(3) i unfolding shift by blast
    moreover have "?r ! i = (referenced ! i \<and> i \<noteq> hand)"
      using i Suc.prems(2) by (cases "i = hand") simp_all
    ultimately show ?thesis by blast
  qed
  ultimately show ?case using r(1,2) by (simp only: shift) blast
qed

text \<open>
  C11: second chance. The sweep of \<open>Clock.access\<close> ends at the first slot in ring order from the hand
  whose reference bit is clear, and clears exactly the bits it passed on the way.
\<close>

theorem clock_sweep_first_clear:
  "hand < capacity \<Longrightarrow> length referenced = capacity \<Longrightarrow> d < capacity \<Longrightarrow>
   \<not> referenced ! ((hand + d) mod capacity) \<Longrightarrow> \<forall>e<d. referenced ! ((hand + e) mod capacity) \<Longrightarrow>
   \<exists>r. clock_sweep capacity referenced hand = Inr (r, (hand + d) mod capacity) \<and>
     length r = capacity \<and>
     (\<forall>i<capacity. r ! i = (referenced ! i \<and> (\<forall>e<d. i \<noteq> (hand + e) mod capacity)))"
  by (rule clock_sweep_distance)

lemma clock_sweep_first_clear_witness:
  "\<exists>r. clock_sweep 4 [True, False, True, True] 2 = Inr (r, 1) \<and> length r = 4 \<and>
     (\<forall>i<4. r ! i = ([True, False, True, True] ! i \<and> (\<forall>e<3. i \<noteq> (2 + e) mod 4)))"
proof -
  have h: "\<forall>e<3. [True, False, True, True] ! ((2 + e) mod 4)"
  proof (intro allI impI)
    fix e :: nat
    assume "e < 3"
    then have "e = 0 \<or> e = 1 \<or> e = 2" by arith
    then show "[True, False, True, True] ! ((2 + e) mod 4)" by auto
  qed
  have m: "(2 + 3) mod 4 = (1::nat)" by simp
  have "\<exists>r. clock_sweep 4 [True, False, True, True] 2 = Inr (r, (2 + 3) mod 4) \<and> length r = 4 \<and>
     (\<forall>i<4. r ! i = ([True, False, True, True] ! i \<and> (\<forall>e<3. i \<noteq> (2 + e) mod 4)))"
    by (rule clock_sweep_first_clear [OF _ _ _ _ h]) simp_all
  then show ?thesis by (simp only: m)
qed

section \<open>The invariant\<close>

text \<open>The lookup is exactly the inverse of the slot array; the hand stays inside the ring.\<close>

definition clock_inv :: "nat \<Rightarrow> clock \<Rightarrow> bool" where
  "clock_inv capacity c \<longleftrightarrow> cl_capacity c = capacity \<and> length (cl_slots c) = capacity \<and>
     length (cl_referenced c) = capacity \<and> (0 < capacity \<longrightarrow> cl_hand c < capacity) \<and>
     (\<forall>k i. cl_lookup c k = Some i \<longleftrightarrow> i < capacity \<and> cl_slots c ! i = Some k)"

lemma clock_init_inv: "clock_inv capacity (clock_init capacity)"
  by (auto simp: clock_inv_def clock_init_def)

lemma clock_init_resident: "clock_resident (clock_init capacity) = {}"
  by (simp add: clock_resident_def clock_init_def)

lemma clock_invD:
  assumes "clock_inv capacity c"
  shows "cl_capacity c = capacity" "length (cl_slots c) = capacity" "length (cl_referenced c) = capacity"
    and "0 < capacity \<Longrightarrow> cl_hand c < capacity"
    and "cl_lookup c k = Some i \<longleftrightarrow> i < capacity \<and> cl_slots c ! i = Some k"
  using assms by (simp_all add: clock_inv_def)

lemma clock_inv_finite:
  assumes "clock_inv capacity c"
  shows "finite (clock_resident c) \<and> card (clock_resident c) \<le> capacity"
proof -
  have "clock_resident c \<subseteq> (\<lambda>i. the (cl_slots c ! i)) ` {..<capacity}"
    using clock_invD(5) [OF assms] by (force simp: clock_resident_def)
  moreover have "card ((\<lambda>i. the (cl_slots c ! i)) ` {..<capacity}) \<le> capacity"
    using card_image_le [of "{..<capacity}"] by simp
  ultimately show ?thesis
    by (meson card_mono finite_imageI finite_lessThan finite_subset le_trans)
qed

text \<open>Giving a slot to a new key keeps the lookup the inverse of the slot array.\<close>

lemma clock_replace_inv:
  assumes inv: "clock_inv capacity c" and h: "h < capacity" and r: "length r = capacity"
    and new: "cl_lookup c key = None"
    and lk: "\<And>k. lookup k = (if cl_slots c ! h = Some k then None else cl_lookup c k)"
  shows "clock_inv capacity (c\<lparr>cl_slots := (cl_slots c)[h := Some key], cl_lookup := lookup(key \<mapsto> h),
           cl_referenced := r[h := True], cl_hand := (h + 1) mod capacity\<rparr>)"
proof -
  note D = clock_invD [OF inv]
  have "cl_slots c ! i \<noteq> Some key" if "i < capacity" for i
    using new D(5) [of key i] that by auto
  then have "(lookup(key \<mapsto> h)) k = Some i \<longleftrightarrow> i < capacity \<and> (cl_slots c)[h := Some key] ! i = Some k" for k i
    using h D(2) D(5) [of k i] D(5) [of k h] lk [of k]
    by (cases "k = key"; cases "i = h") (auto simp: nth_list_update)
  then show ?thesis using D(1,2) h r by (simp add: clock_inv_def)
qed

lemma clock_access_hit:
  assumes inv: "clock_inv capacity c" and "cl_lookup c key = Some slot"
  shows "clock_access c key position = Inr (True, c\<lparr>cl_referenced := (cl_referenced c)[slot := True]\<rparr>)"
    and "clock_inv capacity (c\<lparr>cl_referenced := (cl_referenced c)[slot := True]\<rparr>)"
proof -
  have "slot < capacity" using assms(2) clock_invD(5) [OF inv] by blast
  then show "clock_access c key position = Inr (True, c\<lparr>cl_referenced := (cl_referenced c)[slot := True]\<rparr>)"
    using assms(2) clock_invD(3) [OF inv] by (simp add: clock_access_def)
  show "clock_inv capacity (c\<lparr>cl_referenced := (cl_referenced c)[slot := True]\<rparr>)"
    using inv by (simp add: clock_inv_def)
qed

lemma clock_access_miss:
  assumes inv: "clock_inv capacity c" and new: "cl_lookup c key = None" and pos: "0 < capacity"
  obtains r h where "h < capacity" "length r = capacity"
    and "clock_sweep capacity (cl_referenced c) (cl_hand c) = Inr (r, h)"
    and "clock_access c key position = Inr (False, c\<lparr>cl_slots := (cl_slots c)[h := Some key],
           cl_lookup := (\<lambda>k. if cl_slots c ! h = Some k then None else cl_lookup c k)(key \<mapsto> h),
           cl_referenced := r[h := True], cl_hand := (h + 1) mod capacity\<rparr>)"
proof -
  note D = clock_invD [OF inv]
  obtain r h where sw: "clock_sweep capacity (cl_referenced c) (cl_hand c) = Inr (r, h)"
    and h: "h < capacity" and r: "length r = capacity"
    using clock_sweep_stops [OF D(4) [OF pos] D(3)] by auto
  have "(case cl_slots c ! h of None \<Rightarrow> Inr (cl_lookup c)
         | Some old \<Rightarrow> if old \<in> dom (cl_lookup c) then Inr ((cl_lookup c)(old := None)) else Inl (KeyError []))
        = Inr (\<lambda>k. if cl_slots c ! h = Some k then None else cl_lookup c k)"
    using D(5) [of _ h] h by (auto simp: fun_eq_iff split: option.split)
  then show thesis using that [OF h r sw] new pos sw h D(1,2) by (simp add: clock_access_def)
qed

lemma clock_access_step:
  assumes inv: "clock_inv capacity c"
  shows "\<exists>c'. clock_access c key position = Inr (key \<in> clock_resident c, c') \<and> clock_inv capacity c' \<and>
    clock_resident c' \<subseteq> insert key (clock_resident c) \<and> (0 < capacity \<longrightarrow> key \<in> clock_resident c')"
proof (cases "cl_lookup c key")
  case (Some slot)
  then show ?thesis using clock_access_hit [OF inv Some] by (auto simp: clock_resident_def)
next
  case None
  show ?thesis
  proof (cases "capacity = 0")
    case True
    then show ?thesis using None inv clock_invD(1) [OF inv]
      by (auto simp: clock_access_def clock_resident_def)
  next
    case False
    then have pos: "0 < capacity" by simp
    obtain r h where h: "h < capacity" "length r = capacity"
      and acc: "clock_access c key position = Inr (False, c\<lparr>cl_slots := (cl_slots c)[h := Some key],
           cl_lookup := (\<lambda>k. if cl_slots c ! h = Some k then None else cl_lookup c k)(key \<mapsto> h),
           cl_referenced := r[h := True], cl_hand := (h + 1) mod capacity\<rparr>)"
      by (rule clock_access_miss [OF inv None pos])
    show ?thesis
      unfolding acc using clock_replace_inv [OF inv h None refl] None
      by (auto simp: clock_resident_def split: if_splits)
  qed
qed

interpretation clock_demand: demand_cache clock_access clock_resident "\<lambda>_. clock_inv capacity" capacity seq
  for capacity seq
proof
  fix p c
  assume inv: "clock_inv capacity c"
  show "\<exists>c'. clock_access c (seq ! p) p = Inr (seq ! p \<in> clock_resident c, c') \<and> clock_inv capacity c' \<and>
      clock_resident c' \<subseteq> insert (seq ! p) (clock_resident c) \<and> (0 < capacity \<longrightarrow> seq ! p \<in> clock_resident c')"
    by (rule clock_access_step [OF inv])
  show "finite (clock_resident c) \<and> card (clock_resident c) \<le> capacity"
    by (rule clock_inv_finite [OF inv])
qed

end
