(* ===== verification/SimSegmented.thy ===== *)
theory SimSegmented
  imports DemandCache
begin

text \<open>
  Class \<open>SegmentedLRU\<close> of \<open>scripts/qwen/cache_simulation.py\<close>: a probationary and a protected
  segment, both ordered dictionaries whose values are never read, modelled as lists of keys in
  insertion order. The protected segment holds at most three quarters of the capacity.
\<close>

record slru =
  sl_capacity :: nat
  sl_protected_limit :: nat
  sl_probation :: "int list"
  sl_protected :: "int list"

definition slru_init :: "nat \<Rightarrow> slru" where
  "slru_init capacity = \<lparr>sl_capacity = capacity, sl_protected_limit = 3 * capacity div 4,
     sl_probation = [], sl_protected = []\<rparr>"

text \<open>\<open>OrderedDict.popitem(last=False)\<close>, \<open>move_to_end\<close>, deletion, and storing a key.\<close>

fun od_popfirst :: "'k list \<Rightarrow> ('k \<times> 'k list) result" where
  "od_popfirst [] = Inl (KeyError [])"
| "od_popfirst (k # ks) = Inr (k, ks)"

definition od_move_to_end :: "'k \<Rightarrow> 'k list \<Rightarrow> 'k list" where
  "od_move_to_end k ks = remove1 k ks @ [k]"

definition od_store :: "'k \<Rightarrow> 'k list \<Rightarrow> 'k list" where
  "od_store k ks = (if k \<in> set ks then ks else ks @ [k])"

lemma set_od_store [simp]: "set (od_store k ks) = insert k (set ks)"
  by (auto simp: od_store_def)

lemma distinct_od_store [simp]: "distinct (od_store k ks) = distinct ks"
  by (auto simp: od_store_def)

lemma length_od_store: "length (od_store k ks) = (if k \<in> set ks then length ks else Suc (length ks))"
  by (simp add: od_store_def)

lemma od_popfirst_eq_Inr [ok_simps]: "od_popfirst ks = Inr (k, r) \<longleftrightarrow> ks = k # r"
  by (cases ks) auto

lemma od_popfirst_returns: "ks \<noteq> [] \<Longrightarrow> od_popfirst ks = Inr (hd ks, tl ks)"
  by (cases ks) auto

definition slru_access :: "slru \<Rightarrow> int \<Rightarrow> nat \<Rightarrow> (bool \<times> slru) result" where
  "slru_access c key position =
     (if key \<in> set (sl_protected c)
      then Inr (True, c\<lparr>sl_protected := od_move_to_end key (sl_protected c)\<rparr>)
      else if key \<in> set (sl_probation c)
      then let probation = remove1 key (sl_probation c);
               protected = od_store key (sl_protected c)
           in if sl_protected_limit c < length protected
              then bnd (od_popfirst protected) (\<lambda>(demoted, rest).
                   Inr (True, c\<lparr>sl_probation := od_store demoted probation, sl_protected := rest\<rparr>))
              else Inr (True, c\<lparr>sl_probation := probation, sl_protected := protected\<rparr>)
      else if sl_capacity c = 0 then Inr (False, c)
      else bnd (if length (sl_protected c) + length (sl_probation c) = sl_capacity c
                then bnd (od_popfirst (sl_probation c)) (\<lambda>(old, rest). Inr rest)
                else Inr (sl_probation c)) (\<lambda>probation.
           Inr (False, c\<lparr>sl_probation := od_store key probation\<rparr>)))"

definition slru_resident :: "slru \<Rightarrow> int set" where
  "slru_resident c = set (sl_probation c) \<union> set (sl_protected c)"

text \<open>
  No key is in both segments or twice in one, the two together respect the capacity, and the
  protected segment its limit.
\<close>

definition slru_inv :: "nat \<Rightarrow> slru \<Rightarrow> bool" where
  "slru_inv capacity c \<longleftrightarrow> sl_capacity c = capacity \<and> sl_protected_limit c = 3 * capacity div 4 \<and>
     distinct (sl_probation c) \<and> distinct (sl_protected c) \<and>
     set (sl_probation c) \<inter> set (sl_protected c) = {} \<and>
     length (sl_probation c) + length (sl_protected c) \<le> capacity \<and>
     length (sl_protected c) \<le> 3 * capacity div 4"

lemma slru_init_inv: "slru_inv capacity (slru_init capacity)"
  by (simp add: slru_inv_def slru_init_def)

lemma slru_init_resident: "slru_resident (slru_init capacity) = {}"
  by (simp add: slru_resident_def slru_init_def)

lemma slru_inv_card: "slru_inv capacity c \<Longrightarrow> card (slru_resident c) \<le> capacity"
  by (simp add: slru_inv_def slru_resident_def card_Un_disjoint distinct_card)

text \<open>A full cache has a probationary record to evict: the protected segment never fills it.\<close>

lemma slru_probation_nonempty:
  assumes "slru_inv capacity c" and "0 < capacity"
    and "length (sl_protected c) + length (sl_probation c) = capacity"
  shows "sl_probation c \<noteq> []"
proof
  assume "sl_probation c = []"
  then have "capacity \<le> 3 * capacity div 4" using assms by (auto simp: slru_inv_def)
  then show False using assms(2) by linarith
qed

lemma slru_hit_protected:
  assumes inv: "slru_inv capacity c" and "key \<in> set (sl_protected c)"
  shows "\<exists>c'. slru_access c key position = Inr (True, c') \<and> slru_inv capacity c' \<and>
    slru_resident c' = slru_resident c"
  using assms length_remove1_Suc [of key "sl_protected c"]
  by (auto simp: slru_access_def slru_inv_def slru_resident_def od_move_to_end_def simp del: length_remove1)

lemma slru_hit_probation:
  assumes inv: "slru_inv capacity c" and prob: "key \<in> set (sl_probation c)"
  shows "\<exists>c'. slru_access c key position = Inr (True, c') \<and> slru_inv capacity c' \<and>
    slru_resident c' = slru_resident c"
proof -
  have prot: "key \<notin> set (sl_protected c)" using inv prob by (auto simp: slru_inv_def)
  have len: "Suc (length (remove1 key (sl_probation c))) = length (sl_probation c)"
    using prob by (rule length_remove1_Suc)
  show ?thesis
  proof (cases "sl_protected c")
    case Nil
    then show ?thesis using inv prob prot len
      by (auto simp: slru_access_def slru_inv_def slru_resident_def od_store_def Let_def)
  next
    case (Cons d rest)
    then show ?thesis using inv prob prot len
      by (auto simp: slru_access_def slru_inv_def slru_resident_def od_store_def Let_def)
  qed
qed

lemma slru_miss:
  assumes inv: "slru_inv capacity c" and new: "key \<notin> slru_resident c" and pos: "0 < capacity"
  shows "\<exists>c'. slru_access c key position = Inr (False, c') \<and> slru_inv capacity c' \<and>
    slru_resident c' \<subseteq> insert key (slru_resident c) \<and> key \<in> slru_resident c'"
proof (cases "length (sl_protected c) + length (sl_probation c) = capacity")
  case True
  then obtain old rest where "sl_probation c = old # rest"
    using slru_probation_nonempty [OF inv pos] by (cases "sl_probation c") auto
  then show ?thesis using inv new pos True
    by (auto simp: slru_access_def slru_inv_def slru_resident_def od_store_def)
next
  case False
  then show ?thesis using inv new pos
    by (auto simp: slru_access_def slru_inv_def slru_resident_def od_store_def)
qed

lemma slru_access_step:
  assumes inv: "slru_inv capacity c"
  shows "\<exists>c'. slru_access c key position = Inr (key \<in> slru_resident c, c') \<and> slru_inv capacity c' \<and>
    slru_resident c' \<subseteq> insert key (slru_resident c) \<and> (0 < capacity \<longrightarrow> key \<in> slru_resident c')"
proof (cases "key \<in> slru_resident c")
  case True
  then show ?thesis
    using slru_hit_protected [OF inv, of key position] slru_hit_probation [OF inv, of key position]
    by (auto simp: slru_resident_def)
next
  case new: False
  show ?thesis
  proof (cases "capacity = 0")
    case True
    then show ?thesis using inv new by (auto simp: slru_access_def slru_inv_def slru_resident_def)
  next
    case False
    then show ?thesis using slru_miss [OF inv new, of position] new by auto
  qed
qed

interpretation slru_demand: demand_cache slru_access slru_resident "\<lambda>_. slru_inv capacity" capacity seq
  for capacity seq
proof
  fix p c
  assume inv: "slru_inv capacity c"
  show "\<exists>c'. slru_access c (seq ! p) p = Inr (seq ! p \<in> slru_resident c, c') \<and> slru_inv capacity c' \<and>
      slru_resident c' \<subseteq> insert (seq ! p) (slru_resident c) \<and> (0 < capacity \<longrightarrow> seq ! p \<in> slru_resident c')"
    by (rule slru_access_step [OF inv])
  show "finite (slru_resident c) \<and> card (slru_resident c) \<le> capacity"
    using slru_inv_card [OF inv] by (simp add: slru_resident_def)
qed

end
