(* ===== verification/SimBelady.thy ===== *)
theory SimBelady
  imports DemandCache "HOL-Library.Product_Lexorder"
begin

text \<open>
  Class \<open>Belady\<close> of \<open>scripts/qwen/cache_simulation.py\<close>: the future-aware minimum for one fixed
  access order. The heap of \<open>heapq\<close> is represented by its items in ascending order, which
  gives push, pop of the least item and heapify; the items are pairs of the negated next use
  and the key, compared lexicographically. Stale items stay in the heap until popped or until
  it is rebuilt.
\<close>

section \<open>The heap operations\<close>

definition heappush :: "'a::linorder list \<Rightarrow> 'a \<Rightarrow> 'a list" where
  "heappush heap item = insort item heap"

fun heappop :: "'a list \<Rightarrow> ('a \<times> 'a list) result" where
  "heappop [] = Inl IndexError"
| "heappop (x # heap) = Inr (x, heap)"

definition heapify :: "'a::linorder list \<Rightarrow> 'a list" where
  "heapify items = sort items"

section \<open>The oracle\<close>

record belady =
  be_capacity :: nat
  be_next :: "int list"
  be_resident :: "(int \<times> int) list"
  be_heap :: "(int \<times> int) list"

text \<open>
  The loop over the sequence from its end: \<open>n\<close> is its length, \<open>i\<close> the position of the head,
  and the map remembers the position at which each key is asked for next.
\<close>

fun belady_next :: "int \<Rightarrow> int list \<Rightarrow> int \<Rightarrow> int list \<times> (int \<rightharpoonup> int)" where
  "belady_next n [] i = ([], Map.empty)"
| "belady_next n (key # keys) i =
     (let (next, future) = belady_next n keys (i + 1)
      in ((case future key of None \<Rightarrow> n | Some j \<Rightarrow> j) # next, future(key \<mapsto> i)))"

definition belady_init :: "nat \<Rightarrow> int list \<Rightarrow> belady" where
  "belady_init capacity sequence = \<lparr>be_capacity = capacity,
     be_next = fst (belady_next (len sequence) sequence 0), be_resident = [], be_heap = []\<rparr>"

text \<open>\<open>while True\<close>: pop items until one is current, and delete its record.\<close>

fun belady_evict :: "(int \<times> int) list \<Rightarrow> (int \<times> int) list \<Rightarrow> ((int \<times> int) list \<times> (int \<times> int) list) result" where
  "belady_evict resident [] = Inl IndexError"
| "belady_evict resident ((negative_next, victim) # heap) =
     (if map_of resident victim = Some (- negative_next)
      then Inr (AList.delete victim resident, heap)
      else belady_evict resident heap)"

definition belady_access :: "belady \<Rightarrow> int \<Rightarrow> nat \<Rightarrow> (bool \<times> belady) result" where
  "belady_access c key position =
     (let hit = (key \<in> fst ` set (be_resident c))
      in if be_capacity c = 0 then Inr (False, c)
         else bnd (if \<not> hit \<and> length (be_resident c) = be_capacity c
                   then belady_evict (be_resident c) (be_heap c)
                   else Inr (be_resident c, be_heap c)) (\<lambda>(resident, heap).
              bnd (litem (be_next c) (int position)) (\<lambda>nxt.
              let resident = aput resident key nxt;
                  heap = heappush heap (- nxt, key);
                  heap = (if 2 * max 1 (be_capacity c) < length heap
                          then heapify (map (\<lambda>(k, n). (- n, k)) resident)
                          else heap)
              in Inr (hit, c\<lparr>be_resident := resident, be_heap := heap\<rparr>))))"

definition belady_resident :: "belady \<Rightarrow> int set" where
  "belady_resident c = fst ` set (be_resident c)"

section \<open>The table of next uses\<close>

lemma belady_next_correct:
  "p \<le> length seq \<Longrightarrow>
   length (fst (belady_next (len seq) (drop p seq) (int p))) = length seq - p \<and>
   (\<forall>i<length seq - p. fst (belady_next (len seq) (drop p seq) (int p)) ! i
                        = int (next_use seq (Suc (p + i)) (seq ! (p + i)))) \<and>
   (\<forall>k. snd (belady_next (len seq) (drop p seq) (int p)) k
        = (if k \<in> set (drop p seq) then Some (int (next_use seq p k)) else None))"
proof (induction "length seq - p" arbitrary: p)
  case 0
  then show ?case by simp
next
  case (Suc n)
  then have p: "p < length seq" by simp
  let ?x = "seq ! p"
  obtain nx fut where rec: "belady_next (len seq) (drop (Suc p) seq) (int (Suc p)) = (nx, fut)"
    by fastforce
  have "n = length seq - Suc p" "Suc p \<le> length seq" using Suc.hyps(2) p by auto
  note ih = Suc.hyps(1) [OF this, unfolded rec fst_conv snd_conv]
  have IH: "length nx = length seq - Suc p"
    "\<And>i. i < length seq - Suc p \<Longrightarrow> nx ! i = int (next_use seq (Suc (Suc p + i)) (seq ! (Suc p + i)))"
    "\<And>k. fut k = (if k \<in> set (drop (Suc p) seq) then Some (int (next_use seq (Suc p) k)) else None)"
    using ih by blast+
  have D: "drop p seq = ?x # drop (Suc p) seq" using p by (simp add: Cons_nth_drop_Suc)
  have head: "(case fut ?x of None \<Rightarrow> len seq | Some j \<Rightarrow> j) = int (next_use seq (Suc p) ?x)"
    using p next_use_end [of ?x "Suc p" seq] by (simp add: IH(3) len_def)
  have eq: "belady_next (len seq) (drop p seq) (int p)
      = (int (next_use seq (Suc p) ?x) # nx, fut(?x \<mapsto> int p))"
    unfolding D belady_next.simps Let_def using rec head by (simp add: add.commute)
  show ?case
  proof (intro conjI allI impI)
    show "length (fst (belady_next (len seq) (drop p seq) (int p))) = length seq - p"
      unfolding eq fst_conv using IH(1) p by simp
    show "fst (belady_next (len seq) (drop p seq) (int p)) ! i
          = int (next_use seq (Suc (p + i)) (seq ! (p + i)))" if "i < length seq - p" for i
      unfolding eq fst_conv using IH(2) that by (cases i) auto
    show "snd (belady_next (len seq) (drop p seq) (int p)) k
          = (if k \<in> set (drop p seq) then Some (int (next_use seq p k)) else None)" for k
      unfolding eq snd_conv using p next_use_later [OF p, of k] by (auto simp: D IH(3))
  qed
qed

lemma belady_init_next:
  "length (be_next (belady_init capacity seq)) = length seq"
  "p < length seq \<Longrightarrow> be_next (belady_init capacity seq) ! p = int (next_use seq (Suc p) (seq ! p))"
  using belady_next_correct [of 0 seq] by (auto simp: belady_init_def)

section \<open>The invariant\<close>

text \<open>
  At position \<open>p\<close>: every resident record is stored with its true next use, and the heap holds
  its current item (among possibly stale ones).
\<close>

definition belady_inv :: "nat \<Rightarrow> int list \<Rightarrow> nat \<Rightarrow> belady \<Rightarrow> bool" where
  "belady_inv capacity seq p c \<longleftrightarrow> be_capacity c = capacity \<and>
     be_next c = be_next (belady_init capacity seq) \<and>
     distinct (map fst (be_resident c)) \<and> length (be_resident c) \<le> capacity \<and>
     sorted (be_heap c) \<and>
     (\<forall>(k, n)\<in>set (be_resident c). n = int (next_use seq p k) \<and> (- n, k) \<in> set (be_heap c))"

lemma belady_init_inv: "belady_inv capacity seq 0 (belady_init capacity seq)"
  by (simp add: belady_inv_def belady_init_def)

lemma belady_init_resident: "belady_resident (belady_init capacity seq) = {}"
  by (simp add: belady_resident_def belady_init_def)

lemma belady_inv_card: "belady_inv capacity seq p c \<Longrightarrow> card (belady_resident c) = length (be_resident c)"
  unfolding belady_inv_def belady_resident_def
  by (metis distinct_card length_map list.set_map)

text \<open>
  Eviction finds the current item of some record, and no other current item is smaller: the
  victim is used furthest in the future.
\<close>

lemma belady_evict_furthest:
  assumes "distinct (map fst resident)" and "sorted heap" and "resident \<noteq> []"
    and "\<forall>(k, n)\<in>set resident. (- n, k) \<in> set heap"
  shows "\<exists>v n heap'. (v, n) \<in> set resident \<and> belady_evict resident heap = Inr (AList.delete v resident, heap') \<and>
     sorted heap' \<and> (\<forall>(k, m)\<in>set resident. m \<le> n \<and> (k \<noteq> v \<longrightarrow> (- m, k) \<in> set heap'))"
  using assms(2,4)
proof (induction heap)
  case Nil
  then show ?case using assms(3) by (cases resident) auto
next
  case (Cons item heap)
  obtain a v where item: "item = (a, v)" by fastforce
  show ?case
  proof (cases "map_of resident v = Some (- a)")
    case True
    then have v: "(v, - a) \<in> set resident" by (rule map_of_SomeD)
    have "m \<le> - a \<and> (k \<noteq> v \<longrightarrow> (- m, k) \<in> set heap)" if "(k, m) \<in> set resident" for k m
    proof -
      have "(- m, k) \<in> set (item # heap)" using Cons.prems(2) that by auto
      then have "(a, v) \<le> (- m, k)" using Cons.prems(1) by (auto simp: item)
      then have "a \<le> - m" by (auto simp: less_eq_prod_def)
      moreover have "k \<noteq> v \<longrightarrow> (- m, k) \<in> set heap"
        using Cons.prems(2) that by (auto simp: item)
      ultimately show ?thesis by linarith
    qed
    then show ?thesis using True v Cons.prems(1)
      by (intro exI [of _ v] exI [of _ "- a"] exI [of _ heap]) (auto simp: item)
  next
    case False
    have "(- n, k) \<in> set heap" if "(k, n) \<in> set resident" for k n
    proof -
      have "(- n, k) \<noteq> (a, v)" using False that assms(1) by (auto simp: map_of_eq_Some_iff)
      then show ?thesis using Cons.prems(2) that by (auto simp: item)
    qed
    then have "\<forall>(k, n)\<in>set resident. (- n, k) \<in> set heap" by blast
    moreover have "sorted heap" using Cons.prems(1) by simp
    ultimately show ?thesis using Cons.IH False by (simp add: item)
  qed
qed

text \<open>After the eviction, storing the record with its next use restores the invariant.\<close>

lemma belady_store:
  assumes inv: "belady_inv capacity seq p c" and p: "p < length seq" and x: "x = seq ! p"
    and res: "distinct (map fst resident)" "length (aput resident x nxt) \<le> capacity" "sorted heap"
    and cur: "\<forall>(k, n)\<in>set resident. k \<noteq> x \<longrightarrow> n = int (next_use seq p k) \<and> (- n, k) \<in> set heap"
    and nxt: "nxt = int (next_use seq (Suc p) x)"
    and heap': "heap' = heappush heap (- nxt, x) \<or> heap' = heapify (map (\<lambda>(k, n). (- n, k)) (aput resident x nxt))"
  shows "belady_inv capacity seq (Suc p) (c\<lparr>be_resident := aput resident x nxt, be_heap := heap'\<rparr>)"
proof -
  have d: "distinct (map fst (aput resident x nxt))"
    unfolding aput_def by (rule distinct_update [OF res(1)])
  have mem: "(k, n) \<in> set (aput resident x nxt) \<longleftrightarrow> (if k = x then n = nxt else (k, n) \<in> set resident)" for k n
    using map_of_eq_Some_iff [OF d, of k n] map_of_eq_Some_iff [OF res(1), of k n] by auto
  have "n = int (next_use seq (Suc p) k) \<and> (- n, k) \<in> set heap'" if "(k, n) \<in> set (aput resident x nxt)" for k n
  proof (cases "k = x")
    case True
    then show ?thesis using that mem nxt heap' by (force simp: heappush_def heapify_def set_insort_key)
  next
    case False
    then have "(k, n) \<in> set resident" using that mem by simp
    then have "n = int (next_use seq p k) \<and> (- n, k) \<in> set heap" using cur False by auto
    moreover have "next_use seq p k = next_use seq (Suc p) k" using next_use_later [OF p] False x by simp
    ultimately show ?thesis using that heap' by (force simp: heappush_def heapify_def set_insort_key)
  qed
  moreover have "sorted heap'" using heap' res(3) by (auto simp: heappush_def heapify_def sorted_insort)
  ultimately show ?thesis using inv res(2) d by (auto simp: belady_inv_def)
qed

text \<open>One access, in the four situations the code distinguishes.\<close>

lemma litem_be_next:
  assumes "belady_inv capacity seq p c" and "p < length seq"
  shows "litem (be_next c) (int p) = Inr (int (next_use seq (Suc p) (seq ! p)))"
  using assms belady_init_next(1) [of capacity seq] belady_init_next(2) [of p seq capacity]
  by (simp add: belady_inv_def litem_nonneg len_def)

lemma belady_resident_aput: "fst ` set (aput resident x nxt) = insert x (fst ` set resident)"
  unfolding aput_def by (simp add: dom_update [symmetric] dom_map_of_conv_image_fst [symmetric] update_conv')

lemma length_aput: "length (aput al k v) = (if k \<in> fst ` set al then length al else Suc (length al))"
  by (induction al) (auto simp: aput_def)

lemma belady_access_unfold:
  assumes inv: "belady_inv capacity seq p c" and p: "p < length seq" and pos: "0 < capacity"
    and ev: "(if \<not> seq ! p \<in> belady_resident c \<and> length (be_resident c) = capacity
              then belady_evict (be_resident c) (be_heap c)
              else Inr (be_resident c, be_heap c)) = Inr (resident, heap)"
  defines "nxt \<equiv> int (next_use seq (Suc p) (seq ! p))"
  obtains heap' where "belady_access c (seq ! p) p = Inr (seq ! p \<in> belady_resident c,
      c\<lparr>be_resident := aput resident (seq ! p) nxt, be_heap := heap'\<rparr>)"
    and "heap' = heappush heap (- nxt, seq ! p) \<or>
         heap' = heapify (map (\<lambda>(k, n). (- n, k)) (aput resident (seq ! p) nxt))"
proof -
  have cap: "be_capacity c = capacity" using inv by (simp add: belady_inv_def)
  have "belady_access c (seq ! p) p = Inr (seq ! p \<in> belady_resident c,
      c\<lparr>be_resident := aput resident (seq ! p) nxt,
        be_heap := (if 2 * max 1 capacity < length (heappush heap (- nxt, seq ! p))
                    then heapify (map (\<lambda>(k, n). (- n, k)) (aput resident (seq ! p) nxt))
                    else heappush heap (- nxt, seq ! p))\<rparr>)"
    using ev pos litem_be_next [OF inv p]
    by (simp add: belady_access_def cap belady_resident_def [symmetric] nxt_def Let_def)
  then show thesis by (rule that) auto
qed

lemma belady_access_keep:
  assumes inv: "belady_inv capacity seq p c" and p: "p < length seq" and pos: "0 < capacity"
    and keep: "seq ! p \<in> belady_resident c \<or> length (be_resident c) < capacity"
  shows "\<exists>c'. belady_access c (seq ! p) p = Inr (seq ! p \<in> belady_resident c, c') \<and>
    belady_inv capacity seq (Suc p) c' \<and> belady_resident c' = insert (seq ! p) (belady_resident c)"
proof -
  let ?nxt = "int (next_use seq (Suc p) (seq ! p))"
  from keep have "(if \<not> seq ! p \<in> belady_resident c \<and> length (be_resident c) = capacity
              then belady_evict (be_resident c) (be_heap c)
              else Inr (be_resident c, be_heap c)) = Inr (be_resident c, be_heap c)" by auto
  from belady_access_unfold [OF inv p pos this] obtain heap' where
    acc: "belady_access c (seq ! p) p = Inr (seq ! p \<in> belady_resident c,
      c\<lparr>be_resident := aput (be_resident c) (seq ! p) ?nxt, be_heap := heap'\<rparr>)"
    and heap': "heap' = heappush (be_heap c) (- ?nxt, seq ! p) \<or>
         heap' = heapify (map (\<lambda>(k, n). (- n, k)) (aput (be_resident c) (seq ! p) ?nxt))" by blast
  have "length (aput (be_resident c) (seq ! p) ?nxt) \<le> capacity"
    using keep inv by (auto simp: length_aput belady_resident_def belady_inv_def)
  then have "belady_inv capacity seq (Suc p) (c\<lparr>be_resident := aput (be_resident c) (seq ! p) ?nxt, be_heap := heap'\<rparr>)"
    using inv by (intro belady_store [OF inv p refl _ _ _ _ refl heap']) (auto simp: belady_inv_def)
  then show ?thesis using acc by (simp add: belady_resident_def belady_resident_aput)
qed

lemma belady_access_evict:
  assumes inv: "belady_inv capacity seq p c" and p: "p < length seq" and pos: "0 < capacity"
    and new: "seq ! p \<notin> belady_resident c" and full: "length (be_resident c) = capacity"
  shows "\<exists>c' v. belady_access c (seq ! p) p = Inr (False, c') \<and> belady_inv capacity seq (Suc p) c' \<and>
    v \<in> belady_resident c \<and> belady_resident c' = insert (seq ! p) (belady_resident c - {v}) \<and>
    (\<forall>w\<in>belady_resident c. next_use seq (Suc p) w \<le> next_use seq (Suc p) v)"
proof -
  let ?nxt = "int (next_use seq (Suc p) (seq ! p))" and ?res = "be_resident c"
  have ne: "?res \<noteq> []" using full pos by auto
  have D: "distinct (map fst ?res)" "sorted (be_heap c)"
    "\<forall>(k, n)\<in>set ?res. n = int (next_use seq p k) \<and> (- n, k) \<in> set (be_heap c)"
    using inv by (auto simp: belady_inv_def)
  obtain v n heap where v: "(v, n) \<in> set ?res" and ev: "belady_evict ?res (be_heap c) = Inr (AList.delete v ?res, heap)"
    and heap: "sorted heap" and far: "\<forall>(k, m)\<in>set ?res. m \<le> n \<and> (k \<noteq> v \<longrightarrow> (- m, k) \<in> set heap)"
    using belady_evict_furthest [OF D(1,2) ne] D(3) by fast
  have "(if \<not> seq ! p \<in> belady_resident c \<and> length ?res = capacity then belady_evict ?res (be_heap c)
         else Inr (?res, be_heap c)) = Inr (AList.delete v ?res, heap)" using new full ev by simp
  from belady_access_unfold [OF inv p pos this] obtain heap' where
    acc: "belady_access c (seq ! p) p = Inr (seq ! p \<in> belady_resident c,
      c\<lparr>be_resident := aput (AList.delete v ?res) (seq ! p) ?nxt, be_heap := heap'\<rparr>)"
    and heap': "heap' = heappush heap (- ?nxt, seq ! p) \<or>
         heap' = heapify (map (\<lambda>(k, n). (- n, k)) (aput (AList.delete v ?res) (seq ! p) ?nxt))" by blast
  have sub: "(k, m) \<in> set (AList.delete v ?res) \<Longrightarrow> (k, m) \<in> set ?res \<and> k \<noteq> v" for k m
    by (simp add: AList.delete_eq)
  have dd: "distinct (map fst (AList.delete v ?res))" using D(1) by (rule distinct_delete)
  have fsts: "fst ` set (AList.delete v ?res) = belady_resident c - {v}"
    by (auto simp: belady_resident_def AList.delete_eq)
  have vr: "v \<in> belady_resident c" using v by (force simp: belady_resident_def)
  then have "card (belady_resident c - {v}) = capacity - 1"
    using full belady_inv_card [OF inv] by (simp add: card_Diff_singleton)
  then have "length (AList.delete v ?res) = capacity - 1"
    using dd fsts by (metis distinct_card length_map list.set_map)
  then have len: "length (aput (AList.delete v ?res) (seq ! p) ?nxt) \<le> capacity"
    using pos by (simp add: length_aput)
  have "belady_inv capacity seq (Suc p) (c\<lparr>be_resident := aput (AList.delete v ?res) (seq ! p) ?nxt, be_heap := heap'\<rparr>)"
    using sub far D(3) by (intro belady_store [OF inv p refl dd len heap _ refl heap']) blast
  moreover have "next_use seq (Suc p) w \<le> next_use seq (Suc p) v" if w: "w \<in> belady_resident c" for w
  proof -
    obtain m where m: "(w, m) \<in> set ?res" using w by (auto simp: belady_resident_def)
    have "m = int (next_use seq p w)" "n = int (next_use seq p v)" "m \<le> n" using m v D(3) far by auto
    moreover have "w \<noteq> seq ! p" "v \<noteq> seq ! p" using w new vr by auto
    ultimately show ?thesis using next_use_later [OF p] by simp
  qed
  moreover have "belady_resident (c\<lparr>be_resident := aput (AList.delete v ?res) (seq ! p) ?nxt, be_heap := heap'\<rparr>)
      = insert (seq ! p) (belady_resident c - {v})"
    by (simp add: belady_resident_def belady_resident_aput fsts [unfolded belady_resident_def])
  ultimately show ?thesis using acc vr new by auto
qed

lemma belady_access_cases:
  assumes inv: "belady_inv capacity seq p c" and p: "p < length seq"
  obtains (off) "capacity = 0" "belady_access c (seq ! p) p = Inr (False, c)" "belady_resident c = {}"
      "belady_inv capacity seq (Suc p) c"
  | (keep) c' where "0 < capacity" "seq ! p \<in> belady_resident c \<or> card (belady_resident c) < capacity"
      "belady_access c (seq ! p) p = Inr (seq ! p \<in> belady_resident c, c')"
      "belady_inv capacity seq (Suc p) c'" "belady_resident c' = insert (seq ! p) (belady_resident c)"
  | (evict) c' v where "0 < capacity" "seq ! p \<notin> belady_resident c" "card (belady_resident c) = capacity"
      "belady_access c (seq ! p) p = Inr (False, c')" "belady_inv capacity seq (Suc p) c'"
      "v \<in> belady_resident c" "belady_resident c' = insert (seq ! p) (belady_resident c - {v})"
      "\<forall>w\<in>belady_resident c. next_use seq (Suc p) w \<le> next_use seq (Suc p) v"
proof (cases "capacity = 0")
  case True
  then have "be_resident c = []" "be_capacity c = 0" using inv by (auto simp: belady_inv_def)
  then show thesis using that(1) True inv by (simp add: belady_access_def belady_resident_def belady_inv_def)
next
  case False
  then have pos: "0 < capacity" by simp
  have card: "card (belady_resident c) = length (be_resident c)" "length (be_resident c) \<le> capacity"
    using belady_inv_card [OF inv] inv by (auto simp: belady_inv_def)
  show thesis
  proof (cases "seq ! p \<in> belady_resident c \<or> length (be_resident c) < capacity")
    case True
    then show thesis using belady_access_keep [OF inv p pos True] that(2) [OF pos] card by auto
  next
    case False
    then have "seq ! p \<notin> belady_resident c" "length (be_resident c) = capacity" using card by auto
    then show thesis using belady_access_evict [OF inv p pos] that(3) [OF pos] card by auto
  qed
qed

interpretation belady_oracle: furthest_in_future belady_access belady_resident "belady_inv capacity seq" capacity seq
  for capacity seq
proof
  fix p c h c'
  assume inv: "belady_inv capacity seq p c"
  show "finite (belady_resident c) \<and> card (belady_resident c) \<le> capacity"
    using belady_inv_card [OF inv] inv by (auto simp: belady_resident_def belady_inv_def)
  assume p: "p < length seq"
  show "\<exists>c'. belady_access c (seq ! p) p = Inr (seq ! p \<in> belady_resident c, c') \<and>
      belady_inv capacity seq (Suc p) c' \<and> belady_resident c' \<subseteq> insert (seq ! p) (belady_resident c) \<and>
      (0 < capacity \<longrightarrow> seq ! p \<in> belady_resident c')"
    by (cases rule: belady_access_cases [OF inv p]) auto
  assume acc: "belady_access c (seq ! p) p = Inr (h, c')"
  show "seq ! p \<in> belady_resident c \<Longrightarrow> belady_resident c' = belady_resident c"
    using acc by (cases rule: belady_access_cases [OF inv p]) auto
  show "seq ! p \<notin> belady_resident c \<Longrightarrow> card (belady_resident c) < capacity \<Longrightarrow>
      belady_resident c' = insert (seq ! p) (belady_resident c)"
    using acc by (cases rule: belady_access_cases [OF inv p]) auto
  show "seq ! p \<notin> belady_resident c \<Longrightarrow> 0 < capacity \<Longrightarrow> card (belady_resident c) = capacity \<Longrightarrow>
      \<exists>v\<in>belady_resident c. belady_resident c' = insert (seq ! p) (belady_resident c - {v}) \<and>
        (\<forall>w\<in>belady_resident c. next_use seq (Suc p) w \<le> next_use seq (Suc p) v)"
    using acc by (cases rule: belady_access_cases [OF inv p]) auto
qed

end
