(* ===== verification/CacheCounts.thy ===== *)
theory CacheCounts
  imports RouteSegments SimClock SimSegmented SimBelady
begin

text \<open>
  \<open>counts\<close> of \<open>scripts/qwen/cache_simulation.py\<close>: replay every segment through one policy and
  count hits and misses per layer, per request and phase, and in total.
\<close>

section \<open>Counters\<close>

datatype sim_policy = ClockPolicy | SegmentedPolicy | BeladyPolicy

record tally =
  ta_hits :: "int list"
  ta_misses :: "int list"
  ta_span_index :: nat
  ta_request_phases :: "((pyval \<times> pyval) \<times> (int \<times> int)) list"

definition tally_init :: tally where
  "tally_init = \<lparr>ta_hits = replicate 48 0, ta_misses = replicate 48 0, ta_span_index = 0,
     ta_request_phases = []\<rparr>"

text \<open>\<open>while position >= spans[span_index]['end']: span_index += 1\<close>.\<close>

function advance_span :: "access_span list \<Rightarrow> nat \<Rightarrow> nat \<Rightarrow> nat result" where
  "advance_span spans i position =
     (if length spans \<le> i then Inl IndexError
      else if sp_end (spans ! i) \<le> position then advance_span spans (Suc i) position
      else Inr i)"
  by pat_completeness auto
termination
  by (relation "measure (\<lambda>(spans, i, position). length spans - i)") auto

declare advance_span.simps [simp del]

definition tally_phase :: "access_span \<Rightarrow> bool \<Rightarrow> ((pyval \<times> pyval) \<times> (int \<times> int)) list \<Rightarrow> ((pyval \<times> pyval) \<times> (int \<times> int)) list" where
  "tally_phase sp hit phases =
     (let key = (sp_request_id sp, sp_phase sp);
          (h, m) = (case map_of phases key of None \<Rightarrow> (0, 0) | Some c \<Rightarrow> c)
      in aput phases key (if hit then (h + 1, m) else (h, m + 1)))"

definition tally_access :: "access_span list \<Rightarrow> tally \<Rightarrow> nat \<Rightarrow> int \<Rightarrow> bool \<Rightarrow> tally result" where
  "tally_access spans t position key hit =
     bnd (list_incr (if hit then ta_hits t else ta_misses t) (key div EXPERTS)) (\<lambda>bucket.
     let t = (if hit then t\<lparr>ta_hits := bucket\<rparr> else t\<lparr>ta_misses := bucket\<rparr>)
     in if spans = [] then Inr t
        else bnd (advance_span spans (ta_span_index t) position) (\<lambda>i.
             Inr (t\<lparr>ta_span_index := i, ta_request_phases := tally_phase (spans ! i) hit (ta_request_phases t)\<rparr>)))"

text \<open>The loop over one segment: access the cache, then count.\<close>

fun count_run :: "('c \<Rightarrow> int \<Rightarrow> nat \<Rightarrow> (bool \<times> 'c) result) \<Rightarrow> access_span list \<Rightarrow> 'c \<Rightarrow> tally \<Rightarrow> int list \<Rightarrow> nat \<Rightarrow> tally result"
where
  "count_run acc spans c t [] position = Inr t"
| "count_run acc spans c t (key # keys) position =
     bnd (acc c key position) (\<lambda>(hit, c').
     bnd (tally_access spans t position key hit) (\<lambda>t'.
     count_run acc spans c' t' keys (Suc position)))"

definition count_segment :: "nat \<Rightarrow> sim_policy \<Rightarrow> tally \<Rightarrow> segment \<Rightarrow> tally result" where
  "count_segment capacity policy t g =
     (let seq = sg_accesses g; spans = sg_access_spans g; t = t\<lparr>ta_span_index := 0\<rparr>
      in case policy of
           BeladyPolicy \<Rightarrow> count_run belady_access spans (belady_init capacity seq) t seq 0
         | ClockPolicy \<Rightarrow> count_run clock_access spans (clock_init capacity) t seq 0
         | SegmentedPolicy \<Rightarrow> count_run slru_access spans (slru_init capacity) t seq 0)"

section \<open>The answer\<close>

record phase_counts =
  pc_request_id :: pyval
  pc_phase :: pyval
  pc_hits :: int
  pc_misses :: int
  pc_demands :: int
  pc_application_miss_bytes :: int
  pc_byte_hit_fraction :: pfloat

record layer_counts =
  lc_layer :: int
  lc_hits :: int
  lc_misses :: int
  lc_application_miss_bytes :: int

record policy_counts =
  po_policy :: sim_policy
  po_demands :: int
  po_hits :: int
  po_misses :: int
  po_application_miss_bytes :: int
  po_byte_hit_fraction :: "pfloat option"
  po_request_phases :: "phase_counts list"
  po_layers :: "layer_counts list option"

definition phase_answer :: "(pyval \<times> pyval) \<times> (int \<times> int) \<Rightarrow> phase_counts result" where
  "phase_answer entry =
     (case entry of ((request_id, phase), (h, m)) \<Rightarrow>
      bnd (int_truediv h (h + m)) (\<lambda>fraction.
      Inr \<lparr>pc_request_id = request_id, pc_phase = phase, pc_hits = h, pc_misses = m,
           pc_demands = h + m, pc_application_miss_bytes = m * PAYLOAD_BYTES,
           pc_byte_hit_fraction = fraction\<rparr>))"

definition layer_answer :: "tally \<Rightarrow> nat \<Rightarrow> layer_counts" where
  "layer_answer t i = \<lparr>lc_layer = int i, lc_hits = ta_hits t ! i, lc_misses = ta_misses t ! i,
     lc_application_miss_bytes = ta_misses t ! i * PAYLOAD_BYTES\<rparr>"

definition policy_answer :: "sim_policy \<Rightarrow> bool \<Rightarrow> tally \<Rightarrow> policy_counts result" where
  "policy_answer policy per_layer t =
     (let hit_count = sum_list (ta_hits t); miss_count = sum_list (ta_misses t)
      in bnd (if hit_count + miss_count \<noteq> 0
              then bnd (int_truediv hit_count (hit_count + miss_count)) (\<lambda>x. Inr (Some x))
              else Inr None) (\<lambda>fraction.
         bnd (mapm phase_answer (ta_request_phases t)) (\<lambda>phases.
         Inr \<lparr>po_policy = policy, po_demands = hit_count + miss_count, po_hits = hit_count,
              po_misses = miss_count, po_application_miss_bytes = miss_count * PAYLOAD_BYTES,
              po_byte_hit_fraction = fraction, po_request_phases = phases,
              po_layers = (if per_layer then Some (map (layer_answer t) [0..<48]) else None)\<rparr>)))"

definition counts :: "segment list \<Rightarrow> nat \<Rightarrow> sim_policy \<Rightarrow> bool \<Rightarrow> policy_counts result" where
  "counts segments capacity policy per_layer =
     bnd (foldm (count_segment capacity policy) tally_init segments) (policy_answer policy per_layer)"

section \<open>The run behind the counters\<close>

definition tally_ok :: "tally \<Rightarrow> bool" where
  "tally_ok t \<longleftrightarrow> length (ta_hits t) = 48 \<and> length (ta_misses t) = 48 \<and>
     0 \<le> sum_list (ta_hits t) \<and> 0 \<le> sum_list (ta_misses t) \<and>
     (\<forall>(k, h, m)\<in>set (ta_request_phases t). 0 \<le> h \<and> 0 \<le> m \<and> 0 < h + m) \<and>
     distinct (map fst (ta_request_phases t))"

lemma advance_span_returns:
  "i < length spans \<Longrightarrow> position < sp_end (last spans) \<Longrightarrow>
   \<exists>j. advance_span spans i position = Inr j \<and> i \<le> j \<and> j < length spans \<and> position < sp_end (spans ! j)"
proof (induction spans i position rule: advance_span.induct)
  case (1 spans i position)
  show ?case
  proof (cases "sp_end (spans ! i) \<le> position")
    case False
    then show ?thesis using 1(2) by (subst advance_span.simps) auto
  next
    case True
    have "spans \<noteq> []" using 1(2) by auto
    have "Suc i < length spans"
    proof (rule ccontr)
      assume "\<not> Suc i < length spans"
      then have "i = length spans - 1" using 1(2) by simp
      then have "spans ! i = last spans" using \<open>spans \<noteq> []\<close> by (simp add: last_conv_nth)
      then show False using True 1(3) by simp
    qed
    then obtain j where "advance_span spans (Suc i) position = Inr j" "Suc i \<le> j" "j < length spans"
      "position < sp_end (spans ! j)"
      using 1(1) True 1(2,3) by auto
    then show ?thesis using True 1(2) by (subst advance_span.simps) auto
  qed
qed

lemma tally_phase_ok:
  assumes "\<forall>(k, h, m)\<in>set ps. 0 \<le> h \<and> 0 \<le> m \<and> (0 :: int) < h + m" and "distinct (map fst ps)"
  shows "(\<forall>(k, h, m)\<in>set (tally_phase sp hit ps). 0 \<le> h \<and> 0 \<le> m \<and> 0 < h + m) \<and>
         distinct (map fst (tally_phase sp hit ps))"
proof -
  let ?k = "(sp_request_id sp, sp_phase sp)"
  obtain h m where hm: "(case map_of ps ?k of None \<Rightarrow> (0, 0) | Some c \<Rightarrow> c) = (h, m)" by fastforce
  then have nn: "0 \<le> h" "0 \<le> m" using assms(1) by (auto split: option.splits dest!: map_of_SomeD)
  have eq: "tally_phase sp hit ps = AList.update ?k (if hit then (h + 1, m) else (h, m + 1)) ps"
    using hm by (simp add: tally_phase_def aput_def)
  have "distinct (map fst (tally_phase sp hit ps))" unfolding eq by (rule distinct_update [OF assms(2)])
  moreover have "0 \<le> a \<and> 0 \<le> b \<and> 0 < a + b" if "(k, a, b) \<in> set (tally_phase sp hit ps)" for k a b
  proof -
    have "map_of (tally_phase sp hit ps) k = Some (a, b)"
      using that calculation by (simp add: map_of_eq_Some_iff)
    then show ?thesis using assms(1) nn unfolding eq
      by (auto simp: update_conv' split: if_splits dest!: map_of_SomeD)
  qed
  ultimately show ?thesis by auto
qed

text \<open>One count adds one to exactly one of the totals.\<close>

lemma tally_access_sums:
  assumes "tally_access spans t position key hit = Inr u" and "tally_ok t"
  shows "tally_ok u" and "sum_list (ta_hits u) = sum_list (ta_hits t) + (if hit then 1 else 0)"
    and "sum_list (ta_misses u) = sum_list (ta_misses t) + (if hit then 0 else 1)"
proof -
  obtain b where b: "list_incr (if hit then ta_hits t else ta_misses t) (key div EXPERTS) = Inr b"
    using assms(1) by (auto simp: tally_access_def ok_simps)
  define v where "v = (if hit then t\<lparr>ta_hits := b\<rparr> else t\<lparr>ta_misses := b\<rparr>)"
  have u: "u = v \<or> (\<exists>i. u = v\<lparr>ta_span_index := i,
      ta_request_phases := tally_phase (spans ! i) hit (ta_request_phases v)\<rparr>)"
    using assms(1) by (auto simp: tally_access_def b v_def Let_def ok_simps split: if_splits)
  note S = list_incr_sum [OF b]
  have v: "tally_ok v" "sum_list (ta_hits v) = sum_list (ta_hits t) + (if hit then 1 else 0)"
    "sum_list (ta_misses v) = sum_list (ta_misses t) + (if hit then 0 else 1)"
    using S assms(2) by (auto simp: v_def tally_ok_def)
  then show "sum_list (ta_hits u) = sum_list (ta_hits t) + (if hit then 1 else 0)"
    "sum_list (ta_misses u) = sum_list (ta_misses t) + (if hit then 0 else 1)" using u by auto
  show "tally_ok u" using u
  proof
    assume "\<exists>i. u = v\<lparr>ta_span_index := i, ta_request_phases := tally_phase (spans ! i) hit (ta_request_phases v)\<rparr>"
    then obtain i where i: "u = v\<lparr>ta_span_index := i, ta_request_phases := tally_phase (spans ! i) hit (ta_request_phases v)\<rparr>" ..
    show ?thesis using tally_phase_ok [of "ta_request_phases v" "spans ! i" hit] v(1)
      unfolding tally_ok_def i by simp
  qed (use v in simp)
qed

text \<open>The counting loop runs the cache and adds up its outcomes.\<close>

lemma count_run_misses:
  "count_run acc spans c t keys position = Inr u \<Longrightarrow> tally_ok t \<Longrightarrow>
   \<exists>hs c'. run_cache acc c keys position = Inr (hs, c') \<and> length hs = length keys \<and> tally_ok u \<and>
     sum_list (ta_misses u) = sum_list (ta_misses t) + int (miss_count hs) \<and>
     sum_list (ta_hits u) + sum_list (ta_misses u) = sum_list (ta_hits t) + sum_list (ta_misses t) + len keys"
proof (induction keys arbitrary: c t position)
  case Nil
  then show ?case by (simp add: len_def)
next
  case (Cons key keys)
  then obtain hit c1 t1 where a: "acc c key position = Inr (hit, c1)"
    and ta: "tally_access spans t position key hit = Inr t1"
    and rest: "count_run acc spans c1 t1 keys (Suc position) = Inr u"
    by (auto simp: ok_simps)
  note T = tally_access_sums [OF ta Cons.prems(2)]
  from Cons.IH [OF rest T(1)] T show ?case using a by (auto simp: len_def)
qed

lemma count_run_returns:
  assumes run: "run_cache acc c keys position = Inr (hs, c')" and "keys_ok keys" and "tally_ok t"
    and "spans = [] \<or> ta_span_index t < length spans \<and> position + length keys \<le> sp_end (last spans)"
  shows "\<exists>u. count_run acc spans c t keys position = Inr u"
  using assms
proof (induction keys arbitrary: c t position hs)
  case Nil
  then show ?case by simp
next
  case (Cons key keys)
  then obtain hit c1 hs1 where a: "acc c key position = Inr (hit, c1)"
    and rest: "run_cache acc c1 keys (Suc position) = Inr (hs1, c')"
    by (auto simp: ok_simps)
  have k: "0 \<le> key div EXPERTS" "key div EXPERTS < 48" "keys_ok keys"
    using Cons.prems(2) by (auto simp: keys_ok_def LAYERS_def EXPERTS_def)
  then have "returns (list_incr (if hit then ta_hits t else ta_misses t) (key div EXPERTS))"
    using Cons.prems(3) by (intro list_incr_returns) (auto simp: tally_ok_def len_def)
  then obtain b where b: "list_incr (if hit then ta_hits t else ta_misses t) (key div EXPERTS) = Inr b"
    by (cases "list_incr (if hit then ta_hits t else ta_misses t) (key div EXPERTS)") auto
  have "\<exists>t1. tally_access spans t position key hit = Inr t1 \<and> (spans = [] \<or> ta_span_index t1 < length spans)"
  proof (cases "spans = []")
    case True
    then show ?thesis by (simp add: tally_access_def b)
  next
    case False
    then have "ta_span_index t < length spans" "position < sp_end (last spans)" using Cons.prems(4) by auto
    from advance_span_returns [OF this] show ?thesis
      using False by (auto simp: tally_access_def b)
  qed
  then obtain t1 where t1: "tally_access spans t position key hit = Inr t1"
    "spans = [] \<or> ta_span_index t1 < length spans" by blast
  have "\<exists>u. count_run acc spans c1 t1 keys (Suc position) = Inr u"
    using Cons.IH [OF rest k(3) tally_access_sums(1) [OF t1(1) Cons.prems(3)]] t1(2) Cons.prems(4) by auto
  then show ?case using a t1(1) by simp
qed

lemma phase_answer_returns: "0 \<le> h \<Longrightarrow> 0 \<le> m \<Longrightarrow> 0 < h + m \<Longrightarrow> returns (int_truediv h (h + m))"
proof -
  assume a: "0 \<le> h" "0 \<le> m" "0 < h + m"
  have "0 \<le> (of_int h / of_int (h + m) :: rat)" "(of_int h / of_int (h + m) :: rat) \<le> 1"
    using a by (auto simp: divide_le_eq)
  then show ?thesis using round_fl_unit a by (auto simp: int_truediv_def)
qed

section \<open>The policies behind one interface\<close>

text \<open>The misses of one policy on one sequence, as a run from the policy's empty cache.\<close>

fun policy_run :: "sim_policy \<Rightarrow> nat \<Rightarrow> int list \<Rightarrow> bool list result" where
  "policy_run ClockPolicy capacity seq = bnd (run_cache clock_access (clock_init capacity) seq 0) (\<lambda>(hs, c). Inr hs)"
| "policy_run SegmentedPolicy capacity seq = bnd (run_cache slru_access (slru_init capacity) seq 0) (\<lambda>(hs, c). Inr hs)"
| "policy_run BeladyPolicy capacity seq = bnd (run_cache belady_access (belady_init capacity seq) seq 0) (\<lambda>(hs, c). Inr hs)"

interpretation clock_oracle: against_oracle belady_access belady_resident "belady_inv capacity seq"
  clock_access clock_resident "\<lambda>_. clock_inv capacity" capacity seq
  for capacity seq ..

interpretation slru_oracle: against_oracle belady_access belady_resident "belady_inv capacity seq"
  slru_access slru_resident "\<lambda>_. slru_inv capacity" capacity seq
  for capacity seq ..

lemma policy_run_returns: "\<exists>hs. policy_run policy capacity seq = Inr hs \<and> length hs = length seq"
  using clock_demand.run_returns [where p = 0 and seq = seq, OF clock_init_inv [of capacity]]
    slru_demand.run_returns [where p = 0 and seq = seq, OF slru_init_inv [of capacity]]
    belady_oracle.run_returns [where p = 0, OF belady_init_inv [of capacity seq]]
  by (cases policy) auto

lemma policy_run_compulsory:
  assumes "policy_run policy capacity seq = Inr hs"
  shows "card (set seq) \<le> miss_count hs"
proof (cases policy)
  case ClockPolicy
  then show ?thesis using assms clock_demand.compulsory [where p = 0 and seq = seq, OF clock_init_inv [of capacity]]
    by (auto simp: ok_simps clock_init_resident)
next
  case SegmentedPolicy
  then show ?thesis using assms slru_demand.compulsory [where p = 0 and seq = seq, OF slru_init_inv [of capacity]]
    by (auto simp: ok_simps slru_init_resident)
next
  case BeladyPolicy
  then show ?thesis using assms belady_oracle.compulsory [where p = 0, OF belady_init_inv [of capacity seq]]
    by (auto simp: ok_simps belady_init_resident)
qed

lemma policy_run_oracle:
  assumes "policy_run BeladyPolicy capacity seq = Inr hs" and "policy_run policy capacity seq = Inr gs"
  shows "miss_count hs \<le> miss_count gs"
proof (cases policy)
  case ClockPolicy
  then show ?thesis using assms clock_oracle.oracle_optimal [OF belady_init_inv clock_init_inv]
    by (fastforce simp: ok_simps belady_init_resident clock_init_resident)
next
  case SegmentedPolicy
  then show ?thesis using assms slru_oracle.oracle_optimal [OF belady_init_inv slru_init_inv]
    by (fastforce simp: ok_simps belady_init_resident slru_init_resident)
next
  case BeladyPolicy
  then show ?thesis using assms by simp
qed

lemma count_segment_eq_Inr:
  assumes "count_segment capacity policy t g = Inr u" and "tally_ok t"
  obtains hs where "policy_run policy capacity (sg_accesses g) = Inr hs" and "tally_ok u"
    and "sum_list (ta_misses u) = sum_list (ta_misses t) + int (miss_count hs)"
    and "sum_list (ta_hits u) + sum_list (ta_misses u) =
         sum_list (ta_hits t) + sum_list (ta_misses t) + len (sg_accesses g)"
proof -
  have t: "tally_ok (t\<lparr>ta_span_index := 0\<rparr>)" using assms(2) by (simp add: tally_ok_def)
  show thesis
  proof (cases policy)
    case ClockPolicy
    with assms(1) have "count_run clock_access (sg_access_spans g) (clock_init capacity) (t\<lparr>ta_span_index := 0\<rparr>) (sg_accesses g) 0 = Inr u"
      by (simp add: count_segment_def Let_def)
    from count_run_misses [OF this t] that ClockPolicy show thesis by auto
  next
    case SegmentedPolicy
    with assms(1) have "count_run slru_access (sg_access_spans g) (slru_init capacity) (t\<lparr>ta_span_index := 0\<rparr>) (sg_accesses g) 0 = Inr u"
      by (simp add: count_segment_def Let_def)
    from count_run_misses [OF this t] that SegmentedPolicy show thesis by auto
  next
    case BeladyPolicy
    with assms(1) have "count_run belady_access (sg_access_spans g) (belady_init capacity (sg_accesses g)) (t\<lparr>ta_span_index := 0\<rparr>) (sg_accesses g) 0 = Inr u"
      by (simp add: count_segment_def Let_def)
    from count_run_misses [OF this t] that BeladyPolicy show thesis by auto
  qed
qed

lemma count_segment_returns:
  assumes g: "segment_ok ex g" and t: "tally_ok t"
  shows "\<exists>u. count_segment capacity policy t g = Inr u"
proof -
  let ?t = "t\<lparr>ta_span_index := 0\<rparr>" and ?seq = "sg_accesses g" and ?spans = "sg_access_spans g"
  have t': "tally_ok ?t" using t by (simp add: tally_ok_def)
  have k: "keys_ok ?seq" using g by (simp add: segment_ok_def)
  have sp: "?spans = [] \<or> ta_span_index ?t < length ?spans \<and> 0 + length ?seq \<le> sp_end (last ?spans)"
    using g by (auto simp: segment_ok_def split: if_splits)
  note R = count_run_returns [OF _ k t' sp]
  show ?thesis
    using policy_run_returns [of policy capacity ?seq]
    by (cases policy) (auto simp: count_segment_def Let_def ok_simps dest!: R)
qed

text \<open>All segments: the totals are sums of the runs' misses and lengths.\<close>

definition run_misses :: "sim_policy \<Rightarrow> nat \<Rightarrow> segment \<Rightarrow> int" where
  "run_misses policy capacity g = int (miss_count (projr (policy_run policy capacity (sg_accesses g))))"

lemma count_segments_eq_Inr:
  "foldm (count_segment capacity policy) t gs = Inr u \<Longrightarrow> tally_ok t \<Longrightarrow>
   tally_ok u \<and> sum_list (ta_misses u) = sum_list (ta_misses t) + sum_list (map (run_misses policy capacity) gs) \<and>
   sum_list (ta_hits u) + sum_list (ta_misses u) = sum_list (ta_hits t) + sum_list (ta_misses t) + total_accesses gs"
proof (induction gs arbitrary: t)
  case Nil
  then show ?case by (simp add: total_accesses_def)
next
  case (Cons g gs)
  then obtain v where v: "count_segment capacity policy t g = Inr v"
    and rest: "foldm (count_segment capacity policy) v gs = Inr u" by (auto simp: ok_simps)
  obtain hs where "policy_run policy capacity (sg_accesses g) = Inr hs" "tally_ok v"
    "sum_list (ta_misses v) = sum_list (ta_misses t) + int (miss_count hs)"
    "sum_list (ta_hits v) + sum_list (ta_misses v) = sum_list (ta_hits t) + sum_list (ta_misses t) + len (sg_accesses g)"
    using count_segment_eq_Inr [OF v Cons.prems(2)] by blast
  then show ?case using Cons.IH [OF rest] by (simp add: run_misses_def total_accesses_def)
qed

lemma tally_init_ok: "tally_ok tally_init"
  by (simp add: tally_ok_def tally_init_def sum_list_replicate)

lemma tally_init_sums: "sum_list (ta_hits tally_init) = 0" "sum_list (ta_misses tally_init) = 0"
  by (simp_all add: tally_init_def sum_list_replicate)

lemma policy_answer_eq_Inr:
  "policy_answer policy per_layer t = Inr r \<Longrightarrow>
   po_hits r = sum_list (ta_hits t) \<and> po_misses r = sum_list (ta_misses t) \<and>
   po_demands r = sum_list (ta_hits t) + sum_list (ta_misses t) \<and>
   po_application_miss_bytes r = sum_list (ta_misses t) * PAYLOAD_BYTES"
  by (auto simp: policy_answer_def ok_simps Let_def)

lemma policy_answer_returns:
  assumes "tally_ok t"
  shows "\<exists>r. policy_answer policy per_layer t = Inr r"
proof -
  have ph: "\<exists>ys. mapm phase_answer ps = Inr ys" if "\<forall>(k, h, m)\<in>set ps. 0 \<le> h \<and> 0 \<le> m \<and> 0 < h + m" for ps
    using that
  proof (induction ps)
    case Nil
    then show ?case by simp
  next
    case (Cons e ps)
    obtain k f h m where e: "e = ((k, f), (h, m))" by (metis surj_pair)
    have "returns (int_truediv h (h + m))" using Cons.prems by (intro phase_answer_returns) (auto simp: e)
    then obtain x where "int_truediv h (h + m) = Inr x" by (cases "int_truediv h (h + m)") auto
    then show ?case using Cons by (auto simp: phase_answer_def e)
  qed
  let ?h = "sum_list (ta_hits t)" and ?m = "sum_list (ta_misses t)"
  obtain ys where ys: "mapm phase_answer (ta_request_phases t) = Inr ys"
    using ph [of "ta_request_phases t"] assms by (auto simp: tally_ok_def)
  show ?thesis
  proof (cases "?h + ?m = 0")
    case True
    then show ?thesis by (simp add: policy_answer_def ys Let_def)
  next
    case False
    then have "returns (int_truediv ?h (?h + ?m))"
      using assms by (intro phase_answer_returns) (auto simp: tally_ok_def)
    then obtain x where "int_truediv ?h (?h + ?m) = Inr x" by (cases "int_truediv ?h (?h + ?m)") auto
    then show ?thesis using False by (simp add: policy_answer_def ys Let_def)
  qed
qed

lemma counts_eq_Inr:
  assumes "counts gs capacity policy per_layer = Inr r"
  shows "po_misses r = sum_list (map (run_misses policy capacity) gs)"
    and "po_hits r + po_misses r = total_accesses gs" and "po_demands r = total_accesses gs"
    and "po_application_miss_bytes r = po_misses r * PAYLOAD_BYTES"
proof -
  obtain t where t: "foldm (count_segment capacity policy) tally_init gs = Inr t"
    and a: "policy_answer policy per_layer t = Inr r"
    using assms by (auto simp: counts_def ok_simps)
  note C = count_segments_eq_Inr [OF t tally_init_ok] tally_init_sums policy_answer_eq_Inr [OF a]
  show "po_misses r = sum_list (map (run_misses policy capacity) gs)"
    and "po_hits r + po_misses r = total_accesses gs" and "po_demands r = total_accesses gs"
    and "po_application_miss_bytes r = po_misses r * PAYLOAD_BYTES"
    using C by auto
qed

lemma counts_returns:
  assumes "\<forall>g\<in>set gs. segment_ok ex g"
  shows "\<exists>r. counts gs capacity policy per_layer = Inr r"
proof -
  have "\<exists>u. foldm (count_segment capacity policy) t gs = Inr u \<and> tally_ok u" if "tally_ok t" for t
    using assms that
  proof (induction gs arbitrary: t)
    case Nil
    then show ?case by simp
  next
    case (Cons g gs)
    obtain v where v: "count_segment capacity policy t g = Inr v"
      using count_segment_returns [of ex g t capacity policy] Cons.prems by auto
    moreover have "tally_ok v" using count_segment_eq_Inr [OF v Cons.prems(2)] by blast
    ultimately show ?case using Cons by auto
  qed
  then obtain t where "foldm (count_segment capacity policy) tally_init gs = Inr t" "tally_ok t"
    using tally_init_ok by blast
  then show ?thesis using policy_answer_returns [of t policy per_layer] by (auto simp: counts_def)
qed

section \<open>What the counters say\<close>

text \<open>
  C1: Belady's oracle is a minimum: on the same segments and capacity, the misses that \<open>counts\<close>
  reports for it never exceed the misses it reports for any of the policies.
\<close>

theorem belady_minimal:
  assumes "counts segments capacity BeladyPolicy per_layer = Inr oracle_counts"
    and "counts segments capacity policy per_layer' = Inr policy_result"
  shows "po_misses oracle_counts \<le> po_misses policy_result"
proof -
  have "run_misses BeladyPolicy capacity g \<le> run_misses policy capacity g" for g
    using policy_run_returns [of BeladyPolicy capacity "sg_accesses g"] policy_run_returns [of policy capacity "sg_accesses g"]
      policy_run_oracle by (fastforce simp: run_misses_def)
  then have "sum_list (map (run_misses BeladyPolicy capacity) segments) \<le> sum_list (map (run_misses policy capacity) segments)"
    by (intro sum_list_mono) auto
  then show ?thesis using counts_eq_Inr(1) [OF assms(1)] counts_eq_Inr(1) [OF assms(2)] by simp
qed

definition sample_segment :: segment where
  "sample_segment = \<lparr>sg_start_offset = 0, sg_end_offset = 1, sg_phase = PNone, sg_session_id = PNone,
     sg_first_source_pointer = ''line:1'', sg_last_source_pointer = ''line:48'', sg_windows = 1,
     sg_single_token_windows = 1, sg_accesses = [1, 2, 3, 1, 2, 3], sg_phases = [], sg_access_spans = []\<rparr>"

lemma sample_segment_ok: "segment_ok False sample_segment"
  by (simp add: segment_ok_def sample_segment_def keys_ok_def LAYERS_def EXPERTS_def)

lemma belady_minimal_witness:
  "\<exists>oracle_counts clock_counts. counts [sample_segment] 2 BeladyPolicy False = Inr oracle_counts \<and>
     counts [sample_segment] 2 ClockPolicy True = Inr clock_counts \<and>
     po_misses oracle_counts = 4 \<and> po_misses clock_counts = 6 \<and> po_misses oracle_counts \<le> po_misses clock_counts"
proof -
  obtain o1 o2 where c: "counts [sample_segment] 2 BeladyPolicy False = Inr o1"
    "counts [sample_segment] 2 ClockPolicy True = Inr o2"
    using counts_returns [of "[sample_segment]" False] sample_segment_ok by fastforce
  have "run_misses BeladyPolicy 2 sample_segment = 4" "run_misses ClockPolicy 2 sample_segment = 6"
    by code_simp+
  then show ?thesis using c belady_minimal [OF c] counts_eq_Inr(1) [OF c(1)] counts_eq_Inr(1) [OF c(2)] by simp
qed

text \<open>
  C4: the simulator never fails on segments it has cut itself, and its totals add up: for every
  policy and capacity \<open>counts\<close> returns, hits and misses together are the recorded demands, the
  missed bytes are the misses times the payload, and no policy misses less than the compulsory
  misses of the coverage report.
\<close>

theorem counts_of_route_segments:
  assumes "route_segments rows phase explicit_boundaries = Inr (segments, report)"
  shows "\<exists>r. counts segments capacity policy per_layer = Inr r \<and>
    po_hits r + po_misses r = co_demand_record_accesses report \<and> po_demands r = co_demand_record_accesses report \<and>
    po_application_miss_bytes r = po_misses r * PAYLOAD_BYTES \<and> co_compulsory_misses report \<le> po_misses r"
proof -
  obtain s where s: "routes_inv explicit_boundaries s" "segments = rs_segments s"
    "co_demand_record_accesses report = total_accesses (rs_segments s)"
    "co_compulsory_misses report = sum_list (map (\<lambda>g. len (remdups (sg_accesses g))) (rs_segments s))"
    using route_segments_eq_Inr [OF assms] by metis
  then have "\<forall>g\<in>set segments. segment_ok explicit_boundaries g" by (simp add: routes_inv_def)
  then obtain r where r: "counts segments capacity policy per_layer = Inr r" using counts_returns by blast
  have "len (remdups (sg_accesses g)) \<le> run_misses policy capacity g" for g
    using policy_run_returns [of policy capacity "sg_accesses g"] policy_run_compulsory
    by (fastforce simp: run_misses_def len_def length_remdups_card_conv)
  then have "co_compulsory_misses report \<le> sum_list (map (run_misses policy capacity) segments)"
    unfolding s(4) s(2) by (intro sum_list_mono) auto
  then show ?thesis using r counts_eq_Inr [OF r] s by auto
qed

abbreviation sample_line :: "nat \<Rightarrow> string" where
  "sample_line l \<equiv> ''line:'' @ dec (Suc l)"

lemma counts_of_route_segments_witness:
  "\<exists>report r. route_segments (single_rows sample_line) None False = Inr ([single_segment sample_line], report) \<and>
     counts [single_segment sample_line] 3 SegmentedPolicy False = Inr r \<and> po_hits r + po_misses r = 480"
proof -
  obtain report where cut: "route_segments (single_rows sample_line) None False = Inr ([single_segment sample_line], report)"
    "co_demand_record_accesses report = 480"
    using single_cut by blast
  show ?thesis using counts_of_route_segments [OF cut(1), of 3 SegmentedPolicy False] cut by auto
qed

text \<open>
  C10: no cache of the simulator can fail or loop: on every access sequence and capacity each of
  CLOCK, segmented LRU and Belady's oracle answers every access, and misses each distinct record
  at least once.
\<close>

theorem policies_total:
  "\<exists>hs. policy_run policy capacity seq = Inr hs \<and> length hs = length seq \<and> card (set seq) \<le> miss_count hs"
  using policy_run_returns [of policy capacity seq] policy_run_compulsory by blast

end
