(* ===== verification/BlockCache.thy ===== *)
theory BlockCache
  imports RouteSegments SimClock SimSegmented
begin

text \<open>
  Class \<open>Cache\<close> of \<open>scripts/qwen/block_cache_replay.py\<close>: a replay cache whose entries can be
  leased (pinned) while the GPU reads them, under the CLOCK or the segmented LRU policy, with the
  counters that the replay compares with the native ones.
\<close>

section \<open>State\<close>

datatype replay_policy = ReplayClock | ReplaySlru

record slot_entry =
  se_key :: int
  se_referenced :: bool
  se_pins :: int

record cache =
  ca_capacity :: nat
  ca_policy :: replay_policy
  ca_slots :: "slot_entry option list"
  ca_lookup :: "(int \<times> nat) list"
  ca_hand :: nat
  ca_probation :: "int list"
  ca_protected :: "int list"
  ca_hits :: int
  ca_misses :: int
  ca_evictions :: int
  ca_ready_hits :: int
  ca_joins :: int
  ca_layer_hits :: "int list"
  ca_layer_misses :: "int list"

definition cache_fresh :: "nat \<Rightarrow> replay_policy \<Rightarrow> cache" where
  "cache_fresh capacity policy = \<lparr>ca_capacity = capacity, ca_policy = policy,
     ca_slots = replicate capacity None, ca_lookup = [], ca_hand = 0, ca_probation = [],
     ca_protected = [], ca_hits = 0, ca_misses = 0, ca_evictions = 0, ca_ready_hits = 0, ca_joins = 0,
     ca_layer_hits = replicate 48 0, ca_layer_misses = replicate 48 0\<rparr>"

definition replay_policy_of :: "string \<Rightarrow> replay_policy result" where
  "replay_policy_of policy =
     (if policy = ''clock'' then Inr ReplayClock else if policy = ''slru'' then Inr ReplaySlru
      else Inl (ValueError ''Unknown replay policy''))"

definition cache_new :: "pyval \<Rightarrow> string \<Rightarrow> cache result" where
  "cache_new capacity policy =
     bnd (integer capacity 1 4096 ''capacity'') (\<lambda>n.
     bnd (replay_policy_of policy) (\<lambda>p. Inr (cache_fresh (nat n) p)))"

section \<open>Acquiring a record\<close>

definition entry_at :: "slot_entry option list \<Rightarrow> nat \<Rightarrow> slot_entry result" where
  "entry_at slots i =
     (if length slots \<le> i then Inl IndexError
      else case slots ! i of None \<Rightarrow> Inl TypeError | Some e \<Rightarrow> Inr e)"

text \<open>\<open>while len(self.protected) > 3*self.capacity//4\<close>: demote the oldest protected key.\<close>

fun demote :: "nat \<Rightarrow> int list \<Rightarrow> int list \<Rightarrow> int list \<times> int list" where
  "demote limit probation [] = (probation, [])"
| "demote limit probation (old # rest) =
     (if limit < Suc (length rest) then demote limit (od_store old probation) rest
      else (probation, old # rest))"

definition touch_slru :: "int \<Rightarrow> cache \<Rightarrow> cache" where
  "touch_slru key c =
     (case ca_policy c of
        ReplayClock \<Rightarrow> c
      | ReplaySlru \<Rightarrow>
          (let (probation, protected) = demote (3 * ca_capacity c div 4) (remove1 key (ca_probation c))
                 (od_store key (remove1 key (ca_protected c)))
           in c\<lparr>ca_probation := probation, ca_protected := protected\<rparr>))"

definition acquire_hit :: "cache \<Rightarrow> int \<Rightarrow> nat \<Rightarrow> int option \<Rightarrow> ((bool \<times> nat \<times> int) \<times> cache) result" where
  "acquire_hit c key slot kind =
     bnd (entry_at (ca_slots c) slot) (\<lambda>e.
     bnd (list_incr (ca_layer_hits c) (key div EXPERTS)) (\<lambda>layer_hits.
     Inr ((True, slot, - 1), touch_slru key (c\<lparr>
       ca_slots := (ca_slots c)[slot := Some (e\<lparr>se_referenced := True\<rparr>)],
       ca_hits := ca_hits c + 1, ca_layer_hits := layer_hits,
       ca_ready_hits := ca_ready_hits c + (if kind = Some 1 then 1 else 0),
       ca_joins := ca_joins c + (if kind = Some 2 then 1 else 0)\<rparr>))))"

text \<open>
  The bounded sweep: at most \<open>steps\<close> slots from the hand. Pinned slots (and, under the segmented
  policy, all used slots) are passed; a set reference bit is cleared.
\<close>

fun lease_sweep :: "replay_policy \<Rightarrow> nat \<Rightarrow> nat \<Rightarrow> slot_entry option list \<Rightarrow> nat \<Rightarrow>
    (nat option \<times> slot_entry option list \<times> nat) result"
where
  "lease_sweep policy capacity 0 slots hand = Inr (None, slots, hand)"
| "lease_sweep policy capacity (Suc steps) slots hand =
     (if length slots \<le> hand then Inl IndexError
      else case slots ! hand of
        None \<Rightarrow> Inr (Some hand, slots, (hand + 1) mod capacity)
      | Some e \<Rightarrow>
          if policy = ReplaySlru \<or> se_pins e \<noteq> 0
          then lease_sweep policy capacity steps slots ((hand + 1) mod capacity)
          else if se_referenced e
          then lease_sweep policy capacity steps (slots[hand := Some (e\<lparr>se_referenced := False\<rparr>)]) ((hand + 1) mod capacity)
          else Inr (Some hand, slots, (hand + 1) mod capacity))"

text \<open>The first key of a queue whose entry is not pinned.\<close>

fun first_unpinned :: "cache \<Rightarrow> int list \<Rightarrow> nat option result" where
  "first_unpinned c [] = Inr None"
| "first_unpinned c (k # ks) =
     (case map_of (ca_lookup c) k of
        None \<Rightarrow> Inl (KeyError [])
      | Some slot \<Rightarrow> bnd (entry_at (ca_slots c) slot) (\<lambda>e.
          if se_pins e = 0 then Inr (Some slot) else first_unpinned c ks))"

definition select_slot :: "cache \<Rightarrow> (nat option \<times> cache) result" where
  "select_slot c =
     (if ca_policy c = ReplaySlru \<and> length (ca_lookup c) = ca_capacity c
      then bnd (first_unpinned c (ca_probation c @ ca_protected c)) (\<lambda>selected. Inr (selected, c))
      else bnd (lease_sweep (ca_policy c) (ca_capacity c) (2 * ca_capacity c + 1) (ca_slots c) (ca_hand c))
             (\<lambda>(selected, slots, hand). Inr (selected, c\<lparr>ca_slots := slots, ca_hand := hand\<rparr>)))"

text \<open>Whatever occupied the selected slot is forgotten.\<close>

definition evict_slot :: "cache \<Rightarrow> nat \<Rightarrow> (int \<times> cache) result" where
  "evict_slot c slot =
     (if length (ca_slots c) \<le> slot then Inl IndexError
      else case ca_slots c ! slot of
        None \<Rightarrow> Inr (- 1, c)
      | Some e \<Rightarrow>
          (if map_of (ca_lookup c) (se_key e) = None then Inl (KeyError [])
           else Inr (se_key e, c\<lparr>ca_lookup := AList.delete (se_key e) (ca_lookup c),
             ca_probation := remove1 (se_key e) (ca_probation c),
             ca_protected := remove1 (se_key e) (ca_protected c), ca_evictions := ca_evictions c + 1\<rparr>)))"

definition acquire_miss :: "cache \<Rightarrow> int \<Rightarrow> ((bool \<times> nat \<times> int) \<times> cache) result" where
  "acquire_miss c key =
     bnd (select_slot c) (\<lambda>(selected, c).
     (case selected of
        None \<Rightarrow> Inl (ValueError ''Replay cache exhausted by leases'')
      | Some slot \<Rightarrow>
          bnd (evict_slot c slot) (\<lambda>(victim, c).
          bnd (list_incr (ca_layer_misses c) (key div EXPERTS)) (\<lambda>layer_misses.
          Inr ((False, slot, victim), c\<lparr>
            ca_slots := (ca_slots c)[slot := Some \<lparr>se_key = key, se_referenced = True, se_pins = 0\<rparr>],
            ca_lookup := aput (ca_lookup c) key slot,
            ca_probation := (if ca_policy c = ReplaySlru then od_store key (ca_probation c) else ca_probation c),
            ca_misses := ca_misses c + 1, ca_layer_misses := layer_misses\<rparr>)))))"

definition acquire_key :: "cache \<Rightarrow> int \<Rightarrow> int option \<Rightarrow> ((bool \<times> nat \<times> int) \<times> cache) result" where
  "acquire_key c key kind =
     (case map_of (ca_lookup c) key of Some slot \<Rightarrow> acquire_hit c key slot kind | None \<Rightarrow> acquire_miss c key)"

definition acquire :: "cache \<Rightarrow> pyval \<Rightarrow> int option \<Rightarrow> ((bool \<times> nat \<times> int) \<times> cache) result" where
  "acquire c key kind = bnd (integer key 0 (LAYERS * EXPERTS - 1) ''expert key'') (\<lambda>k. acquire_key c k kind)"

section \<open>Leases and the snapshot\<close>

definition lease :: "cache \<Rightarrow> int \<Rightarrow> bool \<Rightarrow> (int \<times> cache) result" where
  "lease c key release =
     (case map_of (ca_lookup c) key of
        None \<Rightarrow> Inl (ValueError ''Lease refers to evicted or missing entry'')
      | Some slot \<Rightarrow> bnd (entry_at (ca_slots c) slot) (\<lambda>e.
          let pins = se_pins e + (if release then - 1 else 1)
          in req (0 \<le> pins) ''Release without a live lease''
               (Inr (pins, c\<lparr>ca_slots := (ca_slots c)[slot := Some (e\<lparr>se_pins := pins\<rparr>)]\<rparr>))))"

definition entry_pins :: "slot_entry option \<Rightarrow> int" where
  "entry_pins e = (case e of None \<Rightarrow> 0 | Some x \<Rightarrow> se_pins x)"

definition pins :: "cache \<Rightarrow> int" where
  "pins c = sum_list (map entry_pins (ca_slots c))"

definition slot_state :: "nat \<Rightarrow> slot_entry option \<Rightarrow> pyval" where
  "slot_state i slot =
     (case slot of
        None \<Rightarrow> PNone
      | Some e \<Rightarrow> PDict [(''slot'', PInt (int i)), (''key'', PInt (se_key e)), (''referenced'', PBool (se_referenced e)),
          (''pins'', PInt 0), (''future_valid'', PBool True), (''ready'', PBool True), (''queue'', PInt 0),
          (''previous'', PNone), (''next'', PNone)])"

definition cache_state :: "cache \<Rightarrow> pyval result" where
  "cache_state c =
     req (ca_policy c = ReplayClock \<and> pins c = 0) ''Full snapshot needs drained CLOCK state''
       (Inr (PDict [(''kind'', PStr ''expert_cache_eviction_state_v1''), (''policy'', PStr ''clock''),
          (''capacity'', PInt (int (ca_capacity c))), (''stride'', PInt SLOT_BYTES),
          (''hand'', PInt (int (ca_hand c))), (''protected'', PInt 0), (''oldest'', PList [PNone, PNone]),
          (''newest'', PList [PNone, PNone]),
          (''slots'', PList (map (\<lambda>(i, e). slot_state i e) (enumerate_from 0 (ca_slots c))))]))"

section \<open>The invariant\<close>

text \<open>
  The lookup is the inverse of the slot array, the hand is inside the ring, no pin count is
  negative, and under the segmented policy the two queues hold exactly the resident keys.
\<close>

definition queues_ok :: "cache \<Rightarrow> bool" where
  "queues_ok c \<longleftrightarrow>
     (case ca_policy c of
        ReplayClock \<Rightarrow> ca_probation c = [] \<and> ca_protected c = []
      | ReplaySlru \<Rightarrow> distinct (ca_probation c @ ca_protected c) \<and>
          set (ca_probation c @ ca_protected c) = fst ` set (ca_lookup c))"

definition lookup_ok :: "cache \<Rightarrow> bool" where
  "lookup_ok c \<longleftrightarrow> distinct (map fst (ca_lookup c)) \<and>
     (\<forall>k i. map_of (ca_lookup c) k = Some i \<longleftrightarrow>
        i < ca_capacity c \<and> (\<exists>e. ca_slots c ! i = Some e \<and> se_key e = k))"

definition cache_inv :: "cache \<Rightarrow> bool" where
  "cache_inv c \<longleftrightarrow> length (ca_slots c) = ca_capacity c \<and> ca_hand c < ca_capacity c \<and>
     length (ca_layer_hits c) = 48 \<and> length (ca_layer_misses c) = 48 \<and>
     (\<forall>e. Some e \<in> set (ca_slots c) \<longrightarrow> 0 \<le> se_pins e) \<and> lookup_ok c \<and> queues_ok c"

definition key_ok :: "int \<Rightarrow> bool" where
  "key_ok k \<longleftrightarrow> 0 \<le> k \<and> k < LAYERS * EXPERTS"

text \<open>A slot that the replacement may take.\<close>

definition free_slot :: "cache \<Rightarrow> nat \<Rightarrow> bool" where
  "free_slot c i \<longleftrightarrow> i < ca_capacity c \<and> entry_pins (ca_slots c ! i) = 0"

lemma cache_fresh_inv: "0 < capacity \<Longrightarrow> cache_inv (cache_fresh capacity policy)"
  by (auto simp: cache_inv_def cache_fresh_def lookup_ok_def queues_ok_def split: replay_policy.splits)

lemma cache_invD:
  assumes "cache_inv c"
  shows "length (ca_slots c) = ca_capacity c" "ca_hand c < ca_capacity c" "length (ca_layer_hits c) = 48"
    "length (ca_layer_misses c) = 48" "\<And>e. Some e \<in> set (ca_slots c) \<Longrightarrow> 0 \<le> se_pins e" "lookup_ok c" "queues_ok c"
  using assms by (auto simp: cache_inv_def)

lemma lookup_okD:
  assumes "lookup_ok c"
  shows "distinct (map fst (ca_lookup c))"
    and "map_of (ca_lookup c) k = Some i \<longleftrightarrow> i < ca_capacity c \<and> (\<exists>e. ca_slots c ! i = Some e \<and> se_key e = k)"
  using assms unfolding lookup_ok_def by blast+

lemma lookup_entry:
  assumes "cache_inv c" and "map_of (ca_lookup c) k = Some i"
  obtains e where "entry_at (ca_slots c) i = Inr e" "se_key e = k" "i < ca_capacity c" "ca_slots c ! i = Some e"
proof -
  obtain e where e: "i < ca_capacity c" "ca_slots c ! i = Some e" "se_key e = k"
    using assms(2) lookup_okD(2) [OF cache_invD(6) [OF assms(1)], of k i] by blast
  then show thesis using that cache_invD(1) [OF assms(1)] by (simp add: entry_at_def)
qed

lemma layer_incr_returns: "key_ok k \<Longrightarrow> length b = 48 \<Longrightarrow> \<exists>b'. list_incr b (k div EXPERTS) = Inr b' \<and> length b' = 48"
proof -
  assume "key_ok k" and l: "length b = 48"
  then have "0 \<le> k div EXPERTS" "k div EXPERTS < len b" by (auto simp: key_ok_def LAYERS_def EXPERTS_def len_def)
  then have "returns (list_incr b (k div EXPERTS))" by (rule list_incr_returns)
  then obtain b' where "list_incr b (k div EXPERTS) = Inr b'" by (cases "list_incr b (k div EXPERTS)") auto
  then show ?thesis using list_incr_sum l by force
qed

text \<open>The used slots and the lookup have the same size.\<close>

lemma lookup_length:
  assumes "cache_inv c"
  shows "length (ca_lookup c) = card {i. i < ca_capacity c \<and> ca_slots c ! i \<noteq> None}"
proof -
  note L = lookup_okD [OF cache_invD(6) [OF assms]]
  let ?I = "{i. i < ca_capacity c \<and> ca_slots c ! i \<noteq> None}"
  let ?K = "fst ` set (ca_lookup c)"
  let ?key = "\<lambda>i. se_key (the (ca_slots c ! i))"
  have key: "map_of (ca_lookup c) (?key i) = Some i" if "i \<in> ?I" for i
    by (rule iffD2 [OF L(2)]) (use that in auto)
  have "bij_betw ?key ?I ?K"
  proof (rule bij_betw_imageI)
    show "inj_on ?key ?I" by (rule inj_onI) (metis key option.inject)
    show "?key ` ?I = ?K"
    proof
      show "?key ` ?I \<subseteq> ?K"
      proof
        fix k
        assume "k \<in> ?key ` ?I"
        then obtain i where "i \<in> ?I" "k = ?key i" by blast
        with key [OF this(1)] show "k \<in> ?K" by (metis map_of_SomeD fst_conv image_eqI)
      qed
      show "?K \<subseteq> ?key ` ?I"
      proof
        fix k
        assume "k \<in> ?K"
        then have "map_of (ca_lookup c) k \<noteq> None" by (simp add: map_of_eq_None_iff)
        then obtain i where i: "map_of (ca_lookup c) k = Some i" by blast
        then obtain e where "i < ca_capacity c" "ca_slots c ! i = Some e" "se_key e = k" using iffD1 [OF L(2)] by blast
        then show "k \<in> ?key ` ?I" by (intro image_eqI [of _ _ i]) auto
      qed
    qed
  qed
  then have "card ?I = card ?K" by (rule bij_betw_same_card)
  then show ?thesis using L(1) by (metis distinct_card length_map set_map)
qed

section \<open>The sweep finds a slot\<close>

text \<open>What the sweep may select, and what it leaves of the slots: only reference bits change.\<close>

definition avail :: "replay_policy \<Rightarrow> slot_entry option \<Rightarrow> bool" where
  "avail policy slot = (case slot of None \<Rightarrow> True | Some e \<Rightarrow> policy = ReplayClock \<and> se_pins e = 0)"

definition same_slot :: "slot_entry option \<Rightarrow> slot_entry option \<Rightarrow> bool" where
  "same_slot a b \<longleftrightarrow> map_option se_key a = map_option se_key b \<and> map_option se_pins a = map_option se_pins b"

definition same_slots :: "slot_entry option list \<Rightarrow> slot_entry option list \<Rightarrow> bool" where
  "same_slots xs ys \<longleftrightarrow> length xs = length ys \<and> (\<forall>i<length xs. same_slot (xs ! i) (ys ! i))"

lemma same_slot_refl [simp]: "same_slot a a"
  by (simp add: same_slot_def)

lemma same_slots_refl [simp]: "same_slots xs xs"
  by (simp add: same_slots_def)

lemma same_slots_trans: "same_slots xs ys \<Longrightarrow> same_slots ys zs \<Longrightarrow> same_slots xs zs"
  by (auto simp: same_slots_def same_slot_def)

lemma same_slots_clear:
  "xs ! i = Some e \<Longrightarrow> same_slots xs (xs[i := Some (e\<lparr>se_referenced := b\<rparr>)])"
  by (cases "i < length xs") (auto simp: same_slots_def same_slot_def nth_list_update)

lemma avail_same_slot: "same_slot a b \<Longrightarrow> avail policy a = avail policy b"
  by (cases a; cases b) (auto simp: same_slot_def avail_def)

text \<open>The steps the sweep still needs to reach slot \<open>i\<close> and find its reference bit clear.\<close>

definition sweep_steps :: "nat \<Rightarrow> slot_entry option list \<Rightarrow> nat \<Rightarrow> nat \<Rightarrow> nat" where
  "sweep_steps capacity slots hand i =
     (i + capacity - hand) mod capacity +
     (if (case slots ! i of None \<Rightarrow> False | Some e \<Rightarrow> se_referenced e) then capacity else 0)"

lemma ring_step:
  assumes "hand < n" "i < n" "i \<noteq> hand"
  shows "Suc ((i + n - (hand + 1) mod n) mod n) = (i + n - hand) mod n"
proof (cases "hand + 1 = n")
  case True
  then have "(hand + 1) mod n = 0" "i + n - hand = Suc i" "Suc i < n" using assms by auto
  then show ?thesis using assms by simp
next
  case False
  then have h: "(hand + 1) mod n = hand + 1" using assms by simp
  show ?thesis
  proof (cases "hand < i")
    case True
    have a: "i + n - (hand + 1) = (i - (hand + 1)) + n" and b: "i + n - hand = (i - hand) + n" using True assms by auto
    have "(i + n - (hand + 1)) mod n = i - (hand + 1)" unfolding a using assms by simp
    moreover have "(i + n - hand) mod n = i - hand" unfolding b using assms by simp
    ultimately show ?thesis using True h by simp
  next
    case False
    then show ?thesis using assms h by simp
  qed
qed

lemma ring_turn:
  assumes "hand < (n::nat)"
  shows "(hand + n - hand) mod n = 0" and "(hand + n - (hand + 1) mod n) mod n = n - 1"
proof -
  show "(hand + n - hand) mod n = 0" using assms by simp
  show "(hand + n - (hand + 1) mod n) mod n = n - 1"
  proof (cases "hand + 1 = n")
    case True
    then show ?thesis using assms by (auto simp: mod_if)
  next
    case False
    then have "hand + n - (hand + 1) mod n = n - 1" using assms by simp
    then show ?thesis using assms by simp
  qed
qed

lemma lease_sweep_finds:
  "hand < capacity \<Longrightarrow> length slots = capacity \<Longrightarrow> i < capacity \<Longrightarrow> avail policy (slots ! i) \<Longrightarrow>
   sweep_steps capacity slots hand i < steps \<Longrightarrow>
   \<exists>h slots'. lease_sweep policy capacity steps slots hand = Inr (Some h, slots', (h + 1) mod capacity) \<and>
     h < capacity \<and> avail policy (slots ! h) \<and> same_slots slots slots'"
proof (induction steps arbitrary: slots hand)
  case 0
  then show ?case by simp
next
  case (Suc steps)
  let ?hand = "(hand + 1) mod capacity"
  have hand: "?hand < capacity" using Suc.prems(1) by simp
  show ?case
  proof (cases "slots ! hand")
    case None
    then show ?thesis using Suc.prems(1,2) by (simp add: avail_def)
  next
    case (Some e)
    consider (pass) "policy = ReplaySlru \<or> se_pins e \<noteq> 0"
      | (clear) "\<not> (policy = ReplaySlru \<or> se_pins e \<noteq> 0)" "se_referenced e"
      | (take) "\<not> (policy = ReplaySlru \<or> se_pins e \<noteq> 0)" "\<not> se_referenced e" by blast
    then show ?thesis
    proof cases
      case pass
      then have ne: "i \<noteq> hand" using Suc.prems(4) Some by (cases policy) (auto simp: avail_def)
      have "sweep_steps capacity slots ?hand i < steps"
        using ring_step [OF Suc.prems(1,3) ne] Suc.prems(5) by (simp add: sweep_steps_def)
      then show ?thesis using Suc.IH [OF hand Suc.prems(2,3,4)] pass Some Suc.prems(1,2) by simp
    next
      case take
      then have "avail policy (slots ! hand)" using Some by (cases policy) (auto simp: avail_def)
      then show ?thesis using take Some Suc.prems(1,2) by simp
    next
      case clear
      let ?slots = "slots[hand := Some (e\<lparr>se_referenced := False\<rparr>)]"
      have same: "same_slots slots ?slots" using same_slots_clear [OF Some] .
      have av: "avail policy (?slots ! i)"
        using same Suc.prems(2,3,4) avail_same_slot by (auto simp: same_slots_def)
      have "sweep_steps capacity ?slots ?hand i < steps"
      proof (cases "i = hand")
        case True
        then show ?thesis using ring_turn [OF Suc.prems(1)] Suc.prems(1,2,5) Some clear(2)
          by (simp add: sweep_steps_def)
      next
        case False
        then show ?thesis using ring_step [OF Suc.prems(1,3) False] Suc.prems(5) by (simp add: sweep_steps_def)
      qed
      from Suc.IH [OF hand _ Suc.prems(3) av this] Suc.prems(2) obtain h slots' where
        r: "lease_sweep policy capacity steps ?slots ?hand = Inr (Some h, slots', (h + 1) mod capacity)"
        and h: "h < capacity" "avail policy (?slots ! h)" "same_slots ?slots slots'" by auto
      have "avail policy (slots ! h)"
        using h(1,2) same Suc.prems(2) avail_same_slot by (auto simp: same_slots_def)
      then show ?thesis using r h(1) same_slots_trans [OF same h(3)] clear Some Suc.prems(1,2)
        by (cases policy) auto
    qed
  qed
qed

lemma sweep_steps_bound: "0 < capacity \<Longrightarrow> sweep_steps capacity slots hand i < 2 * capacity + 1"
proof -
  assume "0 < capacity"
  then have "(i + capacity - hand) mod capacity < capacity" by simp
  then show ?thesis by (simp add: sweep_steps_def)
qed

section \<open>Acquisition never fails while a slot is unpinned\<close>

lemma same_slots_inv:
  assumes inv: "cache_inv c" and same: "same_slots (ca_slots c) slots" and "hand < ca_capacity c"
  shows "cache_inv (c\<lparr>ca_slots := slots, ca_hand := hand\<rparr>)"
proof -
  note D = cache_invD [OF inv]
  have s: "same_slot (ca_slots c ! i) (slots ! i)" if "i < ca_capacity c" for i
    using same that D(1) by (simp add: same_slots_def)
  have l: "length slots = ca_capacity c" using same D(1) by (simp add: same_slots_def)
  have "(\<exists>e. slots ! i = Some e \<and> se_key e = k) = (\<exists>e. ca_slots c ! i = Some e \<and> se_key e = k)"
    if "i < ca_capacity c" for i k
    using s [OF that] by (cases "slots ! i"; cases "ca_slots c ! i") (auto simp: same_slot_def)
  then have "lookup_ok (c\<lparr>ca_slots := slots, ca_hand := hand\<rparr>)"
    using D(6) by (auto simp: lookup_ok_def)
  moreover have "0 \<le> se_pins e" if "Some e \<in> set slots" for e
  proof -
    obtain i where i: "i < ca_capacity c" "slots ! i = Some e" using \<open>Some e \<in> set slots\<close> l by (auto simp: in_set_conv_nth)
    then obtain f where "ca_slots c ! i = Some f" "se_pins f = se_pins e"
      using s [OF i(1)] by (cases "ca_slots c ! i") (auto simp: same_slot_def)
    then show ?thesis using D(5) [of f] i(1) D(1) by (metis nth_mem)
  qed
  moreover have "queues_ok (c\<lparr>ca_slots := slots, ca_hand := hand\<rparr>)"
    using D(7) by (simp add: queues_ok_def split: replay_policy.splits)
  ultimately show ?thesis using D(3,4) l assms(3) by (auto simp: cache_inv_def)
qed

lemma first_unpinned_spec:
  assumes inv: "cache_inv c" and "\<forall>k\<in>set ks. map_of (ca_lookup c) k \<noteq> None"
  shows "(\<exists>slot. first_unpinned c ks = Inr (Some slot) \<and> free_slot c slot) \<or>
    first_unpinned c ks = Inr None \<and> (\<forall>k\<in>set ks. \<exists>i e. map_of (ca_lookup c) k = Some i \<and> ca_slots c ! i = Some e \<and> se_pins e \<noteq> 0)"
  using assms(2)
proof (induction ks)
  case (Cons k ks)
  then obtain i where i: "map_of (ca_lookup c) k = Some i" by auto
  obtain e where e: "entry_at (ca_slots c) i = Inr e" "i < ca_capacity c" "ca_slots c ! i = Some e"
    using lookup_entry [OF inv i] by metis
  show ?case
  proof (cases "se_pins e = 0")
    case True
    then show ?thesis using i e by (simp add: free_slot_def entry_pins_def)
  next
    case False
    then show ?thesis using i e Cons by auto
  qed
qed simp

lemma queue_keys:
  assumes "cache_inv c" and "ca_policy c = ReplaySlru"
  shows "map_of (ca_lookup c) k \<noteq> None \<longleftrightarrow> k \<in> set (ca_probation c @ ca_protected c)"
  using cache_invD(7) [OF assms(1)] assms(2) by (simp add: queues_ok_def map_of_eq_None_iff)

lemma select_slot_free:
  assumes inv: "cache_inv c" and free: "free_slot c i"
  shows "\<exists>h c'. select_slot c = Inr (Some h, c') \<and> free_slot c h \<and> cache_inv c' \<and>
    (\<exists>slots hand. c' = c\<lparr>ca_slots := slots, ca_hand := hand\<rparr> \<and> same_slots (ca_slots c) slots)"
proof -
  note D = cache_invD [OF inv]
  have cap: "0 < ca_capacity c" using D(2) by simp
  show ?thesis
  proof (cases "ca_policy c = ReplaySlru \<and> length (ca_lookup c) = ca_capacity c")
    case True
    have "{i. i < ca_capacity c \<and> ca_slots c ! i \<noteq> None} = {..<ca_capacity c}"
      using lookup_length [OF inv] True by (intro card_subset_eq) auto
    then have "ca_slots c ! i \<noteq> None" using free by (auto simp: free_slot_def)
    then obtain e where e: "ca_slots c ! i = Some e" "se_pins e = 0" using free by (auto simp: free_slot_def entry_pins_def)
    have k: "map_of (ca_lookup c) (se_key e) = Some i"
      by (rule iffD2 [OF lookup_okD(2) [OF D(6)]]) (use e free in \<open>auto simp: free_slot_def\<close>)
    then have "se_key e \<in> set (ca_probation c @ ca_protected c)" using queue_keys [OF inv] True by auto
    moreover have "\<forall>k\<in>set (ca_probation c @ ca_protected c). map_of (ca_lookup c) k \<noteq> None"
      using queue_keys [OF inv] True by blast
    note F = first_unpinned_spec [OF inv this]
    have "\<not> (\<exists>i e. map_of (ca_lookup c) (se_key e') = Some i \<and> ca_slots c ! i = Some e \<and> se_pins e \<noteq> 0)" if "e' = e" for e'
      using k e that by simp
    ultimately obtain slot where sel: "first_unpinned c (ca_probation c @ ca_protected c) = Inr (Some slot)" "free_slot c slot"
      using F by blast
    have "c = c\<lparr>ca_slots := ca_slots c, ca_hand := ca_hand c\<rparr> \<and> same_slots (ca_slots c) (ca_slots c)" by simp
    then have "\<exists>slots hand. c = c\<lparr>ca_slots := slots, ca_hand := hand\<rparr> \<and> same_slots (ca_slots c) slots"
      by (intro exI)
    moreover have "select_slot c = Inr (Some slot, c)" using True sel by (simp add: select_slot_def)
    ultimately show ?thesis using inv sel(2) by blast
  next
    case False
    have "\<exists>j. j < ca_capacity c \<and> avail (ca_policy c) (ca_slots c ! j)"
    proof (cases "ca_policy c")
      case ReplayClock
      then show ?thesis using free
        by (intro exI [of _ i]) (auto simp: free_slot_def avail_def entry_pins_def split: option.splits)
    next
      case ReplaySlru
      then have "length (ca_lookup c) \<noteq> ca_capacity c" using False by simp
      then have "{i. i < ca_capacity c \<and> ca_slots c ! i \<noteq> None} \<noteq> {..<ca_capacity c}"
        using lookup_length [OF inv] by (metis card_lessThan)
      then obtain j where "j < ca_capacity c" "ca_slots c ! j = None" by blast
      then show ?thesis by (auto simp: avail_def)
    qed
    then obtain j where j: "j < ca_capacity c" "avail (ca_policy c) (ca_slots c ! j)" by blast
    obtain h slots where r: "lease_sweep (ca_policy c) (ca_capacity c) (2 * ca_capacity c + 1) (ca_slots c) (ca_hand c) =
        Inr (Some h, slots, (h + 1) mod ca_capacity c)"
      and h: "h < ca_capacity c" "avail (ca_policy c) (ca_slots c ! h)" "same_slots (ca_slots c) slots"
      using lease_sweep_finds [OF D(2,1) j sweep_steps_bound [OF cap]] by blast
    have "free_slot c h" using h(1,2) by (auto simp: free_slot_def avail_def entry_pins_def split: option.splits)
    moreover have "cache_inv (c\<lparr>ca_slots := slots, ca_hand := (h + 1) mod ca_capacity c\<rparr>)"
      using same_slots_inv [OF inv h(3)] cap by simp
    ultimately show ?thesis using r h(3) False by (auto simp: select_slot_def)
  qed
qed

end
