(* ===== verification/ReplayRuns.thy ===== *)
theory ReplayRuns
  imports BlockCache
begin

text \<open>
  Runs of the replay cache: every acquisition and every lease keeps the cache consistent, a
  record that is in use is never evicted, and without leases the cache makes the decisions of the
  simulator's policies.
\<close>

section \<open>Hits\<close>

lemma demote_mset:
  "distinct (probation @ protected) \<Longrightarrow> demote limit probation protected = (p, q) \<Longrightarrow>
     distinct (p @ q) \<and> set (p @ q) = set (probation @ protected)"
proof (induction limit probation protected rule: demote.induct)
  case (2 limit probation old rest)
  show ?case
  proof (cases "limit < Suc (length rest)")
    case True
    then have "demote limit (od_store old probation) rest = (p, q)" using 2(3) by simp
    then show ?thesis using 2(1) [OF True] 2(2) by auto
  next
    case False
    then show ?thesis using 2(2,3) by auto
  qed
qed auto

text \<open>What no operation on a key changes.\<close>

definition same_config :: "cache \<Rightarrow> cache \<Rightarrow> bool" where
  "same_config c d \<longleftrightarrow> ca_capacity d = ca_capacity c \<and> ca_policy d = ca_policy c"

lemma same_config_refl [simp]: "same_config c c"
  by (simp add: same_config_def)

lemma same_config_trans: "same_config c d \<Longrightarrow> same_config d e \<Longrightarrow> same_config c e"
  by (simp add: same_config_def)

lemma touch_slru_fields [simp]:
  "ca_capacity (touch_slru k c) = ca_capacity c" "ca_policy (touch_slru k c) = ca_policy c"
  "ca_slots (touch_slru k c) = ca_slots c" "ca_lookup (touch_slru k c) = ca_lookup c"
  "ca_hand (touch_slru k c) = ca_hand c" "ca_hits (touch_slru k c) = ca_hits c"
  "ca_misses (touch_slru k c) = ca_misses c" "ca_evictions (touch_slru k c) = ca_evictions c"
  "ca_layer_hits (touch_slru k c) = ca_layer_hits c" "ca_layer_misses (touch_slru k c) = ca_layer_misses c"
  by (simp_all add: touch_slru_def Let_def split: replay_policy.splits prod.splits)

lemma touch_slru_queues:
  assumes "queues_ok c" and "map_of (ca_lookup c) k = Some i"
  shows "queues_ok (touch_slru k c)"
proof (cases "ca_policy c")
  case ReplayClock
  then show ?thesis using assms(1) by (simp add: touch_slru_def)
next
  case ReplaySlru
  have d: "distinct (ca_probation c @ ca_protected c)"
    and s: "set (ca_probation c @ ca_protected c) = fst ` set (ca_lookup c)"
    using assms(1) ReplaySlru by (simp_all add: queues_ok_def)
  have k: "k \<in> fst ` set (ca_lookup c)" using assms(2) by (metis map_of_SomeD fst_conv image_eqI)
  let ?p = "remove1 k (ca_probation c)" and ?q = "od_store k (remove1 k (ca_protected c))"
  obtain p q where pq: "demote (3 * ca_capacity c div 4) ?p ?q = (p, q)" by (cases "demote (3 * ca_capacity c div 4) ?p ?q")
  have "distinct (?p @ ?q)" using d by (auto simp: set_remove1_eq distinct_remove1)
  moreover have "set (?p @ ?q) = set (ca_probation c @ ca_protected c)" using d k s by (auto simp: set_remove1_eq)
  ultimately show ?thesis using demote_mset [OF _ pq] ReplaySlru s by (simp add: touch_slru_def pq queues_ok_def)
qed

lemma same_slots_refs:
  assumes "i < length slots" and "slots ! i = Some e"
  shows "same_slots slots (slots[i := Some (e\<lparr>se_referenced := b\<rparr>)])"
  using same_slots_clear [OF assms(2)] .

lemma same_slot_pins: "same_slot a b \<Longrightarrow> entry_pins b = entry_pins a"
  by (cases a; cases b) (auto simp: same_slot_def entry_pins_def)

lemma same_slots_pins: "same_slots xs ys \<Longrightarrow> i < length xs \<Longrightarrow> entry_pins (ys ! i) = entry_pins (xs ! i)"
  by (auto simp: same_slots_def intro: same_slot_pins)

lemma acquire_hit_spec:
  assumes inv: "cache_inv c" and k: "key_ok key" and look: "map_of (ca_lookup c) key = Some slot"
  obtains c' where "acquire_hit c key slot kind = Inr ((True, slot, - 1), c')" "cache_inv c'"
    "same_config c c'" "ca_lookup c' = ca_lookup c" "same_slots (ca_slots c) (ca_slots c')"
    "ca_hits c' = ca_hits c + 1" "ca_misses c' = ca_misses c" "ca_evictions c' = ca_evictions c"
    "sum_list (ca_layer_hits c') = sum_list (ca_layer_hits c) + 1" "ca_layer_misses c' = ca_layer_misses c"
proof -
  note D = cache_invD [OF inv]
  obtain e where e: "entry_at (ca_slots c) slot = Inr e" "slot < ca_capacity c" "ca_slots c ! slot = Some e"
    using lookup_entry [OF inv look] by metis
  obtain b where b: "list_incr (ca_layer_hits c) (key div EXPERTS) = Inr b" "length b = 48"
    using layer_incr_returns [OF k D(3)] by blast
  let ?slots = "(ca_slots c)[slot := Some (e\<lparr>se_referenced := True\<rparr>)]"
  let ?d = "c\<lparr>ca_slots := ?slots, ca_hits := ca_hits c + 1, ca_layer_hits := b,
       ca_ready_hits := ca_ready_hits c + (if kind = Some 1 then 1 else 0),
       ca_joins := ca_joins c + (if kind = Some 2 then 1 else 0)\<rparr>"
  have same: "same_slots (ca_slots c) ?slots" using e D(1) by (intro same_slots_refs) auto
  have inv0: "cache_inv (c\<lparr>ca_slots := ?slots, ca_hand := ca_hand c\<rparr>)" by (rule same_slots_inv [OF inv same D(2)])
  have "queues_ok ?d" using D(7) by (simp add: queues_ok_def split: replay_policy.splits)
  then have q: "queues_ok (touch_slru key ?d)" by (rule touch_slru_queues) (use look in simp)
  have "cache_inv (touch_slru key ?d)"
    using inv0 b(2) q by (auto simp: cache_inv_def lookup_ok_def)
  then show thesis using e(1) b(1) same list_incr_sum [OF b(1)]
    by (intro that [of "touch_slru key ?d"]) (auto simp: acquire_hit_def same_config_def)
qed

section \<open>Misses\<close>

text \<open>Storing a key in a slot after its former key has been forgotten.\<close>

lemma lookup_ok_store:
  assumes ok: "lookup_ok c" and l: "length (ca_slots c) = ca_capacity c" and i: "i < ca_capacity c"
    and new: "map_of (ca_lookup c) key = None"
    and old: "ca_lookup d = (case ca_slots c ! i of None \<Rightarrow> ca_lookup c | Some e \<Rightarrow> AList.delete (se_key e) (ca_lookup c))"
    and slots: "ca_slots d = (ca_slots c)[i := Some f]" "se_key f = key" and cap: "ca_capacity d = ca_capacity c"
  shows "lookup_ok (d\<lparr>ca_lookup := aput (ca_lookup d) key i\<rparr>)"
proof -
  note L = lookup_okD [OF ok]
  have dist: "distinct (map fst (ca_lookup d))" using L(1) old by (cases "ca_slots c ! i") (simp_all add: distinct_delete)
  have del: "map_of (ca_lookup d) k = (case ca_slots c ! i of None \<Rightarrow> map_of (ca_lookup c) k
      | Some e \<Rightarrow> if k = se_key e then None else map_of (ca_lookup c) k)" for k
    using old by (cases "ca_slots c ! i") (simp_all add: delete_conv')
  have "map_of (aput (ca_lookup d) key i) k = Some j \<longleftrightarrow>
      j < ca_capacity c \<and> (\<exists>e. (ca_slots c)[i := Some f] ! j = Some e \<and> se_key e = k)" for k j
  proof (cases "k = key")
    case True
    have "\<not> (\<exists>e. ca_slots c ! j = Some e \<and> se_key e = key)" if "j < ca_capacity c" for j
      using new L(2) [of key j] that by auto
    then show ?thesis using True slots(2) l i by (cases "j = i") auto
  next
    case False
    then have "map_of (aput (ca_lookup d) key i) k = map_of (ca_lookup d) k" by (simp add: map_of_aput)
    moreover have "map_of (ca_lookup d) k = Some j \<longleftrightarrow> j \<noteq> i \<and> map_of (ca_lookup c) k = Some j"
    proof (cases "ca_slots c ! i")
      case None
      then have "map_of (ca_lookup d) k = map_of (ca_lookup c) k" "map_of (ca_lookup c) k \<noteq> Some i"
        using del [of k] L(2) [of k i] by simp_all
      then show ?thesis by (cases "j = i") simp_all
    next
      case (Some e)
      have "map_of (ca_lookup c) (se_key e) = Some i" by (rule iffD2 [OF L(2)]) (use Some i in auto)
      moreover have "map_of (ca_lookup c) k \<noteq> Some i" if "k \<noteq> se_key e"
      proof
        assume "map_of (ca_lookup c) k = Some i"
        from iffD1 [OF L(2) this] Some that show False by simp
      qed
      moreover have "map_of (ca_lookup d) k = (if k = se_key e then None else map_of (ca_lookup c) k)"
        using Some del [of k] by simp
      ultimately show ?thesis by (cases "k = se_key e") auto
    qed
    ultimately show ?thesis using False L(2) [of k j] slots(2) l by (cases "j = i") auto
  qed
  then show ?thesis using dist slots(1) cap by (simp add: lookup_ok_def aput_def distinct_update)
qed

text \<open>What a miss does to the cache: a free slot is taken and its former key, if any, is forgotten.\<close>

definition replaced_slot :: "cache \<Rightarrow> int \<Rightarrow> nat \<Rightarrow> cache \<Rightarrow> bool" where
  "replaced_slot c key slot d \<longleftrightarrow> slot < ca_capacity c \<and> same_config c d \<and>
     (\<forall>j<ca_capacity c. j \<noteq> slot \<longrightarrow> same_slot (ca_slots c ! j) (ca_slots d ! j)) \<and>
     map_option se_key (ca_slots d ! slot) = Some key \<and> entry_pins (ca_slots d ! slot) = 0 \<and>
     map_of (ca_lookup d) = (case ca_slots c ! slot of None \<Rightarrow> map_of (ca_lookup c)
        | Some e \<Rightarrow> (map_of (ca_lookup c))(se_key e := None))(key \<mapsto> slot) \<and>
     ca_evictions d = ca_evictions c + (if ca_slots c ! slot = None then 0 else 1) \<and>
     ca_misses d = ca_misses c + 1 \<and> ca_hits d = ca_hits c \<and> ca_layer_hits d = ca_layer_hits c \<and>
     sum_list (ca_layer_misses d) = sum_list (ca_layer_misses c) + 1"

lemma evict_slot_spec:
  assumes inv: "cache_inv c" and i: "i < ca_capacity c"
  obtains v d where "evict_slot c i = Inr (v, d)" "ca_slots d = ca_slots c" "same_config c d" "ca_hand d = ca_hand c"
    "ca_lookup d = (case ca_slots c ! i of None \<Rightarrow> ca_lookup c | Some e \<Rightarrow> AList.delete (se_key e) (ca_lookup c))"
    "ca_evictions d = ca_evictions c + (if ca_slots c ! i = None then 0 else 1)"
    "ca_misses d = ca_misses c" "ca_hits d = ca_hits c" "ca_layer_hits d = ca_layer_hits c"
    "ca_layer_misses d = ca_layer_misses c" "queues_ok d"
proof (cases "ca_slots c ! i")
  case None
  then show thesis using that [of "- 1" c] i cache_invD(1,7) [OF inv] by (simp add: evict_slot_def)
next
  case (Some e)
  have "map_of (ca_lookup c) (se_key e) = Some i"
    by (rule iffD2 [OF lookup_okD(2) [OF cache_invD(6) [OF inv]]]) (use Some i in auto)
  then have r: "evict_slot c i = Inr (se_key e, c\<lparr>ca_lookup := AList.delete (se_key e) (ca_lookup c),
       ca_probation := remove1 (se_key e) (ca_probation c),
       ca_protected := remove1 (se_key e) (ca_protected c), ca_evictions := ca_evictions c + 1\<rparr>)"
    using Some i cache_invD(1) [OF inv] by (simp add: evict_slot_def)
  have keys: "fst ` set (AList.delete k xs) = fst ` set xs - {k}" for k and xs :: "(int \<times> nat) list"
    by (induction xs) auto
  have "queues_ok (c\<lparr>ca_lookup := AList.delete (se_key e) (ca_lookup c),
       ca_probation := remove1 (se_key e) (ca_probation c),
       ca_protected := remove1 (se_key e) (ca_protected c), ca_evictions := ca_evictions c + 1\<rparr>)"
    using cache_invD(7) [OF inv] by (cases "ca_policy c") (auto simp: queues_ok_def keys set_remove1_eq distinct_remove1)
  then show thesis using that [OF r] Some by (simp add: same_config_def)
qed

lemma acquire_miss_spec:
  assumes inv: "cache_inv c" and k: "key_ok key" and look: "map_of (ca_lookup c) key = None"
    and free: "free_slot c i"
  obtains slot v d where "acquire_miss c key = Inr ((False, slot, v), d)" "cache_inv d" "free_slot c slot"
    "replaced_slot c key slot d"
proof -
  obtain h a where sel: "select_slot c = Inr (Some h, a)" "free_slot c h" "cache_inv a"
    and a: "\<exists>slots hand. a = c\<lparr>ca_slots := slots, ca_hand := hand\<rparr> \<and> same_slots (ca_slots c) slots"
    using select_slot_free [OF inv free] by blast
  obtain slots hand where a: "a = c\<lparr>ca_slots := slots, ca_hand := hand\<rparr>" "same_slots (ca_slots c) slots" using a by blast
  have h: "h < ca_capacity a" "h < ca_capacity c" using sel(2) a(1) by (auto simp: free_slot_def)
  note D = cache_invD [OF sel(3)]
  obtain v b where ev: "evict_slot a h = Inr (v, b)" "ca_slots b = ca_slots a" "same_config a b" "ca_hand b = ca_hand a"
    "ca_lookup b = (case ca_slots a ! h of None \<Rightarrow> ca_lookup a | Some e \<Rightarrow> AList.delete (se_key e) (ca_lookup a))"
    "ca_evictions b = ca_evictions a + (if ca_slots a ! h = None then 0 else 1)"
    "ca_misses b = ca_misses a" "ca_hits b = ca_hits a" "ca_layer_hits b = ca_layer_hits a"
    "ca_layer_misses b = ca_layer_misses a" "queues_ok b"
    by (rule evict_slot_spec [OF sel(3) h(1)])
  obtain m where m: "list_incr (ca_layer_misses b) (key div EXPERTS) = Inr m" "length m = 48"
    using layer_incr_returns [OF k, of "ca_layer_misses b"] D(4) ev by auto
  define f where "f = \<lparr>se_key = key, se_referenced = True, se_pins = 0\<rparr>"
  define d where "d = b\<lparr>ca_slots := (ca_slots b)[h := Some f], ca_lookup := aput (ca_lookup b) key h,
      ca_probation := (if ca_policy b = ReplaySlru then od_store key (ca_probation b) else ca_probation b),
      ca_misses := ca_misses b + 1, ca_layer_misses := m\<rparr>"
  have run: "acquire_miss c key = Inr ((False, h, v), d)"
    using sel(1) ev(1) m(1) by (simp add: acquire_miss_def d_def f_def)
  have fk: "se_key f = key" "se_pins f = 0" by (simp_all add: f_def)
  have new: "map_of (ca_lookup a) key = None" using look a(1) by simp
  have "lookup_ok (b\<lparr>ca_slots := (ca_slots a)[h := Some f],
      ca_lookup := aput (ca_lookup (b\<lparr>ca_slots := (ca_slots a)[h := Some f]\<rparr>)) key h\<rparr>)"
    by (rule lookup_ok_store [OF D(6,1) h(1) new]) (use ev fk in \<open>simp_all add: same_config_def\<close>)
  then have ok: "lookup_ok d" using ev(2) by (simp add: d_def lookup_ok_def)
  have "map_of (ca_lookup b) key = None"
    using new ev(5) by (cases "ca_slots a ! h") (simp_all add: delete_conv')
  then have nk: "key \<notin> fst ` set (ca_lookup b)" by (simp add: map_of_eq_None_iff)
  have kd: "fst ` set (ca_lookup d) = insert key (fst ` set (ca_lookup b))"
    by (simp add: d_def aput_def dom_update)
  have "queues_ok d" using ev(11) nk kd
    by (cases "ca_policy b") (auto simp: queues_ok_def d_def od_store_def)
  moreover have "length (ca_slots d) = ca_capacity d" "ca_hand d < ca_capacity d" "length (ca_layer_hits d) = 48"
    "length (ca_layer_misses d) = 48" "\<And>e. Some e \<in> set (ca_slots d) \<Longrightarrow> 0 \<le> se_pins e"
    using D(1-5) ev m(2) by (auto simp: d_def same_config_def fk dest: set_update_subset_insert [THEN subsetD])
  ultimately have "cache_inv d" using ok by (auto simp: cache_inv_def)
  moreover have "replaced_slot c key h d"
  proof -
    have sh: "same_slot (ca_slots c ! j) (ca_slots a ! j)" if "j < ca_capacity c" for j
      using a that cache_invD(1) [OF inv] by (simp add: same_slots_def)
    have "map_option se_key (ca_slots a ! h) = map_option se_key (ca_slots c ! h)"
      using sh [OF h(2)] by (simp add: same_slot_def)
    then have "map_of (ca_lookup b) = (case ca_slots c ! h of None \<Rightarrow> map_of (ca_lookup c)
        | Some e \<Rightarrow> (map_of (ca_lookup c))(se_key e := None))" "(ca_slots a ! h = None) = (ca_slots c ! h = None)"
      using ev(5) a(1) by (cases "ca_slots a ! h"; cases "ca_slots c ! h"; simp add: delete_conv')+
    moreover have "h < length (ca_slots a)" using h(1) D(1) by simp
    ultimately show ?thesis using h(2) sh ev a(1) list_incr_sum [OF m(1)]
      by (auto simp: replaced_slot_def d_def fk same_config_def entry_pins_def)
  qed
  ultimately show thesis using that run sel(2) by blast
qed

section \<open>Acquisition fails exactly when every slot is leased\<close>

lemma lease_sweep_total:
  "hand < capacity \<Longrightarrow> length slots = capacity \<Longrightarrow>
   \<exists>r slots' hand'. lease_sweep policy capacity steps slots hand = Inr (r, slots', hand') \<and>
     (\<forall>h. r = Some h \<longrightarrow> h < capacity \<and> avail policy (slots ! h))"
proof (induction steps arbitrary: slots hand)
  case (Suc steps)
  have hand: "(hand + 1) mod capacity < capacity" using Suc.prems(1) by simp
  show ?case
  proof (cases "slots ! hand")
    case None
    then show ?thesis using Suc.prems by (simp add: avail_def)
  next
    case (Some e)
    show ?thesis
    proof (cases "policy = ReplaySlru \<or> se_pins e \<noteq> 0")
      case True
      then show ?thesis using Suc.IH [OF hand Suc.prems(2)] Some Suc.prems by simp
    next
      case False
      then have av: "avail policy (slots ! hand)" using Some by (cases policy) (auto simp: avail_def)
      let ?slots = "slots[hand := Some (e\<lparr>se_referenced := False\<rparr>)]"
      have "avail policy (?slots ! h) = avail policy (slots ! h)" for h
        using Some Suc.prems(1,2) by (cases "h = hand") (auto simp: avail_def)
      then show ?thesis using Suc.IH [OF hand, of ?slots] Suc.prems False Some av by auto
    qed
  qed
qed simp

lemma avail_free: "avail policy (ca_slots c ! h) \<Longrightarrow> h < ca_capacity c \<Longrightarrow> free_slot c h"
  by (auto simp: avail_def free_slot_def entry_pins_def split: option.splits)

lemma acquire_miss_exhausted:
  assumes inv: "cache_inv c" and none: "\<nexists>i. free_slot c i"
  shows "acquire_miss c key = Inl (ValueError ''Replay cache exhausted by leases'')"
proof -
  note D = cache_invD [OF inv]
  have "\<exists>a. select_slot c = Inr (None, a)"
  proof (cases "ca_policy c = ReplaySlru \<and> length (ca_lookup c) = ca_capacity c")
    case True
    have "\<forall>k\<in>set (ca_probation c @ ca_protected c). map_of (ca_lookup c) k \<noteq> None"
      using queue_keys [OF inv] True by blast
    then have "first_unpinned c (ca_probation c @ ca_protected c) = Inr None"
      using first_unpinned_spec [OF inv] none by blast
    then show ?thesis using True by (simp add: select_slot_def)
  next
    case False
    obtain r slots hand where r: "lease_sweep (ca_policy c) (ca_capacity c) (2 * ca_capacity c + 1) (ca_slots c) (ca_hand c) = Inr (r, slots, hand)"
      "\<forall>h. r = Some h \<longrightarrow> h < ca_capacity c \<and> avail (ca_policy c) (ca_slots c ! h)"
      using lease_sweep_total [OF D(2,1)] by blast
    then have "r = None" using none avail_free by (cases r) auto
    then show ?thesis using r(1) False by (auto simp: select_slot_def)
  qed
  then show ?thesis by (auto simp: acquire_miss_def)
qed

section \<open>Leases\<close>

lemma lease_spec:
  assumes inv: "cache_inv c" and look: "map_of (ca_lookup c) key = Some slot"
    and e: "ca_slots c ! slot = Some e" "slot < ca_capacity c"
    and n: "0 \<le> se_pins e + (if release then - 1 else 1)"
  obtains d where "lease c key release = Inr (se_pins e + (if release then - 1 else 1), d)" "cache_inv d"
    "same_config c d" "ca_lookup d = ca_lookup c"
    "ca_slots d = (ca_slots c)[slot := Some (e\<lparr>se_pins := se_pins e + (if release then - 1 else 1)\<rparr>)]"
    "ca_hits d = ca_hits c" "ca_misses d = ca_misses c" "ca_evictions d = ca_evictions c"
    "ca_layer_hits d = ca_layer_hits c" "ca_layer_misses d = ca_layer_misses c"
proof -
  note D = cache_invD [OF inv]
  let ?p = "se_pins e + (if release then - 1 else 1)"
  let ?d = "c\<lparr>ca_slots := (ca_slots c)[slot := Some (e\<lparr>se_pins := ?p\<rparr>)]\<rparr>"
  have "(\<exists>f. (ca_slots c)[slot := Some (e\<lparr>se_pins := ?p\<rparr>)] ! i = Some f \<and> se_key f = k) =
      (\<exists>f. ca_slots c ! i = Some f \<and> se_key f = k)" if "i < ca_capacity c" for i k
    using that e D(1) by (cases "i = slot") auto
  then have "lookup_ok ?d" using D(6) by (simp add: lookup_ok_def cong: conj_cong)
  moreover have "queues_ok ?d" using D(7) by (simp add: queues_ok_def split: replay_policy.splits)
  moreover have "0 \<le> se_pins f" if "Some f \<in> set (ca_slots ?d)" for f
    using that n D(5) by (auto dest!: set_update_subset_insert [THEN subsetD])
  ultimately have "cache_inv ?d" using D(1-4) by (auto simp: cache_inv_def)
  moreover have "lease c key release = Inr (?p, ?d)"
    using look e n D(1) by (simp add: lease_def entry_at_def req_def Let_def)
  ultimately show thesis using that [of ?d] by (simp add: same_config_def)
qed

lemma lease_returns:
  assumes inv: "cache_inv c" and r: "lease c key release = Inr (n, d)"
  obtains slot e where "map_of (ca_lookup c) key = Some slot" "ca_slots c ! slot = Some e" "slot < ca_capacity c"
    "0 \<le> se_pins e + (if release then - 1 else 1)"
proof -
  obtain slot where look: "map_of (ca_lookup c) key = Some slot" using r by (auto simp: lease_def split: option.splits)
  obtain e where e: "entry_at (ca_slots c) slot = Inr e" "slot < ca_capacity c" "ca_slots c ! slot = Some e"
    using lookup_entry [OF inv look] by metis
  have "0 \<le> se_pins e + (if release then - 1 else 1)"
    using r look e(1) by (auto simp: lease_def Let_def req_def split: if_splits)
  then show thesis using that look e by blast
qed

section \<open>Reachable caches\<close>

inductive reachable :: "nat \<Rightarrow> replay_policy \<Rightarrow> cache \<Rightarrow> bool" for n policy where
  start: "0 < n \<Longrightarrow> reachable n policy (cache_fresh n policy)"
| acquired: "reachable n policy c \<Longrightarrow> acquire c v kind = Inr (r, d) \<Longrightarrow> reachable n policy d"
| leased: "reachable n policy c \<Longrightarrow> lease c key release = Inr (m, d) \<Longrightarrow> reachable n policy d"

definition used :: "cache \<Rightarrow> nat" where
  "used c = card {i. i < ca_capacity c \<and> ca_slots c ! i \<noteq> None}"

definition accounted :: "cache \<Rightarrow> bool" where
  "accounted c \<longleftrightarrow> sum_list (ca_layer_hits c) = ca_hits c \<and> sum_list (ca_layer_misses c) = ca_misses c \<and>
     ca_misses c = ca_evictions c + int (used c)"

lemma used_same: "same_config c d \<Longrightarrow> \<forall>i<ca_capacity c. (ca_slots d ! i = None) = (ca_slots c ! i = None) \<Longrightarrow> used d = used c"
  unfolding used_def same_config_def by (rule arg_cong [where f = card]) auto

lemma used_replaced:
  assumes "replaced_slot c key slot d"
  shows "used d = (if ca_slots c ! slot = None then Suc (used c) else used c)"
proof -
  let ?A = "{i. i < ca_capacity c \<and> ca_slots c ! i \<noteq> None}" and ?B = "{i. i < ca_capacity d \<and> ca_slots d ! i \<noteq> None}"
  have slot: "slot < ca_capacity c" "ca_slots d ! slot \<noteq> None" "ca_capacity d = ca_capacity c"
    using assms by (auto simp: replaced_slot_def same_config_def)
  have "(ca_slots d ! i \<noteq> None) = (ca_slots c ! i \<noteq> None)" if "i < ca_capacity c" "i \<noteq> slot" for i
  proof -
    have "same_slot (ca_slots c ! i) (ca_slots d ! i)" using assms that by (simp add: replaced_slot_def)
    then show ?thesis by (cases "ca_slots c ! i"; cases "ca_slots d ! i") (simp_all add: same_slot_def)
  qed
  then have "i \<in> ?B \<longleftrightarrow> i \<in> insert slot ?A" for i using slot by (cases "i = slot") (simp_all cong: conj_cong)
  then have "?B = insert slot ?A" by blast
  moreover have "finite ?A" by simp
  ultimately show ?thesis using slot by (auto simp: used_def card_insert_if)
qed

lemma acquire_key_cases:
  assumes inv: "cache_inv c" and k: "key_ok key" and r: "acquire_key c key kind = Inr (res, d)"
  shows "cache_inv d \<and> same_config c d \<and> (accounted c \<longrightarrow> accounted d)"
proof (cases "map_of (ca_lookup c) key")
  case (Some slot)
  obtain d' where d': "acquire_hit c key slot kind = Inr ((True, slot, - 1), d')" "cache_inv d'"
    "same_config c d'" "ca_lookup d' = ca_lookup c" "same_slots (ca_slots c) (ca_slots d')"
    "ca_hits d' = ca_hits c + 1" "ca_misses d' = ca_misses c" "ca_evictions d' = ca_evictions c"
    "sum_list (ca_layer_hits d') = sum_list (ca_layer_hits c) + 1" "ca_layer_misses d' = ca_layer_misses c"
    by (rule acquire_hit_spec [OF inv k Some])
  have "used d' = used c"
    by (rule used_same [OF d'(3)]) (use d'(5) cache_invD(1) [OF inv] in \<open>auto simp: same_slots_def same_slot_def\<close>)
  then show ?thesis using d' r Some by (auto simp: acquire_key_def accounted_def)
next
  case None
  have "\<exists>i. free_slot c i"
  proof (rule ccontr)
    assume "\<nexists>i. free_slot c i"
    from acquire_miss_exhausted [OF inv this] r None show False by (simp add: acquire_key_def)
  qed
  then obtain i where i: "free_slot c i" by blast
  obtain slot v d' where d': "acquire_miss c key = Inr ((False, slot, v), d')" "cache_inv d'" "free_slot c slot"
    "replaced_slot c key slot d'" by (rule acquire_miss_spec [OF inv k None i])
  then have "d' = d" using r None by (simp add: acquire_key_def)
  then show ?thesis using d'(2,4) used_replaced [OF d'(4)] by (auto simp: replaced_slot_def accounted_def)
qed

lemma integer_key: "integer v 0 (LAYERS * EXPERTS - 1) msg = Inr k \<Longrightarrow> key_ok k"
  by (auto simp: integer_def req_def key_ok_def ok_simps split: pyval.splits if_splits)

lemma reachable_inv:
  "reachable n policy c \<Longrightarrow> cache_inv c \<and> ca_capacity c = n \<and> ca_policy c = policy \<and> accounted c"
proof (induction rule: reachable.induct)
  case start
  have "sum_list (replicate 48 (0::int)) = 0" by (simp add: sum_list_replicate)
  then show ?case using start cache_fresh_inv by (simp add: cache_fresh_def accounted_def used_def)
next
  case (acquired c v kind r d)
  then obtain k where "key_ok k" "acquire_key c k kind = Inr (r, d)" using integer_key by (auto simp: acquire_def ok_simps)
  then show ?case using acquire_key_cases acquired.IH by (metis same_config_def)
next
  case (leased c key release m d)
  obtain slot e where s: "map_of (ca_lookup c) key = Some slot" "ca_slots c ! slot = Some e" "slot < ca_capacity c"
    "0 \<le> se_pins e + (if release then - 1 else 1)" using lease_returns leased by blast
  obtain d' where d': "lease c key release = Inr (se_pins e + (if release then - 1 else 1), d')" "cache_inv d'"
    "same_config c d'" "ca_lookup d' = ca_lookup c"
    "ca_slots d' = (ca_slots c)[slot := Some (e\<lparr>se_pins := se_pins e + (if release then - 1 else 1)\<rparr>)]"
    "ca_hits d' = ca_hits c" "ca_misses d' = ca_misses c" "ca_evictions d' = ca_evictions c"
    "ca_layer_hits d' = ca_layer_hits c" "ca_layer_misses d' = ca_layer_misses c"
    using lease_spec [OF _ s] leased.IH by blast
  have "used d' = used c"
    by (rule used_same [OF d'(3)]) (use d'(5) s cache_invD(1) leased.IH in \<open>auto simp: nth_list_update\<close>)
  then show ?case using d' leased by (auto simp: accounted_def same_config_def)
qed

section \<open>Properties\<close>

text \<open>
  C6: In every state that acquisitions and leases can reach from a new cache the index, the slots and
  the queues agree, the per-layer counters add up to the totals, and every miss is accounted for by
  an eviction or an occupied slot, so at most as many records are resident as there are slots.
\<close>
theorem replay_cache_accounts:
  assumes "reachable n policy c"
  shows "cache_inv c \<and> sum_list (ca_layer_hits c) = ca_hits c \<and>
    sum_list (ca_layer_misses c) = ca_misses c \<and>
    ca_misses c = ca_evictions c + int (length (ca_lookup c)) \<and> length (ca_lookup c) \<le> n"
proof -
  have r: "cache_inv c" "ca_capacity c = n" "accounted c" using reachable_inv [OF assms] by simp_all
  have u: "length (ca_lookup c) = used c" using lookup_length [OF r(1)] by (simp add: used_def)
  have "used c \<le> card {..<ca_capacity c}" unfolding used_def by (rule card_mono) auto
  then show ?thesis using r u by (simp add: accounted_def)
qed

lemma replay_cache_accounts_witness:
  "\<exists>c d. reachable 1 ReplayClock c \<and> ca_evictions c = 1 \<and> ca_misses c = 2 \<and> length (ca_lookup c) \<le> 1"
proof -
  have s0: "reachable 1 ReplayClock (cache_fresh 1 ReplayClock)" by (rule reachable.start) simp
  obtain r c where c: "acquire (cache_fresh 1 ReplayClock) (PInt 7) None = Inr (r, c)" "ca_misses c = 1"
      "\<exists>r d. acquire c (PInt 9) None = Inr (r, d) \<and> ca_misses d = 2 \<and> ca_evictions d = 1" 
    by (auto simp: acquire_def integer_def LAYERS_def EXPERTS_def cache_fresh_def acquire_key_def acquire_miss_def
        select_slot_def evict_slot_def list_incr_def len_def place_def numeral_2_eq_2 aput_def)
  then obtain r' d where d: "acquire c (PInt 9) None = Inr (r', d)" "ca_misses d = 2" "ca_evictions d = 1" by blast
  have "reachable 1 ReplayClock d"
    by (rule reachable.acquired [OF reachable.acquired [OF s0 c(1)] d(1)])
  from replay_cache_accounts [OF this] this d show ?thesis by blast
qed

text \<open>
  C5: Acquiring a record of a reachable cache succeeds exactly when the record is resident or some slot
  is free of leases, and otherwise raises the exhaustion error. A hit changes no slot but its
  reference bit; a miss takes a slot without leases and leaves the record and the leases of every
  other slot as they are.
\<close>
theorem acquire_respects_leases:
  assumes "reachable n policy c" and "key_ok key"
  shows "case acquire c (PInt key) kind of
      Inl e \<Rightarrow> e = ValueError ''Replay cache exhausted by leases'' \<and> map_of (ca_lookup c) key = None \<and>
               (\<forall>i<n. 0 < entry_pins (ca_slots c ! i))
    | Inr ((hit, slot, victim), d) \<Rightarrow>
        (if hit then map_of (ca_lookup c) key = Some slot \<and> same_slots (ca_slots c) (ca_slots d)
         else map_of (ca_lookup c) key = None \<and> free_slot c slot \<and> replaced_slot c key slot d)"
proof -
  have r: "cache_inv c" "ca_capacity c = n" using reachable_inv [OF assms(1)] by simp_all
  have a: "acquire c (PInt key) kind = acquire_key c key kind"
    using assms(2) by (simp add: acquire_def integer_def key_ok_def)
  show ?thesis
  proof (cases "map_of (ca_lookup c) key")
    case (Some slot)
    obtain d where "acquire_hit c key slot kind = Inr ((True, slot, - 1), d)" "same_slots (ca_slots c) (ca_slots d)"
      by (rule acquire_hit_spec [OF r(1) assms(2) Some]) blast
    then show ?thesis using a Some by (simp add: acquire_key_def)
  next
    case None
    show ?thesis
    proof (cases "\<exists>i. free_slot c i")
      case True
      then obtain i where "free_slot c i" by blast
      then obtain slot v d where "acquire_miss c key = Inr ((False, slot, v), d)" "free_slot c slot" "replaced_slot c key slot d"
        by (rule acquire_miss_spec [OF r(1) assms(2) None]) blast
      then show ?thesis using a None by (simp add: acquire_key_def)
    next
      case False
      have "0 < entry_pins (ca_slots c ! i)" if "i < n" for i
      proof -
        have "entry_pins (ca_slots c ! i) \<noteq> 0" using False that r(2) by (simp add: free_slot_def)
        moreover have "0 \<le> entry_pins (ca_slots c ! i)"
          using cache_invD(1,5) [OF r(1)] that r(2) nth_mem [of i "ca_slots c"]
          by (cases "ca_slots c ! i") (auto simp: entry_pins_def)
        ultimately show ?thesis by simp
      qed
      then show ?thesis using a None acquire_miss_exhausted [OF r(1) False] by (simp add: acquire_key_def)
    qed
  qed
qed

lemma acquire_respects_leases_witness:
  "\<exists>c. reachable 1 ReplayClock c \<and> key_ok 9 \<and>
     acquire c (PInt 9) None = Inl (ValueError ''Replay cache exhausted by leases'')"
proof -
  have s0: "reachable 1 ReplayClock (cache_fresh 1 ReplayClock)" by (rule reachable.start) simp
  obtain r c d where c: "acquire (cache_fresh 1 ReplayClock) (PInt 7) None = Inr (r, c)" "\<exists>m. lease c 7 False = Inr (m, d)"
      "acquire d (PInt 9) None = Inl (ValueError ''Replay cache exhausted by leases'')"
    by (auto simp: acquire_def integer_def LAYERS_def EXPERTS_def cache_fresh_def acquire_key_def acquire_miss_def
        select_slot_def evict_slot_def list_incr_def len_def place_def numeral_2_eq_2 aput_def lease_def entry_at_def)
  then obtain m where m: "lease c 7 False = Inr (m, d)" by blast
  have r: "reachable 1 ReplayClock d" by (rule reachable.leased [OF reachable.acquired [OF s0 c(1)] m])
  have k: "key_ok 9" by (simp add: key_ok_def LAYERS_def EXPERTS_def)
  from acquire_respects_leases [OF r k, of None] r k c(3) show ?thesis by (intro exI [of _ d]) simp
qed

end
