(* ===== verification/ReplayPolicies.thy ===== *)
theory ReplayPolicies
  imports ReplayRuns
begin

text \<open>
  The lease-aware cache of \<open>block_cache_replay.py\<close> against the policy simulator of
  \<open>cache_simulation.py\<close>: as long as no record is leased, the bounded CLOCK sweep of \<open>Cache.acquire\<close>
  and \<open>Clock.access\<close> take the same decisions.
\<close>

section \<open>The two states\<close>

definition unleased :: "cache \<Rightarrow> bool" where
  "unleased c \<longleftrightarrow> (\<forall>i<ca_capacity c. entry_pins (ca_slots c ! i) = 0)"

definition reference_bit :: "slot_entry option \<Rightarrow> bool" where
  "reference_bit s = (case s of None \<Rightarrow> False | Some e \<Rightarrow> se_referenced e)"

definition clock_like :: "cache \<Rightarrow> clock \<Rightarrow> bool" where
  "clock_like c k \<longleftrightarrow> cache_inv c \<and> unleased c \<and> ca_policy c = ReplayClock \<and> cl_capacity k = ca_capacity c \<and>
     cl_slots k = map (map_option se_key) (ca_slots c) \<and> cl_referenced k = map reference_bit (ca_slots c) \<and>
     cl_lookup k = map_of (ca_lookup c) \<and> cl_hand k = ca_hand c"

lemma same_slots_keys: "same_slots xs ys \<Longrightarrow> map (map_option se_key) ys = map (map_option se_key) xs"
  by (intro nth_equalityI) (auto simp: same_slots_def same_slot_def)

lemma same_slots_unleased:
  "same_slots (ca_slots c) (ca_slots d) \<Longrightarrow> length (ca_slots c) = ca_capacity c \<Longrightarrow> same_config c d \<Longrightarrow> unleased c \<Longrightarrow> unleased d"
  by (auto simp: unleased_def same_config_def same_slots_pins)

lemma lease_sweep_is_clock_sweep:
  "hand < capacity \<Longrightarrow> length slots = capacity \<Longrightarrow> \<forall>i<capacity. entry_pins (slots ! i) = 0 \<Longrightarrow>
   lease_sweep ReplayClock capacity steps slots hand = Inr (Some h, slots', hand') \<Longrightarrow>
   clock_sweep capacity (map reference_bit slots) hand = Inr (map reference_bit slots', h) \<and> hand' = (h + 1) mod capacity"
proof (induction steps arbitrary: slots hand)
  case (Suc steps)
  have hand: "(hand + 1) mod capacity < capacity" using Suc.prems(1) by simp
  show ?case
  proof (cases "slots ! hand")
    case None
    then show ?thesis using Suc.prems by (auto simp: reference_bit_def clock_sweep.simps)
  next
    case (Some e)
    have p: "se_pins e = 0" using Suc.prems(1,3) Some by (auto simp: entry_pins_def)
    show ?thesis
    proof (cases "se_referenced e")
      case False
      then show ?thesis using Suc.prems Some p by (auto simp: reference_bit_def clock_sweep.simps)
    next
      case True
      let ?slots = "slots[hand := Some (e\<lparr>se_referenced := False\<rparr>)]"
      have "\<forall>i<capacity. entry_pins (?slots ! i) = 0" 
      proof (intro allI impI)
        fix i assume "i < capacity"
        then show "entry_pins (?slots ! i) = 0"
          using Suc.prems(2,3) p by (cases "i = hand") (simp_all add: entry_pins_def)
      qed
      moreover have "lease_sweep ReplayClock capacity steps ?slots ((hand + 1) mod capacity) = Inr (Some h, slots', hand')"
        using Suc.prems(1,2,4) Some p True by simp
      ultimately have "clock_sweep capacity (map reference_bit ?slots) ((hand + 1) mod capacity) = Inr (map reference_bit slots', h)"
        "hand' = (h + 1) mod capacity" using Suc.IH [OF hand, of ?slots] Suc.prems(2) by simp_all
      moreover have "map reference_bit ?slots = (map reference_bit slots)[hand := False]"
        by (simp add: map_update reference_bit_def)
      moreover have "reference_bit (slots ! hand)" using Some True by (simp add: reference_bit_def)
      ultimately show ?thesis using Suc.prems(1,2) by (subst clock_sweep.simps) simp
    qed
  qed
qed simp

lemma acquire_follows_clock:
  assumes rel: "clock_like c k" and key: "key_ok key"
  shows "\<exists>hit slot v d k'. acquire_key c key kind = Inr ((hit, slot, v), d) \<and>
    clock_access k key position = Inr (hit, k') \<and> clock_like d k'"
proof -
  have inv: "cache_inv c" and un: "unleased c" and pol: "ca_policy c = ReplayClock"
    using rel by (simp_all add: clock_like_def)
  note D = cache_invD [OF inv]
  show ?thesis
  proof (cases "map_of (ca_lookup c) key")
    case (Some slot)
    obtain e where e: "entry_at (ca_slots c) slot = Inr e" "slot < ca_capacity c" "ca_slots c ! slot = Some e"
      using lookup_entry [OF inv Some] by metis
    obtain d where d: "acquire_hit c key slot kind = Inr ((True, slot, - 1), d)" "cache_inv d"
      "same_config c d" "ca_lookup d = ca_lookup c" "same_slots (ca_slots c) (ca_slots d)"
      by (rule acquire_hit_spec [OF inv key Some]) blast
    have sl: "ca_slots d = (ca_slots c)[slot := Some (e\<lparr>se_referenced := True\<rparr>)]" "ca_hand d = ca_hand c"
      using d(1) e(1) by (auto simp: acquire_hit_def ok_simps)
    have "clock_access k key position = Inr (True, k\<lparr>cl_referenced := (cl_referenced k)[slot := True]\<rparr>)"
      using rel Some e(2) D(1) by (simp add: clock_access_def clock_like_def)
    moreover have "clock_like d (k\<lparr>cl_referenced := (cl_referenced k)[slot := True]\<rparr>)"
      using rel d same_slots_keys [OF d(5)] same_slots_unleased [OF d(5) D(1) d(3) un] sl
      by (simp add: clock_like_def same_config_def map_update reference_bit_def)
    ultimately show ?thesis using d(1) Some by (auto simp: acquire_key_def)
  next
    case None
    have free: "free_slot c (ca_hand c)" using un D(2) by (simp add: free_slot_def unleased_def)
    obtain h a where sel: "select_slot c = Inr (Some h, a)" "free_slot c h" "cache_inv a"
      and a: "\<exists>slots hand. a = c\<lparr>ca_slots := slots, ca_hand := hand\<rparr> \<and> same_slots (ca_slots c) slots"
      using select_slot_free [OF inv free] by blast
    obtain slots hand where a: "a = c\<lparr>ca_slots := slots, ca_hand := hand\<rparr>" "same_slots (ca_slots c) slots" using a by blast
    have h: "h < ca_capacity c" using sel(2) by (simp add: free_slot_def)
    obtain r s2 hand2 where sw: "lease_sweep ReplayClock (ca_capacity c) (2 * ca_capacity c + 1) (ca_slots c) (ca_hand c) = Inr (r, s2, hand2)"
      using lease_sweep_total [OF D(2,1)] by blast
    then have "r = Some h" "s2 = slots" "hand2 = hand"
      using sel(1) pol a(1) by (cases c, auto simp: select_slot_def ok_simps simp del: lease_sweep.simps)+
    then have eq: "lease_sweep ReplayClock (ca_capacity c) (2 * ca_capacity c + 1) (ca_slots c) (ca_hand c) = Inr (Some h, slots, hand)"
      using sw by simp
    have sweep: "clock_sweep (ca_capacity c) (map reference_bit (ca_slots c)) (ca_hand c) = Inr (map reference_bit slots, h)"
      "hand = (h + 1) mod ca_capacity c"
      using lease_sweep_is_clock_sweep [OF D(2,1) un [unfolded unleased_def] eq] by simp_all
    obtain slot v d where d: "acquire_miss c key = Inr ((False, slot, v), d)" "cache_inv d" "replaced_slot c key slot d"
      by (rule acquire_miss_spec [OF inv key None free]) blast
    have keys: "map (map_option se_key) slots = map (map_option se_key) (ca_slots c)" by (rule same_slots_keys [OF a(2)])
    have ls: "length slots = ca_capacity c" using a(2) D(1) by (simp add: same_slots_def)
    have d': "slot = h" "ca_slots d = slots[h := Some \<lparr>se_key = key, se_referenced = True, se_pins = 0\<rparr>]" "ca_hand d = hand"
      "ca_policy d = ReplayClock" 
      using d(1) sel(1) a(1) pol by (auto simp: acquire_miss_def evict_slot_def ok_simps split: option.splits if_splits prod.splits)
    let ?k = "k\<lparr>cl_slots := (cl_slots k)[h := Some key],
        cl_lookup := (case ca_slots c ! h of None \<Rightarrow> cl_lookup k | Some e \<Rightarrow> (cl_lookup k)(se_key e := None))(key \<mapsto> h),
        cl_referenced := (map reference_bit slots)[h := True], cl_hand := hand\<rparr>"
    have "clock_access k key position = Inr (False, ?k)"
    proof (cases "ca_slots c ! h")
      case None': None
      then show ?thesis using rel None sweep h D(1,2) by (simp add: clock_access_def clock_like_def)
    next
      case (Some e)
      have "map_of (ca_lookup c) (se_key e) = Some h"
        by (rule iffD2 [OF lookup_okD(2) [OF D(6)]]) (use Some h in auto)
      then show ?thesis using rel None sweep h D(1,2) Some by (auto simp: clock_access_def clock_like_def)
    qed
    moreover have "clock_like d ?k"
    proof -
      have "unleased d"
        using d(3) un d'(1) same_slot_pins by (auto simp: unleased_def replaced_slot_def same_config_def)
      then show ?thesis using rel d(2,3) d' keys ls h
        by (cases "ca_slots c ! h") (auto simp: clock_like_def replaced_slot_def same_config_def map_update reference_bit_def)
    qed
    ultimately show ?thesis using d(1) None by (auto simp: acquire_key_def)
  qed
qed


section \<open>Runs of acquisitions\<close>

fun cache_hits :: "cache \<Rightarrow> int list \<Rightarrow> (bool list \<times> cache) result" where
  "cache_hits c [] = Inr ([], c)"
| "cache_hits c (key # keys) =
     bnd (acquire c (PInt key) None) (\<lambda>((hit, slot, victim), c).
     bnd (cache_hits c keys) (\<lambda>(hits, c). Inr (hit # hits, c)))"

fun clock_hits :: "clock \<Rightarrow> int list \<Rightarrow> (bool list \<times> clock) result" where
  "clock_hits k [] = Inr ([], k)"
| "clock_hits k (key # keys) =
     bnd (clock_access k key 0) (\<lambda>(hit, k). bnd (clock_hits k keys) (\<lambda>(hits, k). Inr (hit # hits, k)))"

lemma hits_follow_clock:
  "clock_like c k \<Longrightarrow> \<forall>key \<in> set keys. key_ok key \<Longrightarrow>
   \<exists>hits d k'. cache_hits c keys = Inr (hits, d) \<and> clock_hits k keys = Inr (hits, k') \<and> clock_like d k'"
proof (induction keys arbitrary: c k)
  case (Cons key keys)
  have key: "key_ok key" using Cons.prems(2) by simp
  obtain hit slot v d k' where s: "acquire_key c key None = Inr ((hit, slot, v), d)"
    "clock_access k key 0 = Inr (hit, k')" "clock_like d k'"
    using acquire_follows_clock [OF Cons.prems(1) key, of None 0] by blast
  have a: "acquire c (PInt key) None = Inr ((hit, slot, v), d)"
    using s(1) key by (simp add: acquire_def integer_def key_ok_def)
  obtain hits e k2 where "cache_hits d keys = Inr (hits, e)" "clock_hits k' keys = Inr (hits, k2)" "clock_like e k2"
    using Cons.IH [OF s(3)] Cons.prems(2) by auto
  then show ?case using a s(2) by simp
qed simp

text \<open>
  C13: Without leases the replay cache is the simulator's CLOCK: on every sequence of records both answer
  every acquisition, with the same hits and misses, and hold the same records afterwards.
\<close>
theorem replay_is_simulated_clock:
  assumes "0 < n" and "\<forall>key \<in> set keys. key_ok key"
  shows "\<exists>hits c k. cache_hits (cache_fresh n ReplayClock) keys = Inr (hits, c) \<and>
    clock_hits (clock_init n) keys = Inr (hits, k) \<and> dom (map_of (ca_lookup c)) = clock_resident k"
proof -
  have "clock_like (cache_fresh n ReplayClock) (clock_init n)"
    using cache_fresh_inv [OF assms(1)]
    by (simp add: clock_like_def unleased_def cache_fresh_def clock_init_def entry_pins_def reference_bit_def)
  from hits_follow_clock [OF this assms(2)] show ?thesis by (auto simp: clock_like_def clock_resident_def)
qed

lemma replay_is_simulated_clock_witness:
  "\<exists>c. cache_hits (cache_fresh 1 ReplayClock) [7, 7, 9, 7] = Inr ([False, True, False, False], c)"
proof -
  have k: "\<forall>key \<in> set [7, 7, 9, 7 :: int]. key_ok key" by (simp add: key_ok_def LAYERS_def EXPERTS_def)
  have "clock_hits (clock_init 1) [7, 7, 9, 7] = Inr ([False, True, False, False], k) \<Longrightarrow> ?thesis" for k
    using replay_is_simulated_clock [OF zero_less_one k] by auto
  moreover have "\<exists>k. clock_hits (clock_init 1) [7, 7, 9, 7] = Inr ([False, True, False, False], k)"
    by (simp add: clock_init_def clock_access_def clock_sweep.simps)
  ultimately show ?thesis by blast
qed

end
