(* ===== verification/PyExpr.thy ===== *)
theory PyExpr
  imports Py
begin

text \<open>
  Python expressions and statements over dynamically typed values, as the validators and the
  decision functions of the scripts use them. An expression is a \<open>pyval result\<close>: operators
  evaluate their operands from left to right and the first exception is the value of the whole
  expression. A local variable is a \<open>pyval\<close>; \<open>ret x\<close> is the expression that reads it. Statements
  are written in continuation style: an assignment is \<open>bnd e (\<lambda>x. rest)\<close>, \<open>require(c, m)\<close> is
  \<open>check c m rest\<close> and \<open>if c: raise ValueError(m)\<close> is \<open>reject c m rest\<close>. A list or dictionary that
  a function updates is rebound; the functions modelled this way never update an object
  that another name still reads.
\<close>

named_theorems ctrl_simps \<open>when a statement sequence returns\<close>
named_theorems holds_simps \<open>when a condition holds\<close>

type_synonym expr = "pyval result"

section \<open>Literals and variables\<close>

abbreviation ret :: "pyval \<Rightarrow> expr" where "ret v \<equiv> Inr v"
abbreviation none :: expr where "none \<equiv> Inr PNone"
abbreviation yes :: expr where "yes \<equiv> Inr (PBool True)"
abbreviation no :: expr where "no \<equiv> Inr (PBool False)"
abbreviation num :: "int \<Rightarrow> expr" where "num i \<equiv> Inr (PInt i)"
abbreviation str :: "string \<Rightarrow> expr" where "str s \<equiv> Inr (PStr s)"

text \<open>A float literal denotes the nearest double.\<close>

definition flt :: "rat \<Rightarrow> expr" where
  "flt q = Inr (PFloat (round_fl q))"

section \<open>Control\<close>

definition check :: "expr \<Rightarrow> string \<Rightarrow> 'a result \<Rightarrow> 'a result" where
  "check c message k = bnd c (\<lambda>v. if truthy v then k else Inl (ValueError message))"

definition reject :: "expr \<Rightarrow> string \<Rightarrow> 'a result \<Rightarrow> 'a result" where
  "reject c message k = bnd c (\<lambda>v. if truthy v then Inl (ValueError message) else k)"

definition branch :: "expr \<Rightarrow> 'a result \<Rightarrow> 'a result \<Rightarrow> 'a result" where
  "branch c a b = bnd c (\<lambda>v. if truthy v then a else b)"

definition loop :: "expr \<Rightarrow> 's \<Rightarrow> ('s \<Rightarrow> pyval \<Rightarrow> 's result) \<Rightarrow> 's result" where
  "loop xs s body = bnd xs (\<lambda>v. bnd (iter v) (\<lambda>l. foldm body s l))"

text \<open>
  A loop whose body may return from the function: the body gives \<open>Inl r\<close> for \<open>return r\<close> and
  \<open>Inr s\<close> to go on with the state \<open>s\<close>.
\<close>

fun fold_exit :: "('s \<Rightarrow> 'x \<Rightarrow> ('r + 's) result) \<Rightarrow> 's \<Rightarrow> 'x list \<Rightarrow> ('r + 's) result" where
  "fold_exit f s [] = Inr (Inr s)"
| "fold_exit f s (x # xs) =
     bnd (f s x) (\<lambda>r. case r of Inl v \<Rightarrow> Inr (Inl v) | Inr s' \<Rightarrow> fold_exit f s' xs)"

definition loop_exit ::
  "expr \<Rightarrow> 's \<Rightarrow> ('s \<Rightarrow> pyval \<Rightarrow> (pyval + 's) result) \<Rightarrow> (pyval \<Rightarrow> 'a result) \<Rightarrow> ('s \<Rightarrow> 'a result) \<Rightarrow> 'a result" where
  "loop_exit xs s body returned rest = bnd xs (\<lambda>v. bnd (iter v) (\<lambda>l.
     bnd (fold_exit body s l) (\<lambda>r. case r of Inl w \<Rightarrow> returned w | Inr s' \<Rightarrow> rest s')))"

text \<open>The body's \<open>return\<close>.\<close>

definition leave :: "expr \<Rightarrow> (pyval + 's) result" where
  "leave e = bnd e (\<lambda>r. Inr (Inl r))"

definition stay :: "'s \<Rightarrow> (pyval + 's) result" where
  "stay s = Inr (Inr s)"

text \<open>\<open>raise ValueError(message)\<close> and \<open>require(c, message)\<close> with a computed message.\<close>

definition fail :: "expr \<Rightarrow> 'a result" where
  "fail e = bnd e (\<lambda>m. Inl (ValueError (case m of PStr s \<Rightarrow> s | _ \<Rightarrow> [])))"

definition check_msg :: "expr \<Rightarrow> expr \<Rightarrow> 'a result \<Rightarrow> 'a result" where
  "check_msg c e k = bnd c (\<lambda>v. bnd e (\<lambda>m. if truthy v then k else fail (Inr m)))"

definition blocked :: "expr \<Rightarrow> 'a result" where
  "blocked e = bnd e (\<lambda>m. Inl (ResourceBlocked (case m of PStr s \<Rightarrow> s | _ \<Rightarrow> [])))"

definition assert_that :: "expr \<Rightarrow> 'a result \<Rightarrow> 'a result" where
  "assert_that c k = bnd c (\<lambda>v. if truthy v then k else Inl AssertionError)"

text \<open>\<open>try: body except (A, B): handler\<close>, with the classes an exception belongs to.\<close>

fun classes :: "py_error \<Rightarrow> string list" where
  "classes (ValueError _) = [''ValueError'']"
| "classes TypeError = [''TypeError'']"
| "classes (KeyError _) = [''KeyError'', ''LookupError'']"
| "classes IndexError = [''IndexError'', ''LookupError'']"
| "classes AttributeError = [''AttributeError'']"
| "classes ZeroDivisionError = [''ZeroDivisionError'', ''ArithmeticError'']"
| "classes OverflowError = [''OverflowError'', ''ArithmeticError'']"
| "classes AssertionError = [''AssertionError'']"
| "classes (OSError _) = [''OSError'']"
| "classes StopIteration = [''StopIteration'']"
| "classes (ResourceBlocked _) = [''ResourceBlocked'', ''ValueError'']"

definition attempt :: "string list \<Rightarrow> 'a result \<Rightarrow> (py_error \<Rightarrow> 'a result) \<Rightarrow> 'a result" where
  "attempt hs body handler = (case body of
     Inr v \<Rightarrow> Inr v
   | Inl e \<Rightarrow> if list_ex (\<lambda>h. h \<in> set (''Exception'' # classes e)) hs then handler e else Inl e)"

text \<open>A call evaluates its arguments first.\<close>

definition call1 :: "(pyval \<Rightarrow> 'a result) \<Rightarrow> expr \<Rightarrow> 'a result" where
  "call1 f a = bnd a f"

definition call2 :: "(pyval \<Rightarrow> pyval \<Rightarrow> 'a result) \<Rightarrow> expr \<Rightarrow> expr \<Rightarrow> 'a result" where
  "call2 f a b = bnd a (\<lambda>x. bnd b (f x))"

definition call3 :: "(pyval \<Rightarrow> pyval \<Rightarrow> pyval \<Rightarrow> 'a result) \<Rightarrow> expr \<Rightarrow> expr \<Rightarrow> expr \<Rightarrow> 'a result" where
  "call3 f a b c = bnd a (\<lambda>x. bnd b (\<lambda>y. bnd c (f x y)))"

definition call4 :: "(pyval \<Rightarrow> pyval \<Rightarrow> pyval \<Rightarrow> pyval \<Rightarrow> 'a result) \<Rightarrow> expr \<Rightarrow> expr \<Rightarrow> expr \<Rightarrow> expr \<Rightarrow> 'a result" where
  "call4 f a b c d = bnd a (\<lambda>x. bnd b (\<lambda>y. bnd c (\<lambda>z. bnd d (f x y z))))"

definition holds :: "expr \<Rightarrow> bool" where
  "holds c \<longleftrightarrow> (case c of Inl _ \<Rightarrow> False | Inr v \<Rightarrow> truthy v)"

section \<open>Conditions\<close>

definition eq :: "expr \<Rightarrow> expr \<Rightarrow> expr" where
  "eq a b = bnd a (\<lambda>x. bnd b (\<lambda>y. Inr (PBool (py_eq x y))))"

definition ne :: "expr \<Rightarrow> expr \<Rightarrow> expr" where
  "ne a b = bnd a (\<lambda>x. bnd b (\<lambda>y. Inr (PBool (\<not> py_eq x y))))"

definition lt :: "expr \<Rightarrow> expr \<Rightarrow> expr" where
  "lt a b = bnd a (\<lambda>x. bnd b (\<lambda>y. bnd (py_less x y) (\<lambda>r. Inr (PBool r))))"

definition le :: "expr \<Rightarrow> expr \<Rightarrow> expr" where
  "le a b = bnd a (\<lambda>x. bnd b (\<lambda>y. bnd (py_le x y) (\<lambda>r. Inr (PBool r))))"

definition gt :: "expr \<Rightarrow> expr \<Rightarrow> expr" where
  "gt a b = bnd a (\<lambda>x. bnd b (\<lambda>y. bnd (py_less y x) (\<lambda>r. Inr (PBool r))))"

definition ge :: "expr \<Rightarrow> expr \<Rightarrow> expr" where
  "ge a b = bnd a (\<lambda>x. bnd b (\<lambda>y. bnd (py_le y x) (\<lambda>r. Inr (PBool r))))"

text \<open>\<open>is\<close> with \<open>None\<close>, \<open>True\<close> or \<open>False\<close> on one side.\<close>

fun identical :: "pyval \<Rightarrow> pyval \<Rightarrow> bool" where
  "identical PNone w = (w = PNone)"
| "identical (PBool b) w = (w = PBool b)"
| "identical _ w = False"

definition same :: "expr \<Rightarrow> expr \<Rightarrow> expr" where
  "same a b = bnd a (\<lambda>x. bnd b (\<lambda>y. Inr (PBool (identical x y))))"

definition differs :: "expr \<Rightarrow> expr \<Rightarrow> expr" where
  "differs a b = bnd a (\<lambda>x. bnd b (\<lambda>y. Inr (PBool (\<not> identical x y))))"

text \<open>
  \<open>a and b and c\<close> and \<open>a or b\<close>: the value of the operand that decides, the others unevaluated. A
  chained comparison \<open>a < b < c\<close> is the conjunction of its links.
\<close>

fun conjs :: "expr list \<Rightarrow> expr" where
  "conjs [] = yes"
| "conjs [a] = a"
| "conjs (a # b # cs) = bnd a (\<lambda>v. if truthy v then conjs (b # cs) else Inr v)"

fun disjs :: "expr list \<Rightarrow> expr" where
  "disjs [] = no"
| "disjs [a] = a"
| "disjs (a # b # cs) = bnd a (\<lambda>v. if truthy v then Inr v else disjs (b # cs))"

definition nay :: "expr \<Rightarrow> expr" where
  "nay a = bnd a (\<lambda>v. Inr (PBool (\<not> truthy v)))"

definition bool_of :: "expr \<Rightarrow> expr" where
  "bool_of a = bnd a (\<lambda>v. Inr (PBool (truthy v)))"

definition every :: "expr \<Rightarrow> (pyval \<Rightarrow> expr) \<Rightarrow> expr" where
  "every xs p = bnd xs (\<lambda>v. bnd (iter v) (\<lambda>l.
     bnd (allm (\<lambda>x. bnd (p x) (\<lambda>r. Inr (truthy r))) l) (\<lambda>r. Inr (PBool r))))"

definition some :: "expr \<Rightarrow> (pyval \<Rightarrow> expr) \<Rightarrow> expr" where
  "some xs p = bnd xs (\<lambda>v. bnd (iter v) (\<lambda>l.
     bnd (anym (\<lambda>x. bnd (p x) (\<lambda>r. Inr (truthy r))) l) (\<lambda>r. Inr (PBool r))))"

text \<open>Types: \<open>type(v) is int\<close>, \<open>type(v) in (int, float)\<close>, \<open>isinstance(v, dict)\<close>.\<close>

datatype pytype = TNone | TBool | TInt | TFloat | TStr | TList | TDict | TTuple | TSet

fun type_of :: "pyval \<Rightarrow> pytype" where
  "type_of PNone = TNone"
| "type_of (PBool _) = TBool"
| "type_of (PInt _) = TInt"
| "type_of (PFloat _) = TFloat"
| "type_of (PStr _) = TStr"
| "type_of (PList _) = TList"
| "type_of (PDict _) = TDict"
| "type_of (PTuple _) = TTuple"
| "type_of (PSet _) = TSet"
| "type_of (PMap _) = TDict"

definition type_in :: "expr \<Rightarrow> pytype list \<Rightarrow> expr" where
  "type_in a ts = bnd a (\<lambda>x. Inr (PBool (type_of x \<in> set ts)))"

definition isinstance :: "expr \<Rightarrow> pytype list \<Rightarrow> expr" where
  "isinstance a ts = bnd a (\<lambda>x. Inr (PBool (type_of x \<in> set ts \<or> type_of x = TBool \<and> TInt \<in> set ts)))"

section \<open>Containers\<close>

text \<open>Booleans are the integers 0 and 1.\<close>

fun as_int :: "pyval \<Rightarrow> int option" where
  "as_int (PInt i) = Some i"
| "as_int (PBool b) = Some (if b then 1 else 0)"
| "as_int _ = None"

text \<open>The entries of a dictionary, and the dictionary with given entries (later ones win).\<close>

fun entries :: "pyval \<Rightarrow> (pyval \<times> pyval) list option" where
  "entries (PDict d) = Some (map (map_prod PStr id) d)"
| "entries (PMap m) = Some m"
| "entries _ = None"

fun str_of :: "pyval \<Rightarrow> string option" where
  "str_of (PStr s) = Some s"
| "str_of _ = None"

definition of_entries :: "(pyval \<times> pyval) list \<Rightarrow> pyval" where
  "of_entries m =
     (if list_all (\<lambda>p. str_of (fst p) \<noteq> None) m
      then PDict (map (\<lambda>p. (the (str_of (fst p)), snd p)) m) else PMap m)"

fun put_entry :: "(pyval \<times> pyval) list \<Rightarrow> pyval \<Rightarrow> pyval \<Rightarrow> (pyval \<times> pyval) list" where
  "put_entry [] k v = [(k, v)]"
| "put_entry ((j, w) # m) k v = (if py_eq j k then (j, v) # m else (j, w) # put_entry m k v)"

fun find_entry :: "(pyval \<times> pyval) list \<Rightarrow> pyval \<Rightarrow> pyval option" where
  "find_entry [] k = None"
| "find_entry ((j, w) # m) k = (if py_eq j k then Some w else find_entry m k)"

text \<open>\<open>d[k] = v\<close>.\<close>

definition dict_put :: "pyval \<Rightarrow> pyval \<Rightarrow> pyval \<Rightarrow> pyval result" where
  "dict_put d k v =
     (case entries d of None \<Rightarrow> Inl TypeError
      | Some m \<Rightarrow> if \<not> hashable k then Inl TypeError
          else (case (d, k) of (PDict e, PStr s) \<Rightarrow> Inr (PDict (aput e s v))
                | _ \<Rightarrow> Inr (of_entries (put_entry m k v))))"

text \<open>\<open>v[k]\<close>: a key of a dictionary, or a position counted from either end.\<close>

definition find_key :: "(pyval \<times> pyval) list \<Rightarrow> pyval \<Rightarrow> pyval result" where
  "find_key m k =
     (if \<not> hashable k then Inl TypeError
      else case find_entry m k of None \<Rightarrow> Inl (KeyError []) | Some v \<Rightarrow> Inr v)"

definition subscript :: "pyval \<Rightarrow> pyval \<Rightarrow> pyval result" where
  "subscript v k =
     (case v of
        PDict d \<Rightarrow> (case k of PStr s \<Rightarrow> aitem d s
                    | _ \<Rightarrow> if hashable k then Inl (KeyError []) else Inl TypeError)
      | PMap m \<Rightarrow> find_key m k
      | PList xs \<Rightarrow> (case as_int k of None \<Rightarrow> Inl TypeError | Some i \<Rightarrow> litem xs i)
      | PTuple xs \<Rightarrow> (case as_int k of None \<Rightarrow> Inl TypeError | Some i \<Rightarrow> litem xs i)
      | PStr s \<Rightarrow> (case as_int k of None \<Rightarrow> Inl TypeError | Some i \<Rightarrow> bnd (litem s i) (\<lambda>c. Inr (PStr [c])))
      | _ \<Rightarrow> Inl TypeError)"

definition dict_get :: "pyval \<Rightarrow> pyval \<Rightarrow> pyval \<Rightarrow> pyval result" where
  "dict_get v k dflt =
     (case v of
        PDict d \<Rightarrow> (case k of PStr s \<Rightarrow> Inr (case map_of d s of None \<Rightarrow> dflt | Some w \<Rightarrow> w)
                    | _ \<Rightarrow> if hashable k then Inr dflt else Inl TypeError)
      | PMap m \<Rightarrow> (if hashable k then Inr (case find_entry m k of None \<Rightarrow> dflt | Some w \<Rightarrow> w)
                   else Inl TypeError)
      | _ \<Rightarrow> Inl AttributeError)"

fun prefixed :: "string \<Rightarrow> string \<Rightarrow> bool" where
  "prefixed [] s = True"
| "prefixed (c # p) [] = False"
| "prefixed (c # p) (d # s) = (c = d \<and> prefixed p s)"

fun substring :: "string \<Rightarrow> string \<Rightarrow> bool" where
  "substring p [] = (p = [])"
| "substring p (c # s) = (prefixed p (c # s) \<or> substring p s)"

definition member :: "pyval \<Rightarrow> pyval \<Rightarrow> bool result" where
  "member x v =
     (case v of
        PList ys \<Rightarrow> Inr (list_ex (py_eq x) ys)
      | PTuple ys \<Rightarrow> Inr (list_ex (py_eq x) ys)
      | PSet ys \<Rightarrow> if hashable x then Inr (list_ex (py_eq x) ys) else Inl TypeError
      | PDict d \<Rightarrow> if hashable x then Inr (case x of PStr s \<Rightarrow> ahas d s | _ \<Rightarrow> False) else Inl TypeError
      | PMap m \<Rightarrow> if hashable x then Inr (find_entry m x \<noteq> None) else Inl TypeError
      | PStr s \<Rightarrow> (case x of PStr p \<Rightarrow> Inr (substring p s) | _ \<Rightarrow> Inl TypeError)
      | _ \<Rightarrow> Inl TypeError)"

definition item :: "expr \<Rightarrow> string \<Rightarrow> expr" where
  "item a k = bnd a (\<lambda>x. subscript x (PStr k))"

definition index :: "expr \<Rightarrow> expr \<Rightarrow> expr" where
  "index a i = bnd a (\<lambda>x. bnd i (subscript x))"

definition get :: "expr \<Rightarrow> string \<Rightarrow> expr" where
  "get a k = bnd a (\<lambda>x. dict_get x (PStr k) PNone)"

definition get_or :: "expr \<Rightarrow> string \<Rightarrow> expr \<Rightarrow> expr" where
  "get_or a k dflt = bnd a (\<lambda>x. bnd dflt (dict_get x (PStr k)))"

definition lookup :: "expr \<Rightarrow> expr \<Rightarrow> expr" where
  "lookup a k = bnd a (\<lambda>x. bnd k (\<lambda>y. dict_get x y PNone))"

definition lookup_or :: "expr \<Rightarrow> expr \<Rightarrow> expr \<Rightarrow> expr" where
  "lookup_or a k dflt = bnd a (\<lambda>x. bnd k (\<lambda>y. bnd dflt (dict_get x y)))"

text \<open>\<open>v[k] = w\<close> on a dictionary or within a list.\<close>

definition store :: "pyval \<Rightarrow> pyval \<Rightarrow> pyval \<Rightarrow> pyval result" where
  "store v k w =
     (case (v, as_int k) of
        (PList xs, None) \<Rightarrow> Inl TypeError
      | (PList xs, Some i) \<Rightarrow> (case place xs i of None \<Rightarrow> Inl IndexError | Some j \<Rightarrow> Inr (PList (xs[j := w])))
      | _ \<Rightarrow> dict_put v k w)"

definition put :: "expr \<Rightarrow> expr \<Rightarrow> expr \<Rightarrow> expr" where
  "put a k e = bnd a (\<lambda>x. bnd k (\<lambda>y. bnd e (store x y)))"

definition isin :: "expr \<Rightarrow> expr \<Rightarrow> expr" where
  "isin a b = bnd a (\<lambda>x. bnd b (\<lambda>y. bnd (member x y) (\<lambda>r. Inr (PBool r))))"

definition notin :: "expr \<Rightarrow> expr \<Rightarrow> expr" where
  "notin a b = bnd a (\<lambda>x. bnd b (\<lambda>y. bnd (member x y) (\<lambda>r. Inr (PBool (\<not> r)))))"

text \<open>\<open>v[lo:hi]\<close> for integer bounds, each taken from the end when negative and then clipped.\<close>

definition clip :: "int \<Rightarrow> int \<Rightarrow> nat" where
  "clip n i = nat (max 0 (min n (if i < 0 then n + i else i)))"

definition slice_list :: "'a list \<Rightarrow> int option \<Rightarrow> int option \<Rightarrow> 'a list" where
  "slice_list xs lo hi =
     (case (lo, hi) of (l, h) \<Rightarrow>
        drop (case l of None \<Rightarrow> 0 | Some i \<Rightarrow> clip (len xs) i)
          (take (case h of None \<Rightarrow> length xs | Some j \<Rightarrow> clip (len xs) j) xs))"

fun bound_of :: "pyval \<Rightarrow> int option result" where
  "bound_of PNone = Inr None"
| "bound_of (PInt i) = Inr (Some i)"
| "bound_of (PBool b) = Inr (Some (if b then 1 else 0))"
| "bound_of _ = Inl TypeError"

fun slice_val :: "pyval \<Rightarrow> int option \<Rightarrow> int option \<Rightarrow> pyval result" where
  "slice_val (PList xs) lo hi = Inr (PList (slice_list xs lo hi))"
| "slice_val (PTuple xs) lo hi = Inr (PTuple (slice_list xs lo hi))"
| "slice_val (PStr s) lo hi = Inr (PStr (slice_list s lo hi))"
| "slice_val _ lo hi = Inl TypeError"

definition slice :: "expr \<Rightarrow> expr \<Rightarrow> expr \<Rightarrow> expr" where
  "slice a lo hi = bnd a (\<lambda>x. bnd lo (\<lambda>l. bnd hi (\<lambda>h.
     bnd (bound_of l) (\<lambda>l'. bnd (bound_of h) (slice_val x l')))))"

text \<open>Displays and comprehensions.\<close>

fun exprs :: "expr list \<Rightarrow> pyval list result" where
  "exprs [] = Inr []"
| "exprs (e # es) = bnd e (\<lambda>x. bnd (exprs es) (\<lambda>xs. Inr (x # xs)))"

definition list_of :: "expr list \<Rightarrow> expr" where
  "list_of es = bnd (exprs es) (\<lambda>xs. Inr (PList xs))"

definition tuple_of :: "expr list \<Rightarrow> expr" where
  "tuple_of es = bnd (exprs es) (\<lambda>xs. Inr (PTuple xs))"

fun py_remdups :: "pyval list \<Rightarrow> pyval list" where
  "py_remdups [] = []"
| "py_remdups (x # xs) = x # filter (\<lambda>y. \<not> py_eq x y) (py_remdups xs)"

definition make_set :: "pyval list \<Rightarrow> pyval result" where
  "make_set xs = (if list_all hashable xs then Inr (PSet (py_remdups xs)) else Inl TypeError)"

definition set_disp :: "expr list \<Rightarrow> expr" where
  "set_disp es = bnd (exprs es) make_set"

definition set_of :: "expr \<Rightarrow> expr" where
  "set_of a = bnd a (\<lambda>x. bnd (iter x) make_set)"

definition list_from :: "expr \<Rightarrow> expr" where
  "list_from a = bnd a (\<lambda>x. bnd (iter x) (\<lambda>xs. Inr (PList xs)))"

definition tuple_from :: "expr \<Rightarrow> expr" where
  "tuple_from a = bnd a (\<lambda>x. bnd (iter x) (\<lambda>xs. Inr (PTuple xs)))"

text \<open>\<open>dict(k=e, ...)\<close> and \<open>dict(base, k=e, ...)\<close> with distinct names, and \<open>{**a, **b}\<close>.\<close>

fun fields :: "(string \<times> expr) list \<Rightarrow> (string \<times> pyval) list result" where
  "fields [] = Inr []"
| "fields ((k, e) # es) = bnd e (\<lambda>x. bnd (fields es) (\<lambda>d. Inr ((k, x) # d)))"

definition dict_of :: "(string \<times> expr) list \<Rightarrow> expr" where
  "dict_of es = bnd (fields es) (\<lambda>d. Inr (PDict d))"

fun put_entries :: "pyval \<Rightarrow> (pyval \<times> pyval) list \<Rightarrow> pyval result" where
  "put_entries d [] = Inr d"
| "put_entries d ((k, v) # m) = bnd (dict_put d k v) (\<lambda>d'. put_entries d' m)"

definition merge :: "expr \<Rightarrow> expr \<Rightarrow> expr" where
  "merge a b = bnd a (\<lambda>x. bnd b (\<lambda>y.
     case entries y of None \<Rightarrow> Inl TypeError | Some m \<Rightarrow> put_entries x m))"

definition each :: "expr \<Rightarrow> (pyval \<Rightarrow> expr) \<Rightarrow> expr" where
  "each xs f = bnd xs (\<lambda>v. bnd (iter v) (\<lambda>l. bnd (mapm f l) (\<lambda>ys. Inr (PList ys))))"

fun collect :: "(pyval \<Rightarrow> expr) \<Rightarrow> (pyval \<Rightarrow> expr) \<Rightarrow> pyval list \<Rightarrow> pyval list result" where
  "collect p f [] = Inr []"
| "collect p f (x # xs) = bnd (p x) (\<lambda>r.
     if truthy r then bnd (f x) (\<lambda>y. bnd (collect p f xs) (\<lambda>ys. Inr (y # ys))) else collect p f xs)"

text \<open>\<open>[f(x) for x in xs if p(x)]\<close>.\<close>

definition each_if :: "expr \<Rightarrow> (pyval \<Rightarrow> expr) \<Rightarrow> (pyval \<Rightarrow> expr) \<Rightarrow> expr" where
  "each_if xs p f = bnd xs (\<lambda>v. bnd (iter v) (\<lambda>l. bnd (collect p f l) (\<lambda>ys. Inr (PList ys))))"

text \<open>\<open>next(f(x) for x in xs if p(x))\<close>.\<close>

fun first_match :: "(pyval \<Rightarrow> expr) \<Rightarrow> (pyval \<Rightarrow> expr) \<Rightarrow> pyval list \<Rightarrow> expr" where
  "first_match p f [] = Inl StopIteration"
| "first_match p f (x # xs) = bnd (p x) (\<lambda>r. if truthy r then f x else first_match p f xs)"

definition next_of :: "expr \<Rightarrow> (pyval \<Rightarrow> expr) \<Rightarrow> (pyval \<Rightarrow> expr) \<Rightarrow> expr" where
  "next_of xs p f = bnd xs (\<lambda>v. bnd (iter v) (first_match p f))"

definition next_or :: "expr \<Rightarrow> (pyval \<Rightarrow> expr) \<Rightarrow> (pyval \<Rightarrow> expr) \<Rightarrow> expr \<Rightarrow> expr" where
  "next_or xs p f dflt = bnd xs (\<lambda>v. bnd (iter v) (\<lambda>l. bnd dflt (\<lambda>w.
     attempt [''StopIteration''] (first_match p f l) (\<lambda>e. Inr w))))"

definition flatten :: "expr \<Rightarrow> expr" where
  "flatten xs = bnd xs (\<lambda>v. bnd (iter v) (\<lambda>l. bnd (mapm iter l) (\<lambda>ys. Inr (PList (concat ys)))))"

text \<open>\<open>dict(d)\<close> of a dictionary or of pairs, \<open>dict.fromkeys(ks, v)\<close> and \<open>d.pop(k, v)\<close>.\<close>

definition put_pair :: "pyval \<Rightarrow> pyval \<Rightarrow> pyval result" where
  "put_pair d p = bnd (iter p) (\<lambda>l. case l of [k, v] \<Rightarrow> dict_put d k v
     | _ \<Rightarrow> Inl (ValueError ''dictionary update sequence element''))"

definition dict_from :: "expr \<Rightarrow> expr" where
  "dict_from a = bnd a (\<lambda>x. case entries x of
     Some m \<Rightarrow> Inr x
   | None \<Rightarrow> bnd (iter x) (\<lambda>ps. foldm put_pair (PDict []) ps))"

definition dict_fromkeys :: "expr \<Rightarrow> expr \<Rightarrow> expr" where
  "dict_fromkeys ks e = bnd ks (\<lambda>v. bnd (iter v) (\<lambda>l. bnd e (\<lambda>w.
     foldm (\<lambda>d k. dict_put d k w) (PDict []) l)))"

fun drop_entry :: "(pyval \<times> pyval) list \<Rightarrow> pyval \<Rightarrow> (pyval \<times> pyval) list" where
  "drop_entry [] k = []"
| "drop_entry ((j, w) # m) k = (if py_eq j k then m else (j, w) # drop_entry m k)"

definition without_key :: "expr \<Rightarrow> expr \<Rightarrow> expr" where
  "without_key a k = bnd a (\<lambda>x. bnd k (\<lambda>y. case entries x of None \<Rightarrow> Inl AttributeError
     | Some m \<Rightarrow> if hashable y then Inr (of_entries (drop_entry m y)) else Inl TypeError))"

text \<open>\<open>d.setdefault(k, v)\<close> and \<open>d.pop(k)\<close>, for their effect on \<open>d\<close>.\<close>

definition setdefault :: "expr \<Rightarrow> expr \<Rightarrow> expr \<Rightarrow> expr" where
  "setdefault a k e = bnd a (\<lambda>x. bnd k (\<lambda>y. bnd e (\<lambda>w.
     bnd (member y x) (\<lambda>r. if r then Inr x else dict_put x y w))))"

definition delete_key :: "expr \<Rightarrow> expr \<Rightarrow> expr" where
  "delete_key a k = bnd a (\<lambda>x. bnd k (\<lambda>y. bnd (subscript x y) (\<lambda>w. without_key (Inr x) (Inr y))))"

definition each_dict :: "expr \<Rightarrow> (pyval \<Rightarrow> expr) \<Rightarrow> (pyval \<Rightarrow> expr) \<Rightarrow> expr" where
  "each_dict xs key val = bnd xs (\<lambda>v. bnd (iter v) (\<lambda>l.
     foldm (\<lambda>d x. bnd (key x) (\<lambda>k. bnd (val x) (\<lambda>w. dict_put d k w))) (PDict []) l))"

text \<open>\<open>for a, b in ...\<close>: unpacking a value of exactly as many elements.\<close>

definition unpack2 :: "pyval \<Rightarrow> (pyval \<Rightarrow> pyval \<Rightarrow> 'a result) \<Rightarrow> 'a result" where
  "unpack2 v f = bnd (iter v) (\<lambda>l. case l of [a, b] \<Rightarrow> f a b
     | _ \<Rightarrow> Inl (ValueError ''values to unpack''))"

definition unpack3 :: "pyval \<Rightarrow> (pyval \<Rightarrow> pyval \<Rightarrow> pyval \<Rightarrow> 'a result) \<Rightarrow> 'a result" where
  "unpack3 v f = bnd (iter v) (\<lambda>l. case l of [a, b, c] \<Rightarrow> f a b c
     | _ \<Rightarrow> Inl (ValueError ''values to unpack''))"

definition unpack4 :: "pyval \<Rightarrow> (pyval \<Rightarrow> pyval \<Rightarrow> pyval \<Rightarrow> pyval \<Rightarrow> 'a result) \<Rightarrow> 'a result" where
  "unpack4 v f = bnd (iter v) (\<lambda>l. case l of [a, b, c, d] \<Rightarrow> f a b c d
     | _ \<Rightarrow> Inl (ValueError ''values to unpack''))"

definition unpack5 ::
  "pyval \<Rightarrow> (pyval \<Rightarrow> pyval \<Rightarrow> pyval \<Rightarrow> pyval \<Rightarrow> pyval \<Rightarrow> 'a result) \<Rightarrow> 'a result" where
  "unpack5 v f = bnd (iter v) (\<lambda>l. case l of [a, b, c, d, e] \<Rightarrow> f a b c d e
     | _ \<Rightarrow> Inl (ValueError ''values to unpack''))"

text \<open>More targets are bound by position.\<close>

definition unpack_list :: "nat \<Rightarrow> pyval \<Rightarrow> (pyval list \<Rightarrow> 'a result) \<Rightarrow> 'a result" where
  "unpack_list n v f = bnd (iter v) (\<lambda>l. if length l = n then f l
     else Inl (ValueError ''values to unpack''))"

definition unpack7 ::
  "pyval \<Rightarrow> (pyval \<Rightarrow> pyval \<Rightarrow> pyval \<Rightarrow> pyval \<Rightarrow> pyval \<Rightarrow> pyval \<Rightarrow> pyval \<Rightarrow> 'a result) \<Rightarrow> 'a result" where
  "unpack7 v f = unpack_list 7 v (\<lambda>l. f (l ! 0) (l ! 1) (l ! 2) (l ! 3) (l ! 4) (l ! 5) (l ! 6))"

definition unpack9 ::
  "pyval \<Rightarrow> (pyval \<Rightarrow> pyval \<Rightarrow> pyval \<Rightarrow> pyval \<Rightarrow> pyval \<Rightarrow> pyval \<Rightarrow> pyval \<Rightarrow> pyval \<Rightarrow> pyval \<Rightarrow> 'a result) \<Rightarrow>
     'a result" where
  "unpack9 v f = unpack_list 9 v (\<lambda>l.
     f (l ! 0) (l ! 1) (l ! 2) (l ! 3) (l ! 4) (l ! 5) (l ! 6) (l ! 7) (l ! 8))"

text \<open>\<open>range\<close>, \<open>zip\<close>, \<open>enumerate\<close>, \<open>items\<close>, \<open>values\<close>, \<open>len\<close>.\<close>

definition count_up :: "int \<Rightarrow> int \<Rightarrow> pyval list" where
  "count_up a b = map (\<lambda>k. PInt (a + int k)) [0..<nat (b - a)]"

definition range_between :: "expr \<Rightarrow> expr \<Rightarrow> expr" where
  "range_between a b = bnd a (\<lambda>x. bnd b (\<lambda>y.
     case (as_int x, as_int y) of (Some i, Some j) \<Rightarrow> Inr (PList (count_up i j)) | _ \<Rightarrow> Inl TypeError))"

definition range_to :: "expr \<Rightarrow> expr" where
  "range_to b = range_between (num 0) b"

definition zip_of :: "expr \<Rightarrow> expr \<Rightarrow> expr" where
  "zip_of a b = bnd a (\<lambda>x. bnd b (\<lambda>y. bnd (iter x) (\<lambda>xs. bnd (iter y) (\<lambda>ys.
     Inr (PList (map (\<lambda>(p, q). PTuple [p, q]) (zip xs ys)))))))"

definition zip3 :: "expr \<Rightarrow> expr \<Rightarrow> expr \<Rightarrow> expr" where
  "zip3 a b c = bnd a (\<lambda>x. bnd b (\<lambda>y. bnd c (\<lambda>z. bnd (iter x) (\<lambda>xs. bnd (iter y) (\<lambda>ys. bnd (iter z) (\<lambda>zs.
     Inr (PList (map (\<lambda>(p, q, r). PTuple [p, q, r]) (zip xs (zip ys zs))))))))))"

definition first_of :: "expr \<Rightarrow> expr" where
  "first_of a = bnd a (\<lambda>x. bnd (iter x) (\<lambda>xs. case xs of [] \<Rightarrow> Inl StopIteration | y # ys \<Rightarrow> Inr y))"

definition range_step :: "expr \<Rightarrow> expr \<Rightarrow> expr \<Rightarrow> expr" where
  "range_step a b c = bnd a (\<lambda>x. bnd b (\<lambda>y. bnd c (\<lambda>z. case (as_int x, as_int y, as_int z) of
     (Some i, Some j, Some k) \<Rightarrow>
       if k = 0 then Inl (ValueError ''range() arg 3 must not be zero'')
       else Inr (PList (map (\<lambda>n. PInt (i + int n * k))
              [0..<nat (if 0 < k then (j - i + k - 1) div k else (i - j - k - 1) div (- k))]))
   | _ \<Rightarrow> Inl TypeError)))"

definition numbered :: "expr \<Rightarrow> int \<Rightarrow> expr" where
  "numbered a start = bnd a (\<lambda>x. bnd (iter x) (\<lambda>xs.
     Inr (PList (map (\<lambda>(i, y). PTuple [PInt (start + int i), y]) (enumerate_from 0 xs)))))"

definition items_of :: "expr \<Rightarrow> expr" where
  "items_of a = bnd a (\<lambda>x. case entries x of None \<Rightarrow> Inl AttributeError
     | Some m \<Rightarrow> Inr (PList (map (\<lambda>(k, v). PTuple [k, v]) m)))"

definition values_of :: "expr \<Rightarrow> expr" where
  "values_of a = bnd a (\<lambda>x. case entries x of None \<Rightarrow> Inl AttributeError
     | Some m \<Rightarrow> Inr (PList (map snd m)))"

definition size_of :: "expr \<Rightarrow> expr" where
  "size_of a = bnd a (\<lambda>x. bnd (py_len x) (\<lambda>n. Inr (PInt n)))"

definition append :: "expr \<Rightarrow> expr \<Rightarrow> expr" where
  "append a e = bnd a (\<lambda>x. bnd e (\<lambda>y. case x of PList xs \<Rightarrow> Inr (PList (xs @ [y])) | _ \<Rightarrow> Inl AttributeError))"

definition list_extend :: "expr \<Rightarrow> expr \<Rightarrow> expr" where
  "list_extend a e = bnd a (\<lambda>x. bnd e (\<lambda>y. bnd (iter y) (\<lambda>ys.
     case x of PList xs \<Rightarrow> Inr (PList (xs @ ys)) | _ \<Rightarrow> Inl AttributeError)))"

definition set_add :: "expr \<Rightarrow> expr \<Rightarrow> expr" where
  "set_add a e = bnd a (\<lambda>x. bnd e (\<lambda>y. case x of
     PSet xs \<Rightarrow> if hashable y then Inr (PSet (if list_ex (py_eq y) xs then xs else xs @ [y])) else Inl TypeError
   | _ \<Rightarrow> Inl AttributeError))"

definition union_of :: "expr \<Rightarrow> expr \<Rightarrow> expr" where
  "union_of a b = bnd a (\<lambda>x. bnd b (\<lambda>y. case (x, y) of
     (PSet xs, PSet ys) \<Rightarrow> make_set (xs @ ys) | _ \<Rightarrow> Inl TypeError))"

text \<open>\<open>s.endswith(p)\<close> and \<open>s.startswith(p)\<close> for a string or a tuple of strings \<open>p\<close>.\<close>

definition any_affix :: "(string \<Rightarrow> bool) \<Rightarrow> pyval \<Rightarrow> expr" where
  "any_affix test v = (case v of
     PStr p \<Rightarrow> Inr (PBool (test p))
   | PTuple ps \<Rightarrow> bnd (anym (\<lambda>p. case p of PStr q \<Rightarrow> Inr (test q) | _ \<Rightarrow> Inl TypeError) ps) (\<lambda>r. Inr (PBool r))
   | _ \<Rightarrow> Inl TypeError)"

definition endswith :: "expr \<Rightarrow> expr \<Rightarrow> expr" where
  "endswith a b = bnd a (\<lambda>x. bnd b (\<lambda>y. case x of
     PStr s \<Rightarrow> any_affix (\<lambda>p. prefixed (rev p) (rev s)) y | _ \<Rightarrow> Inl AttributeError))"

text \<open>\<open>s.replace(old, new)\<close> for a non-empty \<open>old\<close>, left to right without overlap.\<close>

function replace_all :: "string \<Rightarrow> string \<Rightarrow> string \<Rightarrow> string" where
  "replace_all old new s =
     (if s = [] then []
      else if old \<noteq> [] \<and> prefixed old s then new @ replace_all old new (drop (length old) s)
      else hd s # replace_all old new (tl s))"
  by pat_completeness auto
termination
  by (relation "measure (\<lambda>(old, new, s). length s)") (auto intro!: diff_less)

declare replace_all.simps [simp del]

definition replaced :: "expr \<Rightarrow> expr \<Rightarrow> expr \<Rightarrow> expr" where
  "replaced a b c = bnd a (\<lambda>x. bnd b (\<lambda>y. bnd c (\<lambda>z. case (x, y, z) of
     (PStr s, PStr old, PStr new) \<Rightarrow> Inr (PStr (replace_all old new s))
   | (PStr s, _, _) \<Rightarrow> Inl TypeError | _ \<Rightarrow> Inl AttributeError)))"

definition joined :: "string \<Rightarrow> expr \<Rightarrow> expr" where
  "joined sep a = bnd a (\<lambda>x. bnd (iter x) (\<lambda>xs.
     if list_all (\<lambda>v. str_of v \<noteq> None) xs
     then Inr (PStr (case map (\<lambda>v. the (str_of v)) xs of [] \<Rightarrow> [] | w # ws \<Rightarrow> w @ concat (map (\<lambda>u. sep @ u) ws)))
     else Inl TypeError))"

text \<open>\<open>a & b\<close> on Booleans and on sets.\<close>

definition bit_and :: "expr \<Rightarrow> expr \<Rightarrow> expr" where
  "bit_and a b = bnd a (\<lambda>x. bnd b (\<lambda>y. case (x, y) of
     (PBool p, PBool q) \<Rightarrow> Inr (PBool (p \<and> q))
   | (PSet xs, PSet ys) \<Rightarrow> Inr (PSet (filter (\<lambda>v. list_ex (py_eq v) ys) xs))
   | _ \<Rightarrow> Inl TypeError))"

definition startswith :: "expr \<Rightarrow> expr \<Rightarrow> expr" where
  "startswith a b = bnd a (\<lambda>x. bnd b (\<lambda>y. case x of
     PStr s \<Rightarrow> any_affix (\<lambda>p. prefixed p s) y | _ \<Rightarrow> Inl AttributeError))"

definition removeprefix :: "expr \<Rightarrow> expr \<Rightarrow> expr" where
  "removeprefix a b = bnd a (\<lambda>x. bnd b (\<lambda>y. case (x, y) of
     (PStr s, PStr p) \<Rightarrow> Inr (PStr (if prefixed p s then drop (length p) s else s))
   | (PStr s, _) \<Rightarrow> Inl TypeError | _ \<Rightarrow> Inl AttributeError))"

text \<open>The truth of \<open>re.fullmatch('[0-9a-f]{64}', s)\<close>.\<close>

definition fullmatch_hex64 :: "expr \<Rightarrow> expr" where
  "fullmatch_hex64 a = bnd a (\<lambda>x. case x of
     PStr s \<Rightarrow> Inr (PBool (length s = 64 \<and> list_all (\<lambda>c. c \<in> set ''0123456789abcdef'') s))
   | _ \<Rightarrow> Inl TypeError)"

section \<open>Arithmetic\<close>

definition to_float :: "pyval \<Rightarrow> pfloat result" where
  "to_float v = (case v of
     PFloat x \<Rightarrow> Inr x
   | _ \<Rightarrow> (case as_int v of None \<Rightarrow> Inl TypeError
           | Some i \<Rightarrow> (case round_fl (of_int i) of FNum q \<Rightarrow> Inr (FNum q) | _ \<Rightarrow> Inl OverflowError)))"

definition arith :: "(int \<Rightarrow> int \<Rightarrow> pyval result) \<Rightarrow> (pfloat \<Rightarrow> pfloat \<Rightarrow> pyval result) \<Rightarrow> pyval \<Rightarrow> pyval \<Rightarrow> pyval result" where
  "arith f g x y = (case (as_int x, as_int y) of
     (Some i, Some j) \<Rightarrow> f i j
   | _ \<Rightarrow> bnd (to_float x) (\<lambda>p. bnd (to_float y) (\<lambda>q. g p q)))"

definition py_add :: "pyval \<Rightarrow> pyval \<Rightarrow> pyval result" where
  "py_add x y =
     (case (x, y) of
        (PStr s, PStr t) \<Rightarrow> Inr (PStr (s @ t))
      | (PList xs, PList ys) \<Rightarrow> Inr (PList (xs @ ys))
      | (PTuple xs, PTuple ys) \<Rightarrow> Inr (PTuple (xs @ ys))
      | _ \<Rightarrow> arith (\<lambda>i j. Inr (PInt (i + j))) (\<lambda>p q. Inr (PFloat (fl_add p q))) x y)"

definition repeated :: "int \<Rightarrow> 'a list \<Rightarrow> 'a list" where
  "repeated n xs = concat (replicate (nat n) xs)"

definition py_mul :: "pyval \<Rightarrow> pyval \<Rightarrow> pyval result" where
  "py_mul x y =
     (case (x, y) of
        (PList xs, PInt n) \<Rightarrow> Inr (PList (repeated n xs))
      | (PTuple xs, PInt n) \<Rightarrow> Inr (PTuple (repeated n xs))
      | _ \<Rightarrow> arith (\<lambda>i j. Inr (PInt (i * j))) (\<lambda>p q. Inr (PFloat (fl_mul p q))) x y)"

definition py_sub :: "pyval \<Rightarrow> pyval \<Rightarrow> pyval result" where
  "py_sub x y =
     (case (x, y) of
        (PSet xs, PSet ys) \<Rightarrow> Inr (PSet (filter (\<lambda>v. \<not> list_ex (py_eq v) ys) xs))
      | _ \<Rightarrow> arith (\<lambda>i j. Inr (PInt (i - j))) (\<lambda>p q. Inr (PFloat (fl_sub p q))) x y)"

definition py_truediv :: "pyval \<Rightarrow> pyval \<Rightarrow> pyval result" where
  "py_truediv = arith (\<lambda>i j. bnd (int_truediv i j) (\<lambda>q. Inr (PFloat q)))
     (\<lambda>p q. if q = FNum 0 then Inl ZeroDivisionError else Inr (PFloat (fl_div p q)))"

text \<open>Floor division and remainder are only used on integers.\<close>

definition py_floordiv :: "pyval \<Rightarrow> pyval \<Rightarrow> pyval result" where
  "py_floordiv x y = (case (as_int x, as_int y) of
     (Some i, Some j) \<Rightarrow> if j = 0 then Inl ZeroDivisionError else Inr (PInt (i div j))
   | _ \<Rightarrow> Inl TypeError)"

definition py_mod :: "pyval \<Rightarrow> pyval \<Rightarrow> pyval result" where
  "py_mod x y = (case (as_int x, as_int y) of
     (Some i, Some j) \<Rightarrow> if j = 0 then Inl ZeroDivisionError else Inr (PInt (i mod j))
   | _ \<Rightarrow> Inl TypeError)"

definition add :: "expr \<Rightarrow> expr \<Rightarrow> expr" where
  "add a b = bnd a (\<lambda>x. bnd b (py_add x))"

definition sub :: "expr \<Rightarrow> expr \<Rightarrow> expr" where
  "sub a b = bnd a (\<lambda>x. bnd b (py_sub x))"

definition mul :: "expr \<Rightarrow> expr \<Rightarrow> expr" where
  "mul a b = bnd a (\<lambda>x. bnd b (py_mul x))"

definition truediv :: "expr \<Rightarrow> expr \<Rightarrow> expr" where
  "truediv a b = bnd a (\<lambda>x. bnd b (py_truediv x))"

definition floordiv :: "expr \<Rightarrow> expr \<Rightarrow> expr" where
  "floordiv a b = bnd a (\<lambda>x. bnd b (py_floordiv x))"

definition modulo :: "expr \<Rightarrow> expr \<Rightarrow> expr" where
  "modulo a b = bnd a (\<lambda>x. bnd b (py_mod x))"

definition neg :: "expr \<Rightarrow> expr" where
  "neg a = bnd a (\<lambda>x. case as_int x of Some i \<Rightarrow> Inr (PInt (- i))
     | None \<Rightarrow> bnd (to_float x) (\<lambda>p. Inr (PFloat (fl_neg p))))"

text \<open>
  \<open>x ** n\<close> for integers and the square of a float, which is taken to be the rounded product; a square
  that leaves the range raises.
\<close>

definition power :: "expr \<Rightarrow> nat \<Rightarrow> expr" where
  "power a n = bnd a (\<lambda>x. case as_int x of
     Some i \<Rightarrow> Inr (PInt (i ^ n))
   | None \<Rightarrow> (case x of
       PFloat p \<Rightarrow> if n = 2 then (if fl_finite p \<and> \<not> fl_finite (fl_mul p p) then Inl OverflowError else Inr (PFloat (fl_mul p p)))
                  else Inl TypeError
     | _ \<Rightarrow> Inl TypeError))"

text \<open>The decimal text of an integer: sign, digits, single underscores between digits, blanks around.\<close>

fun digits_from :: "int \<Rightarrow> string \<Rightarrow> int option" where
  "digits_from n [] = Some n"
| "digits_from n (c # s) =
     (if c \<in> set ''0123456789'' then digits_from (10 * n + int (of_char c - 48)) s
      else if c = CHR ''_'' \<and> s \<noteq> [] \<and> hd s \<noteq> CHR ''_'' then digits_from n s else None)"

definition unsigned :: "string \<Rightarrow> int option" where
  "unsigned s = (if s = [] \<or> hd s = CHR ''_'' then None else digits_from 0 s)"

definition blank :: "char \<Rightarrow> bool" where
  "blank c \<longleftrightarrow> c \<in> set [CHR '' '', CHR 0x09, CHR 0x0A, CHR 0x0B, CHR 0x0C, CHR 0x0D]"

definition decimal :: "string \<Rightarrow> int option" where
  "decimal s = (let t = rev (dropWhile blank (rev (dropWhile blank s))) in
     case t of
       [] \<Rightarrow> None
     | c # u \<Rightarrow> if c = CHR ''-'' then map_option uminus (unsigned u)
                else if c = CHR ''+'' then unsigned u else unsigned t)"

definition int_of :: "expr \<Rightarrow> expr" where
  "int_of a = bnd a (\<lambda>x. case as_int x of Some i \<Rightarrow> Inr (PInt i)
     | None \<Rightarrow> (case x of
         PFloat (FNum q) \<Rightarrow> Inr (PInt (if 0 \<le> q then floor q else ceiling q))
       | PFloat FNaN \<Rightarrow> Inl (ValueError ''cannot convert float NaN to integer'')
       | PFloat _ \<Rightarrow> Inl OverflowError
       | PStr s \<Rightarrow> (case decimal s of Some i \<Rightarrow> Inr (PInt i)
                   | None \<Rightarrow> Inl (ValueError ''invalid literal for int()''))
       | _ \<Rightarrow> Inl TypeError))"

definition sum_of :: "expr \<Rightarrow> expr" where
  "sum_of a = bnd a (\<lambda>x. bnd (iter x) (\<lambda>xs. foldm py_add (PInt 0) xs))"

text \<open>\<open>collections.Counter(xs)\<close>, as a dictionary.\<close>

definition count_key :: "pyval \<Rightarrow> pyval \<Rightarrow> pyval result" where
  "count_key d k = bnd (dict_get d k (PInt 0)) (\<lambda>n. bnd (py_add n (PInt 1)) (dict_put d k))"

definition counter_of :: "expr \<Rightarrow> expr" where
  "counter_of a = bnd a (\<lambda>x. bnd (iter x) (\<lambda>xs. foldm count_key (PDict []) xs))"

text \<open>
  \<open>Counter.update\<close> adds the counts of a mapping, or one for each element of another iterable.
  Counters are equal when all counts are, a missing key counting zero.
\<close>

definition add_count :: "pyval \<Rightarrow> pyval \<times> pyval \<Rightarrow> pyval result" where
  "add_count d e = bnd (dict_get d (fst e) (PInt 0)) (\<lambda>n. bnd (py_add (snd e) n) (dict_put d (fst e)))"

definition counter_update :: "expr \<Rightarrow> expr \<Rightarrow> expr" where
  "counter_update c a = bnd c (\<lambda>d. bnd a (\<lambda>x. case entries x of
     Some m \<Rightarrow> foldm add_count d m
   | None \<Rightarrow> bnd (iter x) (\<lambda>xs. foldm count_key d xs)))"

definition counts_within :: "(pyval \<times> pyval) list \<Rightarrow> (pyval \<times> pyval) list \<Rightarrow> bool" where
  "counts_within m n \<longleftrightarrow>
     list_all (\<lambda>e. py_eq (snd e) (case find_entry n (fst e) of None \<Rightarrow> PInt 0 | Some w \<Rightarrow> w)) m"

definition counter_eq :: "expr \<Rightarrow> expr \<Rightarrow> expr" where
  "counter_eq a b = bnd a (\<lambda>x. bnd b (\<lambda>y. case (entries x, entries y) of
     (Some m, Some n) \<Rightarrow> Inr (PBool (counts_within m n \<and> counts_within n m)) | _ \<Rightarrow> Inl TypeError))"

text \<open>\<open>statistics.mean\<close>: the exact mean, an integer when all data are and it divides evenly.\<close>

fun rational_of :: "pyval \<Rightarrow> rat result" where
  "rational_of (PFloat (FNum q)) = Inr q"
| "rational_of (PFloat _) = Inl OverflowError"
| "rational_of v = (case as_int v of Some i \<Rightarrow> Inr (of_int i) | None \<Rightarrow> Inl TypeError)"

definition mean :: "expr \<Rightarrow> expr" where
  "mean a = bnd a (\<lambda>x. bnd (iter x) (\<lambda>xs.
     if xs = [] then Inl (ValueError ''mean requires at least one data point'')
     else bnd (mapm rational_of xs) (\<lambda>qs.
       let m = sum_list qs / of_nat (length qs)
       in if list_all (\<lambda>v. as_int v \<noteq> None) xs \<and> m = of_int (floor m) then Inr (PInt (floor m))
          else (case round_fl m of FNum q \<Rightarrow> Inr (PFloat (FNum q)) | _ \<Rightarrow> Inl OverflowError))))"

text \<open>\<open>math.ceil\<close>, \<open>math.floor\<close>, \<open>float\<close>.\<close>

definition ceil_of :: "expr \<Rightarrow> expr" where
  "ceil_of a = bnd a (\<lambda>x. case as_int x of Some i \<Rightarrow> Inr (PInt i) | None \<Rightarrow> (case x of
     PFloat (FNum q) \<Rightarrow> Inr (PInt (ceiling q))
   | PFloat FNaN \<Rightarrow> Inl (ValueError ''cannot convert float NaN to integer'')
   | PFloat _ \<Rightarrow> Inl OverflowError | _ \<Rightarrow> Inl TypeError))"

definition floor_of :: "expr \<Rightarrow> expr" where
  "floor_of a = bnd a (\<lambda>x. case as_int x of Some i \<Rightarrow> Inr (PInt i) | None \<Rightarrow> (case x of
     PFloat (FNum q) \<Rightarrow> Inr (PInt (floor q))
   | PFloat FNaN \<Rightarrow> Inl (ValueError ''cannot convert float NaN to integer'')
   | PFloat _ \<Rightarrow> Inl OverflowError | _ \<Rightarrow> Inl TypeError))"

definition float_of :: "expr \<Rightarrow> expr" where
  "float_of a = bnd a (\<lambda>x. bnd (to_float x) (\<lambda>p. Inr (PFloat p)))"

definition max_or :: "expr \<Rightarrow> expr \<Rightarrow> expr" where
  "max_or a dflt = bnd a (\<lambda>x. bnd (iter x) (\<lambda>xs. case xs of
     [] \<Rightarrow> dflt | y # ys \<Rightarrow> foldm (\<lambda>m z. bnd (py_less m z) (\<lambda>r. Inr (if r then z else m))) y ys))"

definition prod_of :: "expr \<Rightarrow> expr" where
  "prod_of a = bnd a (\<lambda>x. bnd (iter x) (\<lambda>xs. foldm py_mul (PInt 1) xs))"

definition max2 :: "pyval \<Rightarrow> pyval \<Rightarrow> pyval result" where
  "max2 m x = bnd (py_less m x) (\<lambda>r. Inr (if r then x else m))"

definition min2 :: "pyval \<Rightarrow> pyval \<Rightarrow> pyval result" where
  "min2 m x = bnd (py_less x m) (\<lambda>r. Inr (if r then x else m))"

definition largest :: "pyval list \<Rightarrow> pyval result" where
  "largest xs = (case xs of [] \<Rightarrow> Inl (ValueError ''max() arg is an empty sequence'') | x # ys \<Rightarrow> foldm max2 x ys)"

definition smallest :: "pyval list \<Rightarrow> pyval result" where
  "smallest xs = (case xs of [] \<Rightarrow> Inl (ValueError ''min() arg is an empty sequence'') | x # ys \<Rightarrow> foldm min2 x ys)"

text \<open>\<open>max(xs)\<close> of an iterable and \<open>max(a, b, ...)\<close> of arguments.\<close>

definition max_of :: "expr \<Rightarrow> expr" where
  "max_of a = bnd a (\<lambda>x. bnd (iter x) largest)"

definition min_of :: "expr \<Rightarrow> expr" where
  "min_of a = bnd a (\<lambda>x. bnd (iter x) smallest)"

definition max_args :: "expr list \<Rightarrow> expr" where
  "max_args es = bnd (exprs es) largest"

definition min_args :: "expr list \<Rightarrow> expr" where
  "min_args es = bnd (exprs es) smallest"

definition abs_of :: "expr \<Rightarrow> expr" where
  "abs_of a = bnd a (\<lambda>x. case as_int x of Some i \<Rightarrow> Inr (PInt \<bar>i\<bar>)
     | None \<Rightarrow> bnd (to_float x) (\<lambda>p. Inr (PFloat (if fl_less p (FNum 0) then fl_neg p else p))))"

fun insert_sorted :: "pyval \<Rightarrow> pyval list \<Rightarrow> pyval list result" where
  "insert_sorted x [] = Inr [x]"
| "insert_sorted x (y # ys) =
     bnd (py_less y x) (\<lambda>r. if r then bnd (insert_sorted x ys) (\<lambda>zs. Inr (y # zs)) else Inr (x # y # ys))"

fun sort_values :: "pyval list \<Rightarrow> pyval list result" where
  "sort_values [] = Inr []"
| "sort_values (x # xs) = bnd (sort_values xs) (insert_sorted x)"

definition sorted_of :: "expr \<Rightarrow> expr" where
  "sorted_of a = bnd a (\<lambda>x. bnd (iter x) (\<lambda>xs. bnd (sort_values xs) (\<lambda>ys. Inr (PList ys))))"

text \<open>\<open>sorted(xs, key=f)\<close>: stable, by the keys, which are computed first.\<close>

fun insert_keyed :: "pyval \<times> pyval \<Rightarrow> (pyval \<times> pyval) list \<Rightarrow> (pyval \<times> pyval) list result" where
  "insert_keyed p [] = Inr [p]"
| "insert_keyed p (q # qs) =
     bnd (py_less (fst q) (fst p)) (\<lambda>r. if r then bnd (insert_keyed p qs) (\<lambda>zs. Inr (q # zs)) else Inr (p # q # qs))"

fun sort_keyed :: "(pyval \<times> pyval) list \<Rightarrow> (pyval \<times> pyval) list result" where
  "sort_keyed [] = Inr []"
| "sort_keyed (p # ps) = bnd (sort_keyed ps) (insert_keyed p)"

definition sorted_by :: "expr \<Rightarrow> (pyval \<Rightarrow> expr) \<Rightarrow> expr" where
  "sorted_by a key = bnd a (\<lambda>x. bnd (iter x) (\<lambda>xs.
     bnd (mapm (\<lambda>v. bnd (key v) (\<lambda>k. Inr (k, v))) xs) (\<lambda>ps.
     bnd (sort_keyed ps) (\<lambda>qs. Inr (PList (map snd qs))))))"

text \<open>\<open>math.isfinite\<close>, \<open>math.isclose\<close> and \<open>statistics.median\<close>.\<close>

definition isfinite :: "expr \<Rightarrow> expr" where
  "isfinite a = bnd a (\<lambda>x. bnd (to_float x) (\<lambda>p. Inr (PBool (fl_finite p))))"

definition fl_abs :: "pfloat \<Rightarrow> pfloat" where
  "fl_abs p = (if fl_less p (FNum 0) then fl_neg p else p)"

definition close :: "pfloat \<Rightarrow> pfloat \<Rightarrow> pfloat \<Rightarrow> pfloat \<Rightarrow> bool" where
  "close rel_tol abs_tol p q \<longleftrightarrow> fl_eq p q \<or>
     p \<notin> {FInf, FNegInf} \<and> q \<notin> {FInf, FNegInf} \<and>
     (fl_le (fl_abs (fl_sub q p)) (fl_abs (fl_mul rel_tol q)) \<or>
      fl_le (fl_abs (fl_sub q p)) (fl_abs (fl_mul rel_tol p)) \<or>
      fl_le (fl_abs (fl_sub q p)) abs_tol)"

definition isclose :: "expr \<Rightarrow> expr \<Rightarrow> rat \<Rightarrow> rat \<Rightarrow> expr" where
  "isclose a b rel_tol abs_tol = bnd a (\<lambda>x. bnd b (\<lambda>y. bnd (to_float x) (\<lambda>p. bnd (to_float y) (\<lambda>q.
     Inr (PBool (close (round_fl rel_tol) (round_fl abs_tol) p q))))))"

definition median :: "expr \<Rightarrow> expr" where
  "median a = bnd a (\<lambda>x. bnd (iter x) (\<lambda>l. bnd (sort_values l) (\<lambda>xs.
     if xs = [] then Inl (ValueError ''no median for empty data'')
     else if odd (length xs) then Inr (xs ! (length xs div 2))
     else bnd (py_add (xs ! (length xs div 2 - 1)) (xs ! (length xs div 2))) (\<lambda>s. py_truediv s (PInt 2)))))"

text \<open>\<open>str(v)\<close> of the values that messages and keys are built from; floats are never printed.\<close>

fun shown :: "pyval \<Rightarrow> string result" where
  "shown PNone = Inr ''None''"
| "shown (PBool b) = Inr (if b then ''True'' else ''False'')"
| "shown (PInt i) = Inr (if i < 0 then CHR ''-'' # dec (nat (- i)) else dec (nat i))"
| "shown (PStr s) = Inr s"
| "shown _ = Inl (ValueError ''unsupported format'')"

definition format_of :: "expr list \<Rightarrow> expr" where
  "format_of es = bnd (exprs es) (\<lambda>xs. bnd (mapm shown xs) (\<lambda>ts. Inr (PStr (concat ts))))"

text \<open>\<open>Path(s).name\<close> of a POSIX path: its last component, empty and \<open>.\<close> components ignored.\<close>

fun split_on :: "char \<Rightarrow> string \<Rightarrow> string list" where
  "split_on c [] = [[]]"
| "split_on c (d # s) =
     (if c = d then [] # split_on c s
      else case split_on c s of [] \<Rightarrow> [[d]] | w # ws \<Rightarrow> (d # w) # ws)"

definition path_name :: "expr \<Rightarrow> expr" where
  "path_name a = bnd a (\<lambda>x. case x of
     PStr s \<Rightarrow> Inr (PStr (case rev (filter (\<lambda>w. w \<noteq> [] \<and> w \<noteq> ''.'') (split_on (CHR ''/'') s)) of
                    [] \<Rightarrow> [] | w # ws \<Rightarrow> w))
   | _ \<Rightarrow> Inl TypeError)"

section \<open>When statements return and conditions hold\<close>

definition refuted :: "expr \<Rightarrow> bool" where
  "refuted c \<longleftrightarrow> (case c of Inl _ \<Rightarrow> False | Inr v \<Rightarrow> \<not> truthy v)"

declare bnd_eq_Inr [ctrl_simps]

lemma holds_Inr [simp]: "holds (Inr v) \<longleftrightarrow> truthy v" and holds_Inl [simp]: "\<not> holds (Inl e)"
  by (simp_all add: holds_def)

lemma refuted_Inr [simp]: "refuted (Inr v) \<longleftrightarrow> \<not> truthy v" and refuted_Inl [simp]: "\<not> refuted (Inl e)"
  by (simp_all add: refuted_def)

lemma holds_iff: "holds c \<longleftrightarrow> (\<exists>v. c = Inr v \<and> truthy v)"
  by (cases c) auto

lemma refuted_iff: "refuted c \<longleftrightarrow> (\<exists>v. c = Inr v \<and> \<not> truthy v)"
  by (cases c) auto

lemma not_both: "holds c \<Longrightarrow> refuted c \<Longrightarrow> False"
  by (auto simp: holds_iff refuted_iff)

lemma check_eq_Inr [ctrl_simps]: "check c msg k = Inr y \<longleftrightarrow> holds c \<and> k = Inr y"
  by (cases c) (auto simp: check_def)

lemma reject_eq_Inr [ctrl_simps]: "reject c msg k = Inr y \<longleftrightarrow> refuted c \<and> k = Inr y"
  by (cases c) (auto simp: reject_def)

lemma branch_eq_Inr [ctrl_simps]: "branch c a b = Inr y \<longleftrightarrow> holds c \<and> a = Inr y \<or> refuted c \<and> b = Inr y"
  by (cases c) (auto simp: branch_def)

lemma fail_neq_Inr [ctrl_simps]: "fail e = Inr y \<longleftrightarrow> False"
  by (cases e) (auto simp: fail_def)

lemma check_msg_eq_Inr [ctrl_simps]: "check_msg c e k = Inr y \<longleftrightarrow> holds c \<and> returns e \<and> k = Inr y"
  by (cases c; cases e) (auto simp: check_msg_def fail_def)

lemma loop_eq_Inr [ctrl_simps]:
  "loop xs s body = Inr y \<longleftrightarrow> (\<exists>v l. xs = Inr v \<and> iter v = Inr l \<and> foldm body s l = Inr y)"
  by (auto simp: loop_def ctrl_simps)

lemma call1_eq_Inr [ctrl_simps]: "call1 f a = Inr y \<longleftrightarrow> (\<exists>x. a = Inr x \<and> f x = Inr y)"
  by (auto simp: call1_def ctrl_simps)

lemma call2_eq_Inr [ctrl_simps]: "call2 f a b = Inr y \<longleftrightarrow> (\<exists>u v. a = Inr u \<and> b = Inr v \<and> f u v = Inr y)"
  by (auto simp: call2_def ctrl_simps)

lemma call3_eq_Inr [ctrl_simps]:
  "call3 f a b c = Inr y \<longleftrightarrow> (\<exists>u v w. a = Inr u \<and> b = Inr v \<and> c = Inr w \<and> f u v w = Inr y)"
  by (auto simp: call3_def ctrl_simps)

lemma call4_eq_Inr [ctrl_simps]:
  "call4 f a b c d = Inr y \<longleftrightarrow>
     (\<exists>u v w z. a = Inr u \<and> b = Inr v \<and> c = Inr w \<and> d = Inr z \<and> f u v w z = Inr y)"
  by (auto simp: call4_def ctrl_simps)

lemma unpack2_eq_Inr [ctrl_simps]: "unpack2 v f = Inr y \<longleftrightarrow> (\<exists>a b. iter v = Inr [a, b] \<and> f a b = Inr y)"
  unfolding unpack2_def bnd_eq_Inr by (auto split: list.split_asm)

lemma unpack3_eq_Inr [ctrl_simps]:
  "unpack3 v f = Inr y \<longleftrightarrow> (\<exists>a b c. iter v = Inr [a, b, c] \<and> f a b c = Inr y)"
  unfolding unpack3_def bnd_eq_Inr by (auto split: list.split_asm)

lemma unpack4_eq_Inr [ctrl_simps]:
  "unpack4 v f = Inr y \<longleftrightarrow> (\<exists>a b c d. iter v = Inr [a, b, c, d] \<and> f a b c d = Inr y)"
  unfolding unpack4_def bnd_eq_Inr by (auto split: list.split_asm)

lemma unpack5_eq_Inr [ctrl_simps]:
  "unpack5 v f = Inr y \<longleftrightarrow> (\<exists>a b c d e. iter v = Inr [a, b, c, d, e] \<and> f a b c d e = Inr y)"
  unfolding unpack5_def bnd_eq_Inr by (auto split: list.split_asm)

lemma unpack2_PTuple [simp]: "unpack2 (PTuple [a, b]) f = f a b"
  by (simp add: unpack2_def)

lemma unpack3_PTuple [simp]: "unpack3 (PTuple [a, b, c]) f = f a b c"
  by (simp add: unpack3_def)

lemma holds_conjs [holds_simps]: "holds (conjs cs) \<longleftrightarrow> list_all holds cs"
  by (induction cs rule: conjs.induct) (auto simp: holds_def split: sum.splits if_splits)

lemma refuted_disjs [holds_simps]: "refuted (disjs cs) \<longleftrightarrow> list_all refuted cs"
  by (induction cs rule: disjs.induct) (auto simp: refuted_def split: sum.splits if_splits)

lemma holds_nay [holds_simps]: "holds (nay c) \<longleftrightarrow> refuted c"
  by (cases c) (auto simp: nay_def)

lemma refuted_nay [holds_simps]: "refuted (nay c) \<longleftrightarrow> holds c"
  by (cases c) (auto simp: nay_def)

lemma holds_eq [holds_simps]: "holds (eq a b) \<longleftrightarrow> (\<exists>x y. a = Inr x \<and> b = Inr y \<and> py_eq x y)"
  by (cases a; cases b) (auto simp: eq_def)

lemma refuted_ne [holds_simps]: "refuted (ne a b) \<longleftrightarrow> (\<exists>x y. a = Inr x \<and> b = Inr y \<and> py_eq x y)"
  by (cases a; cases b) (auto simp: ne_def)

lemma holds_lt [holds_simps]: "holds (lt a b) \<longleftrightarrow> (\<exists>x y. a = Inr x \<and> b = Inr y \<and> py_less x y = Inr True)"
  by (cases a; cases b) (auto simp: lt_def bnd_case split: sum.splits)

lemma holds_le [holds_simps]: "holds (le a b) \<longleftrightarrow> (\<exists>x y. a = Inr x \<and> b = Inr y \<and> py_le x y = Inr True)"
  by (cases a; cases b) (auto simp: le_def bnd_case split: sum.splits)

lemma holds_gt [holds_simps]: "holds (gt a b) \<longleftrightarrow> (\<exists>x y. a = Inr x \<and> b = Inr y \<and> py_less y x = Inr True)"
  by (cases a; cases b) (auto simp: gt_def bnd_case split: sum.splits)

lemma holds_ge [holds_simps]: "holds (ge a b) \<longleftrightarrow> (\<exists>x y. a = Inr x \<and> b = Inr y \<and> py_le y x = Inr True)"
  by (cases a; cases b) (auto simp: ge_def bnd_case split: sum.splits)

lemma holds_same [holds_simps]: "holds (same a b) \<longleftrightarrow> (\<exists>x y. a = Inr x \<and> b = Inr y \<and> identical x y)"
  by (cases a; cases b) (auto simp: same_def)

lemma refuted_differs [holds_simps]: "refuted (differs a b) \<longleftrightarrow> (\<exists>x y. a = Inr x \<and> b = Inr y \<and> identical x y)"
  by (cases a; cases b) (auto simp: differs_def)

lemma holds_type_in [holds_simps]: "holds (type_in a ts) \<longleftrightarrow> (\<exists>x. a = Inr x \<and> type_of x \<in> set ts)"
  by (cases a) (auto simp: type_in_def)

lemma holds_isin [holds_simps]: "holds (isin a b) \<longleftrightarrow> (\<exists>x y. a = Inr x \<and> b = Inr y \<and> member x y = Inr True)"
  by (cases a; cases b) (auto simp: isin_def bnd_case split: sum.splits)

lemma holds_call1 [holds_simps]: "holds (call1 f a) \<longleftrightarrow> (\<exists>x. a = Inr x \<and> holds (f x))"
  by (cases a) (auto simp: call1_def)

lemma holds_branch [holds_simps]: "holds (branch c a b) \<longleftrightarrow> holds c \<and> holds a \<or> refuted c \<and> holds b"
  by (cases c) (auto simp: branch_def)

lemma holds_bnd: "holds (bnd a f) \<longleftrightarrow> (\<exists>v. a = Inr v \<and> holds (f v))"
  by (cases a) auto

lemma refuted_bnd: "refuted (bnd a f) \<longleftrightarrow> (\<exists>v. a = Inr v \<and> refuted (f v))"
  by (cases a) auto

lemma ex_true: "(\<exists>r. b = Inr r \<and> r) \<longleftrightarrow> b = Inr True"
  by auto

lemma ex_false: "(\<exists>r. b = Inr r \<and> \<not> r) \<longleftrightarrow> b = Inr False"
  by auto

lemma allm_truthy: "allm (\<lambda>x. bnd (p x) (\<lambda>r. Inr (truthy r))) l = Inr True \<longleftrightarrow> (\<forall>x\<in>set l. holds (p x))"
  by (auto simp: ok_simps holds_iff)

lemma anym_truthy: "anym (\<lambda>x. bnd (p x) (\<lambda>r. Inr (truthy r))) l = Inr False \<longleftrightarrow> (\<forall>x\<in>set l. refuted (p x))"
  by (auto simp: ok_simps refuted_iff)

lemma holds_every [holds_simps]:
  "holds (every xs p) \<longleftrightarrow> (\<exists>v l. xs = Inr v \<and> iter v = Inr l \<and> (\<forall>x\<in>set l. holds (p x)))"
  by (simp add: every_def holds_bnd ex_true allm_truthy)

lemma refuted_some [holds_simps]:
  "refuted (some xs p) \<longleftrightarrow> (\<exists>v l. xs = Inr v \<and> iter v = Inr l \<and> (\<forall>x\<in>set l. refuted (p x)))"
  by (simp add: some_def refuted_bnd ex_false anym_truthy)

lemma type_of_simps [simp]:
  "type_of v = TInt \<longleftrightarrow> (\<exists>i. v = PInt i)" "type_of v = TBool \<longleftrightarrow> (\<exists>b. v = PBool b)"
  "type_of v = TStr \<longleftrightarrow> (\<exists>s. v = PStr s)" "type_of v = TList \<longleftrightarrow> (\<exists>xs. v = PList xs)"
  "type_of v = TFloat \<longleftrightarrow> (\<exists>x. v = PFloat x)" "type_of v = TNone \<longleftrightarrow> v = PNone"
  by (cases v; simp)+

lemma identical_iff: "identical v w \<longleftrightarrow> v = w \<and> (v = PNone \<or> is_bool v)"
  by (cases v) auto

lemma identical_PBool [simp]: "identical v (PBool b) \<longleftrightarrow> v = PBool b" "identical v PNone \<longleftrightarrow> v = PNone"
  by (cases v; auto)+

lemma each_eq_Inr: "each xs f = Inr w \<longleftrightarrow>
    (\<exists>v l ys. xs = Inr v \<and> iter v = Inr l \<and> mapm f l = Inr ys \<and> w = PList ys)"
  by (auto simp: each_def ctrl_simps)

lemma fields_eq_Inr [ctrl_simps]:
  "fields [] = Inr d \<longleftrightarrow> d = []"
  "fields ((k, e) # es) = Inr d \<longleftrightarrow> (\<exists>x d'. e = Inr x \<and> fields es = Inr d' \<and> d = (k, x) # d')"
  by (auto simp: ctrl_simps)

lemma exprs_eq_Inr [ctrl_simps]:
  "exprs [] = Inr d \<longleftrightarrow> d = []"
  "exprs (e # es) = Inr d \<longleftrightarrow> (\<exists>x d'. e = Inr x \<and> exprs es = Inr d' \<and> d = x # d')"
  by (auto simp: ctrl_simps)

lemma dict_of_eq_Inr [ctrl_simps]: "dict_of es = Inr v \<longleftrightarrow> (\<exists>d. fields es = Inr d \<and> v = PDict d)"
  by (auto simp: dict_of_def ctrl_simps)

lemma list_of_eq_Inr [ctrl_simps]: "list_of es = Inr v \<longleftrightarrow> (\<exists>xs. exprs es = Inr xs \<and> v = PList xs)"
  by (auto simp: list_of_def ctrl_simps)

lemma tuple_of_eq_Inr [ctrl_simps]: "tuple_of es = Inr v \<longleftrightarrow> (\<exists>xs. exprs es = Inr xs \<and> v = PTuple xs)"
  by (auto simp: tuple_of_def ctrl_simps)

end
