(* ===== verification/PyLoads.thy ===== *)
theory PyLoads
  imports PyDump RouteTrace PyExpr
begin

text \<open>
  \<open>json.loads\<close> and \<open>json.dumps\<close> with their default settings, as \<open>block_cache_replay.py\<close> calls them: a
  repeated key keeps its first place and its last value, and non-finite numbers are read and
  printed. Texts are UTF-8; strings and numbers are scanned as by the strict reader.
\<close>

section \<open>Reading\<close>

definition load_number :: "bool \<Rightarrow> string \<Rightarrow> (pyval \<times> string) result" where
  "load_number negative s =
     (if takeWhile is_digit s = [] then bad
      else let zero = (hd s = CHR ''0'');
               int_part = (if zero then [CHR ''0''] else takeWhile is_digit s);
               (fraction, r) = scan_fraction (if zero then tl s else dropWhile is_digit s);
               (exponent, r) = scan_exponent r
           in if fraction = [] \<and> exponent = None
              then bnd (number_value negative int_part fraction exponent) (\<lambda>v. Inr (v, r))
              else Inr (PFloat (round_fl ((if negative then - 1 else 1) * of_int (digits_value (int_part @ fraction)) *
                     pow10 ((case exponent of None \<Rightarrow> 0 | Some k \<Rightarrow> k) - len fraction))), r))"

definition keep_last :: "(string \<times> pyval) list \<Rightarrow> (string \<times> pyval) list" where
  "keep_last pairs = foldl (\<lambda>d (key, value). aput d key value) [] pairs"

fun load_value :: "nat \<Rightarrow> string \<Rightarrow> (pyval \<times> string) result"
and load_items :: "nat \<Rightarrow> string \<Rightarrow> (pyval list \<times> string) result"
and load_pairs :: "nat \<Rightarrow> string \<Rightarrow> ((string \<times> pyval) list \<times> string) result"
where
  "load_value 0 s = bad"
| "load_value (Suc n) s =
     (if s = [] then bad
      else if hd s = CHR 0x22 then bnd (scan_string n (tl s)) (\<lambda>(t, r). Inr (PStr t, r))
      else if hd s = CHR ''{'' then
        (let s = skip_ws (tl s)
         in if s \<noteq> [] \<and> hd s = CHR ''}'' then Inr (PDict [], tl s)
            else bnd (load_pairs n s) (\<lambda>(ps, r). Inr (PDict (keep_last ps), r)))
      else if hd s = CHR ''['' then
        (let s = skip_ws (tl s)
         in if s \<noteq> [] \<and> hd s = CHR '']'' then Inr (PList [], tl s)
            else bnd (load_items n s) (\<lambda>(xs, r). Inr (PList xs, r)))
      else if starts ''null'' s then Inr (PNone, drop 4 s)
      else if starts ''true'' s then Inr (PBool True, drop 4 s)
      else if starts ''false'' s then Inr (PBool False, drop 5 s)
      else if starts ''NaN'' s then Inr (PFloat FNaN, drop 3 s)
      else if starts ''Infinity'' s then Inr (PFloat FInf, drop 8 s)
      else if starts ''-Infinity'' s then Inr (PFloat FNegInf, drop 9 s)
      else if hd s = CHR ''-'' then load_number True (tl s) else load_number False s)"
| "load_items 0 s = bad"
| "load_items (Suc n) s =
     bnd (load_value n s) (\<lambda>(x, r).
     let r = skip_ws r
     in if r = [] then bad
        else if hd r = CHR '']'' then Inr ([x], tl r)
        else if hd r = CHR '','' then bnd (load_items n (skip_ws (tl r))) (\<lambda>(xs, r'). Inr (x # xs, r'))
        else bad)"
| "load_pairs 0 s = bad"
| "load_pairs (Suc n) s =
     (if s = [] \<or> hd s \<noteq> CHR 0x22 then bad
      else bnd (scan_string n (tl s)) (\<lambda>(k, r).
        let r = skip_ws r
        in if r = [] \<or> hd r \<noteq> CHR '':'' then bad
           else bnd (load_value n (skip_ws (tl r))) (\<lambda>(v, r).
             let r = skip_ws r
             in if r = [] then bad
                else if hd r = CHR ''}'' then Inr ([(k, v)], tl r)
                else if hd r = CHR '','' then bnd (load_pairs n (skip_ws (tl r))) (\<lambda>(ps, r'). Inr ((k, v) # ps, r'))
                else bad)))"

text \<open>\<open>json.loads\<close> of bytes; a line of the trace is one such document.\<close>

definition loads :: "string \<Rightarrow> pyval result" where
  "loads raw =
     (if \<not> utf8_ok raw then Inl (ValueError ''Invalid UTF-8'')
      else let s = (if starts bom raw then drop 3 raw else raw)
           in bnd (load_value (2 * length s + 1) (skip_ws s)) (\<lambda>(v, r).
              if skip_ws r = [] then Inr v else Inl (ValueError ''Extra data'')))"

definition without_end :: "string \<Rightarrow> string" where
  "without_end line = rev (dropWhile (\<lambda>c. c = CHR 0x0A \<or> c = CHR 0x0D) (rev line))"

text \<open>A line of \<open>splitlines_keep\<close> holds no other line end than its own.\<close>

definition splitlines :: "string \<Rightarrow> string list" where
  "splitlines raw = map without_end (splitlines_keep raw)"

section \<open>Printing\<close>

definition float_text :: "(pfloat \<Rightarrow> string) \<Rightarrow> pfloat \<Rightarrow> string" where
  "float_text float_repr x = (case x of FNum q \<Rightarrow> float_repr (FNum q) | FNaN \<Rightarrow> ''NaN''
     | FInf \<Rightarrow> ''Infinity'' | FNegInf \<Rightarrow> ''-Infinity'')"

fun separated :: "string \<Rightarrow> string list \<Rightarrow> string" where
  "separated sep [] = []"
| "separated sep [t] = t"
| "separated sep (t # ts) = t @ sep @ separated sep ts"

text \<open>\<open>sort_keys\<close>, the item separator and the key separator are the arguments of \<open>json.dumps\<close>.\<close>

fun dump_text :: "(pfloat \<Rightarrow> string) \<Rightarrow> bool \<Rightarrow> string \<Rightarrow> string \<Rightarrow> pyval \<Rightarrow> string result" where
  "dump_text float_repr sort_keys sep colon PNone = Inr ''null''"
| "dump_text float_repr sort_keys sep colon (PBool b) = Inr (if b then ''true'' else ''false'')"
| "dump_text float_repr sort_keys sep colon (PInt i) = dump_int i"
| "dump_text float_repr sort_keys sep colon (PFloat x) = Inr (float_text float_repr x)"
| "dump_text float_repr sort_keys sep colon (PStr s) = Inr (dump_string s)"
| "dump_text float_repr sort_keys sep colon (PList xs) =
     bnd (mapm (dump_text float_repr sort_keys sep colon) xs) (\<lambda>ts. Inr (''['' @ separated sep ts @ '']''))"
| "dump_text float_repr sort_keys sep colon (PTuple xs) =
     bnd (mapm (dump_text float_repr sort_keys sep colon) xs) (\<lambda>ts. Inr (''['' @ separated sep ts @ '']''))"
| "dump_text float_repr sort_keys sep colon (PDict d) =
     bnd (mapm (\<lambda>p. bnd (dump_text float_repr sort_keys sep colon (snd p)) (\<lambda>t. Inr (fst p, t))) d) (\<lambda>ps.
     Inr (''{'' @ separated sep (map (\<lambda>p. dump_string (fst p) @ colon @ snd p)
       (if sort_keys then sort_key fst ps else ps)) @ ''}''))"
| "dump_text float_repr sort_keys sep colon (PSet xs) = Inl TypeError"
| "dump_text float_repr sort_keys sep colon (PMap m) = Inl TypeError"

text \<open>As for \<open>dumps\<close>, dictionaries with other keys than strings are not printed by the scripts.\<close>

definition text_of :: "(pfloat \<Rightarrow> string) \<Rightarrow> bool \<Rightarrow> string \<Rightarrow> string \<Rightarrow> expr \<Rightarrow> expr" where
  "text_of float_repr sort_keys sep colon e =
     bnd e (\<lambda>v. bnd (dump_text float_repr sort_keys sep colon v) (\<lambda>t. Inr (PStr t)))"

end
