(* ===== verification/ReplayDecode.thy ===== *)
theory ReplayDecode
  imports ReplayRuns PyLoads
begin

text \<open>
  The native event trace of a block run and its offline replay (\<open>block_cache_replay.decode\<close>,
  \<open>simulate\<close>, \<open>curves\<close>). The state of the loop of \<open>decode\<close> is a record, each kind of event one
  definition. \<open>float_repr\<close> prints a float and \<open>sha256\<close> is the hexadecimal hash of a byte string.
\<close>

section \<open>The state of the loop\<close>

record replay =
  rp_cache :: cache
  rp_forwards :: "pyval list"
  rp_active :: pyval
  rp_pending :: pyval
  rp_snapshots :: "pyval list"
  rp_histories :: pyval
  rp_requests :: "pyval list"
  rp_max_pins :: int

definition replay_start :: "cache \<Rightarrow> replay" where
  "replay_start c = \<lparr>rp_cache = c, rp_forwards = [], rp_active = PNone, rp_pending = PNone, rp_snapshots = [],
     rp_histories = PList (replicate 48 (PList [])), rp_requests = [], rp_max_pins = 0\<rparr>"

definition in_range :: "expr \<Rightarrow> int \<Rightarrow> int \<Rightarrow> string \<Rightarrow> 'a result \<Rightarrow> 'a result" where
  "in_range e low high label k = bnd e (\<lambda>v. bnd (integer v low high label) (\<lambda>_. k))"

text \<open>
  Membership and leases by a key of the trace. The trace's keys have passed \<open>integer\<close> before, so the
  other values are never looked up.
\<close>

definition in_lookup :: "cache \<Rightarrow> pyval \<Rightarrow> bool" where
  "in_lookup c v = (case v of PInt k \<Rightarrow> map_of (ca_lookup c) k \<noteq> None | _ \<Rightarrow> False)"

definition lease_key :: "cache \<Rightarrow> pyval \<Rightarrow> bool \<Rightarrow> (int \<times> cache) result" where
  "lease_key c v release =
     (case v of PInt k \<Rightarrow> lease c k release | _ \<Rightarrow> Inl (ValueError ''Lease refers to evicted or missing entry''))"

section \<open>Events\<close>

definition replay_forward_begin :: "(pfloat \<Rightarrow> string) \<Rightarrow> pyval \<Rightarrow> pyval \<Rightarrow> pyval \<Rightarrow> replay \<Rightarrow> replay result" where
  "replay_forward_begin float_repr patterns words d s =
     check (conjs [same (ret (rp_active s)) none, Inr (PBool (pins (rp_cache s) = 0)),
          lt (num (len (rp_forwards s))) (size_of (ret patterns))])
       ''Overlapping/extra forward or live prior leases'' (
     bnd (index (ret patterns) (num (len (rp_forwards s)))) (\<lambda>tup1.
     unpack3 tup1 (\<lambda>at' count phase.
     bnd (dict_of [(''offset'', ret at'), (''tokens'', ret count),
          (''input'', slice (ret words) (ret at') (add (ret at') (ret count))), (''phase'', ret phase)]) (\<lambda>expected.
     check (eq (text_of float_repr True '', '' '': '' (ret d)) (text_of float_repr True '', '' '': '' (ret expected)))
       ''Changed forward coverage or tokens'' (
     bnd (dict_of [(''offset'', ret at'), (''tokens'', ret count), (''phase'', ret phase), (''layers'', num 0),
          (''selected'', list_of []), (''index'', num 0), (''hits_before'', num (ca_hits (rp_cache s))),
          (''misses_before'', num (ca_misses (rp_cache s))), (''demands'', list_of []), (''snapshots'', num 0)]) (\<lambda>active.
     Inr (s\<lparr>rp_active := active\<rparr>)))))))"

definition distinct_routes :: "pyval \<Rightarrow> unit result" where
  "distinct_routes routes =
     loop (range_step (num 0) (size_of (ret routes)) (num TOP_K)) () (\<lambda>_ start.
       bnd (slice (ret routes) (ret start) (add (ret start) (num TOP_K))) (\<lambda>group.
       check (eq (size_of (set_of (ret group))) (num TOP_K)) ''Duplicate routed expert'' (
       loop (ret group) () (\<lambda>_ key. in_range (ret key) 0 (EXPERTS - 1) ''route'' (Inr ())))))"

definition layer_event :: "pyval \<Rightarrow> replay \<Rightarrow> replay result" where
  "layer_event d s =
     (let active = ret (rp_active s) in
     check (conjs [differs active none, Inr (PBool (pins (rp_cache s) = 0)),
          eq (item active ''index'') (size_of (item active ''selected''))])
       ''Layer boundary omitted demands or live users'' (
     bnd (item active ''layers'') (\<lambda>layer.
     bnd (item (ret d) ''routes'') (\<lambda>routes.
     bnd (item (ret d) ''selected'') (\<lambda>selected.
     in_range (item (ret d) ''layer'') 0 47 ''layer'' (
     in_range (item (ret d) ''offset'') 0 8191 ''offset'' (
     in_range (item (ret d) ''tokens'') 1 8192 ''tokens'' (
     check (conjs [lt (ret layer) (num LAYERS), eq (item (ret d) ''layer'') (ret layer),
          eq (item (ret d) ''offset'') (item active ''offset''),
          eq (item (ret d) ''tokens'') (item active ''tokens''),
          eq (size_of (ret routes)) (mul (item active ''tokens'') (num TOP_K))]) ''Invalid layer coverage'' (
     bnd (distinct_routes routes) (\<lambda>_.
     bnd (sorted_of (set_of (ret routes))) (\<lambda>ascending.
     bnd (each (ret ascending) (\<lambda>k. add (mul (ret layer) (num EXPERTS)) (ret k))) (\<lambda>keys.
     bnd (loop (ret selected) () (\<lambda>_ expert. in_range (ret expert) 0 (EXPERTS - 1) ''selected expert'' (Inr ()))) (\<lambda>_.
     bnd (branch (gt (item active ''tokens'') (num 32)) (ret ascending)
         (add (each_if (ret keys) (\<lambda>k. Inr (PBool (in_lookup (rp_cache s) k))) (\<lambda>k. modulo (ret k) (num EXPERTS)))
              (each_if (ret keys) (\<lambda>k. Inr (PBool (\<not> in_lookup (rp_cache s) k))) (\<lambda>k. modulo (ret k) (num EXPERTS))))) (\<lambda>expected.
     check (eq (ret selected) (ret expected)) ''Native hit-first demand ordering differs'' (
     bnd (put (ret (rp_histories s)) (ret layer) (list_extend (index (ret (rp_histories s)) (ret layer)) (ret routes))) (\<lambda>histories.
     bnd (merge active (dict_of [(''layers'', add (ret layer) (num 1)),
         (''selected'', each (ret selected) (\<lambda>k. add (mul (ret layer) (num EXPERTS)) (ret k))),
         (''index'', num 0)])) (\<lambda>active.
     Inr (s\<lparr>rp_active := active, rp_histories := histories\<rparr>))))))))))))))))))"

definition acquire_event :: "int \<Rightarrow> pyval \<Rightarrow> replay \<Rightarrow> replay result" where
  "acquire_event capacity d s =
     (let active = ret (rp_active s) in
     check (conjs [differs active none, lt (item active ''index'') (size_of (item active ''selected'')),
          eq (item (ret d) ''key'') (index (item active ''selected'') (item active ''index''))])
       ''Acquisition does not match selected order'' (
     bnd (item (ret d) ''acquisition'') (\<lambda>a.
     bnd (integer a 0 2 ''acquisition kind'') (\<lambda>kind.
     in_range (item (ret d) ''slot'') 0 (capacity - 1) ''slot'' (
     in_range (item (ret d) ''victim'') (- 1) (LAYERS * EXPERTS - 1) ''victim'' (
     bnd (item (ret d) ''key'') (\<lambda>key.
     bnd (acquire (rp_cache s) key (Some kind)) (\<lambda>((hit, slot, victim), cache).
     check (conjs [Inr (PBool (hit = (kind \<noteq> 0))),
          eq (tuple_of [num (int slot), num victim]) (tuple_of [item (ret d) ''slot'', item (ret d) ''victim''])])
       ''Native CLOCK decision does not replay'' (
     bnd (put active (str ''index'') (add (item active ''index'') (num 1))) (\<lambda>active.
     bnd (put (ret active) (str ''demands'') (append (item (ret active) ''demands'') (ret key))) (\<lambda>active.
     bnd (dict_of [(''event'', str ''acquire''), (''key'', ret key), (''forward'', num (len (rp_forwards s)))]) (\<lambda>request.
     Inr (s\<lparr>rp_cache := cache, rp_active := active, rp_pending := key, rp_requests := rp_requests s @ [request]\<rparr>)))))))))))))"

definition lease_event :: "pyval \<Rightarrow> bool \<Rightarrow> pyval \<Rightarrow> replay \<Rightarrow> replay result" where
  "lease_event name release d s =
     bnd (item (ret d) ''key'') (\<lambda>key.
     in_range (ret key) 0 (LAYERS * EXPERTS - 1) ''lease key'' (
     in_range (item (ret d) ''pins'') 0 32 ''pin count'' (
     check (disjs [Inr (PBool release), eq (ret key) (ret (rp_pending s))]) ''Pin does not own preceding acquisition'' (
     check (if release then same (item (ret d) ''ready'') yes else same (item (ret d) ''ready'') none)
       ''Lease released before its read completed'' (
     bnd (item (ret d) ''pins'') (\<lambda>native.
     bnd (lease_key (rp_cache s) key release) (\<lambda>(count, cache).
     check (eq (ret native) (num count)) ''Native pin count differs'' (
     let most = max (rp_max_pins s) (pins cache) in
     check (Inr (PBool (most \<le> 32))) ''Lease window exceeded'' (
     bnd (dict_of [(''event'', ret name), (''key'', ret key), (''forward'', num (len (rp_forwards s)))]) (\<lambda>request.
     Inr (s\<lparr>rp_cache := cache, rp_max_pins := most, rp_pending := (if release then rp_pending s else PNone),
            rp_requests := rp_requests s @ [request]\<rparr>)))))))))))"

definition snapshot_event :: "(pfloat \<Rightarrow> string) \<Rightarrow> (string \<Rightarrow> string) \<Rightarrow> pyval \<Rightarrow> replay \<Rightarrow> replay result" where
  "snapshot_event float_repr sha256 d s =
     (let active = ret (rp_active s); c = rp_cache s in
     bnd (branch (differs active none)
         (check (conjs [eq (item active ''layers'') (num 48),
              eq (item active ''index'') (size_of (item active ''selected''))])
           ''Snapshot precedes completed layer work'' (
         put active (str ''snapshots'') (add (item active ''snapshots'') (num 1))))
         active) (\<lambda>active.
     bnd (cache_state c) (\<lambda>state.
     bnd (dump_text float_repr False '','' '':'' state) (\<lambda>encoded.
     check (eq (text_of float_repr False '','' '':'' (item (ret d) ''state'')) (str encoded))
       ''Native cache state does not replay'' (
     bnd (str (sha256 encoded)) (\<lambda>digest.
     bnd (item (ret d) ''stats'') (\<lambda>stats.
     bnd (foldm (\<lambda>_ key. in_range (item (ret stats) key) 0 (100000 * PAYLOAD_BYTES) key (Inr ())) ()
         [''hits'', ''misses'', ''evictions'', ''application_read_bytes'', ''ready_hits'', ''loading_joins'']) (\<lambda>_.
     bnd (foldm (\<lambda>_ key. loop (item (ret stats) key) () (\<lambda>_ count. in_range (ret count) 0 100000 key (Inr ()))) ()
         [''layer_hits'', ''layer_misses'']) (\<lambda>_.
     check (conjs [eq (item (ret stats) ''diagnostic_cache_state'') (ret digest),
          eq (item (ret stats) ''hits'') (num (ca_hits c)),
          eq (item (ret stats) ''misses'') (num (ca_misses c)),
          eq (item (ret stats) ''evictions'') (num (ca_evictions c)),
          eq (item (ret stats) ''application_read_bytes'') (num (ca_misses c * PAYLOAD_BYTES)),
          eq (item (ret stats) ''ready_hits'') (num (ca_ready_hits c)),
          eq (item (ret stats) ''loading_joins'') (num (ca_joins c)),
          eq (item (ret stats) ''layer_hits'') (ret (PList (map PInt (ca_layer_hits c)))),
          eq (item (ret stats) ''layer_misses'') (ret (PList (map PInt (ca_layer_misses c))))])
       ''Native cache counters do not replay'' (
     bnd (dict_of [(''hash'', ret digest), (''hits'', num (ca_hits c)), (''misses'', num (ca_misses c))]) (\<lambda>snapshot.
     Inr (s\<lparr>rp_active := active, rp_snapshots := rp_snapshots s @ [snapshot]\<rparr>))))))))))))"

text \<open>\<open>struct.pack('<'+'i'*len(v),*v)\<close>; every value is a checked expert number, so no other value is packed.\<close>

definition pack_int :: "pyval \<Rightarrow> string result" where
  "pack_int v = (case v of
     PInt i \<Rightarrow> (if - 2147483648 \<le> i \<and> i \<le> 2147483647
                then Inr (map (\<lambda>k. byte_char (i div 256 ^ k mod 256)) [0, 1, 2, 3]) else Inl TypeError)
   | _ \<Rightarrow> Inl TypeError)"

definition route_digest :: "(string \<Rightarrow> string) \<Rightarrow> pyval \<Rightarrow> pyval \<Rightarrow> pyval \<Rightarrow> expr" where
  "route_digest sha256 position i v =
     bnd (iter v) (\<lambda>routes. bnd (mapm pack_int routes) (\<lambda>packed.
     dict_of [(''layer'', ret i), (''tokens'', ret position), (''sha256'', str (sha256 (concat packed)))]))"

definition replay_forward_end :: "(string \<Rightarrow> string) \<Rightarrow> pyval \<Rightarrow> pyval \<Rightarrow> replay \<Rightarrow> replay result" where
  "replay_forward_end sha256 raw d s =
     (let active = ret (rp_active s); c = rp_cache s in
     check (conjs [differs active none, eq (item active ''layers'') (num 48),
          eq (item active ''index'') (size_of (item active ''selected'')),
          ge (item active ''snapshots'') (num 1), Inr (PBool (pins c = 0)),
          eq (ret d) (dict_of [(''position'', add (item active ''offset'') (item active ''tokens''))])])
       ''Incomplete forward'' (
     bnd (if rp_forwards s = [] then item (item (ret raw) ''prime'') ''routes''
          else item (index (item (ret raw) ''blocks'') (num (len (rp_forwards s) - 1))) ''routes'') (\<lambda>target.
     bnd (each (numbered (ret (rp_histories s)) 0) (\<lambda>tup1. unpack2 tup1 (\<lambda>i v.
         bnd (item (ret d) ''position'') (\<lambda>position. route_digest sha256 position i v)))) (\<lambda>expected.
     check (eq (ret target) (ret expected)) ''Captured routes differ from native state identity'' (
     bnd (dict_of [(''offset'', item active ''offset''), (''tokens'', item active ''tokens''),
         (''phase'', item active ''phase''), (''hits'', sub (num (ca_hits c)) (item active ''hits_before'')),
         (''misses'', sub (num (ca_misses c)) (item active ''misses_before'')),
         (''distinct_records'', size_of (set_of (item active ''demands''))), (''demands'', item active ''demands'')]) (\<lambda>forward.
     Inr (s\<lparr>rp_forwards := rp_forwards s @ [forward], rp_active := PNone\<rparr>)))))))"

definition replay_event :: "(pfloat \<Rightarrow> string) \<Rightarrow> (string \<Rightarrow> string) \<Rightarrow> pyval \<Rightarrow> pyval \<Rightarrow> pyval \<Rightarrow> int \<Rightarrow> replay \<Rightarrow> pyval \<Rightarrow> replay result" where
  "replay_event float_repr sha256 raw patterns words capacity s event =
     bnd (item (ret event) ''event'') (\<lambda>name.
     bnd (item (ret event) ''detail'') (\<lambda>d.
     check (disjs [same (ret (rp_pending s)) none, eq (ret name) (str ''pin'')]) ''Acquisition was not pinned immediately'' (
     branch (eq (ret name) (str ''forward_begin'')) (replay_forward_begin float_repr patterns words d s) (
     branch (eq (ret name) (str ''layer'')) (layer_event d s) (
     branch (eq (ret name) (str ''acquire'')) (acquire_event capacity d s) (
     branch (isin (ret name) (tuple_of [str ''pin'', str ''release'']))
       (lease_event name (py_eq name (PStr ''release'')) d s) (
     branch (eq (ret name) (str ''snapshot'')) (snapshot_event float_repr sha256 d s) (
     branch (eq (ret name) (str ''forward_end'')) (replay_forward_end sha256 raw d s) (
     fail (add (str ''Unknown cache trace event '') (ret name)))))))))))"

section \<open>The whole trace\<close>

definition expected_coverage :: "pyval \<Rightarrow> pyval" where
  "expected_coverage expected_patterns =
     (if expected_patterns \<noteq> PNone then expected_patterns
      else PList (PTuple [PInt 0, PInt 72, PStr ''prefill''] #
             map (\<lambda>i. PTuple [PInt i, PInt 4, PStr ''decode'']) [72, 76, 80, 84]))"

definition coverage_step :: "pyval \<Rightarrow> pyval \<Rightarrow> expr" where
  "coverage_step position tup1 =
     unpack2 tup1 (\<lambda>i tup2. unpack3 tup2 (\<lambda>at' count phase.
     in_range (ret at') 0 8191 ''forward offset'' (
     in_range (ret count) 1 128 ''forward tokens'' (
     check (conjs [eq (ret at') (ret position),
          eq (ret phase) (branch (eq (ret i) (num 0)) (str ''prefill'') (str ''decode''))])
       ''Noncontiguous expected forwards'' (
     add (ret position) (ret count))))))"

definition check_coverage :: "pyval \<Rightarrow> pyval \<Rightarrow> unit result" where
  "check_coverage work patterns =
     check (conjs [isinstance (ret patterns) [TList], le (num 2) (size_of (ret patterns)),
          le (size_of (ret patterns)) (num 65)]) ''Missing bounded forward coverage'' (
     bnd (loop (numbered (ret patterns) 0) (PInt 0) coverage_step) (\<lambda>position.
     check (conjs [eq (ret position) (add (size_of (item (ret work) ''prompt_ids'')) (size_of (item (ret work) ''continuation_ids''))),
          eq (index (index (ret patterns) (num 0)) (num 1)) (size_of (item (ret work) ''prompt_ids''))])
       ''Expected coverage does not match workload'' (Inr ())))"

definition trace_lines :: "string \<Rightarrow> pyval list result" where
  "trace_lines data =
     check (Inr (PBool (length data \<le> 32 * 1024 ^ 2))) ''Oversized block trace'' (
     let lines = splitlines data in
     check (Inr (PBool (2 \<le> length lines \<and> length lines \<le> 100000))) ''Missing or excessive events'' (
     bnd (mapm loads lines) (\<lambda>events.
     check (every (numbered (ret (PList events)) 0) (\<lambda>tup1. unpack2 tup1 (\<lambda>i e.
         conjs [eq (set_of (ret e)) (set_disp [str ''sequence'', str ''event'', str ''detail'']),
            type_in (item (ret e) ''sequence'') [TInt],
            eq (item (ret e) ''sequence'') (add (ret i) (num 1))])))
       ''Missing, duplicate or reordered event sequence'' (Inr events))))"

definition check_boundary :: "pyval \<Rightarrow> replay \<Rightarrow> string \<times> pyval list \<Rightarrow> unit result" where
  "check_boundary raw s = (\<lambda>(prefix, state).
     bnd (sum_of (each (ret (PList state)) (\<lambda>f. item (ret f) ''hits''))) (\<lambda>hits.
     bnd (sum_of (each (ret (PList state)) (\<lambda>f. item (ret f) ''misses''))) (\<lambda>misses.
     bnd (item (item (ret raw) prefix) ''expert_cache'') (\<lambda>actual.
     check (conjs [eq (tuple_of [item (ret actual) ''hits'', item (ret actual) ''misses'',
              item (ret actual) ''application_read_bytes''])
            (tuple_of [ret hits, ret misses, mul (ret misses) (num PAYLOAD_BYTES)]),
          isin (dict_of [(''hash'', item (ret actual) ''diagnostic_cache_state''), (''hits'', ret hits),
              (''misses'', ret misses)]) (ret (PList (rp_snapshots s)))])
       ''Trace misses native report boundary'' (Inr ())))))"

definition replay_report :: "int \<Rightarrow> pyval list \<Rightarrow> replay \<Rightarrow> pyval" where
  "replay_report capacity events s = PDict [(''capacity'', PInt capacity), (''events'', PList events),
     (''requests'', PList (rp_requests s)), (''forwards'', PList (rp_forwards s)),
     (''snapshots_verified'', PInt (len (rp_snapshots s))), (''max_pins'', PInt (rp_max_pins s)),
     (''native_counts_exact'', PBool True), (''native_slot_state_exact'', PBool True)]"

definition decode_replay :: "(pfloat \<Rightarrow> string) \<Rightarrow> (string \<Rightarrow> string) \<Rightarrow> string \<Rightarrow> pyval \<Rightarrow> pyval \<Rightarrow> pyval \<Rightarrow> pyval \<Rightarrow> expr" where
  "decode_replay float_repr sha256 data raw work fingerprint expected_patterns =
     bnd (trace_lines data) (\<lambda>events.
     bnd (index (ret (PList events)) (num 0)) (\<lambda>begin'.
     bnd (index (ret (PList events)) (num (- 1))) (\<lambda>finish.
     check (conjs [eq (item (ret begin') ''event'') (str ''begin''), eq (item (ret finish) ''event'') (str ''end''),
          eq (item (ret finish) ''detail'') (dict_of [(''complete'', yes)])]) ''Capture is incomplete'' (
     bnd (item (item (ret raw) ''configuration'') ''expert_slots'') (\<lambda>slots.
     check (eq (item (ret begin') ''detail'') (dict_of [(''kind'', str ''qwen_block_cache_events_v1''),
          (''capacity'', ret slots), (''policy'', str ''clock''), (''build'', ret fingerprint),
          (''payload_bytes'', num PAYLOAD_BYTES), (''slot_bytes'', num SLOT_BYTES),
          (''workspace_bound_bytes'', num (32 * 1024 ^ 2))])) ''Changed trace identity/format'' (
     check (eq (item (ret raw) ''expert_cache_trace'') (dict_of [(''complete'', yes), (''events'', num (len events)),
          (''bytes'', num (len data)), (''workspace_bound_bytes'', num (32 * 1024 ^ 2)),
          (''performance_measurement'', no)])) ''Native trace receipt differs'' (
     bnd (cache_new slots ''clock'') (\<lambda>cache.
     let capacity = int (ca_capacity cache); patterns = expected_coverage expected_patterns in
     bnd (check_coverage work patterns) (\<lambda>_.
     bnd (add (item (ret work) ''prompt_ids'') (item (ret work) ''continuation_ids'')) (\<lambda>words.
     bnd (foldm (replay_event float_repr sha256 raw patterns words capacity) (replay_start cache)
           (slice_list events (Some 1) (Some (- 1)))) (\<lambda>s.
     check (conjs [same (ret (rp_active s)) none, same (ret (rp_pending s)) none,
          eq (num (len (rp_forwards s))) (size_of (ret patterns)), Inr (PBool (pins (rp_cache s) = 0))])
       ''Incomplete terminal state'' (
     bnd (foldm (\<lambda>_. check_boundary raw s) ()
           [(''before'', slice_list (rp_forwards s) None (Some 1)), (''after'', rp_forwards s)]) (\<lambda>_.
     Inr (replay_report capacity events s))))))))))))))"

section \<open>Offline replay\<close>

definition simulate_request :: "cache \<times> pyval \<Rightarrow> pyval \<Rightarrow> (cache \<times> pyval) result" where
  "simulate_request = (\<lambda>(cache, blocks) event.
     branch (eq (item (ret event) ''event'') (str ''acquire''))
       (bnd (item (ret event) ''key'') (\<lambda>key.
        bnd (acquire cache key None) (\<lambda>((hit, _, _), cache).
        bnd (item (ret event) ''forward'') (\<lambda>f.
        let k = str (if hit then ''hits'' else ''misses'') in
        bnd (put (ret blocks) (ret f) (put (index (ret blocks) (ret f)) k
            (add (index (index (ret blocks) (ret f)) k) (num 1)))) (\<lambda>blocks.
        Inr (cache, blocks))))))
       (bnd (item (ret event) ''key'') (\<lambda>key.
        bnd (eq (item (ret event) ''event'') (str ''release'')) (\<lambda>release.
        bnd (lease_key cache key (truthy release)) (\<lambda>(_, cache). Inr (cache, blocks))))))"

definition simulate :: "pyval \<Rightarrow> pyval \<Rightarrow> string \<Rightarrow> expr" where
  "simulate trace capacity policy =
     bnd (cache_new capacity policy) (\<lambda>cache.
     bnd (each (item (ret trace) ''forwards'') (\<lambda>_. dict_of [(''hits'', num 0), (''misses'', num 0)])) (\<lambda>blocks.
     bnd (loop (item (ret trace) ''requests'') (cache, blocks) simulate_request) (\<lambda>(cache, blocks).
     check (Inr (PBool (pins cache = 0))) ''Simulation left live leases'' (
     bnd (sum_of (each (slice (ret blocks) (num 1) none) (\<lambda>b. item (ret b) ''hits''))) (\<lambda>hit.
     bnd (sum_of (each (slice (ret blocks) (num 1) none) (\<lambda>b. item (ret b) ''misses''))) (\<lambda>miss.
     dict_of [(''capacity'', ret capacity), (''policy'', str policy), (''blocks'', ret blocks),
         (''decode_hits'', ret hit), (''decode_misses'', ret miss),
         (''decode_application_read_bytes'', mul (ret miss) (num PAYLOAD_BYTES)),
         (''decode_hit_fraction'', truediv (ret hit) (add (ret hit) (ret miss))),
         (''simulated'', yes), (''latency_prediction'', none),
         (''ordering'', str ''captured native acquire/pin/release order'')]))))))"

definition cache_curves :: "pyval \<Rightarrow> expr" where
  "cache_curves trace =
     list_of [simulate trace (PInt 1072) ''clock'', simulate trace (PInt 1072) ''slru'',
       simulate trace (PInt 1460) ''clock'', simulate trace (PInt 1460) ''slru'',
       simulate trace (PInt 1536) ''clock'', simulate trace (PInt 1536) ''slru'']"

end
