(* ===== verification/PyEval.thy ===== *)
theory PyEval
  imports PyExpr "HOL-Library.Multiset"
begin

text \<open>
  Evaluation of the expressions of \<open>PyExpr\<close> on values of known shape, as rewrite rules: what the
  operations return on integers, strings, lists and dictionaries. The proofs about the translated
  functions and their witnesses compute with this collection.
\<close>

named_theorems eval_simps \<open>operations on values of known shape\<close>

lemma item_PDict [eval_simps]: "item (ret (PDict d)) k = aitem d k"
  by (simp add: item_def subscript_def)

lemma aitem_Cons [eval_simps]: "aitem ((k', v) # d) k = (if k' = k then Inr v else aitem d k)"
  by (simp add: aitem_def)

lemma aitem_aput [eval_simps]: "aitem (aput d k' v) k = (if k' = k then Inr v else aitem d k)"
  by (auto simp: aitem_def split: option.splits)

lemma index_PList [eval_simps]: "index (ret (PList xs)) (num i) = litem xs i"
  by (simp add: index_def subscript_def)

lemma index_PTuple [eval_simps]: "index (ret (PTuple xs)) (num i) = litem xs i"
  by (simp add: index_def subscript_def)

lemma index_PDict [eval_simps]: "index (ret (PDict d)) (str k) = aitem d k"
  by (simp add: index_def subscript_def)

lemma get_PDict [eval_simps]: "get (ret (PDict d)) k = Inr (aget d k)"
  by (simp add: get_def dict_get_def aget_def split: option.splits)

lemma put_PDict [eval_simps]: "put (ret (PDict d)) (str k) (ret v) = Inr (PDict (aput d k v))"
  by (simp add: put_def store_def dict_put_def)

lemma put_PList [eval_simps]:
  "put (ret (PList xs)) (num i) (ret v) = (case place xs i of None \<Rightarrow> Inl IndexError | Some j \<Rightarrow> Inr (PList (xs[j := v])))"
  by (simp add: put_def store_def)

lemma aput_Cons [eval_simps]: "aput ((k', w) # d) k v = (if k' = k then (k', v) # d else (k', w) # aput d k v)"
  by (simp add: aput_def)

lemma aput_Nil [eval_simps]: "aput [] k v = [(k, v)]"
  by (simp add: aput_def)

lemma compare_ret [eval_simps]:
  "eq (ret v) (ret w) = Inr (PBool (py_eq v w))" "ne (ret v) (ret w) = Inr (PBool (\<not> py_eq v w))"
  "same (ret v) (ret w) = Inr (PBool (identical v w))" "differs (ret v) (ret w) = Inr (PBool (\<not> identical v w))"
  by (simp_all add: eq_def ne_def same_def differs_def)

lemma order_num [eval_simps]:
  "lt (num i) (num j) = Inr (PBool (i < j))" "le (num i) (num j) = Inr (PBool (i \<le> j))"
  "gt (num i) (num j) = Inr (PBool (j < i))" "ge (num i) (num j) = Inr (PBool (j \<le> i))"
  by (simp_all add: lt_def le_def gt_def ge_def py_simps)

lemma arith_num [eval_simps]:
  "add (num i) (num j) = num (i + j)" "sub (num i) (num j) = num (i - j)" "mul (num i) (num j) = num (i * j)"
  "neg (num i) = num (- i)"
  by (simp_all add: add_def py_add_def sub_def py_sub_def mul_def py_mul_def neg_def arith_def)

lemma div_num [eval_simps]:
  "j \<noteq> 0 \<Longrightarrow> floordiv (num i) (num j) = num (i div j)" "j \<noteq> 0 \<Longrightarrow> modulo (num i) (num j) = num (i mod j)"
  by (simp_all add: floordiv_def py_floordiv_def modulo_def py_mod_def arith_def)

lemma branch_bool [eval_simps]: "branch (Inr (PBool b)) x y = (if b then x else y)"
  by (simp add: branch_def)

lemma check_bool [eval_simps]: "check (Inr (PBool b)) msg k = (if b then k else Inl (ValueError msg))"
  by (simp add: check_def)

lemma size_PList [eval_simps]: "size_of (ret (PList xs)) = num (len xs)" "size_of (ret (PTuple xs)) = num (len xs)"
  by (simp_all add: size_of_def)

lemma append_PList [eval_simps]: "append (ret (PList xs)) (ret v) = ret (PList (xs @ [v]))"
  by (simp add: append_def)

lemma displays [eval_simps]:
  "list_of [] = ret (PList [])" "dict_of [] = ret (PDict [])" "tuple_of [] = ret (PTuple [])"
  by (simp_all add: list_of_def dict_of_def tuple_of_def)

lemma num_equal_literal [eval_simps]:
  "num_equal (FNum (numeral k)) (PInt j) \<longleftrightarrow> numeral k = j" "num_equal (FNum 0) (PInt j) \<longleftrightarrow> 0 = j"
  "num_equal (FNum 1) (PInt j) \<longleftrightarrow> 1 = j" "num_equal (FNum (- numeral k)) (PInt j) \<longleftrightarrow> - numeral k = j"
  using num_equal_PInt [of "numeral k" j] num_equal_PInt [of 0 j] num_equal_PInt [of 1 j] num_equal_PInt [of "- numeral k" j]
  by simp_all

text \<open>What a successful operation says of its operands.\<close>

named_theorems shape_simps \<open>the operands of an operation that returns\<close>

lemma aitem_shape [shape_simps]: "aitem d k = Inr v \<longleftrightarrow> map_of d k = Some v"
  by (auto simp: aitem_def split: option.splits)

lemma py_eq_num [shape_simps]:
  "add a b = Inr v \<longleftrightarrow> (\<exists>x y. a = Inr x \<and> b = Inr y \<and> py_add x y = Inr v)"
  "sub a b = Inr v \<longleftrightarrow> (\<exists>x y. a = Inr x \<and> b = Inr y \<and> py_sub x y = Inr v)"
  "mul a b = Inr v \<longleftrightarrow> (\<exists>x y. a = Inr x \<and> b = Inr y \<and> py_mul x y = Inr v)"
  by (auto simp: add_def sub_def mul_def ctrl_simps)

lemma add_num_shape [shape_simps]:
  "py_add (PInt i) (PInt j) = Inr v \<longleftrightarrow> v = PInt (i + j)" "py_sub (PInt i) (PInt j) = Inr v \<longleftrightarrow> v = PInt (i - j)"
  "py_mul (PInt i) (PInt j) = Inr v \<longleftrightarrow> v = PInt (i * j)"
  by (auto simp: py_add_def py_sub_def py_mul_def arith_def)

lemma size_shape [shape_simps]: "size_of a = Inr v \<longleftrightarrow> (\<exists>x n. a = Inr x \<and> py_len x = Inr n \<and> v = PInt n)"
  by (auto simp: size_of_def ctrl_simps)

lemma item_shape: "item a k = Inr v \<longleftrightarrow> (\<exists>x. a = Inr x \<and> subscript x (PStr k) = Inr v)"
  by (auto simp: item_def ctrl_simps)

lemma index_shape: "index a b = Inr v \<longleftrightarrow> (\<exists>x y. a = Inr x \<and> b = Inr y \<and> subscript x y = Inr v)"
  by (auto simp: index_def ctrl_simps)

text \<open>A field that \<open>get\<close> finds to be an integer is there for the subscript too.\<close>

lemma get_item: "get (ret c) k = num i \<Longrightarrow> item (ret c) k = num i"
  by (cases c) (auto simp: get_def dict_get_def item_def subscript_def aitem_def find_key_def split: option.splits if_splits)

text \<open>Sorting and summing integers.\<close>

lemma insert_sorted_ints: "insert_sorted (PInt i) (map PInt js) = Inr (map PInt (insort i js))"
  by (induction js) (simp_all add: not_less)

lemma sort_values_ints: "sort_values (map PInt js) = Inr (map PInt (sort js))"
  by (induction js) (simp_all add: insert_sorted_ints)

lemma sum_of_ints: "sum_of (ret (PList (map PInt is))) = num (sum_list is)"
proof -
  have "foldm py_add (PInt a) (map PInt is) = num (a + sum_list is)" for a
    by (induction "is" arbitrary: a) (simp_all add: py_add_def arith_def)
  from this [of 0] show ?thesis by (simp add: sum_of_def)
qed

text \<open>Sorting keeps the values.\<close>

lemma insert_sorted_mset: "insert_sorted x ys = Inr zs \<Longrightarrow> mset zs = add_mset x (mset ys)"
  by (induction ys arbitrary: zs) (auto simp: bnd_eq_Inr split: if_splits)

lemma sort_values_mset: "sort_values xs = Inr ys \<Longrightarrow> mset ys = mset xs"
  by (induction xs arbitrary: ys) (auto simp: bnd_eq_Inr dest!: insert_sorted_mset)

end
