(* ===== verification/ReplaySound.thy ===== *)
theory ReplaySound
  imports ReplayDecode PyEval
begin

text \<open>
  Offline replay against the native run: the abstract steps of the loop of \<open>decode\<close>, and the proof
  that simulating the captured requests on the same capacity reproduces the native counts of every
  forward.
\<close>

section \<open>The acquisition kind only feeds two counters\<close>

definition quiet :: "cache \<Rightarrow> cache" where
  "quiet c = c\<lparr>ca_ready_hits := 0, ca_joins := 0\<rparr>"

lemma quiet_fields [simp]:
  "ca_capacity (quiet c) = ca_capacity c" "ca_policy (quiet c) = ca_policy c" "ca_slots (quiet c) = ca_slots c"
  "ca_lookup (quiet c) = ca_lookup c" "ca_hand (quiet c) = ca_hand c" "ca_probation (quiet c) = ca_probation c"
  "ca_protected (quiet c) = ca_protected c" "ca_hits (quiet c) = ca_hits c" "ca_misses (quiet c) = ca_misses c"
  "ca_evictions (quiet c) = ca_evictions c" "ca_layer_hits (quiet c) = ca_layer_hits c"
  "ca_layer_misses (quiet c) = ca_layer_misses c"
  by (simp_all add: quiet_def)

lemma quiet_unpinned [simp]: "first_unpinned (quiet c) keys = first_unpinned c keys"
proof (induction keys)
  case (Cons key keys)
  show ?case unfolding first_unpinned.simps Cons by (cases "map_of (ca_lookup c) key") simp_all
qed simp

lemma quiet_slots: "c\<lparr>ca_ready_hits := 0, ca_joins := 0, ca_slots := slots, ca_hand := hand\<rparr> =
    c\<lparr>ca_slots := slots, ca_hand := hand, ca_ready_hits := 0, ca_joins := 0\<rparr>"
  by simp

lemma quiet_select: "select_slot c = Inr (r, d) \<Longrightarrow> select_slot (quiet c) = Inr (r, quiet d)"
  by (auto simp: select_slot_def ok_simps simp del: lease_sweep.simps split: if_splits)
    (auto simp: quiet_def)

lemma quiet_evict: "evict_slot c slot = Inr (v, d) \<Longrightarrow> evict_slot (quiet c) slot = Inr (v, quiet d)"
  by (auto simp: evict_slot_def quiet_def split: option.splits if_splits)

lemma quiet_touch: "touch_slru key (quiet c) = quiet (touch_slru key c)"
  by (simp add: touch_slru_def quiet_def split: replay_policy.splits prod.splits)

lemma quiet_hit:
  assumes "acquire_hit c key slot kind = Inr (r, d)"
  shows "acquire_hit (quiet c) key slot None = Inr (r, quiet d)"
proof -
  obtain e b where e: "entry_at (ca_slots c) slot = Inr e" "list_incr (ca_layer_hits c) (key div EXPERTS) = Inr b"
    "r = (True, slot, - 1)"
    and d: "d = touch_slru key (c\<lparr>ca_slots := (ca_slots c)[slot := Some (e\<lparr>se_referenced := True\<rparr>)],
       ca_hits := ca_hits c + 1, ca_layer_hits := b,
       ca_ready_hits := ca_ready_hits c + (if kind = Some 1 then 1 else 0),
       ca_joins := ca_joins c + (if kind = Some 2 then 1 else 0)\<rparr>)"
    using assms by (auto simp: acquire_hit_def ok_simps)
  show ?thesis unfolding d quiet_touch [symmetric] using e by (simp add: acquire_hit_def quiet_def)
qed

lemma acquire_missE:
  assumes "acquire_miss c key = Inr (r, d)"
  obtains slot a victim b m where "select_slot c = Inr (Some slot, a)" "evict_slot a slot = Inr (victim, b)"
    "list_incr (ca_layer_misses b) (key div EXPERTS) = Inr m" "r = (False, slot, victim)"
    "d = b\<lparr>ca_slots := (ca_slots b)[slot := Some \<lparr>se_key = key, se_referenced = True, se_pins = 0\<rparr>],
       ca_lookup := aput (ca_lookup b) key slot,
       ca_probation := (if ca_policy b = ReplaySlru then od_store key (ca_probation b) else ca_probation b),
       ca_misses := ca_misses b + 1, ca_layer_misses := m\<rparr>"
proof -
  obtain sel a where a: "select_slot c = Inr (sel, a)" using assms by (cases "select_slot c") (auto simp: acquire_miss_def)
  obtain slot where slot: "sel = Some slot" using assms a by (cases sel) (auto simp: acquire_miss_def)
  obtain victim b where b: "evict_slot a slot = Inr (victim, b)"
    using assms a slot by (cases "evict_slot a slot") (auto simp: acquire_miss_def)
  obtain m where m: "list_incr (ca_layer_misses b) (key div EXPERTS) = Inr m"
    using assms a slot b by (cases "list_incr (ca_layer_misses b) (key div EXPERTS)") (auto simp: acquire_miss_def)
  show thesis by (rule that [OF a [unfolded slot] b m]) (use assms a slot b m in \<open>auto simp: acquire_miss_def\<close>)
qed

lemma quiet_miss:
  assumes "acquire_miss c key = Inr (r, d)"
  shows "acquire_miss (quiet c) key = Inr (r, quiet d)"
  using assms
proof (rule acquire_missE)
  fix slot a victim b m
  assume *: "select_slot c = Inr (Some slot, a)" "evict_slot a slot = Inr (victim, b)"
    "list_incr (ca_layer_misses b) (key div EXPERTS) = Inr m" "r = (False, slot, victim)"
    "d = b\<lparr>ca_slots := (ca_slots b)[slot := Some \<lparr>se_key = key, se_referenced = True, se_pins = 0\<rparr>],
       ca_lookup := aput (ca_lookup b) key slot,
       ca_probation := (if ca_policy b = ReplaySlru then od_store key (ca_probation b) else ca_probation b),
       ca_misses := ca_misses b + 1, ca_layer_misses := m\<rparr>"
  show ?thesis unfolding acquire_miss_def using quiet_select [OF *(1)] quiet_evict [OF *(2)] *(3-5)
    by (simp add: quiet_def)
qed

lemma quiet_acquire:
  assumes "acquire c key kind = Inr (r, d)"
  shows "acquire (quiet c) key None = Inr (r, quiet d)"
proof -
  obtain k where k: "integer key 0 (LAYERS * EXPERTS - 1) ''expert key'' = Inr k" "acquire_key c k kind = Inr (r, d)"
    using assms by (auto simp: acquire_def bnd_eq_Inr)
  show ?thesis using k by (cases "map_of (ca_lookup c) k") (simp_all add: acquire_def acquire_key_def quiet_hit quiet_miss)
qed

lemma quiet_lease: "lease c key release = Inr (m, d) \<Longrightarrow> lease (quiet c) key release = Inr (m, quiet d)"
  by (auto simp: lease_def ok_simps Let_def quiet_def split: option.splits)

lemma quiet_pins [simp]: "pins (quiet c) = pins c"
  by (simp add: pins_def)

lemma quiet_fresh [simp]: "quiet (cache_fresh n p) = cache_fresh n p"
  by (simp add: quiet_def cache_fresh_def)

section \<open>What an event does\<close>

lemma holds_not_None [holds_simps]: "holds (differs a none) \<longleftrightarrow> (\<exists>x. a = Inr x \<and> x \<noteq> PNone)"
  by (cases a) (auto simp: differs_def holds_def)

definition open_counts :: "pyval \<Rightarrow> (int \<times> int) option" where
  "open_counts v = (case v of
     PDict a \<Rightarrow> (case (map_of a ''hits_before'', map_of a ''misses_before'') of
                  (Some (PInt h), Some (PInt m)) \<Rightarrow> Some (h, m) | _ \<Rightarrow> None)
   | _ \<Rightarrow> None)"

definition forward_counts :: "pyval \<Rightarrow> (int \<times> int) option" where
  "forward_counts v = (case v of
     PDict a \<Rightarrow> (case (map_of a ''hits'', map_of a ''misses'') of
                  (Some (PInt h), Some (PInt m)) \<Rightarrow> Some (h, m) | _ \<Rightarrow> None)
   | _ \<Rightarrow> None)"

definition request_of :: "string \<Rightarrow> int \<Rightarrow> nat \<Rightarrow> pyval" where
  "request_of name key i = PDict [(''event'', PStr name), (''key'', PInt key), (''forward'', PInt (int i))]"

inductive replay_step :: "replay \<Rightarrow> replay \<Rightarrow> bool" where
  observed: "rp_cache t = rp_cache s \<Longrightarrow> rp_requests t = rp_requests s \<Longrightarrow> rp_forwards t = rp_forwards s \<Longrightarrow>
    open_counts (rp_active t) = open_counts (rp_active s) \<Longrightarrow> (rp_active t = PNone) = (rp_active s = PNone) \<Longrightarrow> replay_step s t"
| began: "rp_cache t = rp_cache s \<Longrightarrow> rp_requests t = rp_requests s \<Longrightarrow> rp_forwards t = rp_forwards s \<Longrightarrow>
    rp_active s = PNone \<Longrightarrow> open_counts (rp_active t) = Some (ca_hits (rp_cache s), ca_misses (rp_cache s)) \<Longrightarrow> replay_step s t"
| acquired: "acquire (rp_cache s) (PInt key) (Some kind) = Inr (r, rp_cache t) \<Longrightarrow>
    rp_requests t = rp_requests s @ [request_of ''acquire'' key (length (rp_forwards s))] \<Longrightarrow>
    rp_forwards t = rp_forwards s \<Longrightarrow> open_counts (rp_active t) = open_counts (rp_active s) \<Longrightarrow>
    rp_active s \<noteq> PNone \<Longrightarrow> rp_active t \<noteq> PNone \<Longrightarrow> replay_step s t"
| leased: "lease (rp_cache s) key (name = ''release'') = Inr (m, rp_cache t) \<Longrightarrow> name = ''pin'' \<or> name = ''release'' \<Longrightarrow>
    rp_requests t = rp_requests s @ [request_of name key (length (rp_forwards s))] \<Longrightarrow>
    rp_forwards t = rp_forwards s \<Longrightarrow> rp_active t = rp_active s \<Longrightarrow> replay_step s t"
| ended: "rp_cache t = rp_cache s \<Longrightarrow> rp_requests t = rp_requests s \<Longrightarrow> open_counts (rp_active s) = Some (h, m) \<Longrightarrow>
    rp_forwards t = rp_forwards s @ [f] \<Longrightarrow>
    forward_counts f = Some (ca_hits (rp_cache s) - h, ca_misses (rp_cache s) - m) \<Longrightarrow> rp_active t = PNone \<Longrightarrow> replay_step s t"

definition opened :: "replay \<Rightarrow> bool" where
  "opened s \<longleftrightarrow> rp_active s = PNone \<or> open_counts (rp_active s) \<noteq> None"

lemma open_counts_None [simp]: "open_counts PNone = None"
  by (simp add: open_counts_def)

lemma open_counts_put:
  "open_counts a \<noteq> None \<Longrightarrow> put (ret a) (str k) e = Inr b \<Longrightarrow> ''hits_before'' \<noteq> k \<Longrightarrow> ''misses_before'' \<noteq> k \<Longrightarrow>
   open_counts b = open_counts a \<and> b \<noteq> PNone"
  by (cases a) (auto simp: open_counts_def put_def store_def dict_put_def ctrl_simps split: option.splits pyval.splits)

lemma began_event:
  assumes "replay_forward_begin float_repr patterns words d s = Inr t"
  shows "replay_step s t"
proof (rule began)
  show "open_counts (rp_active t) = Some (ca_hits (rp_cache s), ca_misses (rp_cache s))"
    using assms by (auto simp: replay_forward_begin_def ctrl_simps open_counts_def)
qed (use assms in \<open>auto simp: replay_forward_begin_def ctrl_simps holds_simps simp del: conjs.simps\<close>)


lemma layer_step:
  assumes "layer_event d s = Inr t" "opened s"
  shows "replay_step s t"
proof -
  have act: "rp_active s \<noteq> PNone"
    using assms(1) by (auto simp: layer_event_def ctrl_simps holds_simps Let_def simp del: conjs.simps)
  then have o: "open_counts (rp_active s) \<noteq> None" using assms(2) by (simp add: opened_def)
  obtain active histories e1 e2 where t: "t = s\<lparr>rp_active := active, rp_histories := histories\<rparr>"
    and m: "merge (ret (rp_active s)) (dict_of [(''layers'', e1), (''selected'', e2), (''index'', num 0)]) = Inr active"
    using assms(1) by (auto simp: layer_event_def check_eq_Inr bnd_eq_Inr in_range_def Let_def)
  have "open_counts active = open_counts (rp_active s) \<and> active \<noteq> PNone"
    using m o by (cases "rp_active s")
      (auto simp: merge_def ctrl_simps dict_put_def open_counts_def split: option.splits pyval.splits)
  then show ?thesis using t act by (intro observed) auto
qed

lemma acquire_step:
  assumes "acquire_event capacity d s = Inr t" "opened s"
  shows "replay_step s t"
proof -
  have act: "rp_active s \<noteq> PNone"
    using assms(1) by (auto simp: acquire_event_def ctrl_simps holds_simps Let_def simp del: conjs.simps)
  then have o: "open_counts (rp_active s) \<noteq> None" using assms(2) by (simp add: opened_def)
  obtain kind key r cache a b e1 e2 request where r: "acquire (rp_cache s) key (Some kind) = Inr (r, cache)"
    and a: "put (ret (rp_active s)) (str ''index'') e1 = Inr a" "put (ret a) (str ''demands'') e2 = Inr b"
    and q: "dict_of [(''event'', str ''acquire''), (''key'', ret key), (''forward'', num (len (rp_forwards s)))] = Inr request"
    and t: "t = s\<lparr>rp_cache := cache, rp_active := b, rp_pending := key, rp_requests := rp_requests s @ [request]\<rparr>"
    using assms(1) by (auto simp: acquire_event_def check_eq_Inr bnd_eq_Inr in_range_def Let_def)
  obtain k where k: "key = PInt k" using r by (cases key) (auto simp: acquire_def integer_def)
  have q': "request = request_of ''acquire'' k (length (rp_forwards s))"
    using q by (simp add: dict_of_def request_of_def k len_def)
  have 1: "open_counts a = open_counts (rp_active s) \<and> a \<noteq> PNone" by (rule open_counts_put [OF o a(1)]) simp_all
  have 2: "open_counts b = open_counts a \<and> b \<noteq> PNone" by (rule open_counts_put [OF _ a(2)]) (use 1 o in auto)
  show ?thesis by (rule acquired [of s k kind r]) (use t q' 1 2 act r k in auto)
qed

lemma lease_step:
  assumes "lease_event name release d s = Inr t" "name = PStr n" "release = (n = ''release'')" "n = ''pin'' \<or> n = ''release''"
  shows "replay_step s t"
proof -
  obtain key m cache request where r: "lease_key (rp_cache s) key release = Inr (m, cache)"
    and q: "dict_of [(''event'', ret name), (''key'', ret key), (''forward'', num (len (rp_forwards s)))] = Inr request"
    and t: "rp_cache t = cache" "rp_requests t = rp_requests s @ [request]" "rp_forwards t = rp_forwards s"
      "rp_active t = rp_active s"
    using assms(1) by (auto simp: lease_event_def check_eq_Inr bnd_eq_Inr in_range_def Let_def)
  obtain k where k: "key = PInt k" using r by (cases key) (auto simp: lease_key_def)
  have q': "request = request_of n k (length (rp_forwards s))"
    using q assms(2) by (simp add: dict_of_def request_of_def k len_def)
  show ?thesis by (rule leased [of s k n m]) (use t q' r k assms(3,4) in \<open>auto simp: lease_key_def\<close>)
qed

lemma snapshot_step:
  assumes "snapshot_event float_repr sha256 d s = Inr t" "opened s"
  shows "replay_step s t"
proof -
  obtain a where a: "branch (differs (ret (rp_active s)) none)
         (check (conjs [eq (item (ret (rp_active s)) ''layers'') (num 48),
              eq (item (ret (rp_active s)) ''index'') (size_of (item (ret (rp_active s)) ''selected''))])
           ''Snapshot precedes completed layer work'' (
         put (ret (rp_active s)) (str ''snapshots'') (add (item (ret (rp_active s)) ''snapshots'') (num 1))))
         (ret (rp_active s)) = Inr a"
    and t: "rp_cache t = rp_cache s" "rp_requests t = rp_requests s" "rp_forwards t = rp_forwards s" "rp_active t = a"
    using assms(1) unfolding snapshot_event_def Let_def
    by (simp only: bnd_eq_Inr check_eq_Inr) auto
  have "open_counts a = open_counts (rp_active s) \<and> (a = PNone) = (rp_active s = PNone)"
  proof (cases "rp_active s = PNone")
    case True
    then show ?thesis using a by (simp add: branch_def differs_def)
  next
    case False
    then have "put (ret (rp_active s)) (str ''snapshots'') (add (item (ret (rp_active s)) ''snapshots'') (num 1)) = Inr a"
      using a by (auto simp: branch_eq_Inr check_eq_Inr holds_simps)
    from open_counts_put [OF _ this] False assms(2) show ?thesis by (auto simp: opened_def)
  qed
  then show ?thesis using t by (intro observed) auto
qed

lemma end_step:
  assumes "replay_forward_end sha256 raw d s = Inr t" "opened s"
  shows "replay_step s t \<and> pins (rp_cache t) = 0"
proof -
  have act: "rp_active s \<noteq> PNone"
    using assms(1) by (auto simp: replay_forward_end_def ctrl_simps holds_simps Let_def simp del: conjs.simps)
  then obtain h m where o: "open_counts (rp_active s) = Some (h, m)" using assms(2) by (auto simp: opened_def)
  obtain f es where f: "dict_of [(''offset'', item (ret (rp_active s)) ''offset''), (''tokens'', item (ret (rp_active s)) ''tokens''),
         (''phase'', item (ret (rp_active s)) ''phase''), (''hits'', sub (num (ca_hits (rp_cache s))) (item (ret (rp_active s)) ''hits_before'')),
         (''misses'', sub (num (ca_misses (rp_cache s))) (item (ret (rp_active s)) ''misses_before'')),
         (''distinct_records'', size_of (set_of (item (ret (rp_active s)) ''demands''))),
         (''demands'', item (ret (rp_active s)) ''demands'')] = Inr f"
    and t: "t = s\<lparr>rp_forwards := rp_forwards s @ [f], rp_active := PNone\<rparr>"
    and p: "pins (rp_cache s) = 0"
    using assms(1) unfolding replay_forward_end_def Let_def
    by (simp only: bnd_eq_Inr check_eq_Inr holds_simps list.pred_inject) (auto simp: holds_def)
  have "forward_counts f = Some (ca_hits (rp_cache s) - h, ca_misses (rp_cache s) - m)"
  proof -
    obtain a where a: "rp_active s = PDict a" "map_of a ''hits_before'' = Some (PInt h)" "map_of a ''misses_before'' = Some (PInt m)"
      using o by (auto simp: open_counts_def split: pyval.splits option.splits)
    then have i: "item (ret (PDict a)) ''hits_before'' = num h" "item (ret (PDict a)) ''misses_before'' = num m"
      by (simp_all add: eval_simps aitem_def)
    show ?thesis using f unfolding a(1) i arith_num by (auto simp: ctrl_simps forward_counts_def)
  qed
  then show ?thesis using t o p by (intro conjI ended [where h = h and m = m and f = f]) auto
qed

lemma event_step:
  assumes "replay_event float_repr sha256 raw patterns words capacity s event = Inr t" "opened s"
  shows "replay_step s t"
proof -
  obtain name d where e: "branch (eq (ret name) (str ''forward_begin'')) (replay_forward_begin float_repr patterns words d s) (
     branch (eq (ret name) (str ''layer'')) (layer_event d s) (
     branch (eq (ret name) (str ''acquire'')) (acquire_event capacity d s) (
     branch (isin (ret name) (tuple_of [str ''pin'', str ''release'']))
       (lease_event name (py_eq name (PStr ''release'')) d s) (
     branch (eq (ret name) (str ''snapshot'')) (snapshot_event float_repr sha256 d s) (
     branch (eq (ret name) (str ''forward_end'')) (replay_forward_end sha256 raw d s) (
     fail (add (str ''Unknown cache trace event '') (ret name)))))))) = Inr t"
    using assms(1) unfolding replay_event_def by (simp only: bnd_eq_Inr check_eq_Inr) blast
  have lease: "replay_step s t" if l: "lease_event name (py_eq name (PStr ''release'')) d s = Inr t"
    and n: "holds (isin (ret name) (tuple_of [str ''pin'', str ''release'']))"
  proof -
    have "name = PStr ''pin'' \<or> name = PStr ''release''"
      using n by (cases name) (auto simp: holds_simps ctrl_simps member_def)
    then obtain n where "name = PStr n" "n = ''pin'' \<or> n = ''release''" by blast
    then show ?thesis by (intro lease_step [OF l, of n]) auto
  qed
  show ?thesis using e began_event layer_step [OF _ assms(2)] acquire_step [OF _ assms(2)] lease
      snapshot_step [OF _ assms(2)] end_step [OF _ assms(2)]
    unfolding branch_eq_Inr fail_neq_Inr by blast
qed


section \<open>The simulation reproduces the native counts\<close>

definition block_of :: "int \<Rightarrow> int \<Rightarrow> pyval" where
  "block_of h m = PDict [(''hits'', PInt h), (''misses'', PInt m)]"

definition forward_block :: "pyval \<Rightarrow> pyval" where
  "forward_block f = (case forward_counts f of Some (h, m) \<Rightarrow> block_of h m | None \<Rightarrow> PNone)"

definition blocks_of :: "replay \<Rightarrow> pyval list" where
  "blocks_of s = map forward_block (rp_forwards s) @
     (case open_counts (rp_active s) of
        None \<Rightarrow> []
      | Some (h, m) \<Rightarrow> [block_of (ca_hits (rp_cache s) - h) (ca_misses (rp_cache s) - m)])"

definition padded :: "nat \<Rightarrow> pyval list \<Rightarrow> pyval" where
  "padded n xs = PList (xs @ replicate (n - length xs) (block_of 0 0))"

definition mirrored :: "nat \<Rightarrow> replay \<Rightarrow> bool" where
  "mirrored n s \<longleftrightarrow> opened s \<and> (\<forall>f \<in> set (rp_forwards s). forward_counts f \<noteq> None) \<and>
     (\<forall>b. length (blocks_of s) \<le> b \<longrightarrow>
       foldm simulate_request (cache_fresh n ReplayClock, padded b []) (rp_requests s) =
         Inr (quiet (rp_cache s), padded b (blocks_of s)))"

lemma place_middle: "place (xs @ y # ys) (int (length xs)) = Some (length xs)"
  by (simp add: place_def len_def)

lemma litem_middle: "litem (xs @ y # ys) (int (length xs)) = Inr y"
  by (simp add: litem_def place_middle)

lemma simulate_acquire:
  assumes "acquire c (PInt key) None = Inr ((hit, slot, v), d)"
  shows "simulate_request (c, PList (xs @ block_of h m # ys)) (request_of ''acquire'' key (length xs)) =
    Inr (d, PList (xs @ block_of (if hit then h + 1 else h) (if hit then m else m + 1) # ys))"
  using assms
  by (cases hit) (simp_all add: simulate_request_def request_of_def block_of_def eval_simps place_middle litem_middle)

lemma simulate_lease:
  assumes "lease c key (name = ''release'') = Inr (m, d)" "name = ''pin'' \<or> name = ''release''"
  shows "simulate_request (c, blocks) (request_of name key i) = Inr (d, blocks)"
  using assms by (auto simp: simulate_request_def request_of_def eval_simps lease_key_def)

lemma select_counts: "select_slot c = Inr (r, d) \<Longrightarrow> ca_hits d = ca_hits c \<and> ca_misses d = ca_misses c"
  by (auto simp: select_slot_def ok_simps simp del: lease_sweep.simps split: if_splits)

lemma evict_counts: "evict_slot c slot = Inr (v, d) \<Longrightarrow> ca_hits d = ca_hits c \<and> ca_misses d = ca_misses c"
  by (auto simp: evict_slot_def split: if_splits option.splits)

lemma acquire_counts:
  assumes "acquire c (PInt key) kind = Inr ((hit, slot, v), d)"
  shows "ca_hits d = (if hit then ca_hits c + 1 else ca_hits c) \<and> ca_misses d = (if hit then ca_misses c else ca_misses c + 1)"
proof -
  have a: "acquire_key c key kind = Inr ((hit, slot, v), d)" using assms by (auto simp: acquire_def ok_simps)
  show ?thesis
  proof (cases "map_of (ca_lookup c) key")
    case None
    then have "acquire_miss c key = Inr ((hit, slot, v), d)" using a by (simp add: acquire_key_def)
    then show ?thesis by (rule acquire_missE) (drule select_counts evict_counts, simp)+
  next
    case (Some i)
    then show ?thesis using a by (auto simp: acquire_key_def acquire_hit_def ok_simps touch_slru_fields)
  qed
qed

lemma lease_counts: "lease c key release = Inr (m, d) \<Longrightarrow> ca_hits d = ca_hits c \<and> ca_misses d = ca_misses c"
  by (auto simp: lease_def ok_simps Let_def split: option.splits)

lemma step_mirrored:
  assumes "replay_step s t" "mirrored n s"
  shows "mirrored n t"
  using assms
proof (induction rule: replay_step.induct)
  case (observed t s)
  have "blocks_of t = blocks_of s" unfolding blocks_of_def observed(1-4) ..
  then show ?case using observed by (simp add: mirrored_def opened_def)
next
  case (began t s)
  then have "blocks_of t = blocks_of s @ [block_of 0 0]" by (simp add: blocks_of_def)
  moreover have "padded b (xs @ [block_of 0 0]) = padded b xs" if "length xs < b" for b xs
    using that by (cases "b - length xs") (auto simp: padded_def)
  ultimately show ?case using began by (auto simp: mirrored_def opened_def)
next
  case (acquired s key kind r t)
  obtain hit slot v where r: "r = (hit, slot, v)" by (cases r) auto
  obtain h m where o: "open_counts (rp_active s) = Some (h, m)"
    using acquired by (auto simp: mirrored_def opened_def)
  let ?xs = "map forward_block (rp_forwards s)" and ?c = "rp_cache s"
  have bs: "blocks_of s = ?xs @ [block_of (ca_hits ?c - h) (ca_misses ?c - m)]"
    "blocks_of t = ?xs @ [block_of (ca_hits (rp_cache t) - h) (ca_misses (rp_cache t) - m)]"
    using acquired(3,4) o by (simp_all add: blocks_of_def)
  have q: "acquire (quiet ?c) (PInt key) None = Inr ((hit, slot, v), quiet (rp_cache t))"
    using quiet_acquire [OF acquired(1)] r by simp
  have "foldm simulate_request (cache_fresh n ReplayClock, padded b []) (rp_requests t) =
      Inr (quiet (rp_cache t), padded b (blocks_of t))" if "length (blocks_of t) \<le> b" for b
  proof -
    have "foldm simulate_request (cache_fresh n ReplayClock, padded b []) (rp_requests s) =
      Inr (quiet ?c, padded b (blocks_of s))" using acquired(7) that bs by (simp add: mirrored_def)
    moreover have "simulate_request (quiet ?c, padded b (blocks_of s)) (request_of ''acquire'' key (length (rp_forwards s))) =
      Inr (quiet (rp_cache t), padded b (blocks_of t))"
      using simulate_acquire [OF q, of ?xs] acquire_counts [OF acquired(1) [unfolded r]] by (auto simp: bs padded_def algebra_simps)
    ultimately show ?thesis using acquired(2) by (simp add: foldm_append)
  qed
  then show ?case using acquired(3-7) o by (auto simp: mirrored_def opened_def)
next
  case (leased s key name m t)
  have "ca_hits (rp_cache t) = ca_hits (rp_cache s)" "ca_misses (rp_cache t) = ca_misses (rp_cache s)"
    using lease_counts [OF leased(1)] by simp_all
  then have "blocks_of t = blocks_of s" unfolding blocks_of_def leased(4,5) by (simp only:)
  then show ?case using leased(2-6) simulate_lease [OF quiet_lease [OF leased(1)] leased(2)]
    by (auto simp: mirrored_def opened_def foldm_append)
next
  case (ended t s h m f)
  then have "blocks_of t = blocks_of s" by (simp add: blocks_of_def forward_block_def)
  then show ?case using ended by (auto simp: mirrored_def opened_def)
qed

lemma start_mirrored: "mirrored n (replay_start (cache_fresh n ReplayClock))"
  by (simp add: mirrored_def opened_def replay_start_def blocks_of_def)

lemma events_mirrored:
  "foldm (replay_event float_repr sha256 raw patterns words capacity) s events = Inr t \<Longrightarrow> mirrored n s \<Longrightarrow> mirrored n t"
proof (induction events arbitrary: s)
  case (Cons e events)
  then obtain u where u: "replay_event float_repr sha256 raw patterns words capacity s e = Inr u"
    "foldm (replay_event float_repr sha256 raw patterns words capacity) u events = Inr t" by (auto simp: bnd_eq_Inr)
  have "mirrored n u" by (rule step_mirrored [OF event_step [OF u(1)]]) (use Cons.prems(2) in \<open>simp_all add: mirrored_def\<close>)
  then show ?case using Cons.IH u(2) by blast
qed simp

definition report_of :: "int \<Rightarrow> string \<Rightarrow> (int \<times> int) list \<Rightarrow> expr" where
  "report_of capacity policy counts =
     (let hit = sum_list (map fst (tl counts)); miss = sum_list (map snd (tl counts)) in
      dict_of [(''capacity'', num capacity), (''policy'', str policy),
         (''blocks'', ret (PList (map (\<lambda>(h, m). block_of h m) counts))),
         (''decode_hits'', num hit), (''decode_misses'', num miss),
         (''decode_application_read_bytes'', num (miss * PAYLOAD_BYTES)),
         (''decode_hit_fraction'', truediv (num hit) (num (hit + miss))),
         (''simulated'', yes), (''latency_prediction'', none),
         (''ordering'', str ''captured native acquire/pin/release order'')])"

lemma block_items:
  "each (slice (ret (PList (map (\<lambda>(h, m). block_of h m) counts))) (num 1) none) (\<lambda>b. item (ret b) ''hits'') =
    ret (PList (map PInt (map fst (tl counts))))"
  "each (slice (ret (PList (map (\<lambda>(h, m). block_of h m) counts))) (num 1) none) (\<lambda>b. item (ret b) ''misses'') =
    ret (PList (map PInt (map snd (tl counts))))"
proof -
  have s: "slice (ret (PList (map (\<lambda>(h, m). block_of h m) counts))) (num 1) none = ret (PList (map (\<lambda>(h, m). block_of h m) (tl counts)))"
    by (cases counts) (simp_all add: slice_def slice_list_def clip_def len_def)
  have "mapm (\<lambda>b. item (ret b) ''hits'') (map (\<lambda>(h, m). block_of h m) cs) = Inr (map PInt (map fst cs))"
    "mapm (\<lambda>b. item (ret b) ''misses'') (map (\<lambda>(h, m). block_of h m) cs) = Inr (map PInt (map snd cs))" for cs
    by (induction cs) (auto simp: block_of_def eval_simps)
  then show "each (slice (ret (PList (map (\<lambda>(h, m). block_of h m) counts))) (num 1) none) (\<lambda>b. item (ret b) ''hits'') =
    ret (PList (map PInt (map fst (tl counts))))"
  "each (slice (ret (PList (map (\<lambda>(h, m). block_of h m) counts))) (num 1) none) (\<lambda>b. item (ret b) ''misses'') =
    ret (PList (map PInt (map snd (tl counts))))"
    unfolding s by (simp_all add: each_def)
qed

lemma replay_run:
  assumes events: "foldm (replay_event float_repr sha256 raw patterns words (int n)) (replay_start (cache_fresh n ReplayClock)) events = Inr s"
    and final: "rp_active s = PNone" "pins (rp_cache s) = 0" and n: "1 \<le> n" "n \<le> 4096"
  shows "\<exists>counts. map forward_counts (rp_forwards s) = map Some counts \<and>
    simulate (replay_report (int n) rows s) (PInt (int n)) ''clock'' = report_of (int n) ''clock'' counts"
proof -
  have m: "mirrored n s" by (rule events_mirrored [OF events start_mirrored])
  define counts where "counts = map (\<lambda>f. the (forward_counts f)) (rp_forwards s)"
  have c: "map forward_counts (rp_forwards s) = map Some counts"
    using m by (auto simp: counts_def mirrored_def)
  have "forward_block f = (\<lambda>(h, m). block_of h m) (the (forward_counts f))" if "f \<in> set (rp_forwards s)" for f
    using m that by (auto simp: mirrored_def forward_block_def split: option.splits)
  then have b: "blocks_of s = map (\<lambda>(h, m). block_of h m) counts"
    by (simp add: blocks_of_def final(1) counts_def)
  have new: "cache_new (PInt (int n)) ''clock'' = Inr (cache_fresh n ReplayClock)"
    using n by (simp add: cache_new_def integer_def replay_policy_of_def)
  have fw: "item (ret (replay_report (int n) rows s)) ''forwards'' = ret (PList (rp_forwards s))"
    "item (ret (replay_report (int n) rows s)) ''requests'' = ret (PList (rp_requests s))"
    by (simp_all add: replay_report_def eval_simps)
  have "mapm (\<lambda>_. dict_of [(''hits'', num 0), (''misses'', num 0)]) fs = Inr (replicate (length fs) (block_of 0 0))" for fs :: "pyval list"
    by (induction fs) (simp_all add: dict_of_def block_of_def)
  then have zero: "each (ret (PList (rp_forwards s))) (\<lambda>_. dict_of [(''hits'', num 0), (''misses'', num 0)]) =
      ret (padded (length (rp_forwards s)) [])"
    by (simp add: each_def padded_def)
  have l: "length (blocks_of s) = length (rp_forwards s)" by (simp add: blocks_of_def final(1))
  have run: "foldm simulate_request (cache_fresh n ReplayClock, padded (length (rp_forwards s)) []) (rp_requests s) =
      Inr (quiet (rp_cache s), PList (map (\<lambda>(h, m). block_of h m) counts))"
    using m l b by (simp add: mirrored_def padded_def)
  have "simulate (replay_report (int n) rows s) (PInt (int n)) ''clock'' = report_of (int n) ''clock'' counts"
    unfolding simulate_def new fw zero loop_def
    by (simp add: run final(2) eval_simps block_items sum_of_ints report_of_def Let_def del: map_map)
  then show ?thesis using c by blast
qed


end
