(* ===== verification/RunChecks.thy ===== *)
theory RunChecks
  imports PyExpr
begin

text \<open>
  Checks that several evidence tools share (\<open>scripts/qwen/native_q4_replay.py\<close>,
  \<open>selector_qualification.py\<close>, \<open>qualify_exact_sessions.py\<close>, \<open>stage200.py\<close>, \<open>cache_residency.py\<close>
  and the configuration tables they build on): well-formed counters and digests, the machine and
  the configuration a run reports, clean process memory, and the decisions of the two-pair
  capacity screens. The parameter \<open>read_json\<close> is the content of the JSON file a configuration names.
\<close>

section \<open>Configurations\<close>

definition GiB :: pyval where
  "GiB = PInt (1024 ^ 3)"

definition configurations :: "expr" where
  "configurations =
     list_of [dict_of [(''name'', str ''reference''), (''kernel_policy'', str ''reference''),
             (''token_tile'', num 1), (''gdn_path'', str ''original''), (''panel'', num 512),
             (''chunk'', num 128), (''ready_group'', num 4), (''io_workers'', num 8)],
        dict_of [(''name'', str ''precompute''), (''kernel_policy'', str ''candidate''),
             (''token_tile'', num 1), (''gdn_path'', str ''precompute''), (''panel'', num 512),
             (''chunk'', num 128), (''ready_group'', num 4), (''io_workers'', num 8)],
        dict_of [(''name'', str ''tile8-precompute''), (''kernel_policy'', str ''candidate''),
             (''token_tile'', num 8), (''gdn_path'', str ''precompute''), (''panel'', num 512),
             (''chunk'', num 128), (''ready_group'', num 4), (''io_workers'', num 8)]]"

definition correctness_case :: "pyval \<Rightarrow> expr" where
  "correctness_case policy =
     dict_of [(''context'', num 256), (''chunk'', num 2), (''memory_gib'', num 12), (''layers'', num 48),
        (''expert_slots'', num 32), (''panels'', list_of [num 0]),
        (''diagnostic_stream_trunk'', no), (''artifact'', str ''mixed-4_8bit''),
        (''kernel_policy'', str ''reference''), (''cache_policy'', ret policy),
        (''prefix'', list_of [num 760, num 369, num 264, num 791, num 13]),
        (''append'', list_of [num 383, num 374]), (''continuation'', list_of [num 760, num 369])]"

definition CACHE_POLICIES :: pyval where
  "CACHE_POLICIES = PTuple [PStr ''clock'', PStr ''slru'']"

definition CACHE_ORDER :: pyval where
  "CACHE_ORDER =
     PTuple [PTuple [PInt 0, PStr ''clock''], PTuple [PInt 0, PStr ''slru''],
        PTuple [PInt 1, PStr ''slru''], PTuple [PInt 1, PStr ''clock'']]"

definition CHECKS :: pyval where
  "CHECKS =
     PSet [PStr ''panel_0_rejects_other_artifact_state'', PStr ''panel_0_continued_state'',
        PStr ''panel_0_fresh_replay'', PStr ''failed_panel_invalidates_state'',
        PStr ''failed_panel_drains_gpu'', PStr ''failed_panel_refuses_reuse'',
        PStr ''cancelled_panel_invalidates_partial_state'', PStr ''cancelled_panel_drains_gpu'']"

definition SCRATCH_CHECKS :: pyval where
  "SCRATCH_CHECKS =
     PSet [PStr ''failed_decode_scratch_invalidates_state'', PStr ''failed_decode_scratch_drains_gpu'',
        PStr ''cancelled_decode_scratch_invalidates_state'',
        PStr ''cancelled_decode_scratch_drains_gpu'']"

definition CAPACITY_CAPS :: pyval where
  "CAPACITY_CAPS = PDict [(''control'', PInt 1848), (''candidate'', PInt 1460)]"

definition capacity_configs :: "expr" where
  "capacity_configs =
     each (items_of (ret CAPACITY_CAPS)) (\<lambda>tup1.
       unpack2 tup1 (\<lambda>name slots.
         merge (dict_from (index configurations (num 0)))
           (dict_of [(''name'', ret name), (''expert_slots'', ret slots),
                (''cache_policy'', str ''clock''), (''residency'', str ''off''),
                (''decode_path'', str ''reference''), (''prefill_pipeline'', str ''serial''),
                (''phase_memory'', str ''fixed'')])))"

definition q8_configs :: "expr" where
  "q8_configs =
     bnd (index capacity_configs (num 0)) (\<lambda>base.
     each (tuple_of [tuple_of [str ''control'', str ''reference'', num 0],
          tuple_of [str ''candidate'', str ''candidate'', num 2]]) (\<lambda>tup1.
       unpack3 tup1 (\<lambda>name policy rows.
         merge (dict_from (ret base))
           (dict_of [(''name'', ret name), (''kernel_policy'', ret policy),
                (''q8_decode_rows'', ret rows)]))))"

definition router_configs :: "expr" where
  "router_configs =
     each (tuple_of [tuple_of [str ''control'', str ''serial''], tuple_of [str ''candidate'', str ''simd'']]) (\<lambda>tup1.
       unpack2 tup1 (\<lambda>name variant.
         merge (dict_from (index q8_configs (num 1)))
           (dict_of [(''name'', ret name), (''route_selection'', ret variant)])))"

definition scratch_configs :: "expr" where
  "scratch_configs =
     each (tuple_of [tuple_of [str ''control'', str ''none''], tuple_of [str ''candidate'', str ''reuse'']]) (\<lambda>tup1.
       unpack2 tup1 (\<lambda>name mode.
         merge (dict_from (index router_configs (num 1)))
           (dict_of [(''name'', ret name), (''expert_tail'', str ''wait''),
                (''decode_scratch'', ret mode)])))"

definition PACKED :: pyval where
  "PACKED = PTuple [PStr ''q4_gate_up_packed_r2'', PStr ''q4_down_packed_r2'']"

definition STAGE_ORDER :: pyval where
  "STAGE_ORDER =
     PTuple [PTuple [PInt 0, PStr ''control''], PTuple [PInt 0, PStr ''candidate''],
        PTuple [PInt 1, PStr ''candidate''], PTuple [PInt 1, PStr ''control'']]"

definition stage_configuration :: "pyval \<Rightarrow> pyval \<Rightarrow> pyval \<Rightarrow> expr" where
  "stage_configuration slots policy name =
     merge (dict_from (index scratch_configs (num 1)))
       (dict_of [(''name'', ret name), (''expert_slots'', ret slots),
            (''memory_pressure_policy'', ret policy)])"

definition RESIDENCY_SLOTS :: pyval where
  "RESIDENCY_SLOTS = PTuple [PInt 1072, PInt 1460]"

definition residency_configs :: "expr" where
  "residency_configs =
     each (zip_of (tuple_of [str ''control'', str ''candidate'']) (ret RESIDENCY_SLOTS)) (\<lambda>tup1.
       unpack2 tup1 (\<lambda>name slots.
         merge (dict_from (call3 stage_configuration (ret slots) (str ''observe'') (ret name)))
           (dict_of [(''residency'', str ''core-cache''), (''decode_submission'', str ''immediate'')])))"

definition combined_configs :: "expr" where
  "combined_configs =
     bnd residency_configs (\<lambda>tup1.
     unpack2 tup1 (\<lambda>small large.
     each (list_of [tuple_of [str ''A'', ret small, str ''reference''],
          tuple_of [str ''B'', ret small, str ''packed-r2''],
          tuple_of [str ''C'', ret large, str ''reference''],
          tuple_of [str ''D'', ret large, str ''packed-r2'']]) (\<lambda>tup2.
       unpack3 tup2 (\<lambda>arm c q4.
         merge (dict_from (ret c)) (dict_of [(''name'', ret arm), (''q4_decode'', ret q4)])))))"

section \<open>Counters, digests and process memory\<close>

definition uint :: "pyval \<Rightarrow> expr" where
  "uint value =
     conjs [type_in (ret value) [TInt], ge (ret value) (num 0)]"

definition valid_sha256 :: "pyval \<Rightarrow> expr" where
  "valid_sha256 value =
     conjs [isinstance (ret value) [TStr], eq (size_of (ret value)) (num 64),
        every (ret value) (\<lambda>c. isin (ret c) (str ''0123456789abcdef''))]"

definition clean_memory :: "pyval \<Rightarrow> expr" where
  "clean_memory raw =
     loop_exit (item (ret raw) ''runs'') () (\<lambda>unused row.
     loop_exit (values_of (item (ret row) ''phases'')) () (\<lambda>unused phase.
     bnd (each (tuple_of [str ''before'', str ''after'']) (\<lambda>k.
         item (index (ret phase) (ret k)) ''process'')) (\<lambda>tup1.
     unpack2 tup1 (\<lambda>a b.
     branch (some (tuple_of [ret a, ret b]) (\<lambda>s. ne (get (ret s) ''compressed_bytes'') (num 0)))
       (leave no) (
     branch (disjs [nay (type_in (get (ret a) ''decompressions'') [TInt]),
          ne (get (ret b) ''decompressions'') (item (ret a) ''decompressions'')]) (leave no) (
     stay ()))))) (\<lambda>r. leave (ret r)) (\<lambda>unused.
     stay ())) (\<lambda>r. ret r) (\<lambda>unused.
     yes)"

definition residency_memory :: "pyval \<Rightarrow> expr" where
  "residency_memory raw =
     bnd (flatten (each (item (ret raw) ''runs'') (\<lambda>r.
           flatten (each (tuple_of [str ''ingest'', str ''decode'']) (\<lambda>phase.
               each (tuple_of [str ''before'', str ''after'']) (\<lambda>k.
                 item (index (index (item (ret r) ''phases'') (ret phase)) (ret k)) ''process'')))))) (\<lambda>states.
     bnd (each (ret states) (\<lambda>s. get (ret s) ''system_swap_used_bytes'')) (\<lambda>swaps.
     bnd (conjs [bool_of (ret swaps),
          every (ret swaps) (\<lambda>n. conjs [type_in (ret n) [TInt], ge (ret n) (num 0)])]) (\<lambda>valid.
     bnd (branch (ret valid)
         (max_or (each (zip_of (ret swaps) (slice (ret swaps) (num 1) none)) (\<lambda>tup1.
               unpack2 tup1 (\<lambda>a b. sub (ret b) (ret a)))) (num 0)) none) (\<lambda>growth.
     bnd (clean_memory raw) (\<lambda>clean.
     dict_of [(''clean_memory'', ret clean), (''swap_observations_bytes'', ret swaps),
        (''maximum_observed_swap_increase_bytes'', branch (ret valid)
            (max_args [num 0, ret growth]) none),
        (''memory_screen_passed'', conjs [ret clean, ret valid, le (ret growth) (num 0)])])))))"

section \<open>The machine and the configuration of a run\<close>

definition check_machine :: "pyval \<Rightarrow> pyval \<Rightarrow> pyval \<Rightarrow> expr" where
  "check_machine state evidence' budget_bytes =
     reject (disjs [nay (type_in (ret budget_bytes) [TInt]),
          nay (conjs [lt (num 0) (ret budget_bytes), le (ret budget_bytes) (mul (num 22) (ret GiB))])])
       ''Invalid explicit memory budget'' (
     bnd (item (ret state) ''metal'') (\<lambda>machine.
     reject (some (list_of [tuple_of [str ''build_fingerprint'', str ''build''],
            tuple_of [str ''device'', str ''device''],
            tuple_of [str ''physical_bytes'', str ''physical_bytes'']]) (\<lambda>tup1.
         unpack2 tup1 (\<lambda>k v. ne (index (ret machine) (ret k)) (index (ret evidence') (ret v)))))
       ''Execution machine or build differs'' (
     reject (disjs [ne (item (ret state) ''artifact_revision'') (item (ret evidence') ''artifact_revision''),
          ne (item (item (ret state) ''prepared'') ''manifest_sha256'')
              (item (ret evidence') ''prepared_manifest_sha256'')]) ''Execution artifact differs'' (
     bnd (item (ret state) ''memory_plan'') (\<lambda>plan.
     reject (disjs [ne (item (ret plan) ''limit_bytes'') (ret budget_bytes),
          gt (item (ret plan) ''planned_bytes'') (ret budget_bytes),
          gt (item (item (ret state) ''process'') ''physical_footprint_bytes'') (ret budget_bytes),
          gt (item (ret machine) ''peak_buffer_bytes'') (ret budget_bytes)])
       ''Execution exceeded or reduced the fixed memory budget'' (
     none))))))"

definition check_configuration :: "(pyval \<Rightarrow> expr) \<Rightarrow> pyval \<Rightarrow> pyval \<Rightarrow> expr" where
  "check_configuration read_json state config =
     reject (ne (get_or (ret state) ''decode_submission'' (str ''immediate''))
         (get_or (ret config) ''decode_submission'' (str ''immediate'')))
       ''Decode submission differs from requested configuration'' (
     reject (ne (get_or (get_or (ret state) ''memory_pressure'' (dict_of [])) ''policy''
           (str ''observe'')) (get_or (ret config) ''memory_pressure_policy'' (str ''observe'')))
       ''Memory pressure policy differs from requested configuration'' (
     bnd (get_or (ret state) ''execution'' (dict_of [])) (\<lambda>execution.
     bnd (loop (list_of [tuple_of [str ''cache_policy'', str ''clock''],
            tuple_of [str ''sparse_selection'', str ''cpu''],
            tuple_of [str ''residency'', str ''off''],
            tuple_of [str ''decode_path'', str ''reference''],
            tuple_of [str ''prefill_pipeline'', str ''serial''],
            tuple_of [str ''phase_memory'', str ''fixed''],
            tuple_of [str ''expert_tail'', str ''wait''],
            tuple_of [str ''decode_scratch'', str ''none'']]) () (\<lambda>unused tup1.
       unpack2 tup1 (\<lambda>key default.
         reject (ne (lookup_or (ret execution) (ret key) (ret default))
             (lookup_or (ret config) (ret key) (ret default)))
           ''Session execution differs from requested configuration'' (
         Inr ())))) (\<lambda>unused.
     reject (get_or (ret execution) ''cached_token_replay'' no)
       ''Cached replay cannot qualify sessions'' (
     bnd (get_or (item (ret state) ''metal'') ''kernels'' (dict_of [])) (\<lambda>kernels.
     bnd (loop (list_of [tuple_of [str ''kernel_policy'', str ''policy'', str ''reference''],
            tuple_of [str ''token_tile'', str ''token_tile'', num 1],
            tuple_of [str ''gdn_path'', str ''gdn'', str ''original''],
            tuple_of [str ''gdn_rows'', str ''gdn_rows'', num 4],
            tuple_of [str ''gdn_block'', str ''gdn_block'', num 8],
            tuple_of [str ''affine_rows'', str ''affine_rows'', num 1],
            tuple_of [str ''q8_decode_rows'', str ''q8_decode_rows'', num 0],
            tuple_of [str ''route_selection'', str ''route_selection'', str ''serial''],
            tuple_of [str ''q4_decode'', str ''q4_decode'', str ''reference''],
            tuple_of [str ''attention_score_tiles'', str ''attention_score_tiles'', str ''full'']])
         () (\<lambda>unused tup2.
       unpack3 tup2 (\<lambda>option key default.
         reject (ne (lookup_or (ret kernels) (ret key) (ret default))
             (lookup_or (ret config) (ret option) (ret default)))
           ''Session kernels differ from requested configuration'' (
         Inr ())))) (\<lambda>unused.
     reject (ne (get_or (ret kernels) ''gate_pair'' no)
         (eq (get_or (ret config) ''gate_pair'' (str ''off'')) (str ''on'')))
       ''Session gate pairing differs from requested configuration'' (
     bnd (branch (get (ret config) ''shape_policy'')
         (call1 read_json (item (ret config) ''shape_policy'')) none) (\<lambda>shape.
     reject (ne (get (ret kernels) ''shape_table'') (ret shape)) ''Session shape selection changed'' (
     bnd (loop (list_of [tuple_of [str ''ready_group'', str ''ready_group'', num 4],
            tuple_of [str ''chunk'', str ''chunk_tokens'', num 128],
            tuple_of [str ''io_workers'', str ''io_workers'', num 8]]) () (\<lambda>unused tup3.
       unpack3 tup3 (\<lambda>option key default.
         reject (ne (lookup (ret state) (ret key))
             (lookup_or (ret config) (ret option) (ret default)))
           ''Session schedule differs from requested configuration'' (
         Inr ())))) (\<lambda>unused.
     none)))))))))))"

definition compare_sessions :: "(pyval \<Rightarrow> expr) \<Rightarrow> pyval \<Rightarrow> pyval \<Rightarrow> pyval \<Rightarrow> pyval \<Rightarrow> pyval \<Rightarrow> expr" where
  "compare_sessions read_json reference candidate build reference_config candidate_config =
     bnd (tuple_of [branch (same (ret reference_config) none) (get (ret reference) ''case'')
              (ret reference_config),
          branch (same (ret candidate_config) none) (get (ret candidate) ''case'')
              (ret candidate_config)]) (\<lambda>configs.
     reject (some (ret configs) (\<lambda>c. nay (isinstance (ret c) [TDict])))
       ''Missing requested session configurations'' (
     reject (disjs [ne (get_or (index (ret configs) (num 0)) ''kernel_policy'' (str ''reference''))
              (str ''reference''),
          ne (get (index (ret configs) (num 1)) ''kernel_policy'') (str ''candidate'')])
       ''Requires original reference and explicit candidate configurations'' (
     bnd (loop (zip_of (tuple_of [ret reference, ret candidate]) (ret configs)) () (\<lambda>unused tup1.
       unpack2 tup1 (\<lambda>report config.
         reject (ne (get (ret report) ''case'') (ret config))
           ''Session case differs from requested configuration'' (
         bnd (loop (get_or (ret report) ''runs'' (list_of [])) () (\<lambda>unused row.
           bnd (loop (tuple_of [str ''continued_statistics'', str ''after_fresh'']) () (\<lambda>unused name.
             bnd (call2 (check_configuration read_json) (index (ret row) (ret name)) (ret config)) (\<lambda>unused.
             Inr ()))) (\<lambda>unused.
           Inr ()))) (\<lambda>unused.
         Inr ()))))) (\<lambda>unused.
     reject (disjs [nay (get (ret reference) ''passed''), nay (get (ret candidate) ''passed'')])
       ''State/failure harness failed'' (
     reject (disjs [nay (item (ret reference) ''runs''),
          ne (size_of (item (ret reference) ''runs'')) (size_of (item (ret candidate) ''runs''))])
       ''Different or missing admitted panel coverage'' (
     bnd (loop (zip_of (item (ret reference) ''runs'') (item (ret candidate) ''runs'')) () (\<lambda>unused tup2.
       unpack2 tup2 (\<lambda>a b.
         reject (disjs [ne (item (ret a) ''panel'') (item (ret b) ''panel''),
              ne (item (ret a) ''stages'') (item (ret b) ''stages'')])
           ''Changed logits, route identities, or persistent state'' (
         bnd (loop (tuple_of [ret a, ret b]) () (\<lambda>unused r.
           bnd (item (ret r) ''continued_statistics'') (\<lambda>s.
           reject (disjs [ne (item (item (ret s) ''metal'') ''build_fingerprint'') (ret build),
                item (ret s) ''diagnostic_stream_trunk'',
                ne (item (item (ret s) ''memory_plan'') ''panel_tokens'') (item (ret r) ''panel'')])
             ''Wrong build, diagnostic execution, or reduced panel'' (
           bnd (loop (item (ret r) ''stages'') () (\<lambda>unused stage.
             reject (disjs [ne (size_of (item (ret stage) ''layers'')) (num 48),
                  ne (size_of (item (ret stage) ''routes'')) (num 48)])
               ''Incomplete layer or route proof'' (
             Inr ()))) (\<lambda>unused.
           Inr ()))))) (\<lambda>unused.
         Inr ()))))) (\<lambda>unused.
     yes)))))))"

definition check_prime :: "pyval \<Rightarrow> pyval \<Rightarrow> pyval \<Rightarrow> pyval \<Rightarrow> expr" where
  "check_prime report build prefix' append' =
     reject (disjs [differs (get (ret report) ''complete'') yes,
          ne (size_of (get_or (ret report) ''runs'' (list_of []))) (num 3)])
       ''Incomplete prime/append check'' (
     bnd (item (ret report) ''runs'') (\<lambda>tup1.
     unpack3 tup1 (\<lambda>prime continued fresh.
     reject (disjs [ne (item (ret prime) ''finish_reason'') (str ''primed''),
          item (ret prime) ''output_tokens'', ne (item (ret prime) ''prompt_tokens'') (ret prefix')])
       ''Priming sampled a token or ingested the wrong prefix'' (
     reject (disjs [ne (item (ret continued) ''reused_tokens'') (ret prefix'),
          ne (item (ret continued) ''prefill_tokens'') (ret append'),
          item (ret continued) ''pending_tokens_ingested''])
       ''Append included unrequested work or failed to retain the prime'' (
     reject (disjs [item (ret fresh) ''reused_tokens'',
          ne (item (ret continued) ''output_token_ids'') (item (ret fresh) ''output_token_ids''),
          ne (item (ret continued) ''output_tokens'') (num 2)])
       ''Primed continuation differs from fresh replay'' (
     bnd (loop (item (ret report) ''runs'') () (\<lambda>unused row.
       reject (disjs [ne (item (item (item (ret row) ''after'') ''metal'') ''build_fingerprint'') (ret build),
            item (item (ret row) ''after'') ''diagnostic_stream_trunk''])
         ''Wrong build or diagnostic Session execution'' (
       Inr ()))) (\<lambda>unused.
     item (ret continued) ''output_token_ids'')))))))"

section \<open>Decisions of the paired screens\<close>

definition paired_log_interval :: "(string \<Rightarrow> pyval \<Rightarrow> expr) \<Rightarrow> pyval \<Rightarrow> expr" where
  "paired_log_interval libm ratios =
     reject (disjs [ne (size_of (ret ratios)) (num 5),
          some (ret ratios) (\<lambda>v.
              disjs [nay (type_in (ret v) [TInt, TFloat]), nay (isfinite (ret v)), le (ret v) (num 0)])])
       ''Requires exactly five positive finite paired ratios'' (
     bnd (each (ret ratios) (\<lambda>v. call1 (libm ''log'') (ret v))) (\<lambda>logs.
     bnd (mean (ret logs)) (\<lambda>mean'.
     bnd (truediv (mul (flt (27764451051977987 / 10000000000000000))
           (call1 (libm ''stdev'') (ret logs))) (call1 (libm ''sqrt'') (num 5))) (\<lambda>half_width.
     dict_of [(''geometric_mean'', call1 (libm ''exp'') (ret mean')),
        (''low'', call1 (libm ''exp'') (sub (ret mean') (ret half_width))),
        (''high'', call1 (libm ''exp'') (add (ret mean') (ret half_width))), (''pairs'', num 5),
        (''method'', str ''paired log-ratio Student-t interval, two-sided 95%, df=4''),
        (''assumptions'', str
            (''Independent approximately normal pair log-ratios; temporal host effects may violate this. Marginal intervals are not simultaneous coverage.''))]))))"

definition capacity_decision :: "pyval \<Rightarrow> pyval \<Rightarrow> pyval \<Rightarrow> expr" where
  "capacity_decision measurements' control candidate =
     reject (ne (each (ret measurements') (\<lambda>m.
           tuple_of [item (ret m) ''pair'', item (ret m) ''configuration'']))
         (list_from (ret STAGE_ORDER))) ''Missing alternating capacity pairs'' (
     bnd (each_dict (ret measurements') (\<lambda>m.
         tuple_of [item (ret m) ''pair'', item (ret m) ''configuration'']) (\<lambda>m. ret m)) (\<lambda>by.
     bnd (list_of []) (\<lambda>ratios.
     bnd (loop (range_to (num 2)) ratios (\<lambda>ratios pair.
       bnd (each (tuple_of [str ''control'', str ''candidate'']) (\<lambda>k.
           sum_of (each (item (index (ret by) (tuple_of [ret pair, ret k])) ''requests'') (\<lambda>r.
               item (ret r) ''request_ms'')))) (\<lambda>tup1.
       unpack2 tup1 (\<lambda>a b.
       reject (nay (every (tuple_of [ret a, ret b]) (\<lambda>v.
             conjs [isfinite (ret v), gt (ret v) (num 0)]))) ''Invalid request timing'' (
       bnd (append (ret ratios) (truediv (ret b) (ret a))) (\<lambda>ratios.
       ret ratios)))))) (\<lambda>ratios.
     bnd (every (range_to (num 2)) (\<lambda>p.
         same (item (index (ret by) (tuple_of [ret p, str ''control''])) ''clean_memory'') yes)) (\<lambda>current_clean.
     bnd (every (range_to (num 2)) (\<lambda>p.
         same (item (index (ret by) (tuple_of [ret p, str ''candidate''])) ''clean_memory'') yes)) (\<lambda>candidate_clean.
     bnd (branch (ret current_clean) (ret control)
         (branch (conjs [ret candidate_clean, le (median (ret ratios)) (flt (21 / 20))])
             (ret candidate) none)) (\<lambda>selected.
     dict_of [(''status'', branch (ret selected) (str ''provisional'') (str ''unresolved_pressure'')),
        (''selected_slots'', ret selected), (''current_clean'', ret current_clean),
        (''candidate_clean'', ret candidate_clean), (''conversation_ratios'', ret ratios),
        (''median_conversation_ratio'', median (ret ratios)), (''stability_evidence'', yes),
        (''normal_request_latency_qualified'', no), (''production_promoted'', no)])))))))"

definition SELECTOR_CASES :: pyval where
  "SELECTOR_CASES =
     PTuple [PStr ''prompt_2k'', PStr ''prompt_4k'', PStr ''append_128'', PStr ''prompt_7k'']"

definition SELECTOR_METRICS :: pyval where
  "SELECTOR_METRICS = PTuple [PStr ''ttft_ms'', PStr ''decode_ms_per_token'', PStr ''request_ms'']"

definition screen_gate :: "pyval \<Rightarrow> expr" where
  "screen_gate screen =
     reject (disjs [differs (get (ret screen) ''complete'') yes,
          ne (get (ret screen) ''mode'') (str ''screen''),
          ne (get (ret screen) ''comparison_purpose'') (str ''experiment'')])
       ''Requires a complete normal selector screen'' (
     bnd (item (ret screen) ''measurements'') (\<lambda>rows.
     bnd (set_of (flatten (each (range_to (num 2)) (\<lambda>p.
             flatten (each (tuple_of [str ''cpu-selection'', str ''gpu-selection'']) (\<lambda>c.
                 each (ret SELECTOR_CASES) (\<lambda>n. tuple_of [ret p, ret c, ret n]))))))) (\<lambda>expected.
     bnd (each (ret rows) (\<lambda>r.
         tuple_of [item (ret r) ''pair'', item (ret r) ''configuration'', item (ret r) ''name''])) (\<lambda>keys.
     reject (disjs [ne (size_of (ret keys)) (size_of (ret expected)), ne (set_of (ret keys)) (ret expected)])
       ''Screen requires sixteen unique measurements'' (
     bnd (dict_from (zip_of (ret keys) (ret rows))) (\<lambda>index'.
     bnd (list_of []) (\<lambda>ratios.
     bnd (loop (ret SELECTOR_CASES) ratios (\<lambda>ratios name.
       bnd none (\<lambda>tokens.
       bnd (loop (ret keys) tokens (\<lambda>tokens tup1.
         unpack3 tup1 (\<lambda>p c n.
           branch (ne (ret n) (ret name)) (ret tokens) (
           bnd (get (index (ret index') (tuple_of [ret p, ret c, ret n])) ''output_token_ids'') (\<lambda>ids.
           reject (disjs [nay (isinstance (ret ids) [TList]), ne (size_of (ret ids)) (num 64),
                conjs [differs (ret tokens) none, ne (ret tokens) (ret ids)]])
             ''Screen generated tokens differ or are missing'' (
           bnd (ret ids) (\<lambda>tokens.
           ret tokens))))))) (\<lambda>tokens.
       bnd (loop (ret SELECTOR_METRICS) ratios (\<lambda>ratios metric.
         bnd (list_of []) (\<lambda>pair.
         bnd (loop (range_to (num 2)) pair (\<lambda>pair p.
           bnd (each (tuple_of [str ''cpu-selection'', str ''gpu-selection'']) (\<lambda>c.
               index (index (ret index') (tuple_of [ret p, ret c, ret name])) (ret metric))) (\<lambda>values.
           reject (some (ret values) (\<lambda>x.
               disjs [isinstance (ret x) [TBool], nay (isinstance (ret x) [TInt, TFloat]),
                  nay (isfinite (ret x)), le (ret x) (num 0)]))
             ''Screen timing must be positive and finite'' (
           bnd (append (ret pair)
               (truediv (index (ret values) (num 1)) (index (ret values) (num 0)))) (\<lambda>pair.
           ret pair))))) (\<lambda>pair.
         bnd (append (ret ratios)
             (dict_of [(''case'', ret name), (''metric'', ret metric), (''ratios'', ret pair),
                  (''median'', median (ret pair))])) (\<lambda>ratios.
         ret ratios))))) (\<lambda>ratios.
       ret ratios))))) (\<lambda>ratios.
     bnd (some (ret ratios) (\<lambda>r.
         conjs [isin (item (ret r) ''case'') (tuple_of [str ''prompt_4k'', str ''append_128'']),
            eq (item (ret r) ''metric'') (str ''request_ms''),
            le (item (ret r) ''median'') (flt (99 / 100)),
            every (item (ret r) ''ratios'') (\<lambda>x. lt (ret x) (num 1))])) (\<lambda>promising.
     bnd (conjs [ret promising, every (ret ratios) (\<lambda>r. le (item (ret r) ''median'') (flt (103 / 100)))]) (\<lambda>advance.
     dict_of [(''advance_to_paired'', ret advance),
        (''status'', branch (ret advance) (str ''promising'')
            (str ''improvement_not_demonstrated'')),
        (''ratios'', ret ratios), (''confidence_claim'', no), (''production_promoted'', no)]))))))))))"

definition stage_complete :: "pyval \<Rightarrow> expr" where
  "stage_complete phases =
     bnd (set_disp [str ''recovery'', str ''capture'', str ''qualify'', str ''cached-4096'',
          str ''cached-2048'', str ''cached-7168'', str ''screen'', str ''profile'']) (\<lambda>needed.
     branch (nay (every (ret needed) (\<lambda>p.
           eq (get (lookup_or (ret phases) (ret p) (dict_of [])) ''status'') (str ''passed'')))) no (
     bnd (item (item (ret phases) ''screen'') ''result'') (\<lambda>gate.
     disjs [nay (item (ret gate) ''advance_to_paired''),
        eq (get (get_or (ret phases) ''paired'' (dict_of [])) ''status'') (str ''passed'')])))"

definition sparse_acceptance :: "pyval \<Rightarrow> expr" where
  "sparse_acceptance summary =
     reject (disjs [nay (get (ret summary) ''complete''), ne (get (ret summary) ''mode'') (str ''paired''),
          ne (get (ret summary) ''comparison_purpose'') (str ''experiment'')])
       ''Requires a completed paired experiment'' (
     bnd (item (ret summary) ''comparisons'') (\<lambda>comparisons.
     reject (ne (size_of (ret comparisons)) (num 1)) ''Freeze one candidate before qualification'' (
     bnd (item (index (ret comparisons) (num 0)) ''confidence_bounds'') (\<lambda>bounds.
     bnd (set_of (flatten (each (tuple_of [str ''prompt_2k'', str ''prompt_4k'', str ''append_128'']) (\<lambda>c.
             each (tuple_of [str ''ttft_ms'', str ''decode_ms_per_token'', str ''request_ms'']) (\<lambda>m.
               tuple_of [ret c, ret m]))))) (\<lambda>required.
     reject (disjs [ne (set_of (each (ret bounds) (\<lambda>b.
                  tuple_of [item (ret b) ''case'', item (ret b) ''metric'']))) (ret required),
          ne (size_of (ret bounds)) (size_of (ret required))])
       ''Missing or duplicate workload metrics'' (
     bnd (loop (ret bounds) () (\<lambda>unused b.
       reject (disjs [lt (item (ret b) ''pairs'') (num 5),
            nay (every (tuple_of [str ''median'', str ''low'', str ''high'']) (\<lambda>k.
                  conjs [isfinite (index (ret b) (ret k)), gt (index (ret b) (ret k)) (num 0)])),
            nay (conjs [le (item (ret b) ''low'') (item (ret b) ''median''),
                   le (item (ret b) ''median'') (item (ret b) ''high'')])])
         ''Invalid confidence evidence'' (
       Inr ()))) (\<lambda>unused.
     bnd (some (ret bounds) (\<lambda>b.
         conjs [isin (item (ret b) ''case'') (tuple_of [str ''prompt_4k'', str ''append_128'']),
            eq (item (ret b) ''metric'') (str ''request_ms''),
            le (item (ret b) ''median'') (flt (97 / 100)), lt (item (ret b) ''high'') (num 1)])) (\<lambda>improved.
     dict_of [(''stage_latency_passed'', conjs [ret improved, every (ret bounds) (\<lambda>b. le (item (ret b) ''high'') (flt (103 / 100)))]),
        (''full_product_acceptance'', no), (''production_promoted'', no)]))))))))"

end
