(* ===== verification/StepDiagnostics.thy ===== *)
theory StepDiagnostics
  imports RunChecks
begin

text \<open>
  The bounded decode diagnostics (\<open>scripts/qwen/diagnose_decode_startup.py\<close>) and the memory
  boundary evidence built on them (\<open>scripts/qwen/request_diagnostic_memory.py\<close>): counter deltas that
  stay unknown after a reset, the per-token coverage contract, and the chronological chain of
  process observations with its exact accounting of decompressions.
\<close>

definition COUNTERS :: pyval where
  "COUNTERS =
     PDict [(''process'', PTuple [PStr ''decompressions'', PStr ''page_faults'', PStr ''pageins'',
             PStr ''system_swap_used_bytes'']),
        (''metal'', PTuple [PStr ''cpu_encode_ns'', PStr ''cpu_gpu_wait_ns'', PStr ''gpu_command_ns'',
             PStr ''submissions'']),
        (''expert_cache'', PTuple [PStr ''hits'', PStr ''misses'', PStr ''application_read_bytes'']),
        (''expert_dependencies'', PTuple [PStr ''coordinator_wait_ns'', PStr ''read_service_sum_ns'', PStr ''read_queue_sum_ns''])]"

definition delta :: "pyval \<Rightarrow> pyval \<Rightarrow> expr" where
  "delta a b =
     branch (disjs [nay (type_in (ret a) [TInt]), nay (type_in (ret b) [TInt]), lt (ret a) (num 0),
          lt (ret b) (ret a)]) none (
     sub (ret b) (ret a))"

definition differences :: "pyval \<Rightarrow> pyval \<Rightarrow> expr" where
  "differences a b =
     each_dict (items_of (ret COUNTERS)) (\<lambda>tup1. unpack2 tup1 (\<lambda>group' keys. ret group')) (\<lambda>tup2.
       unpack2 tup2 (\<lambda>group' keys.
         each_dict (ret keys) (\<lambda>key. ret key) (\<lambda>key.
           call2 delta (lookup (lookup_or (ret a) (ret group') (dict_of [])) (ret key))
             (lookup (lookup_or (ret b) (ret group') (dict_of [])) (ret key)))))"

definition analyze_steps_total :: "pyval \<Rightarrow> pyval \<Rightarrow> pyval \<Rightarrow> expr" where
  "analyze_steps_total part group' key =
     bnd (each (ret part) (\<lambda>r. index (index (ret r) (ret group')) (ret key))) (\<lambda>values.
     branch (every (ret values) (\<lambda>v. differs (ret v) none)) (sum_of (ret values)) none)"

definition analyze_steps :: "pyval \<Rightarrow> expr" where
  "analyze_steps row =
     bnd (get_or (ret row) ''decode_diagnostics'' (dict_of [])) (\<lambda>d.
     bnd (get_or (ret row) ''token_latency_ms'' (list_of [])) (\<lambda>latency.
     bnd (get_or (ret d) ''samples'' (list_of [])) (\<lambda>samples.
     reject (disjs [differs (get (ret row) ''profiling_enabled'') yes,
          ne (get (ret d) ''kind'') (str ''decode_step_diagnostics_v1''),
          ne (get (ret d) ''max_steps'') (num 32),
          ne (get (ret d) ''total_decode_steps'') (size_of (ret latency)),
          ne (get (ret d) ''captured_steps'') (size_of (ret samples)),
          ne (size_of (ret samples)) (min_args [num 32, size_of (ret latency)]),
          ne (get (ret d) ''omitted_steps'') (sub (size_of (ret latency)) (size_of (ret samples)))])
       ''Missing or inconsistent bounded decode coverage'' (
     bnd (list_of []) (\<lambda>rows.
     bnd (num 0) (\<lambda>previous_end.
     bnd (loop (numbered (ret samples) 0) (previous_end, rows) (\<lambda>(previous_end, rows) tup1.
       unpack2 tup1 (\<lambda>i s.
         reject (disjs [ne (get (ret s) ''step'') (ret i),
              ne (get (ret s) ''offset'') (add (item (ret row) ''prompt_tokens'') (ret i)),
              ne (get (ret s) ''input_token_id'')
                  (index (item (ret row) ''output_token_ids'') (ret i)),
              ne (get (ret s) ''forward_ms'') (index (ret latency) (ret i)),
              nay (type_in (get (ret s) ''begin_ns'') [TInt]),
              nay (type_in (get (ret s) ''end_ns'') [TInt]),
              nay (conjs [le (ret previous_end) (item (ret s) ''begin_ns''),
                     lt (item (ret s) ''begin_ns'') (item (ret s) ''end_ns'')]),
              nay (isfinite (index (ret latency) (ret i))),
              le (index (ret latency) (ret i)) (num 0)])
           ''Decode observation does not match the committed token interval'' (
         bnd (item (ret s) ''end_ns'') (\<lambda>previous_end.
         bnd (loop (tuple_of [str ''before'', str ''after'']) () (\<lambda>unused key.
           reject (disjs [nay (type_in (get (index (ret s) (ret key)) ''sample_ns'') [TInt]),
                lt (item (index (ret s) (ret key)) ''sample_ns'') (num 0)])
             ''Missing observation cost'' (
           reject (ne (get (item (index (ret s) (ret key)) ''metal'') ''live_command_groups'')
               (num 0)) ''Counters require the existing completed forward boundary'' (
           Inr ())))) (\<lambda>unused.
         bnd (append (ret rows)
             (merge (merge (dict_of [(''step'', ret i), (''offset'', item (ret s) ''offset''),
                      (''forward_ms'', index (ret latency) (ret i))])
                   (call2 differences (item (ret s) ''before'') (item (ret s) ''after'')))
                 (dict_of [(''observation_ns'', add (item (item (ret s) ''before'') ''sample_ns'')
                          (item (item (ret s) ''after'') ''sample_ns'')),
                      (''compressed_bytes_before'', get (item (item (ret s) ''before'')
                            ''process'') ''compressed_bytes''),
                      (''compressed_bytes_after'', get (item (item (ret s) ''after'') ''process'')
                          ''compressed_bytes'')]))) (\<lambda>rows.
         Inr (previous_end, rows)))))))) (\<lambda>(previous_end, rows).
     bnd (list_of []) (\<lambda>windows.
     bnd (loop (list_of [tuple_of [str ''first_4'', num 0, num 4],
            tuple_of [str ''remaining_captured'', num 4, size_of (ret rows)]]) windows (\<lambda>windows tup4.
       unpack3 tup4 (\<lambda>name start end.
         bnd (slice (ret rows) (ret start) (ret end)) (\<lambda>part.
         branch (nay (ret part)) (ret windows) (
         bnd (append (ret windows)
             (merge (dict_of [(''name'', ret name), (''steps'', size_of (ret part)),
                    (''forward_ms'', sum_of (each (ret part) (\<lambda>r. item (ret r) ''forward_ms'')))])
                 (each_dict (items_of (ret COUNTERS)) (\<lambda>tup2. unpack2 tup2 (\<lambda>g keys. ret g)) (\<lambda>tup3.
                     unpack2 tup3 (\<lambda>g keys.
                       each_dict (ret keys) (\<lambda>k. ret k) (\<lambda>k. analyze_steps_total part g k)))))) (\<lambda>windows.
         ret windows)))))) (\<lambda>windows.
     dict_of [(''samples'', ret rows), (''windows'', ret windows),
        (''captured_steps'', size_of (ret rows)),
        (''omitted_steps'', item (ret d) ''omitted_steps''),
        (''observation_ns'', sum_of (each (ret rows) (\<lambda>r. item (ret r) ''observation_ns''))),
        (''counter_scope'', str
            (''CPU waits, GPU durations and concurrent reads overlap; their sums are not a critical-path decomposition.''))])))))))))"

definition GIB :: pyval where
  "GIB = PInt (1024 ^ 3)"

definition DIAGNOSTIC_MIB :: pyval where
  "DIAGNOSTIC_MIB = PInt (1024 ^ 2)"

definition UINT64_MAX :: pyval where
  "UINT64_MAX = PInt (2 ^ 64 - 1)"

definition GAUGES :: pyval where
  "GAUGES =
     PTuple [PStr ''physical_footprint_bytes'', PStr ''physical_footprint_peak_bytes'',
        PStr ''compressed_bytes'', PStr ''compressed_peak_bytes'', PStr ''decompressions'',
        PStr ''system_swap_used_bytes'']"

definition CUMULATIVE :: pyval where
  "CUMULATIVE =
     PTuple [PStr ''physical_footprint_peak_bytes'', PStr ''compressed_peak_bytes'',
        PStr ''decompressions'']"

definition uint_diagnostic :: "pyval \<Rightarrow> expr" where
  "uint_diagnostic value =
     conjs [type_in (ret value) [TInt], conjs [le (num 0) (ret value), le (ret value) (ret UINT64_MAX)]]"

definition difference :: "pyval \<Rightarrow> pyval \<Rightarrow> expr" where
  "difference a b =
     each_dict (ret GAUGES) (\<lambda>key. ret key) (\<lambda>key.
       sub (index (ret b) (ret key)) (index (ret a) (ret key)))"

definition analyze_memory_observe :: "pyval \<Rightarrow> pyval \<Rightarrow> pyval \<Rightarrow> pyval \<Rightarrow> pyval \<Rightarrow> pyval \<Rightarrow> pyval \<Rightarrow> pyval \<Rightarrow> expr" where
  "analyze_memory_observe budget_bytes compression_limit_bytes observations reasons state name label context =
     check_msg (conjs [isinstance (ret state) [TDict], isinstance (get (ret state) ''process'') [TDict]])
       (format_of [str ''Missing process observation at '', ret name, str '':'', ret label]) (
     bnd (each_dict (ret GAUGES) (\<lambda>key. ret key) (\<lambda>key.
         lookup (item (ret state) ''process'') (ret key))) (\<lambda>process.
     check_msg (every (values_of (ret process)) (\<lambda>value. uint_diagnostic value))
       (format_of [str ''Missing or invalid unsigned memory gauge at '', ret name, str '':'', ret label]) (
     check_msg (conjs [conjs [lt (num 0) (item (ret process) ''physical_footprint_bytes''),
               le (item (ret process) ''physical_footprint_bytes'')
                   (item (ret process) ''physical_footprint_peak_bytes'')],
          le (item (ret process) ''compressed_bytes'')
              (item (ret process) ''compressed_peak_bytes'')])
       (format_of [str ''Current memory exceeds its lifetime peak at '', ret name, str '':'', ret label]) (
     bnd none (\<lambda>delta.
     bnd (branch (ret observations)
         (bnd (item (index (ret observations) (num (- 1))) ''process'') (\<lambda>prior.
           check_msg (every (ret CUMULATIVE) (\<lambda>key.
               ge (index (ret process) (ret key)) (index (ret prior) (ret key))))
             (format_of [str ''Cumulative memory counter reset at '', ret name, str '':'', ret label]) (
           bnd (difference prior process) (\<lambda>delta.
           bnd (branch (gt (item (ret delta) ''system_swap_used_bytes'') (num 0))
               (bnd (append (ret reasons)
                     (format_of [str ''Observed system swap growth at '', ret name, str '':'', ret label])) (\<lambda>reasons.
                 ret reasons)) (ret reasons)) (\<lambda>reasons.
           Inr (delta, reasons)))))) (Inr (delta, reasons))) (\<lambda>(delta, reasons).
     bnd (branch (gt (item (ret process) ''physical_footprint_peak_bytes'') (ret budget_bytes))
         (bnd (append (ret reasons)
               (format_of [str ''Physical footprint peak exceeds budget at '', ret name, str '':'',
                    ret label])) (\<lambda>reasons.
           ret reasons)) (ret reasons)) (\<lambda>reasons.
     bnd (branch (gt (item (ret process) ''compressed_peak_bytes'') (ret compression_limit_bytes))
         (bnd (append (ret reasons)
               (format_of [str ''Compression lifetime peak exceeds diagnostic allowance at '', ret name,
                    str '':'', ret label])) (\<lambda>reasons.
           ret reasons)) (ret reasons)) (\<lambda>reasons.
     bnd (size_of (ret observations)) (\<lambda>index'.
     bnd (append (ret observations)
         (merge (dict_of [(''index'', ret index'), (''phase'', ret name), (''boundary'', ret label),
                (''process'', ret process), (''change_since_previous'', ret delta)]) (ret context))) (\<lambda>observations.
     tuple_of [tuple_of [ret process, ret index'], ret reasons, ret observations]))))))))))"

definition analyze_memory_phase_boundary :: "pyval \<Rightarrow> pyval \<Rightarrow> pyval \<Rightarrow> pyval \<Rightarrow> pyval \<Rightarrow> pyval \<Rightarrow> pyval \<Rightarrow> pyval \<Rightarrow> expr" where
  "analyze_memory_phase_boundary budget_bytes compression_limit_bytes observations reasons row phase boundary name =
     check (isinstance (get (ret row) ''phases'') [TDict]) ''Missing phase memory boundaries'' (
     bnd (lookup_or (item (ret row) ''phases'') (ret phase) (dict_of [])) (\<lambda>data.
     check_msg (isinstance (ret data) [TDict])
       (format_of [str ''Missing '', ret phase, str '' memory boundaries'']) (
     bnd (call4 (analyze_memory_observe budget_bytes compression_limit_bytes observations reasons)
         (lookup (ret data) (ret boundary)) (ret name)
         (format_of [ret phase, str ''.'', ret boundary]) (dict_of [])) (\<lambda>tup1.
     unpack3 tup1 (\<lambda>result reasons observations.
     tuple_of [ret result, ret reasons, ret observations])))))"

definition analyze_memory :: "pyval \<Rightarrow> pyval \<Rightarrow> pyval \<Rightarrow> expr" where
  "analyze_memory raw budget_bytes compression_limit_bytes =
     check (conjs [uint_diagnostic budget_bytes, gt (ret budget_bytes) (num 0),
          uint_diagnostic compression_limit_bytes,
          le (ret compression_limit_bytes) (ret budget_bytes)]) ''Invalid diagnostic memory limits'' (
     check (conjs [isinstance (ret raw) [TDict], same (get (ret raw) ''complete'') yes,
          isinstance (get (ret raw) ''runs'') [TList],
          eq (size_of (item (ret raw) ''runs'')) (num 2)])
       ''Memory diagnostic requires two complete request phases'' (
     bnd (list_of []) (\<lambda>observations.
     bnd (list_of []) (\<lambda>phases.
     bnd (list_of []) (\<lambda>reasons.
     bnd (num 0) (\<lambda>previous_end.
     bnd (each_if (item (ret raw) ''runs'') (\<lambda>row. isinstance (ret row) [TDict]) (\<lambda>row.
         get (ret row) ''name'')) (\<lambda>names.
     check (conjs [eq (size_of (ret names)) (num 2),
          every (ret names) (\<lambda>name. conjs [isinstance (ret name) [TStr], ret name]),
          eq (size_of (set_of (ret names))) (num 2)]) ''Missing or duplicate request phase names'' (
     bnd (loop (item (ret raw) ''runs'') (reasons, observations, previous_end, phases) (\<lambda>(reasons, observations, previous_end, phases) row.
       bnd (item (ret row) ''name'') (\<lambda>name.
       check (conjs [type_in (get (ret row) ''output_tokens'') [TInt],
            eq (item (ret row) ''output_tokens'') (num 17),
            isinstance (get (ret row) ''output_token_ids'') [TList],
            eq (size_of (item (ret row) ''output_token_ids'')) (num 17),
            isinstance (get (ret row) ''token_latency_ms'') [TList],
            eq (size_of (item (ret row) ''token_latency_ms'')) (num 16)])
         ''Memory diagnostic requires 17 outputs and 16 forwards per phase'' (
       bnd (get_or (ret row) ''decode_diagnostics'' (dict_of [])) (\<lambda>diagnostic.
       check (conjs [isinstance (ret diagnostic) [TDict],
            every (tuple_of [str ''max_steps'', str ''total_decode_steps'', str ''captured_steps'',
                   str ''omitted_steps'']) (\<lambda>key.
                call1 uint_diagnostic (lookup (ret diagnostic) (ret key)))])
         ''Missing or invalid decode coverage counters'' (
       bnd (attempt [''KeyError'', ''TypeError'', ''AttributeError'']
           (bnd (analyze_steps row) (\<lambda>steps.
             ret steps)) (\<lambda>error. Inl (ValueError ''Incomplete decode observation''))) (\<lambda>steps.
       check (conjs [eq (item (ret steps) ''captured_steps'') (num 16),
            eq (item (ret steps) ''omitted_steps'') (num 0)])
         ''Incomplete per-token memory coverage'' (
       bnd (call4 (analyze_memory_observe budget_bytes compression_limit_bytes observations reasons)
           (get (ret row) ''before'') (ret name) (str ''request.before'') (dict_of [])) (\<lambda>tup2.
       unpack3 tup2 (\<lambda>tup3 reasons observations.
       unpack2 tup3 (\<lambda>request_before first.
       bnd (call4 (analyze_memory_phase_boundary budget_bytes compression_limit_bytes observations
             reasons) (ret row) (str ''ingest'') (str ''before'') (ret name)) (\<lambda>tup4.
       unpack3 tup4 (\<lambda>tup5 reasons observations.
       unpack2 tup5 (\<lambda>ingest_before unused.
       bnd (call4 (analyze_memory_phase_boundary budget_bytes compression_limit_bytes observations
             reasons) (ret row) (str ''ingest'') (str ''after'') (ret name)) (\<lambda>tup6.
       unpack3 tup6 (\<lambda>tup7 reasons observations.
       unpack2 tup7 (\<lambda>ingest_after unused.
       bnd (call4 (analyze_memory_phase_boundary budget_bytes compression_limit_bytes observations
             reasons) (ret row) (str ''decode'') (str ''before'') (ret name)) (\<lambda>tup8.
       unpack3 tup8 (\<lambda>tup9 reasons observations.
       unpack2 tup9 (\<lambda>decode_before unused.
       bnd (list_of []) (\<lambda>tokens.
       bnd (list_of []) (\<lambda>gaps.
       bnd (ret decode_before) (\<lambda>prior.
       bnd (loop (item (ret diagnostic) ''samples'')
           (previous_end, reasons, observations, gaps, tokens, prior) (\<lambda>(previous_end, reasons, observations, gaps, tokens, prior) sample.
         bnd (item (ret sample) ''step'') (\<lambda>step.
         check (conjs [uint_diagnostic step, call1 uint_diagnostic (get (ret sample) ''offset''),
              call1 uint_diagnostic (get (ret sample) ''begin_ns''),
              call1 uint_diagnostic (get (ret sample) ''end_ns''),
              ge (item (ret sample) ''begin_ns'') (ret previous_end)])
           ''Nonchronological decode observation across request phases'' (
         bnd (item (ret sample) ''end_ns'') (\<lambda>previous_end.
         bnd (call4 (analyze_memory_observe budget_bytes compression_limit_bytes observations
               reasons) (item (ret sample) ''before'') (ret name) (str ''token.before'')
             (dict_of [(''step'', ret step), (''offset'', item (ret sample) ''offset''),
                  (''forward_begin_ns'', item (ret sample) ''begin_ns'')])) (\<lambda>tup10.
         unpack3 tup10 (\<lambda>tup11 reasons observations.
         unpack2 tup11 (\<lambda>before start.
         bnd (append (ret gaps)
             (dict_of [(''boundary'', branch (eq (ret step) (num 0)) (str ''decode_to_first_token'')
                      (str ''between_tokens'')),
                  (''preceding_step'', branch (eq (ret step) (num 0)) none
                      (sub (ret step) (num 1))),
                  (''following_step'', ret step), (''process_change'', difference prior before)])) (\<lambda>gaps.
         bnd (call4 (analyze_memory_observe budget_bytes compression_limit_bytes observations
               reasons) (item (ret sample) ''after'') (ret name) (str ''token.after'')
             (dict_of [(''step'', ret step), (''offset'', item (ret sample) ''offset''),
                  (''forward_end_ns'', item (ret sample) ''end_ns'')])) (\<lambda>tup12.
         unpack3 tup12 (\<lambda>tup13 reasons observations.
         unpack2 tup13 (\<lambda>after end.
         bnd (append (ret tokens)
             (dict_of [(''step'', ret step), (''offset'', item (ret sample) ''offset''),
                  (''input_token_id'', item (ret sample) ''input_token_id''),
                  (''forward_ms'', item (ret sample) ''forward_ms''),
                  (''before_observation'', ret start), (''after_observation'', ret end),
                  (''memory_before'', ret before), (''memory_after'', ret after),
                  (''process_change'', difference before after)])) (\<lambda>tokens.
         bnd (ret after) (\<lambda>prior.
         Inr (previous_end, reasons, observations, gaps, tokens, prior))))))))))))))) (\<lambda>(previous_end, reasons, observations, gaps, tokens, prior).
       bnd (call4 (analyze_memory_phase_boundary budget_bytes compression_limit_bytes observations
             reasons) (ret row) (str ''decode'') (str ''after'') (ret name)) (\<lambda>tup14.
       unpack3 tup14 (\<lambda>tup15 reasons observations.
       unpack2 tup15 (\<lambda>decode_after unused.
       bnd (append (ret gaps)
           (dict_of [(''boundary'', str ''last_token_to_decode''), (''preceding_step'', num 15),
                (''following_step'', none), (''process_change'', difference prior decode_after)])) (\<lambda>gaps.
       bnd (call4 (analyze_memory_observe budget_bytes compression_limit_bytes observations reasons)
           (get (ret row) ''after'') (ret name) (str ''request.after'') (dict_of [])) (\<lambda>tup16.
       unpack3 tup16 (\<lambda>tup17 reasons observations.
       unpack2 tup17 (\<lambda>request_after last'.
       bnd (sum_of (each (ret tokens) (\<lambda>token.
             item (item (ret token) ''process_change'') ''decompressions''))) (\<lambda>inside.
       bnd (sum_of (each (ret gaps) (\<lambda>gap.
             item (item (ret gap) ''process_change'') ''decompressions''))) (\<lambda>outside.
       bnd (sub (item (ret decode_after) ''decompressions'')
           (item (ret decode_before) ''decompressions'')) (\<lambda>decode_total.
       check (eq (add (ret inside) (ret outside)) (ret decode_total))
         ''Decode decompression accounting does not reconcile'' (
       bnd (sub (add (sub (add (sub (item (ret ingest_before) ''decompressions'')
                   (item (ret request_before) ''decompressions''))
                 (item (ret decode_before) ''decompressions''))
               (item (ret ingest_after) ''decompressions''))
             (item (ret request_after) ''decompressions''))
           (item (ret decode_after) ''decompressions'')) (\<lambda>outside_phases.
       bnd (append (ret phases)
           (dict_of [(''name'', ret name), (''first_observation'', ret first),
                (''last_observation'', ret last'), (''tokens'', ret tokens),
                (''decode_gaps'', ret gaps),
                (''ingest_process_change'', difference ingest_before ingest_after),
                (''decode_process_change'', difference decode_before decode_after),
                (''request_process_change'', difference request_before request_after),
                (''decompressions'', dict_of [(''ingest'', sub (item (ret ingest_after) ''decompressions'')
                         (item (ret ingest_before) ''decompressions'')),
                     (''decode'', ret decode_total), (''inside_token_forwards'', ret inside),
                     (''outside_token_forwards'', ret outside),
                     (''outside_ingest_and_decode'', ret outside_phases),
                     (''request'', sub (item (ret request_after) ''decompressions'')
                         (item (ret request_before) ''decompressions''))])])) (\<lambda>phases.
       Inr (reasons, observations, previous_end, phases)))))))))))))))))))))))))))))))))))))) (\<lambda>(reasons, observations, previous_end, phases).
     bnd (each (ret observations) (\<lambda>observation. item (ret observation) ''process'')) (\<lambda>processes.
     bnd (call2 difference
         (index (ret processes) (item (index (ret phases) (num 0)) ''last_observation''))
         (index (ret processes) (item (index (ret phases) (num 1)) ''first_observation''))) (\<lambda>between.
     bnd (sub (item (index (ret processes) (num (- 1))) ''decompressions'')
         (item (index (ret processes) (num 0)) ''decompressions'')) (\<lambda>total_decompressions.
     check (eq (add (sum_of (each (ret phases) (\<lambda>phase.
               item (item (ret phase) ''decompressions'') ''request'')))
           (item (ret between) ''decompressions'')) (ret total_decompressions))
       ''Request decompression accounting does not reconcile'' (
     bnd (eq (size_of (set_of (each (ret processes) (\<lambda>process.
               item (ret process) ''system_swap_used_bytes'')))) (num 1)) (\<lambda>stable_swap.
     bnd (conjs [nay (ret reasons),
          every (ret processes) (\<lambda>process.
              conjs [eq (item (ret process) ''compressed_bytes'')
                     (item (ret process) ''compressed_peak_bytes''),
                 eq (item (ret process) ''compressed_peak_bytes'') (num 0)]),
          eq (ret total_decompressions) (num 0), ret stable_swap]) (\<lambda>strict_clean.
     dict_of [(''kind'', str ''request_diagnostic_memory_v1''), (''complete'', yes),
        (''hard_limits_passed'', nay (ret reasons)), (''reasons'', ret reasons),
        (''diagnostic_usable'', nay (ret reasons)), (''strict_memory_clean'', ret strict_clean),
        (''budget_bytes'', ret budget_bytes),
        (''compression_peak_limit_bytes'', ret compression_limit_bytes),
        (''chronological_observations'', ret observations), (''phases'', ret phases),
        (''between_requests_process_change'', ret between),
        (''observed_decompressions'', ret total_decompressions),
        (''stable_observed_swap'', ret stable_swap),
        (''maxima'', each_dict (ret GAUGES) (\<lambda>key. ret key) (\<lambda>key.
            max_of (each (ret processes) (\<lambda>process. index (ret process) (ret key))))),
        (''coverage'', dict_of [(''request_phases'', num 2), (''decode_forwards'', num 32),
             (''omitted_decode_forwards'', num 0), (''observations'', size_of (ret observations)),
             (''includes_ingestion_and_between_token_gaps'', yes)]),
        (''normal_request_latency_qualified'', no), (''production_promoted'', no),
        (''limitations'', list_of [str
                 (''These are lifecycle and token boundary observations plus lifetime peaks, not a continuous physical-memory guard.''),
             str
                 (''The compression peak allowance is an operational diagnostic bound, not an empirical safety or performance threshold.''),
             str
                 (''Compressed-byte changes are signed net changes between samples. Gross compression traffic and unsampled churn are unknown.''),
             str
                 (''Token before/after process gauges bracket the forward; their exact sampling timestamps are not recorded.''),
             str
                 (''Between-token and phase-boundary decompressions are reported separately and are not attributed to a kernel or SSD read.''),
             str
                 (''System swap observations include other processes. An observed increase fails the diagnostic bound; decreases are permitted but do not satisfy strict stable-swap evidence.''),
             str
                 (''Decompressions before the first process observation are outside the measured interval. Lifetime compression and physical peaks include initialization.''),
             str
                 (''Every token is retained. Compression-disturbed diagnostic timing cannot qualify normal-request latency.'')])])))))))))))))))"

end
