(* ===== verification/RequestProfile.thy ===== *)
theory RequestProfile
  imports StepDiagnostics PyDump
begin

text \<open>
  Joining command, expert-read and token timestamps (\<open>scripts/qwen/decode_timeline.py\<close>,
  \<open>profile_resident_decode.py\<close>) and the attribution of decode time to command classes
  (\<open>q4_request_profile.py\<close>). A digest is taken of the sorted compact JSON text; \<open>float_repr\<close> prints a
  float and \<open>sha256\<close> is the hash of a text.
\<close>

definition BUCKETS :: pyval where
  "BUCKETS =
     PTuple [PStr ''gpu_active'', PStr ''gpu_idle_submitted'', PStr ''gpu_idle_ready_expert'',
        PStr ''gpu_idle_pending_read'', PStr ''gpu_idle_callback'', PStr ''gpu_idle_other'']"

definition ns :: "pyval \<Rightarrow> expr" where
  "ns value =
     reject (disjs [nay (type_in (ret value) [TInt, TFloat]), nay (isfinite (ret value)),
          lt (ret value) (num 0)]) ''Invalid timestamp'' (
     int_of (ret value))"

definition partition_add :: "pyval \<Rightarrow> pyval \<Rightarrow> pyval \<Rightarrow> pyval \<Rightarrow> expr" where
  "partition_add begin end events tup1 =
     unpack3 tup1 (\<lambda>kind a b.
       reject (disjs [notin (ret kind) (slice (ret BUCKETS) none (num (- 1))), gt (ret a) (ret b)])
         ''Invalid interval'' (
       bnd (max_args [ret begin, ret a]) (\<lambda>a.
       bnd (min_args [ret end, ret b]) (\<lambda>b.
       branch (lt (ret a) (ret b))
         (bnd (put (ret events) (ret a)
               (append (lookup_or (ret events) (ret a) (list_of []))
                   (tuple_of [ret kind, num 1]))) (\<lambda>events.
           bnd (put (ret events) (ret b)
               (append (lookup_or (ret events) (ret b) (list_of []))
                   (tuple_of [ret kind, num (- 1)]))) (\<lambda>events.
           ret events))) (ret events)))))"

definition partition_change :: "pyval \<Rightarrow> pyval \<Rightarrow> expr" where
  "partition_change active tup2 =
     unpack2 tup2 (\<lambda>key change.
       put (ret active) (ret key) (add (lookup_or (ret active) (ret key) (num 0)) (ret change)))"

definition partition_sweep :: "pyval \<Rightarrow> pyval \<times> pyval \<times> pyval \<Rightarrow> pyval \<Rightarrow> (pyval \<times> pyval \<times> pyval) result" where
  "partition_sweep events = (\<lambda>(totals, active, previous) at'.
     bnd (next_or (slice (ret BUCKETS) none (num (- 1))) (\<lambda>k.
         lookup_or (ret active) (ret k) (num 0)) (\<lambda>k. ret k) (index (ret BUCKETS) (num (- 1)))) (\<lambda>kind.
     bnd (put (ret totals) (ret kind)
         (add (index (ret totals) (ret kind)) (sub (ret at') (ret previous)))) (\<lambda>totals.
     bnd (loop (lookup_or (ret events) (ret at') (list_of [])) active partition_change) (\<lambda>active.
     Inr (totals, active, at')))))"

definition partition :: "pyval \<Rightarrow> pyval \<Rightarrow> pyval \<Rightarrow> expr" where
  "partition begin end intervals =
     reject (nay (conjs [le (num 0) (ret begin), lt (ret begin) (ret end)]))
       ''Invalid token interval'' (
     bnd (setdefault (dict_of []) (ret begin) (list_of [])) (\<lambda>events.
     bnd (setdefault (ret events) (ret end) (list_of [])) (\<lambda>events.
     bnd (loop (ret intervals) events (partition_add begin end)) (\<lambda>events.
     bnd (dict_fromkeys (ret BUCKETS) (num 0)) (\<lambda>totals.
     bnd (loop (sorted_of (ret events)) (totals, PDict [], begin) (partition_sweep events)) (\<lambda>(totals, active, previous).
     assert_that (eq (sum_of (values_of (ret totals))) (sub (ret end) (ret begin))) (
     ret totals)))))))"

definition summarize :: "pyval \<Rightarrow> pyval \<Rightarrow> pyval \<Rightarrow> expr" where
  "summarize native profile dependencies =
     reject (disjs [differs (get (ret native) ''complete'') yes,
          ne (size_of (get_or (ret native) ''runs'' (list_of []))) (num 1),
          differs (get (ret profile) ''truncated'') no]) ''Incomplete normal trace'' (
     bnd (index (item (ret native) ''runs'') (num 0)) (\<lambda>row.
     bnd (analyze_steps row) (\<lambda>unused.
     bnd (item (ret row) ''after'') (\<lambda>state.
     bnd (item (item (ret state) ''metal'') ''build_fingerprint'') (\<lambda>build.
     bnd (item (ret state) ''artifact_revision'') (\<lambda>revision.
     reject (disjs [nay (item (item (item (ret state) ''metal'') ''kernels'') ''profile''),
          item (item (item (ret state) ''metal'') ''kernels'') ''counter_profile'',
          item (ret state) ''diagnostic_stream_trunk''])
       ''Requires original command groups without per-kernel passes'' (
     bnd (item (ret profile) ''command_groups'') (\<lambda>groups.
     bnd (dict_of []) (\<lambda>by_submit.
     bnd (list_of []) (\<lambda>intervals.
     bnd (loop (ret groups) (by_submit, intervals) (\<lambda>(by_submit, intervals) g.
       bnd (call1 ns (item (ret g) ''submitted_ns'')) (\<lambda>submitted.
       bnd (call1 ns (item (ret g) ''completed_ns'')) (\<lambda>completed.
       bnd (call1 ns (mul (item (ret g) ''gpu_start_seconds'') (flt 1000000000))) (\<lambda>start.
       bnd (call1 ns (mul (item (ret g) ''gpu_end_seconds'') (flt 1000000000))) (\<lambda>end.
       reject (disjs [nay (conjs [le (ret submitted) (ret start), le (ret start) (ret end),
                   le (ret end) (ret completed)]),
            isin (ret submitted) (ret by_submit)])
         ''Missing, reversed or duplicate command timestamps'' (
       bnd (put (ret by_submit) (ret submitted) (ret g)) (\<lambda>by_submit.
       bnd (list_extend (ret intervals)
           (tuple_of [tuple_of [str ''gpu_active'', ret start, ret end],
                tuple_of [str ''gpu_idle_submitted'', ret submitted, ret start],
                tuple_of [str ''gpu_idle_callback'', ret end, ret completed]])) (\<lambda>intervals.
       Inr (by_submit, intervals)))))))))) (\<lambda>(by_submit, intervals).
     bnd (get_or (ret profile) ''coverage'' (str ''all-dispatches'')) (\<lambda>coverage.
     reject (notin (ret coverage) (tuple_of [str ''all-dispatches'', str ''decode-only'']))
       ''Unknown profile coverage'' (
     bnd (branch (eq (ret coverage) (str ''decode-only''))
         (bnd (each (tuple_of [str ''before'', str ''after'']) (\<lambda>k.
               item (index (item (item (ret row) ''phases'') ''decode'') (ret k)) ''metal'')) (\<lambda>tup1.
           unpack2 tup1 (\<lambda>a b.
           bnd (sub (item (ret b) ''dispatches'') (item (ret a) ''dispatches'')) (\<lambda>expected.
           ret expected))))
         (bnd (sub (item (item (ret state) ''metal'') ''dispatches'')
               (item (item (item (ret row) ''before'') ''metal'') ''dispatches'')) (\<lambda>expected.
           ret expected))) (\<lambda>expected.
     reject (ne (sum_of (each (ret groups) (\<lambda>g. size_of (item (ret g) ''operations''))))
         (ret expected)) ''Missing dispatch coverage'' (
     bnd (loop (ret dependencies) () (\<lambda>unused d.
       reject (disjs [ne (get (ret d) ''build'') (ret build),
            ne (get (ret d) ''artifact_revision'') (ret revision)]) ''Dependency identity differs'' (
       Inr ()))) (\<lambda>unused.
     bnd (list_of []) (\<lambda>results.
     bnd (loop (item (item (ret row) ''decode_diagnostics'') ''samples'') results (\<lambda>results sample.
       bnd (call1 ns (item (ret sample) ''begin_ns'')) (\<lambda>begin.
       bnd (call1 ns (item (ret sample) ''end_ns'')) (\<lambda>end.
       bnd (item (ret sample) ''offset'') (\<lambda>offset.
       bnd (each_if (ret dependencies) (\<lambda>d.
           conjs [eq (item (ret d) ''tokens'') (num 1), eq (item (ret d) ''offset'') (ret offset)]) (\<lambda>d.
           ret d)) (\<lambda>passes.
       reject (ne (sorted_of (each (ret passes) (\<lambda>d. item (ret d) ''layer'')))
           (list_from (range_to (num 48)))) ''Incomplete or duplicate layer coverage'' (
       bnd (list_of []) (\<lambda>extra.
       bnd (dict_of []) (\<lambda>last_experts.
       bnd (num 0) (\<lambda>read_bytes.
       bnd (loop (ret passes) (last_experts, extra, read_bytes) (\<lambda>(last_experts, extra, read_bytes) d.
         bnd (item (ret d) ''records'') (\<lambda>records.
         bnd (item (ret d) ''routes'') (\<lambda>routes.
         reject (disjs [ne (size_of (ret records)) (num 10), ne (size_of (set_of (ret routes))) (num 10),
              ne (sorted_of (each (ret records) (\<lambda>r. item (ret r) ''expert'')))
                  (sorted_of (ret routes))]) ''Incomplete selected-expert coverage'' (
         bnd (put (ret last_experts) (item (ret d) ''layer'') (num 0)) (\<lambda>last_experts.
         bnd (loop (ret records) (last_experts, extra, read_bytes) (\<lambda>(last_experts, extra, read_bytes) r.
           bnd (each (tuple_of [str ''admitted_ns'', str ''read_completed_ns'', str ''encoded_ns'',
                  str ''submitted_ns'', str ''released_ns'']) (\<lambda>k. call1 ns (index (ret r) (ret k)))) (\<lambda>tup2.
           unpack5 tup2 (\<lambda>admitted ready encoded submitted released.
           reject (nay (conjs [le (ret begin) (ret admitted), le (ret admitted) (ret encoded),
                  le (ret encoded) (ret submitted), le (ret submitted) (ret released),
                  le (ret released) (ret end)]))
             ''Expert ownership lies outside its token or reverses'' (
           bnd (max_args [ret admitted, ret ready]) (\<lambda>ready.
           reject (disjs [gt (ret ready) (ret encoded), notin (ret submitted) (ret by_submit)])
             ''Data not ready or missing GPU user'' (
           bnd (index (ret by_submit) (ret submitted)) (\<lambda>g.
           reject (disjs [gt (abs_of (sub (item (ret r) ''gpu_start_ns'')
                        (int_of (mul (item (ret g) ''gpu_start_seconds'') (flt 1000000000)))))
                    (num 2),
                gt (abs_of (sub (item (ret r) ''gpu_end_ns'')
                        (int_of (mul (item (ret g) ''gpu_end_seconds'') (flt 1000000000))))) (num 2)])
             ''Expert and command clocks differ'' (
           bnd (put (ret last_experts) (item (ret d) ''layer'')
               (max_args [index (ret last_experts) (item (ret d) ''layer''),
                    call1 ns (item (ret r) ''gpu_end_ns'')])) (\<lambda>last_experts.
           reject (notin (item (ret r) ''acquisition'')
               (tuple_of [str ''ready_hit'', str ''new_miss'', str ''loading_join'']))
             ''Unknown acquisition'' (
           bnd (branch (ne (item (ret r) ''acquisition'') (str ''ready_hit''))
               (bnd (each (tuple_of [str ''read_queued_ns'', str ''read_started_ns'', str ''read_completed_ns'']) (\<lambda>k.
                     call1 ns (index (ret r) (ret k)))) (\<lambda>tup3.
                 unpack3 tup3 (\<lambda>q s c.
                 reject (nay (conjs [le (ret q) (ret s), le (ret s) (ret c)]))
                   ''Reversed read timing'' (
                 bnd (append (ret extra)
                     (tuple_of [str ''gpu_idle_pending_read'', ret admitted, ret ready])) (\<lambda>extra.
                 bnd (branch (eq (item (ret r) ''acquisition'') (str ''new_miss''))
                     (bnd (add (ret read_bytes) (num 2764800)) (\<lambda>read_bytes.
                       ret read_bytes)) (ret read_bytes)) (\<lambda>read_bytes.
                 Inr (extra, read_bytes))))))) (Inr (extra, read_bytes))) (\<lambda>(extra, read_bytes).
           bnd (append (ret extra)
               (tuple_of [str ''gpu_idle_ready_expert'', ret ready, ret submitted])) (\<lambda>extra.
           Inr (last_experts, extra, read_bytes)))))))))))))) (\<lambda>(last_experts, extra, read_bytes).
         Inr (last_experts, extra, read_bytes)))))))) (\<lambda>(last_experts, extra, read_bytes).
       bnd (each_if (ret groups) (\<lambda>g.
           some (item (ret g) ''operations'') (\<lambda>o'.
             conjs [eq (item (ret o') ''request_phase'') (str ''decode''),
                eq (item (ret o') ''offset'') (ret offset)])) (\<lambda>g. ret g)) (\<lambda>active_groups.
       bnd (list_of []) (\<lambda>boundary_gaps.
       bnd (loop (range_to (num 47)) boundary_gaps (\<lambda>boundary_gaps layer.
         bnd (each_if (ret active_groups) (\<lambda>g.
             some (item (ret g) ''operations'') (\<lambda>o'.
               conjs [eq (item (ret o') ''stage'') (str ''expert_reduce''),
                  eq (item (ret o') ''layer'') (ret layer)])) (\<lambda>g. ret g)) (\<lambda>following.
         reject (ne (size_of (ret following)) (num 1)) ''Missing expert reduction command'' (
         bnd (append (ret boundary_gaps)
             (max_args [num 0,
                  sub (item (index (ret following) (num 0)) ''submitted_ns'')
                      (index (ret last_experts) (ret layer))])) (\<lambda>boundary_gaps.
         ret boundary_gaps))))) (\<lambda>boundary_gaps.
       bnd (call3 partition (ret begin) (ret end) (add (ret intervals) (ret extra))) (\<lambda>buckets.
       bnd (append (ret results)
           (dict_of [(''step'', item (ret sample) ''step''), (''offset'', ret offset),
                (''forward_ms'', truediv (sub (ret end) (ret begin)) (flt 1000000)),
                (''buckets_ms'', each_dict (items_of (ret buckets)) (\<lambda>tup4.
                    unpack2 tup4 (\<lambda>k v. ret k)) (\<lambda>tup5.
                    unpack2 tup5 (\<lambda>k v. truediv (ret v) (flt 1000000)))),
                (''expert_read_bytes'', ret read_bytes),
                (''command_groups'', size_of (ret active_groups)),
                (''layer_boundary_submission_gap_ms'', truediv (sum_of (ret boundary_gaps))
                    (flt 1000000))])) (\<lambda>results.
       ret results)))))))))))))))) (\<lambda>results.
     reject (nay (ret results)) ''No committed decode samples'' (
     bnd (each_dict (ret BUCKETS) (\<lambda>k. ret k) (\<lambda>k.
         mean (each (ret results) (\<lambda>r. index (item (ret r) ''buckets_ms'') (ret k))))) (\<lambda>aggregate.
     dict_of [(''kind'', str ''decode_overlap_timeline_v1''), (''complete'', yes), (''build'', ret build),
        (''artifact_revision'', ret revision), (''captured_tokens'', size_of (ret results)),
        (''target_ms_per_token'', num 200),
        (''mean_forward_ms'', mean (each (ret results) (\<lambda>r. item (ret r) ''forward_ms''))),
        (''mean_buckets_ms'', ret aggregate),
        (''mean_layer_boundary_submission_gap_ms'', mean (each (ret results) (\<lambda>r.
              item (ret r) ''layer_boundary_submission_gap_ms''))),
        (''tokens'', ret results), (''normal_request_latency_qualified'', no),
        (''production_promoted'', no),
        (''limitations'', list_of [str
                 (''Original command groups are preserved, but trace collection and JSON writing add overhead.''),
             str
                 (''Bucket precedence is GPU active, submitted command, ready expert, pending read, callback, other; buckets sum to captured forward time.''),
             str
                 (''Overlap does not establish why a coordinator waited or predict a speedup; ready work can be blocked by buffer or GPU capacity.''),
             str ''Layer boundary gaps overlap the buckets and must not be added to them.'',
             str
                 (''Only the captured short-request token positions are covered; no 2K/4K acceptance claim.'')])]))))))))))))))))))))"

definition profile_row :: "pyval \<Rightarrow> pyval \<Rightarrow> pyval \<Rightarrow> pyval \<Rightarrow> expr" where
  "profile_row raw index' profile deps =
     bnd (index (item (ret raw) ''runs'') (ret index')) (\<lambda>row.
     bnd (item (ret row) ''prompt_tokens'') (\<lambda>low.
     bnd (add (ret low) (size_of (item (ret row) ''token_latency_ms''))) (\<lambda>high.
     bnd (list_of []) (\<lambda>groups.
     bnd (loop (item (ret profile) ''command_groups'') groups (\<lambda>groups g.
       bnd (each (item (ret g) ''operations'') (\<lambda>op.
           conjs [conjs [le (ret low) (item (ret op) ''offset''),
                   lt (item (ret op) ''offset'') (ret high)],
              eq (item (ret op) ''tokens'') (num 1)])) (\<lambda>inside.
       reject (conjs [some (ret inside) (\<lambda>x. ret x), nay (every (ret inside) (\<lambda>x. ret x))])
         ''Command crosses captured token window'' (
       bnd (branch (conjs [ret inside, every (ret inside) (\<lambda>x. ret x)])
           (bnd (append (ret groups) (ret g)) (\<lambda>groups.
             ret groups)) (ret groups)) (\<lambda>groups.
       ret groups))))) (\<lambda>groups.
     bnd (each_if (ret deps) (\<lambda>d.
         conjs [eq (item (ret d) ''tokens'') (num 1),
            conjs [le (ret low) (item (ret d) ''offset''), lt (item (ret d) ''offset'') (ret high)]]) (\<lambda>d.
         ret d)) (\<lambda>selected.
     call3 summarize (merge (dict_from (ret raw)) (dict_of [(''runs'', list_of [ret row])]))
       (merge (dict_from (ret profile)) (dict_of [(''command_groups'', ret groups)])) (ret selected)))))))"

definition CLASSES :: pyval where
  "CLASSES =
     PSet [PStr ''temporary'', PStr ''resident'', PStr ''state'', PStr ''expert'', PStr ''snapshot'',
        PStr ''workspace'']"

definition FIELDS :: pyval where
  "FIELDS =
     PSet [PStr ''allocations'', PStr ''allocated_bytes'', PStr ''allocation_ns'',
        PStr ''owner_releases'', PStr ''owner_released_bytes'', PStr ''outside_release_ns'']"

definition difference_buffer :: "pyval \<Rightarrow> pyval \<Rightarrow> expr" where
  "difference_buffer a b =
     reject (disjs [nay (type_in (ret a) [TInt]), nay (type_in (ret b) [TInt]),
          nay (conjs [le (num 0) (ret a), le (ret a) (ret b)])])
       ''Missing, negative or reset buffer counter'' (
     sub (ret b) (ret a))"

definition buffer_delta :: "pyval \<Rightarrow> pyval \<Rightarrow> expr" where
  "buffer_delta a b =
     bnd (get (ret a) ''buffer_costs'') (\<lambda>x.
     bnd (get (ret b) ''buffer_costs'') (\<lambda>y.
     bnd (loop (tuple_of [ret x, ret y]) () (\<lambda>unused cost.
       reject (disjs [nay (isinstance (ret cost) [TDict]),
            ne (get (ret cost) ''kind'') (str ''buffer_costs_v1''),
            ne (set_of (get_or (ret cost) ''classes'' (dict_of []))) (ret CLASSES)])
         ''Buffer cost measurement is unavailable or incompatible'' (
       reject (some (values_of (item (ret cost) ''classes'')) (\<lambda>c. ne (set_of (ret c)) (ret FIELDS)))
         ''Missing per-class counters'' (
       Inr ())))) (\<lambda>unused.
     bnd (call2 difference_buffer (item (ret x) ''retired_groups'')
         (item (ret y) ''retired_groups'')) (\<lambda>groups.
     bnd (each_dict (sorted_of (ret CLASSES)) (\<lambda>name. ret name) (\<lambda>name.
         each_dict (ret FIELDS) (\<lambda>k. ret k) (\<lambda>k.
           call2 difference_buffer (index (index (item (ret x) ''classes'') (ret name)) (ret k))
             (index (index (item (ret y) ''classes'') (ret name)) (ret k))))) (\<lambda>counts.
     reject (ne (sum_of (each (values_of (ret counts)) (\<lambda>c. item (ret c) ''allocations'')))
         (call2 difference_buffer (item (ret a) ''allocation_count'')
             (item (ret b) ''allocation_count'')))
       ''Physical allocation counts do not match the executor'' (
     reject (disjs [ne (ret groups)
              (call2 difference_buffer (item (ret a) ''submissions'') (item (ret b) ''submissions'')),
          ne (get (ret a) ''live_command_groups'') (num 0),
          ne (get (ret b) ''live_command_groups'') (num 0)])
       ''Incomplete command retirement at sample boundary'' (
     dict_of [(''classes'', ret counts), (''retired_groups'', ret groups),
        (''group_retirement_ns'', call2 difference_buffer (item (ret x) ''group_retirement_ns'')
            (item (ret y) ''group_retirement_ns''))])))))))"

definition dependency_details_timing :: "pyval \<Rightarrow> expr" where
  "dependency_details_timing values =
     branch (nay (ret values)) none (
     bnd (sorted_of (ret values)) (\<lambda>values.
     check (every (ret values) (\<lambda>v. ge (ret v) (num 0))) ''Reversed read timing'' (
     dict_of [(''mean'', mean (ret values)), (''median'', median (ret values)),
        (''p95'', index (ret values)
            (int_of (mul (flt (19 / 20)) (sub (size_of (ret values)) (num 1))))),
        (''p99'', index (ret values)
            (int_of (mul (flt (99 / 100)) (sub (size_of (ret values)) (num 1)))))])))"

definition dependency_details :: "pyval \<Rightarrow> pyval \<Rightarrow> pyval \<Rightarrow> expr" where
  "dependency_details row deps groups =
     bnd (item (ret row) ''prompt_tokens'') (\<lambda>low.
     bnd (size_of (item (item (ret row) ''decode_diagnostics'') ''samples'')) (\<lambda>steps.
     bnd (each_if (ret deps) (\<lambda>d.
         conjs [eq (item (ret d) ''tokens'') (num 1),
            conjs [le (ret low) (item (ret d) ''offset''),
                 lt (item (ret d) ''offset'') (add (ret low) (ret steps))]]) (\<lambda>d. ret d)) (\<lambda>selected_passes.
     bnd (each_dict (ret selected_passes) (\<lambda>d.
         tuple_of [item (ret d) ''offset'', item (ret d) ''layer'']) (\<lambda>d. ret d)) (\<lambda>passes.
     check (conjs [gt (ret steps) (num 0),
          conjs [eq (size_of (ret passes)) (size_of (ret selected_passes)),
               eq (size_of (ret selected_passes)) (mul (ret steps) (num 48))]])
       ''Missing or duplicate per-layer dependency coverage'' (
     bnd (flatten (each (values_of (ret passes)) (\<lambda>d.
           each_if (item (ret d) ''records'') (\<lambda>r.
             eq (item (ret r) ''acquisition'') (str ''new_miss'')) (\<lambda>r. ret r)))) (\<lambda>misses.
     bnd (num 0) (\<lambda>proposed.
     bnd (ret proposed) (\<lambda>selected.
     bnd (ret proposed) (\<lambda>missed.
     bnd (loop (items_of (ret passes)) (proposed, selected, missed) (\<lambda>(proposed, selected, missed) tup1.
       unpack2 tup1 (\<lambda>tup2 d.
         unpack2 tup2 (\<lambda>offset layer.
           branch (disjs [eq (ret layer) (num 0),
                notin (tuple_of [sub (ret offset) (num 1), ret layer]) (ret passes)])
             (Inr (proposed, selected, missed)) (
           bnd (slice (item (index (ret passes) (tuple_of [sub (ret offset) (num 1), ret layer]))
                 ''routes'') none (num 2)) (\<lambda>guesses.
           bnd (add (ret proposed) (size_of (ret guesses))) (\<lambda>proposed.
           bnd (add (ret selected)
               (sum_of (each (ret guesses) (\<lambda>e. isin (ret e) (item (ret d) ''routes''))))) (\<lambda>selected.
           bnd (set_of (each_if (item (ret d) ''records'') (\<lambda>r.
                 eq (item (ret r) ''acquisition'') (str ''new_miss'')) (\<lambda>r. item (ret r) ''expert''))) (\<lambda>cold.
           bnd (add (ret missed) (sum_of (each (ret guesses) (\<lambda>e. isin (ret e) (ret cold))))) (\<lambda>missed.
           Inr (proposed, selected, missed))))))))))) (\<lambda>(proposed, selected, missed).
     bnd (dict_of []) (\<lambda>gpu.
     bnd (loop (ret groups) gpu (\<lambda>gpu g.
       bnd (branch (some (item (ret g) ''operations'') (\<lambda>o'.
             conjs [conjs [le (ret low) (item (ret o') ''offset''),
                     lt (item (ret o') ''offset'') (add (ret low) (ret steps))],
                eq (item (ret o') ''tokens'') (num 1)]))
           (bnd (tuple_from (sorted_of (set_of (each (item (ret g) ''operations'') (\<lambda>o'.
                       item (ret o') ''stage''))))) (\<lambda>stages.
             bnd (put (ret gpu) (ret stages)
                 (add (lookup_or (ret gpu) (ret stages) (flt 0))
                     (truediv (mul (sub (item (ret g) ''gpu_end_seconds'')
                             (item (ret g) ''gpu_start_seconds'')) (num 1000)) (ret steps)))) (\<lambda>gpu.
             ret gpu))) (ret gpu)) (\<lambda>gpu.
       ret gpu))) (\<lambda>gpu.
     dict_of [(''name'', item (ret row) ''name''),
        (''queue_ms'', call1 dependency_details_timing
            (each (ret misses) (\<lambda>r.
                truediv (sub (item (ret r) ''read_started_ns'') (item (ret r) ''read_queued_ns''))
                  (flt 1000000)))),
        (''service_ms'', call1 dependency_details_timing
            (each (ret misses) (\<lambda>r.
                truediv (sub (item (ret r) ''read_completed_ns'') (item (ret r) ''read_started_ns''))
                  (flt 1000000)))),
        (''gpu_command_classes'', each (sorted_by (items_of (ret gpu)) (\<lambda>kv.
              neg (index (ret kv) (num 1)))) (\<lambda>tup3.
            unpack2 tup3 (\<lambda>k v.
              dict_of [(''stages'', list_from (ret k)), (''gpu_ms_per_token'', ret v)]))),
        (''previous_top_two'', dict_of [(''proposed'', ret proposed), (''selected_again'', ret selected),
             (''observed_new_misses'', ret missed), (''live_prefetch_run'', no),
             (''predicted_latency_saving_ms'', none),
             (''scope'', str
                 (''Retrospective overlap with actual misses, excluding first captured token and layer zero. No simulated admission, evictions, bandwidth contention or proof of readiness at prefetch time.''))])]))))))))))))"

definition buffer_intervals :: "pyval \<Rightarrow> expr" where
  "buffer_intervals row =
     bnd (item (item (ret row) ''decode_diagnostics'') ''samples'') (\<lambda>samples.
     check (eq (size_of (ret samples)) (num 16)) ''Requires sixteen decode samples'' (
     bnd (each (tuple_of [str ''before'', str ''after'']) (\<lambda>k.
         item (index (item (item (ret row) ''phases'') ''decode'') (ret k)) ''metal'')) (\<lambda>tup1.
     unpack2 tup1 (\<lambda>a b.
     bnd (buffer_delta a b) (\<lambda>total'.
     bnd (each (ret samples) (\<lambda>s.
         call2 buffer_delta (item (item (ret s) ''before'') ''metal'')
           (item (item (ret s) ''after'') ''metal''))) (\<lambda>steps.
     bnd (loop (ret CLASSES) () (\<lambda>unused name.
       bnd (loop (ret FIELDS) () (\<lambda>unused key.
         check (eq (sum_of (each (ret steps) (\<lambda>s.
                 index (index (item (ret s) ''classes'') (ret name)) (ret key))))
             (index (index (item (ret total') ''classes'') (ret name)) (ret key)))
           ''Uncovered buffer work'' (
         Inr ()))) (\<lambda>unused.
       Inr ()))) (\<lambda>unused.
     bnd (loop (tuple_of [str ''retired_groups'', str ''group_retirement_ns'']) () (\<lambda>unused key.
       check (eq (sum_of (each (ret steps) (\<lambda>s. index (ret s) (ret key))))
           (index (ret total') (ret key))) ''Uncovered group retirement'' (
       Inr ()))) (\<lambda>unused.
     bnd (flatten (each (ret samples) (\<lambda>s.
           each (tuple_of [str ''before'', str ''after'']) (\<lambda>k.
             item (index (ret s) (ret k)) ''process'')))) (\<lambda>memory.
     check (conjs [every (ret memory) (\<lambda>s. eq (get (ret s) ''compressed_bytes'') (num 0)),
          every (ret memory) (\<lambda>s. type_in (get (ret s) ''decompressions'') [TInt]),
          eq (size_of (set_of (each (ret memory) (\<lambda>s. item (ret s) ''decompressions'')))) (num 1)])
       ''Decode memory disturbance'' (
     dict_of [(''allocation_ms_per_token'', truediv (sum_of (each (values_of (item (ret total')
                    ''classes'')) (\<lambda>c. item (ret c) ''allocation_ns''))) (flt 16000000)),
        (''group_retirement_ms_per_token'', truediv (item (ret total') ''group_retirement_ns'')
            (flt 16000000)),
        (''outside_owner_release_ms_per_token'', truediv (sum_of (each (values_of (item (ret
                      total') ''classes'')) (\<lambda>c. item (ret c) ''outside_release_ns'')))
            (flt 16000000)),
        (''allocation_count_per_token'', truediv (sum_of (each (values_of (item (ret total')
                    ''classes'')) (\<lambda>c. item (ret c) ''allocations''))) (num 16)),
        (''costs'', ret total'), (''causal_latency_saving_ms'', none)]))))))))))"

definition digest :: "(pfloat \<Rightarrow> string) \<Rightarrow> (string \<Rightarrow> string) \<Rightarrow> pyval \<Rightarrow> expr" where
  "digest float_repr sha256 value = bnd (dumps float_repr value) (\<lambda>t. Inr (PStr (sha256 t)))"

definition DISPATCHES :: pyval where
  "DISPATCHES = PInt 101600"

definition STEPS :: pyval where
  "STEPS = PInt 16"

definition TARGET_MS :: pyval where
  "TARGET_MS = PInt 200"

definition LIMITATIONS :: pyval where
  "LIMITATIONS =
     PList [PStr
            (''These are traced normal requests; instrumentation and dependency JSON writing add overhead. They are not normal-speed measurements or a promotion decision.''),
        PStr
            (''GPU-active time is an interval union. Command-duration sums may overlap and must not be added to exclusive wait buckets or treated as removable latency.''),
        PStr
            (''Mixed-stage and mixed-layer commands retain their full class; no duration is attributed to an isolated kernel or duplicated into each constituent layer.''),
        PStr
            (''The explicit dependency JSONL path covers every selected pass. The separate embedded summary remains capped at 48 passes per phase and is not used here.''),
        PStr
            (''Two short phases contain sixteen decode forwards each. Initial prompt and append processing, longer contexts, and sustained coding are outside trace coverage.''),
        PStr
            (''Waiting buckets describe observed overlap, not the cause of a stall or an attainable speedup. The gap to 200ms is a target distance, not a savings estimate.'')]"

definition FLAGS :: pyval where
  "FLAGS =
     PDict [(''normal_request_latency_qualified'', PBool False), (''production_promoted'', PBool False)]"

definition PROFILE_LAYERS :: pyval where
  "PROFILE_LAYERS = PInt 48"

definition PROFILE_PACKED :: pyval where
  "PROFILE_PACKED =
     PDict [(''q4_gate_up_packed_r2'', PStr ''q4_gate_up''), (''q4_down_packed_r2'', PStr ''q4_mm'')]"

definition identity :: "pyval \<Rightarrow> expr" where
  "identity state =
     bnd (item (ret state) ''metal'') (\<lambda>metal.
     bnd (item (ret metal) ''kernels'') (\<lambda>kernels.
     check (conjs [same (get (ret kernels) ''profile'') yes,
          same (get (ret kernels) ''profile_decode_only'') yes,
          same (get (ret kernels) ''counter_profile'') no,
          isin (get (ret kernels) ''q4_decode'') (tuple_of [str ''reference'', str ''packed-r2'']),
          same (get (ret state) ''diagnostic_stream_trunk'') no])
       ''Changed trace instrumentation or diagnostic execution'' (
     dict_of [(''build'', item (ret metal) ''build_fingerprint''),
        (''device'', item (ret metal) ''device''),
        (''artifact_revision'', item (ret state) ''artifact_revision''),
        (''model_id'', item (ret state) ''model_id''),
        (''memory_plan'', item (ret state) ''memory_plan''),
        (''execution'', item (ret state) ''execution''),
        (''runtime'', each_dict (tuple_of [str ''completion_pipeline'', str ''ready_group'', str ''chunk_tokens'',
               str ''io_workers'', str ''short_append_tokens'']) (\<lambda>key. ret key) (\<lambda>key.
            index (ret state) (ret key))),
        (''kernels'', each_dict (each_if (items_of (ret kernels)) (\<lambda>tup1.
              unpack2 tup1 (\<lambda>k v. ne (ret k) (str ''q4_decode''))) (\<lambda>x. ret x)) (\<lambda>tup2.
            unpack2 tup2 (\<lambda>k v. ret k)) (\<lambda>tup3. unpack2 tup3 (\<lambda>k v. ret v)))])))"

definition classify_group :: "pyval \<Rightarrow> pyval \<Rightarrow> pyval \<Rightarrow> expr" where
  "classify_group per_layer values group' =
       bnd (item (ret group') ''operations'') (\<lambda>operations.
       bnd (tuple_from (sorted_of (set_of (each (ret operations) (\<lambda>op. item (ret op) ''stage''))))) (\<lambda>stages.
       bnd (branch (ret per_layer)
           (tuple_from (sorted_of (set_of (each (ret operations) (\<lambda>op. item (ret op) ''layer'')))))
           (tuple_of [])) (\<lambda>layers.
       bnd (tuple_of [ret layers, ret stages]) (\<lambda>key.
       bnd (put (ret values) (ret key)
           (put (lookup_or (ret values) (ret key) (list_of [flt 0, num 0, num 0])) (num 0)
               (add (index (lookup_or (ret values) (ret key) (list_of [flt 0, num 0, num 0]))
                     (num 0))
                   (mul (sub (item (ret group') ''gpu_end_seconds'')
                         (item (ret group') ''gpu_start_seconds'')) (num 1000))))) (\<lambda>values.
       bnd (put (ret values) (ret key)
           (put (lookup_or (ret values) (ret key) (list_of [flt 0, num 0, num 0])) (num 1)
               (add (index (lookup_or (ret values) (ret key) (list_of [flt 0, num 0, num 0]))
                     (num 1)) (num 1)))) (\<lambda>values.
       put (ret values) (ret key)
           (put (lookup_or (ret values) (ret key) (list_of [flt 0, num 0, num 0])) (num 2)
               (add (index (lookup_or (ret values) (ret key) (list_of [flt 0, num 0, num 0]))
                     (num 2)) (size_of (ret operations))))))))))"

definition class_row :: "pyval \<Rightarrow> pyval \<Rightarrow> pyval \<Rightarrow> expr" where
  "class_row steps per_layer tup1 =
         unpack2 tup1 (\<lambda>tup2 tup3.
         unpack2 tup2 (\<lambda>layers stages.
           unpack3 tup3 (\<lambda>duration commands dispatches.
             merge (merge (dict_of [(''stages'', list_from (ret stages))])
                 (branch (ret per_layer) (dict_of [(''layers'', list_from (ret layers))])
                     (dict_of [])))
               (dict_of [(''gpu_command_ms_per_token'', truediv (ret duration) (ret steps)),
                    (''command_groups'', ret commands), (''dispatches'', ret dispatches)]))))"

definition command_classes :: "pyval \<Rightarrow> pyval \<Rightarrow> pyval \<Rightarrow> expr" where
  "command_classes groups steps per_layer =
     bnd (dict_of []) (\<lambda>values.
     bnd (loop (ret groups) values (classify_group per_layer)) (\<lambda>values.
     each (sorted_of (items_of (ret values))) (class_row steps per_layer)))"

definition analyze_trace :: "(pfloat \<Rightarrow> string) \<Rightarrow> (string \<Rightarrow> string) \<Rightarrow> pyval \<Rightarrow> pyval \<Rightarrow> pyval \<Rightarrow> expr" where
  "analyze_trace float_repr sha256 raw profile deps =
     check (conjs [same (get (ret raw) ''complete'') yes,
          eq (size_of (get_or (ret raw) ''runs'' (list_of []))) (num 2),
          eq (size_of (get_or (ret raw) ''workloads'' (list_of []))) (num 2),
          same (get (ret profile) ''truncated'') no,
          eq (get (ret profile) ''coverage'') (str ''decode-only''),
          eq (get (ret profile) ''entry_limit'') (num 120000)])
       ''Incomplete or changed decode trace scope'' (
     bnd (item (ret raw) ''runs'') (\<lambda>rows.
     bnd (call1 identity (item (index (ret rows) (num 0)) ''after'')) (\<lambda>common.
     bnd (item (item (item (item (index (ret rows) (num 0)) ''after'') ''metal'') ''kernels'')
         ''q4_decode'') (\<lambda>variant.
     check (eq (get (ret raw) ''model_revision'') (item (ret common) ''artifact_revision''))
       ''Changed model identity'' (
     bnd (dict_of []) (\<lambda>samples.
     bnd (list_of []) (\<lambda>counts.
     bnd (list_of []) (\<lambda>signatures.
     bnd (list_of []) (\<lambda>phases.
     bnd (loop (zip_of (ret rows) (item (ret raw) ''workloads'')) (counts, samples) (\<lambda>(counts, samples) tup1.
       unpack2 tup1 (\<lambda>row work.
         check (conjs [eq (item (ret row) ''name'') (item (ret work) ''name''),
              eq (get (ret work) ''max_tokens'') (num 17),
              conjs [eq (get (ret row) ''output_tokens'')
                       (size_of (get_or (ret row) ''output_token_ids'' (list_of []))),
                   eq (size_of (get_or (ret row) ''output_token_ids'' (list_of []))) (num 17)],
              eq (size_of (get_or (ret row) ''token_latency_ms'' (list_of []))) (ret STEPS)])
           ''Changed request names or output window'' (
         bnd (item (ret row) ''decode_diagnostics'') (\<lambda>diagnostic.
         check (conjs [conjs [eq (get (ret diagnostic) ''captured_steps'')
                       (get (ret diagnostic) ''total_decode_steps''),
                   eq (get (ret diagnostic) ''total_decode_steps'') (ret STEPS)],
              eq (get (ret diagnostic) ''omitted_steps'') (num 0),
              eq (size_of (get_or (ret diagnostic) ''samples'' (list_of []))) (ret STEPS)])
           ''Incomplete token coverage'' (
         bnd (loop (tuple_of [item (ret row) ''before'', item (ret row) ''after'']) () (\<lambda>unused boundary.
           check (conjs [eq (identity boundary) (ret common),
                eq (item (item (item (ret boundary) ''metal'') ''kernels'') ''q4_decode'')
                    (ret variant)])
             ''Changed build, artifact, configuration or memory plan within trace'' (
           Inr ()))) (\<lambda>unused.
         bnd (item (item (ret row) ''phases'') ''decode'') (\<lambda>phase.
         bnd (sub (item (item (item (ret phase) ''after'') ''metal'') ''dispatches'')
             (item (item (item (ret phase) ''before'') ''metal'') ''dispatches'')) (\<lambda>count.
         check (conjs [type_in (ret count) [TInt], eq (ret count) (floordiv (ret DISPATCHES) (num 2))])
           ''Changed native decode dispatch population'' (
         bnd (append (ret counts) (ret count)) (\<lambda>counts.
         bnd (loop (item (ret diagnostic) ''samples'') samples (\<lambda>samples sample.
           bnd (item (ret sample) ''offset'') (\<lambda>offset.
           check (notin (ret offset) (ret samples)) ''Ambiguous token offsets across requests'' (
           bnd (put (ret samples) (ret offset) (ret sample)) (\<lambda>samples.
           ret samples))))) (\<lambda>samples.
         Inr (counts, samples))))))))))))) (\<lambda>(counts, samples).
     check (conjs [eq (size_of (ret samples)) (mul (num 2) (ret STEPS)),
          eq (size_of (set_of (each (ret rows) (\<lambda>r. item (ret r) ''name'')))) (num 2)])
       ''Duplicate request or token coverage'' (
     bnd (get_or (ret profile) ''command_groups'' (list_of [])) (\<lambda>groups.
     check (conjs [eq (sum_of (each (ret groups) (\<lambda>g. size_of (item (ret g) ''operations''))))
              (sum_of (ret counts)),
          eq (sum_of (ret counts)) (ret DISPATCHES)]) ''Missing or extra command dispatch coverage'' (
     bnd (loop (ret groups) () (\<lambda>unused group'.
       bnd (item (ret group') ''operations'') (\<lambda>ops.
       bnd (set_of (each (ret ops) (\<lambda>op. get (ret op) ''offset''))) (\<lambda>offsets.
       check (conjs [bool_of (ret ops), eq (size_of (ret offsets)) (num 1),
            isin (first_of (ret offsets)) (ret samples),
            every (ret ops) (\<lambda>op.
                conjs [eq (get (ret op) ''request_phase'') (str ''decode''),
                   eq (get (ret op) ''tokens'') (num 1), type_in (get (ret op) ''layer'') [TInt],
                   conjs [le (num (- 1)) (item (ret op) ''layer''),
                        lt (item (ret op) ''layer'') (ret PROFILE_LAYERS)],
                   isinstance (get (ret op) ''stage'') [TStr], bool_of (item (ret op) ''stage''),
                   isinstance (get (ret op) ''kernel'') [TStr], bool_of (item (ret op) ''kernel'')])])
         ''Command crosses tokens or contains unknown phase/layer/stage/kernel'' (
       bnd (index (ret samples) (first_of (ret offsets))) (\<lambda>sample.
       check (conjs [le (item (ret sample) ''begin_ns'') (item (ret group') ''submitted_ns''),
            le (item (ret group') ''submitted_ns'') (item (ret group') ''completed_ns''),
            le (item (ret group') ''completed_ns'') (item (ret sample) ''end_ns'')])
         ''Command lifetime lies outside its captured token'' (
       Inr ()))))))) (\<lambda>unused.
     check (conjs [eq (size_of (ret deps)) (mul (mul (ret STEPS) (num 2)) (ret PROFILE_LAYERS)),
          eq (set_of (each (ret deps) (\<lambda>d.
                  tuple_of [item (ret d) ''offset'', item (ret d) ''layer''])))
              (set_of (flatten (each (ret samples) (\<lambda>offset.
                      each (range_to (ret PROFILE_LAYERS)) (\<lambda>layer.
                        tuple_of [ret offset, ret layer]))))),
          every (ret deps) (\<lambda>d. eq (item (ret d) ''tokens'') (num 1))])
       ''Incomplete or extra explicit dependency coverage'' (
     bnd (loop (numbered (ret rows) 0) (signatures, phases) (\<lambda>(signatures, phases) tup3.
       unpack2 tup3 (\<lambda>index' row.
         bnd (profile_row raw index' profile deps) (\<lambda>timeline.
         check (eq (item (ret timeline) ''captured_tokens'') (ret STEPS))
           ''Incomplete joined token coverage'' (
         bnd (item (ret row) ''prompt_tokens'') (\<lambda>low.
         bnd (add (ret low) (ret STEPS)) (\<lambda>high.
         bnd (each_if (ret groups) (\<lambda>g.
             conjs [le (ret low) (item (index (item (ret g) ''operations'') (num 0)) ''offset''),
                lt (item (index (item (ret g) ''operations'') (num 0)) ''offset'') (ret high)]) (\<lambda>g.
             ret g)) (\<lambda>selected.
         bnd (dependency_details row deps selected) (\<lambda>details.
         bnd (call3 command_classes (ret selected) (ret STEPS) yes) (\<lambda>layer_classes.
         bnd (call3 command_classes (ret selected) (ret STEPS) no) (\<lambda>classes'.
         bnd (counter_of (flatten (each (ret selected) (\<lambda>g.
                 each (item (ret g) ''operations'') (\<lambda>op.
                   tuple_of [item (ret op) ''offset'', item (ret op) ''layer'', item (ret op) ''stage'',
                      lookup_or (ret PROFILE_PACKED) (item (ret op) ''kernel'')
                          (item (ret op) ''kernel'')]))))) (\<lambda>signature.
         bnd (append (ret signatures)
             (call1 (digest float_repr sha256)
                 (sorted_of (each (items_of (ret signature)) (\<lambda>tup2.
                       unpack2 tup2 (\<lambda>key count.
                         tuple_from (list_extend (list_from (ret key)) (list_of [ret count])))))))) (\<lambda>signatures.
         bnd (sum_of (each (ret classes') (\<lambda>c. item (ret c) ''gpu_command_ms_per_token''))) (\<lambda>total'.
         check (isclose (ret total')
             (sum_of (each (ret layer_classes) (\<lambda>c. item (ret c) ''gpu_command_ms_per_token'')))
             (1 / 1000000000) (1 / 10000000)) ''Command class attribution does not reconcile'' (
         bnd (append (ret phases)
             (dict_of [(''name'', item (ret row) ''name''), (''captured_tokens'', ret STEPS),
                  (''offsets'', list_from (range_between (ret low) (ret high))),
                  (''mean_forward_ms'', item (ret timeline) ''mean_forward_ms''),
                  (''gap_to_target_ms'', max_args [num 0, sub (item (ret timeline) ''mean_forward_ms'') (ret TARGET_MS)]),
                  (''mean_buckets_ms'', item (ret timeline) ''mean_buckets_ms''),
                  (''mean_gpu_command_ms'', ret total'), (''gpu_command_classes'', ret classes'),
                  (''layer_command_classes'', ret layer_classes),
                  (''dependency_details'', ret details),
                  (''mean_layer_boundary_submission_gap_ms'', item (ret timeline)
                      ''mean_layer_boundary_submission_gap_ms''),
                  (''tokens'', item (ret timeline) ''tokens'')])) (\<lambda>phases.
         Inr (signatures, phases))))))))))))))))) (\<lambda>(signatures, phases).
     bnd (sorted_of (each (ret deps) (\<lambda>d.
           tuple_of [item (ret d) ''offset'', item (ret d) ''layer'', item (ret d) ''routes'']))) (\<lambda>routes.
     merge (dict_of [(''kind'', str ''q4_request_profile_v1''), (''complete'', yes),
          (''variant'', ret variant), (''identity'', ret common),
          (''workloads'', item (ret raw) ''workloads''),
          (''sampling'', item (ret raw) ''sampling''),
          (''output_tokens'', each (ret rows) (\<lambda>r. item (ret r) ''output_token_ids'')),
          (''routes_sha256'', digest float_repr sha256 routes),
          (''normalized_dispatch_sha256'', ret signatures),
          (''coverage'', dict_of [(''phases'', num 2), (''forwards'', num 32), (''dispatches'', ret DISPATCHES),
               (''dependency_passes'', size_of (ret deps)),
               (''selected_experts'', mul (size_of (ret deps)) (num 10)),
               (''explicit_dependency_file'', yes), (''omitted_tokens'', num 0)]),
          (''target_ms_per_token'', ret TARGET_MS), (''phases'', ret phases),
          (''limitations'', ret LIMITATIONS)]) (ret FLAGS))))))))))))))))))"

definition class_deltas_key :: "pyval \<Rightarrow> pyval \<Rightarrow> expr" where
  "class_deltas_key per_layer row =
     tuple_of [branch (ret per_layer) (tuple_from (item (ret row) ''layers'')) (tuple_of []),
        tuple_from (item (ret row) ''stages'')]"

definition class_deltas :: "pyval \<Rightarrow> pyval \<Rightarrow> pyval \<Rightarrow> expr" where
  "class_deltas reference packed per_layer =
     bnd (each_dict (ret reference) (\<lambda>r. class_deltas_key per_layer r) (\<lambda>r. ret r)) (\<lambda>left.
     bnd (each_dict (ret packed) (\<lambda>r. class_deltas_key per_layer r) (\<lambda>r. ret r)) (\<lambda>right.
     bnd (list_of []) (\<lambda>results.
     bnd (loop (sorted_of (union_of (set_of (ret left)) (set_of (ret right)))) results (\<lambda>results tup1.
       unpack2 tup1 (\<lambda>layers stages.
         bnd (lookup_or (ret left) (tuple_of [ret layers, ret stages]) (dict_of [])) (\<lambda>a.
         bnd (lookup_or (ret right) (tuple_of [ret layers, ret stages]) (dict_of [])) (\<lambda>b.
         bnd (append (ret results)
             (merge (merge (dict_of [(''stages'', list_from (ret stages))])
                   (branch (ret per_layer) (dict_of [(''layers'', list_from (ret layers))])
                       (dict_of [])))
                 (dict_of [(''reference_gpu_command_ms_per_token'', get_or (ret a)
                          ''gpu_command_ms_per_token'' (num 0)),
                      (''packed_gpu_command_ms_per_token'', get_or (ret b)
                          ''gpu_command_ms_per_token'' (num 0)),
                      (''delta_gpu_command_ms_per_token'', sub (get_or (ret b)
                            ''gpu_command_ms_per_token'' (num 0))
                          (get_or (ret a) ''gpu_command_ms_per_token'' (num 0))),
                      (''reference_command_groups'', get_or (ret a) ''command_groups'' (num 0)),
                      (''packed_command_groups'', get_or (ret b) ''command_groups'' (num 0)),
                      (''reference_dispatches'', get_or (ret a) ''dispatches'' (num 0)),
                      (''packed_dispatches'', get_or (ret b) ''dispatches'' (num 0))]))) (\<lambda>results.
         ret results)))))) (\<lambda>results.
     sorted_by (ret results) (\<lambda>r. neg (item (ret r) ''delta_gpu_command_ms_per_token''))))))"

definition compare_traces :: "(pfloat \<Rightarrow> string) \<Rightarrow> (string \<Rightarrow> string) \<Rightarrow> pyval \<Rightarrow> pyval \<Rightarrow> expr" where
  "compare_traces float_repr sha256 reference packed =
     bnd (loop (tuple_of [tuple_of [ret reference, str ''reference''], tuple_of [ret packed, str ''packed-r2'']])
         () (\<lambda>unused tup1.
       unpack2 tup1 (\<lambda>record variant.
         check (conjs [eq (get (ret record) ''kind'') (str ''q4_request_profile_v1''),
              same (get (ret record) ''complete'') yes,
              eq (get (ret record) ''variant'') (ret variant),
              every (ret FLAGS) (\<lambda>k. same (lookup (ret record) (ret k)) no)])
           ''Incomplete or reversed trace comparison'' (
         Inr ())))) (\<lambda>unused.
     bnd (loop (tuple_of [str ''identity'', str ''workloads'', str ''sampling'', str ''output_tokens'',
            str ''routes_sha256'', str ''normalized_dispatch_sha256'', str ''coverage'',
            str ''target_ms_per_token'']) () (\<lambda>unused key.
       check_msg (eq (index (ret reference) (ret key)) (index (ret packed) (ret key)))
         (add (str ''Incompatible trace comparison: '') (ret key)) (
       Inr ()))) (\<lambda>unused.
     check (conjs [eq (size_of (item (ret reference) ''phases'')) (size_of (item (ret packed) ''phases'')),
          eq (size_of (item (ret packed) ''phases'')) (num 2)]) ''Missing comparison phase'' (
     bnd (list_of []) (\<lambda>phases.
     bnd (loop (zip_of (item (ret reference) ''phases'') (item (ret packed) ''phases'')) phases (\<lambda>phases tup4.
       unpack2 tup4 (\<lambda>a b.
         check (conjs [eq (item (ret a) ''name'') (item (ret b) ''name''),
              eq (item (ret a) ''offsets'') (item (ret b) ''offsets''),
              conjs [eq (item (ret a) ''captured_tokens'') (item (ret b) ''captured_tokens''),
                   eq (item (ret b) ''captured_tokens'') (ret STEPS)]])
           ''Changed phase history or capture window'' (
         bnd (each_dict (items_of (item (ret a) ''mean_buckets_ms'')) (\<lambda>tup2.
             unpack2 tup2 (\<lambda>k v. ret k)) (\<lambda>tup3.
             unpack2 tup3 (\<lambda>k v. sub (index (item (ret b) ''mean_buckets_ms'') (ret k)) (ret v)))) (\<lambda>delta.
         bnd (sub (item (ret b) ''mean_forward_ms'') (item (ret a) ''mean_forward_ms'')) (\<lambda>forward_delta.
         check (isclose (sum_of (values_of (ret delta))) (ret forward_delta) (1 / 1000000000)
             (1 / 1000000)) ''Exclusive bucket differences do not reconcile'' (
         bnd (append (ret phases)
             (dict_of [(''name'', item (ret a) ''name''),
                  (''reference_mean_forward_ms'', item (ret a) ''mean_forward_ms''),
                  (''packed_mean_forward_ms'', item (ret b) ''mean_forward_ms''),
                  (''delta_mean_forward_ms'', ret forward_delta),
                  (''delta_mean_buckets_ms'', ret delta),
                  (''reference_gap_to_target_ms'', item (ret a) ''gap_to_target_ms''),
                  (''packed_gap_to_target_ms'', item (ret b) ''gap_to_target_ms''),
                  (''gpu_command_classes'', call3 class_deltas
                      (item (ret a) ''gpu_command_classes'') (item (ret b) ''gpu_command_classes'')
                      no),
                  (''layer_command_classes'', call3 class_deltas
                      (item (ret a) ''layer_command_classes'')
                      (item (ret b) ''layer_command_classes'') yes)])) (\<lambda>phases.
         ret phases)))))))) (\<lambda>phases.
     merge (dict_of [(''kind'', str ''q4_request_trace_comparison_v1''), (''complete'', yes),
          (''source_analysis_sha256'', dict_of [(''reference'', digest float_repr sha256 reference),
               (''packed'', digest float_repr sha256 packed)]),
          (''identity'', item (ret reference) ''identity''), (''phases'', ret phases),
          (''confidence_95'', none), (''causal_savings_estimate_ms'', none),
          (''limitations'', ret LIMITATIONS)]) (ret FLAGS))))))"

end
