(* ===== verification/NativeReplay.thy ===== *)
theory NativeReplay
  imports RequestProfile
begin

text \<open>
  Replay of the recorded Q4 operators (\<open>scripts/qwen/native_q4_replay.py\<close>) and validation of the
  request memory (\<open>q4_validation_memory.py\<close>, \<open>q4_request_context.py\<close>).
\<close>

definition REPLAY_COUNTERS :: pyval where
  "REPLAY_COUNTERS =
     PTuple [PStr ''cpu_encode_ns'', PStr ''cpu_gpu_wait_ns'', PStr ''gpu_command_ns'',
        PStr ''submissions'', PStr ''allocation_count'', PStr ''scratch_reuses'']"

definition BUDGET :: pyval where
  "BUDGET = PInt (12 * 1024 ^ 3)"

definition REPLAY_ORDER :: pyval where
  "REPLAY_ORDER =
     PList [PTuple [PInt 0, PInt 1], PTuple [PInt 0, PInt 4], PTuple [PInt 1, PInt 1],
        PTuple [PInt 1, PInt 4], PTuple [PInt 2, PInt 1], PTuple [PInt 2, PInt 4],
        PTuple [PInt 3, PInt 1], PTuple [PInt 3, PInt 4], PTuple [PInt 4, PInt 1],
        PTuple [PInt 4, PInt 4]]"

definition REPLAY_CRITERIA :: pyval where
  "REPLAY_CRITERIA =
     PDict [(''pairs'', PInt 5), (''groups'', PList [PInt 1, PInt 4]), (''cycles'', PInt 4),
        (''cases_per_cycle'', PInt 64), (''max_live_groups'', PInt 2), (''budget_bytes'', BUDGET),
        (''gpu_upper_95_below'', PInt 1), (''wall_upper_95_max'', PFloat (round_fl (103 / 100))),
        (''process_seconds'', PInt 60), (''stage_seconds'', PInt 120)]"

definition POSITIONS :: pyval where
  "POSITIONS = PList [PInt 9, PInt 1, PInt 7, PInt 3, PInt 5, PInt 0, PInt 8, PInt 4]"

definition CONDITIONS :: pyval where
  "CONDITIONS = PTuple [PStr ''direct'', PStr ''scatter'', PStr ''resident'', PStr ''coordinator'']"

definition FIXED_KERNELS :: pyval where
  "FIXED_KERNELS =
     PDict [(''route_selection'', PStr ''simd''), (''attention_score_tiles'', PStr ''full''),
        (''policy'', PStr ''candidate''), (''token_tile'', PInt 1), (''affine_rows'', PInt 1),
        (''q8_decode_rows'', PInt 2), (''gate_pair'', PBool False), (''gdn'', PStr ''original''),
        (''gdn_rows'', PInt 4), (''gdn_block'', PInt 8), (''shape_table'', PNone),
        (''operator_capture'', PStr ''''),
        (''capture_filter'', PDict [(''phase'', PStr ''''), (''operator'', PStr ''''), (''layer'', PInt (- 2))]),
        (''profile'', PBool False), (''profile_decode_only'', PBool False),
        (''counter_profile'', PBool False), (''automatic_rules_promoted'', PBool False)]"

definition fixture_records :: "pyval \<Rightarrow> expr" where
  "fixture_records manifest =
     check (conjs [same (get (ret manifest) ''complete'') yes,
          eq (get (ret manifest) ''origin'') (str ''existing-Q4-experts''),
          eq (set_of (get_or (ret manifest) ''layers'' (dict_of [])))
              (set_disp [str ''0'', str ''16'', str ''32'', str ''47''])])
       ''Incomplete original Q4 fixtures'' (
     bnd (list_of []) (\<lambda>records.
     bnd (loop (tuple_of [num 0, num 16, num 32, num 47]) records (\<lambda>records layer.
       bnd (index (item (ret manifest) ''layers'') (format_of [ret layer])) (\<lambda>item'.
       check (conjs [eq (get (ret item') ''offsets'') (list_from (range_between (num 72) (num 80))),
            eq (size_of (get_or (ret item') ''experts'' (list_of []))) (num 2)])
         ''Changed expert/input coverage'' (
       check (conjs [eq (size_of (set_of (each (item (ret item') ''experts'') (\<lambda>e. item (ret e) ''expert''))))
                (num 2),
            every (item (ret item') ''experts'') (\<lambda>e.
                conjs [call1 uint (item (ret e) ''expert''), lt (item (ret e) ''expert'') (num 512)])])
         ''Duplicate or invalid experts'' (
       bnd (loop (list_extend (list_of [tuple_of [item (ret item') ''inputs'', num (8 * 2560 * 4)]])
             (list_from (each (item (ret item') ''experts'') (\<lambda>e.
                   tuple_of [item (ret e) ''record'', num 2764800])))) () (\<lambda>unused tup1.
         unpack2 tup1 (\<lambda>entry expected_bytes.
           bnd (get (ret entry) ''sha256'') (\<lambda>digest.
           check (conjs [eq (get (ret entry) ''bytes'') (ret expected_bytes), valid_sha256 digest,
                eq (path_name (get_or (ret entry) ''file'' (str ''''))) (get (ret entry) ''file''),
                notin (item (ret entry) ''file'') (tuple_of [str '''', str ''.'', str ''..''])])
             ''Invalid fixture byte identity'' (
           Inr ()))))) (\<lambda>unused.
       bnd (list_extend (ret records)
           (each (item (ret item') ''experts'') (\<lambda>e.
               dict_of [(''layer'', ret layer), (''expert'', item (ret e) ''expert''),
                  (''sha256'', item (item (ret e) ''record'') ''sha256'')]))) (\<lambda>records.
       ret records))))))) (\<lambda>records.
     ret records)))"

definition metal_state :: "pyval \<Rightarrow> pyval \<Rightarrow> pyval \<Rightarrow> expr" where
  "metal_state state build resident_bytes =
     check (conjs [eq (get (ret state) ''build_fingerprint'') (ret build),
          eq (get (ret state) ''device'') (str ''Apple M1 Pro''),
          eq (get (ret state) ''physical_bytes'') (num (32 * 1024 ^ 3))])
       ''Changed native build or machine'' (
     check (conjs [eq (get (ret state) ''live_command_groups'') (num 0),
          call1 uint (get (ret state) ''peak_command_groups''),
          le (item (ret state) ''peak_command_groups'') (num 2),
          eq (get (ret state) ''active_scratch_slot'') (num (- 1))])
       ''Outstanding GPU users or active scratch at a timing boundary'' (
     check (conjs [every (tuple_of [str ''live_buffer_bytes'', str ''peak_buffer_bytes'']) (\<lambda>k.
              call1 uint (lookup (ret state) (ret k))),
          conjs [lt (num 0) (item (ret state) ''live_buffer_bytes''),
               le (item (ret state) ''live_buffer_bytes'') (item (ret state) ''peak_buffer_bytes''),
               le (item (ret state) ''peak_buffer_bytes'') (ret BUDGET)]])
       ''Native allocation exceeds the fixed budget'' (
     bnd (get_or (ret state) ''residency'' (dict_of [])) (\<lambda>residency.
     bnd (get_or (ret residency) ''bytes_by_class'' (dict_of [])) (\<lambda>classes'.
     check (conjs [eq (get (ret residency) ''mode'') (str ''core-cache''),
          eq (get (ret residency) ''pending_retirements'') (num 0),
          isinstance (ret classes') [TDict], every (values_of (ret classes')) (\<lambda>v. uint v),
          le (set_of (ret classes')) (set_disp [str ''resident'', str ''state'', str ''expert'']),
          eq (get (ret residency) ''registered_bytes'') (sum_of (values_of (ret classes'))),
          eq (get_or (ret classes') ''resident'' (num 0)) (ret resident_bytes),
          call1 uint (get (ret residency) ''set_overhead_bytes''),
          le (item (ret residency) ''set_overhead_bytes'') (num (64 * 1024 ^ 2))])
       ''Changed resident allocation or incomplete residency retirement'' (
     check (conjs [every (ret REPLAY_COUNTERS) (\<lambda>k. call1 uint (lookup (ret state) (ret k))),
          isinstance (get (ret state) ''kernel_dispatches'') [TDict],
          every (values_of (item (ret state) ''kernel_dispatches'')) (\<lambda>v. uint v)])
       ''Missing native counters'' (
     none)))))))"

definition observations_clean :: "pyval \<Rightarrow> expr" where
  "observations_clean arms =
     bnd yes (\<lambda>memory.
     bnd yes (\<lambda>host.
     bnd none (\<lambda>last_memory.
     bnd none (\<lambda>last_host.
     bnd (loop (ret arms) (memory, host, last_memory, last_host) (\<lambda>(memory, host, last_memory, last_host) arm.
       bnd (loop (tuple_of [str ''before'', str ''after'']) (memory, host, last_memory, last_host) (\<lambda>(memory, host, last_memory, last_host) suffix.
         bnd (lookup_or (ret arm) (add (str ''memory_'') (ret suffix)) (dict_of [])) (\<lambda>m.
         bnd (lookup_or (ret arm) (add (str ''host_'') (ret suffix)) (dict_of [])) (\<lambda>h.
         bnd (bit_and (ret memory)
             (conjs [eq (get (ret m) ''compressed_bytes'') (num 0),
                  call1 uint (get (ret m) ''decompressions''),
                  call1 uint (get (ret m) ''system_swap_used_bytes''),
                  call1 uint (get (ret m) ''physical_footprint_bytes''),
                  gt (item (ret m) ''physical_footprint_bytes'') (num 0),
                  call1 uint (get (ret m) ''physical_footprint_peak_bytes''),
                  conjs [le (item (ret m) ''physical_footprint_bytes'')
                           (item (ret m) ''physical_footprint_peak_bytes''),
                       le (item (ret m) ''physical_footprint_peak_bytes'') (ret BUDGET)]])) (\<lambda>memory.
         bnd (branch (differs (ret last_memory) none)
             (bnd (bit_and (ret memory)
                   (conjs [eq (get (ret m) ''decompressions'')
                            (get (ret last_memory) ''decompressions''),
                        eq (get (ret m) ''system_swap_used_bytes'')
                            (get (ret last_memory) ''system_swap_used_bytes'')])) (\<lambda>memory.
               ret memory)) (ret memory)) (\<lambda>memory.
         bnd (bit_and (ret host)
             (conjs [eq (get (ret h) ''thermal_state'') (num 0),
                  same (get (ret h) ''low_power_mode'') no,
                  isinstance (get (ret h) ''power_source'') [TStr],
                  bool_of (item (ret h) ''power_source''),
                  call1 uint (get (ret h) ''monotonic_ns''),
                  gt (item (ret h) ''monotonic_ns'') (num 0)])) (\<lambda>host.
         bnd (branch (differs (ret last_host) none)
             (bnd (bit_and (ret host)
                   (conjs [eq (get (ret h) ''power_source'') (get (ret last_host) ''power_source''),
                        call1 uint (get (ret h) ''monotonic_ns''),
                        call1 uint (get (ret last_host) ''monotonic_ns''),
                        ge (item (ret h) ''monotonic_ns'') (item (ret last_host) ''monotonic_ns'')])) (\<lambda>host.
               ret host)) (ret host)) (\<lambda>host.
         bnd (ret m) (\<lambda>last_memory.
         bnd (ret h) (\<lambda>last_host.
         Inr (memory, host, last_memory, last_host))))))))))) (\<lambda>(memory, host, last_memory, last_host).
       Inr (memory, host, last_memory, last_host)))) (\<lambda>(memory, host, last_memory, last_host).
     dict_of [(''clean_memory'', bool_of (ret memory)), (''clean_host'', bool_of (ret host))])))))"

definition metric :: "(string \<Rightarrow> pyval \<Rightarrow> expr) \<Rightarrow> pyval \<Rightarrow> pyval \<Rightarrow> expr" where
  "metric libm pairs key =
     bnd (each (ret pairs) (\<lambda>tup1. unpack2 tup1 (\<lambda>a unused. index (ret a) (ret key)))) (\<lambda>reference.
     bnd (each (ret pairs) (\<lambda>tup2. unpack2 tup2 (\<lambda>unused b. index (ret b) (ret key)))) (\<lambda>candidate.
     bnd (each (zip_of (ret reference) (ret candidate)) (\<lambda>tup3.
         unpack2 tup3 (\<lambda>a b.
           branch (conjs [gt (ret a) (num 0), gt (ret b) (num 0)]) (truediv (ret b) (ret a)) none))) (\<lambda>ratios.
     bnd (every (ret ratios) (\<lambda>r. differs (ret r) none)) (\<lambda>available.
     dict_of [(''reference_ns'', ret reference), (''packed_ns'', ret candidate),
        (''reference_median_ns'', median (ret reference)),
        (''packed_median_ns'', median (ret candidate)), (''ratios'', ret ratios),
        (''confidence_95'', branch (ret available) (paired_log_interval libm ratios) none),
        (''ratio_limitation'', branch (ret available) none
            (str
                (''A zero wait duration makes its multiplicative ratio undefined; no ratio is imputed.'')))]))))"

definition analyze :: "(string \<Rightarrow> pyval \<Rightarrow> expr) \<Rightarrow> pyval \<Rightarrow> pyval \<Rightarrow> expr" where
  "analyze libm raw frozen =
     bnd (get (ret raw) ''condition'') (\<lambda>condition.
     check (conjs [eq (get (ret raw) ''kind'') (str ''native_q4_replay_v1''),
          isin (ret condition) (ret CONDITIONS), same (get (ret raw) ''complete'') yes,
          same (get (ret raw) ''validation'') no, same (get (ret raw) ''exact'') yes,
          eq (get (ret raw) ''cycles'') (num 4), eq (get (ret raw) ''cases_per_cycle'') (num 64),
          eq (get (ret raw) ''max_live_groups'') (num 2),
          eq (get (ret raw) ''scratch_scope'') (str ''eight-expert-batch''),
          eq (get (ret raw) ''budget_bytes'') (ret BUDGET)])
       ''Incomplete or changed bounded native replay'' (
     check (conjs [eq (get (ret raw) ''positions'') (ret POSITIONS),
          every (item (ret raw) ''positions'') (\<lambda>p. type_in (ret p) [TInt]),
          call1 valid_sha256 (get (ret raw) ''output_sha256''),
          same (get (ret raw) ''timed_final_outputs_checked'') yes,
          same (get (ret raw) ''untouched_destinations_checked'') yes])
       ''Missing timed-output, untouched-destination or position identity checks'' (
     bnd (get (ret raw) ''resident_bytes'') (\<lambda>resident.
     check (conjs [uint resident, eq (ret resident) (get (ret raw) ''expected_resident_bytes''),
          branch (isin (ret condition) (tuple_of [str ''resident'', str ''coordinator'']))
              (conjs [lt (num 0) (ret resident), lt (ret resident) (ret BUDGET)])
              (eq (ret resident) (num 0))]) ''Wrong resident intervention'' (
     bnd (branch (eq (ret condition) (str ''coordinator''))
         (check (conjs [eq (get (ret raw) ''execution_schedule'') (str ''coordinator-all-hit''),
                eq (get (ret raw) ''cache_slots'') (num 8),
                eq (get (ret raw) ''io_workers'') (num 8)]) ''Changed all-hit coordinator geometry'' (
           Inr ())) (Inr ())) (\<lambda>unused.
     bnd (call1 fixture_records (item (ret raw) ''fixture_manifest'')) (\<lambda>records.
     bnd (get (item (ret raw) ''initial_metal'') ''build_fingerprint'') (\<lambda>build.
     check (conjs [isinstance (ret build) [TStr], eq (size_of (ret build)) (num 64)])
       ''Missing native build'' (
     bnd (branch (differs (ret frozen) none)
         (check (conjs [eq (ret build) (item (ret frozen) ''build''),
                eq (get (item (ret raw) ''fixture_manifest'') ''artifact_revision'')
                    (item (ret frozen) ''artifact_revision''),
                eq (item (ret frozen) ''budget_bytes'') (ret BUDGET)])
             ''Replay differs from frozen artifact, native build or memory budget'' (
           Inr ())) (Inr ())) (\<lambda>unused.
     bnd (loop (tuple_of [str ''initial_metal'', str ''final_metal'']) () (\<lambda>unused name.
       bnd (call3 metal_state (index (ret raw) (ret name)) (ret build) (ret resident)) (\<lambda>unused.
       Inr ()))) (\<lambda>unused.
     check (eq (each (item (ret raw) ''pairs'') (\<lambda>p.
           tuple_of [item (ret p) ''pair'', item (ret p) ''group''])) (ret REPLAY_ORDER))
       ''Missing or reordered five-pair/group coverage'' (
     bnd (list_of []) (\<lambda>all_arms.
     bnd (put (put (dict_of []) (num 1) (list_of [])) (num 4) (list_of [])) (\<lambda>samples.
     bnd (loop (item (ret raw) ''pairs'') (all_arms, samples) (\<lambda>(all_arms, samples) pair.
       bnd (branch (modulo (item (ret pair) ''pair'') (num 2))
           (list_of [str ''packed-r2'', str ''reference''])
           (list_of [str ''reference'', str ''packed-r2''])) (\<lambda>expected_order.
       check (eq (each (item (ret pair) ''arms'') (\<lambda>a. item (ret a) ''variant''))
           (ret expected_order)) ''Changed alternating native replay order'' (
       bnd (dict_of []) (\<lambda>by_variant.
       bnd (loop (item (ret pair) ''arms'') (all_arms, by_variant) (\<lambda>(all_arms, by_variant) arm.
         bnd (item (ret arm) ''sample'') (\<lambda>sample.
         bnd (item (ret arm) ''metal_before'') (\<lambda>before.
         bnd (item (ret arm) ''metal_after'') (\<lambda>after.
         bnd (loop (tuple_of [ret before, ret after]) () (\<lambda>unused state.
           bnd (metal_state state build resident) (\<lambda>unused.
           check (eq (get (ret state) ''kernels'')
               (merge (dict_from (ret FIXED_KERNELS))
                   (dict_of [(''q4_decode'', item (ret arm) ''variant'')])))
             ''Changed native kernel selectors, instrumentation or capture configuration'' (
           Inr ())))) (\<lambda>unused.
         check (conjs [eq (get (ret sample) ''expert_executions'') (num 256),
              eq (get (ret sample) ''submissions'')
                  (floordiv (num 256) (item (ret pair) ''group''))])
           ''Changed executed work or command grouping'' (
         bnd (loop (tuple_from (list_extend (list_of [str ''wall_ns''])
                 (list_from (ret REPLAY_COUNTERS)))) () (\<lambda>unused key.
           bnd (lookup (ret sample) (ret key)) (\<lambda>value.
           check (conjs [uint value,
                branch (isin (ret key)
                      (tuple_of [str ''wall_ns'', str ''cpu_encode_ns'', str ''gpu_command_ns'']))
                    (gt (ret value) (num 0)) yes]) ''Invalid or missing native timing/counter'' (
           bnd (branch (ne (ret key) (str ''wall_ns''))
               (check (conjs [ge (index (ret after) (ret key)) (index (ret before) (ret key)),
                      eq (ret value)
                          (sub (index (ret after) (ret key)) (index (ret before) (ret key)))])
                   ''Reported native timing/counter differs from its snapshots'' (
                 Inr ())) (Inr ())) (\<lambda>unused.
           Inr ()))))) (\<lambda>unused.
         bnd (each_dict (union_of (set_of (item (ret before) ''kernel_dispatches''))
               (set_of (item (ret after) ''kernel_dispatches''))) (\<lambda>key. ret key) (\<lambda>key.
             sub (lookup_or (item (ret after) ''kernel_dispatches'') (ret key) (num 0))
               (lookup_or (item (ret before) ''kernel_dispatches'') (ret key) (num 0)))) (\<lambda>counts.
         check (every (values_of (ret counts)) (\<lambda>v. ge (ret v) (num 0)))
           ''Native dispatch counter reset'' (
         bnd (each_dict (each_if (items_of (ret counts)) (\<lambda>tup1.
               unpack2 tup1 (\<lambda>key value. ret value)) (\<lambda>x. ret x)) (\<lambda>tup2.
             unpack2 tup2 (\<lambda>key value. ret key)) (\<lambda>tup3. unpack2 tup3 (\<lambda>key value. ret value))) (\<lambda>counts.
         bnd (branch (eq (item (ret arm) ''variant'') (str ''packed-r2'')) (ret PACKED)
             (tuple_of [str ''q4_gate_up'', str ''q4_mm''])) (\<lambda>names.
         bnd (dict_fromkeys (ret names) (num 256)) (\<lambda>expected.
         bnd (branch (ne (ret condition) (str ''direct''))
             (bnd (put (ret expected) (str ''scatter_experts'') (num 256)) (\<lambda>expected.
               ret expected)) (ret expected)) (\<lambda>expected.
         check (conjs [eq (ret counts) (ret expected),
              eq (ret expected) (get (ret sample) ''kernel_dispatches'')])
           ''Changed dispatch path or incomplete expert work'' (
         check (gt (item (ret sample) ''scratch_reuses'') (num 0))
           ''Scratch reuse was not exercised'' (
         bnd (branch (eq (ret condition) (str ''coordinator''))
             (check (conjs [call1 uint (get (ret sample) ''coordinator_wait_ns''),
                    eq (get (ret sample) ''ready_hits'') (num 256),
                    every (tuple_of [str ''new_misses'', str ''loading_joins'', str ''read_calls'',
                           str ''read_bytes'', str ''allocation_count'']) (\<lambda>k.
                        conjs [type_in (lookup (ret sample) (ret k)) [TInt],
                           eq (index (ret sample) (ret k)) (num 0)])])
                 (''Coordinator replay has missing counters, reads, allocations or non-ready expert work'') (
               Inr ())) (Inr ())) (\<lambda>unused.
         bnd (append (ret all_arms) (ret arm)) (\<lambda>all_arms.
         bnd (put (ret by_variant) (item (ret arm) ''variant'') (ret sample)) (\<lambda>by_variant.
         Inr (all_arms, by_variant)))))))))))))))))))) (\<lambda>(all_arms, by_variant).
       bnd (put (ret samples) (item (ret pair) ''group'')
           (append (index (ret samples) (item (ret pair) ''group''))
               (tuple_of [item (ret by_variant) ''reference'', item (ret by_variant) ''packed-r2'']))) (\<lambda>samples.
       Inr (all_arms, samples)))))))) (\<lambda>(all_arms, samples).
     bnd (observations_clean all_arms) (\<lambda>clean.
     bnd (tuple_of [str ''gpu_command_ns'', str ''wall_ns'', str ''cpu_encode_ns'', str ''cpu_gpu_wait_ns'']) (\<lambda>metric_keys.
     bnd (branch (eq (ret condition) (str ''coordinator''))
         (bnd (add (ret metric_keys) (tuple_of [str ''coordinator_wait_ns''])) (\<lambda>metric_keys.
           ret metric_keys)) (ret metric_keys)) (\<lambda>metric_keys.
     bnd (each (tuple_of [num 1, num 4]) (\<lambda>group'.
         dict_of [(''group'', ret group'),
            (''metrics'', each_dict (ret metric_keys) (\<lambda>key. ret key) (\<lambda>key.
                call2 (metric libm) (index (ret samples) (ret group')) (ret key)))])) (\<lambda>results.
     bnd (every (ret results) (\<lambda>row.
         conjs [lt (item (item (item (item (ret row) ''metrics'') ''gpu_command_ns'')
                    ''confidence_95'') ''high'') (num 1),
            le (item (item (item (item (ret row) ''metrics'') ''wall_ns'') ''confidence_95'')
                  ''high'') (flt (103 / 100))])) (\<lambda>gain.
     bnd (every (values_of (ret clean)) (\<lambda>x. ret x)) (\<lambda>clean_all.
     bnd (merge (merge (dict_of [(''status'', branch (nay (ret clean_all)) (str ''disturbed'')
                  (branch (ret gain) (str ''diagnostic_gain'') (str ''no_clear_native_gain''))),
              (''condition'', ret condition)]) (ret clean))
         (dict_of [(''criteria'', ret REPLAY_CRITERIA), (''results'', ret results),
              (''records'', ret records), (''output_sha256'', item (ret raw) ''output_sha256''),
              (''positions'', ret POSITIONS), (''timed_final_outputs_checked'', yes),
              (''untouched_destinations_checked'', yes), (''normal_request_latency_qualified'', no),
              (''production_promoted'', no), (''next_condition_automatically_admitted'', no),
              (''limitations'', list_of [str
                       (''One process, eight original Q4 experts and 64 saved input/expert cases repeated four times per arm.''),
                   str
                       (''Five pair intervals describe correlated replay samples; they are not full-request or sustained decode confidence.''),
                   str
                       (''GPU command time, CPU encoding and host waiting can overlap and must not be added as exclusive token costs.''),
                   str
                       (''Zero host wait time is retained; undefined wait ratios are not replaced with a synthetic value.''),
                   str
                       (''No SSD reads or other model operators occur in timing; resident condition loads real weights before timing.''),
                   branch (eq (ret condition) (str ''direct''))
                       (str
                           (''Direct output is a synthetic bridge using fewer temporaries, not an admitted production scratch configuration.''))
                       (str
                           (''Scatter uses the normal expert contribution path; routing, reads and final token reduction are absent.'')),
                   str
                       (''Native operator output bytes are checked outside timing; complete-model state comes from the separately bound prior proof.''),
                   str
                       (''Memory and host state are sampled at boundaries, so brief events between observations can be missed.''),
                   str
                       (''No tokens-per-second projection, runtime selection, sample pooling or promotion follows from this diagnostic.'')])])) (\<lambda>result.
     bnd (branch (eq (ret condition) (str ''coordinator''))
         (bnd (merge (ret result)
               (dict_of [(''execution_schedule'', str ''coordinator-all-hit''), (''cache_slots'', num 8),
                    (''io_workers'', num 8), (''all_hit_expert_work'', yes),
                    (''timed_read_calls'', num 0), (''timed_read_bytes'', num 0)])) (\<lambda>result.
           bnd (put (ret result) (str ''limitations'')
               (append (item (ret result) ''limitations'')
                   (str
                       (''The actual expert coordinator sees eight already-ready cache entries. It performs no timed reads; completion geometry under real misses remains unmeasured.'')))) (\<lambda>result.
           ret result))) (ret result)) (\<lambda>result.
     ret result)))))))))))))))))))))))"

definition CONTEXT_ORDER :: pyval where
  "CONTEXT_ORDER =
     PList [PStr ''normal-A'', PStr ''normal-B'', PStr ''traced-B'', PStr ''traced-A'']"

definition CONTEXT_CRITERIA :: pyval where
  "CONTEXT_CRITERIA =
     PDict [(''output_tokens'', PInt 17), (''decode_forwards_per_phase'', PInt 16),
        (''expert_slots'', PInt 1072), (''memory_budget_bytes'', PInt (12 * 1024 ^ 3)),
        (''stage_seconds'', PInt 240), (''inference_process_seconds'', PInt 90),
        (''maximum_inference_processes'', PInt 4), (''cancellation_drain_seconds'', PInt 45),
        (''normal_order'', PList [PStr ''normal-A'', PStr ''normal-B'']),
        (''conditional_trace_order'', PList [PStr ''traced-B'', PStr ''traced-A'']),
        (''trace_trigger'', PStr ''any packed/reference phase decode_wall_ms ratio > 1''),
        (''validation'', PBool False), (''counters'', PBool False),
        (''trace_dispatch_limit'', PInt 120000)]"

definition CONTEXT_FLAGS :: pyval where
  "CONTEXT_FLAGS =
     PDict [(''normal_request_latency_qualified'', PBool False), (''production_promoted'', PBool False)]"

definition memory :: "pyval \<Rightarrow> expr" where
  "memory raw =
     bnd (residency_memory raw) (\<lambda>result.
     bnd (flatten (each (item (ret raw) ''runs'') (\<lambda>row.
           list_from (list_extend (list_extend (list_of [item (ret row) ''before'', item (ret row) ''after''])
                 (list_from (flatten (each (values_of (item (ret row) ''phases'')) (\<lambda>p.
                         each (tuple_of [str ''before'', str ''after'']) (\<lambda>k. index (ret p) (ret k)))))))
               (list_from (flatten (each (get_or (get_or (ret row) ''decode_diagnostics''
                           (dict_of [])) ''samples'' (list_of [])) (\<lambda>d.
                       each (tuple_of [str ''before'', str ''after'']) (\<lambda>k. index (ret d) (ret k)))))))))) (\<lambda>states.
     bnd (each (ret states) (\<lambda>s. item (ret s) ''process'')) (\<lambda>processes.
     bnd (conjs [bool_of (ret processes),
          every (ret processes) (\<lambda>p.
              every (tuple_of [str ''physical_footprint_bytes'', str ''physical_footprint_peak_bytes'',
                   str ''compressed_bytes'', str ''compressed_peak_bytes'', str ''decompressions'',
                   str ''system_swap_used_bytes'']) (\<lambda>k.
                conjs [type_in (lookup (ret p) (ret k)) [TInt], ge (index (ret p) (ret k)) (num 0)]))]) (\<lambda>valid.
     bnd (conjs [ret valid,
          every (ret processes) (\<lambda>p.
              conjs [lt (num 0) (item (ret p) ''physical_footprint_bytes''),
                 le (item (ret p) ''physical_footprint_bytes'')
                     (item (ret p) ''physical_footprint_peak_bytes''),
                 le (item (ret p) ''physical_footprint_peak_bytes'')
                     (item (ret CONTEXT_CRITERIA) ''memory_budget_bytes'')])]) (\<lambda>bounds.
     bnd (conjs [ret valid,
          every (ret processes) (\<lambda>p.
              conjs [eq (item (ret p) ''compressed_bytes'') (item (ret p) ''compressed_peak_bytes''),
                 eq (item (ret p) ''compressed_peak_bytes'') (num 0)]),
          eq (size_of (set_of (each (ret processes) (\<lambda>p. item (ret p) ''decompressions''))))
              (num 1)]) (\<lambda>clean.
     bnd (conjs [ret valid,
          eq (size_of (set_of (each (ret processes) (\<lambda>p. item (ret p) ''system_swap_used_bytes''))))
              (num 1)]) (\<lambda>stable_swap.
     bnd (merge (ret result)
         (dict_of [(''physical_bounds_passed'', ret bounds),
              (''cumulative_compression_clean'', ret clean),
              (''stable_observed_swap'', ret stable_swap),
              (''peak_physical_bytes'', branch (ret valid)
                  (max_of (each (ret processes) (\<lambda>p. item (ret p) ''physical_footprint_peak_bytes'')))
                  none),
              (''memory_screen_passed'', bool_of (conjs [item (ret result) ''memory_screen_passed'', ret bounds, ret clean,
                     ret stable_swap]))])) (\<lambda>result.
     ret result))))))))"

definition normal_decision :: "pyval \<Rightarrow> expr" where
  "normal_decision rows =
     check (eq (each (ret rows) (\<lambda>r. item (ret r) ''stem''))
         (slice (ret CONTEXT_ORDER) none (num 2))) ''Missing ordered normal pair'' (
     bnd (list_of []) (\<lambda>phases.
     bnd (loop (zip_of (item (index (ret rows) (num 0)) ''requests'')
           (item (index (ret rows) (num 1)) ''requests'')) phases (\<lambda>phases tup1.
       unpack2 tup1 (\<lambda>a b.
         check (conjs [eq (item (ret a) ''name'') (item (ret b) ''name''),
              every (tuple_of [ret a, ret b]) (\<lambda>r.
                  every (tuple_of [str ''decode_wall_ms'', str ''request_ms'', str ''time_to_first_token_ms'']) (\<lambda>k.
                    conjs [type_in (index (ret r) (ret k)) [TInt, TFloat],
                       isfinite (index (ret r) (ret k)), gt (index (ret r) (ret k)) (num 0)]))])
           ''Invalid paired phase'' (
         bnd (append (ret phases)
             (dict_of [(''name'', item (ret a) ''name''),
                  (''ratios'', each_dict (tuple_of [str ''decode_wall_ms'', str ''request_ms'', str ''time_to_first_token_ms'']) (\<lambda>k.
                      ret k) (\<lambda>k. truediv (index (ret b) (ret k)) (index (ret a) (ret k)))),
                  (''reference_ms_per_token'', truediv (item (ret a) ''decode_wall_ms'') (num 16)),
                  (''packed_ms_per_token'', truediv (item (ret b) ''decode_wall_ms'') (num 16)),
                  (''reference_gap_to_5tps_ms'', max_args [num 0, sub (truediv (item (ret a) ''decode_wall_ms'') (num 16)) (num 200)]),
                  (''packed_gap_to_5tps_ms'', max_args [num 0, sub (truediv (item (ret b) ''decode_wall_ms'') (num 16)) (num 200)])])) (\<lambda>phases.
         ret phases))))) (\<lambda>phases.
     check (eq (size_of (ret phases)) (num 2)) ''Missing normal phase'' (
     dict_of [(''trace_triggered'', some (ret phases) (\<lambda>p.
            gt (item (item (ret p) ''ratios'') ''decode_wall_ms'') (num 1))),
        (''phases'', ret phases), (''confidence_95'', none), (''paired_repetitions'', num 1),
        (''prior_pairs_pooled'', no)]))))"

definition finish :: "(pfloat \<Rightarrow> string) \<Rightarrow> (string \<Rightarrow> string) \<Rightarrow> pyval \<Rightarrow> pyval \<Rightarrow> expr" where
  "finish float_repr sha256 rows analyses =
     bnd (call1 normal_decision (slice (ret rows) none (num 2))) (\<lambda>normal.
     check (eq (each (ret rows) (\<lambda>r. item (ret r) ''stem''))
         (branch (item (ret normal) ''trace_triggered'') (ret CONTEXT_ORDER)
             (slice (ret CONTEXT_ORDER) none (num 2)))) ''Conditional process order differs'' (
     check (every (ret rows) (\<lambda>r. item (ret r) ''memory_screen_passed''))
       ''Disturbed request memory'' (
     bnd (merge (dict_of [(''status'', branch (item (ret normal) ''trace_triggered'') (str ''context_captured'')
                (str ''slowdown_not_reproduced'')),
            (''normal'', ret normal)]) (ret CONTEXT_FLAGS)) (\<lambda>result.
     bnd (branch (item (ret normal) ''trace_triggered'')
         (bnd (put (ret result) (str ''comparison'')
               (call2 (compare_traces float_repr sha256) (item (ret analyses) ''traced-A'')
                   (item (ret analyses) ''traced-B''))) (\<lambda>result.
           bnd (put (ret result) (str ''trace_to_normal_decode_ratios'')
               (each_dict (numbered (tuple_of [str ''A'', str ''B'']) 0) (\<lambda>tup1.
                   unpack2 tup1 (\<lambda>i arm. ret arm)) (\<lambda>tup3.
                   unpack2 tup3 (\<lambda>i arm.
                     each (zip_of (item (index (ret rows) (ret i)) ''requests'')
                         (item (index (ret rows) (sub (num 3) (ret i))) ''requests'')) (\<lambda>tup2.
                       unpack2 tup2 (\<lambda>n t.
                         truediv (item (ret t) ''decode_wall_ms'') (item (ret n) ''decode_wall_ms''))))))) (\<lambda>result.
           ret result)))
         (check (nay (ret analyses)) ''Unplanned trace data'' (
           ret result))) (\<lambda>result.
     ret result)))))"

definition PHASES :: pyval where
  "PHASES =
     PList [PStr ''startup'', PStr ''pipelines_ready'', PStr ''resident_ready'',
        PStr ''fixtures_ready'', PStr ''shared_reference_ready'', PStr ''routed_reference_ready'',
        PStr ''expert_pool_ready'', PStr ''post_warmup'', PStr ''pass_complete'',
        PStr ''pass_complete'', PStr ''pass_complete'', PStr ''pass_complete'',
        PStr ''pass_complete'', PStr ''pass_complete'', PStr ''pass_complete'',
        PStr ''pass_complete'', PStr ''pass_complete'', PStr ''pass_complete'',
        PStr ''pass_complete'', PStr ''pass_complete'', PStr ''pass_complete'',
        PStr ''pass_complete'', PStr ''pass_complete'', PStr ''pass_complete'',
        PStr ''pass_complete'', PStr ''pass_complete'', PStr ''pass_complete'',
        PStr ''pass_complete'', PStr ''pass_complete'', PStr ''pass_complete'',
        PStr ''pass_complete'', PStr ''pass_complete'', PStr ''pass_complete'',
        PStr ''pass_complete'', PStr ''pass_complete'', PStr ''pass_complete'',
        PStr ''pass_complete'', PStr ''pass_complete'', PStr ''pass_complete'',
        PStr ''pass_complete'', PStr ''pass_complete'', PStr ''pass_complete'',
        PStr ''pass_complete'', PStr ''pass_complete'', PStr ''pass_complete'',
        PStr ''pass_complete'', PStr ''pass_complete'', PStr ''pass_complete'',
        PStr ''pass_complete'', PStr ''pass_complete'', PStr ''pass_complete'',
        PStr ''pass_complete'', PStr ''pass_complete'', PStr ''pass_complete'',
        PStr ''pass_complete'', PStr ''pass_complete'', PStr ''scratch_released'']"

definition PHASE_FLAGS :: pyval where
  "PHASE_FLAGS =
     PDict [(''performance_comparison'', PBool False),
        (''original_lifetime_stage_qualified'', PBool False),
        (''normal_request_latency_qualified'', PBool False), (''production_promoted'', PBool False)]"

definition PHASE_ORDER :: pyval where
  "PHASE_ORDER = PList [PStr ''off'', PStr ''on'', PStr ''on'', PStr ''off'']"

definition check_phase :: "pyval \<Rightarrow> pyval \<Rightarrow> pyval \<Rightarrow> expr" where
  "check_phase phase previous first =
     check (conjs [isin (get (ret phase) ''phase'') (ret PHASES), call1 uint (get (ret phase) ''at_ns''),
          gt (item (ret phase) ''at_ns'')
              (branch (ret previous) (item (ret previous) ''at_ns'') (num 0))])
       ''Missing or reordered memory phase'' (
     bnd (get_or (ret phase) ''memory'' (dict_of [])) (\<lambda>memory.
     bnd (get_or (ret phase) ''host'' (dict_of [])) (\<lambda>host.
     bnd (loop (tuple_of [str ''physical_footprint_bytes'', str ''physical_footprint_peak_bytes'',
            str ''compressed_bytes'', str ''compressed_peak_bytes'', str ''decompressions'',
            str ''system_swap_used_bytes'']) () (\<lambda>unused key.
       check_msg (call1 uint (lookup (ret memory) (ret key)))
         (add (str ''Missing process memory gauge: '') (ret key)) (
       Inr ()))) (\<lambda>unused.
     check (conjs [conjs [lt (num 0) (item (ret memory) ''physical_footprint_bytes''),
               le (item (ret memory) ''physical_footprint_bytes'')
                   (item (ret memory) ''physical_footprint_peak_bytes''),
               le (item (ret memory) ''physical_footprint_peak_bytes'') (ret BUDGET)],
          le (item (ret memory) ''compressed_bytes'') (item (ret memory) ''compressed_peak_bytes'')])
       ''Process footprint exceeds hard bound or invalid compression peak'' (
     check (conjs [eq (item (ret memory) ''system_swap_used_bytes'')
              (item (item (ret first) ''memory'') ''system_swap_used_bytes''),
          eq (get (ret host) ''thermal_state'') (num 0),
          same (get (ret host) ''low_power_mode'') no, bool_of (get (ret host) ''power_source''),
          eq (item (ret host) ''power_source'') (get (item (ret first) ''host'') ''power_source'')])
       ''Hard host or swap guard failed'' (
     bnd (branch (ret previous)
         (check (every (tuple_of [str ''physical_footprint_peak_bytes'', str ''compressed_peak_bytes'',
                  str ''decompressions'']) (\<lambda>key.
               ge (index (ret memory) (ret key)) (index (item (ret previous) ''memory'') (ret key))))
             ''Cumulative process counters moved backwards'' (
           Inr ())) (Inr ())) (\<lambda>unused.
     bnd (get (ret phase) ''metal'') (\<lambda>state.
     bnd (get (ret phase) ''memory_counters'') (\<lambda>counters.
     branch (eq (item (ret phase) ''phase'') (str ''startup''))
       (check (conjs [same (ret state) none, same (ret counters) none])
           ''Startup must precede Metal creation'' (
         none)) (
     check (conjs [isinstance (ret state) [TDict], isinstance (ret counters) [TDict],
          conjs [eq (get (ret state) ''live_command_groups'')
                   (get (ret counters) ''live_command_groups''),
               eq (get (ret counters) ''live_command_groups'') (num 0)],
          le (get_or (ret state) ''peak_command_groups'' (num 0)) (num 2),
          eq (get (ret counters) ''encoded_buffer_references'') (num 0),
          conjs [le (num 0) (get_or (ret state) ''live_buffer_bytes'' (num (- 1))),
               le (get_or (ret state) ''live_buffer_bytes'' (num (- 1)))
                   (get_or (ret state) ''peak_buffer_bytes'' (num (- 1))),
               le (get_or (ret state) ''peak_buffer_bytes'' (num (- 1))) (ret BUDGET)],
          eq (get (ret counters) ''live_buffer_bytes'') (item (ret state) ''live_buffer_bytes''),
          eq (get (ret counters) ''scratch_bytes'')
              (sum_of (each (item (ret state) ''scratch_pools'') (\<lambda>p.
                    item (ret p) ''allocated_bytes''))),
          eq (get (ret counters) ''active_scratch_slot'')
              (item (ret state) ''active_scratch_slot''),
          call1 uint (get (ret counters) ''device_allocated_bytes''),
          same (get (item (ret state) ''kernels'') ''profile'') no,
          same (get (item (ret state) ''kernels'') ''counter_profile'') no])
       (''Memory phase has outstanding users, changed instrumentation or inconsistent allocation gauges'') (
     none)))))))))))"

definition decision :: "pyval \<Rightarrow> expr" where
  "decision results =
     check (conjs [eq (each (ret results) (\<lambda>r. item (ret r) ''validation'')) (ret PHASE_ORDER),
          every (ret results) (\<lambda>r. item (ret r) ''hard_guards_passed'')])
       ''Incomplete attribution sequence'' (
     check (every (ret results) (\<lambda>r.
         conjs [eq (item (ret r) ''native_work_signature'')
                (item (index (ret results) (num 0)) ''native_work_signature''),
            eq (item (ret r) ''output_sha256'')
                (item (index (ret results) (num 0)) ''output_sha256''),
            eq (item (ret r) ''shared_reference'')
                (item (index (ret results) (num 0)) ''shared_reference'')]))
       ''Validation conditions changed native work or arithmetic'' (
     bnd (every (tuple_of [num 0, num 3]) (\<lambda>i.
         conjs [item (index (ret results) (ret i)) ''clean_memory'',
            item (index (ret results) (ret i)) ''clean_host''])) (\<lambda>off_clean.
     bnd (every (tuple_of [num 1, num 2]) (\<lambda>i.
         nay (item (index (ret results) (ret i)) ''clean_memory''))) (\<lambda>on_dirty.
     bnd (each (tuple_of [num 1, num 2]) (\<lambda>i.
         item (index (ret results) (ret i)) ''first_dirty_phase'')) (\<lambda>intervals.
     bnd (conjs [ret off_clean, ret on_dirty,
          eq (index (ret intervals) (num 0)) (index (ret intervals) (num 1))]) (\<lambda>associated.
     merge (dict_of [(''status'', branch (ret associated) (str ''validation_memory_association'')
              (str ''memory_captured'')),
          (''validation_phase_association'', ret associated),
          (''first_dirty_validation_phase'', branch (ret associated)
              (index (ret intervals) (num 0)) none),
          (''release_processes_clean'', ret off_clean),
          (''timing_observation_admissible'', ret off_clean), (''compressed_pages_identified'', no),
          (''statistical_causal_estimate'', no)]) (ret PHASE_FLAGS)))))))"

end
