(* ===== verification/ReadArrivals.thy ===== *)
theory ReadArrivals
  imports NativeReplay
begin

text \<open>
  Where expert reads arrive (\<open>scripts/qwen/q4_read_arrivals.py\<close>, \<open>q4_shared_arrivals.py\<close>,
  \<open>q4_scratch_lifetime.py\<close>).
\<close>

definition SHARED_LAYERS :: pyval where
  "SHARED_LAYERS = PList [PInt 0, PInt 16, PInt 32, PInt 47, PInt 0, PInt 16, PInt 32, PInt 47]"

definition SHARED_KERNELS :: pyval where
  "SHARED_KERNELS = PTuple [PStr ''q8_gate_up'', PStr ''q8_mv_packed_r2_w4'', PStr ''plain_mm'']"

definition OUTPUT_SHA :: pyval where
  "OUTPUT_SHA = PStr ''05b73dca9c175709ede2bf65096b68e9193d32277a3d95f97d142adfe7728d45''"

definition RETAIN_CACHE :: pyval where
  "RETAIN_CACHE = PStr ''retain-system-cache''"

definition INVALIDATE_FILES :: pyval where
  "INVALIDATE_FILES = PStr ''invalidate-selected-file-ranges''"

definition ARRIVALS_CRITERIA :: pyval where
  "ARRIVALS_CRITERIA =
     PDict [(''timing_pairs'', PInt 5), (''groups'', PList [PInt 1, PInt 4]),
        (''timing_cycles'', PInt 4), (''capture_cycles'', PInt 1), (''cases_per_cycle'', PInt 64),
        (''cache_slots'', PInt 8), (''io_workers'', PInt 8), (''max_live_groups'', PInt 2),
        (''budget_bytes'', BUDGET), (''gpu_upper_95_below'', PInt 1),
        (''wall_upper_95_max'', PFloat (round_fl (103 / 100))), (''process_seconds'', PInt 60),
        (''stage_seconds'', PInt 180)]"

definition STORAGE_CRITERIA :: pyval where
  "STORAGE_CRITERIA =
     PDict [(''scope'', PStr ''each-timing-arm''),
        (''minimum_device_to_application_ratio'', PFloat (round_fl (9 / 10))),
        (''maximum_device_to_application_ratio'', PFloat (round_fl (11 / 10)))]"

definition EXPERT_BYTES :: pyval where
  "EXPERT_BYTES = PInt 2764800"

definition disk_observation :: "pyval \<Rightarrow> expr" where
  "disk_observation arm =
     bnd (list_of []) (\<lambda>snapshots.
     loop_exit (tuple_of [str ''before'', str ''after'']) snapshots (\<lambda>snapshots suffix.
     bnd (lookup (ret arm) (add (str ''disk_'') (ret suffix))) (\<lambda>raw.
     branch (disjs [nay (isinstance (ret raw) [TDict]), nay (isinstance (get (ret raw) ''devices'') [TList]),
          nay (item (ret raw) ''devices'')])
       (leave (dict_of [(''available'', no), (''read_bytes'', none), (''write_bytes'', none),
              (''reason'', str ''Missing device counters'')])) (
     bnd (item (ret raw) ''devices'') (\<lambda>devices.
     branch (some (ret devices) (\<lambda>d.
         nay (every (tuple_of [str ''registry_id'', str ''read_bytes'', str ''write_bytes'']) (\<lambda>k.
             call1 uint (lookup (ret d) (ret k))))))
       (leave (dict_of [(''available'', no), (''read_bytes'', none), (''write_bytes'', none),
              (''reason'', str ''Invalid device counters'')])) (
     branch (ne (size_of (set_of (each (ret devices) (\<lambda>d. item (ret d) ''registry_id''))))
         (size_of (ret devices)))
       (leave (dict_of [(''available'', no), (''read_bytes'', none), (''write_bytes'', none),
              (''reason'', str ''Duplicate device IDs'')])) (
     bnd (append (ret snapshots)
         (each_dict (ret devices) (\<lambda>d. item (ret d) ''registry_id'') (\<lambda>d. ret d))) (\<lambda>snapshots.
     stay snapshots))))))) (\<lambda>r. ret r) (\<lambda>snapshots.
     bnd (ret snapshots) (\<lambda>tup1.
     unpack2 tup1 (\<lambda>before after.
     branch (ne (set_of (ret before)) (set_of (ret after)))
       (dict_of [(''available'', no), (''read_bytes'', none), (''write_bytes'', none),
            (''reason'', str ''Device inventory changed'')]) (
     branch (some (ret before) (\<lambda>d.
         some (tuple_of [str ''read_bytes'', str ''write_bytes'']) (\<lambda>k.
           lt (index (index (ret after) (ret d)) (ret k))
             (index (index (ret before) (ret d)) (ret k)))))
       (dict_of [(''available'', no), (''read_bytes'', none), (''write_bytes'', none),
            (''reason'', str ''Device counter reset'')]) (
     merge (merge (dict_of [(''available'', yes)])
         (each_dict (tuple_of [str ''read_bytes'', str ''write_bytes'']) (\<lambda>k. ret k) (\<lambda>k.
             sum_of (each (ret before) (\<lambda>d.
                 sub (index (index (ret after) (ret d)) (ret k))
                   (index (index (ret before) (ret d)) (ret k))))))) (dict_of [(''reason'', none)])))))))"

definition shared_trace :: "pyval \<Rightarrow> pyval \<Rightarrow> pyval \<Rightarrow> expr" where
  "shared_trace batch commands variant =
     check (eq (get (ret batch) ''shared_layer'')
         (index (ret SHARED_LAYERS) (item (ret batch) ''batch''))) ''Changed rotating shared layer'' (
     bnd (get_or (ret batch) ''command_profile'' (dict_of [])) (\<lambda>profile.
     check (conjs [same (get (ret profile) ''truncated'') no,
          eq (get (ret profile) ''coverage'') (str ''all-dispatches''),
          eq (get (ret profile) ''timing_kind'')
              (str ''existing command groups; mixed stages are not isolated kernel costs''),
          same (get (ret profile) ''normal_request_latency_qualified'') no])
       ''Missing, truncated or per-dispatch shared command profile'' (
     bnd (get (ret profile) ''command_groups'') (\<lambda>groups.
     check (conjs [isinstance (ret groups) [TList],
          eq (each (ret groups) (\<lambda>g. get (ret g) ''submitted_ns''))
              (each (ret commands) (\<lambda>c. item (ret c) ''submitted_ns''))])
       ''Shared profile has missing, reordered or extra commands'' (
     bnd (branch (eq (ret variant) (str ''packed-r2'')) (ret PACKED)
         (tuple_of [str ''q4_gate_up'', str ''q4_mm''])) (\<lambda>names.
     bnd none (\<lambda>shared_submit.
     bnd (num 0) (\<lambda>previous_encode.
     bnd (loop (numbered (zip_of (ret groups) (ret commands)) 0) (shared_submit, previous_encode) (\<lambda>(shared_submit, previous_encode) tup4.
       unpack2 tup4 (\<lambda>index' tup5.
         unpack2 tup5 (\<lambda>group' command.
           check (every (tuple_of [str ''gpu_start_seconds'', str ''gpu_end_seconds'']) (\<lambda>k.
               conjs [type_in (lookup (ret group') (ret k)) [TInt, TFloat],
                  isfinite (index (ret group') (ret k)), gt (index (ret group') (ret k)) (num 0)]))
             ''Missing shared GPU command timestamps'' (
           bnd (loop (tuple_of [tuple_of [str ''gpu_start_seconds'', str ''gpu_start_ns''],
                  tuple_of [str ''gpu_end_seconds'', str ''gpu_end_ns'']]) () (\<lambda>unused tup1.
             unpack2 tup1 (\<lambda>key native.
               check (le (abs_of (sub (int_of (mul (index (ret group') (ret key)) (flt 1000000000)))
                       (index (ret command) (ret native)))) (num 2))
                 ''Shared command does not join expert GPU interval'' (
               Inr ())))) (\<lambda>unused.
           bnd (get (ret group') ''operations'') (\<lambda>operations.
           check (isinstance (ret operations) [TList]) ''Missing shared command operations'' (
           bnd (branch (eq (ret index') (num 0)) (slice (ret operations) none (num 3)) (list_of [])) (\<lambda>shared.
           bnd (branch (eq (ret index') (num 0)) (slice (ret operations) (num 3) none)
               (ret operations)) (\<lambda>routed.
           bnd (branch (eq (ret index') (num 0))
               (check (conjs [eq (each (ret shared) (\<lambda>op. get (ret op) ''kernel''))
                          (list_from (ret SHARED_KERNELS)),
                      every (ret shared) (\<lambda>op.
                          conjs [eq (get (ret op) ''stage'') (str ''shared_expert''),
                             eq (get (ret op) ''layer'') (item (ret batch) ''shared_layer'')])])
                   ''Shared chain is absent or was reordered after routed work'' (
                 bnd (item (ret command) ''submitted_ns'') (\<lambda>shared_submit.
                 ret shared_submit))) (ret shared_submit)) (\<lambda>shared_submit.
           check (conjs [eq (size_of (ret routed)) (mul (num 3) (item (ret command) ''experts'')),
                eq (each (ret routed) (\<lambda>op. get (ret op) ''kernel''))
                    (mul (list_from (tuple_from (list_extend (list_from (ret names))
                              (list_of [str ''scatter_experts'']))))
                        (item (ret command) ''experts'')),
                every (ret routed) (\<lambda>op. eq (get (ret op) ''stage'') (str ''routed_expert''))])
             ''Shared command contains missing, extra or changed routed arithmetic'' (
           bnd (counter_of (each_if (item (item (ret batch) ''timing'') ''records'') (\<lambda>r.
                 eq (item (ret r) ''submitted_ns'') (item (ret command) ''submitted_ns'')) (\<lambda>r.
                 item (ret r) ''layer''))) (\<lambda>event_layers.
           check (counter_eq (counter_of (each (ret routed) (\<lambda>op. get (ret op) ''layer'')))
               (each_dict (items_of (ret event_layers)) (\<lambda>tup2. unpack2 tup2 (\<lambda>k v. ret k)) (\<lambda>tup3.
                   unpack2 tup3 (\<lambda>k v. mul (ret v) (num 3)))))
             ''Routed profile layers disagree with expert ownership'' (
           bnd (loop (ret operations) previous_encode (\<lambda>previous_encode op.
             check (conjs [eq (get (ret op) ''tokens'') (num 1),
                  eq (get (ret op) ''offset'') (add (num 72) (item (ret batch) ''batch'')),
                  call1 uint (get (ret op) ''encoded_at_ns''),
                  call1 uint (get (ret op) ''encode_ns''),
                  conjs [le (ret previous_encode) (item (ret op) ''encoded_at_ns''),
                       le (item (ret op) ''encoded_at_ns'')
                           (add (item (ret op) ''encoded_at_ns'') (item (ret op) ''encode_ns'')),
                       le (add (item (ret op) ''encoded_at_ns'') (item (ret op) ''encode_ns''))
                           (item (ret command) ''submitted_ns'')],
                  nay (some (tuple_of [str ''counter_index'', str ''gpu_pass_ns'', str ''gpu_begin_ticks'',
                           str ''gpu_end_ticks'']) (\<lambda>k. isin (ret k) (ret op)))])
               ''Changed shared workload, reversed encoding times or per-dispatch timing'' (
             bnd (add (item (ret op) ''encoded_at_ns'') (item (ret op) ''encode_ns'')) (\<lambda>previous_encode.
             ret previous_encode)))) (\<lambda>previous_encode.
           Inr (shared_submit, previous_encode)))))))))))))))) (\<lambda>(shared_submit, previous_encode).
     dict_of [(''batch'', item (ret batch) ''batch''),
        (''shared_layer'', item (ret batch) ''shared_layer''),
        (''submitted_ns'', ret shared_submit), (''shared_operations'', num 3),
        (''routed_experts'', num 8), (''command_count'', size_of (ret commands)),
        (''pure_routed_gpu_ns'', none),
        (''gpu_scope'', str ''shared-and-routed-command-intervals'')])))))))))"

definition trace_batches :: "pyval \<Rightarrow> pyval \<Rightarrow> pyval \<Rightarrow> pyval \<Rightarrow> pyval \<Rightarrow> pyval \<Rightarrow> pyval \<Rightarrow> expr" where
  "trace_batches sample group' hits records shared variant cycles =
     bnd (get (ret sample) ''batches'') (\<lambda>batches.
     check (conjs [isinstance (ret batches) [TList],
          eq (each (ret batches) (\<lambda>b. tuple_of [item (ret b) ''cycle'', item (ret b) ''batch'']))
              (flatten (each (range_to (ret cycles)) (\<lambda>c.
                    each (range_to (num 8)) (\<lambda>b. tuple_of [ret c, ret b]))))])
       ''Missing, duplicate or reordered captured batches'' (
     bnd (each_dict (numbered (ret records) 0) (\<lambda>tup1.
         unpack2 tup1 (\<lambda>i r. tuple_of [item (ret r) ''layer'', item (ret r) ''expert''])) (\<lambda>tup2.
         unpack2 tup2 (\<lambda>i r. ret i))) (\<lambda>selected.
     bnd (list_of []) (\<lambda>occupancy.
     bnd (list_of []) (\<lambda>commands.
     bnd (num 0) (\<lambda>waits.
     bnd (num 0) (\<lambda>gpu.
     bnd (num 0) (\<lambda>overlapping_pairs.
     bnd (list_of []) (\<lambda>shared_commands.
     bnd (each_dict (tuple_of [str ''ready_hit'', str ''new_miss'']) (\<lambda>name. ret name) (\<lambda>name.
         dict_of [(''ready_to_submission_ns'', list_of []),
            (''read_complete_to_submission_ns'', list_of [])])) (\<lambda>readiness.
     bnd (num 0) (\<lambda>previous_release.
     bnd (loop (ret batches)
         ((readiness, overlapping_pairs, commands, occupancy, shared_commands, gpu, waits, previous_release)) (\<lambda>(readiness, overlapping_pairs, commands, occupancy, shared_commands, gpu, waits, previous_release) batch.
       bnd (each (range_to (ret hits)) (\<lambda>j.
           modulo (add (item (ret batch) ''batch'') (ret j)) (num 8))) (\<lambda>hit_indices.
       check (eq (get (ret batch) ''hit_indices'') (ret hit_indices))
         ''Changed rotating hit preparation'' (
       bnd (item (ret batch) ''timing'') (\<lambda>detail.
       bnd (get (ret detail) ''records'') (\<lambda>events.
       check (conjs [isinstance (ret events) [TList], eq (size_of (ret events)) (num 8),
            eq (set_of (each (ret events) (\<lambda>r.
                    tuple_of [item (ret r) ''layer'', item (ret r) ''expert''])))
                (set_of (ret selected))]) ''Incomplete selected-expert capture'' (
       check (conjs [eq (get (ret detail) ''ready_hits'') (ret hits),
            eq (get (ret detail) ''new_misses'') (sub (num 8) (ret hits)),
            eq (get (ret detail) ''loading_joins'') (num 0),
            eq (get (ret detail) ''peak_leases'') (num 8),
            call1 uint (get (ret detail) ''peak_gpu_groups''),
            conjs [lt (num 0) (item (ret detail) ''peak_gpu_groups''),
                 le (item (ret detail) ''peak_gpu_groups'') (num 2)],
            call1 uint (get (ret detail) ''duration_ns''),
            gt (item (ret detail) ''duration_ns'') (num 0)])
         ''Changed detailed coordinator work or resource bounds'' (
       bnd (dict_of []) (\<lambda>by_submit.
       bnd (num 0) (\<lambda>queue.
       bnd (num 0) (\<lambda>service.
       bnd (num 0) (\<lambda>ready_encode.
       bnd (num 0) (\<lambda>ready_gpu.
       bnd (loop (ret events) (queue, service, ready_encode, ready_gpu, readiness, by_submit) (\<lambda>(queue, service, ready_encode, ready_gpu, readiness, by_submit) record.
         bnd (index (ret selected)
             (tuple_of [item (ret record) ''layer'', item (ret record) ''expert''])) (\<lambda>index'.
         check (conjs [eq (get (ret record) ''position'') (index (ret POSITIONS) (ret index')),
              eq (get (ret record) ''acquisition'')
                  (branch (isin (ret index') (ret hit_indices)) (str ''ready_hit'')
                      (str ''new_miss''))]) ''Wrong expert destination or hit classification'' (
         bnd (tuple_of [str ''admitted_ns'', str ''read_queued_ns'', str ''read_started_ns'',
              str ''read_completed_ns'', str ''encoded_ns'', str ''submitted_ns'',
              str ''gpu_start_ns'', str ''gpu_end_ns'', str ''released_ns'']) (\<lambda>fields'.
         check (every (ret fields') (\<lambda>k.
             conjs [call1 uint (lookup (ret record) (ret k)), gt (index (ret record) (ret k)) (num 0)]))
           ''Missing event timestamps'' (
         bnd (each (ret fields') (\<lambda>k. index (ret record) (ret k))) (\<lambda>tup3.
         unpack9 tup3 (\<lambda>admitted queued started completed encoded submitted start end released.
         check (conjs [conjs [le (ret queued) (ret started), le (ret started) (ret completed),
                   le (ret completed) (ret encoded)],
              conjs [le (ret previous_release) (ret admitted), le (ret admitted) (ret encoded),
                   le (ret encoded) (ret submitted), le (ret submitted) (ret start),
                   le (ret start) (ret end), le (ret end) (ret released)]])
           ''Reversed read, encoding, GPU or ownership timestamps'' (
         bnd (branch (isin (ret index') (ret hit_indices))
             (check (le (ret completed) (ret admitted)) ''Prepared hit was not ready at admission'' (
               Inr (queue, service)))
             (bnd (add (ret queue) (sub (ret started) (ret queued))) (\<lambda>queue.
               bnd (add (ret service) (sub (ret completed) (ret started))) (\<lambda>service.
               Inr (queue, service))))) (\<lambda>(queue, service).
         bnd (max_args [ret admitted, ret completed]) (\<lambda>ready.
         bnd (add (ret ready_encode) (sub (ret encoded) (ret ready))) (\<lambda>ready_encode.
         bnd (add (ret ready_gpu) (sub (ret start) (ret ready))) (\<lambda>ready_gpu.
         bnd (put (ret readiness) (item (ret record) ''acquisition'')
             (put (index (ret readiness) (item (ret record) ''acquisition''))
                 (str ''ready_to_submission_ns'')
                 (append (item (index (ret readiness) (item (ret record) ''acquisition''))
                       ''ready_to_submission_ns'') (sub (ret submitted) (ret ready))))) (\<lambda>readiness.
         bnd (put (ret readiness) (item (ret record) ''acquisition'')
             (put (index (ret readiness) (item (ret record) ''acquisition''))
                 (str ''read_complete_to_submission_ns'')
                 (append (item (index (ret readiness) (item (ret record) ''acquisition''))
                       ''read_complete_to_submission_ns'') (sub (ret submitted) (ret completed))))) (\<lambda>readiness.
         bnd (put (ret by_submit) (ret submitted)
             (append (lookup_or (ret by_submit) (ret submitted) (list_of [])) (ret record))) (\<lambda>by_submit.
         Inr (queue, service, ready_encode, ready_gpu, readiness, by_submit))))))))))))))))) (\<lambda>(queue, service, ready_encode, ready_gpu, readiness, by_submit).
       check (conjs [eq (get (ret detail) ''read_queue_sum_ns'') (ret queue),
            eq (get (ret detail) ''read_service_sum_ns'') (ret service),
            eq (get (ret detail) ''ready_to_encode_sum_ns'') (ret ready_encode),
            eq (get (ret detail) ''ready_to_gpu_sum_ns'') (ret ready_gpu)])
         ''Detailed read or readiness sums differ from individual events'' (
       bnd (num 0) (\<lambda>batch_gpu.
       bnd (list_of []) (\<lambda>batch_commands.
       bnd (loop (sorted_of (items_of (ret by_submit)))
           (overlapping_pairs, batch_commands, commands, occupancy, batch_gpu) (\<lambda>(overlapping_pairs, batch_commands, commands, occupancy, batch_gpu) tup5.
         unpack2 tup5 (\<lambda>submitted members.
           check (conjs [lt (num 0) (size_of (ret members)), le (size_of (ret members)) (ret group')])
             ''Captured command exceeds the ready-group cap'' (
           bnd (set_of (each (ret members) (\<lambda>r.
                 tuple_of [item (ret r) ''gpu_start_ns'', item (ret r) ''gpu_end_ns'']))) (\<lambda>bounds.
           check (eq (size_of (ret bounds)) (num 1)) ''One command has conflicting GPU timestamps'' (
           bnd (first_of (ret bounds)) (\<lambda>tup4.
           unpack2 tup4 (\<lambda>start end.
           bnd (dict_of [(''batch'', item (ret batch) ''batch''), (''submitted_ns'', ret submitted),
                (''gpu_start_ns'', ret start), (''gpu_end_ns'', ret end),
                (''experts'', size_of (ret members))]) (\<lambda>command.
           bnd (branch (gt (ret cycles) (num 1))
               (bnd (put (ret command) (str ''cycle'') (item (ret batch) ''cycle'')) (\<lambda>command.
                 ret command)) (ret command)) (\<lambda>command.
           bnd (add (ret overlapping_pairs)
               (sum_of (each (ret batch_commands) (\<lambda>prior.
                     lt (max_args [ret start, item (ret prior) ''gpu_start_ns''])
                       (min_args [ret end, item (ret prior) ''gpu_end_ns'']))))) (\<lambda>overlapping_pairs.
           bnd (append (ret batch_commands) (ret command)) (\<lambda>batch_commands.
           bnd (append (ret commands) (ret command)) (\<lambda>commands.
           bnd (append (ret occupancy) (size_of (ret members))) (\<lambda>occupancy.
           bnd (add (ret batch_gpu) (sub (ret end) (ret start))) (\<lambda>batch_gpu.
           Inr (overlapping_pairs, batch_commands, commands, occupancy, batch_gpu)))))))))))))))) (\<lambda>(overlapping_pairs, batch_commands, commands, occupancy, batch_gpu).
       bnd (branch (ret shared)
           (bnd (shared_trace batch batch_commands variant) (\<lambda>joined'.
             bnd (branch (gt (ret cycles) (num 1))
                 (bnd (put (ret joined') (str ''cycle'') (item (ret batch) ''cycle'')) (\<lambda>joined'.
                   ret joined')) (ret joined')) (\<lambda>joined'.
             bnd (append (ret shared_commands) (ret joined')) (\<lambda>shared_commands.
             ret shared_commands))))
           (check (conjs [notin (str ''command_profile'') (ret batch),
                  notin (str ''shared_layer'') (ret batch)])
               ''Control contains unsupported shared capture fields'' (
             ret shared_commands))) (\<lambda>shared_commands.
       check (conjs [call1 uint (get (ret detail) ''gpu_execution_sum_ns''),
            le (abs_of (sub (item (ret detail) ''gpu_execution_sum_ns'') (ret batch_gpu)))
                (size_of (ret by_submit)),
            call1 uint (get (ret detail) ''coordinator_wait_ns'')])
         ''Invalid command or coordinator wait durations'' (
       bnd (add (ret gpu) (item (ret detail) ''gpu_execution_sum_ns'')) (\<lambda>gpu.
       bnd (add (ret waits) (item (ret detail) ''coordinator_wait_ns'')) (\<lambda>waits.
       bnd (max_of (each (ret events) (\<lambda>r. item (ret r) ''released_ns''))) (\<lambda>previous_release.
       check (le (sub (ret previous_release)
             (min_of (each (ret events) (\<lambda>r. item (ret r) ''admitted_ns''))))
           (item (ret detail) ''duration_ns''))
         ''Expert lifetimes exceed their captured batch duration'' (
       Inr
         ((readiness, overlapping_pairs, commands, occupancy, shared_commands, gpu, waits, previous_release)))))))))))))))))))))))))) (\<lambda>(readiness, overlapping_pairs, commands, occupancy, shared_commands, gpu, waits, previous_release).
     check (conjs [eq (size_of (ret commands)) (item (ret sample) ''submissions''),
          eq (ret gpu) (item (ret sample) ''gpu_command_ns''),
          eq (ret waits) (item (ret sample) ''coordinator_wait_ns'')])
       ''Captured commands or waits do not cover the full sample'' (
     bnd (dict_of [(''captured_batches'', mul (ret cycles) (num 8)),
          (''captured_experts'', mul (ret cycles) (num 64)),
          (''captured_commands'', size_of (ret commands)),
          (''occupancy_histogram'', each_dict (sorted_of (items_of (counter_of (ret occupancy)))) (\<lambda>tup6.
              unpack2 tup6 (\<lambda>k v. format_of [ret k])) (\<lambda>tup7. unpack2 tup7 (\<lambda>k v. ret v))),
          (''commands'', ret commands), (''readiness_by_acquisition'', ret readiness),
          (''gpu_interval_overlap_pairs'', ret overlapping_pairs),
          (''coordinator_wait_ns'', ret waits), (''gpu_command_ns'', ret gpu)]) (\<lambda>result.
     bnd (branch (ret shared)
         (bnd (put (ret result) (str ''shared_command_joins'') (ret shared_commands)) (\<lambda>result.
           ret result)) (ret result)) (\<lambda>result.
     ret result)))))))))))))))"

definition analyze_arrivals :: "(string \<Rightarrow> pyval \<Rightarrow> expr) \<Rightarrow> pyval \<Rightarrow> pyval \<Rightarrow> pyval \<Rightarrow> pyval \<Rightarrow> pyval \<Rightarrow> pyval \<Rightarrow> expr" where
  "analyze_arrivals libm raw frozen expected_records expected_output shared lifetime =
     bnd (get (ret raw) ''mode'') (\<lambda>mode.
     bnd (get (ret raw) ''hits_per_batch'') (\<lambda>hits.
     check (conjs [same (differs (get (ret raw) ''shared_prelude'') none) (ret shared),
          disjs [nay (ret shared), same (get (item (ret raw) ''shared_prelude'') ''enabled'') yes]])
       ''Shared prelude requires its explicit experiment analyzer'' (
     check (conjs [isin (ret lifetime) (tuple_of [none, str ''batch'', str ''forward'']),
          same (differs (get (ret raw) ''scratch_lifetime'') none) (differs (ret lifetime) none),
          disjs [same (ret lifetime) none, ret shared]])
       ''Scratch lifetime requires its explicit experiment analyzer'' (
     bnd (get_or (ret raw) ''cache_preparation'' (ret RETAIN_CACHE)) (\<lambda>preparation.
     check (isin (ret preparation) (tuple_of [ret RETAIN_CACHE, ret INVALIDATE_FILES]))
       ''Unknown file-cache preparation condition'' (
     bnd (eq (ret preparation) (ret INVALIDATE_FILES)) (\<lambda>invalidate.
     bnd (branch (differs (ret lifetime) none) (num 6)
         (branch (eq (ret mode) (str ''timing'')) (num 4) (num 1))) (\<lambda>cycles.
     bnd (branch (eq (ret mode) (str ''timing'')) (num 5) (num 1)) (\<lambda>pairs.
     bnd (branch (eq (ret lifetime) (str ''forward'')) (str ''48-pass-arena'')
         (str ''eight-expert-batch'')) (\<lambda>scratch_scope.
     check (conjs [eq (get (ret raw) ''kind'') (str ''native_q4_arrivals_v1''),
          isin (ret mode) (tuple_of [str ''check'', str ''timing'', str ''trace'']),
          isin (ret hits) (tuple_of [num 2, num 8]), same (get (ret raw) ''complete'') yes,
          same (get (ret raw) ''exact'') yes,
          same (get (ret raw) ''validation'') (eq (ret mode) (str ''check'')),
          eq (get (ret raw) ''cycles'') (ret cycles),
          eq (get (ret raw) ''budget_bytes'') (ret BUDGET),
          eq (get (ret raw) ''cache_slots'') (num 8), eq (get (ret raw) ''io_workers'') (num 8),
          eq (get (ret raw) ''max_live_groups'') (num 2),
          eq (get (ret raw) ''scratch_scope'') (ret scratch_scope),
          eq (get (ret raw) ''disk_counter_scope'')
              (str ''entire-arm-including-preparation-and-other-processes''),
          eq (get (ret raw) ''wall_scope'')
              (str ''sum-of-coordinator-windows-excludes-preparation''),
          same (get (ret raw) ''timed_final_outputs_checked'') yes,
          same (get (ret raw) ''untouched_destinations_checked'') yes,
          call1 valid_sha256 (get (ret raw) ''output_sha256''),
          eq (item (ret raw) ''output_sha256'') (ret expected_output)])
       ''Incomplete or changed native arrival experiment'' (
     bnd (get (ret raw) ''resident_bytes'') (\<lambda>resident.
     check (conjs [uint resident, conjs [lt (num 0) (ret resident), lt (ret resident) (ret BUDGET)],
          eq (ret resident) (get (ret raw) ''expected_resident_bytes'')])
       ''Missing or changed real resident allocation'' (
     bnd (call1 fixture_records (item (ret raw) ''fixture_manifest'')) (\<lambda>records.
     bnd (branch (differs (ret expected_records) none)
         (check (eq (ret records) (ret expected_records)) ''Changed prepared expert fixtures'' (
           Inr ())) (Inr ())) (\<lambda>unused.
     bnd (get (item (ret raw) ''initial_metal'') ''build_fingerprint'') (\<lambda>build.
     check (conjs [valid_sha256 build, call1 valid_sha256 (get (ret raw) ''prepared_manifest_sha256'')])
       ''Missing native or prepared identity'' (
     bnd (branch (differs (ret frozen) none)
         (check (conjs [eq (ret build) (item (ret frozen) ''build''),
                eq (item (ret raw) ''prepared_manifest_sha256'')
                    (item (ret frozen) ''prepared_manifest_sha256''),
                eq (get (item (ret raw) ''fixture_manifest'') ''artifact_revision'')
                    (item (ret frozen) ''artifact_revision''),
                eq (item (ret frozen) ''budget_bytes'') (ret BUDGET)])
             ''Arrival replay differs from frozen model, layout or build'' (
           Inr ())) (Inr ())) (\<lambda>unused.
     bnd (loop (tuple_of [str ''initial_metal'', str ''final_metal'']) () (\<lambda>unused field.
       bnd (call3 metal_state (index (ret raw) (ret field)) (ret build) (ret resident)) (\<lambda>unused.
       Inr ()))) (\<lambda>unused.
     check (eq (each (item (ret raw) ''pairs'') (\<lambda>p.
           tuple_of [item (ret p) ''pair'', item (ret p) ''group'']))
         (flatten (each (range_to (ret pairs)) (\<lambda>p.
               each (tuple_of [num 1, num 4]) (\<lambda>g. tuple_of [ret p, ret g])))))
       ''Missing or reordered arrival pairs'' (
     bnd (list_of []) (\<lambda>arms.
     bnd (list_of []) (\<lambda>devices.
     bnd (list_of []) (\<lambda>captures.
     bnd (list_of []) (\<lambda>storage.
     bnd (put (put (dict_of []) (num 1) (list_of [])) (num 4) (list_of [])) (\<lambda>samples.
     bnd (mul (ret cycles) (num 8)) (\<lambda>batches.
     bnd (mul (ret cycles) (num 64)) (\<lambda>executions.
     bnd (loop (item (ret raw) ''pairs'') (devices, arms, captures, storage, samples) (\<lambda>(devices, arms, captures, storage, samples) pair.
       check (eq (each (item (ret pair) ''arms'') (\<lambda>a. item (ret a) ''variant''))
           (branch (modulo (item (ret pair) ''pair'') (num 2))
               (list_of [str ''packed-r2'', str ''reference''])
               (list_of [str ''reference'', str ''packed-r2'']))) ''Changed paired arm order'' (
       bnd (dict_of []) (\<lambda>by.
       bnd (loop (item (ret pair) ''arms'') (captures, devices, storage, arms, by) (\<lambda>(captures, devices, storage, arms, by) arm.
         bnd (item (ret arm) ''sample'') (\<lambda>sample.
         bnd (item (ret arm) ''metal_before'') (\<lambda>before.
         bnd (item (ret arm) ''metal_after'') (\<lambda>after.
         bnd (loop (tuple_of [ret before, ret after]) () (\<lambda>unused state.
           bnd (metal_state state build resident) (\<lambda>unused.
           check (eq (get (ret state) ''kernels'')
               (merge (dict_from (ret FIXED_KERNELS))
                   (dict_of [(''q4_decode'', item (ret arm) ''variant''),
                        (''profile'', conjs [ret shared, eq (ret mode) (str ''trace'')])])))
             ''Changed selectors or enabled Metal profiling/capture'' (
           Inr ())))) (\<lambda>unused.
         bnd (loop (tuple_from (list_extend (list_extend (list_of [str ''wall_ns''])
                   (list_from (ret REPLAY_COUNTERS)))
                 (list_of [str ''coordinator_wait_ns'', str ''preparation_ns'']))) () (\<lambda>unused key.
           check (conjs [call1 uint (lookup (ret sample) (ret key)),
                branch (isin (ret key)
                      (tuple_of [str ''wall_ns'', str ''cpu_encode_ns'', str ''gpu_command_ns'',
                           str ''preparation_ns''])) (gt (index (ret sample) (ret key)) (num 0)) yes])
             ''Missing or invalid arrival timing/counters'' (
           bnd (branch (isin (ret key) (ret REPLAY_COUNTERS))
               (check (conjs [ge (index (ret after) (ret key)) (index (ret before) (ret key)),
                      eq (index (ret sample) (ret key))
                          (sub (index (ret after) (ret key)) (index (ret before) (ret key)))])
                   ''Arrival sample differs from native counter snapshots'' (
                 Inr ())) (Inr ())) (\<lambda>unused.
           Inr ())))) (\<lambda>unused.
         check (conjs [eq (item (ret sample) ''expert_executions'') (ret executions),
              eq (item (ret sample) ''ready_hits'') (mul (ret batches) (ret hits)),
              eq (item (ret sample) ''new_misses'') (mul (ret batches) (sub (num 8) (ret hits))),
              eq (item (ret sample) ''loading_joins'') (num 0),
              eq (get (ret sample) ''read_bytes'')
                  (mul (mul (ret batches) (sub (num 8) (ret hits))) (ret EXPERT_BYTES)),
              eq (get (ret sample) ''expert_load_calls'')
                  (mul (ret batches) (sub (num 8) (ret hits))),
              eq (get (ret sample) ''preparation_read_bytes'')
                  (mul (mul (ret batches) (ret hits)) (ret EXPERT_BYTES)),
              eq (get (ret sample) ''preparation_load_calls'') (mul (ret batches) (ret hits)),
              eq (item (ret sample) ''allocation_count'') (num 0)])
           ''Wrong prepared hit/miss population, source bytes or allocation count'' (
         check (conjs [call1 uint (get (ret sample) ''arm_elapsed_ns''),
              ge (item (ret sample) ''arm_elapsed_ns'')
                  (add (item (ret sample) ''wall_ns'') (item (ret sample) ''preparation_ns''))])
           ''Total arm time cannot exclude the preparation window'' (
         bnd (branch (ret invalidate)
             (check (conjs [call1 uint (get (ret sample) ''invalidation_ns''),
                    conjs [lt (num 0) (item (ret sample) ''invalidation_ns''),
                         le (item (ret sample) ''invalidation_ns'')
                             (item (ret sample) ''preparation_ns'')],
                    call1 uint (get (ret sample) ''invalidation_calls''),
                    eq (item (ret sample) ''invalidation_calls'') (mul (num 8) (ret batches))])
                 ''Missing selected-file invalidation coverage or invalid preparation timing'' (
               Inr ()))
             (check (conjs [eq (get_or (ret sample) ''invalidation_ns'' (num 0)) (num 0),
                    eq (get_or (ret sample) ''invalidation_calls'' (num 0)) (num 0)])
                 ''Retained-cache control unexpectedly invalidated file ranges'' (
               Inr ()))) (\<lambda>unused.
         bnd (floordiv (ret executions) (item (ret pair) ''group'')) (\<lambda>expected_submissions.
         check (conjs [conjs [le (ret expected_submissions) (item (ret sample) ''submissions''),
                   le (item (ret sample) ''submissions'') (ret executions)],
              branch (disjs [eq (ret hits) (num 8), eq (item (ret pair) ''group'') (num 1)])
                  (eq (item (ret sample) ''submissions'') (ret expected_submissions)) yes])
           ''Command count exceeds its cap or all-hit geometry'' (
         bnd (each_dict (union_of (set_of (item (ret before) ''kernel_dispatches''))
               (set_of (item (ret after) ''kernel_dispatches''))) (\<lambda>k. ret k) (\<lambda>k.
             sub (lookup_or (item (ret after) ''kernel_dispatches'') (ret k) (num 0))
               (lookup_or (item (ret before) ''kernel_dispatches'') (ret k) (num 0)))) (\<lambda>delta.
         check (every (values_of (ret delta)) (\<lambda>v. ge (ret v) (num 0))) ''Dispatch counters reset'' (
         bnd (each_dict (each_if (items_of (ret delta)) (\<lambda>tup1. unpack2 tup1 (\<lambda>k v. ret v)) (\<lambda>x.
               ret x)) (\<lambda>tup2. unpack2 tup2 (\<lambda>k v. ret k)) (\<lambda>tup3. unpack2 tup3 (\<lambda>k v. ret v))) (\<lambda>delta.
         bnd (branch (eq (item (ret arm) ''variant'') (str ''packed-r2'')) (ret PACKED)
             (tuple_of [str ''q4_gate_up'', str ''q4_mm''])) (\<lambda>names.
         bnd (dict_fromkeys (tuple_from (list_extend (list_from (ret names))
                 (list_of [str ''scatter_experts'']))) (ret executions)) (\<lambda>expected_dispatches.
         bnd (branch (ret shared)
             (bnd (merge (ret expected_dispatches)
                   (dict_fromkeys (ret SHARED_KERNELS) (ret batches))) (\<lambda>expected_dispatches.
               check (conjs [eq (get (ret sample) ''shared_chains'') (ret batches),
                    eq (item (ret sample) ''scratch_reuses'')
                        (add (mul (ret executions) (num 3)) (mul (ret batches) (num 3)))])
                 ''Missing shared chains or changed shared scratch coverage'' (
               ret expected_dispatches)))
             (check (notin (str ''shared_chains'') (ret sample))
                 ''Control contains unsupported shared work'' (
               ret expected_dispatches))) (\<lambda>expected_dispatches.
         check (conjs [eq (ret delta) (item (ret sample) ''kernel_dispatches''),
              eq (item (ret sample) ''kernel_dispatches'') (ret expected_dispatches)])
           ''Missing experts or changed arithmetic/scatter path'' (
         check (gt (item (ret sample) ''scratch_reuses'') (num 0))
           ''Native scratch reuse was not exercised'' (
         bnd (dict_of [(''pair'', item (ret pair) ''pair''), (''group'', item (ret pair) ''group''),
              (''variant'', item (ret arm) ''variant'')]) (\<lambda>label.
         bnd (branch (eq (ret mode) (str ''trace''))
             (bnd (append (ret captures)
                   (merge (dict_from (ret label))
                       (bnd (item (ret pair) ''group'') (\<lambda>arg4.
                           bnd (item (ret arm) ''variant'') (\<lambda>arg5.
                             trace_batches sample arg4 hits records shared arg5 cycles))))) (\<lambda>captures.
               ret captures))
             (check (nay (get (ret sample) ''batches''))
                 ''Timing or check arm unexpectedly includes detailed event capture'' (
               ret captures))) (\<lambda>captures.
         bnd (disk_observation arm) (\<lambda>device.
         bnd (append (ret devices) (merge (dict_from (ret label)) (ret device))) (\<lambda>devices.
         bnd (branch (ret invalidate)
             (bnd (add (item (ret sample) ''read_bytes'')
                   (item (ret sample) ''preparation_read_bytes'')) (\<lambda>application_bytes.
               bnd (branch (item (ret device) ''available'')
                   (truediv (item (ret device) ''read_bytes'') (ret application_bytes)) none) (\<lambda>ratio.
               bnd (append (ret storage)
                   (merge (dict_from (ret label))
                       (dict_of [(''application_read_bytes'', ret application_bytes),
                            (''observed_device_read_bytes'', item (ret device) ''read_bytes''),
                            (''device_to_application_ratio'', ret ratio),
                            (''within_declared_range'', conjs [differs (ret ratio) none,
                                 conjs [le (flt (9 / 10)) (ret ratio), le (ret ratio) (flt (11 / 10))]]),
                            (''invalidation_ns'', item (ret sample) ''invalidation_ns''),
                            (''invalidation_calls'', item (ret sample) ''invalidation_calls'')]))) (\<lambda>storage.
               ret storage)))) (ret storage)) (\<lambda>storage.
         bnd (append (ret arms) (ret arm)) (\<lambda>arms.
         bnd (put (ret by) (item (ret arm) ''variant'') (ret sample)) (\<lambda>by.
         Inr (captures, devices, storage, arms, by)))))))))))))))))))))))))))) (\<lambda>(captures, devices, storage, arms, by).
       bnd (put (ret samples) (item (ret pair) ''group'')
           (append (index (ret samples) (item (ret pair) ''group''))
               (tuple_of [item (ret by) ''reference'', item (ret by) ''packed-r2'']))) (\<lambda>samples.
       Inr (devices, arms, captures, storage, samples))))))) (\<lambda>(devices, arms, captures, storage, samples).
     bnd (observations_clean arms) (\<lambda>clean.
     bnd (list_of []) (\<lambda>results.
     bnd (branch (eq (ret mode) (str ''timing''))
         (bnd (each (tuple_of [num 1, num 4]) (\<lambda>group'.
               dict_of [(''group'', ret group'),
                  (''metrics'', each_dict (tuple_of [str ''gpu_command_ns'', str ''wall_ns'', str ''cpu_encode_ns'',
                         str ''cpu_gpu_wait_ns'', str ''coordinator_wait_ns'',
                         str ''preparation_ns'']) (\<lambda>k. ret k) (\<lambda>k.
                      call2 (metric libm) (index (ret samples) (ret group')) (ret k)))])) (\<lambda>results.
           bnd (every (ret results) (\<lambda>r.
               conjs [lt (item (item (item (item (ret r) ''metrics'') ''gpu_command_ns'')
                          ''confidence_95'') ''high'') (num 1),
                  le (item (item (item (item (ret r) ''metrics'') ''wall_ns'') ''confidence_95'')
                        ''high'') (flt (103 / 100))])) (\<lambda>gain.
           bnd (branch (ret gain) (str ''diagnostic_gain'') (str ''no_clear_arrival_gain'')) (\<lambda>status.
           Inr (results, status)))))
         (bnd (branch (eq (ret mode) (str ''check'')) (str ''checked'') (str ''captured'')) (\<lambda>status.
           Inr (results, status)))) (\<lambda>(results, status).
     bnd (merge (merge (dict_of [(''mode'', ret mode), (''hits_per_batch'', ret hits),
              (''status'', branch (every (values_of (ret clean)) (\<lambda>x. ret x)) (ret status)
                  (str ''disturbed''))]) (ret clean))
         (dict_of [(''criteria'', branch (same (ret lifetime) none) (ret ARRIVALS_CRITERIA)
                  (merge (dict_from (ret ARRIVALS_CRITERIA))
                      (dict_of [(''timing_cycles'', num 6), (''capture_cycles'', num 6)]))),
              (''results'', ret results), (''captures'', ret captures),
              (''device_observations'', ret devices),
              (''device_observations_complete'', every (ret devices) (\<lambda>d.
                  item (ret d) ''available'')),
              (''coverage'', dict_of [(''pairs'', ret pairs), (''groups'', list_of [num 1, num 4]),
                   (''cycles_per_arm'', ret cycles),
                   (''expert_executions_per_arm'', ret executions),
                   (''detailed_batches'', mul (size_of (ret captures)) (ret batches)),
                   (''detailed_experts'', mul (size_of (ret captures)) (ret executions))]),
              (''output_sha256'', item (ret raw) ''output_sha256''),
              (''wall_scope'', item (ret raw) ''wall_scope''),
              (''disk_counter_scope'', item (ret raw) ''disk_counter_scope''),
              (''normal_request_latency_qualified'', no), (''production_promoted'', no),
              (''limitations'', list_of [str
                       (''Eight fixed original Q4 experts; the rotating hit population is declared, not inferred from normal requests.''),
                   str
                       (''Wall time sums coordinator/encoding/drain intervals and excludes explicit cache preparation between batches.''),
                   str
                       (''Preparation bytes and logical expert-load calls are separate from timed demand bytes and calls.''),
                   str
                       (''Internal-device counters cover preparation and unrelated processes; missing observations stay unavailable.''),
                   str
                       (''Detailed events come from a separate one-pair capture. They are not pooled with timing or used as exclusive wait costs.''),
                   str
                       (''Whole-command GPU timestamp intervals may overlap; their sums are not exclusive elapsed time.''),
                   str
                       (''Hit read-complete-to-submission intervals include time before batch admission; ready-to-submission starts at admission or read completion, whichever is later.''),
                   str
                       (''Ready-group size is a cap. Mixed misses may submit smaller groups; captured occupancy is measured from actual submissions.''),
                   str
                       (''Resident allocation is present, but other model operators, routing and final token reduction are absent.''),
                   str
                       (''Boundary memory/host observations can miss brief events. Repeated fixtures and within-process pairs are correlated.''),
                   str
                       (''No normal-request throughput projection, complete-request qualification or production selection follows.'')])])) (\<lambda>result.
     bnd (branch (ret shared)
         (bnd (put (ret result) (str ''gpu_scope'') (str ''shared-and-routed-command-intervals'')) (\<lambda>result.
           bnd (put (ret result) (str ''coverage'')
               (put (item (ret result) ''coverage'') (str ''shared_chains_per_arm'') (ret batches))) (\<lambda>result.
           bnd (put (ret result) (str ''limitations'')
               (each (item (ret result) ''limitations'') (\<lambda>text.
                   replaced (ret text)
                     (str
                         (''Resident allocation is present, but other model operators, routing and final token reduction are absent.''))
                     (str
                         (''One rotating shared-expert chain precedes eight routed experts per batch. Routing, other model operators and final token reduction are absent.''))))) (\<lambda>result.
           bnd (put (ret result) (str ''limitations'')
               (append (item (ret result) ''limitations'')
                   (str
                       (''GPU duration includes shared and routed work in mixed command groups; it is not pure routed-expert time. Shared command profiles are captured only in the separate trace process.'')))) (\<lambda>result.
           ret result))))) (ret result)) (\<lambda>result.
     bnd (branch (ret invalidate)
         (bnd (branch (eq (ret mode) (str ''timing''))
               (every (ret storage) (\<lambda>s. item (ret s) ''within_declared_range'')) none) (\<lambda>exercised.
           bnd (merge (ret result)
               (dict_of [(''cache_preparation'', ret preparation),
                    (''native_performance_status'', branch (eq (ret mode) (str ''timing''))
                        (ret status) none),
                    (''storage_criteria'', ret STORAGE_CRITERIA),
                    (''storage_observations'', ret storage),
                    (''device_reads_exercised'', ret exercised)])) (\<lambda>result.
           bnd (branch (conjs [eq (ret mode) (str ''timing''), nay (ret exercised),
                  every (values_of (ret clean)) (\<lambda>x. ret x)])
               (bnd (put (ret result) (str ''status'') (str ''unqualified_storage'')) (\<lambda>result.
                 ret result)) (ret result)) (\<lambda>result.
           bnd (put (ret result) (str ''limitations'')
               (add (item (ret result) ''limitations'')
                   (list_of [str
                            (''Selected file ranges are invalidated before every batch preparation; invalidation time is included in preparation and excluded from coordinator wall time.''),
                        str
                            ((''Storage coverage requires every timing arm to observe device read bytes within 90'' @ [CHR 0xE2, CHR 0x80, CHR 0x93] @ ''110% of preparation plus timed application bytes. Aggregate coverage cannot replace a failed arm.'')),
                        str
                            (''Device counters are systemwide. Matching byte coverage supports exercised device reads, but does not isolate this process or establish physical NAND traffic.'')]))) (\<lambda>result.
           ret result))))) (ret result)) (\<lambda>result.
     ret result))))))))))))))))))))))))))))))))))"

definition SCRATCH_BYTES_PER_PASS :: pyval where
  "SCRATCH_BYTES_PER_PASS = PInt (27 * 16384)"

definition PASSES :: pyval where
  "PASSES = PInt 48"

definition SCRATCH_BUFFERS_PER_PASS :: pyval where
  "SCRATCH_BUFFERS_PER_PASS = PInt 27"

definition scratch_snapshot :: "pyval \<Rightarrow> pyval \<Rightarrow> pyval \<Rightarrow> pyval \<Rightarrow> expr" where
  "scratch_snapshot snapshot retained_bytes used_buffers active =
     check (conjs [isinstance (ret snapshot) [TDict],
          eq (get (ret snapshot) ''active_scratch_slot'') (ret active),
          eq (get (ret snapshot) ''live_command_groups'') (num 0),
          call1 uint (get (ret snapshot) ''live_buffer_bytes''),
          conjs [lt (num 0) (item (ret snapshot) ''live_buffer_bytes''),
               le (item (ret snapshot) ''live_buffer_bytes'') (ret BUDGET)]])
       ''Scratch observation has wrong arena state, outstanding users or invalid live bytes'' (
     bnd (get_or (ret snapshot) ''pool'' (dict_of [])) (\<lambda>pool.
     check (conjs [every (tuple_of [str ''capacity_bytes'', str ''allocated_bytes'', str ''peak_bytes'',
                 str ''unused_retained_bytes'', str ''reuses'', str ''allocation_count'',
                 str ''wait_ns'']) (\<lambda>k. call1 uint (lookup (ret pool) (ret k))),
          eq (item (ret pool) ''capacity_bytes'') (num (128 * 1024 ^ 2)),
          eq (item (ret pool) ''allocated_bytes'') (ret retained_bytes),
          conjs [le (ret retained_bytes) (item (ret pool) ''peak_bytes''),
               le (item (ret pool) ''peak_bytes'') (item (ret pool) ''capacity_bytes'')],
          eq (item (ret pool) ''unused_retained_bytes'')
              (sub (ret retained_bytes) (mul (ret used_buffers) (num 16384))),
          eq (get (ret snapshot) ''active_prefix_bytes'') (mul (ret used_buffers) (num 16384)),
          eq (get (ret snapshot) ''inferred_used_buffers'') (ret used_buffers)])
       ''Scratch cursor, retained bytes or fixed buffer-charge inference differs'' (
     ret pool)))"

definition lifetime_proof :: "pyval \<Rightarrow> pyval \<Rightarrow> expr" where
  "lifetime_proof raw scope =
     bnd (dict_of [(''passes'', ret PASSES), (''scope'', ret scope),
          (''retained_payload'', str ''shared-and-routed-temporaries''),
          (''buffers_per_pass'', ret SCRATCH_BUFFERS_PER_PASS),
          (''buffer_charge_bytes'', num 16384)]) (\<lambda>expected.
     check (eq (get (ret raw) ''scratch_lifetime'') (ret expected))
       ''Changed scratch lifetime protocol'' (
     bnd (mul (ret SCRATCH_BYTES_PER_PASS)
         (branch (eq (ret scope) (str ''forward'')) (ret PASSES) (num 1))) (\<lambda>retained.
     bnd (floordiv (ret retained) (num 16384)) (\<lambda>total_buffers.
     bnd (branch (eq (ret scope) (str ''batch'')) (ret PASSES) (num 1)) (\<lambda>boundaries.
     bnd (list_of []) (\<lambda>captures.
     bnd (loop (item (ret raw) ''pairs'') captures (\<lambda>captures pair.
       bnd (loop (item (ret pair) ''arms'') captures (\<lambda>captures arm.
         bnd (item (ret arm) ''sample'') (\<lambda>sample.
         check (conjs [conjs [eq (get (ret sample) ''scope_begins'') (get (ret sample) ''scope_ends''),
                   eq (get (ret sample) ''scope_ends'') (ret boundaries)],
              eq (get (ret sample) ''retained_scratch_bytes'') (ret retained)])
           ''Missing arena boundaries or changed retained scratch payload'' (
         bnd (list_of [item (ret arm) ''metal_before'', item (ret arm) ''metal_after'']) (\<lambda>states.
         bnd (loop (ret states) () (\<lambda>unused state.
           bnd (get (ret state) ''scratch_pools'') (\<lambda>pools.
           check (conjs [isinstance (ret pools) [TList], eq (size_of (ret pools)) (num 2),
                eq (get (index (ret pools) (num 1)) ''allocated_bytes'') (num 0),
                eq (get (index (ret pools) (num 1)) ''capacity_bytes'') (num 0)])
             ''Unexpected secondary scratch pool'' (
           bnd (call4 scratch_snapshot
               (dict_of [(''active_scratch_slot'', item (ret state) ''active_scratch_slot''),
                    (''live_command_groups'', item (ret state) ''live_command_groups''),
                    (''live_buffer_bytes'', item (ret state) ''live_buffer_bytes''),
                    (''pool'', index (ret pools) (num 0)), (''active_prefix_bytes'', ret retained),
                    (''inferred_used_buffers'', ret total_buffers)]) (ret retained)
               (ret total_buffers) (num (- 1))) (\<lambda>unused.
           Inr ()))))) (\<lambda>unused.
         bnd (each (ret states) (\<lambda>state. index (item (ret state) ''scratch_pools'') (num 0))) (\<lambda>tup1.
         unpack2 tup1 (\<lambda>before after.
         check (conjs [eq (item (index (ret states) (num 0)) ''live_buffer_bytes'')
                  (item (index (ret states) (num 1)) ''live_buffer_bytes''),
              eq (item (ret after) ''allocation_count'') (item (ret before) ''allocation_count''),
              eq (sub (item (ret after) ''reuses'') (item (ret before) ''reuses''))
                  (mul (ret PASSES) (ret SCRATCH_BUFFERS_PER_PASS))])
           ''Scratch allocation or reuse changed across the measured arm'' (
         branch (ne (item (ret raw) ''mode'') (str ''trace''))
           (check (nay (get (ret sample) ''batches''))
               ''Untimed scratch instrumentation leaked into timing/check modes'' (
             ret captures)) (
         bnd none (\<lambda>previous.
         bnd (list_of []) (\<lambda>summary.
         bnd (loop (numbered (item (ret sample) ''batches'') 0) (previous, summary) (\<lambda>(previous, summary) tup2.
           unpack2 tup2 (\<lambda>index' batch.
             bnd (get_or (ret batch) ''lifetime'' (dict_of [])) (\<lambda>lifetime.
             check (eq (set_of (ret lifetime))
                 (set_disp [str ''before_preparation'', str ''after_preparation'', str ''after_work'']))
               ''Missing complete scratch lifecycle observations'' (
             bnd (item (ret lifetime) ''before_preparation'') (\<lambda>entering.
             bnd (item (ret lifetime) ''after_preparation'') (\<lambda>prepared.
             bnd (item (ret lifetime) ''after_work'') (\<lambda>done.
             bnd (branch (disjs [eq (ret index') (num 0), eq (ret scope) (str ''batch'')])
                 (ret total_buffers) (mul (ret index') (ret SCRATCH_BUFFERS_PER_PASS))) (\<lambda>entering_used.
             bnd (branch (conjs [eq (ret scope) (str ''forward''), ret index']) (num 0) (num (- 1))) (\<lambda>entering_active.
             bnd (branch (eq (ret scope) (str ''forward''))
                 (mul (add (ret index') (num 1)) (ret SCRATCH_BUFFERS_PER_PASS))
                 (ret SCRATCH_BUFFERS_PER_PASS)) (\<lambda>final_used.
             bnd (branch (conjs [eq (ret scope) (str ''forward''), lt (ret index') (sub (ret PASSES) (num 1))])
                 (num 0) (num (- 1))) (\<lambda>final_active.
             bnd (scratch_snapshot entering retained entering_used entering_active) (\<lambda>a.
             bnd (scratch_snapshot prepared retained entering_used entering_active) (\<lambda>unused.
             bnd (scratch_snapshot done retained final_used final_active) (\<lambda>c.
             check (eq (ret entering) (ret prepared))
               ''Read preparation changed a live scratch arena'' (
             check (conjs [conjs [eq (item (ret entering) ''live_buffer_bytes'')
                           (item (ret done) ''live_buffer_bytes''),
                       eq (item (ret done) ''live_buffer_bytes'')
                           (item (index (ret states) (num 0)) ''live_buffer_bytes'')],
                  eq (item (ret c) ''allocation_count'') (item (ret a) ''allocation_count''),
                  eq (sub (item (ret c) ''reuses'') (item (ret a) ''reuses''))
                      (ret SCRATCH_BUFFERS_PER_PASS),
                  ge (item (ret c) ''wait_ns'') (item (ret a) ''wait_ns'')])
               ''Scratch work allocated, released or failed to retain the declared temporaries'' (
             bnd (branch (differs (ret previous) none)
                 (check (eq (ret entering) (ret previous))
                     ''Scratch ownership changed between consecutive passes'' (
                   Inr ()))
                 (check (eq (ret a) (ret before))
                     ''Initial captured scratch pool differs from the native arm boundary'' (
                   Inr ()))) (\<lambda>unused.
             bnd (ret done) (\<lambda>previous.
             bnd (append (ret summary)
                 (dict_of [(''pass_index'', ret index'), (''cycle'', item (ret batch) ''cycle''),
                      (''batch'', item (ret batch) ''batch''),
                      (''active_after_work'', ret final_active), (''used_buffers'', ret final_used),
                      (''active_prefix_bytes'', item (ret done) ''active_prefix_bytes''),
                      (''retained_bytes'', ret retained)])) (\<lambda>summary.
             Inr (previous, summary))))))))))))))))))))) (\<lambda>(previous, summary).
         check (conjs [eq (size_of (ret summary)) (ret PASSES),
              eq (item (ret previous) ''pool'') (ret after)])
           ''Scratch trace does not reach the final arm boundary'' (
         bnd (append (ret captures)
             (dict_of [(''pair'', item (ret pair) ''pair''), (''group'', item (ret pair) ''group''),
                  (''variant'', item (ret arm) ''variant''), (''passes'', ret summary)])) (\<lambda>captures.
         ret captures))))))))))))))) (\<lambda>captures.
       ret captures))) (\<lambda>captures.
     merge (merge (dict_of []) (ret expected))
       (dict_of [(''retained_scratch_bytes'', ret retained), (''retained_buffers'', ret total_buffers),
            (''scope_begins_per_arm'', ret boundaries), (''scope_ends_per_arm'', ret boundaries),
            (''reused_buffers_per_arm'', mul (ret PASSES) (ret SCRATCH_BUFFERS_PER_PASS)),
            (''captures'', ret captures), (''complete_model_forward'', no),
            (''inferred_cursor_basis'', str
                (''All scratch requests are charged 16384 bytes; used prefix is allocated minus unused retained bytes''))]))))))))"

end
