(* ===== verification/ScreenCache.thy ===== *)
theory ScreenCache
  imports RunChecks RouteSegments
begin

text \<open>
  The normal-request validator of the cache-policy screen and the experiments that reuse it
  (\<open>scripts/qwen/screen_cache.py\<close>, \<open>capacity_experiment.py\<close>, \<open>cache_residency.py\<close>,
  \<open>combined_q4.py\<close>, \<open>screen_decode_scratch.py\<close>, \<open>confirm_expert_residency.py\<close>,
  \<open>screen_expert_residency.py\<close>). A function that fills the caller's dictionary \<open>expected\<close> returns
  the pair of its result and the updated dictionary.
\<close>

definition validate_correctness :: "(pyval \<Rightarrow> expr) \<Rightarrow> pyval \<Rightarrow> pyval \<Rightarrow> expr" where
  "validate_correctness read_json reports evidence' =
     bnd (loop (zip_of (ret CACHE_POLICIES) (ret reports)) () (\<lambda>unused tup1.
       unpack2 tup1 (\<lambda>policy r.
         reject (disjs [differs (get (ret r) ''passed'') yes,
              ne (get (ret r) ''case'') (correctness_case policy),
              differs (get (ret r) ''full_model'') yes, ne (get (ret r) ''layers'') (num 48),
              ne (size_of (get_or (ret r) ''runs'' (list_of []))) (num 1),
              ne (size_of (get_or (ret r) ''checks'' (list_of []))) (size_of (ret CHECKS)),
              ne (set_of (each (item (ret r) ''checks'') (\<lambda>c. item (ret c) ''name''))) (ret CHECKS),
              some (item (ret r) ''checks'') (\<lambda>c. differs (get (ret c) ''passed'') yes)])
           ''Missing real-model state, cancellation or recovery checks'' (
         bnd (index (item (ret r) ''runs'') (num 0)) (\<lambda>run.
         reject (disjs [ne (item (ret run) ''panel'') (num 0),
              ne (size_of (item (ret run) ''stages'')) (num 3),
              some (item (ret run) ''stages'') (\<lambda>s.
                  disjs [ne (size_of (item (ret s) ''layers'')) (num 48),
                     ne (size_of (item (ret s) ''routes'')) (num 48)])])
           ''Incomplete all-layer state and route proof'' (
         bnd (loop (tuple_of [str ''continued_statistics'', str ''after_fresh'']) () (\<lambda>unused key.
           bnd (index (ret run) (ret key)) (\<lambda>s.
           bnd (call3 check_machine (ret s) (ret evidence') (mul (num 12) (ret GiB))) (\<lambda>unused.
           bnd (call2 (check_configuration read_json) (ret s)
               (merge (dict_from (index configurations (num 0)))
                   (dict_of [(''cache_policy'', ret policy), (''chunk'', num 2), (''panel'', num 0)]))) (\<lambda>unused.
           reject (disjs [ne (item (item (ret s) ''memory_plan'') ''expert_slots'') (num 32),
                item (ret s) ''diagnostic_stream_trunk'',
                ne (item (item (ret s) ''expert_cache'') ''policy'') (ret policy),
                le (item (item (ret s) ''expert_cache'') ''evictions'') (num 0)])
             ''Correctness gate requires forced eviction with the requested policy'' (
           Inr ())))))) (\<lambda>unused.
         Inr ()))))))) (\<lambda>unused.
     reject (disjs [ne (size_of (ret reports)) (num 2),
          ne (item (index (item (index (ret reports) (num 0)) ''runs'') (num 0)) ''stages'')
              (item (index (item (index (ret reports) (num 1)) ''runs'') (num 0)) ''stages'')])
       ''Cache policy changed logits, routes or persistent state'' (
     dict_of [(''passed'', yes), (''all_48_layers'', yes), (''exact_logits_routes_state'', yes),
        (''continued_equals_fresh'', yes), (''cancellation_and_failure_checked'', yes),
        (''expert_slots'', num 32), (''independent_model_reference'', no)]))"

definition validate_pressure_state :: "pyval \<Rightarrow> pyval \<Rightarrow> pyval \<Rightarrow> expr" where
  "validate_pressure_state state initial policy =
     bnd (get_or (ret state) ''memory_pressure'' (dict_of [])) (\<lambda>pressure.
     reject (disjs [ne (get (ret pressure) ''policy'') (ret policy),
          ne (get (ret pressure) ''source'') (str ''dispatch-memorypressure'')])
       ''Missing pressure policy identity'' (
     bnd (get_or (ret pressure) ''events'' (list_of [])) (\<lambda>events.
     reject (ne (get (ret pressure) ''event_count'') (size_of (ret events)))
       ''Pressure event coverage incomplete'' (
     bnd (item (ret initial) ''expert_slots'') (\<lambda>current.
     bnd (num 0) (\<lambda>shrinks.
     bnd (loop (numbered (ret events) 1) (shrinks, current) (\<lambda>(shrinks, current) tup1.
       unpack2 tup1 (\<lambda>i e.
         bnd (get (ret e) ''level'') (\<lambda>level.
         bnd (ret current) (\<lambda>target.
         bnd (branch (conjs [eq (ret policy) (str ''shrink''), gt (ret current) (num 32)])
             (bnd (branch (eq (ret level) (num 2))
                   (bnd (max_args [num 32, floordiv (ret current) (num 2)]) (\<lambda>target.
                     ret target))
                   (bnd (branch (eq (ret level) (num 1))
                         (bnd (max_args [num 32, sub (ret current) (num 388)]) (\<lambda>target.
                           ret target)) (ret target)) (\<lambda>target.
                     ret target))) (\<lambda>target.
               ret target)) (ret target)) (\<lambda>target.
         reject (disjs [notin (ret level) (tuple_of [num 0, num 1, num 2]),
              ne (get (ret e) ''sequence'') (ret i),
              ne (get (ret e) ''before_slots'') (ret current),
              ne (get (ret e) ''requested_slots'') (ret target),
              ne (get (ret e) ''achieved_slots'') (ret target),
              nay (type_in (get (ret e) ''released_bytes'') [TInt]),
              nay (conjs [le (num 0) (item (ret e) ''released_bytes''),
                     le (item (ret e) ''released_bytes'')
                         (mul (sub (ret current) (ret target)) (num 2768896))]),
              nay (type_in (get (ret e) ''drain_duration_ns'') [TInt]),
              lt (item (ret e) ''drain_duration_ns'') (num 0)]) ''Invalid pressure transition'' (
         bnd (add (ret shrinks) (lt (ret target) (ret current))) (\<lambda>shrinks.
         bnd (ret target) (\<lambda>current.
         Inr (shrinks, current)))))))))) (\<lambda>(shrinks, current).
     bnd (item (ret state) ''memory_plan'') (\<lambda>plan.
     bnd (merge (dict_from (ret initial))
         (dict_of [(''expert_slots'', ret current), (''expert_bytes'', mul (ret current) (num 2768896)),
              (''planned_bytes'', sub (item (ret initial) ''planned_bytes'')
                  (mul (sub (item (ret initial) ''expert_slots'') (ret current)) (num 2768896)))])) (\<lambda>expected.
     reject (disjs [ne (ret plan) (ret expected),
          ne (item (item (ret state) ''phase_memory'') ''pressure_resizes'') (ret shrinks)])
       ''Unexplained pressure resize or allocation change'' (
     none))))))))))"

definition fixed_sampling :: "pyval \<Rightarrow> pyval \<Rightarrow> expr" where
  "fixed_sampling native_top_p sampling =
     bnd (ret native_top_p) (\<lambda>native_top_p.
     conjs [isinstance (ret sampling) [TDict],
        isin (get (ret sampling) ''top_p'') (tuple_of [flt (19 / 20), ret native_top_p]),
        eq (merge (dict_from (ret sampling)) (dict_of [(''top_p'', flt (19 / 20))]))
            (dict_of [(''temperature'', num 0), (''top_k'', num 20), (''top_p'', flt (19 / 20)),
                 (''seed'', num 0)])])"

definition validate_request :: "(pyval \<Rightarrow> expr) \<Rightarrow> pyval \<Rightarrow> pyval \<Rightarrow> pyval \<Rightarrow> pyval \<Rightarrow> pyval \<Rightarrow> pyval \<Rightarrow> pyval \<Rightarrow> pyval \<Rightarrow> pyval \<Rightarrow> pyval \<Rightarrow> pyval \<Rightarrow> pyval \<Rightarrow> expr" where
  "validate_request read_json native_top_p raw evidence' config workload expected instrumented gpu_reference capacity_axis memory_budget_bytes output_tokens pressure_axis =
     reject (conjs [ret pressure_axis,
          disjs [ret capacity_axis,
               notin (get (ret config) ''memory_pressure_policy'')
                   (tuple_of [str ''observe'', str ''shrink''])]])
       ''Pressure and capacity are separate experiment axes'' (
     reject (disjs [nay (type_in (ret output_tokens) [TInt]),
          nay (conjs [le (num 2) (ret output_tokens), le (ret output_tokens) (num 8192)])])
       ''Invalid expected output length'' (
     reject (some (ret workload) (\<lambda>task. ne (get (ret task) ''max_tokens'') (ret output_tokens)))
       ''Workload differs from expected output length'' (
     reject (disjs [ne (get_or (ret raw) ''gpu_reference_mode'' (str ''off'')) (ret gpu_reference),
          conjs [eq (ret gpu_reference) (str ''off''), get (ret raw) ''gpu_references'']])
       ''Changed GPU reference instrumentation'' (
     reject (disjs [differs (get (ret raw) ''complete'') yes, ne (get (ret raw) ''workloads'') (ret workload),
          notin (size_of (ret workload)) (tuple_of [num 1, num 2]),
          ne (size_of (get_or (ret raw) ''runs'' (list_of []))) (size_of (ret workload)),
          ne (get (ret raw) ''model_revision'') (item (ret evidence') ''artifact_revision''),
          nay (call1 (fixed_sampling native_top_p) (get (ret raw) ''sampling''))])
       ''Missing complete identical normal workload'' (
     bnd (list_of []) (\<lambda>history.
     bnd (list_of []) (\<lambda>observations.
     bnd (item (item (index (item (ret raw) ''runs'') (num 0)) ''before'') ''memory_plan'') (\<lambda>plan.
     bnd (branch (ret capacity_axis)
         (bnd (each_dict (each_if (items_of (ret plan)) (\<lambda>tup1.
                 unpack2 tup1 (\<lambda>k v.
                   notin (ret k)
                     (tuple_of [str ''expert_slots'', str ''expert_bytes'', str ''planned_bytes'']))) (\<lambda>x.
                 ret x)) (\<lambda>tup2. unpack2 tup2 (\<lambda>k v. ret k)) (\<lambda>tup3. unpack2 tup3 (\<lambda>k v. ret v))) (\<lambda>fixed.
           bnd (setdefault (ret expected) (str ''fixed_memory_plan'') (ret fixed)) (\<lambda>expected.
           reject (ne (index (ret expected) (str ''fixed_memory_plan'')) (ret fixed))
             ''Changed fixed allocation'' (
           reject (disjs [ne (item (ret plan) ''expert_slots'') (item (ret config) ''expert_slots''),
                ne (item (ret plan) ''expert_bytes'')
                    (mul (item (ret config) ''expert_slots'') (num 2768896)),
                ne (item (ret plan) ''planned_bytes'')
                    (sum_of (each (tuple_of [str ''resident_bytes'', str ''session_bytes'', str ''scratch_bytes'',
                             str ''panel_scratch_bytes'', str ''ngram_bytes'',
                             str ''reserve_bytes'', str ''expert_bytes'',
                             str ''pipeline_scratch_bytes'', str ''snapshot_bytes'',
                             str ''runtime_control_bytes'']) (\<lambda>k. index (ret plan) (ret k))))])
             ''Invalid explicit expert capacity accounting'' (
           bnd (setdefault (ret expected) (add (str ''memory_plan_'') (item (ret config) ''name''))
               (ret plan)) (\<lambda>expected.
           reject (ne (index (ret expected)
                 (add (str ''memory_plan_'') (item (ret config) ''name''))) (ret plan))
             ''Capacity arm changed allocation'' (
           ret expected)))))))
         (bnd (setdefault (ret expected) (str ''memory_plan'') (ret plan)) (\<lambda>expected.
           reject (ne (index (ret expected) (str ''memory_plan'')) (ret plan))
             ''Unequal admitted memory allocation'' (
           ret expected)))) (\<lambda>expected.
     bnd (loop (numbered (zip_of (item (ret raw) ''runs'') (ret workload)) 0)
         (expected, observations, history) (\<lambda>(expected, observations, history) tup5.
       unpack2 tup5 (\<lambda>i tup6.
         unpack2 tup6 (\<lambda>row task.
           bnd (branch (ret i) (add (ret history) (item (ret task) ''tokens''))
               (item (ret task) ''tokens'')) (\<lambda>prompt.
           bnd (branch (ret i) (sub (size_of (ret history)) (num 1)) (num 0)) (\<lambda>reused.
           bnd (get (ret row) ''output_token_ids'') (\<lambda>outputs.
           reject (disjs [ne (get (ret row) ''name'') (item (ret task) ''name''),
                ne (get (ret row) ''repetition'') (num 0),
                differs (get (ret row) ''profiling_enabled'') (ret instrumented),
                ne (get_or (ret row) ''gpu_reference_mode'' (str ''off'')) (ret gpu_reference),
                ne (get (ret row) ''runtime_cache_state'')
                    (branch (ret i) (str ''retained'') (str ''empty_at_process_start'')),
                ne (get (ret row) ''prompt_tokens'') (size_of (ret prompt)),
                ne (get (ret row) ''reused_tokens'') (ret reused),
                ne (get (ret row) ''pending_tokens_ingested'') (int_of (gt (ret i) (num 0))),
                ne (get (ret row) ''prefill_tokens'') (sub (size_of (ret prompt)) (ret reused)),
                ne (get (ret row) ''finish_reason'') (str ''length''),
                ne (get (ret row) ''output_tokens'') (ret output_tokens),
                nay (isinstance (ret outputs) [TList]),
                ne (size_of (ret outputs)) (ret output_tokens),
                some (ret outputs) (\<lambda>t.
                    disjs [nay (type_in (ret t) [TInt]),
                       nay (conjs [le (num 0) (ret t), lt (ret t) (num 248320)])])])
             ''Changed output length, instrumentation, workload or actual session reuse'' (
           reject (conjs [nay (ret instrumented), isin (str ''decode_diagnostics'') (ret row)])
             ''Decode diagnostics cannot qualify normal timing'' (
           reject (ne (set_of (get_or (ret row) ''phases'' (dict_of [])))
               (set_disp [str ''ingest'', str ''decode''])) ''Missing phase measurements'' (
           bnd (setdefault (ret expected) (item (ret task) ''name'') (ret outputs)) (\<lambda>expected.
           reject (ne (index (ret expected) (item (ret task) ''name'')) (ret outputs))
             ''Policies produced different tokens'' (
           bnd (loop (list_extend (list_of [item (ret row) ''before'', item (ret row) ''after''])
                 (list_from (flatten (each (values_of (item (ret row) ''phases'')) (\<lambda>s.
                         each (tuple_of [str ''before'', str ''after'']) (\<lambda>k. index (ret s) (ret k)))))))
               () (\<lambda>unused state.
             bnd (check_machine state evidence' memory_budget_bytes) (\<lambda>unused.
             bnd (check_configuration read_json state config) (\<lambda>unused.
             bnd (branch (ret pressure_axis)
                 (bnd (call3 validate_pressure_state (ret state) (ret plan)
                       (item (ret config) ''memory_pressure_policy'')) (\<lambda>unused.
                   Inr ())) (Inr ())) (\<lambda>unused.
             reject (disjs [conjs [nay (ret pressure_axis),
                       disjs [ne (item (ret state) ''memory_plan'') (ret plan),
                            ne (item (item (ret state) ''phase_memory'') ''pressure_resizes'')
                                (num 0)]],
                  item (ret state) ''diagnostic_stream_trunk'',
                  nay (item (ret state) ''completion_pipeline''),
                  ne (item (item (ret state) ''expert_cache'') ''policy'')
                      (item (ret config) ''cache_policy'')])
               ''Changed schedule, memory or cache policy during request'' (
             Inr ())))))) (\<lambda>unused.
           bnd (each_dict (tuple_of [str ''request_ms'', str ''time_to_first_token_ms'', str ''decode_wall_ms'']) (\<lambda>k.
               ret k) (\<lambda>k. lookup (ret row) (ret k))) (\<lambda>timings.
           reject (some (values_of (ret timings)) (\<lambda>v.
               disjs [nay (type_in (ret v) [TInt, TFloat]), nay (isfinite (ret v)), le (ret v) (num 0)]))
             ''Missing positive finite request timing'' (
           bnd (get (ret row) ''token_latency_ms'') (\<lambda>latency.
           reject (disjs [nay (isinstance (ret latency) [TList]),
                ne (size_of (ret latency)) (sub (ret output_tokens) (num 1)),
                some (ret latency) (\<lambda>v.
                    disjs [nay (type_in (ret v) [TInt, TFloat]), nay (isfinite (ret v)),
                       le (ret v) (num 0)])]) ''Missing complete decode timings'' (
           bnd (list_of []) (\<lambda>phases.
           bnd (loop (items_of (item (ret row) ''phases'')) phases (\<lambda>phases tup4.
             unpack2 tup4 (\<lambda>phase states.
               bnd (item (ret states) ''before'') (\<lambda>a.
               bnd (item (ret states) ''after'') (\<lambda>b.
               bnd (append (ret phases)
                   (dict_of [(''phase'', ret phase),
                        (''expert_hits'', sub (item (item (ret b) ''expert_cache'') ''hits'')
                            (item (item (ret a) ''expert_cache'') ''hits'')),
                        (''expert_misses'', sub (item (item (ret b) ''expert_cache'') ''misses'')
                            (item (item (ret a) ''expert_cache'') ''misses'')),
                        (''expert_read_bytes'', sub (item (item (ret b) ''expert_cache'')
                              ''application_read_bytes'')
                            (item (item (ret a) ''expert_cache'') ''application_read_bytes''))])) (\<lambda>phases.
               ret phases)))))) (\<lambda>phases.
           bnd (append (ret observations)
               (merge (merge (dict_of [(''name'', item (ret task) ''name'')]) (ret timings))
                   (dict_of [(''tokens_per_second'', truediv (mul (sub (ret output_tokens) (num 1))
                              (num 1000)) (item (ret row) ''decode_wall_ms'')),
                        (''output_token_ids'', ret outputs), (''reused_tokens'', ret reused),
                        (''phases'', ret phases),
                        (''memory_before'', item (item (ret row) ''before'') ''process''),
                        (''memory_after'', item (item (ret row) ''after'') ''process'')]))) (\<lambda>observations.
           bnd (add (ret prompt) (ret outputs)) (\<lambda>history.
           Inr (expected, observations, history)))))))))))))))))))))) (\<lambda>(expected, observations, history).
     tuple_of [ret observations, ret expected]))))))))))"

definition decide :: "pyval \<Rightarrow> expr" where
  "decide measurements' =
     reject (ne (each (ret measurements') (\<lambda>m.
           tuple_of [item (ret m) ''pair'', item (ret m) ''policy''])) (list_from (ret CACHE_ORDER)))
       ''Requires two alternating pairs'' (
     reject (some (ret measurements') (\<lambda>m. ne (size_of (item (ret m) ''requests'')) (num 2)))
       ''Missing measured request'' (
     bnd (each_dict (ret measurements') (\<lambda>m.
         tuple_of [item (ret m) ''pair'', item (ret m) ''policy'']) (\<lambda>m. ret m)) (\<lambda>pairs.
     bnd (list_of []) (\<lambda>ratios.
     bnd (loop (range_to (num 2)) ratios (\<lambda>ratios request.
       bnd (loop (tuple_of [str ''request_ms'', str ''time_to_first_token_ms'', str ''decode_wall_ms''])
           ratios (\<lambda>ratios metric.
         bnd (list_of []) (\<lambda>values.
         bnd (loop (range_to (num 2)) values (\<lambda>values pair.
           bnd (each (ret CACHE_POLICIES) (\<lambda>p.
               index (index (item (index (ret pairs) (tuple_of [ret pair, ret p])) ''requests'')
                   (ret request)) (ret metric))) (\<lambda>tup1.
           unpack2 tup1 (\<lambda>a b.
           reject (some (tuple_of [ret a, ret b]) (\<lambda>v.
               disjs [nay (type_in (ret v) [TInt, TFloat]), nay (isfinite (ret v)), le (ret v) (num 0)]))
             ''Invalid timings'' (
           bnd (append (ret values) (truediv (ret b) (ret a))) (\<lambda>values.
           ret values)))))) (\<lambda>values.
         bnd (append (ret ratios)
             (dict_of [(''request'', ret request), (''metric'', ret metric), (''ratios'', ret values),
                  (''median'', median (ret values))])) (\<lambda>ratios.
         ret ratios))))) (\<lambda>ratios.
       ret ratios))) (\<lambda>ratios.
     bnd (each (range_to (num 2)) (\<lambda>i.
         truediv (sum_of (each (item (index (ret pairs) (tuple_of [ret i, str ''slru'']))
                 ''requests'') (\<lambda>r. item (ret r) ''request_ms'')))
           (sum_of (each (item (index (ret pairs) (tuple_of [ret i, str ''clock''])) ''requests'') (\<lambda>r.
                 item (ret r) ''request_ms''))))) (\<lambda>totals.
     bnd (conjs [every (ret totals) (\<lambda>r. lt (ret r) (num 1)), le (median (ret totals)) (flt (99 / 100)),
          every (ret ratios) (\<lambda>r. le (item (ret r) ''median'') (flt (103 / 100)))]) (\<lambda>promising.
     dict_of [(''status'', branch (ret promising) (str ''promising'')
            (str ''improvement_not_demonstrated'')),
        (''conversation_ratios'', ret totals), (''median_conversation_ratio'', median (ret totals)),
        (''ratios'', ret ratios), (''confidence_95'', none),
        (''advance_to_five_pairs'', ret promising), (''normal_request_latency_qualified'', no),
        (''production_promoted'', no)])))))))"

definition PROBE :: pyval where
  "PROBE = PStr ''resident-q8-v1''"

definition finite :: "pyval \<Rightarrow> pyval \<Rightarrow> expr" where
  "finite value positive =
     conjs [type_in (ret value) [TInt, TFloat], isfinite (ret value),
        branch (ret positive) (gt (ret value) (num 0)) (ge (ret value) (num 0))]"

definition validate_probe :: "pyval \<Rightarrow> expr" where
  "validate_probe probe =
     reject (disjs [ne (get (ret probe) ''mode'') (ret PROBE),
          ne (get (ret probe) ''kernel'') (str ''q8_mm''),
          ne (tuple_of [get (ret probe) ''input'', get (ret probe) ''output'', get (ret probe) ''group''])
              (tuple_of [num 2560, num 6144, num 64]),
          ne (get (ret probe) ''temporary_bytes'') (num 49152),
          ne (get (ret probe) ''live_bytes_before'') (get (ret probe) ''live_bytes_after''),
          nay (call2 finite (get (ret probe) ''live_bytes_before'') no),
          ne (get (ret probe) ''live_command_groups'') (num 0),
          differs (get (ret probe) ''cache_unchanged'') yes])
       ''GPU reference identity, allocation or cleanup changed'' (
     bnd (get_or (ret probe) ''samples'' (list_of [])) (\<lambda>samples.
     reject (ne (size_of (ret samples)) (num 4)) ''Missing GPU reference samples'' (
     bnd (Inr (PSet [])) (\<lambda>hashes.
     bnd (list_of []) (\<lambda>warm.
     bnd (loop (numbered (ret samples) 0) (hashes, warm) (\<lambda>(hashes, warm) tup1.
       unpack2 tup1 (\<lambda>i sample.
         reject (disjs [ne (get (ret sample) ''sample'') (ret i),
              ne (get (ret sample) ''dispatches'') (branch (ret i) (num 8) (num 1))])
           ''GPU reference sample order changed'' (
         reject (disjs [nay (call2 finite (get (ret sample) ''wall_ns'') yes),
              nay (call2 finite (get (ret sample) ''submitted_ns'') yes),
              nay (call2 finite (get (ret sample) ''completed_ns'') yes),
              lt (item (ret sample) ''completed_ns'') (item (ret sample) ''submitted_ns'')])
           ''Invalid CPU reference timestamps'' (
         bnd (get (ret sample) ''output_sha256'') (\<lambda>checksum.
         reject (disjs [nay (isinstance (ret checksum) [TStr]), ne (size_of (ret checksum)) (num 64),
              some (ret checksum) (\<lambda>c. notin (ret c) (str ''0123456789abcdef''))])
           ''Missing GPU reference checksum'' (
         bnd (set_add (ret hashes) (ret checksum)) (\<lambda>hashes.
         bnd (get (ret sample) ''gpu_start_seconds'') (\<lambda>start.
         bnd (get (ret sample) ''gpu_end_seconds'') (\<lambda>end.
         bnd (conjs [call2 finite (ret start) yes, call2 finite (ret end) yes, gt (ret end) (ret start)]) (\<lambda>valid.
         bnd (get (ret sample) ''gpu_ns'') (\<lambda>duration.
         bnd (get (ret sample) ''submission_delay_ns'') (\<lambda>delay.
         bnd (branch (ret valid)
             (reject (disjs [nay (call2 finite (ret duration) yes),
                    nay (isclose (ret duration) (mul (sub (ret end) (ret start)) (flt 1000000000))
                          (1 / 10000000000) 1)]) ''GPU duration differs from timestamps'' (
               bnd (branch (ret i)
                   (bnd (append (ret warm) (truediv (ret duration) (num 8))) (\<lambda>warm.
                     ret warm)) (ret warm)) (\<lambda>warm.
               ret warm)))
             (reject (differs (ret duration) none)
                 ''Unavailable GPU timing represented as a duration'' (
               ret warm))) (\<lambda>warm.
         bnd (conjs [ret valid,
              ge (ret start) (truediv (item (ret sample) ''submitted_ns'') (flt 1000000000)),
              le (ret end) (truediv (item (ret sample) ''completed_ns'') (flt 1000000000))]) (\<lambda>ordered.
         bnd (branch (ret ordered)
             (reject (disjs [nay (call2 finite (ret delay) no),
                    nay (isclose (ret delay)
                          (mul (sub (ret start)
                                (truediv (item (ret sample) ''submitted_ns'') (flt 1000000000)))
                              (flt 1000000000)) (1 / 1000000000) 1)])
                 ''Submission delay differs from timestamps'' (
               Inr ()))
             (reject (differs (ret delay) none)
                 ''Invalid GPU timestamps have a derived submission delay'' (
               Inr ()))) (\<lambda>unused.
         bnd (loop (tuple_of [str ''memory_before'', str ''memory_after'']) () (\<lambda>unused key.
           reject (nay (isinstance (lookup (ret sample) (ret key)) [TDict]))
             ''Missing per-probe memory observation'' (
           Inr ()))) (\<lambda>unused.
         Inr (hashes, warm)))))))))))))))))) (\<lambda>(hashes, warm).
     reject (ne (size_of (ret hashes)) (num 1)) ''GPU reference changed output'' (
     bnd (branch (eq (size_of (ret warm)) (num 3)) (median (ret warm)) none) (\<lambda>median'.
     reject (ne (get (ret probe) ''warm_gpu_ns_per_dispatch'') (ret median'))
       ''Changed warm reference median'' (
     bnd (loop (tuple_of [str ''host_before'', str ''host_after'']) () (\<lambda>unused name.
       bnd (lookup (ret probe) (ret name)) (\<lambda>host.
       reject (disjs [nay (isinstance (ret host) [TDict]), nay (get (ret host) ''source''),
            nay (get (ret host) ''limitation'')])
         ''Missing host-condition availability information'' (
       Inr ())))) (\<lambda>unused.
     ret median'))))))))))"

definition observations :: "(pyval \<Rightarrow> expr) \<Rightarrow> pyval \<Rightarrow> pyval \<Rightarrow> pyval \<Rightarrow> pyval \<Rightarrow> pyval \<Rightarrow> pyval \<Rightarrow> pyval \<Rightarrow> expr" where
  "observations read_json native_top_p raw evidence' config workload expected mode =
     bnd (get (ret raw) ''gpu_references'') (\<lambda>refs.
     reject (ne (get (ret raw) ''gpu_reference_mode'') (ret mode))
       ''Missing explicit reference protocol'' (
     bnd (branch (eq (ret mode) (ret PROBE))
         (reject (disjs [nay (isinstance (ret refs) [TList]),
                ne (each (ret refs) (\<lambda>r.
                      tuple_of [get (ret r) ''repetition'', get (ret r) ''boundary'']))
                    (list_of [tuple_of [num 0, str ''before''], tuple_of [num 0, str ''after'']])])
             ''Missing or misplaced conversation boundary probes'' (
           bnd (loop (ret refs) () (\<lambda>unused ref.
             bnd (validate_probe ref) (\<lambda>unused.
             reject (ne (item (ret ref) ''memory_plan'')
                 (item (item (index (item (ret raw) ''runs'') (num 0)) ''before'') ''memory_plan''))
               ''Probe changed admitted memory plan'' (
             Inr ())))) (\<lambda>unused.
           reject (ne (item (index (item (index (ret refs) (num 0)) ''samples'') (num 0))
                 ''output_sha256'')
               (item (index (item (index (ret refs) (num 1)) ''samples'') (num 0)) ''output_sha256''))
             ''Conversation changed reference output'' (
           Inr ()))))
         (reject (disjs [ne (ret mode) (str ''off''), ne (ret refs) (list_of [])])
             ''Unexpected GPU reference protocol'' (
           Inr ()))) (\<lambda>unused.
     bnd (loop (get_or (ret raw) ''runs'' (list_of [])) () (\<lambda>unused row.
       reject (isin (str ''decode_diagnostics'') (ret row)) ''Additional decode instrumentation'' (
       bnd (loop (tuple_from (list_extend (list_of [item (ret row) ''before'', item (ret row) ''after''])
               (list_from (flatten (each (values_of (item (ret row) ''phases'')) (\<lambda>v.
                       each (tuple_of [str ''before'', str ''after'']) (\<lambda>k. index (ret v) (ret k))))))))
           () (\<lambda>unused state.
         reject (disjs [get (item (item (ret state) ''metal'') ''kernels'') ''profile'',
              get (item (item (ret state) ''metal'') ''kernels'') ''counter_profile''])
           ''Additional GPU profiling'' (
         reject (ne (get (ret state) ''short_append_tokens'') (num 32))
           ''Changed short-append threshold'' (
         Inr ())))) (\<lambda>unused.
       Inr ())))) (\<lambda>unused.
     bnd (validate_request read_json native_top_p raw evidence' config workload expected
         (PBool False) mode (PBool True) (PInt (12 * 1024 ^ 3)) (PInt 33) (PBool False)) (\<lambda>tup1.
     unpack2 tup1 (\<lambda>result expected.
     tuple_of [ret result, ret expected]))))))"

definition RESIDENCY_SLOT_BYTES :: pyval where
  "RESIDENCY_SLOT_BYTES = PInt 2768896"

definition curve_difference :: "pyval \<Rightarrow> expr" where
  "curve_difference curve =
     check (conjs [eq (get (ret curve) ''status'') (str ''simulated''),
          same (get (item (ret curve) ''coverage'') ''whole_request_covered'') yes,
          eq (get (item (ret curve) ''coverage'') ''cold_starts'') (num 1)])
       ''Requires a complete unfiltered conversation with a single cold start'' (
     check (eq (each (item (ret curve) ''curves'') (\<lambda>c. item (ret c) ''slots''))
         (list_from (ret RESIDENCY_SLOTS))) ''Wrong slot capacities'' (
     bnd (list_of []) (\<lambda>phases.
     bnd (each (item (ret curve) ''curves'') (\<lambda>c.
         next_of (item (ret c) ''policies'') (\<lambda>p. eq (item (ret p) ''policy'') (str ''clock'')) (\<lambda>p.
           ret p))) (\<lambda>tup1.
     unpack2 tup1 (\<lambda>small large.
     check (eq (size_of (item (ret small) ''request_phases''))
         (size_of (item (ret large) ''request_phases''))) ''Different phase coverage'' (
     bnd (loop (zip_of (item (ret small) ''request_phases'') (item (ret large) ''request_phases''))
         phases (\<lambda>phases tup2.
       unpack2 tup2 (\<lambda>a b.
         check (every (tuple_of [str ''request_id'', str ''phase'', str ''demands'']) (\<lambda>k.
             eq (index (ret a) (ret k)) (index (ret b) (ret k)))) ''Different demands'' (
         bnd (append (ret phases)
             (dict_of [(''request_id'', item (ret a) ''request_id''),
                  (''phase'', item (ret a) ''phase''), (''demands'', item (ret a) ''demands''),
                  (''control_misses'', item (ret a) ''misses''),
                  (''candidate_misses'', item (ret b) ''misses''),
                  (''fewer_read_fraction'', branch (item (ret a) ''misses'')
                      (sub (num 1) (truediv (item (ret b) ''misses'') (item (ret a) ''misses'')))
                      none),
                  (''avoided_application_bytes'', sub (item (ret a) ''application_miss_bytes'')
                      (item (ret b) ''application_miss_bytes''))])) (\<lambda>phases.
         ret phases))))) (\<lambda>phases.
     dict_of [(''added_slot_bytes'', mul (sub (index (ret RESIDENCY_SLOTS) (num 1))
              (index (ret RESIDENCY_SLOTS) (num 0))) (ret RESIDENCY_SLOT_BYTES)),
        (''phases'', ret phases), (''predicted_latency_saving_ms'', none),
        (''predicted_tokens_per_second'', none)])))))))"

definition observe_residency :: "(pyval \<Rightarrow> expr) \<Rightarrow> pyval \<Rightarrow> pyval \<Rightarrow> pyval \<Rightarrow> pyval \<Rightarrow> pyval \<Rightarrow> pyval \<Rightarrow> expr" where
  "observe_residency read_json native_top_p raw frozen config work expected =
     bnd (validate_request read_json native_top_p raw frozen config work expected (PBool False)
         (PStr ''off'') (PBool True) (PInt (12 * 1024 ^ 3)) (PInt 33) (PBool False)) (\<lambda>tup1.
     unpack2 tup1 (\<lambda>result expected.
     bnd (loop (item (ret raw) ''runs'') expected (\<lambda>expected row.
       bnd (loop (values_of (item (ret row) ''phases'')) () (\<lambda>unused phase.
         bnd (loop (tuple_of [str ''before'', str ''after'']) () (\<lambda>unused key.
           bnd (index (ret phase) (ret key)) (\<lambda>state.
           check (eq (item (item (ret state) ''memory_pressure'') ''policy'') (str ''observe''))
             ''Changed pressure policy'' (
           check (conjs [eq (item (item (ret state) ''metal'') ''live_command_groups'') (num 0),
                le (item (item (ret state) ''metal'') ''peak_command_groups'') (num 2)])
             ''Live or unbounded GPU users'' (
           bnd (item (item (ret state) ''metal'') ''residency'') (\<lambda>residency.
           check (conjs [eq (item (ret residency) ''mode'') (str ''core-cache''),
                eq (item (ret residency) ''pending_retirements'') (num 0)])
             ''Missing residency or pending retirements'' (
           Inr ()))))))) (\<lambda>unused.
         Inr ()))) (\<lambda>unused.
       bnd (item (ret row) ''after'') (\<lambda>final.
       check (eq (get (item (item (item (ret final) ''metal'') ''residency'') ''bytes_by_class'')
             ''expert'') (item (item (ret final) ''memory_plan'') ''expert_bytes''))
         ''Expert cache is not fully enrolled'' (
       bnd (each (tuple_of [str ''before'', str ''after'']) (\<lambda>k.
           item (index (item (item (ret row) ''phases'') ''decode'') (ret k)) ''metal'')) (\<lambda>tup2.
       unpack2 tup2 (\<lambda>a b.
       bnd (each_dict (item (ret b) ''kernel_dispatches'') (\<lambda>k. ret k) (\<lambda>k.
           sub (lookup_or (item (ret b) ''kernel_dispatches'') (ret k) (num 0))
             (lookup_or (item (ret a) ''kernel_dispatches'') (ret k) (num 0)))) (\<lambda>counts.
       bnd (setdefault (ret expected) (add (str ''dispatches_'') (item (ret row) ''name''))
           (ret counts)) (\<lambda>expected.
       check (eq (index (ret expected) (add (str ''dispatches_'') (item (ret row) ''name'')))
           (ret counts)) ''Arithmetic dispatch counts changed'' (
       ret expected)))))))))) (\<lambda>expected.
     tuple_of [ret result, ret expected])))"

definition ORDER :: pyval where
  "ORDER =
     PList [PTuple [PInt 0, PStr ''A''], PTuple [PInt 0, PStr ''B''], PTuple [PInt 0, PStr ''C''],
        PTuple [PInt 0, PStr ''D''], PTuple [PInt 1, PStr ''D''], PTuple [PInt 1, PStr ''C''],
        PTuple [PInt 1, PStr ''B''], PTuple [PInt 1, PStr ''A'']]"

definition CRITERIA :: pyval where
  "CRITERIA =
     PDict [(''pairs'', PInt 2), (''minimum_decode_saving_ms'', PInt 20),
        (''median_conversation_ratio_max'', PFloat (round_fl (99 / 100))),
        (''each_conversation_ratio_below'', PInt 1),
        (''secondary_ratio_max'', PFloat (round_fl (103 / 100))),
        (''kernel_decode_improves_at_both_capacities'', PBool True),
        (''process_seconds'', PInt 150), (''stage_seconds'', PInt 900)]"

definition cases :: "expr" where
  "cases =
     each (tuple_of [str ''reference'', str ''packed-r2'']) (\<lambda>q4.
       merge (dict_from (call1 correctness_case (str ''clock'')))
         (dict_of [(''kernel_policy'', str ''candidate''), (''q8_decode_rows'', num 2),
              (''route_selection'', str ''simd''), (''decode_scratch'', str ''reuse''),
              (''decode_submission'', str ''immediate''), (''residency'', str ''core-cache''),
              (''q4_decode'', ret q4), (''exercise_decode'', yes)]))"

definition validate_operators :: "pyval \<Rightarrow> pyval \<Rightarrow> pyval \<Rightarrow> expr" where
  "validate_operators raw frozen records =
     check (conjs [same (get (ret raw) ''complete'') yes, same (get (ret raw) ''validation'') yes,
          eq (get (ret raw) ''kind'') (str ''native_q4_exact_check_v1'')])
       ''Missing native operator validation'' (
     bnd (item (ret raw) ''metal'') (\<lambda>m.
     check (conjs [eq (item (ret m) ''build_fingerprint'') (item (ret frozen) ''build''),
          eq (item (ret m) ''device'') (item (ret frozen) ''device''),
          eq (item (ret m) ''live_command_groups'') (num 0),
          le (item (ret m) ''peak_buffer_bytes'') (num (128 * 1024 ^ 2))])
       ''Operator build/device/buffer bounds differ'' (
     bnd (set_of (flatten (each (ret records) (\<lambda>r.
             each (range_to (num 8)) (\<lambda>i.
               tuple_of [item (ret r) ''layer'', item (ret r) ''expert'', ret i]))))) (\<lambda>expected.
     bnd (item (ret raw) ''cases'') (\<lambda>rows.
     check (conjs [eq (size_of (ret rows)) (num 64),
          eq (set_of (each (ret rows) (\<lambda>r.
                  tuple_of [item (ret r) ''layer'', item (ret r) ''expert'', item (ret r) ''row''])))
              (ret expected)]) ''Incomplete or duplicate native operator coverage'' (
     check (every (ret rows) (\<lambda>r.
         every (tuple_of [str ''exact_gate'', str ''exact_bf16_down'', str ''exact_fp32_down'',
              str ''destination_preserved'']) (\<lambda>k. same (index (ret r) (ret k)) yes)))
       ''Operator mismatch'' (
     bnd (item (ret raw) ''fixture'') (\<lambda>fixture.
     check (conjs [eq (item (ret fixture) ''artifact_revision'') (item (ret frozen) ''artifact_revision''),
          eq (item (ret fixture) ''origin'') (str ''existing-Q4-experts'')])
       ''Wrong operator artifact'' (
     check (eq (flatten (each (items_of (item (ret fixture) ''layers'')) (\<lambda>tup1.
             unpack2 tup1 (\<lambda>layer item'.
               each (item (ret item') ''experts'') (\<lambda>e.
                 dict_of [(''layer'', int_of (ret layer)), (''expert'', item (ret e) ''expert''),
                    (''sha256'', item (item (ret e) ''record'') ''sha256'')]))))) (ret records))
       ''Operator records differ from verified prepared bytes'' (
     check (conjs [eq (lookup (item (ret m) ''kernel_dispatches'') (index (ret PACKED) (num 0))) (num 64),
          eq (lookup (item (ret m) ''kernel_dispatches'') (index (ret PACKED) (num 1))) (num 128)])
       ''Candidate was not executed'' (
     dict_of [(''exact'', yes), (''real_expert_input_cases'', num 64), (''native_dispatch'', yes),
        (''bf16_and_fp32_outputs'', yes), (''nonzero_destination_offsets'', yes)])))))))))))"

definition observe_combined :: "(pyval \<Rightarrow> expr) \<Rightarrow> pyval \<Rightarrow> pyval \<Rightarrow> pyval \<Rightarrow> pyval \<Rightarrow> pyval \<Rightarrow> pyval \<Rightarrow> expr" where
  "observe_combined read_json native_top_p raw frozen config work expected =
     bnd (validate_request read_json native_top_p raw frozen config work expected (PBool False)
         (PStr ''off'') (PBool True) (PInt (12 * 1024 ^ 3)) (PInt 33) (PBool False)) (\<lambda>tup1.
     unpack2 tup1 (\<lambda>observations expected.
     bnd (loop (item (ret raw) ''runs'') expected (\<lambda>expected row.
       bnd (loop (list_extend (list_of [item (ret row) ''before'', item (ret row) ''after''])
             (list_from (flatten (each (values_of (item (ret row) ''phases'')) (\<lambda>p.
                     each (tuple_of [str ''before'', str ''after'']) (\<lambda>k. index (ret p) (ret k)))))))
           () (\<lambda>unused state.
         bnd (item (ret state) ''metal'') (\<lambda>m.
         bnd (item (ret m) ''residency'') (\<lambda>residency.
         check (conjs [eq (item (ret m) ''live_command_groups'') (num 0),
              le (item (ret m) ''peak_command_groups'') (num 2),
              eq (item (ret residency) ''mode'') (str ''core-cache''),
              eq (item (ret residency) ''pending_retirements'') (num 0)])
           ''Unbounded users or missing core-cache residency'' (
         Inr ()))))) (\<lambda>unused.
       bnd (item (ret row) ''after'') (\<lambda>final.
       check (eq (get (item (item (item (ret final) ''metal'') ''residency'') ''bytes_by_class'')
             ''expert'') (item (item (ret final) ''memory_plan'') ''expert_bytes''))
         ''Cache not fully enrolled'' (
       bnd (each (tuple_of [str ''before'', str ''after'']) (\<lambda>k.
           item (item (index (item (item (ret row) ''phases'') ''decode'') (ret k)) ''metal'')
             ''kernel_dispatches'')) (\<lambda>tup2.
       unpack2 tup2 (\<lambda>a b.
       bnd (each_dict (union_of (set_of (ret a)) (set_of (ret b))) (\<lambda>k. ret k) (\<lambda>k.
           sub (lookup_or (ret b) (ret k) (num 0)) (lookup_or (ret a) (ret k) (num 0)))) (\<lambda>delta.
       check (every (values_of (ret delta)) (\<lambda>v. ge (ret v) (num 0))) ''Dispatch counter reset'' (
       bnd (loop (zip_of (ret PACKED) (tuple_of [str ''q4_gate_up'', str ''q4_mm''])) delta (\<lambda>delta tup3.
         unpack2 tup3 (\<lambda>name ref.
           bnd (lookup_or (ret delta) (ret name) (num 0)) (\<lambda>value.
           bnd (without_key (ret delta) (ret name)) (\<lambda>delta.
           check (eq (ret value)
               (branch (eq (item (ret config) ''q4_decode'') (str ''packed-r2'')) (num (32 * 480))
                   (num 0))) ''Q4 candidate did not execute the requested complete decode work'' (
           bnd (put (ret delta) (ret ref)
               (add (lookup_or (ret delta) (ret ref) (num 0)) (ret value))) (\<lambda>delta.
           ret delta))))))) (\<lambda>delta.
       bnd (each_dict (each_if (items_of (ret delta)) (\<lambda>tup4. unpack2 tup4 (\<lambda>k v. ret v)) (\<lambda>x.
             ret x)) (\<lambda>tup5. unpack2 tup5 (\<lambda>k v. ret k)) (\<lambda>tup6. unpack2 tup6 (\<lambda>k v. ret v))) (\<lambda>normalized.
       bnd (setdefault (ret expected) (add (str ''dispatches_'') (item (ret row) ''name''))
           (ret normalized)) (\<lambda>expected.
       check (eq (index (ret expected) (add (str ''dispatches_'') (item (ret row) ''name'')))
           (ret normalized)) ''Dispatches changed beyond the intended Q4 substitution'' (
       ret expected))))))))))))) (\<lambda>expected.
     tuple_of [ret observations, ret expected])))"

definition decide_combined :: "pyval \<Rightarrow> expr" where
  "decide_combined rows =
     check (eq (each (ret rows) (\<lambda>r.
           tuple_of [item (ret r) ''pair'', item (ret r) ''configuration''])) (ret ORDER))
       ''Missing or reordered factorial measurements'' (
     bnd (each_dict (ret rows) (\<lambda>r.
         tuple_of [item (ret r) ''pair'', item (ret r) ''configuration'']) (\<lambda>r. ret r)) (\<lambda>by.
     check (every (ret rows) (\<lambda>r. eq (size_of (item (ret r) ''requests'')) (num 2)))
       ''Missing conversation phase'' (
     bnd (loop (ret rows) () (\<lambda>unused row.
       bnd (loop (item (ret row) ''requests'') () (\<lambda>unused r.
         check (every (tuple_of [str ''request_ms'', str ''time_to_first_token_ms'', str ''decode_wall_ms'']) (\<lambda>k.
             conjs [type_in (index (ret r) (ret k)) [TInt, TFloat], isfinite (index (ret r) (ret k)),
                gt (index (ret r) (ret k)) (num 0)])) ''Invalid timing'' (
         Inr ()))) (\<lambda>unused.
       Inr ()))) (\<lambda>unused.
     bnd (dict_of []) (\<lambda>contrasts.
     bnd (loop (list_of [tuple_of [str ''B'', str ''A''], tuple_of [str ''D'', str ''C''],
            tuple_of [str ''C'', str ''A''], tuple_of [str ''D'', str ''B''],
            tuple_of [str ''D'', str ''A'']]) contrasts (\<lambda>contrasts tup1.
       unpack2 tup1 (\<lambda>numerator denominator.
         bnd (add (add (ret numerator) (str ''/'')) (ret denominator)) (\<lambda>name.
         bnd (list_of []) (\<lambda>phases.
         bnd (each (range_to (num 2)) (\<lambda>p.
             truediv (sum_of (each (item (index (ret by) (tuple_of [ret p, ret numerator]))
                     ''requests'') (\<lambda>r. item (ret r) ''request_ms'')))
               (sum_of (each (item (index (ret by) (tuple_of [ret p, ret denominator])) ''requests'') (\<lambda>r.
                     item (ret r) ''request_ms''))))) (\<lambda>totals.
         bnd (loop (range_to (num 2)) phases (\<lambda>phases phase.
           bnd (dict_of []) (\<lambda>metrics.
           bnd (loop (tuple_of [str ''request_ms'', str ''time_to_first_token_ms'', str ''decode_wall_ms''])
               metrics (\<lambda>metrics key.
             bnd (each (range_to (num 2)) (\<lambda>p.
                 truediv (index (index (item (index (ret by) (tuple_of [ret p, ret numerator]))
                         ''requests'') (ret phase)) (ret key))
                   (index (index (item (index (ret by) (tuple_of [ret p, ret denominator]))
                           ''requests'') (ret phase)) (ret key)))) (\<lambda>ratios.
             bnd (put (ret metrics) (ret key)
                 (dict_of [(''ratios'', ret ratios), (''median'', median (ret ratios))])) (\<lambda>metrics.
             ret metrics)))) (\<lambda>metrics.
           bnd (each (range_to (num 2)) (\<lambda>p.
               truediv (sub (item (index (item (index (ret by) (tuple_of [ret p, ret denominator]))
                         ''requests'') (ret phase)) ''decode_wall_ms'')
                   (item (index (item (index (ret by) (tuple_of [ret p, ret numerator]))
                           ''requests'') (ret phase)) ''decode_wall_ms'')) (num 32))) (\<lambda>savings.
           bnd (append (ret phases)
               (dict_of [(''phase'', ret phase), (''metrics'', ret metrics),
                    (''decode_savings_ms_per_token'', ret savings),
                    (''median_decode_saving_ms'', median (ret savings))])) (\<lambda>phases.
           ret phases)))))) (\<lambda>phases.
         bnd (put (ret contrasts) (ret name)
             (dict_of [(''phases'', ret phases), (''conversation_ratios'', ret totals),
                  (''median_conversation_ratio'', median (ret totals))])) (\<lambda>contrasts.
         ret contrasts)))))))) (\<lambda>contrasts.
     bnd (item (ret contrasts) ''D/A'') (\<lambda>primary.
     bnd (every (ret rows) (\<lambda>r. same (get (ret r) ''memory_screen_passed'') yes)) (\<lambda>clean.
     bnd (every (item (ret primary) ''phases'') (\<lambda>p.
         ge (item (ret p) ''median_decode_saving_ms'')
           (item (ret CRITERIA) ''minimum_decode_saving_ms''))) (\<lambda>material.
     bnd (conjs [every (item (ret primary) ''conversation_ratios'') (\<lambda>r. lt (ret r) (num 1)),
          le (item (ret primary) ''median_conversation_ratio'') (flt (99 / 100))]) (\<lambda>request_gain.
     bnd (every (item (ret primary) ''phases'') (\<lambda>p.
         every (values_of (item (ret p) ''metrics'')) (\<lambda>m.
           le (item (ret m) ''median'') (flt (103 / 100))))) (\<lambda>secondary.
     bnd (every (tuple_of [str ''B/A'', str ''D/C'']) (\<lambda>name.
         every (item (index (ret contrasts) (ret name)) ''phases'') (\<lambda>p.
           lt (item (item (item (ret p) ''metrics'') ''decode_wall_ms'') ''median'') (num 1)))) (\<lambda>kernel.
     bnd (conjs [ret clean, ret material, ret request_gain, ret secondary, ret kernel]) (\<lambda>passed.
     dict_of [(''status'', branch (nay (ret clean)) (str ''memory_disturbed'')
            (branch (ret passed) (str ''promising'') (str ''screen_gate_not_met''))),
        (''advance_to_confirmation'', ret passed), (''stage_target_met'', ret passed),
        (''contrasts'', ret contrasts),
        (''gates'', dict_of [(''clean_memory'', ret clean), (''material_decode_gain'', ret material),
             (''conversation_gain'', ret request_gain), (''secondary_latencies'', ret secondary),
             (''kernel_gain_at_both_capacities'', ret kernel)]),
        (''confidence_95'', none), (''prior_pairs_pooled'', no),
        (''normal_request_latency_qualified'', no), (''production_promoted'', no)])))))))))))))"

definition state_cases :: "expr" where
  "state_cases =
     each scratch_configs (\<lambda>c.
       merge (dict_from (call1 correctness_case (str ''clock'')))
         (dict_of [(''kernel_policy'', str ''candidate''), (''q8_decode_rows'', num 2),
              (''route_selection'', str ''simd''), (''expert_tail'', str ''wait''),
              (''decode_scratch'', item (ret c) ''decode_scratch'')]))"

definition check_state_workspace :: "pyval \<Rightarrow> pyval \<Rightarrow> pyval \<Rightarrow> expr" where
  "check_state_workspace state case' stage =
     reject (notin (ret stage) (tuple_of [str ''continued_statistics'', str ''after_fresh'']))
       ''Unknown state checkpoint'' (
     reject (ne (get (item (ret state) ''metal'') ''active_scratch_slot'') (num (- 1)))
       ''Scratch scope still active'' (
     bnd (item (item (ret state) ''metal'') ''scratch_pools'') (\<lambda>pools.
     bnd (each (ret pools) (\<lambda>p. get (ret p) ''allocated_bytes'')) (\<lambda>sizes.
     reject (disjs [ne (size_of (ret sizes)) (num 2),
          some (ret sizes) (\<lambda>n. disjs [nay (type_in (ret n) [TInt]), lt (ret n) (num 0)]),
          ne (index (ret sizes) (num 1)) (num 0),
          gt (index (ret sizes) (num 0)) (num (128 * 1024 ^ 2))]) ''Unbounded state workspace'' (
     bnd (disjs [item (item (ret state) ''memory_plan'') ''panel_tokens'',
          item (ret state) ''chunk_tokens'']) (\<lambda>limit.
     reject (disjs [nay (type_in (ret limit) [TInt]), le (ret limit) (num 0)])
       ''Invalid state input limit'' (
     bnd (sum_of (each (tuple_of [str ''prefix'', str ''append'', str ''continuation'']) (\<lambda>k.
           size_of (index (ret case') (ret k))))) (\<lambda>total'.
     reject (nay (ret total')) ''Missing state replay history'' (
     bnd (branch (eq (ret stage) (str ''continued_statistics'')) (num 1)
         (add (modulo (sub (ret total') (num 1)) (ret limit)) (num 1))) (\<lambda>last'.
     bnd (conjs [eq (item (ret case') ''decode_scratch'') (str ''reuse''), eq (ret last') (num 1)]) (\<lambda>retained.
     reject (ne (bool_of (index (ret sizes) (num 0))) (ret retained))
       ''Workspace does not match the last replay chunk'' (
     none))))))))))))"

definition correctness :: "(pyval \<Rightarrow> expr) \<Rightarrow> pyval \<Rightarrow> pyval \<Rightarrow> expr" where
  "correctness read_json reports evidence' =
     reject (ne (size_of (ret reports)) (num 2)) ''Missing correctness arm'' (
     bnd (loop (zip_of (ret reports) state_cases) () (\<lambda>unused tup1.
       unpack2 tup1 (\<lambda>raw case'.
         bnd (branch (eq (item (ret case') ''decode_scratch'') (str ''reuse''))
             (union_of (ret CHECKS) (ret SCRATCH_CHECKS)) (ret CHECKS)) (\<lambda>checks.
         reject (disjs [ne (get (ret raw) ''case'') (ret case'), differs (get (ret raw) ''passed'') yes,
              ne (get (ret raw) ''layers'') (num 48), differs (get (ret raw) ''full_model'') yes,
              ne (size_of (get_or (ret raw) ''runs'' (list_of []))) (num 1),
              ne (set_of (each (get_or (ret raw) ''checks'' (list_of [])) (\<lambda>c.
                      item (ret c) ''name''))) (ret checks),
              ne (size_of (item (ret raw) ''checks'')) (size_of (ret checks)),
              some (item (ret raw) ''checks'') (\<lambda>c. differs (item (ret c) ''passed'') yes)])
           ''Incomplete state/failure checks'' (
         bnd (get_or (index (item (ret raw) ''runs'') (num 0)) ''stages'' (list_of [])) (\<lambda>stages.
         reject (disjs [ne (size_of (ret stages)) (num 3),
              some (ret stages) (\<lambda>s.
                  disjs [ne (size_of (get_or (ret s) ''layers'' (list_of []))) (num 48),
                     ne (size_of (get_or (ret s) ''routes'' (list_of []))) (num 48)])])
           ''Incomplete all-layer logits/routes/state snapshots'' (
         bnd (loop (tuple_of [str ''continued_statistics'', str ''after_fresh'']) () (\<lambda>unused key.
           bnd (index (index (item (ret raw) ''runs'') (num 0)) (ret key)) (\<lambda>state.
           bnd (call3 check_machine (ret state) (ret evidence') (mul (num 12) (ret GiB))) (\<lambda>unused.
           bnd (check_configuration read_json state case') (\<lambda>unused.
           reject (disjs [ne (item (item (ret state) ''memory_plan'') ''expert_slots'') (num 32),
                le (item (item (ret state) ''expert_cache'') ''evictions'') (num 0),
                differs (get (ret state) ''expert_tail_pending'') no,
                ne (item (item (ret state) ''metal'') ''live_command_groups'') (num 0),
                differs (get (ret state) ''diagnostic_stream_trunk'') no])
             ''Missing forced eviction or drain'' (
           reject (ne (gt (item (ret state) ''decode_scratch_passes'') (num 0))
               (eq (item (ret case') ''decode_scratch'') (str ''reuse'')))
             ''Missing scratch execution'' (
           reject (ne (item (item (ret state) ''memory_plan'') ''panel_tokens'')
               (index (item (ret case') ''panels'') (num 0))) ''Changed state replay panel'' (
           bnd (check_state_workspace state case' key) (\<lambda>unused.
           Inr ()))))))))) (\<lambda>unused.
         Inr ())))))))) (\<lambda>unused.
     reject (ne (item (index (item (index (ret reports) (num 0)) ''runs'') (num 0)) ''stages'')
         (item (index (item (index (ret reports) (num 1)) ''runs'') (num 0)) ''stages''))
       ''Scratch reuse changed logits, routes or persistent state'' (
     dict_of [(''exact_logits_routes_state'', yes), (''all_48_layers'', yes),
        (''continued_equals_fresh'', yes), (''forced_eviction'', yes),
        (''decode_scratch_cancellation_failure'', yes), (''independent_model_reference'', no)])))"

definition observations_scratch :: "(pyval \<Rightarrow> expr) \<Rightarrow> pyval \<Rightarrow> pyval \<Rightarrow> pyval \<Rightarrow> pyval \<Rightarrow> pyval \<Rightarrow> pyval \<Rightarrow> expr" where
  "observations_scratch read_json native_top_p raw evidence' config workload expected =
     bnd (validate_request read_json native_top_p raw evidence' config workload expected
         (PBool False) (PStr ''off'') (PBool False) (PInt (12 * 1024 ^ 3)) (PInt 33) (PBool False)) (\<lambda>tup1.
     unpack2 tup1 (\<lambda>rows expected.
     bnd (eq (item (ret config) ''decode_scratch'') (str ''reuse'')) (\<lambda>reuse.
     bnd (loop (numbered (zip_of (item (ret raw) ''runs'') (ret rows)) 0) (expected, rows) (\<lambda>(expected, rows) tup2.
       unpack2 tup2 (\<lambda>position tup3.
         unpack2 tup3 (\<lambda>row summary.
           bnd (loop (tuple_from (list_extend (list_of [item (ret row) ''before'', item (ret row) ''after''])
                   (list_from (flatten (each (values_of (item (ret row) ''phases'')) (\<lambda>v.
                           each (tuple_of [str ''before'', str ''after'']) (\<lambda>k.
                             index (ret v) (ret k)))))))) () (\<lambda>unused state.
             bnd (item (ret state) ''metal'') (\<lambda>m.
             reject (disjs [differs (get (ret state) ''expert_tail_pending'') no,
                  ne (item (ret m) ''live_command_groups'') (num 0),
                  gt (item (ret m) ''peak_command_groups'') (num 2),
                  ne (get (ret m) ''active_scratch_slot'') (num (- 1))])
               ''Unreleased or unbounded GPU work'' (
             bnd (item (ret m) ''scratch_pools'') (\<lambda>pools.
             reject (disjs [ne (size_of (ret pools)) (num 2),
                  ne (item (index (ret pools) (num 1)) ''allocated_bytes'') (num 0),
                  gt (item (index (ret pools) (num 0)) ''allocated_bytes'')
                      (branch (ret reuse) (num (128 * 1024 ^ 2)) (num 0))])
               ''Unbounded decode workspace'' (
             Inr ())))))) (\<lambda>unused.
           bnd (item (item (ret row) ''phases'') ''decode'') (\<lambda>phase.
           bnd (item (ret phase) ''before'') (\<lambda>a.
           bnd (item (ret phase) ''after'') (\<lambda>b.
           bnd (sub (item (ret b) ''decode_scratch_passes'')
               (item (ret a) ''decode_scratch_passes'')) (\<lambda>passes.
           bnd (sub (item (item (ret b) ''metal'') ''allocation_count'')
               (item (item (ret a) ''metal'') ''allocation_count'')) (\<lambda>allocations.
           bnd (sub (item (item (ret b) ''metal'') ''scratch_reuses'')
               (item (item (ret a) ''metal'') ''scratch_reuses'')) (\<lambda>reuses.
           reject (ne (ret passes) (branch (ret reuse) (num 32) (num 0)))
             ''Requested scratch schedule did not execute'' (
           reject (conjs [ret reuse,
                disjs [lt (ret reuses) (num (32 * 1600)),
                     nay (conjs [lt (num 0) (ret allocations), lt (ret allocations) (num (32 * 1600))])]])
             ''Physical allocation reduction absent'' (
           reject (conjs [nay (ret reuse), disjs [ret reuses, ne (ret allocations) (num (32 * 3238))]])
             ''Changed allocation control'' (
           reject (ne (item (index (item (item (item (item (item (ret row) ''phases'') ''ingest'')
                         ''after'') ''metal'') ''scratch_pools'') (num 0)) ''allocated_bytes'')
               (num 0)) ''Decode workspace retained through multi-token ingestion'' (
           bnd (each_dict (item (item (ret b) ''metal'') ''kernel_dispatches'') (\<lambda>k. ret k) (\<lambda>k.
               sub (lookup_or (item (item (ret b) ''metal'') ''kernel_dispatches'') (ret k) (num 0))
                 (lookup_or (item (item (ret a) ''metal'') ''kernel_dispatches'') (ret k) (num 0)))) (\<lambda>counts.
           bnd (setdefault (ret expected) (add (str ''dispatches_'') (item (ret row) ''name''))
               (ret counts)) (\<lambda>expected.
           reject (ne (index (ret expected) (add (str ''dispatches_'') (item (ret row) ''name'')))
               (ret counts)) ''Arithmetic dispatch counts changed'' (
           bnd (put (ret summary) (str ''allocations_per_token'')
               (truediv (ret allocations) (num 32))) (\<lambda>summary.
           bnd (put (ret summary) (str ''scratch_reuses_per_token'') (truediv (ret reuses) (num 32))) (\<lambda>summary.
           bnd (put (ret summary) (str ''decode_pool_bytes'')
               (item (index (item (item (ret b) ''metal'') ''scratch_pools'') (num 0))
                   ''allocated_bytes'')) (\<lambda>summary.
           bnd (put (ret summary) (str ''decode_memory_disturbance'')
               (disjs [some (tuple_of [ret a, ret b]) (\<lambda>s.
                        ne (get (item (ret s) ''process'') ''compressed_bytes'') (num 0)),
                    disjs [nay (type_in (get (item (ret a) ''process'') ''decompressions'') [TInt]),
                         ne (item (item (ret a) ''process'') ''decompressions'')
                             (get (item (ret b) ''process'') ''decompressions'')]])) (\<lambda>summary.
           bnd (put (ret rows) (ret position) (ret summary)) (\<lambda>rows.
           Inr (expected, rows)))))))))))))))))))))))) (\<lambda>(expected, rows).
     tuple_of [ret rows, ret expected]))))"

definition validate_state :: "(pyval \<Rightarrow> expr) \<Rightarrow> pyval \<Rightarrow> pyval \<Rightarrow> expr" where
  "validate_state read_json reports frozen =
     check (eq (size_of (ret reports)) (num 2)) ''Missing state arm'' (
     bnd (loop (zip_of (ret reports) cases) () (\<lambda>unused tup1.
       unpack2 tup1 (\<lambda>raw case'.
         check (conjs [eq (get (ret raw) ''case'') (ret case'), same (get (ret raw) ''passed'') yes,
              same (get (ret raw) ''full_model'') yes, eq (get (ret raw) ''layers'') (num 48),
              eq (size_of (item (ret raw) ''runs'')) (num 1)]) ''Incomplete or changed state case'' (
         bnd (item (ret raw) ''checks'') (\<lambda>checks.
         bnd (union_of (ret CHECKS) (ret SCRATCH_CHECKS)) (\<lambda>names.
         check (conjs [eq (size_of (ret checks)) (size_of (ret names)),
              eq (set_of (each (ret checks) (\<lambda>c. item (ret c) ''name''))) (ret names),
              every (ret checks) (\<lambda>c. same (item (ret c) ''passed'') yes)])
           ''Missing state/failure/cancellation checks'' (
         bnd (index (item (ret raw) ''runs'') (num 0)) (\<lambda>run.
         check (conjs [eq (size_of (item (ret run) ''stages'')) (num 3),
              every (item (ret run) ''stages'') (\<lambda>s.
                  conjs [eq (size_of (item (ret s) ''layers'')) (size_of (item (ret s) ''routes'')),
                     eq (size_of (item (ret s) ''routes'')) (num 48)])])
           ''Missing full-layer state and routes'' (
         bnd (loop (tuple_of [str ''continued_statistics'', str ''after_fresh'']) () (\<lambda>unused key.
           bnd (index (ret run) (ret key)) (\<lambda>state.
           bnd (check_configuration read_json state case') (\<lambda>unused.
           bnd (call3 check_machine (ret state) (ret frozen) (mul (num 12) (ret GiB))) (\<lambda>unused.
           bnd (check_state_workspace state case' key) (\<lambda>unused.
           check (conjs [eq (item (item (ret state) ''memory_plan'') ''expert_slots'') (num 32),
                eq (item (item (ret state) ''memory_plan'') ''panel_tokens'') (num 0),
                gt (item (item (ret state) ''expert_cache'') ''evictions'') (num 0),
                nay (item (ret state) ''diagnostic_stream_trunk''),
                eq (item (item (ret state) ''metal'') ''live_command_groups'') (num 0)])
             ''Missing forced eviction or drain'' (
           bnd (item (item (ret state) ''metal'') ''kernel_dispatches'') (\<lambda>counts.
           bnd (loop (ret PACKED) () (\<lambda>unused name.
             check (eq (lookup_or (ret counts) (ret name) (num 0))
                 (branch (eq (item (ret case') ''q4_decode'') (str ''packed-r2'')) (num 960) (num 0)))
               ''State proof did not exercise exactly two complete decode forwards'' (
             Inr ()))) (\<lambda>unused.
           Inr ()))))))))) (\<lambda>unused.
         Inr ())))))))))) (\<lambda>unused.
     check (eq (item (index (item (index (ret reports) (num 0)) ''runs'') (num 0)) ''stages'')
         (item (index (item (index (ret reports) (num 1)) ''runs'') (num 0)) ''stages''))
       ''Packed decode changed logits, routes or persistent state'' (
     dict_of [(''exact_logits_routes_state'', yes), (''all_48_layers'', yes),
        (''continued_equals_fresh'', yes), (''forced_eviction'', yes),
        (''cancellation_failure_checked'', yes), (''decode_dispatch_checked'', yes),
        (''independent_model_reference'', no)])))"

end
