(* ===== verification/ArrivalScreens.thy ===== *)
theory ArrivalScreens
  imports ReadArrivals ScreenCache
begin

text \<open>
  Request memory of the Q4 validation and the shared-expert arrivals.
\<close>

definition SHARED_EXPERT_REFERENCE_LAYERS :: pyval where
  "SHARED_EXPERT_REFERENCE_LAYERS = PTuple [PInt 0, PInt 16, PInt 32, PInt 47]"

definition REVISION :: pyval where
  "REVISION = PStr ''b2c422f3c643e36f04227a64d61796b44a4b1029''"

definition TOLERANCE :: pyval where
  "TOLERANCE =
     PDict [(''vector_relative_l2_max'', PFloat (round_fl (1 / 100))),
        (''vector_cosine_min'', PFloat (round_fl (19999 / 20000))),
        (''scalar_absolute_max'', PFloat (round_fl (1 / 1000000))),
        (''scalar_relative_max'', PFloat (round_fl (1 / 128)))]"

definition WIDTHS :: pyval where
  "WIDTHS = PDict [(''activation'', PInt 640), (''shared'', PInt 2560), (''gate'', PInt 1)]"

definition validate_manifest :: "pyval \<Rightarrow> expr" where
  "validate_manifest manifest =
     check (conjs [eq (get (ret manifest) ''kind'') (str ''independent_shared_expert_reference_v1''),
          same (get (ret manifest) ''complete'') yes,
          eq (get (ret manifest) ''artifact_revision'') (ret REVISION),
          eq (get (ret manifest) ''tolerance'') (ret TOLERANCE),
          eq (set_of (item (ret manifest) ''layers''))
              (set_of (each (ret SHARED_EXPERT_REFERENCE_LAYERS) (\<lambda>l. format_of [ret l])))])
       ''Incomplete shared CPU reference'' (
     check (conjs [every (tuple_of [str ''artifact_lock_sha256'', str ''fixture_manifest_sha256'',
                 str ''generator_sha256'', str ''bf16_reference_sha256'']) (\<lambda>key.
              call1 valid_sha256 (lookup (ret manifest) (ret key))),
          isinstance (get (ret manifest) ''numpy_version'') [TStr],
          item (ret manifest) ''numpy_version'',
          same (get (ret manifest) ''native_bit_exact_qualified'') no,
          same (get (ret manifest) ''full_model_verified'') no,
          same (get (ret manifest) ''quality_qualified'') no])
       ''Missing reference provenance or invalid qualification claim'' (
     bnd (item (ret manifest) ''source_proof'') (\<lambda>proof.
     check (conjs [call1 valid_sha256 (get (ret proof) ''receipt_sha256''),
          isinstance (get (ret proof) ''files'') [TDict],
          isinstance (get (ret proof) ''tensors'') [TDict]]) ''Missing selected checkpoint proof'' (
     check (every (items_of (item (ret proof) ''files'')) (\<lambda>tup1.
         unpack2 tup1 (\<lambda>name entry.
           conjs [eq (path_name (ret name)) (ret name), call1 valid_sha256 (get (ret entry) ''sha256''),
              every (tuple_of [str ''size'', str ''device'', str ''inode'', str ''mtime_ns'',
                     str ''ctime_ns'']) (\<lambda>k.
                  conjs [type_in (lookup (ret entry) (ret k)) [TInt],
                     ge (index (ret entry) (ret k)) (num 0)])])))
       ''Invalid verified source file fingerprints'' (
     bnd (Inr (PSet [])) (\<lambda>expected_files.
     bnd (Inr (PSet [])) (\<lambda>expected_tensors.
     bnd (loop (ret SHARED_EXPERT_REFERENCE_LAYERS) (expected_tensors, expected_files) (\<lambda>(expected_tensors, expected_files) layer.
       bnd (index (item (ret manifest) ''layers'') (format_of [ret layer])) (\<lambda>row.
       bnd (format_of [str ''model.layers.'', ret layer, str ''.mlp.'']) (\<lambda>base.
       bnd (item (ret row) ''inputs'') (\<lambda>source.
       check (conjs [eq (path_name (item (ret source) ''file'')) (item (ret source) ''file''),
            eq (get (ret source) ''bytes'') (num (8 * 2560 * 4)),
            call1 valid_sha256 (get (ret source) ''sha256''),
            isinstance (get (ret row) ''offsets'') [TList],
            eq (size_of (item (ret row) ''offsets'')) (num 8),
            every (item (ret row) ''offsets'') (\<lambda>p.
                conjs [type_in (ret p) [TInt], conjs [le (num 0) (ret p), lt (ret p) (num 8192)]]),
            eq (item (ret row) ''offsets'') (sorted_of (set_of (item (ret row) ''offsets'')))])
         ''Invalid reference input coverage'' (
       bnd (dict_of []) (\<lambda>tensors.
       bnd (loop (tuple_of [tuple_of [str ''gate_proj'', tuple_of [num 640, num 2560]],
              tuple_of [str ''up_proj'', tuple_of [num 640, num 2560]],
              tuple_of [str ''down_proj'', tuple_of [num 2560, num 640]]]) tensors (\<lambda>tensors tup3.
         unpack2 tup3 (\<lambda>projection shape.
           bnd (ret shape) (\<lambda>tup2.
           unpack2 tup2 (\<lambda>output width.
           bnd (loop (tuple_of [str ''weight'', str ''scales'', str ''biases'']) tensors (\<lambda>tensors suffix.
             bnd (put (ret tensors)
                 (add (add (add (add (ret base) (str ''shared_expert.'')) (ret projection))
                       (str ''.'')) (ret suffix))
                 (tuple_of [list_of [ret output,
                           floordiv (ret width)
                               (branch (eq (ret suffix) (str ''weight'')) (num 4) (num 64))],
                      branch (eq (ret suffix) (str ''weight'')) (str ''U32'') (str ''BF16'')])) (\<lambda>tensors.
             ret tensors))) (\<lambda>tensors.
           ret tensors)))))) (\<lambda>tensors.
       bnd (put (ret tensors) (add (ret base) (str ''shared_expert_gate.weight''))
           (tuple_of [list_of [num 1, num 2560], str ''BF16''])) (\<lambda>tensors.
       check (eq (set_of (get_or (ret row) ''tensors'' (dict_of []))) (set_of (ret tensors)))
         ''Incomplete shared tensor coverage'' (
       bnd (loop (items_of (ret tensors)) expected_tensors (\<lambda>expected_tensors tup4.
         unpack2 tup4 (\<lambda>name tup5.
           unpack2 tup5 (\<lambda>shape dtype.
             bnd (index (item (ret row) ''tensors'') (ret name)) (\<lambda>tensor.
             bnd (get (ret tensor) ''file'') (\<lambda>filename.
             check (conjs [isin (ret filename) (item (ret proof) ''files''),
                  eq (path_name (ret filename)) (ret filename),
                  eq (get (ret tensor) ''shape'') (ret shape),
                  eq (get (ret tensor) ''dtype'') (ret dtype),
                  eq (get (ret tensor) ''bytes'')
                      (mul (prod_of (ret shape))
                          (branch (eq (ret dtype) (str ''U32'')) (num 4) (num 2))),
                  type_in (get (ret tensor) ''offset'') [TInt],
                  ge (item (ret tensor) ''offset'') (num 8),
                  le (add (item (ret tensor) ''offset'') (item (ret tensor) ''bytes''))
                      (item (index (item (ret proof) ''files'') (ret filename)) ''size''),
                  call1 valid_sha256 (get (ret tensor) ''sha256''),
                  eq (ret tensor) (lookup (item (ret proof) ''tensors'') (ret name))])
               ''Changed selected tensor provenance or layout'' (
             bnd (set_add (ret expected_tensors) (ret name)) (\<lambda>expected_tensors.
             ret expected_tensors)))))))) (\<lambda>expected_tensors.
       bnd (loop (items_of (ret WIDTHS)) expected_files (\<lambda>expected_files tup6.
         unpack2 tup6 (\<lambda>name width.
           bnd (index (ret row) (ret name)) (\<lambda>entry.
           check (conjs [eq (get (ret entry) ''shape'') (list_of [num 8, ret width]),
                eq (item (ret entry) ''bytes'') (mul (mul (num 8) (ret width)) (num 4)),
                eq (get (ret entry) ''file'')
                    (format_of [str ''shared-'', ret layer, str ''.'', ret name, str ''.f32'']),
                call1 valid_sha256 (get (ret entry) ''sha256''),
                eq (lookup (item (ret manifest) ''files'') (item (ret entry) ''file'')) (ret entry)])
             ''Changed shared output layout'' (
           bnd (set_add (ret expected_files) (item (ret entry) ''file'')) (\<lambda>expected_files.
           ret expected_files)))))) (\<lambda>expected_files.
       Inr (expected_tensors, expected_files))))))))))))) (\<lambda>(expected_tensors, expected_files).
     check (conjs [eq (set_of (item (ret manifest) ''files'')) (ret expected_files),
          eq (set_of (item (ret proof) ''tensors'')) (ret expected_tensors)])
       ''Unexpected shared reference output or tensor coverage'' (
     ret manifest)))))))))"

definition SHARED_CRITERIA :: pyval where
  "SHARED_CRITERIA =
     PDict [(''timing_pairs'', PInt 5), (''groups'', PList [PInt 1, PInt 4]),
        (''timing_cycles'', PInt 4), (''capture_cycles'', PInt 1), (''cases_per_cycle'', PInt 64),
        (''cache_slots'', PInt 8), (''io_workers'', PInt 8), (''max_live_groups'', PInt 2),
        (''budget_bytes'', PInt 12884901888), (''gpu_upper_95_below'', PInt 1),
        (''wall_upper_95_max'', PFloat (round_fl (103 / 100))), (''process_seconds'', PInt 60),
        (''stage_seconds'', PInt 180), (''hits_per_batch'', PInt 2),
        (''cache_preparation'', PStr ''invalidate-selected-file-ranges''),
        (''shared_chains_per_batch'', PInt 1),
        (''shared_layer_order'', PList [PInt 0, PInt 16, PInt 32, PInt 47, PInt 0, PInt 16, PInt 32, PInt 47]),
        (''shared_gpu_scope'', PStr ''shared-and-routed-command-intervals'')]"

definition SHARED_CONDITIONS :: pyval where
  "SHARED_CONDITIONS = PTuple [PStr ''control'', PStr ''shared'']"

definition finite_shared :: "pyval \<Rightarrow> expr" where
  "finite_shared value =
     conjs [type_in (ret value) [TInt, TFloat], isfinite (ret value)]"

definition shared_proof :: "pyval \<Rightarrow> pyval \<Rightarrow> pyval \<Rightarrow> expr" where
  "shared_proof raw manifest gate_values =
     bnd (validate_manifest manifest) (\<lambda>unused.
     bnd (get_or (ret raw) ''shared_prelude'' (dict_of [])) (\<lambda>shared.
     check (conjs [same (get (ret shared) ''enabled'') yes,
          eq (get (ret shared) ''reference_manifest'') (ret manifest),
          call1 valid_sha256 (get (ret shared) ''reference_manifest_sha256''),
          call1 valid_sha256 (get (ret shared) ''expected_native_sha256''),
          same (get (ret shared) ''cpu_reference_passed'') yes,
          same (get (ret shared) ''shared_outputs_exact'') yes,
          eq (get (ret shared) ''layer_order'') (ret SHARED_LAYERS),
          eq (get (ret shared) ''gpu_scope'') (item (ret SHARED_CRITERIA) ''shared_gpu_scope'')])
       ''Missing independent shared-reference or native exact-output evidence'' (
     bnd (get (ret shared) ''reference_checks'') (\<lambda>checks.
     check (conjs [isinstance (ret checks) [TList],
          eq (each (ret checks) (\<lambda>c. tuple_of [get (ret c) ''layer'', get (ret c) ''row'']))
              (flatten (each (tuple_of [num 0, num 16, num 32, num 47]) (\<lambda>layer.
                    each (range_to (num 8)) (\<lambda>row. tuple_of [ret layer, ret row]))))])
       ''Missing, duplicate or reordered shared reference cases'' (
     bnd (item (ret manifest) ''tolerance'') (\<lambda>limits.
     bnd (loop (ret checks) () (\<lambda>unused check'.
       bnd (loop (tuple_of [str ''activation'', str ''shared'']) () (\<lambda>unused name.
         bnd (lookup_or (ret check') (ret name) (dict_of [])) (\<lambda>measured.
         check (conjs [call1 finite_shared (get (ret measured) ''relative_l2''),
              conjs [le (num 0) (item (ret measured) ''relative_l2''),
                   le (item (ret measured) ''relative_l2'')
                       (item (ret limits) ''vector_relative_l2_max'')],
              call1 finite_shared (get (ret measured) ''cosine''),
              conjs [le (item (ret limits) ''vector_cosine_min'') (item (ret measured) ''cosine''),
                   le (item (ret measured) ''cosine'') (add (num 1) (flt (1 / 1000000000000)))]])
           ''Shared CPU vector reference exceeds its predeclared tolerance'' (
         Inr ())))) (\<lambda>unused.
       bnd (get_or (ret check') ''gate'' (dict_of [])) (\<lambda>measured.
       check (every (tuple_of [str ''expected'', str ''absolute_error'', str ''limit'']) (\<lambda>k.
           call1 finite_shared (lookup (ret measured) (ret k))))
         ''Missing scalar reference value or error'' (
       bnd (add (item (ret limits) ''scalar_absolute_max'')
           (mul (abs_of (item (ret measured) ''expected''))
               (item (ret limits) ''scalar_relative_max''))) (\<lambda>expected_limit.
       check (conjs [isclose (item (ret measured) ''limit'') (ret expected_limit) (1 / 1000000000000)
                (1 / 1000000000000000),
            conjs [le (num 0) (item (ret measured) ''absolute_error''),
                 le (item (ret measured) ''absolute_error'') (ret expected_limit)]])
         ''Shared gate exceeds or changed its predeclared tolerance'' (
       bnd (branch (differs (ret gate_values) none)
           (check (eq (item (ret measured) ''expected'')
                 (index (index (ret gate_values) (item (ret check') ''layer''))
                     (item (ret check') ''row'')))
               ''Reported gate oracle differs from its verified CPU fixture'' (
             Inr ())) (Inr ())) (\<lambda>unused.
       Inr ())))))))) (\<lambda>unused.
     dict_of [(''reference_manifest_sha256'', item (ret shared) ''reference_manifest_sha256''),
        (''expected_native_sha256'', item (ret shared) ''expected_native_sha256''),
        (''verified_cases'', size_of (ret checks)), (''independent_cpu_reference_passed'', yes),
        (''shared_outputs_exact'', yes)])))))))"

definition analyze_shared :: "(string \<Rightarrow> pyval \<Rightarrow> expr) \<Rightarrow> pyval \<Rightarrow> pyval \<Rightarrow> pyval \<Rightarrow> pyval \<Rightarrow> pyval \<Rightarrow> pyval \<Rightarrow> expr" where
  "analyze_shared libm raw condition frozen expected_records reference_manifest gate_values =
     bnd none (\<lambda>proof.
     check (conjs [isin (ret condition) (ret SHARED_CONDITIONS),
          eq (get (ret raw) ''hits_per_batch'') (num 2),
          eq (get (ret raw) ''cache_preparation'') (ret INVALIDATE_FILES)])
       ''Changed shared-prelude condition, hit population or cache preparation'' (
     bnd (eq (ret condition) (str ''shared'')) (\<lambda>shared.
     bnd (branch (ret shared)
         (check (differs (ret reference_manifest) none)
             ''Shared diagnostic has no verified independent reference'' (
           bnd (shared_proof raw reference_manifest gate_values) (\<lambda>proof.
           ret proof)))
         (check (notin (str ''shared_prelude'') (ret raw))
             ''Fresh control unexpectedly includes shared work'' (
           ret proof))) (\<lambda>proof.
     bnd (analyze_arrivals libm raw frozen expected_records OUTPUT_SHA shared PNone) (\<lambda>result.
     bnd (put (ret result) (str ''condition'') (ret condition)) (\<lambda>result.
     bnd (branch (ret shared)
         (bnd (put (ret result) (str ''shared_reference'') (ret proof)) (\<lambda>result.
           ret result)) (ret result)) (\<lambda>result.
     bnd (put (ret result) (str ''limitations'')
         (append (item (ret result) ''limitations'')
             (str
                 (''The control and shared conditions are separate processes. Their absolute timings are contextual, not a paired estimate of shared-work cost.'')))) (\<lambda>result.
     ret result))))))))"

definition PHASE_DISPATCHES :: pyval where
  "PHASE_DISPATCHES =
     PDict [(''q8_gate_up'', PInt 48), (''q8_mv_packed_r2_w4'', PInt 48), (''plain_mm'', PInt 48),
        (''q4_gate_up'', PInt 384), (''q4_mm'', PInt 384), (''scatter_experts'', PInt 384)]"

definition PHASE_LIMITATIONS :: pyval where
  "PHASE_LIMITATIONS =
     PList [PStr
            (''Compression is recorded as a dirty resource observation in this attribution-only experiment; it never becomes a clean-memory or performance pass.''),
        PStr
            (''Four fresh processes in off/on/on/off order provide two observations per condition, not a statistical causal estimate or identification of compressed pages.''),
        PStr
            (''Boundary observations and cumulative peaks cannot locate transient events within a phase. Device allocation bytes are not driver physical memory.''),
        PStr
            (''The repeated shared/routed fixtures retain 20.25MiB, only 27.2% of measured full-token scratch; they do not execute a complete model token.''),
        PStr
            ''Previously blocked or inconclusive lifetime reports retain their original decisions.'']"

definition analyze_phase :: "(string \<Rightarrow> pyval \<Rightarrow> expr) \<Rightarrow> pyval \<Rightarrow> pyval \<Rightarrow> pyval \<Rightarrow> pyval \<Rightarrow> pyval \<Rightarrow> pyval \<Rightarrow> expr" where
  "analyze_phase libm raw validation frozen records manifest gates =
     check (conjs [isin (ret validation) (tuple_of [str ''off'', str ''on'']),
          eq (get (ret raw) ''kind'') (str ''native_q4_scratch_memory_v1''),
          eq (get (ret raw) ''mode'') (add (str ''memory-'') (ret validation)),
          same (get (ret raw) ''complete'') yes,
          same (get (ret raw) ''validation'') (eq (ret validation) (str ''on'')),
          same (get (ret raw) ''profiling'') no, same (get (ret raw) ''counters'') no,
          every (ret PHASE_FLAGS) (\<lambda>k. same (lookup (ret raw) (ret k)) no),
          same (get (ret raw) ''exact'') yes,
          same (get (ret raw) ''untouched_destinations_checked'') yes])
       ''Incomplete memory process or changed instrumentation/scope'' (
     check (conjs [eq (get (ret raw) ''hits_per_batch'') (num 2), eq (get (ret raw) ''cycles'') (num 6),
          conjs [eq (get (ret raw) ''cache_slots'') (get (ret raw) ''io_workers''),
               eq (get (ret raw) ''io_workers'') (num 8)],
          eq (get (ret raw) ''max_live_groups'') (num 2),
          eq (get (ret raw) ''budget_bytes'') (ret BUDGET),
          eq (get (ret raw) ''cache_preparation'') (ret INVALIDATE_FILES),
          eq (get (ret raw) ''prepared_manifest_sha256'')
              (item (ret frozen) ''prepared_manifest_sha256''),
          eq (get (ret raw) ''output_sha256'') (ret OUTPUT_SHA),
          eq (get (item (ret raw) ''fixture_manifest'') ''artifact_revision'')
              (item (ret frozen) ''artifact_revision''),
          eq (call1 fixture_records (item (ret raw) ''fixture_manifest'')) (ret records)])
       ''Changed actual work, artifact, prepared records or routed bytes'' (
     bnd (get (ret raw) ''resident_bytes'') (\<lambda>resident.
     check (conjs [uint resident, eq (ret resident) (get (ret raw) ''expected_resident_bytes''),
          gt (ret resident) (num 0)]) ''Invalid resident allocation'' (
     bnd (shared_proof raw manifest gates) (\<lambda>proof.
     check (conjs [eq (each (item (ret raw) ''pairs'') (\<lambda>p.
                tuple_of [item (ret p) ''pair'', item (ret p) ''group'']))
              (list_of [tuple_of [num 0, num 1]]),
          eq (size_of (item (index (item (ret raw) ''pairs'') (num 0)) ''arms'')) (num 1)])
       ''Memory process must have one reference/group1 execution'' (
     bnd (index (item (index (item (ret raw) ''pairs'') (num 0)) ''arms'') (num 0)) (\<lambda>arm.
     check (eq (item (ret arm) ''variant'') (str ''reference''))
       ''Candidate timing is outside memory attribution'' (
     bnd (item (ret arm) ''metal_before'') (\<lambda>before.
     bnd (item (ret arm) ''metal_after'') (\<lambda>after.
     bnd (item (ret arm) ''sample'') (\<lambda>sample.
     bnd (loop (tuple_of [item (ret raw) ''initial_metal'', ret before, ret after, item (ret raw) ''final_metal''])
         () (\<lambda>unused state.
       bnd (call3 metal_state (ret state) (item (ret frozen) ''build'') (ret resident)) (\<lambda>unused.
       check (eq (item (ret state) ''kernels'')
           (merge (dict_from (ret FIXED_KERNELS)) (dict_of [(''q4_decode'', str ''reference'')])))
         ''Changed memory replay arithmetic or profiling'' (
       Inr ())))) (\<lambda>unused.
     bnd (dict_of [(''expert_executions'', num 384), (''shared_chains'', num 48), (''ready_hits'', num 96),
          (''new_misses'', num 288), (''loading_joins'', num 0), (''read_bytes'', num 796262400),
          (''expert_load_calls'', num 288), (''preparation_read_bytes'', num 265420800),
          (''preparation_load_calls'', num 96), (''invalidation_calls'', num 384),
          (''allocation_count'', num 0), (''scratch_reuses'', num 1296), (''submissions'', num 384)]) (\<lambda>counts.
     check (conjs [every (items_of (ret counts)) (\<lambda>tup1.
              unpack2 tup1 (\<lambda>k v. eq (lookup (ret sample) (ret k)) (ret v))),
          eq (get (ret sample) ''batches'') (list_of []),
          eq (get (ret sample) ''kernel_dispatches'') (ret PHASE_DISPATCHES)])
       ''Missing fixed work, explicit reads, or zero-allocation warm coverage'' (
     bnd (loop (ret REPLAY_COUNTERS) () (\<lambda>unused key.
       check (conjs [call1 uint (lookup (ret sample) (ret key)),
            eq (sub (index (ret after) (ret key)) (index (ret before) (ret key)))
                (index (ret sample) (ret key))])
         ''Sample counters differ from native arm boundaries'' (
       Inr ()))) (\<lambda>unused.
     bnd (each_dict (union_of (set_of (item (ret after) ''kernel_dispatches''))
           (set_of (item (ret before) ''kernel_dispatches''))) (\<lambda>k. ret k) (\<lambda>k.
         sub (lookup_or (item (ret after) ''kernel_dispatches'') (ret k) (num 0))
           (lookup_or (item (ret before) ''kernel_dispatches'') (ret k) (num 0)))) (\<lambda>delta.
     check (eq (each_dict (each_if (items_of (ret delta)) (\<lambda>tup2. unpack2 tup2 (\<lambda>k v. ret v)) (\<lambda>x.
             ret x)) (\<lambda>tup3. unpack2 tup3 (\<lambda>k v. ret k)) (\<lambda>tup4. unpack2 tup4 (\<lambda>k v. ret v)))
         (ret PHASE_DISPATCHES)) ''Changed native dispatch population'' (
     bnd (call2 lifetime_proof (ret raw) (str ''forward'')) (\<lambda>lifetime.
     bnd (get_or (ret raw) ''memory_phases'' (list_of [])) (\<lambda>phases.
     check (conjs [eq (each (ret phases) (\<lambda>p. get (ret p) ''phase'')) (ret PHASES),
          eq (each_if (ret phases) (\<lambda>p. eq (get (ret p) ''phase'') (str ''pass_complete'')) (\<lambda>p.
                get (ret p) ''pass_index'')) (list_from (range_to (num 48)))])
       ''Missing, duplicated or reordered lifecycle coverage'' (
     bnd (list_of []) (\<lambda>signature.
     bnd (loop (numbered (ret phases) 0) signature (\<lambda>signature tup5.
       unpack2 tup5 (\<lambda>index' phase.
         bnd (call3 check_phase (ret phase)
             (branch (ret index') (index (ret phases) (sub (ret index') (num 1))) none)
             (index (ret phases) (num 0))) (\<lambda>unused.
         bnd (item (ret phase) ''metal'') (\<lambda>state.
         bnd (branch (differs (ret state) none)
             (check (eq (item (ret state) ''build_fingerprint'') (item (ret frozen) ''build''))
                 ''Changed native phase source identity'' (
               bnd (append (ret signature)
                   (dict_of [(''phase'', item (ret phase) ''phase''),
                        (''pass_index'', get (ret phase) ''pass_index''),
                        (''live_buffer_bytes'', item (ret state) ''live_buffer_bytes''),
                        (''allocation_count'', item (ret state) ''allocation_count''),
                        (''scratch_reuses'', item (ret state) ''scratch_reuses''),
                        (''active_scratch_slot'', item (ret state) ''active_scratch_slot''),
                        (''scratch'', each (item (ret state) ''scratch_pools'') (\<lambda>p.
                            each_dict (tuple_of [str ''capacity_bytes'', str ''allocated_bytes'',
                                 str ''unused_retained_bytes'', str ''allocation_count'',
                                 str ''reuses'']) (\<lambda>k. ret k) (\<lambda>k. index (ret p) (ret k)))),
                        (''kernels'', item (ret state) ''kernels''),
                        (''kernel_dispatches'', item (ret state) ''kernel_dispatches'')])) (\<lambda>signature.
               ret signature))) (ret signature)) (\<lambda>signature.
         bnd (branch (eq (item (ret phase) ''phase'') (str ''post_warmup''))
             (check (eq (ret state) (ret before))
                 ''Warmup phase differs from observed arm boundary'' (
               Inr ())) (Inr ())) (\<lambda>unused.
         bnd (branch (eq (item (ret phase) ''phase'') (str ''pass_complete''))
             (bnd (add (item (ret phase) ''pass_index'') (num 1)) (\<lambda>n.
               bnd (index (item (ret state) ''scratch_pools'') (num 0)) (\<lambda>pool.
               bnd (index (item (ret before) ''scratch_pools'') (num 0)) (\<lambda>start_pool.
               check (conjs [eq (item (ret pool) ''allocated_bytes'') (num 21233664),
                    eq (item (ret pool) ''unused_retained_bytes'')
                        (mul (sub (num 48) (ret n)) (num 442368)),
                    eq (sub (item (ret pool) ''reuses'') (item (ret start_pool) ''reuses''))
                        (mul (ret n) (num 27)),
                    eq (item (ret pool) ''allocation_count'')
                        (item (ret start_pool) ''allocation_count''),
                    eq (sub (item (ret state) ''scratch_reuses'')
                          (item (ret before) ''scratch_reuses'')) (mul (ret n) (num 27)),
                    eq (item (ret state) ''active_scratch_slot'')
                        (branch (lt (ret n) (num 48)) (num 0) (num (- 1))),
                    eq (item (ret state) ''allocation_count'')
                        (item (ret before) ''allocation_count''),
                    eq (item (ret state) ''live_buffer_bytes'')
                        (item (ret before) ''live_buffer_bytes'')])
                 ''Per-pass scratch ownership or reuse changed'' (
               Inr ()))))) (Inr ())) (\<lambda>unused.
         ret signature)))))))) (\<lambda>signature.
     check (conjs [eq (item (index (ret phases) (num (- 2))) ''metal'') (ret after),
          eq (item (index (ret phases) (num (- 1))) ''metal'') (item (ret raw) ''final_metal''),
          eq (sub (item (ret after) ''live_buffer_bytes'')
                (item (item (ret raw) ''final_metal'') ''live_buffer_bytes'')) (num 21233664),
          every (item (item (ret raw) ''final_metal'') ''scratch_pools'') (\<lambda>p.
              conjs [eq (item (ret p) ''allocated_bytes'') (item (ret p) ''capacity_bytes''),
                 eq (item (ret p) ''capacity_bytes'') (num 0)])])
       ''Missing final observed boundary or complete scratch release'' (
     bnd (each (ret phases) (\<lambda>p.
         dict_of [(''memory_before'', item (ret p) ''memory''),
            (''memory_after'', item (ret p) ''memory''), (''host_before'', item (ret p) ''host''),
            (''host_after'', item (ret p) ''host'')])) (\<lambda>observations.
     bnd (observations_clean observations) (\<lambda>clean.
     bnd (put (ret clean) (str ''clean_memory'')
         (bit_and (item (ret clean) ''clean_memory'')
             (every (ret phases) (\<lambda>p.
                 eq (item (item (ret p) ''memory'') ''compressed_peak_bytes'') (num 0))))) (\<lambda>clean.
     bnd (next_or (numbered (ret phases) 0) (\<lambda>tup6.
         unpack2 tup6 (\<lambda>i p.
           disjs [item (item (ret p) ''memory'') ''compressed_peak_bytes'',
              item (item (ret p) ''memory'') ''compressed_bytes'',
              ne (item (item (ret p) ''memory'') ''decompressions'')
                  (item (item (index (ret phases) (num 0)) ''memory'') ''decompressions'')])) (\<lambda>tup7.
         unpack2 tup7 (\<lambda>i p.
           dict_of [(''index'', ret i), (''phase'', item (ret p) ''phase''),
              (''pass_index'', get (ret p) ''pass_index'')])) none) (\<lambda>first_dirty.
     bnd (disk_observation arm) (\<lambda>device.
     bnd (branch (item (ret device) ''available'')
         (truediv (item (ret device) ''read_bytes'') (num 1061683200)) none) (\<lambda>ratio.
     check (conjs [differs (ret ratio) none,
          conjs [le (flt (9 / 10)) (ret ratio), le (ret ratio) (flt (11 / 10))]])
       ''Actual storage coverage missing or disturbed'' (
     merge (merge (merge (dict_of [(''status'', branch (every (values_of (ret clean)) (\<lambda>x. ret x))
                  (str ''memory_clean'') (str ''memory_dirty''))]) (ret clean))
         (dict_of [(''validation'', ret validation), (''first_dirty_phase'', ret first_dirty),
              (''hard_guards_passed'', yes), (''output_sha256'', item (ret raw) ''output_sha256''),
              (''shared_reference'', ret proof), (''lifetime'', ret lifetime),
              (''native_work_signature'', ret signature),
              (''observed_device_to_application_ratio'', ret ratio),
              (''peak_physical_bytes'', max_of (each (ret phases) (\<lambda>p.
                    item (item (ret p) ''memory'') ''physical_footprint_peak_bytes''))),
              (''peak_compressed_bytes'', max_of (each (ret phases) (\<lambda>p.
                    item (item (ret p) ''memory'') ''compressed_peak_bytes''))),
              (''phases'', each (ret phases) (\<lambda>p.
                  dict_of [(''phase'', item (ret p) ''phase''),
                     (''pass_index'', get (ret p) ''pass_index''),
                     (''memory'', item (ret p) ''memory''),
                     (''memory_counters'', item (ret p) ''memory_counters'')])),
              (''limitations'', ret PHASE_LIMITATIONS)])) (ret PHASE_FLAGS)))))))))))))))))))))))))))))))"

definition LIFETIME_CRITERIA :: pyval where
  "LIFETIME_CRITERIA =
     PDict [(''timing_pairs'', PInt 5), (''groups'', PList [PInt 1, PInt 4]),
        (''timing_cycles'', PInt 6), (''capture_cycles'', PInt 6), (''cases_per_cycle'', PInt 64),
        (''cache_slots'', PInt 8), (''io_workers'', PInt 8), (''max_live_groups'', PInt 2),
        (''budget_bytes'', PInt 12884901888), (''gpu_upper_95_below'', PInt 1),
        (''wall_upper_95_max'', PFloat (round_fl (103 / 100))), (''process_seconds'', PInt 60),
        (''stage_seconds'', PInt 180), (''hits_per_batch'', PInt 2),
        (''cache_preparation'', PStr ''invalidate-selected-file-ranges''),
        (''shared_chains_per_batch'', PInt 1),
        (''shared_layer_order'', PList [PInt 0, PInt 16, PInt 32, PInt 47, PInt 0, PInt 16, PInt 32, PInt 47]),
        (''shared_gpu_scope'', PStr ''shared-and-routed-command-intervals''), (''passes'', PInt 48),
        (''retained_payload'', PStr ''shared-and-routed-temporaries''),
        (''batch_scratch_bytes'', PInt 442368), (''forward_scratch_bytes'', PInt 21233664)]"

definition SCOPES :: pyval where
  "SCOPES = PTuple [PStr ''batch'', PStr ''forward'']"

definition analyze_lifetime :: "(string \<Rightarrow> pyval \<Rightarrow> expr) \<Rightarrow> pyval \<Rightarrow> pyval \<Rightarrow> pyval \<Rightarrow> pyval \<Rightarrow> pyval \<Rightarrow> pyval \<Rightarrow> expr" where
  "analyze_lifetime libm raw scope frozen expected_records reference_manifest gate_values =
     check (conjs [isin (ret scope) (ret SCOPES), eq (get (ret raw) ''hits_per_batch'') (num 2),
          eq (get (ret raw) ''cache_preparation'') (ret INVALIDATE_FILES),
          differs (ret reference_manifest) none])
       ''Changed scratch condition, hit population, cache preparation or missing CPU reference'' (
     bnd (shared_proof raw reference_manifest gate_values) (\<lambda>proof.
     bnd (analyze_arrivals libm raw frozen expected_records OUTPUT_SHA (PBool True) scope) (\<lambda>result.
     bnd (merge (ret result)
         (dict_of [(''scope'', ret scope), (''shared_reference'', ret proof),
              (''criteria'', ret LIFETIME_CRITERIA)])) (\<lambda>result.
     bnd (put (ret result) (str ''scratch_lifetime'') (lifetime_proof raw scope)) (\<lambda>result.
     bnd (put (ret result) (str ''limitations'')
         (add (item (ret result) ''limitations'')
             (list_of [str
                      (''The 48 passes repeat the same eight expert and four shared-layer fixtures six times; they are not 48 distinct model layers or a complete model forward pass.''),
                  str
                      (''Both scopes drain GPU work and explicitly prepare file reads between passes. The forward condition retains its scratch arena across those boundaries.''),
                  str
                      (''Batch and forward scope timings come from separate processes; packed/reference pairs within each scope are the statistical units. Cross-scope absolute differences are contextual.''),
                  str
                      (''The fixed expert cache remains eight slots. This measures temporary-buffer lifetime and does not vary expert-cache capacity.'')]))) (\<lambda>result.
     ret result))))))"

definition observe_context :: "(pyval \<Rightarrow> expr) \<Rightarrow> pyval \<Rightarrow> pyval \<Rightarrow> pyval \<Rightarrow> pyval \<Rightarrow> pyval \<Rightarrow> pyval \<Rightarrow> pyval \<Rightarrow> expr" where
  "observe_context read_json native_top_p raw frozen config work expected traced =
     bnd (validate_request read_json native_top_p raw frozen config work expected traced
         (PStr ''off'') (PBool False) (PInt (12 * 1024 ^ 3)) (PInt 17) (PBool False)) (\<lambda>tup1.
     unpack2 tup1 (\<lambda>requests expected.
     bnd (list_of []) (\<lambda>counts.
     bnd (loop (item (ret raw) ''runs'') (expected, counts) (\<lambda>(expected, counts) row.
       bnd (loop (list_extend (list_of [item (ret row) ''before'', item (ret row) ''after''])
             (list_from (flatten (each (values_of (item (ret row) ''phases'')) (\<lambda>p.
                     each (tuple_of [str ''before'', str ''after'']) (\<lambda>k. index (ret p) (ret k)))))))
           () (\<lambda>unused state.
         bnd (item (ret state) ''metal'') (\<lambda>m.
         bnd (item (ret m) ''residency'') (\<lambda>r.
         check (conjs [eq (item (ret m) ''live_command_groups'') (num 0),
              le (item (ret m) ''peak_command_groups'') (num 2),
              eq (item (ret r) ''mode'') (str ''core-cache''),
              eq (item (ret r) ''pending_retirements'') (num 0),
              same (item (item (ret m) ''kernels'') ''counter_profile'') no,
              same (item (item (ret m) ''kernels'') ''profile_decode_only'') (ret traced)])
           ''Changed residency or instrumentation'' (
         Inr ()))))) (\<lambda>unused.
       bnd (item (ret row) ''after'') (\<lambda>final.
       check (eq (item (item (item (item (ret final) ''metal'') ''residency'') ''bytes_by_class'')
             ''expert'') (item (item (ret final) ''memory_plan'') ''expert_bytes''))
         ''Cache residency enrollment missing'' (
       bnd (each (tuple_of [str ''before'', str ''after'']) (\<lambda>k.
           item (index (item (item (ret row) ''phases'') ''decode'') (ret k)) ''metal'')) (\<lambda>tup2.
       unpack2 tup2 (\<lambda>a b.
       bnd (each_dict (union_of (set_of (item (ret a) ''kernel_dispatches''))
             (set_of (item (ret b) ''kernel_dispatches''))) (\<lambda>k. ret k) (\<lambda>k.
           sub (lookup_or (item (ret b) ''kernel_dispatches'') (ret k) (num 0))
             (lookup_or (item (ret a) ''kernel_dispatches'') (ret k) (num 0)))) (\<lambda>delta.
       check (every (values_of (ret delta)) (\<lambda>v. ge (ret v) (num 0))) ''Dispatch counter reset'' (
       bnd (loop (zip_of (ret PACKED) (tuple_of [str ''q4_gate_up'', str ''q4_mm''])) delta (\<lambda>delta tup3.
         unpack2 tup3 (\<lambda>packed ref.
           bnd (lookup_or (ret delta) (ret packed) (num 0)) (\<lambda>n.
           bnd (without_key (ret delta) (ret packed)) (\<lambda>delta.
           check (eq (ret n)
               (branch (eq (item (ret config) ''q4_decode'') (str ''packed-r2'')) (num (16 * 480))
                   (num 0))) ''Wrong packed work'' (
           bnd (put (ret delta) (ret ref) (add (lookup_or (ret delta) (ret ref) (num 0)) (ret n))) (\<lambda>delta.
           check (eq (index (ret delta) (ret ref)) (num (16 * 480)))
             ''Missing complete routed projection work'' (
           ret delta)))))))) (\<lambda>delta.
       bnd (each_dict (each_if (items_of (ret delta)) (\<lambda>tup4. unpack2 tup4 (\<lambda>k v. ret v)) (\<lambda>x.
             ret x)) (\<lambda>tup5. unpack2 tup5 (\<lambda>k v. ret k)) (\<lambda>tup6. unpack2 tup6 (\<lambda>k v. ret v))) (\<lambda>delta.
       bnd (setdefault (ret expected) (add (str ''dispatches_'') (item (ret row) ''name''))
           (ret delta)) (\<lambda>expected.
       check (conjs [eq (index (ret expected) (add (str ''dispatches_'') (item (ret row) ''name'')))
                (ret delta),
            eq (sum_of (values_of (ret delta)))
                (sub (item (ret b) ''dispatches'') (item (ret a) ''dispatches''))])
         ''Changed normalized decode work'' (
       bnd (append (ret counts) (sum_of (values_of (ret delta)))) (\<lambda>counts.
       Inr (expected, counts))))))))))))))) (\<lambda>(expected, counts).
     check (le (sum_of (ret counts)) (item (ret CONTEXT_CRITERIA) ''trace_dispatch_limit''))
       ''Trace would exceed dispatch capacity'' (
     tuple_of [merge (dict_of [(''requests'', ret requests), (''dispatches_by_phase'', ret counts)])
            (memory raw),
        ret expected])))))"

end
