(* ===== verification/PerfectDraft.thy ===== *)
theory PerfectDraft
  imports RunChecks
begin

text \<open>
  The perfect-continuation verifier screen (\<open>scripts/qwen/perfect_draft.py\<close>): the fixed
  configuration, the work it replays, the checks of the recorded state, routes, memory and
  timing of one run, the comparison of a block run with the serial reference and the decision.
\<close>

definition DRAFT_BUDGET :: pyval where
  "DRAFT_BUDGET = PInt (12 * 1024 ^ 3)"

definition DRAFT_VOCAB :: pyval where
  "DRAFT_VOCAB = PInt 248320"

definition DRAFT_ORDER :: pyval where
  "DRAFT_ORDER =
     PList [PTuple [PInt 0, PInt 1], PTuple [PInt 0, PInt 2], PTuple [PInt 0, PInt 4],
        PTuple [PInt 1, PInt 4], PTuple [PInt 1, PInt 2], PTuple [PInt 1, PInt 1]]"

definition DRAFT_VALIDATION_WIDTHS :: pyval where
  "DRAFT_VALIDATION_WIDTHS = PList [PInt 1, PInt 2, PInt 4]"

definition DRAFT_KERNEL_POLICY :: pyval where
  "DRAFT_KERNEL_POLICY = PStr ''decode token_tile=width; q8r2 atT1''"

definition DRAFT_CRITERIA :: pyval where
  "DRAFT_CRITERIA =
     PDict [(''budget_bytes'', DRAFT_BUDGET), (''expert_slots'', PInt 1072), (''context'', PInt 8192),
        (''validation_widths'', DRAFT_VALIDATION_WIDTHS), (''validation_tokens'', PInt 4),
        (''timing_order'', DRAFT_ORDER), (''timing_tokens'', PInt 16), (''pairs'', PInt 2),
        (''target_verified_tokens_per_second'', PInt 5),
        (''every_paired_wall_ratio_below'', PInt 1),
        (''all_candidate_runs_reach_target'', PBool True), (''process_seconds'', PInt 90),
        (''validation_process_seconds'', PInt 150), (''stage_seconds'', PInt 600),
        (''observed_compression_allowed'', PBool False), (''draft_cost_included'', PBool False),
        (''assumed_acceptance'', PFloat (round_fl 1)),
        (''prime_expert_schedule'', PStr ''fixed-lease-batches-32'')]"

definition DRAFT_FLAGS :: pyval where
  "DRAFT_FLAGS =
     PDict [(''normal_request_latency_qualified'', PBool False), (''production_promoted'', PBool False),
        (''speculative_decoding_qualified'', PBool False), (''actual_draft_measured'', PBool False)]"

definition draft_configuration :: "pyval \<Rightarrow> pyval \<Rightarrow> expr" where
  "draft_configuration width expert_slots =
     check (isin (ret width) (tuple_of [num 1, num 2, num 4])) ''Unsupported verification width'' (
     check (conjs [type_in (ret expert_slots) [TInt],
          isin (ret expert_slots) (tuple_of [num 1072, num 1460])])
       ''Unsupported fixed expert capacity'' (
     dict_of [(''memory_bytes'', ret DRAFT_BUDGET), (''context'', num 8192),
        (''expert_slots'', ret expert_slots), (''artifact'', str ''mixed-4_8bit''),
        (''q4_decode'', str ''reference''), (''q8_decode_rows'', num 2),
        (''route_selection'', str ''simd''), (''residency'', str ''core-cache''),
        (''decode_scratch'', str ''reuse''), (''token_tile'', ret width),
        (''cache_policy'', str ''clock''), (''ready_group'', num 4), (''io_workers'', num 8),
        (''panel'', num 512), (''chunk'', num 128), (''decode_submission'', str ''immediate'')]))"

definition valid_work :: "pyval \<Rightarrow> expr" where
  "valid_work work =
     check (conjs [eq (set_of (ret work))
              (set_disp [str ''prompt_ids'', str ''continuation_ids'', str ''expected_next_ids'',
                   str ''expected_prompt_id'']),
          eq (size_of (item (ret work) ''prompt_ids'')) (num 72),
          conjs [eq (size_of (item (ret work) ''continuation_ids''))
                   (size_of (item (ret work) ''expected_next_ids'')),
               eq (size_of (item (ret work) ''expected_next_ids'')) (num 16)],
          every (tuple_of [str ''prompt_ids'', str ''continuation_ids'', str ''expected_next_ids'']) (\<lambda>k.
              every (index (ret work) (ret k)) (\<lambda>v.
                conjs [type_in (ret v) [TInt], conjs [le (num 0) (ret v), lt (ret v) (ret DRAFT_VOCAB)]])),
          eq (item (ret work) ''expected_prompt_id'')
              (index (item (ret work) ''continuation_ids'') (num 0)),
          eq (slice (item (ret work) ''continuation_ids'') (num 1) none)
              (slice (item (ret work) ''expected_next_ids'') none (num (- 1)))])
       ''Invalid or inconsistent fixed continuation'' (
     none)"

definition check_prime_reference :: "pyval \<Rightarrow> pyval \<Rightarrow> expr" where
  "check_prime_reference prime reference =
     check (every (tuple_of [str ''logits_sha256'', str ''state'', str ''routes'']) (\<lambda>k.
         conjs [eq (lookup (ret prime) (ret k)) (lookup (ret reference) (ret k)),
            differs (lookup (ret prime) (ret k)) none]))
       ''Stable priming changed model outputs, state or routes'' (
     none)"

definition draft_memory :: "pyval \<Rightarrow> expr" where
  "draft_memory raw =
     bnd (list_of [item (item (ret raw) ''before'') ''process'']) (\<lambda>values.
     bnd (loop (item (ret raw) ''blocks'') values (\<lambda>values block.
       bnd (list_extend (ret values)
           (each (tuple_of [str ''memory_before'', str ''memory_after'']) (\<lambda>k.
               index (ret block) (ret k)))) (\<lambda>values.
       ret values))) (\<lambda>values.
     bnd (list_extend (ret values)
         (tuple_of [item (item (ret raw) ''after'') ''process'', item (ret raw) ''process_after_destroy''])) (\<lambda>values.
     bnd (tuple_of [str ''physical_footprint_bytes'', str ''physical_footprint_peak_bytes'',
          str ''compressed_bytes'', str ''compressed_peak_bytes'', str ''decompressions'',
          str ''system_swap_used_bytes'']) (\<lambda>fields'.
     check (conjs [ret values,
          every (ret values) (\<lambda>v. every (ret fields') (\<lambda>k. call1 uint (lookup (ret v) (ret k))))])
       ''Missing memory observations'' (
     check (every (ret values) (\<lambda>v.
         conjs [conjs [lt (num 0) (item (ret v) ''physical_footprint_bytes''),
                 le (item (ret v) ''physical_footprint_bytes'')
                     (item (ret v) ''physical_footprint_peak_bytes''),
                 le (item (ret v) ''physical_footprint_peak_bytes'') (ret DRAFT_BUDGET)],
            le (item (ret v) ''compressed_bytes'') (item (ret v) ''compressed_peak_bytes'')]))
       ''Invalid or excessive process footprint'' (
     bnd (every (ret values) (\<lambda>v.
         conjs [eq (item (ret v) ''compressed_bytes'') (item (ret v) ''compressed_peak_bytes''),
            eq (item (ret v) ''compressed_peak_bytes'') (num 0)])) (\<lambda>clean.
     bnd (bit_and (ret clean)
         (conjs [eq (size_of (set_of (each (ret values) (\<lambda>v. item (ret v) ''decompressions''))))
                  (size_of (set_of (each (ret values) (\<lambda>v. item (ret v) ''system_swap_used_bytes'')))),
              eq (size_of (set_of (each (ret values) (\<lambda>v. item (ret v) ''system_swap_used_bytes''))))
                  (num 1)])) (\<lambda>clean.
     bnd (list_of [get_or (ret raw) ''host_before'' (dict_of []),
          get_or (ret raw) ''host_after'' (dict_of [])]) (\<lambda>hosts.
     bnd (every (ret hosts) (\<lambda>h.
         conjs [eq (get (ret h) ''thermal_state'') (num 0), same (get (ret h) ''low_power_mode'') no,
            isinstance (get (ret h) ''power_source'') [TStr],
            bool_of (item (ret h) ''power_source''), call1 uint (get (ret h) ''monotonic_ns'')])) (\<lambda>clean_host.
     bnd (bit_and (ret clean_host)
         (conjs [eq (get (index (ret hosts) (num 0)) ''power_source'')
                  (get (index (ret hosts) (num 1)) ''power_source''),
              le (get_or (index (ret hosts) (num 0)) ''monotonic_ns'' (num 0))
                  (get_or (index (ret hosts) (num 1)) ''monotonic_ns'' (num (- 1)))])) (\<lambda>clean_host.
     dict_of [(''clean_memory'', bool_of (ret clean)),
        (''peak_physical_bytes'', max_of (each (ret values) (\<lambda>v.
              item (ret v) ''physical_footprint_peak_bytes''))),
        (''peak_compressed_bytes'', max_of (each (ret values) (\<lambda>v.
              item (ret v) ''compressed_peak_bytes''))),
        (''clean_host'', bool_of (ret clean_host)),
        (''swap_observations_bytes'', each (ret values) (\<lambda>v.
            item (ret v) ''system_swap_used_bytes''))])))))))))))"

definition check_state :: "pyval \<Rightarrow> pyval \<Rightarrow> pyval \<Rightarrow> pyval \<Rightarrow> expr" where
  "check_state state work consumed revision =
     bnd (add (item (ret work) ''prompt_ids'')
         (slice (item (ret work) ''continuation_ids'') none (ret consumed))) (\<lambda>history.
     check (conjs [isinstance (ret state) [TDict], eq (get (ret state) ''artifact_revision'') (ret revision),
          same (get (ret state) ''valid'') yes,
          eq (get (ret state) ''tokens'') (add (num 72) (ret consumed)),
          eq (get (ret state) ''history'') (slice (ret history) (num (- 2)) none),
          eq (size_of (get_or (ret state) ''layers'' (list_of []))) (num 48)])
       ''Incomplete persistent state or changed token/ngram history'' (
     bnd (loop (numbered (item (ret state) ''layers'') 0) () (\<lambda>unused tup1.
       unpack2 tup1 (\<lambda>index' layer.
         bnd (get_or (ret layer) ''buffers'' (list_of [])) (\<lambda>buffers.
         check (conjs [eq (get (ret layer) ''position'') (add (num 72) (ret consumed)),
              eq (size_of (ret buffers)) (num 6), some (ret buffers) (\<lambda>x. ret x),
              every (ret buffers) (\<lambda>b.
                  disjs [same (ret b) none,
                     conjs [isinstance (ret b) [TDict], call1 uint (get (ret b) ''bytes''),
                          gt (item (ret b) ''bytes'') (num 0),
                          call1 valid_sha256 (get (ret b) ''sha256'')]])])
           ''Missing layer state or invalid buffer identity'' (
         bnd (branch (modulo (add (ret index') (num 1)) (num 4))
             (list_of [num 122880, num 3145728, none, none, none, none])
             (list_of [none, none, num 16777216, num 16777216, num 4194304, none])) (\<lambda>expected.
         bnd (branch (eq (ret index') (num 1))
             (bnd (put (ret expected) (num 5) (num 368640)) (\<lambda>expected.
               ret expected)) (ret expected)) (\<lambda>expected.
         check (eq (each (ret buffers) (\<lambda>b. branch (ret b) (item (ret b) ''bytes'') none))
             (ret expected)) ''Missing or changed persistent state buffer geometry'' (
         Inr ())))))))) (\<lambda>unused.
     none)))"

definition check_routes :: "pyval \<Rightarrow> pyval \<Rightarrow> expr" where
  "check_routes routes consumed =
     check (conjs [isinstance (ret routes) [TList], eq (size_of (ret routes)) (num 48),
          eq (each (ret routes) (\<lambda>r. get (ret r) ''layer'')) (list_from (range_to (num 48))),
          every (ret routes) (\<lambda>r.
              conjs [eq (get (ret r) ''tokens'') (add (num 72) (ret consumed)),
                 call1 valid_sha256 (get (ret r) ''sha256'')])])
       ''Missing full-layer routed-expert identity'' (
     none)"

definition draft_observe :: "(pyval \<Rightarrow> expr) \<Rightarrow> pyval \<Rightarrow> pyval \<Rightarrow> pyval \<Rightarrow> pyval \<Rightarrow> pyval \<Rightarrow> pyval \<Rightarrow> pyval \<Rightarrow> expr" where
  "draft_observe read_json raw frozen work width validation input_sha256 expert_slots =
     bnd (valid_work work) (\<lambda>unused.
     bnd (branch (ret validation) (num 4) (num 16)) (\<lambda>total'.
     check (conjs [eq (get (ret raw) ''kind'') (str ''perfect_draft_probe_v1''),
          same (get (ret raw) ''complete'') yes,
          eq (get (ret raw) ''prime_expert_schedule'')
              (item (ret DRAFT_CRITERIA) ''prime_expert_schedule''),
          same (get (ret raw) ''validation'') (ret validation),
          eq (get (ret raw) ''width'') (ret width),
          eq (get (ret raw) ''verified_tokens'') (ret total'),
          eq (get (ret raw) ''configuration'') (draft_configuration width expert_slots),
          eq (get (ret raw) ''runtime_kernel_policy'') (ret DRAFT_KERNEL_POLICY),
          eq (get (ret raw) ''input_sha256'') (ret input_sha256),
          eq (get (ret raw) ''artifact_revision'') (item (ret frozen) ''artifact_revision''),
          eq (get (ret raw) ''prepared_manifest_sha256'')
              (item (ret frozen) ''prepared_manifest_sha256''),
          same (get (ret raw) ''route_audit_enabled'') yes,
          same (get (ret raw) ''optimistic_upper_bound_only'') yes,
          same (get (ret raw) ''normal_request_latency_qualified'') no,
          same (get (ret raw) ''production_promoted'') no, call1 uint (get (ret raw) ''setup_ns''),
          gt (item (ret raw) ''setup_ns'') (num 0)])
       ''Incomplete verifier or changed scope/configuration/input'' (
     bnd (item (ret raw) ''memory_plan'') (\<lambda>plan.
     check (conjs [eq (get (ret plan) ''limit_bytes'') (ret DRAFT_BUDGET),
          eq (get (ret plan) ''expert_slots'') (ret expert_slots),
          eq (get (ret plan) ''panel_tokens'') (num 512),
          call1 uint (get (ret raw) ''snapshot_allocated_bytes''),
          conjs [lt (num 0) (item (ret raw) ''snapshot_allocated_bytes''),
               le (item (ret raw) ''snapshot_allocated_bytes'') (num (128 * 1024 ^ 2))],
          call1 uint (get (ret raw) ''host_logits_bound_bytes''),
          ge (item (ret raw) ''host_logits_bound_bytes'')
              (mul (mul (num 4) (ret DRAFT_VOCAB)) (num 4)),
          le (add (add (item (ret plan) ''planned_bytes'')
                  (item (ret raw) ''snapshot_allocated_bytes''))
                (item (ret raw) ''host_logits_bound_bytes'')) (ret DRAFT_BUDGET)])
       ''Snapshot/logit workspace is unaccounted or outside the fixed budget'' (
     bnd (loop (tuple_of [tuple_of [item (ret raw) ''before'', num 1],
            tuple_of [item (ret raw) ''after'', ret width]]) () (\<lambda>unused tup1.
       unpack2 tup1 (\<lambda>state tile.
         bnd (call3 check_machine (ret state) (ret frozen) (mul (num 12) (ret GiB))) (\<lambda>unused.
         bnd (call2 (check_configuration read_json) (ret state)
             (merge (dict_from (index combined_configs (num 0)))
                 (dict_of [(''token_tile'', ret tile)]))) (\<lambda>unused.
         bnd (item (ret state) ''metal'') (\<lambda>metal.
         bnd (item (ret metal) ''residency'') (\<lambda>residency.
         bnd (item (ret metal) ''kernels'') (\<lambda>kernels.
         check (conjs [eq (item (ret state) ''memory_plan'') (ret plan),
              same (get (ret state) ''diagnostic_stream_trunk'') no,
              eq (item (ret metal) ''live_command_groups'') (num 0),
              le (item (ret metal) ''peak_command_groups'') (num 2),
              same (get (ret state) ''completion_pipeline'') yes,
              same (get (ret kernels) ''profile'') no,
              same (get (ret kernels) ''counter_profile'') no,
              same (get (ret kernels) ''profile_decode_only'') no,
              eq (item (ret residency) ''mode'') (str ''core-cache''),
              eq (item (ret residency) ''pending_retirements'') (num 0),
              eq (item (item (ret residency) ''bytes_by_class'') ''expert'')
                  (item (ret plan) ''expert_bytes'')])
           ''Outstanding users, changed workspace, residency or instrumentation'' (
         Inr ()))))))))) (\<lambda>unused.
     bnd (get_or (ret raw) ''prime'' (dict_of [])) (\<lambda>prime.
     check (conjs [call1 valid_sha256 (get (ret prime) ''logits_sha256''),
          call1 valid_sha256 (get (ret prime) ''cache_state''), get (ret prime) ''state'',
          get (ret prime) ''routes'']) ''Missing prompt logits, state or route identity'' (
     bnd (call4 check_state (item (ret prime) ''state'') (ret work) (num 0)
         (item (ret frozen) ''artifact_revision'')) (\<lambda>unused.
     bnd (call2 check_routes (item (ret prime) ''routes'') (num 0)) (\<lambda>unused.
     bnd (get_or (ret raw) ''blocks'' (list_of [])) (\<lambda>blocks.
     check (eq (size_of (ret blocks)) (floordiv (ret total') (ret width)))
       ''Missing or duplicated verification block'' (
     bnd (list_of []) (\<lambda>hashes.
     bnd (list_of []) (\<lambda>endpoints.
     bnd (num 0) (\<lambda>wall.
     bnd (loop (numbered (ret blocks) 0) (hashes, wall, endpoints) (\<lambda>(hashes, wall, endpoints) tup2.
       unpack2 tup2 (\<lambda>i block.
         bnd (mul (ret i) (ret width)) (\<lambda>consumed.
         check (conjs [eq (get (ret block) ''offset'') (add (num 72) (ret consumed)),
              eq (get (ret block) ''input_tokens'')
                  (slice (item (ret work) ''continuation_ids'') (ret consumed)
                      (add (ret consumed) (ret width))),
              eq (get (ret block) ''next_ids'')
                  (slice (item (ret work) ''expected_next_ids'') (ret consumed)
                      (add (ret consumed) (ret width))),
              isinstance (get (ret block) ''logits_sha256'') [TList],
              eq (size_of (item (ret block) ''logits_sha256'')) (ret width),
              every (item (ret block) ''logits_sha256'') (\<lambda>v. valid_sha256 v)])
           ''Incomplete token/logit/state/route coverage or greedy mismatch'' (
         bnd (disjs [ret validation, eq (modulo (add (ret consumed) (ret width)) (num 4)) (num 0)]) (\<lambda>checkpointed.
         bnd (branch (ret checkpointed)
             (bnd (call4 check_state (item (ret block) ''state'') (ret work)
                   (add (ret consumed) (ret width)) (item (ret frozen) ''artifact_revision'')) (\<lambda>unused.
               bnd (call2 check_routes (item (ret block) ''routes'')
                   (add (ret consumed) (ret width))) (\<lambda>unused.
               Inr ())))
             (check (conjs [same (get (ret block) ''state'') none, same (get (ret block) ''routes'') none])
                 ''Unplanned state/route scan between common timing boundaries'' (
               Inr ()))) (\<lambda>unused.
         bnd (each (tuple_of [str ''checkpoint_ns'', str ''forward_ns'', str ''accept_ns'', str ''wall_ns'']) (\<lambda>k.
             lookup (ret block) (ret k))) (\<lambda>times.
         check (conjs [every (ret times) (\<lambda>v. uint v), gt (index (ret times) (num 1)) (num 0),
              gt (index (ret times) (num 2)) (num 0),
              ge (index (ret times) (num 3)) (sum_of (slice (ret times) none (num 3))),
              branch (eq (ret width) (num 1)) (eq (index (ret times) (num 0)) (num 0))
                  (gt (index (ret times) (num 0)) (num 0))])
           ''Invalid or incomplete checkpoint/forward/acceptance timing'' (
         bnd (list_extend (ret hashes) (item (ret block) ''logits_sha256'')) (\<lambda>hashes.
         bnd (add (ret wall) (item (ret block) ''wall_ns'')) (\<lambda>wall.
         bnd (branch (ret checkpointed)
             (bnd (append (ret endpoints)
                   (dict_of [(''consumed'', add (ret consumed) (ret width)),
                        (''state'', item (ret block) ''state''),
                        (''routes'', item (ret block) ''routes'')])) (\<lambda>endpoints.
               ret endpoints)) (ret endpoints)) (\<lambda>endpoints.
         Inr (hashes, wall, endpoints))))))))))))) (\<lambda>(hashes, wall, endpoints).
     check (conjs [eq (get (ret raw) ''final_state'') (item (index (ret blocks) (num (- 1))) ''state''),
          eq (get (ret raw) ''decode_wall_ns'') (ret wall),
          type_in (get (ret raw) ''verified_tokens_per_second'') [TInt, TFloat],
          isfinite (item (ret raw) ''verified_tokens_per_second''),
          isclose (item (ret raw) ''verified_tokens_per_second'')
              (truediv (mul (ret total') (flt 1000000000)) (ret wall)) (1 / 10000000000) 0])
       ''Final state or measured throughput does not reconcile'' (
     bnd (branch (conjs [ret validation, gt (ret width) (num 1)])
         (add (list_of [str ''causal_prefix_unchanged'', str ''zero_accept_restores_state''])
             (each (range_between (num 1) (ret width)) (\<lambda>k.
                 format_of [str ''accepted_prefix_replay_'', ret k]))) (list_of [])) (\<lambda>expected_checks.
     check (conjs [isinstance (get (ret raw) ''rollback_checks'') [TList],
          eq (each (item (ret raw) ''rollback_checks'') (\<lambda>c. get (ret c) ''name''))
              (ret expected_checks),
          every (item (ret raw) ''rollback_checks'') (\<lambda>c. same (get (ret c) ''passed'') yes)])
       ''Missing, duplicate or failed rollback checks'' (
     bnd (branch (nay (ret validation))
         (bnd (item (ret raw) ''before'') (\<lambda>before.
           bnd (item (ret raw) ''after'') (\<lambda>after.
           bnd (item (ret before) ''metal'') (\<lambda>a.
           bnd (item (ret after) ''metal'') (\<lambda>b.
           check (conjs [every (tuple_of [ret a, ret b]) (\<lambda>s.
                    every (tuple_of [str ''dispatches'', str ''submissions'', str ''gpu_command_ns'']) (\<lambda>k.
                      call1 uint (lookup (ret s) (ret k)))),
                every (tuple_of [str ''dispatches'', str ''submissions'', str ''gpu_command_ns'']) (\<lambda>k.
                    gt (index (ret b) (ret k)) (index (ret a) (ret k)))])
             ''Missing native execution counters'' (
           bnd (each_dict (union_of (set_of (item (ret a) ''kernel_dispatches''))
                 (set_of (item (ret b) ''kernel_dispatches''))) (\<lambda>k. ret k) (\<lambda>k.
               sub (lookup_or (item (ret b) ''kernel_dispatches'') (ret k) (num 0))
                 (lookup_or (item (ret a) ''kernel_dispatches'') (ret k) (num 0)))) (\<lambda>delta.
           check (conjs [every (values_of (ret delta)) (\<lambda>v. uint v),
                eq (sum_of (values_of (ret delta)))
                    (sub (item (ret b) ''dispatches'') (item (ret a) ''dispatches''))])
             ''Native dispatch population does not reconcile'' (
           check (conjs [conjs [eq (size_of (get_or (ret before) ''layer_expert_passes'' (list_of [])))
                         (size_of (get_or (ret after) ''layer_expert_passes'' (list_of []))),
                     eq (size_of (get_or (ret after) ''layer_expert_passes'' (list_of [])))
                         (num 48)],
                every (zip_of (item (ret before) ''layer_expert_passes'')
                      (item (ret after) ''layer_expert_passes'')) (\<lambda>tup3.
                    unpack2 tup3 (\<lambda>a b.
                      eq (sub (ret b) (ret a)) (floordiv (ret total') (ret width)))),
                every (tuple_of [str ''decode'', str ''short_append'', str ''prefill'', str ''panel'']) (\<lambda>name.
                    eq (sub (index (item (ret after) ''passes'') (ret name))
                        (index (item (ret before) ''passes'') (ret name)))
                      (branch (eq (ret name)
                            (branch (eq (ret width) (num 1)) (str ''decode'') (str ''short_append'')))
                          (floordiv (ret total') (ret width)) (num 0)))])
             ''Missing full-layer forward coverage or unplanned schedule work'' (
           Inr ()))))))))) (Inr ())) (\<lambda>unused.
     bnd (draft_memory raw) (\<lambda>memory.
     merge (dict_of [(''width'', ret width), (''validation'', ret validation),
          (''verified_tokens'', ret total'), (''prime'', ret prime),
          (''row_logits_sha256'', ret hashes), (''endpoints'', ret endpoints),
          (''snapshot_allocated_bytes'', item (ret raw) ''snapshot_allocated_bytes''),
          (''host_logits_bound_bytes'', item (ret raw) ''host_logits_bound_bytes''),
          (''decode_wall_ns'', ret wall),
          (''verified_tokens_per_second'', truediv (mul (ret total') (flt 1000000000)) (ret wall)),
          (''checkpoint_ns'', sum_of (each (ret blocks) (\<lambda>b. item (ret b) ''checkpoint_ns''))),
          (''forward_ns'', sum_of (each (ret blocks) (\<lambda>b. item (ret b) ''forward_ns''))),
          (''accept_ns'', sum_of (each (ret blocks) (\<lambda>b. item (ret b) ''accept_ns''))),
          (''setup_ns'', item (ret raw) ''setup_ns''),
          (''rollback_checks'', item (ret raw) ''rollback_checks'')]) (ret memory))))))))))))))))))))))"

definition draft_compare :: "pyval \<Rightarrow> pyval \<Rightarrow> expr" where
  "draft_compare reference candidate =
     check (conjs [eq (item (ret reference) ''width'') (num 1),
          isin (item (ret candidate) ''width'') (tuple_of [num 2, num 4]),
          eq (item (ret reference) ''validation'') (item (ret candidate) ''validation''),
          eq (item (ret reference) ''verified_tokens'') (item (ret candidate) ''verified_tokens'')])
       ''Incompatible verifier comparison'' (
     check (conjs [eq (item (ret reference) ''prime'') (item (ret candidate) ''prime''),
          eq (item (ret reference) ''row_logits_sha256'')
              (item (ret candidate) ''row_logits_sha256''),
          eq (item (ret reference) ''snapshot_allocated_bytes'')
              (item (ret candidate) ''snapshot_allocated_bytes''),
          eq (item (ret reference) ''host_logits_bound_bytes'')
              (item (ret candidate) ''host_logits_bound_bytes'')])
       ''Block verification changed prompt, row logits or reserved allocation'' (
     bnd (each_dict (item (ret reference) ''endpoints'') (\<lambda>p. item (ret p) ''consumed'') (\<lambda>p. ret p)) (\<lambda>by_prefix.
     check (every (item (ret candidate) ''endpoints'') (\<lambda>p.
         eq (ret p) (lookup (ret by_prefix) (item (ret p) ''consumed''))))
       ''Block verification changed persistent state or exact routes'' (
     bnd (branch (item (ret candidate) ''validation'')
         (bnd (each_dict (item (ret candidate) ''rollback_checks'') (\<lambda>c. item (ret c) ''name'') (\<lambda>c.
               ret c)) (\<lambda>checks.
           check (conjs [eq (get (item (ret checks) ''zero_accept_restores_state'') ''recovery_state'')
                    (item (item (ret reference) ''prime'') ''state''),
                eq (get (item (ret checks) ''causal_prefix_unchanged'') ''logits_sha256'')
                    (slice (item (ret reference) ''row_logits_sha256'') none
                        (sub (item (ret candidate) ''width'') (num 1)))])
             ''Zero acceptance or causal-prefix validation differs from serial reference'' (
           bnd (loop (range_between (num 1) (item (ret candidate) ''width'')) () (\<lambda>unused count.
             bnd (index (ret checks) (format_of [str ''accepted_prefix_replay_'', ret count])) (\<lambda>check'.
             check (conjs [eq (get (ret check') ''recovery_state'')
                      (item (index (ret by_prefix) (ret count)) ''state''),
                  eq (get (ret check') ''logits_sha256'')
                      (index (item (ret reference) ''row_logits_sha256'') (sub (ret count) (num 1)))])
               ''Accepted-prefix recovery differs from serial reference'' (
             Inr ())))) (\<lambda>unused.
           Inr ())))) (Inr ())) (\<lambda>unused.
     dict_of [(''exact_row_logits'', yes), (''exact_matching_prefix_state'', yes),
        (''exact_routes'', yes), (''width'', item (ret candidate) ''width''),
        (''matched_prefixes'', size_of (item (ret candidate) ''endpoints''))])))))"

definition draft_decide :: "pyval \<Rightarrow> expr" where
  "draft_decide measurements' =
     check (eq (each (ret measurements') (\<lambda>m.
           tuple_of [item (ret m) ''pair'', item (item (ret m) ''observation'') ''width'']))
         (ret DRAFT_ORDER)) ''Missing, duplicated or reordered alternating timing rounds'' (
     bnd (each_dict (ret measurements') (\<lambda>m.
         tuple_of [item (ret m) ''pair'', item (item (ret m) ''observation'') ''width'']) (\<lambda>m.
         item (ret m) ''observation'')) (\<lambda>by.
     check (every (values_of (ret by)) (\<lambda>v.
         conjs [nay (item (ret v) ''validation''), eq (item (ret v) ''verified_tokens'') (num 16)]))
       ''Validation or short work cannot qualify the timing screen'' (
     check (every (values_of (ret by)) (\<lambda>v.
         conjs [call1 uint (item (ret v) ''decode_wall_ns''),
            gt (item (ret v) ''decode_wall_ns'') (num 0),
            type_in (item (ret v) ''verified_tokens_per_second'') [TInt, TFloat],
            isfinite (item (ret v) ''verified_tokens_per_second''),
            isclose (item (ret v) ''verified_tokens_per_second'')
                (truediv (flt 16000000000) (item (ret v) ''decode_wall_ns'')) (1 / 10000000000) 0]))
       ''Invalid or inconsistent verifier throughput'' (
     check (every (values_of (ret by)) (\<lambda>v.
         conjs [eq (item (ret v) ''prime'') (item (index (ret by) (tuple_of [num 0, num 1])) ''prime''),
            eq (item (ret v) ''row_logits_sha256'')
                (item (index (ret by) (tuple_of [num 0, num 1])) ''row_logits_sha256'')]))
       ''Initial cache state or exact outputs changed across fresh rounds'' (
     bnd (every (values_of (ret by)) (\<lambda>v.
         conjs [item (ret v) ''clean_memory'', item (ret v) ''clean_host''])) (\<lambda>clean.
     bnd (list_of []) (\<lambda>candidates.
     bnd (loop (tuple_of [num 2, num 4]) candidates (\<lambda>candidates width.
       bnd (each (tuple_of [num 0, num 1]) (\<lambda>p.
           call2 draft_compare (index (ret by) (tuple_of [ret p, num 1]))
             (index (ret by) (tuple_of [ret p, ret width])))) (\<lambda>proof.
       bnd (each (tuple_of [num 0, num 1]) (\<lambda>p.
           truediv (item (index (ret by) (tuple_of [ret p, ret width])) ''decode_wall_ns'')
             (item (index (ret by) (tuple_of [ret p, num 1])) ''decode_wall_ns''))) (\<lambda>ratios.
       bnd (each (tuple_of [num 0, num 1]) (\<lambda>p.
           item (index (ret by) (tuple_of [ret p, ret width])) ''verified_tokens_per_second'')) (\<lambda>speeds.
       bnd (conjs [ret clean, every (ret ratios) (\<lambda>r. lt (ret r) (num 1)),
            ge (min_of (ret speeds)) (num 5)]) (\<lambda>passed.
       bnd (append (ret candidates)
           (dict_of [(''width'', ret width), (''paired_wall_ratios'', ret ratios),
                (''median_wall_ratio'', median (ret ratios)),
                (''verified_tokens_per_second'', ret speeds),
                (''median_verified_tokens_per_second'', median (ret speeds)),
                (''correctness'', ret proof), (''optimistic_screen_passed'', ret passed),
                (''confidence_95'', none)])) (\<lambda>candidates.
       ret candidates))))))) (\<lambda>candidates.
     bnd (each_if (ret candidates) (\<lambda>c. item (ret c) ''optimistic_screen_passed'') (\<lambda>c.
         item (ret c) ''width'')) (\<lambda>promising.
     merge (dict_of [(''status'', branch (nay (ret clean)) (str ''memory_disturbed'')
              (branch (ret promising) (str ''perfect_verifier_promising'')
                  (str ''perfect_verifier_below_gate''))),
          (''clean_memory'', ret clean), (''candidates'', ret candidates),
          (''promising_widths'', ret promising), (''actual_draft_tokens_per_second'', none),
          (''accepted_fraction_assumed'', flt 1), (''draft_cost_included'', no)]) (ret DRAFT_FLAGS))))))))))"

end
