(* ===== verification/BlockProfile.thy ===== *)
theory BlockProfile
  imports NativeReplay PerfectDraft
begin

text \<open>
  Block compute profiles (\<open>scripts/qwen/block_compute_profile.py\<close>).
\<close>

definition WORKSPACE :: pyval where
  "WORKSPACE = PInt (512 * 1024 ^ 2)"

definition COMPUTE_LIMITATIONS :: pyval where
  "COMPUTE_LIMITATIONS =
     PList [PStr
            (''Four fixed four-token blocks after a 72-token prompt; no long-context, real-draft or sustained-use qualification.''),
        PStr
            (''Command profiling preserves submissions but adds metadata collection; per-dispatch profiling additionally splits compute passes. Neither measures normal speed.''),
        PStr
            (''Exclusive overlap buckets describe observed concurrency, not causality or removable latency. Mixed commands are never charged in full to each kernel.''),
        PStr
            (''Counter durations rank actual four-token work but cannot be subtracted from normal request latency or joined across different processes as one timeline.''),
        PStr
            (''Only complete clean captures may support a next experiment; no production promotion or automatic kernel selection.'')]"

definition exact_observation :: "(pyval \<Rightarrow> expr) \<Rightarrow> pyval \<Rightarrow> pyval \<Rightarrow> pyval \<Rightarrow> pyval \<Rightarrow> pyval \<Rightarrow> pyval \<Rightarrow> expr" where
  "exact_observation read_json raw frozen work input_sha reference mode =
     check (conjs [isin (ret mode) (tuple_of [str ''commands'', str ''dispatch'']),
          eq (get (ret raw) ''block_profile_mode'') (ret mode),
          eq (get (ret raw) ''profile_workspace_bytes'') (ret WORKSPACE)])
       ''Changed profiling mode or workspace'' (
     bnd (ret raw) (\<lambda>normalized.
     bnd (loop (tuple_of [str ''before'', str ''after'']) normalized (\<lambda>normalized when.
       bnd (item (item (index (ret raw) (ret when)) ''metal'') ''kernels'') (\<lambda>kernels.
       check (conjs [same (item (ret kernels) ''profile'') (eq (ret when) (str ''after'')),
            same (item (ret kernels) ''counter_profile'')
                (conjs [eq (ret when) (str ''after''), eq (ret mode) (str ''dispatch'')]),
            same (item (ret kernels) ''profile_decode_only'') no]) ''Unexpected profiling phase'' (
       bnd (put (ret normalized) (ret when)
           (put (index (ret normalized) (ret when)) (str ''metal'')
               (put (item (index (ret normalized) (ret when)) ''metal'') (str ''kernels'')
                   (put (item (item (index (ret normalized) (ret when)) ''metal'') ''kernels'')
                       (str ''profile'') no)))) (\<lambda>normalized.
       bnd (put (ret normalized) (ret when)
           (put (index (ret normalized) (ret when)) (str ''metal'')
               (put (item (index (ret normalized) (ret when)) ''metal'') (str ''kernels'')
                   (put (item (item (index (ret normalized) (ret when)) ''metal'') ''kernels'')
                       (str ''counter_profile'') no)))) (\<lambda>normalized.
       ret normalized)))))) (\<lambda>normalized.
     bnd (draft_observe read_json normalized frozen work (PInt 4) (PBool False) input_sha
         (PInt 1460)) (\<lambda>actual.
     bnd (draft_observe read_json reference frozen work (PInt 4) (PBool False) input_sha (PInt 1460)) (\<lambda>control.
     check (every (tuple_of [str ''prime'', str ''row_logits_sha256'', str ''endpoints'',
            str ''snapshot_allocated_bytes'', str ''host_logits_bound_bytes'']) (\<lambda>k.
         eq (index (ret actual) (ret k)) (index (ret control) (ret k))))
       ''Profile changed exact model results or prime cache'' (
     check (le (add (add (add (item (item (ret raw) ''memory_plan'') ''planned_bytes'')
               (num (128 * 1024 ^ 2))) (item (ret raw) ''host_logits_bound_bytes'')) (ret WORKSPACE))
         (ret DRAFT_BUDGET)) ''Profile workspace is not admitted'' (
     merge (dict_of [(''exact_logits_state_routes'', yes), (''exact_initial_cache'', yes)])
       (each_dict (tuple_of [str ''clean_memory'', str ''clean_host'', str ''peak_physical_bytes'',
              str ''peak_compressed_bytes'']) (\<lambda>k. ret k) (\<lambda>k. index (ret actual) (ret k))))))))))"

definition analyze_block :: "(pfloat \<Rightarrow> string) \<Rightarrow> (string \<Rightarrow> string) \<Rightarrow> pyval \<Rightarrow> pyval \<Rightarrow> pyval \<Rightarrow> pyval \<Rightarrow> pyval \<Rightarrow> pyval \<Rightarrow> pyval \<Rightarrow> pyval \<Rightarrow> expr" where
  "analyze_block float_repr sha256 block profile build revision mode tokens' expert_geometry entry_limit =
     check (conjs [type_in (ret tokens') [TInt], isin (ret tokens') (tuple_of [num 1, num 2, num 4]),
          isin (ret expert_geometry) (tuple_of [str ''scatter'', str ''down_projection'']),
          disjs [ne (ret expert_geometry) (str ''scatter''), eq (ret tokens') (num 4)]])
       ''Unsupported expert geometry'' (
     bnd (item (ret block) ''offset'') (\<lambda>offset.
     bnd (call1 ns (item (ret block) ''forward_begin_ns'')) (\<lambda>begin.
     bnd (call1 ns (item (ret block) ''forward_end_ns'')) (\<lambda>end.
     check (conjs [gt (ret end) (ret begin),
          eq (sub (ret end) (ret begin)) (item (ret block) ''forward_ns'')])
       ''Invalid forward timestamps'' (
     check (conjs [same (get (ret profile) ''truncated'') no,
          eq (get (ret profile) ''coverage'') (str ''all-dispatches''),
          eq (get (ret profile) ''entry_limit'') (ret entry_limit),
          eq (get (ret profile) ''dependency_capture_limits'')
              (dict_of [(''passes_per_phase'', num 48), (''read_records_per_phase'', num 8192)])])
       ''Incomplete or changed profile bounds'' (
     bnd (branch (eq (ret mode) (str ''dispatch''))
         (str ''instrumented per-dispatch compute passes; submission boundaries preserved'')
         (str ''existing command groups; mixed stages are not isolated kernel costs'')) (\<lambda>expected_kind.
     check (eq (get (ret profile) ''timing_kind'') (ret expected_kind))
       ''Changed counter instrumentation'' (
     bnd (item (ret profile) ''command_groups'') (\<lambda>groups.
     bnd (item (ret profile) ''expert_dependencies'') (\<lambda>deps.
     bnd (dict_of []) (\<lambda>by_submit.
     bnd (list_of []) (\<lambda>intervals.
     bnd (dict_of []) (\<lambda>kernels.
     bnd (dict_of []) (\<lambda>signatures.
     bnd (dict_of []) (\<lambda>routers.
     bnd (dict_of []) (\<lambda>operations.
     bnd (dict_of []) (\<lambda>expert_rows.
     bnd (dict_of []) (\<lambda>outputs_by_layer.
     bnd (dict_of []) (\<lambda>scatters_by_layer.
     bnd (loop (ret groups)
         ((by_submit, intervals, kernels, signatures, routers, operations, scatters_by_layer, expert_rows, outputs_by_layer)) (\<lambda>(by_submit, intervals, kernels, signatures, routers, operations, scatters_by_layer, expert_rows, outputs_by_layer) g.
       bnd (call1 ns (item (ret g) ''submitted_ns'')) (\<lambda>submitted.
       bnd (call1 ns (item (ret g) ''completed_ns'')) (\<lambda>completed.
       bnd (call1 ns (mul (item (ret g) ''gpu_start_seconds'') (flt 1000000000))) (\<lambda>start.
       bnd (call1 ns (mul (item (ret g) ''gpu_end_seconds'') (flt 1000000000))) (\<lambda>stop.
       check (conjs [conjs [le (ret begin) (ret submitted), le (ret submitted) (ret start),
                 le (ret start) (ret stop), le (ret stop) (ret completed),
                 le (ret completed) (ret end)],
            notin (ret submitted) (ret by_submit)])
         ''Missing, reversed, duplicate or out-of-block command timestamps'' (
       bnd (put (ret by_submit) (ret submitted) (ret g)) (\<lambda>by_submit.
       bnd (add (ret intervals)
           (list_of [tuple_of [str ''gpu_active'', ret start, ret stop],
                tuple_of [str ''gpu_idle_submitted'', ret submitted, ret start],
                tuple_of [str ''gpu_idle_callback'', ret stop, ret completed]])) (\<lambda>intervals.
       bnd (item (ret g) ''operations'') (\<lambda>ops.
       check (bool_of (ret ops)) ''Empty captured command'' (
       bnd (branch (eq (ret mode) (str ''dispatch''))
           (check (eq (each (ret ops) (\<lambda>o'. get (ret o') ''counter_index''))
                 (list_from (range_step (num 0) (mul (num 2) (size_of (ret ops))) (num 2))))
               ''Missing or duplicate GPU counters'' (
             Inr ())) (Inr ())) (\<lambda>unused.
       bnd (loop (ret ops)
           ((kernels, signatures, routers, scatters_by_layer, expert_rows, outputs_by_layer, operations)) (\<lambda>(kernels, signatures, routers, scatters_by_layer, expert_rows, outputs_by_layer, operations) op.
         check (conjs [eq (item (ret op) ''request_phase'') (str ''decode''),
              eq (item (ret op) ''offset'') (ret offset), type_in (item (ret op) ''layer'') [TInt],
              conjs [le (num (- 1)) (item (ret op) ''layer''), lt (item (ret op) ''layer'') (num 48)],
              type_in (item (ret op) ''tokens'') [TInt],
              conjs [le (num 1) (item (ret op) ''tokens''),
                   le (item (ret op) ''tokens'') (ret tokens')],
              isinstance (item (ret op) ''stage'') [TStr], bool_of (item (ret op) ''stage''),
              isinstance (item (ret op) ''kernel'') [TStr]]) ''Changed block operation scope'' (
         bnd (get_or (ret op) ''matrix'' (dict_of [])) (\<lambda>matrix.
         bnd (tuple_of [get (ret matrix) ''K'', get (ret matrix) ''N'', get (ret matrix) ''rows'']) (\<lambda>shape.
         bnd (put (ret kernels) (item (ret op) ''kernel'')
             (add (lookup_or (ret kernels) (item (ret op) ''kernel'') (num 0)) (num 1))) (\<lambda>kernels.
         bnd (put (ret signatures)
             (tuple_from (list_extend (list_of [ret offset, item (ret op) ''layer'', item (ret op) ''stage'',
                      item (ret op) ''kernel'', item (ret op) ''tokens'']) (list_from (ret shape))))
             (add (lookup_or (ret signatures)
                   (tuple_from (list_extend (list_of [ret offset, item (ret op) ''layer'', item (ret op) ''stage'',
                            item (ret op) ''kernel'', item (ret op) ''tokens''])
                         (list_from (ret shape)))) (num 0)) (num 1))) (\<lambda>signatures.
         bnd (branch (eq (item (ret op) ''kernel'') (str ''route_simd''))
             (bnd (put (ret routers) (item (ret op) ''layer'')
                   (add (lookup_or (ret routers) (item (ret op) ''layer'') (num 0)) (num 1))) (\<lambda>routers.
               ret routers)) (ret routers)) (\<lambda>routers.
         bnd (branch (eq (item (ret op) ''stage'') (str ''routed_expert''))
             (bnd (branch (eq (item (ret op) ''kernel'') (str ''scatter_experts''))
                   (bnd (put (ret scatters_by_layer) (item (ret op) ''layer'')
                         (put (lookup_or (ret scatters_by_layer) (item (ret op) ''layer'')
                               (dict_of [])) (item (ret op) ''tokens'')
                             (add (lookup_or (lookup_or (ret scatters_by_layer)
                                     (item (ret op) ''layer'') (dict_of []))
                                   (item (ret op) ''tokens'') (num 0)) (num 1)))) (\<lambda>scatters_by_layer.
                     bnd (branch (eq (ret expert_geometry) (str ''scatter''))
                         (bnd (put (ret expert_rows) (item (ret op) ''tokens'')
                               (add (lookup_or (ret expert_rows) (item (ret op) ''tokens'') (num 0))
                                   (num 1))) (\<lambda>expert_rows.
                           ret expert_rows)) (ret expert_rows)) (\<lambda>expert_rows.
                     Inr (scatters_by_layer, expert_rows)))) (Inr (scatters_by_layer, expert_rows))) (\<lambda>(scatters_by_layer, expert_rows).
               bnd (branch (conjs [eq (ret expert_geometry) (str ''down_projection''),
                      eq (get (ret matrix) ''K'') (num 640), eq (get (ret matrix) ''N'') (num 2560)])
                   (check (conjs [eq (get (ret matrix) ''bits'') (num 4),
                          eq (get (ret matrix) ''group'') (num 64),
                          same (get (ret matrix) ''quantized'') yes,
                          eq (get (ret matrix) ''rows'') (item (ret op) ''tokens''),
                          startswith (item (ret op) ''kernel'') (str ''q4_mm'')])
                       ''Changed expert output projection'' (
                     bnd (put (ret expert_rows) (item (ret op) ''tokens'')
                         (add (lookup_or (ret expert_rows) (item (ret op) ''tokens'') (num 0))
                             (num 1))) (\<lambda>expert_rows.
                     bnd (put (ret outputs_by_layer) (item (ret op) ''layer'')
                         (put (lookup_or (ret outputs_by_layer) (item (ret op) ''layer'')
                               (dict_of [])) (item (ret op) ''tokens'')
                             (add (lookup_or (lookup_or (ret outputs_by_layer)
                                     (item (ret op) ''layer'') (dict_of []))
                                   (item (ret op) ''tokens'') (num 0)) (num 1)))) (\<lambda>outputs_by_layer.
                     Inr (expert_rows, outputs_by_layer))))) (Inr (expert_rows, outputs_by_layer))) (\<lambda>(expert_rows, outputs_by_layer).
               Inr (scatters_by_layer, expert_rows, outputs_by_layer))))
             (Inr (scatters_by_layer, expert_rows, outputs_by_layer))) (\<lambda>(scatters_by_layer, expert_rows, outputs_by_layer).
         bnd (branch (eq (ret mode) (str ''dispatch''))
             (bnd (get (ret op) ''gpu_pass_ns'') (\<lambda>duration.
               check (conjs [type_in (ret duration) [TInt], gt (ret duration) (num 0),
                    type_in (get (ret op) ''gpu_begin_ticks'') [TInt],
                    type_in (get (ret op) ''gpu_end_ticks'') [TInt],
                    gt (item (ret op) ''gpu_end_ticks'') (item (ret op) ''gpu_begin_ticks'')])
                 ''Invalid GPU pass duration'' (
               bnd (tuple_from (list_extend (list_of [item (ret op) ''stage'', item (ret op) ''kernel''])
                     (list_from (ret shape)))) (\<lambda>key.
               bnd (put (ret operations) (ret key)
                   (put (lookup_or (ret operations) (ret key) (list_of [num 0, num 0])) (num 0)
                       (add (index (lookup_or (ret operations) (ret key) (list_of [num 0, num 0]))
                             (num 0)) (ret duration)))) (\<lambda>operations.
               bnd (put (ret operations) (ret key)
                   (put (lookup_or (ret operations) (ret key) (list_of [num 0, num 0])) (num 1)
                       (add (index (lookup_or (ret operations) (ret key) (list_of [num 0, num 0]))
                             (num 1)) (num 1)))) (\<lambda>operations.
               ret operations))))))
             (check (notin (str ''gpu_pass_ns'') (ret op)) ''Unexpected counter duration'' (
               ret operations))) (\<lambda>operations.
         Inr
           ((kernels, signatures, routers, scatters_by_layer, expert_rows, outputs_by_layer, operations)))))))))))) (\<lambda>(kernels, signatures, routers, scatters_by_layer, expert_rows, outputs_by_layer, operations).
       Inr
         ((by_submit, intervals, kernels, signatures, routers, operations, scatters_by_layer, expert_rows, outputs_by_layer))))))))))))))) (\<lambda>(by_submit, intervals, kernels, signatures, routers, operations, scatters_by_layer, expert_rows, outputs_by_layer).
     check (conjs [conjs [lt (num 0) (sum_of (values_of (ret kernels))),
               le (sum_of (values_of (ret kernels))) (num 20000)],
          counter_eq (ret routers) (each_dict (range_to (num 48)) (\<lambda>i. ret i) (\<lambda>i. num 1))])
       ''Missing block dispatch/layer coverage'' (
     check (conjs [eq (size_of (ret deps)) (num 48),
          eq (sorted_of (each (ret deps) (\<lambda>d. item (ret d) ''layer'')))
              (list_from (range_to (num 48)))]) ''Missing or duplicate dependency layer'' (
     bnd (dict_of []) (\<lambda>reads.
     bnd (list_of []) (\<lambda>queues.
     bnd (list_of []) (\<lambda>services.
     bnd (list_of []) (\<lambda>ready_delays.
     bnd (list_of []) (\<lambda>per_layer.
     bnd (list_of []) (\<lambda>routes.
     bnd (loop (ret deps) (routes, reads, ready_delays, queues, services, intervals, per_layer) (\<lambda>(routes, reads, ready_delays, queues, services, intervals, per_layer) d.
       check (conjs [eq (item (ret d) ''offset'') (ret offset), eq (item (ret d) ''tokens'') (ret tokens'),
            eq (item (ret d) ''request_phase'') (str ''decode''),
            eq (item (ret d) ''build'') (ret build),
            eq (item (ret d) ''artifact_revision'') (ret revision)]) ''Dependency identity differs'' (
       bnd (item (ret d) ''routes'') (\<lambda>route.
       check (conjs [eq (size_of (ret route)) (mul (ret tokens') (num 10)),
            every (ret route) (\<lambda>e.
                conjs [type_in (ret e) [TInt], conjs [le (num 0) (ret e), lt (ret e) (num 512)]]),
            every (range_step (num 0) (mul (ret tokens') (num 10)) (num 10)) (\<lambda>t.
                eq (size_of (set_of (slice (ret route) (ret t) (add (ret t) (num 10))))) (num 10))])
         ''Invalid top-ten routes'' (
       bnd (branch (eq (ret expert_geometry) (str ''down_projection''))
           (bnd (counter_of (values_of (counter_of (ret route)))) (\<lambda>expected.
             bnd (each_dict (each_if (items_of (ret expected)) (\<lambda>tup1.
                   unpack2 tup1 (\<lambda>n c. disjs [ne (ret tokens') (num 4), ne (ret n) (num 1)])) (\<lambda>x.
                   ret x)) (\<lambda>tup2. unpack2 tup2 (\<lambda>n c. ret n)) (\<lambda>tup3. unpack2 tup3 (\<lambda>n c. ret c))) (\<lambda>scatter_expected.
             check (conjs [counter_eq (lookup_or (ret outputs_by_layer) (item (ret d) ''layer'')
                        (dict_of [])) (ret expected),
                  counter_eq (lookup_or (ret scatters_by_layer) (item (ret d) ''layer'')
                        (dict_of [])) (ret scatter_expected)])
               ''Expert output/scatter geometry differs from selected routes'' (
             Inr ())))) (Inr ())) (\<lambda>unused.
       bnd (item (ret d) ''records'') (\<lambda>records.
       bnd (set_of (ret route)) (\<lambda>selected.
       check (conjs [eq (size_of (ret records)) (size_of (ret selected)),
            eq (set_of (each (ret records) (\<lambda>r. item (ret r) ''expert''))) (ret selected)])
         ''Incomplete selected-expert coverage'' (
       bnd (append (ret routes) (tuple_of [ret offset, item (ret d) ''layer'', ret route])) (\<lambda>routes.
       bnd (list_of []) (\<lambda>layer_intervals.
       bnd (num 0) (\<lambda>last_gpu.
       bnd (dict_of []) (\<lambda>layer_reads.
       bnd (loop (ret records)
           (reads, layer_reads, layer_intervals, queues, services, ready_delays, last_gpu) (\<lambda>(reads, layer_reads, layer_intervals, queues, services, ready_delays, last_gpu) r.
         bnd (each (tuple_of [str ''admitted_ns'', str ''encoded_ns'', str ''submitted_ns'', str ''released_ns'']) (\<lambda>k.
             call1 ns (index (ret r) (ret k)))) (\<lambda>tup4.
         unpack4 tup4 (\<lambda>admitted encoded submitted released.
         check (conjs [conjs [le (ret begin) (ret admitted), le (ret admitted) (ret encoded),
                   le (ret encoded) (ret submitted), le (ret submitted) (ret released),
                   le (ret released) (ret end)],
              isin (ret submitted) (ret by_submit)]) ''Invalid expert lifetime or missing GPU user'' (
         bnd (max_args [ret admitted, call1 ns (item (ret r) ''read_completed_ns'')]) (\<lambda>ready.
         check (le (ret ready) (ret encoded)) ''Expert encoded before data ready'' (
         bnd (index (ret by_submit) (ret submitted)) (\<lambda>g.
         check (conjs [le (abs_of (sub (item (ret r) ''gpu_start_ns'')
                      (int_of (mul (item (ret g) ''gpu_start_seconds'') (flt 1000000000))))) (num 2),
              le (abs_of (sub (item (ret r) ''gpu_end_ns'')
                      (int_of (mul (item (ret g) ''gpu_end_seconds'') (flt 1000000000))))) (num 2),
              le (item (ret r) ''gpu_end_ns'') (ret released)])
           ''Expert GPU clocks differ or lease released early'' (
         bnd (item (ret r) ''acquisition'') (\<lambda>kind.
         check (isin (ret kind)
             (tuple_of [str ''ready_hit'', str ''new_miss'', str ''loading_join'']))
           ''Unknown read acquisition'' (
         bnd (put (ret reads) (ret kind) (add (lookup_or (ret reads) (ret kind) (num 0)) (num 1))) (\<lambda>reads.
         bnd (put (ret layer_reads) (ret kind)
             (add (lookup_or (ret layer_reads) (ret kind) (num 0)) (num 1))) (\<lambda>layer_reads.
         bnd (branch (ne (ret kind) (str ''ready_hit''))
             (bnd (each (tuple_of [str ''read_queued_ns'', str ''read_started_ns'', str ''read_completed_ns'']) (\<lambda>k.
                   call1 ns (index (ret r) (ret k)))) (\<lambda>tup5.
               unpack3 tup5 (\<lambda>q s c.
               check (conjs [le (ret q) (ret s), le (ret s) (ret c)]) ''Reversed read times'' (
               bnd (append (ret layer_intervals)
                   (tuple_of [str ''gpu_idle_pending_read'', ret admitted, ret ready])) (\<lambda>layer_intervals.
               bnd (append (ret queues) (sub (ret s) (ret q))) (\<lambda>queues.
               bnd (append (ret services) (sub (ret c) (ret s))) (\<lambda>services.
               Inr (layer_intervals, queues, services))))))))
             (Inr (layer_intervals, queues, services))) (\<lambda>(layer_intervals, queues, services).
         bnd (append (ret layer_intervals)
             (tuple_of [str ''gpu_idle_ready_expert'', ret ready, ret submitted])) (\<lambda>layer_intervals.
         bnd (append (ret ready_delays) (sub (ret submitted) (ret ready))) (\<lambda>ready_delays.
         bnd (max_args [ret last_gpu, item (ret r) ''gpu_end_ns'']) (\<lambda>last_gpu.
         Inr (reads, layer_reads, layer_intervals, queues, services, ready_delays, last_gpu)))))))))))))))))) (\<lambda>(reads, layer_reads, layer_intervals, queues, services, ready_delays, last_gpu).
       bnd (add (ret intervals) (ret layer_intervals)) (\<lambda>intervals.
       check (conjs [eq (item (ret d) ''ready_hits'')
                (lookup_or (ret layer_reads) (str ''ready_hit'') (num 0)),
            eq (item (ret d) ''new_misses'')
                (lookup_or (ret layer_reads) (str ''new_miss'') (num 0)),
            eq (item (ret d) ''loading_joins'')
                (lookup_or (ret layer_reads) (str ''loading_join'') (num 0))])
         ''Dependency counters differ'' (
       bnd (append (ret per_layer)
           (merge (merge (dict_of [(''layer'', item (ret d) ''layer''), (''selected'', size_of (ret records))])
                 (dict_from (ret layer_reads))) (dict_of [(''last_expert_gpu_ns'', ret last_gpu)]))) (\<lambda>per_layer.
       Inr (routes, reads, ready_delays, queues, services, intervals, per_layer)))))))))))))))))) (\<lambda>(routes, reads, ready_delays, queues, services, intervals, per_layer).
     check (conjs [eq (sum_of (values_of (ret expert_rows))) (sum_of (values_of (ret reads))),
          eq (sum_of (each (items_of (ret expert_rows)) (\<lambda>tup6.
                  unpack2 tup6 (\<lambda>rows count. mul (ret rows) (ret count)))))
              (mul (mul (num 48) (ret tokens')) (num 10))])
       ''Routed row geometry does not reconcile'' (
     bnd (partition begin end intervals) (\<lambda>buckets.
     bnd (each (sorted_by (items_of (ret operations)) (\<lambda>kv.
           neg (index (index (ret kv) (num 1)) (num 0)))) (\<lambda>tup7.
         unpack2 tup7 (\<lambda>k v.
           dict_of [(''stage'', index (ret k) (num 0)), (''kernel'', index (ret k) (num 1)),
              (''K'', index (ret k) (num 2)), (''N'', index (ret k) (num 3)),
              (''rows'', index (ret k) (num 4)),
              (''gpu_pass_ms_per_token'', truediv (index (ret v) (num 0))
                  (mul (ret tokens') (flt 1000000))),
              (''dispatches'', index (ret v) (num 1))]))) (\<lambda>operation_rows.
     dict_of [(''offset'', ret offset), (''tokens'', ret tokens'),
        (''forward_ms_per_token'', truediv (sub (ret end) (ret begin))
            (mul (ret tokens') (flt 1000000))),
        (''buckets_ms_per_token'', each_dict (items_of (ret buckets)) (\<lambda>tup8.
            unpack2 tup8 (\<lambda>k v. ret k)) (\<lambda>tup9.
            unpack2 tup9 (\<lambda>k v. truediv (ret v) (mul (ret tokens') (flt 1000000))))),
        (''dispatches'', sum_of (values_of (ret kernels))), (''kernels'', dict_from (ret kernels)),
        (''command_groups'', size_of (ret groups)),
        (''classes'', call3 command_classes (ret groups) (ret tokens') no),
        (''layers'', ret per_layer),
        (''routes'', each (sorted_of (ret routes)) (\<lambda>row. list_from (ret row))),
        (''read_counts'', dict_from (ret reads)),
        (''expert_read_bytes'', mul (lookup_or (ret reads) (str ''new_miss'') (num 0))
            (num 2764800)),
        (''expert_rows'', each_dict (sorted_of (items_of (ret expert_rows))) (\<lambda>tup10.
            unpack2 tup10 (\<lambda>k v. format_of [ret k])) (\<lambda>tup11. unpack2 tup11 (\<lambda>k v. ret v))),
        (''dispatch_signature'', call1 (digest float_repr sha256)
            (sorted_of (each (items_of (ret signatures)) (\<lambda>tup12.
                  unpack2 tup12 (\<lambda>k v.
                    tuple_from (list_extend (list_from (ret k)) (list_of [ret v]))))))),
        (''counter_operations'', ret operation_rows),
        (''mean_read_queue_ms'', truediv (truediv (sum_of (ret queues))
              (max_args [num 1, size_of (ret queues)])) (flt 1000000)),
        (''mean_read_service_ms'', truediv (truediv (sum_of (ret services))
              (max_args [num 1, size_of (ret services)])) (flt 1000000)),
        (''mean_ready_to_submit_ms'', truediv (truediv (sum_of (ret ready_delays))
              (size_of (ret ready_delays))) (flt 1000000))]))))))))))))))))))))))))))))))))"

definition analyze_compute :: "(pfloat \<Rightarrow> string) \<Rightarrow> (string \<Rightarrow> string) \<Rightarrow> pyval \<Rightarrow> pyval \<Rightarrow> pyval \<Rightarrow> pyval \<Rightarrow> pyval \<Rightarrow> expr" where
  "analyze_compute float_repr sha256 raw profiles build revision mode =
     check (conjs [eq (size_of (ret profiles)) (size_of (item (ret raw) ''blocks'')),
          eq (size_of (item (ret raw) ''blocks'')) (num 4)]) ''Missing complete four-block capture'' (
     bnd (each (zip_of (item (ret raw) ''blocks'') (ret profiles)) (\<lambda>tup1.
         unpack2 tup1 (\<lambda>b p.
           analyze_block float_repr sha256 b p build revision mode (PInt 4) (PStr ''scatter'')
             (PInt 100000)))) (\<lambda>blocks.
     check (eq (each (ret blocks) (\<lambda>b. item (ret b) ''offset''))
         (list_of [num 72, num 76, num 80, num 84])) ''Changed block positions'' (
     bnd (item (item (ret raw) ''before'') ''metal'') (\<lambda>a.
     bnd (item (item (ret raw) ''after'') ''metal'') (\<lambda>b.
     bnd (dict_of []) (\<lambda>counts.
     bnd (loop (ret blocks) counts (\<lambda>counts block.
       bnd (counter_update (ret counts) (item (ret block) ''kernels'')) (\<lambda>counts.
       ret counts))) (\<lambda>counts.
     bnd (each_dict (union_of (set_of (item (ret a) ''kernel_dispatches''))
           (set_of (item (ret b) ''kernel_dispatches''))) (\<lambda>k. ret k) (\<lambda>k.
         sub (lookup_or (item (ret b) ''kernel_dispatches'') (ret k) (num 0))
           (lookup_or (item (ret a) ''kernel_dispatches'') (ret k) (num 0)))) (\<lambda>expected.
     check (conjs [counter_eq (ret counts) (ret expected),
          eq (sum_of (values_of (ret counts)))
              (sub (item (ret b) ''dispatches'') (item (ret a) ''dispatches'')),
          eq (sum_of (each (ret blocks) (\<lambda>block. item (ret block) ''command_groups'')))
              (sub (item (ret b) ''submissions'') (item (ret a) ''submissions''))])
       ''Missing native command or dispatch population'' (
     bnd (each_dict (item (index (ret blocks) (num 0)) ''buckets_ms_per_token'') (\<lambda>k. ret k) (\<lambda>k.
         truediv (sum_of (each (ret blocks) (\<lambda>block.
               index (item (ret block) ''buckets_ms_per_token'') (ret k)))) (num 4))) (\<lambda>mean_buckets.
     bnd (truediv (sum_of (each (ret blocks) (\<lambda>block. item (ret block) ''forward_ms_per_token'')))
         (num 4)) (\<lambda>mean_forward.
     check (isclose (sum_of (values_of (ret mean_buckets))) (ret mean_forward) (1 / 1000000000)
         (1 / 1000000)) ''Buckets do not partition forward time'' (
     bnd (dict_of []) (\<lambda>operations.
     bnd (dict_of []) (\<lambda>rows.
     bnd (loop (ret blocks) (rows, operations) (\<lambda>(rows, operations) block.
       bnd (counter_update (ret rows) (item (ret block) ''expert_rows'')) (\<lambda>rows.
       bnd (loop (item (ret block) ''counter_operations'') operations (\<lambda>operations op.
         bnd (tuple_of [item (ret op) ''stage'', item (ret op) ''kernel'', item (ret op) ''K'',
              item (ret op) ''N'', item (ret op) ''rows'']) (\<lambda>key.
         bnd (put (ret operations) (ret key)
             (put (lookup_or (ret operations) (ret key) (list_of [num 0, num 0])) (num 0)
                 (add (index (lookup_or (ret operations) (ret key) (list_of [num 0, num 0])) (num 0))
                     (truediv (item (ret op) ''gpu_pass_ms_per_token'') (num 4))))) (\<lambda>operations.
         bnd (put (ret operations) (ret key)
             (put (lookup_or (ret operations) (ret key) (list_of [num 0, num 0])) (num 1)
                 (add (index (lookup_or (ret operations) (ret key) (list_of [num 0, num 0])) (num 1))
                     (item (ret op) ''dispatches'')))) (\<lambda>operations.
         ret operations))))) (\<lambda>operations.
       Inr (rows, operations))))) (\<lambda>(rows, operations).
     dict_of [(''mode'', ret mode), (''captured_blocks'', num 4), (''captured_input_tokens'', num 16),
        (''dependency_passes'', num 192), (''dispatches'', sum_of (values_of (ret counts))),
        (''mean_forward_ms_per_token'', ret mean_forward),
        (''mean_buckets_ms_per_token'', ret mean_buckets),
        (''expert_rows'', dict_from (sorted_of (items_of (ret rows)))), (''blocks'', ret blocks),
        (''counter_operations'', each (sorted_by (items_of (ret operations)) (\<lambda>kv.
              neg (index (index (ret kv) (num 1)) (num 0)))) (\<lambda>tup2.
            unpack2 tup2 (\<lambda>k v.
              dict_of [(''stage'', index (ret k) (num 0)), (''kernel'', index (ret k) (num 1)),
                 (''K'', index (ret k) (num 2)), (''N'', index (ret k) (num 3)),
                 (''rows'', index (ret k) (num 4)),
                 (''gpu_pass_ms_per_token'', index (ret v) (num 0)),
                 (''dispatches'', index (ret v) (num 1))]))),
        (''performance_measurement'', no), (''production_promoted'', no),
        (''limitations'', ret COMPUTE_LIMITATIONS)])))))))))))))))"

definition compare_compute :: "pyval \<Rightarrow> pyval \<Rightarrow> expr" where
  "compare_compute commands dispatch =
     check (conjs [eq (item (ret commands) ''mode'') (str ''commands''),
          eq (item (ret dispatch) ''mode'') (str ''dispatch'')]) ''Reversed profile modes'' (
     check (conjs [conjs [eq (size_of (item (ret commands) ''blocks''))
                   (size_of (item (ret dispatch) ''blocks'')),
               eq (size_of (item (ret dispatch) ''blocks'')) (num 4)],
          eq (each (item (ret commands) ''blocks'') (\<lambda>b. item (ret b) ''offset''))
              (list_of [num 72, num 76, num 80, num 84])]) ''Incomplete profile comparison'' (
     bnd (loop (zip_of (item (ret commands) ''blocks'') (item (ret dispatch) ''blocks'')) () (\<lambda>unused tup1.
       unpack2 tup1 (\<lambda>a b.
         check (conjs [eq (item (ret a) ''offset'') (item (ret b) ''offset''),
              eq (item (ret a) ''dispatch_signature'') (item (ret b) ''dispatch_signature''),
              eq (item (ret a) ''routes'') (item (ret b) ''routes''),
              eq (item (ret a) ''expert_rows'') (item (ret b) ''expert_rows'')])
           ''Counter instrumentation changed operation/route population'' (
         Inr ())))) (\<lambda>unused.
     dict_of [(''same_dispatches_routes_shapes'', yes),
        (''instrumented_forward_ratio'', truediv (item (ret dispatch)
              ''mean_forward_ms_per_token'') (item (ret commands) ''mean_forward_ms_per_token'')),
        (''normal_speedup'', none), (''selected_kernel'', none), (''production_promoted'', no)])))"

end
