(* ===== verification/ExactBench.thy ===== *)
theory ExactBench
  imports ScreenCache
begin

text \<open>
  The exactness benchmarks (\<open>scripts/qwen/benchmark_exact.py\<close>, \<open>benchmark_cached_tokens.py\<close>,
  \<open>screen_capacity.py\<close>, \<open>check_scratch_slice.py\<close>).
\<close>

text \<open>One reported change of the allocation plan: prompt workspaces on the even ones, generation on the odd ones.\<close>

definition phase_transition :: "pyval \<Rightarrow> pyval \<Rightarrow> pyval \<Rightarrow> pyval \<Rightarrow> pyval \<Rightarrow> expr" where
  "phase_transition budget count after previous tup2 =
     unpack2 tup2 (\<lambda>index' e.
     bnd (branch (eq (modulo (ret index') (num 2)) (num 0)) (str ''prompt_plan'')
         (str ''generation_plan'')) (\<lambda>target.
     bnd (branch (eq (modulo (ret index') (num 2)) (num 0)) (str ''ingest_panel'')
         (str ''ingest_complete'')) (\<lambda>reason.
     reject (disjs [ne (item (ret e) ''sequence'') (add (add (ret count) (ret index')) (num 1)),
          ne (item (ret e) ''reason'') (ret reason),
          ne (item (ret e) ''before'') (ret previous),
          ne (item (ret e) ''after'') (index (ret after) (ret target))])
       ''Undeclared allocation transition'' (
     reject (gt (item (ret e) ''live_buffer_bytes'') (ret budget)) ''Transition exceeds budget'' (
     reject (conjs [eq (ret target) (str ''generation_plan''),
          some (item (ret e) ''scratch_after'') (\<lambda>p. item (ret p) ''allocated_bytes'')])
       ''Prompt workspaces retained after reclamation'' (
     item (ret e) ''after''))))))"

definition validate_phase_memory :: "pyval \<Rightarrow> pyval \<Rightarrow> pyval \<Rightarrow> expr" where
  "validate_phase_memory row config budget =
     bnd (get_or (ret config) ''phase_memory'' (str ''fixed'')) (\<lambda>policy.
     bnd (get_or (item (ret row) ''before'') ''phase_memory'' (dict_of [])) (\<lambda>before.
     bnd (get_or (item (ret row) ''after'') ''phase_memory'' (dict_of [])) (\<lambda>after.
     reject (ne (get_or (ret after) ''pressure_resizes'' (num 0))
         (get_or (ret before) ''pressure_resizes'' (num 0)))
       ''Emergency pressure resize invalidates comparison'' (
     branch (eq (ret policy) (str ''fixed''))
       (reject (ne (get_or (ret after) ''policy'' (str ''fixed'')) (str ''fixed''))
           ''Phase policy changed'' (
         none)) (
     reject (disjs [ne (ret policy) (str ''reclaim''),
          ne (get (ret config) ''prefill_pipeline'') (str ''double'')]) ''Invalid phase policy'' (
     bnd (loop (list_of [tuple_of [item (ret row) ''before'', ret before],
            tuple_of [item (ret row) ''after'', ret after]]) () (\<lambda>unused tup1.
       unpack2 tup1 (\<lambda>state phase.
         reject (disjs [ne (get (ret phase) ''policy'') (ret policy),
              ne (get (ret phase) ''phase'') (str ''generation'')]) ''Incomplete phase transition'' (
         bnd (loop (tuple_of [str ''prompt_plan'', str ''generation_plan'']) () (\<lambda>unused name.
           bnd (index (ret phase) (ret name)) (\<lambda>p.
           reject (disjs [ne (item (ret p) ''limit_bytes'') (ret budget),
                gt (item (ret p) ''planned_bytes'') (ret budget)]) ''Phase exceeds budget'' (
           Inr ())))) (\<lambda>unused.
         reject (ne (item (ret state) ''memory_plan'') (item (ret phase) ''generation_plan''))
           ''Generation allocation changed'' (
         Inr ())))))) (\<lambda>unused.
     reject (disjs [ne (item (ret before) ''prompt_plan'') (item (ret after) ''prompt_plan''),
          ne (item (ret before) ''generation_plan'') (item (ret after) ''generation_plan'')])
       ''Declared phase plans changed'' (
     bnd (item (ret before) ''transition_count'') (\<lambda>count.
     bnd (each_if (item (ret after) ''transitions'') (\<lambda>e.
         gt (item (ret e) ''sequence'') (ret count)) (\<lambda>e. ret e)) (\<lambda>events.
     reject (ne (size_of (ret events)) (sub (item (ret after) ''transition_count'') (ret count)))
       ''Missing transition evidence'' (
     bnd (item (ret before) ''generation_plan'') (\<lambda>previous.
     bnd (loop (numbered (ret events) 0) previous (phase_transition budget count after)) (\<lambda>previous.
     reject (modulo (size_of (ret events)) (num 2)) ''Unfinished memory transition'' (
     bnd (branch (isin (str ''prefill_tokens'') (ret row))
         (bnd (conjs [gt (get_or (item (ret after) ''prompt_plan'') ''panel_tokens'' (num 0))
                    (get_or (ret config) ''chunk'' (num 128)),
                gt (item (ret row) ''prefill_tokens'') (get_or (ret config) ''chunk'' (num 128))]) (\<lambda>needs_panel.
           reject (ne (size_of (ret events)) (branch (ret needs_panel) (num 2) (num 0)))
             ''Missing or unnecessary ingestion transition'' (
           Inr ()))) (Inr ())) (\<lambda>unused.
     none)))))))))))))))"

definition validate_reads :: "(pyval \<Rightarrow> expr) \<Rightarrow> pyval \<Rightarrow> pyval \<Rightarrow> expr" where
  "validate_reads read_json native_top_p s =
     add (item (ret s) ''checkpoint_application_read_bytes'')
       (item (item (ret s) ''prepared'') ''application_read_bytes'')"

definition validate :: "(pyval \<Rightarrow> expr) \<Rightarrow> pyval \<Rightarrow> pyval \<Rightarrow> pyval \<Rightarrow> pyval \<Rightarrow> pyval \<Rightarrow> pyval \<Rightarrow> expr" where
  "validate read_json native_top_p report config expected budget output =
     reject (disjs [ne (get_or (ret report) ''gpu_reference_mode'' (str ''off'')) (str ''off''),
          get (ret report) ''gpu_references'']) ''GPU boundary probes cannot qualify normal timing'' (
     reject (disjs [differs (get (ret report) ''complete'') yes,
          ne (get (ret report) ''model_revision'') (item (ret expected) ''revision'')])
       ''Incomplete or changed artifact'' (
     reject (nay (call1 (fixed_sampling native_top_p) (get (ret report) ''sampling'')))
       ''Changed or missing sampling settings'' (
     bnd (get_or (ret report) ''runs'' (list_of [])) (\<lambda>rows.
     reject (disjs [nay (ret rows),
          ne (get (index (ret rows) (num 0)) ''runtime_cache_state'')
              (str ''empty_at_process_start'')])
       ''Conversation did not start with empty runtime caches'' (
     bnd none (\<lambda>observation.
     bnd (loop (ret rows) (expected, observation) (\<lambda>(expected, observation) row.
       bnd (item (ret row) ''after'') (\<lambda>state.
       bnd (item (ret state) ''memory_plan'') (\<lambda>plan.
       bnd (item (ret state) ''metal'') (\<lambda>machine.
       reject (disjs [ne (get (ret row) ''repetition'') (num 0), get (ret row) ''profiling_enabled'',
            ne (get_or (ret row) ''gpu_reference_mode'' (str ''off'')) (str ''off''),
            item (ret state) ''diagnostic_stream_trunk''])
         ''Warm repetitions or diagnostic timing cannot qualify'' (
       reject (disjs [nay (get (ret state) ''completion_pipeline''),
            some (list_of [tuple_of [str ''chunk_tokens'', str ''chunk''],
                   tuple_of [str ''ready_group'', str ''ready_group''],
                   tuple_of [str ''io_workers'', str ''io_workers'']]) (\<lambda>tup1.
                unpack2 tup1 (\<lambda>k c. ne (lookup (ret state) (ret k)) (index (ret config) (ret c))))])
         ''Execution schedule changed'' (
       reject (disjs [ne (item (ret machine) ''device'') (str ''Apple M1 Pro''),
            ne (item (ret machine) ''physical_bytes'') (num (32 * 1024 ^ 3))])
         ''Requires actual 32GiB M1 Pro'' (
       reject (disjs [ne (item (ret machine) ''build_fingerprint'') (item (ret expected) ''build''),
            ne (item (ret state) ''artifact_revision'') (item (ret expected) ''revision'')])
         ''Native build or artifact changed'' (
       reject (disjs [ne (item (ret plan) ''limit_bytes'') (ret budget),
            gt (item (ret plan) ''planned_bytes'') (ret budget),
            ne (item (ret plan) ''panel_tokens'') (item (ret config) ''panel'')])
         ''Requested budget or panel was not admitted'' (
       reject (disjs [conjs [eq (get_or (ret config) ''phase_memory'' (str ''fixed'')) (str ''fixed''),
                 ne (item (ret plan) ''expert_slots'')
                     (item (item (item (ret row) ''before'') ''memory_plan'') ''expert_slots'')],
            gt (item (item (ret state) ''process'') ''physical_footprint_bytes'') (ret budget)])
         ''Cache resized or process exceeded budget'' (
       reject (ne (item (item (item (ret row) ''before'') ''memory_plan'') ''limit_bytes'')
           (ret budget)) ''Budget changed during request'' (
       bnd (validate_phase_memory row config budget) (\<lambda>unused.
       bnd (get_or (ret state) ''execution'' (dict_of [])) (\<lambda>execution.
       reject (get_or (ret execution) ''cached_token_replay'' no)
         ''Cached replay cannot qualify normal requests'' (
       bnd (loop (list_of [tuple_of [str ''cache_policy'', str ''clock''],
              tuple_of [str ''decode_path'', str ''reference''],
              tuple_of [str ''prefill_pipeline'', str ''serial''],
              tuple_of [str ''phase_memory'', str ''fixed''],
              tuple_of [str ''sparse_selection'', str ''cpu'']]) () (\<lambda>unused tup2.
         unpack2 tup2 (\<lambda>key default.
           reject (ne (lookup_or (ret execution) (ret key) (ret default))
               (lookup_or (ret config) (ret key) (ret default))) ''Execution candidate changed'' (
           Inr ())))) (\<lambda>unused.
       bnd (get_or (ret config) ''residency'' (str ''auto'')) (\<lambda>residency.
       reject (notin (get_or (ret execution) ''residency'' (str ''off''))
           (branch (eq (ret residency) (str ''auto'')) (tuple_of [str ''core-cache'', str ''off''])
               (tuple_of [ret residency]))) ''Execution candidate changed'' (
       reject (conjs [isin (str ''gpu_warm'') (ret state),
            ne (item (ret state) ''gpu_warm'')
                (eq (get_or (ret config) ''gpu_warm'' (str ''on'')) (str ''on''))])
         ''GPU keep-warm changed'' (
       reject (conjs [get (ret config) ''expert_slots'',
            ne (item (ret plan) ''expert_slots'') (item (ret config) ''expert_slots'')])
         ''Fixed expert capacity changed'' (
       bnd (item (ret machine) ''kernels'') (\<lambda>kernels.
       bnd (isin (str ''q4_rows'') (ret kernels)) (\<lambda>current.
       reject (ne (get_or (ret kernels) ''route_selection'' (str ''serial''))
           (get_or (ret config) ''route_selection''
               (branch (ret current) (str ''simd'') (str ''serial'')))) ''Route selection changed'' (
       reject (conjs [ret current,
            ne (item (ret kernels) ''q4_rows'')
                (eq (get_or (ret config) ''q4_rows'' (str ''on'')) (str ''on''))])
         ''Q4 row kernels changed'' (
       reject (ne (get_or (ret kernels) ''attention_score_tiles'' (str ''full''))
           (get_or (ret config) ''attention_score_tiles'' (str ''full'')))
         ''Attention score tiles changed'' (
       reject (ne (get_or (ret kernels) ''q8_decode_rows'' (num 0))
           (get_or (ret config) ''q8_decode_rows'' (num 0))) ''Q8 decode variant changed'' (
       reject (ne (get_or (ret kernels) ''q4_decode'' (str ''reference''))
           (get_or (ret config) ''q4_decode'' (str ''reference''))) ''Q4 decode variant changed'' (
       bnd (loop (list_of [tuple_of [str ''kernel_policy'', str ''policy''],
              tuple_of [str ''token_tile'', str ''token_tile''],
              tuple_of [str ''gdn_path'', str ''gdn'']]) () (\<lambda>unused tup3.
         unpack2 tup3 (\<lambda>key runtime.
           reject (ne (index (ret kernels) (ret runtime)) (index (ret config) (ret key)))
             ''Kernel configuration changed'' (
           Inr ())))) (\<lambda>unused.
       reject (disjs [ne (get_or (ret kernels) ''affine_rows'' (num 1))
                (get_or (ret config) ''affine_rows'' (num 1)),
            ne (get_or (ret kernels) ''gate_pair'' no)
                (eq (get_or (ret config) ''gate_pair'' (str ''off'')) (str ''on''))])
         ''Affine variant changed'' (
       bnd (branch (get (ret config) ''shape_policy'')
           (call1 read_json (item (ret config) ''shape_policy'')) none) (\<lambda>table.
       reject (ne (get (ret kernels) ''shape_table'') (ret table)) ''Shape selection changed'' (
       reject (disjs [ne (get (ret kernels) ''gdn_rows'') (get_or (ret config) ''gdn_rows'' (num 4)),
            ne (get (ret kernels) ''gdn_block'') (get_or (ret config) ''gdn_block'' (num 8))])
         ''GDN staging geometry changed'' (
       bnd (item (ret row) ''name'') (\<lambda>name.
       bnd (tuple_of [item (item (ret state) ''prepared'') ''manifest_sha256'',
            item (ret row) ''prompt_tokens'', item (ret row) ''reused_tokens'',
            tuple_from (item (ret row) ''output_token_ids'')]) (\<lambda>signature.
       bnd (setdefault (ret expected) (ret name) (ret signature)) (\<lambda>expected.
       reject (ne (index (ret expected) (ret name)) (ret signature))
         ''Changed prepared bytes, tokens, or computation reuse'' (
       branch (eq (item (ret row) ''finish_reason'') (str ''primed''))
         (reject (disjs [ne (item (ret row) ''output_tokens'') (num 0),
                ne (item (ret row) ''prompt_tokens'') (num 4096)])
             ''Prime must ingest exactly 4096 tokens without sampling'' (
           Inr (expected, observation))) (
       reject (disjs [ne (item (ret row) ''output_tokens'') (ret output),
            ne (size_of (item (ret row) ''token_latency_ms'')) (sub (ret output) (num 1)),
            ne (item (ret row) ''finish_reason'') (str ''length'')])
         ''Insufficient generated tokens for comparison'' (
       reject (conjs [eq (ret name) (str ''append_128''),
            disjs [ne (item (ret row) ''reused_tokens'') (num 4096),
                 ne (item (ret row) ''prefill_tokens'') (num 128),
                 ne (item (ret row) ''pending_tokens_ingested'') (num 0)]])
         ''Append does not measure exactly 4096 retained plus 128 new tokens'' (
       bnd (loop (tuple_of [str ''time_to_first_token_ms'', str ''decode_wall_ms'', str ''request_ms'',
              str ''wall_tokens_per_second'']) () (\<lambda>unused key.
         bnd (lookup (ret row) (ret key)) (\<lambda>value.
         reject (disjs [isinstance (ret value) [TBool], nay (isinstance (ret value) [TInt, TFloat]),
              nay (isfinite (ret value)), le (ret value) (num 0)])
           ''Normal request timing must be positive and finite'' (
         Inr ())))) (\<lambda>unused.
       bnd (dict_of []) (\<lambda>phases.
       bnd (loop (items_of (item (ret row) ''phases'')) phases (\<lambda>phases tup4.
         unpack2 tup4 (\<lambda>phase snapshots.
           bnd (item (ret snapshots) ''before'') (\<lambda>a.
           bnd (item (ret snapshots) ''after'') (\<lambda>b.
           bnd (put (ret phases) (ret phase)
               (dict_of [(''application_read_bytes'', sub (validate_reads read_json native_top_p b)
                        (validate_reads read_json native_top_p a)),
                    (''cache_before'', item (ret a) ''expert_cache''),
                    (''cache_after'', item (ret b) ''expert_cache''),
                    (''dependencies_before'', get_or (ret a) ''phase_dependencies'' (dict_of [])),
                    (''dependencies_after'', get_or (ret b) ''phase_dependencies'' (dict_of [])),
                    (''gpu_command_ns'', sub (item (item (ret b) ''metal'') ''gpu_command_ns'')
                        (item (item (ret a) ''metal'') ''gpu_command_ns'')),
                    (''cpu_encode_ns'', sub (item (item (ret b) ''metal'') ''cpu_encode_ns'')
                        (item (item (ret a) ''metal'') ''cpu_encode_ns'')),
                    (''cpu_gpu_wait_ns'', sub (item (item (ret b) ''metal'') ''cpu_gpu_wait_ns'')
                        (item (item (ret a) ''metal'') ''cpu_gpu_wait_ns'')),
                    (''device_before'', item (ret a) ''storage''),
                    (''device_after'', item (ret b) ''storage'')])) (\<lambda>phases.
           ret phases)))))) (\<lambda>phases.
       bnd (dict_of [(''name'', ret name), (''ttft_ms'', item (ret row) ''time_to_first_token_ms''),
            (''decode_ms_per_token'', truediv (item (ret row) ''decode_wall_ms'')
                (sub (ret output) (num 1))),
            (''tokens_per_second'', item (ret row) ''wall_tokens_per_second''),
            (''output_token_ids'', get (ret row) ''output_token_ids''),
            (''forward_tokens_per_second'', item (ret row) ''tokens_per_second''),
            (''request_ms'', item (ret row) ''request_ms''),
            (''p95_ms'', item (ret row) ''p95_token_ms''),
            (''expert_slots'', item (ret plan) ''expert_slots''), (''phases'', ret phases),
            (''peak_metal_bytes'', item (ret machine) ''peak_buffer_bytes''),
            (''footprint_bytes'', item (item (ret state) ''process'') ''physical_footprint_bytes''),
            (''memory_before'', get (item (ret row) ''before'') ''process''),
            (''memory_after'', item (ret state) ''process''),
            (''residency'', get (ret machine) ''residency''), (''execution'', ret execution)]) (\<lambda>observation.
       Inr (expected, observation)))))))))))))))))))))))))))))))))))))))))))) (\<lambda>(expected, observation).
     reject (same (ret observation) none) ''No generated request'' (
     tuple_of [ret observation, ret expected]))))))))"

definition paired_interval :: "(pyval \<Rightarrow> pyval \<Rightarrow> expr) \<Rightarrow> pyval \<Rightarrow> expr" where
  "paired_interval resample ratios =
     reject (disjs [lt (size_of (ret ratios)) (num 5),
          nay (every (ret ratios) (\<lambda>x. conjs [isfinite (ret x), gt (ret x) (num 0)]))])
       ''Confidence bounds require five valid pairs'' (
     bnd none (\<lambda>rng.
     bnd (sorted_of (each (range_to (num 10000)) (\<lambda>draw. median (resample draw ratios)))) (\<lambda>samples.
     dict_of [(''median'', median (ret ratios)), (''low'', index (ret samples) (num 249)),
        (''high'', index (ret samples) (num 9749)), (''pairs'', size_of (ret ratios))])))"

definition summarize_exact :: "(pyval \<Rightarrow> pyval \<Rightarrow> expr) \<Rightarrow> pyval \<Rightarrow> pyval \<Rightarrow> expr" where
  "summarize_exact resample measurements' configs' =
     bnd (item (index (ret configs') (num 0)) ''name'') (\<lambda>reference.
     bnd (list_of []) (\<lambda>reports.
     bnd (loop (slice (ret configs') (num 1) none) reports (\<lambda>reports config.
       bnd (list_of []) (\<lambda>bounds.
       bnd (loop (sorted_of (set_of (each (ret measurements') (\<lambda>r. item (ret r) ''name'')))) bounds (\<lambda>bounds case'.
         bnd (loop (list_of [str ''ttft_ms'', str ''decode_ms_per_token'', str ''request_ms''])
             bounds (\<lambda>bounds metric.
           bnd (each_dict (each_if (ret measurements') (\<lambda>r.
                 conjs [eq (item (ret r) ''configuration'') (ret reference),
                    eq (item (ret r) ''name'') (ret case')]) (\<lambda>x. ret x)) (\<lambda>r.
               item (ret r) ''pair'') (\<lambda>r. index (ret r) (ret metric))) (\<lambda>baseline.
           bnd (each_dict (each_if (ret measurements') (\<lambda>r.
                 conjs [eq (item (ret r) ''configuration'') (item (ret config) ''name''),
                    eq (item (ret r) ''name'') (ret case')]) (\<lambda>x. ret x)) (\<lambda>r.
               item (ret r) ''pair'') (\<lambda>r. index (ret r) (ret metric))) (\<lambda>candidate.
           reject (ne (set_of (ret baseline)) (set_of (ret candidate))) ''Unpaired measurements'' (
           bnd (each (sorted_of (ret baseline)) (\<lambda>i.
               truediv (index (ret candidate) (ret i)) (index (ret baseline) (ret i)))) (\<lambda>ratios.
           bnd (append (ret bounds)
               (merge (dict_of [(''case'', ret case'), (''metric'', ret metric)])
                   (paired_interval resample ratios))) (\<lambda>bounds.
           ret bounds))))))) (\<lambda>bounds.
         ret bounds))) (\<lambda>bounds.
       bnd (le (set_disp [str ''prompt_2k'', str ''prompt_4k'', str ''append_128''])
           (set_of (set_of (each (ret bounds) (\<lambda>b. item (ret b) ''case''))))) (\<lambda>coverage.
       bnd (conjs [ret coverage, some (ret bounds) (\<lambda>b. lt (item (ret b) ''high'') (num 1)),
            every (ret bounds) (\<lambda>b. le (item (ret b) ''high'') (flt (103 / 100)))]) (\<lambda>passes.
       bnd (append (ret reports)
           (dict_of [(''configuration'', item (ret config) ''name''),
                (''required_workloads_complete'', ret coverage),
                (''latency_gate_passed'', ret passes), (''confidence_bounds'', ret bounds)])) (\<lambda>reports.
       ret reports))))))) (\<lambda>reports.
     ret reports)))"

definition validate_cached :: "pyval \<Rightarrow> pyval \<Rightarrow> pyval \<Rightarrow> pyval \<Rightarrow> pyval \<Rightarrow> expr" where
  "validate_cached report build revision prompt_tokens repetitions =
     reject (get_or (ret report) ''profiling_enabled'' no)
       ''Instrumented replay cannot qualify cached timing'' (
     reject (disjs [ne (get (ret report) ''kind'') (str ''cached_full_token_replay''),
          differs (get (ret report) ''passed'') yes,
          differs (get (ret report) ''normal_request_latency_qualified'') no])
       ''Not a successful cached diagnostic'' (
     reject (disjs [ne (item (ret report) ''artifact_revision'') (ret revision),
          ne (item (ret report) ''prompt_tokens'') (ret prompt_tokens),
          ne (size_of (item (ret report) ''runs'')) (ret repetitions)])
       ''Wrong artifact, context or repetition coverage'' (
     bnd (loop (item (ret report) ''runs'') () (\<lambda>unused row.
       reject (disjs [differs (get (ret row) ''exact'') yes, ne (item (ret row) ''ready_hits'') (num 480),
            ne (item (ret row) ''application_read_bytes'') (num 0)])
         ''Replay changed arithmetic or issued reads'' (
       bnd (loop (tuple_of [item (ret row) ''before'', item (ret row) ''after'']) () (\<lambda>unused state.
         reject (disjs [ne (item (item (ret state) ''metal'') ''build_fingerprint'') (ret build),
              item (ret state) ''diagnostic_stream_trunk'',
              ne (item (item (ret state) ''memory_plan'') ''expert_slots'') (num 480)])
           ''Wrong build or incomplete working set'' (
         reject (disjs [ne (item (item (ret state) ''memory_plan'') ''limit_bytes'') (num (12 * 1024 ^ 3)),
              ne (item (item (ret state) ''memory_plan'') ''snapshot_bytes'')
                  (item (ret report) ''snapshot_bytes'')]) ''Diagnostic budget or snapshot changed'' (
         Inr ())))) (\<lambda>unused.
       reject (ne (item (item (ret row) ''before'') ''ngram_misses'')
           (item (item (ret row) ''after'') ''ngram_misses'')) ''Ngram read during replay'' (
       Inr ()))))) (\<lambda>unused.
     yes))))"

definition validate_correctness_screen :: "pyval \<Rightarrow> pyval \<Rightarrow> expr" where
  "validate_correctness_screen reports evidence' =
     bnd (loop (zip_of (tuple_of [no, yes]) (ret reports)) () (\<lambda>unused tup1.
       unpack2 tup1 (\<lambda>enabled raw.
         bnd (merge (dict_from (call1 correctness_case (str ''clock'')))
             (dict_of [(''gpu_reference'', ret enabled)])) (\<lambda>case'.
         bnd (union_of (ret CHECKS)
             (branch (ret enabled) (set_disp [str ''probe_preserves_state'']) (Inr (PSet [])))) (\<lambda>checks.
         reject (disjs [differs (get (ret raw) ''passed'') yes, ne (get (ret raw) ''case'') (ret case'),
              differs (get (ret raw) ''full_model'') yes, ne (get (ret raw) ''layers'') (num 48),
              ne (size_of (get_or (ret raw) ''runs'' (list_of []))) (num 1),
              ne (size_of (get_or (ret raw) ''checks'' (list_of []))) (size_of (ret checks)),
              ne (set_of (each (item (ret raw) ''checks'') (\<lambda>c. item (ret c) ''name'')))
                  (ret checks),
              some (item (ret raw) ''checks'') (\<lambda>c. differs (item (ret c) ''passed'') yes)])
           ''Missing probe real-model correctness or failure checks'' (
         bnd (index (item (ret raw) ''runs'') (num 0)) (\<lambda>run.
         reject (disjs [ne (size_of (item (ret run) ''stages'')) (num 3),
              some (item (ret run) ''stages'') (\<lambda>s.
                  disjs [ne (size_of (item (ret s) ''layers'')) (num 48),
                     ne (size_of (item (ret s) ''routes'')) (num 48)])])
           ''Missing all-layer state and routing proof'' (
         reject (ne (size_of (item (ret run) ''gpu_references''))
             (branch (ret enabled) (num 2) (num 0))) ''Missing fixture probes'' (
         bnd (loop (item (ret run) ''gpu_references'') () (\<lambda>unused p.
           bnd (validate_probe p) (\<lambda>unused.
           Inr ()))) (\<lambda>unused.
         bnd (loop (tuple_of [str ''continued_statistics'', str ''after_fresh'']) () (\<lambda>unused key.
           bnd (call3 check_machine (index (ret run) (ret key)) (ret evidence')
               (mul (num 12) (ret GiB))) (\<lambda>unused.
           reject (disjs [ne (item (item (index (ret run) (ret key)) ''memory_plan'') ''expert_slots'')
                    (num 32),
                le (item (item (index (ret run) (ret key)) ''expert_cache'') ''evictions'') (num 0)])
             ''Correctness requires forced eviction'' (
           Inr ())))) (\<lambda>unused.
         Inr ()))))))))))) (\<lambda>unused.
     reject (disjs [ne (size_of (ret reports)) (num 2),
          ne (item (index (item (index (ret reports) (num 0)) ''runs'') (num 0)) ''stages'')
              (item (index (item (index (ret reports) (num 1)) ''runs'') (num 0)) ''stages'')])
       ''Probe changed real logits, routes or persistent state'' (
     dict_of [(''passed'', yes), (''exact_logits_routes_state'', yes), (''continued_equals_fresh'', yes),
        (''cancellation_failure_checked'', yes), (''independent_model_reference'', no)]))"

definition cases_slice :: "expr" where
  "cases_slice =
     each state_cases (\<lambda>c.
       merge (dict_from (ret c)) (dict_of [(''layers'', num 4), (''memory_gib'', num 4)]))"

definition validate_slice :: "(pyval \<Rightarrow> expr) \<Rightarrow> pyval \<Rightarrow> pyval \<Rightarrow> expr" where
  "validate_slice read_json reports evidence' =
     reject (ne (size_of (ret reports)) (num 2)) ''Requires both four-layer diagnostic arms'' (
     bnd (loop (zip_of (ret reports) cases_slice) () (\<lambda>unused tup1.
       unpack2 tup1 (\<lambda>report case'.
         bnd (branch (eq (item (ret case') ''decode_scratch'') (str ''reuse''))
             (union_of (ret CHECKS) (ret SCRATCH_CHECKS)) (ret CHECKS)) (\<lambda>required.
         reject (disjs [ne (get (ret report) ''case'') (ret case'), differs (get (ret report) ''passed'') yes,
              ne (get (ret report) ''layers'') (num 4),
              differs (get (ret report) ''full_model'') no,
              ne (size_of (get_or (ret report) ''runs'' (list_of []))) (num 1),
              ne (size_of (get_or (ret report) ''checks'' (list_of []))) (size_of (ret required)),
              ne (set_of (each (item (ret report) ''checks'') (\<lambda>c. item (ret c) ''name'')))
                  (ret required),
              some (item (ret report) ''checks'') (\<lambda>c. differs (get (ret c) ''passed'') yes)])
           ''Incomplete four-layer state/recovery evidence'' (
         bnd (index (item (ret report) ''runs'') (num 0)) (\<lambda>row.
         bnd (get_or (ret row) ''stages'' (list_of [])) (\<lambda>stages.
         reject (disjs [ne (size_of (ret stages)) (num 3),
              some (ret stages) (\<lambda>s.
                  disjs [ne (size_of (get_or (ret s) ''layers'' (list_of []))) (num 4),
                     ne (size_of (get_or (ret s) ''routes'' (list_of []))) (num 4)])])
           ''Missing layer/state coverage'' (
         bnd (loop (tuple_of [str ''continued_statistics'', str ''after_fresh'']) () (\<lambda>unused key.
           bnd (index (ret row) (ret key)) (\<lambda>state.
           bnd (call3 check_machine (ret state) (ret evidence') (num (4 * 1024 ^ 3))) (\<lambda>unused.
           bnd (check_configuration read_json state case') (\<lambda>unused.
           reject (disjs [item (ret state) ''diagnostic_stream_trunk'',
                ne (item (item (ret state) ''memory_plan'') ''expert_slots'') (num 32),
                ne (item (item (ret state) ''memory_plan'') ''panel_tokens'') (num 0),
                le (item (item (ret state) ''expert_cache'') ''evictions'') (num 0),
                differs (item (ret state) ''expert_tail_pending'') no,
                ne (item (item (ret state) ''metal'') ''live_command_groups'') (num 0)])
             ''Missing fixed-capacity eviction or completed users'' (
           bnd (check_state_workspace state case' key) (\<lambda>unused.
           Inr ()))))))) (\<lambda>unused.
         Inr ()))))))))) (\<lambda>unused.
     reject (ne (item (index (item (index (ret reports) (num 0)) ''runs'') (num 0)) ''stages'')
         (item (index (item (index (ret reports) (num 1)) ''runs'') (num 0)) ''stages''))
       ''Scratch reuse changed partial state or routes'' (
     dict_of [(''exact_four_layer_state_and_routes'', yes), (''continued_equals_fresh'', yes),
        (''forced_eviction'', yes), (''cancellation_failure_checked'', yes),
        (''one_token_replay_remainder_checked'', yes), (''logits_compared'', no),
        (''full_model'', no), (''independent_model_reference'', no),
        (''normal_request_latency_qualified'', no), (''production_promoted'', no)])))"

end
