(* ===== verification/ReleaseGates.thy ===== *)
theory ReleaseGates
  imports ExactBench
begin

text \<open>
  Answers over indexed evidence (\<open>scripts/qwen/evidence_queries.py\<close>, \<open>evidence_index.py\<close>) and
  the release gates (\<open>release_check.py\<close>, \<open>check_soak.py\<close>, \<open>check_api_performance.py\<close>). The parameter
  \<open>load_report\<close> is the content of a report of the evidence directory, \<open>selected_lock\<close> the lock file of
  the selected artifact and \<open>current_build\<close> the fingerprint of the present sources.
\<close>

definition metadata :: "pyval \<Rightarrow> expr" where
  "metadata data =
     branch (nay (isinstance (ret data) [TDict]))
       (dict_of [(''kind'', str ''unrecognized''), (''status'', str ''unknown''), (''complete'', none)]) (
     bnd (disjs [get (ret data) ''kind'', get (ret data) ''protocol'']) (\<lambda>kind.
     bnd (branch (nay (ret kind))
         (bnd (branch (conjs [isin (str ''runs'') (ret data), isin (str ''model_revision'') (ret data)])
               (str ''native_requests'')
               (branch (isin (str ''command_groups'') (ret data)) (str ''gpu_profile'')
                   (branch (isin (str ''current_admission'') (ret data)) (str ''admission'')
                       (str ''report'')))) (\<lambda>kind.
           ret kind)) (ret kind)) (\<lambda>kind.
     bnd (tuple_of [str ''status'', str ''complete'', str ''passed'', str ''decision'', str ''error'',
          str ''note'', str ''build'', str ''build_fingerprint'', str ''artifact_revision'',
          str ''model_revision'', str ''budget_bytes'', str ''comparison_axis'', str ''mode'',
          str ''pairs'', str ''prompt_tokens'', str ''profiling_enabled'',
          str ''normal_request_latency_qualified'', str ''production_promoted'', str ''phases'',
          str ''hypothesis'', str ''expected_effect'', str ''controlled_change'',
          str ''correctness'', str ''outcome'', str ''smallest_experiment'', str ''limitations'',
          str ''evidence'', str ''decision_origin'', str ''recorded_at'', str ''started_at'',
          str ''finished_at'', str ''tags'', str ''rerun_rationale'']) (\<lambda>keys.
     bnd (each_dict (each_if (ret keys) (\<lambda>k.
           conjs [isin (ret k) (ret data), ne (ret k) (str ''phases'')]) (\<lambda>x. ret x)) (\<lambda>k. ret k) (\<lambda>k.
         index (ret data) (ret k))) (\<lambda>info.
     bnd (branch (isinstance (get (ret data) ''phases'') [TDict])
         (bnd (put (ret info) (str ''phases'')
               (each_dict (each_if (items_of (item (ret data) ''phases'')) (\<lambda>tup1.
                     unpack2 tup1 (\<lambda>k v. isinstance (ret v) [TDict])) (\<lambda>x. ret x)) (\<lambda>tup2.
                   unpack2 tup2 (\<lambda>k v. ret k)) (\<lambda>tup3. unpack2 tup3 (\<lambda>k v. get (ret v) ''status'')))) (\<lambda>info.
           ret info)) (ret info)) (\<lambda>info.
     bnd (merge (ret info) (dict_of [(''kind'', ret kind)])) (\<lambda>info.
     bnd (branch (notin (str ''status'') (ret info))
         (bnd (put (ret info) (str ''status'')
               (branch (same (get (ret data) ''complete'') yes) (str ''complete'')
                   (branch (same (get (ret data) ''complete'') no) (str ''unfinished'')
                       (branch (same (get (ret data) ''passed'') yes) (str ''passed'')
                           (branch (same (get (ret data) ''passed'') no) (str ''failed'')
                               (str ''unknown'')))))) (\<lambda>info.
           ret info)) (ret info)) (\<lambda>info.
     bnd (setdefault (ret info) (str ''complete'') none) (\<lambda>info.
     bnd (put (ret info) (str ''configurations'')
         (each_if (get_or (ret data) ''configurations'' (list_of [])) (\<lambda>c.
             isinstance (ret c) [TDict]) (\<lambda>c. get (ret c) ''name''))) (\<lambda>info.
     ret info))))))))))"

definition optional_object :: "pyval \<Rightarrow> expr" where
  "optional_object value =
     branch (same (ret value) none) (dict_of []) (
     reject (nay (isinstance (ret value) [TDict])) ''Invalid optional memory snapshot object'' (
     ret value))"

text \<open>The bytes the engine still owns per buffer class; unknown when a counter is missing or inconsistent.\<close>

definition held_bytes :: "pyval \<Rightarrow> expr" where
  "held_bytes per_class =
     branch (isinstance (ret per_class) [TDict])
       (loop (items_of (ret per_class)) (PDict []) (\<lambda>held entry.
          unpack2 entry (\<lambda>name c.
          reject (nay (isinstance (ret c) [TDict])) ''Invalid buffer class counters'' (
          bnd (get (ret c) ''allocated_bytes'') (\<lambda>a.
          bnd (get (ret c) ''owner_released_bytes'') (\<lambda>b.
          put (ret held) (ret name)
            (branch (conjs [type_in (ret a) [TInt], type_in (ret b) [TInt],
                   conjs [le (num 0) (ret b), le (ret b) (ret a)]]) (sub (ret a) (ret b)) none)))))))
       none"

definition memory_boundary_row :: "pyval \<Rightarrow> pyval \<Rightarrow> expr" where
  "memory_boundary_row value pointer =
     bnd (call1 optional_object (get (ret value) ''process'')) (\<lambda>process.
     bnd (call1 optional_object (get (ret value) ''metal'')) (\<lambda>metal.
     bnd (call1 optional_object (get (ret metal) ''buffer_costs'')) (\<lambda>costs.
     bnd (call1 held_bytes (get (ret costs) ''classes'')) (\<lambda>held.
     dict_of [(''pointer'', ret pointer), (''where'', get (ret value) ''where''),
        (''lifecycle'', get (ret value) ''lifecycle''),
        (''monotonic_ns'', get (ret value) ''monotonic_ns''), (''process'', ret process),
        (''system'', get (ret value) ''system''), (''engine_owner_held_bytes'', ret held),
        (''live_buffer_bytes'', get (ret metal) ''live_buffer_bytes''),
        (''peak_buffer_bytes'', get (ret metal) ''peak_buffer_bytes''),
        (''device_allocated_bytes'', get (ret metal) ''device_allocated_bytes''),
        (''live_command_groups'', get (ret metal) ''live_command_groups''),
        (''encoded_buffer_references'', get (ret metal) ''encoded_buffer_references'')]))))"

definition state_row :: "pyval \<Rightarrow> pyval \<Rightarrow> expr" where
  "state_row value pointer =
     bnd (item (ret value) ''metal'') (\<lambda>metal.
     bnd (call1 optional_object (get (ret value) ''process'')) (\<lambda>process.
     bnd (call1 optional_object (get (ret metal) ''residency'')) (\<lambda>residency.
     dict_of [(''pointer'', ret pointer), (''memory_plan'', item (ret value) ''memory_plan''),
        (''physical_footprint_bytes'', get (ret process) ''physical_footprint_bytes''),
        (''live_buffer_bytes'', get (ret metal) ''live_buffer_bytes''),
        (''peak_buffer_bytes'', get (ret metal) ''peak_buffer_bytes''),
        (''live_command_groups'', get (ret metal) ''live_command_groups''),
        (''pending_retirements'', get (ret residency) ''pending_retirements''),
        (''residency_bytes_by_class'', get (ret residency) ''bytes_by_class''),
        (''scratch_pools'', get (ret metal) ''scratch_pools''),
        (''expert_cache'', get (ret value) ''expert_cache''),
        (''phase_memory'', get (ret value) ''phase_memory'')])))"

text \<open>The row of a state object, which ends the descent into it.\<close>

definition snapshot_row :: "pyval \<Rightarrow> pyval \<Rightarrow> pyval option result" where
  "snapshot_row value pointer =
     branch (eq (get (ret value) ''kind'') (str ''memory_boundary_v1''))
       (bnd (memory_boundary_row value pointer) (\<lambda>row. Inr (Some row)))
       (branch (conjs [isinstance (get (ret value) ''metal'') [TDict],
              isinstance (get (ret value) ''memory_plan'') [TDict]])
          (bnd (state_row value pointer) (\<lambda>row. Inr (Some row))) (Inr None))"

definition child_pointer :: "pyval \<Rightarrow> string \<Rightarrow> expr" where
  "child_pointer pointer key =
     add (add (ret pointer) (str ''/''))
       (replaced (replaced (str key) (str ''~'') (str ''~0'')) (str ''/'') (str ''~1''))"

fun visit :: "pyval \<Rightarrow> pyval \<Rightarrow> pyval list result"
  and visit_entries :: "(string \<times> pyval) list \<Rightarrow> pyval \<Rightarrow> pyval list result"
  and visit_elements :: "nat \<Rightarrow> pyval list \<Rightarrow> pyval \<Rightarrow> pyval list result"
where
  "visit value pointer =
     (case value of
        PDict d \<Rightarrow> bnd (snapshot_row value pointer) (\<lambda>r.
          case r of Some row \<Rightarrow> Inr [row] | None \<Rightarrow> visit_entries d pointer)
      | PList xs \<Rightarrow> visit_elements 0 xs pointer
      | _ \<Rightarrow> Inr [])"
| "visit_entries [] pointer = Inr []"
| "visit_entries ((k, v) # d) pointer =
     bnd (child_pointer pointer k) (\<lambda>p. bnd (visit v p) (\<lambda>found.
     bnd (visit_entries d pointer) (\<lambda>more. Inr (found @ more))))"
| "visit_elements n [] pointer = Inr []"
| "visit_elements n (v # xs) pointer =
     bnd (add (add (ret pointer) (str ''/'')) (format_of [num (int n)])) (\<lambda>p.
     bnd (visit v p) (\<lambda>found.
     bnd (visit_elements (Suc n) xs pointer) (\<lambda>more. Inr (found @ more))))"

definition snapshots :: "pyval \<Rightarrow> expr" where
  "snapshots data = bnd (visit data (PStr [])) (\<lambda>found. Inr (PList found))"

text \<open>One sample of the soak run: identity, budget and machine are checked, footprint and swap are noted.\<close>

definition soak_row :: "pyval \<times> pyval \<times> pyval \<Rightarrow> pyval \<Rightarrow> (pyval \<times> pyval \<times> pyval) result" where
  "soak_row = (\<lambda>(identity, elapsed, points) row.
       bnd (item (ret row) ''after'') (\<lambda>s.
       bnd (item (ret s) ''metal'') (\<lambda>machine.
       bnd (item (ret s) ''memory_plan'') (\<lambda>plan.
       bnd (tuple_of [item (ret machine) ''build_fingerprint'', item (ret s) ''artifact_revision'',
            item (ret plan) ''limit_bytes'', item (ret plan) ''expert_slots'']) (\<lambda>key.
       bnd (branch (same (ret identity) none)
           (bnd (ret key) (\<lambda>identity.
             ret identity)) (ret identity)) (\<lambda>identity.
       reject (disjs [ne (ret key) (ret identity), item (ret s) ''diagnostic_stream_trunk'',
            get (ret row) ''profiling_enabled''])
         ''Build, budget, cache capacity, or execution mode changed'' (
       bnd (get_or (ret s) ''execution'' (dict_of [])) (\<lambda>execution.
       reject (get_or (get_or (ret s) ''phase_memory'' (dict_of [])) ''pressure_resizes'' (num 0))
         ''Emergency pressure reduction during soak'' (
       bnd (branch (eq (get_or (ret execution) ''phase_memory'' (str ''fixed'')) (str ''reclaim''))
           (bnd (call3 validate_phase_memory (ret row)
                 (dict_of [(''phase_memory'', str ''reclaim''),
                      (''prefill_pipeline'', get (ret execution) ''prefill_pipeline''),
                      (''chunk'', item (ret s) ''chunk_tokens'')]) (item (ret plan) ''limit_bytes'')) (\<lambda>unused.
             Inr ())) (Inr ())) (\<lambda>unused.
       reject (disjs [ne (item (ret machine) ''device'') (str ''Apple M1 Pro''),
            ne (item (ret machine) ''physical_bytes'') (num (32 * 1024 ^ 3))]) ''Wrong machine'' (
       reject (gt (item (item (ret s) ''process'') ''physical_footprint_bytes'')
           (item (ret plan) ''limit_bytes'')) ''Process exceeded the admitted budget'' (
       bnd (add (ret elapsed) (truediv (item (ret row) ''request_ms'') (num 1000))) (\<lambda>elapsed.
       bnd (append (ret points)
           (tuple_of [ret elapsed, item (item (ret s) ''process'') ''physical_footprint_bytes'',
                item (item (ret s) ''process'') ''system_swap_used_bytes''])) (\<lambda>points.
       Inr (identity, elapsed, points)))))))))))))))"

definition soak_evaluate :: "pyval \<Rightarrow> expr" where
  "soak_evaluate report =
     bnd (get_or (ret report) ''runs'' (list_of [])) (\<lambda>rows.
     reject (disjs [differs (get (ret report) ''complete'') yes,
          lt (get_or (ret report) ''benchmark_elapsed_ns'' (num 0)) (num (1200 * 10 ^ 9)),
          nay (ret rows)]) ''A complete 20-minute native workload is required'' (
     bnd none (\<lambda>identity.
     bnd (list_of []) (\<lambda>points.
     bnd (num 0) (\<lambda>elapsed.
     bnd (loop (ret rows) (identity, elapsed, points) soak_row) (\<lambda>(identity, elapsed, points).
     bnd (each_if (ret points) (\<lambda>p.
         ge (index (ret p) (num 0)) (sub (index (index (ret points) (num (- 1))) (num 0)) (num 600))) (\<lambda>p.
         ret p)) (\<lambda>tail.
     reject (lt (size_of (ret tail)) (num 3)) ''Insufficient samples in the final ten minutes'' (
     bnd (truediv (sum_of (each (ret tail) (\<lambda>p. index (ret p) (num 0)))) (size_of (ret tail))) (\<lambda>mx.
     bnd (truediv (sum_of (each (ret tail) (\<lambda>p. index (ret p) (num 1)))) (size_of (ret tail))) (\<lambda>my.
     bnd (sum_of (each (ret tail) (\<lambda>p. power (sub (index (ret p) (num 0)) (ret mx)) 2))) (\<lambda>denom.
     reject (eq (ret denom) (num 0)) ''Invalid time samples'' (
     bnd (mul (max_args [num 0,
            truediv (sum_of (each (ret tail) (\<lambda>p.
                    mul (sub (index (ret p) (num 0)) (ret mx))
                      (sub (index (ret p) (num 1)) (ret my))))) (ret denom)]) (num 600)) (\<lambda>projected_growth.
     bnd (sub (index (index (ret points) (num (- 1))) (num 2))
         (index (index (ret points) (num 0)) (num 2))) (\<lambda>swap_growth.
     bnd (conjs [le (ret projected_growth) (num (64 * 1024 ^ 2)),
          le (ret swap_growth) (num (64 * 1024 ^ 2))]) (\<lambda>passed.
     dict_of [(''passed'', ret passed), (''kind'', str ''controlled_coding_workload_memory_soak''),
        (''elapsed_seconds'', truediv (item (ret report) ''benchmark_elapsed_ns'')
            (flt 1000000000)),
        (''build_fingerprint'', index (ret identity) (num 0)),
        (''artifact_revision'', index (ret identity) (num 1)),
        (''budget_bytes'', index (ret identity) (num 2)),
        (''projected_10min_footprint_growth_bytes'', ret projected_growth),
        (''observed_system_swap_growth_bytes'', ret swap_growth),
        (''independently_checked_coding_quality'', no),
        (''note'', str
            (''System swap includes other processes. Growth thresholds are 64MiB per final ten minutes and 64MiB total swap.''))])))))))))))))))"

definition api_compare :: "pyval \<Rightarrow> pyval \<Rightarrow> expr" where
  "api_compare rows pairs =
     bnd (flatten (each (range_to (ret pairs)) (\<lambda>i.
           each (branch (eq (modulo (ret i) (num 2)) (num 0)) (tuple_of [str ''old'', str ''new''])
               (tuple_of [str ''new'', str ''old''])) (\<lambda>arm. tuple_of [ret i, ret arm])))) (\<lambda>expected.
     check (eq (each (ret rows) (\<lambda>r. tuple_of [item (ret r) ''pair'', item (ret r) ''arm'']))
         (ret expected)) ''Incomplete or reordered pairs'' (
     bnd (each_dict (ret rows) (\<lambda>r. tuple_of [item (ret r) ''pair'', item (ret r) ''arm'']) (\<lambda>r.
         ret r)) (\<lambda>grouped.
     bnd (list_of []) (\<lambda>ratios.
     bnd (loop (range_to (ret pairs)) ratios (\<lambda>ratios i.
       bnd (index (ret grouped) (tuple_of [ret i, str ''old''])) (\<lambda>a.
       bnd (index (ret grouped) (tuple_of [ret i, str ''new''])) (\<lambda>b.
       check (conjs [same (item (ret a) ''complete'') yes, same (item (ret b) ''complete'') yes])
         ''Incomplete request'' (
       check (eq (item (ret a) ''memory_plan'') (item (ret b) ''memory_plan''))
         ''Different admitted memory plans'' (
       check (eq (item (item (item (ret a) ''response'') ''zerocool'') ''output_token_ids'')
           (item (item (item (ret b) ''response'') ''zerocool'') ''output_token_ids''))
         ''Generated tokens differ'' (
       check (eq (item (item (item (ret a) ''response'') ''usage'') ''prompt_tokens'')
           (item (item (item (ret b) ''response'') ''usage'') ''prompt_tokens''))
         ''Different prompt tokenization'' (
       check (every (tuple_of [ret a, ret b]) (\<lambda>r.
           conjs [type_in (item (ret r) ''elapsed_ms'') [TInt, TFloat],
              isfinite (item (ret r) ''elapsed_ms''), gt (item (ret r) ''elapsed_ms'') (num 0)]))
         ''Missing or invalid request latency'' (
       bnd (append (ret ratios)
           (truediv (item (ret b) ''elapsed_ms'') (item (ret a) ''elapsed_ms''))) (\<lambda>ratios.
       ret ratios)))))))))) (\<lambda>ratios.
     dict_of [(''ratios'', ret ratios), (''median_ratio'', median (ret ratios)),
        (''decision'', branch (gt (max_of (ret ratios)) (flt (103 / 100)))
            (str ''investigate_or_extend'') (str ''short_screen_within_3_percent'')),
        (''qualified'', no),
        (''limitations'', list_of [str
                 (''Short paired screen; no confidence or sustained-use claim. TUI overhead is a separate measurement.'')])])))))"

definition current :: "pyval \<Rightarrow> pyval \<Rightarrow> expr" where
  "current current_build fingerprint =
     assert_that (eq (ret fingerprint) (ret current_build)) (
     none)"

definition performance :: "pyval \<Rightarrow> (pyval \<Rightarrow> expr) \<Rightarrow> pyval \<Rightarrow> pyval \<Rightarrow> expr" where
  "performance native_top_p load_report selected_lock current_build =
     bnd (call1 load_report (str ''performance.json'')) (\<lambda>report.
     bnd (dict_of []) (\<lambda>results.
     assert_that (same (get (ret report) ''complete'') yes) (
     bnd (loop (list_of [tuple_of [str ''prompt_2k'', num 2048, num 60000],
            tuple_of [str ''prompt_4k'', num 4096, none],
            tuple_of [str ''append_128'', none, num 10000],
            tuple_of [str ''prompt_7k'', num 7168, none]]) results (\<lambda>results tup1.
       unpack3 tup1 (\<lambda>name length' latency.
         bnd (each_if (item (ret report) ''runs'') (\<lambda>r. eq (item (ret r) ''name'') (ret name)) (\<lambda>r.
             ret r)) (\<lambda>rows.
         assert_that (ge (size_of (ret rows)) (num 5)) (
         bnd (loop (ret rows) () (\<lambda>unused r.
           assert_that (eq (get (ret report) ''model_revision'')
               (item (ret selected_lock) ''revision'')) (
           assert_that (eq (get (item (ret r) ''after'') ''artifact_revision'')
               (item (ret selected_lock) ''revision'')) (
           assert_that (eq (item (ret r) ''output_tokens'') (num 256)) (
           bnd (branch (ret length')
               (assert_that (eq (item (ret r) ''prompt_tokens'') (ret length')) (
                 Inr ())) (Inr ())) (\<lambda>unused.
           bnd (branch (eq (ret name) (str ''append_128''))
               (assert_that (conjs [eq (item (ret r) ''reused_tokens'') (num 4096),
                      eq (item (ret r) ''prefill_tokens'') (num 128),
                      eq (get (ret r) ''pending_tokens_ingested'') (num 0)]) (
                 Inr ())) (Inr ())) (\<lambda>unused.
           bnd (item (item (ret r) ''after'') ''metal'') (\<lambda>machine.
           assert_that (conjs [eq (item (ret machine) ''device'') (str ''Apple M1 Pro''),
                eq (item (ret machine) ''physical_bytes'') (num (32 * 1024 ^ 3))]) (
           bnd (call1 (current current_build) (get (ret machine) ''build_fingerprint'')) (\<lambda>unused.
           assert_that (same (get (item (ret r) ''after'') ''diagnostic_stream_trunk'') no) (
           assert_that (same (get (ret r) ''profiling_enabled'') no) (
           assert_that (eq (get (ret r) ''repetition'') (num 0)) (
           assert_that (eq (get (ret r) ''runtime_cache_state'')
               (branch (eq (ret name) (str ''append_128'')) (str ''retained'')
                   (str ''empty_at_process_start''))) (
           bnd (item (item (ret r) ''after'') ''memory_plan'') (\<lambda>plan.
           bnd (item (ret plan) ''limit_bytes'') (\<lambda>budget.
           assert_that (conjs [le (ret budget) (num (22 * 1024 ^ 3)),
                le (item (ret plan) ''planned_bytes'') (ret budget)]) (
           assert_that (le (item (item (item (ret r) ''after'') ''process'')
                 ''physical_footprint_bytes'') (ret budget)) (
           assert_that (conjs [eq (item (item (item (ret r) ''before'') ''memory_plan'') ''limit_bytes'')
                    (ret budget),
                eq (item (item (item (ret r) ''before'') ''memory_plan'') ''expert_slots'')
                    (item (ret plan) ''expert_slots'')]) (
           assert_that (conjs [eq (size_of (item (ret r) ''token_latency_ms'')) (num 255),
                eq (item (ret r) ''finish_reason'') (str ''length'')]) (
           Inr ())))))))))))))))))))) (\<lambda>unused.
         bnd (median (each (ret rows) (\<lambda>r. item (ret r) ''wall_tokens_per_second''))) (\<lambda>speed.
         bnd (median (each (ret rows) (\<lambda>r. item (ret r) ''time_to_first_token_ms''))) (\<lambda>first.
         bnd (branch (isin (ret name) (tuple_of [str ''prompt_2k'', str ''prompt_4k'']))
             (assert_that (ge (ret speed) (num 5)) (
               Inr ())) (Inr ())) (\<lambda>unused.
         bnd (branch (ret latency)
             (assert_that (le (ret first) (ret latency)) (
               Inr ())) (Inr ())) (\<lambda>unused.
         bnd (put (ret results) (ret name)
             (dict_of [(''median_wall_tokens_per_second'', ret speed),
                  (''median_first_token_ms'', ret first)])) (\<lambda>results.
         ret results))))))))))) (\<lambda>results.
     assert_that (call1 (fixed_sampling native_top_p) (get (ret report) ''sampling'')) (
     ret results)))))"

definition evidence :: "(pyval \<Rightarrow> expr) \<Rightarrow> pyval \<Rightarrow> pyval \<Rightarrow> pyval \<Rightarrow> expr" where
  "evidence load_report selected_lock current_build name =
     bnd (call1 load_report (add (ret name) (str ''.json''))) (\<lambda>data.
     assert_that (same (item (ret data) ''passed'') yes) (
     bnd (branch (eq (ret name) (str ''api''))
         (bnd (each_if (item (ret data) ''checks'') (\<lambda>c.
               conjs [isinstance (get (ret c) ''detail'') [TDict],
                  isin (str ''zerocool'') (item (ret c) ''detail'')]) (\<lambda>c.
               get_or (ret c) ''detail'' (dict_of []))) (\<lambda>responses.
           assert_that (ret responses) (
           bnd (loop (ret responses) () (\<lambda>unused response.
             bnd (call1 (current current_build)
                 (get (item (item (item (ret response) ''zerocool'') ''after'') ''metal'')
                     ''build_fingerprint'')) (\<lambda>unused.
             assert_that (eq (get (item (item (ret response) ''zerocool'') ''after'')
                   ''artifact_revision'') (item (ret selected_lock) ''revision'')) (
             Inr ())))) (\<lambda>unused.
           Inr ()))))
         (bnd (branch (isin (ret name) (tuple_of [str ''moe-replay'', str ''attention-replay'']))
               (bnd (call1 (current current_build)
                     (get (item (ret data) ''native'') ''build_fingerprint'')) (\<lambda>unused.
                 Inr ()))
               (bnd (call1 (current current_build) (get (ret data) ''build_fingerprint'')) (\<lambda>unused.
                 Inr ()))) (\<lambda>unused.
           Inr ()))) (\<lambda>unused.
     assert_that (get (ret data) ''checks'') (
     assert_that (every (item (ret data) ''checks'') (\<lambda>c. same (get (ret c) ''passed'') yes)) (
     size_of (item (ret data) ''checks''))))))"

definition soak :: "(pyval \<Rightarrow> expr) \<Rightarrow> pyval \<Rightarrow> pyval \<Rightarrow> expr" where
  "soak load_report selected_lock current_build =
     bnd (call1 load_report (str ''soak.json'')) (\<lambda>data.
     bnd (item (ret data) ''samples'') (\<lambda>samples.
     bnd (call1 (current current_build) (get (ret data) ''build_fingerprint'')) (\<lambda>unused.
     assert_that (conjs [ge (size_of (ret samples)) (num 20), ge (item (ret data) ''elapsed_seconds'') (num 1200)]) (
     bnd (slice (ret samples) (floordiv (size_of (ret samples)) (num 2)) none) (\<lambda>tail.
     assert_that (le (max_of (each (ret samples) (\<lambda>s. item (ret s) ''physical_footprint_bytes'')))
         (num (22 * 1024 ^ 3))) (
     assert_that (le (sub (item (index (ret tail) (num (- 1))) ''physical_footprint_bytes'')
           (item (index (ret tail) (num 0)) ''physical_footprint_bytes'')) (num (128 * 1024 ^ 2))) (
     assert_that (le (sub (item (index (ret tail) (num (- 1))) ''system_swap_used_bytes'')
           (item (index (ret tail) (num 0)) ''system_swap_used_bytes'')) (num (64 * 1024 ^ 2))) (
     assert_that (ge (item (ret data) ''completed_turns'') (num 10)) (
     dict_of [(''seconds'', item (ret data) ''elapsed_seconds''),
        (''turns'', item (ret data) ''completed_turns'')])))))))))"

definition coding :: "(pyval \<Rightarrow> expr) \<Rightarrow> pyval \<Rightarrow> pyval \<Rightarrow> expr" where
  "coding load_report selected_lock current_build =
     bnd (call1 load_report (str ''coding.json'')) (\<lambda>data.
     assert_that (conjs [item (ret data) ''passed'', eq (item (ret data) ''independent_tests_exit_code'') (num 0)]) (
     bnd (call1 (current current_build) (get (ret data) ''build_fingerprint'')) (\<lambda>unused.
     assert_that (le (set_disp [str ''read'', str ''edit'', str ''test'', str ''recovery''])
         (set_of (item (ret data) ''observed_actions''))) (
     assert_that (conjs [item (ret data) ''tool_trace'', item (ret data) ''independent_test_output'']) (
     item (ret data) ''observed_actions'')))))"

end
