(* ===== verification/MtpEvidence.thy ===== *)
theory MtpEvidence
  imports RunChecks
begin

text \<open>
  Accounting of multi-token-prediction runs (\<open>scripts/qwen/mtp_evidence.py\<close>,
  \<open>screen_mtp_forward.py\<close>, \<open>screen_mtp_recovery.py\<close>, \<open>screen_mtp_continuation.py\<close>,
  \<open>verify_mtp_forward.py\<close>): the cycles of a native report are replayed and every total it claims is
  recomputed; two runs are compared on everything but their timing.
\<close>

definition WIDTH_KIND :: pyval where
  "WIDTH_KIND = PStr ''native_mtp_width_v1''"

definition NATIVE :: pyval where
  "NATIVE =
     PSet [PStr ''native_mtp_continuation_v1'', PStr ''native_mtp_continuation_v2'', WIDTH_KIND]"

definition ROOT_PHASES :: pyval where
  "ROOT_PHASES = PTuple [PStr ''draft'', PStr ''verify'', PStr ''recovery'']"

definition RECOVERY_PARTS :: pyval where
  "RECOVERY_PARTS =
     PTuple [PStr ''target_restore'', PStr ''target_repair'', PStr ''draft_restore'',
        PStr ''draft_catchup'']"

definition UNFINISHED_STATUSES :: pyval where
  "UNFINISHED_STATUSES =
     PSet [PStr ''running'', PStr ''pending'', PStr ''unfinished'', PStr ''resource_blocked'',
        PStr ''interrupted'', PStr ''time_budget_exhausted'']"

definition terminal_result :: "pyval \<Rightarrow> pyval \<Rightarrow> expr" where
  "terminal_result data allow_failure =
     branch (disjs [same (get (ret data) ''complete'') no,
          isin (get (ret data) ''status'') (ret UNFINISHED_STATUSES)]) no (
     branch (ret allow_failure)
       (disjs [same (get (ret data) ''complete'') yes, type_in (get (ret data) ''passed'') [TBool]]) (
     conjs [notin (get (ret data) ''status'') (tuple_of [str ''failed'', str ''error'']),
        differs (get (ret data) ''passed'') no,
        disjs [same (get (ret data) ''complete'') yes, same (get (ret data) ''passed'') yes]]))"

definition integer_mtp :: "pyval \<Rightarrow> pyval \<Rightarrow> expr" where
  "integer_mtp value minimum =
     check (conjs [type_in (ret value) [TInt], ge (ret value) (ret minimum)])
       ''Invalid integer measurement'' (
     ret value)"

definition screening_context :: "pyval \<Rightarrow> expr" where
  "screening_context data =
     branch (isin (get (ret data) ''kind'')
         (tuple_of [str ''mtp_width_screen_v1'', str ''streamed_mtp_screen_v1'']))
       (check (conjs [same (get (ret data) ''preliminary'') yes,
              same (get (ret data) ''advancement_allowed'') no,
              same (get (ret data) ''production_promoted'') no,
              type_in (get (ret data) ''full_clean_correctness'') [TBool]])
           ''Preliminary screening cannot claim adoption'' (
         dict_of [(''preliminary'', yes),
            (''full_correctness_stage_passed'', item (ret data) ''full_clean_correctness''),
            (''advancement_allowed'', no)])) (
     bnd (disjs [eq (get (ret data) ''stage'') (str ''early''), same (get (ret data) ''preliminary'') yes]) (\<lambda>early.
     branch (nay (ret early)) (dict_of [(''preliminary'', no)]) (
     check (conjs [eq (get (ret data) ''kind'') (str ''mtp_target_recovery_screen_v1''),
          eq (get (ret data) ''stage'') (str ''early''), same (get (ret data) ''preliminary'') yes,
          same (get (ret data) ''full_correctness_stage_passed'') no,
          same (get (ret data) ''advancement_allowed'') no,
          same (get (ret data) ''production_promoted'') no])
       ''Early screening cannot claim correctness qualification or adoption'' (
     dict_of [(''preliminary'', yes), (''full_correctness_stage_passed'', no),
        (''advancement_allowed'', no)]))))"

text \<open>
  One verification cycle of a report: its width and committed tokens, the schedule of a width
  report, the acceptance by position and the timed parts.
\<close>

definition cycle_schedule :: "pyval \<Rightarrow> pyval \<Rightarrow> pyval \<Rightarrow> pyval \<Rightarrow> pyval \<Rightarrow> pyval \<Rightarrow> pyval \<Rightarrow> pyval \<Rightarrow> unit result" where
  "cycle_schedule raw width_report requested requested_width committed ids width keep =
     branch (ret width_report)
       (bnd (sub (ret requested) (size_of (ret committed))) (\<lambda>remaining.
         bnd (branch (conjs [ge (ret remaining) (ret requested_width),
                notin (index (ret ids) (num 0)) (get_or (ret raw) ''eos_ids'' (list_of []))])
             (ret requested_width) (num 1)) (\<lambda>expected_width.
         check (conjs [gt (ret remaining) (num 0), eq (ret width) (ret expected_width),
              le (ret keep) (ret remaining)])
           ''Cycle differs from fixed width or output-tail schedule'' (
         Inr ())))) (Inr ())"

definition cycle_positions :: "pyval \<Rightarrow> pyval \<Rightarrow> pyval \<Rightarrow> expr" where
  "cycle_positions positions width keep =
     loop (range_between (num 1) (ret width)) positions (\<lambda>positions p.
       bnd (put (ret positions) (ret p)
           (put (index (ret positions) (ret p)) (str ''proposed'')
               (add (item (index (ret positions) (ret p)) ''proposed'') (num 1)))) (\<lambda>positions.
       put (ret positions) (ret p)
           (put (index (ret positions) (ret p)) (str ''accepted'')
               (add (item (index (ret positions) (ret p)) ''accepted'') (lt (ret p) (ret keep))))))"

definition cycle_recovery :: "pyval \<Rightarrow> pyval \<Rightarrow> pyval \<Rightarrow> pyval \<Rightarrow> pyval \<Rightarrow> pyval \<Rightarrow> pyval \<Rightarrow> pyval \<Rightarrow> (pyval \<times> pyval) result" where
  "cycle_recovery raw c number parts width keep children replayed =
     branch (differs (ret children) none)
       (check (conjs [eq (get (ret c) ''cycle_id'') (ret number),
              eq (get (ret c) ''request_id'') (get (ret raw) ''request_id''),
              isinstance (get (ret raw) ''request_id'') [TStr],
              bool_of (item (ret raw) ''request_id'')]) ''Missing cycle identity'' (
         bnd (each_dict (ret RECOVERY_PARTS) (\<lambda>p. ret p) (\<lambda>p.
             call2 integer_mtp (lookup (ret c) (add (ret p) (str ''_ns''))) (num 0))) (\<lambda>sub'.
         check (le (sum_of (values_of (ret sub'))) (item (ret parts) ''recovery''))
           ''Recovery children exceed parent'' (
         bnd (loop (items_of (ret sub')) children (\<lambda>children tup1.
           unpack2 tup1 (\<lambda>p value.
             put (ret children) (ret p) (add (index (ret children) (ret p)) (ret value))))) (\<lambda>children.
         bnd (call2 integer_mtp (get (ret c) ''target_recovery_forward_calls'') (num 0)) (\<lambda>calls.
         bnd (call2 integer_mtp (get (ret c) ''target_recovery_read_bytes'') (num 0)) (\<lambda>unused.
         bnd (add (ret replayed) (ret calls)) (\<lambda>replayed.
         Inr (children, replayed)))))))))
       (bnd (add (ret replayed) (branch (lt (ret keep) (ret width)) (ret keep) (num 0))) (\<lambda>replayed.
         Inr (children, replayed)))"

definition account_cycle ::
  "pyval \<Rightarrow> pyval \<Rightarrow> pyval \<Rightarrow> pyval \<Rightarrow> pyval \<times> pyval \<times> pyval \<times> pyval \<times> pyval \<times> pyval \<times> pyval \<times> pyval \<times> pyval \<times> pyval \<Rightarrow>
   pyval \<Rightarrow> (pyval \<times> pyval \<times> pyval \<times> pyval \<times> pyval \<times> pyval \<times> pyval \<times> pyval \<times> pyval \<times> pyval) result" where
  "account_cycle raw width_report requested requested_width =
     (\<lambda>(positions, replayed, children, totals, committed, offset, proposed, accepted, discarded, rejected) tup3.
     unpack2 tup3 (\<lambda>number c.
     bnd (call2 integer_mtp (get (ret c) ''width'') (num 1)) (\<lambda>width.
     bnd (call2 integer_mtp (get (ret c) ''committed_tokens'') (num 1)) (\<lambda>keep.
     check (conjs [isin (ret width)
              (branch (ret width_report) (tuple_of [num 1, num 2, num 4]) (tuple_of [num 1, num 4])),
          le (ret keep) (ret width), eq (get (ret c) ''offset'') (ret offset)]) ''Invalid cycle coverage'' (
     bnd (get (ret c) ''proposals'') (\<lambda>ids.
     check (conjs [isinstance (ret ids) [TList], eq (size_of (ret ids)) (ret width),
          every (ret ids) (\<lambda>t.
              conjs [type_in (ret t) [TInt], conjs [le (num 0) (ret t), lt (ret t) (num 248320)]])])
       ''Invalid proposal IDs'' (
     bnd (cycle_schedule raw width_report requested requested_width committed ids width keep) (\<lambda>_.
     check (eq (get (ret c) ''accepted_proposals'') (sub (ret keep) (num 1))) ''Accepted length differs'' (
     bnd (cycle_positions positions width keep) (\<lambda>positions.
     bnd (call2 integer_mtp (get (ret c) ''wall_ns'') (num 1)) (\<lambda>wall.
     bnd (each_dict (ret ROOT_PHASES) (\<lambda>p. ret p) (\<lambda>p.
         call2 integer_mtp (lookup (ret c) (add (ret p) (str ''_ns''))) (num 0))) (\<lambda>parts.
     bnd (branch (differs (ret children) none)
         (call2 integer_mtp (get (ret c) ''checkpoint_save_ns'') (num 0)) (num 0)) (\<lambda>save.
     check (le (add (sum_of (values_of (ret parts))) (ret save)) (ret wall))
       ''Overlapping or invalid top-level timing'' (
     bnd (cycle_recovery raw c number parts width keep children replayed) (\<lambda>(children, replayed).
     bnd (loop (items_of (ret parts)) totals (\<lambda>totals tup2.
       unpack2 tup2 (\<lambda>p value.
         put (ret totals) (ret p) (add (index (ret totals) (ret p)) (ret value))))) (\<lambda>totals.
     bnd (put (ret totals) (str ''wall'') (add (item (ret totals) ''wall'') (ret wall))) (\<lambda>totals.
     bnd (put (ret totals) (str ''checkpoint_save'')
         (add (item (ret totals) ''checkpoint_save'') (ret save))) (\<lambda>totals.
     bnd (add (ret committed) (slice (ret ids) none (ret keep))) (\<lambda>committed.
     bnd (add (ret offset) (ret keep)) (\<lambda>offset.
     bnd (add (ret proposed) (sub (ret width) (num 1))) (\<lambda>proposed.
     bnd (add (ret accepted) (sub (ret keep) (num 1))) (\<lambda>accepted.
     bnd (add (ret discarded) (sub (ret width) (ret keep))) (\<lambda>discarded.
     bnd (add (ret rejected) (lt (ret keep) (ret width))) (\<lambda>rejected.
     Inr (positions, replayed, children, totals, committed, offset, proposed, accepted, discarded, rejected)))))))))))))))))))))))))"

text \<open>The end of \<open>account\<close>: the checks of a complete report and the summary.\<close>

definition account_report ::
  "pyval \<Rightarrow> pyval \<Rightarrow> pyval \<Rightarrow> pyval \<times> pyval \<times> pyval \<times> pyval \<times> pyval \<times> pyval \<times> pyval \<times> pyval \<times> pyval \<times> pyval \<Rightarrow> expr" where
  "account_report raw cs requested =
     (\<lambda>(positions, replayed, children, totals, committed, offset, proposed, accepted, discarded, rejected).
     bnd (size_of (ret committed)) (\<lambda>n.
     bnd (call2 terminal_result (ret raw) no) (\<lambda>complete.
     bnd (branch (ret complete)
         (check (conjs [gt (ret n) (num 0), eq (get (ret raw) ''generated_tokens'') (ret n),
                eq (get (ret raw) ''committed_token_ids'') (ret committed),
                eq (get (ret raw) ''decode_wall_ns'') (item (ret totals) ''wall''),
                eq (get (ret raw) ''proposed_tokens'') (ret proposed),
                eq (get (ret raw) ''accepted_proposals'') (ret accepted)])
             ''Incomplete native cycle totals'' (
           check (eq (get (ret raw) ''tokens_per_second'')
               (truediv (mul (ret n) (flt 1000000000)) (item (ret totals) ''wall'')))
             ''Native throughput differs'' (
           bnd (call2 integer_mtp (get (ret raw) ''requested_tokens'') (num 1)) (\<lambda>requested.
           check (conjs [le (ret n) (ret requested),
                disjs [conjs [eq (get (ret raw) ''stop_reason'') (str ''length''),
                          eq (ret n) (ret requested)],
                     conjs [eq (get (ret raw) ''stop_reason'') (str ''eos''),
                          isin (index (ret committed) (num (- 1)))
                              (get_or (ret raw) ''eos_ids'' (list_of []))]]])
             ''Invalid stop coverage'' (
           ret requested))))) (ret requested)) (\<lambda>requested.
     bnd (conjs [ret complete, same (get (ret raw) ''validation'') no,
          isin (get (ret raw) ''mode'')
              (tuple_of [str ''serial'', str ''fast-timing'', str ''timing''])]) (\<lambda>timed.
     bnd (put (ret totals) (str ''other'')
         (sub (sub (item (ret totals) ''wall'')
               (sum_of (each (ret ROOT_PHASES) (\<lambda>p. index (ret totals) (ret p)))))
             (item (ret totals) ''checkpoint_save''))) (\<lambda>totals.
     bnd none (\<lambda>expert_bytes.
     bnd (branch (ret complete)
         (bnd (get (get_or (get_or (ret raw) ''before'' (dict_of [])) ''expert_cache'' (dict_of []))
               ''application_read_bytes'') (\<lambda>a.
           bnd (get (get_or (get_or (ret raw) ''after'' (dict_of [])) ''expert_cache'' (dict_of []))
               ''application_read_bytes'') (\<lambda>b.
           bnd (branch (conjs [differs (ret a) none, differs (ret b) none])
               (bnd (sub (call2 integer_mtp (ret b) (num 0)) (call2 integer_mtp (ret a) (num 0))) (\<lambda>expert_bytes.
                 check (ge (ret expert_bytes) (num 0)) ''Expert counter moved backwards'' (
                 ret expert_bytes))) (ret expert_bytes)) (\<lambda>expert_bytes.
           ret expert_bytes)))) (ret expert_bytes)) (\<lambda>expert_bytes.
     dict_of [(''complete'', ret complete), (''timing_mode'', ret timed),
        (''captured_cycles'', size_of (ret cs)), (''captured_committed_tokens'', ret n),
        (''component_ms_per_token'', each_dict (items_of (ret totals)) (\<lambda>tup4.
            unpack2 tup4 (\<lambda>p value. ret p)) (\<lambda>tup5.
            unpack2 tup5 (\<lambda>p value.
              branch (conjs [ret n, disjs [ne (ret p) (str ''checkpoint_save''), differs (ret children) none]])
                (truediv (truediv (ret value) (ret n)) (flt 1000000)) none))),
        (''recovery_children_ms_per_token'', branch (differs (ret children) none)
            (each_dict (items_of (ret children)) (\<lambda>tup6. unpack2 tup6 (\<lambda>p value. ret p)) (\<lambda>tup7.
                unpack2 tup7 (\<lambda>p value.
                  branch (ret n) (truediv (truediv (ret value) (ret n)) (flt 1000000)) none))) none),
        (''checkpoint_save_measured'', differs (ret children) none),
        (''proposed_tokens'', ret proposed), (''accepted_proposals'', ret accepted),
        (''acceptance_by_position'', ret positions),
        (''discarded_verification_rows'', ret discarded), (''repeated_target_rows'', ret replayed),
        (''repeated_target_rows_basis'', branch (differs (ret children) none)
            (str ''measured forward calls'') (str ''known v1 full-replay schedule'')),
        (''rejected_cycles'', ret rejected),
        (''mean_committed_per_cycle'', branch (ret cs) (truediv (ret n) (size_of (ret cs))) none),
        (''target_expert_application_bytes'', ret expert_bytes),
        (''target_expert_bytes_per_committed_token'', branch (conjs [ret n, differs (ret expert_bytes) none])
            (truediv (ret expert_bytes) (ret n)) none),
        (''measured_tps'', branch (ret timed)
            (truediv (mul (ret n) (flt 1000000000)) (item (ret totals) ''wall'')) none),
        (''stop_reason'', get (ret raw) ''stop_reason''),
        (''phase_ns'', merge (dict_from (ret totals))
            (dict_of [(''checkpoint_save'', branch (differs (ret children) none)
                     (item (ret totals) ''checkpoint_save'') none)])),
        (''recovery_part_ns'', ret children)]))))))))"

definition account :: "pyval \<Rightarrow> expr" where
  "account raw =
     bnd none (\<lambda>requested.
     check (conjs [isinstance (ret raw) [TDict], isin (get (ret raw) ''kind'') (ret NATIVE)])
       ''Unsupported MTP native report'' (
     bnd (get_or (ret raw) ''cycles'' (list_of [])) (\<lambda>cs.
     check (isinstance (ret cs) [TList]) ''Missing cycle array'' (
     bnd (dict_fromkeys (tuple_from (list_extend (list_from (ret ROOT_PHASES))
             (list_of [str ''wall'', str ''checkpoint_save'']))) (num 0)) (\<lambda>totals.
     bnd (eq (item (ret raw) ''kind'') (ret WIDTH_KIND)) (\<lambda>width_report.
     bnd (branch (ret width_report) (call2 integer_mtp (get (ret raw) ''requested_width'') (num 1))
         none) (\<lambda>requested_width.
     bnd (branch (ret width_report)
         (check (isin (ret requested_width) (tuple_of [num 1, num 2, num 4]))
             ''Unsupported requested MTP width'' (
           bnd (call2 integer_mtp (get (ret raw) ''requested_tokens'') (num 1)) (\<lambda>requested.
           ret requested))) (ret requested)) (\<lambda>requested.
     bnd (branch (disjs [endswith (item (ret raw) ''kind'') (str ''_v2''), ret width_report])
         (dict_fromkeys (ret RECOVERY_PARTS) (num 0)) none) (\<lambda>children.
     bnd (list_of []) (\<lambda>committed.
     bnd (call2 integer_mtp (get (ret raw) ''prompt_tokens'') (num 1)) (\<lambda>offset.
     bnd (num 0) (\<lambda>proposed.
     bnd (ret proposed) (\<lambda>accepted.
     bnd (ret proposed) (\<lambda>discarded.
     bnd (ret proposed) (\<lambda>replayed.
     bnd (ret proposed) (\<lambda>rejected.
     bnd (each_dict (range_between (num 1) (num 4)) (\<lambda>p. ret p) (\<lambda>p.
         dict_of [(''proposed'', num 0), (''accepted'', num 0)])) (\<lambda>positions.
     bnd (loop (numbered (ret cs) 0)
         (positions, replayed, children, totals, committed, offset, proposed, accepted, discarded, rejected)
         (account_cycle raw width_report requested requested_width))
       (account_report raw cs requested))))))))))))))))))"

definition clean :: "pyval \<Rightarrow> expr" where
  "clean raw =
     bnd (list_of [item (ret raw) ''before_load'', item (ret raw) ''after_destroy'']) (\<lambda>memory.
     bnd (branch (eq (item (ret raw) ''mode'') (str ''fixture''))
         (bnd (append (ret memory) (item (ret raw) ''after'')) (\<lambda>memory.
           ret memory))
         (bnd (add (ret memory)
               (each (tuple_of [str ''before'', str ''after'']) (\<lambda>k.
                   item (index (ret raw) (ret k)) ''process''))) (\<lambda>memory.
           bnd (add (ret memory)
               (flatten (each (item (ret raw) ''cycles'') (\<lambda>c.
                     each (tuple_of [str ''memory_before'', str ''memory_after'']) (\<lambda>k.
                       index (ret c) (ret k)))))) (\<lambda>memory.
           ret memory)))) (\<lambda>memory.
     bnd (tuple_of [str ''physical_footprint_bytes'', str ''physical_footprint_peak_bytes'',
          str ''compressed_bytes'', str ''compressed_peak_bytes'', str ''decompressions'',
          str ''system_swap_used_bytes'']) (\<lambda>fields'.
     check (every (ret memory) (\<lambda>m.
         every (ret fields') (\<lambda>k.
           conjs [type_in (lookup (ret m) (ret k)) [TInt], ge (index (ret m) (ret k)) (num 0)])))
       ''missing MTP memory observation'' (
     bnd (branch (eq (item (ret raw) ''mode'') (str ''fixture'')) (num (3 * 1024 ^ 3))
         (num (12 * 1024 ^ 3))) (\<lambda>limit.
     check (every (ret memory) (\<lambda>m.
         conjs [lt (num 0) (item (ret m) ''physical_footprint_bytes''),
            le (item (ret m) ''physical_footprint_bytes'')
                (item (ret m) ''physical_footprint_peak_bytes''),
            le (item (ret m) ''physical_footprint_peak_bytes'') (ret limit)]))
       ''MTP process exceeded memory budget'' (
     bnd (each (tuple_of [str ''host_before'', str ''host_after'']) (\<lambda>k. index (ret raw) (ret k))) (\<lambda>host.
     dict_of [(''clean_memory'', conjs [every (ret memory) (\<lambda>m.
                 conjs [eq (item (ret m) ''compressed_bytes'') (item (ret m) ''compressed_peak_bytes''),
                    eq (item (ret m) ''compressed_peak_bytes'') (num 0)]),
             conjs [eq (size_of (set_of (each (ret memory) (\<lambda>m. item (ret m) ''decompressions''))))
                      (size_of (set_of (each (ret memory) (\<lambda>m.
                              item (ret m) ''system_swap_used_bytes'')))),
                  eq (size_of (set_of (each (ret memory) (\<lambda>m.
                            item (ret m) ''system_swap_used_bytes'')))) (num 1)]]),
        (''clean_host'', every (ret host) (\<lambda>h.
            conjs [eq (item (ret h) ''thermal_state'') (num 0),
               same (item (ret h) ''low_power_mode'') no,
               eq (item (ret h) ''power_source'') (str ''AC Power'')])),
        (''peak_physical_bytes'', max_of (each (ret memory) (\<lambda>m.
              item (ret m) ''physical_footprint_peak_bytes'')))])))))))"

definition compare_joint :: "pyval \<Rightarrow> pyval \<Rightarrow> expr" where
  "compare_joint serial candidate =
     check (conjs [same (get (ret serial) ''complete'') yes, same (get (ret candidate) ''complete'') yes,
          eq (item (ret serial) ''mode'') (str ''serial''),
          eq (item (ret candidate) ''mode'') (str ''timing''),
          eq (item (ret serial) ''input_sha256'') (item (ret candidate) ''input_sha256''),
          eq (item (ret serial) ''draft_manifest_sha256'')
              (item (ret candidate) ''draft_manifest_sha256''),
          eq (item (ret serial) ''admission'') (item (ret candidate) ''admission''),
          conjs [eq (item (ret serial) ''generated_tokens'')
                   (item (ret candidate) ''generated_tokens''),
               eq (item (ret candidate) ''generated_tokens'') (num 16)]])
       ''incompatible or incomplete joint comparison'' (
     check (eq (item (ret serial) ''final_target_state'')
         (item (ret candidate) ''final_target_state''))
       ''MTP final target state differs from serial'' (
     bnd (loop (tuple_of [ret serial, ret candidate]) () (\<lambda>unused r.
       check (conjs [gt (item (ret r) ''decode_wall_ns'') (num 0),
            eq (item (ret r) ''decode_wall_ns'')
                (sum_of (each (item (ret r) ''cycles'') (\<lambda>c. item (ret c) ''wall_ns''))),
            eq (sum_of (each (item (ret r) ''cycles'') (\<lambda>c. item (ret c) ''committed_tokens'')))
                (num 16),
            nay (some (item (ret r) ''cycles'') (\<lambda>c. get (ret c) ''forced_rejection''))])
         ''invalid MTP measured coverage'' (
       Inr ()))) (\<lambda>unused.
     truediv (item (ret candidate) ''decode_wall_ns'') (item (ret serial) ''decode_wall_ns''))))"

definition equivalent :: "pyval \<Rightarrow> pyval \<Rightarrow> expr" where
  "equivalent a b =
     check (conjs [same (item (ret a) ''complete'') yes, same (item (ret b) ''complete'') yes,
          eq (item (ret a) ''input_sha256'') (item (ret b) ''input_sha256''),
          eq (item (ret a) ''admission'') (item (ret b) ''admission''),
          eq (item (ret a) ''draft_manifest_sha256'') (item (ret b) ''draft_manifest_sha256'')])
       ''incompatible recovery runs'' (
     check (conjs [eq (item (ret a) ''prime_logits_sha256'') (item (ret b) ''prime_logits_sha256''),
          eq (item (ret a) ''generated_tokens'') (item (ret b) ''generated_tokens''),
          eq (item (ret a) ''final_target_state'') (item (ret b) ''final_target_state'')])
       ''recovery changed target output/state'' (
     bnd (tuple_of [str ''width'', str ''proposals'', str ''accepted_proposals'', str ''committed_tokens'',
          str ''forced_rejection'', str ''next_id'']) (\<lambda>fields'.
     check (eq (each (item (ret a) ''cycles'') (\<lambda>c.
           each_dict (ret fields') (\<lambda>k. ret k) (\<lambda>k. index (ret c) (ret k))))
         (each (item (ret b) ''cycles'') (\<lambda>c.
             each_dict (ret fields') (\<lambda>k. ret k) (\<lambda>k. index (ret c) (ret k)))))
       ''recovery changed proposals or acceptance'' (
     check (eq (get (ret a) ''boundaries'') (get (ret b) ''boundaries''))
       ''recovery changed intermediate target/draft state'' (
     bnd (loop (tuple_of [ret a, ret b]) () (\<lambda>unused r.
       check (conjs [eq (item (ret r) ''decode_wall_ns'')
                (sum_of (each (item (ret r) ''cycles'') (\<lambda>c. item (ret c) ''wall_ns''))),
            gt (item (ret r) ''decode_wall_ns'') (num 0),
            eq (item (ret r) ''generated_tokens'')
                (sum_of (each (item (ret r) ''cycles'') (\<lambda>c. item (ret c) ''committed_tokens'')))])
         ''incomplete recovery timing coverage'' (
       Inr ()))) (\<lambda>unused.
     none))))))"

end
