(* ===== verification/HorizonReplay.thy ===== *)
theory HorizonReplay
  imports MtpEvidence
begin

text \<open>
  The verifier-horizon screen and the replay of its cache decisions
  (\<open>scripts/qwen/screen_verifier_horizon.py\<close>, \<open>horizon_cache_replay.py\<close>).
\<close>

definition prefix :: "pyval \<Rightarrow> pyval \<Rightarrow> expr" where
  "prefix work count =
     check (conjs [type_in (ret count) [TInt],
          conjs [le (num 1) (ret count),
               le (ret count) (size_of (item (ret work) ''continuation_ids''))]])
       ''Invalid horizon prefix'' (
     bnd (merge (dict_from (ret work)) (dict_of [(''max_tokens'', ret count)])) (\<lambda>result.
     bnd (loop (tuple_of [str ''continuation_ids'', str ''expected_next_ids'', str ''row_logits_sha256''])
         result (\<lambda>result key.
       bnd (put (ret result) (ret key) (slice (index (ret work) (ret key)) none (ret count))) (\<lambda>result.
       ret result))) (\<lambda>result.
     bnd (branch (ne (ret count) (size_of (item (ret work) ''continuation_ids'')))
         (bnd (without_key (ret result) (str ''final_target_state'')) (\<lambda>result.
           ret result)) (ret result)) (\<lambda>result.
     ret result))))"

definition validate_horizon :: "pyval \<Rightarrow> pyval \<Rightarrow> pyval \<Rightarrow> pyval \<Rightarrow> pyval \<Rightarrow> pyval \<Rightarrow> pyval \<Rightarrow> pyval \<Rightarrow> expr" where
  "validate_horizon raw work input_sha producer_sha width validation streamed trace_workspace_bytes =
     check (conjs [type_in (ret width) [TInt], isin (ret width) (tuple_of [num 1, num 4, num 8]),
          eq (get (ret raw) ''kind'') (str ''native_verifier_horizon_v1''),
          same (get (ret raw) ''complete'') yes,
          same (item (ret raw) ''perfect_proposals_only'') yes,
          same (item (ret raw) ''normal_request_latency_qualified'') no,
          same (item (ret raw) ''production_promoted'') no,
          same (item (ret raw) ''validation'') (ret validation),
          eq (item (ret raw) ''mode'')
              (branch (ret validation) (str ''fast-validate'') (str ''fast-timing'')),
          eq (item (ret raw) ''producer_binary_sha256'') (ret producer_sha),
          eq (item (ret raw) ''input_sha256'') (ret input_sha),
          eq (item (ret raw) ''requested_width'') (ret width)])
       ''Incomplete or incompatible horizon'' (
     bnd (size_of (item (ret work) ''continuation_ids'')) (\<lambda>count.
     bnd (size_of (item (ret work) ''prompt_ids'')) (\<lambda>offset.
     bnd (num 0) (\<lambda>wall.
     bnd (ret wall) (\<lambda>verified.
     check (conjs [conjs [eq (item (ret raw) ''requested_tokens'') (item (ret raw) ''generated_tokens''),
               eq (item (ret raw) ''generated_tokens'') (ret count)],
          eq (item (ret raw) ''prompt_tokens'') (ret offset),
          eq (item (ret raw) ''committed_token_ids'') (item (ret work) ''continuation_ids''),
          eq (item (ret raw) ''row_logits_sha256'') (item (ret work) ''row_logits_sha256''),
          eq (item (ret raw) ''prime_logits_sha256'') (item (ret work) ''prime_logits_sha256''),
          eq (item (ret raw) ''next_id'')
              (index (item (ret work) ''expected_next_ids'') (num (- 1)))])
       ''Horizon changed known outputs or full logits'' (
     bnd (loop (item (ret raw) ''cycles'') (verified, wall) (\<lambda>(verified, wall) c.
       bnd (branch (ge (sub (ret count) (ret verified)) (ret width)) (ret width) (num 1)) (\<lambda>n.
       check (conjs [eq (item (ret c) ''offset'') (add (ret offset) (ret verified)),
            conjs [eq (item (ret c) ''width'') (item (ret c) ''committed_tokens''),
                 eq (item (ret c) ''committed_tokens'') (ret n)],
            type_in (item (ret c) ''wall_ns'') [TInt], gt (item (ret c) ''wall_ns'') (num 0),
            type_in (item (ret c) ''verify_ns'') [TInt], gt (item (ret c) ''verify_ns'') (num 0),
            type_in (item (ret c) ''checkpoint_save_ns'') [TInt],
            ge (item (ret c) ''checkpoint_save_ns'') (num 0),
            le (add (item (ret c) ''verify_ns'') (item (ret c) ''checkpoint_save_ns''))
                (item (ret c) ''wall_ns'')]) ''Invalid horizon cycle'' (
       bnd (add (ret verified) (ret n)) (\<lambda>verified.
       bnd (add (ret wall) (item (ret c) ''wall_ns'')) (\<lambda>wall.
       Inr (verified, wall))))))) (\<lambda>(verified, wall).
     check (conjs [eq (ret verified) (ret count), eq (item (ret raw) ''decode_wall_ns'') (ret wall),
          ge (item (ret raw) ''decode_including_reporting_ns'') (ret wall),
          eq (item (ret raw) ''verify_wall_ns'')
              (sum_of (each (item (ret raw) ''cycles'') (\<lambda>c. item (ret c) ''verify_ns''))),
          isclose (item (ret raw) ''verified_tokens_per_second'')
              (truediv (mul (ret count) (flt 1000000000)) (ret wall)) (1 / 1000000000000) 0])
       ''Invalid horizon totals'' (
     check (conjs [notin (str ''tokens_per_second'') (ret raw),
          eq (item (ret raw) ''excluded_costs'')
              (list_of [str ''proposal_generation'', str ''rejection_recovery'',
                   str ''draft_state_catchup''])]) ''Ceiling masquerades as real generation'' (
     check (conjs [eq (item (ret raw) ''initial_draft_state'') (item (ret raw) ''final_draft_state''),
          eq (item (ret raw) ''draft_before'') (item (ret raw) ''draft_after'')])
       ''Horizon performed draft work'' (
     bnd (item (ret raw) ''admission'') (\<lambda>admission.
     bnd (item (ret admission) ''target'') (\<lambda>plan.
     check (conjs [type_in (ret trace_workspace_bytes) [TInt],
          isin (ret trace_workspace_bytes) (tuple_of [num 0, num (32 * 1024 ^ 2)]),
          eq (get_or (ret admission) ''trace_workspace_bytes'' (num 0)) (ret trace_workspace_bytes)])
       ''Undeclared trace workspace'' (
     check (conjs [eq (item (ret plan) ''limit_bytes'') (num (12 * 1024 ^ 3)),
          eq (item (ret plan) ''expert_slots'') (num 1460),
          eq (item (ret admission) ''draft_slots'') (num 32),
          eq (item (ret admission) ''checkpoint_rows'') (num 8),
          le (item (ret admission) ''combined_bytes'') (num (12 * 1024 ^ 3)),
          conjs [lt (num 0) (item (ret raw) ''host_checkpoint_allocated_bytes''),
               le (item (ret raw) ''host_checkpoint_allocated_bytes'') (num (128 * 1024 ^ 2))]])
       ''Horizon memory controls differ'' (
     bnd (num 5362515968) (\<lambda>resident.
     bnd (branch (ret streamed)
         (bnd (each (tuple_of [str ''before'', str ''after'']) (\<lambda>k.
               index (ret raw) (add (str ''embedding_rows_'') (ret k)))) (\<lambda>tup1.
           unpack2 tup1 (\<lambda>first last'.
           bnd (loop (tuple_of [ret first, ret last']) () (\<lambda>unused entry.
             check (conjs [eq (item (ret entry) ''storage'') (str ''exact-packed-rows''),
                  eq (item (ret entry) ''capacity'') (num 256),
                  eq (item (ret entry) ''host_reserve_bytes'') (num (2 * 1024 ^ 2)),
                  conjs [lt (num 0) (item (ret entry) ''fixed_host_bytes''),
                       lt (item (ret entry) ''fixed_host_bytes'')
                           (item (ret entry) ''host_reserve_bytes'')],
                  eq (item (ret entry) ''row_bytes'') (num 2720),
                  eq (item (ret entry) ''removed_resident_allocation_bytes'') (num 675446784)])
               ''Changed streamed embedding geometry or budget'' (
             Inr ()))) (\<lambda>unused.
           check (conjs [every (tuple_of [str ''hits'', str ''misses'', str ''evictions'',
                       str ''application_read_bytes'']) (\<lambda>k.
                    ge (index (ret last') (ret k)) (index (ret first) (ret k))),
                eq (sub (item (ret last') ''application_read_bytes'')
                      (item (ret first) ''application_read_bytes''))
                    (mul (num 2720)
                        (sub (item (ret last') ''misses'') (item (ret first) ''misses'')))])
             ''Incomplete streamed embedding reads'' (
           bnd (add (sub (ret resident) (item (ret first) ''removed_resident_allocation_bytes''))
               (item (ret first) ''host_reserve_bytes'')) (\<lambda>resident.
           ret resident))))))
         (check (nay (some (ret raw) (\<lambda>k. startswith (ret k) (str ''embedding_rows_''))))
             ''Undeclared embedding storage change'' (
           ret resident))) (\<lambda>resident.
     check (conjs [eq (item (ret plan) ''resident_bytes'') (ret resident),
          eq (item (ret admission) ''host_checkpoint_logits_bytes'')
              (num (128 * 1024 ^ 2 + 4 * 8 * 248320 * 4 + 1024 ^ 2)),
          eq (item (ret admission) ''draft_bytes'') (num 318234624),
          eq (item (ret admission) ''expert_scratch_reserve_bytes'') (num (2 * 1024 ^ 2)),
          eq (item (ret admission) ''target_recovery_reserve_bytes'') (num (16 * 1024 ^ 2)),
          eq (item (ret admission) ''combined_bytes'')
              (add (add (add (add (add (item (ret plan) ''planned_bytes'')
                          (item (ret admission) ''host_checkpoint_logits_bytes''))
                        (item (ret admission) ''draft_bytes''))
                      (item (ret admission) ''expert_scratch_reserve_bytes''))
                    (item (ret admission) ''target_recovery_reserve_bytes''))
                  (ret trace_workspace_bytes))]) ''Unaccounted horizon memory change'' (
     bnd (item (ret raw) ''final_target_state'') (\<lambda>state.
     check (conjs [same (item (ret state) ''valid'') yes,
          eq (item (ret state) ''tokens'') (add (ret offset) (ret count)),
          eq (item (ret state) ''history'')
              (slice (add (item (ret work) ''prompt_ids'') (item (ret work) ''continuation_ids''))
                  (num (- 2)) none),
          eq (size_of (item (ret state) ''layers'')) (num 48),
          every (item (ret state) ''layers'') (\<lambda>l.
              eq (item (ret l) ''position'') (add (ret offset) (ret count)))])
       ''Incomplete final target state'' (
     bnd (branch (isin (str ''final_target_state'') (ret work))
         (check (eq (ret state) (item (ret work) ''final_target_state''))
             ''Changed full reference state'' (
           Inr ())) (Inr ())) (\<lambda>unused.
     bnd (loop (tuple_of [str ''before'', str ''after'']) () (\<lambda>unused edge.
       bnd (index (ret raw) (ret edge)) (\<lambda>stats.
       bnd (item (item (ret stats) ''metal'') ''kernels'') (\<lambda>k.
       check (conjs [eq (item (ret stats) ''memory_plan'') (ret plan),
            eq (item (ret stats) ''artifact_revision'')
                (str ''b2c422f3c643e36f04227a64d61796b44a4b1029''),
            eq (item (item (ret stats) ''expert_cache'') ''policy'') (str ''clock''),
            same (item (ret k) ''profile'') no, eq (item (ret k) ''q4_decode'') (str ''reference''),
            eq (item (ret k) ''q8_decode_rows'') (num 2),
            eq (item (item (ret stats) ''metal'') ''live_command_groups'') (num 0)])
         ''Changed horizon execution controls'' (
       Inr ()))))) (\<lambda>unused.
     bnd (clean raw) (\<lambda>result.
     merge (dict_from (ret result))
       (dict_of [(''exact_full_logits'', yes),
            (''verified_tps'', item (ret raw) ''verified_tokens_per_second''),
            (''normal_request_latency_qualified'', no), (''perfect_proposals_only'', yes)])))))))))))))))))))))))"

definition compare_horizon :: "pyval \<Rightarrow> pyval \<Rightarrow> pyval \<Rightarrow> expr" where
  "compare_horizon a b numerical_across_producers =
     bnd (tuple_of [str ''kind'', str ''complete'', str ''mode'', str ''validation'', str ''input_sha256'',
          str ''producer_binary_sha256'', str ''admission'', str ''draft_manifest_sha256'',
          str ''prompt_tokens'', str ''requested_tokens'', str ''prime_logits_sha256'',
          str ''committed_token_ids'', str ''row_logits_sha256'', str ''final_target_state'',
          str ''initial_draft_state'', str ''final_draft_state'', str ''generated_tokens'',
          str ''next_id'', str ''host_checkpoint_allocated_bytes'', str ''target_recovery_journal'',
          str ''excluded_costs'']) (\<lambda>fields'.
     bnd (branch (ret numerical_across_producers)
         (check (conjs [same (item (ret a) ''validation'') (item (ret b) ''validation''),
                same (item (ret b) ''validation'') yes])
             ''Cross-producer comparison is numerical only'' (
           bnd (tuple_from (each_if (ret fields') (\<lambda>k. ne (ret k) (str ''producer_binary_sha256'')) (\<lambda>k.
                 ret k))) (\<lambda>fields'.
           ret fields'))) (ret fields')) (\<lambda>fields'.
     check (every (ret fields') (\<lambda>k. eq (index (ret a) (ret k)) (index (ret b) (ret k))))
       ''Horizon changed numerical results, identity or allocation'' (
     check (eq (item (item (item (ret a) ''before'') ''expert_cache'') ''diagnostic_cache_state'')
         (item (item (item (ret b) ''before'') ''expert_cache'') ''diagnostic_cache_state''))
       ''Different initial expert cache'' (
     bnd (loop (tuple_of [str ''prepared'', str ''execution'', str ''completion_pipeline'', str ''ready_group'',
            str ''chunk_tokens'', str ''io_workers'', str ''short_append_tokens'']) () (\<lambda>unused key.
       check_msg (eq (index (item (ret a) ''before'') (ret key))
           (index (item (ret b) ''before'') (ret key))) (add (str ''Horizon changed '') (ret key)) (
       Inr ()))) (\<lambda>unused.
     bnd (branch (item (ret a) ''validation'')
         (check (eq (item (ret a) ''requested_width'') (num 1))
             ''Validation needs serial reference'' (
           bnd (each_dict (item (ret a) ''boundaries'') (\<lambda>x. item (ret x) ''tokens'') (\<lambda>x. ret x)) (\<lambda>boundaries.
           check (conjs [eq (size_of (ret boundaries)) (item (ret a) ''generated_tokens''),
                eq (size_of (item (ret b) ''boundaries'')) (size_of (item (ret b) ''cycles'')),
                every (item (ret b) ''boundaries'') (\<lambda>x.
                    eq (lookup (ret boundaries) (item (ret x) ''tokens'')) (ret x))])
             ''Horizon persistent boundary differs'' (
           Inr ())))) (Inr ())) (\<lambda>unused.
     branch (ret numerical_across_producers)
       (dict_of [(''exact_logits_and_state'', yes), (''numerical_across_producers'', yes),
            (''timing_used'', no), (''perfect_proposals_only'', yes),
            (''normal_request_latency_qualified'', no)]) (
     dict_of [(''exact_logits_and_state'', yes),
        (''ratio'', truediv (item (ret b) ''decode_wall_ns'') (item (ret a) ''decode_wall_ns'')),
        (''control_verified_tps'', item (ret a) ''verified_tokens_per_second''),
        (''candidate_verified_tps'', item (ret b) ''verified_tokens_per_second''),
        (''perfect_proposals_only'', yes), (''normal_request_latency_qualified'', no)])))))))"

text \<open>
  The \<open>while\<close> loop of \<open>patterns\<close>: blocks of the full width while it fits, then single rows.
\<close>

function decode_patterns :: "int \<Rightarrow> int \<Rightarrow> int \<Rightarrow> int \<Rightarrow> pyval list" where
  "decode_patterns prompt count' width consumed =
     (if consumed < count' then
        (let rows = (if width \<le> count' - consumed then max 1 width else 1)
         in PTuple [PInt (prompt + consumed), PInt rows, PStr ''decode''] #
              decode_patterns prompt count' width (consumed + rows))
      else [])"
  by pat_completeness auto
termination
  by (relation "measure (\<lambda>(prompt, count', width, consumed). nat (count' - consumed))") auto

declare decode_patterns.simps [simp del]

definition patterns :: "pyval \<Rightarrow> pyval \<Rightarrow> expr" where
  "patterns work width =
     check (conjs [type_in (ret width) [TInt], isin (ret width) (tuple_of [num 4, num 8])])
       ''Unsupported trace width'' (
     bnd (size_of (item (ret work) ''prompt_ids'')) (\<lambda>prompt.
     bnd (size_of (item (ret work) ''continuation_ids'')) (\<lambda>count'.
     check (conjs [conjs [le (num 1) (ret prompt), le (ret prompt) (num 128)],
          conjs [le (num 1) (ret count'), le (ret count') (num 64)]]) ''Unbounded trace workload'' (
     case (prompt, count', width) of
       (PInt p, PInt n, PInt w) \<Rightarrow>
         Inr (PList (PTuple [PInt 0, PInt p, PStr ''prefill''] # decode_patterns p n w 0))
     | _ \<Rightarrow> Inl TypeError))))"

definition HORIZON_REPLAY_WORKSPACE :: pyval where
  "HORIZON_REPLAY_WORKSPACE = PInt (32 * 1024 ^ 2)"

definition observe_horizon_replay :: "pyval \<Rightarrow> pyval \<Rightarrow> pyval \<Rightarrow> pyval \<Rightarrow> pyval \<Rightarrow> pyval \<Rightarrow> expr" where
  "observe_horizon_replay raw work input_sha producer_sha width capture' =
     check (conjs [type_in (ret capture') [TBool],
          same (get (ret raw) ''cache_trace_enabled'') (ret capture'),
          same (get (ret raw) ''performance_measurement'') no,
          eq (get (ret raw) ''compute_tile_cap'') (num 4)])
       ''Undeclared trace mode or compute policy'' (
     bnd (validate_horizon raw work input_sha producer_sha width (PBool False) (PBool True)
         HORIZON_REPLAY_WORKSPACE) (\<lambda>result.
     bnd (delete_key (ret result) (str ''verified_tps'')) (\<lambda>result.
     check (eq (item (ret raw) ''draft_priming_before'') (item (ret raw) ''draft_priming_after''))
       ''Draft ran during trace continuation'' (
     bnd (item (ret raw) ''draft_priming_before'') (\<lambda>priming.
     check (conjs [eq (item (ret priming) ''policy'') (str ''fixed-lease-batches-32''),
          same (item (ret priming) ''active'') no, gt (item (ret priming) ''calls'') (num 0),
          conjs [lt (num 0) (item (ret priming) ''peak_leases''),
               le (item (ret priming) ''peak_leases'') (num 32)]]) ''Missing bounded draft priming'' (
     bnd (patterns work width) (\<lambda>coverage.
     bnd (item (ret raw) ''trace_forwards'') (\<lambda>forwards.
     check (conjs [eq (size_of (ret forwards)) (size_of (ret coverage)),
          every (zip_of (ret forwards) (ret coverage)) (\<lambda>tup1.
              unpack2 tup1 (\<lambda>f tup2.
                unpack3 tup2 (\<lambda>at' rows unused.
                  conjs [eq (set_of (ret f)) (set_disp [str ''position'', str ''routes'']),
                     eq (item (ret f) ''position'') (add (ret at') (ret rows)),
                     eq (size_of (item (ret f) ''routes'')) (num 48)])))])
       ''Incomplete trace route coverage'' (
     bnd (loop (ret forwards) () (\<lambda>unused f.
       check (conjs [eq (each (item (ret f) ''routes'') (\<lambda>r. item (ret r) ''layer''))
                (list_from (range_to (num 48))),
            every (item (ret f) ''routes'') (\<lambda>r.
                conjs [eq (item (ret r) ''tokens'') (item (ret f) ''position''),
                   eq (size_of (item (ret r) ''sha256'')) (num 64),
                   every (item (ret r) ''sha256'') (\<lambda>c. isin (ret c) (str ''0123456789abcdef''))])])
         ''Invalid route identity'' (
       Inr ()))) (\<lambda>unused.
     check (branch (ret capture') (isinstance (item (ret raw) ''target_cache_trace'') [TDict])
         (same (item (ret raw) ''target_cache_trace'') none))
       ''Missing trace or unexpected trace in control'' (
     merge (dict_from (ret result))
       (dict_of [(''performance_measurement'', no), (''timing_used'', no),
            (''captured_forwards'', size_of (ret forwards)),
            (''captured_tokens'', sum_of (each (ret coverage) (\<lambda>p. index (ret p) (num 1))))]))))))))))))"

definition compare_modes :: "pyval \<Rightarrow> pyval \<Rightarrow> expr" where
  "compare_modes control captured =
     check (conjs [same (item (ret control) ''cache_trace_enabled'') no,
          same (item (ret captured) ''cache_trace_enabled'') yes,
          conjs [same (item (ret control) ''performance_measurement'')
                   (item (ret captured) ''performance_measurement''),
               same (item (ret captured) ''performance_measurement'') no],
          eq (item (ret control) ''requested_width'') (item (ret captured) ''requested_width'')])
       ''Trace comparison changed width or modes'' (
     bnd (call3 compare_horizon (ret control) (ret captured) no) (\<lambda>unused.
     bnd (loop (tuple_of [str ''trace_forwards'', str ''draft_priming_before'', str ''draft_priming_after'',
            str ''draft_before'', str ''embedding_rows_before'', str ''embedding_rows_after'',
            str ''compute_tile_cap'']) () (\<lambda>unused key.
       check_msg (eq (index (ret control) (ret key)) (index (ret captured) (ret key)))
         (add (str ''Trace changed '') (ret key)) (
       Inr ()))) (\<lambda>unused.
     dict_of [(''exact_logits_and_state'', yes), (''exact_routes'', yes), (''exact_initial_caches'', yes),
        (''width'', item (ret control) ''requested_width''), (''timing_used'', no),
        (''performance_measurement'', no)])))"

end
