(* ===== verification/OperatorScreens.thy ===== *)
theory OperatorScreens
  imports NativeReplay
begin

text \<open>
  Operator screens: exactness, coverage and paired timing of replayed kernels.
\<close>

definition FREQUENCIES :: pyval where
  "FREQUENCIES = PList [PInt 36, PInt 36, PInt 12, PInt 12]"

definition CYCLE :: pyval where
  "CYCLE = PList [PInt 0, PInt 1, PInt 0, PInt 1, PInt 0, PInt 1, PInt 2, PInt 3]"

definition validate_pair :: "pyval \<Rightarrow> pyval \<Rightarrow> expr" where
  "validate_pair a b =
     check (conjs [conjs [eq (get (ret a) ''kind'') (get (ret b) ''kind''),
               eq (get (ret b) ''kind'') (str ''hyper_fusion_probe_v1'')],
          same (get (ret a) ''complete'') yes, same (get (ret a) ''validation'') yes,
          eq (get (ret a) ''edge_cases'') (num 12), same (get (ret a) ''inputs_unchanged'') yes,
          same (get (ret a) ''neighbor_guards_intact'') yes,
          conjs [eq (get (ret a) ''device'') (get (ret b) ''device''),
               eq (get (ret b) ''device'') (str ''Apple M1 Pro'')],
          eq (get (ret a) ''pairs'') (list_of []),
          type_in (get (ret a) ''gpu_stage_elapsed_seconds'') [TInt, TFloat],
          conjs [lt (num 0) (item (ret a) ''gpu_stage_elapsed_seconds''),
               le (item (ret a) ''gpu_stage_elapsed_seconds'') (num 30)],
          le (add (item (ret a) ''gpu_stage_elapsed_seconds'')
                (item (ret b) ''gpu_stage_elapsed_seconds'')) (num 60),
          type_in (get (ret a) ''max_shared_buffer_bytes'') [TInt],
          conjs [lt (num 0) (item (ret a) ''max_shared_buffer_bytes''),
               le (item (ret a) ''max_shared_buffer_bytes'') (num (256 * 1024 ^ 2))]])
       ''Missing bounded validation'' (
     bnd (loop (tuple_of [str ''cases'', str ''reference_shader_sha256'', str ''candidate_shader_sha256'',
            str ''fixture_manifest_sha256'', str ''dispatch_repeats'',
            str ''reference_dispatches_per_block'', str ''candidate_dispatches_per_block'']) () (\<lambda>unused key.
       check (eq (index (ret a) (ret key)) (index (ret b) (ret key)))
         ''Validation and timing identity differs'' (
       Inr ()))) (\<lambda>unused.
     none))"

definition analyze_hyper :: "(string \<Rightarrow> pyval \<Rightarrow> expr) \<Rightarrow> pyval \<Rightarrow> expr" where
  "analyze_hyper libm raw =
     check (conjs [eq (get (ret raw) ''kind'') (str ''hyper_fusion_probe_v1''),
          same (get (ret raw) ''complete'') yes, same (get (ret raw) ''validation'') no,
          eq (get (ret raw) ''device'') (str ''Apple M1 Pro'')]) ''Incomplete M1 timing'' (
     check (conjs [eq (get (ret raw) ''dispatch_repeats'') (num 32),
          eq (get (ret raw) ''reference_dispatches_per_block'') (num 8),
          eq (get (ret raw) ''candidate_dispatches_per_block'') (num 6),
          eq (get (ret raw) ''edge_cases'') (num 12),
          same (get (ret raw) ''neighbor_guards_intact'') yes,
          same (get (ret raw) ''inputs_unchanged'') yes])
       ''Missing complete-block or correctness coverage'' (
     check (conjs [type_in (get (ret raw) ''max_shared_buffer_bytes'') [TInt],
          conjs [lt (num 0) (item (ret raw) ''max_shared_buffer_bytes''),
               le (item (ret raw) ''max_shared_buffer_bytes'') (num (256 * 1024 ^ 2))],
          type_in (get (ret raw) ''gpu_stage_elapsed_seconds'') [TInt, TFloat],
          conjs [lt (num 0) (item (ret raw) ''gpu_stage_elapsed_seconds''),
               le (item (ret raw) ''gpu_stage_elapsed_seconds'') (num 30)]])
       ''Resource bounds exceeded'' (
     check (conjs [eq (size_of (get_or (ret raw) ''cases'' (list_of []))) (num 4),
          every (item (ret raw) ''cases'') (\<lambda>c.
              conjs [same (get (ret c) ''exact'') yes,
                 same (get (ret c) ''native_reference_exact'') yes])])
       ''Missing real native-output comparisons'' (
     check (eq (each (item (ret raw) ''cases'') (\<lambda>c.
           tuple_of [item (item (ret c) ''origin'') ''layer'', item (item (ret c) ''origin'') ''stage'']))
         (list_of [tuple_of [num 0, str ''attention_input''], tuple_of [num 0, str ''mlp_input''],
              tuple_of [num 3, str ''attention_input''], tuple_of [num 3, str ''mlp_input'']]))
       ''Fixture frequency assignment differs'' (
     check (eq (each (item (ret raw) ''pairs'') (\<lambda>p.
           tuple_of [item (ret p) ''pair'', item (ret p) ''case'']))
         (flatten (each (range_to (num 5)) (\<lambda>p.
               each (range_to (num 5)) (\<lambda>c. tuple_of [ret p, ret c])))))
       ''Missing or duplicate paired timing'' (
     bnd (each (tuple_of [str ''memory_before'', str ''timing_memory_before'', str ''timing_memory_after'',
            str ''memory_after'']) (\<lambda>k. index (ret raw) (ret k))) (\<lambda>observations.
     bnd (list_of []) (\<lambda>results.
     bnd (list_of []) (\<lambda>projection.
     bnd (list_of []) (\<lambda>gpu_projection.
     bnd (loop (range_to (num 5)) (observations, results, projection, gpu_projection) (\<lambda>(observations, results, projection, gpu_projection) case'.
       bnd (put (put (dict_of []) no (list_of [])) yes (list_of [])) (\<lambda>values.
       bnd (put (put (dict_of []) no (list_of [])) yes (list_of [])) (\<lambda>gpu.
       bnd (put (put (dict_of []) no (list_of [])) yes (list_of [])) (\<lambda>encoding.
       bnd (loop (each_if (item (ret raw) ''pairs'') (\<lambda>p. eq (item (ret p) ''case'') (ret case')) (\<lambda>p.
             ret p)) (values, gpu, encoding, observations) (\<lambda>(values, gpu, encoding, observations) pair.
         check (eq (each (item (ret pair) ''arms'') (\<lambda>a. item (ret a) ''candidate''))
             (list_of [bool_of (modulo (item (ret pair) ''pair'') (num 2)),
                  nay (bool_of (modulo (item (ret pair) ''pair'') (num 2)))]))
           ''Alternating order differs'' (
         bnd (loop (item (ret pair) ''arms'') (values, gpu, encoding, observations) (\<lambda>(values, gpu, encoding, observations) arm.
           check (type_in (item (ret arm) ''candidate'') [TBool]) ''Arm identity must be boolean'' (
           check (eq (set_of (item (ret arm) ''sample''))
               (set_disp [str ''wall_us'', str ''gpu_us'', str ''encode_us'']))
             ''Sample fields differ'' (
           check (every (values_of (item (ret arm) ''sample'')) (\<lambda>v.
               conjs [type_in (ret v) [TInt, TFloat], isfinite (ret v), gt (ret v) (num 0)]))
             ''Invalid timing'' (
           check (every (tuple_of [str ''gpu_us'', str ''encode_us'']) (\<lambda>k.
               le (index (item (ret arm) ''sample'') (ret k))
                 (add (mul (item (item (ret arm) ''sample'') ''wall_us'') (flt (51 / 50))) (num 1))))
             ''Component time exceeds complete wall time'' (
           bnd (put (ret values) (item (ret arm) ''candidate'')
               (append (index (ret values) (item (ret arm) ''candidate''))
                   (item (item (ret arm) ''sample'') ''wall_us''))) (\<lambda>values.
           bnd (put (ret gpu) (item (ret arm) ''candidate'')
               (append (index (ret gpu) (item (ret arm) ''candidate''))
                   (item (item (ret arm) ''sample'') ''gpu_us''))) (\<lambda>gpu.
           bnd (put (ret encoding) (item (ret arm) ''candidate'')
               (append (index (ret encoding) (item (ret arm) ''candidate''))
                   (item (item (ret arm) ''sample'') ''encode_us''))) (\<lambda>encoding.
           bnd (add (ret observations)
               (list_of [item (ret arm) ''memory_before'', item (ret arm) ''memory_after''])) (\<lambda>observations.
           Inr (values, gpu, encoding, observations))))))))))) (\<lambda>(values, gpu, encoding, observations).
         Inr (values, gpu, encoding, observations))))) (\<lambda>(values, gpu, encoding, observations).
       bnd (each (zip_of (index (ret values) no) (index (ret values) yes)) (\<lambda>tup1.
           unpack2 tup1 (\<lambda>a b. truediv (ret b) (ret a)))) (\<lambda>ratios.
       bnd (each (zip_of (index (ret values) no) (index (ret values) yes)) (\<lambda>tup2.
           unpack2 tup2 (\<lambda>a b. truediv (sub (ret a) (ret b)) (num 1000)))) (\<lambda>savings.
       bnd (append (ret results)
           (dict_of [(''case'', ret case'), (''wall_us'', ret values), (''gpu_us'', ret gpu),
                (''encode_us'', ret encoding),
                (''wall_confidence_95'', paired_log_interval libm ratios),
                (''wall_savings_ms'', ret savings),
                (''median_wall_saving_ms'', median (ret savings))])) (\<lambda>results.
       bnd (branch (eq (ret case') (num 4))
           (bnd (each (ret savings) (\<lambda>v. mul (ret v) (num 12))) (\<lambda>projection.
             bnd (each (zip_of (index (ret gpu) no) (index (ret gpu) yes)) (\<lambda>tup3.
                 unpack2 tup3 (\<lambda>a b. truediv (mul (sub (ret a) (ret b)) (num 12)) (num 1000)))) (\<lambda>gpu_projection.
             Inr (projection, gpu_projection)))) (Inr (projection, gpu_projection))) (\<lambda>(projection, gpu_projection).
       Inr (observations, results, projection, gpu_projection))))))))))) (\<lambda>(observations, results, projection, gpu_projection).
     bnd (tuple_of [str ''physical_footprint_bytes'', str ''physical_footprint_peak_bytes'',
          str ''compressed_bytes'', str ''compressed_peak_bytes'', str ''decompressions'',
          str ''system_swap_used_bytes'']) (\<lambda>fields'.
     check (every (ret observations) (\<lambda>o'.
         every (ret fields') (\<lambda>k.
           conjs [type_in (lookup (ret o') (ret k)) [TInt], ge (index (ret o') (ret k)) (num 0)])))
       ''Missing memory observations'' (
     check (every (ret observations) (\<lambda>o'.
         conjs [conjs [lt (num 0) (item (ret o') ''physical_footprint_bytes''),
                 le (item (ret o') ''physical_footprint_bytes'')
                     (item (ret o') ''physical_footprint_peak_bytes''),
                 le (item (ret o') ''physical_footprint_peak_bytes'') (num (12 * 1024 ^ 3))],
            le (item (ret o') ''compressed_bytes'') (item (ret o') ''compressed_peak_bytes'')]))
       ''Impossible or excessive memory footprint'' (
     bnd (conjs [every (ret observations) (\<lambda>o'.
              conjs [eq (item (ret o') ''compressed_bytes'') (item (ret o') ''compressed_peak_bytes''),
                 eq (item (ret o') ''compressed_peak_bytes'') (num 0)]),
          eq (size_of (set_of (each (ret observations) (\<lambda>o'. item (ret o') ''decompressions''))))
              (num 1),
          eq (size_of (set_of (each (ret observations) (\<lambda>o'.
                    item (ret o') ''system_swap_used_bytes'')))) (num 1)]) (\<lambda>clean.
     bnd (conjs [ge (median (ret projection)) (num 20),
          lt (item (item (index (ret results) (num (- 1))) ''wall_confidence_95'') ''high'')
              (num 1)]) (\<lambda>material.
     dict_of [(''status'', branch (nay (ret clean)) (str ''memory_disturbed'')
            (branch (ret material) (str ''worth_request_screen'') (str ''insufficient_benefit''))),
        (''clean_memory'', ret clean), (''cases'', ret results),
        (''frequency_weights'', ret FREQUENCIES), (''cycle'', ret CYCLE),
        (''frequency_projection_ms_per_token'', ret projection),
        (''median_frequency_projection_ms_per_token'', median (ret projection)),
        (''gpu_frequency_projection_ms_per_token'', ret gpu_projection),
        (''median_gpu_frequency_projection_ms_per_token'', median (ret gpu_projection)),
        (''max_physical_footprint_bytes'', max_of (each (ret observations) (\<lambda>o'.
              item (ret o') ''physical_footprint_peak_bytes''))),
        (''advance_to_request_screen'', conjs [ret clean, ret material]),
        (''normal_request_latency_qualified'', no), (''production_promoted'', no),
        (''limitations'', list_of [str
                 (''Four captured blocks, not all96 blocks or full-model state; fixture native producer identity is retained.''),
             str
                 (''Repeated resident weights and preallocated scratch differ from live requests, SSD streaming and native buffer lifetimes.''),
             str
                 (''Frequency projection is a screening heuristic, not predicted request savings. Five pairs in one process may be correlated.''),
             str
                 (''Memory counters are sampled at boundaries plus process lifetime peaks; device swap includes other processes.''),
             str
                 (''No footprint saving is inferred from eliminated logical intermediates; both probe arms coexist.'')])]))))))))))))))))"

definition SHAPES :: pyval where
  "SHAPES =
     PList [PTuple [PInt 2560, PInt 10240], PTuple [PInt 2560, PInt 6144],
        PTuple [PInt 6144, PInt 2560]]"

definition GDN_LIMITATIONS :: pyval where
  "GDN_LIMITATIONS =
     PList [PStr
            (''One layer and first four-token block provide real inputs for three recurring GDN shapes; other layers and contexts remain untested.''),
        PStr
            (''Shape-frequency projections assume 36 calls of each shape per four-token block. They are isolated GPU opportunities, not predicted request savings.''),
        PStr
            (''Repeated weights and five pairs within one process differ from inference. A promising screen still needs full-model state/recovery and normal verifier timing.''),
        PStr
            (''Fixture capture adds waits and file writes. Capture timing is not a performance measurement; production kernels and defaults are unchanged.'')]"

definition analyze_gdn :: "(string \<Rightarrow> pyval \<Rightarrow> expr) \<Rightarrow> pyval \<Rightarrow> pyval \<Rightarrow> pyval \<Rightarrow> pyval \<Rightarrow> expr" where
  "analyze_gdn libm raw validation frozen manifest =
     check (conjs [eq (get (ret raw) ''kind'') (str ''block_gdn_operator_v1''),
          same (get (ret raw) ''complete'') yes,
          same (get (ret raw) ''validation'') (ret validation),
          eq (get (ret raw) ''build'') (item (ret frozen) ''build''),
          eq (get (ret raw) ''artifact_revision'') (item (ret frozen) ''artifact_revision''),
          eq (get (ret raw) ''source'') (ret manifest),
          eq (get (ret raw) ''device'') (str ''Apple M1 Pro''),
          conjs [lt (num 0) (get_or (ret raw) ''peak_gpu_bytes'' (num 0)),
               le (get_or (ret raw) ''peak_gpu_bytes'' (num 0)) (num (256 * 1024 ^ 2))],
          same (get (ret raw) ''production_promoted'') no,
          same (get (ret raw) ''normal_request_latency_qualified'') no])
       ''Incomplete or changed operator screen'' (
     bnd (list_of [item (ret raw) ''host_before'', item (ret raw) ''host_after'']) (\<lambda>hosts.
     bnd (every (ret hosts) (\<lambda>h.
         conjs [eq (item (ret h) ''thermal_state'') (num 0), same (item (ret h) ''low_power_mode'') no,
            eq (item (ret h) ''power_source'') (str ''AC Power'')])) (\<lambda>clean_host.
     check (le (item (index (ret hosts) (num 0)) ''monotonic_ns'')
         (item (index (ret hosts) (num 1)) ''monotonic_ns'')) ''Reversed host clock'' (
     check (eq (each (item (ret raw) ''cases'') (\<lambda>c.
           tuple_of [item (ret c) ''K'', item (ret c) ''N''])) (ret SHAPES))
       ''Missing operator shape'' (
     bnd (list_of [item (ret raw) ''memory_before'', item (ret raw) ''memory_after_destroy'']) (\<lambda>memory.
     bnd (branch (ret validation) (num 1) (num 5)) (\<lambda>expected_pairs.
     bnd (each (range_to (ret expected_pairs)) (\<lambda>unused. list_of [flt 0, flt 0])) (\<lambda>weighted.
     bnd (list_of []) (\<lambda>cases.
     bnd (loop (item (ret raw) ''cases'') (weighted, memory, cases) (\<lambda>(weighted, memory, cases) case'.
       check (conjs [eq (item (ret case') ''tokens'') (num 4),
            eq (each (item (ret case') ''pairs'') (\<lambda>p. item (ret p) ''pair''))
                (list_from (range_to (ret expected_pairs))),
            eq (each (item (ret case') ''warmup'') (\<lambda>a. item (ret a) ''candidate''))
                (list_of [no, yes])]) ''Changed paired coverage'' (
       bnd (list_of []) (\<lambda>ratios.
       bnd (loop (item (ret case') ''pairs'') (weighted, ratios) (\<lambda>(weighted, ratios) pair.
         check (eq (each (item (ret pair) ''arms'') (\<lambda>a. item (ret a) ''candidate''))
             (list_of [bool_of (modulo (item (ret pair) ''pair'') (num 2)),
                  nay (bool_of (modulo (item (ret pair) ''pair'') (num 2)))]))
           ''Changed alternating order'' (
         bnd (dict_of []) (\<lambda>times.
         bnd (loop (item (ret pair) ''arms'') (times, weighted) (\<lambda>(times, weighted) arm.
           check (conjs [type_in (item (ret arm) ''candidate'') [TBool],
                type_in (item (ret arm) ''repeats'') [TInt],
                eq (item (ret arm) ''repeats'') (branch (ret validation) (num 1) (num 32)),
                type_in (item (ret arm) ''gpu_ns'') [TInt],
                type_in (item (ret arm) ''wall_ns'') [TInt],
                conjs [lt (num 0) (item (ret arm) ''gpu_ns''),
                     le (item (ret arm) ''gpu_ns'') (item (ret arm) ''wall_ns'')]])
             ''Changed arm, repeats or GPU duration'' (
           bnd (put (ret times) (item (ret arm) ''candidate'')
               (truediv (item (ret arm) ''gpu_ns'') (item (ret arm) ''repeats''))) (\<lambda>times.
           bnd (put (ret weighted) (item (ret pair) ''pair'')
               (put (index (ret weighted) (item (ret pair) ''pair''))
                   (int_of (item (ret arm) ''candidate''))
                   (add (index (index (ret weighted) (item (ret pair) ''pair''))
                         (int_of (item (ret arm) ''candidate'')))
                       (truediv (mul (index (ret times) (item (ret arm) ''candidate'')) (num 36))
                           (flt 4000000))))) (\<lambda>weighted.
           Inr (times, weighted)))))) (\<lambda>(times, weighted).
         bnd (append (ret ratios) (truediv (index (ret times) yes) (index (ret times) no))) (\<lambda>ratios.
         Inr (weighted, ratios))))))) (\<lambda>(weighted, ratios).
       bnd (loop (list_extend (list_from (item (ret case') ''warmup''))
             (list_from (flatten (each (item (ret case') ''pairs'') (\<lambda>p.
                     list_from (item (ret p) ''arms'')))))) memory (\<lambda>memory arm.
         check (conjs [same (item (ret arm) ''exact'') yes,
              eq (item (ret arm) ''output_sha256'') (item (ret case') ''reference_sha256''),
              type_in (item (ret arm) ''gpu_ns'') [TInt],
              type_in (item (ret arm) ''wall_ns'') [TInt],
              conjs [lt (num 0) (item (ret arm) ''gpu_ns''),
                   le (item (ret arm) ''gpu_ns'') (item (ret arm) ''wall_ns'')]])
           ''Invalid timing or changed output'' (
         bnd (add (ret memory)
             (list_of [item (ret arm) ''memory_before'', item (ret arm) ''memory_after''])) (\<lambda>memory.
         ret memory)))) (\<lambda>memory.
       check (every (item (ret case') ''warmup'') (\<lambda>a. eq (item (ret a) ''repeats'') (num 1)))
         ''Changed warmup'' (
       bnd (append (ret cases)
           (dict_of [(''K'', item (ret case') ''K''), (''N'', item (ret case') ''N''),
                (''paired_ratios'', ret ratios)])) (\<lambda>cases.
       Inr (weighted, memory, cases))))))))) (\<lambda>(weighted, memory, cases).
     bnd (tuple_of [str ''physical_footprint_bytes'', str ''physical_footprint_peak_bytes'',
          str ''compressed_bytes'', str ''compressed_peak_bytes'', str ''decompressions'',
          str ''system_swap_used_bytes'']) (\<lambda>fields'.
     check (conjs [every (ret memory) (\<lambda>v.
              every (ret fields') (\<lambda>k.
                conjs [type_in (lookup (ret v) (ret k)) [TInt], ge (index (ret v) (ret k)) (num 0)])),
          every (ret memory) (\<lambda>v.
              conjs [lt (num 0) (item (ret v) ''physical_footprint_bytes''),
                 le (item (ret v) ''physical_footprint_bytes'')
                     (item (ret v) ''physical_footprint_peak_bytes''),
                 le (item (ret v) ''physical_footprint_peak_bytes'') (num (2 * 1024 ^ 3))])])
       ''Missing or excessive operator memory'' (
     bnd (conjs [every (ret memory) (\<lambda>v.
              conjs [eq (item (ret v) ''compressed_bytes'') (item (ret v) ''compressed_peak_bytes''),
                 eq (item (ret v) ''compressed_peak_bytes'') (num 0)]),
          conjs [eq (size_of (set_of (each (ret memory) (\<lambda>v. item (ret v) ''decompressions''))))
                   (size_of (set_of (each (ret memory) (\<lambda>v. item (ret v) ''system_swap_used_bytes'')))),
               eq (size_of (set_of (each (ret memory) (\<lambda>v.
                         item (ret v) ''system_swap_used_bytes'')))) (num 1)]]) (\<lambda>clean.
     bnd (dict_of [(''exact'', yes), (''clean_memory'', ret clean), (''clean_host'', ret clean_host),
          (''cases'', ret cases),
          (''peak_physical_bytes'', max_of (each (ret memory) (\<lambda>v.
                item (ret v) ''physical_footprint_peak_bytes''))),
          (''production_promoted'', no), (''normal_request_latency_qualified'', no)]) (\<lambda>result.
     branch (ret validation) (ret result) (
     bnd (each (ret weighted) (\<lambda>tup1. unpack2 tup1 (\<lambda>a b. truediv (ret b) (ret a)))) (\<lambda>ratios.
     bnd (each (ret weighted) (\<lambda>tup2. unpack2 tup2 (\<lambda>a b. sub (ret a) (ret b)))) (\<lambda>savings.
     bnd (paired_log_interval libm ratios) (\<lambda>confidence.
     bnd (conjs [ret clean, ret clean_host, lt (item (ret confidence) ''high'') (num 1),
          ge (median (ret savings)) (num 10)]) (\<lambda>promising.
     merge (dict_from (ret result))
       (dict_of [(''status'', branch (ret promising) (str ''worth_verifier_screen'')
                (str ''insufficient_isolated_benefit'')),
            (''advance_to_verifier_screen'', ret promising),
            (''shape_frequency_projection_ms'', ret savings),
            (''median_projection_ms_per_token'', median (ret savings)),
            (''weighted_ratios'', ret ratios), (''confidence_95'', ret confidence),
            (''limitations'', ret GDN_LIMITATIONS)]))))))))))))))))))))"

definition CASES :: pyval where
  "CASES =
     PList [PDict [(''name'', PStr ''head''), (''stage'', PStr ''logits''), (''layer'', PInt (- 1)),
             (''K'', PInt 2560), (''N'', PInt 248320), (''frequency'', PInt 1),
             (''tensor'', PStr ''lm_head'')],
        PDict [(''name'', PStr ''attention_q''), (''stage'', PStr ''attention''), (''layer'', PInt 3),
             (''K'', PInt 2560), (''N'', PInt 12288), (''frequency'', PInt 12),
             (''tensor'', PStr ''model.layers.3.self_attn.q_proj'')],
        PDict [(''name'', PStr ''attention_o''), (''stage'', PStr ''attention''), (''layer'', PInt 3),
             (''K'', PInt 6144), (''N'', PInt 2560), (''frequency'', PInt 12),
             (''tensor'', PStr ''model.layers.3.self_attn.o_proj'')],
        PDict [(''name'', PStr ''gdn_qkv''), (''stage'', PStr ''gdn''), (''layer'', PInt 0),
             (''K'', PInt 2560), (''N'', PInt 10240), (''frequency'', PInt 36),
             (''tensor'', PStr ''model.layers.0.linear_attn.in_proj_qkv'')],
        PDict [(''name'', PStr ''gdn_z''), (''stage'', PStr ''gdn''), (''layer'', PInt 0),
             (''K'', PInt 2560), (''N'', PInt 6144), (''frequency'', PInt 36),
             (''tensor'', PStr ''model.layers.0.linear_attn.in_proj_z'')],
        PDict [(''name'', PStr ''gdn_out''), (''stage'', PStr ''gdn''), (''layer'', PInt 0),
             (''K'', PInt 6144), (''N'', PInt 2560), (''frequency'', PInt 36),
             (''tensor'', PStr ''model.layers.0.linear_attn.out_proj'')]]"

definition EXPANDED_LIMITATIONS :: pyval where
  "EXPANDED_LIMITATIONS =
     PList [PStr
            (''The operator screen uses one four-token input block, layer 0 GDN, layer 3 attention and the output head; other inputs and contexts need full-model validation.''),
        PStr
            (''Frequency-weighted savings and paired intervals describe repeated isolated kernels, not complete requests. Pairs in one process may be temporally dependent.''),
        PStr
            (''All six cases are remeasured together. No earlier GDN timing or memory samples are pooled.''),
        PStr
            (''The input capture reports exact numerical identity separately from its resource status; no capture timing qualifies speed.''),
        PStr
            (''A passing screen authorizes a fresh perfect-proposal verifier comparison, not production promotion or a real speculative throughput claim.'')]"

definition KERNEL :: pyval where
  "KERNEL = PStr ''q8_expanded_t4_w8''"

definition VARIANT :: pyval where
  "VARIANT =
     PDict [(''candidate'', KERNEL), (''control'', PStr ''q8_mm_t4''), (''reference'', PStr ''q8_mm''),
        (''token_tile'', PInt 4), (''output_rows'', PInt 1), (''lane_width'', PInt 8),
        (''weight_load_bits'', PInt 32)]"

definition EXPANDED_CRITERIA :: pyval where
  "EXPANDED_CRITERIA =
     PDict [(''cases'', CASES), (''variant'', VARIANT), (''pairs'', PInt 5), (''repeats'', PInt 32),
        (''minimum_projection_ms_per_token'', PInt 10), (''paired_ratio_upper_below'', PInt 1),
        (''operator_gpu_bytes'', PInt (1024 ^ 3)),
        (''operator_physical_bytes'', PInt (2 * 1024 ^ 3)),
        (''input_capture_bytes'', PInt (1024 ^ 2)), (''engine_bytes'', PInt (12 * 1024 ^ 3)),
        (''expert_slots'', PInt 1460), (''capture_seconds'', PInt 150),
        (''operator_seconds'', PInt 90), (''stage_seconds'', PInt 420),
        (''source_timing_reused'', PBool False), (''production_promoted'', PBool False)]"

definition analyze_expanded :: "(string \<Rightarrow> pyval \<Rightarrow> expr) \<Rightarrow> pyval \<Rightarrow> pyval \<Rightarrow> pyval \<Rightarrow> pyval \<Rightarrow> expr" where
  "analyze_expanded libm raw validation frozen manifest =
     check (conjs [eq (get (ret raw) ''kind'') (str ''q8_expanded_operator_v1''),
          same (get (ret raw) ''complete'') yes,
          same (get (ret raw) ''validation'') (ret validation),
          eq (get (ret raw) ''build'') (item (ret frozen) ''build''),
          eq (get (ret raw) ''artifact_revision'') (item (ret frozen) ''artifact_revision''),
          eq (get (ret raw) ''source'') (ret manifest),
          eq (get (ret raw) ''device'') (str ''Apple M1 Pro''),
          conjs [lt (num 0) (get_or (ret raw) ''peak_gpu_bytes'' (num 0)),
               le (get_or (ret raw) ''peak_gpu_bytes'' (num 0))
                   (item (ret EXPANDED_CRITERIA) ''operator_gpu_bytes'')],
          same (get (ret raw) ''production_promoted'') no,
          same (get (ret raw) ''normal_request_latency_qualified'') no])
       ''Changed operator identity or bounds'' (
     check (eq (each (item (ret raw) ''cases'') (\<lambda>c. item (ret c) ''name''))
         (each (ret CASES) (\<lambda>c. item (ret c) ''name''))) ''Missing or reordered shapes'' (
     bnd (list_of [item (ret raw) ''host_before'', item (ret raw) ''host_after'']) (\<lambda>host.
     check (le (item (index (ret host) (num 0)) ''monotonic_ns'')
         (item (index (ret host) (num 1)) ''monotonic_ns'')) ''Reversed host clock'' (
     bnd (every (ret host) (\<lambda>h.
         conjs [eq (item (ret h) ''thermal_state'') (num 0), same (item (ret h) ''low_power_mode'') no,
            eq (item (ret h) ''power_source'') (str ''AC Power'')])) (\<lambda>clean_host.
     bnd (list_of [item (ret raw) ''memory_before'', item (ret raw) ''memory_after_destroy'']) (\<lambda>memory.
     bnd (branch (ret validation) (num 1) (num 5)) (\<lambda>pairs.
     bnd (each (range_to (ret pairs)) (\<lambda>unused. list_of [flt 0, flt 0])) (\<lambda>weighted.
     bnd (list_of []) (\<lambda>cases.
     bnd (loop (zip_of (item (ret raw) ''cases'') (ret CASES)) (memory, weighted, cases) (\<lambda>(memory, weighted, cases) tup2.
       unpack2 tup2 (\<lambda>case' spec.
         check (conjs [eq (tuple_of [item (ret case') ''K'', item (ret case') ''N'', item (ret case') ''tokens'',
                     item (ret case') ''frequency''])
                  (tuple_of [item (ret spec) ''K'', item (ret spec) ''N'', num 4,
                       item (ret spec) ''frequency'']),
              differs (fullmatch_hex64 (item (ret case') ''reference_sha256'')) none,
              eq (each (item (ret case') ''pairs'') (\<lambda>p. item (ret p) ''pair''))
                  (list_from (range_to (ret pairs))),
              eq (each (item (ret case') ''warmup'') (\<lambda>a. item (ret a) ''candidate''))
                  (list_of [no, yes])]) ''Changed paired coverage'' (
         bnd (list_extend (list_from (item (ret case') ''warmup''))
             (list_from (flatten (each (item (ret case') ''pairs'') (\<lambda>p.
                     list_from (item (ret p) ''arms'')))))) (\<lambda>samples.
         bnd (loop (numbered (ret samples) 0) memory (\<lambda>memory tup1.
           unpack2 tup1 (\<lambda>i arm.
             bnd (branch (disjs [ret validation, lt (ret i) (num 2)]) (num 1) (num 32)) (\<lambda>n.
             check (conjs [type_in (item (ret arm) ''candidate'') [TBool],
                  type_in (item (ret arm) ''repeats'') [TInt],
                  eq (item (ret arm) ''repeats'') (ret n), same (item (ret arm) ''exact'') yes,
                  eq (item (ret arm) ''output_sha256'') (item (ret case') ''reference_sha256''),
                  type_in (item (ret arm) ''gpu_ns'') [TInt],
                  type_in (item (ret arm) ''wall_ns'') [TInt],
                  conjs [lt (num 0) (item (ret arm) ''gpu_ns''),
                       le (item (ret arm) ''gpu_ns'') (item (ret arm) ''wall_ns'')],
                  eq (item (ret arm) ''kernel_dispatches'')
                      (put (dict_of [])
                          (branch (item (ret arm) ''candidate'') (ret KERNEL) (str ''q8_mm_t4''))
                          (ret n))]) ''Changed output, timing or dispatch selection'' (
             bnd (add (ret memory)
                 (list_of [item (ret arm) ''memory_before'', item (ret arm) ''memory_after''])) (\<lambda>memory.
             ret memory)))))) (\<lambda>memory.
         bnd (list_of []) (\<lambda>ratios.
         bnd (loop (item (ret case') ''pairs'') (weighted, ratios) (\<lambda>(weighted, ratios) p.
           check (eq (each (item (ret p) ''arms'') (\<lambda>a. item (ret a) ''candidate''))
               (list_of [bool_of (modulo (item (ret p) ''pair'') (num 2)),
                    nay (bool_of (modulo (item (ret p) ''pair'') (num 2)))]))
             ''Changed alternating order'' (
           bnd (each_dict (item (ret p) ''arms'') (\<lambda>a. item (ret a) ''candidate'') (\<lambda>a.
               truediv (item (ret a) ''gpu_ns'') (item (ret a) ''repeats''))) (\<lambda>times.
           bnd (loop (tuple_of [no, yes]) weighted (\<lambda>weighted arm.
             bnd (put (ret weighted) (item (ret p) ''pair'')
                 (put (index (ret weighted) (item (ret p) ''pair'')) (int_of (ret arm))
                     (add (index (index (ret weighted) (item (ret p) ''pair'')) (int_of (ret arm)))
                         (truediv (mul (index (ret times) (ret arm)) (item (ret spec) ''frequency''))
                             (flt 4000000))))) (\<lambda>weighted.
             ret weighted))) (\<lambda>weighted.
           bnd (append (ret ratios) (truediv (index (ret times) yes) (index (ret times) no))) (\<lambda>ratios.
           Inr (weighted, ratios))))))) (\<lambda>(weighted, ratios).
         bnd (append (ret cases)
             (dict_of [(''name'', item (ret case') ''name''), (''paired_ratios'', ret ratios)])) (\<lambda>cases.
         Inr (memory, weighted, cases)))))))))) (\<lambda>(memory, weighted, cases).
     bnd (tuple_of [str ''physical_footprint_bytes'', str ''physical_footprint_peak_bytes'',
          str ''compressed_bytes'', str ''compressed_peak_bytes'', str ''decompressions'',
          str ''system_swap_used_bytes'']) (\<lambda>fields'.
     check (conjs [every (ret memory) (\<lambda>v.
              every (ret fields') (\<lambda>k.
                conjs [type_in (lookup (ret v) (ret k)) [TInt], ge (index (ret v) (ret k)) (num 0)])),
          every (ret memory) (\<lambda>v.
              conjs [conjs [lt (num 0) (item (ret v) ''physical_footprint_bytes''),
                      le (item (ret v) ''physical_footprint_bytes'')
                          (item (ret v) ''physical_footprint_peak_bytes''),
                      le (item (ret v) ''physical_footprint_peak_bytes'')
                          (item (ret EXPANDED_CRITERIA) ''operator_physical_bytes'')],
                 le (item (ret v) ''compressed_bytes'') (item (ret v) ''compressed_peak_bytes'')])])
       ''Missing or excessive operator memory'' (
     bnd (conjs [every (ret memory) (\<lambda>v.
              conjs [eq (item (ret v) ''compressed_bytes'') (item (ret v) ''compressed_peak_bytes''),
                 eq (item (ret v) ''compressed_peak_bytes'') (num 0)]),
          conjs [eq (size_of (set_of (each (ret memory) (\<lambda>v. item (ret v) ''decompressions''))))
                   (size_of (set_of (each (ret memory) (\<lambda>v. item (ret v) ''system_swap_used_bytes'')))),
               eq (size_of (set_of (each (ret memory) (\<lambda>v.
                         item (ret v) ''system_swap_used_bytes'')))) (num 1)]]) (\<lambda>clean.
     bnd (dict_of [(''exact'', yes), (''clean_memory'', ret clean), (''clean_host'', ret clean_host),
          (''cases'', ret cases),
          (''peak_physical_bytes'', max_of (each (ret memory) (\<lambda>v.
                item (ret v) ''physical_footprint_peak_bytes''))),
          (''normal_request_latency_qualified'', no), (''production_promoted'', no)]) (\<lambda>result.
     branch (ret validation) (ret result) (
     bnd (each (ret weighted) (\<lambda>tup3. unpack2 tup3 (\<lambda>a b. sub (ret a) (ret b)))) (\<lambda>savings.
     bnd (each (ret weighted) (\<lambda>tup4. unpack2 tup4 (\<lambda>a b. truediv (ret b) (ret a)))) (\<lambda>ratios.
     bnd (paired_log_interval libm ratios) (\<lambda>interval.
     bnd (conjs [ret clean, ret clean_host, lt (item (ret interval) ''high'') (num 1),
          ge (median (ret savings)) (num 10)]) (\<lambda>promising.
     merge (dict_from (ret result))
       (dict_of [(''status'', branch (ret promising) (str ''worth_verifier_screen'')
                (str ''insufficient_isolated_benefit'')),
            (''advance_to_verifier_screen'', ret promising),
            (''shape_frequency_projection_ms'', ret savings),
            (''median_projection_ms_per_token'', median (ret savings)),
            (''weighted_ratios'', ret ratios), (''confidence_95'', ret interval),
            (''limitations'', ret EXPANDED_LIMITATIONS)]))))))))))))))))))))"

definition analyze_packed :: "(string \<Rightarrow> pyval \<Rightarrow> expr) \<Rightarrow> pyval \<Rightarrow> expr" where
  "analyze_packed libm raw =
     bnd (get_or (ret raw) ''stream_bytes_before_each_group'' (num 0)) (\<lambda>stream.
     check (conjs [isin (ret stream) (tuple_of [num 0, num (128 * 1024 ^ 2)]),
          same (get_or (ret raw) ''stream_time_included'' no) no]) ''Changed streaming experiment'' (
     check (conjs [same (get (ret raw) ''complete'') yes, same (get (ret raw) ''validation'') no,
          same (get (ret raw) ''exact'') yes, eq (get (ret raw) ''device'') (str ''Apple M1 Pro''),
          eq (get (ret raw) ''cycles'') (num 4), eq (get (ret raw) ''expert_input_cases'') (num 64),
          eq (get (ret raw) ''output_modes'') (list_of [str ''BF16'', str ''FP32'']),
          conjs [lt (num 0) (get_or (ret raw) ''max_shared_buffer_bytes'' (num 0)),
               le (get_or (ret raw) ''max_shared_buffer_bytes'' (num 0))
                   (mul (branch (ret stream) (num 384) (num 64)) (num (1024 ^ 2)))]])
       ''Incomplete bounded Q4 operator screen'' (
     check (eq (each (item (ret raw) ''pairs'') (\<lambda>p.
           tuple_of [item (ret p) ''pair'', item (ret p) ''group'']))
         (flatten (each (range_to (num 5)) (\<lambda>p.
               each (tuple_of [num 1, num 4]) (\<lambda>g. tuple_of [ret p, ret g])))))
       ''Missing alternating expert group pairs'' (
     bnd yes (\<lambda>clean.
     bnd (list_of []) (\<lambda>results.
     bnd (loop (tuple_of [num 1, num 4]) (clean, results) (\<lambda>(clean, results) group'.
       bnd (each_dict (tuple_of [num 1, num 2]) (\<lambda>v. ret v) (\<lambda>v.
           dict_of [(''gpu'', list_of []), (''wall'', list_of []), (''savings'', list_of [])])) (\<lambda>paired.
       bnd (loop (each_if (item (ret raw) ''pairs'') (\<lambda>p. eq (item (ret p) ''group'') (ret group')) (\<lambda>p.
             ret p)) (clean, paired) (\<lambda>(clean, paired) row.
         check (eq (each (item (ret row) ''arms'') (\<lambda>a. item (ret a) ''variant''))
             (branch (modulo (item (ret row) ''pair'') (num 2)) (list_of [num 2, num 0, num 1])
                 (list_of [num 0, num 2, num 1]))) ''Changed primary paired order'' (
         bnd (dict_of []) (\<lambda>values.
         bnd (loop (item (ret row) ''arms'') (clean, values) (\<lambda>(clean, values) arm.
           bnd (item (ret arm) ''sample'') (\<lambda>sample.
           bnd (loop (tuple_of [str ''gpu_us_per_expert'', str ''wall_us_per_expert'']) () (\<lambda>unused key.
             bnd (lookup (ret sample) (ret key)) (\<lambda>v.
             check (conjs [type_in (ret v) [TFloat, TInt], isfinite (ret v), gt (ret v) (num 0)])
               ''Invalid timing'' (
             Inr ())))) (\<lambda>unused.
           bnd (each (tuple_of [str ''before'', str ''after'']) (\<lambda>k.
               index (ret arm) (add (str ''memory_'') (ret k)))) (\<lambda>tup1.
           unpack2 tup1 (\<lambda>a b.
           bnd (bit_and (ret clean)
               (conjs [conjs [eq (get (ret a) ''compressed_bytes'') (get (ret b) ''compressed_bytes''),
                         eq (get (ret b) ''compressed_bytes'') (num 0)],
                    type_in (get (ret a) ''decompressions'') [TInt],
                    eq (item (ret a) ''decompressions'') (get (ret b) ''decompressions''),
                    type_in (get (ret a) ''system_swap_used_bytes'') [TInt],
                    eq (get (ret b) ''system_swap_used_bytes'')
                        (item (ret a) ''system_swap_used_bytes'')])) (\<lambda>clean.
           bnd (put (ret values) (item (ret arm) ''variant'') (ret sample)) (\<lambda>values.
           Inr (clean, values))))))))) (\<lambda>(clean, values).
         bnd (loop (tuple_of [num 1, num 2]) paired (\<lambda>paired variant.
           bnd (index (ret values) (num 0)) (\<lambda>a.
           bnd (index (ret values) (ret variant)) (\<lambda>b.
           bnd (put (ret paired) (ret variant)
               (put (index (ret paired) (ret variant)) (str ''gpu'')
                   (append (item (index (ret paired) (ret variant)) ''gpu'')
                       (truediv (item (ret b) ''gpu_us_per_expert'')
                           (item (ret a) ''gpu_us_per_expert''))))) (\<lambda>paired.
           bnd (put (ret paired) (ret variant)
               (put (index (ret paired) (ret variant)) (str ''wall'')
                   (append (item (index (ret paired) (ret variant)) ''wall'')
                       (truediv (item (ret b) ''wall_us_per_expert'')
                           (item (ret a) ''wall_us_per_expert''))))) (\<lambda>paired.
           bnd (put (ret paired) (ret variant)
               (put (index (ret paired) (ret variant)) (str ''savings'')
                   (append (item (index (ret paired) (ret variant)) ''savings'')
                       (truediv (mul (sub (item (ret a) ''gpu_us_per_expert'')
                               (item (ret b) ''gpu_us_per_expert'')) (num 480)) (num 1000))))) (\<lambda>paired.
           ret paired))))))) (\<lambda>paired.
         Inr (clean, paired))))))) (\<lambda>(clean, paired).
       bnd (append (ret results)
           (dict_of [(''group'', ret group'),
                (''variants'', each (tuple_of [num 1, num 2]) (\<lambda>v.
                    dict_of [(''variant'', ret v),
                       (''gpu_confidence_95'', call1 (paired_log_interval libm)
                           (item (index (ret paired) (ret v)) ''gpu'')),
                       (''wall_confidence_95'', call1 (paired_log_interval libm)
                           (item (index (ret paired) (ret v)) ''wall'')),
                       (''isolated_frequency_projection_ms'', item (index (ret paired) (ret v))
                           ''savings''),
                       (''median_isolated_frequency_projection_ms'', median (item (index (ret
                                 paired) (ret v)) ''savings''))]))])) (\<lambda>results.
       Inr (clean, results)))))) (\<lambda>(clean, results).
     bnd (each (ret results) (\<lambda>r. index (item (ret r) ''variants'') (num 1))) (\<lambda>primary.
     bnd (every (ret primary) (\<lambda>p.
         conjs [ge (item (ret p) ''median_isolated_frequency_projection_ms'') (num 20),
            lt (item (item (ret p) ''gpu_confidence_95'') ''high'') (num 1),
            le (item (item (ret p) ''wall_confidence_95'') ''high'') (flt (103 / 100))])) (\<lambda>material.
     dict_of [(''status'', branch (nay (ret clean)) (str ''memory_disturbed'')
            (branch (ret material) (str ''worth_request_screen'') (str ''insufficient_benefit''))),
        (''clean_memory'', ret clean), (''results'', ret results),
        (''advance_to_request_screen'', conjs [ret clean, ret material]),
        (''normal_request_latency_qualified'', no), (''production_promoted'', no),
        (''limitations'', list_of [str
                 (''Eight original Q4 experts and eight real inputs per layer; no quantization change.''),
             str
                 (''Single-token expert shapes only. Stored inputs need not have selected every fixture expert.''),
             str
                 (''Existing paired-gate/row-two kernels are a diagnostic third arm, not the predeclared primary candidate.''),
             str
                 (''Isolated frequency projection uses 480 experts/token and omits SSD/dependency overlap; it is not request latency.''),
             str
                 (''Five pairs in one process use resident records and correlated inputs; full-model state and timing remain unqualified.'')])])))))))))"

definition LOOKAHEAD_SHAPES :: pyval where
  "LOOKAHEAD_SHAPES =
     PList [PTuple [PInt 2560, PInt 10240], PTuple [PInt 2560, PInt 6144],
        PTuple [PInt 6144, PInt 2560], PTuple [PInt 2560, PInt 12288], PTuple [PInt 2560, PInt 512],
        PTuple [PInt 6144, PInt 2560]]"

definition CALLS :: pyval where
  "CALLS = PList [PInt 36, PInt 36, PInt 36, PInt 12, PInt 24, PInt 12]"

definition analyze_lookahead :: "(string \<Rightarrow> pyval \<Rightarrow> expr) \<Rightarrow> pyval \<Rightarrow> expr" where
  "analyze_lookahead libm raw =
     check (conjs [same (get (ret raw) ''complete'') yes, same (get (ret raw) ''validation'') no,
          eq (get (ret raw) ''device'') (str ''Apple M1 Pro''),
          eq (get (ret raw) ''dispatch_repeats'') (num 32),
          conjs [lt (num 0) (get_or (ret raw) ''max_shared_buffer_bytes'' (num 0)),
               le (get_or (ret raw) ''max_shared_buffer_bytes'' (num 0)) (num (128 * 1024 ^ 2))]])
       ''Incomplete bounded M1 timing'' (
     check (conjs [eq (each (item (ret raw) ''cases'') (\<lambda>c.
                tuple_of [item (ret c) ''K'', item (ret c) ''N''])) (ret LOOKAHEAD_SHAPES),
          every (item (ret raw) ''cases'') (\<lambda>c.
              conjs [same (get (ret c) ''exact'') yes, eq (item (ret c) ''width'') (num 8)])])
       ''Changed fixture coverage'' (
     check (eq (each (item (ret raw) ''pairs'') (\<lambda>p.
           tuple_of [item (ret p) ''pair'', item (ret p) ''case'']))
         (flatten (each (range_to (num 5)) (\<lambda>p.
               each (range_to (num 7)) (\<lambda>c. tuple_of [ret p, ret c])))))
       ''Missing or duplicate paired timing'' (
     bnd (list_of []) (\<lambda>results.
     bnd yes (\<lambda>clean.
     bnd (mul (list_of [flt 0]) (num 5)) (\<lambda>weighted.
     bnd (loop (range_to (num 7)) (clean, weighted, results) (\<lambda>(clean, weighted, results) case'.
       bnd (list_of []) (\<lambda>ratios.
       bnd (list_of []) (\<lambda>savings.
       bnd (loop (each_if (item (ret raw) ''pairs'') (\<lambda>v. eq (item (ret v) ''case'') (ret case')) (\<lambda>v.
             ret v)) (clean, ratios, savings, weighted) (\<lambda>(clean, ratios, savings, weighted) p.
         check (eq (each (item (ret p) ''arms'') (\<lambda>a. item (ret a) ''candidate''))
             (list_of [bool_of (modulo (item (ret p) ''pair'') (num 2)),
                  nay (bool_of (modulo (item (ret p) ''pair'') (num 2)))]))
           ''Changed alternating order'' (
         bnd (dict_of []) (\<lambda>values.
         bnd (loop (item (ret p) ''arms'') (clean, values) (\<lambda>(clean, values) arm.
           bnd (loop (values_of (item (ret arm) ''sample'')) () (\<lambda>unused value.
             check (conjs [type_in (ret value) [TInt, TFloat], isfinite (ret value), gt (ret value) (num 0)])
               ''Invalid timing'' (
             Inr ()))) (\<lambda>unused.
           bnd (each (tuple_of [str ''before'', str ''after'']) (\<lambda>k.
               index (ret arm) (add (str ''memory_'') (ret k)))) (\<lambda>tup1.
           unpack2 tup1 (\<lambda>a b.
           bnd (bit_and (ret clean)
               (conjs [conjs [eq (get (ret a) ''compressed_bytes'') (get (ret b) ''compressed_bytes''),
                         eq (get (ret b) ''compressed_bytes'') (num 0)],
                    type_in (get (ret a) ''decompressions'') [TInt],
                    eq (item (ret a) ''decompressions'') (get (ret b) ''decompressions''),
                    type_in (get (ret a) ''system_swap_used_bytes'') [TInt],
                    eq (get (ret b) ''system_swap_used_bytes'')
                        (item (ret a) ''system_swap_used_bytes'')])) (\<lambda>clean.
           bnd (put (ret values) (item (ret arm) ''candidate'')
               (item (item (ret arm) ''sample'') ''gpu_us'')) (\<lambda>values.
           Inr (clean, values)))))))) (\<lambda>(clean, values).
         bnd (append (ret ratios) (truediv (index (ret values) yes) (index (ret values) no))) (\<lambda>ratios.
         bnd (append (ret savings)
             (truediv (sub (index (ret values) no) (index (ret values) yes)) (num 1000))) (\<lambda>savings.
         bnd (branch (lt (ret case') (num 6))
             (bnd (put (ret weighted) (item (ret p) ''pair'')
                   (add (index (ret weighted) (item (ret p) ''pair''))
                       (mul (index (ret savings) (num (- 1))) (index (ret CALLS) (ret case'))))) (\<lambda>weighted.
               ret weighted)) (ret weighted)) (\<lambda>weighted.
         Inr (clean, ratios, savings, weighted))))))))) (\<lambda>(clean, ratios, savings, weighted).
       bnd (append (ret results)
           (dict_of [(''case'', ret case'), (''confidence_95'', paired_log_interval libm ratios),
                (''savings_ms'', ret savings), (''median_saving_ms'', median (ret savings))])) (\<lambda>results.
       Inr (clean, weighted, results))))))) (\<lambda>(clean, weighted, results).
     bnd (conjs [ge (median (ret weighted)) (num 20),
          lt (item (item (index (ret results) (num (- 1))) ''confidence_95'') ''high'') (num 1)]) (\<lambda>material.
     dict_of [(''status'', branch (nay (ret clean)) (str ''memory_disturbed'')
            (branch (ret material) (str ''worth_request_screen'') (str ''insufficient_benefit''))),
        (''clean_memory'', ret clean), (''cases'', ret results),
        (''shape_frequency_projection_ms'', ret weighted),
        (''median_shape_frequency_projection_ms'', median (ret weighted)),
        (''advance_to_request_screen'', conjs [ret clean, ret material]),
        (''normal_request_latency_qualified'', no), (''production_promoted'', no),
        (''limitations'', list_of [str
                 (''Old real activations, with all packed weights rehashed against the pinned mixed artifact.''),
             str
                 (''Only six matrices from two layers, width 8, even row counts. Width 4 and partial iterations are not qualified.''),
             str
                 (''Shape frequencies project isolated GPU savings, not request savings. Repeated weights change cache behavior.''),
             str
                 (''Five pairs in one process are correlated; intervals are screening evidence only.'')])]))))))))"

definition operators :: "pyval \<Rightarrow> pyval \<Rightarrow> expr" where
  "operators raw evidence' =
     bnd (item (ret raw) ''source'') (\<lambda>manifest.
     bnd (item (ret manifest) ''cases'') (\<lambda>cases.
     bnd (add (each (range_to (num 48)) (\<lambda>l. tuple_of [str ''decode'', ret l, num 1]))
         (each (tuple_of [num 0, num 47]) (\<lambda>l. tuple_of [str ''prefill'', ret l, num 72]))) (\<lambda>expected.
     reject (disjs [ne (get (ret raw) ''kind'') (str ''captured_router_operator_check_v1''),
          differs (get (ret raw) ''complete'') yes, differs (get (ret raw) ''exact'') yes,
          ne (get (ret manifest) ''kind'') (str ''captured_router_logits_v1''),
          ne (get (ret manifest) ''build'') (item (ret evidence') ''build''),
          ne (get (ret manifest) ''artifact_revision'')
              (item (ret evidence') ''artifact_revision''),
          ne (item (item (ret raw) ''machine'') ''build_fingerprint'')
              (item (ret evidence') ''build''),
          ne (each (ret cases) (\<lambda>c.
                tuple_of [item (ret c) ''phase'', item (ret c) ''layer'', item (ret c) ''tokens'']))
              (ret expected)]) ''Changed or incomplete router operator proof'' (
     reject (ne (each (item (ret raw) ''checks'') (\<lambda>c.
           tuple_of [item (ret c) ''case'', item (ret c) ''cpu_ranking_exact'']))
         (each (ret cases) (\<lambda>c. tuple_of [item (ret c) ''sha256'', yes])))
       ''Missing independent CPU ranking check'' (
     bnd (flatten (each (ret cases) (\<lambda>c.
           flatten (each (range_to (num 10)) (\<lambda>r.
               each (branch (eq (modulo (ret r) (num 2)) (num 0))
                   (tuple_of [str ''serial'', str ''simd''])
                   (tuple_of [str ''simd'', str ''serial''])) (\<lambda>v.
                 tuple_of [item (ret c) ''sha256'', item (ret c) ''tokens'', ret r, ret v])))))) (\<lambda>wanted.
     bnd (item (ret raw) ''measurements'') (\<lambda>rows.
     reject (ne (each (ret rows) (\<lambda>r.
           tuple_of [item (ret r) ''case'', item (ret r) ''tokens'', item (ret r) ''repetition'',
              item (ret r) ''variant''])) (ret wanted)) ''Changed operator timing order'' (
     bnd (loop (ret rows) () (\<lambda>unused row.
       reject (disjs [differs (get (ret row) ''exact'') yes, ne (item (ret row) ''dispatches'') (num 8),
            some (tuple_of [str ''wall_ns'', str ''gpu_ns'']) (\<lambda>k.
                disjs [nay (type_in (index (ret row) (ret k)) [TInt, TFloat]),
                   nay (isfinite (index (ret row) (ret k))), le (index (ret row) (ret k)) (num 0)])])
         ''Missing exact positive operator timing'' (
       Inr ()))) (\<lambda>unused.
     bnd (each (range_step (num 0) (size_of (ret rows)) (num 2)) (\<lambda>i.
         truediv (item (index (ret rows)
               (add (ret i)
                   (int_of (eq (item (index (ret rows) (ret i)) ''variant'') (str ''serial'')))))
             ''gpu_ns'')
           (item (index (ret rows)
                 (add (ret i)
                     (int_of (ne (item (index (ret rows) (ret i)) ''variant'') (str ''serial'')))))
               ''gpu_ns''))) (\<lambda>ratios.
     bnd (each (range_step (num 0) (size_of (ret ratios)) (num 10)) (\<lambda>i.
         median (slice (ret ratios) (ret i) (add (ret i) (num 10))))) (\<lambda>per_case.
     dict_of [(''exact'', yes), (''cpu_ranking_exact'', yes), (''cases'', size_of (ret cases)),
        (''median_gpu_ratio'', median (ret ratios)),
        (''worst_case_median_gpu_ratio'', max_of (ret per_case)),
        (''screen_passed'', every (ret per_case) (\<lambda>v. lt (ret v) (flt (9 / 10))))])))))))))))"

definition analyze_reuse :: "pyval \<Rightarrow> expr" where
  "analyze_reuse raw =
     reject (disjs [ne (get (ret raw) ''kind'') (str ''buffer_reuse_probe_v1''),
          differs (get (ret raw) ''complete'') yes, differs (get (ret raw) ''synthetic'') yes,
          ne (size_of (get_or (ret raw) ''pairs'' (list_of []))) (num 5)])
       ''Requires five complete isolated pairs'' (
     bnd (list_of []) (\<lambda>rows.
     bnd yes (\<lambda>clean.
     bnd (loop (numbered (item (ret raw) ''pairs'') 0) (clean, rows) (\<lambda>(clean, rows) tup1.
       unpack2 tup1 (\<lambda>i pair.
         reject (disjs [ne (get (ret pair) ''pair'') (ret i),
              ne (get (ret pair) ''order'')
                  (branch (modulo (ret i) (num 2)) (list_of [str ''pool'', str ''control''])
                      (list_of [str ''control'', str ''pool'']))]) ''Unexpected pair order'' (
         bnd (dict_of []) (\<lambda>means.
         bnd (loop (tuple_of [str ''control'', str ''pool'']) (means, clean) (\<lambda>(means, clean) name.
           bnd (index (ret pair) (ret name)) (\<lambda>arm.
           bnd (item (ret arm) ''warm'') (\<lambda>samples.
           reject (ne (size_of (ret samples)) (num 8)) ''Incomplete warm samples'' (
           bnd (put (ret means) (ret name)
               (mean (each (ret samples) (\<lambda>s. truediv (item (ret s) ''elapsed_ns'') (flt 1000000))))) (\<lambda>means.
           bnd (loop (list_extend (list_of [item (ret arm) ''cold'', item (ret arm) ''warmup''])
                 (list_from (ret samples))) clean (\<lambda>clean s.
             reject (disjs [le (item (ret s) ''elapsed_ns'') (num 0),
                  ne (item (ret s) ''validated_elements'') (num 15138816)])
               ''Invalid probe iteration'' (
             bnd (item (ret s) ''process_before'') (\<lambda>a.
             bnd (item (ret s) ''process_after'') (\<lambda>b.
             bnd (bit_and (ret clean)
                 (conjs [eq (get (ret a) ''compressed_bytes'') (num 0),
                      eq (get (ret b) ''compressed_bytes'') (num 0),
                      type_in (get (ret a) ''decompressions'') [TInt],
                      eq (item (ret a) ''decompressions'') (get (ret b) ''decompressions'')])) (\<lambda>clean.
             ret clean)))))) (\<lambda>clean.
           bnd (loop (ret samples) () (\<lambda>unused s.
             reject (disjs [ne (item (ret s) ''allocation_count'')
                      (branch (eq (ret name) (str ''pool'')) (num 0) (num 3072)),
                  ne (item (ret s) ''scratch_reuses'')
                      (branch (eq (ret name) (str ''pool'')) (num 3072) (num 0))])
               ''Unexpected physical allocation/reuse count'' (
             Inr ()))) (\<lambda>unused.
           Inr (means, clean))))))))) (\<lambda>(means, clean).
         bnd (append (ret rows)
             (dict_of [(''pair'', ret i), (''control_ms'', item (ret means) ''control''),
                  (''pool_ms'', item (ret means) ''pool''),
                  (''saved_ms'', sub (item (ret means) ''control'') (item (ret means) ''pool''))])) (\<lambda>rows.
         Inr (clean, rows)))))))) (\<lambda>(clean, rows).
     bnd (median (each (ret rows) (\<lambda>r. item (ret r) ''saved_ms''))) (\<lambda>median'.
     dict_of [(''kind'', str ''buffer_reuse_probe_analysis_v1''), (''complete'', yes),
        (''synthetic'', yes), (''pairs'', ret rows),
        (''median_saved_ms_per_synthetic_iteration'', ret median'),
        (''clean_memory_observations'', bool_of (ret clean)),
        (''material_isolated_opportunity'', bool_of (conjs [ret clean, ge (ret median') (num 20),
               every (ret rows) (\<lambda>r. gt (item (ret r) ''saved_ms'') (num 0))])),
        (''normal_request_latency_qualified'', no), (''production_promoted'', no),
        (''limitations'', list_of [str
                 (''Synthetic 3072-buffer workload; no model, SSD reads, actual allocation sequence or token-latency prediction.''),
             str
                 (''Cold/warmup iterations and pool release are recorded separately from warm means.''),
             str
                 (''Five alternating pairs in one process; no inference qualification confidence bound.'')])])))))"

definition analyze_buffer :: "pyval \<Rightarrow> expr" where
  "analyze_buffer raw =
     reject (ne (each (get_or (ret raw) ''runs'' (list_of [])) (\<lambda>r. get (ret r) ''name''))
         (list_of [str ''coding_routes_32'', str ''append_128'']))
       ''Requires both complete initial and append captures'' (
     bnd (list_of []) (\<lambda>rows.
     bnd (loop (item (ret raw) ''runs'') rows (\<lambda>rows row.
       bnd (analyze_steps row) (\<lambda>check'.
       reject (disjs [ne (item (ret check') ''captured_steps'') (num 32), item (ret check') ''omitted_steps''])
         ''Requires all 32 decode samples'' (
       bnd (each (tuple_of [str ''before'', str ''after'']) (\<lambda>k.
           index (item (item (ret row) ''phases'') ''decode'') (ret k))) (\<lambda>tup1.
       unpack2 tup1 (\<lambda>a b.
       bnd (call2 buffer_delta (item (ret a) ''metal'') (item (ret b) ''metal'')) (\<lambda>costs.
       bnd (each (item (item (ret row) ''decode_diagnostics'') ''samples'') (\<lambda>s.
           call2 buffer_delta (item (item (ret s) ''before'') ''metal'')
             (item (item (ret s) ''after'') ''metal''))) (\<lambda>per_step.
       bnd (loop (ret CLASSES) () (\<lambda>unused name.
         bnd (loop (ret FIELDS) () (\<lambda>unused key.
           reject (ne (sum_of (each (ret per_step) (\<lambda>s.
                   index (index (item (ret s) ''classes'') (ret name)) (ret key))))
               (index (index (item (ret costs) ''classes'') (ret name)) (ret key)))
             ''Phase counters exceed committed sample coverage'' (
           Inr ()))) (\<lambda>unused.
         Inr ()))) (\<lambda>unused.
       reject (some (tuple_of [str ''retired_groups'', str ''group_retirement_ns'']) (\<lambda>k.
           ne (sum_of (each (ret per_step) (\<lambda>s. index (ret s) (ret k)))) (index (ret costs) (ret k))))
         ''Missing retirement sample coverage'' (
       bnd (truediv (sum_of (each (values_of (item (ret costs) ''classes'')) (\<lambda>c.
               item (ret c) ''allocation_ns''))) (flt 32000000)) (\<lambda>creation.
       bnd (truediv (sum_of (each (values_of (item (ret costs) ''classes'')) (\<lambda>c.
               item (ret c) ''outside_release_ns''))) (flt 32000000)) (\<lambda>outside.
       bnd (truediv (item (ret costs) ''group_retirement_ns'') (flt 32000000)) (\<lambda>retirement.
       bnd (truediv (item (item (item (ret costs) ''classes'') ''temporary'') ''allocation_ns'')
           (flt 32000000)) (\<lambda>temporary.
       bnd (flatten (each (item (item (ret row) ''decode_diagnostics'') ''samples'') (\<lambda>s.
             each (tuple_of [str ''before'', str ''after'']) (\<lambda>k.
               item (index (ret s) (ret k)) ''process'')))) (\<lambda>process.
       bnd (disjs [some (ret process) (\<lambda>p. ne (get (ret p) ''compressed_bytes'') (num 0)),
            gt (call2 difference_buffer (item (item (ret a) ''process'') ''decompressions'')
                  (item (item (ret b) ''process'') ''decompressions'')) (num 0)]) (\<lambda>disturbed.
       bnd (append (ret rows)
           (dict_of [(''name'', item (ret row) ''name''),
                (''decode_ms_per_token'', truediv (item (ret row) ''decode_wall_ms'') (num 32)),
                (''allocation_ms_per_token'', ret creation),
                (''temporary_allocation_ms_per_token'', ret temporary),
                (''group_retirement_ms_per_token'', ret retirement),
                (''outside_owner_release_ms_per_token'', ret outside),
                (''observed_cpu_interval_ms_per_token'', add (add (ret creation) (ret retirement))
                    (ret outside)),
                (''temporary_reuse_upper_cpu_ms_per_token'', add (add (ret temporary)
                      (ret retirement)) (ret outside)),
                (''allocation_count_per_token'', truediv (sum_of (each (values_of (item (ret costs)
                            ''classes'')) (\<lambda>c. item (ret c) ''allocations''))) (num 32)),
                (''memory_disturbance_observed'', ret disturbed),
                (''compressed_peak_bytes'', get (item (ret b) ''process'')
                    ''compressed_peak_bytes''),
                (''costs'', ret costs), (''samples'', ret per_step)])) (\<lambda>rows.
       ret rows))))))))))))))))) (\<lambda>rows.
     dict_of [(''kind'', str ''buffer_cost_analysis_v1''), (''complete'', yes), (''requests'', ret rows),
        (''consider_bounded_reuse'', every (ret rows) (\<lambda>r.
            conjs [ge (item (ret r) ''temporary_reuse_upper_cpu_ms_per_token'') (num 20),
               nay (item (ret r) ''memory_disturbance_observed'')])),
        (''normal_request_latency_qualified'', no), (''production_promoted'', no),
        (''limitations'', list_of [str
                 (''Measured CPU intervals can overlap GPU and I/O work and cannot be subtracted from request latency.''),
             str
                 (''Temporary reuse bound includes all group-retirement work; some state, command and residency work would remain.''),
             str
                 (''Owner callbacks nested in the same executor group retirement are excluded from the outside sum.''),
             str
                 (''Retired bytes refer to engine-owner releases; they are not physical footprint or proof of immediate driver deallocation.''),
             str
                 (''Counters are opt-in; disabled or old reports have missing measurements, not zero cost.''),
             str
                 (''32 steps per request, short initial and append workloads; no 2K/4K or sustained acceptance.'')])])))"

end
