(* ===== verification/ScreenDecisions.thy ===== *)
theory ScreenDecisions
  imports ExactBench
begin

text \<open>
  Observations and decisions of the paired request screens.
\<close>

definition check_residency :: "pyval \<Rightarrow> pyval \<Rightarrow> expr" where
  "check_residency raw mode =
     bnd (loop (item (ret raw) ''runs'') () (\<lambda>unused row.
       bnd (list_extend (list_of [item (ret row) ''before'', item (ret row) ''after''])
           (list_from (flatten (each (values_of (item (ret row) ''phases'')) (\<lambda>v.
                   each (tuple_of [str ''before'', str ''after'']) (\<lambda>k. index (ret v) (ret k))))))) (\<lambda>states.
       bnd (loop (ret states) () (\<lambda>unused state.
         bnd (item (item (ret state) ''metal'') ''residency'') (\<lambda>reg.
         bnd (item (ret reg) ''bytes_by_class'') (\<lambda>classes'.
         bnd (item (ret state) ''memory_plan'') (\<lambda>plan.
         reject (disjs [ne (item (ret reg) ''mode'') (ret mode),
              gt (item (ret reg) ''set_overhead_bytes'') (num (64 * 1024 ^ 2)),
              item (ret reg) ''pending_retirements'',
              some (values_of (ret classes')) (\<lambda>v.
                  disjs [nay (type_in (ret v) [TInt]), lt (ret v) (num 0)]),
              ne (item (ret reg) ''registered_bytes'') (sum_of (values_of (ret classes'))),
              sub (set_of (ret classes')) (set_disp [str ''resident'', str ''state''])])
           ''Residency enrollment or retirement differs from the core-only experiment'' (
         bnd (branch (eq (ret mode) (str ''off''))
             (reject (disjs [item (ret reg) ''registered_bytes'', item (ret reg) ''allocations''])
                 ''Off mode enrolled allocations'' (
               Inr ()))
             (reject (disjs [ne (get (ret classes') ''resident'') (item (ret plan) ''resident_bytes''),
                    nay (conjs [le (item (ret plan) ''runtime_control_bytes'')
                               (get_or (ret classes') ''state'' (num 0)),
                           le (get_or (ret classes') ''state'' (num 0))
                               (add (item (ret plan) ''session_bytes'')
                                   (item (ret plan) ''runtime_control_bytes''))])])
                 ''Core matrices/state were not enrolled as planned'' (
               Inr ()))) (\<lambda>unused.
         bnd (item (item (ret state) ''metal'') ''kernels'') (\<lambda>kernels.
         reject (disjs [get (ret kernels) ''profile'', get (ret kernels) ''counter_profile''])
           ''GPU profiling cannot qualify timing'' (
         Inr ()))))))))) (\<lambda>unused.
       Inr ())))) (\<lambda>unused.
     none)"

definition pair_order :: "pyval \<Rightarrow> expr" where
  "pair_order count =
     reject (disjs [nay (type_in (ret count) [TInt]), notin (ret count) (tuple_of [num 2, num 5])])
       ''Requires two screening or five confirmation pairs'' (
     tuple_from (flatten (each (range_to (ret count)) (\<lambda>i.
           each (branch (eq (modulo (ret i) (num 2)) (num 0)) (tuple_of [str ''off'', str ''core''])
               (tuple_of [str ''core'', str ''off''])) (\<lambda>mode. tuple_of [ret i, ret mode])))))"

definition decide_residency :: "(string \<Rightarrow> pyval \<Rightarrow> expr) \<Rightarrow> pyval \<Rightarrow> pyval \<Rightarrow> expr" where
  "decide_residency libm measurements' pair_count =
     reject (ne (each (ret measurements') (\<lambda>m.
           tuple_of [item (ret m) ''pair'', item (ret m) ''residency'']))
         (list_from (pair_order pair_count))) ''Requires the declared alternating off/core pairs'' (
     reject (some (ret measurements') (\<lambda>m. ne (size_of (item (ret m) ''requests'')) (num 2)))
       ''Missing initial or append request'' (
     bnd (each_dict (ret measurements') (\<lambda>m.
         tuple_of [item (ret m) ''pair'', item (ret m) ''residency'']) (\<lambda>m. ret m)) (\<lambda>pairs.
     bnd (list_of []) (\<lambda>ratios.
     bnd (loop (range_to (num 2)) ratios (\<lambda>ratios request.
       bnd (loop (tuple_of [str ''request_ms'', str ''time_to_first_token_ms'', str ''decode_wall_ms''])
           ratios (\<lambda>ratios metric.
         bnd (list_of []) (\<lambda>values.
         bnd (loop (range_to (ret pair_count)) values (\<lambda>values pair.
           bnd (each (tuple_of [str ''off'', str ''core'']) (\<lambda>mode.
               index (index (item (index (ret pairs) (tuple_of [ret pair, ret mode])) ''requests'')
                   (ret request)) (ret metric))) (\<lambda>tup1.
           unpack2 tup1 (\<lambda>a b.
           reject (some (tuple_of [ret a, ret b]) (\<lambda>v.
               disjs [nay (type_in (ret v) [TInt, TFloat]), nay (isfinite (ret v)), le (ret v) (num 0)]))
             ''Invalid request timing'' (
           bnd (append (ret values) (truediv (ret b) (ret a))) (\<lambda>values.
           ret values)))))) (\<lambda>values.
         bnd (dict_of [(''request'', ret request), (''metric'', ret metric), (''ratios'', ret values),
              (''median'', median (ret values))]) (\<lambda>row.
         bnd (branch (eq (ret pair_count) (num 5))
             (bnd (put (ret row) (str ''confidence_95'') (paired_log_interval libm values)) (\<lambda>row.
               ret row)) (ret row)) (\<lambda>row.
         bnd (append (ret ratios) (ret row)) (\<lambda>ratios.
         ret ratios))))))) (\<lambda>ratios.
       ret ratios))) (\<lambda>ratios.
     bnd (each (range_to (ret pair_count)) (\<lambda>i.
         truediv (sum_of (each (item (index (ret pairs) (tuple_of [ret i, str ''core'']))
                 ''requests'') (\<lambda>r. item (ret r) ''request_ms'')))
           (sum_of (each (item (index (ret pairs) (tuple_of [ret i, str ''off''])) ''requests'') (\<lambda>r.
                 item (ret r) ''request_ms''))))) (\<lambda>totals.
     branch (eq (ret pair_count) (num 5))
       (bnd (paired_log_interval libm totals) (\<lambda>interval.
         bnd (conjs [le (item (ret interval) ''geometric_mean'') (flt (99 / 100)),
              lt (item (ret interval) ''high'') (num 1),
              every (ret ratios) (\<lambda>r.
                  le (item (item (ret r) ''confidence_95'') ''high'') (flt (103 / 100)))]) (\<lambda>promising.
         dict_of [(''status'', branch (ret promising) (str ''promising'')
                (str ''improvement_not_demonstrated'')),
            (''conversation_ratios'', ret totals),
            (''median_conversation_ratio'', median (ret totals)), (''ratios'', ret ratios),
            (''confidence_95'', ret interval), (''advance_to_five_pairs'', no),
            (''advance_to_long_validation'', ret promising),
            (''normal_request_latency_qualified'', no), (''production_promoted'', no)]))) (
     bnd (conjs [every (ret totals) (\<lambda>v. lt (ret v) (num 1)), le (median (ret totals)) (flt (99 / 100)),
          every (ret ratios) (\<lambda>r. le (item (ret r) ''median'') (flt (103 / 100)))]) (\<lambda>promising.
     dict_of [(''status'', branch (ret promising) (str ''promising'')
            (str ''improvement_not_demonstrated'')),
        (''conversation_ratios'', ret totals), (''median_conversation_ratio'', median (ret totals)),
        (''ratios'', ret ratios), (''confidence_95'', none),
        (''advance_to_five_pairs'', ret promising), (''normal_request_latency_qualified'', no),
        (''production_promoted'', no)]))))))))"

definition order :: "pyval \<Rightarrow> expr" where
  "order pairs =
     each (pair_order pairs) (\<lambda>tup1.
       unpack2 tup1 (\<lambda>i arm.
         tuple_of [ret i, branch (eq (ret arm) (str ''off'')) (str ''control'') (str ''candidate'')]))"

definition decide_capacity :: "(string \<Rightarrow> pyval \<Rightarrow> expr) \<Rightarrow> pyval \<Rightarrow> pyval \<Rightarrow> expr" where
  "decide_capacity libm measurements' pairs =
     bnd (each (ret measurements') (\<lambda>r.
         dict_of [(''pair'', item (ret r) ''pair''),
            (''residency'', branch (eq (item (ret r) ''configuration'') (str ''control''))
                (str ''off'') (str ''core'')),
            (''requests'', item (ret r) ''requests'')])) (\<lambda>translated.
     bnd (decide_residency libm translated pairs) (\<lambda>result.
     bnd (without_key (ret result) (str ''advance_to_long_validation'')) (\<lambda>result.
     bnd (lookup_or (ret result) (str ''advance_to_five_pairs'') no) (\<lambda>popped.
     bnd (without_key (ret result) (str ''advance_to_five_pairs'')) (\<lambda>result.
     bnd (put (ret result) (str ''advance_to_confirmation'') (bool_of (ret popped))) (\<lambda>result.
     bnd (put (ret result) (str ''candidate_for_later_qualification'')
         (conjs [eq (ret pairs) (num 5), eq (item (ret result) ''status'') (str ''promising'')])) (\<lambda>result.
     ret result)))))))"

definition TAIL_CHECKS :: pyval where
  "TAIL_CHECKS =
     PSet [PStr ''failed_decode_tail_invalidates_state'', PStr ''failed_decode_tail_drains_gpu'',
        PStr ''cancelled_decode_tail_invalidates_state'', PStr ''cancelled_decode_tail_drains_gpu'']"

definition configs :: "expr" where
  "configs =
     each (tuple_of [tuple_of [str ''control'', str ''wait''], tuple_of [str ''candidate'', str ''overlap'']]) (\<lambda>tup1.
       unpack2 tup1 (\<lambda>name tail.
         merge (dict_from (index router_configs (num 1)))
           (dict_of [(''name'', ret name), (''expert_tail'', ret tail)])))"

definition state_cases_tail :: "expr" where
  "state_cases_tail =
     each configs (\<lambda>c.
       merge (dict_from (call1 correctness_case (str ''clock'')))
         (dict_of [(''kernel_policy'', str ''candidate''), (''q8_decode_rows'', num 2),
              (''route_selection'', str ''simd''), (''expert_tail'', item (ret c) ''expert_tail'')]))"

definition observations_tail :: "(pyval \<Rightarrow> expr) \<Rightarrow> pyval \<Rightarrow> pyval \<Rightarrow> pyval \<Rightarrow> pyval \<Rightarrow> pyval \<Rightarrow> pyval \<Rightarrow> expr" where
  "observations_tail read_json native_top_p raw evidence' config workload expected =
     bnd (validate_request read_json native_top_p raw evidence' config workload expected
         (PBool False) (PStr ''off'') (PBool False) (PInt (12 * 1024 ^ 3)) (PInt 33) (PBool False)) (\<lambda>tup1.
     unpack2 tup1 (\<lambda>rows expected.
     bnd (loop (item (ret raw) ''runs'') expected (\<lambda>expected row.
       bnd (loop (tuple_from (list_extend (list_of [item (ret row) ''before'', item (ret row) ''after''])
               (list_from (flatten (each (values_of (item (ret row) ''phases'')) (\<lambda>v.
                       each (tuple_of [str ''before'', str ''after'']) (\<lambda>k. index (ret v) (ret k))))))))
           () (\<lambda>unused state.
         reject (disjs [differs (get (ret state) ''expert_tail_pending'') no,
              ne (item (item (ret state) ''metal'') ''live_command_groups'') (num 0),
              gt (item (item (ret state) ''metal'') ''peak_command_groups'') (num 2)])
           ''Unreleased or unbounded GPU work'' (
         Inr ()))) (\<lambda>unused.
       bnd (item (item (ret row) ''phases'') ''decode'') (\<lambda>phase.
       bnd (item (ret phase) ''before'') (\<lambda>a.
       bnd (item (ret phase) ''after'') (\<lambda>b.
       bnd (sub (item (ret b) ''expert_tail_deferrals'') (item (ret a) ''expert_tail_deferrals'')) (\<lambda>delta.
       reject (ne (ret delta)
           (branch (eq (item (ret config) ''expert_tail'') (str ''overlap'')) (num (48 * 32))
               (num 0))) ''Requested expert tail did not execute'' (
       bnd (each_dict (item (item (ret b) ''metal'') ''kernel_dispatches'') (\<lambda>k. ret k) (\<lambda>k.
           sub (lookup_or (item (item (ret b) ''metal'') ''kernel_dispatches'') (ret k) (num 0))
             (lookup_or (item (item (ret a) ''metal'') ''kernel_dispatches'') (ret k) (num 0)))) (\<lambda>counts.
       bnd (setdefault (ret expected) (add (str ''dispatches_'') (item (ret row) ''name''))
           (ret counts)) (\<lambda>expected.
       reject (ne (index (ret expected) (add (str ''dispatches_'') (item (ret row) ''name'')))
           (ret counts)) ''Arithmetic dispatch counts changed'' (
       ret expected))))))))))) (\<lambda>expected.
     tuple_of [ret rows, ret expected])))"

definition correctness_tail :: "(pyval \<Rightarrow> expr) \<Rightarrow> pyval \<Rightarrow> pyval \<Rightarrow> expr" where
  "correctness_tail read_json reports evidence' =
     reject (ne (size_of (ret reports)) (num 2)) ''Missing correctness arm'' (
     bnd (loop (zip_of (ret reports) state_cases_tail) () (\<lambda>unused tup1.
       unpack2 tup1 (\<lambda>raw case'.
         bnd (branch (eq (item (ret case') ''expert_tail'') (str ''overlap''))
             (union_of (ret CHECKS) (ret TAIL_CHECKS)) (ret CHECKS)) (\<lambda>checks.
         reject (disjs [ne (get (ret raw) ''case'') (ret case'), differs (get (ret raw) ''passed'') yes,
              ne (get (ret raw) ''layers'') (num 48), differs (get (ret raw) ''full_model'') yes,
              ne (size_of (get_or (ret raw) ''runs'' (list_of []))) (num 1),
              ne (set_of (each (get_or (ret raw) ''checks'' (list_of [])) (\<lambda>c.
                      item (ret c) ''name''))) (ret checks),
              ne (size_of (item (ret raw) ''checks'')) (size_of (ret checks)),
              some (item (ret raw) ''checks'') (\<lambda>c. differs (item (ret c) ''passed'') yes)])
           ''Incomplete state/failure checks'' (
         bnd (get_or (index (item (ret raw) ''runs'') (num 0)) ''stages'' (list_of [])) (\<lambda>stages.
         reject (disjs [ne (size_of (ret stages)) (num 3),
              some (ret stages) (\<lambda>s.
                  disjs [ne (size_of (get_or (ret s) ''layers'' (list_of []))) (num 48),
                     ne (size_of (get_or (ret s) ''routes'' (list_of []))) (num 48)])])
           ''Incomplete all-layer logits/routes/state snapshots'' (
         bnd (loop (tuple_of [str ''continued_statistics'', str ''after_fresh'']) () (\<lambda>unused key.
           bnd (index (index (item (ret raw) ''runs'') (num 0)) (ret key)) (\<lambda>state.
           bnd (call3 check_machine (ret state) (ret evidence') (mul (num 12) (ret GiB))) (\<lambda>unused.
           bnd (check_configuration read_json state case') (\<lambda>unused.
           reject (disjs [ne (item (item (ret state) ''memory_plan'') ''expert_slots'') (num 32),
                le (item (item (ret state) ''expert_cache'') ''evictions'') (num 0),
                differs (get (ret state) ''expert_tail_pending'') no,
                ne (item (item (ret state) ''metal'') ''live_command_groups'') (num 0),
                differs (get (ret state) ''diagnostic_stream_trunk'') no])
             ''Missing forced eviction or drain'' (
           reject (ne (gt (item (ret state) ''expert_tail_deferrals'') (num 0))
               (eq (item (ret case') ''expert_tail'') (str ''overlap''))) ''Missing tail execution'' (
           Inr ()))))))) (\<lambda>unused.
         Inr ())))))))) (\<lambda>unused.
     reject (ne (item (index (item (index (ret reports) (num 0)) ''runs'') (num 0)) ''stages'')
         (item (index (item (index (ret reports) (num 1)) ''runs'') (num 0)) ''stages''))
       ''Expert tail changed logits, routes or persistent state'' (
     dict_of [(''exact_logits_routes_state'', yes), (''all_48_layers'', yes),
        (''continued_equals_fresh'', yes), (''forced_eviction'', yes),
        (''decode_tail_cancellation_failure'', yes), (''independent_model_reference'', no)])))"

definition decide_tail :: "(string \<Rightarrow> pyval \<Rightarrow> expr) \<Rightarrow> pyval \<Rightarrow> expr" where
  "decide_tail libm rows =
     bnd (call2 (decide_capacity libm) (ret rows) (num 2)) (\<lambda>result.
     bnd (each_dict (ret rows) (\<lambda>r.
         tuple_of [item (ret r) ''pair'', item (ret r) ''configuration'']) (\<lambda>r.
         item (ret r) ''requests'')) (\<lambda>indexed.
     bnd (each (range_to (num 2)) (\<lambda>i.
         each (range_to (num 2)) (\<lambda>p.
           truediv (sub (item (index (index (ret indexed) (tuple_of [ret p, str ''control'']))
                   (ret i)) ''decode_wall_ms'')
               (item (index (index (ret indexed) (tuple_of [ret p, str ''candidate''])) (ret i))
                   ''decode_wall_ms'')) (num 32)))) (\<lambda>savings.
     bnd (conjs [item (ret result) ''advance_to_confirmation'',
          every (ret savings) (\<lambda>phase. every (ret phase) (\<lambda>v. gt (ret v) (num 0)))]) (\<lambda>promising.
     bnd (merge (ret result)
         (dict_of [(''status'', branch (ret promising) (str ''promising'')
                  (str ''improvement_not_demonstrated'')),
              (''advance_to_confirmation'', ret promising),
              (''decode_savings_ms_per_token'', ret savings),
              (''median_initial_saving_ms'', median (index (ret savings) (num 0))),
              (''target_ms_per_token'', num 200)])) (\<lambda>result.
     ret result)))))"

definition observations_steady :: "(pyval \<Rightarrow> expr) \<Rightarrow> pyval \<Rightarrow> pyval \<Rightarrow> pyval \<Rightarrow> pyval \<Rightarrow> pyval \<Rightarrow> pyval \<Rightarrow> expr" where
  "observations_steady read_json native_top_p raw evidence' config workload expected =
     reject (disjs [ne (get (ret raw) ''gpu_reference_mode'') (str ''off''),
          ne (get (ret raw) ''gpu_references'') (list_of [])])
       ''Normal timing must exclude boundary probes'' (
     bnd (loop (get_or (ret raw) ''runs'' (list_of [])) expected (\<lambda>expected row.
       bnd (loop (list_extend (list_of [item (ret row) ''before'', item (ret row) ''after''])
             (list_from (flatten (each (values_of (item (ret row) ''phases'')) (\<lambda>v.
                     each (tuple_of [str ''before'', str ''after'']) (\<lambda>k. index (ret v) (ret k)))))))
           () (\<lambda>unused state.
         bnd (item (item (ret state) ''metal'') ''kernels'') (\<lambda>kernels.
         reject (disjs [get (ret kernels) ''profile'', get (ret kernels) ''counter_profile'',
              get (ret kernels) ''operator_capture'',
              ne (item (item (ret state) ''memory_plan'') ''expert_slots'') (num 1848),
              ne (item (item (ret state) ''memory_plan'') ''panel_tokens'') (num 512),
              ne (get (ret state) ''short_append_tokens'') (num 32)])
           ''Changed capacity, schedule or instrumentation'' (
         Inr ())))) (\<lambda>unused.
       bnd (item (item (item (ret row) ''after'') ''metal'') ''kernel_dispatches'') (\<lambda>dispatches.
       bnd (each_dict (each_if (items_of (ret dispatches)) (\<lambda>tup1.
             unpack2 tup1 (\<lambda>k v. startswith (ret k) (str ''q8_mv_packed_''))) (\<lambda>x. ret x)) (\<lambda>tup2.
           unpack2 tup2 (\<lambda>k v. ret k)) (\<lambda>tup3. unpack2 tup3 (\<lambda>k v. ret v))) (\<lambda>packed.
       reject (disjs [ne (bool_of (ret packed)) (bool_of (item (ret config) ''q8_decode_rows'')),
            sub (set_of (ret packed))
                (set_disp [str ''q8_mv_packed_r2_w4'', str ''q8_mv_packed_r2_w8''])])
         ''Requested packed kernel did not execute'' (
       bnd (each_dict (each_if (items_of (ret dispatches)) (\<lambda>tup4.
             unpack2 tup4 (\<lambda>k v. notin (ret k) (ret packed))) (\<lambda>x. ret x)) (\<lambda>tup5.
           unpack2 tup5 (\<lambda>k v. ret k)) (\<lambda>tup6. unpack2 tup6 (\<lambda>k v. ret v))) (\<lambda>normalized.
       bnd (put (ret normalized) (str ''q8_mm'')
           (add (get_or (ret normalized) ''q8_mm'' (num 0)) (sum_of (values_of (ret packed))))) (\<lambda>normalized.
       bnd (add (str ''dispatches_'') (item (ret row) ''name'')) (\<lambda>key.
       bnd (setdefault (ret expected) (ret key) (ret normalized)) (\<lambda>expected.
       reject (ne (index (ret expected) (ret key)) (ret normalized))
         ''Non-Q8 dispatch counts changed'' (
       ret expected))))))))))) (\<lambda>expected.
     bnd (validate_request read_json native_top_p raw evidence' config workload expected
         (PBool False) (PStr ''off'') (PBool False) (PInt (12 * 1024 ^ 3)) (PInt 33) (PBool False)) (\<lambda>tup7.
     unpack2 tup7 (\<lambda>result expected.
     tuple_of [ret result, ret expected]))))"

definition observations_routing :: "(pyval \<Rightarrow> expr) \<Rightarrow> pyval \<Rightarrow> pyval \<Rightarrow> pyval \<Rightarrow> pyval \<Rightarrow> pyval \<Rightarrow> pyval \<Rightarrow> expr" where
  "observations_routing read_json native_top_p raw evidence' config workload expected =
     bnd (validate_request read_json native_top_p raw evidence' config workload expected
         (PBool False) (PStr ''off'') (PBool False) (PInt (12 * 1024 ^ 3)) (PInt 33) (PBool False)) (\<lambda>tup1.
     unpack2 tup1 (\<lambda>result expected.
     bnd (loop (item (ret raw) ''runs'') expected (\<lambda>expected r.
       bnd (dict_from (item (item (item (ret r) ''after'') ''metal'') ''kernel_dispatches'')) (\<lambda>counts.
       bnd (lookup_or (ret counts) (str ''route_simd'') (num 0)) (\<lambda>n.
       bnd (without_key (ret counts) (str ''route_simd'')) (\<lambda>counts.
       reject (ne (bool_of (ret n)) (eq (item (ret config) ''route_selection'') (str ''simd'')))
         ''Requested routing kernel did not execute'' (
       reject (conjs [ret n, get_or (ret counts) ''route'' (num 0)])
         ''Candidate mixed routing implementations'' (
       bnd (put (ret counts) (str ''route'') (add (get_or (ret counts) ''route'' (num 0)) (ret n))) (\<lambda>counts.
       bnd (setdefault (ret expected) (add (str ''dispatches_'') (item (ret r) ''name''))
           (ret counts)) (\<lambda>expected.
       reject (ne (index (ret expected) (add (str ''dispatches_'') (item (ret r) ''name'')))
           (ret counts)) ''Non-routing dispatch changed'' (
       bnd (loop (tuple_from (list_extend (list_of [item (ret r) ''before'', item (ret r) ''after''])
               (list_from (flatten (each (values_of (item (ret r) ''phases'')) (\<lambda>v.
                       each (tuple_of [str ''before'', str ''after'']) (\<lambda>k. index (ret v) (ret k))))))))
           () (\<lambda>unused s.
         reject (disjs [get (item (item (ret s) ''metal'') ''kernels'') ''profile'',
              get (item (item (ret s) ''metal'') ''kernels'') ''counter_profile'',
              ne (get (ret s) ''short_append_tokens'') (num 32),
              ne (item (item (ret s) ''memory_plan'') ''expert_slots'') (num 1848)])
           ''Changed timing instrumentation or capacity'' (
         Inr ()))) (\<lambda>unused.
       ret expected))))))))))) (\<lambda>expected.
     tuple_of [ret result, ret expected])))"

definition observe_coalesced :: "(pyval \<Rightarrow> expr) \<Rightarrow> pyval \<Rightarrow> pyval \<Rightarrow> pyval \<Rightarrow> pyval \<Rightarrow> pyval \<Rightarrow> pyval \<Rightarrow> expr" where
  "observe_coalesced read_json native_top_p raw identity' config work expected =
     bnd (validate_request read_json native_top_p raw identity' config work expected (PBool False)
         (PStr ''off'') (PBool False) (PInt (12 * 1024 ^ 3)) (PInt 33) (PBool False)) (\<lambda>tup1.
     unpack2 tup1 (\<lambda>result expected.
     bnd (loop (numbered (zip_of (item (ret raw) ''runs'') (ret result)) 0) (expected, result) (\<lambda>(expected, result) tup3.
       unpack2 tup3 (\<lambda>position tup4.
         unpack2 tup4 (\<lambda>row summary.
           bnd (each (tuple_of [str ''before'', str ''after'']) (\<lambda>k.
               item (index (item (item (ret row) ''phases'') ''decode'') (ret k)) ''metal'')) (\<lambda>tup2.
           unpack2 tup2 (\<lambda>a b.
           bnd (each_dict (item (ret b) ''kernel_dispatches'') (\<lambda>k. ret k) (\<lambda>k.
               sub (lookup_or (item (ret b) ''kernel_dispatches'') (ret k) (num 0))
                 (lookup_or (item (ret a) ''kernel_dispatches'') (ret k) (num 0)))) (\<lambda>counts.
           bnd (setdefault (ret expected) (add (str ''dispatches_'') (item (ret row) ''name''))
               (ret counts)) (\<lambda>expected.
           reject (ne (index (ret expected) (add (str ''dispatches_'') (item (ret row) ''name'')))
               (ret counts)) ''Arithmetic dispatch counts changed'' (
           bnd (put (ret summary) (str ''submissions_per_token'')
               (truediv (sub (item (ret b) ''submissions'') (item (ret a) ''submissions'')) (num 32))) (\<lambda>summary.
           reject (conjs [eq (item (ret config) ''decode_submission'') (str ''coalesced''),
                gt (item (ret summary) ''submissions_per_token'') (num 160)])
             ''Expected submission reduction did not execute'' (
           bnd (loop (tuple_of [item (ret row) ''before'', item (ret row) ''after'']) () (\<lambda>unused state.
             reject (disjs [ne (item (item (ret state) ''metal'') ''live_command_groups'') (num 0),
                  gt (item (item (ret state) ''metal'') ''peak_command_groups'') (num 2)])
               ''Unbounded or undrained GPU work'' (
             Inr ()))) (\<lambda>unused.
           bnd (put (ret result) (ret position) (ret summary)) (\<lambda>result.
           Inr (expected, result)))))))))))))) (\<lambda>(expected, result).
     tuple_of [ret result, ret expected])))"

definition decide_coalesced :: "(string \<Rightarrow> pyval \<Rightarrow> expr) \<Rightarrow> pyval \<Rightarrow> expr" where
  "decide_coalesced libm rows =
     bnd (call2 (decide_capacity libm) (ret rows) (num 2)) (\<lambda>result.
     bnd (each_dict (ret rows) (\<lambda>r.
         tuple_of [item (ret r) ''pair'', item (ret r) ''configuration'']) (\<lambda>r. ret r)) (\<lambda>by.
     bnd (each (range_to (num 2)) (\<lambda>i.
         each (range_to (num 2)) (\<lambda>p.
           truediv (sub (item (index (item (index (ret by) (tuple_of [ret p, str ''control'']))
                     ''requests'') (ret i)) ''decode_wall_ms'')
               (item (index (item (index (ret by) (tuple_of [ret p, str ''candidate'']))
                       ''requests'') (ret i)) ''decode_wall_ms'')) (num 32)))) (\<lambda>savings.
     bnd (conjs [every (ret rows) (\<lambda>r. same (get (ret r) ''clean_memory'') yes),
          item (ret result) ''advance_to_confirmation'',
          every (ret savings) (\<lambda>phase. every (ret phase) (\<lambda>v. gt (ret v) (num 0))),
          every (ret savings) (\<lambda>phase. ge (median (ret phase)) (num 20))]) (\<lambda>advance.
     merge (dict_from (ret result))
       (dict_of [(''status'', branch (ret advance) (str ''promising'')
                (str ''improvement_not_demonstrated'')),
            (''advance_to_confirmation'', ret advance),
            (''decode_savings_ms_per_token'', ret savings), (''minimum_median_saving_ms'', num 20),
            (''full_model_state_qualified'', no)])))))"

definition configs_expert :: "expr" where
  "configs_expert =
     each (tuple_of [tuple_of [str ''control'', str ''off''], tuple_of [str ''candidate'', str ''core-cache'']]) (\<lambda>tup1.
       unpack2 tup1 (\<lambda>name mode.
         merge (dict_from (call3 stage_configuration (num 1072) (str ''observe'') (ret name)))
           (dict_of [(''decode_submission'', str ''immediate''), (''residency'', ret mode)])))"

definition observe_expert :: "(pyval \<Rightarrow> expr) \<Rightarrow> pyval \<Rightarrow> pyval \<Rightarrow> pyval \<Rightarrow> pyval \<Rightarrow> pyval \<Rightarrow> pyval \<Rightarrow> expr" where
  "observe_expert read_json native_top_p raw identity' config work expected =
     bnd (validate_request read_json native_top_p raw identity' config work expected (PBool False)
         (PStr ''off'') (PBool False) (PInt (12 * 1024 ^ 3)) (PInt 33) (PBool False)) (\<lambda>tup1.
     unpack2 tup1 (\<lambda>results expected.
     bnd (loop (item (ret raw) ''runs'') expected (\<lambda>expected r.
       bnd (each (tuple_of [str ''before'', str ''after'']) (\<lambda>k.
           item (index (item (item (ret r) ''phases'') ''decode'') (ret k)) ''metal'')) (\<lambda>tup2.
       unpack2 tup2 (\<lambda>a b.
       bnd (each_dict (item (ret b) ''kernel_dispatches'') (\<lambda>k. ret k) (\<lambda>k.
           sub (lookup_or (item (ret b) ''kernel_dispatches'') (ret k) (num 0))
             (lookup_or (item (ret a) ''kernel_dispatches'') (ret k) (num 0)))) (\<lambda>counts.
       bnd (setdefault (ret expected) (add (str ''dispatches_'') (item (ret r) ''name''))
           (ret counts)) (\<lambda>expected.
       reject (ne (index (ret expected) (add (str ''dispatches_'') (item (ret r) ''name'')))
           (ret counts)) ''Arithmetic dispatch counts changed'' (
       bnd (item (ret r) ''after'') (\<lambda>s.
       bnd (item (item (ret s) ''metal'') ''residency'') (\<lambda>residency.
       reject (disjs [ne (item (ret residency) ''mode'') (item (ret config) ''residency''),
            ne (item (ret residency) ''pending_retirements'') (num 0)])
         ''Requested residency did not execute or was not drained'' (
       bnd (branch (eq (item (ret config) ''residency'') (str ''core-cache''))
           (reject (ne (get (item (ret residency) ''bytes_by_class'') ''expert'')
                 (item (item (ret s) ''memory_plan'') ''expert_bytes''))
               ''Expert cache is not fully enrolled'' (
             Inr ()))
           (reject (ne (item (ret residency) ''registered_bytes'') (num 0))
               ''Control has additional residency'' (
             Inr ()))) (\<lambda>unused.
       ret expected))))))))))) (\<lambda>expected.
     tuple_of [ret results, ret expected])))"

definition cases_confirm :: "expr" where
  "cases_confirm =
     each configs_expert (\<lambda>c.
       merge (dict_from (call1 correctness_case (str ''clock'')))
         (dict_of [(''kernel_policy'', str ''candidate''), (''q8_decode_rows'', num 2),
              (''route_selection'', str ''simd''), (''decode_scratch'', str ''reuse''),
              (''decode_submission'', str ''immediate''),
              (''residency'', item (ret c) ''residency'')]))"

definition validate_state_confirm :: "(pyval \<Rightarrow> expr) \<Rightarrow> pyval \<Rightarrow> pyval \<Rightarrow> expr" where
  "validate_state_confirm read_json reports build =
     check (eq (size_of (ret reports)) (num 2)) ''Missing state arm'' (
     bnd (loop (zip_of (ret reports) cases_confirm) () (\<lambda>unused tup1.
       unpack2 tup1 (\<lambda>raw case'.
         check (conjs [eq (get (ret raw) ''case'') (ret case'), same (get (ret raw) ''passed'') yes,
              same (get (ret raw) ''full_model'') yes, eq (get (ret raw) ''layers'') (num 48)])
           ''Wrong or incomplete full-model state case'' (
         bnd (get_or (ret raw) ''checks'' (list_of [])) (\<lambda>checks.
         check (conjs [eq (size_of (ret checks)) (size_of (union_of (ret CHECKS) (ret SCRATCH_CHECKS))),
              eq (set_of (each (ret checks) (\<lambda>c. item (ret c) ''name'')))
                  (union_of (ret CHECKS) (ret SCRATCH_CHECKS)),
              every (ret checks) (\<lambda>c. same (item (ret c) ''passed'') yes)])
           ''Missing state/cancellation/failure check'' (
         check (eq (size_of (item (ret raw) ''runs'')) (num 1)) ''Changed state repetition count'' (
         bnd (index (item (ret raw) ''runs'') (num 0)) (\<lambda>run.
         check (conjs [eq (size_of (item (ret run) ''stages'')) (num 3),
              every (item (ret run) ''stages'') (\<lambda>s.
                  conjs [eq (size_of (item (ret s) ''layers'')) (size_of (item (ret s) ''routes'')),
                     eq (size_of (item (ret s) ''routes'')) (num 48)])])
           ''Missing layer/state coverage'' (
         bnd (loop (tuple_of [str ''continued_statistics'', str ''after_fresh'']) () (\<lambda>unused key.
           bnd (index (ret run) (ret key)) (\<lambda>s.
           bnd (check_configuration read_json s case') (\<lambda>unused.
           bnd (check_state_workspace s case' key) (\<lambda>unused.
           check (conjs [eq (item (item (ret s) ''metal'') ''build_fingerprint'') (ret build),
                eq (item (item (ret s) ''memory_plan'') ''expert_slots'') (num 32),
                gt (item (item (ret s) ''expert_cache'') ''evictions'') (num 0),
                nay (item (ret s) ''diagnostic_stream_trunk''),
                eq (item (item (ret s) ''metal'') ''live_command_groups'') (num 0)])
             ''Missing forced eviction or native identity'' (
           Inr ())))))) (\<lambda>unused.
         Inr ())))))))))) (\<lambda>unused.
     check (eq (item (index (item (index (ret reports) (num 0)) ''runs'') (num 0)) ''stages'')
         (item (index (item (index (ret reports) (num 1)) ''runs'') (num 0)) ''stages''))
       ''Residency changed logits, routes or persistent state'' (
     dict_of [(''exact_logits_routes_state'', yes), (''all_48_layers'', yes),
        (''continued_equals_fresh'', yes), (''cancellation_failure_checked'', yes),
        (''forced_eviction'', yes), (''independent_model_reference'', no)])))"

definition confirmation_decision :: "(string \<Rightarrow> pyval \<Rightarrow> expr) \<Rightarrow> pyval \<Rightarrow> expr" where
  "confirmation_decision libm rows =
     bnd (call2 (decide_capacity libm) (ret rows) (num 5)) (\<lambda>decision.
     bnd (each_dict (ret rows) (\<lambda>r.
         tuple_of [item (ret r) ''pair'', item (ret r) ''configuration'']) (\<lambda>r. ret r)) (\<lambda>by.
     bnd (each (range_to (num 2)) (\<lambda>i.
         each (range_to (num 5)) (\<lambda>p.
           truediv (sub (item (index (item (index (ret by) (tuple_of [ret p, str ''control'']))
                     ''requests'') (ret i)) ''decode_wall_ms'')
               (item (index (item (index (ret by) (tuple_of [ret p, str ''candidate'']))
                       ''requests'') (ret i)) ''decode_wall_ms'')) (num 32)))) (\<lambda>savings.
     bnd (conjs [item (ret decision) ''candidate_for_later_qualification'',
          every (ret rows) (\<lambda>r. same (get (ret r) ''clean_memory'') yes)]) (\<lambda>gain.
     bnd (conjs [ret gain, every (ret savings) (\<lambda>s. ge (median (ret s)) (num 20))]) (\<lambda>passed.
     merge (dict_from (ret decision))
       (dict_of [(''status'', branch (ret passed) (str ''qualified_short_gain'')
                (branch (ret gain) (str ''gain_below_stage_target'')
                    (str ''improvement_not_demonstrated''))),
            (''request_gain_demonstrated'', ret gain), (''stage_target_met'', ret passed),
            (''candidate_for_later_qualification'', ret passed),
            (''short_gain_qualified'', ret passed), (''decode_savings_ms_per_token'', ret savings),
            (''prior_pairs_pooled'', no), (''early_success_stopping'', no),
            (''production_promoted'', no)]))))))"

definition decide_confirm_scratch :: "(string \<Rightarrow> pyval \<Rightarrow> expr) \<Rightarrow> pyval \<Rightarrow> pyval \<Rightarrow> expr" where
  "decide_confirm_scratch libm rows pairs =
     reject (ne (ret pairs) (num 5)) ''Scratch confirmation requires five pairs'' (
     bnd (decide_capacity libm rows pairs) (\<lambda>result.
     bnd (each_if (item (ret result) ''ratios'') (\<lambda>r.
         eq (item (ret r) ''metric'') (str ''decode_wall_ms'')) (\<lambda>r. ret r)) (\<lambda>decode.
     bnd (conjs [item (ret result) ''candidate_for_later_qualification'',
          every (ret decode) (\<lambda>r.
              conjs [lt (item (item (ret r) ''confidence_95'') ''high'') (num 1),
                 every (item (ret r) ''ratios'') (\<lambda>v. lt (ret v) (num 1))])]) (\<lambda>timing_pass.
     bnd (every (ret rows) (\<lambda>row.
         every (item (ret row) ''requests'') (\<lambda>r.
           same (get (ret r) ''decode_memory_disturbance'') no))) (\<lambda>clean.
     bnd (conjs [ret timing_pass, ret clean]) (\<lambda>qualified.
     bnd (merge (ret result)
         (dict_of [(''status'', branch (ret qualified) (str ''promising'')
                  (branch (ret timing_pass) (str ''memory_disturbed'')
                      (str ''improvement_not_demonstrated''))),
              (''clean_decode_memory'', ret clean),
              (''candidate_for_later_qualification'', ret qualified),
              (''target_ms_per_token'', num 200), (''normal_request_latency_qualified'', no),
              (''production_promoted'', no)])) (\<lambda>result.
     ret result)))))))"

definition decide_scratch :: "(string \<Rightarrow> pyval \<Rightarrow> expr) \<Rightarrow> pyval \<Rightarrow> expr" where
  "decide_scratch libm rows =
     bnd (call2 (decide_capacity libm) (ret rows) (num 2)) (\<lambda>result.
     bnd (each_dict (ret rows) (\<lambda>r.
         tuple_of [item (ret r) ''pair'', item (ret r) ''configuration'']) (\<lambda>r.
         item (ret r) ''requests'')) (\<lambda>indexed.
     bnd (each (range_to (num 2)) (\<lambda>i.
         each (range_to (num 2)) (\<lambda>p.
           truediv (sub (item (index (index (ret indexed) (tuple_of [ret p, str ''control'']))
                   (ret i)) ''decode_wall_ms'')
               (item (index (index (ret indexed) (tuple_of [ret p, str ''candidate''])) (ret i))
                   ''decode_wall_ms'')) (num 32)))) (\<lambda>savings.
     bnd (every (ret rows) (\<lambda>row.
         every (item (ret row) ''requests'') (\<lambda>r.
           same (get (ret r) ''decode_memory_disturbance'') no))) (\<lambda>clean.
     bnd (conjs [item (ret result) ''advance_to_confirmation'',
          every (ret savings) (\<lambda>phase. every (ret phase) (\<lambda>v. gt (ret v) (num 0)))]) (\<lambda>timing_pass.
     bnd (conjs [ret timing_pass, ret clean]) (\<lambda>promising.
     bnd (merge (ret result)
         (dict_of [(''status'', branch (ret promising) (str ''promising'')
                  (branch (ret timing_pass) (str ''memory_disturbed'')
                      (str ''improvement_not_demonstrated''))),
              (''clean_decode_memory'', ret clean), (''advance_to_confirmation'', ret promising),
              (''decode_savings_ms_per_token'', ret savings),
              (''median_initial_saving_ms'', median (index (ret savings) (num 0))),
              (''target_ms_per_token'', num 200)])) (\<lambda>result.
     ret result)))))))"

definition decide_cache_residency :: "(string \<Rightarrow> pyval \<Rightarrow> expr) \<Rightarrow> pyval \<Rightarrow> expr" where
  "decide_cache_residency libm rows =
     check (eq (each (ret rows) (\<lambda>r.
           tuple_of [item (ret r) ''pair'', item (ret r) ''configuration'']))
         (list_from (ret STAGE_ORDER))) ''Incomplete paired screen'' (
     bnd (decide_coalesced libm rows) (\<lambda>result.
     bnd (every (ret rows) (\<lambda>r. same (get (ret r) ''memory_screen_passed'') yes)) (\<lambda>memory_ok.
     bnd (conjs [item (ret result) ''advance_to_confirmation'', ret memory_ok]) (\<lambda>passed.
     bnd (conjs [every (item (ret result) ''conversation_ratios'') (\<lambda>r. lt (ret r) (num 1)),
          every (item (ret result) ''decode_savings_ms_per_token'') (\<lambda>phase.
              every (ret phase) (\<lambda>v. gt (ret v) (num 0)))]) (\<lambda>directional.
     merge (dict_from (ret result))
       (dict_of [(''status'', branch (nay (ret memory_ok)) (str ''memory_disturbed'')
                (branch (ret passed) (str ''promising'')
                    (branch (ret directional) (str ''directional_gain_below_gate'')
                        (str ''no_clear_screen_gain'')))),
            (''advance_to_confirmation'', ret passed), (''stage_target_met'', ret passed),
            (''request_gain_qualified'', no), (''memory_screen_passed'', ret memory_ok)]))))))"

definition analyze_submission :: "(string \<Rightarrow> pyval \<Rightarrow> expr) \<Rightarrow> pyval \<Rightarrow> expr" where
  "analyze_submission libm raw =
     reject (disjs [differs (get (ret raw) ''complete'') yes, differs (get (ret raw) ''validation'') no,
          ne (size_of (get_or (ret raw) ''pairs'' (list_of []))) (num 15)])
       ''Incomplete isolated timing coverage'' (
     bnd (list_of []) (\<lambda>results.
     bnd yes (\<lambda>clean.
     bnd (loop (tuple_of [num 1, num 2, num 4]) (clean, results) (\<lambda>(clean, results) size'.
       bnd (each_if (item (ret raw) ''pairs'') (\<lambda>r.
           eq (item (ret r) ''experts_per_group'') (ret size')) (\<lambda>r. ret r)) (\<lambda>rows.
       reject (ne (each (ret rows) (\<lambda>r. item (ret r) ''pair'')) (list_from (range_to (num 5))))
         ''Missing repeat pairs'' (
       bnd (list_of []) (\<lambda>ratios.
       bnd (list_of []) (\<lambda>savings.
       bnd (loop (numbered (ret rows) 0) (clean, ratios, savings) (\<lambda>(clean, ratios, savings) tup1.
         unpack2 tup1 (\<lambda>p r.
           reject (ne (each (item (ret r) ''arms'') (\<lambda>a. item (ret a) ''retained_references''))
               (list_of [eq (modulo (ret p) (num 2)) (num 0), ne (modulo (ret p) (num 2)) (num 0)]))
             ''Changed alternating order'' (
           bnd (dict_of []) (\<lambda>means.
           bnd (loop (item (ret r) ''arms'') (clean, means) (\<lambda>(clean, means) a.
             reject (disjs [ne (size_of (item (ret a) ''samples'')) (num 64),
                  some (item (ret a) ''samples'') (\<lambda>s.
                      disjs [nay (type_in (item (ret s) ''wall_ns'') [TInt]),
                         le (item (ret s) ''wall_ns'') (num 0)])])
               ''Missing or invalid group timings'' (
             bnd (item (ret a) ''memory_before'') (\<lambda>before.
             bnd (item (ret a) ''memory_after'') (\<lambda>after.
             bnd (bit_and (ret clean)
                 (conjs [conjs [eq (get (ret before) ''compressed_bytes'')
                               (get (ret after) ''compressed_bytes''),
                           eq (get (ret after) ''compressed_bytes'') (num 0)],
                      type_in (get (ret before) ''decompressions'') [TInt],
                      eq (item (ret before) ''decompressions'')
                          (get (ret after) ''decompressions'')])) (\<lambda>clean.
             bnd (put (ret means) (item (ret a) ''retained_references'')
                 (mean (each (item (ret a) ''samples'') (\<lambda>s. item (ret s) ''wall_ns'')))) (\<lambda>means.
             Inr (clean, means)))))))) (\<lambda>(clean, means).
           bnd (append (ret ratios) (truediv (index (ret means) no) (index (ret means) yes))) (\<lambda>ratios.
           bnd (append (ret savings)
               (truediv (sub (index (ret means) yes) (index (ret means) no)) (flt 1000000))) (\<lambda>savings.
           Inr (clean, ratios, savings))))))))) (\<lambda>(clean, ratios, savings).
       bnd (paired_log_interval libm ratios) (\<lambda>interval.
       bnd (append (ret results)
           (dict_of [(''experts_per_group'', ret size'), (''ratios'', ret ratios),
                (''confidence_95'', ret interval), (''savings_ms_per_group'', ret savings)])) (\<lambda>results.
       Inr (clean, results)))))))))) (\<lambda>(clean, results).
     bnd (index (ret results) (num 0)) (\<lambda>primary.
     bnd (mul (median (item (ret primary) ''savings_ms_per_group'')) (truediv (num 7174) (num 32))) (\<lambda>estimated.
     bnd (conjs [ret clean, ge (ret estimated) (num 20),
          lt (item (item (ret primary) ''confidence_95'') ''high'') (num 1),
          every (item (ret primary) ''savings_ms_per_group'') (\<lambda>v. gt (ret v) (num 0))]) (\<lambda>advance.
     dict_of [(''status'', branch (ret advance) (str ''worth_request_screen'')
            (branch (nay (ret clean)) (str ''memory_disturbed'') (str ''insufficient_benefit''))),
        (''results'', ret results), (''clean_memory'', ret clean),
        (''optimistic_ms_per_token'', ret estimated), (''advance_to_request_screen'', ret advance),
        (''normal_request_latency_qualified'', no), (''production_promoted'', no)])))))))"

definition decide_triage :: "pyval \<Rightarrow> expr" where
  "decide_triage rows =
     reject (disjs [ne (size_of (ret rows)) (num 2),
          ne (each (ret rows) (\<lambda>r.
                tuple_of [get (ret r) ''pair'', get (ret r) ''configuration'', get (ret r) ''name'']))
              (list_of [tuple_of [num 0, str ''cpu-selection'', str ''append_128''],
                   tuple_of [num 0, str ''gpu-selection'', str ''append_128'']])])
       ''Requires exactly one CPU/GPU append pair'' (
     bnd (each (ret rows) (\<lambda>r. get (ret r) ''output_token_ids'')) (\<lambda>outputs.
     reject (disjs [nay (isinstance (index (ret outputs) (num 0)) [TList]),
          ne (size_of (index (ret outputs) (num 0))) (num 8),
          ne (index (ret outputs) (num 0)) (index (ret outputs) (num 1)),
          some (index (ret outputs) (num 0)) (\<lambda>t.
              disjs [nay (type_in (ret t) [TInt]), lt (ret t) (num 0)])])
       ''Short screen requires eight identical output tokens'' (
     bnd (dict_of []) (\<lambda>ratios.
     bnd (loop (tuple_of [str ''request_ms'', str ''ttft_ms'', str ''decode_ms_per_token'']) ratios (\<lambda>ratios key.
       bnd (each (ret rows) (\<lambda>r. lookup (ret r) (ret key))) (\<lambda>values.
       reject (some (ret values) (\<lambda>v.
           disjs [isinstance (ret v) [TBool], nay (isinstance (ret v) [TInt, TFloat]),
              nay (isfinite (ret v)), le (ret v) (num 0)])) ''Missing or invalid request timings'' (
       bnd (put (ret ratios) (ret key)
           (truediv (index (ret values) (num 1)) (index (ret values) (num 0)))) (\<lambda>ratios.
       ret ratios))))) (\<lambda>ratios.
     bnd (conjs [le (item (ret ratios) ''request_ms'') (flt (99 / 100)),
          every (values_of (ret ratios)) (\<lambda>v. le (ret v) (flt (103 / 100)))]) (\<lambda>promising.
     dict_of [(''status'', branch (ret promising) (str ''promising'')
            (str ''improvement_not_demonstrated'')),
        (''advance_to_full_validation'', ret promising), (''ratios'', ret ratios),
        (''confidence_95'', none), (''normal_request_latency_qualified'', no),
        (''production_promoted'', no)]))))))"

definition decide_selector :: "pyval \<Rightarrow> expr" where
  "decide_selector result =
     bnd (item (ret result) ''latency_ratio'') (\<lambda>bounds.
     reject (disjs [differs (get (ret result) ''exact'') yes, ne (get (ret result) ''pairs'') (num 5),
          ne (get (ret result) ''application_read_bytes'') (num 0),
          ne (get (ret result) ''prompt_tokens'') (num 4096),
          ne (get (ret result) ''comparison_axis'') (str ''sparse_selection''),
          ne (get (ret bounds) ''pairs'') (num 5)])
       ''Requires five exact, zero-read 4K selector pairs'' (
     bnd (each (tuple_of [str ''low'', str ''median'', str ''high'']) (\<lambda>k.
         index (ret bounds) (ret k))) (\<lambda>values.
     reject (some (ret values) (\<lambda>v.
         disjs [isinstance (ret v) [TBool], nay (isinstance (ret v) [TInt, TFloat]),
            nay (isfinite (ret v)), le (ret v) (num 0)])) ''Invalid cached latency bounds'' (
     reject (ne (ret values) (sorted_of (ret values))) ''Unordered cached latency bounds'' (
     bnd (conjs [le (item (ret bounds) ''median'') (flt (99 / 100)),
          lt (item (ret bounds) ''high'') (num 1)]) (\<lambda>promising.
     bnd (branch (ret promising) (str ''promising'')
         (branch (conjs [lt (item (ret bounds) ''low'') (num 1), lt (num 1) (item (ret bounds) ''high'')])
             (str ''inconclusive'') (str ''not_promising''))) (\<lambda>status.
     dict_of [(''status'', ret status), (''advance_to_normal_screen'', ret promising),
        (''normal_request_latency_qualified'', no), (''full_validation'', no),
        (''production_promoted'', no)])))))))"

definition q3_decision :: "(string \<Rightarrow> pyval \<Rightarrow> expr) \<Rightarrow> pyval \<Rightarrow> expr" where
  "q3_decision libm report =
     reject (disjs [nay (get (ret report) ''complete''), differs (get (ret report) ''validation'') no,
          ne (size_of (get_or (ret report) ''cases'' (list_of []))) (num 32)])
       ''Incomplete Q3 timing coverage'' (
     bnd (dict_of []) (\<lambda>groups.
     bnd yes (\<lambda>clean.
     bnd (loop (item (ret report) ''cases'') (groups, clean) (\<lambda>(groups, clean) c.
       bnd (tuple_of [item (ret c) ''layer'', item (ret c) ''expert'']) (\<lambda>key.
       bnd (setdefault (ret groups) (ret key) (Inr (PSet []))) (\<lambda>groups.
       reject (isin (item (ret c) ''rows'') (index (ret groups) (ret key))) ''Duplicate Q3 case'' (
       bnd (put (ret groups) (ret key)
           (set_add (index (ret groups) (ret key)) (item (ret c) ''rows''))) (\<lambda>groups.
       reject (disjs [nay (get (ret c) ''exact_expanded_reference''),
            ne (each (item (ret c) ''pairs'') (\<lambda>p. item (ret p) ''pair''))
                (list_from (range_to (num 5)))]) ''Missing Q3 arithmetic or paired coverage'' (
       reject (disjs [some (tuple_of [str ''q3_aligned_bytes'', str ''q4_aligned_bytes'']) (\<lambda>k.
                disjs [nay (type_in (index (ret c) (ret k)) [TInt]), le (index (ret c) (ret k)) (num 0)]),
            gt (truediv (item (ret c) ''q3_aligned_bytes'') (item (ret c) ''q4_aligned_bytes''))
                (flt (43 / 50))]) ''Insufficient padded-byte saving'' (
       bnd (loop (item (ret c) ''pairs'') clean (\<lambda>clean pair.
         bnd (loop (tuple_of [str ''q3'', str ''q4'']) clean (\<lambda>clean arm.
           bnd (item (index (ret pair) (ret arm)) ''ns_per_chain'') (\<lambda>value.
           reject (disjs [nay (type_in (ret value) [TFloat, TInt]), nay (isfinite (ret value)),
                le (ret value) (num 0)]) ''Invalid Q3 timing'' (
           bnd (each (tuple_of [str ''before'', str ''after'']) (\<lambda>k.
               lookup_or (index (ret pair) (ret arm)) (add (str ''memory_'') (ret k)) (dict_of []))) (\<lambda>tup1.
           unpack2 tup1 (\<lambda>a b.
           bnd (bit_and (ret clean)
               (conjs [conjs [eq (get (ret a) ''compressed_bytes'') (get (ret b) ''compressed_bytes''),
                         eq (get (ret b) ''compressed_bytes'') (num 0)],
                    type_in (get (ret a) ''decompressions'') [TInt],
                    eq (item (ret a) ''decompressions'') (get (ret b) ''decompressions'')])) (\<lambda>clean.
           ret clean))))))) (\<lambda>clean.
         ret clean))) (\<lambda>clean.
       Inr (groups, clean)))))))))) (\<lambda>(groups, clean).
     reject (disjs [ne (size_of (ret groups)) (num 8),
          some (values_of (ret groups)) (\<lambda>v. ne (ret v) (set_disp [num 1, num 2, num 4, num 8])),
          ne (set_of (each (ret groups) (\<lambda>tup2. unpack2 tup2 (\<lambda>l e. ret l))))
              (set_disp [num 0, num 16, num 32, num 47]),
          some (tuple_of [num 0, num 16, num 32, num 47]) (\<lambda>layer.
              ne (sum_of (each (ret groups) (\<lambda>tup3. unpack2 tup3 (\<lambda>l e. eq (ret l) (ret layer)))))
                (num 2))]) ''Q3 expert/row coverage differs'' (
     bnd (list_of []) (\<lambda>ratios.
     bnd (loop (range_to (num 5)) ratios (\<lambda>ratios p.
       bnd (each_if (item (ret report) ''cases'') (\<lambda>c. eq (item (ret c) ''rows'') (num 1)) (\<lambda>c.
           index (item (ret c) ''pairs'') (ret p))) (\<lambda>values.
       bnd (loop (ret values) () (\<lambda>unused v.
         reject (some (tuple_of [str ''q3'', str ''q4'']) (\<lambda>k.
             disjs [nay (type_in (item (index (ret v) (ret k)) ''ns_per_chain'') [TFloat, TInt]),
                nay (isfinite (item (index (ret v) (ret k)) ''ns_per_chain'')),
                le (item (index (ret v) (ret k)) ''ns_per_chain'') (num 0)])) ''Invalid Q3 timing'' (
         Inr ()))) (\<lambda>unused.
       bnd (append (ret ratios)
           (truediv (sum_of (each (ret values) (\<lambda>v. item (item (ret v) ''q3'') ''ns_per_chain'')))
               (sum_of (each (ret values) (\<lambda>v. item (item (ret v) ''q4'') ''ns_per_chain''))))) (\<lambda>ratios.
       ret ratios))))) (\<lambda>ratios.
     bnd (each (ret ratios) (\<lambda>r. call1 (libm ''log'') (ret r))) (\<lambda>logs.
     bnd (mean (ret logs)) (\<lambda>mean'.
     bnd (truediv (mul (flt (555289021 / 200000000)) (call1 (libm ''stdev'') (ret logs)))
         (call1 (libm ''sqrt'') (num 5))) (\<lambda>margin.
     bnd (call1 (libm ''exp'') (sub (ret mean') (ret margin))) (\<lambda>lower.
     bnd (call1 (libm ''exp'') (add (ret mean') (ret margin))) (\<lambda>upper.
     dict_of [(''status'', branch (nay (ret clean)) (str ''memory_disturbed'')
            (branch (le (ret upper) (flt (103 / 100))) (str ''worth_quality_investigation'')
                (branch (gt (ret lower) (flt (103 / 100))) (str ''operator_regression'')
                    (str ''operator_latency_inconclusive'')))),
        (''one_token_geomean_ratio'', call1 (libm ''exp'') (ret mean')),
        (''one_token_lower_95'', ret lower), (''one_token_upper_95'', ret upper),
        (''ratios'', ret ratios), (''clean_memory'', ret clean),
        (''advance_to_quality_stage'', conjs [ret clean, le (ret upper) (flt (103 / 100))]),
        (''quality_qualified'', no), (''normal_request_latency_qualified'', no)]))))))))))))"

end
