(* ===== verification/IngestMemory.thy ===== *)
theory IngestMemory
  imports RequestProfile ExactBench
begin

text \<open>
  Memory boundaries of ingestion and summaries of decode profiles.
\<close>

definition LIFECYCLE :: pyval where
  "LIFECYCLE =
     PTuple [PStr ''before_model_load'', PStr ''model_ready'', PStr ''request_end'',
        PStr ''request_end'', PStr ''users_drained'', PStr ''session_destroyed'',
        PStr ''session_users_drained'', PStr ''model_destroyed'']"

definition expected_boundaries_add :: "pyval \<Rightarrow> pyval \<Rightarrow> pyval \<Rightarrow> pyval \<Rightarrow> pyval \<Rightarrow> pyval \<Rightarrow> expr" where
  "expected_boundaries_add offset result event layer tokens at' =
     bnd (append (ret result)
         (tuple_of [no,
              dict_of [(''event'', ret event),
                   (''phase'', branch (nay (ret offset)) (str ''prefill'') (str ''append'')),
                   (''layer'', ret layer), (''tokens'', ret tokens), (''offset'', ret at')]])) (\<lambda>result.
     tuple_of [none, ret result])"

definition expected_boundaries :: "pyval \<Rightarrow> pyval \<Rightarrow> expr" where
  "expected_boundaries requests delayed =
     bnd (each (slice (ret LIFECYCLE) none (num 2)) (\<lambda>e.
         tuple_of [yes, dict_of [(''event'', ret e)]])) (\<lambda>result.
     bnd (loop (ret requests) result (\<lambda>result request.
       bnd (item (ret request) ''reused_tokens'') (\<lambda>offset.
       bnd (sub (item (ret request) ''prompt_tokens'') (ret offset)) (\<lambda>length'.
       reject (disjs [nay (type_in (ret offset) [TInt]), lt (ret offset) (num 0),
            nay (conjs [lt (num 1) (ret length'), le (ret length') (num 512)])])
         ''Diagnostic requires one bounded multi-token ingestion per request'' (
       bnd (call4 (expected_boundaries_add offset result) (str ''forward_begin'') (num (- 1))
           (ret length') (ret offset)) (\<lambda>tup1.
       unpack2 tup1 (\<lambda>unused result.
       bnd (loop (range_to (num 48)) result (\<lambda>result layer.
         bnd (call4 (expected_boundaries_add offset result) (str ''layer_begin'') (ret layer)
             (ret length') (ret offset)) (\<lambda>tup2.
         unpack2 tup2 (\<lambda>unused result.
         bnd (branch (gt (ret length') (num 128))
             (bnd (loop (range_step (num 0) (ret length') (num 128)) result (\<lambda>result at'.
                 bnd (call4 (expected_boundaries_add offset result) (str ''microchunk_end'')
                     (ret layer) (min_args [num 128, sub (ret length') (ret at')])
                     (add (ret offset) (ret at'))) (\<lambda>tup3.
                 unpack2 tup3 (\<lambda>unused result.
                 ret result)))) (\<lambda>result.
               ret result)) (ret result)) (\<lambda>result.
         bnd (call4 (expected_boundaries_add offset result) (str ''attention_encoded'') (ret layer)
             (ret length') (ret offset)) (\<lambda>tup4.
         unpack2 tup4 (\<lambda>unused result.
         bnd (call4 (expected_boundaries_add offset result) (str ''layer_encoded'') (ret layer)
             (ret length') (ret offset)) (\<lambda>tup5.
         unpack2 tup5 (\<lambda>unused result.
         ret result))))))))) (\<lambda>result.
       bnd (call4 (expected_boundaries_add offset result) (str ''forward_end'') (num (- 1))
           (ret length') (ret offset)) (\<lambda>tup6.
       unpack2 tup6 (\<lambda>unused result.
       bnd (append (ret result) (tuple_of [yes, dict_of [(''event'', str ''request_end'')]])) (\<lambda>result.
       ret result))))))))))) (\<lambda>result.
     bnd (list_extend (ret result)
         (each (slice (ret LIFECYCLE) (num 4) none) (\<lambda>e.
             tuple_of [yes, dict_of [(''event'', ret e)]]))) (\<lambda>result.
     bnd (branch (ret delayed)
         (bnd (list_extend (ret result)
               (each (tuple_of [num 250, num 1000]) (\<lambda>ms.
                   tuple_of [yes,
                      dict_of [(''event'', format_of [str ''after_destroy_'', ret ms, str ''ms''])]]))) (\<lambda>result.
           ret result)) (ret result)) (\<lambda>result.
     ret result))))"

definition analyze_trace_ingest_first_compressed :: "pyval \<Rightarrow> pyval \<Rightarrow> expr" where
  "analyze_trace_ingest_first_compressed rows phase =
     bnd (each_if (numbered (ret rows) 0) (\<lambda>tup6.
         unpack2 tup6 (\<lambda>i r. eq (get (item (ret r) ''where'') ''phase'') (ret phase))) (\<lambda>tup7.
         unpack2 tup7 (\<lambda>i r. tuple_of [ret i, ret r]))) (\<lambda>eligible.
     loop_exit (ret eligible) () (\<lambda>unused tup8.
     unpack2 tup8 (\<lambda>i row.
       bnd (get (item (ret row) ''process'') ''compressed_bytes'') (\<lambda>value.
       branch (conjs [type_in (ret value) [TInt], gt (ret value) (num 0)])
         (leave (dict_of [(''sequence'', item (ret row) ''sequence''), (''where'', item (ret row) ''where''),
                (''compressed_bytes'', ret value),
                (''previous_boundary'', branch (ret i)
                    (item (index (ret rows) (sub (ret i) (num 1))) ''where'') none)])) (
       stay ())))) (\<lambda>r. ret r) (\<lambda>unused.
     none))"

definition analyze_trace_ingest :: "pyval \<Rightarrow> pyval \<Rightarrow> pyval \<Rightarrow> pyval \<Rightarrow> expr" where
  "analyze_trace_ingest rows coverage' requests delayed =
     bnd (expected_boundaries requests delayed) (\<lambda>expected.
     bnd (sum_of (each (ret expected) (\<lambda>tup1. unpack2 tup1 (\<lambda>life unused. nay (ret life))))) (\<lambda>detail.
     reject (disjs [ne (get (ret coverage') ''kind'') (str ''memory_trace_coverage_v1''),
          ne (get (ret coverage') ''limit'') (num 512),
          ne (get (ret coverage') ''observed'') (ret detail),
          ne (get (ret coverage') ''captured'') (ret detail),
          ne (get (ret coverage') ''omitted'') (num 0),
          ne (get (ret coverage') ''lifecycle_records'') (branch (ret delayed) (num 10) (num 8)),
          ne (get (ret coverage') ''records'') (size_of (ret rows)),
          ne (size_of (ret rows)) (size_of (ret expected))])
       ''Incomplete memory trace coverage or cleanup'' (
     bnd (num (- 1)) (\<lambda>previous.
     bnd (list_of []) (\<lambda>points.
     bnd (loop (numbered (zip_of (ret rows) (ret expected)) 1) (previous, points) (\<lambda>(previous, points) tup3.
       unpack2 tup3 (\<lambda>sequence tup4.
         unpack2 tup4 (\<lambda>row tup5.
           unpack2 tup5 (\<lambda>life where.
             reject (disjs [ne (get (ret row) ''kind'') (str ''memory_boundary_v1''),
                  ne (get (ret row) ''sequence'') (ret sequence),
                  ne (get (ret row) ''where'') (ret where),
                  differs (get (ret row) ''lifecycle'') (ret life),
                  nay (type_in (get (ret row) ''monotonic_ns'') [TInt]),
                  le (item (ret row) ''monotonic_ns'') (ret previous),
                  nay (type_in (get (ret row) ''sample_ns'') [TInt]),
                  lt (item (ret row) ''sample_ns'') (num 0)])
               ''Memory event identity/order changed'' (
             bnd (item (ret row) ''monotonic_ns'') (\<lambda>previous.
             bnd (get (ret row) ''metal'') (\<lambda>metal.
             bnd none (\<lambda>held.
             bnd (branch (isin (item (ret where) ''event'')
                   (tuple_of [str ''before_model_load'', str ''model_destroyed'',
                        str ''after_destroy_250ms'', str ''after_destroy_1000ms'']))
                 (reject (differs (ret metal) none)
                     ''No Metal owner exists at this lifecycle boundary'' (
                   ret held))
                 (reject (nay (isinstance (ret metal) [TDict])) ''Missing live Metal observation'' (
                   bnd (get_or (ret metal) ''buffer_costs'' (dict_of [])) (\<lambda>costs.
                   bnd (get_or (ret costs) ''classes'' (dict_of [])) (\<lambda>classes'.
                   reject (disjs [ne (get (ret costs) ''kind'') (str ''buffer_costs_v1''),
                        ne (set_of (ret classes')) (ret CLASSES)])
                     ''Missing per-class ownership counters'' (
                   bnd (dict_of []) (\<lambda>held.
                   bnd (loop (items_of (ret classes')) held (\<lambda>held tup2.
                     unpack2 tup2 (\<lambda>name c.
                       reject (disjs [ne (set_of (ret c)) (ret FIELDS),
                            some (values_of (ret c)) (\<lambda>v.
                                disjs [nay (type_in (ret v) [TInt]), lt (ret v) (num 0)])])
                         ''Invalid ownership counter'' (
                       bnd (sub (item (ret c) ''allocated_bytes'')
                           (item (ret c) ''owner_released_bytes'')) (\<lambda>n.
                       reject (lt (ret n) (num 0)) ''Ownership counter reset'' (
                       bnd (put (ret held) (ret name) (ret n)) (\<lambda>held.
                       ret held))))))) (\<lambda>held.
                   bnd (loop (tuple_of [str ''live_buffer_bytes'', str ''peak_buffer_bytes'',
                          str ''device_allocated_bytes'', str ''encoded_buffer_references'',
                          str ''live_command_groups'']) () (\<lambda>unused key.
                     reject (disjs [nay (type_in (lookup (ret metal) (ret key)) [TInt]),
                          lt (index (ret metal) (ret key)) (num 0)])
                       ''Missing allocation/ownership gauge'' (
                     Inr ()))) (\<lambda>unused.
                   reject (gt (item (ret metal) ''live_command_groups'') (num 2))
                     ''Unbounded command groups'' (
                   reject (conjs [isin (item (ret where) ''event'')
                            (tuple_of [str ''users_drained'', str ''session_users_drained'']),
                        disjs [item (ret metal) ''live_command_groups'',
                             item (ret metal) ''encoded_buffer_references'']])
                     ''Outstanding users at drain boundary'' (
                   ret held))))))))))) (\<lambda>held.
             bnd (get_or (ret row) ''process'' (dict_of [])) (\<lambda>process.
             bnd (append (ret points)
                 (dict_of [(''sequence'', ret sequence), (''where'', ret where),
                      (''monotonic_ns'', item (ret row) ''monotonic_ns''),
                      (''process'', ret process), (''engine_owner_held_bytes'', ret held),
                      (''metal_live_bytes'', branch (ret metal)
                          (get (ret metal) ''live_buffer_bytes'') none),
                      (''metal_peak_bytes'', branch (ret metal)
                          (get (ret metal) ''peak_buffer_bytes'') none),
                      (''device_allocated_bytes'', branch (ret metal)
                          (get (ret metal) ''device_allocated_bytes'') none)])) (\<lambda>points.
             Inr (previous, points))))))))))))) (\<lambda>(previous, points).
     bnd (tuple_of [str ''physical_footprint_bytes'', str ''physical_footprint_peak_bytes'',
          str ''compressed_bytes'', str ''decompressions'']) (\<lambda>process_fields.
     bnd (branch (ret delayed)
         (bnd (item (index (ret rows) (num (- 3))) ''monotonic_ns'') (\<lambda>destroyed.
           reject (some (numbered (tuple_of [num 250, num 1000]) 0) (\<lambda>tup9.
               unpack2 tup9 (\<lambda>i delay.
                 lt (sub (item (index (ret rows) (add (num (- 2)) (ret i))) ''monotonic_ns'')
                     (ret destroyed)) (mul (ret delay) (num 1000000)))))
             ''Delayed cleanup observations were captured too early'' (
           Inr ()))) (Inr ())) (\<lambda>unused.
     bnd (every (ret rows) (\<lambda>r.
         every (ret process_fields) (\<lambda>k.
           conjs [type_in (lookup (item (ret r) ''process'') (ret k)) [TInt],
              ge (index (item (ret r) ''process'') (ret k)) (num 0)]))) (\<lambda>complete.
     bnd (each_dict (tuple_of [str ''physical_footprint_bytes'', str ''physical_footprint_peak_bytes'',
            str ''compressed_bytes'']) (\<lambda>k. ret k) (\<lambda>k.
         branch (every (ret rows) (\<lambda>r. type_in (lookup (item (ret r) ''process'') (ret k)) [TInt]))
           (max_of (each (ret rows) (\<lambda>r. index (item (ret r) ''process'') (ret k)))) none)) (\<lambda>peaks.
     dict_of [(''points'', ret points), (''memory_values_complete'', ret complete),
        (''peaks'', ret peaks),
        (''first_observed_compression'', each_dict (tuple_of [str ''prefill'', str ''append'']) (\<lambda>p.
            ret p) (\<lambda>p. analyze_trace_ingest_first_compressed rows p)),
        (''lifecycle'', each_if (ret points) (\<lambda>p. notin (str ''phase'') (item (ret p) ''where'')) (\<lambda>p.
            ret p)),
        (''normal_request_latency_qualified'', no), (''production_promoted'', no),
        (''limitations'', list_of [str
                 (''Layer/microchunk events observe encoding boundaries; no GPU wait is added. Compression may occur between observations.''),
             str
                 (''Process peaks cover the process lifetime; no per-buffer compressed-page attribution.''),
             str
                 (''Engine owner-held bytes and device allocations are not physical residency. System VM categories overlap.''),
             str
                 (''Memory observation includes JSON writes and per-token diagnostics; timings cannot qualify speed.''),
             str
                 (''Post-destruction process footprint still includes this executable, reports and system/driver runtime state.'')])]))))))))))"

definition validate_ingest :: "(pyval \<Rightarrow> expr) \<Rightarrow> pyval \<Rightarrow> pyval \<Rightarrow> pyval \<Rightarrow> pyval \<Rightarrow> pyval \<Rightarrow> pyval \<Rightarrow> pyval \<Rightarrow> expr" where
  "validate_ingest read_json native_top_p raw events evidence' config workload expected =
     reject (disjs [notin (get (ret raw) ''kind'')
              (tuple_of [str ''ingestion_memory_diagnostic_v1'', str ''ingestion_memory_diagnostic_v2'']),
          ne (get (ret raw) ''status'') (str ''captured'')]) ''Missing diagnostic result'' (
     bnd (validate_request read_json native_top_p raw evidence' config workload expected
         (PBool True) (PStr ''off'') (PBool False) (PInt (12 * 1024 ^ 3)) (PInt 33) (PBool False)) (\<lambda>tup1.
     unpack2 tup1 (\<lambda>summaries expected.
     bnd (list_of []) (\<lambda>decode.
     bnd (loop (item (ret raw) ''runs'') (decode, expected) (\<lambda>(decode, expected) row.
       bnd (analyze_steps row) (\<lambda>steps.
       reject (disjs [ne (item (ret steps) ''captured_steps'') (num 32), item (ret steps) ''omitted_steps''])
         ''Missing decode samples'' (
       bnd (append (ret decode) (merge (dict_of [(''name'', item (ret row) ''name'')]) (ret steps))) (\<lambda>decode.
       bnd (each (tuple_of [str ''before'', str ''after'']) (\<lambda>k.
           item (index (item (item (ret row) ''phases'') ''decode'') (ret k)) ''metal'')) (\<lambda>tup2.
       unpack2 tup2 (\<lambda>a b.
       bnd (each_dict (item (ret b) ''kernel_dispatches'') (\<lambda>k. ret k) (\<lambda>k.
           sub (lookup_or (item (ret b) ''kernel_dispatches'') (ret k) (num 0))
             (lookup_or (item (ret a) ''kernel_dispatches'') (ret k) (num 0)))) (\<lambda>counts.
       bnd (setdefault (ret expected) (add (str ''dispatches_'') (item (ret row) ''name''))
           (ret counts)) (\<lambda>expected.
       reject (ne (index (ret expected) (add (str ''dispatches_'') (item (ret row) ''name'')))
           (ret counts)) ''Arithmetic dispatch counts changed'' (
       Inr (decode, expected))))))))))) (\<lambda>(decode, expected).
     tuple_of [dict_of [(''trace'', call4 analyze_trace_ingest (ret events)
                 (item (ret raw) ''trace_coverage'') (item (ret raw) ''runs'')
                 (endswith (item (ret raw) ''kind'') (str ''_v2''))),
             (''decode'', ret decode), (''requests'', ret summaries)],
        ret expected])))))"

definition split :: "pyval \<Rightarrow> pyval \<Rightarrow> pyval \<Rightarrow> expr" where
  "split begin end groups =
     reject (nay (conjs [le (num 0) (ret begin), lt (ret begin) (ret end)]))
       ''Invalid forward interval'' (
     bnd (list_of []) (\<lambda>values.
     bnd (loop (ret groups) values (\<lambda>values g.
       bnd (list_of [item (ret g) ''submitted_ns'', item (ret g) ''commit_returned_ns'',
            mul (item (ret g) ''driver_start_seconds'') (flt 1000000000),
            mul (item (ret g) ''driver_end_seconds'') (flt 1000000000),
            mul (item (ret g) ''gpu_start_seconds'') (flt 1000000000),
            mul (item (ret g) ''gpu_end_seconds'') (flt 1000000000), item (ret g) ''completed_ns'']) (\<lambda>v.
       reject (some (ret v) (\<lambda>x.
           disjs [nay (type_in (ret x) [TInt, TFloat]), nay (isfinite (ret x)), le (ret x) (num 0)]))
         ''Missing driver clock'' (
       bnd (ret v) (\<lambda>tup1.
       unpack7 tup1 (\<lambda>s c ds de gs ge' done.
       reject (disjs [nay (conjs [le (ret s) (ret ds), le (ret ds) (ret de), le (ret de) (ret done)]),
            nay (conjs [le (ret s) (ret gs), le (ret gs) (ret ge'), le (ret ge') (ret done)]),
            lt (ret c) (ret s)]) ''Reversed driver clock'' (
       bnd (append (ret values) (ret v)) (\<lambda>values.
       ret values)))))))) (\<lambda>values.
     bnd (sorted_of (set_of (list_extend (list_of [ret begin, ret end])
             (list_from (flatten (each (ret values) (\<lambda>v.
                     each (ret v) (\<lambda>x. min_args [ret end, max_args [ret begin, ret x]])))))))) (\<lambda>cuts.
     bnd (dict_fromkeys (tuple_of [str ''before_driver'', str ''in_driver'', str ''after_driver'',
            str ''commit_api_overlap'']) (flt 0)) (\<lambda>totals.
     bnd (loop (zip_of (ret cuts) (slice (ret cuts) (num 1) none)) totals (\<lambda>totals tup3.
       unpack2 tup3 (\<lambda>a b.
         bnd (truediv (add (ret a) (ret b)) (num 2)) (\<lambda>mid.
         branch (some (ret values) (\<lambda>v.
             conjs [le (index (ret v) (num 4)) (ret mid), lt (ret mid) (index (ret v) (num 5))]))
           (ret totals) (
         bnd (each_if (ret values) (\<lambda>v.
             conjs [le (index (ret v) (num 0)) (ret mid), lt (ret mid) (index (ret v) (num 4))]) (\<lambda>v.
             ret v)) (\<lambda>pending.
         branch (nay (ret pending)) (ret totals) (
         bnd (min_of (ret pending)) (\<lambda>tup2.
         unpack7 tup2 (\<lambda>s c ds de gs ge' done.
         bnd (branch (lt (ret mid) (ret ds)) (str ''before_driver'')
             (branch (lt (ret mid) (ret de)) (str ''in_driver'') (str ''after_driver''))) (\<lambda>key.
         bnd (put (ret totals) (ret key)
             (add (index (ret totals) (ret key)) (truediv (sub (ret b) (ret a)) (flt 1000000)))) (\<lambda>totals.
         bnd (branch (lt (ret mid) (ret c))
             (bnd (put (ret totals) (str ''commit_api_overlap'')
                   (add (item (ret totals) ''commit_api_overlap'')
                       (truediv (sub (ret b) (ret a)) (flt 1000000)))) (\<lambda>totals.
               ret totals)) (ret totals)) (\<lambda>totals.
         ret totals)))))))))))) (\<lambda>totals.
     merge (dict_from (ret totals))
       (dict_of [(''command_groups'', size_of (ret groups)),
            (''total_commit_api_ms'', truediv (sum_of (each (ret values) (\<lambda>v.
                    sub (index (ret v) (num 1)) (index (ret v) (num 0))))) (flt 1000000))])))))))"

definition split_operations :: "pyval \<Rightarrow> pyval \<Rightarrow> expr" where
  "split_operations raw profile =
     check (conjs [same (get (ret profile) ''truncated'') no,
          eq (get (ret profile) ''coverage'') (str ''all-dispatches''),
          eq (get (ret profile) ''timing_kind'')
              (str ''instrumented per-dispatch compute passes; submission boundaries preserved'')])
       ''Requires complete per-dispatch counter capture'' (
     bnd (item (ret profile) ''command_groups'') (\<lambda>groups.
     bnd (loop (ret groups) () (\<lambda>unused group'.
       bnd (item (ret group') ''operations'') (\<lambda>ops.
       check (eq (each (ret ops) (\<lambda>o'. get (ret o') ''counter_index''))
           (list_from (range_step (num 0) (mul (num 2) (size_of (ret ops))) (num 2))))
         ''Missing or duplicate dispatch counters'' (
       check (every (ret ops) (\<lambda>o'.
           conjs [type_in (get (ret o') ''gpu_pass_ns'') [TInt],
              gt (item (ret o') ''gpu_pass_ns'') (num 0),
              gt (get_or (ret o') ''gpu_end_ticks'' (num 0))
                  (get_or (ret o') ''gpu_begin_ticks'' (num 0))]))
         ''Missing or invalid GPU counter timing'' (
       Inr ()))))) (\<lambda>unused.
     bnd (list_of []) (\<lambda>result.
     bnd (loop (item (ret raw) ''runs'') result (\<lambda>result row.
       bnd (item (ret row) ''prompt_tokens'') (\<lambda>low.
       bnd (size_of (item (ret row) ''token_latency_ms'')) (\<lambda>steps.
       check (gt (ret steps) (num 0)) ''No decode coverage'' (
       bnd (dict_of []) (\<lambda>totals.
       bnd (dict_of []) (\<lambda>counts.
       bnd (dict_of []) (\<lambda>layer_steps.
       bnd (loop (ret groups) (counts, totals, layer_steps) (\<lambda>(counts, totals, layer_steps) group'.
         bnd (each_if (item (ret group') ''operations'') (\<lambda>o'.
             conjs [eq (item (ret o') ''request_phase'') (str ''decode''),
                conjs [le (ret low) (item (ret o') ''offset''),
                     lt (item (ret o') ''offset'') (add (ret low) (ret steps))]]) (\<lambda>o'. ret o')) (\<lambda>selected.
         branch (nay (ret selected)) (Inr (counts, totals, layer_steps)) (
         check (eq (size_of (ret selected)) (size_of (item (ret group') ''operations'')))
           ''Group crosses decode window'' (
         bnd (some (ret selected) (\<lambda>o'. eq (item (ret o') ''stage'') (str ''router''))) (\<lambda>before_reads.
         bnd (loop (ret selected) (counts, layer_steps, totals) (\<lambda>(counts, layer_steps, totals) op.
           check (eq (item (ret op) ''tokens'') (num 1)) ''Unexpected batched decode'' (
           bnd (put (ret counts) (item (ret op) ''kernel'')
               (add (lookup_or (ret counts) (item (ret op) ''kernel'') (num 0)) (num 1))) (\<lambda>counts.
           bnd (branch (eq (item (ret op) ''kernel'') (str ''route_simd''))
               (bnd (put (ret layer_steps)
                     (tuple_of [item (ret op) ''offset'', item (ret op) ''layer''])
                     (add (lookup_or (ret layer_steps)
                           (tuple_of [item (ret op) ''offset'', item (ret op) ''layer'']) (num 0))
                         (num 1))) (\<lambda>layer_steps.
                 ret layer_steps)) (ret layer_steps)) (\<lambda>layer_steps.
           bnd (get_or (ret op) ''matrix'' (dict_of [])) (\<lambda>matrix.
           bnd (tuple_of [ret before_reads, item (ret op) ''stage'', item (ret op) ''kernel'',
                get (ret matrix) ''K'', get (ret matrix) ''N'']) (\<lambda>key.
           bnd (put (ret totals) (ret key)
               (put (lookup_or (ret totals) (ret key) (list_of [num 0, num 0])) (num 0)
                   (add (index (lookup_or (ret totals) (ret key) (list_of [num 0, num 0])) (num 0))
                       (item (ret op) ''gpu_pass_ns'')))) (\<lambda>totals.
           bnd (put (ret totals) (ret key)
               (put (lookup_or (ret totals) (ret key) (list_of [num 0, num 0])) (num 1)
                   (add (index (lookup_or (ret totals) (ret key) (list_of [num 0, num 0])) (num 1))
                       (num 1)))) (\<lambda>totals.
           Inr (counts, layer_steps, totals)))))))))) (\<lambda>(counts, layer_steps, totals).
         Inr (counts, totals, layer_steps)))))))) (\<lambda>(counts, totals, layer_steps).
       bnd (each (tuple_of [str ''before'', str ''after'']) (\<lambda>k.
           item (item (index (item (item (ret row) ''phases'') ''decode'') (ret k)) ''metal'')
             ''kernel_dispatches'')) (\<lambda>tup1.
       unpack2 tup1 (\<lambda>a b.
       bnd (each_dict (union_of (set_of (ret a)) (set_of (ret b))) (\<lambda>k. ret k) (\<lambda>k.
           sub (lookup_or (ret b) (ret k) (num 0)) (lookup_or (ret a) (ret k) (num 0)))) (\<lambda>expected.
       check (counter_eq (ret counts) (ret expected))
         ''Counter capture does not cover every decode dispatch'' (
       check (counter_eq (ret layer_steps)
           (dict_from (flatten (each (range_between (ret low) (add (ret low) (ret steps))) (\<lambda>t.
                   each (range_to (num 48)) (\<lambda>l. tuple_of [tuple_of [ret t, ret l], num 1]))))))
         ''Missing or duplicate layer/token coverage'' (
       bnd (append (ret result)
           (dict_of [(''name'', item (ret row) ''name''),
                (''offsets'', list_from (range_between (ret low) (add (ret low) (ret steps)))),
                (''dispatches'', sum_of (values_of (ret counts))),
                (''operations'', each (sorted_by (items_of (ret totals)) (\<lambda>kv.
                      neg (index (index (ret kv) (num 1)) (num 0)))) (\<lambda>tup2.
                    unpack2 tup2 (\<lambda>k v.
                      dict_of [(''before_expert_reads'', index (ret k) (num 0)),
                         (''stage'', index (ret k) (num 1)), (''kernel'', index (ret k) (num 2)),
                         (''K'', index (ret k) (num 3)), (''N'', index (ret k) (num 4)),
                         (''gpu_pass_ms_per_token'', truediv (truediv (index (ret v) (num 0))
                               (ret steps)) (flt 1000000)),
                         (''dispatches_per_token'', truediv (index (ret v) (num 1)) (ret steps))])))])) (\<lambda>result.
       ret result))))))))))))))) (\<lambda>result.
     ret result)))))"

definition summarize_profile_rows :: "pyval \<Rightarrow> pyval \<Rightarrow> expr" where
  "summarize_profile_rows n values =
     each (sorted_by (items_of (ret values)) (\<lambda>item'. neg (index (ret item') (num 1)))) (\<lambda>tup1.
       unpack2 tup1 (\<lambda>k v.
         dict_of [(''name'', ret k),
            (''mean_ms_per_token'', truediv (truediv (ret v) (ret n)) (flt 1000000))]))"

definition summarize_profile :: "pyval \<Rightarrow> pyval \<Rightarrow> expr" where
  "summarize_profile report profile =
     bnd (get_or (ret report) ''runs'' (list_of [])) (\<lambda>runs.
     reject (disjs [ne (get (ret report) ''kind'') (str ''cached_full_token_replay''),
          differs (get (ret report) ''passed'') yes,
          differs (get (ret report) ''profiling_enabled'') yes, nay (ret runs),
          get (ret profile) ''truncated'']) ''Requires complete instrumented cached-token evidence'' (
     bnd none (\<lambda>identity.
     bnd (loop (ret runs) identity (\<lambda>identity run.
       reject (disjs [differs (get (ret run) ''exact'') yes, ne (item (ret run) ''ready_hits'') (num 480),
            ne (item (ret run) ''application_read_bytes'') (num 0)])
         ''Changed arithmetic or uncached model data'' (
       bnd (loop (tuple_of [item (ret run) ''before'', item (ret run) ''after'']) identity (\<lambda>identity state.
         bnd (tuple_of [item (item (ret state) ''metal'') ''build_fingerprint'',
              item (ret state) ''artifact_revision'',
              item (item (ret state) ''memory_plan'') ''limit_bytes'']) (\<lambda>key.
         bnd (branch (same (ret identity) none)
             (bnd (ret key) (\<lambda>identity.
               ret identity)) (ret identity)) (\<lambda>identity.
         reject (disjs [ne (ret key) (ret identity),
              nay (get (item (item (ret state) ''metal'') ''kernels'') ''counter_profile'')])
           ''Profiling identity differs'' (
         ret identity))))) (\<lambda>identity.
       ret identity)))) (\<lambda>identity.
     bnd (dict_of []) (\<lambda>stages.
     bnd (dict_of []) (\<lambda>kernels.
     bnd (dict_of []) (\<lambda>layers.
     bnd (dict_of []) (\<lambda>counts.
     bnd (num 0) (\<lambda>commands.
     bnd (num 0) (\<lambda>dispatches.
     bnd (loop (item (ret profile) ''command_groups'')
         (stages, kernels, layers, counts, dispatches, commands) (\<lambda>(stages, kernels, layers, counts, dispatches, commands) command.
       bnd no (\<lambda>used.
       bnd (loop (item (ret command) ''operations'')
           (stages, kernels, layers, counts, dispatches, used) (\<lambda>(stages, kernels, layers, counts, dispatches, used) op.
         branch (ne (item (ret op) ''request_phase'') (str ''cached_replay''))
           (Inr (stages, kernels, layers, counts, dispatches, used)) (
         bnd (get (ret op) ''gpu_pass_ns'') (\<lambda>ns.
         reject (disjs [nay (isinstance (ret ns) [TInt]), le (ret ns) (num 0)])
           ''Missing GPU pass timestamp'' (
         bnd (put (ret stages) (item (ret op) ''stage'')
             (add (lookup_or (ret stages) (item (ret op) ''stage'') (num 0)) (ret ns))) (\<lambda>stages.
         bnd (put (ret kernels) (item (ret op) ''kernel'')
             (add (lookup_or (ret kernels) (item (ret op) ''kernel'') (num 0)) (ret ns))) (\<lambda>kernels.
         bnd (put (ret layers) (item (ret op) ''layer'')
             (add (lookup_or (ret layers) (item (ret op) ''layer'') (num 0)) (ret ns))) (\<lambda>layers.
         bnd (put (ret counts) (item (ret op) ''kernel'')
             (add (lookup_or (ret counts) (item (ret op) ''kernel'') (num 0)) (num 1))) (\<lambda>counts.
         bnd (add (ret dispatches) (num 1)) (\<lambda>dispatches.
         bnd yes (\<lambda>used.
         Inr (stages, kernels, layers, counts, dispatches, used)))))))))))) (\<lambda>(stages, kernels, layers, counts, dispatches, used).
       bnd (add (ret commands) (ret used)) (\<lambda>commands.
       Inr (stages, kernels, layers, counts, dispatches, commands)))))) (\<lambda>(stages, kernels, layers, counts, dispatches, commands).
     bnd (sum_of (each (ret runs) (\<lambda>r.
           sub (item (item (item (ret r) ''after'') ''metal'') ''dispatches'')
             (item (item (item (ret r) ''before'') ''metal'') ''dispatches'')))) (\<lambda>expected.
     reject (disjs [nay (ret dispatches), ne (ret dispatches) (ret expected)])
       ''Missing dispatch coverage'' (
     bnd (size_of (ret runs)) (\<lambda>n.
     dict_of [(''kind'', str ''instrumented_cached_decode_attribution''),
        (''build_fingerprint'', index (ret identity) (num 0)),
        (''artifact_revision'', index (ret identity) (num 1)),
        (''budget_bytes'', index (ret identity) (num 2)), (''repetitions'', ret n),
        (''instrumented_forward_median_ms'', median (each (ret runs) (\<lambda>r.
              truediv (item (ret r) ''forward_ns'') (flt 1000000)))),
        (''mean_dispatches'', truediv (ret dispatches) (ret n)),
        (''mean_submissions'', truediv (ret commands) (ret n)),
        (''stages'', summarize_profile_rows n stages),
        (''kernels'', summarize_profile_rows n kernels),
        (''layers'', summarize_profile_rows n layers),
        (''mean_kernel_counts'', each_dict (items_of (ret counts)) (\<lambda>tup2.
            unpack2 tup2 (\<lambda>k v. ret k)) (\<lambda>tup3. unpack2 tup3 (\<lambda>k v. truediv (ret v) (ret n)))),
        (''normal_request_latency_qualified'', no),
        (''note'', str
            (''One dispatch per timed compute pass changes encoder overhead. GPU pass sums and CPU waits are not additive wall-time attribution. Confirm changes with unprofiled complete requests.''))]))))))))))))))"

definition summarize_cached_configuration :: "(pyval \<Rightarrow> pyval \<Rightarrow> expr) \<Rightarrow> pyval \<Rightarrow> expr" where
  "summarize_cached_configuration resample state =
     bnd (each_dict (tuple_of [str ''execution'', str ''memory_plan'', str ''completion_pipeline'',
            str ''ready_group'', str ''chunk_tokens'', str ''io_workers'',
            str ''short_append_tokens'']) (\<lambda>key. ret key) (\<lambda>key. lookup (ret state) (ret key))) (\<lambda>result.
     bnd (put (ret result) (str ''kernels'') (item (item (ret state) ''metal'') ''kernels'')) (\<lambda>result.
     ret result))"

definition summarize_cached :: "(pyval \<Rightarrow> pyval \<Rightarrow> expr) \<Rightarrow> pyval \<Rightarrow> expr" where
  "summarize_cached resample report =
     reject (disjs [nay (get (ret report) ''paired_comparison''), get (ret report) ''profiling_enabled'',
          nay (get (ret report) ''runs'')]) ''Requires an unprofiled paired cached comparison'' (
     bnd (get_or (ret report) ''comparison_axis'' (str ''q8_decode_rows'')) (\<lambda>axis.
     bnd (dict_of [(''q8_decode_rows'', tuple_of [num 0, tuple_of [num 2, num 4, num 8]]),
          (''sparse_selection'', tuple_of [str ''cpu'', tuple_of [str ''gpu'']]),
          (''attention_score_tiles'', tuple_of [str ''full'', tuple_of [str ''skip-masked'']])]) (\<lambda>axes.
     reject (notin (ret axis) (ret axes)) ''Unknown comparison axis'' (
     bnd (index (ret axes) (ret axis)) (\<lambda>tup1.
     unpack2 tup1 (\<lambda>control candidates.
     bnd (item (ret report) ''runs'') (\<lambda>runs.
     bnd (floordiv (size_of (ret runs)) (num 2)) (\<lambda>n.
     reject (disjs [modulo (size_of (ret runs)) (num 2), lt (ret n) (num 5)])
       ''Missing cached pairs'' (
     bnd (item (item (item (index (ret runs) (num 0)) ''before'') ''metal'') ''build_fingerprint'') (\<lambda>build.
     bnd (dict_of []) (\<lambda>selected.
     bnd (loop (numbered (ret runs) 0) selected (\<lambda>selected tup2.
       unpack2 tup2 (\<lambda>i row.
         bnd (floordiv (ret i) (num 2)) (\<lambda>rep.
         bnd (branch (eq (modulo (add (modulo (ret i) (num 2)) (modulo (ret rep) (num 2))) (num 2))
               (num 0)) (str ''control'') (str ''candidate'')) (\<lambda>variant.
         reject (disjs [ne (item (ret row) ''repetition'') (ret rep),
              ne (item (ret row) ''variant'') (ret variant)])
           ''Pairs are incomplete or not alternating'' (
         bnd (get (ret row) ''forward_ns'') (\<lambda>elapsed.
         reject (disjs [isinstance (ret elapsed) [TBool], nay (isinstance (ret elapsed) [TInt, TFloat]),
              nay (isfinite (ret elapsed)), le (ret elapsed) (num 0)])
           ''Cached timing must be positive and finite'' (
         bnd (call1 (summarize_cached_configuration resample) (item (ret row) ''before'')) (\<lambda>before.
         bnd (call1 (summarize_cached_configuration resample) (item (ret row) ''after'')) (\<lambda>after.
         reject (disjs [get (item (ret before) ''kernels'') ''profile'',
              get (item (ret before) ''kernels'') ''counter_profile''])
           ''Instrumented kernels cannot qualify cached timing'' (
         reject (ne (ret before) (ret after)) ''Configuration changed during forward'' (
         bnd (branch (eq (ret axis) (str ''sparse_selection'')) (str ''execution'')
             (str ''kernels'')) (\<lambda>part.
         bnd (lookup_or (index (ret before) (ret part)) (ret axis) (ret control)) (\<lambda>value.
         bnd (put (ret before) (ret part) (without_key (index (ret before) (ret part)) (ret axis))) (\<lambda>before.
         reject (disjs [conjs [eq (ret variant) (str ''control''), ne (ret value) (ret control)],
              conjs [eq (ret variant) (str ''candidate''), notin (ret value) (ret candidates)]])
           ''Unexpected cached variant'' (
         reject (conjs [isin (str ''config'') (ret selected),
              ne (ret before) (item (ret selected) ''config'')])
           ''Comparison changed other configuration'' (
         bnd (put (ret selected) (str ''config'') (ret before)) (\<lambda>selected.
         bnd (branch (eq (ret variant) (str ''candidate''))
             (reject (conjs [isin (str ''value'') (ret selected),
                    ne (ret value) (item (ret selected) ''value'')])
                 ''Candidate changed between pairs'' (
               bnd (put (ret selected) (str ''value'') (ret value)) (\<lambda>selected.
               ret selected))) (ret selected)) (\<lambda>selected.
         ret selected))))))))))))))))))) (\<lambda>selected.
     bnd (each_dict (tuple_of [str ''control'', str ''candidate'']) (\<lambda>key. ret key) (\<lambda>key.
         each_if (ret runs) (\<lambda>r. eq (item (ret r) ''variant'') (ret key)) (\<lambda>r. ret r))) (\<lambda>by_variant.
     bnd (loop (values_of (ret by_variant)) () (\<lambda>unused rows.
       bnd (bnd (merge (dict_from (ret report)) (dict_of [(''runs'', ret rows)])) (\<lambda>arg3.
           bnd (item (ret report) ''artifact_revision'') (\<lambda>arg4.
             bnd (item (ret report) ''prompt_tokens'') (\<lambda>arg5.
               validate_cached arg3 build arg4 arg5 n)))) (\<lambda>unused.
       Inr ()))) (\<lambda>unused.
     bnd (each (item (ret by_variant) ''control'') (\<lambda>r.
         truediv (item (ret r) ''forward_ns'') (flt 1000000))) (\<lambda>a.
     bnd (each (item (ret by_variant) ''candidate'') (\<lambda>r.
         truediv (item (ret r) ''forward_ns'') (flt 1000000))) (\<lambda>b.
     bnd (dict_of [(''kind'', str ''paired_cached_decode_comparison''), (''build_fingerprint'', ret build),
          (''artifact_revision'', item (ret report) ''artifact_revision''),
          (''comparison_axis'', ret axis), (''control_value'', ret control),
          (''candidate_value'', item (ret selected) ''value''),
          (''prompt_tokens'', item (ret report) ''prompt_tokens''), (''pairs'', ret n),
          (''control_ms'', ret a), (''candidate_ms'', ret b),
          (''control_median_ms'', median (ret a)), (''candidate_median_ms'', median (ret b)),
          (''latency_ratio'', call1 (paired_interval resample)
              (each (zip_of (ret a) (ret b)) (\<lambda>tup6. unpack2 tup6 (\<lambda>x y. truediv (ret y) (ret x))))),
          (''exact'', yes), (''application_read_bytes'', num 0),
          (''normal_request_latency_qualified'', no)]) (\<lambda>result.
     bnd (branch (eq (ret axis) (str ''q8_decode_rows''))
         (bnd (put (ret result) (str ''q8_decode_rows'') (item (ret selected) ''value'')) (\<lambda>result.
           ret result)) (ret result)) (\<lambda>result.
     ret result))))))))))))))))))"

definition DIAGNOSTIC_LIMITATIONS :: pyval where
  "DIAGNOSTIC_LIMITATIONS =
     PList [PStr
            (''One instrumented reference conversation generates hypotheses only. There is no packed comparison, clean timing qualification or production promotion.''),
        PStr
            (''The 512MiB compression peak limit is a declared operational diagnostic allowance, not an empirically established safe or harmless amount of compression.''),
        PStr
            (''Memory and swap gates inspect completed-run boundaries and lifetime peaks; they do not provide live cancellation at the compression threshold. Native allocations stay admitted, and runtime/disk/cancellation guards remain active.''),
        PStr
            (''All captured tokens remain included. Compression and decompression annotations do not identify the affected allocation or establish the cause of any stall.''),
        PStr
            (''Exclusive token buckets reconcile to forward time. GPU command classes, read service, CPU costs and boundary gaps overlap and are not additional or removable milliseconds.''),
        PStr
            (''The previous normal request is used only for exact output/workload checks. Its disturbed timings are not a control, pooled sample or instrumentation correction.''),
        PStr
            (''The short initial/retained-append workload does not qualify 2K/4K/7K contexts, coding quality, or sustained operation.'')]"

definition DIAGNOSTIC_FLAGS :: pyval where
  "DIAGNOSTIC_FLAGS =
     PDict [(''normal_request_latency_qualified'', PBool False), (''production_promoted'', PBool False),
        (''performance_comparison'', PBool False), (''candidate_qualified'', PBool False)]"

definition DIAGNOSTIC_CRITERIA :: pyval where
  "DIAGNOSTIC_CRITERIA =
     PDict [(''inference_processes'', PInt 1), (''inference_seconds'', PInt 90),
        (''stage_seconds'', PInt 150), (''cancellation_drain_seconds'', PInt 45),
        (''budget_bytes'', PInt (12 * 1024 ^ 3)),
        (''compression_peak_limit_bytes'', PInt (512 * 1024 ^ 2)), (''expert_slots'', PInt 1072),
        (''output_tokens'', PInt 17), (''decode_forwards'', PInt 32), (''dispatches'', PInt 101600),
        (''layer_passes'', PInt 1536), (''expert_records'', PInt 15360),
        (''profiling'', PStr ''existing decode-only command/dependency and token observations''),
        (''validation'', PBool False), (''counter_profile'', PBool False),
        (''safety_observation_scope'', PStr ''completed-run boundaries and lifetime peaks'')]"

definition rank :: "pyval \<Rightarrow> expr" where
  "rank analysis =
     check (conjs [eq (get (ret analysis) ''kind'') (str ''q4_request_profile_v1''),
          same (get (ret analysis) ''complete'') yes,
          eq (get (ret analysis) ''variant'') (str ''reference''),
          eq (get (ret analysis) ''coverage'')
              (dict_of [(''phases'', num 2), (''forwards'', num 32), (''dispatches'', num 101600),
                   (''dependency_passes'', num 1536), (''selected_experts'', num 15360),
                   (''explicit_dependency_file'', yes), (''omitted_tokens'', num 0)])])
       ''Incomplete reference opportunity coverage'' (
     bnd (get_or (ret analysis) ''phases'' (list_of [])) (\<lambda>phases.
     check (eq (size_of (ret phases)) (num 2)) ''Missing phase'' (
     bnd (set_disp [str ''gpu_active'', str ''gpu_idle_submitted'', str ''gpu_idle_ready_expert'',
          str ''gpu_idle_pending_read'', str ''gpu_idle_callback'', str ''gpu_idle_other'']) (\<lambda>expected_buckets.
     bnd (list_of []) (\<lambda>output.
     bnd (dict_fromkeys (ret expected_buckets) (flt 0)) (\<lambda>means.
     bnd (loop (ret phases) (means, output) (\<lambda>(means, output) p.
       bnd (item (ret p) ''mean_buckets_ms'') (\<lambda>buckets.
       check (conjs [eq (item (ret p) ''captured_tokens'') (num 16),
            eq (size_of (item (ret p) ''tokens'')) (num 16),
            eq (set_of (ret buckets)) (ret expected_buckets),
            every (values_of (ret buckets)) (\<lambda>v.
                conjs [type_in (ret v) [TInt, TFloat], isfinite (ret v), ge (ret v) (num 0)]),
            isfinite (item (ret p) ''mean_forward_ms''),
            gt (item (ret p) ''mean_forward_ms'') (num 0),
            isclose (sum_of (values_of (ret buckets))) (item (ret p) ''mean_forward_ms'')
                (1 / 1000000000) (1 / 1000000)])
         ''Missing, invalid or nonreconciling exclusive timing'' (
       bnd (loop (items_of (ret buckets)) means (\<lambda>means tup1.
         unpack2 tup1 (\<lambda>k v.
           bnd (put (ret means) (ret k) (add (index (ret means) (ret k)) (truediv (ret v) (num 2)))) (\<lambda>means.
           ret means)))) (\<lambda>means.
       bnd (item (ret p) ''gpu_command_classes'') (\<lambda>classes'.
       bnd (item (ret p) ''layer_command_classes'') (\<lambda>layers.
       bnd (loop (tuple_of [ret classes', ret layers]) () (\<lambda>unused population.
         check (conjs [ret population,
              every (ret population) (\<lambda>r.
                  conjs [item (ret r) ''stages'',
                     type_in (item (ret r) ''gpu_command_ms_per_token'') [TInt, TFloat],
                     isfinite (item (ret r) ''gpu_command_ms_per_token''),
                     ge (item (ret r) ''gpu_command_ms_per_token'') (num 0)])])
           ''Invalid command class population'' (
         check (isclose (sum_of (each (ret population) (\<lambda>r.
                 item (ret r) ''gpu_command_ms_per_token''))) (item (ret p) ''mean_gpu_command_ms'')
             (1 / 1000000000) (1 / 1000000)) ''Command classes do not reconcile'' (
         Inr ())))) (\<lambda>unused.
       bnd (append (ret output)
           (dict_of [(''name'', item (ret p) ''name''),
                (''observed_forward_ms'', item (ret p) ''mean_forward_ms''),
                (''distance_to_200ms'', max_args [num 0, sub (item (ret p) ''mean_forward_ms'') (num 200)]),
                (''exclusive_buckets'', sorted_by (each (items_of (ret buckets)) (\<lambda>tup2.
                      unpack2 tup2 (\<lambda>k v.
                        dict_of [(''category'', ret k), (''ms_per_token'', ret v),
                           (''fraction_of_forward'', truediv (ret v)
                               (item (ret p) ''mean_forward_ms''))]))) (\<lambda>r.
                    tuple_of [neg (item (ret r) ''ms_per_token''), item (ret r) ''category''])),
                (''gpu_command_classes'', sorted_by (ret classes') (\<lambda>r.
                    neg (item (ret r) ''gpu_command_ms_per_token''))),
                (''layer_command_classes'', sorted_by (ret layers) (\<lambda>r.
                    neg (item (ret r) ''gpu_command_ms_per_token'')))])) (\<lambda>output.
       Inr (means, output)))))))))) (\<lambda>(means, output).
     bnd (sorted_by (each (items_of (ret means)) (\<lambda>tup3.
           unpack2 tup3 (\<lambda>k v. dict_of [(''category'', ret k), (''ms_per_token'', ret v)]))) (\<lambda>r.
         tuple_of [neg (item (ret r) ''ms_per_token''), item (ret r) ''category''])) (\<lambda>ordered.
     merge (dict_of [(''kind'', str ''reference_diagnostic_opportunities_v1''), (''complete'', yes),
          (''identity'', item (ret analysis) ''identity''), (''phases'', ret output),
          (''equal_phase_mean_buckets'', ret ordered),
          (''largest_observed_category'', item (index (ret ordered) (num 0)) ''category''),
          (''possible_latency_saving_ms'', none), (''causal_bottleneck_identified'', no),
          (''limitations'', ret DIAGNOSTIC_LIMITATIONS)]) (ret DIAGNOSTIC_FLAGS)))))))))"

definition annotation :: "pyval \<Rightarrow> expr" where
  "annotation raw =
     bnd (call3 analyze_memory (ret raw) (item (ret DIAGNOSTIC_CRITERIA) ''budget_bytes'')
         (item (ret DIAGNOSTIC_CRITERIA) ''compression_peak_limit_bytes'')) (\<lambda>result.
     bnd (put (ret result) (str ''observation_costs'')
         (each (item (ret raw) ''runs'') (\<lambda>r.
             dict_of [(''name'', item (ret r) ''name''),
                (''sample_calls_ms'', truediv (sum_of (flatten (each (item (item (ret r)
                              ''decode_diagnostics'') ''samples'') (\<lambda>s.
                          each (tuple_of [str ''before'', str ''after'']) (\<lambda>k.
                            item (index (ret s) (ret k)) ''sample_ns''))))) (flt 1000000)),
                (''mean_sample_calls_ms_per_token'', truediv (sum_of (flatten (each (item (item (ret
                                r) ''decode_diagnostics'') ''samples'') (\<lambda>s.
                          each (tuple_of [str ''before'', str ''after'']) (\<lambda>k.
                            item (index (ret s) (ret k)) ''sample_ns''))))) (flt 16000000)),
                (''timing_correction_applied'', no)]))) (\<lambda>result.
     ret result))"

definition phase_costs_reads :: "pyval \<Rightarrow> expr" where
  "phase_costs_reads s =
     add (item (ret s) ''checkpoint_application_read_bytes'')
       (item (item (ret s) ''prepared'') ''application_read_bytes'')"

definition phase_costs :: "pyval \<Rightarrow> expr" where
  "phase_costs row =
     bnd (dict_of []) (\<lambda>result.
     bnd (loop (items_of (item (ret row) ''phases'')) result (\<lambda>result tup1.
       unpack2 tup1 (\<lambda>name p.
         bnd (item (ret p) ''before'') (\<lambda>a.
         bnd (item (ret p) ''after'') (\<lambda>b.
         bnd (each_dict (tuple_of [str ''coordinator_wait_ns'', str ''read_queue_sum_ns'', str ''read_service_sum_ns'',
                str ''ready_to_gpu_sum_ns'']) (\<lambda>key. ret key) (\<lambda>key.
             sub (lookup_or (lookup_or (get_or (ret b) ''phase_dependencies'' (dict_of []))
                   (ret name) (dict_of [])) (ret key) (num 0))
               (lookup_or (lookup_or (get_or (ret a) ''phase_dependencies'' (dict_of [])) (ret name)
                     (dict_of [])) (ret key) (num 0)))) (\<lambda>dependencies.
         bnd (put (ret result) (ret name)
             (dict_of [(''application_read_bytes'', sub (phase_costs_reads b) (phase_costs_reads a)),
                  (''dependencies'', ret dependencies),
                  (''cpu_encode_ns'', sub (item (item (ret b) ''metal'') ''cpu_encode_ns'')
                      (item (item (ret a) ''metal'') ''cpu_encode_ns'')),
                  (''cpu_gpu_wait_ns'', sub (item (item (ret b) ''metal'') ''cpu_gpu_wait_ns'')
                      (item (item (ret a) ''metal'') ''cpu_gpu_wait_ns'')),
                  (''gpu_command_ns'', sub (item (item (ret b) ''metal'') ''gpu_command_ns'')
                      (item (item (ret a) ''metal'') ''gpu_command_ns'')),
                  (''cache_before'', item (ret a) ''expert_cache''),
                  (''cache_after'', item (ret b) ''expert_cache''),
                  (''device_before'', item (ret a) ''storage''),
                  (''device_after'', item (ret b) ''storage'')])) (\<lambda>result.
         ret result))))))) (\<lambda>result.
     ret result))"

definition measurements :: "pyval \<Rightarrow> pyval \<Rightarrow> expr" where
  "measurements report expected =
     bnd (item (ret report) ''runs'') (\<lambda>runs.
     reject (nay (ret runs)) ''Replay returned no recorded passes'' (
     bnd (item (item (ret report) ''machine'') ''build_fingerprint'') (\<lambda>build.
     bnd (tuple_of [ret build, item (ret report) ''artifact_revision'', size_of (ret runs)]) (\<lambda>identity.
     bnd (setdefault (ret expected) (str ''identity'') (ret identity)) (\<lambda>expected.
     reject (ne (index (ret expected) (str ''identity'')) (ret identity))
       ''Build, artifact, or recorded pass count changed within paired comparison'' (
     bnd (list_of []) (\<lambda>result.
     bnd (loop (numbered (ret runs) 0) (expected, result) (\<lambda>(expected, result) tup2.
       unpack2 tup2 (\<lambda>index' measured.
         bnd (item (ret measured) ''layers'') (\<lambda>layers.
         reject (disjs [ne (item (ret measured) ''recorded_pass'') (ret index'),
              ne (item (ret measured) ''repetition'') (num 0), ne (size_of (ret layers)) (num 48)])
           ''Incomplete or reordered replay pass'' (
         bnd (loop (numbered (ret layers) 0) expected (\<lambda>expected tup1.
           unpack2 tup1 (\<lambda>layer row.
             bnd (tuple_of [tuple_from (item (ret row) ''routes''), item (ret row) ''output_sha256'']) (\<lambda>signature.
             reject (disjs [ne (item (ret row) ''layer'') (ret layer),
                  ne (size_of (item (ret row) ''output_sha256'')) (num 64)])
               ''Invalid replay layer output identity'' (
             bnd (tuple_of [ret index', ret layer]) (\<lambda>key.
             bnd (setdefault (ret expected) (ret key) (ret signature)) (\<lambda>expected.
             branch (ne (index (ret expected) (ret key)) (ret signature))
               (fail (format_of [str ''Expert output changed at recorded pass '', ret index', str '', layer '',
                      ret layer])) (
             ret expected)))))))) (\<lambda>expected.
         bnd (append (ret result)
             (dict_of [(''recorded_pass'', ret index'),
                  (''nanoseconds'', item (ret measured) ''expert_dependency_ns''),
                  (''application_bytes'', sum_of (each (ret layers) (\<lambda>l.
                        item (ret l) ''application_read_bytes''))),
                  (''build'', ret build)])) (\<lambda>result.
         Inr (expected, result)))))))) (\<lambda>(expected, result).
     tuple_of [ret result, ret expected]))))))))"

end
