(* ===== verification/TargetRecovery.thy ===== *)
theory TargetRecovery
  imports MtpEvidence
begin

text \<open>
  Revalidation of target-recovery evidence (\<open>scripts/qwen/target_recovery_checks.py\<close>).
\<close>

definition ARMS :: pyval where
  "ARMS = PTuple [PStr ''full-replay'', PStr ''state-only'']"

definition MIB :: pyval where
  "MIB = PInt (1024 ^ 2)"

definition replay_resources :: "pyval \<Rightarrow> expr" where
  "replay_resources raw =
     bnd (each (tuple_of [str ''before'', str ''after'']) (\<lambda>k. index (ret raw) (ret k))) (\<lambda>memory.
     bnd (tuple_of [str ''physical_footprint_bytes'', str ''physical_footprint_peak_bytes'',
          str ''compressed_bytes'', str ''compressed_peak_bytes'', str ''decompressions'',
          str ''system_swap_used_bytes'']) (\<lambda>fields'.
     check (every (ret memory) (\<lambda>m.
         every (ret fields') (\<lambda>k.
           conjs [type_in (lookup (ret m) (ret k)) [TInt], ge (index (ret m) (ret k)) (num 0)])))
       ''Missing replay memory observation'' (
     check (every (ret memory) (\<lambda>m.
         conjs [lt (num 0) (item (ret m) ''physical_footprint_bytes''),
            le (item (ret m) ''physical_footprint_bytes'')
                (item (ret m) ''physical_footprint_peak_bytes''),
            le (item (ret m) ''physical_footprint_peak_bytes'') (num (2 * 1024 ^ 3))]))
       ''Replay exceeded 2GiB process ceiling'' (
     bnd (each (tuple_of [str ''host_before'', str ''host_after'']) (\<lambda>k. index (ret raw) (ret k))) (\<lambda>host.
     check (every (ret host) (\<lambda>h.
         conjs [type_in (get (ret h) ''thermal_state'') [TInt],
            type_in (get (ret h) ''low_power_mode'') [TBool],
            isinstance (get (ret h) ''power_source'') [TStr]])) ''Missing replay host observation'' (
     dict_of [(''clean_memory'', conjs [every (ret memory) (\<lambda>m.
                 conjs [eq (item (ret m) ''compressed_bytes'') (item (ret m) ''compressed_peak_bytes''),
                    eq (item (ret m) ''compressed_peak_bytes'') (num 0)]),
             conjs [eq (size_of (set_of (each (ret memory) (\<lambda>m. item (ret m) ''decompressions''))))
                      (size_of (set_of (each (ret memory) (\<lambda>m.
                              item (ret m) ''system_swap_used_bytes'')))),
                  eq (size_of (set_of (each (ret memory) (\<lambda>m.
                            item (ret m) ''system_swap_used_bytes'')))) (num 1)]]),
        (''clean_host'', every (ret host) (\<lambda>h.
            conjs [eq (item (ret h) ''thermal_state'') (num 0),
               same (item (ret h) ''low_power_mode'') no,
               eq (item (ret h) ''power_source'') (str ''AC Power'')])),
        (''peak_physical_bytes'', max_of (each (ret memory) (\<lambda>m.
              item (ret m) ''physical_footprint_peak_bytes'')))]))))))"

definition observe :: "pyval \<Rightarrow> pyval \<Rightarrow> pyval \<Rightarrow> pyval \<Rightarrow> pyval \<Rightarrow> expr" where
  "observe raw work input_sha validation width_report =
     check (conjs [eq (get (ret raw) ''kind'')
              (branch (ret width_report) (str ''native_mtp_width_v1'')
                  (str ''native_mtp_continuation_v2'')),
          same (get (ret raw) ''complete'') yes,
          same (item (ret raw) ''validation'') (ret validation),
          eq (item (ret raw) ''mode'')
              (branch (ret validation) (str ''fast-validate'') (str ''fast-timing'')),
          eq (item (ret raw) ''input_sha256'') (ret input_sha),
          isinstance (item (ret raw) ''request_id'') [TStr],
          startswith (item (ret raw) ''request_id'') (add (ret input_sha) (str '':'')),
          isin (item (ret raw) ''target_recovery'') (ret ARMS)])
       ''Incomplete or incompatible recovery evidence'' (
     bnd (account raw) (\<lambda>totals.
     bnd (branch (conjs [ret validation, ret width_report])
         (min_args [num 8, item (ret work) ''max_tokens''])
         (branch (ret validation) (num 8) (item (ret work) ''max_tokens''))) (\<lambda>count.
     check (conjs [eq (item (ret raw) ''requested_tokens'') (ret count),
          eq (item (ret raw) ''prompt_tokens'') (size_of (item (ret work) ''prompt_ids'')),
          eq (item (ret raw) ''eos_ids'') (item (ret work) ''eos_ids''),
          ge (item (ret raw) ''decode_including_reporting_ns'') (item (ret raw) ''decode_wall_ns'')])
       ''Changed workload or incomplete timing'' (
     bnd (item (ret raw) ''committed_token_ids'') (\<lambda>ids.
     bnd (add (size_of (item (ret work) ''prompt_ids'')) (size_of (ret ids))) (\<lambda>offset.
     check (conjs [nay (some (slice (ret ids) none (num (- 1))) (\<lambda>i.
                isin (ret i) (item (ret work) ''eos_ids''))),
          disjs [conjs [eq (item (ret raw) ''stop_reason'') (str ''eos''),
                    isin (index (ret ids) (num (- 1))) (item (ret work) ''eos_ids'')],
               conjs [eq (item (ret raw) ''stop_reason'') (str ''length''),
                    eq (size_of (ret ids)) (ret count),
                    notin (index (ret ids) (num (- 1))) (item (ret work) ''eos_ids'')]]])
       ''Invalid EOS coverage'' (
     check (conjs [eq (size_of (item (ret raw) ''row_logits_sha256'')) (size_of (ret ids)),
          every (item (ret raw) ''row_logits_sha256'') (\<lambda>h.
              conjs [isinstance (ret h) [TStr], eq (size_of (ret h)) (num 64)])])
       ''Missing full logits'' (
     check (conjs [same (item (item (ret raw) ''final_target_state'') ''valid'') yes,
          eq (item (item (ret raw) ''final_target_state'') ''tokens'') (ret offset),
          eq (size_of (item (item (ret raw) ''final_target_state'') ''layers'')) (num 48),
          every (item (item (ret raw) ''final_target_state'') ''layers'') (\<lambda>l.
              eq (item (ret l) ''position'') (ret offset)),
          eq (item (item (ret raw) ''final_target_state'') ''history'')
              (slice (add (item (ret work) ''prompt_ids'') (ret ids)) (num (- 2)) none),
          same (item (item (ret raw) ''final_draft_state'') ''valid'') yes,
          eq (item (item (ret raw) ''final_draft_state'') ''position'') (sub (ret offset) (num 1))])
       ''Final persistent state positions differ'' (
     bnd (loop (numbered (item (item (ret raw) ''final_target_state'') ''layers'') 0) () (\<lambda>unused tup2.
       unpack2 tup2 (\<lambda>l layer.
         bnd (branch (modulo (add (ret l) (num 1)) (num 4))
             (list_of [num 122880, num 3145728, num 0, num 0, num 0,
                  branch (eq (ret l) (num 1)) (num 368640) (num 0)])
             (list_of [num 0, num 0, num (8192 * 512 * 4), num (8192 * 512 * 4), num (8192 * 128 * 4),
                  num 0])) (\<lambda>sizes.
         check (conjs [eq (size_of (item (ret layer) ''buffers'')) (num 6),
              every (zip_of (item (ret layer) ''buffers'') (ret sizes)) (\<lambda>tup1.
                  unpack2 tup1 (\<lambda>b n.
                    branch (nay (ret n)) (same (ret b) none)
                      (conjs [isinstance (ret b) [TDict], eq (get (ret b) ''bytes'') (ret n),
                           isinstance (get (ret b) ''sha256'') [TStr],
                           eq (size_of (item (ret b) ''sha256'')) (num 64)])))])
           ''Incomplete persistent buffer hashes'' (
         Inr ()))))) (\<lambda>unused.
     check (every (tuple_of [str ''keys'', str ''values'', str ''index'']) (\<lambda>k.
         conjs [isinstance (lookup (item (ret raw) ''final_draft_state'') (ret k)) [TStr],
            eq (size_of (index (item (ret raw) ''final_draft_state'') (ret k))) (num 64)]))
       ''Missing draft state hashes'' (
     bnd (eq (item (ret raw) ''target_recovery'') (str ''state-only'')) (\<lambda>state_only.
     bnd (num 0) (\<lambda>rejected.
     bnd (ret rejected) (\<lambda>verifies.
     bnd (loop (item (ret raw) ''cycles'') (verifies, rejected) (\<lambda>(verifies, rejected) c.
       check (isin (item (ret c) ''width'')
           (branch (ret width_report) (tuple_of [num 1, num 2, num 4]) (tuple_of [num 1, num 4])))
         ''Unsupported recovery verifier width'' (
       bnd (add (ret verifies) (gt (item (ret c) ''width'') (num 1))) (\<lambda>verifies.
       bnd (lt (item (ret c) ''committed_tokens'') (item (ret c) ''width'')) (\<lambda>partial.
       bnd (add (ret rejected) (ret partial)) (\<lambda>rejected.
       bnd (branch (conjs [ret partial, nay (ret state_only)]) (item (ret c) ''committed_tokens'')
           (num 0)) (\<lambda>expected_calls.
       check (conjs [eq (item (ret c) ''target_recovery_forward_calls'') (ret expected_calls),
            disjs [nay (ret state_only), eq (item (ret c) ''target_recovery_read_bytes'') (num 0)]])
         ''Recovery executed unexpected target forwards or reads'' (
       bnd (branch (nay (ret partial))
           (check (conjs [eq (item (ret c) ''target_restore_ns'') (item (ret c) ''target_repair_ns''),
                  eq (item (ret c) ''target_repair_ns'')
                      (item (ret c) ''target_recovery_read_bytes''),
                  eq (item (ret c) ''target_recovery_read_bytes'') (num 0)])
               ''Recovery reported on a fully accepted cycle'' (
             Inr ())) (Inr ())) (\<lambda>unused.
       check (disjs [ret validation, same (item (ret c) ''forced_rejection'') no])
         ''Forced rejection in timing sample'' (
       Inr (verifies, rejected))))))))))) (\<lambda>(verifies, rejected).
     bnd (branch (conjs [ret validation, notin (index (ret ids) (num 0)) (item (ret work) ''eos_ids'')])
         (bnd (index (item (ret raw) ''cycles'') (num 0)) (\<lambda>first.
           bnd (get_or (ret work) ''force_prefix'' (num 1)) (\<lambda>keep.
           bnd (branch (gt (item (ret first) ''width'') (num 1))
               (check (conjs [conjs [le (num 1) (ret keep), le (ret keep) (item (ret first) ''width'')],
                      eq (item (ret first) ''committed_tokens'') (ret keep),
                      same (item (ret first) ''forced_rejection'')
                          (lt (ret keep) (item (ret first) ''width''))])
                   ''Missing forced prefix position'' (
                 Inr ()))
               (check (conjs [ret width_report, eq (item (ret first) ''committed_tokens'') (num 1),
                      same (item (ret first) ''forced_rejection'') no])
                   ''Invalid width-one validation cycle'' (
                 Inr ()))) (\<lambda>unused.
           Inr ())))) (Inr ())) (\<lambda>unused.
     bnd (item (ret raw) ''target_recovery_journal'') (\<lambda>j.
     bnd (item (ret raw) ''admission'') (\<lambda>admission.
     check (conjs [conjs [eq (item (ret j) ''reserved_bytes'')
                   (item (ret admission) ''target_recovery_reserve_bytes''),
               eq (item (ret admission) ''target_recovery_reserve_bytes'') (mul (num 16) (ret MIB))],
          conjs [lt (num 0) (item (ret j) ''fixed_allocation_bytes''),
               le (item (ret j) ''fixed_allocation_bytes'')
                   (item (ret j) ''peak_incremental_bound_bytes''),
               le (item (ret j) ''peak_incremental_bound_bytes'') (mul (num 16) (ret MIB))],
          eq (item (ret j) ''captures'') (branch (ret state_only) (ret verifies) (num 0)),
          eq (item (ret j) ''repairs'') (branch (ret state_only) (ret rejected) (num 0)),
          same (item (ret j) ''active'') no,
          same (item (ret j) ''complete'') (conjs [ret state_only, gt (ret verifies) (num 0)]),
          conjs [le (num 0) (item (ret j) ''peak_gpu_groups''),
               le (item (ret j) ''peak_gpu_groups'') (num 2)]])
       ''Unbounded or incomplete recovery journal'' (
     check (conjs [eq (item (ret admission) ''draft_slots'') (num 32),
          eq (item (ret admission) ''expert_scratch_reserve_bytes'') (mul (num 2) (ret MIB)),
          le (item (ret admission) ''combined_bytes'') (num (12 * 1024 ^ 3)),
          eq (item (item (ret admission) ''target'') ''expert_slots'') (num 1460),
          eq (item (item (ret admission) ''target'') ''limit_bytes'') (num (12 * 1024 ^ 3)),
          eq (item (ret raw) ''ngram_initialization'') (str ''lazy'')])
       ''Changed memory/configuration'' (
     bnd (loop (tuple_of [str ''before'', str ''after'']) () (\<lambda>unused p.
       bnd (index (ret raw) (add (str ''direct_output_'') (ret p))) (\<lambda>d.
       bnd (index (ret raw) (add (str ''expert_scratch_'') (ret p))) (\<lambda>scratch.
       bnd (item (index (ret raw) (ret p)) ''metal'') (\<lambda>metal.
       check (conjs [eq (item (ret metal) ''device'') (str ''Apple M1 Pro''),
            eq (item (ret metal) ''physical_bytes'') (num (32 * 1024 ^ 3)),
            eq (item (item (ret metal) ''kernels'') ''q4_decode'') (str ''reference''),
            eq (item (item (ret metal) ''kernels'') ''q8_decode_rows'') (num 2),
            eq (item (item (ret metal) ''kernels'') ''gdn'') (str ''original''),
            eq (item (item (ret metal) ''kernels'') ''route_selection'') (str ''simd'')])
         ''Changed machine or arithmetic policy'' (
       check (conjs [same (item (ret d) ''enabled'') yes, same (item (ret d) ''active'') no,
            same (item (ret scratch) ''enabled'') no,
            conjs [eq (item (ret scratch) ''forwards'') (item (ret scratch) ''groups''),
                 eq (item (ret scratch) ''groups'') (num 0)],
            eq (item (ret metal) ''active_scratch_slot'') (num (- 1)),
            eq (item (ret metal) ''live_command_groups'') (num 0),
            nay (item (item (ret metal) ''kernels'') ''profile''),
            nay (item (item (ret metal) ''kernels'') ''counter_profile'')])
         ''Uncontrolled mode or outstanding GPU users'' (
       Inr ()))))))) (\<lambda>unused.
     merge (clean raw)
       (dict_of [(''tokens_per_second'', item (ret raw) ''tokens_per_second''),
            (''generated_tokens'', size_of (ret ids)), (''rejected_cycles'', ret rejected),
            (''component_ms_per_token'', item (ret totals) ''component_ms_per_token''),
            (''recovery_children_ms_per_token'', item (ret totals)
                ''recovery_children_ms_per_token''),
            (''repeated_target_rows'', item (ret totals) ''repeated_target_rows''),
            (''target_recovery_read_bytes'', sum_of (each (item (ret raw) ''cycles'') (\<lambda>c.
                  item (ret c) ''target_recovery_read_bytes''))),
            (''completed_requested_length'', eq (size_of (ret ids)) (ret count)),
            (''stop_reason'', item (ret raw) ''stop_reason'')]))))))))))))))))))))))"

definition comparison :: "pyval \<Rightarrow> pyval \<Rightarrow> expr" where
  "comparison a b =
     check (eq (tuple_of [item (ret a) ''target_recovery'', item (ret b) ''target_recovery''])
         (ret ARMS)) ''Wrong recovery arms'' (
     bnd (equivalent a b) (\<lambda>unused.
     bnd (tuple_of [str ''mode'', str ''validation'', str ''committed_token_ids'', str ''row_logits_sha256'',
          str ''final_draft_state'', str ''next_id'', str ''stop_reason'']) (\<lambda>fields'.
     check (every (ret fields') (\<lambda>k. eq (index (ret a) (ret k)) (index (ret b) (ret k))))
       ''Recovery changed logits, committed tokens or draft state'' (
     check (eq (item (item (item (ret a) ''before'') ''expert_cache'') ''diagnostic_cache_state'')
         (item (item (item (ret b) ''before'') ''expert_cache'') ''diagnostic_cache_state''))
       ''Changed initial target cache'' (
     check (every (tuple_of [str ''recipe'', str ''budget_bytes'', str ''context'', str ''norm_convention'']) (\<lambda>k.
         eq (index (item (ret a) ''draft_before'') (ret k))
           (index (item (ret b) ''draft_before'') (ret k)))) ''Changed draft configuration'' (
     bnd (loop (tuple_of [str ''fixed_allocation_bytes'', str ''reserved_bytes'',
            str ''peak_incremental_bound_bytes'']) () (\<lambda>unused key.
       check (eq (index (item (ret a) ''target_recovery_journal'') (ret key))
           (index (item (ret b) ''target_recovery_journal'') (ret key)))
         ''Unequal journal capacity'' (
       Inr ()))) (\<lambda>unused.
     dict_of [(''exact_all_logits_tokens_and_state'', yes),
        (''ratio'', truediv (item (ret b) ''decode_wall_ns'') (item (ret a) ''decode_wall_ns'')),
        (''control_tps'', item (ret a) ''tokens_per_second''),
        (''candidate_tps'', item (ret b) ''tokens_per_second''),
        (''eliminated_target_forward_calls'', sum_of (each (item (ret a) ''cycles'') (\<lambda>c.
              item (ret c) ''target_recovery_forward_calls''))),
        (''eliminated_target_read_bytes'', sum_of (each (item (ret a) ''cycles'') (\<lambda>c.
              item (ret c) ''target_recovery_read_bytes''))),
        (''candidate_target_recovery_forward_calls'', sum_of (each (item (ret b) ''cycles'') (\<lambda>c.
              item (ret c) ''target_recovery_forward_calls''))),
        (''candidate_target_recovery_read_bytes'', sum_of (each (item (ret b) ''cycles'') (\<lambda>c.
              item (ret c) ''target_recovery_read_bytes'')))])))))))"

end
