(* ===== verification/StreamedMtp.thy ===== *)
theory StreamedMtp
  imports TargetRecovery
begin

text \<open>
  Streamed-embedding and width screens of multi-token prediction (\<open>scripts/qwen/screen_streamed_mtp.py\<close>,
  \<open>screen_mtp_widths.py\<close>, \<open>screen_mtp_continuation.py\<close>, \<open>verify_mtp_forward.py\<close>).
\<close>

definition kernel_policy_tile :: "pyval \<Rightarrow> expr" where
  "kernel_policy_tile rows =
     branch (isin (ret rows) (tuple_of [num 2, num 4])) (ret rows) (num 1)"

definition kernel_policy_policy :: "pyval \<Rightarrow> expr" where
  "kernel_policy_policy value =
     each_dict (each_if (items_of (ret value)) (\<lambda>tup1.
         unpack2 tup1 (\<lambda>k v. ne (ret k) (str ''token_tile''))) (\<lambda>x. ret x)) (\<lambda>tup2.
       unpack2 tup2 (\<lambda>k v. ret k)) (\<lambda>tup3. unpack2 tup3 (\<lambda>k v. ret v))"

definition kernel_policy :: "pyval \<Rightarrow> expr" where
  "kernel_policy raw =
     bnd (item (item (item (ret raw) ''before'') ''metal'') ''kernels'') (\<lambda>before.
     bnd (item (item (item (ret raw) ''after'') ''metal'') ''kernels'') (\<lambda>after.
     check (conjs [eq (item (ret before) ''token_tile'')
              (call1 kernel_policy_tile
                  (modulo (sub (item (ret raw) ''prompt_tokens'') (num 1)) (num 16))),
          eq (item (ret after) ''token_tile'')
              (call1 kernel_policy_tile
                  (item (index (item (ret raw) ''cycles'') (num (- 1))) ''committed_tokens''))])
       ''Kernel row tile differs from the actual draft input shape'' (
     check (eq (kernel_policy_policy before) (kernel_policy_policy after))
       ''Kernel policy changed during run'' (
     kernel_policy_policy before))))"

definition observed :: "pyval \<Rightarrow> pyval \<Rightarrow> pyval \<Rightarrow> pyval \<Rightarrow> expr" where
  "observed raw work input_sha validation =
     bnd (observe raw work input_sha validation (PBool True)) (\<lambda>result.
     check (eq (item (ret raw) ''target_recovery'') (str ''full-replay''))
       ''Width screening retains full-replay until recovery qualifies'' (
     bnd (kernel_policy raw) (\<lambda>unused.
     bnd (account raw) (\<lambda>totals.
     merge (dict_from (ret result))
       (dict_of [(''requested_width'', item (ret raw) ''requested_width''),
            (''acceptance_by_position'', each_dict (items_of (item (ret totals)
                    ''acceptance_by_position'')) (\<lambda>tup1. unpack2 tup1 (\<lambda>k v. format_of [ret k])) (\<lambda>tup2.
                unpack2 tup2 (\<lambda>k v. ret v))),
            (''target_expert_bytes_per_committed_token'', item (ret totals)
                ''target_expert_bytes_per_committed_token'')])))))"

definition SAVING :: pyval where
  "SAVING = PInt (675446784 - 2 * 1024 ^ 2)"

definition STREAMED_ARMS :: pyval where
  "STREAMED_ARMS = PTuple [PStr ''resident'', PStr ''rows'']"

definition RESIDENT :: pyval where
  "RESIDENT = PInt 5362515968"

definition PLANNED :: pyval where
  "PLANNED = PInt 11809357824"

definition observe_streamed :: "pyval \<Rightarrow> pyval \<Rightarrow> pyval \<Rightarrow> pyval \<Rightarrow> pyval \<Rightarrow> pyval \<Rightarrow> pyval \<Rightarrow> pyval \<Rightarrow> expr" where
  "observe_streamed raw work input_sha producer_sha width arm validation priming_policy =
     check (conjs [type_in (ret width) [TInt], isin (ret width) (tuple_of [num 1, num 4]),
          isin (ret arm) (ret STREAMED_ARMS),
          eq (item (ret raw) ''producer_binary_sha256'') (ret producer_sha),
          eq (item (ret raw) ''requested_width'') (ret width),
          eq (item (ret raw) ''embedding_storage'') (ret arm),
          same (item (ret raw) ''embedding_owner_released'') yes])
       ''Changed producer, width, embedding storage or retained owner'' (
     check (eq (get_or (ret raw) ''draft_priming_policy'' (str ''completion'')) (ret priming_policy))
       ''Changed draft priming policy'' (
     bnd (branch (ne (ret priming_policy) (str ''completion''))
         (check (eq (ret priming_policy) (str ''fixed-lease-batches-32''))
             ''Unknown draft priming policy'' (
           bnd (item (ret raw) ''draft_priming_before'') (\<lambda>priming.
           check (conjs [eq (ret priming) (item (ret raw) ''draft_priming_after''),
                eq (item (ret priming) ''policy'') (ret priming_policy),
                same (item (ret priming) ''active'') no,
                every (tuple_of [str ''calls'', str ''batches'', str ''experts'', str ''peak_leases'']) (\<lambda>k.
                    conjs [type_in (index (ret priming) (ret k)) [TInt],
                       gt (index (ret priming) (ret k)) (num 0)]),
                conjs [le (item (ret priming) ''calls'') (item (ret priming) ''batches''),
                     le (item (ret priming) ''batches'') (item (ret priming) ''experts'')],
                le (item (ret priming) ''peak_leases'') (num 32)])
             ''Incomplete priming or fixed scheduling continued during decode'' (
           Inr ())))) (Inr ())) (\<lambda>unused.
     bnd (observed raw work input_sha validation) (\<lambda>result.
     check (conjs [same (item (ret raw) ''production_promoted'') no,
          same (item (ret raw) ''normal_request_latency_qualified'') no])
       ''Developer trial cannot qualify production'' (
     bnd (item (item (ret raw) ''admission'') ''target'') (\<lambda>plan.
     bnd (branch (eq (ret arm) (str ''rows'')) (ret SAVING) (num 0)) (\<lambda>saving.
     check (conjs [eq (item (ret plan) ''resident_bytes'') (sub (ret RESIDENT) (ret saving)),
          eq (item (ret plan) ''planned_bytes'') (sub (ret PLANNED) (ret saving)),
          eq (item (item (ret raw) ''admission'') ''draft_bytes'') (num 318234624),
          eq (item (item (ret raw) ''admission'') ''host_checkpoint_logits_bytes'') (num 151158784),
          eq (item (item (ret raw) ''admission'') ''combined_bytes'')
              (add (add (add (item (ret plan) ''planned_bytes'') (num 318234624)) (num 151158784))
                  (num (18 * 1024 ^ 2)))]) ''Unexpected joint memory accounting'' (
     bnd (loop (tuple_of [str ''before'', str ''after'']) () (\<lambda>unused edge.
       check (conjs [eq (item (index (ret raw) (ret edge)) ''memory_plan'') (ret plan),
            eq (item (index (ret raw) (ret edge)) ''artifact_revision'')
                (str ''b2c422f3c643e36f04227a64d61796b44a4b1029''),
            eq (item (item (index (ret raw) (ret edge)) ''expert_cache'') ''policy'')
                (str ''clock'')]) ''Changed artifact or memory/cache controls'' (
       bnd (index (ret raw) (add (str ''embedding_rows_'') (ret edge))) (\<lambda>entry.
       bnd (branch (eq (ret arm) (str ''resident''))
           (check (same (ret entry) none) ''Resident arm unexpectedly uses row storage'' (
             Inr ()))
           (check (conjs [eq (item (ret entry) ''storage'') (str ''exact-packed-rows''),
                  eq (item (ret entry) ''capacity'') (num 256),
                  eq (item (ret entry) ''host_reserve_bytes'') (num (2 * 1024 ^ 2)),
                  conjs [lt (num 0) (item (ret entry) ''fixed_host_bytes''),
                       lt (item (ret entry) ''fixed_host_bytes'') (num (2 * 1024 ^ 2))],
                  eq (item (ret entry) ''row_bytes'') (num 2720),
                  eq (item (ret entry) ''removed_resident_allocation_bytes'') (num 675446784),
                  every (tuple_of [str ''hits'', str ''misses'', str ''evictions'',
                         str ''application_read_bytes'']) (\<lambda>k.
                      conjs [type_in (index (ret entry) (ret k)) [TInt],
                         ge (index (ret entry) (ret k)) (num 0)]),
                  eq (item (ret entry) ''application_read_bytes'')
                      (mul (num 2720) (item (ret entry) ''misses''))])
               ''Changed row storage or incomplete reads'' (
             Inr ()))) (\<lambda>unused.
       Inr ()))))) (\<lambda>unused.
     bnd (branch (eq (ret arm) (str ''rows''))
         (bnd (each (tuple_of [str ''before'', str ''after'']) (\<lambda>k.
               index (ret raw) (add (str ''embedding_rows_'') (ret k)))) (\<lambda>tup1.
           unpack2 tup1 (\<lambda>a b.
           check (every (tuple_of [str ''hits'', str ''misses'', str ''evictions'', str ''application_read_bytes'']) (\<lambda>k.
               ge (index (ret b) (ret k)) (index (ret a) (ret k))))
             ''Embedding counters reset during request'' (
           Inr ())))) (Inr ())) (\<lambda>unused.
     bnd (loop (item (ret raw) ''cycles'') () (\<lambda>unused c.
       check (conjs [eq (size_of (item (ret c) ''unforced_proposals'')) (item (ret c) ''width''),
            eq (index (item (ret c) ''unforced_proposals'') (num 0))
                (index (item (ret c) ''proposals'') (num 0)),
            every (item (ret c) ''unforced_proposals'') (\<lambda>t.
                conjs [type_in (ret t) [TInt], conjs [le (num 0) (ret t), lt (ret t) (num 248320)]])])
         ''Missing actual proposals'' (
       check (disjs [item (ret c) ''forced_rejection'',
            eq (item (ret c) ''unforced_proposals'') (item (ret c) ''proposals'')])
         ''Unexplained proposal change'' (
       bnd (loop (tuple_of [tuple_of [str ''draft_row_logits_sha256'', sub (item (ret c) ''width'') (num 1)],
              tuple_of [str ''verified_row_logits_sha256'', item (ret c) ''width'']]) () (\<lambda>unused tup2.
         unpack2 tup2 (\<lambda>key count.
           check (conjs [eq (size_of (index (ret c) (ret key)))
                    (branch (ret validation) (ret count) (num 0)),
                every (index (ret c) (ret key)) (\<lambda>h.
                    conjs [isinstance (ret h) [TStr], eq (size_of (ret h)) (num 64),
                       le (set_of (ret h)) (set_of (str ''0123456789abcdef''))])])
             ''Incomplete draft/verification logit coverage'' (
           Inr ())))) (\<lambda>unused.
       Inr ()))))) (\<lambda>unused.
     bnd (branch (ret validation)
         (check (conjs [eq (item (item (ret raw) ''initial_target_state'') ''tokens'')
                    (size_of (item (ret work) ''prompt_ids'')),
                eq (item (item (ret raw) ''initial_draft_state'') ''position'')
                    (sub (size_of (item (ret work) ''prompt_ids'')) (num 1))])
             ''Missing primed state'' (
           Inr ())) (Inr ())) (\<lambda>unused.
     merge (dict_from (ret result))
       (dict_of [(''planned_saving_bytes'', ret saving), (''embedding_storage'', ret arm)])))))))))))))"

definition compare :: "pyval \<Rightarrow> pyval \<Rightarrow> expr" where
  "compare a b =
     check (eq (tuple_of [item (ret a) ''embedding_storage'', item (ret b) ''embedding_storage''])
         (ret STREAMED_ARMS)) ''Wrong storage arms'' (
     check (eq (get_or (ret a) ''draft_priming_policy'' (str ''completion''))
         (get_or (ret b) ''draft_priming_policy'' (str ''completion'')))
       ''Changed draft priming schedule'' (
     bnd (branch (eq (get (ret a) ''draft_priming_policy'') (str ''fixed-lease-batches-32''))
         (check (eq (item (ret a) ''draft_priming_before'') (item (ret b) ''draft_priming_before''))
             ''Draft priming work differs'' (
           Inr ())) (Inr ())) (\<lambda>unused.
     bnd (tuple_of [str ''kind'', str ''complete'', str ''producer_binary_sha256'', str ''input_sha256'',
          str ''requested_width'', str ''mode'', str ''validation'', str ''target_recovery'',
          str ''draft_manifest_sha256'', str ''prompt_tokens'', str ''requested_tokens'',
          str ''eos_ids'', str ''prime_logits_sha256'', str ''committed_token_ids'',
          str ''row_logits_sha256'', str ''final_target_state'', str ''final_draft_state'',
          str ''boundaries'', str ''generated_tokens'', str ''next_id'', str ''stop_reason'',
          str ''host_checkpoint_allocated_bytes'', str ''target_recovery_journal'',
          str ''ngram_before_decode'', str ''ngram_after_decode'']) (\<lambda>fields'.
     check (every (ret fields') (\<lambda>k. eq (index (ret a) (ret k)) (index (ret b) (ret k))))
       ''Storage changed identity, logits, output or state'' (
     check (eq (size_of (item (ret a) ''cycles'')) (size_of (item (ret b) ''cycles'')))
       ''Storage changed cycle count'' (
     bnd (tuple_of [str ''offset'', str ''width'', str ''proposals'', str ''unforced_proposals'',
          str ''draft_row_logits_sha256'', str ''verified_row_logits_sha256'',
          str ''accepted_proposals'', str ''committed_tokens'', str ''forced_rejection'',
          str ''next_id'', str ''target_recovery_forward_calls'']) (\<lambda>keys.
     check (every (zip_of (item (ret a) ''cycles'') (item (ret b) ''cycles'')) (\<lambda>tup1.
         unpack2 tup1 (\<lambda>x y.
           every (ret keys) (\<lambda>k. eq (index (ret x) (ret k)) (index (ret y) (ret k))))))
       ''Storage changed draft predictions, verifier logits or rejection recovery'' (
     bnd (loop (tuple_of [str ''before'', str ''after'']) () (\<lambda>unused edge.
       bnd (loop (tuple_of [str ''prepared'', str ''execution'', str ''completion_pipeline'', str ''ready_group'',
              str ''chunk_tokens'', str ''io_workers'', str ''short_append_tokens'']) () (\<lambda>unused key.
         check_msg (eq (index (index (ret a) (ret edge)) (ret key))
             (index (index (ret b) (ret edge)) (ret key)))
           (add (str ''Storage changed execution/cache control '') (ret key)) (
         Inr ()))) (\<lambda>unused.
       check (eq (item (item (index (ret a) (ret edge)) ''metal'') ''kernels'')
           (item (item (index (ret b) (ret edge)) ''metal'') ''kernels''))
         ''Storage changed arithmetic policy'' (
       bnd (loop (tuple_of [str ''recipe'', str ''budget_bytes'', str ''context'', str ''norm_convention''])
           () (\<lambda>unused key.
         check (eq (index (index (ret a) (add (str ''draft_'') (ret edge))) (ret key))
             (index (index (ret b) (add (str ''draft_'') (ret edge))) (ret key)))
           ''Storage changed draft configuration'' (
         Inr ()))) (\<lambda>unused.
       bnd (loop (tuple_of [ret edge, add (str ''draft_'') (ret edge)]) () (\<lambda>unused scope.
         bnd (loop (tuple_of [str ''policy'', str ''entry_metadata_bytes'']) () (\<lambda>unused key.
           check (eq (index (item (index (ret a) (ret scope)) ''expert_cache'') (ret key))
               (index (item (index (ret b) (ret scope)) ''expert_cache'') (ret key)))
             ''Storage changed cache allocation/policy'' (
           Inr ()))) (\<lambda>unused.
         Inr ()))) (\<lambda>unused.
       Inr ())))))) (\<lambda>unused.
     bnd (each_dict (tuple_of [str ''before'', str ''draft_before'']) (\<lambda>scope. ret scope) (\<lambda>scope.
         eq (item (item (index (ret a) (ret scope)) ''expert_cache'') ''diagnostic_cache_state'')
           (item (item (index (ret b) (ret scope)) ''expert_cache'') ''diagnostic_cache_state''))) (\<lambda>initial_cache_equal.
     bnd (branch (disjs [nay (item (ret a) ''validation''),
            eq (get (ret a) ''draft_priming_policy'') (str ''fixed-lease-batches-32'')])
         (check (every (values_of (ret initial_cache_equal)) (\<lambda>x. ret x))
             ''Changed initial cache state'' (
           Inr ())) (Inr ())) (\<lambda>unused.
     bnd (merge (dict_from (item (ret a) ''admission''))
         (dict_of [(''target'', dict_from (item (item (ret a) ''admission'') ''target''))])) (\<lambda>expected.
     bnd (loop (tuple_of [str ''resident_bytes'', str ''planned_bytes'']) expected (\<lambda>expected key.
       bnd (put (ret expected) (str ''target'')
           (put (item (ret expected) ''target'') (ret key)
               (sub (index (item (ret expected) ''target'') (ret key)) (ret SAVING)))) (\<lambda>expected.
       ret expected))) (\<lambda>expected.
     bnd (put (ret expected) (str ''combined_bytes'')
         (sub (item (ret expected) ''combined_bytes'') (ret SAVING))) (\<lambda>expected.
     check (eq (item (ret b) ''admission'') (ret expected)) ''Unaccounted admission difference'' (
     branch (item (ret a) ''validation'')
       (check (conjs [eq (item (ret a) ''initial_target_state'') (item (ret b) ''initial_target_state''),
              eq (item (ret a) ''initial_draft_state'') (item (ret b) ''initial_draft_state'')])
           ''Storage changed priming state'' (
         dict_of [(''exact_proposals_logits_and_state'', yes), (''timing_used'', no),
            (''initial_cache_equal'', ret initial_cache_equal)])) (
     check (eq (item (ret a) ''generated_tokens'') (item (ret a) ''requested_tokens''))
       ''Incomplete timing length'' (
     dict_of [(''exact_proposals_logits_and_state'', yes), (''timing_used'', yes),
        (''latency_ratio'', truediv (item (ret b) ''decode_wall_ns'')
            (item (ret a) ''decode_wall_ns'')),
        (''control_tps'', item (ret a) ''tokens_per_second''),
        (''candidate_tps'', item (ret b) ''tokens_per_second''),
        (''physical_peak_saved_bytes'', sub (item (item (ret a) ''after_destroy'')
              ''physical_footprint_peak_bytes'')
            (item (item (ret b) ''after_destroy'') ''physical_footprint_peak_bytes'')),
        (''planned_saving_bytes'', ret SAVING), (''normal_request_latency_qualified'', no)])))))))))))))))))"

definition compare_widths :: "pyval \<Rightarrow> pyval \<Rightarrow> expr" where
  "compare_widths a b =
     check (conjs [conjs [eq (item (ret a) ''kind'') (item (ret b) ''kind''),
               eq (item (ret b) ''kind'') (str ''native_mtp_width_v1'')],
          conjs [same (item (ret a) ''complete'') (item (ret b) ''complete''),
               same (item (ret b) ''complete'') yes]]) ''Incomplete width comparison'' (
     bnd (tuple_of [str ''producer_binary_sha256'', str ''mode'', str ''validation'', str ''target_recovery'',
          str ''admission'', str ''draft_manifest_sha256'', str ''prompt_tokens'',
          str ''requested_tokens'', str ''eos_ids'', str ''prime_logits_sha256'',
          str ''committed_token_ids'', str ''row_logits_sha256'', str ''final_target_state'',
          str ''final_draft_state'', str ''generated_tokens'', str ''next_id'', str ''stop_reason'',
          str ''host_checkpoint_allocated_bytes'']) (\<lambda>fields'.
     check (every (ret fields') (\<lambda>k. eq (index (ret a) (ret k)) (index (ret b) (ret k))))
       ''Width changed identity, logits, output or persistent state'' (
     bnd (loop (tuple_of [ret a, ret b]) () (\<lambda>unused raw.
       bnd (account raw) (\<lambda>unused.
       check (disjs [item (ret raw) ''validation'',
            eq (item (ret raw) ''generated_tokens'') (item (ret raw) ''requested_tokens'')])
         ''Fixed-length width timing stopped before the requested output length'' (
       Inr ())))) (\<lambda>unused.
     check (conjs [eq (kernel_policy a) (kernel_policy b),
          eq (item (item (ret a) ''before'') ''prepared'')
              (item (item (ret b) ''before'') ''prepared''),
          eq (item (item (ret a) ''before'') ''artifact_revision'')
              (item (item (ret b) ''before'') ''artifact_revision''),
          eq (item (item (item (ret a) ''before'') ''expert_cache'') ''diagnostic_cache_state'')
              (item (item (item (ret b) ''before'') ''expert_cache'') ''diagnostic_cache_state'')])
       ''Changed arithmetic, artifact or starting cache'' (
     bnd (loop (tuple_of [str ''recipe'', str ''budget_bytes'', str ''context'', str ''norm_convention''])
         () (\<lambda>unused key.
       check (eq (index (item (ret a) ''draft_before'') (ret key))
           (index (item (ret b) ''draft_before'') (ret key))) ''Changed draft configuration'' (
       Inr ()))) (\<lambda>unused.
     bnd (loop (tuple_of [str ''fixed_allocation_bytes'', str ''reserved_bytes'',
            str ''peak_incremental_bound_bytes'']) () (\<lambda>unused key.
       check (eq (index (item (ret a) ''target_recovery_journal'') (ret key))
           (index (item (ret b) ''target_recovery_journal'') (ret key)))
         ''Changed journal capacity'' (
       Inr ()))) (\<lambda>unused.
     bnd (branch (item (ret a) ''validation'')
         (check (eq (item (ret a) ''requested_width'') (num 1))
             ''Use serial-width validation as the boundary reference'' (
           bnd (each_dict (item (ret a) ''boundaries'') (\<lambda>r. item (ret r) ''tokens'') (\<lambda>r. ret r)) (\<lambda>boundaries.
           check (conjs [eq (size_of (ret boundaries)) (item (ret a) ''generated_tokens''),
                eq (size_of (item (ret b) ''boundaries'')) (size_of (item (ret b) ''cycles'')),
                every (item (ret b) ''boundaries'') (\<lambda>r.
                    eq (lookup (ret boundaries) (item (ret r) ''tokens'')) (ret r))])
             ''A committed boundary differs from serial-width replay'' (
           Inr ())))) (Inr ())) (\<lambda>unused.
     dict_of [(''exact_all_logits_tokens_and_state'', yes),
        (''ratio'', truediv (item (ret b) ''decode_wall_ns'') (item (ret a) ''decode_wall_ns'')),
        (''control_tps'', item (ret a) ''tokens_per_second''),
        (''candidate_tps'', item (ret b) ''tokens_per_second'')]))))))))"

definition observe_continuation :: "pyval \<Rightarrow> pyval \<Rightarrow> pyval \<Rightarrow> pyval \<Rightarrow> expr" where
  "observe_continuation raw work input_sha mode =
     check (conjs [eq (get (ret raw) ''kind'') (str ''native_mtp_continuation_v1''),
          same (get (ret raw) ''complete'') yes, eq (item (ret raw) ''mode'') (ret mode),
          same (item (ret raw) ''validation'')
              (isin (ret mode) (tuple_of [str ''validate'', str ''fast-validate''])),
          eq (item (ret raw) ''input_sha256'') (ret input_sha)])
       ''Incomplete or incompatible continuation'' (
     bnd (branch (item (ret raw) ''validation'') (num 8) (item (ret work) ''max_tokens'')) (\<lambda>count.
     bnd (item (ret raw) ''cycles'') (\<lambda>cycles.
     bnd (list_of []) (\<lambda>ids.
     bnd (size_of (item (ret work) ''prompt_ids'')) (\<lambda>offset.
     bnd (num 0) (\<lambda>proposed.
     bnd (ret proposed) (\<lambda>accepted.
     bnd (ret proposed) (\<lambda>wall.
     bnd (loop (ret cycles) (ids, offset, proposed, accepted, wall) (\<lambda>(ids, offset, proposed, accepted, wall) c.
       bnd (item (ret c) ''committed_tokens'') (\<lambda>n.
       bnd (item (ret c) ''width'') (\<lambda>width.
       check (conjs [eq (item (ret c) ''offset'') (ret offset),
            isin (ret width)
                (branch (eq (ret mode) (str ''serial'')) (tuple_of [num 1])
                    (tuple_of [num 1, num 4])),
            eq (size_of (item (ret c) ''proposals'')) (ret width),
            conjs [le (num 1) (ret n), le (ret n) (ret width)],
            eq (item (ret c) ''accepted_proposals'') (sub (ret n) (num 1)),
            gt (item (ret c) ''wall_ns'') (num 0),
            le (sum_of (each (tuple_of [str ''draft_ns'', str ''verify_ns'', str ''recovery_ns'']) (\<lambda>k.
                    index (ret c) (ret k)))) (item (ret c) ''wall_ns'')])
         ''Invalid continuation cycle coverage'' (
       check (disjs [item (ret raw) ''validation'', same (item (ret c) ''forced_rejection'') no])
         ''Forced timing proposal'' (
       bnd (add (ret ids) (slice (item (ret c) ''proposals'') none (ret n))) (\<lambda>ids.
       bnd (add (ret offset) (ret n)) (\<lambda>offset.
       bnd (add (ret proposed) (sub (ret width) (num 1))) (\<lambda>proposed.
       bnd (add (ret accepted) (sub (ret n) (num 1))) (\<lambda>accepted.
       bnd (add (ret wall) (item (ret c) ''wall_ns'')) (\<lambda>wall.
       Inr (ids, offset, proposed, accepted, wall)))))))))))) (\<lambda>(ids, offset, proposed, accepted, wall).
     check (conjs [eq (ret ids) (item (ret raw) ''committed_token_ids''),
          conjs [lt (num 0) (size_of (ret ids)), le (size_of (ret ids)) (ret count)],
          eq (item (ret raw) ''generated_tokens'') (size_of (ret ids)),
          eq (item (ret raw) ''requested_tokens'') (ret count),
          eq (item (ret raw) ''prompt_tokens'') (size_of (item (ret work) ''prompt_ids'')),
          eq (item (ret raw) ''eos_ids'') (item (ret work) ''eos_ids''),
          eq (item (ret raw) ''proposed_tokens'') (ret proposed),
          eq (item (ret raw) ''accepted_proposals'') (ret accepted),
          eq (item (ret raw) ''decode_wall_ns'') (ret wall),
          eq (item (ret raw) ''tokens_per_second'')
              (truediv (mul (size_of (ret ids)) (flt 1000000000)) (ret wall)),
          ge (item (ret raw) ''decode_including_reporting_ns'') (ret wall)])
       ''Changed continuation totals'' (
     check (conjs [eq (size_of (item (ret raw) ''row_logits_sha256'')) (size_of (ret ids)),
          every (item (ret raw) ''row_logits_sha256'') (\<lambda>h.
              conjs [isinstance (ret h) [TStr], eq (size_of (ret h)) (num 64)])])
       ''Missing full-vocabulary logit coverage'' (
     check (conjs [nay (some (slice (ret ids) none (num (- 1))) (\<lambda>i.
                isin (ret i) (item (ret work) ''eos_ids''))),
          disjs [conjs [eq (item (ret raw) ''stop_reason'') (str ''eos''),
                    isin (index (ret ids) (num (- 1))) (item (ret work) ''eos_ids'')],
               conjs [eq (item (ret raw) ''stop_reason'') (str ''length''),
                    eq (size_of (ret ids)) (ret count),
                    notin (index (ret ids) (num (- 1))) (item (ret work) ''eos_ids'')]]])
       ''Invalid EOS/length termination'' (
     check (conjs [same (item (item (ret raw) ''final_target_state'') ''valid'') yes,
          eq (item (item (ret raw) ''final_target_state'') ''tokens'') (ret offset),
          every (item (item (ret raw) ''final_target_state'') ''layers'') (\<lambda>l.
              eq (item (ret l) ''position'') (ret offset))]) ''Target state position differs'' (
     bnd (branch (ne (ret mode) (str ''serial''))
         (check (conjs [same (item (item (ret raw) ''final_draft_state'') ''valid'') yes,
                eq (item (item (ret raw) ''final_draft_state'') ''position'')
                    (sub (ret offset) (num 1))]) ''Draft state position differs'' (
           Inr ())) (Inr ())) (\<lambda>unused.
     bnd (branch (item (ret raw) ''validation'')
         (check (some (ret cycles) (\<lambda>c.
               conjs [item (ret c) ''forced_rejection'',
                  eq (item (ret c) ''accepted_proposals'') (num 0)])) ''Missing forced rejection'' (
           Inr ())) (Inr ())) (\<lambda>unused.
     merge (clean raw)
       (dict_of [(''tokens_per_second'', item (ret raw) ''tokens_per_second''),
            (''generated_tokens'', size_of (ret ids)), (''proposed_tokens'', ret proposed),
            (''accepted_proposals'', ret accepted),
            (''acceptance_rate'', branch (ret proposed) (truediv (ret accepted) (ret proposed))
                none),
            (''mean_committed_per_cycle'', truediv (size_of (ret ids)) (size_of (ret cycles))),
            (''rejected_cycles'', sum_of (each (ret cycles) (\<lambda>c.
                  lt (item (ret c) ''committed_tokens'') (item (ret c) ''width'')))),
            (''component_ms_per_token'', each_dict (tuple_of [str ''draft'', str ''verify'', str ''recovery'', str ''wall'']) (\<lambda>k.
                ret k) (\<lambda>k.
                truediv (truediv (sum_of (each (ret cycles) (\<lambda>c.
                        index (ret c) (add (ret k) (str ''_ns''))))) (size_of (ret ids)))
                  (flt 1000000))),
            (''completed_requested_length'', eq (size_of (ret ids)) (ret count)),
            (''stop_reason'', item (ret raw) ''stop_reason'')]))))))))))))))))"

definition compare_continuation :: "pyval \<Rightarrow> pyval \<Rightarrow> expr" where
  "compare_continuation serial candidate =
     check (conjs [eq (item (ret serial) ''mode'') (str ''serial''),
          eq (item (ret candidate) ''mode'') (str ''fast-timing''),
          every (tuple_of [str ''input_sha256'', str ''admission'', str ''draft_manifest_sha256'',
                 str ''prime_logits_sha256'', str ''committed_token_ids'',
                 str ''row_logits_sha256'', str ''next_id'', str ''stop_reason'',
                 str ''final_target_state'']) (\<lambda>k.
              eq (index (ret serial) (ret k)) (index (ret candidate) (ret k)))])
       ''Continuation differs from fresh serial decoding'' (
     check (eq (item (item (item (ret serial) ''before'') ''expert_cache'')
           ''diagnostic_cache_state'')
         (item (item (item (ret candidate) ''before'') ''expert_cache'') ''diagnostic_cache_state''))
       ''Different initial target cache'' (
     dict_of [(''exact_all_logits_tokens_and_state'', yes),
        (''candidate_to_serial_ratio'', truediv (item (ret candidate) ''decode_wall_ns'')
            (item (ret serial) ''decode_wall_ns''))]))"

definition recovery_sample :: "pyval \<Rightarrow> pyval \<Rightarrow> pyval \<Rightarrow> pyval \<Rightarrow> pyval \<Rightarrow> expr" where
  "recovery_sample raw mode workload_sha draft_sha admission =
     bnd (isin (ret mode) (tuple_of [str ''validate'', str ''fast-validate''])) (\<lambda>validation.
     check (conjs [same (item (ret raw) ''complete'') yes, eq (item (ret raw) ''mode'') (ret mode),
          same (item (ret raw) ''validation'') (ret validation),
          eq (item (ret raw) ''input_sha256'') (ret workload_sha),
          eq (item (ret raw) ''draft_manifest_sha256'') (ret draft_sha),
          eq (item (ret raw) ''admission'') (ret admission)]) ''incompatible recovery sample'' (
     bnd (item (ret raw) ''cycles'') (\<lambda>cycles.
     bnd (branch (ret validation) (num 4) (num 16)) (\<lambda>count.
     check (conjs [conjs [eq (item (ret raw) ''generated_tokens'') (ret count),
               eq (ret count) (sum_of (each (ret cycles) (\<lambda>c. item (ret c) ''committed_tokens'')))],
          gt (item (ret raw) ''decode_wall_ns'') (num 0),
          eq (item (ret raw) ''decode_wall_ns'')
              (sum_of (each (ret cycles) (\<lambda>c. item (ret c) ''wall_ns''))),
          eq (item (ret raw) ''tokens_per_second'')
              (truediv (mul (ret count) (flt 1000000000)) (item (ret raw) ''decode_wall_ns''))])
       ''incomplete recovery coverage'' (
     check (conjs [eq (item (ret raw) ''proposed_tokens'')
              (sum_of (each (ret cycles) (\<lambda>c. sub (item (ret c) ''width'') (num 1)))),
          eq (item (ret raw) ''accepted_proposals'')
              (sum_of (each (ret cycles) (\<lambda>c. item (ret c) ''accepted_proposals''))),
          every (ret cycles) (\<lambda>c.
              conjs [isin (item (ret c) ''width'') (tuple_of [num 1, num 4]),
                 eq (size_of (item (ret c) ''proposals'')) (item (ret c) ''width''),
                 conjs [le (num 0) (item (ret c) ''accepted_proposals''),
                      lt (item (ret c) ''accepted_proposals'') (item (ret c) ''width'')],
                 eq (item (ret c) ''committed_tokens'')
                     (add (item (ret c) ''accepted_proposals'') (num 1))])])
       ''incomplete recovery acceptance'' (
     bnd (branch (ret validation)
         (check (conjs [eq (size_of (item (ret raw) ''boundaries'')) (size_of (ret cycles)),
                some (ret cycles) (\<lambda>c.
                    conjs [item (ret c) ''forced_rejection'',
                       eq (item (ret c) ''accepted_proposals'') (num 0)])])
             ''missing recovery validation'' (
           Inr ()))
         (check (nay (some (ret cycles) (\<lambda>c. item (ret c) ''forced_rejection'')))
             ''forced rejection in timing'' (
           Inr ()))) (\<lambda>unused.
     bnd (clean raw) (\<lambda>observed.
     bnd (list_extend (list_extend (list_of [item (ret raw) ''before_load'', item (ret raw) ''after_destroy''])
           (list_from (each (tuple_of [str ''before'', str ''after'']) (\<lambda>k.
                 item (index (ret raw) (ret k)) ''process''))))
         (list_from (flatten (each (ret cycles) (\<lambda>c.
                 each (tuple_of [str ''memory_before'', str ''memory_after'']) (\<lambda>k.
                   index (ret c) (ret k))))))) (\<lambda>memory.
     merge (merge (dict_of []) (ret observed))
       (dict_of [(''max_observed_compressed_peak_bytes'', max_of (each (ret memory) (\<lambda>m.
                  item (ret m) ''compressed_peak_bytes''))),
            (''decompressions'', sub (max_of (each (ret memory) (\<lambda>m.
                    item (ret m) ''decompressions'')))
                (min_of (each (ret memory) (\<lambda>m. item (ret m) ''decompressions'')))),
            (''observed_swap_range_bytes'', sub (max_of (each (ret memory) (\<lambda>m.
                    item (ret m) ''system_swap_used_bytes'')))
                (min_of (each (ret memory) (\<lambda>m. item (ret m) ''system_swap_used_bytes''))))]))))))))))"

end
