(* ===== verification/MtpComparison.thy ===== *)
theory MtpComparison
  imports StreamedMtp PerfectDraft ScreenCache
begin

text \<open>
  Comparisons of multi-token-prediction arms.
\<close>

definition counter_delta :: "pyval \<Rightarrow> pyval \<Rightarrow> expr" where
  "counter_delta r key =
     bnd (index (item (ret r) ''direct_output_before'') (ret key)) (\<lambda>a.
     bnd (index (item (ret r) ''direct_output_after'') (ret key)) (\<lambda>b.
     check (conjs [type_in (ret a) [TInt], type_in (ret b) [TInt],
          conjs [le (num 0) (ret a), le (ret a) (ret b)]]) ''Invalid direct-output counter'' (
     sub (ret b) (ret a))))"

definition comparison_direct_counters :: "pyval \<Rightarrow> expr" where
  "comparison_direct_counters r =
     bnd (each_dict (tuple_of [str ''allocation_count'', str ''scratch_reuses'', str ''dispatches'',
            str ''submissions'']) (\<lambda>k. ret k) (\<lambda>k.
         sub (index (item (item (ret r) ''after'') ''metal'') (ret k))
           (index (item (item (ret r) ''before'') ''metal'') (ret k)))) (\<lambda>values.
     check (every (values_of (ret values)) (\<lambda>v. conjs [type_in (ret v) [TInt], ge (ret v) (num 0)]))
       ''Invalid Metal counter delta'' (
     ret values))"

definition comparison_direct :: "pyval \<Rightarrow> pyval \<Rightarrow> expr" where
  "comparison_direct a b =
     bnd (equivalent a b) (\<lambda>unused.
     bnd (tuple_of [str ''mode'', str ''validation'', str ''committed_token_ids'', str ''row_logits_sha256'',
          str ''final_draft_state'', str ''next_id'', str ''stop_reason'']) (\<lambda>fields'.
     check (every (ret fields') (\<lambda>k. eq (index (ret a) (ret k)) (index (ret b) (ret k))))
       ''Direct output changed full results or draft state'' (
     check (eq (item (item (item (ret a) ''before'') ''expert_cache'') ''diagnostic_cache_state'')
         (item (item (item (ret b) ''before'') ''expert_cache'') ''diagnostic_cache_state''))
       ''Changed initial expert cache'' (
     bnd (loop (tuple_of [tuple_of [ret a, no], tuple_of [ret b, yes]]) () (\<lambda>unused tup1.
       unpack2 tup1 (\<lambda>r enabled.
         check (every (tuple_of [str ''before'', str ''after'']) (\<lambda>p.
             conjs [same (item (index (ret r) (add (str ''direct_output_'') (ret p))) ''enabled'')
                    (ret enabled),
                same (item (index (ret r) (add (str ''direct_output_'') (ret p))) ''active'') no]))
           ''Missing controlled direct-output setting or leaked scope'' (
         check (conjs [same (item (item (ret r) ''expert_scratch_after'') ''enabled'') no,
              eq (item (item (ret r) ''expert_scratch_after'') ''forwards'') (num 0),
              eq (item (item (ret r) ''expert_scratch_after'') ''groups'') (num 0)])
           ''Uncontrolled scratch difference'' (
         check (conjs [eq (item (item (ret r) ''admission'') ''expert_scratch_reserve_bytes'')
                  (num (2 * 1024 ^ 2)),
              le (item (item (ret r) ''admission'') ''combined_bytes'') (num (12 * 1024 ^ 3))])
           ''Changed joint admission'' (
         check (conjs [eq (item (item (item (ret r) ''after'') ''metal'') ''active_scratch_slot'')
                  (num (- 1)),
              eq (item (item (item (ret r) ''after'') ''metal'') ''live_command_groups'') (num 0)])
           ''Outstanding GPU users'' (
         check (conjs [eq (call2 counter_delta (ret r) (str ''forwards''))
                  (sum_of (each (item (ret r) ''cycles'') (\<lambda>c. eq (item (ret c) ''width'') (num 4)))),
              gt (sum_of (each (item (ret r) ''cycles'') (\<lambda>c. eq (item (ret c) ''width'') (num 4))))
                  (num 0)]) ''Incomplete verifier scope coverage'' (
         check (eq (call2 counter_delta (ret r) (str ''avoided_copy_bytes''))
             (mul (mul (call2 counter_delta (ret r) (str ''direct_writes'')) (num 2560)) (num 4)))
           ''Incorrect copy byte accounting'' (
         check (eq (item (ret r) ''ngram_initialization'') (str ''lazy'')) ''Changed ngram mode'' (
         bnd (loop (tuple_of [str ''before'', str ''after'']) () (\<lambda>unused p.
           bnd (index (ret r) (add (add (str ''ngram_'') (ret p)) (str ''_decode''))) (\<lambda>n.
           check (conjs [conjs [lt (num 0) (item (ret n) ''constructed_rows''),
                     eq (item (ret n) ''constructed_rows'') (item (ret n) ''cached_rows''),
                     le (item (ret n) ''cached_rows'') (item (ret n) ''capacity_rows'')],
                conjs [le (item (ret n) ''initialized_row_bytes'')
                         (item (ret n) ''reserved_row_bytes''),
                     lt (item (ret n) ''reserved_row_bytes'') (num (64 * 1024 ^ 2))],
                eq (item (ret n) ''hits'') (item (index (ret r) (ret p)) ''ngram_hits''),
                eq (item (ret n) ''misses'') (item (index (ret r) (ret p)) ''ngram_misses'')])
             ''Invalid ngram accounting'' (
           Inr ())))) (\<lambda>unused.
         Inr ()))))))))))) (\<lambda>unused.
     bnd (call2 counter_delta (ret a) (str ''eligible_calls'')) (\<lambda>eligible.
     bnd (call2 counter_delta (ret b) (str ''direct_writes'')) (\<lambda>direct.
     check (conjs [conjs [eq (ret eligible) (call2 counter_delta (ret b) (str ''eligible_calls'')),
               eq (call2 counter_delta (ret b) (str ''eligible_calls'')) (ret direct),
               gt (ret direct) (num 0)],
          eq (call2 counter_delta (ret a) (str ''direct_writes'')) (num 0)])
       ''Single-row direct output coverage differs'' (
     check (every (tuple_of [str ''before'', str ''after'']) (\<lambda>p.
         eq (index (ret a) (add (add (str ''ngram_'') (ret p)) (str ''_decode'')))
           (index (ret b) (add (add (str ''ngram_'') (ret p)) (str ''_decode'')))))
       ''Changed logical ngram cache'' (
     bnd (comparison_direct_counters a) (\<lambda>ca.
     bnd (comparison_direct_counters b) (\<lambda>cb.
     check (eq (sub (item (ret ca) ''dispatches'') (item (ret cb) ''dispatches'')) (ret direct))
       ''Dispatch difference exceeds controlled scatter removal'' (
     dict_of [(''exact_all_logits_tokens_and_state'', yes),
        (''ratio'', truediv (item (ret b) ''decode_wall_ns'') (item (ret a) ''decode_wall_ns'')),
        (''control_tps'', item (ret a) ''tokens_per_second''),
        (''candidate_tps'', item (ret b) ''tokens_per_second''), (''control_counters'', ret ca),
        (''candidate_counters'', ret cb), (''direct_writes'', ret direct),
        (''avoided_copy_bytes'', mul (mul (ret direct) (num 2560)) (num 4)),
        (''lazy_cache_exact'', yes)]))))))))))))"

definition comparison_scratch_counters :: "pyval \<Rightarrow> expr" where
  "comparison_scratch_counters r =
     each_dict (tuple_of [str ''allocation_count'', str ''scratch_reuses'', str ''dispatches'', str ''submissions'']) (\<lambda>k.
       ret k) (\<lambda>k.
       sub (index (item (item (ret r) ''after'') ''metal'') (ret k))
         (index (item (item (ret r) ''before'') ''metal'') (ret k)))"

definition comparison_scratch :: "pyval \<Rightarrow> pyval \<Rightarrow> expr" where
  "comparison_scratch a b =
     bnd (equivalent a b) (\<lambda>unused.
     check (every (tuple_of [str ''mode'', str ''validation'', str ''committed_token_ids'',
            str ''row_logits_sha256'', str ''final_draft_state'', str ''next_id'',
            str ''stop_reason'']) (\<lambda>k. eq (index (ret a) (ret k)) (index (ret b) (ret k))))
       ''Scratch reuse changed full outputs or draft state'' (
     check (eq (item (item (item (ret a) ''before'') ''expert_cache'') ''diagnostic_cache_state'')
         (item (item (item (ret b) ''before'') ''expert_cache'') ''diagnostic_cache_state''))
       ''Changed initial expert cache'' (
     check (conjs [same (item (item (ret a) ''expert_scratch_after'') ''enabled'') no,
          same (item (item (ret b) ''expert_scratch_after'') ''enabled'') yes])
       ''Missing controlled scratch difference'' (
     check (conjs [eq (item (item (ret a) ''expert_scratch_after'') ''forwards'') (num 0),
          gt (item (item (ret b) ''expert_scratch_after'') ''forwards'') (num 0),
          gt (item (item (ret b) ''expert_scratch_after'') ''groups'') (num 0)])
       ''Scratch candidate not exercised'' (
     bnd (loop (tuple_of [ret a, ret b]) () (\<lambda>unused r.
       check (conjs [eq (item (item (ret r) ''admission'') ''expert_scratch_reserve_bytes'')
                (num (2 * 1024 ^ 2)),
            le (item (item (ret r) ''admission'') ''combined_bytes'') (num (12 * 1024 ^ 3))])
         ''Unadmitted scratch capacity'' (
       check (conjs [eq (item (item (item (ret r) ''after'') ''metal'') ''active_scratch_slot'') (num (- 1)),
            eq (item (item (item (ret r) ''after'') ''metal'') ''live_command_groups'') (num 0)])
         ''Outstanding scratch/GPU users'' (
       Inr ())))) (\<lambda>unused.
     dict_of [(''exact_all_logits_tokens_and_state'', yes),
        (''ratio'', truediv (item (ret b) ''decode_wall_ns'') (item (ret a) ''decode_wall_ns'')),
        (''control_tps'', item (ret a) ''tokens_per_second''),
        (''candidate_tps'', item (ret b) ''tokens_per_second''),
        (''control_counters'', comparison_scratch_counters a),
        (''candidate_counters'', comparison_scratch_counters b)]))))))"

definition START :: pyval where
  "START = PInt 32"

definition TOKENS :: pyval where
  "TOKENS = PInt 16"

definition MODES :: pyval where
  "MODES =
     PDict [(''commands'', PTuple [PStr ''native_mtp_width_profile_v1'', PStr ''mtp_width_target_profile_v1'',
             PStr ''mtp_width_profile_producer_v1'']),
        (''dispatch'', PTuple [PStr ''native_mtp_width_counter_profile_v1'', PStr ''mtp_width_target_counters_v1'',
             PStr ''mtp_width_counter_profile_producer_v1''])]"

definition WIDTH_WORKSPACE :: pyval where
  "WIDTH_WORKSPACE = PInt (512 * 1024 ^ 2)"

definition window_cycle ::
  "pyval \<Rightarrow> pyval \<times> pyval \<times> pyval \<times> pyval \<Rightarrow> pyval \<Rightarrow> (pyval \<times> pyval \<times> pyval \<times> pyval) result" where
  "window_cycle prompt_tokens = (\<lambda>(selected, committed, verified, first) tup1.
     unpack2 tup1 (\<lambda>i c.
     bnd (sub (item (ret c) ''offset'') (ret prompt_tokens)) (\<lambda>output.
     branch (conjs [ge (ret output) (ret START), lt (ret committed) (ret TOKENS)])
       (bnd (branch (same (ret first) none) (ret output) (ret first)) (\<lambda>first.
         check (eq (ret output) (add (ret first) (ret committed))) ''Noncontiguous profile window'' (
         bnd (append (ret selected) (ret i)) (\<lambda>selected.
         bnd (add (ret committed) (item (ret c) ''committed_tokens'')) (\<lambda>committed.
         bnd (add (ret verified) (item (ret c) ''width'')) (\<lambda>verified.
         Inr (selected, committed, verified, first)))))))
       (Inr (selected, committed, verified, first)))))"

definition window :: "pyval \<Rightarrow> pyval \<Rightarrow> pyval \<Rightarrow> expr" where
  "window cycles prompt_tokens total' =
     bnd (list_of []) (\<lambda>selected.
     bnd (num 0) (\<lambda>committed.
     bnd (ret committed) (\<lambda>verified.
     bnd none (\<lambda>first.
     bnd (loop (numbered (ret cycles) 0) (selected, committed, verified, first) (window_cycle prompt_tokens)) (\<lambda>(selected, committed, verified, first).
     check (conjs [differs (ret first) none,
          conjs [le (ret START) (ret first), lt (ret first) (add (ret START) (num 4))],
          conjs [le (ret TOKENS) (ret committed), le (ret committed) (add (ret TOKENS) (num 3))],
          le (size_of (ret selected)) (ret TOKENS),
          le (add (ret first) (ret committed)) (ret total')])
       ''Incomplete middle-generation window'' (
     tuple_of [ret selected,
        dict_of [(''requested_start'', ret START), (''requested_committed'', ret TOKENS),
             (''first_output'', ret first), (''end_output'', add (ret first) (ret committed)),
             (''captured_calls'', size_of (ret selected)), (''captured_committed'', ret committed),
             (''captured_verified'', ret verified), (''omitted_before'', ret first),
             (''omitted_after'', sub (sub (ret total') (ret first)) (ret committed))]]))))))"

definition validate_request_width :: "pyval \<Rightarrow> pyval \<Rightarrow> pyval \<Rightarrow> pyval \<Rightarrow> pyval \<Rightarrow> pyval \<Rightarrow> expr" where
  "validate_request_width raw reference work input_sha producer_sha mode =
     check (isin (ret mode) (ret MODES)) ''Unknown current-width profile mode'' (
     check (conjs [eq (get (ret raw) ''kind'') (index (index (ret MODES) (ret mode)) (num 0)),
          same (get (ret raw) ''complete'') yes,
          same (get (ret raw) ''performance_measurement'') no,
          eq (item (ret raw) ''producer_binary_sha256'') (ret producer_sha),
          eq (item (ret raw) ''profile_workspace_bytes'') (ret WIDTH_WORKSPACE),
          isin (item (ret raw) ''requested_width'') (tuple_of [num 1, num 4]),
          conjs [eq (item (ret raw) ''requested_tokens'') (item (ret raw) ''generated_tokens''),
               eq (item (ret raw) ''generated_tokens'') (num 128)]])
       ''Incomplete or incompatible current-width profile'' (
     bnd (call4 observed (ret reference) (ret work) (ret input_sha) no) (\<lambda>control.
     check (conjs [item (ret control) ''clean_memory'', item (ret control) ''clean_host'',
          item (ret control) ''completed_requested_length''])
       ''Numerical reference is not a complete clean width run'' (
     bnd (merge (dict_from (item (ret reference) ''admission''))
         (dict_of [(''profile_workspace_bytes'', ret WIDTH_WORKSPACE),
              (''combined_bytes'', add (item (item (ret reference) ''admission'')
                    ''combined_bytes'') (ret WIDTH_WORKSPACE))])) (\<lambda>expected.
     check (conjs [eq (item (ret raw) ''admission'') (ret expected),
          le (item (ret expected) ''combined_bytes'') (num (12 * 1024 ^ 3))])
       ''Profile workspace changed cache capacity or exceeds admission'' (
     bnd (ret raw) (\<lambda>normalized.
     bnd (put (ret normalized) (str ''kind'') (str ''native_mtp_width_v1'')) (\<lambda>normalized.
     bnd (put (ret normalized) (str ''admission'') (item (ret reference) ''admission'')) (\<lambda>normalized.
     bnd (call4 observed (ret normalized) (ret work) (ret input_sha) no) (\<lambda>result.
     bnd (tuple_of [str ''mode'', str ''validation'', str ''input_sha256'', str ''draft_manifest_sha256'',
          str ''requested_width'', str ''prompt_tokens'', str ''requested_tokens'', str ''eos_ids'',
          str ''prime_logits_sha256'', str ''committed_token_ids'', str ''row_logits_sha256'',
          str ''final_target_state'', str ''final_draft_state'', str ''generated_tokens'',
          str ''next_id'', str ''stop_reason'', str ''host_checkpoint_allocated_bytes'',
          str ''target_recovery_journal'']) (\<lambda>fields'.
     check (every (ret fields') (\<lambda>k. eq (index (ret raw) (ret k)) (index (ret reference) (ret k))))
       ''Profiling changed model identity, logits, outputs or persistent state'' (
     bnd (loop (tuple_of [str ''before'', str ''after'']) () (\<lambda>unused boundary.
       bnd (index (ret raw) (ret boundary)) (\<lambda>a.
       bnd (index (ret reference) (ret boundary)) (\<lambda>b.
       check (conjs [every (tuple_of [str ''prepared'', str ''artifact_revision'', str ''memory_plan'',
                   str ''execution'', str ''completion_pipeline'', str ''ready_group'',
                   str ''chunk_tokens'', str ''io_workers'', str ''short_append_tokens'']) (\<lambda>k.
                eq (index (ret a) (ret k)) (index (ret b) (ret k))),
            every (tuple_of [str ''kernels'', str ''build_fingerprint'', str ''device'',
                   str ''physical_bytes'']) (\<lambda>k.
                eq (index (item (ret a) ''metal'') (ret k)) (index (item (ret b) ''metal'') (ret k)))])
         ''Profiling changed runtime controls'' (
       Inr ()))))) (\<lambda>unused.
     check (eq (item (item (item (ret raw) ''before'') ''expert_cache'') ''diagnostic_cache_state'')
         (item (item (item (ret reference) ''before'') ''expert_cache'') ''diagnostic_cache_state''))
       ''Profiling changed initial expert cache'' (
     check (every (tuple_of [str ''recipe'', str ''budget_bytes'', str ''context'', str ''norm_convention'']) (\<lambda>k.
         eq (index (item (ret raw) ''draft_before'') (ret k))
           (index (item (ret reference) ''draft_before'') (ret k))))
       ''Profiling changed draft identity'' (
     bnd (tuple_of [str ''cycle_id'', str ''offset'', str ''width'', str ''proposals'',
          str ''accepted_proposals'', str ''committed_tokens'', str ''forced_rejection'',
          str ''next_id'', str ''target_recovery_forward_calls'']) (\<lambda>fields'.
     check (eq (each (item (ret raw) ''cycles'') (\<lambda>c.
           each_dict (ret fields') (\<lambda>k. ret k) (\<lambda>k. index (ret c) (ret k))))
         (each (item (ret reference) ''cycles'') (\<lambda>c.
             each_dict (ret fields') (\<lambda>k. ret k) (\<lambda>k. index (ret c) (ret k)))))
       ''Profiling changed proposal/recovery path'' (
     bnd (call3 window (item (ret raw) ''cycles'') (item (ret raw) ''prompt_tokens'')
         (item (ret raw) ''generated_tokens'')) (\<lambda>tup1.
     unpack2 tup1 (\<lambda>selected coverage.
     check (eq (item (ret raw) ''profile_window'') (ret coverage)) ''False profile coverage claim'' (
     tuple_of [merge (dict_of [(''exact_logits_tokens_draft_and_target_state'', yes)])
            (each_dict (tuple_of [str ''clean_memory'', str ''clean_host'', str ''peak_physical_bytes'']) (\<lambda>k.
                ret k) (\<lambda>k. index (ret result) (ret k))),
        ret selected, ret coverage]))))))))))))))))))))"

definition counter_operations :: "pyval \<Rightarrow> pyval \<Rightarrow> expr" where
  "counter_operations blocks committed =
     check (conjs [type_in (ret committed) [TInt], gt (ret committed) (num 0)])
       ''Invalid committed-token denominator'' (
     bnd (dict_of []) (\<lambda>operations.
     bnd (loop (ret blocks) operations (\<lambda>operations block.
       bnd (loop (item (ret block) ''counter_operations'') operations (\<lambda>operations op.
         bnd (tuple_from (each (tuple_of [str ''stage'', str ''kernel'', str ''K'', str ''N'', str ''rows'']) (\<lambda>k.
               index (ret op) (ret k)))) (\<lambda>key.
         bnd (put (ret operations) (ret key)
             (put (lookup_or (ret operations) (ret key) (list_of [flt 0, num 0])) (num 0)
                 (add (index (lookup_or (ret operations) (ret key) (list_of [flt 0, num 0])) (num 0))
                     (truediv (mul (item (ret op) ''gpu_pass_ms_per_token'')
                           (item (ret block) ''tokens'')) (ret committed))))) (\<lambda>operations.
         bnd (put (ret operations) (ret key)
             (put (lookup_or (ret operations) (ret key) (list_of [flt 0, num 0])) (num 1)
                 (add (index (lookup_or (ret operations) (ret key) (list_of [flt 0, num 0])) (num 1))
                     (item (ret op) ''dispatches'')))) (\<lambda>operations.
         ret operations))))) (\<lambda>operations.
       ret operations))) (\<lambda>operations.
     each (sorted_by (items_of (ret operations)) (\<lambda>item'.
         neg (index (index (ret item') (num 1)) (num 0)))) (\<lambda>tup1.
       unpack2 tup1 (\<lambda>key value.
         merge (dict_from (zip_of (tuple_of [str ''stage'', str ''kernel'', str ''K'', str ''N'', str ''rows''])
               (ret key)))
           (dict_of [(''gpu_pass_ms_per_committed_token'', index (ret value) (num 0)),
                (''dispatches'', index (ret value) (num 1))]))))))"

definition VALIDATION :: pyval where
  "VALIDATION =
     PList [PTuple [PInt 1072, PInt 1], PTuple [PInt 1072, PInt 4], PTuple [PInt 1460, PInt 4]]"

definition CAPACITY_ORDER :: pyval where
  "CAPACITY_ORDER =
     PList [PTuple [PInt 0, PInt 1072, PInt 4], PTuple [PInt 0, PInt 1460, PInt 1],
        PTuple [PInt 0, PInt 1460, PInt 4], PTuple [PInt 1, PInt 1460, PInt 4],
        PTuple [PInt 1, PInt 1460, PInt 1], PTuple [PInt 1, PInt 1072, PInt 4]]"

definition counters :: "pyval \<Rightarrow> expr" where
  "counters raw =
     bnd (item (ret raw) ''before'') (\<lambda>before.
     bnd (item (ret raw) ''after'') (\<lambda>after.
     bnd (dict_of []) (\<lambda>out.
     bnd (loop (list_of [tuple_of [str ''expert_cache'',
                 tuple_of [str ''hits'', str ''misses'', str ''application_read_bytes'']],
            tuple_of [str ''metal'', tuple_of [str ''gpu_command_ns'', str ''dispatches'']]]) out (\<lambda>out tup1.
       unpack2 tup1 (\<lambda>group' fields'.
         bnd (loop (ret fields') out (\<lambda>out field.
           bnd (lookup (index (ret before) (ret group')) (ret field)) (\<lambda>a.
           bnd (lookup (index (ret after) (ret group')) (ret field)) (\<lambda>b.
           check (conjs [uint a, uint b, ge (ret b) (ret a)]) ''Missing or reset work counter'' (
           bnd (put (ret out) (ret field) (sub (ret b) (ret a))) (\<lambda>out.
           ret out)))))) (\<lambda>out.
         ret out)))) (\<lambda>out.
     check (gt (add (item (ret out) ''hits'') (item (ret out) ''misses'')) (num 0))
       ''No observed expert work'' (
     bnd (put (ret out) (str ''cache_hit_fraction'')
         (truediv (item (ret out) ''hits'')
             (add (item (ret out) ''hits'') (item (ret out) ''misses'')))) (\<lambda>out.
     bnd (put (ret out) (str ''expert_bytes_per_token'')
         (truediv (item (ret out) ''application_read_bytes'') (item (ret raw) ''verified_tokens''))) (\<lambda>out.
     bnd (put (ret out) (str ''gpu_ns_per_token'')
         (truediv (item (ret out) ''gpu_command_ns'') (item (ret raw) ''verified_tokens''))) (\<lambda>out.
     ret out))))))))"

definition compare_math :: "pyval \<Rightarrow> pyval \<Rightarrow> expr" where
  "compare_math reference candidate =
     bnd (call2 check_prime_reference (item (ret candidate) ''prime'')
         (item (ret reference) ''prime'')) (\<lambda>unused.
     bnd (ret candidate) (\<lambda>adjusted.
     bnd (put (ret adjusted) (str ''prime'')
         (put (item (ret adjusted) ''prime'') (str ''cache_state'')
             (item (item (ret reference) ''prime'') ''cache_state''))) (\<lambda>adjusted.
     draft_compare reference adjusted)))"

definition check_progress :: "pyval \<Rightarrow> pyval \<Rightarrow> pyval \<Rightarrow> pyval \<Rightarrow> pyval \<Rightarrow> pyval \<Rightarrow> expr" where
  "check_progress observed' slots validated measured primes anchor =
     bnd (call2 check_prime_reference (item (ret observed') ''prime'') (ret anchor)) (\<lambda>unused.
     bnd (branch (isin (ret slots) (ret primes))
         (check (eq (item (ret observed') ''prime'') (index (ret primes) (ret slots)))
             ''Starting cache differs within capacity'' (
           ret primes))
         (bnd (put (ret primes) (ret slots) (item (ret observed') ''prime'')) (\<lambda>primes.
           ret primes))) (\<lambda>primes.
     bnd (branch (item (ret observed') ''validation'')
         (bnd (branch (ret validated)
               (bnd (call2 compare_math (item (index (ret validated) (num 0)) ''observation'')
                     (ret observed')) (\<lambda>unused.
                 Inr ())) (Inr ())) (\<lambda>unused.
           Inr ()))
         (check (eq (size_of (ret validated)) (size_of (ret VALIDATION)))
             ''Timing ran without complete validation'' (
           bnd (item (index (ret validated) (num 0)) ''observation'') (\<lambda>serial.
           check (conjs [eq (slice (item (ret observed') ''row_logits_sha256'') none (num 4))
                    (item (ret serial) ''row_logits_sha256''),
                eq (index (item (ret observed') ''endpoints'') (num 0))
                    (index (item (ret serial) ''endpoints'') (num (- 1)))])
             ''Timed prefix differs from validated serial state or outputs'' (
           bnd (branch (ret measured)
               (bnd (item (index (ret measured) (num 0)) ''observation'') (\<lambda>first.
                 check (conjs [eq (item (ret observed') ''row_logits_sha256'')
                          (item (ret first) ''row_logits_sha256''),
                      eq (item (ret observed') ''endpoints'') (item (ret first) ''endpoints'')])
                   ''Capacity or width changed timed logits, state or routes'' (
                 Inr ()))) (Inr ())) (\<lambda>unused.
           check (every (tuple_of [str ''snapshot_allocated_bytes'', str ''host_logits_bound_bytes'']) (\<lambda>k.
               eq (index (ret observed') (ret k)) (index (ret serial) (ret k))))
             ''Verifier workspace reservation changed'' (
           Inr ()))))))) (\<lambda>unused.
     tuple_of [none, ret primes])))"

definition decide_perfect_draft_capacity :: "pyval \<Rightarrow> expr" where
  "decide_perfect_draft_capacity rows =
     check (conjs [eq (each (ret rows) (\<lambda>r.
                tuple_of [item (ret r) ''pair'', item (ret r) ''slots'',
                   item (item (ret r) ''observation'') ''width'']))
              (slice (ret CAPACITY_ORDER) none (size_of (ret rows))),
          le (size_of (ret rows)) (size_of (ret CAPACITY_ORDER))])
       ''Missing, duplicated or reordered capacity timings'' (
     bnd (loop (ret rows) () (\<lambda>unused row.
       bnd (item (ret row) ''observation'') (\<lambda>o'.
       check (conjs [nay (item (ret o') ''validation''), eq (item (ret o') ''verified_tokens'') (num 16),
            item (ret o') ''clean_memory'', item (ret o') ''clean_host''])
         ''Disturbed or invalid timing cannot decide capacity'' (
       check (conjs [call1 uint (item (ret o') ''decode_wall_ns''),
            gt (item (ret o') ''decode_wall_ns'') (num 0),
            eq (item (ret o') ''verified_tokens_per_second'')
                (truediv (flt 16000000000) (item (ret o') ''decode_wall_ns''))])
         ''Inconsistent throughput'' (
       Inr ()))))) (\<lambda>unused.
     bnd (each_if (numbered (ret rows) 0) (\<lambda>tup1.
         unpack2 tup1 (\<lambda>i r.
           conjs [eq (item (ret r) ''slots'') (num 1460),
              eq (item (item (ret r) ''observation'') ''width'') (num 4),
              lt (item (item (ret r) ''observation'') ''verified_tokens_per_second'') (num 5)])) (\<lambda>tup2.
         unpack2 tup2 (\<lambda>i r. ret i))) (\<lambda>weak.
     bnd (merge (dict_of [(''paired_comparison_complete'', no), (''capacity_promising'', no),
            (''confidence_95'', none)]) (ret DRAFT_FLAGS)) (\<lambda>common.
     branch (ret weak)
       (check (eq (index (ret weak) (num 0)) (sub (size_of (ret rows)) (num 1)))
           ''Work continued after declared early-stop boundary'' (
         merge (dict_from (ret common))
           (dict_of [(''status'', str ''verifier_capacity_below_floor''), (''early_stop'', yes),
                (''stop_source'', item (index (ret rows) (num (- 1))) ''source''),
                (''remaining_timing_processes'', sub (size_of (ret CAPACITY_ORDER))
                    (size_of (ret rows)))]))) (
     branch (lt (size_of (ret rows)) (size_of (ret CAPACITY_ORDER)))
       (merge (dict_from (ret common))
           (dict_of [(''status'', str ''running''), (''early_stop'', no)])) (
     bnd (each_dict (ret rows) (\<lambda>r.
         tuple_of [item (ret r) ''pair'', item (ret r) ''slots'',
            item (item (ret r) ''observation'') ''width'']) (\<lambda>r. item (ret r) ''observation'')) (\<lambda>by.
     bnd (each (tuple_of [num 0, num 1]) (\<lambda>p.
         truediv (item (index (ret by) (tuple_of [ret p, num 1460, num 4])) ''decode_wall_ns'')
           (item (index (ret by) (tuple_of [ret p, num 1072, num 4])) ''decode_wall_ns''))) (\<lambda>ratios.
     bnd (each (tuple_of [num 0, num 1]) (\<lambda>p.
         truediv (item (index (ret by) (tuple_of [ret p, num 1460, num 4])) ''decode_wall_ns'')
           (item (index (ret by) (tuple_of [ret p, num 1460, num 1])) ''decode_wall_ns''))) (\<lambda>serial_ratios.
     bnd (every (add (ret ratios) (ret serial_ratios)) (\<lambda>r. lt (ret r) (num 1))) (\<lambda>promising.
     merge (dict_from (ret common))
       (dict_of [(''status'', branch (ret promising) (str ''verifier_capacity_promising'')
                (str ''verifier_capacity_no_advantage'')),
            (''paired_comparison_complete'', yes), (''capacity_promising'', ret promising),
            (''early_stop'', no), (''capacity_wall_ratios'', ret ratios),
            (''larger_cache_block_to_serial_wall_ratios'', ret serial_ratios)])))))))))))"

definition fixture_identity :: "pyval \<Rightarrow> pyval \<Rightarrow> pyval \<Rightarrow> pyval \<Rightarrow> expr" where
  "fixture_identity data proof target_sha draft_sha =
     check (conjs [eq (get (ret data) ''kind'') (str ''target_recovery_fixture_v1''),
          same (get (ret data) ''complete'') yes,
          eq (get (ret data) ''reference_origin'') (str ''full-target-forward''),
          eq (item (ret data) ''artifact_revision'')
              (str ''b2c422f3c643e36f04227a64d61796b44a4b1029''),
          eq (item (ret data) ''context'') (num 8192), eq (item (ret data) ''layers'') (num 48)])
       ''Fixture is not a real target reference'' (
     bnd (item (ret data) ''source'') (\<lambda>source.
     bnd (item (ret source) ''kernel_policy'') (\<lambda>policy.
     check (conjs [eq (item (ret source) ''producer_binary_sha256'') (item (ret proof) ''binary_sha256''),
          eq (item (ret source) ''native_build_fingerprint'')
              (item (ret proof) ''base_native_fingerprint''),
          eq (item (ret source) ''target_prepared_sha256'') (ret target_sha),
          eq (item (ret source) ''draft_manifest_sha256'') (ret draft_sha),
          isinstance (item (ret source) ''input_sha256'') [TStr],
          eq (size_of (item (ret source) ''input_sha256'')) (num 64),
          startswith (item (ret source) ''request_id'')
              (add (item (ret source) ''input_sha256'') (str '':''))])
       ''Incompatible fixture source identity'' (
     bnd (dict_of [(''q4_decode'', str ''reference''), (''q8_decode_rows'', num 2),
          (''gdn'', str ''original''), (''route_selection'', str ''simd''), (''token_tile'', num 1),
          (''affine_rows'', num 1), (''gate_pair'', no), (''profile'', no),
          (''counter_profile'', no)]) (\<lambda>expected.
     check (every (items_of (ret expected)) (\<lambda>tup1.
         unpack2 tup1 (\<lambda>k v. eq (lookup (ret policy) (ret k)) (ret v))))
       ''Changed fixture kernel policy'' (
     check (conjs [eq (each (item (ret data) ''expected'') (\<lambda>e. item (ret e) ''keep''))
              (list_of [num 1, num 2, num 3, num 4]),
          every (item (ret data) ''expected'') (\<lambda>e.
              conjs [eq (size_of (item (ret e) ''row_logits_sha256'')) (item (ret e) ''keep''),
                 every (item (ret e) ''row_logits_sha256'') (\<lambda>h.
                     conjs [isinstance (ret h) [TStr], eq (size_of (ret h)) (num 64)])])])
       ''Missing independent target prefix evidence'' (
     none)))))))"

definition resource_failure :: "pyval \<Rightarrow> pyval \<Rightarrow> expr" where
  "resource_failure raw label =
     bnd (branch (isin (str ''before_load'') (ret raw))
         (bnd (list_of [item (ret raw) ''before_load'', item (item (ret raw) ''before'') ''process'']) (\<lambda>memory.
           bnd (add (ret memory)
               (flatten (each (get_or (ret raw) ''cycles'' (list_of [])) (\<lambda>c.
                     each (tuple_of [str ''memory_before'', str ''memory_after'']) (\<lambda>k.
                       index (ret c) (ret k)))))) (\<lambda>memory.
           bnd (add (ret memory)
               (list_of [item (item (ret raw) ''after'') ''process'', item (ret raw) ''after_destroy''])) (\<lambda>memory.
           ret memory))))
         (bnd (each (tuple_of [str ''before'', str ''after'']) (\<lambda>k. index (ret raw) (ret k))) (\<lambda>memory.
           ret memory))) (\<lambda>memory.
     bnd (list_of []) (\<lambda>reasons.
     bnd (max_of (each (ret memory) (\<lambda>m.
           max_args [item (ret m) ''compressed_bytes'', item (ret m) ''compressed_peak_bytes'']))) (\<lambda>compressed.
     bnd (branch (ret compressed)
         (bnd (append (ret reasons)
               (format_of [str ''process compression observed: '', ret compressed, str '' bytes''])) (\<lambda>reasons.
           ret reasons)) (ret reasons)) (\<lambda>reasons.
     bnd (each (ret memory) (\<lambda>m. item (ret m) ''decompressions'')) (\<lambda>decompressions.
     bnd (branch (ne (size_of (set_of (ret decompressions))) (num 1))
         (bnd (append (ret reasons)
               (format_of [str ''process decompressions changed: '', index (ret decompressions) (num 0),
                    str '' to '', index (ret decompressions) (num (- 1))])) (\<lambda>reasons.
           ret reasons)) (ret reasons)) (\<lambda>reasons.
     bnd (each (ret memory) (\<lambda>m. item (ret m) ''system_swap_used_bytes'')) (\<lambda>swap.
     bnd (branch (ne (size_of (set_of (ret swap))) (num 1))
         (bnd (branch (lt (index (ret swap) (num (- 1))) (index (ret swap) (num 0)))
               (str ''decreased'')
               (branch (gt (index (ret swap) (num (- 1))) (index (ret swap) (num 0)))
                   (str ''increased'') (str ''fluctuated''))) (\<lambda>direction.
           bnd (append (ret reasons)
               (format_of [str ''system swap '', ret direction, str '': '', index (ret swap) (num 0),
                    str '' to '', index (ret swap) (num (- 1)), str '' bytes (range '',
                    min_of (ret swap), str ''..'', max_of (ret swap), str '')''])) (\<lambda>reasons.
           bnd (branch (conjs [nay (ret compressed), eq (size_of (set_of (ret decompressions))) (num 1)])
               (bnd (append (ret reasons) (str ''no process compression or decompression observed'')) (\<lambda>reasons.
                 ret reasons)) (ret reasons)) (\<lambda>reasons.
           ret reasons)))) (ret reasons)) (\<lambda>reasons.
     bnd (loop (tuple_of [str ''host_before'', str ''host_after'']) reasons (\<lambda>reasons key.
       bnd (index (ret raw) (ret key)) (\<lambda>host.
       bnd (branch (disjs [ne (item (ret host) ''thermal_state'') (num 0), item (ret host) ''low_power_mode'',
              ne (item (ret host) ''power_source'') (str ''AC Power'')])
           (bnd (append (ret reasons)
                 (format_of [ret key, str '': thermal='', item (ret host) ''thermal_state'',
                      str '', low_power='', item (ret host) ''low_power_mode'', str '', power='',
                      item (ret host) ''power_source''])) (\<lambda>reasons.
             ret reasons)) (ret reasons)) (\<lambda>reasons.
       ret reasons)))) (\<lambda>reasons.
     add (add (ret label) (str '': ''))
       (joined ''; ''
           (disjs [ret reasons, list_of [str ''resources disturbed; see raw observations'']])))))))))))"

definition budgets :: "pyval \<Rightarrow> expr" where
  "budgets admission =
     bnd (item (ret admission) ''target'') (\<lambda>target.
     check (conjs [eq (item (ret target) ''limit_bytes'') (num (12 * 1024 ^ 3)),
          eq (item (ret target) ''expert_slots'') (num 1460),
          eq (item (ret target) ''expert_bytes'') (mul (num 1460) (ret (PInt SLOT_BYTES))),
          eq (item (ret target) ''scratch_bytes'') (num (512 * 1024 ^ 2)),
          eq (item (ret admission) ''checkpoint_rows'') (num 8),
          eq (item (ret admission) ''host_checkpoint_logits_bytes'')
              (num (128 * 1024 ^ 2 + 4 * 8 * 248320 * 4 + 1024 ^ 2)),
          eq (item (ret admission) ''combined_bytes'')
              (add (item (ret target) ''planned_bytes'')
                  (sum_of (each (tuple_of [str ''draft_bytes'', str ''host_checkpoint_logits_bytes'',
                           str ''expert_scratch_reserve_bytes'',
                           str ''target_recovery_reserve_bytes'']) (\<lambda>k.
                        index (ret admission) (ret k)))))]) ''Changed base memory geometry'' (
     bnd (sub (item (ret admission) ''combined_bytes'') (item (ret target) ''expert_bytes'')) (\<lambda>fixed8.
     bnd (list_of []) (\<lambda>result.
     bnd (loop (tuple_of [tuple_of [num 4, sub (ret fixed8) (num (4 * 4 * 248320 * 4))],
            tuple_of [num 8, ret fixed8]]) result (\<lambda>result tup1.
       unpack2 tup1 (\<lambda>width fixed.
         bnd (loop (tuple_of [num 512, num 128]) result (\<lambda>result scratch.
           bnd (sub (ret fixed) (mul (sub (num 512) (ret scratch)) (num (1024 ^ 2)))) (\<lambda>adjusted.
           bnd (append (ret result)
               (dict_of [(''width'', ret width), (''scratch_mib'', ret scratch),
                    (''fixed_bytes'', ret adjusted),
                    (''maximum_slots'', floordiv (sub (num (12 * 1024 ^ 3)) (ret adjusted))
                        (ret (PInt SLOT_BYTES))),
                    (''bytes_at_2048'', add (ret adjusted)
                        (mul (num 2048) (ret (PInt SLOT_BYTES)))),
                    (''workspace_policy_implemented'', eq (ret scratch) (num 512)),
                    (''larger_cache_qualified'', no)])) (\<lambda>result.
           ret result)))) (\<lambda>result.
         ret result)))) (\<lambda>result.
     ret result)))))"

end
