(* ===== verification/ArtifactInventory.thy ===== *)
theory ArtifactInventory
  imports ScreenCache
begin

text \<open>
  Inventories of model files, tensors and fixtures.
\<close>

definition normalized :: "pyval \<Rightarrow> expr" where
  "normalized name =
     removeprefix (ret name) (str ''language_model.'')"

definition category :: "pyval \<Rightarrow> expr" where
  "category name =
     bnd (normalized name) (\<lambda>name.
     branch (startswith (ret name)
         (tuple_of [str ''mtp.'', str ''vision_tower.'', str ''model.visual.''])) (str ''excluded'') (
     branch (isin (str ''.switch_mlp.'') (ret name)) (str ''routed_experts'') (
     branch (isin (str ''ngram_embedding.shard_'') (ret name)) (str ''ngrams'') (
     str ''resident''))))"

definition precision :: "pyval \<Rightarrow> pyval \<Rightarrow> expr" where
  "precision config base =
     bnd (item (ret config) ''quantization'') (\<lambda>quant.
     bnd (lookup_or (ret quant) (normalized base) (ret quant)) (\<lambda>value.
     bnd (item (ret value) ''bits'') (\<lambda>bits.
     bnd (item (ret value) ''group_size'') (\<lambda>group'.
     reject (disjs [nay (type_in (ret bits) [TInt]), nay (type_in (ret group') [TInt]),
          notin (ret bits) (tuple_of [num 4, num 8]),
          notin (ret group') (tuple_of [num 32, num 64])])
       ''Unsupported affine quantization metadata'' (
     tuple_of [ret bits, ret group'])))))"

definition compare_mixed :: "pyval \<Rightarrow> pyval \<Rightarrow> pyval \<Rightarrow> pyval \<Rightarrow> expr" where
  "compare_mixed q4 mixed q4_config mixed_config =
     reject (ne (set_of (ret q4)) (set_of (ret mixed)))
       ''Mixed artifact tensor names differ from Q4'' (
     bnd (each_dict (tuple_of [str ''resident'', str ''routed_experts'', str ''ngrams'', str ''excluded'']) (\<lambda>kind.
         ret kind) (\<lambda>kind.
         dict_of [(''q4_bytes'', num 0), (''mixed_bytes'', num 0), (''tensors'', num 0)])) (\<lambda>totals.
     bnd (dict_of []) (\<lambda>counts.
     bnd (loop (items_of (ret q4)) (totals, counts) (\<lambda>(totals, counts) tup4.
       unpack2 tup4 (\<lambda>name a.
         bnd (index (ret mixed) (ret name)) (\<lambda>b.
         bnd (category name) (\<lambda>kind.
         bnd (put (ret totals) (ret kind)
             (put (index (ret totals) (ret kind)) (str ''q4_bytes'')
                 (add (item (index (ret totals) (ret kind)) ''q4_bytes'') (item (ret a) ''bytes'')))) (\<lambda>totals.
         bnd (put (ret totals) (ret kind)
             (put (index (ret totals) (ret kind)) (str ''mixed_bytes'')
                 (add (item (index (ret totals) (ret kind)) ''mixed_bytes'')
                     (item (ret b) ''bytes'')))) (\<lambda>totals.
         bnd (put (ret totals) (ret kind)
             (put (index (ret totals) (ret kind)) (str ''tensors'')
                 (add (item (index (ret totals) (ret kind)) ''tensors'') (num 1)))) (\<lambda>totals.
         bnd (branch (conjs [endswith (ret name) (str ''.weight''), eq (item (ret a) ''dtype'') (str ''U32'')])
             (bnd (slice (ret name) none (num (- 7))) (\<lambda>base.
               bnd (list_of []) (\<lambda>formats.
               bnd (loop (tuple_of [tuple_of [ret q4, ret q4_config], tuple_of [ret mixed, ret mixed_config]])
                   formats (\<lambda>formats tup3.
                 unpack2 tup3 (\<lambda>tensors config.
                   bnd (precision config base) (\<lambda>tup1.
                   unpack2 tup1 (\<lambda>bits group'.
                   bnd (each (tuple_of [str ''weight'', str ''scales'', str ''biases'']) (\<lambda>suffix.
                       index (ret tensors) (add (add (ret base) (str ''.'')) (ret suffix)))) (\<lambda>tup2.
                   unpack3 tup2 (\<lambda>weight scales biases.
                   bnd (add (slice (item (ret weight) ''shape'') none (num (- 1)))
                       (list_of [mul (index (item (ret weight) ''shape'') (num (- 1)))
                                (floordiv (num 32) (ret bits))])) (\<lambda>shape.
                   bnd (add (slice (ret shape) none (num (- 1)))
                       (list_of [floordiv (index (ret shape) (num (- 1))) (ret group')])) (\<lambda>expected.
                   branch (disjs [ne (item (ret weight) ''dtype'') (str ''U32''),
                        modulo (index (ret shape) (num (- 1))) (ret group'),
                        ne (item (ret scales) ''dtype'') (str ''BF16''),
                        ne (item (ret biases) ''dtype'') (str ''BF16''),
                        ne (item (ret scales) ''shape'') (ret expected),
                        ne (item (ret biases) ''shape'') (ret expected)])
                     (fail (format_of [str ''Invalid affine projection: '', ret base])) (
                   bnd (append (ret formats) (tuple_of [ret bits, ret group', ret shape])) (\<lambda>formats.
                   ret formats))))))))))) (\<lambda>formats.
               branch (disjs [ne (index (index (ret formats) (num 0)) (num 2))
                        (index (index (ret formats) (num 1)) (num 2)),
                    conjs [ne (ret kind) (str ''resident''),
                         ne (index (ret formats) (num 0)) (index (ret formats) (num 1))]])
                 (fail (format_of [str ''Incompatible decoded projection: '', ret base])) (
               bnd (put (ret counts)
                   (format_of [ret kind, str ''_q'', index (index (ret formats) (num 1)) (num 0),
                        str ''_g'', index (index (ret formats) (num 1)) (num 1)])
                   (add (lookup_or (ret counts)
                         (format_of [ret kind, str ''_q'', index (index (ret formats) (num 1)) (num 0),
                              str ''_g'', index (index (ret formats) (num 1)) (num 1)]) (num 0))
                       (num 1))) (\<lambda>counts.
               ret counts))))))
             (branch (ne (tuple_of [item (ret a) ''dtype'', item (ret a) ''shape''])
                   (tuple_of [item (ret b) ''dtype'', item (ret b) ''shape'']))
                 (fail (format_of [str ''Incompatible tensor: '', ret name])) (
               ret counts))) (\<lambda>counts.
         Inr (totals, counts)))))))))) (\<lambda>(totals, counts).
     bnd (dict_of []) (\<lambda>resident.
     bnd (loop (tuple_of [tuple_of [str ''q4'', ret q4], tuple_of [str ''mixed'', ret mixed]])
         resident (\<lambda>resident tup7.
       unpack2 tup7 (\<lambda>label tensors.
         bnd (put (ret resident) (ret label)
             (sum_of (each_if (items_of (ret tensors)) (\<lambda>tup5.
                   unpack2 tup5 (\<lambda>n t. eq (category n) (str ''resident''))) (\<lambda>tup6.
                   unpack2 tup6 (\<lambda>n t.
                     mul (floordiv (add (item (ret t) ''bytes'') (num 16383)) (num 16384))
                       (num 16384)))))) (\<lambda>resident.
         ret resident)))) (\<lambda>resident.
     dict_of [(''payloads'', ret totals), (''quantized_matrices'', dict_from (ret counts)),
        (''resident_aligned_bytes'', ret resident),
        (''resident_increase_bytes'', sub (item (ret resident) ''mixed'')
            (item (ret resident) ''q4'')),
        (''expert_slot_equivalent'', truediv (sub (item (ret resident) ''mixed'')
              (item (ret resident) ''q4'')) (num 2768896))]))))))"

definition validate_tensor :: "pyval \<Rightarrow> pyval \<Rightarrow> pyval \<Rightarrow> pyval \<Rightarrow> expr" where
  "validate_tensor name entry base file_size =
     check_msg (conjs [isinstance (ret entry) [TDict], eq (get (ret entry) ''dtype'') (str ''BF16'')])
       (add (str ''Unexpected MTP source dtype: '') (ret name)) (
     bnd (get (ret entry) ''shape'') (\<lambda>shape.
     bnd (get (ret entry) ''data_offsets'') (\<lambda>bounds.
     check (conjs [isinstance (ret shape) [TList], ret shape,
          every (ret shape) (\<lambda>v. conjs [type_in (ret v) [TInt], gt (ret v) (num 0)])])
       ''Invalid tensor shape'' (
     check (conjs [isinstance (ret bounds) [TList], eq (size_of (ret bounds)) (num 2),
          every (ret bounds) (\<lambda>v. type_in (ret v) [TInt])]) ''Invalid tensor range'' (
     bnd (ret bounds) (\<lambda>tup1.
     unpack2 tup1 (\<lambda>lo hi.
     bnd (mul (prod_of (ret shape)) (num 2)) (\<lambda>size'.
     check (conjs [conjs [le (num 0) (ret lo), lt (ret lo) (ret hi)], eq (sub (ret hi) (ret lo)) (ret size'),
          le (add (ret base) (ret hi)) (ret file_size)]) ''Invalid tensor storage geometry'' (
     dict_of [(''shape'', ret shape), (''dtype'', str ''BF16''), (''offset'', add (ret base) (ret lo)),
        (''bytes'', ret size')])))))))))"

definition ALIGN :: pyval where
  "ALIGN = PInt 16384"

definition STRIDE :: pyval where
  "STRIDE = PInt 2768896"

definition PREPARE_EXPERT_BYTES :: pyval where
  "PREPARE_EXPERT_BYTES = PInt 2764800"

definition EXPERT_GATE :: pyval where
  "EXPERT_GATE = PStr ''mtp.layers.0.mlp.experts.gate_up_proj''"

definition EXPERT_DOWN :: pyval where
  "EXPERT_DOWN = PStr ''mtp.layers.0.mlp.experts.down_proj''"

definition NORM_SUFFIXES :: pyval where
  "NORM_SUFFIXES =
     PTuple [PStr ''hc_norm.weight'', PStr ''q_norm.weight'', PStr ''k_norm.weight'',
        PStr ''q_layernorm.weight'', PStr ''k_layernorm.weight'',
        PStr ''pre_fc_norm_embedding.weight'', PStr ''pre_fc_norm_hidden.weight'']"

definition precision_prepare :: "pyval \<Rightarrow> pyval \<Rightarrow> expr" where
  "precision_prepare name tensor =
     branch (eq (size_of (item (ret tensor) ''shape'')) (num 1)) (str ''BF16'') (
     branch (some (tuple_of [str ''mlp.gate.weight'', str ''shared_expert_gate.weight'',
            str ''block_inject_weight.weight'']) (\<lambda>suffix. endswith (ret name) (ret suffix)))
       (str ''BF16'') (
     check (conjs [eq (size_of (item (ret tensor) ''shape'')) (num 2),
          eq (modulo (index (item (ret tensor) ''shape'') (num 1)) (num 64)) (num 0)])
       ''Unknown MTP matrix geometry'' (
     str ''affine-Q8'')))"

definition allocation_plan :: "pyval \<Rightarrow> pyval \<Rightarrow> expr" where
  "allocation_plan inventory context =
     check (conjs [type_in (ret context) [TInt],
          conjs [lt (num 0) (ret context), le (ret context) (num 8192)]]) ''Invalid MTP context'' (
     bnd (num 0) (\<lambda>dense.
     bnd (num 0) (\<lambda>logical.
     bnd (dict_of []) (\<lambda>counts.
     bnd (dict_of []) (\<lambda>entries'.
     bnd (loop (sorted_of (items_of (item (ret inventory) ''tensors'')))
         (counts, dense, logical, entries') (\<lambda>(counts, dense, logical, entries') tup1.
       unpack2 tup1 (\<lambda>name t.
         branch (isin (ret name) (tuple_of [ret EXPERT_GATE, ret EXPERT_DOWN]))
           (Inr (counts, dense, logical, entries')) (
         bnd (precision_prepare name t) (\<lambda>fmt.
         bnd (put (ret counts) (ret fmt) (add (lookup_or (ret counts) (ret fmt) (num 0)) (num 1))) (\<lambda>counts.
         bnd (branch (eq (ret fmt) (str ''BF16'')) (list_of [item (ret t) ''bytes''])
             (list_of [prod_of (item (ret t) ''shape''),
                  mul (floordiv (prod_of (item (ret t) ''shape'')) (num 64)) (num 2),
                  mul (floordiv (prod_of (item (ret t) ''shape'')) (num 64)) (num 2)])) (\<lambda>sizes.
         bnd (loop (ret sizes) (dense, logical) (\<lambda>(dense, logical) size'.
           bnd (mul (floordiv (sub (add (ret dense) (ret ALIGN)) (num 1)) (ret ALIGN)) (ret ALIGN)) (\<lambda>dense.
           bnd (add (ret dense) (ret size')) (\<lambda>dense.
           bnd (add (ret logical) (ret size')) (\<lambda>logical.
           Inr (dense, logical)))))) (\<lambda>(dense, logical).
         bnd (put (ret entries') (ret name)
             (dict_of [(''format'', ret fmt), (''shape'', item (ret t) ''shape''),
                  (''bytes'', sum_of (ret sizes)),
                  (''norm_convention'', branch (endswith (ret name) (ret NORM_SUFFIXES))
                      (str ''zero-centered-original; apply 1+w once'') none)])) (\<lambda>entries'.
         Inr (counts, dense, logical, entries')))))))))) (\<lambda>(counts, dense, logical, entries').
     bnd (mul (floordiv (sub (add (ret dense) (ret ALIGN)) (num 1)) (ret ALIGN)) (ret ALIGN)) (\<lambda>dense.
     bnd (mul (num 512) (ret STRIDE)) (\<lambda>expert.
     bnd (mul (mul (num (2 * 512 + 128)) (ret context)) (num 4)) (\<lambda>attention.
     bnd (num (4 * 10240 * 4)) (\<lambda>hidden.
     bnd (num (4 * 248320 * 4)) (\<lambda>logits.
     bnd (num (4 * (2 * 512 + 128) * 4)) (\<lambda>checkpoint_tail.
     bnd (num (64 * 1024 ^ 2)) (\<lambda>scratch.
     bnd (num (16 * 1024 ^ 2)) (\<lambda>metadata.
     bnd (add (add (add (add (add (add (add (ret expert) (ret dense)) (ret attention)) (ret hidden))
               (ret logits)) (ret checkpoint_tail)) (ret scratch)) (ret metadata)) (\<lambda>incremental.
     dict_of [(''expert_count'', num 512), (''expert_payload_bytes'', ret PREPARE_EXPERT_BYTES),
        (''expert_stride'', ret STRIDE), (''expert_allocated_bytes'', ret expert),
        (''dense_allocated_bytes'', ret dense), (''dense_logical_bytes'', ret logical),
        (''prepared_bytes'', add (ret expert) (ret dense)),
        (''dense_precision_counts'', ret counts), (''tensors'', ret entries'),
        (''context'', ret context), (''attention_state_bytes'', ret attention),
        (''hidden_workspace_bytes'', ret hidden), (''logits_workspace_bytes'', ret logits),
        (''draft_checkpoint_tail_bytes'', ret checkpoint_tail),
        (''scratch_allowance_bytes'', ret scratch), (''metadata_allowance_bytes'', ret metadata),
        (''shared_embedding_output_additional_bytes'', num 0),
        (''incremental_budget_bytes'', ret incremental),
        (''equivalent_target_cache_slots'', ceil_of (truediv (ret incremental) (ret STRIDE))),
        (''native_allocation_measured'', no)])))))))))))))))"

definition dense_part :: "pyval \<times> pyval \<Rightarrow> pyval \<Rightarrow> (pyval \<times> pyval) result" where
  "dense_part = (\<lambda>(cursor, entry) tup1.
     unpack3 tup1 (\<lambda>label size' dtype.
       bnd (mul (floordiv (sub (add (ret cursor) (ret ALIGN)) (num 1)) (ret ALIGN)) (ret ALIGN)) (\<lambda>cursor.
       bnd (put (ret entry) (str ''parts'')
           (put (item (ret entry) ''parts'') (ret label)
               (dict_of [(''offset'', ret cursor), (''bytes'', ret size'), (''dtype'', ret dtype)]))) (\<lambda>entry.
       bnd (add (ret cursor) (ret size')) (\<lambda>cursor.
       Inr (cursor, entry))))))"

definition dense_tensor :: "pyval \<times> pyval \<Rightarrow> pyval \<Rightarrow> (pyval \<times> pyval) result" where
  "dense_tensor = (\<lambda>(cursor, expected) tup2.
     unpack2 tup2 (\<lambda>name tensor.
       branch (isin (ret name) (tuple_of [ret EXPERT_GATE, ret EXPERT_DOWN]))
         (Inr (cursor, expected)) (
       bnd (precision_prepare name tensor) (\<lambda>fmt.
       bnd (prod_of (item (ret tensor) ''shape'')) (\<lambda>elements.
       bnd (dict_of [(''source'', ret name), (''shape'', item (ret tensor) ''shape''),
            (''format'', ret fmt), (''parts'', dict_of [])]) (\<lambda>entry.
       bnd (branch (eq (ret fmt) (str ''BF16''))
           (bnd (list_of [tuple_of [str ''weight'', mul (ret elements) (num 2), str ''BF16'']]) (\<lambda>parts.
             bnd (put (ret entry) (str ''norm_convention'')
                 (branch (endswith (ret name) (ret NORM_SUFFIXES))
                     (str ''zero-centered-original; apply 1+w once'') none)) (\<lambda>entry.
             Inr (parts, entry))))
           (bnd (list_of [tuple_of [str ''weight'', ret elements, str ''U32''],
                  tuple_of [str ''scales'', mul (floordiv (ret elements) (num 64)) (num 2),
                       str ''BF16''],
                  tuple_of [str ''biases'', mul (floordiv (ret elements) (num 64)) (num 2),
                       str ''BF16'']]) (\<lambda>parts.
             bnd (merge (ret entry) (dict_of [(''bits'', num 8), (''group_size'', num 64)])) (\<lambda>entry.
             Inr (parts, entry))))) (\<lambda>(parts, entry).
       bnd (loop (ret parts) (cursor, entry) dense_part) (\<lambda>(cursor, entry).
       bnd (put (ret expected) (ret name) (ret entry)) (\<lambda>expected.
       Inr (cursor, expected))))))))))"

definition validate_dense_layout :: "pyval \<Rightarrow> pyval \<Rightarrow> expr" where
  "validate_dense_layout manifest inventory =
     bnd (dict_of []) (\<lambda>expected.
     bnd (num 0) (\<lambda>cursor.
     bnd (loop (sorted_of (items_of (item (ret inventory) ''tensors''))) (cursor, expected) dense_tensor) (\<lambda>(cursor, expected).
     check (eq (item (ret manifest) ''tensors'') (ret expected))
       ''Dense MTP tensor binding differs from canonical layout'' (
     check (eq (item (item (item (ret manifest) ''files'') ''dense.bin'') ''bytes'')
         (mul (floordiv (sub (add (ret cursor) (ret ALIGN)) (num 1)) (ret ALIGN)) (ret ALIGN)))
       ''Changed dense allocation'' (
     none)))))"

definition validate_capture :: "(pyval \<Rightarrow> expr) \<Rightarrow> pyval \<Rightarrow> pyval \<Rightarrow> pyval \<Rightarrow> pyval \<Rightarrow> pyval \<Rightarrow> pyval \<Rightarrow> pyval \<Rightarrow> expr" where
  "validate_capture read_json native_top_p raw trace evidence' workload config decode_steps =
     reject (disjs [differs (get (ret raw) ''complete'') yes, ne (get (ret raw) ''workloads'') (ret workload),
          ne (get (ret raw) ''model_revision'') (item (ret evidence') ''artifact_revision''),
          nay (call1 (fixed_sampling native_top_p) (get (ret raw) ''sampling'')),
          ne (size_of (get_or (ret raw) ''runs'' (list_of []))) (size_of (ret workload)),
          nay (item (ret trace) ''complete''),
          ne (size_of (item (ret trace) ''requests'')) (size_of (ret workload))])
       ''Missing completed normal request and matching committed trace'' (
     bnd (loop (tuple_of [str ''build'', str ''artifact_revision'', str ''prepared_manifest_sha256'',
            str ''budget_bytes'', str ''device'', str ''physical_bytes'']) () (\<lambda>unused key.
       branch (ne (lookup (item (ret trace) ''identity'') (ret key))
           (index (ret evidence') (ret key)))
         (fail (add (str ''Route identity differs: '') (ret key))) (
       Inr ()))) (\<lambda>unused.
     reject (disjs [notin (size_of (ret workload)) (tuple_of [num 1, num 2]),
          get (index (ret workload) (num 0)) ''append'',
          ne (item (index (ret workload) (num 0)) ''max_tokens'') (add (ret decode_steps) (num 1))])
       ''Invalid capture workload'' (
     bnd (list_of []) (\<lambda>history.
     bnd (list_of []) (\<lambda>results.
     bnd (item (item (index (item (ret raw) ''runs'') (num 0)) ''before'') ''memory_plan'') (\<lambda>initial_plan.
     bnd none (\<lambda>session.
     bnd (loop (numbered (zip3 (item (ret raw) ''runs'') (ret workload)
             (item (ret trace) ''requests'')) 0) (session, results, history) (\<lambda>(session, results, history) tup1.
       unpack2 tup1 (\<lambda>i tup2.
         unpack3 tup2 (\<lambda>row task request.
           bnd (branch (eq (ret i) (num 0)) (ret decode_steps) (num 32)) (\<lambda>target.
           reject (conjs [ret i,
                disjs [differs (get (ret task) ''append'') yes,
                     ne (size_of (item (ret task) ''tokens'')) (num 128),
                     ne (item (ret task) ''max_tokens'') (num 33)]])
             ''Follow-up requires 128 new tokens and 32 decode steps'' (
           bnd (branch (ret i) (add (ret history) (item (ret task) ''tokens''))
               (item (ret task) ''tokens'')) (\<lambda>prompt.
           bnd (branch (ret i) (sub (size_of (ret history)) (num 1)) (num 0)) (\<lambda>reused.
           reject (disjs [differs (get (ret row) ''profiling_enabled'') yes,
                ne (get (ret row) ''runtime_cache_state'')
                    (branch (ret i) (str ''retained'') (str ''empty_at_process_start'')),
                ne (get (ret row) ''repetition'') (num 0),
                ne (get (ret row) ''name'') (item (ret task) ''name''),
                ne (get (ret row) ''prompt_tokens'') (size_of (ret prompt)),
                ne (get (ret row) ''reused_tokens'') (ret reused),
                conjs [ret i, ne (get (ret row) ''pending_tokens_ingested'') (num 1)]])
             ''Capture must reuse the exact live generated history'' (
           bnd (loop (tuple_of [str ''before'', str ''after'']) () (\<lambda>unused boundary.
             bnd (index (ret row) (ret boundary)) (\<lambda>state.
             bnd (call3 check_machine (ret state) (ret evidence') (mul (num 12) (ret GiB))) (\<lambda>unused.
             bnd (check_configuration read_json state config) (\<lambda>unused.
             reject (disjs [item (ret state) ''diagnostic_stream_trunk'',
                  ne (item (ret state) ''memory_plan'') (ret initial_plan),
                  ne (item (item (ret state) ''memory_plan'') ''panel_tokens'')
                      (item (ret config) ''panel''),
                  ne (item (item (ret state) ''phase_memory'') ''pressure_resizes'')
                      (item (item (item (index (item (ret raw) ''runs'') (num 0)) ''before'')
                            ''phase_memory'') ''pressure_resizes'')])
               ''Diagnostic, changed memory plan or pressure resize'' (
             Inr ())))))) (\<lambda>unused.
           reject (disjs [ne (item (ret request) ''name'') (item (ret task) ''name''),
                ne (item (ret request) ''input_token_ids'') (ret prompt),
                ne (item (ret request) ''max_tokens'') (item (ret task) ''max_tokens''),
                item (ret request) ''prime'',
                ne (item (item (ret request) ''result'') ''output_token_ids'')
                    (item (ret row) ''output_token_ids''),
                ne (item (item (ret request) ''result'') ''finish_reason'')
                    (item (ret row) ''finish_reason''),
                ne (item (item (ret request) ''result'') ''reused_tokens'') (ret reused)])
             ''Trace tokens or finish reason differ from native report'' (
           bnd (each_if (item (ret trace) ''committed'') (\<lambda>f.
               eq (item (ret f) ''request_id'') (item (ret request) ''request_id'')) (\<lambda>f. ret f)) (\<lambda>forwards.
           reject (nay (ret forwards)) ''Missing committed request forwards'' (
           bnd (branch (same (ret session) none)
               (bnd (item (index (ret forwards) (num 0)) ''session_id'') (\<lambda>session.
                 ret session)) (ret session)) (\<lambda>session.
           reject (some (ret forwards) (\<lambda>f. ne (item (ret f) ''session_id'') (ret session)))
             ''Follow-up rebuilt session state'' (
           bnd (each_if (ret forwards) (\<lambda>f. eq (item (ret f) ''request_phase'') (str ''decode'')) (\<lambda>f.
               ret f)) (\<lambda>generation.
           bnd (each_if (ret forwards) (\<lambda>f.
               eq (item (ret f) ''request_phase'')
                 (branch (ret i) (str ''append'') (str ''prefill''))) (\<lambda>f. ret f)) (\<lambda>ingestion.
           reject (disjs [ne (add (size_of (ret generation)) (size_of (ret ingestion)))
                    (size_of (ret forwards)),
                ne (sum_of (each (ret ingestion) (\<lambda>f. item (ret f) ''tokens'')))
                    (sub (size_of (ret prompt)) (ret reused)),
                some (ret generation) (\<lambda>f. ne (item (ret f) ''tokens'') (num 1)),
                ne (size_of (ret generation)) (sub (item (ret row) ''output_tokens'') (num 1)),
                ne (item (ret row) ''output_tokens'')
                    (size_of (item (ret row) ''output_token_ids''))])
             ''Generated outputs do not match committed forwards'' (
           bnd (append (ret results)
               (dict_of [(''name'', item (ret task) ''name''),
                    (''request_id'', item (ret request) ''request_id''),
                    (''generated_tokens'', item (ret row) ''output_tokens''),
                    (''committed_decode_steps'', size_of (ret generation)),
                    (''target_decode_steps'', ret target),
                    (''target_steps_met'', eq (size_of (ret generation)) (ret target)),
                    (''finish_reason'', item (ret row) ''finish_reason''),
                    (''prompt_tokens'', item (ret row) ''prompt_tokens''),
                    (''reused_tokens'', ret reused),
                    (''new_input_tokens'', size_of (item (ret task) ''tokens'')),
                    (''pending_tokens_ingested'', get_or (ret row) ''pending_tokens_ingested''
                        (num 0))])) (\<lambda>results.
           bnd (add (ret prompt) (item (ret row) ''output_token_ids'')) (\<lambda>history.
           Inr (session, results, history))))))))))))))))))))) (\<lambda>(session, results, history).
     dict_of [(''requests'', ret results),
        (''target_steps_met'', every (ret results) (\<lambda>r. item (ret r) ''target_steps_met'')),
        (''trace_complete'', yes),
        (''target_32_steps_met'', eq (item (index (ret results) (num 0))
              ''committed_decode_steps'') (num 32)),
        (''committed_decode_steps'', item (index (ret results) (num 0)) ''committed_decode_steps''),
        (''generated_tokens'', item (index (ret results) (num 0)) ''generated_tokens'')]))))))))"

definition contracts :: "expr" where
  "contracts =
     dict_of [(''cache_state_contract'', dict_of [(''path'', str ''expert_cache.diagnostic_cache_state''), (''hash'', str ''SHA256''),
             (''scope'', str
                 (''ordered slots, keys, CLOCK hand, references, pins, readiness, policy, stride and SLRU links'')),
             (''excludes'', str ''addresses, counters, read timing''),
             (''observes'', str ''only on ExpertCache::json calls; no cache mutation'')]),
        (''all_row_logits_contract'', dict_of [(''phase'', str ''decode''), (''block_lengths'', list_of [num 1, num 2, num 4]),
             (''layout'', str ''row-major token then vocabulary''),
             (''output_values'', str ''tokens * Vocab''),
             (''priming'', str ''original final hyper and last-row head unchanged''),
             (''priming_experts'', str
                 (''existing fixed lease batches of at most32; completion pipeline restored before decode'')),
             (''final_hyper'', str ''existing multi-token final hyper''),
             (''head'', str ''existing vectorized lm_head(mixed,tokens)''),
             (''kernels'', str
                 ''decode token_tile equals block length; original configuration outside decode''),
             (''one_token'', str ''original compute_logits body unchanged'')])]"

end
