(* ===== verification/HorizonCoverage.thy ===== *)
theory HorizonCoverage
  imports HorizonReplay ReplayDecode PyEval
begin

text \<open>
  The blocks that \<open>horizon_cache_replay.patterns\<close> plans for a workload, and their acceptance by the
  trace decoder of \<open>block_cache_replay.py\<close>.
\<close>

text \<open>The blocks a list of patterns describes.\<close>

fun block_at :: "pyval \<Rightarrow> (int \<times> int \<times> string) option" where
  "block_at (PTuple [PInt a, PInt n, PStr p]) = Some (a, n, p)"
| "block_at _ = None"

definition pattern :: "int \<times> int \<times> string \<Rightarrow> pyval" where
  "pattern b = (case b of (a, n, p) \<Rightarrow> PTuple [PInt a, PInt n, PStr p])"

fun contiguous :: "int \<Rightarrow> (int \<times> int \<times> string) list \<Rightarrow> bool" where
  "contiguous i [] = True"
| "contiguous i ((a, n, p) # bs) = (a = i \<and> 1 \<le> n \<and> contiguous (i + n) bs)"

definition covered :: "(int \<times> int \<times> string) list \<Rightarrow> int" where
  "covered bs = sum_list (map (fst \<circ> snd) bs)"

lemma decode_patterns_blocks:
  "consumed \<le> n \<Longrightarrow> 1 \<le> width \<Longrightarrow>
   \<exists>bs. decode_patterns prompt n width consumed = map pattern bs \<and> contiguous (prompt + consumed) bs \<and>
     covered bs = n - consumed \<and> (\<forall>(a, m, p) \<in> set bs. (m = width \<or> m = 1) \<and> p = ''decode'')"
proof (induction prompt n width consumed rule: decode_patterns.induct)
  case (1 prompt n width consumed)
  show ?case
  proof (cases "consumed < n")
    case True
    define rows where "rows = (if width \<le> n - consumed then max 1 width else 1)"
    have r: "1 \<le> rows" "consumed + rows \<le> n" "rows = width \<or> rows = 1" using True 1(3) by (auto simp: rows_def)
    obtain bs where bs: "decode_patterns prompt n width (consumed + rows) = map pattern bs"
      "contiguous (prompt + (consumed + rows)) bs" "covered bs = n - (consumed + rows)"
      "\<forall>(a, m, p) \<in> set bs. (m = width \<or> m = 1) \<and> p = ''decode''"
      using 1(1) [OF True rows_def r(2) 1(3)] by blast
    have "decode_patterns prompt n width consumed = map pattern ((prompt + consumed, rows, ''decode'') # bs)"
      using True bs(1) by (subst decode_patterns.simps) (simp add: pattern_def rows_def Let_def)
    then show ?thesis using r bs(2-4)
      by (intro exI [of _ "(prompt + consumed, rows, ''decode'') # bs"]) (auto simp: covered_def algebra_simps)
  next
    case False
    then show ?thesis using 1(2) by (intro exI [of _ "[]"]) (simp add: covered_def decode_patterns.simps)
  qed
qed

lemma patterns_shape:
  assumes "patterns work width = Inr v"
  obtains p n w bs where "size_of (item (ret work) ''prompt_ids'') = num p" "size_of (item (ret work) ''continuation_ids'') = num n"
    "width = PInt w" "w = 4 \<or> w = 8" "1 \<le> p" "p \<le> 128" "1 \<le> n" "n \<le> 64"
    "v = PList (map pattern ((0, p, ''prefill'') # bs))" "contiguous p bs" "covered bs = n"
    "\<forall>(a, m, q) \<in> set bs. (m = w \<or> m = 1) \<and> q = ''decode''"
proof -
  obtain P N where v: "holds (conjs [type_in (ret width) [TInt], isin (ret width) (tuple_of [num 4, num 8])])"
    "size_of (item (ret work) ''prompt_ids'') = Inr P" "size_of (item (ret work) ''continuation_ids'') = Inr N"
    "holds (conjs [conjs [le (num 1) (ret P), le (ret P) (num 128)], conjs [le (num 1) (ret N), le (ret N) (num 64)]])"
    "(case (P, N, width) of
       (PInt p, PInt n, PInt w) \<Rightarrow>
         Inr (PList (PTuple [PInt 0, PInt p, PStr ''prefill''] # decode_patterns p n w 0))
     | _ \<Rightarrow> Inl TypeError) = Inr v"
    using assms unfolding patterns_def check_eq_Inr bnd_eq_Inr by blast
  obtain p n where pn: "P = PInt p" "N = PInt n" using v(2,3) by (auto simp: size_shape)
  obtain w where w: "width = PInt w" "w = 4 \<or> w = 8"
    using v(1) by (auto simp: holds_simps ctrl_simps member_def simp del: conjs.simps)
  have b: "1 \<le> p" "p \<le> 128" "1 \<le> n" "n \<le> 64"
    using v(4) by (simp_all add: pn holds_simps py_simps del: conjs.simps)
  obtain bs where "decode_patterns p n w 0 = map pattern bs" "contiguous p bs" "covered bs = n"
    "\<forall>(a, m, q) \<in> set bs. (m = w \<or> m = 1) \<and> q = ''decode''"
    using decode_patterns_blocks [of 0 n w p] b w by auto
  then show thesis using that [OF v(2,3) [unfolded pn] w b, of bs] v(5) by (simp add: pn w pattern_def)
qed


lemma contiguous_length: "contiguous i bs \<Longrightarrow> int (length bs) \<le> covered bs"
  by (induction i bs rule: contiguous.induct) (auto simp: covered_def)

lemma covered_Cons: "covered ((a, m, p) # bs) = m + covered bs"
  by (simp add: covered_def)

lemma coverage_step_pattern:
  assumes "0 \<le> a" "a \<le> 8191" "1 \<le> m" "m \<le> 128" "p = (if j = 0 then ''prefill'' else ''decode'')"
  shows "coverage_step (PInt a) (PTuple [PInt j, pattern (a, m, p)]) = Inr (PInt (a + m))"
proof -
  have "coverage_step (PInt a) (PTuple [PInt j, pattern (a, m, p)]) = add (num a) (num m)"
    using assms by (simp add: coverage_step_def pattern_def in_range_def integer_def eval_simps)
  then show ?thesis by (simp add: eval_simps)
qed

lemma coverage_loop:
  "contiguous i bs \<Longrightarrow> 0 < j \<Longrightarrow> 0 \<le> i \<Longrightarrow> i + covered bs \<le> 8191 \<Longrightarrow>
   \<forall>(a, m, p) \<in> set bs. m \<le> 128 \<and> p = ''decode'' \<Longrightarrow>
   foldm coverage_step (PInt i) (map (\<lambda>(i, y). PTuple [PInt (0 + int i), y]) (enumerate_from j (map pattern bs))) =
     Inr (PInt (i + covered bs))"
proof (induction bs arbitrary: i j)
  case (Cons b bs)
  obtain a m p where b: "b = (a, m, p)" by (cases b) auto
  have c: "a = i" "1 \<le> m" "m \<le> 128" "p = ''decode''" "contiguous (i + m) bs" "0 \<le> covered bs"
    using Cons.prems contiguous_length [of "i + m" bs] by (auto simp: b)
  have "foldm coverage_step (PInt (i + m)) (map (\<lambda>(i, y). PTuple [PInt (0 + int i), y]) (enumerate_from (Suc j) (map pattern bs))) =
     Inr (PInt (i + m + covered bs))"
    by (rule Cons.IH) (use c Cons.prems in \<open>auto simp: covered_Cons b\<close>)
  then show ?case using c Cons.prems coverage_step_pattern [of i m p "int j"] by (simp add: b covered_Cons algebra_simps)
qed (simp add: covered_def)

section \<open>Properties\<close>

text \<open>
  C14: \<open>patterns\<close> cuts the workload without a gap: first the prompt, then decode blocks of the requested
  width or of one token that follow each other and together consume the whole continuation.
\<close>
theorem patterns_cover:
  assumes "patterns work width = Inr v" and "size_of (item (ret work) ''prompt_ids'') = num p"
    and "size_of (item (ret work) ''continuation_ids'') = num n"
  shows "\<exists>bs. v = PList (map pattern ((0, p, ''prefill'') # bs)) \<and> contiguous p bs \<and> covered bs = n \<and>
    (\<forall>(a, m, q) \<in> set bs. (PInt m = width \<or> m = 1) \<and> q = ''decode'')"
  by (rule patterns_shape [OF assms(1)]) (use assms(2,3) in auto)

definition sample_work :: pyval where
  "sample_work = PDict [(''prompt_ids'', PList (map PInt [5, 6, 7])), (''continuation_ids'', PList (map PInt [1, 2, 3, 4, 5, 6]))]"

lemma sample_patterns:
  "patterns sample_work (PInt 4) = Inr (PList (map pattern [(0, 3, ''prefill''), (3, 4, ''decode''), (7, 1, ''decode''), (8, 1, ''decode'')]))"
  by (simp add: patterns_def sample_work_def eval_simps len_def pattern_def decode_patterns.simps
      type_in_def isin_def member_def tuple_of_def num_equal_literal)

lemma sample_sizes:
  "size_of (item (ret sample_work) ''prompt_ids'') = num 3" "size_of (item (ret sample_work) ''continuation_ids'') = num 6"
  by (simp_all add: sample_work_def eval_simps len_def)

lemma patterns_cover_witness:
  "\<exists>v bs. patterns sample_work (PInt 4) = Inr v \<and> v = PList (map pattern ((0, 3, ''prefill'') # bs)) \<and> covered bs = 6"
  using patterns_cover [OF sample_patterns sample_sizes] sample_patterns by blast

text \<open>
  C15: The patterns that the horizon replay derives from a workload pass the coverage check of
  \<open>block_cache_replay.decode\<close>, whatever the workload.
\<close>
theorem coverage_accepted:
  assumes "patterns work width = Inr v"
  shows "check_coverage work v = Inr ()"
proof -
  obtain p n w bs where s: "size_of (item (ret work) ''prompt_ids'') = num p" "size_of (item (ret work) ''continuation_ids'') = num n"
    "width = PInt w" "w = 4 \<or> w = 8" "1 \<le> p" "p \<le> 128" "1 \<le> n" "n \<le> 64"
    "v = PList (map pattern ((0, p, ''prefill'') # bs))" "contiguous p bs" "covered bs = n"
    "\<forall>(a, m, q) \<in> set bs. (m = w \<or> m = 1) \<and> q = ''decode''"
    by (rule patterns_shape [OF assms])
  let ?ps = "pattern (0, p, ''prefill'') # map pattern bs"
  have l: "1 \<le> length bs" using s(7,11) by (cases bs) (auto simp: covered_def)
  have u: "length bs \<le> 64" using contiguous_length [OF s(10)] s(8,11) by simp
  have m: "\<forall>(a, m, q) \<in> set bs. m \<le> 128 \<and> q = ''decode''" using s(4,12) by fastforce
  have "foldm coverage_step (PInt p) (map (\<lambda>(i, y). PTuple [PInt (0 + int i), y]) (enumerate_from 1 (map pattern bs))) =
      Inr (PInt (p + n))"
    by (rule coverage_loop [of p bs 1, unfolded s(11)]) (use s(4-8,10,11) m in auto)
  then have loop: "loop (numbered (ret v) 0) (PInt 0) coverage_step = Inr (PInt (p + n))"
    using coverage_step_pattern [of 0 p "''prefill''" 0] s(5,6,9) by (simp add: loop_def numbered_def)
  have first: "index (index (ret v) (num 0)) (num 1) = num p"
    by (simp add: s(9) eval_simps pattern_def litem_def place_def len_def)
  show ?thesis
    unfolding check_coverage_def loop first s(1,2)
    using l u by (simp add: s(9) eval_simps isinstance_def len_def del: of_int_add)
qed

lemma coverage_accepted_witness:
  "\<exists>v. patterns sample_work (PInt 4) = Inr v \<and> check_coverage sample_work v = Inr ()"
  using coverage_accepted [OF sample_patterns] sample_patterns by blast

end
