(* ===== verification/IntervalPartition.thy ===== *)
theory IntervalPartition
  imports RequestProfile PyEval
begin

text \<open>
  \<open>decode_timeline.partition\<close> against a reference that looks at one nanosecond at a time: the sweep over
  the sorted interval ends measures, for every bucket, the times at which it is the first live one.
\<close>

section \<open>The reference\<close>

definition kinds :: "string list" where
  "kinds = [''gpu_active'', ''gpu_idle_submitted'', ''gpu_idle_ready_expert'', ''gpu_idle_pending_read'', ''gpu_idle_callback'']"

type_synonym interval = "string \<times> int \<times> int"

definition interval_value :: "interval \<Rightarrow> pyval" where
  "interval_value i = (case i of (k, a, b) \<Rightarrow> PTuple [PStr k, PInt a, PInt b])"

definition live :: "interval list \<Rightarrow> string \<Rightarrow> int \<Rightarrow> bool" where
  "live ivs k t \<longleftrightarrow> (\<exists>(k', a, b) \<in> set ivs. k' = k \<and> a \<le> t \<and> t < b)"

definition first_live :: "(string \<Rightarrow> bool) \<Rightarrow> string" where
  "first_live p = (case filter p kinds of [] \<Rightarrow> ''gpu_idle_other'' | k # _ \<Rightarrow> k)"

definition bucket_at :: "interval list \<Rightarrow> int \<Rightarrow> string" where
  "bucket_at ivs t = first_live (\<lambda>k. live ivs k t)"

definition bucket_time :: "interval list \<Rightarrow> int \<Rightarrow> int \<Rightarrow> string \<Rightarrow> int" where
  "bucket_time ivs a b k = int (card {t. a \<le> t \<and> t < b \<and> bucket_at ivs t = k})"

section \<open>Event tables\<close>

type_synonym event_table = "(int \<times> (string \<times> int) list) list"

definition change_value :: "string \<times> int \<Rightarrow> pyval" where
  "change_value c = PTuple [PStr (fst c), PInt (snd c)]"

definition table_value :: "event_table \<Rightarrow> pyval" where
  "table_value es = PMap (map (\<lambda>(t, cs). (PInt t, PList (map change_value cs))) es)"

definition changes :: "event_table \<Rightarrow> int \<Rightarrow> (string \<times> int) list" where
  "changes es t = (case map_of es t of None \<Rightarrow> [] | Some cs \<Rightarrow> cs)"

definition add_change :: "event_table \<Rightarrow> int \<Rightarrow> string \<times> int \<Rightarrow> event_table" where
  "add_change es t c = AList.update t (changes es t @ [c]) es"

lemma find_table: "find_entry (map (\<lambda>(t, cs). (PInt t, f cs)) es) (PInt t) = map_option f (map_of es t)"
  by (induction es) (auto simp del: py_eq.simps)

lemma lookup_table: "lookup_or (ret (table_value es)) (num t) (ret (PList [])) = ret (PList (map change_value (changes es t)))"
  by (simp add: lookup_or_def dict_get_def table_value_def find_table changes_def split: option.splits)

lemma put_entry_table:
  "put_entry (map (\<lambda>(t, cs). (PInt t, f cs)) es) (PInt t) (f cs) = map (\<lambda>(t, cs). (PInt t, f cs)) (AList.update t cs es)"
  by (induction es) (auto simp del: py_eq.simps)

lemma put_table: "put (ret (table_value es)) (num t) (ret (PList (map change_value cs))) = ret (table_value (AList.update t cs es))"
  using put_entry_table [of "\<lambda>cs. PList (map change_value cs)" es t cs]
  by (cases es) (auto simp: put_def store_def dict_put_def table_value_def of_entries_def)

lemma add_change_value:
  "put (ret (table_value es)) (num t) (append (lookup_or (ret (table_value es)) (num t) (ret (PList []))) (ret (change_value c))) =
   ret (table_value (add_change es t c))"
  using put_table [of es t "changes es t @ [c]"] by (simp add: lookup_table eval_simps add_change_def)

definition add_interval :: "int \<Rightarrow> int \<Rightarrow> event_table \<Rightarrow> interval \<Rightarrow> event_table" where
  "add_interval begin end es i = (case i of (k, a, b) \<Rightarrow>
     let a = max begin a; b = min end b
     in if a < b then add_change (add_change es a (k, 1)) b (k, - 1) else es)"

lemma max_num: "max_args [num i, num j] = num (max i j)" "min_args [num i, num j] = num (min i j)"
  by (simp_all add: max_args_def min_args_def largest_def smallest_def max2_def min2_def py_simps max_def min_def)

lemma partition_add_value:
  assumes "k \<in> set kinds" "a \<le> b"
  shows "partition_add (PInt begin) (PInt end) (table_value es) (interval_value (k, a, b)) =
    ret (table_value (add_interval begin end es (k, a, b)))"
proof -
  have n: "notin (str k) (slice (ret BUCKETS) none (num (- 1))) = Inr (PBool False)"
    using assms(1) by (auto simp: notin_def slice_def BUCKETS_def kinds_def slice_list_def clip_def len_def member_def numeral_eq_Suc)
  have t: "tuple_of [str k, num i] = ret (change_value (k, i))" for i by (simp add: tuple_of_def change_value_def)
  show ?thesis using assms(2)
    by (simp add: partition_add_def interval_value_def n max_num eval_simps t add_change_value add_interval_def reject_def Let_def)
qed


section \<open>What the table counts\<close>

definition inside :: "int \<Rightarrow> int \<Rightarrow> interval \<Rightarrow> string \<Rightarrow> int \<Rightarrow> bool" where
  "inside begin end i k t = (case i of (k', a, b) \<Rightarrow> k' = k \<and> max begin a \<le> t \<and> t < min end b)"

definition depth :: "int \<Rightarrow> int \<Rightarrow> interval list \<Rightarrow> string \<Rightarrow> int \<Rightarrow> int" where
  "depth begin end ivs k t = int (length (filter (\<lambda>i. inside begin end i k t) ivs))"

definition change_at :: "event_table \<Rightarrow> string \<Rightarrow> int \<Rightarrow> int" where
  "change_at es k t = sum_list (map snd (filter (\<lambda>c. fst c = k) (changes es t)))"

lemma changes_add: "changes (add_change es t c) u = (if u = t then changes es t @ [c] else changes es u)"
  by (simp add: changes_def add_change_def update_conv')

lemma change_at_add: "change_at (add_change es t (k', n)) k u = change_at es k u + (if u = t \<and> k = k' then n else 0)"
  by (simp add: change_at_def changes_add)

lemma keys_add: "fst ` set (add_change es t c) = insert t (fst ` set es)"
  by (simp add: add_change_def dom_update)

lemma distinct_add: "distinct (map fst es) \<Longrightarrow> distinct (map fst (add_change es t c))"
  by (simp add: add_change_def distinct_update)

definition table_ok :: "int \<Rightarrow> int \<Rightarrow> interval list \<Rightarrow> event_table \<Rightarrow> bool" where
  "table_ok begin end ivs es \<longleftrightarrow> distinct (map fst es) \<and> {begin, end} \<subseteq> fst ` set es \<and>
     fst ` set es \<subseteq> {begin..end} \<and>
     (\<forall>k t. change_at es k t = depth begin end ivs k t - depth begin end ivs k (t - 1))"

lemma add_interval_ok:
  assumes "table_ok begin end ivs es" "begin < end"
  shows "table_ok begin end (ivs @ [i]) (add_interval begin end es i)"
proof -
  obtain k a b where i: "i = (k, a, b)" by (cases i) auto
  let ?a = "max begin a" and ?b = "min end b"
  have d: "depth begin end (ivs @ [i]) k' t = depth begin end ivs k' t + (if k' = k \<and> ?a \<le> t \<and> t < ?b then 1 else 0)" for k' t
    by (simp add: depth_def inside_def i)
  show ?thesis
  proof (cases "?a < ?b")
    case True
    then have e: "add_interval begin end es i = add_change (add_change es ?a (k, 1)) ?b (k, - 1)"
      by (simp add: add_interval_def i Let_def)
    have "begin \<le> ?a" "?b \<le> end" by simp_all
    then show ?thesis using assms True
      by (auto simp: table_ok_def e d keys_add distinct_add change_at_add)
  next
    case False
    then have e: "add_interval begin end es i = es" by (simp only: add_interval_def i Let_def prod.case if_False)
    show ?thesis using assms False by (auto simp: table_ok_def e d)
  qed
qed

lemma partition_table:
  "table_ok begin end ds es \<Longrightarrow> begin < end \<Longrightarrow> \<forall>(k, a, b) \<in> set ivs. k \<in> set kinds \<and> a \<le> b \<Longrightarrow>
   \<exists>es'. foldm (partition_add (PInt begin) (PInt end)) (table_value es) (map interval_value ivs) = ret (table_value es') \<and>
     table_ok begin end (ds @ ivs) es'"
proof (induction ivs arbitrary: es ds)
  case (Cons i ivs)
  obtain k a b where i: "i = (k, a, b)" by (cases i) auto
  have "k \<in> set kinds" "a \<le> b" using Cons.prems(3) by (auto simp: i)
  then have s: "partition_add (PInt begin) (PInt end) (table_value es) (interval_value i) =
    ret (table_value (add_interval begin end es i))" unfolding i by (rule partition_add_value)
  show ?case using Cons.IH [OF add_interval_ok [OF Cons.prems(1,2), of i] Cons.prems(2)] Cons.prems(3) by (auto simp: s)
qed auto

lemma start_tables:
  assumes "begin < end"
  shows "setdefault (dict_of []) (num begin) (list_of []) = ret (table_value [(begin, [])])"
    "setdefault (ret (table_value [(begin, [])])) (num end) (list_of []) = ret (table_value [(begin, []), (end, [])])"
    "table_ok begin end [] [(begin, []), (end, [])]"
  using assms by (simp_all add: setdefault_def eval_simps member_def dict_put_def of_entries_def table_value_def ahas_def
      table_ok_def change_at_def changes_def depth_def)

section \<open>The sweep\<close>

definition counts_value :: "(string \<times> int) list \<Rightarrow> pyval" where
  "counts_value d = PDict (map (\<lambda>(k, n). (k, PInt n)) d)"

definition count_of :: "(string \<times> int) list \<Rightarrow> string \<Rightarrow> int" where
  "count_of d k = (case map_of d k of None \<Rightarrow> 0 | Some n \<Rightarrow> n)"

lemma map_of_counts: "map_of (map (\<lambda>(k, n). (k, PInt n)) d) k = map_option PInt (map_of d k)"
  by (induction d) auto

lemma lookup_counts: "lookup_or (ret (counts_value d)) (str k) (num 0) = num (count_of d k)"
  by (simp add: lookup_or_def dict_get_def counts_value_def map_of_counts count_of_def split: option.splits)

lemma update_counts: "AList.update k (PInt n) (map (\<lambda>(k, n). (k, PInt n)) d) = map (\<lambda>(k, n). (k, PInt n)) (AList.update k n d)"
  by (induction d) auto

lemma put_counts: "put (ret (counts_value d)) (str k) (num n) = ret (counts_value (AList.update k n d))"
  by (simp add: counts_value_def eval_simps aput_def update_counts)

lemma count_of_update: "count_of (AList.update k n d) j = (if j = k then n else count_of d j)"
  by (simp add: count_of_def update_conv')

lemma partition_changes:
  "\<exists>d'. foldm partition_change (counts_value d) (map change_value cs) = ret (counts_value d') \<and>
     (\<forall>k. count_of d' k = count_of d k + sum_list (map snd (filter (\<lambda>c. fst c = k) cs)))"
proof (induction cs arbitrary: d)
  case (Cons c cs)
  obtain k n where c: "c = (k, n)" by (cases c) auto
  let ?d = "AList.update k (count_of d k + n) d"
  have s: "partition_change (counts_value d) (change_value c) = ret (counts_value ?d)"
    by (simp add: partition_change_def change_value_def c lookup_counts put_counts eval_simps)
  obtain d' where "foldm partition_change (counts_value ?d) (map change_value cs) = ret (counts_value d')"
    "\<forall>k. count_of d' k = count_of ?d k + sum_list (map snd (filter (\<lambda>c. fst c = k) cs))" using Cons.IH by blast
  then show ?case using s by (auto simp: c count_of_update)
qed auto

lemma choose_bucket:
  "next_or (slice (ret BUCKETS) none (num (- 1))) (\<lambda>k. lookup_or (ret (counts_value d)) (ret k) (num 0)) (\<lambda>k. ret k)
     (index (ret BUCKETS) (num (- 1))) = str (first_live (\<lambda>k. count_of d k \<noteq> 0))"
proof -
  have s: "slice (ret BUCKETS) none (num (- 1)) = ret (PTuple (map PStr kinds))"
    by (simp add: slice_def BUCKETS_def kinds_def slice_list_def clip_def len_def numeral_eq_Suc)
  have l: "index (ret BUCKETS) (num (- 1)) = str ''gpu_idle_other''"
    by (simp add: BUCKETS_def eval_simps litem_last)
  have "attempt [''StopIteration''] (first_match (\<lambda>k. lookup_or (ret (counts_value d)) (ret k) (num 0)) ret (map PStr ks)) (\<lambda>e. ret v) =
      (case filter (\<lambda>k. count_of d k \<noteq> 0) ks of [] \<Rightarrow> ret v | k # _ \<Rightarrow> str k)" for ks v
    by (induction ks) (simp_all add: lookup_counts attempt_def)
  from this [of kinds "PStr ''gpu_idle_other''"] show ?thesis
    unfolding s l by (simp add: next_or_def first_live_def split: list.splits)
qed


definition bucket_names :: "string list" where
  "bucket_names = kinds @ [''gpu_idle_other'']"

definition totals_value :: "(string \<Rightarrow> int) \<Rightarrow> pyval" where
  "totals_value f = PDict (map (\<lambda>k. (k, PInt (f k))) bucket_names)"

lemma put_totals:
  assumes "k \<in> set bucket_names"
  shows "put (ret (totals_value f)) (str k) (add (index (ret (totals_value f)) (str k)) (num n)) =
    ret (totals_value (f(k := f k + n)))"
proof -
  have i: "index (ret (totals_value f)) (str k) = num (f k)"
  proof -
    have "k \<in> set ks \<Longrightarrow> map_of (map (\<lambda>k. (k, PInt (f k))) ks) k = Some (PInt (f k))" for ks
      by (induction ks) auto
    then show ?thesis using assms by (simp add: totals_value_def eval_simps aitem_def)
  qed
  have u: "k \<in> set ks \<Longrightarrow> distinct ks \<Longrightarrow>
      AList.update k (PInt n) (map (\<lambda>k. (k, PInt (f k))) ks) = map (\<lambda>j. (j, PInt ((f(k := n)) j))) ks" for ks n
  proof (induction ks)
    case (Cons j ks)
    show ?case
    proof (cases "j = k")
      case True
      then show ?thesis using Cons.prems by (auto intro!: map_cong)
    next
      case False
      then show ?thesis using Cons by auto
    qed
  qed simp
  have d: "distinct bucket_names" by (simp add: bucket_names_def kinds_def)
  show ?thesis unfolding i arith_num unfolding totals_value_def put_PDict aput_def using u [OF assms d] by simp
qed

lemma first_live_name: "first_live p \<in> set bucket_names"
proof (cases "filter p kinds")
  case (Cons k ks)
  have "k \<in> set kinds" using Cons filter_is_subset [of p kinds] by (metis list.set_intros(1) subsetD)
  then show ?thesis using Cons by (simp add: first_live_def bucket_names_def)
qed (simp add: first_live_def bucket_names_def)

lemma sweep_step:
  "\<exists>d'. partition_sweep (table_value es) (totals_value f, counts_value d, PInt p) (PInt t) =
     Inr (totals_value (f(first_live (\<lambda>k. count_of d k \<noteq> 0) := f (first_live (\<lambda>k. count_of d k \<noteq> 0)) + (t - p))),
          counts_value d', PInt t) \<and>
     (\<forall>k. count_of d' k = count_of d k + change_at es k t)"
proof -
  obtain d' where d': "foldm partition_change (counts_value d) (map change_value (changes es t)) = ret (counts_value d')"
    "\<forall>k. count_of d' k = count_of d k + change_at es k t" using partition_changes [of d "changes es t"] by (auto simp: change_at_def)
  show ?thesis
    by (intro exI [of _ d']) (simp add: partition_sweep_def choose_bucket eval_simps lookup_table loop_def d'
        put_totals [OF first_live_name, unfolded eval_simps])
qed


text \<open>Between two events every depth is constant; \<open>time_of\<close> measures by the depths.\<close>

definition time_of :: "(string \<Rightarrow> int \<Rightarrow> int) \<Rightarrow> int \<Rightarrow> int \<Rightarrow> string \<Rightarrow> int" where
  "time_of D a b k = int (card {t. a \<le> t \<and> t < b \<and> first_live (\<lambda>k. D k t \<noteq> 0) = k})"

lemma time_finite: "finite {t :: int. a \<le> t \<and> t < b \<and> P t}"
  by (rule finite_subset [of _ "{a..<b}"]) auto

lemma time_split:
  assumes "a \<le> b" "b \<le> c"
  shows "time_of D a c k = time_of D a b k + time_of D b c k"
proof -
  have "{t. a \<le> t \<and> t < c \<and> first_live (\<lambda>k. D k t \<noteq> 0) = k} =
      {t. a \<le> t \<and> t < b \<and> first_live (\<lambda>k. D k t \<noteq> 0) = k} \<union> {t. b \<le> t \<and> t < c \<and> first_live (\<lambda>k. D k t \<noteq> 0) = k}"
    using assms by auto
  moreover have "{t. a \<le> t \<and> t < b \<and> first_live (\<lambda>k. D k t \<noteq> 0) = k} \<inter>
      {t. b \<le> t \<and> t < c \<and> first_live (\<lambda>k. D k t \<noteq> 0) = k} = {}"
    by auto
  ultimately show ?thesis unfolding time_of_def by (simp add: card_Un_disjoint time_finite)
qed

lemma time_constant:
  assumes "a \<le> b" "\<And>k t. a \<le> t \<Longrightarrow> t < b \<Longrightarrow> D k t = n k"
  shows "time_of D a b k = (if first_live (\<lambda>k. n k \<noteq> 0) = k then b - a else 0)"
proof -
  have "{t. a \<le> t \<and> t < b \<and> first_live (\<lambda>k. D k t \<noteq> 0) = k} = (if first_live (\<lambda>k. n k \<noteq> 0) = k then {a..<b} else {})"
    using assms(2) by auto
  then show ?thesis using assms(1) by (simp add: time_of_def)
qed

lemma constant_between:
  fixes D :: "int \<Rightarrow> int"
  assumes "a \<le> t" "\<And>u. a < u \<Longrightarrow> u \<le> t \<Longrightarrow> D u = D (u - 1)"
  shows "D t = D a"
  using assms by (induction t rule: int_ge_induct) auto

lemma sorted_le_last: "sorted_wrt (<) ts \<Longrightarrow> u \<in> set ts \<Longrightarrow> u \<le> last ts" for u :: int
proof (induction ts)
  case (Cons t ts)
  show ?case
  proof (cases "ts = []")
    case False
    then have "last ts \<in> set ts" by simp
    then show ?thesis using Cons False by (auto intro: less_imp_le)
  qed (use Cons.prems(2) in simp)
qed simp

lemma sweep_run:
  assumes D: "\<And>k t. change_at es k t = D k t - D k (t - 1)"
  shows "sorted_wrt (<) ts \<Longrightarrow> ts \<noteq> [] \<Longrightarrow> p \<le> hd ts \<Longrightarrow> (\<And>k t. p \<le> t \<Longrightarrow> t < hd ts \<Longrightarrow> D k t = count_of d k) \<Longrightarrow>
    (\<And>k. D k (hd ts - 1) = count_of d k) \<Longrightarrow>
    (\<And>k t. hd ts \<le> t \<Longrightarrow> t \<le> last ts \<Longrightarrow> t \<notin> set ts \<Longrightarrow> change_at es k t = 0) \<Longrightarrow>
    \<exists>d'. foldm (partition_sweep (table_value es)) (totals_value f, counts_value d, PInt p) (map PInt ts) =
      Inr (totals_value (\<lambda>k. f k + time_of D p (last ts) k), counts_value d', PInt (last ts))"
proof (induction ts arbitrary: p d f)
  case (Cons t ts)
  let ?k = "first_live (\<lambda>k. count_of d k \<noteq> 0)" and ?f = "\<lambda>k. f k + time_of D p t k"
  obtain d' where s: "partition_sweep (table_value es) (totals_value f, counts_value d, PInt p) (PInt t) =
     Inr (totals_value (f(?k := f ?k + (t - p))), counts_value d', PInt t)"
    and c: "\<And>k. count_of d' k = count_of d k + change_at es k t"
    using sweep_step [of es f d p t] by blast
  have f: "f(?k := f ?k + (t - p)) = ?f"
  proof
    fix k
    have "time_of D p t k = (if ?k = k then t - p else 0)" by (rule time_constant) (use Cons.prems(3,4) in auto)
    then show "(f(?k := f ?k + (t - p))) k = ?f k" by auto
  qed
  have at: "D k t = count_of d' k" for k using D [of k t] c [of k] Cons.prems(5) [of k] by simp
  show ?case
  proof (cases "ts = []")
    case True
    then show ?thesis using s f by auto
  next
    case False
    have lt: "t < hd ts" "sorted_wrt (<) ts" using Cons.prems(1) False by (cases ts; simp)+
    have le: "u \<le> last ts" if "u \<in> set ts" for u by (rule sorted_le_last [OF lt(2) that])
    have flat: "D k u = count_of d' k" if "t \<le> u" "u < hd ts" for k u
    proof -
      have "D k u = D k t"
      proof (rule constant_between [OF that(1)])
        fix w assume w: "t < w" "w \<le> u"
        have "w \<notin> set ts" using w that(2) lt(2) False by (cases ts) auto
        moreover have "w \<le> last ts" using w that(2) le [of "hd ts"] False by simp
        ultimately have "change_at es k w = 0" using Cons.prems(6) [of w k] w(1) False by simp
        then show "D k w = D k (w - 1)" using D [of k w] by simp
      qed
      then show ?thesis using at by simp
    qed
    have "\<exists>d''. foldm (partition_sweep (table_value es)) (totals_value ?f, counts_value d', PInt t) (map PInt ts) =
      Inr (totals_value (\<lambda>k. ?f k + time_of D t (last ts) k), counts_value d'', PInt (last ts))"
    proof (rule Cons.IH [OF lt(2) False])
      show "t \<le> hd ts" using lt(1) by simp
      show "D k u = count_of d' k" if "t \<le> u" "u < hd ts" for k u by (rule flat [OF that])
      show "D k (hd ts - 1) = count_of d' k" for k by (rule flat) (use lt(1) in auto)
      show "change_at es k u = 0" if "hd ts \<le> u" "u \<le> last ts" "u \<notin> set ts" for k u
        using Cons.prems(6) [of u k] that lt(1) False by auto
    qed
    moreover have "?f k + time_of D t (last ts) k = f k + time_of D p (last ts) k" for k
      using time_split [of p t "last ts" D k] Cons.prems(3) le [of "hd ts"] lt(1) False by simp
    ultimately show ?thesis using s f False by auto
  qed
qed simp


section \<open>The result of \<open>partition\<close>\<close>

lemma sorted_table: "sorted_of (ret (table_value es)) = ret (PList (map PInt (sort (map fst es))))"
proof -
  have "iter (table_value es) = Inr (map PInt (map fst es))" by (simp add: table_value_def split_def comp_def)
  then show ?thesis by (simp add: sorted_of_def sort_values_ints del: map_map)
qed

lemma sum_totals: "sum_of (values_of (ret (totals_value f))) = num (sum_list (map f bucket_names))"
proof -
  have "values_of (ret (totals_value f)) = ret (PList (map PInt (map f bucket_names)))"
    by (simp add: values_of_def totals_value_def bucket_names_def)
  then show ?thesis by (simp only: sum_of_ints)
qed

lemma distinct_names: "distinct bucket_names"
  by (simp add: bucket_names_def kinds_def)

lemma times_add_up:
  assumes "a \<le> b"
  shows "sum_list (map (time_of D a b) bucket_names) = b - a"
proof -
  let ?g = "\<lambda>t. first_live (\<lambda>k. D k t \<noteq> 0)"
  have "sum_list (map (time_of D a b) bucket_names) = (\<Sum>k\<in>set bucket_names. int (card {t \<in> {a..<b}. ?g t = k}))"
    unfolding sum_list_distinct_conv_sum_set [OF distinct_names] time_of_def
    by (intro sum.cong) (auto intro!: arg_cong [where f = card])
  also have "\<dots> = (\<Sum>k\<in>set bucket_names. \<Sum>t\<in>{t \<in> {a..<b}. ?g t = k}. 1)" by simp
  also have "\<dots> = (\<Sum>t\<in>{a..<b}. 1)" by (rule sum.group) (auto simp: first_live_name)
  finally show ?thesis using assms by simp
qed

lemma depth_live:
  assumes "begin \<le> t" "t < end"
  shows "depth begin end ivs k t \<noteq> 0 \<longleftrightarrow> live ivs k t"
proof -
  have "depth begin end ivs k t \<noteq> 0 \<longleftrightarrow> (\<exists>i \<in> set ivs. inside begin end i k t)"
    by (simp add: depth_def filter_empty_conv)
  also have "\<dots> \<longleftrightarrow> live ivs k t" using assms by (auto simp: inside_def live_def split: prod.splits)
  finally show ?thesis .
qed

lemma time_bucket: "time_of (depth begin end ivs) begin end k = bucket_time ivs begin end k"
proof -
  have "{t. begin \<le> t \<and> t < end \<and> first_live (\<lambda>k. depth begin end ivs k t \<noteq> 0) = k} =
      {t. begin \<le> t \<and> t < end \<and> bucket_at ivs t = k}"
    by (auto simp: bucket_at_def depth_live)
  then show ?thesis by (simp add: time_of_def bucket_time_def)
qed

text \<open>
  C16: \<open>partition\<close> is total on valid intervals and exact: the time it gives a bucket is the number of
  nanoseconds of the token at which that bucket's kind is the first one with a live interval (the
  last bucket when none is live), so its assertion that the buckets add up never fails.
\<close>
theorem partition_measures:
  assumes "0 \<le> begin" "begin < end" "\<forall>(k, a, b) \<in> set ivs. k \<in> set kinds \<and> a \<le> b"
  shows "partition (PInt begin) (PInt end) (PList (map interval_value ivs)) =
    ret (PDict (map (\<lambda>k. (k, PInt (bucket_time ivs begin end k))) bucket_names))"
proof -
  obtain es where es: "foldm (partition_add (PInt begin) (PInt end)) (table_value [(begin, []), (end, [])]) (map interval_value ivs) =
      ret (table_value es)" and ok: "table_ok begin end ivs es"
    using partition_table [OF start_tables(3) assms(2,3)] assms(2) by auto
  let ?ts = "sort (map fst es)" and ?D = "depth begin end ivs"
  have set: "set ?ts = fst ` set es" "{begin, end} \<subseteq> set ?ts" "set ?ts \<subseteq> {begin..end}"
    using ok by (auto simp: table_ok_def)
  have ts: "sorted_wrt (<) ?ts" using ok by (simp add: table_ok_def strict_sorted_iff)
  have ne: "?ts \<noteq> []" using set(2) by (metis insert_subset empty_set empty_iff)
  have last: "last ?ts = end"
    using sorted_le_last [OF ts, of "end"] last_in_set [OF ne] set(2,3) by fastforce
  have hd: "hd ?ts = begin"
  proof -
    have "hd ?ts \<le> begin" using ts set(2) by (cases ?ts) (auto intro: less_imp_le)
    then show ?thesis using hd_in_set [OF ne] set(3) by fastforce
  qed
  have z: "?D k (begin - 1) = 0" for k by (simp add: depth_def inside_def split_def)
  have c: "change_at es k t = ?D k t - ?D k (t - 1)" for k t using ok by (simp add: table_ok_def)
  have flat: "change_at es k t = 0" if "t \<notin> set ?ts" for k t
    using that by (auto simp: change_at_def changes_def dest: map_of_SomeD split: option.splits) (metis fst_conv image_eqI map_of_SomeD)
  obtain d' where run: "foldm (partition_sweep (table_value es)) (totals_value (\<lambda>_. 0), counts_value [], PInt begin) (map PInt ?ts) =
      Inr (totals_value (\<lambda>k. 0 + time_of ?D begin (last ?ts) k), counts_value d', PInt (last ?ts))"
    using sweep_run [OF c ts ne, of "begin" "[]" "\<lambda>_. 0"] hd z flat by (auto simp: count_of_def)
  have tot: "dict_fromkeys (ret BUCKETS) (num 0) = ret (totals_value (\<lambda>_. 0))"
    by (simp add: dict_fromkeys_def BUCKETS_def totals_value_def bucket_names_def kinds_def dict_put_def aput_Cons aput_Nil)
  have act: "PDict [] = counts_value []" by (simp add: counts_value_def)
  have "partition (PInt begin) (PInt end) (PList (map interval_value ivs)) = ret (totals_value (time_of ?D begin end))"
    using assms(1,2) run [folded act] unfolding last
    by (simp add: partition_def start_tables [unfolded displays] reject_def nay_def eval_simps loop_def es sorted_table tot
        assert_that_def sum_totals times_add_up del: of_int_diff)
  then show ?thesis by (simp add: totals_value_def time_bucket)
qed

lemma partition_measures_witness:
  "partition (PInt 0) (PInt 10) (PList (map interval_value [(''gpu_active'', 2, 5), (''gpu_idle_callback'', 4, 80)])) =
   ret (PDict (map (\<lambda>k. (k, PInt (bucket_time [(''gpu_active'', 2, 5), (''gpu_idle_callback'', 4, 80)] 0 10 k))) bucket_names))"
  by (rule partition_measures) (simp_all add: kinds_def)

end
