(* ===== verification/AllocationBounds.thy ===== *)
theory AllocationBounds
  imports ArtifactInventory MtpComparison PyEval "HOL-Library.Multiset"
begin

text \<open>
  Bounds of the storage plans: the geometry of an accepted source tensor (\<open>mtp_source.py\<close>), the canonical
  layout of the dense tensors (\<open>prepare_mtp.py\<close>) and the largest cache of a memory budget
  (\<open>analyze_streamed_cache_budget.py\<close>).
\<close>

section \<open>Source tensors\<close>

lemma prod_ints: "foldm py_mul (PInt a) (map PInt ds) = num (a * prod_list ds)"
  by (induction ds arbitrary: a) (simp_all add: py_mul_def arith_def mult.assoc)

lemma prod_of_ints: "prod_of (ret (PList (map PInt ds))) = num (prod_list ds)"
  using prod_ints [of 1 ds] by (simp add: prod_of_def)

lemma int_list:
  assumes "\<forall>x\<in>set xs. \<exists>i. x = PInt i"
  obtains ds where "xs = map PInt ds"
proof -
  have "\<exists>ds. xs = map PInt ds" using assms
  proof (induction xs)
    case (Cons x xs)
    then obtain i ds where "x = PInt i" "xs = map PInt ds" by auto
    then show ?case by (intro exI [of _ "i # ds"]) simp
  qed simp
  then show thesis using that by blast
qed

lemma prod_list_pos: "\<forall>d\<in>set ds. 0 < (d::int) \<Longrightarrow> 0 < prod_list ds"
  by (induction ds) auto

text \<open>
  C17: A tensor that \<open>validate_tensor\<close> accepts is described with exactly four typed fields: a non-empty shape
  of positive integers, the type BF16, and an offset and a byte count (two bytes per element) that
  lie within the source file.
\<close>
theorem validate_tensor_geometry:
  assumes "validate_tensor name entry (PInt base) (PInt filesize) = Inr v"
  shows "\<exists>dims lo. v = PDict [(''shape'', PList (map PInt dims)), (''dtype'', PStr ''BF16''),
       (''offset'', PInt (base + lo)), (''bytes'', PInt (2 * prod_list dims))] \<and>
     dims \<noteq> [] \<and> (\<forall>d\<in>set dims. 0 < d) \<and> 0 \<le> lo \<and> 0 < prod_list dims \<and> base + lo + 2 * prod_list dims \<le> filesize"
proof -
  obtain shape bounds where s: "holds (conjs [isinstance (ret shape) [TList], ret shape,
          every (ret shape) (\<lambda>v. conjs [type_in (ret v) [TInt], gt (ret v) (num 0)])])"
    and b: "holds (conjs [isinstance (ret bounds) [TList], eq (size_of (ret bounds)) (num 2),
          every (ret bounds) (\<lambda>v. type_in (ret v) [TInt])])"
    and r: "bnd (ret bounds) (\<lambda>tup1.
     unpack2 tup1 (\<lambda>lo hi.
     bnd (mul (prod_of (ret shape)) (num 2)) (\<lambda>size'.
     check (conjs [conjs [le (num 0) (ret lo), lt (ret lo) (ret hi)], eq (sub (ret hi) (ret lo)) (ret size'),
          le (add (num base) (ret hi)) (num filesize)]) ''Invalid tensor storage geometry'' (
     dict_of [(''shape'', ret shape), (''dtype'', str ''BF16''), (''offset'', add (num base) (ret lo)),
        (''bytes'', ret size')])))) = Inr v"
    using assms unfolding validate_tensor_def check_msg_eq_Inr check_eq_Inr bnd_eq_Inr by blast
  obtain xs where xs: "shape = PList xs" "xs \<noteq> []" "\<forall>x\<in>set xs. (\<exists>i. x = PInt i) \<and> py_less (PInt 0) x = Inr True"
    using s by (auto simp: holds_simps isinstance_def simp del: conjs.simps)
  obtain ds where ds: "xs = map PInt ds" using xs(3) int_list [of xs] by metis
  have pos: "\<forall>d\<in>set ds. 0 < d" using xs(3) by (auto simp: ds)
  obtain ys where ys: "bounds = PList ys" "\<forall>x\<in>set ys. \<exists>i. x = PInt i"
    using b by (auto simp: holds_simps isinstance_def simp del: conjs.simps)
  obtain bs where bs: "ys = map PInt bs" using ys(2) int_list [of ys] by metis
  obtain lo hi where lh: "bs = [lo, hi]" using r by (auto simp: ys bs ctrl_simps)
  have "0 \<le> lo" "hi - lo = prod_list ds * 2" "base + hi \<le> filesize"
    "v = PDict [(''shape'', PList (map PInt ds)), (''dtype'', PStr ''BF16''), (''offset'', PInt (base + lo)),
        (''bytes'', PInt (prod_list ds * 2))]"
    using r by (simp_all add: ys bs lh xs(1) ds prod_of_ints eval_simps ctrl_simps holds_simps del: conjs.simps of_int_diff)
  then show ?thesis using pos xs(2) prod_list_pos [OF pos] by (intro exI [of _ ds] exI [of _ lo]) (auto simp: ds)
qed

definition sample_entry :: pyval where
  "sample_entry = PDict [(''dtype'', PStr ''BF16''), (''shape'', PList [PInt 2, PInt 3]), (''data_offsets'', PList [PInt 0, PInt 12])]"

lemma sample_tensor:
  "validate_tensor (PStr ''w'') sample_entry (PInt 8) (PInt 20) = Inr (PDict [(''shape'', PList [PInt 2, PInt 3]),
     (''dtype'', PStr ''BF16''), (''offset'', PInt 8), (''bytes'', PInt 12)])"
  by code_simp

lemma validate_tensor_geometry_witness:
  "\<exists>v dims lo. validate_tensor (PStr ''w'') sample_entry (PInt 8) (PInt 20) = Inr v \<and>
     v = PDict [(''shape'', PList (map PInt dims)), (''dtype'', PStr ''BF16''), (''offset'', PInt (8 + lo)),
           (''bytes'', PInt (2 * prod_list dims))] \<and>
     dims = [2, 3] \<and> lo = 0 \<and> 0 < prod_list dims \<and> 8 + lo + 2 * prod_list dims \<le> 20"
proof -
  obtain dims lo where v: "PDict [(''shape'', PList [PInt 2, PInt 3]), (''dtype'', PStr ''BF16''), (''offset'', PInt 8), (''bytes'', PInt 12)] =
      PDict [(''shape'', PList (map PInt dims)), (''dtype'', PStr ''BF16''), (''offset'', PInt (8 + lo)), (''bytes'', PInt (2 * prod_list dims))]"
    and "0 < prod_list dims" "8 + lo + 2 * prod_list dims \<le> 20"
    using validate_tensor_geometry [OF sample_tensor] by metis
  moreover have "dims = [2, 3]" "lo = 0" using v by (auto simp: Cons_eq_map_conv)
  ultimately show ?thesis using sample_tensor by (intro exI [of _ dims] exI [of _ lo] exI conjI) simp_all
qed

section \<open>Layouts\<close>

text \<open>The spans \<open>(offset, bytes)\<close> of the parts of an entry, and a gap-free check of a sequence of spans.\<close>

fun span_of :: "pyval \<Rightarrow> (int \<times> int) option" where
  "span_of (PDict [(k, PInt i), (l, PInt n), d]) = (if k = ''offset'' \<and> l = ''bytes'' then Some (i, n) else None)"
| "span_of _ = None"

definition entry_spans :: "pyval \<Rightarrow> (int \<times> int) option list" where
  "entry_spans v = (case v of
     PDict e \<Rightarrow> (case map_of e ''parts'' of Some (PDict ps) \<Rightarrow> map (span_of \<circ> snd) ps | _ \<Rightarrow> [None])
   | _ \<Rightarrow> [None])"

fun laid :: "int \<Rightarrow> (int \<times> int) list \<Rightarrow> int \<Rightarrow> bool" where
  "laid lo [] hi = (lo = hi)"
| "laid lo ((i, n) # sps) hi = (lo \<le> i \<and> 16384 dvd i \<and> 0 \<le> n \<and> laid (i + n) sps hi)"

lemma laid_append: "laid lo xs mid \<Longrightarrow> laid mid ys hi \<Longrightarrow> laid lo (xs @ ys) hi"
  by (induction lo xs mid rule: laid.induct) auto

lemma laid_le: "laid lo sps hi \<Longrightarrow> lo \<le> hi"
  by (induction lo sps hi rule: laid.induct) auto

lemma laid_within: "laid lo sps hi \<Longrightarrow> (i, n) \<in> set sps \<Longrightarrow> lo \<le> i \<and> 16384 dvd i \<and> 0 \<le> n \<and> i + n \<le> hi"
proof (induction lo sps hi rule: laid.induct)
  case (2 lo j m sps hi)
  then show ?case using laid_le [of "j + m" sps hi] by auto
qed simp

lemma laid_disjoint: "laid lo sps hi \<Longrightarrow> sorted_wrt (\<lambda>(i, n) (j, m). i + n \<le> j) sps"
proof (induction lo sps hi rule: laid.induct)
  case (2 lo i n sps hi)
  then show ?case using laid_within [of "i + n" sps hi] by auto
qed simp

definition aligned_up :: "int \<Rightarrow> int" where
  "aligned_up c = (c + 16384 - 1) div 16384 * 16384"

lemma aligned_up: "c \<le> aligned_up c \<and> 16384 dvd aligned_up c"
  unfolding aligned_up_def by simp

lemma align_expr:
  "mul (floordiv (sub (add (num c) (ret ALIGN)) (num 1)) (ret ALIGN)) (ret ALIGN) = num (aligned_up c)"
  by (simp add: ALIGN_def eval_simps aligned_up_def)

lemma any_affix_tuple: "any_affix test (PTuple (map PStr ss)) = Inr (PBool (\<exists>q\<in>set ss. test q))"
proof -
  have "anym (\<lambda>p. case p of PStr q \<Rightarrow> Inr (test q) | _ \<Rightarrow> Inl TypeError) (map PStr ss) = Inr (\<exists>q\<in>set ss. test q)"
    by (induction ss) (auto simp: orm_def)
  then show ?thesis by (simp add: any_affix_def)
qed

lemma norm_suffixes: "\<exists>b. endswith (str s) (ret NORM_SUFFIXES) = Inr (PBool b)"
  using any_affix_tuple [of "\<lambda>p. prefixed (rev p) (rev s)" "[''hc_norm.weight'', ''q_norm.weight'', ''k_norm.weight'',
    ''q_layernorm.weight'', ''k_layernorm.weight'', ''pre_fc_norm_embedding.weight'', ''pre_fc_norm_hidden.weight'']"]
  by (simp add: endswith_def NORM_SUFFIXES_def)

lemma norm_choice: "\<exists>norm. branch (endswith (str s) (ret NORM_SUFFIXES)) (str text) none = Inr norm"
  using norm_suffixes [of s] by (auto simp: branch_def)

lemma dense_tensor_step:
  assumes step: "dense_tensor (PInt c, PDict table) (PTuple [PStr s, t]) = Inr (c1, v)"
    and shape: "item (ret t) ''shape'' = ret (PList (map PInt dims))" "\<forall>d\<in>set dims. 0 < d"
    and new: "s \<notin> fst ` set table"
  shows "c1 = PInt c \<and> v = PDict table \<or>
    (\<exists>entry c' sps. c1 = PInt c' \<and> v = PDict (table @ [(s, entry)]) \<and> entry_spans entry = map Some sps \<and> laid c sps c')"
proof -
  have p: "0 < prod_list dims" by (rule prod_list_pos [OF shape(2)])
  have put: "aput table s entry = table @ [(s, entry)]" for entry
    using new unfolding aput_def by (induction table) auto
  obtain elements where e: "prod_of (item (ret t) ''shape'') = Inr elements" "elements = PInt (prod_list dims)"
    using shape(1) prod_of_ints [of dims] by simp
  show ?thesis
  proof (cases "isin (str s) (tuple_of [ret EXPERT_GATE, ret EXPERT_DOWN])")
    case (Inr b)
    show ?thesis
    proof (cases "truthy b")
      case True
      then show ?thesis using step Inr by (simp add: dense_tensor_def branch_def)
    next
      case False
      obtain fmt where fmt: "precision_prepare (PStr s) t = Inr fmt"
        using step Inr False by (cases "precision_prepare (PStr s) t") (simp_all add: dense_tensor_def branch_def)
      let ?n = "prod_list dims"
      show ?thesis
      proof (cases "py_eq fmt (PStr ''BF16'')")
        case True
        obtain norm where norm: "branch (endswith (str s) (ret NORM_SUFFIXES)) (str ''zero-centered-original; apply 1+w once'') none = Inr norm"
          using norm_choice by blast
        let ?o = "aligned_up c"
        let ?entry = "PDict [(''source'', PStr s), (''shape'', PList (map PInt dims)), (''format'', fmt),
          (''parts'', PDict [(''weight'', PDict [(''offset'', PInt ?o), (''bytes'', PInt (?n * 2)), (''dtype'', PStr ''BF16'')])]),
          (''norm_convention'', norm)]"
        have "(Inr (c1, v) :: (pyval \<times> pyval) result) = Inr (PInt (?o + ?n * 2), PDict (table @ [(s, ?entry)]))"
          unfolding step [symmetric] using Inr False fmt True shape(1) e norm
          by (simp add: dense_tensor_def dense_part_def branch_def dict_of_def list_of_def tuple_of_def eval_simps loop_def align_expr put)
        moreover have "laid c [(?o, ?n * 2)] (?o + ?n * 2)" using aligned_up [of c] p by simp
        moreover have "entry_spans ?entry = map Some [(?o, ?n * 2)]" by (simp add: entry_spans_def)
        ultimately show ?thesis by blast
      next
        case q8: False
        let ?m = "?n div 64 * 2"
        let ?a = "aligned_up c"
        let ?b = "aligned_up (?a + ?n)"
        let ?d = "aligned_up (?b + ?m)"
        let ?entry = "PDict [(''source'', PStr s), (''shape'', PList (map PInt dims)), (''format'', fmt),
          (''parts'', PDict [(''weight'', PDict [(''offset'', PInt ?a), (''bytes'', PInt ?n), (''dtype'', PStr ''U32'')]),
             (''scales'', PDict [(''offset'', PInt ?b), (''bytes'', PInt ?m), (''dtype'', PStr ''BF16'')]),
             (''biases'', PDict [(''offset'', PInt ?d), (''bytes'', PInt ?m), (''dtype'', PStr ''BF16'')])]),
          (''bits'', PInt 8), (''group_size'', PInt 64)]"
        have "(Inr (c1, v) :: (pyval \<times> pyval) result) = Inr (PInt (?d + ?m), PDict (table @ [(s, ?entry)]))"
          unfolding step [symmetric] using Inr False fmt q8 shape(1) e
          by (simp add: dense_tensor_def dense_part_def branch_def dict_of_def list_of_def tuple_of_def eval_simps loop_def
              align_expr put merge_def dict_put_def)
        moreover have "laid c [(?a, ?n), (?b, ?m), (?d, ?m)] (?d + ?m)"
          using aligned_up [of c] aligned_up [of "?a + ?n"] aligned_up [of "?b + ?m"] p by (simp add: pos_imp_zdiv_nonneg_iff)
        moreover have "entry_spans ?entry = map Some [(?a, ?n), (?b, ?m), (?d, ?m)]" by (simp add: entry_spans_def)
        ultimately show ?thesis by blast
      qed
    qed
  qed (use step in \<open>simp add: dense_tensor_def branch_def\<close>)
qed


lemma dense_layout:
  assumes "foldm dense_tensor (PInt c, PDict table) rows = Inr (c1, v)"
    and "\<forall>r \<in> set rows. \<exists>s t dims. r = PTuple [PStr s, t] \<and> item (ret t) ''shape'' = ret (PList (map PInt dims)) \<and> (\<forall>d\<in>set dims. 0 < d)"
    and "distinct (map (\<lambda>r. case r of PTuple [n, t] \<Rightarrow> n | _ \<Rightarrow> PNone) rows)"
    and "\<forall>s. PStr s \<in> set (map (\<lambda>r. case r of PTuple [n, t] \<Rightarrow> n | _ \<Rightarrow> PNone) rows) \<longrightarrow> s \<notin> fst ` set table"
    and "concat (map (entry_spans \<circ> snd) table) = map Some sps" "laid 0 sps c"
  shows "\<exists>c' table' sps'. c1 = PInt c' \<and> v = PDict table' \<and> concat (map (entry_spans \<circ> snd) table') = map Some sps' \<and> laid 0 sps' c'"
  using assms
proof (induction rows arbitrary: c table sps)
  case (Cons r rows)
  obtain s t dims where r: "r = PTuple [PStr s, t]" "item (ret t) ''shape'' = ret (PList (map PInt dims))" "\<forall>d\<in>set dims. 0 < d"
    using Cons.prems(2) by auto
  obtain c2 v2 where step: "dense_tensor (PInt c, PDict table) r = Inr (c2, v2)"
    and rest: "foldm dense_tensor (c2, v2) rows = Inr (c1, v)" using Cons.prems(1) by (auto simp: bnd_eq_Inr)
  have new: "s \<notin> fst ` set table" using Cons.prems(4) by (auto simp: r(1))
  show ?case using dense_tensor_step [OF step [unfolded r(1)] r(2,3) new]
  proof (elim disjE exE conjE)
    assume "c2 = PInt c" "v2 = PDict table"
    then show ?thesis using Cons.prems(2-4) by (intro Cons.IH [OF rest [unfolded \<open>c2 = PInt c\<close> \<open>v2 = PDict table\<close>] _ _ _ Cons.prems(5,6)]) auto
  next
    fix entry c' new_sps
    assume n: "c2 = PInt c'" "v2 = PDict (table @ [(s, entry)])" "entry_spans entry = map Some new_sps" "laid c new_sps c'"
    show ?thesis
    proof (rule Cons.IH [OF rest [unfolded n(1,2)]])
      show "concat (map (entry_spans \<circ> snd) (table @ [(s, entry)])) = map Some (sps @ new_sps)"
        unfolding map_append concat_append Cons.prems(5) using n(3) by simp
      show "laid 0 (sps @ new_sps) c'" by (rule laid_append [OF Cons.prems(6) n(4)])
    qed (use Cons.prems(2-4) r(1) in auto)
  qed
qed auto

text \<open>
  C18: When \<open>validate_dense_layout\<close> accepts a manifest, its tensor table equals a canonical one whose parts are
  aligned to 16384 bytes, do not overlap, and end within the bytes declared for \<open>dense.bin\<close>.
\<close>
theorem dense_layout_disjoint:
  assumes "validate_dense_layout manifest inventory = Inr v"
    and "item (ret inventory) ''tensors'' = ret (PDict tensors)" "distinct (map fst tensors)"
    and "\<forall>(n, t) \<in> set tensors. \<exists>dims. item (ret t) ''shape'' = ret (PList (map PInt dims)) \<and> (\<forall>d\<in>set dims. 0 < d)"
  shows "\<exists>bound tensors table sps total. item (ret manifest) ''tensors'' = Inr bound \<and> py_eq bound (PDict table) \<and>
     concat (map (entry_spans \<circ> snd) table) = map Some sps \<and>
     sorted_wrt (\<lambda>(i, n) (j, m). i + n \<le> j) sps \<and> (\<forall>(i, n) \<in> set sps. 0 \<le> i \<and> 16384 dvd i \<and> 0 \<le> n \<and> i + n \<le> total) \<and>
     holds (eq (item (item (item (ret manifest) ''files'') ''dense.bin'') ''bytes'') (num total))"
proof -
  obtain rows where rows: "sort_values (map (\<lambda>(k, v). PTuple [PStr k, v]) tensors) = Inr rows"
    and loop: "\<exists>c v. foldm dense_tensor (PInt 0, PDict []) rows = Inr (c, v) \<and>
      holds (eq (item (ret manifest) ''tensors'') (ret v)) \<and>
      holds (eq (item (item (item (ret manifest) ''files'') ''dense.bin'') ''bytes'')
         (mul (floordiv (sub (add (ret c) (ret ALIGN)) (num 1)) (ret ALIGN)) (ret ALIGN)))"
    using assms(1) by (auto simp: validate_dense_layout_def assms(2) items_of_def sorted_of_def loop_def ctrl_simps displays
      comp_def split_def)
  have m: "mset rows = mset (map (\<lambda>(k, v). PTuple [PStr k, v]) tensors)" by (rule sort_values_mset [OF rows])
  then have set: "set rows = set (map (\<lambda>(k, v). PTuple [PStr k, v]) tensors)" by (rule mset_eq_setD)
  let ?name = "\<lambda>r. case r of PTuple [n, t] \<Rightarrow> n | _ \<Rightarrow> PNone"
  have "mset (map ?name rows) = image_mset ?name (mset (map (\<lambda>(k, v). PTuple [PStr k, v]) tensors))"
    by (simp only: mset_map [of ?name rows] m)
  also have "\<dots> = mset (map (\<lambda>(k, v). PStr k) tensors)"
    unfolding mset_map [symmetric] map_map by (intro arg_cong [where f = mset] map_cong) auto
  finally have "mset (map ?name rows) = mset (map (\<lambda>(k, v). PStr k) tensors)" .
  moreover have "distinct (map (\<lambda>(k, v). PStr k) tensors)" using assms(3) by (simp add: distinct_map split_def inj_on_def)
  ultimately have d: "distinct (map ?name rows)" by (metis mset_eq_imp_distinct_iff)
  obtain c v where cv: "foldm dense_tensor (PInt 0, PDict []) rows = Inr (c, v)"
      "holds (eq (item (ret manifest) ''tensors'') (ret v))"
      "holds (eq (item (item (item (ret manifest) ''files'') ''dense.bin'') ''bytes'')
         (mul (floordiv (sub (add (ret c) (ret ALIGN)) (num 1)) (ret ALIGN)) (ret ALIGN)))"
    using loop by blast
  have "\<exists>c' table' sps'. c = PInt c' \<and> v = PDict table' \<and> concat (map (entry_spans \<circ> snd) table') = map Some sps' \<and> laid 0 sps' c'"
    by (rule dense_layout [OF cv(1)]) (use set d assms(4) in auto)
  then obtain c' table sps where l: "c = PInt c'" "v = PDict table" "concat (map (entry_spans \<circ> snd) table) = map Some sps" "laid 0 sps c'"
    by blast
  have "\<forall>(i, n) \<in> set sps. 0 \<le> i \<and> 16384 dvd i \<and> 0 \<le> n \<and> i + n \<le> aligned_up c'"
    using laid_within [OF l(4)] aligned_up [of c'] by fastforce
  moreover obtain bound where "item (ret manifest) ''tensors'' = Inr bound" "py_eq bound (PDict table)"
    using cv(2) by (auto simp: holds_eq l(2))
  ultimately show ?thesis using cv(3) laid_disjoint [OF l(4)] l(3) unfolding l(1) align_expr by blast
qed

definition sample_inventory :: pyval where
  "sample_inventory = PDict [(''tensors'', PDict [(''n.weight'', PDict [(''shape'', PList [PInt 64]), (''bytes'', PInt 128)]),
     (''m.weight'', PDict [(''shape'', PList [PInt 128, PInt 64]), (''bytes'', PInt 16384)])])]"

definition sample_manifest :: pyval where
  "sample_manifest = PDict [(''tensors'', PDict [
      (''n.weight'', PDict [(''source'', PStr ''n.weight''), (''shape'', PList [PInt 64]), (''format'', PStr ''BF16''),
        (''parts'', PDict [(''weight'', PDict [(''offset'', PInt 49152), (''bytes'', PInt 128), (''dtype'', PStr ''BF16'')])]),
        (''norm_convention'', PNone)]),
      (''m.weight'', PDict [(''source'', PStr ''m.weight''), (''shape'', PList [PInt 128, PInt 64]), (''format'', PStr ''affine-Q8''),
        (''parts'', PDict [(''weight'', PDict [(''offset'', PInt 0), (''bytes'', PInt 8192), (''dtype'', PStr ''U32'')]),
           (''scales'', PDict [(''offset'', PInt 16384), (''bytes'', PInt 256), (''dtype'', PStr ''BF16'')]),
           (''biases'', PDict [(''offset'', PInt 32768), (''bytes'', PInt 256), (''dtype'', PStr ''BF16'')])]),
        (''bits'', PInt 8), (''group_size'', PInt 64)])]),
     (''files'', PDict [(''dense.bin'', PDict [(''bytes'', PInt 65536)])])]"

lemma sample_dense: "validate_dense_layout sample_manifest sample_inventory = Inr PNone"
  by code_simp

lemma dense_layout_disjoint_witness:
  "\<exists>bound. item (ret sample_manifest) ''tensors'' = Inr bound \<and> (\<exists>table sps. py_eq bound (PDict table) \<and>
     concat (map (entry_spans \<circ> snd) table) = map Some sps \<and> sorted_wrt (\<lambda>(i, n) (j, m). i + n \<le> j) sps)"
proof -
  have t: "item (ret sample_inventory) ''tensors'' = ret (PDict [(''n.weight'', PDict [(''shape'', PList [PInt 64]), (''bytes'', PInt 128)]),
     (''m.weight'', PDict [(''shape'', PList [PInt 128, PInt 64]), (''bytes'', PInt 16384)])])"
    by (simp add: sample_inventory_def eval_simps)
  have s: "\<forall>(n, t) \<in> set [(''n.weight'', PDict [(''shape'', PList [PInt 64]), (''bytes'', PInt 128)]),
     (''m.weight'', PDict [(''shape'', PList [PInt 128, PInt 64]), (''bytes'', PInt 16384)])].
     \<exists>dims. item (ret t) ''shape'' = ret (PList (map PInt dims)) \<and> (\<forall>d\<in>set dims. 0 < d)"
    by (simp add: eval_simps) (intro conjI exI [of _ "[64]"] exI [of _ "[128, 64]"]; simp)
  from dense_layout_disjoint [OF sample_dense t _ s] show ?thesis by auto
qed


section \<open>Budgets\<close>

text \<open>The four rows of the budget table.\<close>

definition budget_row :: "int \<times> int \<times> int \<times> int \<Rightarrow> pyval" where
  "budget_row r = (case r of (width, scratch, fixed, slots) \<Rightarrow>
     PDict [(''width'', PInt width), (''scratch_mib'', PInt scratch), (''fixed_bytes'', PInt fixed),
       (''maximum_slots'', PInt slots), (''bytes_at_2048'', PInt (fixed + 2048 * SLOT_BYTES)),
       (''workspace_policy_implemented'', PBool (scratch = 512)), (''larger_cache_qualified'', PBool False)])"

definition slots_within :: "int \<Rightarrow> int" where
  "slots_within fixed = (12 * 1024 ^ 3 - fixed) div SLOT_BYTES"

lemma slots_within_maximal:
  "fixed + slots_within fixed * SLOT_BYTES \<le> 12 * 1024 ^ 3 \<and> 12 * 1024 ^ 3 < fixed + (slots_within fixed + 1) * SLOT_BYTES"
proof -
  have s: "0 < SLOT_BYTES" by (simp add: SLOT_BYTES_def)
  let ?d = "12 * 1024 ^ 3 - fixed"
  have "?d div SLOT_BYTES * SLOT_BYTES + ?d mod SLOT_BYTES = ?d" "0 \<le> ?d mod SLOT_BYTES" "?d mod SLOT_BYTES < SLOT_BYTES"
    using s by simp_all
  then show ?thesis unfolding slots_within_def distrib_right mult_1 by linarith
qed

text \<open>
  C19: The table of \<open>budgets\<close> has one row per draft width and scratch size, and the slot count of every row
  is the largest one that keeps the fixed bytes and the slots within 12 GiB.
\<close>
theorem budgets_maximal:
  assumes "budgets admission = Inr v" and "item (ret admission) ''combined_bytes'' = num combined"
    and "item (item (ret admission) ''target'') ''expert_bytes'' = num experts"
  shows "\<exists>rows. v = PList (map budget_row rows) \<and>
    map (\<lambda>(w, s, f, m). (w, s, f)) rows =
      [(4, 512, combined - experts - 4 * 4 * 248320 * 4), (4, 128, combined - experts - 4 * 4 * 248320 * 4 - 384 * 1024 ^ 2),
       (8, 512, combined - experts), (8, 128, combined - experts - 384 * 1024 ^ 2)] \<and>
    (\<forall>(w, s, f, m) \<in> set rows. f + m * SLOT_BYTES \<le> 12 * 1024 ^ 3 \<and> 12 * 1024 ^ 3 < f + (m + 1) * SLOT_BYTES)"
proof -
  obtain target where t: "item (ret admission) ''target'' = Inr target" using assms(3) by (auto simp: item_def bnd_eq_Inr)
  have e: "item (ret target) ''expert_bytes'' = num experts" using assms(3) by (simp add: t)
  let ?row = "\<lambda>(w :: int) (s :: int) f. (w, s, f, slots_within f)"
  let ?rows = "[?row 4 512 (combined - experts - 4 * 4 * 248320 * 4), ?row 4 128 (combined - experts - 4 * 4 * 248320 * 4 - 384 * 1024 ^ 2),
       ?row 8 512 (combined - experts), ?row 8 128 (combined - experts - 384 * 1024 ^ 2)]"
  have s: "SLOT_BYTES \<noteq> 0" by (simp add: SLOT_BYTES_def)
  have "v = PList (map budget_row ?rows)"
    using assms(1) unfolding budgets_def t bnd.simps check_eq_Inr assms(2) e
    by (simp add: eval_simps loop_def tuple_of_def dict_of_def s budget_row_def slots_within_def)
  moreover have m: "case r of (w, s, f, m) \<Rightarrow> f + m * SLOT_BYTES \<le> 12 * 1024 ^ 3 \<and> 12 * 1024 ^ 3 < f + (m + 1) * SLOT_BYTES"
    if "r \<in> set ?rows" for r
  proof -
    have "\<exists>w s f. r = ?row w s f" using that by auto
    then obtain w s f where r: "r = ?row w s f" by blast
    show ?thesis unfolding r prod.case by (rule slots_within_maximal)
  qed
  ultimately show ?thesis by (intro exI [of _ ?rows] conjI ballI m) simp_all
qed

definition sample_admission :: pyval where
  "sample_admission = PDict [(''target'', PDict [(''limit_bytes'', PInt (12 * 1024 ^ 3)), (''expert_slots'', PInt 1460),
       (''expert_bytes'', PInt (1460 * SLOT_BYTES)), (''scratch_bytes'', PInt (512 * 1024 ^ 2)), (''planned_bytes'', PInt 11000000000)]),
     (''checkpoint_rows'', PInt 8), (''host_checkpoint_logits_bytes'', PInt (128 * 1024 ^ 2 + 4 * 8 * 248320 * 4 + 1024 ^ 2)),
     (''draft_bytes'', PInt 318234624), (''expert_scratch_reserve_bytes'', PInt 2097152), (''target_recovery_reserve_bytes'', PInt 16777216),
     (''combined_bytes'', PInt (11000000000 + (128 * 1024 ^ 2 + 4 * 8 * 248320 * 4 + 1024 ^ 2) + 318234624 + 2097152 + 16777216))]"

lemma sample_budgets: "\<exists>v. budgets sample_admission = Inr v"
proof -
  have "(case budgets sample_admission of Inr v \<Rightarrow> True | Inl e \<Rightarrow> False)" by code_simp
  then show ?thesis by (simp split: sum.splits)
qed

lemma budgets_maximal_witness:
  "\<exists>v rows. budgets sample_admission = Inr v \<and> v = PList (map budget_row rows) \<and> length rows = 4 \<and>
     (\<forall>(w, s, f, m) \<in> set rows. f + m * SLOT_BYTES \<le> 12 * 1024 ^ 3)"
proof -
  obtain v where v: "budgets sample_admission = Inr v" using sample_budgets by blast
  have i: "item (ret sample_admission) ''combined_bytes'' =
      num (11000000000 + (128 * 1024 ^ 2 + 4 * 8 * 248320 * 4 + 1024 ^ 2) + 318234624 + 2097152 + 16777216)"
    "item (item (ret sample_admission) ''target'') ''expert_bytes'' = num (1460 * SLOT_BYTES)"
    by (simp_all add: sample_admission_def eval_simps)
  from budgets_maximal [OF v i] obtain rows where "v = PList (map budget_row rows)"
    "length (map (\<lambda>(w, s, f, m). (w, s, f)) rows) = 4"
    "\<forall>(w, s, f, m) \<in> set rows. f + m * SLOT_BYTES \<le> 12 * 1024 ^ 3" by fastforce
  then show ?thesis using v by auto
qed

end
