(* ===== verification/SnapshotPointers.thy ===== *)
theory SnapshotPointers
  imports ReleaseGates PyEval PyDump
begin

text \<open>
  The pointers of the recorded memory snapshots (\<open>snapshots\<close> of \<open>scripts/qwen/evidence_queries.py\<close>)
  against RFC 6901: what a JSON pointer denotes is defined here on its own, by splitting at
  the slashes and decoding \<open>~1\<close> and \<open>~0\<close>, and compared with the pointers the traversal builds.
\<close>

section \<open>JSON pointers\<close>

fun unescape :: "string \<Rightarrow> string" where
  "unescape (CHR ''~'' # CHR ''0'' # s) = CHR ''~'' # unescape s"
| "unescape (CHR ''~'' # CHR ''1'' # s) = CHR ''/'' # unescape s"
| "unescape (c # s) = c # unescape s"
| "unescape [] = []"

definition pointer_tokens :: "string \<Rightarrow> string list" where
  "pointer_tokens p = (if p = [] then [] else map unescape (split_on (CHR ''/'') (tl p)))"

text \<open>A token selects the member of an object or, in decimal, the element of an array.\<close>

fun child :: "string \<Rightarrow> pyval \<Rightarrow> pyval option" where
  "child t (PDict d) = map_of d t"
| "child t (PList xs) = map_of (zip (map dec [0..<length xs]) xs) t"
| "child t _ = None"

primrec resolve :: "string list \<Rightarrow> pyval \<Rightarrow> pyval option" where
  "resolve [] v = Some v"
| "resolve (t # ts) v = (case child t v of None \<Rightarrow> None | Some w \<Rightarrow> resolve ts w)"

fun memory_object :: "pyval \<Rightarrow> bool" where
  "memory_object (PDict d) \<longleftrightarrow> map_of d ''kind'' = Some (PStr ''memory_boundary_v1'') \<or>
     (case (map_of d ''metal'', map_of d ''memory_plan'') of
        (Some (PDict m), Some (PDict p)) \<Rightarrow> True | _ \<Rightarrow> False)"
| "memory_object _ \<longleftrightarrow> False"

text \<open>An object at a path, outside every other memory object.\<close>

definition outermost :: "pyval \<Rightarrow> string list \<Rightarrow> pyval \<Rightarrow> bool" where
  "outermost v ts w \<longleftrightarrow> resolve ts v = Some w \<and> memory_object w \<and>
     (\<forall>n<length ts. \<exists>u. resolve (take n ts) v = Some u \<and> \<not> memory_object u)"

definition escape_char :: "char \<Rightarrow> string" where
  "escape_char c = (if c = CHR ''~'' then ''~0'' else if c = CHR ''/'' then ''~1'' else [c])"

definition escape :: "string \<Rightarrow> string" where
  "escape s = concat (map escape_char s)"

definition pointer_of :: "string list \<Rightarrow> string" where
  "pointer_of ts = concat (map (\<lambda>t. CHR ''/'' # escape t) ts)"

section \<open>Escaping\<close>

lemma replace_all_char: "replace_all [c] new s = concat (map (\<lambda>x. if x = c then new else [x]) s)"
proof (induction s)
  case Nil
  show ?case by (subst replace_all.simps) simp
next
  case (Cons x s)
  then show ?case by (subst replace_all.simps) auto
qed

lemma escape_replaced: "replace_all ''/'' ''~1'' (replace_all ''~'' ''~0'' s) = escape s"
  by (induction s) (simp_all add: replace_all_char escape_def escape_char_def)

lemma child_pointer_value: "child_pointer (PStr p) key = Inr (PStr (p @ CHR ''/'' # escape key))"
  by (simp add: child_pointer_def add_def py_add_def replaced_def escape_replaced)

lemma escape_no_slash: "CHR ''/'' \<notin> set (escape s)"
  by (auto simp: escape_def escape_char_def split: if_splits)

lemma unescape_other: "c \<noteq> CHR ''~'' \<Longrightarrow> unescape (c # s) = c # unescape s"
  by (cases "(c # s)" rule: unescape.cases) auto

lemma unescape_escape: "unescape (escape s) = s"
  by (induction s) (simp_all add: escape_def escape_char_def unescape_other)

lemma split_on_no: "c \<notin> set s \<Longrightarrow> split_on c s = [s]"
  by (induction s) auto

lemma split_on_append: "c \<notin> set s \<Longrightarrow> split_on c (s @ c # r) = s # split_on c r"
  by (induction s) auto

lemma pointer_split: "map unescape (split_on (CHR ''/'') (escape t @ pointer_of ts)) = t # ts"
proof (induction ts arbitrary: t)
  case Nil
  then show ?case by (simp add: pointer_of_def split_on_no escape_no_slash unescape_escape)
next
  case (Cons u ts)
  have "escape t @ pointer_of (u # ts) = escape t @ CHR ''/'' # (escape u @ pointer_of ts)"
    by (simp add: pointer_of_def)
  then show ?case using Cons.IH [of u]
    by (simp add: split_on_append escape_no_slash unescape_escape)
qed

lemma pointer_tokens_of: "pointer_tokens (pointer_of ts) = ts"
  using pointer_split [of "hd ts" "tl ts"]
  by (cases ts) (simp_all add: pointer_tokens_def pointer_of_def)

lemma pointer_of_inject: "pointer_of ts = pointer_of us \<longleftrightarrow> ts = us"
  by (metis pointer_tokens_of)

lemma pointer_of_Cons: "pointer_of (t # ts) = CHR ''/'' # escape t @ pointer_of ts"
  by (simp add: pointer_of_def)

lemma dec_digit: "c \<in> set (dec n) \<Longrightarrow> c \<noteq> CHR ''~'' \<and> c \<noteq> CHR ''/''"
  using dec_digits [of n] by (auto simp: list_all_iff is_digit_def code_def)

lemma escape_plain: "(\<And>c. c \<in> set s \<Longrightarrow> c \<noteq> CHR ''~'' \<and> c \<noteq> CHR ''/'') \<Longrightarrow> escape s = s"
  by (induction s) (simp_all add: escape_def escape_char_def)

lemma escape_dec: "escape (dec n) = dec n"
  by (rule escape_plain) (rule dec_digit)

lemma dec_inject: "dec m = dec n \<longleftrightarrow> m = n"
  by (metis digits_value_dec of_nat_eq_iff)

section \<open>The traversal\<close>

lemma outermost_memory: "memory_object v \<Longrightarrow> outermost v ts w \<longleftrightarrow> ts = [] \<and> w = v"
  by (cases ts) (auto simp: outermost_def)

lemma outermost_Nil: "\<not> memory_object v \<Longrightarrow> \<not> outermost v [] w"
  by (auto simp: outermost_def)

lemma outermost_Cons:
  "\<not> memory_object v \<Longrightarrow> outermost v (t # ts) w \<longleftrightarrow> (\<exists>u. child t v = Some u \<and> outermost u ts w)"
  by (auto simp: outermost_def less_Suc_eq_0_disj split: option.splits)

lemma outermost_leaf: "\<not> memory_object v \<Longrightarrow> (\<And>t. child t v = None) \<Longrightarrow> \<not> outermost v ts w"
  by (cases ts) (simp_all add: outermost_Nil outermost_Cons)

lemma snapshot_row_memory:
  assumes "snapshot_row (PDict d) q = Inr r" "strict_json (PDict d)"
  shows "r = None \<longleftrightarrow> \<not> memory_object (PDict d)"
proof -
  have kind: "eq (get (ret (PDict d)) ''kind'') (str ''memory_boundary_v1'') =
      Inr (PBool (map_of d ''kind'' = Some (PStr ''memory_boundary_v1'')))"
    by (auto simp: eq_def get_PDict aget_def py_eq_PStr split: option.splits)
  have member: "isinstance (ret (aget d k)) [TDict] = Inr (PBool (\<exists>m. map_of d k = Some (PDict m)))" for k
  proof -
    have "strict_json w" if "map_of d k = Some w" for w
      using assms(2) map_of_SomeD [OF that] by auto
    then show ?thesis
      by (cases "map_of d k"; cases "the (map_of d k)") (auto simp: isinstance_def type_of_simps aget_def)
  qed
  then have plan: "conjs [isinstance (get (ret (PDict d)) ''metal'') [TDict],
        isinstance (get (ret (PDict d)) ''memory_plan'') [TDict]] =
      Inr (PBool (\<exists>m p. map_of d ''metal'' = Some (PDict m) \<and> map_of d ''memory_plan'' = Some (PDict p)))"
    by (auto simp: get_PDict member)
  have mem: "memory_object (PDict d) \<longleftrightarrow> map_of d ''kind'' = Some (PStr ''memory_boundary_v1'') \<or>
      (\<exists>m p. map_of d ''metal'' = Some (PDict m) \<and> map_of d ''memory_plan'' = Some (PDict p))"
    by (auto split: option.splits pyval.splits)
  show ?thesis using assms(1) unfolding mem snapshot_row_def kind plan branch_eq_Inr bnd_eq_Inr
    by auto
qed

text \<open>Found objects with their paths, and the rows they give below the pointer \<open>p\<close>.\<close>

type_synonym located = "(string list \<times> pyval) list"

definition rows_at :: "string \<Rightarrow> located \<Rightarrow> pyval list \<Rightarrow> bool" where
  "rows_at p = list_all2 (\<lambda>(ts, w) row. snapshot_row w (PStr (p @ pointer_of ts)) = Inr (Some row))"

definition under :: "string \<Rightarrow> located \<Rightarrow> located" where
  "under t = map (\<lambda>(ts, w). (t # ts, w))"

lemma rows_at_under: "rows_at (p @ CHR ''/'' # escape t) f rows \<Longrightarrow> rows_at p (under t f) rows"
  by (auto simp: rows_at_def under_def list_all2_map1 pointer_of_Cons split_beta elim!: list_all2_mono)

lemma rows_at_append: "rows_at p f r \<Longrightarrow> rows_at p g s \<Longrightarrow> rows_at p (f @ g) (r @ s)"
  by (simp add: rows_at_def list_all2_appendI)

lemma rows_at_Nil: "rows_at p [] []"
  by (simp add: rows_at_def)

lemma set_under: "(us, w) \<in> set (under t f) \<longleftrightarrow> (\<exists>ts. us = t # ts \<and> (ts, w) \<in> set f)"
  by (auto simp: under_def)

lemma distinct_under: "distinct (map fst (under t f)) \<longleftrightarrow> distinct (map fst f)"
proof -
  have "map fst (under t f) = map (Cons t) (map fst f)"
    by (simp add: under_def split_beta)
  then show ?thesis by (simp add: distinct_map inj_on_def)
qed

text \<open>A complete and duplicate-free list of the objects a predicate describes.\<close>

definition finds :: "(string list \<Rightarrow> pyval \<Rightarrow> bool) \<Rightarrow> string \<Rightarrow> pyval list \<Rightarrow> bool" where
  "finds P p rows \<longleftrightarrow> (\<exists>f. rows_at p f rows \<and> distinct (map fst f) \<and> (\<forall>ts w. (ts, w) \<in> set f \<longleftrightarrow> P ts w))"

lemma finds_none: "(\<And>ts w. \<not> P ts w) \<Longrightarrow> finds P p []"
  unfolding finds_def by (rule exI [of _ "[]"]) (simp add: rows_at_Nil)

lemma finds_member:
  assumes "finds (outermost v) (p @ CHR ''/'' # escape t) found" "finds P p others"
    and "\<And>ts w. \<not> P (t # ts) w"
    and "\<And>ts w. Q ts w \<longleftrightarrow> (\<exists>us. ts = t # us \<and> outermost v us w) \<or> P ts w"
  shows "finds Q p (found @ others)"
proof -
  obtain f g where f: "rows_at (p @ CHR ''/'' # escape t) f found" "distinct (map fst f)"
      "\<And>ts w. (ts, w) \<in> set f \<longleftrightarrow> outermost v ts w"
    and g: "rows_at p g others" "distinct (map fst g)" "\<And>ts w. (ts, w) \<in> set g \<longleftrightarrow> P ts w"
    using assms(1,2) by (auto simp: finds_def)
  have "fst ` set (under t f) \<inter> fst ` set g = {}"
    using g(3) assms(3) by (force simp: set_under)
  then have "distinct (map fst (under t f @ g))"
    using f(2) g(2) distinct_under [of t f] by simp
  moreover have "(ts, w) \<in> set (under t f @ g) \<longleftrightarrow> Q ts w" for ts w
    using f(3) g(3) assms(4) by (auto simp: set_under)
  ultimately show ?thesis
    using rows_at_append [OF rows_at_under [OF f(1)] g(1)] unfolding finds_def by blast
qed

lemma visit_entries_finds:
  assumes "\<And>k v p rows. (k, v) \<in> set d \<Longrightarrow> visit v (PStr p) = Inr rows \<Longrightarrow> finds (outermost v) p rows"
    and "distinct (map fst d)" "visit_entries d (PStr p) = Inr rows"
  shows "finds (\<lambda>ts w. \<exists>k us v. ts = k # us \<and> map_of d k = Some v \<and> outermost v us w) p rows"
  using assms
proof (induction d arbitrary: rows)
  case Nil
  then show ?case by (auto intro: finds_none)
next
  case (Cons e d)
  obtain k v where e: "e = (k, v)" by fastforce
  obtain found others where r: "visit v (PStr (p @ CHR ''/'' # escape k)) = Inr found"
      "visit_entries d (PStr p) = Inr others" "rows = found @ others"
    using Cons.prems(3) by (auto simp: e child_pointer_value bnd_eq_Inr simp del: visit.simps)
  have new: "map_of d k = None" using Cons.prems(2) by (auto simp: e map_of_eq_None_iff)
  have "finds (outermost v) (p @ CHR ''/'' # escape k) found" using Cons.prems(1) r(1) by (auto simp: e)
  moreover have "finds (\<lambda>ts w. \<exists>k us v. ts = k # us \<and> map_of d k = Some v \<and> outermost v us w) p others"
    using Cons.IH [OF _ _ r(2)] Cons.prems(1,2) by (auto simp: e)
  ultimately show ?case unfolding r(3)
  proof (rule finds_member)
    fix ts w
    show "\<not> (\<exists>ka us v. k # ts = ka # us \<and> map_of d ka = Some v \<and> outermost v us w)"
      by (simp add: new)
    show "(\<exists>ka us va. ts = ka # us \<and> map_of (e # d) ka = Some va \<and> outermost va us w) \<longleftrightarrow>
        (\<exists>us. ts = k # us \<and> outermost v us w) \<or>
        (\<exists>ka us v. ts = ka # us \<and> map_of d ka = Some v \<and> outermost v us w)"
      using new by (cases ts) (auto simp: e)
  qed
qed

lemma element_cases:
  "(\<exists>i us. ts = dec (n + i) # us \<and> i < length (v # xs) \<and> P ((v # xs) ! i) us) \<longleftrightarrow>
   (\<exists>us. ts = dec n # us \<and> P v us) \<or> (\<exists>i us. ts = dec (Suc n + i) # us \<and> i < length xs \<and> P (xs ! i) us)"
  (is "?l \<longleftrightarrow> ?r")
proof
  assume ?l
  then obtain i us where i: "ts = dec (n + i) # us" "i < length (v # xs)" "P ((v # xs) ! i) us" by blast
  then show ?r by (cases i) auto
next
  assume r: ?r
  then consider us where "ts = dec n # us" "P v us"
    | i us where "ts = dec (Suc n + i) # us" "i < length xs" "P (xs ! i) us" by blast
  then show ?l
  proof cases
    case 1
    then show ?thesis by (intro exI [of _ 0] exI [of _ us]) simp
  next
    case 2
    then show ?thesis by (intro exI [of _ "Suc i"] exI [of _ us]) simp
  qed
qed

lemma visit_elements_finds:
  assumes "\<And>v p rows. v \<in> set xs \<Longrightarrow> visit v (PStr p) = Inr rows \<Longrightarrow> finds (outermost v) p rows"
    and "visit_elements n xs (PStr p) = Inr rows"
  shows "finds (\<lambda>ts w. \<exists>i us. ts = dec (n + i) # us \<and> i < length xs \<and> outermost (xs ! i) us w) p rows"
  using assms
proof (induction xs arbitrary: n rows)
  case Nil
  then show ?case by (auto intro: finds_none)
next
  case (Cons v xs)
  have "add (add (ret (PStr p)) (str ''/'')) (format_of [num (int n)]) = Inr (PStr (p @ CHR ''/'' # escape (dec n)))"
    by (simp add: add_def py_add_def format_of_def escape_dec)
  then obtain found others where r: "visit v (PStr (p @ CHR ''/'' # escape (dec n))) = Inr found"
      "visit_elements (Suc n) xs (PStr p) = Inr others" "rows = found @ others"
    using Cons.prems(2) by (auto simp: bnd_eq_Inr simp del: visit.simps)
  have "finds (outermost v) (p @ CHR ''/'' # escape (dec n)) found" using Cons.prems(1) r(1) by auto
  moreover have "finds (\<lambda>ts w. \<exists>i us. ts = dec (Suc n + i) # us \<and> i < length xs \<and> outermost (xs ! i) us w) p others"
    using Cons.IH [OF _ r(2)] Cons.prems(1) by auto
  ultimately show ?case unfolding r(3)
  proof (rule finds_member)
    fix ts w
    show "\<not> (\<exists>i us. dec n # ts = dec (Suc n + i) # us \<and> i < length xs \<and> outermost (xs ! i) us w)"
      by (auto simp: dec_inject)
    show "(\<exists>i us. ts = dec (n + i) # us \<and> i < length (v # xs) \<and> outermost ((v # xs) ! i) us w) \<longleftrightarrow>
        (\<exists>us. ts = dec n # us \<and> outermost v us w) \<or>
        (\<exists>i us. ts = dec (Suc n + i) # us \<and> i < length xs \<and> outermost (xs ! i) us w)"
      by (rule element_cases)
  qed
qed

lemma visit_finds: "visit v (PStr p) = Inr rows \<Longrightarrow> strict_json v \<Longrightarrow> finds (outermost v) p rows"
proof (induction v arbitrary: p rows)
  case (PDict d)
  obtain r where r: "snapshot_row (PDict d) (PStr p) = Inr r"
      "(case r of Some row \<Rightarrow> Inr [row] | None \<Rightarrow> visit_entries d (PStr p)) = Inr rows"
    using PDict.prems(1) by (auto simp: bnd_eq_Inr)
  show ?case
  proof (cases "memory_object (PDict d)")
    case True
    then obtain row where row: "r = Some row" "rows = [row]"
      using r snapshot_row_memory [OF r(1) PDict.prems(2)] by (cases r) auto
    have "rows_at p [([], PDict d)] rows"
      using r(1) by (simp add: rows_at_def row pointer_of_def)
    then show ?thesis unfolding finds_def
      by (intro exI [of _ "[([], PDict d)]"]) (auto simp: outermost_memory [OF True])
  next
    case False
    then have "visit_entries d (PStr p) = Inr rows"
      using r snapshot_row_memory [OF r(1) PDict.prems(2)] by (cases r) auto
    moreover have "finds (outermost w) q found" if "(k, w) \<in> set d" "visit w (PStr q) = Inr found" for k w q found
      using PDict.IH [OF that(1), of w q found] PDict.prems(2) that by force
    ultimately have "finds (\<lambda>ts w. \<exists>k us v. ts = k # us \<and> map_of d k = Some v \<and> outermost v us w) p rows"
      using PDict.prems(2) by (intro visit_entries_finds) auto
    moreover have "outermost (PDict d) ts w \<longleftrightarrow>
        (\<exists>k us v. ts = k # us \<and> map_of d k = Some v \<and> outermost v us w)" for ts w
      using False by (cases ts) (simp_all add: outermost_Nil outermost_Cons)
    ultimately show ?thesis by (simp add: finds_def)
  qed
next
  case (PList xs)
  have "finds (\<lambda>ts w. \<exists>i us. ts = dec (0 + i) # us \<and> i < length xs \<and> outermost (xs ! i) us w) p rows"
    using PList by (intro visit_elements_finds) auto
  moreover have "map_of (zip (map dec [0..<length xs]) xs) t = Some u \<longleftrightarrow> (\<exists>i<length xs. t = dec i \<and> u = xs ! i)" for t u
  proof -
    have "distinct (map dec [0..<length xs])" by (simp add: distinct_map inj_on_def dec_inject)
    then show ?thesis by (auto simp: map_of_eq_Some_iff in_set_conv_nth)
  qed
  then have "outermost (PList xs) ts w \<longleftrightarrow> (\<exists>i us. ts = dec (0 + i) # us \<and> i < length xs \<and> outermost (xs ! i) us w)"
    for ts w
    by (cases ts) (auto simp: outermost_Nil outermost_Cons)
  ultimately show ?case by (simp add: finds_def)
qed (auto intro!: finds_none simp: outermost_leaf)

lemma row_pointer:
  assumes "snapshot_row w q = Inr (Some row)"
  shows "get (ret row) ''pointer'' = Inr q"
  using assms
  by (auto simp: snapshot_row_def memory_boundary_row_def state_row_def branch_eq_Inr bnd_eq_Inr call1_eq_Inr
      dict_of_eq_Inr fields_eq_Inr get_PDict aget_def)

section \<open>The property\<close>

text \<open>
  C20: every memory snapshot reported for a parsed document carries a JSON pointer that, read by the rules of
  RFC 6901, leads back to the very object the row was made from, whatever characters the keys hold;
  each memory object not inside another one is reported, and no two rows share a pointer.
\<close>

theorem snapshots_resolve:
  assumes "snapshots data = Inr (PList rows)" "strict_json data"
  shows "distinct (map (\<lambda>row. get (ret row) ''pointer'') rows) \<and>
    (\<forall>row\<in>set rows. \<exists>p w. get (ret row) ''pointer'' = str p \<and> resolve (pointer_tokens p) data = Some w \<and>
       memory_object w \<and> snapshot_row w (PStr p) = Inr (Some row)) \<and>
    (\<forall>ts w. outermost data ts w \<longrightarrow> (\<exists>row\<in>set rows. get (ret row) ''pointer'' = str (pointer_of ts)))"
proof -
  have "visit data (PStr []) = Inr rows" using assms(1) by (auto simp: snapshots_def bnd_eq_Inr simp del: visit.simps)
  then obtain f where f: "rows_at [] f rows" "distinct (map fst f)" "\<And>ts w. (ts, w) \<in> set f \<longleftrightarrow> outermost data ts w"
    using visit_finds [OF _ assms(2)] unfolding finds_def by blast
  have len: "length f = length rows"
    and row: "\<And>i. i < length rows \<Longrightarrow> snapshot_row (snd (f ! i)) (PStr (pointer_of (fst (f ! i)))) = Inr (Some (rows ! i))"
    using f(1) by (simp_all add: rows_at_def list_all2_conv_all_nth split_beta)
  have ptr: "get (ret (rows ! i)) ''pointer'' = str (pointer_of (fst (f ! i)))" if "i < length rows" for i
    using row_pointer [OF row [OF that]] .
  have out: "outermost data (fst (f ! i)) (snd (f ! i))" if "i < length rows" for i
    using that f(3) [of "fst (f ! i)" "snd (f ! i)"] by (simp add: len)
  have "map (\<lambda>row. get (ret row) ''pointer'') rows = map (\<lambda>ts. str (pointer_of ts)) (map fst f)"
    by (rule nth_equalityI) (simp_all add: len ptr)
  then have "distinct (map (\<lambda>row. get (ret row) ''pointer'') rows)"
    using f(2) by (simp add: distinct_map inj_on_def pointer_of_inject)
  moreover have "\<exists>p w. get (ret r) ''pointer'' = str p \<and> resolve (pointer_tokens p) data = Some w \<and>
       memory_object w \<and> snapshot_row w (PStr p) = Inr (Some r)" if "r \<in> set rows" for r
  proof -
    have "\<exists>i<length rows. r = rows ! i" using that by (auto simp: in_set_conv_nth)
    then obtain i where "i < length rows" "r = rows ! i" by blast
    with ptr [of i] row [of i] out [of i]
    have "get (ret r) ''pointer'' = str (pointer_of (fst (f ! i)))"
      "resolve (pointer_tokens (pointer_of (fst (f ! i)))) data = Some (snd (f ! i))" "memory_object (snd (f ! i))"
      "snapshot_row (snd (f ! i)) (PStr (pointer_of (fst (f ! i)))) = Inr (Some r)"
      by (simp_all only: outermost_def pointer_tokens_of)
    then show ?thesis by blast
  qed
  moreover have "\<exists>r\<in>set rows. get (ret r) ''pointer'' = str (pointer_of ts)" if "outermost data ts w" for ts w
  proof -
    have "\<exists>i<length f. f ! i = (ts, w)" using that f(3) [of ts w] unfolding in_set_conv_nth by blast
    then obtain i where "i < length rows" "f ! i = (ts, w)" unfolding len by blast
    then show ?thesis using ptr [of i] by (intro bexI [of _ "rows ! i"]) simp_all
  qed
  ultimately show ?thesis by blast
qed

definition sample_document :: pyval where
  "sample_document = PDict [(''a/b'', PList [PInt 1, PDict [(''kind'', PStr ''memory_boundary_v1''), (''where'', PStr ''idle'')]]),
     (''m~n'', PDict [(''metal'', PDict []), (''memory_plan'', PDict [])])]"

lemma sample_rows:
  "bnd (snapshots sample_document) (\<lambda>v. each (ret v) (\<lambda>row. get (ret row) ''pointer'')) =
     Inr (PList [PStr ''/a~1b/1'', PStr ''/m~0n''])"
  by code_simp

lemma snapshots_resolve_witness:
  "\<exists>rows. snapshots sample_document = Inr (PList rows) \<and> length rows = 2 \<and>
     (\<forall>row\<in>set rows. \<exists>p w. get (ret row) ''pointer'' = str p \<and>
        resolve (pointer_tokens p) sample_document = Some w \<and> memory_object w)"
proof -
  have "\<exists>rows. snapshots sample_document = Inr (PList rows) \<and> length rows = 2"
    by (rule exI [of _ "case snapshots sample_document of Inr (PList rows) \<Rightarrow> rows"]) code_simp
  then obtain rows where rows: "snapshots sample_document = Inr (PList rows)" "length rows = 2" by blast
  have "strict_json sample_document" by (simp add: sample_document_def)
  from snapshots_resolve [OF rows(1) this] show ?thesis using rows by blast
qed

end
