(* ===== verification/MtpBalance.thy ===== *)
theory MtpBalance
  imports MtpEvidence PyEval
begin

text \<open>
  The totals of \<open>account\<close> (\<open>scripts/qwen/mtp_evidence.py\<close>): the cycles of an accepted
  multi-token-prediction report tile its output, and every proposed row is either committed or
  counted as discarded.
\<close>

declare conjs.simps [simp del] disjs.simps [simp del]

section \<open>Acceptance by position\<close>

definition tallied :: "int \<times> int \<Rightarrow> pyval" where
  "tallied = (\<lambda>(a, b). PDict [(''proposed'', PInt a), (''accepted'', PInt b)])"

definition acceptance :: "(int \<Rightarrow> int \<times> int) \<Rightarrow> pyval" where
  "acceptance f = PMap [(PInt 1, tallied (f 1)), (PInt 2, tallied (f 2)), (PInt 3, tallied (f 3))]"

definition tally_cycle :: "int \<Rightarrow> int \<Rightarrow> (int \<Rightarrow> int \<times> int) \<Rightarrow> int \<Rightarrow> int \<times> int" where
  "tally_cycle w k f p = (fst (f p) + of_bool (p < w), snd (f p) + of_bool (p < w \<and> p < k))"

lemma start_acceptance:
  "each_dict (range_between (num 1) (num 4)) (\<lambda>p. ret p) (\<lambda>p. dict_of [(''proposed'', num 0), (''accepted'', num 0)]) =
     ret (acceptance (\<lambda>_. (0, 0)))"
  unfolding acceptance_def tallied_def prod.case by code_simp

lemma add_truth [eval_simps]: "add (num i) (Inr (PBool b)) = num (i + of_bool b)"
  by (simp add: add_def py_add_def arith_def)

lemma cycle_positions_value:
  assumes "w \<in> {1, 2, 4}"
  shows "cycle_positions (acceptance f) (PInt w) (PInt k) = ret (acceptance (tally_cycle w k f))"
proof -
  have up: "count_up 1 1 = []" "count_up 1 2 = [PInt 1]" "count_up 1 4 = [PInt 1, PInt 2, PInt 3]"
    by code_simp+
  have at: "index (ret (acceptance g)) (num p) = ret (tallied (g p))"
    and store: "put (ret (acceptance g)) (num p) (ret (tallied t)) = ret (acceptance (g(p := t)))"
    if "p \<in> {1, 2, 3}" for p g t
    using that by (auto simp: acceptance_def index_def subscript_def put_def store_def dict_put_def split_beta
        find_key_def of_entries_def num_equal_literal)
  have proposed: "put (ret (tallied t)) (str ''proposed'') (add (item (ret (tallied t)) ''proposed'') (num 1)) =
      ret (tallied (fst t + 1, snd t))"
    and accepted: "put (ret (tallied t)) (str ''accepted'') (add (item (ret (tallied t)) ''accepted'') (Inr (PBool b))) =
      ret (tallied (fst t, snd t + of_bool b))" for t b
    by (simp_all add: tallied_def eval_simps split_beta)
  have w: "w = 1 \<or> w = 2 \<or> w = 4" using assms by auto
  then show ?thesis
    by (elim disjE) (simp_all add: cycle_positions_def loop_def range_between_def up at store proposed accepted order_num,
      simp_all add: acceptance_def tally_cycle_def)
qed

section \<open>One cycle\<close>

lemma integer_mtp_eq: "integer_mtp v (PInt m) = Inr x \<longleftrightarrow> (\<exists>i. v = PInt i \<and> x = PInt i \<and> m \<le> i)"
  by (auto simp: integer_mtp_def ctrl_simps holds_simps eval_simps type_of_simps)

type_synonym cycle_state = "pyval \<times> pyval \<times> pyval \<times> pyval \<times> pyval \<times> pyval \<times> pyval \<times> pyval \<times> pyval \<times> pyval"

definition cycle_state :: "(int \<Rightarrow> int \<times> int) \<Rightarrow> pyval \<Rightarrow> pyval \<Rightarrow> pyval \<Rightarrow> pyval list \<Rightarrow> int \<Rightarrow> int \<Rightarrow> int \<Rightarrow> int \<Rightarrow> int \<Rightarrow> cycle_state" where
  "cycle_state f replayed children totals committed off pr ac di re =
     (acceptance f, replayed, children, totals, PList committed, PInt off, PInt pr, PInt ac, PInt di, PInt re)"

lemma account_cycle_step:
  assumes "account_cycle raw wr rq rw (cycle_state f replayed children totals committed off pr ac di re) (PTuple [i, c]) = Inr s"
  shows "\<exists>w k ids replayed' children' totals'. get (ret c) ''width'' = num w \<and> get (ret c) ''committed_tokens'' = num k \<and>
     get (ret c) ''proposals'' = ret (PList ids) \<and> int (length ids) = w \<and>
     holds (eq (get (ret c) ''offset'') (num off)) \<and> 1 \<le> k \<and> k \<le> w \<and> w \<in> {1, 2, 4} \<and>
     s = cycle_state (tally_cycle w k f) replayed' children' totals' (committed @ take (nat k) ids) (off + k)
       (pr + (w - 1)) (ac + (k - 1)) (di + (w - k)) (re + of_bool (k < w))"
proof -
  obtain wv kv w k ids p replayed' children' totals' committed' off' pr' ac' di' re' where
    c: "get (ret c) ''width'' = Inr wv" "integer_mtp wv (PInt 1) = Inr w"
      "get (ret c) ''committed_tokens'' = Inr kv" "integer_mtp kv (PInt 1) = Inr k"
      "get (ret c) ''proposals'' = Inr ids" "holds (isinstance (ret ids) [TList])" "holds (eq (size_of (ret ids)) (ret w))"
      "holds (isin (ret w) (branch (ret wr) (tuple_of [num 1, num 2, num 4]) (tuple_of [num 1, num 4])))"
      "holds (le (ret k) (ret w))" "holds (eq (get (ret c) ''offset'') (num off))"
    and p: "cycle_positions (acceptance f) w k = Inr p"
    and sums: "add (ret (PList committed)) (slice (ret ids) none (ret k)) = Inr committed'" "add (num off) (ret k) = Inr off'"
      "add (num pr) (sub (ret w) (num 1)) = Inr pr'" "add (num ac) (sub (ret k) (num 1)) = Inr ac'"
      "add (num di) (sub (ret w) (ret k)) = Inr di'" "add (num re) (lt (ret k) (ret w)) = Inr re'"
    and s: "s = (p, replayed', children', totals', committed', off', pr', ac', di', re')"
    using assms unfolding account_cycle_def cycle_state_def prod.case
    by (auto simp: unpack2_eq_Inr bnd_eq_Inr call2_eq_Inr check_eq_Inr holds_conjs)
  obtain m n where w: "wv = PInt m" "w = PInt m" "1 \<le> m" and k: "kv = PInt n" "k = PInt n" "1 \<le> n"
    using c(2,4) by (auto simp: integer_mtp_eq)
  obtain xs where xs: "ids = PList xs" "len xs = m"
    using c(6,7) by (auto simp: w isinstance_def eval_simps)
  then have ids: "ids = PList xs" "int (length xs) = m" by (simp_all add: len_def)
  have "tuple_of [num 1, num 2, num 4] = ret (PTuple [PInt 1, PInt 2, PInt 4])"
    "tuple_of [num 1, num 4] = ret (PTuple [PInt 1, PInt 4])"
    by (simp_all add: tuple_of_def)
  with c(8) have "m \<in> {1, 2, 4}"
    by (auto simp: w holds_simps ctrl_simps member_def)
  moreover have nm: "n \<le> m" using c(9) by (simp add: w k eval_simps)
  moreover have "p = acceptance (tally_cycle m n f)"
    using p cycle_positions_value [OF \<open>m \<in> {1, 2, 4}\<close>] by (simp add: w k)
  moreover have "slice (ret ids) none (ret k) = ret (PList (take (nat n) xs))"
    using k(3) nm ids(2) by (auto simp: ids(1) k(1,2) slice_def slice_list_def clip_def len_def min_def max_def)
  then have "committed' = PList (committed @ take (nat n) xs)"
    using sums(1) by (simp add: add_def py_add_def)
  moreover have "off' = PInt (off + n)" "pr' = PInt (pr + (m - 1))" "ac' = PInt (ac + (n - 1))" "di' = PInt (di + (m - n))"
      "re' = PInt (re + of_bool (n < m))"
    using sums(2-) by (simp_all add: w k eval_simps)
  ultimately show ?thesis
    unfolding s cycle_state_def
    by (intro exI [of _ m] exI [of _ n] exI [of _ xs] exI [of _ replayed'] exI [of _ children'] exI [of _ totals'])
      (use c w k ids in simp_all)
qed

section \<open>All cycles\<close>

definition tally_cycles :: "(int \<times> int) list \<Rightarrow> (int \<Rightarrow> int \<times> int) \<Rightarrow> int \<Rightarrow> int \<times> int" where
  "tally_cycles = fold (\<lambda>(w, k). tally_cycle w k)"

text \<open>A cycle starts at the offset reached so far, verifies \<open>w\<close> rows and commits \<open>k\<close> of them.\<close>

fun tiled :: "int \<Rightarrow> pyval list \<Rightarrow> (int \<times> int) list \<Rightarrow> bool" where
  "tiled off [] wk \<longleftrightarrow> wk = []"
| "tiled off (c # cs) ((w, k) # wk) \<longleftrightarrow>
     get (ret c) ''width'' = num w \<and> get (ret c) ''committed_tokens'' = num k \<and>
     holds (eq (get (ret c) ''offset'') (num off)) \<and> 1 \<le> k \<and> k \<le> w \<and> w \<in> {1, 2, 4} \<and> tiled (off + k) cs wk"
| "tiled off (c # cs) [] \<longleftrightarrow> False"

lemma account_cycles:
  assumes "foldm (account_cycle raw wr rq rw) (cycle_state f replayed children totals committed off pr ac di re)
      (map (\<lambda>(i, y). PTuple [PInt (start + int i), y]) (enumerate_from n cs)) = Inr s"
  shows "\<exists>wk replayed' children' totals' committed'. tiled off cs wk \<and>
     int (length committed') = int (length committed) + sum_list (map snd wk) \<and>
     s = cycle_state (tally_cycles wk f) replayed' children' totals' committed' (off + sum_list (map snd wk))
       (pr + sum_list (map (\<lambda>(w, k). w - 1) wk)) (ac + sum_list (map (\<lambda>(w, k). k - 1) wk))
       (di + sum_list (map (\<lambda>(w, k). w - k) wk)) (re + int (length (filter (\<lambda>(w, k). k < w) wk)))"
  using assms
proof (induction cs arbitrary: n f replayed children totals committed off pr ac di re)
  case Nil
  then show ?case by (intro exI [of _ "[]"]) (auto simp: tally_cycles_def)
next
  case (Cons c cs)
  obtain t where t: "account_cycle raw wr rq rw (cycle_state f replayed children totals committed off pr ac di re)
        (PTuple [PInt (start + int n), c]) = Inr t"
      "foldm (account_cycle raw wr rq rw) t (map (\<lambda>(i, y). PTuple [PInt (start + int i), y]) (enumerate_from (Suc n) cs)) = Inr s"
    using Cons.prems by (auto simp: bnd_eq_Inr)
  obtain w k ids r1 c1 t1 where 1: "get (ret c) ''width'' = num w" "get (ret c) ''committed_tokens'' = num k"
      "int (length ids) = w" "holds (eq (get (ret c) ''offset'') (num off))" "1 \<le> k" "k \<le> w" "w \<in> {1, 2, 4}"
      "t = cycle_state (tally_cycle w k f) r1 c1 t1 (committed @ take (nat k) ids) (off + k)
       (pr + (w - 1)) (ac + (k - 1)) (di + (w - k)) (re + of_bool (k < w))"
    using account_cycle_step [OF t(1)] by blast
  obtain wk replayed' children' totals' committed' where 2: "tiled (off + k) cs wk"
      "int (length committed') = int (length (committed @ take (nat k) ids)) + sum_list (map snd wk)"
      "s = cycle_state (tally_cycles wk (tally_cycle w k f)) replayed' children' totals' committed' (off + k + sum_list (map snd wk))
       (pr + (w - 1) + sum_list (map (\<lambda>(w, k). w - 1) wk)) (ac + (k - 1) + sum_list (map (\<lambda>(w, k). k - 1) wk))
       (di + (w - k) + sum_list (map (\<lambda>(w, k). w - k) wk)) (re + of_bool (k < w) + int (length (filter (\<lambda>(w, k). k < w) wk)))"
    using Cons.IH [OF t(2) [unfolded 1(8)]] by blast
  have "int (length (take (nat k) ids)) = k" using 1(3,5,6) by (auto simp: min_def)
  then show ?case
    by (intro exI [of _ "(w, k) # wk"] exI [of _ replayed'] exI [of _ children'] exI [of _ totals'] exI [of _ committed'])
      (use 1 2 in \<open>simp add: tally_cycles_def algebra_simps of_bool_def\<close>)
qed

section \<open>The report\<close>

lemma tally_cycles_at:
  "tally_cycles wk f p = (fst (f p) + int (length (filter (\<lambda>(w, k). p < w) wk)),
     snd (f p) + int (length (filter (\<lambda>(w, k). p < w \<and> p < k) wk)))"
  by (induction wk arbitrary: f) (auto simp: tally_cycles_def tally_cycle_def)

lemma tiled_bounds: "tiled off cs wk \<Longrightarrow> (w, k) \<in> set wk \<Longrightarrow> 1 \<le> k \<and> k \<le> w \<and> w \<in> {1, 2, 4}"
  by (induction off cs wk rule: tiled.induct) auto

definition position_report :: "(int \<times> int) list \<Rightarrow> pyval" where
  "position_report wk = acceptance (\<lambda>p. (int (length (filter (\<lambda>(w, k). p < w) wk)), int (length (filter (\<lambda>(w, k). p < k) wk))))"

lemma account_report_fields:
  assumes "account_report raw cs requested (positions, replayed, children, totals, PList committed, off, pr, ac, di, re) = Inr r"
  shows "item (ret r) ''captured_committed_tokens'' = num (len committed) \<and> item (ret r) ''proposed_tokens'' = ret pr \<and>
     item (ret r) ''accepted_proposals'' = ret ac \<and> item (ret r) ''discarded_verification_rows'' = ret di \<and>
     item (ret r) ''rejected_cycles'' = ret re \<and> item (ret r) ''acceptance_by_position'' = ret positions"
  using assms unfolding account_report_def prod.case bnd_eq_Inr size_PList dict_of_eq_Inr fields_eq_Inr
  by (elim exE conjE) (simp add: item_PDict aitem_Cons)

lemma account_parts:
  assumes "account raw = Inr r"
  shows "\<exists>cs prompt s wr rq rw children totals requested.
     get_or (ret raw) ''cycles'' (list_of []) = ret (PList cs) \<and> get (ret raw) ''prompt_tokens'' = num prompt \<and>
     foldm (account_cycle raw wr rq rw) (cycle_state (\<lambda>_. (0, 0)) (PInt 0) children totals [] prompt 0 0 0 0)
       (map (\<lambda>(i, y). PTuple [PInt (0 + int i), y]) (enumerate_from 0 cs)) = Inr s \<and>
     account_report raw (PList cs) requested s = Inr r"
proof -
  obtain cs children totals p0 prompt wr rq rw s requested where
    c: "get_or (ret raw) ''cycles'' (list_of []) = ret cs" "holds (isinstance (ret cs) [TList])"
      "get (ret raw) ''prompt_tokens'' = ret p0" "integer_mtp p0 (PInt 1) = ret prompt"
    and run: "loop (numbered (ret cs) 0) (acceptance (\<lambda>_. (0, 0)), PInt 0, children, totals, PList [], prompt, PInt 0, PInt 0, PInt 0, PInt 0)
        (account_cycle raw wr rq rw) = Inr s"
    and r: "account_report raw cs requested s = Inr r"
    using assms unfolding account_def bnd_eq_Inr check_eq_Inr start_acceptance call2_eq_Inr displays
    by auto
  obtain xs where cs: "cs = PList xs" using c(2) by (auto simp: isinstance_def)
  obtain m where "p0 = PInt m" "prompt = PInt m" using c(4) by (auto simp: integer_mtp_eq)
  then show ?thesis using c(1,3) run r
    by (intro exI [of _ xs] exI [of _ m] exI [of _ s] exI [of _ wr] exI [of _ rq] exI [of _ rw] exI [of _ children]
        exI [of _ totals] exI [of _ requested]) (simp add: cs cycle_state_def numbered_def loop_def)
qed

lemma account_sums:
  assumes "account raw = Inr r"
  shows "\<exists>cs prompt wk. get_or (ret raw) ''cycles'' (list_of []) = ret (PList cs) \<and>
     get (ret raw) ''prompt_tokens'' = num prompt \<and> tiled prompt cs wk \<and>
     item (ret r) ''captured_committed_tokens'' = num (sum_list (map snd wk)) \<and>
     item (ret r) ''proposed_tokens'' = num (sum_list (map fst wk) - len cs) \<and>
     item (ret r) ''accepted_proposals'' = num (sum_list (map snd wk) - len cs) \<and>
     item (ret r) ''discarded_verification_rows'' = num (sum_list (map fst wk) - sum_list (map snd wk)) \<and>
     item (ret r) ''rejected_cycles'' = num (len (filter (\<lambda>(w, k). k < w) wk)) \<and>
     item (ret r) ''acceptance_by_position'' = ret (position_report wk)"
proof -
  obtain cs prompt s wr rq rw children totals requested where
    a: "get_or (ret raw) ''cycles'' (list_of []) = ret (PList cs)" "get (ret raw) ''prompt_tokens'' = num prompt"
      "foldm (account_cycle raw wr rq rw) (cycle_state (\<lambda>_. (0, 0)) (PInt 0) children totals [] prompt 0 0 0 0)
         (map (\<lambda>(i, y). PTuple [PInt (0 + int i), y]) (enumerate_from 0 cs)) = Inr s"
      "account_report raw (PList cs) requested s = Inr r"
    using account_parts [OF assms] by blast
  obtain wk rep chi tot com where t: "tiled prompt cs wk"
      "int (length com) = int (length ([] :: pyval list)) + sum_list (map snd wk)"
      "s = cycle_state (tally_cycles wk (\<lambda>_. (0, 0))) rep chi tot com (prompt + sum_list (map snd wk))
       (0 + sum_list (map (\<lambda>(w, k). w - 1) wk)) (0 + sum_list (map (\<lambda>(w, k). k - 1) wk))
       (0 + sum_list (map (\<lambda>(w, k). w - k) wk)) (0 + int (length (filter (\<lambda>(w, k). k < w) wk)))"
    using account_cycles [OF a(3)] by blast
  have n: "length wk = length cs" using t(1) by (induction prompt cs wk rule: tiled.induct) auto
  have sums: "sum_list (map (\<lambda>(w, k). w - 1) wk) = sum_list (map fst wk) - len cs"
    "sum_list (map (\<lambda>(w, k). k - 1) wk) = sum_list (map snd wk) - len cs"
    "sum_list (map (\<lambda>(w, k). w - k) wk) = sum_list (map fst wk) - sum_list (map snd wk)"
    unfolding len_def n [symmetric] by (induction wk) auto
  have "p < w \<and> p < k \<longleftrightarrow> p < k" if "(w, k) \<in> set wk" for p w k
    using tiled_bounds [OF t(1) that] by auto
  then have "filter (\<lambda>(w, k). p < w \<and> p < k) wk = filter (\<lambda>(w, k). p < k) wk" for p
    by (intro filter_cong) auto
  then have "acceptance (tally_cycles wk (\<lambda>_. (0, 0))) = position_report wk"
    by (simp add: position_report_def acceptance_def tally_cycles_at)
  then show ?thesis
    using account_report_fields [OF a(4) [unfolded t(3) cycle_state_def]] a(1,2) t(1,2)
    by (auto simp: sums len_def)
qed

text \<open>
  C21: the totals of an accepted multi-token-prediction report balance. Its cycles tile the output: each one starts
  where the committed tokens so far end, verifies 1, 2 or 4 rows and commits between one row and all of them.
  The reported numbers of committed, proposed, accepted, discarded and rejected rows, in total and by position,
  are the sums over these cycles, so that every proposal is either accepted or discarded and the committed
  tokens are the accepted proposals and one token per cycle.
\<close>

theorem account_balances:
  assumes "account raw = Inr r"
  shows "\<exists>cs prompt wk. get_or (ret raw) ''cycles'' (list_of []) = ret (PList cs) \<and>
     get (ret raw) ''prompt_tokens'' = num prompt \<and> tiled prompt cs wk \<and>
     item (ret r) ''captured_committed_tokens'' = num (sum_list (map snd wk)) \<and>
     item (ret r) ''proposed_tokens'' = num (sum_list (map fst wk) - len cs) \<and>
     item (ret r) ''accepted_proposals'' = num (sum_list (map snd wk) - len cs) \<and>
     item (ret r) ''discarded_verification_rows'' = num (sum_list (map fst wk) - sum_list (map snd wk)) \<and>
     item (ret r) ''rejected_cycles'' = num (len (filter (\<lambda>(w, k). k < w) wk)) \<and>
     item (ret r) ''acceptance_by_position'' = ret (position_report wk)"
  by (rule account_sums [OF assms])

definition sample_mtp :: pyval where
  "sample_mtp = PDict [(''kind'', PStr ''native_mtp_continuation_v1''), (''prompt_tokens'', PInt 72), (''complete'', PBool False),
     (''cycles'', PList [
       PDict [(''width'', PInt 4), (''committed_tokens'', PInt 3), (''offset'', PInt 72), (''accepted_proposals'', PInt 2),
         (''proposals'', PList [PInt 5, PInt 6, PInt 7, PInt 8]), (''wall_ns'', PInt 3000000), (''draft_ns'', PInt 0),
         (''verify_ns'', PInt 2000000), (''recovery_ns'', PInt 0)],
       PDict [(''width'', PInt 1), (''committed_tokens'', PInt 1), (''offset'', PInt 75), (''accepted_proposals'', PInt 0),
         (''proposals'', PList [PInt 9]), (''wall_ns'', PInt 1000000), (''draft_ns'', PInt 0), (''verify_ns'', PInt 0),
         (''recovery_ns'', PInt 0)]])]"

lemma sample_mtp_accepted: "returns (account sample_mtp)"
  by code_simp

lemma account_balances_witness:
  "\<exists>r cs prompt wk. account sample_mtp = Inr r \<and> get_or (ret sample_mtp) ''cycles'' (list_of []) = ret (PList cs) \<and>
     length cs = 2 \<and> tiled prompt cs wk \<and> item (ret r) ''captured_committed_tokens'' = num (sum_list (map snd wk))"
proof -
  obtain r where r: "account sample_mtp = Inr r"
    using sample_mtp_accepted by (cases "account sample_mtp") auto
  obtain cs prompt wk where a: "get_or (ret sample_mtp) ''cycles'' (list_of []) = ret (PList cs)" "tiled prompt cs wk"
      "item (ret r) ''captured_committed_tokens'' = num (sum_list (map snd wk))"
    using account_balances [OF r] by blast
  have "length cs = 2" using a(1) by (auto simp: sample_mtp_def get_or_def dict_get_def displays)
  then show ?thesis using a r by blast
qed

end
