(* ===== verification/ProfileWindow.thy ===== *)
theory ProfileWindow
  imports MtpBalance MtpComparison
begin

text \<open>
  The profiled window of a multi-token-prediction run (\<open>window\<close> of
  \<open>scripts/qwen/capture_mtp_width_profile.py\<close>) on the cycles of a report that \<open>account\<close> accepts:
  for a long enough output the window always exists, and it is a run of consecutive cycles
  around output positions 32 to 48.
\<close>

definition window_report :: "int \<Rightarrow> nat \<Rightarrow> int \<Rightarrow> int \<Rightarrow> int \<Rightarrow> pyval" where
  "window_report first n committed verified all = PDict [(''requested_start'', PInt 32), (''requested_committed'', PInt 16),
     (''first_output'', PInt first), (''end_output'', PInt (first + committed)), (''captured_calls'', PInt (int n)),
     (''captured_committed'', PInt committed), (''captured_verified'', PInt verified), (''omitted_before'', PInt first),
     (''omitted_after'', PInt (all - first - committed))]"

definition window_state :: "nat \<Rightarrow> nat \<Rightarrow> int \<Rightarrow> int \<Rightarrow> pyval \<Rightarrow> pyval \<times> pyval \<times> pyval \<times> pyval" where
  "window_state a b c v first = (PList (map (\<lambda>i. PInt (int i)) [a..<b]), PInt c, PInt v, first)"

definition exact_offsets :: "pyval list \<Rightarrow> bool" where
  "exact_offsets cs \<longleftrightarrow> (\<forall>c\<in>set cs. \<exists>i. get (ret c) ''offset'' = num i)"

definition numbered_cycles :: "nat \<Rightarrow> pyval list \<Rightarrow> pyval list" where
  "numbered_cycles n cs = map (\<lambda>(i, y). PTuple [PInt (0 + int i), y]) (enumerate_from n cs)"

lemma numbered_cycles_simps [simp]:
  "numbered_cycles n [] = []" "numbered_cycles n (c # cs) = PTuple [PInt (int n), c] # numbered_cycles (Suc n) cs"
  by (simp_all add: numbered_cycles_def)

text \<open>One cycle that starts at output position \<open>o'\<close>.\<close>

lemma window_cycle_value:
  assumes "item (ret c) ''offset'' = num (prompt + o')" "item (ret c) ''committed_tokens'' = num k" "item (ret c) ''width'' = num w"
  shows "o' < 32 \<or> 16 \<le> m \<Longrightarrow>
      window_cycle (PInt prompt) (window_state a b m v first) (PTuple [PInt (int i), c]) = Inr (window_state a b m v first)"
    and "32 \<le> o' \<Longrightarrow> window_cycle (PInt prompt) (window_state i i 0 0 PNone) (PTuple [PInt (int i), c]) =
      Inr (window_state i (Suc i) k w (PInt o'))"
    and "32 \<le> o' \<Longrightarrow> m < 16 \<Longrightarrow> a \<le> i \<Longrightarrow> o' = f + m \<Longrightarrow>
      window_cycle (PInt prompt) (window_state a i m v (PInt f)) (PTuple [PInt (int i), c]) =
      Inr (window_state a (Suc i) (m + k) (v + w) (PInt f))"
  by (auto simp: window_cycle_def window_state_def unpack2_def START_def TOKENS_def assms eval_simps conjs.simps py_eq_PInt_PInt simp del: of_int_add)

abbreviation committed_by :: "nat \<Rightarrow> (int \<times> int) list \<Rightarrow> int" where
  "committed_by n wk \<equiv> sum_list (map snd (take n wk))"

abbreviation verified_by :: "nat \<Rightarrow> (int \<times> int) list \<Rightarrow> int" where
  "verified_by n wk \<equiv> sum_list (map fst (take n wk))"

lemma tiled_Cons:
  assumes "tiled (prompt + o') (c # cs) wk" "exact_offsets (c # cs)"
  obtains w k wk' where "wk = (w, k) # wk'" "item (ret c) ''offset'' = num (prompt + o')" "item (ret c) ''committed_tokens'' = num k"
    "item (ret c) ''width'' = num w" "1 \<le> k" "k \<le> 4" "tiled (prompt + (o' + k)) cs wk'" "exact_offsets cs"
proof -
  obtain w k wk' where wk: "wk = (w, k) # wk'" using assms(1) by (cases wk) auto
  obtain i where i: "get (ret c) ''offset'' = num i" using assms(2) by (auto simp: exact_offsets_def)
  have "i = prompt + o'"
    using assms(1) i by (auto simp: wk holds_simps compare_ret py_eq_PInt_PInt simp del: of_int_add)
  then show ?thesis
    using that [OF wk] assms i by (auto simp: wk get_item exact_offsets_def algebra_simps)
qed

lemma window_done:
  assumes "tiled (prompt + o') cs wk" "exact_offsets cs" "16 \<le> m"
  shows "foldm (window_cycle (PInt prompt)) (window_state a b m v first) (numbered_cycles i cs) = Inr (window_state a b m v first)"
  using assms
proof (induction cs arbitrary: o' wk i)
  case (Cons c cs)
  show ?case
  proof (rule tiled_Cons [OF Cons.prems(1,2)])
    fix w k wk'
    assume c: "item (ret c) ''offset'' = num (prompt + o')" "item (ret c) ''committed_tokens'' = num k"
      "item (ret c) ''width'' = num w" and t: "tiled (prompt + (o' + k)) cs wk'" "exact_offsets cs"
    show ?thesis using Cons.IH [OF t Cons.prems(3)] window_cycle_value(1) [OF c, of m] Cons.prems(3) by simp
  qed
qed simp

lemma window_collect:
  assumes "tiled (prompt + (f + m)) cs wk" "exact_offsets cs" "32 \<le> f" "0 \<le> m" "a \<le> i" "m < 20"
  shows "\<exists>n \<le> length cs. foldm (window_cycle (PInt prompt)) (window_state a i m v (PInt f)) (numbered_cycles i cs) =
      Inr (window_state a (i + n) (m + committed_by n wk) (v + verified_by n wk) (PInt f)) \<and>
    m + committed_by n wk < 20 \<and> (16 \<le> m + committed_by n wk \<or> n = length cs) \<and> int n \<le> max 0 (16 - m)"
  using assms
proof (induction cs arbitrary: m v i wk)
  case Nil
  then show ?case by (auto intro!: exI [of _ 0])
next
  case (Cons c cs)
  show ?case
  proof (cases "16 \<le> m")
    case True
    then show ?thesis using window_done [OF Cons.prems(1,2) True] Cons.prems by (intro exI [of _ 0]) auto
  next
    case False
    show ?thesis
    proof (rule tiled_Cons [OF Cons.prems(1,2)])
      fix w k wk'
      assume wk: "wk = (w, k) # wk'" and c: "item (ret c) ''offset'' = num (prompt + (f + m))"
        "item (ret c) ''committed_tokens'' = num k" "item (ret c) ''width'' = num w" and k: "1 \<le> k" "k \<le> 4"
        and t: "tiled (prompt + (f + m + k)) cs wk'" "exact_offsets cs"
      have step: "window_cycle (PInt prompt) (window_state a i m v (PInt f)) (PTuple [PInt (int i), c]) =
          Inr (window_state a (Suc i) (m + k) (v + w) (PInt f))"
        using window_cycle_value(3) [OF c] Cons.prems False by simp
      obtain n where n: "n \<le> length cs" "foldm (window_cycle (PInt prompt)) (window_state a (Suc i) (m + k) (v + w) (PInt f)) (numbered_cycles (Suc i) cs) =
          Inr (window_state a (Suc i + n) (m + k + committed_by n wk') (v + w + verified_by n wk') (PInt f))"
        "m + k + committed_by n wk' < 20" "16 \<le> m + k + committed_by n wk' \<or> n = length cs" "int n \<le> max 0 (16 - (m + k))"
        using Cons.IH [of "m + k" wk' "Suc i" "v + w"] t Cons.prems k False by (auto simp: add.assoc)
      then show ?thesis using step k False by (intro exI [of _ "Suc n"]) (auto simp: wk add.assoc)
    qed
  qed
qed

lemma window_skip:
  assumes "tiled (prompt + o') cs wk" "exact_offsets cs" "o' < 36"
  shows "(\<exists>a n. a + n \<le> length cs \<and> foldm (window_cycle (PInt prompt)) (window_state i i 0 0 PNone) (numbered_cycles i cs) =
        Inr (window_state (i + a) (i + a + n) (committed_by n (drop a wk)) (verified_by n (drop a wk)) (PInt (o' + committed_by a wk))) \<and>
      32 \<le> o' + committed_by a wk \<and> o' + committed_by a wk < 36 \<and> committed_by n (drop a wk) < 20 \<and>
      (16 \<le> committed_by n (drop a wk) \<or> a + n = length cs) \<and> n \<le> 16) \<or> o' + sum_list (map snd wk) < 36"
  using assms
proof (induction cs arbitrary: o' i wk)
  case Nil
  then show ?case by simp
next
  case (Cons c cs)
  show ?case
  proof (rule tiled_Cons [OF Cons.prems(1,2)])
    fix w k wk'
    assume wk: "wk = (w, k) # wk'" and c: "item (ret c) ''offset'' = num (prompt + o')"
      "item (ret c) ''committed_tokens'' = num k" "item (ret c) ''width'' = num w" and k: "1 \<le> k" "k \<le> 4"
      and t: "tiled (prompt + (o' + k)) cs wk'" "exact_offsets cs"
    show ?thesis
    proof (cases "o' < 32")
      case True
      have step: "window_cycle (PInt prompt) (window_state i i 0 0 PNone) (PTuple [PInt (int i), c]) = Inr (window_state (Suc i) (Suc i) 0 0 PNone)"
        using window_cycle_value(1) [OF c, of 0 i i 0 PNone i] True by (simp add: window_state_def)
      from Cons.IH [OF t, of "Suc i"] k True
      consider "o' + sum_list (map snd wk) < 36"
        | a n where "a + n \<le> length cs" "foldm (window_cycle (PInt prompt)) (window_state (Suc i) (Suc i) 0 0 PNone) (numbered_cycles (Suc i) cs) =
            Inr (window_state (Suc i + a) (Suc i + a + n) (committed_by n (drop a wk')) (verified_by n (drop a wk')) (PInt (o' + k + committed_by a wk')))"
          "32 \<le> o' + k + committed_by a wk'" "o' + k + committed_by a wk' < 36" "committed_by n (drop a wk') < 20"
          "16 \<le> committed_by n (drop a wk') \<or> a + n = length cs" "n \<le> 16"
        by (auto simp: wk)
      then show ?thesis
      proof cases
        case 2
        then show ?thesis using step by (intro disjI1 exI [of _ "Suc a"] exI [of _ n]) (auto simp: wk add.assoc)
      qed simp
    next
      case False
      then have step: "window_cycle (PInt prompt) (window_state i i 0 0 PNone) (PTuple [PInt (int i), c]) =
          Inr (window_state i (Suc i) k w (PInt o'))"
        using window_cycle_value(2) [OF c] by simp
      obtain n where n: "n \<le> length cs" "foldm (window_cycle (PInt prompt)) (window_state i (Suc i) k w (PInt o')) (numbered_cycles (Suc i) cs) =
          Inr (window_state i (Suc i + n) (k + committed_by n wk') (w + verified_by n wk') (PInt o'))"
        "k + committed_by n wk' < 20" "16 \<le> k + committed_by n wk' \<or> n = length cs" "int n \<le> max 0 (16 - k)"
        using window_collect [OF t, of i "Suc i" w] k False by auto
      then show ?thesis using step k False Cons.prems(3)
        by (intro disjI1 exI [of _ 0] exI [of _ "Suc n"]) (auto simp: wk)
    qed
  qed
qed

text \<open>
  C22: when \<open>account\<close> accepts a report with at least 51 committed tokens and integral offsets, the profiled
  window exists. It is a run of at most 16 consecutive cycles that starts at one of the output positions
  32 to 35 and holds 16 to 19 committed tokens, and what is reported as omitted before and after it adds up with the
  captured tokens to the whole output.
\<close>

theorem profile_window_exists:
  assumes "account raw = Inr r" "get_or (ret raw) ''cycles'' (list_of []) = ret (PList cs)" "exact_offsets cs"
    and "get (ret raw) ''prompt_tokens'' = num prompt" "item (ret r) ''captured_committed_tokens'' = num t" "51 \<le> t"
  shows "\<exists>wk a n. tiled prompt cs wk \<and> a + n \<le> length cs \<and> n \<le> 16 \<and>
     32 \<le> committed_by a wk \<and> committed_by a wk < 36 \<and> 16 \<le> committed_by n (drop a wk) \<and> committed_by n (drop a wk) < 20 \<and>
     window (PList cs) (PInt prompt) (PInt t) =
       ret (PTuple [PList (map (\<lambda>i. PInt (int i)) [a..<a + n]),
         window_report (committed_by a wk) n (committed_by n (drop a wk)) (verified_by n (drop a wk)) t])"
proof -
  obtain wk where wk: "tiled prompt cs wk" "t = sum_list (map snd wk)"
    using account_sums [OF assms(1)] assms(2,4,5) by auto
  have len: "length wk = length cs" using wk(1) by (induction prompt cs wk rule: tiled.induct) auto
  have pos: "0 \<le> sum_list (map snd wk')" if "set wk' \<subseteq> set wk" for wk'
    using that tiled_bounds [OF wk(1)] by (intro sum_list_nonneg) fastforce
  obtain a n where a: "a + n \<le> length cs" "foldm (window_cycle (PInt prompt)) (window_state 0 0 0 0 PNone) (numbered_cycles 0 cs) =
        Inr (window_state a (a + n) (committed_by n (drop a wk)) (verified_by n (drop a wk)) (PInt (committed_by a wk)))"
      "32 \<le> committed_by a wk" "committed_by a wk < 36" "committed_by n (drop a wk) < 20"
      "16 \<le> committed_by n (drop a wk) \<or> a + n = length cs" "n \<le> 16"
    using window_skip [of prompt 0 cs wk 0] wk assms(3,6) by auto
  have all: "t = committed_by a wk + committed_by n (drop a wk) + sum_list (map snd (drop n (drop a wk)))"
    unfolding wk(2) by (metis append_take_drop_id map_append sum_list_append add.assoc)
  have "16 \<le> committed_by n (drop a wk)"
    using a(4,6) all assms(6) by (auto simp: len)
  moreover have "committed_by a wk + committed_by n (drop a wk) \<le> t"
    using all pos [of "drop n (drop a wk)"] set_drop_subset [of n "drop a wk"] set_drop_subset [of a wk] by auto
  ultimately have "window (PList cs) (PInt prompt) (PInt t) = ret (PTuple [PList (map (\<lambda>i. PInt (int i)) [a..<a + n]),
         window_report (committed_by a wk) n (committed_by n (drop a wk)) (verified_by n (drop a wk)) t])"
    using a(2-5,7) unfolding window_def window_state_def numbered_cycles_def
    by (simp add: loop_def numbered_def eval_simps START_def TOKENS_def conjs.simps len_def window_report_def tuple_of_def dict_of_def)
  then show ?thesis using wk a \<open>16 \<le> committed_by n (drop a wk)\<close> by blast
qed

definition sample_cycle :: "int \<Rightarrow> pyval" where
  "sample_cycle off = PDict [(''width'', PInt 4), (''committed_tokens'', PInt 4), (''offset'', PInt off), (''accepted_proposals'', PInt 3),
     (''proposals'', PList [PInt 5, PInt 6, PInt 7, PInt 8]), (''wall_ns'', PInt 4000000), (''draft_ns'', PInt 0),
     (''verify_ns'', PInt 0), (''recovery_ns'', PInt 0)]"

definition sample_run :: "nat \<Rightarrow> pyval" where
  "sample_run n = PDict [(''kind'', PStr ''native_mtp_continuation_v1''), (''prompt_tokens'', PInt 72), (''complete'', PBool False),
     (''cycles'', PList (map (\<lambda>i. sample_cycle (72 + 4 * int i)) [0..<n]))]"

lemma sample_run_accepted:
  "bnd (account (sample_run 13)) (\<lambda>r. item (ret r) ''captured_committed_tokens'') = num 52"
  by code_simp

lemma profile_window_exists_witness:
  "\<exists>r cs a n. account (sample_run 13) = Inr r \<and> get_or (ret (sample_run 13)) ''cycles'' (list_of []) = ret (PList cs) \<and>
     a + n \<le> (13 :: nat) \<and> returns (window (PList cs) (PInt 72) (PInt 52))"
proof -
  obtain r where r: "account (sample_run 13) = Inr r" "item (ret r) ''captured_committed_tokens'' = num 52"
    using sample_run_accepted by (cases "account (sample_run 13)") auto
  define cs where "cs = map (\<lambda>i. sample_cycle (72 + 4 * int i)) [0..<13]"
  have c: "get_or (ret (sample_run 13)) ''cycles'' (list_of []) = ret (PList cs)" "get (ret (sample_run 13)) ''prompt_tokens'' = num 72"
    by (simp_all add: sample_run_def cs_def get_or_def dict_get_def displays eval_simps aget_def)
  have e: "exact_offsets cs"
    by (auto simp: exact_offsets_def cs_def sample_cycle_def eval_simps aget_def)
  have "length cs = 13" by (simp add: cs_def)
  moreover obtain a n where "a + n \<le> length cs" "returns (window (PList cs) (PInt 72) (PInt 52))"
    using profile_window_exists [OF r(1) c(1) e c(2) r(2)] by fastforce
  ultimately show ?thesis using r c by auto
qed

end
