(* ===== verification/PhasePlans.thy ===== *)
theory PhasePlans
  imports ExactBench PyEval
begin

text \<open>
  The allocation plans of a request with phase memory (\<open>validate_phase_memory\<close> of
  \<open>scripts/qwen/benchmark_exact.py\<close>) as a two-state machine: prompt workspaces are taken
  from the generation plan and given back to it.
\<close>

declare conjs.simps [simp del] disjs.simps [simp del]

text \<open>
  Paths of the machine: \<open>True\<close> while the prompt plan is in force; \<open>v\<close> is the plan the last
  transition has left.
\<close>

inductive plan_path :: "pyval \<Rightarrow> pyval \<Rightarrow> pyval \<Rightarrow> bool \<Rightarrow> pyval \<Rightarrow> pyval list \<Rightarrow> bool \<Rightarrow> bool"
  for budget prompt generation :: pyval where
  arrived: "plan_path budget prompt generation m v [] m"
| enter: "item (ret e) ''reason'' = str ''ingest_panel'' \<Longrightarrow> item (ret e) ''before'' = ret b \<Longrightarrow> py_eq b v \<Longrightarrow>
    item (ret e) ''after'' = ret a \<Longrightarrow> py_eq a prompt \<Longrightarrow> refuted (gt (item (ret e) ''live_buffer_bytes'') (ret budget)) \<Longrightarrow>
    plan_path budget prompt generation True a es m \<Longrightarrow> plan_path budget prompt generation False v (e # es) m"
| leave: "item (ret e) ''reason'' = str ''ingest_complete'' \<Longrightarrow> item (ret e) ''before'' = ret b \<Longrightarrow> py_eq b v \<Longrightarrow>
    item (ret e) ''after'' = ret a \<Longrightarrow> py_eq a generation \<Longrightarrow> refuted (gt (item (ret e) ''live_buffer_bytes'') (ret budget)) \<Longrightarrow>
    refuted (some (item (ret e) ''scratch_after'') (\<lambda>p. item (ret p) ''allocated_bytes'')) \<Longrightarrow>
    plan_path budget prompt generation False a es m \<Longrightarrow> plan_path budget prompt generation True v (e # es) m"

text \<open>The mode after each transition: the modes alternate, and the path ends where the parity of its length says.\<close>

lemma plan_path_parity: "plan_path budget prompt generation m v es m' \<Longrightarrow> m' = (m \<noteq> odd (length es))"
  by (induction rule: plan_path.induct) auto

lemma phase_transition_step:
  assumes "phase_transition budget before_count after v (PTuple [PInt (int n), e]) = Inr a"
    and "item (ret after) ''prompt_plan'' = ret prompt" "item (ret after) ''generation_plan'' = ret generation"
    and "plan_path budget prompt generation (odd (Suc n)) a es m"
  shows "plan_path budget prompt generation (odd n) v (e # es) m"
proof -
  have index: "index (ret after) (str k) = item (ret after) k" for k by (simp add: index_def item_def)
  have yes: "conjs [yes, c] = c" for c by (simp add: conjs.simps)
  have par: "modulo (num (int n)) (num 2) = num (int (n mod 2))"
    by (simp add: eval_simps zmod_int)
  show ?thesis
  proof (cases "odd n")
    case True
    then have "n mod 2 = 1" by presburger
    then show ?thesis using assms True
      by (auto simp: phase_transition_def ctrl_simps holds_simps index par yes compare_ret num_equal_literal py_eq_PInt_PInt intro: leave)
  next
    case False
    then have "n mod 2 = 0" by presburger
    then show ?thesis using assms False
      by (auto simp: phase_transition_def ctrl_simps holds_simps index par yes compare_ret num_equal_literal py_eq_PInt_PInt intro: enter)
  qed
qed

lemma phase_transitions_path:
  assumes "foldm (phase_transition budget before_count after) v (map (\<lambda>(i, y). PTuple [PInt (0 + int i), y]) (enumerate_from n es)) = Inr l"
    and "item (ret after) ''prompt_plan'' = ret prompt" "item (ret after) ''generation_plan'' = ret generation"
  shows "plan_path budget prompt generation (odd n) v es (odd (n + length es))"
  using assms(1)
proof (induction es arbitrary: n v)
  case Nil
  then show ?case by (simp add: arrived)
next
  case (Cons e es)
  then obtain a where a: "phase_transition budget before_count after v (PTuple [PInt (int n), e]) = Inr a"
    "foldm (phase_transition budget before_count after) a (map (\<lambda>(i, y). PTuple [PInt (0 + int i), y]) (enumerate_from (Suc n) es)) = Inr l"
    by (auto simp: bnd_eq_Inr)
  show ?case using phase_transition_step [OF a(1) assms(2,3) Cons.IH [OF a(2)]] by simp
qed

text \<open>
  C23: a request accepted under the reclaim policy changes its allocation plan only between the two declared plans: the
  reported transitions start and end in the generation plan, alternate between taking the prompt plan and giving it
  back with every prompt workspace freed, each from the plan the one before has left, and neither plan is larger than
  the budget, nor are the live buffers at any transition.
\<close>

theorem reclaim_returns_to_generation:
  assumes "validate_phase_memory row config budget = Inr r" "get_or (ret config) ''phase_memory'' (str ''fixed'') = str ''reclaim''"
  shows "\<exists>before after prompt generation g0 events.
     get_or (item (ret row) ''before'') ''phase_memory'' (dict_of []) = ret before \<and>
     get_or (item (ret row) ''after'') ''phase_memory'' (dict_of []) = ret after \<and>
     item (ret after) ''prompt_plan'' = ret prompt \<and> item (ret after) ''generation_plan'' = ret generation \<and>
     item (ret before) ''generation_plan'' = ret g0 \<and> py_eq g0 generation \<and>
     (\<forall>p\<in>{prompt, generation}. refuted (gt (item (ret p) ''planned_bytes'') (ret budget))) \<and>
     each_if (item (ret after) ''transitions'')
       (\<lambda>e. gt (item (ret e) ''sequence'') (item (ret before) ''transition_count'')) (\<lambda>e. ret e) = ret (PList events) \<and>
     even (length events) \<and> plan_path budget prompt generation False g0 events False"
proof -
  obtain before after before_count events g0 l where
    b: "get_or (item (ret row) ''before'') ''phase_memory'' (dict_of []) = ret before"
      "get_or (item (ret row) ''after'') ''phase_memory'' (dict_of []) = ret after"
      "item (ret before) ''transition_count'' = ret before_count" "item (ret before) ''generation_plan'' = ret g0"
    and loop: "loop (list_of [tuple_of [item (ret row) ''before'', ret before], tuple_of [item (ret row) ''after'', ret after]]) ()
       (\<lambda>unused tup1.
       unpack2 tup1 (\<lambda>state phase.
         reject (disjs [ne (get (ret phase) ''policy'') (str ''reclaim''),
              ne (get (ret phase) ''phase'') (str ''generation'')]) ''Incomplete phase transition'' (
         bnd (loop (tuple_of [str ''prompt_plan'', str ''generation_plan'']) () (\<lambda>unused name.
           bnd (index (ret phase) (ret name)) (\<lambda>p.
           reject (disjs [ne (item (ret p) ''limit_bytes'') (ret budget),
                gt (item (ret p) ''planned_bytes'') (ret budget)]) ''Phase exceeds budget'' (
           Inr ())))) (\<lambda>unused.
         reject (ne (item (ret state) ''memory_plan'') (item (ret phase) ''generation_plan''))
           ''Generation allocation changed'' (
         Inr ()))))) = Inr ()"
    and same: "refuted (disjs [ne (item (ret before) ''prompt_plan'') (item (ret after) ''prompt_plan''),
          ne (item (ret before) ''generation_plan'') (item (ret after) ''generation_plan'')])"
    and ev: "each_if (item (ret after) ''transitions'') (\<lambda>e. gt (item (ret e) ''sequence'') (ret before_count)) (\<lambda>e. ret e) = ret events"
    and run: "loop (numbered (ret events) 0) g0 (phase_transition budget before_count after) = Inr l"
    and even: "refuted (modulo (size_of (ret events)) (num 2))"
    using assms unfolding validate_phase_memory_def
    by (auto simp: bnd_eq_Inr reject_eq_Inr branch_eq_Inr compare_ret)
  obtain prompt generation where p: "item (ret after) ''prompt_plan'' = ret prompt" "item (ret after) ''generation_plan'' = ret generation"
      "py_eq g0 generation"
    using same b(4) by (auto simp: holds_simps)
  have index: "index (ret after) (str k) = item (ret after) k" for k by (simp add: index_def item_def)
  have plans: "refuted (gt (item (ret p) ''planned_bytes'') (ret budget))" if "p \<in> {prompt, generation}" for p
    using loop that p
    by (auto simp: ctrl_simps holds_simps index)
  obtain es where es: "events = PList es" using ev by (auto simp: each_if_def bnd_eq_Inr)
  have "even (length es)"
    using even by (simp add: es eval_simps len_def zmod_int refuted_def) presburger
  moreover have "plan_path budget prompt generation (odd (0 :: nat)) g0 es (odd (0 + length es))"
    using run by (intro phase_transitions_path [OF _ p(1,2)]) (simp add: es loop_def numbered_def)
  ultimately show ?thesis using b p plans ev by (auto simp: es)
qed

definition sample_plan :: "int \<Rightarrow> pyval" where
  "sample_plan panel = PDict [(''limit_bytes'', PInt 1000), (''planned_bytes'', PInt 900), (''panel_tokens'', PInt panel)]"

definition sample_phase :: "pyval list \<Rightarrow> pyval" where
  "sample_phase events = PDict [(''memory_plan'', sample_plan 0), (''phase_memory'', PDict [(''policy'', PStr ''reclaim''), (''phase'', PStr ''generation''),
     (''prompt_plan'', sample_plan 512), (''generation_plan'', sample_plan 0), (''transition_count'', PInt (len events)),
     (''transitions'', PList events)])]"

definition sample_transition :: "int \<Rightarrow> string \<Rightarrow> int \<Rightarrow> int \<Rightarrow> pyval" where
  "sample_transition sequence reason a b = PDict [(''sequence'', PInt sequence), (''reason'', PStr reason), (''before'', sample_plan a),
     (''after'', sample_plan b), (''live_buffer_bytes'', PInt 800), (''scratch_after'', PList [PDict [(''allocated_bytes'', PInt 0)]])]"

definition sample_reclaim :: pyval where
  "sample_reclaim = PDict [(''before'', sample_phase []), (''prefill_tokens'', PInt 300),
     (''after'', sample_phase [sample_transition 1 ''ingest_panel'' 0 512, sample_transition 2 ''ingest_complete'' 512 0])]"

definition sample_config :: pyval where
  "sample_config = PDict [(''phase_memory'', PStr ''reclaim''), (''prefill_pipeline'', PStr ''double'')]"

lemma sample_reclaim_accepted:
  "validate_phase_memory sample_reclaim sample_config (PInt 1000) = none"
  by code_simp

lemma reclaim_returns_to_generation_witness:
  "\<exists>after prompt generation g0 events. get_or (item (ret sample_reclaim) ''after'') ''phase_memory'' (dict_of []) = ret after \<and>
     item (ret after) ''generation_plan'' = ret generation \<and> plan_path (PInt 1000) prompt generation False g0 events False"
proof -
  have "get_or (ret sample_config) ''phase_memory'' (str ''fixed'') = str ''reclaim''"
    by (simp add: sample_config_def get_or_def dict_get_def)
  from reclaim_returns_to_generation [OF sample_reclaim_accepted this] show ?thesis by blast
qed

end
