(* ===== verification/CleanMemory.thy ===== *)
theory CleanMemory
  imports RunChecks PyEval
begin

text \<open>
  The clean-memory verdict of a run (\<open>clean_memory\<close>): two nested loops that return at the first
  phase with compressed or decompressed pages compute the conjunction over all phases.
\<close>

declare conjs.simps [simp del] disjs.simps [simp del]

section \<open>Loops that return early\<close>

lemma fold_exit_decides:
  assumes "\<And>x r. x \<in> set xs \<Longrightarrow> body () x = Inr r \<Longrightarrow> r = Inr () \<and> P x \<or> r = Inl w \<and> \<not> P x"
    and "fold_exit body () xs = Inr r"
  shows "r = Inr () \<and> (\<forall>x\<in>set xs. P x) \<or> r = Inl w \<and> (\<exists>x\<in>set xs. \<not> P x)"
  using assms
proof (induction xs)
  case (Cons x xs)
  obtain s where s: "body () x = Inr s" "(case s of Inl v \<Rightarrow> Inr (Inl v) | Inr _ \<Rightarrow> fold_exit body () xs) = Inr r"
    using Cons.prems(2) by (auto simp: bnd_eq_Inr)
  show ?case using Cons.prems(1) [OF _ s(1)] s(2) Cons.IH Cons.prems(1) by auto
qed simp

section \<open>The verdict\<close>

text \<open>No page of the process is compressed before or after the phase, and none was decompressed in it.\<close>

definition phase_clean :: "pyval \<Rightarrow> bool" where
  "phase_clean phase \<longleftrightarrow> (\<exists>a b. item (item (ret phase) ''before'') ''process'' = ret a \<and>
     item (item (ret phase) ''after'') ''process'' = ret b \<and>
     holds (eq (get (ret a) ''compressed_bytes'') (num 0)) \<and> holds (eq (get (ret b) ''compressed_bytes'') (num 0)) \<and>
     (\<exists>i. get (ret a) ''decompressions'' = num i) \<and>
     holds (eq (get (ret b) ''decompressions'') (get (ret a) ''decompressions'')))"

text \<open>The phases of a row.\<close>

definition row_phases :: "pyval \<Rightarrow> pyval list result" where
  "row_phases row = bnd (values_of (item (ret row) ''phases'')) iter"

definition row_clean :: "pyval \<Rightarrow> bool" where
  "row_clean row \<longleftrightarrow> (\<exists>ps. row_phases row = Inr ps \<and> (\<forall>p\<in>set ps. phase_clean p))"

definition phase_step :: "pyval \<Rightarrow> (pyval + unit) result" where
  "phase_step phase =
     bnd (each (tuple_of [str ''before'', str ''after'']) (\<lambda>k. item (index (ret phase) (ret k)) ''process'')) (\<lambda>tup1.
     unpack2 tup1 (\<lambda>a b.
     branch (some (tuple_of [ret a, ret b]) (\<lambda>s. ne (get (ret s) ''compressed_bytes'') (num 0))) (leave no) (
     branch (disjs [nay (type_in (get (ret a) ''decompressions'') [TInt]),
          ne (get (ret b) ''decompressions'') (item (ret a) ''decompressions'')]) (leave no) (
     stay ()))))"

lemma phase_step_decides:
  assumes "phase_step phase = Inr r"
  shows "r = Inr () \<and> phase_clean phase \<or> r = Inl (PBool False) \<and> \<not> phase_clean phase"
proof -
  have index: "index v (str k) = item v k" for v k by (simp add: index_def item_def)
  let ?at = "\<lambda>k. item (item (ret phase) k) ''process''"
  let ?c1 = "\<lambda>a b. some (tuple_of [ret a, ret b]) (\<lambda>s. ne (get (ret s) ''compressed_bytes'') (num 0))"
  let ?c2 = "\<lambda>a b. disjs [nay (type_in (get (ret a) ''decompressions'') [TInt]),
          ne (get (ret b) ''decompressions'') (item (ret a) ''decompressions'')]"
  obtain a b where ab: "?at ''before'' = ret a" "?at ''after'' = ret b"
    and r: "branch (?c1 a b) (leave no) (branch (?c2 a b) (leave no) (stay ())) = Inr r"
    using assms by (auto simp: phase_step_def ctrl_simps each_def tuple_of_def index)
  have kept: "item (ret a) ''decompressions'' = num i" if "get (ret a) ''decompressions'' = num i" for i
    using that by (rule get_item)
  have "phase_clean phase \<longleftrightarrow> refuted (?c1 a b) \<and> refuted (?c2 a b)"
    using ab kept by (auto simp: phase_clean_def holds_simps tuple_of_def ctrl_simps)
  then show ?thesis using r not_both by (auto simp: branch_eq_Inr leave_def stay_def)
qed

definition row_step :: "pyval \<Rightarrow> (pyval + unit) result" where
  "row_step row = loop_exit (values_of (item (ret row) ''phases'')) () (\<lambda>_. phase_step) (\<lambda>r. leave (ret r)) stay"

lemma row_step_decides:
  assumes "row_step row = Inr r"
  shows "r = Inr () \<and> row_clean row \<or> r = Inl (PBool False) \<and> \<not> row_clean row"
proof -
  obtain v ps d where ps: "values_of (item (ret row) ''phases'') = Inr v" "iter v = Inr ps"
      "fold_exit (\<lambda>_. phase_step) () ps = Inr d" "(case d of Inl w \<Rightarrow> leave (ret w) | Inr u \<Rightarrow> stay u) = Inr r"
    using assms by (auto simp: row_step_def loop_exit_def bnd_eq_Inr)
  have "d = Inr () \<and> (\<forall>p\<in>set ps. phase_clean p) \<or> d = Inl (PBool False) \<and> (\<exists>p\<in>set ps. \<not> phase_clean p)"
    by (rule fold_exit_decides [OF _ ps(3)]) (rule phase_step_decides)
  then show ?thesis using ps by (auto simp: row_clean_def row_phases_def leave_def stay_def)
qed

text \<open>
  C24: the clean-memory verdict is the conjunction over every phase of every row: the early return changes nothing. When
  the verdict is given it is a truth value, and it is true exactly if no phase of any row has compressed
  bytes at either end or a changed number of decompressions.
\<close>

theorem clean_memory_conjunction:
  assumes "clean_memory raw = Inr v" "bnd (item (ret raw) ''runs'') iter = Inr rows"
  shows "v = PBool (\<forall>row\<in>set rows. row_clean row)"
proof -
  have "clean_memory raw = loop_exit (item (ret raw) ''runs'') () (\<lambda>_. row_step) ret (\<lambda>_. yes)"
    by (simp add: clean_memory_def row_step_def [abs_def] phase_step_def [abs_def])
  then have "loop_exit (item (ret raw) ''runs'') () (\<lambda>_. row_step) ret (\<lambda>_. yes) = ret v" using assms(1) by simp
  then obtain d where d: "fold_exit (\<lambda>_. row_step) () rows = Inr d" "(case d of Inl w \<Rightarrow> ret w | Inr _ \<Rightarrow> yes) = Inr v"
    using assms(2) by (auto simp: loop_exit_def bnd_eq_Inr)
  have "d = Inr () \<and> (\<forall>row\<in>set rows. row_clean row) \<or>
    d = Inl (PBool False) \<and> (\<exists>row\<in>set rows. \<not> row_clean row)"
    by (rule fold_exit_decides [OF _ d(1)]) (rule row_step_decides)
  then show ?thesis using d(2) by auto
qed

definition sample_process :: "int \<Rightarrow> int \<Rightarrow> pyval" where
  "sample_process compressed decompressions =
     PDict [(''process'', PDict [(''compressed_bytes'', PInt compressed), (''decompressions'', PInt decompressions)])]"

definition sample_runs :: "int \<Rightarrow> pyval" where
  "sample_runs n = PDict [(''runs'', PList [PDict [(''phases'', PDict [
     (''ingest'', PDict [(''before'', sample_process 0 3), (''after'', sample_process 0 3)]),
     (''decode'', PDict [(''before'', sample_process 0 3), (''after'', sample_process n 3)])])]])]"

lemma clean_memory_conjunction_witness:
  "clean_memory (sample_runs 0) = yes \<and> clean_memory (sample_runs 4096) = no \<and>
   (\<exists>rows. bnd (item (ret (sample_runs 4096)) ''runs'') iter = Inr rows \<and>
      \<not> (\<forall>row\<in>set rows. row_clean row))"
proof -
  have "clean_memory (sample_runs 0) = yes" by code_simp
  moreover have no: "clean_memory (sample_runs 4096) = no" by code_simp
  moreover have "\<exists>rows. bnd (item (ret (sample_runs 4096)) ''runs'') iter = Inr rows"
    by (simp add: sample_runs_def eval_simps)
  ultimately show ?thesis using clean_memory_conjunction [OF no] by fastforce
qed

end
