(* ===== verification/CommandClasses.thy ===== *)
theory CommandClasses
  imports RequestProfile PyEval
begin

text \<open>
  The attribution of GPU commands to classes (\<open>command_classes\<close> of
  \<open>scripts/qwen/request_profile.py\<close>): grouping by layers and stages loses no command and no
  dispatch.
\<close>

declare py_eq.simps [simp del]

section \<open>Dictionaries keyed by tuples\<close>

lemma tuple_key_only: "py_eq j (PTuple t) \<Longrightarrow> \<exists>u. j = PTuple u"
  by (cases j) (auto simp: py_eq.simps num_equal_def split: option.splits)

lemma dict_get_tuple:
  assumes "entries v = Some m" "dict_get v (PTuple t) d = Inr w"
  shows "w = (case find_entry m (PTuple t) of None \<Rightarrow> d | Some u \<Rightarrow> u)"
proof -
  have "find_entry (map (map_prod PStr id) e) (PTuple t) = None" for e :: "(string \<times> pyval) list"
    by (induction e) (auto dest: tuple_key_only)
  then show ?thesis using assms by (cases v) (auto simp: dict_get_def split: if_splits option.splits)
qed

lemma put_tuple:
  assumes "entries v = Some m" "put (ret v) (ret (PTuple t)) e = Inr v'"
  shows "\<exists>w. e = Inr w \<and> entries v' = Some (put_entry m (PTuple t) w)"
proof -
  have tuple: "\<exists>p\<in>set (put_entry m (PTuple t) w). str_of (fst p) = None" for w
  proof (induction m)
    case (Cons p m)
    obtain j u where p: "p = (j, u)" by fastforce
    show ?case using Cons by (cases "py_eq j (PTuple t)") (auto simp: p dest!: tuple_key_only)
  qed simp
  then have "entries (of_entries (put_entry m (PTuple t) w)) = Some (put_entry m (PTuple t) w)" for w
  proof -
    have "\<not> list_all (\<lambda>p. str_of (fst p) \<noteq> None) (put_entry m (PTuple t) w)"
      unfolding list_all_iff using tuple [of w] by blast
    then show ?thesis by (simp add: of_entries_def)
  qed
  then show ?thesis using assms
    by (cases v) (auto simp: put_def bnd_eq_Inr store_def dict_put_def split: if_splits)
qed

section \<open>Sums over the entries\<close>

definition entry_sum :: "(pyval \<Rightarrow> int) \<Rightarrow> (pyval \<times> pyval) list \<Rightarrow> int" where
  "entry_sum f m = sum_list (map (\<lambda>p. f (snd p)) m)"

lemma entry_sum_put:
  "entry_sum f (put_entry m k w) = entry_sum f m + f w - (case find_entry m k of None \<Rightarrow> 0 | Some u \<Rightarrow> f u)"
  by (induction m) (auto simp: entry_sum_def split: option.splits)

text \<open>A class holds its time, its commands and its dispatches.\<close>

fun class_value :: "pyval \<Rightarrow> bool" where
  "class_value (PList [x, PInt c, PInt d]) = True"
| "class_value _ = False"

fun class_commands :: "pyval \<Rightarrow> int" where
  "class_commands (PList [x, PInt c, PInt d]) = c"
| "class_commands _ = 0"

fun class_dispatches :: "pyval \<Rightarrow> int" where
  "class_dispatches (PList [x, PInt c, PInt d]) = d"
| "class_dispatches _ = 0"

definition class_table :: "pyval \<Rightarrow> (pyval \<times> pyval) list \<Rightarrow> bool" where
  "class_table v m \<longleftrightarrow> entries v = Some m \<and> (\<forall>p\<in>set m. class_value (snd p))"

lemma find_entry_value: "find_entry m k = Some u \<Longrightarrow> \<exists>p\<in>set m. u = snd p"
  by (induction m) (auto split: if_splits)

lemma put_entry_values: "p \<in> set (put_entry m k w) \<Longrightarrow> snd p = w \<or> (\<exists>q\<in>set m. snd p = snd q)"
  by (induction m) (auto split: if_splits)

abbreviation class_start :: expr where
  "class_start \<equiv> list_of [flt 0, num 0, num 0]"

lemma class_lookup:
  assumes "class_table v m" "lookup_or (ret v) (ret (PTuple t)) class_start = Inr u"
  shows "class_value u \<and> class_commands u = (case find_entry m (PTuple t) of None \<Rightarrow> 0 | Some u \<Rightarrow> class_commands u) \<and>
    class_dispatches u = (case find_entry m (PTuple t) of None \<Rightarrow> 0 | Some u \<Rightarrow> class_dispatches u)"
proof -
  obtain z where "dict_get v (PTuple t) (PList [z, PInt 0, PInt 0]) = Inr u"
    using assms(2) by (auto simp: lookup_or_def list_of_def bnd_eq_Inr)
  then have u: "u = (case find_entry m (PTuple t) of None \<Rightarrow> PList [z, PInt 0, PInt 0] | Some u \<Rightarrow> u)"
    using assms(1) by (auto simp: class_table_def dest: dict_get_tuple)
  show ?thesis
  proof (cases "find_entry m (PTuple t)")
    case (Some w)
    then show ?thesis using u assms(1) find_entry_value [OF Some] by (auto simp: class_table_def)
  qed (use u in simp)
qed

lemma class_put:
  assumes "class_table v m" "put (ret v) (ret (PTuple t)) (put (lookup_or (ret v) (ret (PTuple t)) class_start) (num i) e) = Inr v'"
    and "i = 0 \<or> (i = 1 \<or> i = 2) \<and> e = add (index (lookup_or (ret v) (ret (PTuple t)) class_start) (num i)) (num n)"
  shows "\<exists>m'. class_table v' m' \<and>
    entry_sum class_commands m' = entry_sum class_commands m + (if i = 1 then n else 0) \<and>
    entry_sum class_dispatches m' = entry_sum class_dispatches m + (if i = 2 then n else 0)"
proof -
  obtain w where w: "put (lookup_or (ret v) (ret (PTuple t)) class_start) (num i) e = Inr w"
    "entries v' = Some (put_entry m (PTuple t) w)"
    using put_tuple [OF _ assms(2)] assms(1) by (auto simp: class_table_def)
  obtain u where u: "lookup_or (ret v) (ret (PTuple t)) class_start = Inr u"
    using w(1) by (auto simp: put_def bnd_eq_Inr)
  note l = class_lookup [OF assms(1) u]
  obtain x c d where xs: "u = PList [x, PInt c, PInt d]"
    using l by (cases u rule: class_value.cases) auto
  obtain y where e: "e = Inr y" using w(1) by (auto simp: put_def bnd_eq_Inr)
  have "class_value w \<and> class_commands w = c + (if i = 1 then n else 0) \<and> class_dispatches w = d + (if i = 2 then n else 0)"
  proof -
    consider "i = 0" | "i = 1" "y = PInt (c + n)" | "i = 2" "y = PInt (d + n)"
      using assms(3) e unfolding u xs
      by (auto simp: eval_simps litem_def place_def len_def)
    then show ?thesis
      using w(1) unfolding u xs e by cases (auto simp: eval_simps place_def len_def)
  qed
  moreover from this have "\<forall>p\<in>set (put_entry m (PTuple t) w). class_value (snd p)"
    using assms(1) put_entry_values [of _ m "PTuple t" w] by (fastforce simp: class_table_def)
  ultimately show ?thesis using w(2) l assms(1)
    by (intro exI [of _ "put_entry m (PTuple t) w"])
      (auto simp: class_table_def entry_sum_put xs split: option.splits)
qed

section \<open>All groups\<close>

text \<open>The number of operations of a command group.\<close>

definition group_operations :: "pyval \<Rightarrow> int" where
  "group_operations g = (case size_of (item (ret g) ''operations'') of Inr (PInt n) \<Rightarrow> n | _ \<Rightarrow> 0)"

lemma classify_step:
  assumes "classify_group per_layer v g = Inr v'" "class_table v m"
  shows "\<exists>m'. class_table v' m' \<and> entry_sum class_commands m' = entry_sum class_commands m + 1 \<and>
    entry_sum class_dispatches m' = entry_sum class_dispatches m + group_operations g"
proof -
  obtain ops stages layers key v1 v2 where ops: "item (ret g) ''operations'' = ret ops" and key: "tuple_of [ret layers, ret stages] = ret key"
    and puts: "put (ret v) (ret key) (put (lookup_or (ret v) (ret key) class_start) (num 0)
               (add (index (lookup_or (ret v) (ret key) class_start) (num 0))
                   (mul (sub (item (ret g) ''gpu_end_seconds'') (item (ret g) ''gpu_start_seconds'')) (num 1000)))) = Inr v1"
      "put (ret v1) (ret key) (put (lookup_or (ret v1) (ret key) class_start) (num 1)
               (add (index (lookup_or (ret v1) (ret key) class_start) (num 1)) (num 1))) = Inr v2"
      "put (ret v2) (ret key) (put (lookup_or (ret v2) (ret key) class_start) (num 2)
               (add (index (lookup_or (ret v2) (ret key) class_start) (num 2)) (size_of (ret ops)))) = Inr v'"
    using assms(1) unfolding classify_group_def bnd_eq_Inr by blast
  have k: "key = PTuple [layers, stages]" using key by (simp add: tuple_of_def)
  have "\<exists>n. size_of (ret ops) = num n" using puts(3) by (auto simp: put_def add_def bnd_eq_Inr size_of_def)
  then obtain n where n: "size_of (ret ops) = num n" by blast
  obtain m1 where 1: "class_table v1 m1" "entry_sum class_commands m1 = entry_sum class_commands m"
      "entry_sum class_dispatches m1 = entry_sum class_dispatches m"
    using class_put [OF assms(2) puts(1) [unfolded k], of 0] by auto
  obtain m2 where 2: "class_table v2 m2" "entry_sum class_commands m2 = entry_sum class_commands m1 + 1"
      "entry_sum class_dispatches m2 = entry_sum class_dispatches m1"
    using class_put [OF 1(1) puts(2) [unfolded k], of 1] by auto
  obtain m3 where 3: "class_table v' m3" "entry_sum class_commands m3 = entry_sum class_commands m2"
      "entry_sum class_dispatches m3 = entry_sum class_dispatches m2 + n"
    using class_put [OF 2(1) puts(3) [unfolded k n], of n] by auto
  then show ?thesis using 1 2 by (intro exI [of _ m3]) (simp add: group_operations_def ops n)
qed

lemma classify_all:
  assumes "foldm (classify_group per_layer) v groups = Inr v'" "class_table v m"
  shows "\<exists>m'. class_table v' m' \<and> entry_sum class_commands m' = entry_sum class_commands m + len groups \<and>
    entry_sum class_dispatches m' = entry_sum class_dispatches m + sum_list (map group_operations groups)"
  using assms
proof (induction groups arbitrary: v m)
  case Nil
  then show ?case by (auto simp: len_def)
next
  case (Cons g groups)
  obtain u where u: "classify_group per_layer v g = Inr u" "foldm (classify_group per_layer) u groups = Inr v'"
    using Cons.prems(1) by (auto simp: bnd_eq_Inr)
  obtain m1 where "class_table u m1" "entry_sum class_commands m1 = entry_sum class_commands m + 1"
    "entry_sum class_dispatches m1 = entry_sum class_dispatches m + group_operations g"
    using classify_step [OF u(1) Cons.prems(2)] by blast
  then show ?case using Cons.IH [OF u(2), of m1] by (auto simp: len_def)
qed

section \<open>The report\<close>

lemma class_row_value:
  assumes "class_row steps per_layer (PTuple [k, w]) = Inr row" "class_value w"
  shows "item (ret row) ''command_groups'' = num (class_commands w) \<and> item (ret row) ''dispatches'' = num (class_dispatches w)"
proof -
  obtain x c d where w: "w = PList [x, PInt c, PInt d]" using assms(2) by (cases w rule: class_value.cases) auto
  show ?thesis using assms(1)
    by (auto simp: w class_row_def unpack2_eq_Inr unpack3_eq_Inr merge_def bnd_eq_Inr dict_of_eq_Inr fields_eq_Inr branch_eq_Inr
        dict_put_def eval_simps)
qed

lemma class_rows_sum:
  assumes "mapm (class_row steps per_layer) (map (\<lambda>(k, v). PTuple [k, v]) m) = Inr rows" "\<forall>p\<in>set m. class_value (snd p)"
  shows "map (\<lambda>r. item (ret r) ''command_groups'') rows = map num (map (class_commands \<circ> snd) m) \<and>
    map (\<lambda>r. item (ret r) ''dispatches'') rows = map num (map (class_dispatches \<circ> snd) m)"
  using assms
proof (induction m arbitrary: rows)
  case (Cons p m)
  obtain k w where p: "p = (k, w)" by fastforce
  obtain row rest where r: "class_row steps per_layer (PTuple [k, w]) = Inr row"
      "mapm (class_row steps per_layer) (map (\<lambda>(k, v). PTuple [k, v]) m) = Inr rest" "rows = row # rest"
    using Cons.prems(1) by (auto simp: p bnd_eq_Inr)
  show ?case using Cons.IH [OF r(2)] class_row_value [OF r(1)] Cons.prems(2) by (auto simp: p r(3))
qed simp

text \<open>
  C25: attributing the command groups of a trace to classes of layers and stages loses nothing: the numbers of command groups
  of all classes add up to the number of groups, and their dispatches to the operations of all groups.
\<close>

theorem command_classes_account:
  assumes "command_classes (PList groups) steps per_layer = Inr v"
  shows "\<exists>rows commands dispatches. v = PList rows \<and>
     map (\<lambda>r. item (ret r) ''command_groups'') rows = map num commands \<and> sum_list commands = len groups \<and>
     map (\<lambda>r. item (ret r) ''dispatches'') rows = map num dispatches \<and>
     sum_list dispatches = sum_list (map group_operations groups)"
proof -
  obtain tbl where run: "foldm (classify_group per_layer) (PDict []) groups = Inr tbl"
      "each (sorted_of (items_of (ret tbl))) (class_row steps per_layer) = Inr v"
    using assms by (auto simp: command_classes_def displays loop_def bnd_eq_Inr)
  obtain m where m: "class_table tbl m" "entry_sum class_commands m = len groups"
      "entry_sum class_dispatches m = sum_list (map group_operations groups)"
    using classify_all [OF run(1), of "[]"] by (auto simp: class_table_def entry_sum_def)
  obtain ys rows where ys: "sort_values (map (\<lambda>(k, v). PTuple [k, v]) m) = Inr ys" "mapm (class_row steps per_layer) ys = Inr rows" "v = PList rows"
    using run(2) m(1) by (auto simp: class_table_def each_def sorted_of_def items_of_def bnd_eq_Inr)
  have ms: "mset ys = mset (map (\<lambda>(k, v). PTuple [k, v]) m)" using sort_values_mset [OF ys(1)] .
  define pair where "pair y = (case y of PTuple [k, w] \<Rightarrow> (k, w) | _ \<Rightarrow> undefined)" for y :: pyval
  have "(\<lambda>(k, v). PTuple [k, v]) (pair y) = y" if "y \<in> set ys" for y
    using that mset_eq_setD [OF ms] by (auto simp: pair_def)
  then have "map (\<lambda>(k, v). PTuple [k, v]) (map pair ys) = ys"
    unfolding map_map by (intro map_idI) simp
  moreover have pm: "mset (map pair ys) = mset m"
  proof -
    have "mset (map pair ys) = image_mset pair (mset ys)" by simp
    also have "\<dots> = mset (map (pair \<circ> (\<lambda>(k, v). PTuple [k, v])) m)" by (simp add: ms multiset.map_comp)
    also have "map (pair \<circ> (\<lambda>(k, v). PTuple [k, v])) m = m" by (rule map_idI) (auto simp: pair_def)
    finally show ?thesis .
  qed
  ultimately have rows: "map (\<lambda>r. item (ret r) ''command_groups'') rows = map num (map (class_commands \<circ> snd) (map pair ys))"
      "map (\<lambda>r. item (ret r) ''dispatches'') rows = map num (map (class_dispatches \<circ> snd) (map pair ys))"
    using class_rows_sum [of steps per_layer "map pair ys" rows] ys(2) m(1) mset_eq_setD [OF pm] by (auto simp: class_table_def)
  have "sum_list (map f (map pair ys)) = sum_list (map f m)" for f :: "pyval \<times> pyval \<Rightarrow> int"
    using pm by (metis mset_map sum_mset_sum_list)
  from this [of "class_commands \<circ> snd"] this [of "class_dispatches \<circ> snd"]
  have "sum_list (map (class_commands \<circ> snd) (map pair ys)) = len groups"
      "sum_list (map (class_dispatches \<circ> snd) (map pair ys)) = sum_list (map group_operations groups)"
    using m(2,3) by (simp_all add: entry_sum_def comp_def)
  with rows ys(3) show ?thesis by blast
qed

definition sample_group :: "int \<Rightarrow> string list \<Rightarrow> pyval" where
  "sample_group layer stages = PDict [(''gpu_start_seconds'', PInt 1), (''gpu_end_seconds'', PInt 2),
     (''operations'', PList (map (\<lambda>s. PDict [(''layer'', PInt layer), (''stage'', PStr s)]) stages))]"

definition sample_groups :: "pyval list" where
  "sample_groups = [sample_group 3 [''attention'', ''router''], sample_group 4 [''expert''], sample_group 3 [''router'', ''attention'']]"

lemma sample_classes:
  "bnd (command_classes (PList sample_groups) (PInt 2) (PBool True)) (\<lambda>v. each (ret v) (\<lambda>r. item (ret r) ''command_groups'')) =
     ret (PList [PInt 2, PInt 1])"
  by code_simp

lemma command_classes_account_witness:
  "\<exists>rows dispatches. command_classes (PList sample_groups) (PInt 2) (PBool True) = ret (PList rows) \<and>
     map (\<lambda>r. item (ret r) ''dispatches'') rows = map num dispatches \<and> sum_list dispatches = 5"
proof -
  obtain v where v: "command_classes (PList sample_groups) (PInt 2) (PBool True) = ret v"
    using sample_classes by (cases "command_classes (PList sample_groups) (PInt 2) (PBool True)") auto
  have "sum_list (map group_operations sample_groups) = 5" by code_simp
  then show ?thesis using command_classes_account [OF v] v by auto
qed

end
