(* ===== verification/SoakGrowth.thy ===== *)
theory SoakGrowth
  imports ReleaseGates PyEval
begin

text \<open>
  The memory soak gate (\<open>evaluate\<close> of \<open>scripts/qwen/check_soak.py\<close>): what a passed run says of
  its samples.
\<close>

declare conjs.simps [simp del] disjs.simps [simp del]

text \<open>
  What one accepted sample shows: the identity of build, artifact, budget and cache capacity, a
  footprint within the budget and the machine.
\<close>

definition soak_sample :: "pyval \<Rightarrow> pyval \<Rightarrow> pyval \<Rightarrow> pyval \<Rightarrow> bool" where
  "soak_sample row identity footprint swap \<longleftrightarrow> (\<exists>s machine plan key limit.
     item (ret row) ''after'' = ret s \<and> item (ret s) ''metal'' = ret machine \<and> item (ret s) ''memory_plan'' = ret plan \<and>
     tuple_of [item (ret machine) ''build_fingerprint'', item (ret s) ''artifact_revision'',
       item (ret plan) ''limit_bytes'', item (ret plan) ''expert_slots''] = ret key \<and> py_eq key identity \<and>
     item (item (ret s) ''process'') ''physical_footprint_bytes'' = ret footprint \<and>
     item (item (ret s) ''process'') ''system_swap_used_bytes'' = ret swap \<and>
     item (ret plan) ''limit_bytes'' = ret limit \<and> refuted (gt (ret footprint) (ret limit)) \<and>
     item (ret machine) ''device'' = str ''Apple M1 Pro'')"

lemma soak_row_step:
  assumes "soak_row (identity, elapsed, PList ps) row = Inr s"
  shows "\<exists>identity' elapsed' footprint swap. s = (identity', elapsed', PList (ps @ [PTuple [elapsed', footprint, swap]])) \<and>
     (identity = PNone \<or> identity' = identity) \<and> identity' \<noteq> PNone \<and> soak_sample row identity' footprint swap"
proof -
  obtain st machine plan key identity' elapsed' points where
    s: "item (ret row) ''after'' = ret st" "item (ret st) ''metal'' = ret machine" "item (ret st) ''memory_plan'' = ret plan"
      "tuple_of [item (ret machine) ''build_fingerprint'', item (ret st) ''artifact_revision'',
       item (ret plan) ''limit_bytes'', item (ret plan) ''expert_slots''] = ret key"
      "branch (same (ret identity) none) (bnd (ret key) (\<lambda>identity. ret identity)) (ret identity) = ret identity'"
    and same: "refuted (disjs [ne (ret key) (ret identity'), item (ret st) ''diagnostic_stream_trunk'', get (ret row) ''profiling_enabled''])"
    and machine: "refuted (disjs [ne (item (ret machine) ''device'') (str ''Apple M1 Pro''),
            ne (item (ret machine) ''physical_bytes'') (num (32 * 1024 ^ 3))])"
    and budget: "refuted (gt (item (item (ret st) ''process'') ''physical_footprint_bytes'') (item (ret plan) ''limit_bytes''))"
    and points: "append (ret (PList ps)) (tuple_of [ret elapsed', item (item (ret st) ''process'') ''physical_footprint_bytes'',
                item (item (ret st) ''process'') ''system_swap_used_bytes'']) = ret points"
    and r: "s = (identity', elapsed', points)"
    using assms unfolding soak_row_def prod.case bnd_eq_Inr reject_eq_Inr
    by auto
  obtain a b c d where key: "key = PTuple [a, b, c, d]" "item (ret plan) ''limit_bytes'' = ret c"
    using s(4) by (auto simp: tuple_of_eq_Inr bnd_eq_Inr)
  have id: "identity = PNone \<and> identity' = key \<or> identity \<noteq> PNone \<and> identity' = identity"
    using s(5) by (auto simp: branch_eq_Inr compare_ret)
  have eq: "py_eq key identity'" using same by (simp add: holds_simps compare_ret)
  then have "identity' \<noteq> PNone" by (auto simp: key)
  moreover have "item (ret machine) ''device'' = str ''Apple M1 Pro''"
    using machine by (auto simp: holds_simps)
  moreover obtain footprint swap where "item (item (ret st) ''process'') ''physical_footprint_bytes'' = ret footprint"
      "item (item (ret st) ''process'') ''system_swap_used_bytes'' = ret swap"
      "points = PList (ps @ [PTuple [elapsed', footprint, swap]])"
    using points by (auto simp: append_def bnd_eq_Inr tuple_of_eq_Inr)
  ultimately show ?thesis using s(1-4) id eq budget key(2)
    unfolding r by (auto simp: soak_sample_def)
qed

lemma soak_rows:
  assumes "foldm soak_row (identity, elapsed, PList ps) rows = Inr (identity', elapsed', points)"
  shows "\<exists>qs. points = PList (ps @ qs) \<and> (identity \<noteq> PNone \<longrightarrow> identity' = identity) \<and>
     list_all2 (\<lambda>row q. \<exists>t f w. q = PTuple [t, f, w] \<and> soak_sample row identity' f w) rows qs"
  using assms
proof (induction rows arbitrary: identity elapsed ps)
  case Nil
  then show ?case by auto
next
  case (Cons row rows)
  obtain s where s: "soak_row (identity, elapsed, PList ps) row = Inr s" "foldm soak_row s rows = Inr (identity', elapsed', points)"
    using Cons.prems by (auto simp: bnd_eq_Inr)
  obtain i1 t f w where 1: "s = (i1, t, PList (ps @ [PTuple [t, f, w]]))" "identity = PNone \<or> i1 = identity" "i1 \<noteq> PNone" "soak_sample row i1 f w"
    using soak_row_step [OF s(1)] by blast
  obtain qs where "points = PList ((ps @ [PTuple [t, f, w]]) @ qs)" "identity' = i1"
      "list_all2 (\<lambda>row q. \<exists>t f w. q = PTuple [t, f, w] \<and> soak_sample row identity' f w) rows qs"
    using Cons.IH [OF s(2) [unfolded 1(1)]] 1(3) by auto
  then show ?case using 1 by (intro exI [of _ "PTuple [t, f, w] # qs"]) auto
qed

text \<open>
  C26: a verdict of the soak gate is about one configuration: all samples share build, artifact, budget and cache
  capacity, ran on the declared machine and stayed within the budget, and the reported swap growth is the swap of
  the last sample less that of the first. A passed run kept it and the projected footprint growth below 64 MiB.
\<close>

theorem soak_verdict:
  assumes "soak_evaluate report = Inr r"
  shows "\<exists>rows identity qs swap first. bnd (get_or (ret report) ''runs'' (list_of [])) iter = Inr rows \<and> rows \<noteq> [] \<and>
     list_all2 (\<lambda>row q. \<exists>t f w. q = PTuple [t, f, w] \<and> soak_sample row identity f w) rows qs \<and>
     item (ret r) ''budget_bytes'' = index (ret identity) (num 2) \<and>
     index (ret (last qs)) (num 2) = ret swap \<and> index (ret (hd qs)) (num 2) = ret first \<and>
     item (ret r) ''observed_system_swap_growth_bytes'' = sub (ret swap) (ret first) \<and>
     (item (ret r) ''passed'' = yes \<longrightarrow>
        holds (le (sub (ret swap) (ret first)) (num 67108864)) \<and>
        holds (le (item (ret r) ''projected_10min_footprint_growth_bytes'') (num 67108864)))"
proof -
  obtain rows identity elapsed points growth swap passed es e2 where
    rows: "get_or (ret report) ''runs'' (list_of []) = ret rows"
    and run: "loop (ret rows) (PNone, PInt 0, PList []) soak_row = Inr (identity, elapsed, points)"
    and all: "refuted (disjs [differs (get (ret report) ''complete'') yes,
          lt (get_or (ret report) ''benchmark_elapsed_ns'' (num 0)) (num 1200000000000), nay (ret rows)])"
    and swap: "sub (index (index (ret points) (num (- 1))) (num 2)) (index (index (ret points) (num 0)) (num 2)) = ret swap"
    and passed: "conjs [le (ret growth) (num 67108864), le (ret swap) (num 67108864)] = ret passed"
    and r: "dict_of [(''passed'', ret passed), (''kind'', str ''controlled_coding_workload_memory_soak''),
        (''elapsed_seconds'', e2),
        (''build_fingerprint'', index (ret identity) (num 0)),
        (''artifact_revision'', index (ret identity) (num 1)),
        (''budget_bytes'', index (ret identity) (num 2)),
        (''projected_10min_footprint_growth_bytes'', ret growth),
        (''observed_system_swap_growth_bytes'', ret swap),
        (''independently_checked_coding_quality'', no),
        (''note'', es)] = ret r"
    using assms unfolding soak_evaluate_def
    by (auto simp: bnd_eq_Inr reject_eq_Inr displays simp del: of_int_numeral)
  obtain rs where rs: "iter rows = Inr rs" "foldm soak_row (PNone, PInt 0, PList []) rs = Inr (identity, elapsed, points)"
    using run by (auto simp: loop_def bnd_eq_Inr)
  obtain qs where qs: "points = PList ([] @ qs)"
      "list_all2 (\<lambda>row q. \<exists>t f w. q = PTuple [t, f, w] \<and> soak_sample row identity f w) rs qs"
    using soak_rows [OF rs(2)] by blast
  have "truthy rows" using all by (simp add: holds_simps)
  obtain first last' where w: "index (index (ret points) (num (- 1))) (num 2) = ret last'" "index (index (ret points) (num 0)) (num 2) = ret first"
    using swap by (auto simp: shape_simps)
  have "qs \<noteq> []" using w(2) by (auto simp: qs(1) index_def subscript_def litem_def place_def len_def)
  then have ends: "index (ret points) (num (- 1)) = ret (last qs)" "index (ret points) (num 0) = ret (hd qs)"
    by (cases qs; simp add: qs(1) eval_simps litem_last)+
  have "rs \<noteq> []" using qs(2) \<open>qs \<noteq> []\<close> by auto
  have fields: "item (ret r) ''passed'' = ret passed" "item (ret r) ''budget_bytes'' = index (ret identity) (num 2)"
      "item (ret r) ''projected_10min_footprint_growth_bytes'' = ret growth" "item (ret r) ''observed_system_swap_growth_bytes'' = ret swap"
    using r by (auto simp: dict_of_eq_Inr bnd_eq_Inr item_PDict aitem_Cons)
  have "holds (le (ret growth) (num 67108864)) \<and> holds (le (ret swap) (num 67108864))" if "passed = PBool True"
  proof -
    have "holds (conjs [le (ret growth) (num 67108864), le (ret swap) (num 67108864)])" using passed that by simp
    then show ?thesis by (simp add: holds_conjs)
  qed
  then show ?thesis
    using rows rs(1) \<open>rs \<noteq> []\<close> qs(2) fields w swap ends
    by (intro exI [of _ rs] exI [of _ identity] exI [of _ qs] exI [of _ last'] exI [of _ first]) auto
qed

definition sample_soak_row :: "int \<Rightarrow> int \<Rightarrow> pyval" where
  "sample_soak_row footprint swap = PDict [(''request_ms'', PInt 200000), (''after'', PDict [
     (''metal'', PDict [(''build_fingerprint'', PStr ''b''), (''device'', PStr ''Apple M1 Pro''), (''physical_bytes'', PInt 34359738368)]),
     (''artifact_revision'', PStr ''r''), (''memory_plan'', PDict [(''limit_bytes'', PInt 20000000000), (''expert_slots'', PInt 1072)]),
     (''diagnostic_stream_trunk'', PBool False), (''process'', PDict [(''physical_footprint_bytes'', PInt footprint),
       (''system_swap_used_bytes'', PInt swap)])])]"

definition sample_soak :: pyval where
  "sample_soak = PDict [(''complete'', PBool True), (''benchmark_elapsed_ns'', PInt 1600000000000), (''runs'', PList [
     sample_soak_row 9000000 0, sample_soak_row 9000000 4096, sample_soak_row 9000000 4096, sample_soak_row 9000000 8192])]"

lemma sample_soak_passed:
  "bnd (soak_evaluate sample_soak) (\<lambda>r. tuple_of [item (ret r) ''passed'', item (ret r) ''observed_system_swap_growth_bytes'']) =
     ret (PTuple [PBool True, PInt 8192])"
  by code_simp

lemma soak_verdict_witness:
  "\<exists>r. soak_evaluate sample_soak = Inr r \<and> item (ret r) ''passed'' = yes \<and> (
   \<exists>rows identity qs swap first. bnd (get_or (ret sample_soak) ''runs'' (list_of [])) iter = Inr rows \<and> rows \<noteq> [] \<and>
     list_all2 (\<lambda>row q. \<exists>t f w. q = PTuple [t, f, w] \<and> soak_sample row identity f w) rows qs \<and>
     item (ret r) ''budget_bytes'' = index (ret identity) (num 2) \<and>
     index (ret (last qs)) (num 2) = ret swap \<and> index (ret (hd qs)) (num 2) = ret first \<and>
     item (ret r) ''observed_system_swap_growth_bytes'' = sub (ret swap) (ret first) \<and>
     (item (ret r) ''passed'' = yes \<longrightarrow>
        holds (le (sub (ret swap) (ret first)) (num 67108864)) \<and>
        holds (le (item (ret r) ''projected_10min_footprint_growth_bytes'') (num 67108864))))"
proof -
  obtain r where r: "soak_evaluate sample_soak = Inr r" using sample_soak_passed by (cases "soak_evaluate sample_soak") auto
  have passed: "item (ret r) ''passed'' = yes"
    using sample_soak_passed by (auto simp: r tuple_of_eq_Inr bnd_eq_Inr)
  show ?thesis by (intro exI [of _ r] conjI) (rule r, rule passed, rule soak_verdict [OF r])
qed

end
