(* ===== verification/PyText.thy ===== *)
theory PyText
  imports PyExpr PyLoads
begin

text \<open>
  Further operators on text and lists that the evidence queries use: lines and whitespace of bytes, the JSON
  functions as operators on values, reversed slices and the parts of a path.
\<close>

definition loads_value :: "expr \<Rightarrow> expr" where
  "loads_value a = bnd a (\<lambda>v. case v of PStr s \<Rightarrow> loads s | _ \<Rightarrow> Inl TypeError)"

text \<open>\<open>evidence_index.parse\<close> and \<open>encoded\<close>.\<close>

definition parse_value :: "pyval \<Rightarrow> expr" where
  "parse_value raw = (case raw of PStr s \<Rightarrow> parse s | _ \<Rightarrow> Inl TypeError)"

definition encoded_value :: "(pfloat \<Rightarrow> string) \<Rightarrow> pyval \<Rightarrow> expr" where
  "encoded_value float_repr value = bnd (encoded float_repr value) (\<lambda>s. Inr (PStr s))"

definition splitlines_of :: "expr \<Rightarrow> expr" where
  "splitlines_of a = bnd a (\<lambda>v. case v of PStr s \<Rightarrow> Inr (PList (map PStr (splitlines s))) | _ \<Rightarrow> Inl AttributeError)"

text \<open>\<open>strip()\<close> of a byte string.\<close>

definition white :: "char \<Rightarrow> bool" where
  "white c = (c \<in> {CHR '' '', CHR 0x09, CHR 0x0A, CHR 0x0B, CHR 0x0C, CHR 0x0D})"

definition strip_bytes :: "string \<Rightarrow> string" where
  "strip_bytes s = rev (dropWhile white (rev (dropWhile white s)))"

definition strip_of :: "expr \<Rightarrow> expr" where
  "strip_of a = bnd a (\<lambda>v. case v of PStr s \<Rightarrow> Inr (PStr (strip_bytes s)) | _ \<Rightarrow> Inl AttributeError)"

text \<open>\<open>xs[::-1]\<close>.\<close>

definition reversed_of :: "expr \<Rightarrow> expr" where
  "reversed_of a = bnd a (\<lambda>v. case v of PList xs \<Rightarrow> Inr (PList (rev xs)) | PTuple xs \<Rightarrow> Inr (PTuple (rev xs))
     | PStr s \<Rightarrow> Inr (PStr (rev s)) | _ \<Rightarrow> Inl TypeError)"

text \<open>\<open>text.split(sep)\<close> for a separator of one character.\<close>

definition split_of :: "expr \<Rightarrow> char \<Rightarrow> expr" where
  "split_of a c = bnd a (\<lambda>v. case v of PStr s \<Rightarrow> Inr (PList (map PStr (split_on c s))) | _ \<Rightarrow> Inl AttributeError)"

end
