(* ===== verification/EvidenceIndex.thy ===== *)
theory EvidenceIndex
  imports ReleaseGates PyText
begin

text \<open>
  Class \<open>Index\<close> of \<open>scripts/qwen/evidence_index.py\<close>: the content-addressed index of local evidence.
  The four tables of its database are association lists under their primary keys; a query reads the
  selected file again and compares its digest. The file system is a function from a path to what one
  read of it observes, so two calls may see different contents. Parameters: \<open>sha256\<close> (hex digest),
  \<open>float_repr\<close> (decimal text of a float), \<open>message\<close> (\<open>str\<close> of an exception), \<open>absolute\<close>
  (\<open>str(Path(p).resolve())\<close>), \<open>tree\<close> (the files below a root) and \<open>casefold\<close>.
\<close>

section \<open>Reading a file\<close>

definition MAX_BYTES :: int where "MAX_BYTES = 64 * 1024 ^ 2"

definition MAX_LINES :: int where "MAX_LINES = 100000"

record file_stat =
  st_size :: int
  st_mtime_ns :: int
  st_ino :: int

text \<open>One read: the status before it, the bytes, the status after it; each may be an \<open>OSError\<close>.\<close>

record file_view =
  before_read :: "file_stat result"
  content :: "string result"
  after_read :: "file_stat result"

type_synonym file_system = "string \<Rightarrow> file_view"

definition read_file :: "file_system \<Rightarrow> string \<Rightarrow> string result" where
  "read_file fs path =
     bnd (before_read (fs path)) (\<lambda>before.
     if MAX_BYTES < st_size before then Inl (ValueError ''File exceeds 64MiB import/query limit'')
     else bnd (content (fs path)) (\<lambda>whole.
       let raw = take (nat (MAX_BYTES + 1)) whole in
       if MAX_BYTES < len raw then Inl (ValueError ''File exceeds import/query read limit'')
       else bnd (after_read (fs path)) (\<lambda>after.
         if before \<noteq> after then Inl (ValueError ''File changed during read; retry after it settles'')
         else Inr raw)))"

lemma read_file_code [code]:
  "read_file fs path =
     bnd (before_read (fs path)) (\<lambda>before.
     if MAX_BYTES < st_size before then Inl (ValueError ''File exceeds 64MiB import/query limit'')
     else bnd (content (fs path)) (\<lambda>raw.
       if MAX_BYTES < len raw then Inl (ValueError ''File exceeds import/query read limit'')
       else bnd (after_read (fs path)) (\<lambda>after.
         if before \<noteq> after then Inl (ValueError ''File changed during read; retry after it settles'')
         else Inr raw)))"
proof -
  have short: "take (nat (MAX_BYTES + 1)) whole = whole" if "\<not> MAX_BYTES < len whole" for whole :: string
    using that by (simp add: len_def MAX_BYTES_def)
  have long: "MAX_BYTES < len (take (nat (MAX_BYTES + 1)) whole) \<longleftrightarrow> MAX_BYTES < len whole" for whole :: string
    by (simp add: len_def MAX_BYTES_def min_def)
  show ?thesis
    unfolding read_file_def Let_def long
    by (intro bnd_cong refl if_cong) (simp_all add: short)
qed

text \<open>\<open>lines[:MAX_LINES]\<close>.\<close>

definition first_lines :: "string list \<Rightarrow> string list" where
  "first_lines lines = take (nat MAX_LINES) lines"

lemma first_lines_code [code]:
  "first_lines lines = (if len lines \<le> MAX_LINES then lines else take (nat MAX_LINES) lines)"
  by (simp add: first_lines_def len_def)

text \<open>\<open>Path.suffix\<close>: from the last dot of the name, unless it is the first or the last character.\<close>

definition path_suffix :: "string \<Rightarrow> string" where
  "path_suffix path =
     (let name = last (split_on (CHR ''/'') path); tail = takeWhile (\<lambda>c. c \<noteq> CHR ''.'') (rev name)
      in if tail \<noteq> [] \<and> length tail + 1 < length name then CHR ''.'' # rev tail else [])"

section \<open>Projection of a file\<close>

definition EVENT_KEYS :: "string list" where
  "EVENT_KEYS = [''layer'', ''offset'', ''tokens'', ''request_phase'', ''build'',
     ''artifact_revision'', ''duration_ns'', ''coordinator_wait_ns'',
     ''ready_hits'', ''loading_joins'', ''new_misses'', ''event'', ''phase'',
     ''timestamp'', ''physical_footprint_bytes'']"

definition blank :: "string \<Rightarrow> bool" where
  "blank line = list_all white line"

definition project_line :: "(pfloat \<Rightarrow> string) \<Rightarrow> nat \<times> string \<Rightarrow> (nat \<times> string) list result" where
  "project_line float_repr entry =
     (case entry of (n, line) \<Rightarrow>
        if blank line then Inr []
        else bnd (parse line) (\<lambda>row.
          case row of
            PDict d \<Rightarrow> bnd (encoded float_repr (PDict (map (\<lambda>k. (k, aget d k)) (filter (ahas d) EVENT_KEYS))))
                         (\<lambda>text. Inr [(n, text)])
          | _ \<Rightarrow> Inr []))"

definition projection :: "(pfloat \<Rightarrow> string) \<Rightarrow> string \<Rightarrow> string \<Rightarrow> (pyval \<times> (nat \<times> string) list) result" where
  "projection float_repr raw suffix =
     (if suffix \<noteq> ''.jsonl'' then bnd (parse raw) (\<lambda>data. bnd (metadata data) (\<lambda>info. Inr (info, [])))
      else
        (let lines = splitlines raw;
             info = PDict [(''kind'', PStr ''jsonl_trace''), (''status'', PStr ''unknown''), (''complete'', PNone),
                      (''lines'', PInt (len lines)), (''indexed_lines'', PInt (min (len lines) MAX_LINES)),
                      (''import_truncated'', PBool (MAX_LINES < len lines))]
         in bnd (mapm (project_line float_repr) (enumerate_from 1 (first_lines lines)))
              (\<lambda>found. Inr (info, concat found))))"

section \<open>The database\<close>

text \<open>
  \<open>documents\<close>: digest to format and metadata; \<open>paths\<close>: path to digest; \<open>events\<close>: digest and line
  number to a projected row; \<open>issues\<close>: path to the error of its last import.
\<close>

record evidence_db =
  documents :: "(string \<times> (string \<times> string)) list"
  paths :: "(string \<times> string) list"
  events :: "((string \<times> nat) \<times> string) list"
  issues :: "(string \<times> string) list"

definition empty_db :: evidence_db where
  "empty_db = \<lparr>documents = [], paths = [], events = [], issues = []\<rparr>"

definition delete_key :: "'k \<Rightarrow> ('k \<times> 'v) list \<Rightarrow> ('k \<times> 'v) list" where
  "delete_key k d = filter (\<lambda>row. fst row \<noteq> k) d"

definition replace_events ::
  "string \<Rightarrow> (nat \<times> string) list \<Rightarrow> ((string \<times> nat) \<times> string) list \<Rightarrow> ((string \<times> nat) \<times> string) list" where
  "replace_events sha found es =
     filter (\<lambda>row. fst (fst row) \<noteq> sha) es @ map (\<lambda>(n, text). ((sha, n), text)) found"

text \<open>The handler of a failed import: the path loses its alias and gains an issue.\<close>

fun import_error :: "py_error \<Rightarrow> bool" where
  "import_error (ValueError _) = True"
| "import_error (OSError _) = True"
| "import_error TypeError = True"
| "import_error (KeyError _) = True"
| "import_error _ = False"

definition not_imported ::
  "(py_error \<Rightarrow> string) \<Rightarrow> string \<Rightarrow> py_error \<Rightarrow> evidence_db \<Rightarrow> evidence_db result" where
  "not_imported message path e db =
     (if import_error e then
        Inr (db\<lparr>paths := delete_key path (paths db), issues := aput (issues db) path (message e)\<rparr>)
      else Inl e)"

definition import_file ::
  "(string \<Rightarrow> string) \<Rightarrow> (pfloat \<Rightarrow> string) \<Rightarrow> (py_error \<Rightarrow> string) \<Rightarrow> file_system \<Rightarrow>
   evidence_db \<Rightarrow> string \<Rightarrow> evidence_db result" where
  "import_file sha256 float_repr message fs db path =
     (case read_file fs path of
        Inl e \<Rightarrow> not_imported message path e db
      | Inr raw \<Rightarrow>
          (case projection float_repr raw (path_suffix path) of
             Inl e \<Rightarrow> not_imported message path e db
           | Inr (info, found) \<Rightarrow>
               (let db' = db\<lparr>events := replace_events (sha256 raw) found (events db)\<rparr> in
                case encoded float_repr info of
                  Inl e \<Rightarrow> not_imported message path e db'
                | Inr text \<Rightarrow>
                    Inr (db'\<lparr>documents := aput (documents db) (sha256 raw) (path_suffix path, text),
                             paths := aput (paths db) path (sha256 raw),
                             issues := delete_key path (issues db)\<rparr>))))"

text \<open>\<open>DELETE ... WHERE sha NOT IN (SELECT sha FROM paths)\<close>.\<close>

definition prune :: "evidence_db \<Rightarrow> evidence_db" where
  "prune db =
     (let used = map snd (paths db) in
      db\<lparr>events := filter (\<lambda>row. fst (fst row) \<in> set used) (events db),
         documents := filter (\<lambda>row. fst row \<in> set used) (documents db)\<rparr>)"

record found_file =
  found_path :: string
  regular :: bool
  symlink :: bool
  resolved :: string

definition evidence_file :: "found_file \<Rightarrow> bool" where
  "evidence_file f = (path_suffix (found_path f) \<in> {''.json'', ''.jsonl''} \<and> regular f \<and> \<not> symlink f)"

text \<open>\<open>tree root\<close> is None when the root does not exist.\<close>

definition gather :: "(string \<Rightarrow> string) \<Rightarrow> (string \<Rightarrow> found_file list option) \<Rightarrow> string list \<Rightarrow> string list result" where
  "gather absolute tree roots =
     bnd (mapm (\<lambda>root. case tree (absolute root) of
            None \<Rightarrow> Inl (ValueError (''Import path does not exist: '' @ absolute root))
          | Some fs \<Rightarrow> Inr (map resolved (filter evidence_file fs))) roots)
       (\<lambda>found. Inr (sort_key (split_on (CHR ''/'')) (remdups (concat found))))"

text \<open>
  The loop runs in one transaction: an exception that is not handled leaves the database as it was,
  which is the caller's reading of \<open>Inl\<close>.
\<close>

definition import_paths ::
  "(string \<Rightarrow> string) \<Rightarrow> (pfloat \<Rightarrow> string) \<Rightarrow> (py_error \<Rightarrow> string) \<Rightarrow> (string \<Rightarrow> string) \<Rightarrow>
   (string \<Rightarrow> found_file list option) \<Rightarrow> file_system \<Rightarrow> string list \<Rightarrow> bool \<Rightarrow> evidence_db \<Rightarrow> evidence_db result" where
  "import_paths sha256 float_repr message absolute tree fs roots rebuild db =
     bnd (gather absolute tree roots) (\<lambda>files.
     bnd (foldm (import_file sha256 float_repr message fs) (if rebuild then empty_db else db) files)
       (\<lambda>db'. Inr (prune db')))"

text \<open>The counts and the issues that \<open>import_paths\<close> reports.\<close>

definition import_report :: "(string \<Rightarrow> string) \<Rightarrow> string list \<Rightarrow> evidence_db \<Rightarrow> pyval" where
  "import_report absolute roots db =
     PDict [(''documents'', PInt (len (documents db))),
       (''paths'', PInt (len (paths db))),
       (''issues'', PList (map (\<lambda>(p, e). PDict [(''path'', PStr p), (''error'', PStr e)]) (sort_key fst (issues db)))),
       (''sources'', PList (map (\<lambda>p. PStr (absolute p)) roots)),
       (''limitations'', PList [PStr ''Import is a snapshot; queries verify selected raw files again.'',
          PStr ''Files over 64MiB and malformed files are reported as issues; JSONL indexing is bounded.''])]"

section \<open>Queries\<close>

definition resolve :: "(string \<Rightarrow> string) \<Rightarrow> evidence_db \<Rightarrow> string \<Rightarrow> string result" where
  "resolve absolute db selector =
     (case map_of (paths db) (absolute selector) of
        Some sha \<Rightarrow> Inr sha
      | None \<Rightarrow>
          (case filter (\<lambda>sha. take (length selector) sha = selector) (map fst (documents db)) of
             [sha] \<Rightarrow> Inr sha
           | _ \<Rightarrow> Inl (ValueError ''Select one indexed path or unambiguous content hash'')))"

text \<open>\<open>SELECT path FROM paths WHERE sha=? ORDER BY path\<close>.\<close>

definition aliases_of :: "evidence_db \<Rightarrow> string \<Rightarrow> string list" where
  "aliases_of db sha = sort (map fst (filter (\<lambda>row. snd row = sha) (paths db)))"

record evidence_source =
  source_path :: string
  source_sha256 :: string
  source_aliases :: "string list"
  unavailable_aliases :: "string list"

definition source_value :: "evidence_source \<Rightarrow> pyval" where
  "source_value s =
     PDict [(''path'', PStr (source_path s)), (''sha256'', PStr (source_sha256 s)),
       (''aliases'', PList (map PStr (source_aliases s))),
       (''unavailable_aliases'', PList (map PStr (unavailable_aliases s)))]"

fun read_error :: "py_error \<Rightarrow> bool" where
  "read_error (ValueError _) = True"
| "read_error (OSError _) = True"
| "read_error _ = False"

fun first_readable ::
  "(string \<Rightarrow> string) \<Rightarrow> (py_error \<Rightarrow> string) \<Rightarrow> file_system \<Rightarrow> string \<Rightarrow> string list \<Rightarrow> string list \<Rightarrow>
   string list \<Rightarrow> (string \<times> evidence_source) result" where
  "first_readable sha256 message fs sha aliases failures [] =
     Inl (ValueError (''Stale or missing raw evidence; reimport. '' @ separated ''; '' failures))"
| "first_readable sha256 message fs sha aliases failures (name # names) =
     (case bnd (read_file fs name) (\<lambda>raw.
          if sha256 raw \<noteq> sha then Inl (ValueError ''Content changed since import'') else Inr raw) of
        Inr raw \<Rightarrow> Inr (raw, \<lparr>source_path = name, source_sha256 = sha, source_aliases = aliases,
                             unavailable_aliases = failures\<rparr>)
      | Inl e \<Rightarrow>
          if read_error e then
            first_readable sha256 message fs sha aliases (failures @ [name @ '': '' @ message e]) names
          else Inl e)"

definition source ::
  "(string \<Rightarrow> string) \<Rightarrow> (py_error \<Rightarrow> string) \<Rightarrow> (string \<Rightarrow> string) \<Rightarrow> file_system \<Rightarrow> evidence_db \<Rightarrow>
   string \<Rightarrow> (string \<times> evidence_source) result" where
  "source sha256 message absolute fs db selector =
     bnd (resolve absolute db selector) (\<lambda>sha.
       (let names = aliases_of db sha; requested = absolute selector;
            names' = (if requested \<in> set names then requested # remove1 requested names else names)
        in first_readable sha256 message fs sha names' [] names'))"

text \<open>\<open>json\<close> and \<open>describe\<close>.\<close>

definition source_json ::
  "(string \<Rightarrow> string) \<Rightarrow> (py_error \<Rightarrow> string) \<Rightarrow> (string \<Rightarrow> string) \<Rightarrow> file_system \<Rightarrow> evidence_db \<Rightarrow>
   string \<Rightarrow> (pyval \<times> evidence_source) result" where
  "source_json sha256 message absolute fs db selector =
     bnd (source sha256 message absolute fs db selector) (\<lambda>(raw, s).
     bnd (parse raw) (\<lambda>data. Inr (data, s)))"

definition describe ::
  "(string \<Rightarrow> string) \<Rightarrow> (pfloat \<Rightarrow> string) \<Rightarrow> (py_error \<Rightarrow> string) \<Rightarrow> (string \<Rightarrow> string) \<Rightarrow> file_system \<Rightarrow>
   evidence_db \<Rightarrow> string \<Rightarrow> (pyval \<times> evidence_source) result" where
  "describe sha256 float_repr message absolute fs db selector =
     bnd (source sha256 message absolute fs db selector) (\<lambda>(raw, s).
     bnd (projection float_repr raw (path_suffix (source_path s))) (\<lambda>(info, found). Inr (info, s)))"

text \<open>The documents whose paths or metadata contain the search text, in the order of their digests.\<close>

definition history_matches ::
  "(string \<Rightarrow> string) \<Rightarrow> evidence_db \<Rightarrow> string \<Rightarrow> (string \<times> string \<times> string list) list" where
  "history_matches casefold db search =
     filter (\<lambda>(sha, info, names). substring (casefold search) (casefold (separated '' '' names @ info)))
       (map (\<lambda>(sha, fmt, info). (sha, info, aliases_of db sha)) (sort_key fst (documents db)))"

text \<open>\<open>dict(id=sha, **info, stale=..., sources=[...])\<close>; a repeated keyword is a \<open>TypeError\<close>.\<close>

definition history_result :: "string \<Rightarrow> pyval \<Rightarrow> bool \<Rightarrow> pyval \<Rightarrow> pyval result" where
  "history_result sha info stale where =
     (case info of
        PDict d \<Rightarrow>
          if list_ex (\<lambda>k. ahas d k) [''id'', ''stale'', ''sources''] then Inl TypeError
          else Inr (PDict ([(''id'', PStr sha)] @ d @ [(''stale'', PBool stale), (''sources'', PList [where])]))
      | _ \<Rightarrow> Inl TypeError)"

definition history_row ::
  "(string \<Rightarrow> string) \<Rightarrow> (pfloat \<Rightarrow> string) \<Rightarrow> (py_error \<Rightarrow> string) \<Rightarrow> (string \<Rightarrow> string) \<Rightarrow> file_system \<Rightarrow>
   evidence_db \<Rightarrow> string \<times> string \<times> string list \<Rightarrow> pyval result" where
  "history_row sha256 float_repr message absolute fs db entry =
     (case entry of (sha, stored, names) \<Rightarrow>
        (case describe sha256 float_repr message absolute fs db sha of
           Inr (info, s) \<Rightarrow> history_result sha info False (source_value s)
         | Inl (ValueError _) \<Rightarrow>
             bnd (parse stored) (\<lambda>info. history_result sha info True
               (PDict [(''sha256'', PStr sha), (''aliases'', PList (map PStr names))]))
         | Inl e \<Rightarrow> Inl e))"

definition history ::
  "(string \<Rightarrow> string) \<Rightarrow> (pfloat \<Rightarrow> string) \<Rightarrow> (py_error \<Rightarrow> string) \<Rightarrow> (string \<Rightarrow> string) \<Rightarrow> (string \<Rightarrow> string) \<Rightarrow>
   file_system \<Rightarrow> evidence_db \<Rightarrow> string \<Rightarrow> int \<Rightarrow> int \<Rightarrow> pyval result" where
  "history sha256 float_repr message absolute casefold fs db search limit offset =
     (let found = history_matches casefold db search in
      bnd (mapm (history_row sha256 float_repr message absolute fs db)
             (slice_list found (Some offset) (Some (offset + limit)))) (\<lambda>rows.
      Inr (PDict [(''results'', PList rows), (''total'', PInt (len found)), (''offset'', PInt offset),
        (''next_offset'', if offset + limit < len found then PInt (offset + limit) else PNone),
        (''limitations'', PList
          [PStr ''Status is copied from each report, never inferred from a filename or passing subphase.'',
           PStr ''History preserves report and authored-ledger claims; use compare to revalidate their timing dependencies.'',
           PStr ''Identical raw copies share one ID; different summaries are not pooled as repetitions.''])])))"

end
