(* ===== verification/IndexIntegrity.thy ===== *)
theory IndexIntegrity
  imports EvidenceIndex
begin

text \<open>
  The evidence index over any sequence of imports, with file contents that change between them: the
  four tables stay consistent, a query never returns bytes whose digest is not the indexed one, and
  a file of an import is either reported as an issue or retrieved as it was read.
\<close>

section \<open>Tables\<close>

lemma keys_aput: "fst ` set (aput d k v) = insert k (fst ` set d)"
  by (simp add: aput_def dom_update)

lemma distinct_aput: "distinct (map fst d) \<Longrightarrow> distinct (map fst (aput d k v))"
  by (simp add: aput_def distinct_update)

lemma values_aput: "snd ` set (aput d k v) \<subseteq> insert v (snd ` set d)"
  by (induction d) (auto simp: aput_def)

lemma distinct_keys_filter: "distinct (map fst d) \<Longrightarrow> distinct (map fst (filter P d))"
  by (simp add: distinct_map_filter)

lemma keys_delete: "fst ` set (delete_key k d) = fst ` set d - {k}"
  by (auto simp: delete_key_def)

lemma distinct_delete: "distinct (map fst d) \<Longrightarrow> distinct (map fst (delete_key k d))"
  by (simp add: delete_key_def distinct_keys_filter)

lemma values_delete: "snd ` set (delete_key k d) \<subseteq> snd ` set d"
  by (auto simp: delete_key_def)

lemma distinct_replace_events:
  assumes "distinct (map fst es)" and "distinct (map fst found)"
  shows "distinct (map fst (replace_events sha found es))"
proof -
  have keys: "map fst (map (\<lambda>(n, text). ((sha, n), text)) found) = map (Pair sha) (map fst found)"
    by (induction found) auto
  have "distinct (map (Pair sha) (map fst found))"
    using assms(2) by (rule distinct_map [THEN iffD2, OF conjI]) (simp add: inj_on_def)
  then show ?thesis
    using assms(1) unfolding replace_events_def map_append keys
    by (auto simp: distinct_keys_filter)
qed

section \<open>The invariant\<close>

text \<open>What holds inside the transaction, and what holds once the unused rows are deleted.\<close>

definition tables_ok :: "evidence_db \<Rightarrow> bool" where
  "tables_ok db \<longleftrightarrow>
     distinct (map fst (documents db)) \<and> distinct (map fst (paths db)) \<and>
     distinct (map fst (events db)) \<and> distinct (map fst (issues db)) \<and>
     snd ` set (paths db) \<subseteq> fst ` set (documents db) \<and>
     fst ` set (paths db) \<inter> fst ` set (issues db) = {}"

definition db_ok :: "evidence_db \<Rightarrow> bool" where
  "db_ok db \<longleftrightarrow> tables_ok db \<and> fst ` set (documents db) \<subseteq> snd ` set (paths db) \<and>
     fst ` fst ` set (events db) \<subseteq> snd ` set (paths db)"

lemma distinct_enumerate_from: "distinct (map fst (enumerate_from n xs))"
  by (simp add: enumerate_from_def map_fst_zip_take distinct_take)

lemma project_line_numbers: "project_line float_repr (n, line) = Inr found \<Longrightarrow> map fst found \<in> {[], [n]}"
  unfolding project_line_def prod.case
  by (elim if_split_asm [THEN iffD1, elim_format]; cases "parse line"; auto simp: ok_simps split: pyval.split_asm if_splits)

lemma projected_numbers:
  assumes "mapm (project_line float_repr) rows = Inr found" and "distinct (map fst rows)"
  shows "distinct (map fst (concat found)) \<and> set (map fst (concat found)) \<subseteq> set (map fst rows)"
  using assms
proof (induction rows arbitrary: found)
  case Nil
  then show ?case by simp
next
  case (Cons row rows)
  obtain n line where row: "row = (n, line)" by (cases row)
  from Cons.prems obtain here rest where
    here: "project_line float_repr (n, line) = Inr here" and
    rest: "mapm (project_line float_repr) rows = Inr rest" and found: "found = here # rest"
    by (auto simp: ok_simps row)
  have "distinct (map fst (concat rest))" "set (map fst (concat rest)) \<subseteq> set (map fst rows)"
    using Cons.IH [OF rest] Cons.prems(2) by auto
  moreover have "n \<notin> set (map fst rows)" using Cons.prems(2) by (simp add: row)
  ultimately show ?case
    using project_line_numbers [OF here] by (auto simp: row found simp del: set_map set_concat)
qed

lemma projection_numbers:
  assumes "projection float_repr raw suffix = Inr (info, found)"
  shows "distinct (map fst found)"
  using assms projected_numbers [OF _ distinct_enumerate_from]
  by (auto simp: projection_def Let_def ok_simps split: if_splits)

lemma not_imported_ok:
  assumes "not_imported message path e db = Inr db'" and "tables_ok db"
  shows "tables_ok db'"
proof -
  have "db' = db\<lparr>paths := delete_key path (paths db), issues := aput (issues db) path (message e)\<rparr>"
    using assms(1) by (simp add: not_imported_def split: if_splits)
  moreover have "snd ` set (delete_key path (paths db)) \<subseteq> fst ` set (documents db)"
    using assms(2) values_delete [of path "paths db"] by (auto simp: tables_ok_def)
  moreover have "(fst ` set (paths db) - {path}) \<inter> insert path (fst ` set (issues db)) = {}"
    using assms(2) by (auto simp: tables_ok_def)
  ultimately show ?thesis
    using assms(2) by (simp add: tables_ok_def distinct_delete distinct_aput keys_aput keys_delete)
qed

lemma store_ok:
  assumes "tables_ok db" and "distinct (map fst found)"
  shows "tables_ok (db\<lparr>events := replace_events sha found (events db)\<rparr>)"
  using assms by (auto simp: tables_ok_def distinct_replace_events)

lemma import_file_ok:
  assumes "import_file sha256 float_repr message fs db path = Inr db'" and ok: "tables_ok db"
  shows "tables_ok db'"
proof (cases "read_file fs path")
  case (Inl e)
  then show ?thesis using assms by (auto simp: import_file_def intro: not_imported_ok)
next
  case (Inr raw)
  note read = Inr
  show ?thesis
  proof (cases "projection float_repr raw (path_suffix path)")
    case (Inl e)
    then show ?thesis using assms read by (auto simp: import_file_def intro: not_imported_ok)
  next
    case (Inr p)
    note proj = Inr
    obtain info found where p: "p = (info, found)" by (cases p)
    define db1 where "db1 = db\<lparr>events := replace_events (sha256 raw) found (events db)\<rparr>"
    have ok1: "tables_ok db1"
      using ok Inr p by (simp add: db1_def store_ok projection_numbers)
    show ?thesis
    proof (cases "encoded float_repr info")
      case (Inl e)
      then show ?thesis
        using assms read proj p ok1 Inl by (auto simp: import_file_def Let_def db1_def [symmetric] intro: not_imported_ok)
    next
      case (Inr printed)
      note enc = Inr
      have "db' = db1\<lparr>documents := aput (documents db) (sha256 raw) (path_suffix path, printed),
          paths := aput (paths db) path (sha256 raw), issues := delete_key path (issues db)\<rparr>"
        using assms(1) read proj p enc by (simp add: import_file_def Let_def db1_def)
      moreover have "snd ` set (aput (paths db) path (sha256 raw)) \<subseteq> insert (sha256 raw) (fst ` set (documents db))"
        using values_aput [of "paths db" path "sha256 raw"] ok by (auto simp: tables_ok_def)
      ultimately show ?thesis
        using ok1 by (auto simp: tables_ok_def db1_def distinct_delete distinct_aput keys_aput keys_delete)
    qed
  qed
qed

lemma kept_keys: "f ` set (filter (\<lambda>row. f row \<in> A) d) = f ` set d \<inter> A"
  by auto

lemma prune_fields [simp]:
  "paths (prune db) = paths db" "issues (prune db) = issues db"
  by (simp_all add: prune_def Let_def)

lemma prune_ok: "tables_ok db \<Longrightarrow> db_ok (prune db)"
  using kept_keys [of fst "snd ` set (paths db)" "documents db"]
    kept_keys [of "\<lambda>row. fst (fst row)" "snd ` set (paths db)" "events db"]
  by (auto simp: db_ok_def tables_ok_def prune_def Let_def distinct_keys_filter image_image)

lemma empty_ok: "tables_ok empty_db"
  by (simp add: tables_ok_def empty_db_def)

lemma import_paths_ok:
  assumes "import_paths sha256 float_repr message absolute tree fs roots rebuild db = Inr db'" and "db_ok db"
  shows "db_ok db'"
proof -
  obtain files mid where
    run: "foldm (import_file sha256 float_repr message fs) (if rebuild then empty_db else db) files = Inr mid"
    and db': "db' = prune mid"
    using assms(1) by (auto simp: import_paths_def ok_simps)
  have "tables_ok (if rebuild then empty_db else db)"
    using assms(2) empty_ok by (simp add: db_ok_def)
  then have "tables_ok mid"
    using foldm_invariant [where I = tables_ok, OF run] import_file_ok by blast
  then show ?thesis by (simp add: db' prune_ok)
qed

text \<open>The databases that imports reach, each with its own file system, roots and mode.\<close>

inductive reachable_db ::
  "(string \<Rightarrow> string) \<Rightarrow> (pfloat \<Rightarrow> string) \<Rightarrow> (py_error \<Rightarrow> string) \<Rightarrow> evidence_db \<Rightarrow> bool"
  for sha256 float_repr message
where
  created: "reachable_db sha256 float_repr message empty_db"
| imported: "reachable_db sha256 float_repr message db \<Longrightarrow>
    import_paths sha256 float_repr message absolute tree fs roots rebuild db = Inr db' \<Longrightarrow>
    reachable_db sha256 float_repr message db'"

lemma reachable_ok: "reachable_db sha256 float_repr message db \<Longrightarrow> db_ok db"
proof (induction rule: reachable_db.induct)
  case created
  show ?case by (simp add: db_ok_def empty_db_def tables_ok_def)
next
  case (imported db absolute tree fs roots rebuild db')
  then show ?case by (blast intro: import_paths_ok)
qed

text \<open>
  C28: Whatever sequence of imports filled it, and however the files changed in between, the evidence
  index is consistent: the keys of every table are distinct, the indexed digests are exactly those some
  path has, every event row belongs to an indexed digest, and no path is both indexed and an issue.
\<close>

theorem index_stays_consistent:
  assumes "reachable_db sha256 float_repr message db"
  shows "distinct (map fst (documents db)) \<and> distinct (map fst (paths db)) \<and>
    distinct (map fst (events db)) \<and> distinct (map fst (issues db)) \<and>
    fst ` set (documents db) = snd ` set (paths db) \<and>
    (\<forall>row \<in> set (events db). fst (fst row) \<in> fst ` set (documents db)) \<and>
    fst ` set (paths db) \<inter> fst ` set (issues db) = {}"
proof -
  note ok = reachable_ok [OF assms, unfolded db_ok_def tables_ok_def]
  have same: "fst ` set (documents db) = snd ` set (paths db)"
    using ok by blast
  have rows: "\<forall>row \<in> set (events db). fst (fst row) \<in> fst ` set (documents db)"
    unfolding same using ok by blast
  show ?thesis
    using ok by (elim conjE) (intro conjI same rows; assumption)
qed

section \<open>Queries return the indexed bytes\<close>

lemma first_readable_verified:
  assumes "first_readable sha256 message fs sha aliases failures names = Inr (raw, s)"
  shows "sha256 raw = sha \<and> source_sha256 s = sha \<and> source_aliases s = aliases \<and>
    read_file fs (source_path s) = Inr raw \<and>
    (\<exists>lost rest. names = lost @ source_path s # rest \<and> length (unavailable_aliases s) = length failures + length lost \<and>
      (\<forall>p \<in> set lost. \<forall>old. read_file fs p = Inr old \<longrightarrow> sha256 old \<noteq> sha))"
  using assms
proof (induction names arbitrary: failures)
  case Nil
  then show ?case by simp
next
  case (Cons name names)
  show ?case
  proof (cases "\<exists>raw'. read_file fs name = Inr raw' \<and> sha256 raw' = sha")
    case True
    then obtain raw' where here: "read_file fs name = Inr raw'" "sha256 raw' = sha" by blast
    then have "raw = raw'" and "s = \<lparr>source_path = name, source_sha256 = sha, source_aliases = aliases,
        unavailable_aliases = failures\<rparr>"
      using Cons.prems by simp_all
    with here show ?thesis
      by (intro conjI exI [of _ "[]"] exI [of _ names]) simp_all
  next
    case False
    then obtain e where rest: "first_readable sha256 message fs sha aliases (failures @ [name @ '': '' @ message e]) names = Inr (raw, s)"
      using Cons.prems by (auto split: sum.split_asm if_split_asm simp: bnd_eq_Inr bnd_eq_Inl)
    from Cons.IH [OF rest] obtain lost more where
      split: "names = lost @ source_path s # more" "length (unavailable_aliases s) = Suc (length failures) + length lost"
        "\<forall>p \<in> set lost. \<forall>old. read_file fs p = Inr old \<longrightarrow> sha256 old \<noteq> sha" by auto
    then show ?thesis
      using Cons.IH [OF rest] False by (intro conjI exI [of _ "name # lost"] exI [of _ more]) auto
  qed
qed

lemma set_aliases: "set (aliases_of db sha) = {p. (p, sha) \<in> set (paths db)}"
  by (force simp: aliases_of_def)

text \<open>The aliases in the order in which a query tries them: the requested path first.\<close>

definition query_order :: "(string \<Rightarrow> string) \<Rightarrow> evidence_db \<Rightarrow> string \<Rightarrow> string \<Rightarrow> string list" where
  "query_order absolute db selector sha =
     (let names = aliases_of db sha; requested = absolute selector
      in if requested \<in> set names then requested # remove1 requested names else names)"

lemma set_query_order: "set (query_order absolute db selector sha) = {p. (p, sha) \<in> set (paths db)}"
proof -
  have "set (a # remove1 a xs) = set xs" if "a \<in> set xs" for a and xs :: "string list"
    using that by (metis mset_remove1 set_mset_mset mset.simps(2) insert_DiffM set_mset_mset in_multiset_in_set)
  then show ?thesis by (simp add: query_order_def Let_def set_aliases)
qed

lemma source_query_order:
  "source sha256 message absolute fs db selector =
     bnd (resolve absolute db selector) (\<lambda>sha.
       first_readable sha256 message fs sha (query_order absolute db selector sha) [] (query_order absolute db selector sha))"
  by (simp add: source_def query_order_def Let_def)

text \<open>
  C27: A query answers with the evidence that was indexed or not at all: the bytes it returns have the
  digest the selector resolves to and are the present content of a path registered under this digest,
  the first such path in query order; every path before it is unreadable or holds other content now, and
  is listed as unavailable.
\<close>

theorem source_never_stale:
  assumes "source sha256 message absolute fs db selector = Inr (raw, s)"
  shows "resolve absolute db selector = Inr (sha256 raw) \<and> source_sha256 s = sha256 raw \<and>
    read_file fs (source_path s) = Inr raw \<and> (source_path s, sha256 raw) \<in> set (paths db) \<and>
    (\<exists>lost rest. query_order absolute db selector (sha256 raw) = lost @ source_path s # rest \<and>
      length (unavailable_aliases s) = length lost \<and>
      (\<forall>p \<in> set lost. \<forall>old. read_file fs p = Inr old \<longrightarrow> sha256 old \<noteq> sha256 raw))"
proof -
  obtain sha where sha: "resolve absolute db selector = Inr sha"
    and run: "first_readable sha256 message fs sha (query_order absolute db selector sha) []
      (query_order absolute db selector sha) = Inr (raw, s)"
    using assms by (auto simp: source_query_order ok_simps)
  from first_readable_verified [OF run] obtain lost rest where
    order: "query_order absolute db selector sha = lost @ source_path s # rest" by blast
  have "source_path s \<in> set (query_order absolute db selector sha)" by (simp add: order)
  then have "(source_path s, sha) \<in> set (paths db)" by (simp add: set_query_order)
  then show ?thesis using first_readable_verified [OF run] sha by auto
qed

text \<open>
  What one file of an import leaves behind: its digest under its path when it can be read and
  projected, an issue otherwise. Other paths are not touched.
\<close>

fun import_outcome ::
  "(string \<Rightarrow> string) \<Rightarrow> (pfloat \<Rightarrow> string) \<Rightarrow> file_system \<Rightarrow> string \<Rightarrow> string result" where
  "import_outcome sha256 float_repr fs path =
     bnd (read_file fs path) (\<lambda>raw. bnd (projection float_repr raw (path_suffix path)) (\<lambda>(info, found).
     bnd (encoded float_repr info) (\<lambda>printed. Inr raw)))"

definition left_behind ::
  "(string \<Rightarrow> string) \<Rightarrow> (py_error \<Rightarrow> string) \<Rightarrow> string result \<Rightarrow> evidence_db \<Rightarrow> string \<Rightarrow> bool" where
  "left_behind sha256 message outcome db path =
     (case outcome of
        Inr raw \<Rightarrow> map_of (paths db) path = Some (sha256 raw) \<and> map_of (issues db) path = None
      | Inl e \<Rightarrow> map_of (paths db) path = None \<and> map_of (issues db) path = Some (message e))"

lemma map_of_delete: "map_of (delete_key k d) = (map_of d)(k := None)"
  by (induction d) (auto simp: delete_key_def)

lemma not_imported_leaves:
  assumes "not_imported message path e db = Inr db'"
  shows "db' = db\<lparr>paths := delete_key path (paths db), issues := aput (issues db) path (message e)\<rparr>"
  using assms by (auto simp: not_imported_def split: if_splits)

lemma import_file_leaves:
  assumes "import_file sha256 float_repr message fs db path = Inr db'"
  shows "left_behind sha256 message (import_outcome sha256 float_repr fs path) db' path"
    and "q \<noteq> path \<Longrightarrow> map_of (paths db') q = map_of (paths db) q \<and> map_of (issues db') q = map_of (issues db) q"
  using assms
  by (auto simp: import_file_def left_behind_def Let_def map_of_delete
      dest!: not_imported_leaves split: sum.split_asm prod.split_asm)

lemma import_files_leave:
  assumes "foldm (import_file sha256 float_repr message fs) db files = Inr db'" and "path \<in> set files"
  shows "left_behind sha256 message (import_outcome sha256 float_repr fs path) db' path"
  using assms
proof (induction files arbitrary: db' rule: rev_induct)
  case Nil
  then show ?case by simp
next
  case (snoc p files)
  obtain mid where mid: "foldm (import_file sha256 float_repr message fs) db files = Inr mid"
    and last: "import_file sha256 float_repr message fs mid p = Inr db'"
    using snoc.prems(1) by (auto simp: foldm_append ok_simps)
  show ?case
  proof (cases "path = p")
    case True
    then show ?thesis using import_file_leaves(1) [OF last] by simp
  next
    case False
    then have "left_behind sha256 message (import_outcome sha256 float_repr fs path) mid path"
      using snoc.IH [OF mid] snoc.prems(2) by simp
    then show ?thesis
      using import_file_leaves(2) [OF last False] by (auto simp: left_behind_def split: sum.splits)
  qed
qed

text \<open>
  C29: An import settles every file below its roots. A file that cannot be read or projected is reported
  as an issue with its error and has no alias; any other file is returned by \<open>source\<close> under its own path,
  byte for byte as it was imported, as long as it is unchanged.
\<close>

theorem imports_settle_every_file:
  assumes "import_paths sha256 float_repr message absolute tree fs roots rebuild db = Inr db'"
    and "gather absolute tree roots = Inr files" and "path \<in> set files" and "absolute path = path"
  shows "case import_outcome sha256 float_repr fs path of
      Inl e \<Rightarrow> map_of (issues db') path = Some (message e) \<and> map_of (paths db') path = None
    | Inr raw \<Rightarrow> map_of (issues db') path = None \<and>
        (\<exists>s. source sha256 message absolute fs db' path = Inr (raw, s) \<and> source_path s = path)"
proof -
  obtain mid where run: "foldm (import_file sha256 float_repr message fs) (if rebuild then empty_db else db) files = Inr mid"
    and db': "db' = prune mid"
    using assms(1,2) by (auto simp: import_paths_def ok_simps)
  have left: "left_behind sha256 message (import_outcome sha256 float_repr fs path) mid path"
    using import_files_leave [OF run assms(3)] .
  show ?thesis
  proof (cases "import_outcome sha256 float_repr fs path")
    case (Inl e)
    then show ?thesis using left by (simp add: db' left_behind_def)
  next
    case (Inr raw)
    then have sha: "map_of (paths db') path = Some (sha256 raw)" and none: "map_of (issues db') path = None"
      using left by (simp_all add: db' left_behind_def)
    have "path \<in> set (aliases_of db' (sha256 raw))"
      using map_of_SomeD [OF sha] by (simp add: set_aliases)
    moreover have "read_file fs path = Inr raw"
      using Inr by (auto simp: ok_simps split: prod.splits)
    ultimately have "\<exists>s. source sha256 message absolute fs db' path = Inr (raw, s) \<and> source_path s = path"
      using sha assms(4) by (simp add: source_def resolve_def Let_def)
    then show ?thesis using Inr none by simp
  qed
qed

section \<open>A small evidence directory\<close>

definition sample_view :: "string \<Rightarrow> file_view" where
  "sample_view raw = \<lparr>before_read = Inr \<lparr>st_size = len raw, st_mtime_ns = 0, st_ino = 1\<rparr>, content = Inr raw,
     after_read = Inr \<lparr>st_size = len raw, st_mtime_ns = 0, st_ino = 1\<rparr>\<rparr>"

definition sample_files :: file_system where
  "sample_files path =
     (if path = ''/e/a.json'' then sample_view (''{\"kind\":\"x\",\"complete\":true}'')
      else if path = ''/e/t.jsonl'' then sample_view (''{\"layer\":3,\"x\":1}'' @ [CHR 0x0A])
      else if path = ''/e/b.json'' then sample_view ''{''
      else \<lparr>before_read = Inl (OSError ''missing''), content = Inl (OSError ''missing''), after_read = Inl (OSError ''missing'')\<rparr>)"

definition sample_tree :: "string \<Rightarrow> found_file list option" where
  "sample_tree base = Some (map (\<lambda>p. \<lparr>found_path = p, regular = True, symlink = False, resolved = p\<rparr>)
     [''/e/t.jsonl'', ''/e/b.json'', ''/e/a.json'', ''/e/gone.json'', ''/e/readme.md''])"

definition sample_message :: "py_error \<Rightarrow> string" where
  "sample_message e = (case e of ValueError m \<Rightarrow> m | OSError m \<Rightarrow> m | _ \<Rightarrow> ''error'')"

definition sample_db :: "evidence_db result" where
  "sample_db = import_paths id (\<lambda>x. ''0.0'') sample_message id sample_tree sample_files [''/e''] False empty_db"

lemma sample_gathered:
  "gather id sample_tree [''/e''] = Inr [''/e/a.json'', ''/e/b.json'', ''/e/gone.json'', ''/e/t.jsonl'']"
  by code_simp

lemma returned: "(case r of Inr x \<Rightarrow> P x | Inl e \<Rightarrow> False) \<Longrightarrow> \<exists>x. r = Inr x \<and> P x"
  by (cases r) auto

lemma sample_imported:
  "case sample_db of
     Inr db \<Rightarrow> map fst (issues db) = [''/e/b.json'', ''/e/gone.json''] \<and>
       map fst (paths db) = [''/e/a.json'', ''/e/t.jsonl''] \<and> length (events db) = 1
   | Inl e \<Rightarrow> False"
  by code_simp

lemma index_stays_consistent_witness:
  "\<exists>db. sample_db = Inr db \<and> length (paths db) = 2 \<and> length (events db) = 1 \<and>
     fst ` set (documents db) = snd ` set (paths db) \<and> fst ` set (paths db) \<inter> fst ` set (issues db) = {}"
proof -
  from returned [OF sample_imported] obtain db where Inr: "sample_db = Inr db"
    and stored: "map fst (issues db) = [''/e/b.json'', ''/e/gone.json'']"
      "map fst (paths db) = [''/e/a.json'', ''/e/t.jsonl'']" "length (events db) = 1"
    by (elim exE conjE) (rule that)
  have "reachable_db id (\<lambda>x. ''0.0'') sample_message db"
    using Inr unfolding sample_db_def by (rule imported [OF created])
  note consistent = index_stays_consistent [OF this]
  have "length (paths db) = 2" using arg_cong [OF stored(2), of length] by simp
  then show ?thesis
    using Inr stored(3) consistent by (intro exI [of _ db] conjI) (elim conjE, assumption)+
qed

lemma imports_settle_every_file_witness:
  "\<exists>db s. sample_db = Inr db \<and> map_of (issues db) ''/e/gone.json'' = Some ''missing'' \<and>
     source id sample_message id sample_files db ''/e/a.json'' =
       Inr (''{\"kind\":\"x\",\"complete\":true}'', s) \<and> source_path s = ''/e/a.json''"
proof -
  from returned [OF sample_imported] obtain db where Inr: "sample_db = Inr db"
    and stored: "map fst (issues db) = [''/e/b.json'', ''/e/gone.json'']"
      "map fst (paths db) = [''/e/a.json'', ''/e/t.jsonl'']" "length (events db) = 1"
    by (elim exE conjE) (rule that)
  note run = Inr [unfolded sample_db_def]
  have good: "import_outcome id (\<lambda>x. ''0.0'') sample_files ''/e/a.json'' = Inr ''{\"kind\":\"x\",\"complete\":true}''"
    and bad: "import_outcome id (\<lambda>x. ''0.0'') sample_files ''/e/gone.json'' = Inl (OSError ''missing'')"
    by code_simp+
  note settled = imports_settle_every_file [OF run sample_gathered]
  have "map_of (issues db) ''/e/gone.json'' = Some ''missing''"
    using settled [of "''/e/gone.json''"] unfolding bad by (simp add: sample_message_def)
  moreover have "\<exists>s. source id sample_message id sample_files db ''/e/a.json'' =
      Inr (''{\"kind\":\"x\",\"complete\":true}'', s) \<and> source_path s = ''/e/a.json''"
    using settled [of "''/e/a.json''"] unfolding good by simp
  ultimately show ?thesis using Inr by (elim exE) (intro exI conjI; (elim conjE)?; assumption)
qed

lemma source_never_stale_witness:
  "\<exists>db s. sample_db = Inr db \<and> source id sample_message id sample_files db ''/e/a.json'' =
       Inr (''{\"kind\":\"x\",\"complete\":true}'', s) \<and>
     source_sha256 s = ''{\"kind\":\"x\",\"complete\":true}'' \<and> (source_path s, source_sha256 s) \<in> set (paths db)"
proof -
  have "case bnd sample_db (\<lambda>db. source id sample_message id sample_files db ''/e/a.json'') of
      Inr p \<Rightarrow> fst p = ''{\"kind\":\"x\",\"complete\":true}'' | Inl e \<Rightarrow> False"
    by code_simp
  from returned [OF this] obtain db s where db: "sample_db = Inr db"
    and answer: "source id sample_message id sample_files db ''/e/a.json'' = Inr (''{\"kind\":\"x\",\"complete\":true}'', s)"
    by (auto simp: bnd_eq_Inr)
  from source_never_stale [OF answer] show ?thesis using db answer by auto
qed

end
