(* ===== verification/Revalidation.thy ===== *)
theory Revalidation
  imports ScreenDecisions OperatorScreens PyText
begin

text \<open>
  The revalidation of a screen's verdict from the original reports (\<open>revalidate\<close> of the request screens and
  their confirmations): the protocol of the summary, the alternating order of the pairs, fresh reports only, and the
  decision recomputed from the raw runs. \<open>resolve\<close> is the caller's lookup of a report by its digest; the list of
  sources it extends is passed along.
\<close>

definition summarize_q8 :: "(pfloat \<Rightarrow> string) \<Rightarrow> (pyval \<Rightarrow> pyval \<Rightarrow> expr) \<Rightarrow> pyval \<Rightarrow> pyval \<Rightarrow> pyval \<Rightarrow> expr" where
  "summarize_q8 float_repr resample report rows repetitions =
     reject (disjs [ne (get (ret report) ''kind'') (str ''captured_q8_decode_screen''),
          differs (get (ret report) ''exact'') yes]) ''Requires exact Q8 operator evidence'' (
     bnd (dict_of []) (\<lambda>groups.
     bnd (loop (item (ret report) ''measurements'') groups (\<lambda>groups row.
       reject (disjs [differs (get (ret row) ''exact'') yes, le (item (ret row) ''wall_ns'') (num 0)])
         ''Invalid operator measurement'' (
       bnd (tuple_of [text_of float_repr True '', '' '': '' (item (ret row) ''matrix''),
            item (ret row) ''case'']) (\<lambda>key.
       bnd (setdefault (ret groups) (ret key) (dict_of [])) (\<lambda>groups.
       bnd (tuple_of [item (ret row) ''q8_decode_rows'', item (ret row) ''repetition'']) (\<lambda>identity.
       reject (isin (ret identity) (index (ret groups) (ret key)))
         ''Duplicate operator measurement'' (
       bnd (put (ret groups) (ret key)
           (put (index (ret groups) (ret key)) (ret identity) (item (ret row) ''wall_ns''))) (\<lambda>groups.
       ret groups)))))))) (\<lambda>groups.
     reject (nay (ret groups)) ''Missing Q8 decode shapes'' (
     bnd (list_of []) (\<lambda>result.
     bnd (set_of (flatten (each (tuple_of [num 0, ret rows]) (\<lambda>r.
             each (range_to (ret repetitions)) (\<lambda>i. tuple_of [ret r, ret i]))))) (\<lambda>expected.
     bnd (loop (items_of (ret groups)) result (\<lambda>result tup2.
       unpack2 tup2 (\<lambda>tup3 values.
         unpack2 tup3 (\<lambda>shape case'.
           reject (ne (set_of (ret values)) (ret expected)) ''Incomplete or changed Q8 variants'' (
           bnd (each (range_to (ret repetitions)) (\<lambda>i. index (ret values) (tuple_of [num 0, ret i]))) (\<lambda>a.
           bnd (each (range_to (ret repetitions)) (\<lambda>i.
               index (ret values) (tuple_of [ret rows, ret i]))) (\<lambda>b.
           bnd (append (ret result)
               (dict_of [(''shape'', loads_value (ret shape)), (''case'', ret case'),
                    (''q8_decode_rows'', ret rows),
                    (''bounds'', call1 (paired_interval resample)
                        (each (zip_of (ret a) (ret b)) (\<lambda>tup1.
                            unpack2 tup1 (\<lambda>x y. truediv (ret y) (ret x))))),
                    (''baseline_ms'', truediv (median (ret a)) (flt 1000000)),
                    (''candidate_ms'', truediv (median (ret b)) (flt 1000000))])) (\<lambda>result.
           ret result)))))))) (\<lambda>result.
     ret result)))))))"

definition state_case :: "pyval \<Rightarrow> expr" where
  "state_case config =
     merge (dict_from (call1 correctness_case (str ''clock'')))
       (dict_of [(''kernel_policy'', item (ret config) ''kernel_policy''),
            (''q8_decode_rows'', item (ret config) ''q8_decode_rows'')])"

definition correctness_steady :: "(pyval \<Rightarrow> expr) \<Rightarrow> pyval \<Rightarrow> pyval \<Rightarrow> expr" where
  "correctness_steady read_json reports evidence' =
     reject (ne (size_of (ret reports)) (num 2)) ''Missing correctness arm'' (
     bnd (loop (zip_of (ret reports) q8_configs) () (\<lambda>unused tup1.
       unpack2 tup1 (\<lambda>raw config.
         reject (disjs [differs (get (ret raw) ''passed'') yes,
              ne (get (ret raw) ''case'') (state_case config),
              differs (get (ret raw) ''full_model'') yes, ne (get (ret raw) ''layers'') (num 48),
              ne (size_of (get_or (ret raw) ''runs'' (list_of []))) (num 1),
              ne (size_of (get_or (ret raw) ''checks'' (list_of []))) (size_of (ret CHECKS)),
              ne (set_of (each (item (ret raw) ''checks'') (\<lambda>c. item (ret c) ''name'')))
                  (ret CHECKS),
              some (item (ret raw) ''checks'') (\<lambda>c. differs (get (ret c) ''passed'') yes)])
           ''Incomplete all-layer correctness and recovery coverage'' (
         bnd (index (item (ret raw) ''runs'') (num 0)) (\<lambda>run.
         reject (disjs [ne (size_of (item (ret run) ''stages'')) (num 3),
              ne (get (ret run) ''gpu_references'') (list_of [])]) ''Changed correctness protocol'' (
         bnd (loop (tuple_of [str ''continued_statistics'', str ''after_fresh'']) () (\<lambda>unused key.
           bnd (index (ret run) (ret key)) (\<lambda>state.
           bnd (call3 check_machine (ret state) (ret evidence') (mul (num 12) (ret GiB))) (\<lambda>unused.
           reject (disjs [ne (item (item (ret state) ''memory_plan'') ''expert_slots'') (num 32),
                le (item (item (ret state) ''expert_cache'') ''evictions'') (num 0)])
             ''Correctness requires forced eviction'' (
           Inr ()))))) (\<lambda>unused.
         Inr ()))))))) (\<lambda>unused.
     bnd (bnd (index (ret reports) (num 0)) (\<lambda>arg2.
         bnd (index (ret reports) (num 1)) (\<lambda>arg3.
           bnd (item (ret evidence') ''build'') (\<lambda>arg4.
             bnd (call1 state_case (index q8_configs (num 0))) (\<lambda>arg5.
               bnd (call1 state_case (index q8_configs (num 1))) (\<lambda>arg6.
                 compare_sessions read_json arg2 arg3 arg4 arg5 arg6)))))) (\<lambda>unused.
     dict_of [(''exact_logits_routes_state'', yes), (''continued_equals_fresh'', yes),
        (''cancellation_failure_checked'', yes), (''layers'', num 48), (''expert_slots'', num 32),
        (''independent_model_reference'', no)])))"

definition operators_steady :: "(pyval \<Rightarrow> pyval \<Rightarrow> expr) \<Rightarrow> (pfloat \<Rightarrow> string) \<Rightarrow> pyval \<Rightarrow> pyval \<Rightarrow> pyval \<Rightarrow> pyval \<Rightarrow> pyval \<Rightarrow> expr" where
  "operators_steady resample float_repr raw evidence' layer stage repetitions =
     reject (disjs [nay (type_in (ret repetitions) [TInt]),
          notin (ret repetitions) (tuple_of [num 5, num 20])])
       ''Undeclared operator repetition count'' (
     bnd (get_or (ret raw) ''source'' (dict_of [])) (\<lambda>manifest.
     bnd (loop (tuple_of [ret raw, ret manifest]) () (\<lambda>unused obj.
       reject (disjs [ne (get (ret obj) ''build_fingerprint'') (item (ret evidence') ''build''),
            ne (get (ret obj) ''artifact_revision'') (item (ret evidence') ''artifact_revision'')])
         ''Stale operator build or artifact'' (
       Inr ()))) (\<lambda>unused.
     bnd (get_or (ret manifest) ''cases'' (list_of [])) (\<lambda>cases.
     reject (disjs [ne (get (ret manifest) ''kind'') (str ''captured_affine_operators''),
          ne (size_of (ret cases)) (num 3)])
       ''Requires the three captured projections per selected layer'' (
     bnd (list_of []) (\<lambda>expected.
     bnd (loop (ret cases) expected (\<lambda>expected case'.
       bnd (item (ret case') ''matrix'') (\<lambda>m.
       reject (disjs [ne (item (ret case') ''phase'') (str ''decode''),
            ne (item (item (ret case') ''context'') ''layer'') (ret layer),
            ne (item (item (ret case') ''context'') ''stage'') (ret stage),
            ne (item (ret m) ''rows'') (num 1), ne (item (ret m) ''bits'') (num 8),
            item (ret m) ''fused'', item (ret m) ''gathered'']) ''Changed captured input coverage'' (
       bnd (loop (range_to (ret repetitions)) expected (\<lambda>expected rep.
         bnd (loop (branch (eq (modulo (ret rep) (num 2)) (num 0)) (tuple_of [num 0, num 2])
               (tuple_of [num 2, num 0])) expected (\<lambda>expected rows.
           bnd (append (ret expected)
               (tuple_of [ret m, item (item (item (ret case') ''tensors'') ''x'') ''sha256'', ret rep,
                    ret rows])) (\<lambda>expected.
           ret expected))) (\<lambda>expected.
         ret expected))) (\<lambda>expected.
       ret expected))))) (\<lambda>expected.
     bnd (each (get_or (ret raw) ''measurements'' (list_of [])) (\<lambda>r.
         tuple_of [item (ret r) ''matrix'', item (ret r) ''case'', item (ret r) ''repetition'',
            item (ret r) ''q8_decode_rows''])) (\<lambda>actual.
     reject (ne (ret actual) (ret expected)) ''Changed operator pair order or coverage'' (
     bnd (loop (item (ret raw) ''measurements'') () (\<lambda>unused row.
       reject (disjs [ne (get (ret row) ''tile'') (num 1), ne (get (ret row) ''output_rows'') (num 2),
            differs (get (ret row) ''gate_pair'') no,
            nay (type_in (item (ret row) ''wall_ns'') [TInt, TFloat]),
            nay (isfinite (item (ret row) ''wall_ns''))]) ''Changed operator baseline or timing'' (
       Inr ()))) (\<lambda>unused.
     call3 (summarize_q8 float_repr resample) (ret raw) (num 2) (ret repetitions)))))))))))"

definition state_cases_routing :: "expr" where
  "state_cases_routing =
     list_of [call1 correctness_case (str ''clock''),
        merge (dict_from (call1 correctness_case (str ''clock'')))
            (dict_of [(''kernel_policy'', str ''candidate''), (''q8_decode_rows'', num 2),
                 (''route_selection'', str ''simd'')])]"

definition correctness_routing :: "(pyval \<Rightarrow> expr) \<Rightarrow> pyval \<Rightarrow> pyval \<Rightarrow> expr" where
  "correctness_routing read_json reports evidence' =
     bnd (loop (zip_of (ret reports) state_cases_routing) () (\<lambda>unused tup1.
       unpack2 tup1 (\<lambda>raw case'.
         reject (disjs [ne (get (ret raw) ''case'') (ret case'), differs (get (ret raw) ''passed'') yes,
              ne (get (ret raw) ''layers'') (num 48), differs (get (ret raw) ''full_model'') yes,
              ne (size_of (get_or (ret raw) ''runs'' (list_of []))) (num 1),
              ne (size_of (get_or (ret raw) ''checks'' (list_of []))) (size_of (ret CHECKS)),
              ne (set_of (each (item (ret raw) ''checks'') (\<lambda>c. item (ret c) ''name'')))
                  (ret CHECKS),
              some (item (ret raw) ''checks'') (\<lambda>c. differs (item (ret c) ''passed'') yes)])
           ''Incomplete state/failure checks'' (
         bnd (loop (tuple_of [str ''continued_statistics'', str ''after_fresh'']) () (\<lambda>unused key.
           bnd (index (index (item (ret raw) ''runs'') (num 0)) (ret key)) (\<lambda>state.
           bnd (call3 check_machine (ret state) (ret evidence') (mul (num 12) (ret GiB))) (\<lambda>unused.
           bnd (check_configuration read_json state case') (\<lambda>unused.
           reject (disjs [ne (item (item (ret state) ''memory_plan'') ''expert_slots'') (num 32),
                le (item (item (ret state) ''expert_cache'') ''evictions'') (num 0)])
             ''Missing forced eviction'' (
           Inr ())))))) (\<lambda>unused.
         Inr ()))))) (\<lambda>unused.
     reject (ne (size_of (ret reports)) (num 2)) ''Missing correctness arm'' (
     bnd (bnd (index (ret reports) (num 0)) (\<lambda>arg2.
         bnd (index (ret reports) (num 1)) (\<lambda>arg3.
           bnd (item (ret evidence') ''build'') (\<lambda>arg4.
             bnd (index state_cases_routing (num 0)) (\<lambda>arg5.
               bnd (index state_cases_routing (num 1)) (\<lambda>arg6.
                 compare_sessions read_json arg2 arg3 arg4 arg5 arg6)))))) (\<lambda>unused.
     dict_of [(''exact_logits_routes_state'', yes), (''all_48_layers'', yes),
        (''continued_equals_fresh'', yes), (''cancellation_failure_checked'', yes)])))"

definition SLOTS :: pyval where
  "SLOTS = PDict [(''control'', PInt 1848), (''candidate'', PInt 4175)]"

definition BUDGETS :: pyval where
  "BUDGETS = PDict [(''control'', PInt (12 * 1024 ^ 3)), (''candidate'', PInt (18 * 1024 ^ 3))]"

definition VARIABLE :: pyval where
  "VARIABLE =
     PSet [PStr ''limit_bytes'', PStr ''expert_slots'', PStr ''expert_bytes'', PStr ''planned_bytes'']"

definition budget_configs :: "expr" where
  "budget_configs =
     each (items_of (ret SLOTS)) (\<lambda>tup1.
       unpack2 tup1 (\<lambda>name slots.
         merge (dict_from (index q8_configs (num 1)))
           (dict_of [(''name'', ret name), (''expert_slots'', ret slots)])))"

definition observations_budget :: "(pyval \<Rightarrow> expr) \<Rightarrow> pyval \<Rightarrow> pyval \<Rightarrow> pyval \<Rightarrow> pyval \<Rightarrow> pyval \<Rightarrow> pyval \<Rightarrow> expr" where
  "observations_budget read_json native_top_p raw evidence' config workload expected =
     bnd (item (ret config) ''name'') (\<lambda>name.
     bnd (index (ret BUDGETS) (ret name)) (\<lambda>budget.
     reject (disjs [ne (get (ret raw) ''gpu_reference_mode'') (str ''off''),
          ne (get (ret raw) ''gpu_references'') (list_of [])]) ''Changed instrumentation'' (
     bnd (item (item (index (item (ret raw) ''runs'') (num 0)) ''before'') ''memory_plan'') (\<lambda>plan.
     bnd (each_dict (each_if (items_of (ret plan)) (\<lambda>tup1.
           unpack2 tup1 (\<lambda>k v. notin (ret k) (ret VARIABLE))) (\<lambda>x. ret x)) (\<lambda>tup2.
         unpack2 tup2 (\<lambda>k v. ret k)) (\<lambda>tup3. unpack2 tup3 (\<lambda>k v. ret v))) (\<lambda>fixed.
     bnd (setdefault (ret expected) (str ''fixed'') (ret fixed)) (\<lambda>expected.
     reject (ne (index (ret expected) (str ''fixed'')) (ret fixed))
       ''Non-expert allocation changed'' (
     reject (disjs [ne (item (ret plan) ''limit_bytes'') (ret budget),
          ne (item (ret plan) ''expert_slots'') (index (ret SLOTS) (ret name)),
          ne (item (ret plan) ''expert_bytes'') (mul (index (ret SLOTS) (ret name)) (num 2768896)),
          ne (item (ret plan) ''panel_tokens'') (num 512),
          ne (item (ret plan) ''planned_bytes'')
              (sum_of (each (tuple_of [str ''resident_bytes'', str ''session_bytes'', str ''scratch_bytes'',
                       str ''panel_scratch_bytes'', str ''runtime_control_bytes'',
                       str ''pipeline_scratch_bytes'', str ''snapshot_bytes'', str ''ngram_bytes'',
                       str ''reserve_bytes'', str ''expert_bytes'']) (\<lambda>k. index (ret plan) (ret k))))])
       ''Requested budget or actual expert allocation differs'' (
     bnd (setdefault (ret expected) (str ''tokens'') (dict_of [])) (\<lambda>expected.
     bnd (setdefault (ret expected) (ret name) (dict_of [])) (\<lambda>expected.
     bnd (item (ret expected) ''tokens'') (\<lambda>shared.
     bnd (index (ret expected) (ret name)) (\<lambda>arm.
     bnd (loop (item (ret raw) ''runs'') (shared, expected) (\<lambda>(shared, expected) row.
       bnd (item (ret row) ''name'') (\<lambda>key.
       bnd (item (ret row) ''output_token_ids'') (\<lambda>outputs.
       bnd (setdefault (ret shared) (ret key) (ret outputs)) (\<lambda>shared.
       reject (ne (index (ret shared) (ret key)) (ret outputs))
         ''Memory budget changed output tokens'' (
       bnd (item (item (item (ret row) ''after'') ''metal'') ''kernel_dispatches'') (\<lambda>dispatches.
       bnd (setdefault (ret expected) (add (str ''dispatches_'') (ret key)) (ret dispatches)) (\<lambda>expected.
       reject (ne (index (ret expected) (add (str ''dispatches_'') (ret key))) (ret dispatches))
         ''Memory budget changed kernel dispatches'' (
       bnd (loop (list_extend (list_of [item (ret row) ''before'', item (ret row) ''after''])
             (list_from (flatten (each (values_of (item (ret row) ''phases'')) (\<lambda>v.
                     each (tuple_of [str ''before'', str ''after'']) (\<lambda>k. index (ret v) (ret k)))))))
           () (\<lambda>unused s.
         bnd (item (item (ret s) ''metal'') ''kernels'') (\<lambda>kernels.
         reject (disjs [get (ret kernels) ''profile'', get (ret kernels) ''counter_profile'',
              get (ret kernels) ''operator_capture'',
              ne (get (ret s) ''short_append_tokens'') (num 32)])
           ''Changed scheduling or profiling'' (
         Inr ())))) (\<lambda>unused.
       Inr (shared, expected))))))))))) (\<lambda>(shared, expected).
     bnd (put (ret expected) (str ''tokens'') (ret shared)) (\<lambda>expected.
     bnd (validate_request read_json native_top_p raw evidence' config workload arm (PBool False)
         (PStr ''off'') (PBool False) budget (PInt 33) (PBool False)) (\<lambda>tup4.
     unpack2 tup4 (\<lambda>result arm.
     bnd (put (ret expected) (ret name) (ret arm)) (\<lambda>expected.
     tuple_of [ret result, ret expected])))))))))))))))))"

definition KINDS :: pyval where
  "KINDS =
     PDict [(''screen'', PStr ''cache_capacity_screen_v1''),
        (''confirm'', PStr ''cache_capacity_confirmation_v1'')]"

definition revalidate_capacity :: "(pyval \<Rightarrow> expr) \<Rightarrow> pyval \<Rightarrow> (string \<Rightarrow> pyval \<Rightarrow> expr) \<Rightarrow> (pyval \<Rightarrow> pyval \<Rightarrow> expr) \<Rightarrow> pyval \<Rightarrow> pyval \<Rightarrow> expr" where
  "revalidate_capacity read_json native_top_p libm resolve summary sources =
     bnd (get (ret summary) ''mode'') (\<lambda>phase.
     bnd (branch (eq (ret phase) (str ''screen'')) (num 2) (num 5)) (\<lambda>pairs.
     bnd (branch (eq (ret phase) (str ''screen'')) (ret PROBE) (str ''off'')) (\<lambda>mode.
     reject (disjs [notin (ret phase) (ret KINDS),
          ne (get (ret summary) ''kind'') (index (ret KINDS) (ret phase)),
          differs (get (ret summary) ''complete'') yes,
          ne (get (ret summary) ''configurations'') capacity_configs,
          ne (get (ret summary) ''gpu_reference_mode'') (ret mode),
          differs (get (ret summary) ''metal_validation'') no])
       ''Incomplete or changed capacity experiment protocol'' (
     bnd (get_or (ret summary) ''measurements'' (list_of [])) (\<lambda>rows.
     reject (ne (each (ret rows) (\<lambda>r.
           tuple_of [item (ret r) ''pair'', item (ret r) ''configuration''])) (order pairs))
       ''Requires the original complete alternating capacity pairs'' (
     bnd (dict_of []) (\<lambda>expected.
     bnd (Inr (PSet [])) (\<lambda>used.
     bnd (loop (ret rows) (used, sources, expected) (\<lambda>(used, sources, expected) row.
       bnd (item (ret row) ''sha256'') (\<lambda>digest.
       reject (isin (ret digest) (ret used)) ''Repeated raw report cannot create another pair'' (
       bnd (set_add (ret used) (ret digest)) (\<lambda>used.
       bnd (resolve digest sources) (\<lambda>tup1.
       unpack2 tup1 (\<lambda>raw sources.
       bnd (next_of capacity_configs (\<lambda>c.
           eq (item (ret c) ''name'') (item (ret row) ''configuration'')) (\<lambda>c. ret c)) (\<lambda>config.
       bnd (bnd (item (ret summary) ''identity'') (\<lambda>arg3.
           bnd (item (ret summary) ''workload'') (\<lambda>arg4.
             observations read_json native_top_p raw arg3 config arg4 expected mode))) (\<lambda>tup2.
       unpack2 tup2 (\<lambda>result expected.
       reject (ne (ret result) (item (ret row) ''requests''))
         ''Summary differs from original requests'' (
       Inr (used, sources, expected)))))))))))) (\<lambda>(used, sources, expected).
     bnd (decide_capacity libm rows pairs) (\<lambda>decision.
     reject (some (items_of (ret decision)) (\<lambda>tup5.
         unpack2 tup5 (\<lambda>k v. ne (lookup (ret summary) (ret k)) (ret v))))
       ''Changed predeclared decision'' (
     tuple_of [ret decision, ret sources])))))))))))"

definition TAIL_KIND :: pyval where
  "TAIL_KIND = PStr ''expert_tail_screen_v1''"

definition revalidate_tail :: "(pyval \<Rightarrow> expr) \<Rightarrow> pyval \<Rightarrow> (string \<Rightarrow> pyval \<Rightarrow> expr) \<Rightarrow> (pyval \<Rightarrow> pyval \<Rightarrow> expr) \<Rightarrow> pyval \<Rightarrow> pyval \<Rightarrow> expr" where
  "revalidate_tail read_json native_top_p libm resolve summary sources =
     reject (disjs [ne (get (ret summary) ''kind'') (ret TAIL_KIND),
          differs (get (ret summary) ''complete'') yes,
          ne (get (ret summary) ''configurations'') configs,
          ne (get (ret summary) ''gpu_reference_mode'') (str ''off''),
          differs (get (ret summary) ''metal_validation'') no])
       ''Changed or incomplete tail protocol'' (
     bnd (item (ret summary) ''measurements'') (\<lambda>rows.
     bnd (dict_of []) (\<lambda>expected.
     bnd (Inr (PSet [])) (\<lambda>seen.
     reject (ne (each (ret rows) (\<lambda>r.
           tuple_of [item (ret r) ''pair'', item (ret r) ''configuration''])) (call1 order (num 2)))
       ''Missing alternating pairs'' (
     bnd (loop (ret rows) (seen, sources, expected) (\<lambda>(seen, sources, expected) row.
       reject (isin (item (ret row) ''sha256'') (ret seen)) ''Repeated raw report'' (
       bnd (set_add (ret seen) (item (ret row) ''sha256'')) (\<lambda>seen.
       bnd (next_of configs (\<lambda>c. eq (item (ret c) ''name'') (item (ret row) ''configuration'')) (\<lambda>c.
           ret c)) (\<lambda>c.
       bnd (call2 resolve (item (ret row) ''sha256'') (ret sources)) (\<lambda>tup1.
       unpack2 tup1 (\<lambda>raw sources.
       bnd (bnd (item (ret summary) ''identity'') (\<lambda>arg3.
           bnd (item (ret summary) ''workload'') (\<lambda>arg4.
             observations_tail read_json native_top_p raw arg3 c arg4 expected))) (\<lambda>tup2.
       unpack2 tup2 (\<lambda>observed expected.
       reject (ne (ret observed) (item (ret row) ''requests'')) ''Changed request summary'' (
       Inr (seen, sources, expected))))))))))) (\<lambda>(seen, sources, expected).
     bnd (decide_tail libm rows) (\<lambda>decision.
     reject (some (items_of (ret decision)) (\<lambda>tup5.
         unpack2 tup5 (\<lambda>k v. ne (lookup (ret summary) (ret k)) (ret v))))
       ''Changed timing decision'' (
     bnd (branch (item (ret decision) ''advance_to_confirmation'')
         (bnd (list_of []) (\<lambda>reports.
           bnd (loop (item (ret summary) ''correctness_sources'') (sources, reports) (\<lambda>(sources, reports) r.
             bnd (call2 resolve (item (ret r) ''sha256'') (ret sources)) (\<lambda>tup6.
             unpack2 tup6 (\<lambda>report sources.
             bnd (append (ret reports) (ret report)) (\<lambda>reports.
             Inr (sources, reports)))))) (\<lambda>(sources, reports).
           bnd (call2 (correctness_tail read_json) (ret reports) (item (ret summary) ''identity'')) (\<lambda>proof.
           reject (ne (get (ret summary) ''correctness'') (ret proof))
             ''Changed correctness summary'' (
           ret sources)))))
         (reject (disjs [get (ret summary) ''correctness_sources'',
                differs (get (ret summary) ''correctness'') none])
             ''Unplanned long validation for a failed screen'' (
           ret sources))) (\<lambda>sources.
     tuple_of [ret decision, ret sources])))))))))"

definition SCRATCH_KIND :: pyval where
  "SCRATCH_KIND = PStr ''decode_scratch_screen_v1''"

definition revalidate_scratch :: "(pyval \<Rightarrow> expr) \<Rightarrow> pyval \<Rightarrow> (string \<Rightarrow> pyval \<Rightarrow> expr) \<Rightarrow> (pyval \<Rightarrow> pyval \<Rightarrow> expr) \<Rightarrow> pyval \<Rightarrow> pyval \<Rightarrow> expr" where
  "revalidate_scratch read_json native_top_p libm resolve summary sources =
     reject (disjs [ne (get (ret summary) ''kind'') (ret SCRATCH_KIND),
          differs (get (ret summary) ''complete'') yes,
          ne (get (ret summary) ''configurations'') scratch_configs,
          ne (get (ret summary) ''gpu_reference_mode'') (str ''off''),
          differs (get (ret summary) ''metal_validation'') no])
       ''Changed or incomplete scratch protocol'' (
     bnd (call2 resolve (item (item (ret summary) ''prior_output_control'') ''sha256'')
         (ret sources)) (\<lambda>tup1.
     unpack2 tup1 (\<lambda>prior sources.
     bnd (item (ret summary) ''measurements'') (\<lambda>rows.
     bnd (each_dict (item (ret prior) ''runs'') (\<lambda>r. item (ret r) ''name'') (\<lambda>r.
         item (ret r) ''output_token_ids'')) (\<lambda>expected.
     bnd (Inr (PSet [])) (\<lambda>seen.
     reject (ne (each (ret rows) (\<lambda>r.
           tuple_of [item (ret r) ''pair'', item (ret r) ''configuration''])) (call1 order (num 2)))
       ''Missing alternating pairs'' (
     bnd (loop (ret rows) (seen, sources, expected) (\<lambda>(seen, sources, expected) row.
       reject (isin (item (ret row) ''sha256'') (ret seen)) ''Repeated raw report'' (
       bnd (set_add (ret seen) (item (ret row) ''sha256'')) (\<lambda>seen.
       bnd (next_of scratch_configs (\<lambda>c.
           eq (item (ret c) ''name'') (item (ret row) ''configuration'')) (\<lambda>c. ret c)) (\<lambda>c.
       bnd (call2 resolve (item (ret row) ''sha256'') (ret sources)) (\<lambda>tup2.
       unpack2 tup2 (\<lambda>raw sources.
       bnd (bnd (item (ret summary) ''identity'') (\<lambda>arg4.
           bnd (item (ret summary) ''workload'') (\<lambda>arg5.
             observations_scratch read_json native_top_p raw arg4 c arg5 expected))) (\<lambda>tup3.
       unpack2 tup3 (\<lambda>observed expected.
       reject (ne (ret observed) (item (ret row) ''requests'')) ''Changed request summary'' (
       Inr (seen, sources, expected))))))))))) (\<lambda>(seen, sources, expected).
     bnd (decide_scratch libm rows) (\<lambda>decision.
     reject (some (items_of (ret decision)) (\<lambda>tup6.
         unpack2 tup6 (\<lambda>k v. ne (lookup (ret summary) (ret k)) (ret v))))
       ''Changed timing decision'' (
     bnd (branch (item (ret decision) ''advance_to_confirmation'')
         (bnd (list_of []) (\<lambda>reports.
           bnd (loop (item (ret summary) ''correctness_sources'') (sources, reports) (\<lambda>(sources, reports) r.
             bnd (call2 resolve (item (ret r) ''sha256'') (ret sources)) (\<lambda>tup7.
             unpack2 tup7 (\<lambda>report sources.
             bnd (append (ret reports) (ret report)) (\<lambda>reports.
             Inr (sources, reports)))))) (\<lambda>(sources, reports).
           bnd (call2 (correctness read_json) (ret reports) (item (ret summary) ''identity'')) (\<lambda>proof.
           reject (ne (get (ret summary) ''correctness'') (ret proof))
             ''Changed correctness summary'' (
           ret sources)))))
         (reject (disjs [get (ret summary) ''correctness_sources'',
                differs (get (ret summary) ''correctness'') none])
             ''Unplanned long validation for a failed screen'' (
           ret sources))) (\<lambda>sources.
     tuple_of [ret decision, ret sources])))))))))))"

definition ROUTING_KIND :: pyval where
  "ROUTING_KIND = PStr ''route_selection_screen_v1''"

definition revalidate_routing :: "(pyval \<Rightarrow> expr) \<Rightarrow> pyval \<Rightarrow> (string \<Rightarrow> pyval \<Rightarrow> expr) \<Rightarrow> (pyval \<Rightarrow> pyval \<Rightarrow> expr) \<Rightarrow> pyval \<Rightarrow> pyval \<Rightarrow> expr" where
  "revalidate_routing read_json native_top_p libm resolve summary sources =
     reject (disjs [ne (get (ret summary) ''kind'') (ret ROUTING_KIND),
          differs (get (ret summary) ''complete'') yes,
          ne (get (ret summary) ''configurations'') router_configs,
          ne (get (ret summary) ''gpu_reference_mode'') (str ''off''),
          differs (get (ret summary) ''metal_validation'') no]) ''Changed router experiment'' (
     bnd (call2 resolve (item (item (ret summary) ''operator_source'') ''sha256'') (ret sources)) (\<lambda>tup1.
     unpack2 tup1 (\<lambda>report sources.
     bnd (call2 operators (ret report) (item (ret summary) ''identity'')) (\<lambda>proof.
     reject (disjs [ne (ret proof) (item (ret summary) ''operators''),
          nay (item (ret proof) ''screen_passed'')]) ''Operator screen did not pass'' (
     bnd (item (ret summary) ''measurements'') (\<lambda>rows.
     bnd (dict_of []) (\<lambda>expected.
     bnd (Inr (PSet [])) (\<lambda>seen.
     reject (ne (each (ret rows) (\<lambda>r.
           tuple_of [item (ret r) ''pair'', item (ret r) ''configuration''])) (call1 order (num 2)))
       ''Missing two alternating normal pairs'' (
     bnd (loop (ret rows) (seen, sources, expected) (\<lambda>(seen, sources, expected) r.
       reject (isin (item (ret r) ''sha256'') (ret seen)) ''Repeated request cannot create a pair'' (
       bnd (set_add (ret seen) (item (ret r) ''sha256'')) (\<lambda>seen.
       bnd (next_of router_configs (\<lambda>c. eq (item (ret c) ''name'') (item (ret r) ''configuration'')) (\<lambda>c.
           ret c)) (\<lambda>c.
       bnd (call2 resolve (item (ret r) ''sha256'') (ret sources)) (\<lambda>tup2.
       unpack2 tup2 (\<lambda>raw sources.
       bnd (bnd (item (ret summary) ''identity'') (\<lambda>arg4.
           bnd (item (ret summary) ''workload'') (\<lambda>arg5.
             observations_routing read_json native_top_p raw arg4 c arg5 expected))) (\<lambda>tup3.
       unpack2 tup3 (\<lambda>observed expected.
       reject (ne (ret observed) (item (ret r) ''requests'')) ''Changed request summary'' (
       Inr (seen, sources, expected))))))))))) (\<lambda>(seen, sources, expected).
     bnd (call2 (decide_capacity libm) (ret rows) (num 2)) (\<lambda>decision.
     reject (some (items_of (ret decision)) (\<lambda>tup6.
         unpack2 tup6 (\<lambda>k v. ne (lookup (ret summary) (ret k)) (ret v))))
       ''Changed router timing decision'' (
     bnd (branch (item (ret decision) ''advance_to_confirmation'')
         (bnd (list_of []) (\<lambda>reports.
           bnd (loop (item (ret summary) ''correctness_sources'') (sources, reports) (\<lambda>(sources, reports) r.
             bnd (call2 resolve (item (ret r) ''sha256'') (ret sources)) (\<lambda>tup7.
             unpack2 tup7 (\<lambda>state_report sources.
             bnd (append (ret reports) (ret state_report)) (\<lambda>reports.
             Inr (sources, reports)))))) (\<lambda>(sources, reports).
           reject (ne (call2 (correctness_routing read_json) (ret reports)
                 (item (ret summary) ''identity'')) (item (ret summary) ''correctness''))
             ''Changed state proof'' (
           ret sources))))
         (reject (disjs [get (ret summary) ''correctness_sources'',
                differs (get (ret summary) ''correctness'') none])
             ''Unplanned full-state qualification'' (
           ret sources))) (\<lambda>sources.
     tuple_of [ret decision, ret sources])))))))))))))"

definition STEADY_KIND :: pyval where
  "STEADY_KIND = PStr ''q8_steady_short_screen_v1''"

definition CAPTURES :: pyval where
  "CAPTURES = PTuple [PTuple [PInt 0, PStr ''gdn''], PTuple [PInt 31, PStr ''attention'']]"

definition revalidate_steady :: "(pyval \<Rightarrow> pyval \<Rightarrow> expr) \<Rightarrow> (pyval \<Rightarrow> expr) \<Rightarrow> pyval \<Rightarrow> (string \<Rightarrow> pyval \<Rightarrow> expr) \<Rightarrow> (pfloat \<Rightarrow> string) \<Rightarrow> (pyval \<Rightarrow> pyval \<Rightarrow> expr) \<Rightarrow> pyval \<Rightarrow> pyval \<Rightarrow> expr" where
  "revalidate_steady resample read_json native_top_p libm float_repr resolve summary sources =
     reject (disjs [ne (get (ret summary) ''kind'') (ret STEADY_KIND),
          differs (get (ret summary) ''complete'') yes,
          ne (get (ret summary) ''configurations'') q8_configs,
          ne (get (ret summary) ''gpu_reference_mode'') (str ''off''),
          differs (get (ret summary) ''metal_validation'') no])
       ''Incomplete or changed Q8 experiment protocol'' (
     bnd (list_of []) (\<lambda>reports.
     bnd (loop (item (ret summary) ''correctness_sources'') (sources, reports) (\<lambda>(sources, reports) r.
       bnd (call2 resolve (item (ret r) ''sha256'') (ret sources)) (\<lambda>tup1.
       unpack2 tup1 (\<lambda>report sources.
       bnd (append (ret reports) (ret report)) (\<lambda>reports.
       Inr (sources, reports)))))) (\<lambda>(sources, reports).
     bnd (call2 (correctness_steady read_json) (ret reports) (item (ret summary) ''identity'')) (\<lambda>proof.
     reject (ne (ret proof) (item (ret summary) ''correctness'')) ''Changed correctness summary'' (
     bnd (item (ret summary) ''operator_sources'') (\<lambda>captures.
     reject (ne (each (ret captures) (\<lambda>r. tuple_of [item (ret r) ''layer'', item (ret r) ''stage'']))
         (list_from (ret CAPTURES))) ''Missing selected operator capture'' (
     bnd (loop (ret captures) sources (\<lambda>sources row.
       bnd (call2 resolve (item (ret row) ''sha256'') (ret sources)) (\<lambda>tup2.
       unpack2 tup2 (\<lambda>capture sources.
       bnd (bnd (item (ret summary) ''identity'') (\<lambda>arg3.
           bnd (item (ret row) ''layer'') (\<lambda>arg4.
             bnd (item (ret row) ''stage'') (\<lambda>arg5.
               bnd (item (ret summary) ''operator_repetitions'') (\<lambda>arg6.
                 operators_steady resample float_repr capture arg3 arg4 arg5 arg6))))) (\<lambda>cases.
       reject (disjs [ne (ret cases) (item (ret row) ''cases''),
            nay (every (ret cases) (\<lambda>c. lt (item (item (ret c) ''bounds'') ''high'') (num 1)))])
         ''Operator screen did not pass the predeclared gate'' (
       ret sources)))))) (\<lambda>sources.
     bnd (item (ret summary) ''measurements'') (\<lambda>rows.
     bnd (Inr (PSet [])) (\<lambda>used.
     bnd (dict_of []) (\<lambda>expected.
     reject (ne (each (ret rows) (\<lambda>r.
           tuple_of [item (ret r) ''pair'', item (ret r) ''configuration''])) (call1 order (num 2)))
       ''Requires two alternating request pairs'' (
     bnd (loop (ret rows) (used, sources, expected) (\<lambda>(used, sources, expected) row.
       bnd (item (ret row) ''sha256'') (\<lambda>digest.
       reject (isin (ret digest) (ret used)) ''Repeated original report'' (
       bnd (set_add (ret used) (ret digest)) (\<lambda>used.
       bnd (next_of q8_configs (\<lambda>c. eq (item (ret c) ''name'') (item (ret row) ''configuration'')) (\<lambda>c.
           ret c)) (\<lambda>config.
       bnd (resolve digest sources) (\<lambda>tup7.
       unpack2 tup7 (\<lambda>raw sources.
       bnd (bnd (item (ret summary) ''identity'') (\<lambda>arg9.
           bnd (item (ret summary) ''workload'') (\<lambda>arg10.
             observations_steady read_json native_top_p raw arg9 config arg10 expected))) (\<lambda>tup8.
       unpack2 tup8 (\<lambda>observed expected.
       reject (ne (ret observed) (item (ret row) ''requests''))
         ''Summary differs from original requests'' (
       Inr (used, sources, expected)))))))))))) (\<lambda>(used, sources, expected).
     bnd (call2 (decide_capacity libm) (ret rows) (num 2)) (\<lambda>decision.
     reject (some (items_of (ret decision)) (\<lambda>tup11.
         unpack2 tup11 (\<lambda>k v. ne (lookup (ret summary) (ret k)) (ret v))))
       ''Changed predeclared decision'' (
     tuple_of [ret decision, ret sources])))))))))))))))"

definition CONFIRM_KIND :: pyval where
  "CONFIRM_KIND = PStr ''q8_steady_confirmation_v1''"

definition PAIRS_KIND :: pyval where
  "PAIRS_KIND = PStr ''q8_steady_confirmation_v1''"

definition revalidate_pairs :: "expr \<Rightarrow> (pyval \<Rightarrow> pyval \<Rightarrow> pyval \<Rightarrow> pyval \<Rightarrow> pyval \<Rightarrow> expr) \<Rightarrow> (pyval \<Rightarrow> pyval \<Rightarrow> expr) \<Rightarrow> (pyval \<Rightarrow> pyval \<Rightarrow> expr) \<Rightarrow> (pyval \<Rightarrow> pyval \<Rightarrow> expr) \<Rightarrow> pyval \<Rightarrow> pyval \<Rightarrow> pyval \<Rightarrow> expr" where
  "revalidate_pairs configs_of observe_run revalidate_screen decide_of resolve kind summary sources =
     reject (disjs [ne (get (ret summary) ''kind'') (ret kind), differs (get (ret summary) ''complete'') yes,
          ne (get (ret summary) ''configurations'') configs_of,
          ne (get (ret summary) ''gpu_reference_mode'') (str ''off''),
          differs (get (ret summary) ''metal_validation'') no,
          differs (get (ret summary) ''prior_pairs_pooled'') no,
          differs (get (ret summary) ''early_success_stopping'') no])
       ''Incomplete or changed confirmation protocol'' (
     bnd (call2 resolve (item (item (ret summary) ''screen_source'') ''sha256'') (ret sources)) (\<lambda>tup1.
     unpack2 tup1 (\<lambda>prior sources.
     bnd (revalidate_screen prior sources) (\<lambda>tup2.
     unpack2 tup2 (\<lambda>screened sources.
     reject (nay (item (ret screened) ''advance_to_confirmation''))
       ''Requires a passing short screen'' (
     reject (disjs [ne (item (ret summary) ''identity'') (item (ret prior) ''identity''),
          ne (item (ret summary) ''workload'') (item (ret prior) ''workload'')])
       ''Confirmation build, artifact, machine, allocation ceiling or workload differs'' (
     bnd (item (ret summary) ''measurements'') (\<lambda>rows.
     bnd (dict_of []) (\<lambda>expected.
     bnd (set_of (each (item (ret prior) ''measurements'') (\<lambda>r. item (ret r) ''sha256''))) (\<lambda>used.
     reject (ne (each (ret rows) (\<lambda>r.
           tuple_of [item (ret r) ''pair'', item (ret r) ''configuration''])) (call1 order (num 5)))
       ''Requires five fresh alternating pairs'' (
     bnd (index (item (ret prior) ''measurements'') (num 0)) (\<lambda>first.
     bnd (call2 resolve (item (ret first) ''sha256'') (ret sources)) (\<lambda>tup3.
     unpack2 tup3 (\<lambda>earlier sources.
     bnd (bnd (item (ret summary) ''identity'') (\<lambda>arg5.
         bnd (index configs_of (num 0)) (\<lambda>arg6.
           bnd (item (ret summary) ''workload'') (\<lambda>arg7.
             observe_run earlier arg5 arg6 arg7 expected)))) (\<lambda>tup4.
     unpack2 tup4 (\<lambda>unused expected.
     bnd (loop (ret rows) (used, sources, expected) (\<lambda>(used, sources, expected) row.
       bnd (item (ret row) ''sha256'') (\<lambda>digest.
       reject (isin (ret digest) (ret used))
         ''Reused request cannot establish a fresh confirmation pair'' (
       bnd (set_add (ret used) (ret digest)) (\<lambda>used.
       bnd (next_of configs_of (\<lambda>c. eq (item (ret c) ''name'') (item (ret row) ''configuration'')) (\<lambda>c.
           ret c)) (\<lambda>config.
       bnd (resolve digest sources) (\<lambda>tup8.
       unpack2 tup8 (\<lambda>raw sources.
       bnd (bnd (item (ret summary) ''identity'') (\<lambda>arg10.
           bnd (item (ret summary) ''workload'') (\<lambda>arg11.
             observe_run raw arg10 config arg11 expected))) (\<lambda>tup9.
       unpack2 tup9 (\<lambda>observed expected.
       reject (ne (ret observed) (item (ret row) ''requests''))
         ''Confirmation differs from original requests'' (
       Inr (used, sources, expected)))))))))))) (\<lambda>(used, sources, expected).
     bnd (call2 decide_of (ret rows) (num 5)) (\<lambda>result.
     reject (some (items_of (ret result)) (\<lambda>tup12.
         unpack2 tup12 (\<lambda>k v. ne (lookup (ret summary) (ret k)) (ret v))))
       ''Changed confirmation decision'' (
     tuple_of [ret result, ret sources])))))))))))))))))))"

text \<open>The default arguments of \<open>revalidate\<close> in \<open>confirm_q8_steady.py\<close>.\<close>

definition confirm_q8 :: "(pyval \<Rightarrow> pyval \<Rightarrow> expr) \<Rightarrow> (pyval \<Rightarrow> expr) \<Rightarrow> pyval \<Rightarrow> (string \<Rightarrow> pyval \<Rightarrow> expr) \<Rightarrow> (pfloat \<Rightarrow> string) \<Rightarrow>
    (pyval \<Rightarrow> pyval \<Rightarrow> expr) \<Rightarrow> pyval \<Rightarrow> pyval \<Rightarrow> expr" where
  "confirm_q8 resample read_json native_top_p libm float_repr resolve summary sources =
     revalidate_pairs q8_configs (observations_steady read_json native_top_p)
       (revalidate_steady resample read_json native_top_p libm float_repr resolve)
       (decide_capacity libm) resolve CONFIRM_KIND summary sources"

definition BUDGET_KIND :: pyval where
  "BUDGET_KIND = PStr ''q8_memory_budget_screen_v1''"

definition revalidate_budget :: "(pyval \<Rightarrow> pyval \<Rightarrow> expr) \<Rightarrow> (pyval \<Rightarrow> expr) \<Rightarrow> pyval \<Rightarrow> (string \<Rightarrow> pyval \<Rightarrow> expr) \<Rightarrow> (pfloat \<Rightarrow> string) \<Rightarrow> (pyval \<Rightarrow> pyval \<Rightarrow> expr) \<Rightarrow> pyval \<Rightarrow> pyval \<Rightarrow> expr" where
  "revalidate_budget resample read_json native_top_p libm float_repr resolve summary sources =
     reject (disjs [ne (get (ret summary) ''kind'') (ret BUDGET_KIND),
          differs (get (ret summary) ''complete'') yes,
          ne (get (ret summary) ''configurations'') budget_configs,
          ne (get (ret summary) ''budgets_bytes'') (ret BUDGETS),
          ne (get (ret summary) ''gpu_reference_mode'') (str ''off''),
          differs (get (ret summary) ''metal_validation'') no])
       ''Incomplete or changed memory-budget experiment'' (
     bnd (call2 resolve (item (item (ret summary) ''q8_source'') ''sha256'') (ret sources)) (\<lambda>tup1.
     unpack2 tup1 (\<lambda>prior sources.
     bnd (confirm_q8 resample read_json native_top_p libm float_repr resolve prior sources) (\<lambda>tup2.
     unpack2 tup2 (\<lambda>proof sources.
     reject (ge (item (item (ret proof) ''confidence_95'') ''high'') (num 1))
       ''Requires observed Q8 conversation benefit; no promotion is inferred'' (
     reject (disjs [ne (item (ret summary) ''identity'')
              (each_dict (each_if (items_of (item (ret prior) ''identity'')) (\<lambda>tup3.
                    unpack2 tup3 (\<lambda>k v. ne (ret k) (str ''budget_bytes''))) (\<lambda>x. ret x)) (\<lambda>tup4.
                  unpack2 tup4 (\<lambda>k v. ret k)) (\<lambda>tup5. unpack2 tup5 (\<lambda>k v. ret v))),
          ne (item (ret summary) ''workload'') (item (ret prior) ''workload'')])
       ''Build, artifact, machine or workload differs'' (
     bnd (item (ret summary) ''measurements'') (\<lambda>rows.
     bnd (set_of (each (item (ret prior) ''measurements'') (\<lambda>r. item (ret r) ''sha256''))) (\<lambda>used.
     bnd (dict_of []) (\<lambda>expected.
     reject (ne (each (ret rows) (\<lambda>r.
           tuple_of [item (ret r) ''pair'', item (ret r) ''configuration''])) (call1 order (num 2)))
       ''Requires two fresh alternating budget pairs'' (
     bnd (next_of (item (ret prior) ''measurements'') (\<lambda>r.
         eq (item (ret r) ''configuration'') (str ''candidate'')) (\<lambda>r. ret r)) (\<lambda>previous.
     bnd (call2 resolve (item (ret previous) ''sha256'') (ret sources)) (\<lambda>tup6.
     unpack2 tup6 (\<lambda>earlier sources.
     bnd (bnd (item (ret summary) ''identity'') (\<lambda>arg8.
         bnd (index budget_configs (num 0)) (\<lambda>arg9.
           bnd (item (ret summary) ''workload'') (\<lambda>arg10.
             observations_budget read_json native_top_p earlier arg8 arg9 arg10 expected)))) (\<lambda>tup7.
     unpack2 tup7 (\<lambda>unused expected.
     bnd (loop (ret rows) (used, sources, expected) (\<lambda>(used, sources, expected) row.
       bnd (item (ret row) ''sha256'') (\<lambda>h.
       reject (isin (ret h) (ret used)) ''Reused request cannot create a budget pair'' (
       bnd (set_add (ret used) (ret h)) (\<lambda>used.
       bnd (next_of budget_configs (\<lambda>c.
           eq (item (ret c) ''name'') (item (ret row) ''configuration'')) (\<lambda>c. ret c)) (\<lambda>config.
       bnd (resolve h sources) (\<lambda>tup11.
       unpack2 tup11 (\<lambda>raw sources.
       bnd (bnd (item (ret summary) ''identity'') (\<lambda>arg13.
           bnd (item (ret summary) ''workload'') (\<lambda>arg14.
             observations_budget read_json native_top_p raw arg13 config arg14 expected))) (\<lambda>tup12.
       unpack2 tup12 (\<lambda>observed expected.
       reject (ne (ret observed) (item (ret row) ''requests''))
         ''Summary differs from original budget requests'' (
       Inr (used, sources, expected)))))))))))) (\<lambda>(used, sources, expected).
     bnd (call2 (decide_capacity libm) (ret rows) (num 2)) (\<lambda>result.
     reject (some (items_of (ret result)) (\<lambda>tup15.
         unpack2 tup15 (\<lambda>k v. ne (lookup (ret summary) (ret k)) (ret v))))
       ''Changed budget decision'' (
     tuple_of [ret result, ret sources])))))))))))))))))))"

definition CONFIRM_ROUTING_KIND :: pyval where
  "CONFIRM_ROUTING_KIND = PStr ''route_selection_confirmation_v1''"

definition confirm_routing :: "(pyval \<Rightarrow> expr) \<Rightarrow> pyval \<Rightarrow> (string \<Rightarrow> pyval \<Rightarrow> expr) \<Rightarrow>
    (pyval \<Rightarrow> pyval \<Rightarrow> expr) \<Rightarrow> pyval \<Rightarrow> pyval \<Rightarrow> expr" where
  "confirm_routing read_json native_top_p libm resolve summary sources =
     revalidate_pairs router_configs (observations_routing read_json native_top_p)
       (revalidate_routing read_json native_top_p libm resolve)
       (decide_capacity libm) resolve CONFIRM_ROUTING_KIND summary sources"

definition CONFIRM_SCRATCH_KIND :: pyval where
  "CONFIRM_SCRATCH_KIND = PStr ''decode_scratch_confirmation_v1''"

definition confirm_scratch :: "(pyval \<Rightarrow> expr) \<Rightarrow> pyval \<Rightarrow> (string \<Rightarrow> pyval \<Rightarrow> expr) \<Rightarrow>
    (pyval \<Rightarrow> pyval \<Rightarrow> expr) \<Rightarrow> pyval \<Rightarrow> pyval \<Rightarrow> expr" where
  "confirm_scratch read_json native_top_p libm resolve summary sources =
     revalidate_pairs scratch_configs (observations_scratch read_json native_top_p)
       (revalidate_scratch read_json native_top_p libm resolve)
       (decide_confirm_scratch libm) resolve CONFIRM_SCRATCH_KIND summary sources"

end
