(* ===== verification/SealedEvidence.thy ===== *)
theory SealedEvidence
  imports EvidenceIndex "HOL-Library.Sublist"
begin

text \<open>
  Sealed evidence directories (\<open>scripts/qwen/qualification_evidence.py\<close>): \<open>seal\<close> writes the digests of
  all files of a directory into \<open>evidence-files.json\<close> and returns the digest of that index,
  \<open>verify_seal\<close> checks a directory against it. A directory is the list of its entries below the
  root in the order of \<open>rglob\<close>, each with its relative path. \<open>sha256\<close> is the hex digest.
\<close>

section \<open>Directories\<close>

datatype tree_entry = File string | Folder | Link

type_synonym directory = "(string \<times> tree_entry) list"

definition tree_bytes :: "directory \<Rightarrow> int result" where
  "tree_bytes t =
     foldm (\<lambda>total (name, e). case e of
         Link \<Rightarrow> Inl (ValueError ''Evidence directories must not contain symbolic links'')
       | File s \<Rightarrow> Inr (total + len s)
       | Folder \<Rightarrow> Inr total) 0 t"

text \<open>\<open>sha(directory/name)\<close>.\<close>

definition file_digest :: "(string \<Rightarrow> string) \<Rightarrow> directory \<Rightarrow> string \<Rightarrow> string result" where
  "file_digest sha256 t name =
     (case map_of t name of
        Some (File s) \<Rightarrow> Inr (sha256 s)
      | Some _ \<Rightarrow> Inl (OSError ''Is a directory'')
      | None \<Rightarrow> Inl (OSError ''No such file or directory''))"

definition INDEX_NAME :: string where "INDEX_NAME = ''evidence-files.json''"

fun is_file :: "tree_entry \<Rightarrow> bool" where
  "is_file (File s) = True"
| "is_file _ = False"

text \<open>The relative paths of all files other than the index.\<close>

definition listed :: "directory \<Rightarrow> string list" where
  "listed t = map fst (filter (\<lambda>(name, e). is_file e \<and> name \<noteq> INDEX_NAME) t)"

text \<open>
  Components of a path, \<open>directory / name\<close>, and \<open>resolve\<close> where nothing is a symbolic link; the
  path of the directory is resolved already.
\<close>

definition parts :: "string \<Rightarrow> string list" where
  "parts p = filter (\<lambda>w. w \<noteq> [] \<and> w \<noteq> ''.'') (split_on (CHR ''/'') p)"

definition resolve_parts :: "string list \<Rightarrow> string list" where
  "resolve_parts ws = foldl (\<lambda>acc w. if w = ''..'' then butlast acc else acc @ [w]) [] ws"

definition confined :: "string \<Rightarrow> string \<Rightarrow> string list result" where
  "confined directory name =
     (let path = (if starts ''/'' name then parts name else parts directory @ parts name)
      in if prefix (parts directory) (resolve_parts path) then Inr path
         else Inl (ValueError ''Evidence path escapes its directory''))"

section \<open>Printing and saving\<close>

text \<open>\<open>json.dumps(value, indent=2, allow_nan=False)\<close>: every member on a line of its own.\<close>

definition line_at :: "nat \<Rightarrow> string" where
  "line_at level = CHR 0x0A # replicate (2 * level) (CHR '' '')"

fun dump_indented :: "(pfloat \<Rightarrow> string) \<Rightarrow> nat \<Rightarrow> pyval \<Rightarrow> string result" where
  "dump_indented float_repr level PNone = Inr ''null''"
| "dump_indented float_repr level (PBool b) = Inr (if b then ''true'' else ''false'')"
| "dump_indented float_repr level (PInt i) = dump_int i"
| "dump_indented float_repr level (PFloat x) =
     (if fl_finite x then Inr (float_repr x) else Inl (ValueError ''Out of range float values are not JSON compliant''))"
| "dump_indented float_repr level (PStr s) = Inr (dump_string s)"
| "dump_indented float_repr level (PList xs) =
     (if xs = [] then Inr ''[]''
      else bnd (mapm (dump_indented float_repr (Suc level)) xs) (\<lambda>ts.
        Inr (''['' @ line_at (Suc level) @ separated ('','' @ line_at (Suc level)) ts @ line_at level @ '']'')))"
| "dump_indented float_repr level (PTuple xs) =
     (if xs = [] then Inr ''[]''
      else bnd (mapm (dump_indented float_repr (Suc level)) xs) (\<lambda>ts.
        Inr (''['' @ line_at (Suc level) @ separated ('','' @ line_at (Suc level)) ts @ line_at level @ '']'')))"
| "dump_indented float_repr level (PDict d) =
     (if d = [] then Inr ''{}''
      else bnd (mapm (\<lambda>p. bnd (dump_indented float_repr (Suc level) (snd p)) (\<lambda>t.
          Inr (dump_string (fst p) @ '': '' @ t))) d) (\<lambda>ts.
        Inr (''{'' @ line_at (Suc level) @ separated ('','' @ line_at (Suc level)) ts @ line_at level @ ''}'')))"
| "dump_indented float_repr level (PSet xs) = Inl TypeError"
| "dump_indented float_repr level (PMap m) = Inl TypeError"

text \<open>
  \<open>save\<close>: written under a temporary name that then replaces the file; \<open>None\<close> is no entry of that name.
\<close>

definition is_folder :: "tree_entry option \<Rightarrow> bool" where
  "is_folder e = (e = Some Folder)"

definition save :: "(pfloat \<Rightarrow> string) \<Rightarrow> directory \<Rightarrow> string \<Rightarrow> pyval \<Rightarrow> directory result" where
  "save float_repr t name value =
     bnd (dump_indented float_repr 0 value) (\<lambda>body.
     if is_folder (map_of t (name @ ''.tmp'')) \<or> is_folder (map_of t name) then Inl (OSError ''Is a directory'')
     else Inr (aput (delete_key (name @ ''.tmp'') t) name (File (body @ [CHR 0x0A]))))"

section \<open>Sealing and verifying\<close>

definition seal :: "(string \<Rightarrow> string) \<Rightarrow> (pfloat \<Rightarrow> string) \<Rightarrow> directory \<Rightarrow> (string \<times> directory) result" where
  "seal sha256 float_repr t =
     bnd (tree_bytes t) (\<lambda>unused.
     bnd (mapm (\<lambda>name. bnd (file_digest sha256 t name) (\<lambda>d. Inr (name, PStr d))) (listed t)) (\<lambda>files.
     bnd (save float_repr t INDEX_NAME (PDict files)) (\<lambda>t'.
     bnd (file_digest sha256 t' INDEX_NAME) (\<lambda>d. Inr (d, t')))))"

text \<open>\<open>json.loads(path.read_text())\<close>: a text that starts with a byte order mark is refused.\<close>

definition read_index :: "directory \<Rightarrow> pyval result" where
  "read_index t =
     (case map_of t INDEX_NAME of
        Some (File raw) \<Rightarrow> if starts bom raw then Inl (ValueError ''Unexpected UTF-8 BOM'') else loads raw
      | _ \<Rightarrow> Inl (OSError ''Is a directory''))"

definition verify_files ::
  "(string \<Rightarrow> string) \<Rightarrow> string \<Rightarrow> directory \<Rightarrow> (string \<times> pyval) list \<Rightarrow> unit result" where
  "verify_files sha256 directory t files =
     foldm (\<lambda>unused (name, expected).
       bnd (confined directory name) (\<lambda>path.
       bnd (file_digest sha256 t name) (\<lambda>d.
       if py_eq (PStr d) expected then Inr () else Inl (ValueError (''Changed raw evidence: '' @ name))))) () files"

definition verify_seal :: "(string \<Rightarrow> string) \<Rightarrow> string \<Rightarrow> directory \<Rightarrow> string \<Rightarrow> unit result" where
  "verify_seal sha256 directory t digest' =
     bnd (tree_bytes t) (\<lambda>unused.
     bnd (file_digest sha256 t INDEX_NAME) (\<lambda>d.
     if d \<noteq> digest' then Inl (ValueError ''Changed evidence index'')
     else bnd (read_index t) (\<lambda>files.
       case files of
         PDict fs \<Rightarrow>
           if set (map fst fs) \<noteq> set (listed t) then Inl (ValueError ''Changed evidence file inventory'')
           else verify_files sha256 directory t fs
       | _ \<Rightarrow> Inl (ValueError ''Changed evidence file inventory''))))"

definition GIB_BYTES :: int where "GIB_BYTES = 1024 ^ 3"

text \<open>
  \<open>copytree\<close> refuses a destination that exists and otherwise gives it the entries of the source.
\<close>

definition import_sealed ::
  "(string \<Rightarrow> string) \<Rightarrow> string \<Rightarrow> string \<Rightarrow> directory \<Rightarrow> directory \<Rightarrow> bool \<Rightarrow> string \<Rightarrow> directory result" where
  "import_sealed sha256 from_path to_path t parent occupied digest' =
     bnd (verify_seal sha256 from_path t digest') (\<lambda>unused.
     bnd (tree_bytes t) (\<lambda>a.
     bnd (tree_bytes parent) (\<lambda>b.
     if 2 * GIB_BYTES \<le> a + b then Inl (ResourceBlocked ''Imported evidence would exceed 2GiB'')
     else if occupied then Inl (OSError ''File exists'')
     else bnd (verify_seal sha256 to_path t digest') (\<lambda>unused. Inr t))))"

section \<open>The guard of an experiment\<close>

text \<open>
  \<open>EvidenceGuard\<close>: \<open>file_sha\<close> and \<open>fingerprint\<close> observe a file, \<open>build\<close> the present native sources.
\<close>

record evidence_identity =
  frozen_build :: string
  frozen_files :: "(string \<times> string) list"
  frozen_assets :: "(string \<times> pyval) list"

definition check_identity ::
  "string result \<Rightarrow> (string \<Rightarrow> string result) \<Rightarrow> (string \<Rightarrow> pyval result) \<Rightarrow> evidence_identity \<Rightarrow> unit result" where
  "check_identity build file_sha fingerprint evidence' =
     bnd build (\<lambda>b.
     if b \<noteq> frozen_build evidence' then Inl (ValueError ''Native sources changed during experiment'')
     else bnd (foldm (\<lambda>unused (name, d). bnd (file_sha name) (\<lambda>now.
         if now \<noteq> d then Inl (ValueError (''Frozen experiment file changed: '' @ name)) else Inr ()))
         () (frozen_files evidence')) (\<lambda>unused.
       foldm (\<lambda>unused (name, saved). bnd (fingerprint name) (\<lambda>now.
         if py_eq now saved then Inr () else Inl (ValueError (''Artifact payload changed: '' @ name))))
         () (frozen_assets evidence')))"

definition check_resources :: "int \<Rightarrow> directory \<Rightarrow> bool \<Rightarrow> unit result" where
  "check_resources free output initial =
     (let minimum = (if initial then 7 else 5) * GIB_BYTES in
      if free < minimum then
        Inl (ResourceBlocked (''Disk admission requires '' @ dec (nat minimum) @ '' free bytes; available '' @ dec (nat free)))
      else bnd (tree_bytes output) (\<lambda>total.
        if 2 * GIB_BYTES \<le> total then Inl (ResourceBlocked ''Experiment evidence reached its 2GiB limit'') else Inr ()))"

end
