(* ===== verification/SealRoundtrip.thy ===== *)
theory SealRoundtrip
  imports SealedEvidence
begin

text \<open>
  A sealed directory verifies against its own seal, and whatever verifies against a seal has the
  sealed files and nothing else.
\<close>

section \<open>The printed index is read back\<close>

abbreviation ascii :: "string \<Rightarrow> bool" where
  "ascii s \<equiv> list_all (\<lambda>c. code c < 128) s"

definition pair_line :: "string \<times> string \<Rightarrow> string" where
  "pair_line p = dump_string (fst p) @ '': '' @ dump_string (snd p)"

definition index_text :: "(string \<times> string) list \<Rightarrow> string" where
  "index_text ps =
     (if ps = [] then ''{}'' else ''{'' @ line_at 1 @ separated ('','' @ line_at 1) (map pair_line ps) @ line_at 0 @ ''}'')"

abbreviation strings :: "(string \<times> string) list \<Rightarrow> (string \<times> pyval) list" where
  "strings ps \<equiv> map (\<lambda>p. (fst p, PStr (snd p))) ps"

lemma mapm_total: "(\<And>x. x \<in> set xs \<Longrightarrow> f x = Inr (g x)) \<Longrightarrow> mapm f xs = Inr (map g xs)"
  by (induction xs) auto

lemma index_printed: "dump_indented float_repr 0 (PDict (strings ps)) = Inr (index_text ps)"
proof -
  have "mapm (\<lambda>p. bnd (dump_indented float_repr (Suc 0) (snd p)) (\<lambda>t. Inr (dump_string (fst p) @ '': '' @ t))) (strings ps) =
      Inr (map pair_line ps)"
    by (induction ps) (auto simp: pair_line_def)
  then show ?thesis by (simp add: index_text_def)
qed

lemma skip_line: "\<not> is_ws c \<Longrightarrow> skip_ws (line_at level @ c # r) = c # r"
  by (induction level) (simp_all add: skip_ws_def line_at_def is_ws_def dropWhile_append)

lemma load_text_string:
  assumes "ascii v" and "length (dump_string v) \<le> n"
  shows "load_value (Suc n) (dump_string v @ r) = Inr (PStr v, r)"
  using scan_dumped_string [OF assms(1), of n r] assms
  by (simp add: load_value.simps dump_string_ascii)

lemma separated_Cons: "separated sep (t # ts) = t @ (if ts = [] then [] else sep @ separated sep ts)"
  by (cases ts) auto

lemma load_pairs_lines:
  assumes gap: "\<And>c r. \<not> is_ws c \<Longrightarrow> skip_ws (gap @ c # r) = c # r"
    and ending: "\<And>c r. \<not> is_ws c \<Longrightarrow> skip_ws (ending @ c # r) = c # r"
  shows "ps \<noteq> [] \<Longrightarrow> list_all (\<lambda>p. ascii (fst p) \<and> ascii (snd p)) ps \<Longrightarrow>
   length (separated (CHR '','' # gap) (map pair_line ps)) < n \<Longrightarrow>
   load_pairs n (separated (CHR '','' # gap) (map pair_line ps) @ ending @ CHR ''}'' # r) = Inr (strings ps, r)"
proof (induction ps arbitrary: n)
  case (Cons p ps)
  obtain k v where p: "p = (k, v)" by (cases p)
  obtain m where m: "n = Suc m" using Cons.prems(3) by (cases n) auto
  define ks where "ks = concat (map escape_char (map code k))"
  have line: "pair_line (k, v) @ s = CHR 0x22 # ks @ CHR 0x22 # CHR '':'' # CHR '' '' # dump_string v @ s" for s
    using Cons.prems(2) unfolding ks_def by (simp add: pair_line_def p dump_string_ascii del: map_map)
  have key: "scan_string m (ks @ CHR 0x22 # s) = Inr (k, s)" if "length ks < m" for s
    using scan_dumped_string [OF _ that [unfolded ks_def]] Cons.prems(2) unfolding ks_def by (simp add: p del: map_map)
  have blank: "skip_ws (CHR '' '' # dump_string v @ s) = dump_string v @ s" for s
    by (simp add: skip_ws_def dump_string_def is_ws_def)
  have size: "length (pair_line (k, v)) = length ks + length (dump_string v) + 4"
    using line [of "[]"] by (auto dest: arg_cong [where f = length])
  have val: "load_value m (dump_string v @ s) = Inr (PStr v, s)" if room: "length (pair_line (k, v)) \<le> m" for s
  proof -
    obtain j where "m = Suc j" using room size by (cases m) auto
    then show ?thesis using load_text_string [of v j s] room size Cons.prems(2) by (simp add: p)
  qed
  show ?case
  proof (cases "ps = []")
    case True
    then have "length (pair_line (k, v)) \<le> m" using Cons.prems(3) by (simp add: m p)
    then show ?thesis
      using True size by (simp add: line m load_pairs.simps key blank val ending p is_ws_def)
  next
    case False
    define rest where "rest = separated (CHR '','' # gap) (map pair_line ps) @ ending @ CHR ''}'' # r"
    have whole: "separated (CHR '','' # gap) (map pair_line (p # ps)) @ ending @ CHR ''}'' # r =
        pair_line (k, v) @ CHR '','' # gap @ rest"
      using False by (simp add: separated_Cons rest_def p)
    have room: "length (pair_line (k, v)) \<le> m" "length (separated (CHR '','' # gap) (map pair_line ps)) < m"
      using Cons.prems(3) False by (simp_all add: separated_Cons m p)
    obtain w where w: "rest = CHR 0x22 # w"
      using False by (cases ps) (simp_all add: separated_Cons pair_line_def dump_string_def rest_def)
    have again: "skip_ws (gap @ rest) = rest" by (simp add: w gap is_ws_def)
    have "load_pairs m rest = Inr (strings ps, r)"
      using Cons.IH [OF False, of m] Cons.prems(2) room(2) by (simp add: rest_def)
    then show ?thesis
      using size room(1) unfolding whole by (simp add: line m load_pairs.simps key blank val again p is_ws_def)
  qed
qed simp

lemma keep_last_distinct: "distinct (map fst ps) \<Longrightarrow> keep_last ps = ps"
proof -
  have "distinct (map fst (d @ ps)) \<Longrightarrow> foldl (\<lambda>d (key, value). aput d key value) d ps = d @ ps" for d
  proof (induction ps arbitrary: d)
    case (Cons p ps)
    have "fst p \<notin> fst ` set d \<Longrightarrow> aput d (fst p) (snd p) = d @ [p]" for d
      by (induction d) (auto simp: aput_def)
    then show ?case using Cons.prems Cons.IH [of "d @ [p]"] by (auto split: prod.split)
  qed simp
  from this [of "[]"] show "distinct (map fst ps) \<Longrightarrow> keep_last ps = ps"
    by (simp add: keep_last_def)
qed

lemma utf8_ok_append: "list_all (\<lambda>c. code c < 128) s \<Longrightarrow> utf8_ok (s @ r) = utf8_ok r"
  by (induction s) auto

lemma ascii_text:
  assumes "list_all (\<lambda>p. ascii (fst p) \<and> ascii (snd p)) ps"
  shows "ascii (index_text ps)"
proof -
  have line: "ascii (line_at level)" for level
    by (induction level) (simp_all add: line_at_def code_def)
  have "ascii (pair_line p)" if "p \<in> set ps" for p
    using assms that dump_string_printable [of "fst p"] dump_string_printable [of "snd p"]
    by (fastforce simp: pair_line_def list_all_iff printable_def code_def)
  then have pairs: "list_all ascii (map pair_line ps)" by (simp add: list_all_iff)
  have "list_all ascii ts \<Longrightarrow> ascii (separated (CHR '','' # line_at 1) ts)" for ts
    using line by (induction ts) (simp_all add: separated_Cons code_def)
  from this [OF pairs] show ?thesis
    using line by (simp add: index_text_def code_def)
qed

lemma index_loads:
  assumes "list_all (\<lambda>p. ascii (fst p) \<and> ascii (snd p)) ps" and "distinct (map fst ps)"
  shows "loads (index_text ps @ [CHR 0x0A]) = Inr (PDict (strings ps))" and "\<not> starts bom (index_text ps @ [CHR 0x0A])"
proof -
  have utf8: "utf8_ok (index_text ps @ [CHR 0x0A])"
    using utf8_ok_append [OF ascii_text [OF assms(1)]] by (simp add: code_def)
  obtain w where start: "index_text ps = CHR ''{'' # w" by (cases "ps = []") (simp_all add: index_text_def)
  then show bom: "\<not> starts bom (index_text ps @ [CHR 0x0A])"
    by (simp add: starts_def bom_def)
  have "load_value (2 * length (index_text ps @ [CHR 0x0A]) + 1) (index_text ps @ [CHR 0x0A]) = Inr (PDict (strings ps), [CHR 0x0A])"
  proof (cases "ps = []")
    case True
    then show ?thesis by (simp add: index_text_def eval_nat_numeral skip_ws_def is_ws_def keep_last_def)
  next
    case False
    define gap where "gap = line_at 1"
    define ending where "ending = line_at 0"
    define body where "body = separated (CHR '','' # gap) (map pair_line ps)"
    have whole: "index_text ps = CHR ''{'' # gap @ body @ ending @ ''}''"
      using False by (simp add: index_text_def gap_def ending_def body_def)
    obtain w where w: "body = CHR 0x22 # w"
      using False by (cases ps) (simp_all add: separated_Cons pair_line_def dump_string_def body_def)
    have gap: "\<not> is_ws c \<Longrightarrow> skip_ws (gap @ c # r) = c # r" for c r
      unfolding gap_def by (rule skip_line)
    have ending: "\<not> is_ws c \<Longrightarrow> skip_ws (ending @ c # r) = c # r" for c r
      unfolding ending_def by (rule skip_line)
    have again: "skip_ws (gap @ body @ r) = body @ r" for r
      by (simp add: w gap is_ws_def)
    define n where "n = 2 * length (index_text ps @ [CHR 0x0A])"
    have "length body < n" by (simp add: n_def whole)
    then have "load_pairs n (body @ ending @ CHR ''}'' # [CHR 0x0A]) = Inr (strings ps, [CHR 0x0A])"
      using load_pairs_lines [OF gap ending False assms(1), of n "[CHR 0x0A]"] by (simp add: body_def)
    moreover have "keep_last (strings ps) = strings ps"
      using keep_last_distinct [of "strings ps"] assms(2) by (simp add: comp_def)
    ultimately have "load_value (n + 1) (CHR ''{'' # gap @ body @ ending @ ''}'' @ [CHR 0x0A]) = Inr (PDict (strings ps), [CHR 0x0A])"
      using w again [of "ending @ CHR ''}'' # [CHR 0x0A]"] by (simp add: load_value.simps)
    then show ?thesis unfolding n_def [symmetric] by (simp add: whole)
  qed
  moreover have "skip_ws (index_text ps @ [CHR 0x0A]) = index_text ps @ [CHR 0x0A]"
    by (simp add: start is_ws_def)
  moreover have "skip_ws [CHR 0x0A] = []" by (simp add: skip_ws_def is_ws_def)
  moreover define s where "s = index_text ps @ [CHR 0x0A]"
  ultimately have "loads s = Inr (PDict (strings ps))"
    using utf8 bom unfolding s_def [symmetric] by (simp add: loads_def del: load_value.simps)
  then show "loads (index_text ps @ [CHR 0x0A]) = Inr (PDict (strings ps))" by (simp only: s_def)
qed

section \<open>A sealed directory verifies\<close>

text \<open>
  Names as \<open>rglob\<close> gives them: distinct, relative, no \<open>..\<close>; ASCII, and no symbolic link among the entries.
\<close>

definition tidy :: "directory \<Rightarrow> bool" where
  "tidy t = (distinct (map fst t) \<and>
     list_all (\<lambda>(name, e). ascii name \<and> \<not> starts ''/'' name \<and> ''..'' \<notin> set (parts name) \<and> e \<noteq> Link) t)"

lemma tree_bytes_total: "list_all (\<lambda>(name, e). e \<noteq> Link) t \<Longrightarrow> \<exists>n. tree_bytes t = Inr n"
proof -
  have "list_all (\<lambda>(name, e). e \<noteq> Link) t \<Longrightarrow> \<exists>n. foldm (\<lambda>total (name, e). case e of
         Link \<Rightarrow> Inl (ValueError ''Evidence directories must not contain symbolic links'')
       | File s \<Rightarrow> Inr (total + len s) | Folder \<Rightarrow> Inr total) m t = Inr n" for m
    by (induction t arbitrary: m) (auto split: tree_entry.splits)
  then show "list_all (\<lambda>(name, e). e \<noteq> Link) t \<Longrightarrow> \<exists>n. tree_bytes t = Inr n" by (simp add: tree_bytes_def)
qed

lemma tree_bytes_links: "tree_bytes t = Inr n \<Longrightarrow> list_all (\<lambda>(name, e). e \<noteq> Link) t"
proof -
  have "foldm (\<lambda>total (name, e). case e of
         Link \<Rightarrow> Inl (ValueError ''Evidence directories must not contain symbolic links'')
       | File s \<Rightarrow> Inr (total + len s) | Folder \<Rightarrow> Inr total) m t = Inr n \<Longrightarrow> list_all (\<lambda>(name, e). e \<noteq> Link) t" for m
    by (induction t arbitrary: m) (auto split: tree_entry.splits)
  then show "tree_bytes t = Inr n \<Longrightarrow> list_all (\<lambda>(name, e). e \<noteq> Link) t" by (simp add: tree_bytes_def)
qed

text \<open>The bytes of a directory's file.\<close>

definition content :: "directory \<Rightarrow> string \<Rightarrow> string option" where
  "content t name = (case map_of t name of Some (File s) \<Rightarrow> Some s | _ \<Rightarrow> None)"

lemma file_digest_content:
  "file_digest sha256 t name = Inr d \<longleftrightarrow> (\<exists>s. content t name = Some s \<and> d = sha256 s)"
  by (auto simp: file_digest_def content_def split: option.splits tree_entry.splits)

lemma listed_content:
  assumes "distinct (map fst t)"
  shows "name \<in> set (listed t) \<longleftrightarrow> name \<noteq> INDEX_NAME \<and> content t name \<noteq> None"
proof -
  have "content t name \<noteq> None \<longleftrightarrow> (\<exists>e. map_of t name = Some e \<and> is_file e)"
    by (auto simp: content_def split: option.splits tree_entry.splits)
  then have "content t name \<noteq> None \<longleftrightarrow> (\<exists>e. (name, e) \<in> set t \<and> is_file e)"
    by (simp add: map_of_eq_Some_iff [OF assms])
  moreover have "name \<in> set (listed t) \<longleftrightarrow> (\<exists>e. (name, e) \<in> set t \<and> is_file e \<and> name \<noteq> INDEX_NAME)"
    by (force simp: listed_def)
  ultimately show ?thesis by blast
qed

lemma resolve_clean: "''..'' \<notin> set ws \<Longrightarrow> resolve_parts ws = ws"
proof -
  have "''..'' \<notin> set ws \<Longrightarrow> foldl (\<lambda>acc w. if w = ''..'' then butlast acc else acc @ [w]) acc ws = acc @ ws" for acc
    by (induction ws arbitrary: acc) auto
  then show "''..'' \<notin> set ws \<Longrightarrow> resolve_parts ws = ws" by (simp add: resolve_parts_def)
qed

lemma confined_clean:
  assumes "''..'' \<notin> set (parts directory)" and "\<not> starts ''/'' name" and "''..'' \<notin> set (parts name)"
  shows "confined directory name = Inr (parts directory @ parts name)"
  using assms by (simp add: confined_def Let_def resolve_clean)

lemma content_aput: "content (aput t k e) name = (if name = k then (case e of File s \<Rightarrow> Some s | _ \<Rightarrow> None) else content t name)"
  by (simp add: content_def)

lemma delete_absent: "k \<notin> fst ` set t \<Longrightarrow> delete_key k t = t"
  by (auto simp: delete_key_def intro: filter_True)

lemma tidy_distinct: "distinct (map fst t) \<Longrightarrow> distinct (map fst (aput (delete_key k t) n e))"
  by (simp add: aput_def distinct_update delete_key_def distinct_map_filter)

text \<open>The digests \<open>seal\<close> writes, and the directory it leaves.\<close>

definition sealed_files :: "(string \<Rightarrow> string) \<Rightarrow> directory \<Rightarrow> (string \<times> string) list" where
  "sealed_files sha256 t = map (\<lambda>name. (name, sha256 (the (content t name)))) (listed t)"

lemma sealed_directory:
  assumes "seal sha256 float_repr t = Inr (d, t')" and "distinct (map fst t)"
  shows "t' = aput (delete_key (INDEX_NAME @ ''.tmp'') t) INDEX_NAME (File (index_text (sealed_files sha256 t) @ [CHR 0x0A]))"
    and "d = sha256 (index_text (sealed_files sha256 t) @ [CHR 0x0A])"
    and "\<exists>n. tree_bytes t = Inr n"
proof -
  have "mapm (\<lambda>name. bnd (file_digest sha256 t name) (\<lambda>d. Inr (name, PStr d))) (listed t) = Inr (strings (sealed_files sha256 t))"
  proof -
    have "file_digest sha256 t name = Inr (sha256 (the (content t name)))" if "name \<in> set (listed t)" for name
      using that listed_content [OF assms(2)] by (auto simp: file_digest_content)
    then have "mapm (\<lambda>name. bnd (file_digest sha256 t name) (\<lambda>d. Inr (name, PStr d))) (listed t) =
        Inr (map (\<lambda>name. (name, PStr (sha256 (the (content t name))))) (listed t))"
      by (intro mapm_total) simp
    then show ?thesis by (simp add: sealed_files_def comp_def)
  qed
  then obtain n where n: "tree_bytes t = Inr n"
      and s: "save float_repr t INDEX_NAME (PDict (strings (sealed_files sha256 t))) = Inr t'"
      and d: "file_digest sha256 t' INDEX_NAME = Inr d"
    using assms(1) by (auto simp: seal_def ok_simps)
  show t': "t' = aput (delete_key (INDEX_NAME @ ''.tmp'') t) INDEX_NAME (File (index_text (sealed_files sha256 t) @ [CHR 0x0A]))"
    using s by (simp add: save_def index_printed del: dump_indented.simps split: if_splits)
  show "d = sha256 (index_text (sealed_files sha256 t) @ [CHR 0x0A])"
    using d by (simp add: t' file_digest_def)
  show "\<exists>n. tree_bytes t = Inr n" using n by blast
qed

lemma sealed_content:
  assumes "seal sha256 float_repr t = Inr (d, t')" and "distinct (map fst t)" and "INDEX_NAME @ ''.tmp'' \<notin> fst ` set t"
  shows "content t' name =
     (if name = INDEX_NAME then Some (index_text (sealed_files sha256 t) @ [CHR 0x0A]) else content t name)"
  by (simp add: sealed_directory(1) [OF assms(1,2)] delete_absent [OF assms(3)] content_aput)

lemma sealed_files_content:
  assumes "distinct (map fst t)"
  shows "distinct (map fst (sealed_files sha256 t))" and "set (map fst (sealed_files sha256 t)) = set (listed t)"
    and "(name, e) \<in> set (sealed_files sha256 t) \<longleftrightarrow>
      name \<noteq> INDEX_NAME \<and> (\<exists>s. content t name = Some s \<and> e = sha256 s)"
proof -
  show "distinct (map fst (sealed_files sha256 t))"
    using assms by (simp add: sealed_files_def listed_def comp_def distinct_map_filter)
  show "set (map fst (sealed_files sha256 t)) = set (listed t)"
    by (simp add: sealed_files_def comp_def)
  show "(name, e) \<in> set (sealed_files sha256 t) \<longleftrightarrow>
      name \<noteq> INDEX_NAME \<and> (\<exists>s. content t name = Some s \<and> e = sha256 s)"
    using listed_content [OF assms] by (auto simp: sealed_files_def)
qed

lemma tidy_files:
  assumes "tidy t" and "\<And>s. ascii (sha256 s)"
  shows "list_all (\<lambda>p. ascii (fst p) \<and> ascii (snd p)) (sealed_files sha256 t)"
proof -
  have "ascii name" if "name \<in> set (listed t)" for name
    using that assms(1) by (auto simp: tidy_def listed_def list_all_iff)
  then show ?thesis using assms(2) by (simp add: sealed_files_def list_all_iff)
qed

lemma sealed_index:
  assumes "tidy t" and "\<And>s. ascii (sha256 s)"
    and "content u INDEX_NAME = Some (index_text (sealed_files sha256 t) @ [CHR 0x0A])"
  shows "read_index u = Inr (PDict (strings (sealed_files sha256 t)))"
proof -
  have d: "distinct (map fst t)" using assms(1) by (simp add: tidy_def)
  show ?thesis
    using index_loads [OF tidy_files [OF assms(1,2)] sealed_files_content(1) [OF d]] assms(3)
    by (auto simp: read_index_def content_def split: option.splits tree_entry.splits)
qed

lemma verify_files_ok:
  "(\<And>name e. (name, e) \<in> set files \<Longrightarrow>
      (\<exists>path. confined directory name = Inr path) \<and> (\<exists>d. file_digest sha256 t name = Inr d \<and> e = PStr d)) \<Longrightarrow>
   verify_files sha256 directory t files = Inr ()"
  unfolding verify_files_def by (induction files) fastforce+

lemma verify_files_found:
  "verify_files sha256 directory t (strings ps) = Inr () \<Longrightarrow> (name, e) \<in> set ps \<Longrightarrow> file_digest sha256 t name = Inr e"
  unfolding verify_files_def by (induction ps) (auto simp: ok_simps split: if_splits)

lemma sealed_listed:
  assumes "seal sha256 float_repr t = Inr (d, t')" and "distinct (map fst t)" and "INDEX_NAME @ ''.tmp'' \<notin> fst ` set t"
  shows "set (listed t') = set (listed t)" and "distinct (map fst t')"
proof -
  show d: "distinct (map fst t')"
    by (simp only: sealed_directory(1) [OF assms(1,2)] tidy_distinct [OF assms(2)])
  show "set (listed t') = set (listed t)"
    by (rule set_eqI) (simp add: listed_content [OF d] listed_content [OF assms(2)] sealed_content [OF assms])
qed

lemma no_links_aput: "list_all (\<lambda>(name, e). e \<noteq> Link) t \<Longrightarrow> list_all (\<lambda>(name, e). e \<noteq> Link) (aput t k (File s))"
  by (induction t) (auto simp: aput_def)

lemma verify_seal_parts:
  "verify_seal sha256 directory u d = Inr () \<Longrightarrow> read_index u = Inr (PDict fs) \<Longrightarrow>
   set (map fst fs) = set (listed u) \<and> verify_files sha256 directory u fs = Inr ()"
  by (auto simp: verify_seal_def ok_simps split: if_splits)

lemma seal_verifies:
  assumes "tidy t" and "INDEX_NAME @ ''.tmp'' \<notin> fst ` set t" and "\<And>s. ascii (sha256 s)"
    and "''..'' \<notin> set (parts directory)" and "seal sha256 float_repr t = Inr (d, t')"
  shows "verify_seal sha256 directory t' d = Inr ()"
proof -
  have dt: "distinct (map fst t)" using assms(1) by (simp add: tidy_def)
  note content = sealed_content [OF assms(5) dt assms(2)]
  have "list_all (\<lambda>(name, e). e \<noteq> Link) t"
    using assms(1) by (auto simp: tidy_def list_all_iff)
  then have "list_all (\<lambda>(name, e). e \<noteq> Link) t'"
    unfolding sealed_directory(1) [OF assms(5) dt] delete_absent [OF assms(2)] by (rule no_links_aput)
  then obtain n where "tree_bytes t' = Inr n" using tree_bytes_total by blast
  moreover have "file_digest sha256 t' INDEX_NAME = Inr d"
    by (simp add: file_digest_content content sealed_directory(2) [OF assms(5) dt])
  moreover have "read_index t' = Inr (PDict (strings (sealed_files sha256 t)))"
    by (rule sealed_index [OF assms(1,3)]) (simp add: content)
  moreover have "set (map fst (strings (sealed_files sha256 t))) = set (listed t')"
    using sealed_files_content(2) [OF dt, of sha256] sealed_listed(1) [OF assms(5) dt assms(2)] by (simp add: comp_def)
  moreover have "verify_files sha256 directory t' (strings (sealed_files sha256 t)) = Inr ()"
  proof (rule verify_files_ok)
    fix name e
    assume "(name, e) \<in> set (strings (sealed_files sha256 t))"
    then obtain s where name: "name \<noteq> INDEX_NAME" "content t name = Some s" "e = PStr (sha256 s)"
      by (auto simp: sealed_files_content(3) [OF dt])
    then have "name \<in> set (listed t)" using listed_content [OF dt] by simp
    then have "\<not> starts ''/'' name" "''..'' \<notin> set (parts name)"
      using assms(1) by (auto simp: tidy_def listed_def list_all_iff)
    then show "(\<exists>path. confined directory name = Inr path) \<and> (\<exists>d. file_digest sha256 t' name = Inr d \<and> e = PStr d)"
      using confined_clean [OF assms(4)] name by (auto simp: file_digest_content content)
  qed
  ultimately show ?thesis by (simp add: verify_seal_def image_image)
qed

lemma verified_content:
  assumes "tidy t" and "INDEX_NAME @ ''.tmp'' \<notin> fst ` set t" and "\<And>s. ascii (sha256 s)"
    and "seal sha256 float_repr t = Inr (d, t')" and "distinct (map fst u)"
    and "verify_seal sha256 directory u d = Inr ()"
    and "inj_on sha256 ({s. \<exists>name. content u name = Some s} \<union> {s. \<exists>name. content t' name = Some s})"
  shows "content u name = content t' name"
proof -
  have dt: "distinct (map fst t)" using assms(1) by (simp add: tidy_def)
  note content = sealed_content [OF assms(4) dt assms(2)]
  have same: "s = s'" if "content u a = Some s" "content t' b = Some s'" "sha256 s = sha256 s'" for a b s s'
    using inj_onD [OF assms(7) that(3)] that(1,2) by blast
  have "file_digest sha256 u INDEX_NAME = Inr d"
    using assms(6) by (auto simp: verify_seal_def ok_simps split: if_splits)
  then have idx: "content u INDEX_NAME = Some (index_text (sealed_files sha256 t) @ [CHR 0x0A])"
    using same [of INDEX_NAME _ INDEX_NAME] by (auto simp: file_digest_content content sealed_directory(2) [OF assms(4) dt])
  from verify_seal_parts [OF assms(6) sealed_index [OF assms(1,3) this]]
  have names: "set (map fst (strings (sealed_files sha256 t))) = set (listed u)"
    and files: "verify_files sha256 directory u (strings (sealed_files sha256 t)) = Inr ()"
    by blast+
  have listed: "set (listed u) = set (listed t)"
    using names sealed_files_content(2) [OF dt, of sha256] by (simp add: comp_def)
  show ?thesis
  proof (cases "name = INDEX_NAME")
    case False
    show ?thesis
    proof (cases "name \<in> set (listed t)")
      case True
      then obtain s where s: "content t name = Some s" using listed_content [OF dt] by blast
      then have "file_digest sha256 u name = Inr (sha256 s)"
        using verify_files_found [OF files, of name] False by (auto simp: sealed_files_content(3) [OF dt])
      then show ?thesis using same [of name _ name s] s False by (auto simp: file_digest_content content)
    next
      case absent: False
      then have "content u name = None" "content t name = None"
        using listed listed_content [OF dt, of name] listed_content [OF assms(5), of name] False by auto
      then show ?thesis using False by (simp add: content)
    qed
  qed (simp add: idx content)
qed

text \<open>A leftover temporary file of the index is sealed like any other file, and then renamed away.\<close>

lemma seal_leftover:
  assumes "tidy t" and "\<And>s. ascii (sha256 s)" and "seal sha256 float_repr t = Inr (d, t')"
    and "INDEX_NAME @ ''.tmp'' \<in> set (listed t)"
  shows "verify_seal sha256 directory t' d = Inl (ValueError ''Changed evidence file inventory'')"
proof -
  have dt: "distinct (map fst t)" using assms(1) by (simp add: tidy_def)
  note t' = sealed_directory [OF assms(3) dt]
  have idx: "content t' INDEX_NAME = Some (index_text (sealed_files sha256 t) @ [CHR 0x0A])"
    by (simp add: t'(1) content_aput)
  have "map_of (delete_key k t) k = None" for k by (auto simp: delete_key_def map_of_eq_None_iff)
  then have "content t' (INDEX_NAME @ ''.tmp'') = None" by (simp add: t'(1) content_aput) (simp add: content_def)
  moreover have "distinct (map fst t')" by (simp only: t'(1) tidy_distinct [OF dt])
  ultimately have "INDEX_NAME @ ''.tmp'' \<notin> set (listed t')" using listed_content by blast
  then have "set (map fst (strings (sealed_files sha256 t))) \<noteq> set (listed t')"
    using sealed_files_content(2) [OF dt, of sha256] assms(4) by (auto simp: comp_def)
  moreover have "list_all (\<lambda>(name, e). e \<noteq> Link) t" using assms(1) by (auto simp: tidy_def list_all_iff)
  then have "list_all (\<lambda>(name, e). e \<noteq> Link) (delete_key k t)" for k by (auto simp: delete_key_def list_all_iff)
  then have "list_all (\<lambda>(name, e). e \<noteq> Link) t'" unfolding t'(1) by (rule no_links_aput)
  then obtain n where "tree_bytes t' = Inr n" using tree_bytes_total by blast
  moreover have "file_digest sha256 t' INDEX_NAME = Inr d" by (simp add: file_digest_content idx t'(2))
  moreover have "read_index t' = Inr (PDict (strings (sealed_files sha256 t)))"
    by (rule sealed_index [OF assms(1,2) idx])
  ultimately show ?thesis by (simp add: verify_seal_def image_image)
qed

lemma seal_no_leftover:
  assumes "tidy t" and "seal sha256 float_repr t = Inr (d, t')" and "INDEX_NAME @ ''.tmp'' \<notin> set (listed t)"
  shows "INDEX_NAME @ ''.tmp'' \<notin> fst ` set t"
proof
  assume "INDEX_NAME @ ''.tmp'' \<in> fst ` set t"
  then obtain e where e: "(INDEX_NAME @ ''.tmp'', e) \<in> set t" by force
  then have "\<not> is_file e" using assms(3) by (force simp: listed_def)
  moreover have "e \<noteq> Link" using assms(1) e by (auto simp: tidy_def list_all_iff)
  ultimately have "e = Folder" by (cases e) simp_all
  then have "map_of t (INDEX_NAME @ ''.tmp'') = Some Folder" using assms(1) e by (simp add: tidy_def)
  then have "\<And>v u. save float_repr t INDEX_NAME v \<noteq> Inr u" by (auto simp: save_def is_folder_def ok_simps)
  then show False using assms(2) by (auto simp: seal_def ok_simps)
qed

section \<open>Properties\<close>

text \<open>
  C30: round trip of \<open>seal\<close> and \<open>verify_seal\<close>. For a directory without symbolic links whose names are
  ASCII and have no \<open>..\<close>, and a digest function that prints ASCII: once \<open>seal\<close> has returned, the
  check of the sealed directory against the returned digest succeeds, unless the directory held a
  leftover \<open>evidence-files.json.tmp\<close>. That file is listed in the index and then renamed away by \<open>save\<close>,
  so the fresh seal is refused with \<open>Changed evidence file inventory\<close>. The index is written with
  \<open>json.dumps(indent=2)\<close> and read back with \<open>json.loads\<close>.
\<close>

theorem seal_then_verify:
  assumes "tidy t" and "\<And>s. ascii (sha256 s)" and "''..'' \<notin> set (parts directory)"
    and "seal sha256 float_repr t = Inr (d, t')"
  shows "verify_seal sha256 directory t' d =
    (if INDEX_NAME @ ''.tmp'' \<in> set (listed t) then Inl (ValueError ''Changed evidence file inventory'') else Inr ())"
  using seal_leftover [OF assms(1,2,4)] seal_verifies [OF assms(1) seal_no_leftover [OF assms(1,4)] assms(2,3,4)] by simp

text \<open>
  C31: safety of a seal of a directory without symbolic links, with ASCII names and without a leftover
  \<open>evidence-files.json.tmp\<close>: every directory that verifies against the digest of the seal has the index
  and the files of the sealed directory, with the same bytes, and no other file, provided \<open>sha256\<close>
  does not collide on the contents of the two directories. So evidence that was edited, dropped or
  added after sealing is refused.
\<close>

theorem verified_seal_unchanged:
  assumes "tidy t" and "INDEX_NAME @ ''.tmp'' \<notin> fst ` set t" and "\<And>s. ascii (sha256 s)"
    and "seal sha256 float_repr t = Inr (d, t')" and "distinct (map fst u)"
    and "verify_seal sha256 directory u d = Inr ()"
    and "inj_on sha256 ({s. \<exists>name. content u name = Some s} \<union> {s. \<exists>name. content t' name = Some s})"
  shows "content u name = content t' name"
  by (rule verified_content [OF assms])

text \<open>The witnesses take for the digest the identity on ASCII contents.\<close>

definition sample_digest :: "string \<Rightarrow> string" where
  "sample_digest s = map (\<lambda>c. if code c < 128 then c else CHR ''?'') s"

lemma sample_digest_ascii: "ascii (sample_digest s)"
  by (induction s) (auto simp: sample_digest_def code_def)

definition sample_tree :: directory where
  "sample_tree = [(''record.json'', File ''{}''), (''raw'', Folder), (''raw/a.txt'', File ''a b'')]"

definition sample_seal :: "(string \<times> directory) result" where
  "sample_seal = seal sample_digest (\<lambda>x. []) sample_tree"

lemma sample_sealed:
  "case sample_seal of Inr (d, t') \<Rightarrow> map fst t' = [''record.json'', ''raw'', ''raw/a.txt'', INDEX_NAME] \<and>
       content t' ''raw/a.txt'' = Some ''a b''
   | Inl e \<Rightarrow> False"
  by code_simp

lemma sample_tidy: "tidy sample_tree" "INDEX_NAME @ ''.tmp'' \<notin> fst ` set sample_tree" "''..'' \<notin> set (parts ''/e/run'')"
  by code_simp+

lemma sample_injective: "inj_on sample_digest {s. ascii s}"
  by (rule inj_onI) (simp add: sample_digest_def list_all_iff map_idI [of _ "\<lambda>c. if code c < 128 then c else CHR ''?''"])

lemma ascii_contents:
  "list_all (\<lambda>(name, e). case e of File s \<Rightarrow> ascii s | _ \<Rightarrow> True) u \<Longrightarrow> {s. \<exists>name. content u name = Some s} \<subseteq> {s. ascii s}"
  by (fastforce simp: content_def list_all_iff split: option.splits tree_entry.splits dest: map_of_SomeD)

text \<open>The sealed sample, and a copy of it whose entries come in another order beside an empty folder.\<close>

lemma sample_copy:
  "case sample_seal of Inr (d, t') \<Rightarrow> verify_seal sample_digest ''/e/run'' ((''spare'', Folder) # rev t') d = Inr () \<and>
       distinct (map fst ((''spare'', Folder) # rev t')) \<and>
       list_all (\<lambda>(name, e). case e of File s \<Rightarrow> ascii s | _ \<Rightarrow> True) ((''spare'', Folder) # rev t' @ t')
   | Inl e \<Rightarrow> False"
  by code_simp

lemma sample_result: obtains d t' where "sample_seal = Inr (d, t')"
  using sample_sealed by (auto split: sum.splits)

text \<open>The sample verifies; with a leftover temporary file it is refused.\<close>

definition leftover_tree :: directory where
  "leftover_tree = [(''a.txt'', File ''a b''), (INDEX_NAME @ ''.tmp'', File ''{'')]"

lemma leftover_sealed: "returns (seal sample_digest (\<lambda>x. []) leftover_tree)" "tidy leftover_tree"
  "INDEX_NAME @ ''.tmp'' \<in> set (listed leftover_tree)" "INDEX_NAME @ ''.tmp'' \<notin> set (listed sample_tree)"
  by code_simp+

theorem seal_then_verify_witness:
  "\<exists>d t' e u. seal sample_digest (\<lambda>x. []) sample_tree = Inr (d, t') \<and> content t' ''raw/a.txt'' = Some ''a b'' \<and>
     verify_seal sample_digest ''/e/run'' t' d = Inr () \<and>
     seal sample_digest (\<lambda>x. []) leftover_tree = Inr (e, u) \<and>
     verify_seal sample_digest ''/e/run'' u e = Inl (ValueError ''Changed evidence file inventory'')"
proof -
  obtain d t' where r: "sample_seal = Inr (d, t')" by (rule sample_result)
  then have sealed: "seal sample_digest (\<lambda>x. []) sample_tree = Inr (d, t')" by (simp add: sample_seal_def)
  have "content t' ''raw/a.txt'' = Some ''a b''" using sample_sealed unfolding r by simp
  moreover obtain e u where left: "seal sample_digest (\<lambda>x. []) leftover_tree = Inr (e, u)"
    using leftover_sealed(1) by (cases "seal sample_digest (\<lambda>x. []) leftover_tree") auto
  ultimately show ?thesis
    using sealed seal_then_verify [OF sample_tidy(1) sample_digest_ascii sample_tidy(3) sealed]
      seal_then_verify [OF leftover_sealed(2) sample_digest_ascii sample_tidy(3) left] leftover_sealed(3,4)
    by auto
qed

theorem verified_seal_unchanged_witness:
  "\<exists>d t'. seal sample_digest (\<lambda>x. []) sample_tree = Inr (d, t') \<and>
     verify_seal sample_digest ''/e/run'' ((''spare'', Folder) # rev t') d = Inr () \<and>
     content ((''spare'', Folder) # rev t') ''record.json'' = content t' ''record.json''"
proof -
  obtain d t' where r: "sample_seal = Inr (d, t')" by (rule sample_result)
  define u where "u = (''spare'', Folder) # rev t'"
  have sealed: "seal sample_digest (\<lambda>x. []) sample_tree = Inr (d, t')"
    using r by (simp add: sample_seal_def)
  have u: "verify_seal sample_digest ''/e/run'' u d = Inr ()" "distinct (map fst u)"
      "list_all (\<lambda>(name, e). case e of File s \<Rightarrow> ascii s | _ \<Rightarrow> True) (u @ t')"
    using sample_copy unfolding r u_def by simp_all
  have "{s. \<exists>name. content u name = Some s} \<union> {s. \<exists>name. content t' name = Some s} \<subseteq> {s. ascii s}"
    using ascii_contents [of u] ascii_contents [of t'] u(3) by simp
  from verified_seal_unchanged [OF sample_tidy(1,2) sample_digest_ascii sealed u(2,1)
      inj_on_subset [OF sample_injective this]]
  show ?thesis using sealed u(1) unfolding u_def by blast
qed

end
