(* ===== verification/EvidenceQueries.thy ===== *)
theory EvidenceQueries
  imports Revalidation EvidenceIndex IngestMemory MtpEvidence
begin

text \<open>
  The queries of \<open>scripts/qwen/evidence_queries.py\<close> over indexed evidence. \<open>load_json\<close> and \<open>find_source\<close> are
  \<open>Index.json\<close> and \<open>Index.source\<close>, the pair they return a tuple; \<open>resolve_source\<close> is the \<open>resolve\<close> of
  \<open>compare\<close>, which adds the origin of every report it reads to the sources of the answer.
\<close>

definition LINE_LIMIT :: pyval where
  "LINE_LIMIT = PInt 100000"

definition query_result :: "pyval \<Rightarrow> pyval \<Rightarrow> pyval \<Rightarrow> expr" where
  "query_result sources limitations values' =
     merge (ret values') (dict_of [(''sources'', ret sources), (''limitations'', ret limitations), (''production_promoted'', no)])"

definition resolve_source :: "(pyval \<Rightarrow> expr) \<Rightarrow> pyval \<Rightarrow> pyval \<Rightarrow> expr" where
  "resolve_source load_json digest' sources =
     bnd (load_json digest') (\<lambda>tup1.
     unpack2 tup1 (\<lambda>raw original.
     bnd (append (ret sources) (ret original)) (\<lambda>sources.
     tuple_of [ret raw, ret sources])))"

definition positive :: "pyval \<Rightarrow> expr" where
  "positive value =
     reject (disjs [isinstance (ret value) [TBool], nay (isinstance (ret value) [TFloat, TInt]),
          nay (isfinite (ret value)), le (ret value) (num 0)])
       ''Missing or invalid positive measurement'' (
     ret value)"

definition compare_scratch :: "(pyval \<Rightarrow> expr) \<Rightarrow> (pyval \<Rightarrow> expr) \<Rightarrow> pyval \<Rightarrow> (string \<Rightarrow> pyval \<Rightarrow> expr) \<Rightarrow> pyval \<Rightarrow> pyval \<Rightarrow> pyval \<Rightarrow> pyval \<Rightarrow> pyval \<Rightarrow> pyval \<Rightarrow> pyval \<Rightarrow> expr" where
  "compare_scratch load_json read_json native_top_p libm data control candidate changes case' sources limits =
     bnd (eq (item (ret data) ''kind'') (str ''decode_scratch_confirmation_v1'')) (\<lambda>confirmation.
     bnd (ne (item (ret data) ''kind'') (str ''expert_tail_screen_v1'')) (\<lambda>scratch.
     bnd (branch (ret scratch) (str ''decode_scratch'') (str ''expert_tail'')) (\<lambda>axis.
     branch (disjs [differs (ret case') none,
          ne (tuple_of [ret control, ret candidate])
              (tuple_of [str ''control'', str ''candidate'']),
          ne (set_of (ret changes)) (set_disp [ret axis])])
       (fail (add (str ''Comparison requires control/candidate and only '') (ret axis))) (
     bnd (branch (ret confirmation)
         (bnd (confirm_scratch read_json native_top_p libm (resolve_source load_json) data sources) (\<lambda>tup1.
           unpack2 tup1 (\<lambda>decision sources.
           Inr (decision, sources))))
         (bnd (branch (ret scratch)
               (bnd (revalidate_scratch read_json native_top_p libm (resolve_source load_json) data
                     sources) (\<lambda>tup2.
                 unpack2 tup2 (\<lambda>decision sources.
                 Inr (decision, sources))))
               (bnd (revalidate_tail read_json native_top_p libm (resolve_source load_json) data
                     sources) (\<lambda>tup3.
                 unpack2 tup3 (\<lambda>decision sources.
                 Inr (decision, sources))))) (\<lambda>(decision, sources).
           Inr (decision, sources)))) (\<lambda>(decision, sources).
     call3 query_result (ret sources)
       (add (ret limits)
           (list_of [branch (ret confirmation)
                    (str
                        (''Five fresh pairs use paired log-ratio Student-t bounds; temporal effects can violate their assumptions.''))
                    (str
                        (''Two short pairs have no confidence bounds; GPU-speed variation is not normalized away.'')),
                str ''A failed screen does not run the later full-model state qualification.'',
                str ''This experiment does not qualify 2K/4K context or the 5 tokens/s target.'']))
       (dict_of [(''comparable'', yes), (''status'', str ''measured''),
            (''scope'', add (ret axis)
                (branch (ret confirmation) (str ''_confirmation'') (str ''_conversation''))),
            (''comparison'', ret decision),
            (''controlled_change'', put (dict_of []) (ret axis)
                (branch (ret scratch) (list_of [str ''none'', str ''reuse''])
                    (list_of [str ''wait'', str ''overlap'']))),
            (''normal_request_latency_qualified'', no)]))))))"

definition compare_routing :: "(pyval \<Rightarrow> expr) \<Rightarrow> (pyval \<Rightarrow> expr) \<Rightarrow> pyval \<Rightarrow> (string \<Rightarrow> pyval \<Rightarrow> expr) \<Rightarrow> pyval \<Rightarrow> pyval \<Rightarrow> pyval \<Rightarrow> pyval \<Rightarrow> pyval \<Rightarrow> pyval \<Rightarrow> pyval \<Rightarrow> expr" where
  "compare_routing load_json read_json native_top_p libm data control candidate changes case' sources limits =
     bnd (eq (item (ret data) ''kind'') (str ''route_selection_confirmation_v1'')) (\<lambda>confirmation.
     reject (disjs [differs (ret case') none,
          ne (tuple_of [ret control, ret candidate])
              (tuple_of [str ''control'', str ''candidate'']),
          ne (set_of (ret changes)) (set_disp [str ''route_selection''])])
       ''Router comparison requires control/candidate and only route_selection'' (
     bnd (branch (ret confirmation)
         (bnd (confirm_routing read_json native_top_p libm (resolve_source load_json) data sources) (\<lambda>tup1.
           unpack2 tup1 (\<lambda>decision sources.
           Inr (decision, sources))))
         (bnd (revalidate_routing read_json native_top_p libm (resolve_source load_json) data
               sources) (\<lambda>tup2.
           unpack2 tup2 (\<lambda>decision sources.
           Inr (decision, sources))))) (\<lambda>(decision, sources).
     call3 query_result (ret sources)
       (add (ret limits)
           (list_of [str
                    (''Short workload comparisons cannot promote production or qualify the original target.''),
                str
                    (''Both timing arms use experimental packed Q8; its earlier first-token guard remains inconclusive.'')]))
       (dict_of [(''comparable'', yes), (''status'', str ''measured''),
            (''scope'', branch (ret confirmation) (str ''router_selection_confirmation'')
                (str ''router_selection_conversation'')),
            (''comparison'', ret decision),
            (''controlled_change'', dict_of [(''route_selection'', list_of [str ''serial'', str ''simd''])]),
            (''normal_request_latency_qualified'', no)]))))"

definition compare_budget :: "(pyval \<Rightarrow> expr) \<Rightarrow> (pyval \<Rightarrow> pyval \<Rightarrow> expr) \<Rightarrow> (pyval \<Rightarrow> expr) \<Rightarrow> pyval \<Rightarrow> (string \<Rightarrow> pyval \<Rightarrow> expr) \<Rightarrow> (pfloat \<Rightarrow> string) \<Rightarrow> pyval \<Rightarrow> pyval \<Rightarrow> pyval \<Rightarrow> pyval \<Rightarrow> pyval \<Rightarrow> pyval \<Rightarrow> pyval \<Rightarrow> expr" where
  "compare_budget load_json resample read_json native_top_p libm float_repr data control candidate changes case' sources limits =
     reject (disjs [differs (ret case') none,
          ne (tuple_of [ret control, ret candidate])
              (tuple_of [str ''control'', str ''candidate'']),
          ne (set_of (ret changes)) (set_disp [str ''memory_gb'', str ''expert_slots''])])
       ''Budget comparison requires control/candidate and exactly memory_gb and expert_slots'' (
     bnd (revalidate_budget resample read_json native_top_p libm float_repr
         (resolve_source load_json) data sources) (\<lambda>tup1.
     unpack2 tup1 (\<lambda>decision sources.
     call3 query_result (ret sources)
       (add (ret limits)
           (list_of [str ''Candidate uses six additional GiB of engine budget for expert cache.'',
                str
                    (''Two short pairs have no confidence bounds and do not qualify sustained or long-context performance.''),
                str
                    (''Both arms explicitly use experimental packed Q8; this does not change its prior inconclusive first-token guard.'')]))
       (dict_of [(''comparable'', yes), (''status'', str ''measured''),
            (''scope'', str ''memory_budget_conversation''), (''comparison'', ret decision),
            (''controlled_change'', dict_of [(''memory_gb'', list_of [num 12, num 18]),
                 (''expert_slots'', list_of [num 1848, num 4175])]),
            (''normal_request_latency_qualified'', no)]))))"

definition compare_q8 :: "(pyval \<Rightarrow> expr) \<Rightarrow> (pyval \<Rightarrow> pyval \<Rightarrow> expr) \<Rightarrow> (pyval \<Rightarrow> expr) \<Rightarrow> pyval \<Rightarrow> (string \<Rightarrow> pyval \<Rightarrow> expr) \<Rightarrow> (pfloat \<Rightarrow> string) \<Rightarrow> pyval \<Rightarrow> pyval \<Rightarrow> pyval \<Rightarrow> pyval \<Rightarrow> pyval \<Rightarrow> pyval \<Rightarrow> pyval \<Rightarrow> expr" where
  "compare_q8 load_json resample read_json native_top_p libm float_repr data control candidate changes case' sources limits =
     bnd (eq (item (ret data) ''kind'') (str ''q8_steady_confirmation_v1'')) (\<lambda>confirmation.
     reject (disjs [differs (ret case') none,
          ne (tuple_of [ret control, ret candidate])
              (tuple_of [str ''control'', str ''candidate'']),
          ne (set_of (ret changes)) (set_disp [str ''kernel_policy'', str ''q8_decode_rows''])])
       (''Q8 conversation requires control/candidate and the kernel_policy and q8_decode_rows changes'') (
     bnd (branch (ret confirmation)
         (bnd (confirm_q8 resample read_json native_top_p libm float_repr (resolve_source load_json)
               data sources) (\<lambda>tup1.
           unpack2 tup1 (\<lambda>decision sources.
           Inr (decision, sources))))
         (bnd (revalidate_steady resample read_json native_top_p libm float_repr
               (resolve_source load_json) data sources) (\<lambda>tup2.
           unpack2 tup2 (\<lambda>decision sources.
           Inr (decision, sources))))) (\<lambda>(decision, sources).
     call3 query_result (ret sources)
       (add (ret limits)
           (list_of [branch (ret confirmation)
                    (str
                        (''Five fresh pairs use a paired log-ratio Student-t interval; temporal effects can violate its assumptions.''))
                    (str
                        (''Two short conversation pairs are screening evidence without confidence bounds.'')),
                str
                    (''Operator timing compares against the previous two-row kernel; request timing compares against the original reference.''),
                str ''Short exact state checks do not qualify 7K context or sustained coding.'']))
       (dict_of [(''comparable'', yes), (''status'', str ''measured''),
            (''scope'', str ''q8_steady_conversation''), (''comparison'', ret decision),
            (''controlled_change'', dict_of [(''kernel_policy'', list_of [str ''reference'', str ''candidate'']),
                 (''q8_decode_rows'', list_of [num 0, num 2])]),
            (''normal_request_latency_qualified'', no)]))))"

definition compare_capacity :: "(pyval \<Rightarrow> expr) \<Rightarrow> (pyval \<Rightarrow> expr) \<Rightarrow> pyval \<Rightarrow> (string \<Rightarrow> pyval \<Rightarrow> expr) \<Rightarrow> pyval \<Rightarrow> pyval \<Rightarrow> pyval \<Rightarrow> pyval \<Rightarrow> pyval \<Rightarrow> pyval \<Rightarrow> pyval \<Rightarrow> expr" where
  "compare_capacity load_json read_json native_top_p libm data control candidate changes case' sources limits =
     reject (disjs [differs (ret case') none,
          ne (tuple_of [ret control, ret candidate])
              (tuple_of [str ''control'', str ''candidate'']),
          ne (set_of (ret changes)) (set_disp [str ''expert_slots''])])
       ''Capacity conversation requires control/candidate and exactly --change expert_slots'' (
     bnd (revalidate_capacity read_json native_top_p libm (resolve_source load_json) data sources) (\<lambda>tup1.
     unpack2 tup1 (\<lambda>decision sources.
     call3 query_result (ret sources)
       (add (ret limits)
           (list_of [str ''The fixed ceiling is equal; actual expert allocations intentionally differ.'',
                str
                    (''Boundary probes can warm hardware; diagnostic screens cannot qualify ordinary latency.''),
                str
                    (''Short histories do not establish long-context or sustained coding performance.'')]))
       (dict_of [(''comparable'', yes), (''status'', str ''measured''),
            (''scope'', str ''capacity_conversation''), (''comparison'', ret decision),
            (''controlled_change'', dict_of [(''expert_slots'', list_of [num 1848, num 1460])]),
            (''gpu_reference_mode'', item (ret data) ''gpu_reference_mode''),
            (''normal_request_latency_qualified'', no)]))))"

definition compare_cached :: "(pyval \<Rightarrow> pyval \<Rightarrow> expr) \<Rightarrow> pyval \<Rightarrow> pyval \<Rightarrow> pyval \<Rightarrow> pyval \<Rightarrow> pyval \<Rightarrow> pyval \<Rightarrow> pyval \<Rightarrow> expr" where
  "compare_cached resample data control candidate changes case' sources limits =
     reject (differs (ret case') none) ''--case selects normal workloads, not cached context'' (
     bnd (summarize_cached resample data) (\<lambda>summary.
     bnd (item (ret summary) ''comparison_axis'') (\<lambda>axis.
     reject (disjs [ne (set_of (ret changes)) (set_disp [ret axis]),
          ne (tuple_of [ret control, ret candidate])
              (tuple_of [str ''control'', str ''candidate''])])
       ''Declare the recorded cached axis and control/candidate arms'' (
     bnd none (\<lambda>identity.
     bnd (loop (item (ret data) ''runs'') identity (\<lambda>identity row.
       bnd (loop (tuple_of [item (ret row) ''before'', item (ret row) ''after'']) identity (\<lambda>identity state.
         bnd (tuple_of [item (ret state) ''artifact_revision'',
              item (item (ret state) ''prepared'') ''manifest_sha256'',
              item (item (ret state) ''metal'') ''device'',
              item (item (ret state) ''metal'') ''physical_bytes'',
              item (item (ret state) ''metal'') ''build_fingerprint'',
              item (item (ret state) ''memory_plan'') ''limit_bytes'']) (\<lambda>current.
         reject (disjs [some (ret current) (\<lambda>v. same (ret v) none),
              conjs [differs (ret identity) none, ne (ret current) (ret identity)]])
           ''Cached artifact, machine, build or budget differs'' (
         bnd (ret current) (\<lambda>identity.
         ret identity))))) (\<lambda>identity.
       ret identity))) (\<lambda>identity.
     reject (nay (get (ret data) ''input_sha256'')) ''Missing cached input identity'' (
     call3 query_result (ret sources)
       (add (ret limits)
           (list_of [str ''Zero-read cached timing is not normal-request latency.'',
                str
                    (''Within this report, native exact-state assertions are recorded evidence, not an independent oracle.'')]))
       (dict_of [(''comparable'', yes), (''status'', str ''measured''), (''scope'', str ''cached''),
            (''comparison'', ret summary),
            (''controlled_change'', put (dict_of []) (ret axis)
                (list_of [item (ret summary) ''control_value'', item (ret summary) ''candidate_value''])),
            (''normal_request_latency_qualified'', no)]))))))))"

definition compare_normal :: "(pyval \<Rightarrow> expr) \<Rightarrow> (pyval \<Rightarrow> pyval \<Rightarrow> expr) \<Rightarrow> (pyval \<Rightarrow> expr) \<Rightarrow> pyval \<Rightarrow> (pfloat \<Rightarrow> string) \<Rightarrow> pyval \<Rightarrow> pyval \<Rightarrow> pyval \<Rightarrow> pyval \<Rightarrow> pyval \<Rightarrow> pyval \<Rightarrow> pyval \<Rightarrow> expr" where
  "compare_normal load_json resample read_json native_top_p float_repr data control candidate changes case' sources limits =
     reject (ne (get (ret data) ''kind'') (str ''exact_kernel_normal_requests''))
       ''Select an exact_kernel_normal_requests summary or paired cached raw report'' (
     reject (differs (get (ret data) ''complete'') yes)
       ''Experiment is unfinished; partial pairs cannot answer whether it helped'' (
     bnd (each_dict (item (ret data) ''configurations'') (\<lambda>c. item (ret c) ''name'') (\<lambda>c. ret c)) (\<lambda>configs.
     reject (disjs [ne (size_of (ret configs)) (size_of (item (ret data) ''configurations'')),
          eq (ret control) (ret candidate)]) ''Duplicate configurations or identical arms'' (
     bnd (index (ret configs) (ret control)) (\<lambda>a.
     bnd (index (ret configs) (ret candidate)) (\<lambda>b.
     bnd (each_dict (each_if (union_of (set_of (ret a)) (set_of (ret b))) (\<lambda>k.
           conjs [ne (ret k) (str ''name''), ne (lookup (ret a) (ret k)) (lookup (ret b) (ret k))]) (\<lambda>x.
           ret x)) (\<lambda>k. ret k) (\<lambda>k. list_of [lookup (ret a) (ret k), lookup (ret b) (ret k)])) (\<lambda>difference.
     branch (disjs [nay (ret difference), ne (set_of (ret changes)) (set_of (ret difference))])
       (fail (add (str ''Declared changes must exactly match configuration differences: '')
             (encoded_value float_repr difference))) (
     bnd (each_if (item (ret data) ''measurements'') (\<lambda>r.
         conjs [isin (item (ret r) ''configuration'') (tuple_of [ret control, ret candidate]),
            disjs [same (ret case') none, eq (item (ret r) ''name'') (ret case')]]) (\<lambda>r. ret r)) (\<lambda>rows.
     reject (nay (ret rows)) ''No measurements for the selected workload'' (
     bnd (sorted_of (set_of (each (ret rows) (\<lambda>r. item (ret r) ''name'')))) (\<lambda>cases.
     bnd (branch (isin (str ''cases'') (ret data))
         (bnd (item (ret data) ''cases'') (\<lambda>declared.
           reject (disjs [nay (isinstance (ret declared) [TList]), nay (ret declared),
                ne (size_of (set_of (ret declared))) (size_of (ret declared)),
                conjs [same (ret case') none, ne (set_of (ret cases)) (set_of (ret declared))],
                conjs [differs (ret case') none, notin (ret case') (ret declared)]])
             ''Missing or inconsistent declared workload coverage'' (
           Inr ()))) (Inr ())) (\<lambda>unused.
     bnd (sorted_of (set_of (each (ret rows) (\<lambda>r. item (ret r) ''pair'')))) (\<lambda>pairs.
     reject (disjs [some (ret pairs) (\<lambda>p.
              disjs [isinstance (ret p) [TBool], nay (isinstance (ret p) [TInt])]),
          ne (ret pairs) (list_from (range_to (size_of (ret pairs))))])
       ''Pair indices must be contiguous from zero'' (
     reject (conjs [isin (str ''pairs'') (ret data), ne (item (ret data) ''pairs'') (size_of (ret pairs))])
       ''Missing recorded pairs'' (
     bnd (each (ret rows) (\<lambda>r.
         tuple_of [item (ret r) ''pair'', item (ret r) ''configuration'', item (ret r) ''name''])) (\<lambda>keys.
     reject (disjs [ne (size_of (ret keys)) (size_of (set_of (ret keys))),
          ne (set_of (ret keys))
              (set_of (flatten (each (ret pairs) (\<lambda>p.
                      flatten (each (tuple_of [ret control, ret candidate]) (\<lambda>c.
                          each (ret cases) (\<lambda>n. tuple_of [ret p, ret c, ret n])))))))])
       ''Missing or duplicate paired observations'' (
     bnd (loop (ret pairs) () (\<lambda>unused p.
       bnd (list_from (dict_fromkeys (each_if (ret rows) (\<lambda>r. eq (item (ret r) ''pair'') (ret p)) (\<lambda>r.
               item (ret r) ''configuration'')) none)) (\<lambda>observed.
       bnd (each_if (branch (eq (modulo (ret p) (num 2)) (num 0))
             (item (ret data) ''configurations'') (reversed_of (item (ret data) ''configurations''))) (\<lambda>c.
           isin (item (ret c) ''name'') (tuple_of [ret control, ret candidate])) (\<lambda>c.
           item (ret c) ''name'')) (\<lambda>order'.
       reject (ne (ret observed) (ret order')) ''Recorded arms are not alternating'' (
       Inr ()))))) (\<lambda>unused.
     bnd (dict_of [(''build'', item (ret data) ''build''),
          (''revision'', item (ret data) ''artifact_revision'')]) (\<lambda>expected.
     bnd (dict_of []) (\<lambda>workloads.
     bnd (dict_of []) (\<lambda>observations.
     bnd none (\<lambda>instrumentation.
     bnd none (\<lambda>common_identity.
     bnd (Inr (PSet [])) (\<lambda>used_reports.
     bnd (loop (ret rows)
         ((used_reports, sources, workloads, expected, common_identity, instrumentation, observations)) (\<lambda>(used_reports, sources, workloads, expected, common_identity, instrumentation, observations) row.
       bnd (item (ret row) ''report_sha256'') (\<lambda>report_hash.
       reject (disjs [nay (isinstance (ret report_hash) [TStr]), ne (size_of (ret report_hash)) (num 64),
            some (ret report_hash) (\<lambda>c. notin (ret c) (str ''0123456789abcdef''))])
         ''Raw report reference requires a full SHA256, not a prefix or path'' (
       reject (isin (ret report_hash) (ret used_reports))
         ''The same raw run cannot count as another pair or workload'' (
       bnd (set_add (ret used_reports) (ret report_hash)) (\<lambda>used_reports.
       bnd (call1 load_json (ret report_hash)) (\<lambda>tup1.
       unpack2 tup1 (\<lambda>raw ref.
       bnd (append (ret sources)
           (merge (dict_from (ret ref)) (dict_of [(''pointer'', str ''/runs'')]))) (\<lambda>sources.
       reject (disjs [nay (isinstance (ret raw) [TDict]), nay (call2 terminal_result (ret raw) no)])
         ''Native report did not complete successfully'' (
       reject (same (get (ret raw) ''workloads'') none) ''Missing original token workload'' (
       reject (ne (size_of (item (ret raw) ''workloads'')) (size_of (item (ret raw) ''runs'')))
         ''Missing workload/continuation evidence'' (
       bnd (num 0) (\<lambda>history.
       bnd (loop (zip_of (item (ret raw) ''workloads'') (item (ret raw) ''runs'')) history (\<lambda>history tup2.
         unpack2 tup2 (\<lambda>work native.
           bnd (get (ret work) ''tokens'') (\<lambda>tokens.
           reject (disjs [nay (isinstance (ret tokens) [TList]), nay (ret tokens),
                some (ret tokens) (\<lambda>t. nay (type_in (ret t) [TInt]))])
             ''Missing or invalid original token IDs'' (
           bnd (branch (get (ret work) ''append'') (add (ret history) (size_of (ret tokens)))
               (size_of (ret tokens))) (\<lambda>prompt.
           reject (disjs [ne (item (ret native) ''name'') (item (ret work) ''name''),
                ne (item (ret native) ''prompt_tokens'') (ret prompt)])
             ''Recorded workload does not match executed prompt'' (
           bnd (branch (get (ret work) ''prime'')
               (reject (disjs [ne (get (ret native) ''finish_reason'') (str ''primed''),
                      ne (item (ret native) ''output_tokens'') (num 0)])
                   ''History prime did not complete'' (
                 Inr ()))
               (reject (ne (get (ret work) ''max_tokens'') (item (ret native) ''output_tokens''))
                   ''Output length differs from original workload'' (
                 Inr ()))) (\<lambda>unused.
           bnd (add (ret prompt) (item (ret native) ''output_tokens'')) (\<lambda>history.
           ret history))))))))) (\<lambda>history.
       bnd (call1 (encoded_value float_repr) (item (ret raw) ''workloads'')) (\<lambda>workload.
       bnd (item (ret row) ''name'') (\<lambda>name.
       bnd (setdefault (ret workloads) (ret name) (ret workload)) (\<lambda>workloads.
       reject (ne (index (ret workloads) (ret name)) (ret workload))
         ''Original input tokens, history or output limits differ'' (
       bnd (item (index (item (ret raw) ''runs'') (num (- 1))) ''output_tokens'') (\<lambda>output.
       reject (lt (ret output) (num 2)) ''Decode timing requires at least two output tokens'' (
       bnd (bnd (index (ret configs) (item (ret row) ''configuration'')) (\<lambda>arg4.
           bnd (item (ret data) ''budget_bytes'') (\<lambda>arg5.
             validate read_json native_top_p raw arg4 expected arg5 output))) (\<lambda>tup3.
       unpack2 tup3 (\<lambda>observation expected.
       reject (ne (item (ret observation) ''name'') (ret name))
         ''Summary workload label differs from executed workload'' (
       bnd (loop (item (ret raw) ''runs'') (common_identity, instrumentation) (\<lambda>(common_identity, instrumentation) native_row.
         bnd (item (ret native_row) ''before'') (\<lambda>before.
         bnd (item (ret native_row) ''after'') (\<lambda>after.
         bnd (loop (tuple_of [str ''execution'', str ''completion_pipeline'', str ''ready_group'',
                str ''chunk_tokens'', str ''io_workers'']) () (\<lambda>unused k.
           reject (ne (lookup (ret before) (ret k)) (lookup (ret after) (ret k)))
             ''Runtime configuration changed during request'' (
           Inr ()))) (\<lambda>unused.
         reject (ne (item (item (ret before) ''metal'') ''kernels'')
             (item (item (ret after) ''metal'') ''kernels'')) ''Kernels changed during request'' (
         bnd (loop (tuple_of [item (ret native_row) ''before'', item (ret native_row) ''after''])
             (common_identity, instrumentation) (\<lambda>(common_identity, instrumentation) state.
           bnd (tuple_of [item (ret state) ''artifact_revision'',
                item (item (ret state) ''prepared'') ''manifest_sha256'',
                item (item (ret state) ''metal'') ''device'',
                item (item (ret state) ''metal'') ''physical_bytes'',
                item (item (ret state) ''metal'') ''build_fingerprint'',
                item (item (ret state) ''memory_plan'') ''limit_bytes'']) (\<lambda>actual.
           reject (disjs [some (ret actual) (\<lambda>v. same (ret v) none),
                conjs [differs (ret common_identity) none, ne (ret common_identity) (ret actual)]])
             ''Artifact, prepared bytes, build, machine or memory budget differs'' (
           bnd (ret actual) (\<lambda>common_identity.
           bnd (tuple_of [get (ret native_row) ''profiling_enabled'',
                get (item (item (ret state) ''metal'') ''kernels'') ''profile'',
                get (item (item (ret state) ''metal'') ''kernels'') ''counter_profile'']) (\<lambda>mode.
           reject (disjs [differs (index (ret mode) (num 0)) no, differs (index (ret mode) (num 1)) no,
                notin (index (ret mode) (num 2)) (tuple_of [none, no])])
             ''Instrumented or missing profiling mode cannot qualify normal timing'' (
           reject (conjs [differs (ret instrumentation) none, ne (ret instrumentation) (ret mode)])
             ''Instrumentation modes differ'' (
           bnd (ret mode) (\<lambda>instrumentation.
           Inr (common_identity, instrumentation)))))))))) (\<lambda>(common_identity, instrumentation).
         Inr (common_identity, instrumentation)))))))) (\<lambda>(common_identity, instrumentation).
       bnd (loop (tuple_of [str ''ttft_ms'', str ''decode_ms_per_token'', str ''request_ms'']) () (\<lambda>unused metric.
         bnd (call1 positive (index (ret observation) (ret metric))) (\<lambda>unused.
         branch (ne (lookup (ret row) (ret metric)) (index (ret observation) (ret metric)))
           (fail (add (str ''Summary metric differs from original native report: '') (ret metric))) (
         Inr ())))) (\<lambda>unused.
       bnd (put (ret observations)
           (tuple_of [item (ret row) ''pair'', item (ret row) ''configuration'', ret name])
           (ret observation)) (\<lambda>observations.
       Inr
         ((used_reports, sources, workloads, expected, common_identity, instrumentation, observations)))))))))))))))))))))))))))) (\<lambda>(used_reports, sources, workloads, expected, common_identity, instrumentation, observations).
     bnd (list_of []) (\<lambda>metrics.
     bnd (loop (ret cases) metrics (\<lambda>metrics name.
       bnd (loop (tuple_of [str ''ttft_ms'', str ''decode_ms_per_token'', str ''request_ms''])
           metrics (\<lambda>metrics metric.
         bnd (each (ret pairs) (\<lambda>p.
             index (index (ret observations) (tuple_of [ret p, ret control, ret name])) (ret metric))) (\<lambda>left.
         bnd (each (ret pairs) (\<lambda>p.
             index (index (ret observations) (tuple_of [ret p, ret candidate, ret name]))
               (ret metric))) (\<lambda>right.
         bnd (each (zip_of (ret left) (ret right)) (\<lambda>tup6.
             unpack2 tup6 (\<lambda>x y. truediv (ret y) (ret x)))) (\<lambda>ratios.
         bnd (append (ret metrics)
             (dict_of [(''case'', ret name), (''metric'', ret metric), (''pairs'', size_of (ret pairs)),
                  (''control_median'', median (ret left)),
                  (''candidate_median'', median (ret right)), (''ratios'', ret ratios),
                  (''median_ratio'', median (ret ratios)),
                  (''confidence_95'', branch (ge (size_of (ret pairs)) (num 5))
                      (paired_interval resample ratios) none)])) (\<lambda>metrics.
         ret metrics)))))) (\<lambda>metrics.
       ret metrics))) (\<lambda>metrics.
     bnd (branch (lt (size_of (ret pairs)) (num 5))
         (bnd (append (ret limits)
               (str
                   (''Fewer than five pairs: descriptive screen only; no confidence bounds or latency qualification.''))) (\<lambda>limits.
           ret limits)) (ret limits)) (\<lambda>limits.
     bnd (branch (same (index (ret instrumentation) (num 2)) none)
         (bnd (append (ret limits)
               (str
                   (''Legacy reports record profiling disabled but omit a separate counter_profile field.''))) (\<lambda>limits.
           ret limits)) (ret limits)) (\<lambda>limits.
     bnd (append (ret limits)
         (str
             (''No separate Metal validation environment receipt is available in legacy normal summaries.''))) (\<lambda>limits.
     call3 query_result (ret sources) (ret limits)
       (dict_of [(''comparable'', yes), (''status'', str ''measured''),
            (''scope'', str ''normal_requests''), (''controlled_change'', ret difference),
            (''correctness'', dict_of [(''generated_tokens_equal'', yes),
                 (''full_model_logits_and_state'', str ''not established by this timing query'')]),
            (''metrics'', ret metrics), (''normal_request_latency_qualified'', no)])))))))))))))))))))))))))))))))"

definition memory_query :: "(pyval \<Rightarrow> expr) \<Rightarrow> pyval \<Rightarrow> pyval \<Rightarrow> pyval \<Rightarrow> expr" where
  "memory_query find_source selector limit offset =
     bnd (call1 find_source (ret selector)) (\<lambda>tup1.
     unpack2 tup1 (\<lambda>raw source.
     bnd none (\<lambda>coverage.
     bnd (branch (endswith (item (ret source) ''path'') (str ''.jsonl''))
         (bnd (splitlines_of (ret raw)) (\<lambda>lines.
           bnd (each (slice (ret lines) none (ret LINE_LIMIT)) (\<lambda>line.
               branch (strip_of (ret line)) (parse_value line) none)) (\<lambda>data.
           bnd (dict_of [(''file_lines'', size_of (ret lines)),
                (''returned_to_parser'', min_args [size_of (ret lines), ret LINE_LIMIT]),
                (''query_truncated'', gt (size_of (ret lines)) (ret LINE_LIMIT))]) (\<lambda>coverage.
           Inr (data, coverage)))))
         (bnd (parse_value raw) (\<lambda>data.
           Inr (data, coverage)))) (\<lambda>(data, coverage).
     bnd (snapshots data) (\<lambda>rows.
     bnd (branch (ret coverage)
         (bnd (list_of []) (\<lambda>marked.
           bnd (loop (ret rows) marked (\<lambda>marked row.
             bnd (put (ret row) (str ''pointer'')
                 (add (str ''line:'')
                     (format_of [add (int_of (index (split_of (item (ret row) ''pointer'') CHR ''/'')
                                  (num 1))) (num 1)]))) (\<lambda>row.
             bnd (append (ret marked) (ret row)) (\<lambda>marked.
             ret marked)))) (\<lambda>marked.
           bnd (ret marked) (\<lambda>rows.
           ret rows)))) (ret rows)) (\<lambda>rows.
     call3 query_result (list_of [ret source])
       (list_of [str
                (''Plans are capacity budgets, not measured allocations; nested categories overlap and are not added.''),
            str
                (''Physical footprint includes more than Metal allocations; missing values remain null.''),
            str
                (''Owner-held bytes and device resource sizes are not physical residency; system VM categories overlap.''),
            str
                (''A memory trace query shows recorded samples; it does not establish complete capture or qualify latency.''),
            str
                (''Only recorded lifecycle boundaries are shown. Model destruction or final drain must not be inferred.'')])
       (dict_of [(''status'', branch (ret rows) (str ''recorded_snapshots'')
                (str ''missing_measurements'')),
            (''snapshots'', slice (ret rows) (ret offset) (add (ret offset) (ret limit))),
            (''total'', size_of (ret rows)), (''coverage'', ret coverage),
            (''next_offset'', branch (lt (add (ret offset) (ret limit)) (size_of (ret rows)))
                (add (ret offset) (ret limit)) none)])))))))"

definition timeline :: "(pyval \<Rightarrow> expr) \<Rightarrow> pyval \<Rightarrow> pyval \<Rightarrow> pyval \<Rightarrow> pyval \<Rightarrow> pyval \<Rightarrow> pyval \<Rightarrow> expr" where
  "timeline find_source selector phase layer token limit offset =
     bnd (call1 find_source (ret selector)) (\<lambda>tup1.
     unpack2 tup1 (\<lambda>raw source.
     bnd (branch (endswith (item (ret source) ''path'') (str ''.jsonl''))
         (bnd (splitlines_of (ret raw)) (\<lambda>lines.
           bnd (dict_of [(''query_line_limit'', ret LINE_LIMIT),
                (''query_truncated'', gt (size_of (ret lines)) (ret LINE_LIMIT))]) (\<lambda>data.
           bnd (each_if (numbered (slice (ret lines) none (ret LINE_LIMIT)) 1) (\<lambda>tup2.
               unpack2 tup2 (\<lambda>n line. strip_of (ret line))) (\<lambda>tup3.
               unpack2 tup3 (\<lambda>n line. tuple_of [format_of [str ''line:'', ret n], parse_value line]))) (\<lambda>events.
           Inr (data, events)))))
         (bnd (parse_value raw) (\<lambda>data.
           reject (nay (isinstance (ret data) [TDict])) ''Select a profile object or JSONL trace'' (
           bnd (each (numbered (get_or (ret data) ''expert_dependencies'' (list_of [])) 0) (\<lambda>tup4.
               unpack2 tup4 (\<lambda>n e.
                 tuple_of [format_of [str ''/expert_dependencies/'', ret n], ret e]))) (\<lambda>events.
           Inr (data, events)))))) (\<lambda>(data, events).
     bnd (list_of []) (\<lambda>selected.
     bnd (num 0) (\<lambda>total_records.
     bnd no (\<lambda>records_missing.
     bnd (loop (ret events) (records_missing, total_records, selected) (\<lambda>(records_missing, total_records, selected) tup5.
       unpack2 tup5 (\<lambda>pointer event.
         branch (nay (isinstance (ret event) [TDict]))
           (Inr (records_missing, total_records, selected)) (
         branch (conjs [differs (ret phase) none, ne (get (ret event) ''request_phase'') (ret phase)])
           (Inr (records_missing, total_records, selected)) (
         branch (conjs [differs (ret layer) none, ne (get (ret event) ''layer'') (ret layer)])
           (Inr (records_missing, total_records, selected)) (
         branch (conjs [differs (ret token) none,
              nay (conjs [isinstance (get (ret event) ''offset'') [TInt],
                     isinstance (get (ret event) ''tokens'') [TInt],
                     conjs [le (item (ret event) ''offset'') (ret token),
                          lt (ret token)
                              (add (item (ret event) ''offset'') (item (ret event) ''tokens''))]])])
           (Inr (records_missing, total_records, selected)) (
         bnd (get (ret event) ''records'') (\<lambda>records.
         bnd (branch (same (ret records) none)
             (bnd yes (\<lambda>records_missing.
               Inr (records_missing, total_records)))
             (branch (nay (isinstance (ret records) [TList]))
                 (Inl (ValueError ''Invalid expert lifecycle records'')) (
               bnd (add (ret total_records) (size_of (ret records))) (\<lambda>total_records.
               Inr (records_missing, total_records))))) (\<lambda>(records_missing, total_records).
         bnd (tuple_of [str ''layer'', str ''offset'', str ''tokens'', str ''request_phase'',
              str ''duration_ns'', str ''coordinator_wait_ns'', str ''last_required_read_ns'',
              str ''read_queue_sum_ns'', str ''read_service_sum_ns'', str ''ready_to_gpu_sum_ns'',
              str ''gpu_execution_sum_ns'', str ''ready_hits'', str ''loading_joins'',
              str ''new_misses'', str ''peak_leases'', str ''peak_gpu_groups'']) (\<lambda>fields'.
         bnd (append (ret selected)
             (merge (merge (dict_of [(''pointer'', ret pointer)])
                   (each_dict (ret fields') (\<lambda>k. ret k) (\<lambda>k. lookup (ret event) (ret k))))
                 (dict_of [(''records'', branch (differs (ret records) none)
                          (slice (ret records) none (num 8)) none),
                      (''recorded_records'', branch (differs (ret records) none)
                          (size_of (ret records)) none),
                      (''returned_records'', branch (differs (ret records) none)
                          (min_args [num 8, size_of (ret records)]) none)]))) (\<lambda>selected.
         Inr (records_missing, total_records, selected)))))))))))) (\<lambda>(records_missing, total_records, selected).
     call3 query_result (list_of [ret source])
       (list_of [str ''Times can overlap; sums are not a critical-path decomposition.'',
            str
                (''Expert lifecycle timestamps are joined only within the recorded entry. No cross-file command/request IDs are invented.''),
            str
                (''Blocking reasons (data, GPU capacity, free buffer, prior computation) are not separately recorded.''),
            str
                (''Detailed capture may omit later tokens/panels, even when the command trace reports truncated=false.''),
            str
                (''At most eight expert lifecycles per returned pass; source pointers retain the full captured records.'')])
       (dict_of [(''status'', branch (ret selected) (str ''recorded_partial_timeline'')
                (str ''no_matching_captured_events'')),
            (''coverage'', dict_of [(''capture_limits'', get (ret data) ''dependency_capture_limits''),
                 (''command_trace_truncated'', get (ret data) ''truncated''),
                 (''query_line_limit'', get (ret data) ''query_line_limit''),
                 (''query_truncated'', get (ret data) ''query_truncated''),
                 (''matching_passes'', size_of (ret selected)),
                 (''matching_read_records'', branch (ret records_missing) none (ret total_records)),
                 (''whole_request_covered'', none)]),
            (''passes'', slice (ret selected) (ret offset) (add (ret offset) (ret limit))),
            (''next_offset'', branch (lt (add (ret offset) (ret limit)) (size_of (ret selected)))
                (add (ret offset) (ret limit)) none)]))))))))"

end
