(* ===== verification/MtpQueries.thy ===== *)
theory MtpQueries
  imports EvidenceQueries MtpComparison StreamedMtp SealedEvidence
begin

text \<open>
  Queries over multi-token-prediction experiments (\<open>scripts/qwen/mtp_evidence.py\<close>,
  \<open>streamed_mtp_evidence.py\<close> and \<open>prerequisite\<close> of \<open>screen_streamed_mtp.py\<close>): the runs of an experiment, their
  cycles, and the comparison of its arms recomputed from the raw files of a sealed directory.
\<close>

text \<open>Paths: \<open>Path(p).parent\<close>, \<open>root / name\<close> and \<open>Path(p).resolve()\<close>.\<close>

definition parent_path :: "pyval \<Rightarrow> expr" where
  "parent_path path =
     (case path of
        PStr s \<Rightarrow> (let front = rev (dropWhile (\<lambda>c. c \<noteq> CHR ''/'') (rev s))
                   in Inr (PStr (if length front \<le> 1 then front else butlast front)))
      | _ \<Rightarrow> Inl TypeError)"

definition join_path :: "pyval \<Rightarrow> pyval \<Rightarrow> expr" where
  "join_path root' name =
     (case (root', name) of
        (PStr r, PStr n) \<Rightarrow> Inr (PStr (if starts ''/'' n then n else r @ ''/'' @ n))
      | _ \<Rightarrow> Inl TypeError)"

definition resolved_path :: "(string \<Rightarrow> string) \<Rightarrow> pyval \<Rightarrow> expr" where
  "resolved_path absolute path = (case path of PStr s \<Rightarrow> Inr (PStr (absolute s)) | _ \<Rightarrow> Inl TypeError)"

text \<open>\<open>original\<close>, \<open>child\<close> and the two uses of \<open>verify_seal\<close>; \<open>tree_of\<close> lists the entries of a directory.\<close>

definition original_file :: "(string \<Rightarrow> string) \<Rightarrow> (string \<Rightarrow> string) \<Rightarrow> file_system \<Rightarrow> pyval \<Rightarrow> pyval \<Rightarrow> expr" where
  "original_file sha256 absolute fs path expected =
     (case path of
        PStr s \<Rightarrow>
          bnd (read_file fs (absolute s)) (\<lambda>raw.
          if expected \<noteq> PNone \<and> \<not> py_eq (PStr (sha256 raw)) expected then
            Inl (ValueError (''Changed raw evidence: '' @ absolute s))
          else bnd (parse raw) (\<lambda>data.
            Inr (PTuple [data, PDict [(''path'', PStr (absolute s)), (''sha256'', PStr (sha256 raw))]])))
      | _ \<Rightarrow> Inl TypeError)"

definition child_path :: "(string \<Rightarrow> string) \<Rightarrow> pyval \<Rightarrow> pyval \<Rightarrow> expr" where
  "child_path absolute root' name =
     (case (root', name) of
        (PStr r, PStr n) \<Rightarrow>
          (let base = absolute r; path = absolute (if starts ''/'' n then n else base @ ''/'' @ n)
           in if prefix (parts base) (parts path) \<and> parts path \<noteq> parts base then Inr (PStr path)
              else Inl (ValueError ''Evidence path escapes experiment''))
      | _ \<Rightarrow> Inl TypeError)"

definition given_seal :: "(string \<Rightarrow> string) \<Rightarrow> (string \<Rightarrow> directory result) \<Rightarrow> pyval \<Rightarrow> pyval \<Rightarrow> expr" where
  "given_seal sha256 tree_of root' digest' =
     (case root' of
        PStr r \<Rightarrow>
          bnd (tree_of r) (\<lambda>t.
          (case digest' of
             PStr d \<Rightarrow> bnd (verify_seal sha256 r t d) (\<lambda>unused. Inr PNone)
           | _ \<Rightarrow> bnd (tree_bytes t) (\<lambda>unused. bnd (file_digest sha256 t INDEX_NAME) (\<lambda>d.
                  Inl (ValueError ''Changed evidence index'')))))
      | _ \<Rightarrow> Inl TypeError)"

definition own_seal :: "(string \<Rightarrow> string) \<Rightarrow> (string \<Rightarrow> directory result) \<Rightarrow> pyval \<Rightarrow> expr" where
  "own_seal sha256 tree_of root' =
     (case root' of
        PStr r \<Rightarrow>
          bnd (tree_of r) (\<lambda>t.
          bnd (file_digest sha256 t INDEX_NAME) (\<lambda>d.
          bnd (verify_seal sha256 r t d) (\<lambda>unused. Inr PNone)))
      | _ \<Rightarrow> Inl TypeError)"

text \<open>\<open>sha(path)\<close>: the whole file is read.\<close>

definition file_sha :: "(string \<Rightarrow> string) \<Rightarrow> file_system \<Rightarrow> pyval \<Rightarrow> expr" where
  "file_sha sha256 fs path =
     (case path of PStr s \<Rightarrow> bnd (content (fs s)) (\<lambda>raw. Inr (PStr (sha256 raw))) | _ \<Rightarrow> Inl TypeError)"

text \<open>\<open>labels\<close> with the eight names its regular expression matches.\<close>

definition SAMPLE_NAMES :: "(string \<times> int \<times> int \<times> string) list" where
  "SAMPLE_NAMES =
     [(''width-'' @ dec w @ ''-pair-'' @ dec p @ ''-'' @ arm @ ''.json'', int w, int p, arm).
        w \<leftarrow> [1, 4], p \<leftarrow> [0, 1], arm \<leftarrow> [''resident'', ''rows'']]"

definition sample_labels :: "pyval \<Rightarrow> expr" where
  "sample_labels sample =
     bnd (item (ret sample) ''source'') (\<lambda>source.
     case source of
       PStr s \<Rightarrow>
         (case map_of SAMPLE_NAMES s of
            None \<Rightarrow> Inl (ValueError ''Unexpected storage sample name'')
          | Some (width, pair, arm) \<Rightarrow>
              check (conjs [eq (item (ret sample) ''width'') (num width), eq (item (ret sample) ''embedding_storage'') (str arm)])
                ''Storage sample labels changed'' (
              dict_of [(''case'', str (''width-'' @ dec (nat width))), (''width'', num width), (''pair'', num pair), (''arm'', str arm)]))
     | _ \<Rightarrow> Inl TypeError)"

definition storage_cases :: "expr \<Rightarrow> expr" where
  "storage_cases reference_work =
     bnd (merge (dict_from reference_work)
         (dict_of [(''max_tokens'', num 7), (''name'', str ''irregular-seven'')])) (\<lambda>work.
     add (add (list_of [tuple_of [num 1, merge (dict_from (ret work)) (dict_of [(''force_prefix'', num 1)])]])
         (each (range_between (num 1) (num 5)) (\<lambda>keep.
             tuple_of [num 4, merge (dict_from (ret work)) (dict_of [(''force_prefix'', ret keep)])])))
       (list_of [tuple_of [num 4,
                 merge (dict_from (ret work))
                     (dict_of [(''name'', str ''immediate-eos''),
                          (''eos_ids'', list_of [item (ret work) ''expected_prompt_id'']),
                          (''force_prefix'', num 1)])]]))"

definition diagnostic_resources :: "pyval \<Rightarrow> pyval \<Rightarrow> expr" where
  "diagnostic_resources result raw =
     bnd (list_of [item (ret raw) ''before_load'', item (item (ret raw) ''before'') ''process'',
          item (item (ret raw) ''after'') ''process'', item (ret raw) ''after_destroy'']) (\<lambda>memory.
     bnd (add (ret memory)
         (flatten (each (item (ret raw) ''cycles'') (\<lambda>c.
               each (tuple_of [str ''memory_before'', str ''memory_after'']) (\<lambda>k.
                 index (ret c) (ret k)))))) (\<lambda>memory.
     check (conjs [item (ret result) ''clean_host'',
          le (max_of (each (ret memory) (\<lambda>m. item (ret m) ''compressed_peak_bytes'')))
              (num (128 * 1024 ^ 2)),
          eq (size_of (set_of (each (ret memory) (\<lambda>m. item (ret m) ''system_swap_used_bytes''))))
              (num 1)]) ''Numerical diagnostic exceeded its explicit resource bound'' (
     none)))"

definition checked_diagnostic :: "pyval \<Rightarrow> pyval \<Rightarrow> expr" where
  "checked_diagnostic result raw =
     attempt [''ValueError''] (diagnostic_resources result raw) (\<lambda>error.
       blocked (call2 resource_failure (ret raw) (str ''Numerical diagnostic resource bound'')))"

definition prerequisite :: "(pyval \<Rightarrow> expr) \<Rightarrow> (string \<Rightarrow> string) \<Rightarrow> (string \<Rightarrow> string) \<Rightarrow> file_system \<Rightarrow> (string \<Rightarrow> directory result) \<Rightarrow> expr \<Rightarrow> (pyval \<Rightarrow> expr) \<Rightarrow> pyval \<Rightarrow> pyval \<Rightarrow> pyval \<Rightarrow> expr" where
  "prerequisite read_json sha256 absolute fs tree_of reference_work file_list source' proof preliminary =
     bnd (resolved_path absolute source') (\<lambda>source'.
     bnd (own_seal sha256 tree_of source') (\<lambda>unused.
     bnd (call1 read_json (call2 join_path (ret source') (str ''summary.json''))) (\<lambda>summary.
     check (conjs [eq (item (ret summary) ''kind'') (str ''streamed_mtp_validation_v1''),
          same (item (ret summary) ''complete'') yes,
          eq (item (ret summary) ''status'') (str ''numerically_exact''),
          eq (call1 read_json (call2 join_path (ret source') (str ''producer.json''))) (ret proof),
          eq (size_of (item (ret summary) ''samples''))
              (mul (num 2) (size_of (storage_cases reference_work)))])
       ''Complete same-producer numerical validation required'' (
     bnd yes (\<lambda>clean.
     bnd (loop (numbered (storage_cases reference_work) 0) clean (\<lambda>clean tup4.
       unpack2 tup4 (\<lambda>case' tup5.
         unpack2 tup5 (\<lambda>width work.
           bnd (list_of []) (\<lambda>pair.
           bnd (loop (ret STREAMED_ARMS) (clean, pair) (\<lambda>(clean, pair) arm.
             bnd (call2 join_path (ret source')
                 (format_of [str ''case-'', ret case', str ''-'', ret arm, str ''.json''])) (\<lambda>path.
             bnd (call2 join_path (ret source')
                 (format_of [str ''case-'', ret case', str ''-'', ret arm, str ''.input.json''])) (\<lambda>inp.
             check (eq (read_json inp) (ret work)) ''Changed validation workload'' (
             bnd (read_json path) (\<lambda>raw.
             bnd (bnd (file_sha sha256 fs inp) (\<lambda>arg1.
                 bnd (item (ret proof) ''binary_sha256'') (\<lambda>arg2.
                   bnd (get_or (ret proof) ''draft_priming_policy'' (str ''completion'')) (\<lambda>arg3.
                     observe_streamed raw work arg1 arg2 width arm (PBool True) arg3)))) (\<lambda>result.
             bnd (bit_and (ret clean)
                 (conjs [item (ret result) ''clean_memory'', item (ret result) ''clean_host''])) (\<lambda>clean.
             bnd (branch (ret preliminary)
                 (bnd (checked_diagnostic result raw) (\<lambda>unused.
                   Inr ()))
                 (check (conjs [item (ret result) ''clean_memory'', item (ret result) ''clean_host''])
                     ''Validation resources disturbed'' (
                   Inr ()))) (\<lambda>unused.
             bnd (append (ret pair) (ret raw)) (\<lambda>pair.
             Inr (clean, pair))))))))))) (\<lambda>(clean, pair).
           bnd (call2 compare (index (ret pair) (num 0)) (index (ret pair) (num 1))) (\<lambda>unused.
           ret clean))))))) (\<lambda>clean.
     check (same (item (ret summary) ''resource_qualified'') (ret clean))
       ''Validation summary changed resource qualification'' (
     tuple_of [call1 file_list (ret source'), ret clean])))))))"

definition SCREENS :: pyval where
  "SCREENS =
     PSet [PStr ''mtp_direct_output_screen_v1'', PStr ''mtp_target_recovery_screen_v1'',
        PStr ''mtp_width_screen_v1'', PStr ''streamed_mtp_screen_v1'']"

definition records :: "(pyval \<Rightarrow> expr) \<Rightarrow> (string \<Rightarrow> string) \<Rightarrow> (string \<Rightarrow> string) \<Rightarrow> file_system \<Rightarrow> pyval \<Rightarrow> expr" where
  "records load_json sha256 absolute fs selector =
     bnd (call1 load_json (ret selector)) (\<lambda>tup1.
     unpack2 tup1 (\<lambda>data source.
     check (isinstance (ret data) [TDict]) ''Select a native MTP report or supported MTP summary'' (
     branch (isin (get (ret data) ''kind'') (ret NATIVE))
       (tuple_of [list_of [tuple_of [ret data, ret source, dict_of []]], ret source, ret data]) (
     check (isin (get (ret data) ''kind'') (ret SCREENS)) ''Unsupported MTP experiment kind'' (
     bnd (call1 parent_path (item (ret source) ''path'')) (\<lambda>root.
     bnd (list_of []) (\<lambda>result.
     bnd (Inr (PSet [])) (\<lambda>seen.
     check (le (size_of (get_or (ret data) ''samples'' (list_of []))) (num 128))
       ''Too many MTP samples'' (
     bnd (loop (get_or (ret data) ''samples'' (list_of [])) (seen, result) (\<lambda>(seen, result) s.
       bnd (get (ret s) ''sha256'') (\<lambda>sha.
       check (conjs [isinstance (ret sha) [TStr], eq (size_of (ret sha)) (num 64),
            notin (ret sha) (ret seen)]) ''Duplicate or missing raw run hash'' (
       bnd (set_add (ret seen) (ret sha)) (\<lambda>seen.
       bnd (call2 (original_file sha256 absolute fs)
           (call2 (child_path absolute) (ret root) (item (ret s) ''source'')) (ret sha)) (\<lambda>tup2.
       unpack2 tup2 (\<lambda>raw ref.
       bnd (branch (eq (item (ret data) ''kind'') (str ''streamed_mtp_screen_v1''))
           (bnd (sample_labels s) (\<lambda>sample_labels.
             ret sample_labels))
           (bnd (each_dict (tuple_of [str ''case'', str ''pair'', str ''arm'']) (\<lambda>k. ret k) (\<lambda>k.
                 index (ret s) (ret k))) (\<lambda>sample_labels.
             ret sample_labels))) (\<lambda>sample_labels.
       bnd (append (ret result) (tuple_of [ret raw, ret ref, ret sample_labels])) (\<lambda>result.
       Inr (seen, result)))))))))) (\<lambda>(seen, result).
     tuple_of [ret result, ret source, ret data]))))))))))"

definition storage_compare :: "(pyval \<Rightarrow> expr) \<Rightarrow> (string \<Rightarrow> pyval \<Rightarrow> expr) \<Rightarrow> (string \<Rightarrow> string) \<Rightarrow> (string \<Rightarrow> string) \<Rightarrow> file_system \<Rightarrow> (string \<Rightarrow> directory result) \<Rightarrow> expr \<Rightarrow> (pyval \<Rightarrow> expr) \<Rightarrow> (pyval \<Rightarrow> pyval \<Rightarrow> expr) \<Rightarrow> pyval \<Rightarrow> pyval \<Rightarrow> pyval \<Rightarrow> pyval \<Rightarrow> pyval \<Rightarrow> pyval \<Rightarrow> pyval \<Rightarrow> expr" where
  "storage_compare read_json libm sha256 absolute fs tree_of reference_work file_list power_of runs source' data control candidate changes case' =
     check (conjs [eq (tuple_of [ret control, ret candidate]) (ret STREAMED_ARMS),
          eq (ret changes) (list_of [str ''embedding_storage''])])
       ''Declare only resident/rows embedding storage'' (
     bnd (screening_context data) (\<lambda>context.
     bnd (call1 parent_path (item (ret source') ''path'')) (\<lambda>root.
     bnd (own_seal sha256 tree_of root) (\<lambda>unused.
     bnd (call2 (original_file sha256 absolute fs)
         (call2 join_path (ret root) (str ''producer.json'')) none) (\<lambda>tup1.
     unpack2 tup1 (\<lambda>producer pref.
     bnd (call2 (original_file sha256 absolute fs)
         (call2 join_path (ret root) (str ''identity.json'')) none) (\<lambda>tup2.
     unpack2 tup2 (\<lambda>frozen fref.
     check (conjs [same (item (ret producer) ''complete'') yes,
          isin (item (ret producer) ''kind'')
              (tuple_of [str ''streamed_mtp_producer_v1'', str ''streamed_mtp_fixed_priming_producer_v1'']),
          eq (lookup (item (ret frozen) ''files'') (item (ret producer) ''binary''))
              (item (ret producer) ''binary_sha256'')]) ''Missing frozen storage producer'' (
     bnd (item (ret data) ''numerical_validation'') (\<lambda>validation.
     bnd (item (ret validation) ''path'') (\<lambda>directory.
     bnd (call2 (given_seal sha256 tree_of) (ret directory) (item (ret validation) ''seal_sha256'')) (\<lambda>unused.
     bnd (call3 (prerequisite read_json sha256 absolute fs tree_of reference_work file_list)
         (ret directory) (ret producer) yes) (\<lambda>tup3.
     unpack2 tup3 (\<lambda>listing clean.
     check (same (item (ret data) ''full_clean_correctness'') (ret clean))
       ''Changed numerical prerequisite qualification'' (
     bnd (list_of [ret source', ret pref, ret fref,
          dict_of [(''path'', call2 join_path (ret directory) (str ''evidence-files.json'')),
               (''sha256'', item (ret validation) ''seal_sha256'')]]) (\<lambda>sources.
     bnd (dict_of []) (\<lambda>keyed.
     bnd none (\<lambda>workload.
     bnd (loop (ret runs) (workload, keyed, sources) (\<lambda>(workload, keyed, sources) tup10.
       unpack3 tup10 (\<lambda>raw ref label.
         bnd (each (tuple_of [str ''width'', str ''pair'', str ''arm'']) (\<lambda>k.
             index (ret label) (ret k))) (\<lambda>tup4.
         unpack3 tup4 (\<lambda>width pair arm.
         bnd (tuple_of [ret width, ret pair, ret arm]) (\<lambda>key.
         check (notin (ret key) (ret keyed)) ''Duplicate storage sample'' (
         bnd (next_of (item (ret data) ''samples'') (\<lambda>s.
             eq (item (ret s) ''sha256'') (item (ret ref) ''sha256'')) (\<lambda>s. ret s)) (\<lambda>sample.
         bnd (call2 (child_path absolute) (ret root) (item (ret sample) ''input'')) (\<lambda>inp.
         bnd (call2 (original_file sha256 absolute fs) (ret inp) none) (\<lambda>tup5.
         unpack2 tup5 (\<lambda>work wref.
         bnd (branch (same (ret workload) none)
             (bnd (ret work) (\<lambda>workload.
               ret workload)) (ret workload)) (\<lambda>workload.
         check (eq (ret work) (ret workload)) ''Storage workloads differ'' (
         bnd (bnd (item (ret wref) ''sha256'') (\<lambda>arg6.
             bnd (item (ret producer) ''binary_sha256'') (\<lambda>arg7.
               bnd (get_or (ret producer) ''draft_priming_policy'' (str ''completion'')) (\<lambda>arg8.
                 observe_streamed raw work arg6 arg7 width arm (PBool False) arg8)))) (\<lambda>result.
         check (conjs [item (ret result) ''clean_memory'', item (ret result) ''clean_host''])
           ''Resource-disturbed storage timing'' (
         check (every (items_of (ret result)) (\<lambda>tup9.
             unpack2 tup9 (\<lambda>k v. eq (lookup (ret sample) (ret k)) (ret v))))
           ''Storage sample summary differs from raw observation'' (
         check (eq (item (ret producer) ''base_native_fingerprint'')
             (item (item (item (ret raw) ''before'') ''metal'') ''build_fingerprint''))
           ''Native base changed'' (
         bnd (account raw) (\<lambda>unused.
         bnd (put (ret keyed) (ret key) (ret raw)) (\<lambda>keyed.
         bnd (list_extend (ret sources) (tuple_of [ret ref, ret wref])) (\<lambda>sources.
         Inr (workload, keyed, sources))))))))))))))))))))) (\<lambda>(workload, keyed, sources).
     check (eq (set_of (each (ret keyed) (\<lambda>k. index (ret k) (num 0)))) (set_disp [num 1, num 4]))
       ''Missing storage width coverage'' (
     bnd (list_of []) (\<lambda>pairs.
     bnd (list_of []) (\<lambda>grouped.
     bnd (list_of []) (\<lambda>all_pairs.
     bnd (loop (tuple_of [num 4, num 1]) (all_pairs, pairs, grouped) (\<lambda>(all_pairs, pairs, grouped) width.
       bnd (sorted_of (set_of (each_if (ret keyed) (\<lambda>tup11.
               unpack3 tup11 (\<lambda>w p unused. eq (ret w) (ret width))) (\<lambda>tup12.
               unpack3 tup12 (\<lambda>w p unused. ret p))))) (\<lambda>numbers.
       check (isin (ret numbers) (tuple_of [list_of [num 0], list_of [num 0, num 1]]))
         ''Noncontiguous storage pairs'' (
       bnd (list_of []) (\<lambda>values.
       bnd (loop (ret numbers) (all_pairs, values, pairs) (\<lambda>(all_pairs, values, pairs) pair.
         check (every (ret STREAMED_ARMS) (\<lambda>arm.
             isin (tuple_of [ret width, ret pair, ret arm]) (ret keyed)))
           ''Incomplete storage pair'' (
         bnd (each_if (ret runs) (\<lambda>tup13.
             unpack3 tup13 (\<lambda>unused unused label.
               conjs [eq (item (ret label) ''width'') (ret width),
                  eq (item (ret label) ''pair'') (ret pair)])) (\<lambda>tup14.
             unpack3 tup14 (\<lambda>unused unused label. item (ret label) ''arm''))) (\<lambda>order'.
         check (eq (ret order')
             (list_from (branch (eq (ret pair) (num 0)) (ret STREAMED_ARMS)
                   (reversed_of (ret STREAMED_ARMS))))) ''Nonalternating storage pair'' (
         bnd (call2 compare
             (index (ret keyed) (tuple_of [ret width, ret pair, index (ret STREAMED_ARMS) (num 0)]))
             (index (ret keyed) (tuple_of [ret width, ret pair, index (ret STREAMED_ARMS) (num 1)]))) (\<lambda>result.
         bnd (merge (dict_of [(''width'', ret width), (''pair'', ret pair)]) (ret result)) (\<lambda>claim.
         bnd (append (ret all_pairs) (ret claim)) (\<lambda>all_pairs.
         bnd (append (ret values) (ret result)) (\<lambda>values.
         bnd (branch (disjs [same (ret case') none, eq (ret case') (format_of [str ''width-'', ret width])])
             (bnd (append (ret pairs) (ret claim)) (\<lambda>pairs.
               ret pairs)) (ret pairs)) (\<lambda>pairs.
         Inr (all_pairs, values, pairs))))))))))) (\<lambda>(all_pairs, values, pairs).
       bnd (each (ret values) (\<lambda>v. item (ret v) ''latency_ratio'')) (\<lambda>ratios.
       bnd (dict_of [(''pairs'', size_of (ret values)),
            (''geometric_latency_ratio'', call2 power_of (prod_of (ret ratios))
                (truediv (num 1) (size_of (ret ratios)))),
            (''measured_peak_savings_bytes'', each (ret values) (\<lambda>v.
                item (ret v) ''physical_peak_saved_bytes''))]) (\<lambda>summary.
       check (eq (index (item (ret data) ''by_width'') (format_of [ret width])) (ret summary))
         ''Storage width summary differs from raw evidence'' (
       bnd (branch (disjs [same (ret case') none, eq (ret case') (format_of [str ''width-'', ret width])])
           (bnd (append (ret grouped)
                 (merge (merge (dict_of [(''case'', format_of [str ''width-'', ret width])])
                       (ret summary)) (dict_of [(''confidence_95'', none)]))) (\<lambda>grouped.
             ret grouped)) (ret grouped)) (\<lambda>grouped.
       Inr (all_pairs, pairs, grouped))))))))))) (\<lambda>(all_pairs, pairs, grouped).
     check (conjs [eq (item (ret data) ''pairs'') (ret all_pairs), bool_of (ret pairs)])
       ''Missing, changed or unselected storage comparisons'' (
     merge (merge (dict_of [(''comparable'', yes), (''status'', str ''measured'')]) (ret context))
       (dict_of [(''controlled_change'', dict_of [(''embedding_storage'', list_from (ret STREAMED_ARMS))]),
            (''pairs'', ret pairs), (''cases'', ret grouped), (''sources'', ret sources),
            (''normal_request_latency_qualified'', no), (''production_promoted'', no),
            (''limitations'', list_of [str
                     (''One coding workload and at most two alternating pairs per width; no confidence bounds.''),
                 str
                     (''Each width is a separate storage comparison; workloads, widths and historical timings are not pooled.''),
                 str ''Memory savings do not establish a speedup from a larger expert cache.'',
                 str
                     (''A diagnostic numerical prerequisite does not qualify clean correctness or production adoption.''),
                 str
                     (''Long context, retained conversations and sustained coding remain unqualified.'')])]))))))))))))))))))))))))))"

definition cycles_measurement :: "(py_error \<Rightarrow> string) \<Rightarrow> pyval \<Rightarrow> expr" where
  "cycles_measurement message raw =
     bnd (account raw) (\<lambda>result.
     bnd (attempt [''KeyError'', ''TypeError'', ''ValueError'']
         (bnd (clean raw) (\<lambda>resources.
           bnd (merge (merge (ret result) (ret resources))
               (dict_of [(''resource_qualified'', conjs [item (ret resources) ''clean_memory'', item (ret resources) ''clean_host''])])) (\<lambda>result.
           ret result))) (\<lambda>error.
         bnd (merge (ret result)
             (dict_of [(''resource_qualified'', none), (''resource_error'', str (message error))])) (\<lambda>result.
         ret result))) (\<lambda>result.
     bnd (branch (differs (item (ret result) ''resource_qualified'') yes)
         (bnd (put (ret result) (str ''measured_tps'') none) (\<lambda>result.
           ret result)) (ret result)) (\<lambda>result.
     ret result)))"

definition cycles_identity :: "pyval \<Rightarrow> expr" where
  "cycles_identity raw =
     bnd (get_or (ret raw) ''before'' (dict_of [])) (\<lambda>before.
     bnd (get_or (ret before) ''metal'' (dict_of [])) (\<lambda>metal.
     dict_of [(''workload_sha256'', get (ret raw) ''input_sha256''),
        (''draft_manifest_sha256'', get (ret raw) ''draft_manifest_sha256''),
        (''artifact_revision'', get (ret before) ''artifact_revision''),
        (''prepared'', get (ret before) ''prepared''),
        (''native_build'', get (ret metal) ''build_fingerprint''),
        (''producer_binary_sha256'', get (ret raw) ''producer_binary_sha256''),
        (''admission'', get (ret raw) ''admission''), (''device'', get (ret metal) ''device''),
        (''kernel_policy'', get (ret metal) ''kernels''),
        (''validation'', get (ret raw) ''validation''), (''mode'', get (ret raw) ''mode''),
        (''target_recovery'', get (ret raw) ''target_recovery''),
        (''direct_output'', get (get_or (ret raw) ''direct_output_after'' (dict_of []))
            ''enabled''),
        (''requested_width'', get (ret raw) ''requested_width''),
        (''embedding_storage'', get (ret raw) ''embedding_storage'')]))"

definition cycles :: "(py_error \<Rightarrow> string) \<Rightarrow> (pyval \<Rightarrow> expr) \<Rightarrow> (string \<Rightarrow> string) \<Rightarrow> (string \<Rightarrow> string) \<Rightarrow> file_system \<Rightarrow> pyval \<Rightarrow> expr" where
  "cycles message load_json sha256 absolute fs selector =
     bnd (records load_json sha256 absolute fs selector) (\<lambda>tup1.
     unpack3 tup1 (\<lambda>runs source data.
     bnd (screening_context data) (\<lambda>context.
     bnd (merge (merge (dict_of [(''status'', branch (call2 terminal_result (ret data) no) (str ''measured'')
                  (str ''partial_diagnostic''))]) (ret context))
         (dict_of [(''runs'', each (ret runs) (\<lambda>tup2.
                  unpack3 tup2 (\<lambda>raw ref labels.
                    merge (merge (merge (dict_of []) (ret labels))
                        (dict_of [(''source'', ret ref),
                             (''identity'', cycles_identity raw)]))
                      (cycles_measurement message raw)))),
              (''sources'', list_of [ret source]),
              (''limitations'', list_of [str
                       (''Milliseconds are amortized per committed token, not individual token-delivery latencies.''),
                   str ''Recovery children are included in recovery and must not be added again.'',
                   str
                       (''Legacy checkpoint saving is inside other overhead; separate subdivisions are unavailable.''),
                   str ''Expert bytes are application reads, not observed device traffic.'',
                   str ''Incomplete cycles and runs do not establish a request throughput result.'',
                   str
                       (''Missing or disturbed resource observations exclude throughput and opportunity estimates.'')]),
              (''production_promoted'', no)])) (\<lambda>result.
     bnd (branch (item (ret context) ''preliminary'')
         (bnd (put (ret result) (str ''limitations'')
               (append (item (ret result) ''limitations'')
                   (str
                       (''Early screen only; full correctness eligibility is reported separately and production remains unqualified.'')))) (\<lambda>result.
           ret result)) (ret result)) (\<lambda>result.
     ret result)))))"

definition opportunity :: "(py_error \<Rightarrow> string) \<Rightarrow> (pyval \<Rightarrow> expr) \<Rightarrow> (string \<Rightarrow> string) \<Rightarrow> (string \<Rightarrow> string) \<Rightarrow> file_system \<Rightarrow> pyval \<Rightarrow> pyval \<Rightarrow> pyval \<Rightarrow> expr" where
  "opportunity message load_json sha256 absolute fs selector target_tps phase =
     check (conjs [type_in (ret target_tps) [TInt, TFloat], isfinite (ret target_tps),
          gt (ret target_tps) (num 0)]) ''Invalid target throughput'' (
     check (isin (ret phase)
         (tuple_from (list_extend (list_extend (list_from (ret ROOT_PHASES))
                 (list_of [str ''checkpoint_save''])) (list_from (ret RECOVERY_PARTS)))))
       ''Unsupported removable phase'' (
     bnd (cycles message load_json sha256 absolute fs selector) (\<lambda>out.
     bnd (eq (item (ret out) ''status'') (str ''measured'')) (\<lambda>parent_complete.
     bnd (list_of []) (\<lambda>runs.
     bnd (loop (item (ret out) ''runs'') runs (\<lambda>runs r.
       bnd (item (ret r) ''captured_committed_tokens'') (\<lambda>n.
       bnd (item (item (ret r) ''phase_ns'') ''wall'') (\<lambda>wall.
       bnd (branch (isin (ret phase) (ret RECOVERY_PARTS)) (item (ret r) ''recovery_part_ns'')
           (item (ret r) ''phase_ns'')) (\<lambda>available.
       bnd (branch (differs (ret available) none) (lookup (ret available) (ret phase)) none) (\<lambda>remove.
       bnd (branch (conjs [eq (ret phase) (str ''checkpoint_save''),
              nay (item (ret r) ''checkpoint_save_measured'')])
           (bnd none (\<lambda>remove.
             ret remove)) (ret remove)) (\<lambda>remove.
       bnd (conjs [ret parent_complete, item (ret r) ''complete'', item (ret r) ''timing_mode'',
            same (item (ret r) ''resource_qualified'') yes, differs (ret remove) none]) (\<lambda>eligible.
       bnd (put (ret r) (str ''opportunity'')
           (dict_of [(''target_tps'', ret target_tps),
                (''budget_ms_per_token'', truediv (num 1000) (ret target_tps)),
                (''removable_phase'', ret phase),
                (''gap_ms_per_token'', branch (ret eligible)
                    (max_args [num 0,
                         sub (truediv (truediv (ret wall) (ret n)) (flt 1000000))
                             (truediv (num 1000) (ret target_tps))]) none),
                (''optimistic_zero_phase_tps'', branch (conjs [ret eligible, gt (ret wall) (ret remove)])
                    (truediv (mul (ret n) (flt 1000000000)) (sub (ret wall) (ret remove))) none),
                (''phase_measured'', differs (ret remove) none)])) (\<lambda>r.
       bnd (append (ret runs) (ret r)) (\<lambda>runs.
       ret runs)))))))))) (\<lambda>runs.
     bnd (put (ret out) (str ''runs'') (ret runs)) (\<lambda>out.
     bnd (put (ret out) (str ''limitations'')
         (append (item (ret out) ''limitations'')
             (str
                 (''Zero-phase throughput subtracts that phase at unchanged other costs; it is an optimistic arithmetic bound, not a forecast.'')))) (\<lambda>out.
     ret out))))))))"

definition mtp_compare :: "(pyval \<Rightarrow> expr) \<Rightarrow> (pyval \<Rightarrow> expr) \<Rightarrow> (string \<Rightarrow> pyval \<Rightarrow> expr) \<Rightarrow> (string \<Rightarrow> string) \<Rightarrow> (string \<Rightarrow> string) \<Rightarrow> file_system \<Rightarrow> (string \<Rightarrow> directory result) \<Rightarrow> expr \<Rightarrow> (pyval \<Rightarrow> expr) \<Rightarrow> (pyval \<Rightarrow> pyval \<Rightarrow> expr) \<Rightarrow> pyval \<Rightarrow> pyval \<Rightarrow> pyval \<Rightarrow> pyval \<Rightarrow> pyval \<Rightarrow> expr" where
  "mtp_compare load_json read_json libm sha256 absolute fs tree_of reference_work file_list power_of selector control candidate changes case' =
     bnd (records load_json sha256 absolute fs selector) (\<lambda>tup1.
     unpack3 tup1 (\<lambda>runs source data.
     check (call2 terminal_result (ret data) no)
       ''Unfinished experiment cannot establish a paired result'' (
     branch (eq (item (ret data) ''kind'') (str ''streamed_mtp_screen_v1''))
       (storage_compare read_json libm sha256 absolute fs tree_of reference_work file_list power_of
           runs source data control candidate changes case') (
     bnd (eq (item (ret data) ''kind'') (str ''mtp_direct_output_screen_v1'')) (\<lambda>direct.
     bnd (eq (item (ret data) ''kind'') (str ''mtp_width_screen_v1'')) (\<lambda>widths.
     bnd (branch (ret widths)
         (check (conjs [eq (get (ret data) ''control_width'') (num 4),
                isin (get (ret data) ''candidate_width'') (tuple_of [num 1, num 2])])
             ''Invalid width experiment arms'' (
           Inr ())) (Inr ())) (\<lambda>unused.
     bnd (branch (ret widths)
         (tuple_of [str ''4'', format_of [item (ret data) ''candidate_width'']])
         (branch (ret direct) (tuple_of [str ''off'', str ''on''])
             (tuple_of [str ''full-replay'', str ''state-only'']))) (\<lambda>expected_arms.
     bnd (branch (ret widths) (str ''requested_width'')
         (branch (ret direct) (str ''direct_output'') (str ''target_recovery''))) (\<lambda>axis.
     check (conjs [eq (tuple_of [ret control, ret candidate]) (ret expected_arms),
          eq (ret changes) (list_of [ret axis])])
       ''Declare exactly the recorded MTP arms and change'' (
     bnd (call1 parent_path (item (ret source) ''path'')) (\<lambda>root.
     bnd (own_seal sha256 tree_of root) (\<lambda>unused.
     bnd (call2 (original_file sha256 absolute fs)
         (call2 join_path (ret root) (str ''producer.json'')) none) (\<lambda>tup2.
     unpack2 tup2 (\<lambda>producer pref.
     bnd (call2 (original_file sha256 absolute fs)
         (call2 join_path (ret root) (str ''identity.json'')) none) (\<lambda>tup3.
     unpack2 tup3 (\<lambda>frozen fref.
     bnd (branch (ret widths) (str ''mtp_width_producer_v1'')
         (branch (ret direct) (str ''mtp_direct_output_producer_v1'')
             (str ''target_recovery_producer_v1''))) (\<lambda>producer_kind.
     check (conjs [same (get (ret producer) ''complete'') yes,
          eq (get (ret producer) ''kind'') (ret producer_kind),
          eq (lookup (get_or (ret frozen) ''files'' (dict_of [])) (get (ret producer) ''binary''))
              (get (ret producer) ''binary_sha256'')]) ''Missing frozen producer identity'' (
     check (bool_of (ret runs)) ''Missing raw samples'' (
     bnd (dict_of []) (\<lambda>keyed.
     bnd (list_of [ret source, ret pref, ret fref]) (\<lambda>sources.
     bnd none (\<lambda>identity.
     bnd (loop (ret runs) (identity, keyed, sources) (\<lambda>(identity, keyed, sources) tup7.
       unpack3 tup7 (\<lambda>raw ref labels.
         bnd (item (ret labels) ''case'') (\<lambda>c.
         bnd (item (ret labels) ''pair'') (\<lambda>p.
         bnd (item (ret labels) ''arm'') (\<lambda>arm.
         bnd (call2 integer_mtp (ret c) (num 0)) (\<lambda>unused.
         bnd (call2 integer_mtp (ret p) (num 0)) (\<lambda>unused.
         check (conjs [isin (ret arm) (ret expected_arms),
              notin (tuple_of [ret c, ret p, ret arm]) (ret keyed)])
           ''Duplicate or unexpected sample'' (
         bnd (call2 (original_file sha256 absolute fs)
             (call2 (child_path absolute) (ret root)
                 (format_of [str ''case-'', ret c, str ''.json''])) none) (\<lambda>tup4.
         unpack2 tup4 (\<lambda>work wref.
         bnd (branch (ret widths)
             (check (eq (format_of [get (ret raw) ''requested_width'']) (ret arm))
                 ''Width arm differs from native setting'' (
               bnd (call4 observed (ret raw) (ret work) (item (ret wref) ''sha256'') no) (\<lambda>observed.
               ret observed)))
             (bnd (branch (ret direct)
                   (bnd (call4 observe_continuation (ret raw) (ret work)
                         (item (ret wref) ''sha256'') (str ''fast-timing'')) (\<lambda>observed.
                     ret observed))
                   (bnd (bnd (item (ret wref) ''sha256'') (\<lambda>arg5.
                         observe raw work arg5 (PBool False) (PBool False))) (\<lambda>observed.
                     ret observed))) (\<lambda>observed.
               ret observed))) (\<lambda>observed.
         check (conjs [item (ret observed) ''clean_host'', item (ret observed) ''clean_memory''])
           ''Resource-disturbed sample'' (
         bnd (next_of (item (ret data) ''samples'') (\<lambda>s.
             eq (item (ret s) ''sha256'') (item (ret ref) ''sha256'')) (\<lambda>s. ret s)) (\<lambda>claim.
         check (every (items_of (ret observed)) (\<lambda>tup6.
             unpack2 tup6 (\<lambda>k v. eq (lookup (ret claim) (ret k)) (ret v))))
           ''Sample summary differs from raw observations'' (
         bnd (account raw) (\<lambda>unused.
         bnd (item (ret raw) ''before'') (\<lambda>info.
         bnd (tuple_of [item (ret raw) ''draft_manifest_sha256'', item (ret info) ''artifact_revision'',
              item (item (ret info) ''prepared'') ''manifest_sha256'',
              item (item (ret info) ''metal'') ''build_fingerprint'',
              item (item (ret info) ''metal'') ''device'',
              item (item (ret info) ''metal'') ''physical_bytes'', item (ret raw) ''admission'']) (\<lambda>current.
         bnd (branch (same (ret identity) none)
             (bnd (ret current) (\<lambda>identity.
               ret identity)) (ret identity)) (\<lambda>identity.
         check (eq (ret identity) (ret current)) ''MTP machine, artifact, build or budget differs'' (
         check (conjs [eq (item (ret producer) ''base_native_fingerprint'')
                  (item (item (ret info) ''metal'') ''build_fingerprint''),
              disjs [ret direct,
                   eq (get (ret raw) ''producer_binary_sha256'')
                       (item (ret producer) ''binary_sha256'')]]) ''Run producer differs'' (
         bnd (branch (ret widths)
             (bnd (kernel_policy raw) (\<lambda>unused.
               Inr ())) (Inr ())) (\<lambda>unused.
         check (conjs [disjs [ret widths,
                   eq (item (item (ret info) ''metal'') ''kernels'')
                       (item (item (item (ret raw) ''after'') ''metal'') ''kernels'')],
              nay (item (item (item (ret info) ''metal'') ''kernels'') ''profile''),
              nay (item (item (item (ret info) ''metal'') ''kernels'') ''counter_profile'')])
           ''Instrumented or changed kernels'' (
         bnd (put (ret keyed) (tuple_of [ret c, ret p, ret arm]) (ret raw)) (\<lambda>keyed.
         bnd (list_extend (ret sources) (tuple_of [ret ref, ret wref])) (\<lambda>sources.
         Inr (identity, keyed, sources)))))))))))))))))))))))))) (\<lambda>(identity, keyed, sources).
     bnd (list_of []) (\<lambda>pairs.
     bnd (dict_of []) (\<lambda>grouped.
     bnd (loop (sorted_of (set_of (each (ret keyed) (\<lambda>k. index (ret k) (num 0))))) (pairs, grouped) (\<lambda>(pairs, grouped) c.
       bnd (sorted_of (set_of (each_if (ret keyed) (\<lambda>k. eq (index (ret k) (num 0)) (ret c)) (\<lambda>k.
               index (ret k) (num 1))))) (\<lambda>ns.
       check (eq (ret ns) (list_from (range_to (size_of (ret ns))))) ''Noncontiguous pairs'' (
       bnd (call2 (original_file sha256 absolute fs)
           (call2 join_path (ret root) (format_of [str ''case-'', ret c, str ''.json''])) none) (\<lambda>tup8.
       unpack2 tup8 (\<lambda>work unused.
       bnd (get_or (ret work) ''name'' (format_of [str ''case-'', ret c])) (\<lambda>name.
       bnd (loop (ret ns) (pairs, grouped) (\<lambda>(pairs, grouped) p.
         check (every (ret expected_arms) (\<lambda>a. isin (tuple_of [ret c, ret p, ret a]) (ret keyed)))
           ''Incomplete pair'' (
         bnd (each_if (ret runs) (\<lambda>x.
             conjs [eq (item (index (ret x) (num 2)) ''case'') (ret c),
                eq (item (index (ret x) (num 2)) ''pair'') (ret p)]) (\<lambda>x.
             item (index (ret x) (num 2)) ''arm'')) (\<lambda>order'.
         check (eq (ret order')
             (list_from (branch (eq (modulo (add (ret c) (ret p)) (num 2)) (num 0))
                   (ret expected_arms) (reversed_of (ret expected_arms)))))
           ''Nonalternating recorded order'' (
         bnd (each (ret expected_arms) (\<lambda>arm. index (ret keyed) (tuple_of [ret c, ret p, ret arm]))) (\<lambda>tup9.
         unpack2 tup9 (\<lambda>a b.
         bnd (branch (ret widths)
             (bnd (compare_widths a b) (\<lambda>comparison.
               ret comparison))
             (bnd (branch (ret direct)
                   (bnd (comparison_direct a b) (\<lambda>comparison.
                     ret comparison))
                   (bnd (comparison a b) (\<lambda>comparison.
                     ret comparison))) (\<lambda>comparison.
               ret comparison))) (\<lambda>comparison.
         bnd (each_if (get_or (ret data) ''pairs'' (list_of [])) (\<lambda>v.
             conjs [eq (get (ret v) ''case'') (ret c), eq (get (ret v) ''pair'') (ret p)]) (\<lambda>v.
             ret v)) (\<lambda>claims.
         check (conjs [eq (size_of (ret claims)) (num 1),
              every (items_of (ret comparison)) (\<lambda>tup10.
                  unpack2 tup10 (\<lambda>k v. eq (lookup (index (ret claims) (num 0)) (ret k)) (ret v)))])
           ''Summary pair differs from raw validation'' (
         bnd (branch (disjs [same (ret case') none, eq (ret case') (ret name)])
             (bnd (append (ret pairs)
                   (merge (dict_of [(''case'', ret name), (''pair'', ret p)]) (ret comparison))) (\<lambda>pairs.
               bnd (put (ret grouped) (ret name)
                   (append (lookup_or (ret grouped) (ret name) (list_of []))
                       (item (ret comparison) ''ratio''))) (\<lambda>grouped.
               Inr (pairs, grouped)))) (Inr (pairs, grouped))) (\<lambda>(pairs, grouped).
         Inr (pairs, grouped)))))))))))) (\<lambda>(pairs, grouped).
       Inr (pairs, grouped))))))))) (\<lambda>(pairs, grouped).
     check (bool_of (ret pairs)) ''No selected cases'' (
     check (eq (mul (size_of (get_or (ret data) ''pairs'' (list_of []))) (num 2))
         (size_of (ret runs))) ''Missing or duplicate summary pairs'' (
     bnd (screening_context data) (\<lambda>context.
     bnd (merge (merge (dict_of [(''comparable'', yes), (''status'', str ''measured'')])
           (ret context))
         (dict_of [(''controlled_change'', put (dict_of []) (ret axis) (list_from (ret expected_arms))),
              (''pairs'', ret pairs),
              (''cases'', each (items_of (ret grouped)) (\<lambda>tup11.
                  unpack2 tup11 (\<lambda>n rs.
                    dict_of [(''case'', ret n), (''pairs'', size_of (ret rs)),
                       (''geometric_mean_ratio'', call1 (libm ''exp'')
                           (truediv (sum_of (each (ret rs) (\<lambda>r. call1 (libm ''log'') (ret r))))
                               (size_of (ret rs)))),
                       (''confidence_95'', branch (ge (size_of (ret rs)) (num 5))
                           (paired_log_interval libm rs) none)]))),
              (''sources'', ret sources),
              (''limitations'', list_of [str
                       (''Each workload has its own repetitions; different cases are not repeated samples.''),
                   str ''Fewer than five paired runs have no confidence bound.'',
                   str ''These short screens do not qualify long-context or sustained inference.'']),
              (''normal_request_latency_qualified'', no), (''production_promoted'', no)])) (\<lambda>result.
     bnd (branch (item (ret context) ''preliminary'')
         (bnd (put (ret result) (str ''limitations'')
               (append (item (ret result) ''limitations'')
                   (str
                       (''Preliminary timing does not allow advancement. Numerical qualification is reported separately; promotion requires fresh timing evidence.'')))) (\<lambda>result.
           ret result)) (ret result)) (\<lambda>result.
     ret result)))))))))))))))))))))))))))))))"

definition related_history :: "(pyval \<Rightarrow> pyval \<Rightarrow> expr) \<Rightarrow> expr" where
  "related_history search_history =
     bnd (dict_of []) (\<lambda>found.
     bnd (loop (tuple_of [str ''mtp-width'', str ''target-state-recovery'', str ''mtp-forward/recovery'',
            str ''mtp-expert-scratch'', str ''mtp-direct-output'']) found (\<lambda>found phrase.
       bnd (loop (item (call2 search_history (ret phrase) (num 20)) ''results'') found (\<lambda>found row.
         bnd (put (ret found) (item (ret row) ''id'') (ret row)) (\<lambda>found.
         ret found))) (\<lambda>found.
       ret found))) (\<lambda>found.
     bnd (sorted_by (values_of (ret found)) (\<lambda>r.
         tuple_of [lookup_or (dict_of [(''rejected'', num 0), (''blocked'', num 1), (''inconclusive'', num 2),
                   (''promising'', num 3)]) (get (ret r) ''decision'') (num 4),
            item (ret r) ''id''])) (\<lambda>rows.
     each (slice (ret rows) none (num 10)) (\<lambda>r.
       each_dict (each_if (tuple_of [str ''id'', str ''kind'', str ''status'', str ''complete'', str ''decision'',
              str ''hypothesis'', str ''outcome'', str ''error'', str ''tags'',
              str ''rerun_rationale'', str ''sources'', str ''stale'']) (\<lambda>k. isin (ret k) (ret r)) (\<lambda>x.
           ret x)) (\<lambda>k. ret k) (\<lambda>k. index (ret r) (ret k))))))"

definition mtp_next :: "(py_error \<Rightarrow> string) \<Rightarrow> (pyval \<Rightarrow> expr) \<Rightarrow> (pyval \<Rightarrow> pyval \<Rightarrow> expr) \<Rightarrow> (pyval \<Rightarrow> expr) \<Rightarrow> (string \<Rightarrow> pyval \<Rightarrow> expr) \<Rightarrow> (string \<Rightarrow> string) \<Rightarrow> (string \<Rightarrow> string) \<Rightarrow> file_system \<Rightarrow> (string \<Rightarrow> directory result) \<Rightarrow> expr \<Rightarrow> (pyval \<Rightarrow> expr) \<Rightarrow> (pyval \<Rightarrow> pyval \<Rightarrow> expr) \<Rightarrow> pyval \<Rightarrow> expr" where
  "mtp_next message load_json search_history read_json libm sha256 absolute fs tree_of reference_work file_list power_of selector =
     bnd (call3 (opportunity message load_json sha256 absolute fs) (ret selector) (num 5) (str ''recovery'')) (\<lambda>out.
     bnd (merge (ret out)
         (dict_of [(''hypothesis'', str
                  ''Avoid repeated full target forwards during partial draft rejection.''),
              (''smallest_experiment'', str
                  (''Replay captured target state for every accepted prefix; then screen a fresh 64-token LRU pair.'')),
              (''missing_evidence'', list_of [str
                       (''target restore versus target repair versus draft catch-up costs on legacy reports''),
                   str ''fresh complete-cycle paired outcome for state-only target recovery'']),
              (''related_experiments'', related_history search_history)])) (\<lambda>out.
     branch (ne (item (ret out) ''status'') (str ''measured'')) (
     bnd (put (ret out) (str ''smallest_experiment'')
         (str
             (''Resolve the recorded blocker and collect a complete screen; this partial report selects no winner.''))) (\<lambda>out.
     ret out)) (
     bnd (records load_json sha256 absolute fs selector) (\<lambda>tup1.
     unpack3 tup1 (\<lambda>unused unused data.
     branch (some (item (ret out) ''runs'') (\<lambda>r. differs (item (ret r) ''resource_qualified'') yes))
       (bnd (merge (ret out)
             (dict_of [(''hypothesis'', str
                      (''Resource-disturbed or incomplete observations cannot rank performance candidates.'')),
                  (''smallest_experiment'', str
                      (''Collect a fresh clean sample after the recorded resource issue is resolved.'')),
                  (''missing_evidence'', list_of [str
                           (''Clean memory, unchanged swap, nominal thermal state and AC power observations'')])])) (\<lambda>out.
         ret out)) (
     bnd (branch (eq (get (ret data) ''kind'') (str ''streamed_mtp_screen_v1''))
         (bnd (bnd (list_of [str ''embedding_storage'']) (\<lambda>arg2.
               mtp_compare load_json read_json libm sha256 absolute fs tree_of reference_work
                 file_list power_of selector (PStr ''resident'') (PStr ''rows'') arg2 PNone)) (\<lambda>checked_rows.
           bnd (merge (ret out)
               (dict_of [(''validated_comparison'', ret checked_rows),
                    (''hypothesis'', str
                        ''Exact row storage can free memory for a separately tested cache policy.''),
                    (''smallest_experiment'', branch (eq (get (ret data) ''status'')
                          (str ''early_cost_regression''))
                        (str
                            (''Investigate the measured storage overhead before spending the saved memory.''))
                        (str
                            (''Capture complete current cache leases and compare admission or phase-workspace changes at the same total budget.''))),
                    (''missing_evidence'', branch (nay (item (ret data) ''full_clean_correctness''))
                        (list_of [str ''Clean full-model correctness'']) (list_of []))])) (\<lambda>out.
           bnd (put (ret out) (str ''missing_evidence'')
               (add (item (ret out) ''missing_evidence'')
                   (list_of [str ''Current four/eight-token cache traces'',
                        str ''Fresh paired request timings for a changed cache policy'',
                        str ''Five paired repetitions, long-context and sustained qualification'']))) (\<lambda>out.
           ret out))))
         (bnd (branch (eq (get (ret data) ''kind'') (str ''mtp_width_screen_v1''))
               (bnd (bnd (format_of [item (ret data) ''candidate_width'']) (\<lambda>arg3.
                     bnd (list_of [str ''requested_width'']) (\<lambda>arg4.
                       mtp_compare load_json read_json libm sha256 absolute fs tree_of
                         reference_work file_list power_of selector (PStr ''4'') arg3 arg4 PNone))) (\<lambda>checked_width.
                 bnd (item (ret data) ''full_clean_correctness'') (\<lambda>clean.
                 bnd (list_of [str ''Longer fresh paired requests on the other coding workloads'',
                      str ''Measured workload crossover before any adaptive policy'',
                      str ''Five fresh pairs, long-context and sustained qualification'']) (\<lambda>remaining.
                 bnd (branch (nay (ret clean))
                     (bnd (add (list_of [str ''Clean full-model correctness'']) (ret remaining)) (\<lambda>remaining.
                       ret remaining)) (ret remaining)) (\<lambda>remaining.
                 bnd (merge (ret out)
                     (dict_of [(''validated_comparison'', ret checked_width),
                          (''hypothesis'', str
                              (''A fixed draft length must improve complete requests at the same cache and checkpoint capacity.'')),
                          (''smallest_experiment'', branch (eq (get (ret data) ''status'')
                                (str ''insufficient_early_gain''))
                              (str ''Do not repeat the unchanged rejected width.'')
                              (branch (ret clean)
                                  (str
                                      (''Compare the surviving width on the remaining 128-token coding workloads; profile target verification if no width approaches 200ms/token.''))
                                  (str
                                      (''Finish clean correctness and compare the surviving width on three fresh 128-token coding workloads.'')))),
                          (''missing_evidence'', ret remaining)])) (\<lambda>out.
                 bnd (branch (conjs [eq (get (ret data) ''stage'') (str ''other-coding-diagnostic''), ret clean,
                        every (item (ret out) ''runs'') (\<lambda>r.
                            gt (item (item (ret r) ''component_ms_per_token'') ''wall'')
                              (item (item (ret r) ''opportunity'') ''budget_ms_per_token''))])
                     (bnd (merge (ret out)
                           (dict_of [(''hypothesis'', str
                                    (''The measured fixed widths remain below the target; verification dependencies need attribution before another optimization.'')),
                                (''smallest_experiment'', str
                                    (''Capture a bounded middle-generation target profile using the best measured fixed width for each selected workload.'')),
                                (''missing_evidence'', list_of [str
                                         (''Current target GPU/read dependency traces with exact token coverage''),
                                     str ''Held-out evaluation before an adaptive width policy'',
                                     str
                                         (''Five fresh pairs, long-context and sustained qualification'')])])) (\<lambda>out.
                       ret out)) (ret out)) (\<lambda>out.
                 ret out)))))))
               (bnd (branch (eq (get (ret data) ''kind'') (ret WIDTH_KIND))
                     (bnd (merge (ret out)
                           (dict_of [(''hypothesis'', str
                                    (''Measure draft length using complete-cycle cost per committed token.'')),
                                (''smallest_experiment'', str
                                    (''Compare a fresh 64-token width-four/width-two pair after numerical validation.'')),
                                (''missing_evidence'', list_of [str ''Compatible fresh width comparison'',
                                     str ''Clean full-model qualification''])])) (\<lambda>out.
                       ret out))
                     (bnd (branch (eq (get (ret data) ''kind'')
                             (str ''mtp_target_recovery_screen_v1''))
                           (bnd (bnd (list_of [str ''target_recovery'']) (\<lambda>arg5.
                                 mtp_compare load_json read_json libm sha256 absolute fs tree_of
                                   reference_work file_list power_of selector (PStr ''full-replay'')
                                   (PStr ''state-only'') arg5 PNone)) (\<lambda>checked.
                             bnd (put (ret out) (str ''validated_comparison'') (ret checked)) (\<lambda>out.
                             bnd (branch (isin (get (ret data) ''status'')
                                   (tuple_of [str ''insufficient_early_gain'',
                                        str ''insufficient_short_gain'',
                                        str ''all_accepted_regression'',
                                        str ''insufficient_long_gain'']))
                                 (bnd (merge (ret out)
                                       (dict_of [(''hypothesis'', str
                                                (''Target recovery failed its recorded screening gate; do not repeat the unchanged candidate.'')),
                                            (''smallest_experiment'', str
                                                (''Use draft/verify/acceptance costs to design a fixed-width 1/2/4 screen on the retained baseline.'')),
                                            (''missing_evidence'', list_of [str
                                                     (''A changed mechanism and explicit rationale are required before revisiting the rejected recovery candidate.'')])])) (\<lambda>out.
                                   ret out))
                                 (bnd (branch (eq (get (ret data) ''status'')
                                         (str ''promising_early_screen''))
                                       (bnd (merge (ret out)
                                             (dict_of [(''hypothesis'', str
                                                      (''Recovery passed preliminary timing; full correctness still blocks advancement.'')),
                                                  (''smallest_experiment'', str
                                                      (''Finish the clean forced-prefix/EOS stage, then rerun the registered timing gates with fresh samples.'')),
                                                  (''missing_evidence'', list_of [str
                                                           (''Clean complete forced-prefix/EOS stage''),
                                                       str ''Fresh registered timing gates'',
                                                       str
                                                           (''Five fresh pairs, long-context and sustained qualification'')])])) (\<lambda>out.
                                         ret out))
                                       (bnd (branch (eq (get (ret data) ''status'')
                                               (str ''promising_long_screen''))
                                             (bnd (merge (ret out)
                                                   (dict_of [(''hypothesis'', str
                                                            (''Recovery passed screening; acceptance and verification cost now bound further gain.'')),
                                                        (''smallest_experiment'', str
                                                            (''Plan fixed draft widths 1/2/4 with real MTP proposals and the selected recovery path.'')),
                                                        (''missing_evidence'', list_of [str
                                                                 (''Five fresh pairs, long-context and sustained qualification remain required for production.'')])])) (\<lambda>out.
                                               ret out))
                                             (bnd (put (ret out) (str ''smallest_experiment'')
                                                   (str
                                                       (''Complete the next declared recovery recipe gate using fresh samples.''))) (\<lambda>out.
                                               ret out))) (\<lambda>out.
                                         ret out))) (\<lambda>out.
                                   ret out))) (\<lambda>out.
                             ret out)))) (ret out)) (\<lambda>out.
                       ret out))) (\<lambda>out.
                 ret out))) (\<lambda>out.
           ret out))) (\<lambda>out.
     ret out)))))))"

end
