(* ===== verification/EvidenceAnswers.thy ===== *)
theory EvidenceAnswers
  imports MtpQueries IndexIntegrity
begin

text \<open>
  The queries that need the whole of the library: \<open>compare\<close> and \<open>next_experiment\<close> of
  \<open>scripts/qwen/evidence_queries.py\<close>, which dispatch on the kind of the selected report, and
  \<open>record\<close> of \<open>query_evidence.py\<close>, which appends an entry to the experiment ledger and indexes it.
\<close>

section \<open>The index as seen by a query\<close>

text \<open>\<open>Index.json\<close> and \<open>Index.source\<close> on dynamically typed selectors.\<close>

definition index_json ::
  "(string \<Rightarrow> string) \<Rightarrow> (py_error \<Rightarrow> string) \<Rightarrow> (string \<Rightarrow> string) \<Rightarrow> file_system \<Rightarrow> evidence_db \<Rightarrow> pyval \<Rightarrow> expr" where
  "index_json sha256 message absolute fs db selector =
     (case selector of
        PStr s \<Rightarrow> bnd (source_json sha256 message absolute fs db s) (\<lambda>(data, origin).
                    Inr (PTuple [data, source_value origin]))
      | _ \<Rightarrow> Inl TypeError)"

definition index_source ::
  "(string \<Rightarrow> string) \<Rightarrow> (py_error \<Rightarrow> string) \<Rightarrow> (string \<Rightarrow> string) \<Rightarrow> file_system \<Rightarrow> evidence_db \<Rightarrow> pyval \<Rightarrow> expr" where
  "index_source sha256 message absolute fs db selector =
     (case selector of
        PStr s \<Rightarrow> bnd (source sha256 message absolute fs db s) (\<lambda>(raw, origin).
                    Inr (PTuple [PStr raw, source_value origin]))
      | _ \<Rightarrow> Inl TypeError)"

section \<open>Comparisons\<close>

definition COMPARE_LIMITS :: pyval where
  "COMPARE_LIMITS =
     PList [PStr ''Comparisons use one recorded experiment; unrelated runs are never assigned synthetic pairs.'',
        PStr ''Numerical correctness and generated-token agreement do not establish coding quality.'']"

text \<open>
  The body of \<open>compare\<close> for a selected report \<open>data\<close>; \<open>mtp_answer\<close> is the answer of
  \<open>mtp_evidence.compare\<close>.
\<close>

definition compare_kind ::
  "(pyval \<Rightarrow> expr) \<Rightarrow> (pyval \<Rightarrow> pyval \<Rightarrow> expr) \<Rightarrow> (pyval \<Rightarrow> expr) \<Rightarrow> pyval \<Rightarrow> (string \<Rightarrow> pyval \<Rightarrow> expr) \<Rightarrow>
   (pfloat \<Rightarrow> string) \<Rightarrow> expr \<Rightarrow> pyval \<Rightarrow> pyval \<Rightarrow> pyval \<Rightarrow> pyval \<Rightarrow> pyval \<Rightarrow> pyval \<Rightarrow> expr" where
  "compare_kind load_json resample read_json native_top_p libm float_repr mtp_answer data control candidate changes case' sources =
     (let limits = COMPARE_LIMITS in
     reject (nay (isinstance (ret data) [TDict])) ''Select a report object, not a workload array'' (
     reject (nay (call2 terminal_result (ret data) no)) ''Report is unfinished, failed or lacks a completed result'' (
     branch (isin (get (ret data) ''kind'')
         (tuple_of [str ''mtp_direct_output_screen_v1'', str ''mtp_target_recovery_screen_v1'', str ''mtp_width_screen_v1'',
              str ''streamed_mtp_screen_v1''])) mtp_answer (
     branch (isin (get (ret data) ''kind'')
         (tuple_of [str ''expert_tail_screen_v1'', str ''decode_scratch_screen_v1'', str ''decode_scratch_confirmation_v1'']))
       (compare_scratch load_json read_json native_top_p libm data control candidate changes case' sources limits) (
     branch (isin (get (ret data) ''kind'') (tuple_of [str ''route_selection_screen_v1'', str ''route_selection_confirmation_v1'']))
       (compare_routing load_json read_json native_top_p libm data control candidate changes case' sources limits) (
     branch (eq (get (ret data) ''kind'') (str ''q8_memory_budget_screen_v1''))
       (compare_budget load_json resample read_json native_top_p libm float_repr data control candidate changes case' sources limits) (
     branch (isin (get (ret data) ''kind'') (tuple_of [str ''q8_steady_short_screen_v1'', str ''q8_steady_confirmation_v1'']))
       (compare_q8 load_json resample read_json native_top_p libm float_repr data control candidate changes case' sources limits) (
     branch (isin (get (ret data) ''kind'') (tuple_of [str ''cache_capacity_screen_v1'', str ''cache_capacity_confirmation_v1'']))
       (compare_capacity load_json read_json native_top_p libm data control candidate changes case' sources limits) (
     branch (eq (get (ret data) ''kind'') (str ''cached_full_token_replay''))
       (compare_cached resample data control candidate changes case' sources limits)
       (compare_normal load_json resample read_json native_top_p float_repr data control candidate changes case' sources limits))))))))))"

text \<open>
  The answer after an exception of the body; \<open>cited\<close> is the list \<open>sources\<close> as the body leaves it.
\<close>

definition COMPARE_ERRORS :: "string list" where
  "COMPARE_ERRORS = [''ValueError'', ''KeyError'', ''TypeError'', ''IndexError'', ''OSError'']"

definition compare_refused :: "(py_error \<Rightarrow> string) \<Rightarrow> pyval \<Rightarrow> py_error \<Rightarrow> expr" where
  "compare_refused message cited error =
     bnd (dict_of [(''comparable'', no), (''status'', str ''insufficient_or_incompatible_evidence''), (''reason'', str (message error))])
       (query_result cited COMPARE_LIMITS)"

definition compare_evidence ::
  "(pyval \<Rightarrow> expr) \<Rightarrow> (pyval \<Rightarrow> pyval \<Rightarrow> expr) \<Rightarrow> (pyval \<Rightarrow> expr) \<Rightarrow> pyval \<Rightarrow> (string \<Rightarrow> pyval \<Rightarrow> expr) \<Rightarrow>
   (pfloat \<Rightarrow> string) \<Rightarrow> (py_error \<Rightarrow> string) \<Rightarrow> (pyval \<Rightarrow> pyval \<Rightarrow> pyval \<Rightarrow> pyval \<Rightarrow> pyval \<Rightarrow> expr) \<Rightarrow> pyval \<Rightarrow>
   pyval \<Rightarrow> pyval \<Rightarrow> pyval \<Rightarrow> pyval \<Rightarrow> pyval \<Rightarrow> expr" where
  "compare_evidence load_json resample read_json native_top_p libm float_repr message mtp cited selector control candidate changes case' =
     bnd (load_json selector) (\<lambda>tup1.
     unpack2 tup1 (\<lambda>data source.
     attempt COMPARE_ERRORS
       (compare_kind load_json resample read_json native_top_p libm float_repr (mtp selector control candidate changes case')
          data control candidate changes case' (PList [source]))
       (compare_refused message cited)))"

section \<open>The next experiment\<close>

text \<open>\<open>profile_query\<close> is \<open>capture_mtp_width_profile.query\<close>, \<open>mtp\<close> is \<open>mtp_evidence.next_experiment\<close>.\<close>

definition NEXT_LIMITS :: expr where
  "NEXT_LIMITS =
     list_of [str ''No request speedup is inferred from cached kernels or summed overlapping waits.'',
        str ''This is a proposed measurement, not an accepted optimization or automatic execution.'']"

definition next_experiment :: "(pyval \<Rightarrow> expr) \<Rightarrow> (pyval \<Rightarrow> expr) \<Rightarrow> (pyval \<Rightarrow> expr) \<Rightarrow> pyval \<Rightarrow> expr" where
  "next_experiment load_json profile_query mtp selector =
     bnd (load_json selector) (\<lambda>tup1.
     unpack2 tup1 (\<lambda>data source.
     reject (nay (isinstance (ret data) [TDict])) ''Select a report object'' (
     branch (isin (get (ret data) ''kind'') (tuple_of [str ''mtp_width_target_profile_v1'', str ''mtp_width_target_counters_v1'']))
       (profile_query selector) (
     branch (isin (get (ret data) ''kind'')
         (tuple_of [str ''native_mtp_continuation_v1'', str ''native_mtp_continuation_v2'', str ''native_mtp_width_v1'',
              str ''mtp_direct_output_screen_v1'', str ''mtp_target_recovery_screen_v1'', str ''mtp_width_screen_v1'',
              str ''streamed_mtp_screen_v1''])) (mtp selector) (
     branch (disjs [same (get (ret data) ''complete'') no,
          isin (get (ret data) ''status'') (tuple_of [str ''failed'', str ''resource_blocked'', str ''interrupted'', str ''time_budget_exhausted''])])
       (call3 query_result (list_of [ret source]) NEXT_LIMITS
         (dict_of [(''hypothesis'', str ''No completed result supports choosing a winner.''), (''possible_request_benefit'', none),
              (''missing_evidence'', list_of [str ''completed comparable short timing screen'']),
              (''smallest_experiment'', str
                  ''Resolve the recorded blocker, then run the capped screen; preserve this unfinished attempt.'')])) (
     branch (eq (get (ret data) ''kind'') (str ''instrumented_cached_decode_attribution''))
       (call3 query_result (list_of [ret source]) NEXT_LIMITS
         (dict_of [(''hypothesis'', str ''The largest cached GPU operation may be hidden by normal-request dependencies.''),
              (''cached_hotspots'', slice (get_or (ret data) ''kernels'' (list_of [])) none (num 3)), (''possible_request_benefit'', none),
              (''missing_evidence'', list_of [str ''matched normal-request dependency trace and explicit blocking reasons'']),
              (''smallest_experiment'', str
                  ''Capture one bounded normal decode/append trace on the same build and artifact before ranking kernel work.'')])) (
     bnd (each_if (snapshots data) (\<lambda>s. isinstance (get (ret s) ''expert_cache'') [TDict]) (\<lambda>s. ret s)) (\<lambda>deps.
     call3 query_result (list_of [ret source]) NEXT_LIMITS
       (dict_of [(''hypothesis'', str ''Existing aggregates cannot identify exposed critical-path savings.''), (''possible_request_benefit'', none),
            (''recorded_memory_boundaries'', size_of (ret deps)),
            (''missing_evidence'', list_of [str ''joined dependency events with blocking reasons'', str ''comparable paired request outcome'']),
            (''smallest_experiment'', str
                ''Use compare on the recorded experiment first; add only the event linkage needed for an unresolved dependency.'')])))))))))"

section \<open>The experiment ledger\<close>

definition LEDGER_REQUIRED :: "string list" where
  "LEDGER_REQUIRED = [''hypothesis'', ''expected_effect'', ''controlled_change'', ''correctness'',
     ''outcome'', ''decision'', ''smallest_experiment'', ''limitations'', ''evidence'']"

definition LEDGER_DECISIONS :: "string list" where
  "LEDGER_DECISIONS = [''proposed'', ''blocked'', ''rejected'', ''inconclusive'', ''promising'', ''adopted'']"

definition TAG_NAMES :: "string list" where
  "TAG_NAMES = [''optimization'', ''workload'', ''configuration'', ''rejection_reason'']"

text \<open>\<open>str.strip()\<close> on the code points of a text.\<close>

definition space_point :: "int \<Rightarrow> bool" where
  "space_point c \<longleftrightarrow> 9 \<le> c \<and> c \<le> 13 \<or> 28 \<le> c \<and> c \<le> 32 \<or> 8192 \<le> c \<and> c \<le> 8202 \<or>
     c \<in> {133, 160, 5760, 8232, 8233, 8239, 8287, 12288}"

definition stripped :: "string \<Rightarrow> int list" where
  "stripped s = rev (dropWhile space_point (rev (dropWhile space_point (utf8_decode s))))"

fun is_text :: "pyval \<Rightarrow> bool" where
  "is_text (PStr s) = True"
| "is_text _ = False"

definition ledger_text :: "(string \<times> pyval) list \<Rightarrow> string \<Rightarrow> unit result" where
  "ledger_text d key =
     (case aget d key of
        PStr s \<Rightarrow> if stripped s = [] then Inl (ValueError (''Ledger text must be nonempty: '' @ key)) else Inr ()
      | _ \<Rightarrow> Inl (ValueError (''Ledger text must be nonempty: '' @ key)))"

definition tag_text :: "pyval \<Rightarrow> bool" where
  "tag_text x = (case x of PStr s \<Rightarrow> 0 < length (utf8_decode s) \<and> length (utf8_decode s) \<le> 160 | _ \<Rightarrow> False)"

definition tag_list :: "pyval \<Rightarrow> bool" where
  "tag_list v = (case v of PList xs \<Rightarrow> length xs \<le> 32 \<and> list_all tag_text xs | _ \<Rightarrow> False)"

definition ledger_tags :: "(string \<times> pyval) list \<Rightarrow> (string \<times> pyval) list result" where
  "ledger_tags d =
     (if \<not> ahas d ''tags'' then Inr []
      else case aget d ''tags'' of
        PDict tags \<Rightarrow>
          if list_all (\<lambda>(k, v). k \<in> set TAG_NAMES \<and> tag_list v) tags then Inr [(''tags'', PDict tags)]
          else Inl (ValueError ''Invalid structured experiment tags'')
      | _ \<Rightarrow> Inl (ValueError ''Invalid structured experiment tags''))"

definition ledger_rationale :: "(string \<times> pyval) list \<Rightarrow> (string \<times> pyval) list result" where
  "ledger_rationale d =
     (if \<not> ahas d ''rerun_rationale'' then Inr []
      else case aget d ''rerun_rationale'' of
        PStr s \<Rightarrow>
          if 0 < length (stripped s) \<and> length (stripped s) \<le> 4000 then Inr [(''rerun_rationale'', PStr s)]
          else Inl (ValueError ''Invalid rerun rationale'')
      | _ \<Rightarrow> Inl (ValueError ''Invalid rerun rationale''))"

text \<open>One evidence reference: its origin with the recorded status, and whether the report is terminal.\<close>

definition ledger_ref :: "(pyval \<Rightarrow> expr) \<Rightarrow> bool \<Rightarrow> pyval \<Rightarrow> (pyval \<times> bool) result" where
  "ledger_ref load_json rejected selector =
     bnd (load_json selector) (\<lambda>tup1.
     unpack2 tup1 (\<lambda>data source.
     if \<not> is_dict data then Inl (ValueError ''Ledger evidence must reference report objects'')
     else bnd (merge (dict_from (ret source))
            (dict_of [(''recorded_status'', item (metadata data) ''status''), (''recorded_complete'', get (ret data) ''complete'')])) (\<lambda>ref.
          bnd (terminal_result data (PBool rejected)) (\<lambda>terminal.
          Inr (ref, truthy terminal)))))"

text \<open>The checks of \<open>record\<close> before anything is written: the entry to store and its references.\<close>

definition ledger_entry ::
  "(pyval \<Rightarrow> expr) \<Rightarrow> string \<Rightarrow> pyval \<Rightarrow> (pyval \<times> pyval list) result" where
  "ledger_entry load_json now entry =
     (case entry of
        PDict d \<Rightarrow>
          if \<not> list_all (ahas d) LEDGER_REQUIRED then
            Inl (ValueError (''Ledger entry requires: '' @ separated '', '' LEDGER_REQUIRED))
          else bnd (foldm (\<lambda>unused key. ledger_text d key) () (take 7 LEDGER_REQUIRED)) (\<lambda>unused.
          if aget d ''decision'' \<notin> set (map PStr LEDGER_DECISIONS) then Inl (ValueError ''Unknown ledger decision'')
          else
            (case (aget d ''limitations'', aget d ''evidence'') of
               (PList limits, PList selectors) \<Rightarrow>
                 if \<not> list_all is_text limits then Inl (ValueError ''Ledger limitations must be a list of strings'')
                 else if selectors = [] then Inl (ValueError ''Ledger needs original evidence references'')
                 else bnd (mapm (ledger_ref load_json (aget d ''decision'' = PStr ''rejected'')) selectors) (\<lambda>refs.
                 if \<not> list_ex snd refs \<and> aget d ''decision'' \<notin> {PStr ''blocked'', PStr ''proposed'', PStr ''inconclusive''} then
                   Inl (ValueError ''Unfinished or unknown evidence cannot establish rejection, benefit or adoption'')
                 else bnd (ledger_tags d) (\<lambda>tags.
                 bnd (ledger_rationale d) (\<lambda>why.
                 bnd (merge (Inr (PDict (map (\<lambda>k. (k, aget d k)) LEDGER_REQUIRED @ tags @ why)))
                   (dict_of [(''kind'', str ''experiment_ledger_v1''), (''evidence'', Inr (PList (map fst refs))),
                      (''recorded_at'', str now),
                      (''decision_origin'', str ''authored interpretation; original report statuses retained''),
                      (''production_promoted'', no)])) (\<lambda>stored.
                 Inr (stored, map fst refs)))))
             | (PList limits, _) \<Rightarrow>
                 if \<not> list_all is_text limits then Inl (ValueError ''Ledger limitations must be a list of strings'')
                 else Inl (ValueError ''Ledger needs original evidence references'')
             | _ \<Rightarrow> Inl (ValueError ''Ledger limitations must be a list of strings'')))
      | _ \<Rightarrow> Inl (ValueError (''Ledger entry requires: '' @ separated '', '' LEDGER_REQUIRED)))"

text \<open>
  \<open>path.open('xb')\<close> and the write: an existing file is refused. \<open>stamp\<close> is the status of the new file.
\<close>

definition write_new :: "(string \<Rightarrow> bool) \<Rightarrow> file_stat \<Rightarrow> string \<Rightarrow> string \<Rightarrow> file_system \<Rightarrow> file_system result" where
  "write_new present stamp path raw fs =
     (if present path then Inl (OSError ''File exists'')
      else let st = stamp\<lparr>st_size := len raw\<rparr>
           in Inr (fs(path := \<lparr>before_read = Inr st, content = Inr raw, after_read = Inr st\<rparr>)))"

definition record_entry ::
  "(string \<Rightarrow> string) \<Rightarrow> (pfloat \<Rightarrow> string) \<Rightarrow> (py_error \<Rightarrow> string) \<Rightarrow> (string \<Rightarrow> string) \<Rightarrow> (string \<Rightarrow> bool) \<Rightarrow> file_stat \<Rightarrow>
   string \<Rightarrow> string result \<Rightarrow> string \<Rightarrow> file_system \<Rightarrow> evidence_db \<Rightarrow> (pyval \<times> file_system \<times> evidence_db) result" where
  "record_entry sha256 float_repr message absolute present stamp now input directory fs db =
     bnd input (\<lambda>text.
     bnd (parse text) (\<lambda>entry.
     bnd (ledger_entry (index_json sha256 message absolute fs db) now entry) (\<lambda>(stored, refs).
     bnd (encoded float_repr stored) (\<lambda>body.
     let raw = body @ [CHR 0x0A]; path = absolute (directory @ ''/'' @ sha256 raw @ ''.json'') in
     bnd (write_new present stamp path raw fs) (\<lambda>fs'.
     bnd (import_paths sha256 float_repr message absolute
            (\<lambda>root'. if root' = path then Some [\<lparr>found_path = path, regular = True, symlink = False, resolved = path\<rparr>] else None)
            fs' [path] False db) (\<lambda>db'.
     Inr (PDict [(''path'', PStr path), (''id'', PStr (sha256 raw)), (''sources'', PList refs),
            (''limitations'', PList [PStr ''Ledger decisions are authored interpretations, not new measurements.'',
               PStr ''Ledger JSON is durable; SQLite can be deleted and rebuilt from it.''])], fs', db')))))))"

end
