(* ===== verification/CitedEvidence.thy ===== *)
theory CitedEvidence
  imports EvidenceAnswers
begin

text \<open>
  What an answer cites. A query reads evidence only through an \<open>evidence_store\<close>, whose contract is
  that the origin it reports with a content is genuine; the locale shows that the revalidations and
  the comparisons list genuine origins only. \<open>Index.json\<close> is an interpretation.
\<close>

section \<open>Results of a computation that returns\<close>

definition yields :: "('a \<Rightarrow> bool) \<Rightarrow> 'a result \<Rightarrow> bool" where
  "yields Q e \<longleftrightarrow> (\<forall>v. e = Inr v \<longrightarrow> Q v)"

lemma yieldsD: "yields Q e \<Longrightarrow> e = Inr v \<Longrightarrow> Q v"
  by (simp add: yields_def)

lemma yields_Inr: "Q v \<Longrightarrow> yields Q (Inr v)"
  by (simp add: yields_def)

lemma yields_Inl: "yields Q (Inl e)"
  by (simp add: yields_def)

lemma yields_fail: "yields Q (fail e)"
  by (cases e) (auto simp: yields_def fail_def)

lemma yields_bnd: "(\<And>u. yields Q (f u)) \<Longrightarrow> yields Q (bnd m f)"
  by (auto simp: yields_def ok_simps)

lemma yields_through: "yields R m \<Longrightarrow> (\<And>u. R u \<Longrightarrow> yields Q (f u)) \<Longrightarrow> yields Q (bnd m f)"
  by (auto simp: yields_def ok_simps)

lemma yields_branch: "yields Q a \<Longrightarrow> yields Q b \<Longrightarrow> yields Q (branch c a b)"
  by (auto simp: yields_def ctrl_simps)

lemma yields_reject: "yields Q k \<Longrightarrow> yields Q (reject c msg k)"
  by (auto simp: yields_def ctrl_simps)

lemma yields_check: "yields Q k \<Longrightarrow> yields Q (check c msg k)"
  by (auto simp: yields_def ctrl_simps)

lemma yields_unpack2: "(\<And>a b. yields Q (f a b)) \<Longrightarrow> yields Q (unpack2 v f)"
  by (auto simp: yields_def ctrl_simps)

lemma yields_unpack3: "(\<And>a b c. yields Q (f a b c)) \<Longrightarrow> yields Q (unpack3 v f)"
  by (auto simp: yields_def ctrl_simps)

lemma yields_foldm: "I s \<Longrightarrow> (\<And>s x. I s \<Longrightarrow> x \<in> set l \<Longrightarrow> yields I (f s x)) \<Longrightarrow> yields I (foldm f s l)"
proof (induction l arbitrary: s)
  case Nil
  then show ?case by (simp add: yields_Inr)
next
  case (Cons x l)
  have "yields I (f s x)" using Cons.prems by simp
  then show ?case unfolding foldm.simps
    by (rule yields_through) (rule Cons.IH, assumption, simp add: Cons.prems(2))
qed

lemma yields_loop: "I s \<Longrightarrow> (\<And>s x. I s \<Longrightarrow> yields I (body s x)) \<Longrightarrow> yields I (loop xs s body)"
  unfolding loop_def by (intro yields_bnd yields_foldm)

text \<open>Loops by the position of the invariant part in their state.\<close>

lemma yields_loop1:
  "G s \<Longrightarrow> (\<And>s x. G s \<Longrightarrow> yields G (body s x)) \<Longrightarrow> (\<And>s. G s \<Longrightarrow> yields Q (k s)) \<Longrightarrow>
   yields Q (bnd (loop xs s body) k)"
  by (rule yields_through [where R = G, OF yields_loop [where I = G]]) auto

lemma yields_loop_first:
  "G s \<Longrightarrow> (\<And>s a x. G s \<Longrightarrow> yields (\<lambda>(s, a). G s) (body (s, a) x)) \<Longrightarrow> (\<And>s a. G s \<Longrightarrow> yields Q (k (s, a))) \<Longrightarrow>
   yields Q (bnd (loop xs (s, a) body) k)"
  by (rule yields_through [OF yields_loop [where I = "\<lambda>(s, a). G s"]]) auto

lemma yields_loop_mid:
  "G s \<Longrightarrow> (\<And>a s b x. G s \<Longrightarrow> yields (\<lambda>(a, s, b). G s) (body (a, s, b) x)) \<Longrightarrow>
   (\<And>a s b. G s \<Longrightarrow> yields Q (k (a, s, b))) \<Longrightarrow> yields Q (bnd (loop xs (a, s, b) body) k)"
  by (rule yields_through [OF yields_loop [where I = "\<lambda>(a, s, b). G s"]]) auto

lemma yields_split: "(\<And>x y. yields Q (f x y)) \<Longrightarrow> yields Q (case p of (x, y) \<Rightarrow> f x y)"
  by (cases p) simp

lemma yields_split_app: "(\<And>x y. yields Q (f x y z)) \<Longrightarrow> yields Q ((case p of (x, y) \<Rightarrow> f x y) z)"
  by (cases p) simp

text \<open>A function that returns a value and the list of sources.\<close>

definition answers :: "(pyval \<Rightarrow> bool) \<Rightarrow> pyval \<Rightarrow> bool" where
  "answers G v \<longleftrightarrow> (\<exists>r s. v = PTuple [r, s] \<and> G s)"

lemma yields_tuple: "G s \<Longrightarrow> yields (answers G) (tuple_of [e, ret s])"
  by (auto simp: yields_def answers_def ctrl_simps)

lemma yields_final:
  "yields G a \<Longrightarrow> yields G b \<Longrightarrow> yields (answers G) (bnd (branch c a b) (\<lambda>s. tuple_of [e, ret s]))"
  by (auto simp: yields_def answers_def ctrl_simps)

lemma yields_read:
  "yields (answers G) m \<Longrightarrow> (\<And>r s. G s \<Longrightarrow> yields Q (k r s)) \<Longrightarrow> yields Q (bnd m (\<lambda>t. unpack2 t k))"
  by (fastforce simp: yields_def answers_def ctrl_simps)

lemma yields_call2: "(\<And>d. yields Q (f d s)) \<Longrightarrow> yields Q (call2 f e (ret s))"
  by (auto simp: yields_def ctrl_simps)

section \<open>Reading evidence\<close>

locale evidence_store =
  fixes load :: "pyval \<Rightarrow> expr" and genuine :: "pyval \<Rightarrow> bool"
  assumes load_genuine: "load selector = Inr v \<Longrightarrow> \<exists>data origin. v = PTuple [data, origin] \<and> genuine origin"
    and pointer_genuine: "genuine origin \<Longrightarrow>
      merge (dict_from (ret origin)) (dict_of [(''pointer'', str p)]) = Inr part \<Longrightarrow> genuine part"
begin

definition cited :: "pyval \<Rightarrow> bool" where
  "cited sources \<longleftrightarrow> (\<exists>l. sources = PList l \<and> l \<noteq> [] \<and> list_all genuine l)"

lemma resolve_cited: "cited sources \<Longrightarrow> yields (answers cited) (resolve_source load d sources)"
proof -
  assume c: "cited sources"
  show ?thesis
    unfolding resolve_source_def
  proof (rule yields_through [where R = "\<lambda>v. \<exists>data origin. v = PTuple [data, origin] \<and> genuine origin"])
    show "yields (\<lambda>v. \<exists>data origin. v = PTuple [data, origin] \<and> genuine origin) (load d)"
      by (simp add: yields_def load_genuine)
    show "\<And>u. \<exists>data origin. u = PTuple [data, origin] \<and> genuine origin \<Longrightarrow>
        yields (answers cited) (unpack2 u (\<lambda>raw original. bnd (append (ret sources) (ret original)) (\<lambda>sources.
          tuple_of [ret raw, ret sources])))"
      using c by (auto simp: yields_def answers_def cited_def ctrl_simps append_def)
  qed
qed

lemmas read_rules = yields_read [OF resolve_cited] yields_read [OF yields_call2 [OF resolve_cited]]

lemma revalidate_cited:
  "cited sources \<Longrightarrow> yields (answers cited) (revalidate_capacity read_json top_p libm (resolve_source load) summary sources)"
  "cited sources \<Longrightarrow> yields (answers cited) (revalidate_tail read_json top_p libm (resolve_source load) summary sources)"
  "cited sources \<Longrightarrow> yields (answers cited) (revalidate_scratch read_json top_p libm (resolve_source load) summary sources)"
  "cited sources \<Longrightarrow> yields (answers cited) (revalidate_routing read_json top_p libm (resolve_source load) summary sources)"
  "cited sources \<Longrightarrow> yields (answers cited) (revalidate_steady resample read_json top_p libm repr (resolve_source load) summary sources)"
  unfolding revalidate_capacity_def revalidate_tail_def revalidate_scratch_def revalidate_routing_def revalidate_steady_def
  by ((simp only: prod.case | rule yields_tuple, assumption | rule yields_loop_mid, assumption | rule yields_loop_first, assumption |
       rule yields_loop1, assumption | rule read_rules, assumption | rule yields_final | rule yields_Inr, (simp; fail) | rule yields_Inl yields_fail |
       rule yields_reject yields_check yields_branch | rule yields_bnd | rule yields_unpack2)+)

lemma revalidate_pairs_cited:
  assumes screen: "\<And>prior s. cited s \<Longrightarrow> yields (answers cited) (screen prior s)"
  shows "cited sources \<Longrightarrow>
    yields (answers cited) (revalidate_pairs configs_of observe_run screen decide_of (resolve_source load) kind summary sources)"
  unfolding revalidate_pairs_def
  by ((simp only: prod.case | rule yields_tuple, assumption | rule yields_loop_mid, assumption | rule read_rules, assumption |
       rule yields_read [OF screen], assumption | rule yields_Inr, (simp; fail) |
       rule yields_reject | rule yields_bnd | rule yields_unpack2)+)

lemma confirm_cited:
  "cited sources \<Longrightarrow> yields (answers cited) (confirm_scratch read_json top_p libm (resolve_source load) summary sources)"
  "cited sources \<Longrightarrow> yields (answers cited) (confirm_routing read_json top_p libm (resolve_source load) summary sources)"
  "cited sources \<Longrightarrow> yields (answers cited) (confirm_q8 resample read_json top_p libm repr (resolve_source load) summary sources)"
  unfolding confirm_scratch_def confirm_routing_def confirm_q8_def
  by (rule revalidate_pairs_cited, rule revalidate_cited, assumption, assumption)+

lemma budget_cited:
  "cited sources \<Longrightarrow> yields (answers cited) (revalidate_budget resample read_json top_p libm repr (resolve_source load) summary sources)"
  unfolding revalidate_budget_def
  by ((simp only: prod.case | rule yields_tuple, assumption | rule yields_loop_mid, assumption | rule read_rules, assumption |
       rule yields_read [OF confirm_cited(3)], assumption | rule yields_Inr, (simp; fail) |
       rule yields_reject | rule yields_bnd | rule yields_unpack2)+)

section \<open>Answers of a comparison\<close>

text \<open>The \<open>sources\<close> of an answer.\<close>

definition cites :: "pyval \<Rightarrow> bool" where
  "cites answer \<longleftrightarrow> (\<exists>d sources. answer = PDict d \<and> map_of d ''sources'' = Some sources \<and> cited sources)"

lemma query_result_cited:
  assumes "cited sources"
  shows "yields cites (call3 query_result (ret sources) limits (dict_of values'))"
proof -
  have "merge (Inr (PDict d)) (dict_of [(''sources'', ret sources), (''limitations'', ret l), (''production_promoted'', no)]) =
      Inr (PDict (aput (aput (aput d ''sources'' sources) ''limitations'' l) ''production_promoted'' (PBool False)))" for d l
    by (simp add: merge_def dict_of_def dict_put_def)
  then show ?thesis using assms
    by (auto simp: yields_def cites_def query_result_def ctrl_simps)
qed

text \<open>A decision and the sources it read, in either branch.\<close>

lemma yields_decided:
  "yields (answers G) m \<Longrightarrow> yields (\<lambda>(r, s). G s) (bnd m (\<lambda>t. unpack2 t (\<lambda>r s. Inr (r, s))))"
  by (fastforce simp: yields_def answers_def ctrl_simps)

lemma yields_either:
  "yields (\<lambda>(r, s). G s) a \<Longrightarrow> yields (\<lambda>(r, s). G s) b \<Longrightarrow> (\<And>r s. G s \<Longrightarrow> yields Q (k (r, s))) \<Longrightarrow>
   yields Q (bnd (branch c a b) k)"
  by (rule yields_through [where R = "\<lambda>(r, s). G s", OF yields_branch]) auto

lemma yields_pass: "yields (\<lambda>(r, s). G s) m \<Longrightarrow> yields (\<lambda>(r, s). G s) (bnd m (\<lambda>(r, s). Inr (r, s)))"
  by (auto simp: yields_def ok_simps)

lemmas decided = yields_decided [OF revalidate_cited(1)] yields_decided [OF revalidate_cited(2)] yields_decided [OF revalidate_cited(3)]
  yields_decided [OF revalidate_cited(4)] yields_decided [OF revalidate_cited(5)] yields_decided [OF confirm_cited(1)]
  yields_decided [OF confirm_cited(2)] yields_decided [OF confirm_cited(3)] yields_decided [OF budget_cited]

lemma compare_screens_cited:
  assumes "cited sources"
  shows "yields cites (compare_scratch load read_json top_p libm data control candidate changes case' sources limits)"
    and "yields cites (compare_routing load read_json top_p libm data control candidate changes case' sources limits)"
    and "yields cites (compare_budget load resample read_json top_p libm repr data control candidate changes case' sources limits)"
    and "yields cites (compare_q8 load resample read_json top_p libm repr data control candidate changes case' sources limits)"
    and "yields cites (compare_capacity load read_json top_p libm data control candidate changes case' sources limits)"
    and "yields cites (compare_cached resample data control candidate changes case' sources limits)"
  unfolding compare_scratch_def compare_routing_def compare_budget_def compare_q8_def compare_capacity_def compare_cached_def
  by ((simp only: prod.case | rule query_result_cited, (assumption | rule assms) | rule decided, rule assms |
       rule yields_read [OF budget_cited] yields_read [OF revalidate_cited(1)], rule assms |
       rule yields_either, (rule yields_pass yields_branch yields_either decided [OF assms])+ |
       rule yields_reject yields_branch yields_fail | rule yields_bnd)+)

lemma load_cited:
  assumes "\<And>data origin. genuine origin \<Longrightarrow> yields Q (k data origin)"
  shows "yields Q (bnd (call1 load e) (\<lambda>t. unpack2 t k))"
proof (rule yields_through [where R = "\<lambda>v. \<exists>data origin. v = PTuple [data, origin] \<and> genuine origin"])
  show "yields (\<lambda>v. \<exists>data origin. v = PTuple [data, origin] \<and> genuine origin) (call1 load e)"
    unfolding call1_def by (rule yields_bnd) (simp add: yields_def load_genuine)
  show "\<And>u. \<exists>data origin. u = PTuple [data, origin] \<and> genuine origin \<Longrightarrow> yields Q (unpack2 u k)"
    using assms by (auto simp: unpack2_PTuple)
qed

lemma pointer_cited:
  assumes "cited sources" and "genuine origin" and "\<And>s. cited s \<Longrightarrow> yields Q (k s)"
  shows "yields Q (bnd (append (ret sources) (merge (dict_from (ret origin)) (dict_of [(''pointer'', str p)]))) k)"
proof (rule yields_through [OF _ assms(3)])
  obtain l where l: "sources = PList l" "list_all genuine l" using assms(1) by (auto simp: cited_def)
  show "yields cited (append (ret sources) (merge (dict_from (ret origin)) (dict_of [(''pointer'', str p)])))"
    unfolding append_def l(1)
  proof (simp only: bnd.simps, rule yields_through [where R = genuine])
    show "yields genuine (merge (dict_from (ret origin)) (dict_of [(''pointer'', str p)]))"
      using pointer_genuine [OF assms(2)] by (simp add: yields_def)
    show "\<And>u. genuine u \<Longrightarrow> yields cited (case PList l of PList xs \<Rightarrow> ret (PList (xs @ [u])) | _ \<Rightarrow> Inl AttributeError)"
      using l(2) by (simp add: yields_def cited_def)
  qed
qed

lemma compare_normal_cited:
  assumes "cited sources"
  shows "yields cites (compare_normal load resample read_json top_p repr data control candidate changes case' sources limits)"
  unfolding compare_normal_def
  by ((simp only: prod.case | rule query_result_cited, assumption | rule yields_loop_mid, (assumption | rule assms) |
       rule load_cited | rule pointer_cited, assumption, assumption | rule yields_Inr, (simp; fail) |
       rule yields_reject yields_branch yields_fail yields_split_app yields_split | rule yields_bnd | rule yields_unpack2)+)

lemma compare_kind_cited:
  assumes "cited sources" and "yields cites mtp_answer"
  shows "yields cites (compare_kind load resample read_json top_p libm repr mtp_answer data control candidate changes case' sources)"
  unfolding compare_kind_def Let_def
  by (intro yields_reject yields_branch compare_screens_cited compare_normal_cited assms)

end

end
