(* ===== verification/CitedMtp.thy ===== *)
theory CitedMtp
  imports CitedEvidence
begin

text \<open>
  The comparisons of multi-token-prediction experiments read the files beside the summary, too. The
  contract of the store is extended by what \<open>original\<close> and \<open>verify_seal\<close> promise; the answers of
  \<open>mtp_evidence.compare\<close> and \<open>streamed_mtp_evidence.compare\<close> cite genuine origins.
\<close>

lemma yields_loop_over:
  "list_all P l \<Longrightarrow> I s \<Longrightarrow> (\<And>s x. I s \<Longrightarrow> P x \<Longrightarrow> yields I (body s x)) \<Longrightarrow> yields I (loop (ret (PList l)) s body)"
  unfolding loop_def by (simp, rule yields_foldm) (auto simp: list_all_iff)

lemma yields_loop_last:
  "list_all P l \<Longrightarrow> G s \<Longrightarrow>
   (\<And>a b s x. G s \<Longrightarrow> P x \<Longrightarrow> yields (\<lambda>(a, b, s). G s) (body (a, b, s) x)) \<Longrightarrow>
   (\<And>a b s. G s \<Longrightarrow> yields Q (k (a, b, s))) \<Longrightarrow> yields Q (bnd (loop (ret (PList l)) (a, b, s) body) k)"
  by (rule yields_through [where R = "\<lambda>(a, b, s). G s", OF yields_loop_over [where P = P and I = "\<lambda>(a, b, s). G s"]]) auto

lemma yields_loop_second:
  "G s \<Longrightarrow> (\<And>a s x. G s \<Longrightarrow> yields (\<lambda>(a, s). G s) (body (a, s) x)) \<Longrightarrow> (\<And>a s. G s \<Longrightarrow> yields Q (k (a, s))) \<Longrightarrow>
   yields Q (bnd (loop xs (a, s) body) k)"
  by (rule yields_through [OF yields_loop [where I = "\<lambda>(a, s). G s"]]) auto

section \<open>Dictionaries\<close>

lemma fields_value: "PyExpr.fields es = Inr d \<Longrightarrow> map_of es k = Some (ret v) \<Longrightarrow> map_of d k = Some v"
  by (induction es arbitrary: d) (auto simp: ok_simps split: if_splits)

lemma fields_keys: "PyExpr.fields es = Inr d \<Longrightarrow> map fst d = map fst es"
  by (induction es arbitrary: d) (auto simp: ok_simps)

lemma put_entries_dict:
  "put_entries (PDict x) (map (map_prod PStr id) d) = Inr (PDict (foldl (\<lambda>x (k, v). aput x k v) x d))"
  by (induction d arbitrary: x) (auto simp: dict_put_def)

lemma map_of_foldl_other:
  "k \<notin> set (map fst d) \<Longrightarrow> map_of (foldl (\<lambda>x (k, v). aput x k v) x d) k = map_of x k"
  by (induction d arbitrary: x) auto

lemma map_of_foldl_aput:
  "distinct (map fst d) \<Longrightarrow> map_of d k = Some v \<Longrightarrow> map_of (foldl (\<lambda>x (k, v). aput x k v) x d) k = Some v"
  by (induction d arbitrary: x) (auto simp: map_of_foldl_other split: if_splits)

definition plain_dict :: "pyval \<Rightarrow> bool" where
  "plain_dict v \<longleftrightarrow> (\<exists>d. v = PDict d)"

lemma dict_of_plain: "yields plain_dict (dict_of es)"
  by (auto simp: yields_def plain_dict_def ctrl_simps)

lemma merge_plain: "yields plain_dict a \<Longrightarrow> yields plain_dict b \<Longrightarrow> yields plain_dict (merge a b)"
  by (auto simp: yields_def plain_dict_def merge_def ok_simps put_entries_dict split: option.splits)

lemma screening_plain: "yields plain_dict (screening_context data)"
  unfolding screening_context_def
  by (intro yields_branch yields_check yields_bnd dict_of_plain)

context evidence_store
begin

lemma merged_sources:
  assumes "cited sources" and "yields plain_dict a" and "map_of es ''sources'' = Some (ret sources)" and "distinct (map fst es)"
  shows "yields cites (merge a (dict_of es))"
  unfolding merge_def
proof (rule yields_through [OF assms(2)])
  fix x
  assume "plain_dict x"
  then obtain d where x: "x = PDict d" by (auto simp: plain_dict_def)
  show "yields cites (bnd (dict_of es) (\<lambda>y. case entries y of None \<Rightarrow> Inl TypeError | Some m \<Rightarrow> put_entries x m))"
    unfolding dict_of_def x
  proof (cases "PyExpr.fields es")
    case (Inr e)
    then have "map_of e ''sources'' = Some sources" "distinct (map fst e)"
      using assms(3,4) fields_value fields_keys by simp_all
    then show "yields cites (bnd (bnd (PyExpr.fields es) (\<lambda>d. Inr (PDict d)))
        (\<lambda>y. case entries y of None \<Rightarrow> Inl TypeError | Some m \<Rightarrow> put_entries (PDict d) m))"
      using assms(1) Inr by (auto simp: yields_def cites_def put_entries_dict map_of_foldl_aput)
  qed (simp add: yields_Inl)
qed

lemma merged_through:
  assumes "map_of es ''sources'' = Some (ret s)" and "distinct (map fst es)" and "cited s" and "plain_dict context'"
    and "\<And>r. cites r \<Longrightarrow> yields Q (k r)"
  shows "yields Q (bnd (merge (merge (dict_of base) (ret context')) (dict_of es)) k)"
  by (rule yields_through [OF merged_sources [OF assms(3) merge_plain [OF dict_of_plain yields_Inr [of plain_dict, OF assms(4)]] assms(1,2)] assms(5)])

lemma screening_through: "(\<And>c. plain_dict c \<Longrightarrow> yields Q (k c)) \<Longrightarrow> yields Q (bnd (screening_context data) k)"
  by (rule yields_through [OF screening_plain])

lemma cited_extend: "cited s \<Longrightarrow> genuine a \<Longrightarrow> genuine b \<Longrightarrow> yields cited (list_extend (ret s) (tuple_of [ret a, ret b]))"
  by (auto simp: yields_def cited_def list_extend_def tuple_of_def)

lemma extend_cited:
  "cited s \<Longrightarrow> genuine a \<Longrightarrow> genuine b \<Longrightarrow> (\<And>s. cited s \<Longrightarrow> yields Q (k s)) \<Longrightarrow>
   yields Q (bnd (list_extend (ret s) (tuple_of [ret a, ret b])) k)"
  by (rule yields_through [OF cited_extend])

lemma list_cited:
  "genuine a \<Longrightarrow> genuine b \<Longrightarrow> genuine c \<Longrightarrow> (\<And>s. cited s \<Longrightarrow> yields Q (k s)) \<Longrightarrow>
   yields Q (bnd (list_of [ret a, ret b, ret c]) k)"
  by (simp add: list_of_def cited_def)

lemma list_cited4:
  assumes "genuine a" "genuine b" "genuine c" "yields genuine d" and "\<And>s. cited s \<Longrightarrow> yields Q (k s)"
  shows "yields Q (bnd (list_of [ret a, ret b, ret c, d]) k)"
proof (rule yields_through [OF _ assms(5)])
  show "yields cited (list_of [ret a, ret b, ret c, d])"
    using assms(1-4) by (auto simp: yields_def list_of_def cited_def ok_simps)
qed

lemma merged_final:
  assumes "map_of es ''sources'' = Some (ret s)" and "distinct (map fst es)" and "cited s" and "plain_dict context'"
  shows "yields cites (merge (merge (dict_of base) (ret context')) (dict_of es))"
  by (rule merged_sources [OF assms(3) merge_plain [OF dict_of_plain yields_Inr [of plain_dict, OF assms(4)]] assms(1,2)])

lemma limitations_cited:
  "cites r \<Longrightarrow> yields cites (bnd (put (ret r) (str ''limitations'') e) (\<lambda>r. ret r))"
  by (cases e) (auto simp: yields_def cites_def put_def store_def dict_put_def)

lemma preliminary_cited:
  "cites r \<Longrightarrow> yields cites (bnd (branch c (bnd (put (ret r) (str ''limitations'') e) (\<lambda>r. ret r)) (ret r)) (\<lambda>r. ret r))"
  by (rule yields_through [OF yields_branch [OF limitations_cited yields_Inr]]) (auto intro: yields_Inr)

end

section \<open>Files beside the summary\<close>

locale sealed_store = evidence_store +
  fixes sha256 :: "string \<Rightarrow> string" and absolute :: "string \<Rightarrow> string" and fs :: file_system
    and tree_of :: "string \<Rightarrow> directory result"
  assumes original_genuine:
      "original_file sha256 absolute fs p e = Inr v \<Longrightarrow> \<exists>data origin. v = PTuple [data, origin] \<and> genuine origin"
    and seal_genuine: "given_seal sha256 tree_of root' d = Inr v \<Longrightarrow>
      dict_of [(''path'', join_path root' (PStr ''evidence-files.json'')), (''sha256'', ret d)] = Inr origin \<Longrightarrow> genuine origin"
begin

definition run_read :: "pyval \<Rightarrow> bool" where
  "run_read r \<longleftrightarrow> (\<exists>raw ref labels. r = PTuple [raw, ref, labels] \<and> genuine ref)"

definition runs_read :: "pyval \<Rightarrow> bool" where
  "runs_read v \<longleftrightarrow> (\<exists>runs. v = PList runs \<and> list_all run_read runs)"

lemma original_read:
  assumes "\<And>data origin. genuine origin \<Longrightarrow> yields Q (k data origin)"
  shows "yields Q (bnd (call2 (original_file sha256 absolute fs) a b) (\<lambda>t. unpack2 t k))"
proof (rule yields_through [where R = "\<lambda>v. \<exists>data origin. v = PTuple [data, origin] \<and> genuine origin"])
  show "yields (\<lambda>v. \<exists>data origin. v = PTuple [data, origin] \<and> genuine origin) (call2 (original_file sha256 absolute fs) a b)"
    unfolding call2_def by (intro yields_bnd) (simp add: yields_def original_genuine)
  show "\<And>u. \<exists>data origin. u = PTuple [data, origin] \<and> genuine origin \<Longrightarrow> yields Q (unpack2 u k)"
    using assms by (auto simp: unpack2_PTuple)
qed

lemma run_cited: "run_read x \<Longrightarrow> (\<And>raw ref labels. genuine ref \<Longrightarrow> yields Q (k raw ref labels)) \<Longrightarrow> yields Q (unpack3 x k)"
  by (auto simp: run_read_def unpack3_def)

definition records_read :: "pyval \<Rightarrow> bool" where
  "records_read v \<longleftrightarrow> (\<exists>runs origin data. v = PTuple [runs, origin, data] \<and> runs_read runs \<and> genuine origin)"

lemma runs_append:
  assumes "runs_read s" and "genuine ref" and "\<And>s. runs_read s \<Longrightarrow> yields Q (k s)"
  shows "yields Q (bnd (append (ret s) (tuple_of [ret raw, ret ref, ret labels])) k)"
  using assms by (auto simp: runs_read_def run_read_def append_def tuple_of_def)

lemma records_cited: "yields records_read (records load sha256 absolute fs selector)"
proof -
  have one: "yields records_read (tuple_of [list_of [tuple_of [ret data, ret origin, dict_of []]], ret origin, ret data])"
    if "genuine origin" for data origin
    using that by (simp add: yields_def records_read_def runs_read_def run_read_def tuple_of_def list_of_def dict_of_def)
  have all: "yields records_read (tuple_of [ret runs, ret origin, ret data])"
    if "runs_read runs" "genuine origin" for runs data origin
    using that by (simp add: yields_def records_read_def tuple_of_def)
  have start: "yields Q (bnd (list_of []) k)" if "\<And>s. runs_read s \<Longrightarrow> yields Q (k s)" for Q k
    using that by (simp add: list_of_def runs_read_def)
  show ?thesis
    unfolding records_def
    by ((simp only: prod.case | rule one, assumption | rule all, assumption, assumption | rule start |
         rule yields_loop_second, assumption | rule load_cited | rule original_read | rule runs_append, assumption, assumption |
         rule yields_Inr, (simp; fail) | rule yields_check yields_branch | rule yields_bnd | rule yields_unpack2)+)
qed

lemma records_through:
  assumes "\<And>runs origin data. list_all run_read runs \<Longrightarrow> genuine origin \<Longrightarrow> yields Q (k (PList runs) origin data)"
  shows "yields Q (bnd (records load sha256 absolute fs selector) (\<lambda>t. unpack3 t k))"
  by (rule yields_through [OF records_cited])
    (use assms in \<open>auto simp: records_read_def runs_read_def unpack3_def\<close>)

lemma seal_through:
  assumes "yields genuine (dict_of [(''path'', call2 join_path (ret root') (str ''evidence-files.json'')), (''sha256'', e)]) \<Longrightarrow> yields Q k"
  shows "yields Q (bnd (call2 (given_seal sha256 tree_of) (ret root') e) (\<lambda>unused. k))"
proof (cases e)
  case (Inr d)
  show ?thesis
  proof (cases "given_seal sha256 tree_of root' d")
    case (Inr u)
    have "yields genuine (dict_of [(''path'', call2 join_path (ret root') (str ''evidence-files.json'')), (''sha256'', e)])"
      using seal_genuine [OF Inr] by (simp add: yields_def \<open>e = Inr d\<close> call2_def)
    from assms [OF this] show ?thesis by (simp add: call2_def \<open>e = Inr d\<close> Inr)
  qed (simp add: call2_def \<open>e = Inr d\<close> yields_Inl)
qed (simp add: call2_def yields_Inl)

lemma storage_cited:
  assumes "list_all run_read runs" and "genuine origin"
  shows "yields cites (storage_compare read_json libm sha256 absolute fs tree_of work_of files_of powers (PList runs) origin data control
    candidate changes case')"
  unfolding storage_compare_def
  by ((simp only: prod.case | rule original_read | rule seal_through | rule list_cited4, (assumption | rule assms)+ |
       rule yields_loop_last, rule assms, assumption | rule run_cited, assumption | rule extend_cited, assumption, assumption, assumption |
       rule screening_through | rule merged_final, (simp; fail), (simp; fail), assumption, assumption |
       rule yields_Inr, (simp; fail) | rule yields_check yields_branch yields_split | rule yields_bnd | rule yields_unpack2 yields_unpack3)+)

lemma mtp_compare_cited:
  "yields cites (mtp_compare load read_json libm sha256 absolute fs tree_of work_of files_of powers selector control candidate changes case')"
  unfolding mtp_compare_def
  by ((simp only: prod.case | rule records_through | rule storage_cited, assumption, assumption | rule original_read |
       rule list_cited, assumption, assumption, assumption | rule yields_loop_last, assumption, assumption | rule run_cited, assumption |
       rule extend_cited, assumption, assumption, assumption |
       rule screening_through | rule merged_through, (simp; fail), (simp; fail), assumption, assumption |
       rule preliminary_cited, assumption | rule yields_split |
       rule yields_Inr, (simp; fail) | rule yields_check yields_branch | rule yields_bnd | rule yields_unpack2)+)

end

end
