(* ===== verification/VerifiedAnswers.thy ===== *)
theory VerifiedAnswers
  imports CitedMtp PyEval
begin

text \<open>
  The answers of a comparison and the entries of the experiment ledger over the index itself: the
  contract of the evidence store holds of \<open>Index.json\<close>, \<open>original\<close> and \<open>verify_seal\<close>, with an origin
  genuine when the present bytes have the cited digest.
\<close>

section \<open>Verified origins\<close>

text \<open>
  A file that reads, now, as bytes of the cited digest, or the index of a sealed directory whose
  files all agree with it.
\<close>

definition verified_origin ::
  "(string \<Rightarrow> string) \<Rightarrow> file_system \<Rightarrow> (string \<Rightarrow> directory result) \<Rightarrow> pyval \<Rightarrow> bool" where
  "verified_origin sha256 fs tree_of origin \<longleftrightarrow>
     (\<exists>d path sha. origin = PDict d \<and> map_of d ''path'' = Some (PStr path) \<and> map_of d ''sha256'' = Some (PStr sha) \<and>
       ((\<exists>raw. read_file fs path = Inr raw \<and> sha256 raw = sha) \<or>
        (\<exists>root t. path = root @ ''/evidence-files.json'' \<and> tree_of root = Inr t \<and> verify_seal sha256 root t sha = Inr ())))"

lemma verified_file:
  "read_file fs path = Inr raw \<Longrightarrow>
   verified_origin sha256 fs tree_of (PDict ((''path'', PStr path) # (''sha256'', PStr (sha256 raw)) # others))"
  by (simp add: verified_origin_def)

lemma verified_put: "k \<notin> {''path'', ''sha256''} \<Longrightarrow> verified_origin sha256 fs tree_of (PDict d) \<Longrightarrow>
   verified_origin sha256 fs tree_of (PDict (aput d k v))"
  by (auto simp: verified_origin_def)

lemma verified_merge1:
  assumes "verified_origin sha256 fs tree_of origin" and "k \<notin> {''path'', ''sha256''}"
    and "merge (dict_from (ret origin)) (dict_of [(k, e)]) = Inr ref"
  shows "verified_origin sha256 fs tree_of ref"
proof -
  obtain d where d: "origin = PDict d" using assms(1) by (auto simp: verified_origin_def)
  from assms(3) obtain v where "ref = PDict (aput d k v)"
    by (auto simp: d merge_def dict_from_def dict_of_def dict_put_def ok_simps)
  then show ?thesis using assms(1,2) by (simp add: d verified_put)
qed

lemma verified_merge2:
  assumes "verified_origin sha256 fs tree_of origin" and "k \<notin> {''path'', ''sha256''}" "l \<notin> {''path'', ''sha256''}"
    and "merge (dict_from (ret origin)) (dict_of [(k, e), (l, f)]) = Inr ref"
  shows "verified_origin sha256 fs tree_of ref"
proof -
  obtain d where d: "origin = PDict d" using assms(1) by (auto simp: verified_origin_def)
  from assms(4) obtain v w where "ref = PDict (aput (aput d k v) l w)"
    by (auto simp: d merge_def dict_from_def dict_of_def dict_put_def ok_simps)
  then show ?thesis using assms(1-3) by (simp add: d verified_put)
qed

lemma index_json_reads:
  assumes "index_json sha256 message absolute fs db selector = Inr v"
  obtains q raw s data where "selector = PStr q" "source sha256 message absolute fs db q = Inr (raw, s)" "parse raw = Inr data"
    "v = PTuple [data, source_value s]" "read_file fs (source_path s) = Inr raw" "source_sha256 s = sha256 raw"
proof -
  from assms obtain q data s where q: "selector = PStr q" and json: "source_json sha256 message absolute fs db q = Inr (data, s)"
    and v: "v = PTuple [data, source_value s]"
    by (auto simp: index_json_def ok_simps split: pyval.split_asm)
  from json obtain raw where raw: "source sha256 message absolute fs db q = Inr (raw, s)" and data: "parse raw = Inr data"
    by (auto simp: source_json_def ok_simps)
  from raw obtain sha where "first_readable sha256 message fs sha (query_order absolute db q sha) []
      (query_order absolute db q sha) = Inr (raw, s)"
    by (auto simp: source_query_order ok_simps)
  from first_readable_verified [OF this] show ?thesis
    by (intro that [OF q raw data v]) auto
qed

interpretation verified: sealed_store "index_json sha256 message absolute fs db" "verified_origin sha256 fs tree_of"
  sha256 absolute fs tree_of
proof unfold_locales
  fix selector v
  assume "index_json sha256 message absolute fs db selector = Inr v"
  then show "\<exists>data origin. v = PTuple [data, origin] \<and> verified_origin sha256 fs tree_of origin"
    by (rule index_json_reads) (simp add: source_value_def verified_origin_def)
next
  fix origin p part
  assume "verified_origin sha256 fs tree_of origin"
    and "merge (dict_from (ret origin)) (dict_of [(''pointer'', str p)]) = Inr part"
  then show "verified_origin sha256 fs tree_of part"
    by - (rule verified_merge1, assumption, simp_all)
next
  fix p e v
  assume "original_file sha256 absolute fs p e = Inr v"
  then show "\<exists>data origin. v = PTuple [data, origin] \<and> verified_origin sha256 fs tree_of origin"
    by (auto simp: original_file_def ok_simps verified_file split: pyval.split_asm if_split_asm)
next
  fix root' d v origin
  assume seal: "given_seal sha256 tree_of root' d = Inr v"
    and origin: "dict_of [(''path'', join_path root' (PStr ''evidence-files.json'')), (''sha256'', ret d)] = Inr origin"
  from seal obtain r t sha where "root' = PStr r" "d = PStr sha" "tree_of r = Inr t" "verify_seal sha256 r t sha = Inr ()"
    by (cases d) (auto simp: given_seal_def ok_simps split: pyval.split_asm)
  with origin show "verified_origin sha256 fs tree_of origin"
    by (auto simp: verified_origin_def join_path_def dict_of_def starts_def ok_simps)
qed

section \<open>Comparisons\<close>

lemma refused_answer:
  assumes "compare_refused message cited error = Inr answer"
  shows "get (ret answer) ''comparable'' = no"
  using assms
  by (auto simp: compare_refused_def query_result_def dict_of_def merge_def dict_put_def get_def dict_get_def COMPARE_LIMITS_def
    aput_def ok_simps)

lemma compare_kind_terminal:
  assumes "compare_kind load_json resample read_json native_top_p libm float_repr mtp_answer data control candidate changes case' sources = Inr answer"
  shows "\<exists>t. terminal_result data (PBool False) = Inr t \<and> truthy t"
  using assms unfolding compare_kind_def Let_def
  by (auto simp: reject_eq_Inr holds_simps holds_def call2_def ok_simps split: sum.split_asm)

text \<open>
  C32: A comparison cites verified evidence. Whatever kind of experiment is selected, an answer starts
  from a report that the index returned for the selector. Either it is the refusal of an exception, which is
  not comparable and whose own list of sources nothing is said about, or \<open>terminal_result\<close> accepts the
  report and the answer lists at least one source; each source it lists is a file that reads, now, as
  bytes of the cited digest, or the index of a sealed directory which verifies against the cited
  digest.
\<close>

theorem comparison_cites_verified_evidence:
  assumes "compare_evidence (index_json sha256 message absolute fs db) resample read_json native_top_p libm float_repr message
      (mtp_compare (index_json sha256 message absolute fs db) read_json libm sha256 absolute fs tree_of work_of files_of powers)
      cited selector control candidate changes case' = Inr answer"
  shows "\<exists>report origin. index_json sha256 message absolute fs db selector = Inr (PTuple [report, origin]) \<and>
      verified_origin sha256 fs tree_of origin \<and>
      ((\<exists>error. compare_refused message cited error = Inr answer \<and> get (ret answer) ''comparable'' = no) \<or>
       (\<exists>t d l. terminal_result report (PBool False) = Inr t \<and> truthy t \<and>
          answer = PDict d \<and> map_of d ''sources'' = Some (PList l) \<and> l \<noteq> [] \<and>
          list_all (verified_origin sha256 fs tree_of) l))"
proof -
  let ?json = "index_json sha256 message absolute fs db"
  let ?mtp = "mtp_compare ?json read_json libm sha256 absolute fs tree_of work_of files_of powers"
  let ?cited = "evidence_store.cited (verified_origin sha256 fs tree_of)"
  let ?cites = "evidence_store.cites (verified_origin sha256 fs tree_of)"
  obtain data origin where read: "?json selector = Inr (PTuple [data, origin])" and genuine: "verified_origin sha256 fs tree_of origin"
    using assms verified.load_genuine by (fastforce simp: compare_evidence_def ok_simps)
  let ?body = "compare_kind ?json resample read_json native_top_p libm float_repr (?mtp selector control candidate changes case')
      data control candidate changes case' (PList [origin])"
  have run: "attempt COMPARE_ERRORS ?body (compare_refused message cited) = Inr answer"
    using assms by (simp add: compare_evidence_def read unpack2_PTuple)
  show ?thesis
  proof (cases ?body)
    case (Inl e)
    then have "compare_refused message cited e = Inr answer"
      using run by (auto simp: attempt_def split: if_split_asm)
    then show ?thesis using read genuine refused_answer by blast
  next
    case (Inr v)
    then have body: "?body = Inr answer" using run by (simp add: attempt_def)
    have "?cited (PList [origin])"
      using genuine by (simp add: verified.cited_def)
    from verified.compare_kind_cited [OF this verified.mtp_compare_cited] body
    have "?cites answer" by (rule yieldsD)
    then show ?thesis
      using read genuine compare_kind_terminal [OF body] unfolding verified.cites_def verified.cited_def by blast
  qed
qed

section \<open>The experiment ledger\<close>

text \<open>
  What \<open>record\<close> establishes of one reference: a report that the index returns for the selector, its
  origin with the status the report records, and whether the report is terminal.
\<close>

definition settled_reference ::
  "(pyval \<Rightarrow> expr) \<Rightarrow> (pyval \<Rightarrow> bool) \<Rightarrow> bool \<Rightarrow> pyval \<Rightarrow> pyval \<times> bool \<Rightarrow> bool" where
  "settled_reference load_json genuine rejected selector = (\<lambda>(ref, terminal).
     \<exists>report origin. load_json selector = Inr (PTuple [report, origin]) \<and> is_dict report \<and> genuine ref \<and>
       get (ret ref) ''recorded_status'' = item (metadata report) ''status'' \<and>
       get (ret ref) ''recorded_complete'' = get (ret report) ''complete'' \<and>
       (\<exists>t. terminal_result report (PBool rejected) = Inr t \<and> terminal = truthy t))"

lemma merge_two:
  "merge (dict_from (ret (PDict d))) (dict_of [(k, a), (l, b)]) =
     bnd a (\<lambda>v. bnd b (\<lambda>w. Inr (PDict (aput (aput d k v) l w))))" if "k \<noteq> l"
  using that
  by (cases a; cases b) (auto simp: merge_def dict_from_def dict_of_def dict_put_def)

lemma ledger_ref_settles:
  assumes "ledger_ref (index_json sha256 message absolute fs db) rejected selector = Inr r"
  shows "settled_reference (index_json sha256 message absolute fs db) (verified_origin sha256 fs tree_of) rejected selector r"
proof -
  from assms obtain v where v: "index_json sha256 message absolute fs db selector = Inr v"
    by (auto simp: ledger_ref_def ok_simps)
  from verified.load_genuine [OF v] obtain report origin where pair: "v = PTuple [report, origin]"
    and genuine: "verified_origin sha256 fs tree_of origin" by blast
  obtain d where d: "origin = PDict d" using genuine by (auto simp: verified_origin_def)
  from assms show ?thesis
    using verified_put [of _ sha256 fs tree_of] genuine
    by (auto simp: ledger_ref_def settled_reference_def v pair d unpack2_PTuple merge_two ok_simps get_PDict aget_def split: if_split_asm)
qed

lemma ledger_entry_steps:
  assumes "ledger_entry load_json now (PDict d) = Inr (stored, refs)"
  shows "\<exists>decision selectors rows tags why. aget d ''decision'' = PStr decision \<and> decision \<in> set LEDGER_DECISIONS \<and>
    aget d ''evidence'' = PList selectors \<and> selectors \<noteq> [] \<and>
    mapm (ledger_ref load_json (decision = ''rejected'')) selectors = Inr rows \<and> refs = map fst rows \<and>
    (decision \<in> {''rejected'', ''promising'', ''adopted''} \<longrightarrow> list_ex snd rows) \<and>
    merge (Inr (PDict (map (\<lambda>k. (k, aget d k)) LEDGER_REQUIRED @ tags @ why)))
      (dict_of [(''kind'', str ''experiment_ledger_v1''), (''evidence'', Inr (PList refs)), (''recorded_at'', str now),
         (''decision_origin'', str ''authored interpretation; original report statuses retained''),
         (''production_promoted'', no)]) = Inr stored"
  using assms
  by (auto simp: ledger_entry_def ok_simps simp del: set_map split: if_split_asm pyval.split_asm prod.split_asm)
    (fastforce simp: set_map)+

lemma ledger_stored:
  assumes "merge (Inr (PDict (map (\<lambda>k. (k, aget d k)) LEDGER_REQUIRED @ more')))
      (dict_of [(''kind'', str ''experiment_ledger_v1''), (''evidence'', Inr (PList refs)), (''recorded_at'', str now),
         (''decision_origin'', str ''authored interpretation; original report statuses retained''),
         (''production_promoted'', no)]) = Inr stored"
  shows "\<exists>e. stored = PDict e \<and> map_of e ''decision'' = Some (aget d ''decision'') \<and> map_of e ''evidence'' = Some (PList refs) \<and>
    map_of e ''production_promoted'' = Some (PBool False)"
  using assms by (auto simp: merge_def dict_of_def dict_put_def LEDGER_REQUIRED_def)

text \<open>
  C33: A ledger entry rests on the evidence it names. When \<open>record\<close> accepts an entry, its decision is a
  known one, it names at least one report, and the index returned every named report from bytes that have
  the cited digest; the stored references carry the status each report records. A rejection, a benefit
  or an adoption needs a terminal report among them. What is written is one new file, of an absent
  path, whose entry keeps the decision, holds these references and promotes nothing.
\<close>

theorem ledger_rests_on_evidence:
  assumes "record_entry sha256 float_repr message absolute present stamp now input directory fs db = Inr (answer, fs', db')"
  shows "\<exists>given d decision selectors rows e body.
    input = Inr given \<and> parse given = Inr (PDict d) \<and>
    aget d ''decision'' = PStr decision \<and> decision \<in> set LEDGER_DECISIONS \<and>
    aget d ''evidence'' = PList selectors \<and> selectors \<noteq> [] \<and>
    list_all2 (settled_reference (index_json sha256 message absolute fs db) (verified_origin sha256 fs (\<lambda>root. Inl TypeError))
      (decision = ''rejected'')) selectors rows \<and>
    (decision \<in> {''rejected'', ''promising'', ''adopted''} \<longrightarrow> list_ex snd rows) \<and>
    encoded float_repr (PDict e) = Inr body \<and>
    map_of e ''decision'' = Some (PStr decision) \<and> map_of e ''evidence'' = Some (PList (map fst rows)) \<and>
    map_of e ''production_promoted'' = Some (PBool False) \<and>
    (let raw = body @ [CHR 0x0A]; path = absolute (directory @ ''/'' @ sha256 raw @ ''.json'')
     in \<not> present path \<and> content (fs' path) = Inr raw \<and> (\<forall>p. p \<noteq> path \<longrightarrow> fs' p = fs p))"
proof -
  let ?json = "index_json sha256 message absolute fs db"
  from assms obtain given entry stored refs body where given: "input = Inr given" "parse given = Inr entry"
    and entry: "ledger_entry ?json now entry = Inr (stored, refs)" and body: "encoded float_repr stored = Inr body"
    and new: "write_new present stamp (absolute (directory @ ''/'' @ sha256 (body @ [CHR 0x0A]) @ ''.json'')) (body @ [CHR 0x0A]) fs = Inr fs'"
    by (auto simp: record_entry_def Let_def ok_simps)
  obtain d where d: "entry = PDict d"
    using entry by (auto simp: ledger_entry_def split: pyval.split_asm)
  from ledger_entry_steps [OF entry [unfolded d]] obtain decision selectors rows tags why where
    checked: "aget d ''decision'' = PStr decision" "decision \<in> set LEDGER_DECISIONS" "aget d ''evidence'' = PList selectors"
      "selectors \<noteq> []" "decision \<in> {''rejected'', ''promising'', ''adopted''} \<longrightarrow> list_ex snd rows" "refs = map fst rows"
    and rows: "mapm (ledger_ref ?json (decision = ''rejected'')) selectors = Inr rows"
    and merged: "merge (Inr (PDict (map (\<lambda>k. (k, aget d k)) LEDGER_REQUIRED @ tags @ why)))
      (dict_of [(''kind'', str ''experiment_ledger_v1''), (''evidence'', Inr (PList refs)), (''recorded_at'', str now),
         (''decision_origin'', str ''authored interpretation; original report statuses retained''),
         (''production_promoted'', no)]) = Inr stored"
    by blast
  from ledger_stored [OF merged] obtain e where e: "stored = PDict e" "map_of e ''decision'' = Some (PStr decision)"
      "map_of e ''evidence'' = Some (PList refs)" "map_of e ''production_promoted'' = Some (PBool False)"
    unfolding checked(1) by blast
  have "list_all2 (settled_reference ?json (verified_origin sha256 fs (\<lambda>root. Inl TypeError)) (decision = ''rejected'')) selectors rows"
    by (rule list_all2_mono [OF mapm_eq_Inr [THEN iffD1, OF rows] ledger_ref_settles])
  moreover have "let raw = body @ [CHR 0x0A]; path = absolute (directory @ ''/'' @ sha256 raw @ ''.json'')
     in \<not> present path \<and> content (fs' path) = Inr raw \<and> (\<forall>p. p \<noteq> path \<longrightarrow> fs' p = fs p)"
    using new by (auto simp: write_new_def Let_def split: if_split_asm)
  ultimately show ?thesis
    using given body checked e unfolding d e(1)
    by (intro exI [of _ given] exI [of _ d] exI [of _ decision] exI [of _ selectors] exI [of _ rows] exI [of _ e] exI [of _ body] conjI)
      simp_all
qed

section \<open>A small ledger\<close>

definition sample_digest :: "string \<Rightarrow> string" where
  "sample_digest = take 5"

definition ledger_db :: evidence_db where
  "ledger_db = empty_db\<lparr>paths := [(''/e/a.json'', sample_digest ''{\"kind\":\"x\",\"complete\":true}'')]\<rparr>"

definition sample_entry :: string where
  "sample_entry = ''{\"hypothesis\":\"h\",\"expected_effect\":\"e\",\"controlled_change\":\"c\",\"correctness\":\"s\",\"outcome\":\"o\",\"decision\":\"promising\",\"smallest_experiment\":\"n\",\"limitations\":[],\"evidence\":[\"/e/a.json\"]}''"

definition sample_record :: "(pyval \<times> file_system \<times> evidence_db) result" where
  "sample_record = record_entry sample_digest (\<lambda>x. ''0.0'') sample_message id (\<lambda>path. False)
     \<lparr>st_size = 0, st_mtime_ns = 1, st_ino = 9\<rparr> ''t'' (Inr sample_entry) ''/l'' sample_files ledger_db"

lemma sample_recorded: "case sample_record of Inr p \<Rightarrow> True | Inl e \<Rightarrow> False"
  by code_simp

lemma ledger_rests_on_evidence_witness:
  "\<exists>answer fs' db' path raw. sample_record = Inr (answer, fs', db') \<and> content (fs' path) = Inr raw \<and>
     (\<forall>p. p \<noteq> path \<longrightarrow> fs' p = sample_files p)"
proof -
  obtain answer fs' db' where run: "sample_record = Inr (answer, fs', db')"
    using returned [OF sample_recorded] by (metis prod.exhaust)
  from ledger_rests_on_evidence [OF run [unfolded sample_record_def]] show ?thesis
    using run unfolding Let_def by blast
qed

lemma sample_refused:
  "case compare_evidence (index_json sample_digest sample_message id sample_files ledger_db) (\<lambda>x y. Inl TypeError) (\<lambda>x. Inl TypeError)
      PNone (\<lambda>f x. Inl TypeError) (\<lambda>x. ''0.0'') sample_message
      (mtp_compare (index_json sample_digest sample_message id sample_files ledger_db) (\<lambda>x. Inl TypeError) (\<lambda>f x. Inl TypeError)
        sample_digest id sample_files (\<lambda>root. Inl TypeError) (Inl TypeError) (\<lambda>x. Inl TypeError) (\<lambda>x y. Inl TypeError))
      (PList []) (PStr ''/e/a.json'') (PStr ''control'') (PStr ''candidate'') (PList []) PNone of
     Inr answer \<Rightarrow> True | Inl e \<Rightarrow> False"
  by code_simp

lemma comparison_cites_verified_evidence_witness:
  "\<exists>report origin. index_json sample_digest sample_message id sample_files ledger_db (PStr ''/e/a.json'') = Inr (PTuple [report, origin]) \<and>
     verified_origin sample_digest sample_files (\<lambda>root. Inl TypeError) origin"
proof -
  from returned [OF sample_refused] obtain answer where
    "compare_evidence (index_json sample_digest sample_message id sample_files ledger_db) (\<lambda>x y. Inl TypeError) (\<lambda>x. Inl TypeError)
      PNone (\<lambda>f x. Inl TypeError) (\<lambda>x. ''0.0'') sample_message
      (mtp_compare (index_json sample_digest sample_message id sample_files ledger_db) (\<lambda>x. Inl TypeError) (\<lambda>f x. Inl TypeError)
        sample_digest id sample_files (\<lambda>root. Inl TypeError) (Inl TypeError) (\<lambda>x. Inl TypeError) (\<lambda>x y. Inl TypeError))
      (PList []) (PStr ''/e/a.json'') (PStr ''control'') (PStr ''candidate'') (PList []) PNone = Inr answer"
    by blast
  from comparison_cites_verified_evidence [OF this] show ?thesis by blast
qed

end
