(* ===== verification/OracleAntitone.thy ===== *)
theory OracleAntitone
  imports CacheCounts
begin

text \<open>
  Belady's oracle over capacities: an oracle with fewer slots is a demand cache of any larger capacity, so
  the comparison of \<open>against_oracle\<close> gives that misses never increase with the number of slots.
\<close>

section \<open>More slots never cost the oracle a read\<close>

lemma no_slots_miss:
  assumes "policy_run BeladyPolicy 0 seq = Inr hs"
  shows "miss_count hs = length seq"
proof -
  have "run_cache belady_access c seq' p = Inr (gs, c') \<Longrightarrow> be_capacity c = 0 \<Longrightarrow> be_resident c = [] \<Longrightarrow> miss_count gs = length seq'"
    for c seq' p gs c'
    by (induction seq' arbitrary: c p gs) (auto simp: belady_access_def ok_simps)
  then show ?thesis
    using assms by (auto simp: ok_simps belady_init_def)
qed

lemma miss_count_le: "miss_count hs \<le> length hs"
  by (induction hs) auto

text \<open>A smaller oracle is a demand cache of the larger capacity, so the larger oracle is at least as good.\<close>

lemma larger_oracle:
  assumes "0 < small" and "small \<le> large"
  shows "against_oracle belady_access belady_resident (belady_inv large seq) belady_access belady_resident (belady_inv small seq) large seq"
proof (intro against_oracle.intro belady_oracle.furthest_in_future_axioms demand_cache.intro)
  fix p c
  assume inv: "belady_inv small seq p c"
  show "finite (belady_resident c) \<and> card (belady_resident c) \<le> large"
    using belady_oracle.bounded [OF inv] assms(2) by auto
  assume "p < length seq"
  from belady_oracle.step [OF inv this] assms show "\<exists>c'. belady_access c (seq ! p) p = Inr (seq ! p \<in> belady_resident c, c') \<and>
      belady_inv small seq (Suc p) c' \<and> belady_resident c' \<subseteq> insert (seq ! p) (belady_resident c) \<and>
      (0 < large \<longrightarrow> seq ! p \<in> belady_resident c')"
    by auto
qed

lemma oracle_antitone:
  assumes "small \<le> large" and "policy_run BeladyPolicy small seq = Inr hs" and "policy_run BeladyPolicy large seq = Inr gs"
  shows "miss_count gs \<le> miss_count hs"
proof (cases "small = 0")
  case True
  have "length gs = length seq"
    using policy_run_returns [of BeladyPolicy large seq] assms(3) by auto
  then show ?thesis
    using no_slots_miss assms(2) miss_count_le [of gs] True by simp
next
  case False
  then have "0 < small" by simp
  from against_oracle.oracle_optimal [OF larger_oracle [OF this assms(1)] belady_init_inv belady_init_inv]
  show ?thesis
    using assms(2,3) by (fastforce simp: ok_simps belady_init_resident)
qed

lemma run_misses_oracle: "run_misses BeladyPolicy capacity g \<le> run_misses policy capacity g"
  using policy_run_returns [of BeladyPolicy capacity "sg_accesses g"] policy_run_returns [of policy capacity "sg_accesses g"]
    policy_run_oracle by (fastforce simp: run_misses_def)

lemma run_misses_antitone: "small \<le> large \<Longrightarrow> run_misses BeladyPolicy large g \<le> run_misses BeladyPolicy small g"
  using policy_run_returns [of BeladyPolicy small "sg_accesses g"] policy_run_returns [of BeladyPolicy large "sg_accesses g"]
    oracle_antitone by (fastforce simp: run_misses_def)

text \<open>No policy misses less than the distinct records of the segments.\<close>

lemma compulsory_run_misses: "len (remdups (sg_accesses g)) \<le> run_misses policy capacity g"
  using policy_run_returns [of policy capacity "sg_accesses g"] policy_run_compulsory
  by (fastforce simp: run_misses_def len_def length_remdups_card_conv)

lemma compulsory_segments:
  assumes "route_segments rows phase ex = Inr (segments, routes)"
  shows "co_compulsory_misses routes \<le> sum_list (map (run_misses policy capacity) segments)"
proof (rule route_segments_eq_Inr [OF assms])
  fix s
  assume "segments = rs_segments s"
    and "co_compulsory_misses routes = sum_list (map (\<lambda>g. len (remdups (sg_accesses g))) (rs_segments s))"
  then show ?thesis by (auto intro: sum_list_mono compulsory_run_misses)
qed

end
