(* ===== verification/CacheCurve.thy ===== *)
theory CacheCurve
  imports OracleAntitone RouteTrace IndexIntegrity "HOL-Library.Sublist"
begin

text \<open>
  \<open>cache_curve\<close> of \<open>scripts/qwen/cache_simulation.py\<close>: the query that reads a route trace or a profile
  through the evidence index, cuts it into segments and simulates the three policies at every budget,
  and what its curve promises. \<open>Index.source\<close> is the model of \<open>EvidenceIndex\<close>.
\<close>

section \<open>Arguments\<close>

definition curve_budgets :: "pyval \<Rightarrow> int list result" where
  "curve_budgets budgets =
     (case (if budgets = PNone then PList (map PInt DEFAULT_BUDGETS) else budgets) of
        PList bs \<Rightarrow>
          req (1 \<le> len bs \<and> len bs \<le> 12) ''Choose 1..12 cache budgets''
          (bnd (mapm (\<lambda>b. integer b 0 (22 * 1024) ''expert cache MiB'') bs) (\<lambda>mibs.
           req (distinct mibs) ''Cache budgets must be distinct'' (Inr mibs)))
      | _ \<Rightarrow> Inl (ValueError ''Choose 1..12 cache budgets''))"

section \<open>The rows of the selected evidence\<close>

text \<open>
  Rows, the dictionary whose identity is compared, the recorded status, the capture limits of a
  profile, and the committed trace when the file is one.
\<close>

record curve_input =
  ci_rows :: "(string \<times> pyval) list"
  ci_data :: "(string \<times> pyval) list"
  ci_recorded :: "pyval \<times> pyval"
  ci_capture :: pyval
  ci_trace :: "trace_report option"

definition numbered_rows :: "nat \<times> string \<Rightarrow> (string \<times> pyval) list result" where
  "numbered_rows entry =
     (case entry of (n, line) \<Rightarrow>
        if blank line then Inr [] else bnd (parse line) (\<lambda>row. Inr [(line_pointer n, row)]))"

definition is_trace :: "(string \<times> pyval) list \<Rightarrow> bool" where
  "is_trace rows =
     (case rows of (pointer, PDict d) # others \<Rightarrow> py_eq (aget d ''kind'') (PStr KIND) | _ \<Rightarrow> False)"

definition trace_lines_input :: "string \<Rightarrow> curve_input result" where
  "trace_lines_input raw =
     (let lines = splitlines raw
      in req (len lines \<le> MAX_LINES) ''Cache simulation refuses a line-truncated trace''
         (bnd (mapm numbered_rows (enumerate_from 1 lines)) (\<lambda>found.
          if is_trace (concat found) then
            bnd (decode raw) (\<lambda>trace.
            (case tr_identity trace of
               None \<Rightarrow> Inl TypeError
             | Some data \<Rightarrow>
                 bnd (check_format data) (\<lambda>_.
                 Inr \<lparr>ci_rows = tr_rows trace, ci_data = data,
                      ci_recorded = (PStr (tr_status trace), PBool (tr_complete trace)),
                      ci_capture = PNone, ci_trace = Some trace\<rparr>)))
          else Inr \<lparr>ci_rows = concat found, ci_data = [], ci_recorded = (PStr ''unknown'', PNone),
                    ci_capture = PNone, ci_trace = None\<rparr>)))"

definition pass_pointer :: "nat \<Rightarrow> string" where
  "pass_pointer i = ''/expert_dependencies/'' @ dec i"

definition profile_input :: "string \<Rightarrow> curve_input result" where
  "profile_input raw =
     bnd (parse raw) (\<lambda>value.
     (case value of
        PDict data \<Rightarrow>
          (case aget data ''expert_dependencies'' of
             PList passes \<Rightarrow>
               req (len passes \<le> MAX_LINES) ''Cache simulation refuses an oversized pass list''
               (bnd (check_format data) (\<lambda>_.
                bnd (item (metadata value) ''status'') (\<lambda>status.
                bnd (item (metadata value) ''complete'') (\<lambda>complete.
                Inr \<lparr>ci_rows = map (\<lambda>(i, r). (pass_pointer i, r)) (enumerate_from 0 passes), ci_data = data,
                     ci_recorded = (status, complete), ci_capture = aget data ''dependency_capture_limits'',
                     ci_trace = None\<rparr>))))
           | _ \<Rightarrow> Inl (ValueError ''Select native route JSONL or a profile with expert_dependencies''))
      | _ \<Rightarrow> Inl (ValueError ''Select native route JSONL or a profile with expert_dependencies'')))"

definition curve_input_of :: "string \<Rightarrow> string \<Rightarrow> curve_input result" where
  "curve_input_of path raw = (if suffix ''.jsonl'' path then trace_lines_input raw else profile_input raw)"

text \<open>The identity of the rows must be the one the file declares, where it declares any.\<close>

definition same_identity :: "(string \<times> string) option \<Rightarrow> (string \<times> pyval) list \<Rightarrow> unit result" where
  "same_identity identity data =
     (case identity of
        None \<Rightarrow> Inr ()
      | Some (revision, build) \<Rightarrow>
          foldm (\<lambda>_ (key, recorded).
            req (\<not> (ahas data key \<and> \<not> py_eq (aget data key) (PStr recorded)))
              (''Profile identity differs from recorded routes: '' @ key) (Inr ())) ()
            [(''build'', build), (''artifact_revision'', revision)])"

section \<open>The report\<close>

text \<open>
  Members that hold the same constant in every report (kind, scope, layout, policy parameters, the refusals
  and the proposed experiment) are left out.
\<close>

record trace_coverage =
  tc_route_trace_protocol :: string
  tc_whole_request_covered :: "bool option"
  tc_committed_forwards :: int
  tc_aborted_forwards :: int
  tc_uncommitted_layer_passes :: int
  tc_completed_requests :: int
  tc_phase_filter_starts_cold :: bool

definition trace_coverage_of :: "string option \<Rightarrow> trace_report \<Rightarrow> trace_coverage" where
  "trace_coverage_of phase trace = \<lparr>
     tc_route_trace_protocol = ''qwen_route_trace_v1'',
     tc_whole_request_covered = (if phase = None then Some (tr_complete trace) else None),
     tc_committed_forwards = len (tr_committed trace), tc_aborted_forwards = tr_aborted_forwards trace,
     tc_uncommitted_layer_passes = tr_uncommitted_layer_passes trace,
     tc_completed_requests = len (tr_requests trace), tc_phase_filter_starts_cold = (phase \<noteq> None)\<rparr>"

record budget_point =
  bp_budget_mib :: int
  bp_budget_bytes :: int
  bp_slots :: int
  bp_slot_allocation_bytes :: int
  bp_unused_budget_bytes :: int
  bp_policies :: "policy_counts list"
  bp_clock_minus_oracle_read_bytes :: int

definition budget_point_of :: "segment list \<Rightarrow> bool \<Rightarrow> int \<Rightarrow> budget_point result" where
  "budget_point_of segments per_layer mib =
     (let budget_bytes = mib * 1024 ^ 2; slots = budget_bytes div SLOT_BYTES
      in bnd (mapm (\<lambda>policy. counts segments (nat slots) policy per_layer) [ClockPolicy, SegmentedPolicy, BeladyPolicy]) (\<lambda>results.
         (case map po_application_miss_bytes results of
            [clock_bytes, _, oracle_bytes] \<Rightarrow>
              Inr \<lparr>bp_budget_mib = mib, bp_budget_bytes = budget_bytes, bp_slots = slots,
                   bp_slot_allocation_bytes = slots * SLOT_BYTES, bp_unused_budget_bytes = budget_bytes mod SLOT_BYTES,
                   bp_policies = results, bp_clock_minus_oracle_read_bytes = clock_bytes - oracle_bytes\<rparr>
          | _ \<Rightarrow> Inl (ValueError ''unpack''))))"

record cache_report =
  cr_status :: string
  cr_source :: evidence_source
  cr_limitations :: "string list"
  cr_identity :: "(string \<times> string) option"
  cr_source_result :: "pyval \<times> pyval"
  cr_coverage :: coverage
  cr_capture_limits :: pyval
  cr_trace_coverage :: "trace_coverage option"
  cr_curves :: "budget_point list"

definition CURVE_LIMITS :: "string list" where
  "CURVE_LIMITS = [
     ''Simulation of expert reads only; no measured latency, tokens/s, device traffic or quality gain.'',
     ''Fixed ascending expert-ID demand order within each recorded layer pass, with within-pass deduplication. No token-major reconstruction of prefill panels. Native hit-first admission can change the order.'',
     ''Cold start at each position/phase/session discontinuity or omitted pass. Contiguous positions imply continuation only as a simulation assumption; unrecorded resets cannot be detected.'',
     ''Immediate read completion and release; no pinned GPU users, loading joins, prefetch, OS cache or read overlap. CLOCK here matches the native rule only under those assumptions.'',
     ''Belady is a future-aware minimum for the SAME fixed order, equal-size records and mandatory admission. It is not a bound for arbitrary native schedules, variable-size quantization or end-to-end latency.'',
     ''Budgets cover expert slots only, including alignment. Resident weights, metadata, ngrams, state, scratch and driver reserve need separate admission; this curve cannot approve an engine memory budget.'',
     ''Artifact/build IDs are recorded claims, not newly verified model weights. No prompt identity, terminal request marker or representative steady-generation coverage is inferred from these route records.'']"

definition curve_limits :: "bool \<Rightarrow> string list" where
  "curve_limits traced =
     (if traced then
        CURVE_LIMITS[2 := ''Only committed forwards are included. Explicit session/cache resets and omitted work start cold segments. Unfiltered captures retain simulated prefill warmth into decode; phase filters do not.'',
          6 := ''Request token inputs and terminal markers are checked against committed forwards. Artifact identities are recorded claims, and a complete short capture does not establish representative locality.'']
        @ [''Request/phase counters partition the unfiltered simulation without resetting its cache. Belady minimizes total misses for each segment, not misses in every individual phase.'']
      else CURVE_LIMITS)"

text \<open>The simulation of the rows at every budget; the two step bounds come first.\<close>

definition simulate_curve :: "segment list \<Rightarrow> int list \<Rightarrow> bool \<Rightarrow> budget_point list result" where
  "simulate_curve segments mibs per_layer =
     req (total_accesses segments * len mibs * 3 \<le> MAX_POLICY_STEPS)
       ''Cache sweep exceeds bounded policy steps; select fewer budgets or a smaller source''
       (mapm (budget_point_of segments per_layer) (if segments = [] then [] else sort mibs))"

definition cache_curve ::
  "(string \<Rightarrow> string) \<Rightarrow> (py_error \<Rightarrow> string) \<Rightarrow> (string \<Rightarrow> string) \<Rightarrow> file_system \<Rightarrow> evidence_db \<Rightarrow>
   string \<Rightarrow> pyval \<Rightarrow> string option \<Rightarrow> bool \<Rightarrow> cache_report result" where
  "cache_curve sha256 message absolute fs db selector budgets phase per_layer =
     bnd (curve_budgets budgets) (\<lambda>mibs.
     bnd (source sha256 message absolute fs db selector) (\<lambda>(raw, origin).
     bnd (curve_input_of (source_path origin) raw) (\<lambda>given.
     bnd (route_segments (ci_rows given) phase (ci_trace given \<noteq> None)) (\<lambda>(segments, routes).
     bnd (same_identity (co_identity routes) (ci_data given)) (\<lambda>_.
     bnd (simulate_curve segments mibs per_layer) (\<lambda>curves.
     Inr \<lparr>cr_status = (if segments \<noteq> [] then ''simulated'' else ''insufficient_evidence''), cr_source = origin,
          cr_limitations = curve_limits (ci_trace given \<noteq> None), cr_identity = co_identity routes,
          cr_source_result = ci_recorded given, cr_coverage = routes, cr_capture_limits = ci_capture given,
          cr_trace_coverage = map_option (trace_coverage_of phase) (ci_trace given), cr_curves = curves\<rparr>))))))"

section \<open>One point of the curve\<close>

lemma counts_policy: "counts gs capacity policy per_layer = Inr r \<Longrightarrow> po_policy r = policy"
  by (auto simp: counts_def policy_answer_def Let_def ok_simps)

definition slots_of :: "int \<Rightarrow> int" where
  "slots_of mib = mib * 1024 ^ 2 div SLOT_BYTES"

definition curve_misses :: "segment list \<Rightarrow> sim_policy \<Rightarrow> int \<Rightarrow> int" where
  "curve_misses segments policy mib = sum_list (map (run_misses policy (nat (slots_of mib))) segments)"

lemma budget_point_eq_Inr:
  assumes "budget_point_of segments per_layer mib = Inr b"
  obtains clock segmented optimum where "bp_policies b = [clock, segmented, optimum]" "map po_policy (bp_policies b) = [ClockPolicy, SegmentedPolicy, BeladyPolicy]"
    "bp_budget_mib b = mib" "bp_slots b = slots_of mib" "bp_budget_bytes b = mib * 1024 ^ 2"
    "bp_slot_allocation_bytes b = slots_of mib * SLOT_BYTES" "bp_unused_budget_bytes b = mib * 1024 ^ 2 mod SLOT_BYTES"
    "bp_clock_minus_oracle_read_bytes b = (po_misses clock - po_misses optimum) * PAYLOAD_BYTES"
    "po_misses clock = curve_misses segments ClockPolicy mib" "po_misses segmented = curve_misses segments SegmentedPolicy mib"
    "po_misses optimum = curve_misses segments BeladyPolicy mib"
    "\<forall>p \<in> set (bp_policies b). po_hits p + po_misses p = total_accesses segments"
proof -
  let ?counts = "\<lambda>policy. counts segments (nat (slots_of mib)) policy per_layer"
  obtain clock segmented optimum where c: "?counts ClockPolicy = Inr clock" "?counts SegmentedPolicy = Inr segmented" "?counts BeladyPolicy = Inr optimum"
    and b: "b = \<lparr>bp_budget_mib = mib, bp_budget_bytes = mib * 1024 ^ 2, bp_slots = slots_of mib,
       bp_slot_allocation_bytes = slots_of mib * SLOT_BYTES, bp_unused_budget_bytes = mib * 1024 ^ 2 mod SLOT_BYTES,
       bp_policies = [clock, segmented, optimum],
       bp_clock_minus_oracle_read_bytes = po_application_miss_bytes clock - po_application_miss_bytes optimum\<rparr>"
    using assms by (auto simp: budget_point_of_def slots_of_def Let_def ok_simps)
  note facts = counts_eq_Inr [OF c(1)] counts_eq_Inr [OF c(2)] counts_eq_Inr [OF c(3)]
  show ?thesis
    by (rule that [of clock segmented optimum])
      (use facts(2,6,10) in \<open>simp_all add: b facts(1,4,5,8,9,12) counts_policy [OF c(1)] counts_policy [OF c(2)]
        counts_policy [OF c(3)] curve_misses_def left_diff_distrib\<close>)
qed

lemma budget_point_returns:
  assumes "\<forall>g \<in> set segments. segment_ok ex g"
  shows "\<exists>b. budget_point_of segments per_layer mib = Inr b \<and> bp_budget_mib b = mib"
proof -
  have "\<exists>r. counts segments capacity policy per_layer = Inr r" for capacity policy
    by (rule counts_returns [OF assms])
  then obtain answer where "\<And>policy. counts segments (nat (mib * 1024 ^ 2 div SLOT_BYTES)) policy per_layer = Inr (answer policy)"
    by metis
  then show ?thesis by (simp add: budget_point_of_def Let_def)
qed

lemma curve_misses_oracle: "curve_misses segments BeladyPolicy mib \<le> curve_misses segments policy mib"
  unfolding curve_misses_def by (intro sum_list_mono run_misses_oracle)

lemma curve_misses_antitone:
  "m \<le> n \<Longrightarrow> curve_misses segments BeladyPolicy n \<le> curve_misses segments BeladyPolicy m"
  unfolding curve_misses_def slots_of_def SLOT_BYTES_def
  by (rule sum_list_mono, rule run_misses_antitone, rule nat_mono, rule zdiv_mono1) simp_all

lemma sorted_points:
  assumes "list_all2 (\<lambda>mib b. budget_point_of segments per_layer mib = Inr b) mibs points"
  shows "map bp_budget_mib points = mibs" and "map (\<lambda>b. po_misses (bp_policies b ! 2)) points = map (curve_misses segments BeladyPolicy) mibs"
  using assms by (induction rule: list_all2_induct) (auto elim!: budget_point_eq_Inr)

lemma curve_segments_ok:
  assumes "route_segments rows phase ex = Inr (segments, routes)"
  shows "\<forall>g \<in> set segments. segment_ok ex g" and "co_demand_record_accesses routes = total_accesses segments"
  using assms by (auto elim!: route_segments_eq_Inr simp: routes_inv_def)

lemma integers_in: "mapm (\<lambda>b. integer b low high name) bs = Inr mibs \<Longrightarrow> \<forall>m \<in> set mibs. low \<le> m \<and> m \<le> high"
  by (induction bs arbitrary: mibs) (auto simp: ok_simps integer_def split: pyval.split_asm if_split_asm)

lemma curve_budgets_distinct:
  assumes "curve_budgets budgets = Inr mibs"
  shows "distinct mibs" and "\<forall>b \<in> set mibs. 0 \<le> b"
proof -
  obtain bs where "mapm (\<lambda>b. integer b 0 (22 * 1024) ''expert cache MiB'') bs = Inr mibs" "distinct mibs"
    using assms unfolding curve_budgets_def by (auto simp: ok_simps split: pyval.split_asm)
  then show "distinct mibs" and "\<forall>b \<in> set mibs. 0 \<le> b" using integers_in by fastforce+
qed

lemma cache_curve_eq_Inr:
  assumes "cache_curve sha256 message absolute fs db selector budgets phase per_layer = Inr r"
  obtains mibs segments and given :: curve_input where "curve_budgets budgets = Inr mibs"
    "route_segments (ci_rows given) phase (ci_trace given \<noteq> None) = Inr (segments, cr_coverage r)"
    "simulate_curve segments mibs per_layer = Inr (cr_curves r)"
proof -
  obtain mibs where mibs: "curve_budgets budgets = Inr mibs"
    using assms unfolding cache_curve_def by (cases "curve_budgets budgets") simp_all
  obtain raw origin where sourced: "source sha256 message absolute fs db selector = Inr (raw, origin)"
    using assms unfolding cache_curve_def by (cases "source sha256 message absolute fs db selector") (auto simp: mibs)
  obtain given where given: "curve_input_of (source_path origin) raw = Inr given"
    using assms unfolding cache_curve_def by (cases "curve_input_of (source_path origin) raw") (simp_all add: mibs sourced)
  obtain segments routes where cut: "route_segments (ci_rows given) phase (ci_trace given \<noteq> None) = Inr (segments, routes)"
    using assms unfolding cache_curve_def
    by (cases "route_segments (ci_rows given) phase (ci_trace given \<noteq> None)") (auto simp: mibs sourced given simp del: not_None_eq)
  obtain unit where same: "same_identity (co_identity routes) (ci_data given) = Inr unit"
    using assms unfolding cache_curve_def
    by (cases "same_identity (co_identity routes) (ci_data given)") (simp_all add: mibs sourced given cut del: not_None_eq)
  obtain curves where curves: "simulate_curve segments mibs per_layer = Inr curves"
    using assms unfolding cache_curve_def
    by (cases "simulate_curve segments mibs per_layer") (simp_all add: mibs sourced given cut same del: not_None_eq)
  have r: "cr_coverage r = routes" "cr_curves r = curves"
    using assms unfolding cache_curve_def by (auto simp: mibs sourced given cut same curves simp del: not_None_eq)
  show ?thesis by (rule that [unfolded r, OF mibs cut curves])
qed

lemma slots_bytes:
  assumes "0 \<le> mib"
  shows "slots_of mib * SLOT_BYTES + mib * 1024 ^ 2 mod SLOT_BYTES = mib * 1024 ^ 2"
    and "0 \<le> slots_of mib" and "0 \<le> mib * 1024 ^ 2 mod SLOT_BYTES" and "mib * 1024 ^ 2 mod SLOT_BYTES < SLOT_BYTES"
proof -
  show "slots_of mib * SLOT_BYTES + mib * 1024 ^ 2 mod SLOT_BYTES = mib * 1024 ^ 2" unfolding slots_of_def by (rule div_mult_mod_eq)
qed (use assms in \<open>simp_all add: slots_of_def SLOT_BYTES_def pos_imp_zdiv_nonneg_iff\<close>)

lemma point_sound:
  assumes cut: "route_segments rows phase ex = Inr (segments, routes)"
    and point: "budget_point_of segments per_layer mib = Inr b" and mib: "0 \<le> mib"
  shows "bp_slots b * SLOT_BYTES + bp_unused_budget_bytes b = bp_budget_mib b * 1024 ^ 2 \<and>
       0 \<le> bp_slots b \<and> 0 \<le> bp_unused_budget_bytes b \<and> bp_unused_budget_bytes b < SLOT_BYTES \<and>
       map po_policy (bp_policies b) = [ClockPolicy, SegmentedPolicy, BeladyPolicy] \<and>
       (\<forall>p \<in> set (bp_policies b). po_hits p + po_misses p = co_demand_record_accesses routes \<and>
          co_compulsory_misses routes \<le> po_misses p \<and> po_misses (bp_policies b ! 2) \<le> po_misses p) \<and>
       bp_clock_minus_oracle_read_bytes b = (po_misses (bp_policies b ! 0) - po_misses (bp_policies b ! 2)) * PAYLOAD_BYTES \<and>
       0 \<le> bp_clock_minus_oracle_read_bytes b"
proof -
  from budget_point_eq_Inr [OF point] obtain clock segmented optimum where
    p: "bp_policies b = [clock, segmented, optimum]" "map po_policy (bp_policies b) = [ClockPolicy, SegmentedPolicy, BeladyPolicy]"
    and n: "bp_budget_mib b = mib" "bp_slots b = slots_of mib" "bp_unused_budget_bytes b = mib * 1024 ^ 2 mod SLOT_BYTES"
    "bp_clock_minus_oracle_read_bytes b = (po_misses clock - po_misses optimum) * PAYLOAD_BYTES"
    and m: "po_misses clock = curve_misses segments ClockPolicy mib" "po_misses segmented = curve_misses segments SegmentedPolicy mib"
    "po_misses optimum = curve_misses segments BeladyPolicy mib"
    and total: "\<forall>p \<in> set (bp_policies b). po_hits p + po_misses p = total_accesses segments"
    by metis
  have least: "co_compulsory_misses routes \<le> curve_misses segments policy mib" for policy
    unfolding curve_misses_def by (rule compulsory_segments [OF cut])
  have "po_misses optimum \<le> po_misses q \<and> co_compulsory_misses routes \<le> po_misses q" if "q \<in> {clock, segmented, optimum}" for q
    using that least curve_misses_oracle by (auto simp: m)
  then show ?thesis
    using total p(2) slots_bytes [OF mib] curve_segments_ok(2) [OF cut] by (simp add: p(1) n PAYLOAD_BYTES_def)
qed

section \<open>A profile of one window\<close>

definition sample_profile :: pyval where
  "sample_profile = PDict [(''complete'', PBool True),
     (''expert_dependencies'', PList (map (\<lambda>l. PDict (single_row (int l))) [0..<48])), (''status'', PStr ''complete'')]"

lemma single_row_plain: "plain_json (PDict (single_row l))"
  and single_row_sorted: "sort_json (PDict (single_row l)) = PDict (single_row l)"
  by (simp_all add: single_row_def code_def REVISIONS_def list_all_iff)

lemma length_dec: "length (dec n) \<le> n + 1"
  by (induction n rule: dec.induct) (subst dec.simps, auto)

lemma mapm_returns: "\<forall>x \<in> set xs. \<exists>y. f x = Inr y \<Longrightarrow> \<exists>ys. mapm f xs = Inr ys"
  by (induction xs) auto

lemma length_commas: "length (commas ts) \<le> sum_list (map (\<lambda>t. length t + 1) ts)"
  by (induction ts rule: commas.induct) auto

lemma single_row_text:
  assumes "l < 48"
  shows "\<exists>t. dumps float_repr (PDict (single_row (int l))) = Inr t \<and> length t \<le> 1000"
proof -
  have routes: "dumps float_repr (PList (map PInt [0..9])) = Inr ''[0,1,2,3,4,5,6,7,8,9]''" by code_simp
  have numbers: "dump_int 0 = Inr ''0''" "dump_int 1 = Inr ''1''" by code_simp+
  have strings: "length (dump_string (replicate 64 CHR ''a'')) = 66" "length (dump_string (hd REVISIONS)) = 42"
    by code_simp+
  have names: "length (dump_string ''artifact_revision'') \<le> 20" "length (dump_string ''build'') \<le> 20"
    "length (dump_string ''layer'') \<le> 20" "length (dump_string ''offset'') \<le> 20" "length (dump_string ''routes'') \<le> 20"
    "length (dump_string ''tokens'') \<le> 20"
    by code_simp+
  have layer: "dump_int (int l) = Inr (dec l)" "length (dec l) \<le> 48" using assms length_dec [of l] by (simp_all add: dump_int_def)
  show ?thesis
    using layer(2) names by (simp add: single_row_def routes numbers layer(1) dump_pair_def strings 
      del: upto_rec_numeral dumps.simps(6))
qed

lemma mapm_bounded:
  "\<forall>x \<in> set xs. \<exists>t. f x = Inr t \<and> length t \<le> n \<Longrightarrow>
    \<exists>ts. mapm f xs = Inr ts \<and> length ts = length xs \<and> (\<forall>t \<in> set ts. length t \<le> n)"
  by (induction xs) fastforce+

lemma length_commas_bound: "\<forall>t \<in> set ts. length t \<le> n \<Longrightarrow> length (commas ts) \<le> length ts * (n + 1)"
  by (rule order_trans [OF length_commas]) (induction ts; auto)

lemma sample_profile_text:
  "\<exists>t. dumps float_repr sample_profile = Inr t \<and> parse t = Inr sample_profile \<and> len t \<le> MAX_BYTES"
proof -
  let ?rows = "map (\<lambda>l. PDict (single_row (int l))) [0..<48]"
  have "\<exists>ts. mapm (dumps float_repr) ?rows = Inr ts \<and> length ts = length ?rows \<and> (\<forall>t \<in> set ts. length t \<le> 1000)"
    by (rule mapm_bounded) (use single_row_text in \<open>auto simp del: upt_rec_numeral dumps.simps\<close>)
  then obtain ts where ts: "mapm (dumps float_repr) ?rows = Inr ts" "length ts = 48" "\<forall>t \<in> set ts. length t \<le> 1000"
    by (auto simp del: upt_rec_numeral)
  have names: "length (dump_string ''complete'') \<le> 20" "length (dump_string ''status'') \<le> 20" "length (dump_string ''expert_dependencies'') \<le> 30"
    by code_simp+
  have "\<exists>t. dumps float_repr sample_profile = Inr t \<and> length t \<le> 50000"
    unfolding sample_profile_def using length_commas_bound [OF ts(3)] names ts(2) 
    by (simp add: ts(1) dump_pair_def del: upt_rec_numeral)
  then obtain t where t: "dumps float_repr sample_profile = Inr t" "length t \<le> 50000" by blast
  have p: "plain_json sample_profile" using single_row_plain by (simp add: sample_profile_def code_def del: upt_rec_numeral)
  have "sort_json sample_profile = sample_profile"
    using single_row_sorted by (simp add: sample_profile_def comp_def del: upt_rec_numeral)
  then show ?thesis using parse_line [OF p t(1), of "[]"] t by (simp add: len_def MAX_BYTES_def)
qed

definition sample_profile_db :: "string \<Rightarrow> evidence_db" where
  "sample_profile_db raw = \<lparr>documents = [(raw, ([], []))], paths = [(''/e/p.json'', raw)], events = [], issues = []\<rparr>"

definition sample_profile_files :: "string \<Rightarrow> file_system" where
  "sample_profile_files raw path = \<lparr>before_read = Inr \<lparr>st_size = 0, st_mtime_ns = 0, st_ino = 1\<rparr>, content = Inr raw,
     after_read = Inr \<lparr>st_size = 0, st_mtime_ns = 0, st_ino = 1\<rparr>\<rparr>"

lemma sample_profile_read:
  assumes "len raw \<le> MAX_BYTES"
  shows "\<exists>s. source id message id (sample_profile_files raw) (sample_profile_db raw) ''/e/p.json'' = Inr (raw, s) \<and> source_path s = ''/e/p.json''"
proof -
  have "take (nat (MAX_BYTES + 1)) raw = raw" using assms by (simp add: len_def)
  then have "read_file (sample_profile_files raw) ''/e/p.json'' = Inr raw"
    using assms by (simp add: read_file_def sample_profile_files_def Let_def) (simp add: MAX_BYTES_def)
  then show ?thesis by (simp add: source_def resolve_def sample_profile_db_def aliases_of_def Let_def)
qed

lemma metadata_sample:
  "item (metadata (PDict [(''complete'', PBool True), (''expert_dependencies'', v), (''status'', PStr ''complete'')])) ''status'' =
     Inr (PStr ''complete'')"
  "item (metadata (PDict [(''complete'', PBool True), (''expert_dependencies'', v), (''status'', PStr ''complete'')])) ''complete'' =
     Inr (PBool True)"
  by code_simp+

lemma enumerate_upt: "enumerate_from 0 (map f [0..<n]) = map (\<lambda>i. (i, f i)) [0..<n]"
  by (simp add: enumerate_from_def zip_map2 zip_same_conv_map comp_def)

lemma profile_input_sample:
  assumes "parse raw = Inr sample_profile"
  shows "\<exists>given. curve_input_of ''/e/p.json'' raw = Inr given \<and> ci_rows given = single_rows pass_pointer \<and> ci_trace given = None \<and>
    same_identity (Some single_identity) (ci_data given) = Inr ()"
  using assms
  by (simp add: curve_input_of_def profile_input_def metadata_sample suffix_def sample_profile_def aget_def req_def len_def MAX_LINES_def
    check_format_def ahas_def same_identity_def single_rows_def enumerate_upt comp_def del: upt_rec_numeral)

lemma simulate_window:
  "\<exists>curves. simulate_curve [single_segment pointer] DEFAULT_BUDGETS per_layer = Inr curves \<and> length curves = 6"
proof -
  have "segment_ok False (single_segment pointer)" using single_cut [of pointer] curve_segments_ok(1) by fastforce
  then have "\<forall>mib \<in> set DEFAULT_BUDGETS. \<exists>b. budget_point_of [single_segment pointer] per_layer mib = Inr b"
    using budget_point_returns [of "[single_segment pointer]" False] by fastforce
  then obtain curves where curves: "mapm (budget_point_of [single_segment pointer] per_layer) DEFAULT_BUDGETS = Inr curves"
    using mapm_returns by blast
  have "sort DEFAULT_BUDGETS = DEFAULT_BUDGETS" "length DEFAULT_BUDGETS = 6" by code_simp+
  moreover from this have "length curves = 6" using mapm_length [OF curves] by simp
  ultimately show ?thesis
    using curves single_segment_accesses [of pointer]
    by (simp add: simulate_curve_def req_def total_accesses_def MAX_POLICY_STEPS_def len_def)
qed

lemma cache_curve_returns_sample:
  assumes "parse raw = Inr sample_profile" and "len raw \<le> MAX_BYTES"
  shows "\<exists>r. cache_curve id message id (sample_profile_files raw) (sample_profile_db raw) ''/e/p.json'' PNone None False = Inr r \<and>
    length (cr_curves r) = 6 \<and> co_demand_record_accesses (cr_coverage r) = 480"
proof -
  have budgets: "curve_budgets PNone = Inr DEFAULT_BUDGETS" by code_simp
  from sample_profile_read [OF assms(2)] obtain s where "source id message id (sample_profile_files raw) (sample_profile_db raw) ''/e/p.json'' = Inr (raw, s)"
    "source_path s = ''/e/p.json''" by blast
  moreover from profile_input_sample [OF assms(1)] obtain given where "curve_input_of ''/e/p.json'' raw = Inr given"
    "ci_rows given = single_rows pass_pointer" "ci_trace given = None" "same_identity (Some single_identity) (ci_data given) = Inr ()"
    by blast
  moreover obtain report where "route_segments (single_rows pass_pointer) None False = Inr ([single_segment pass_pointer], report)"
     "co_identity report = Some single_identity" "co_demand_record_accesses report = 480" using single_cut by blast
  moreover obtain curves where "simulate_curve [single_segment pass_pointer] DEFAULT_BUDGETS False = Inr curves" "length curves = 6"
    using simulate_window by blast
  ultimately show ?thesis by (simp add: cache_curve_def budgets)
qed

section \<open>What a curve promises\<close>

text \<open>
  C34: The curve of a cache simulation is sound. Its points follow strictly increasing budgets; the slots
  of a point and its unused bytes make up the budget exactly. All three policies account for every
  recorded demand of the coverage report as a hit or a miss and none misses less than the compulsory
  misses. Belady's oracle misses least at every budget, so the reported difference to CLOCK is
  never negative, and along the curve its misses never increase.
\<close>

theorem cache_curve_sound:
  assumes "cache_curve sha256 message absolute fs db selector budgets phase per_layer = Inr r"
  shows "sorted_wrt (<) (map bp_budget_mib (cr_curves r)) \<and>
    (\<forall>b \<in> set (cr_curves r).
       bp_slots b * SLOT_BYTES + bp_unused_budget_bytes b = bp_budget_mib b * 1024 ^ 2 \<and>
       0 \<le> bp_slots b \<and> 0 \<le> bp_unused_budget_bytes b \<and> bp_unused_budget_bytes b < SLOT_BYTES \<and>
       map po_policy (bp_policies b) = [ClockPolicy, SegmentedPolicy, BeladyPolicy] \<and>
       (\<forall>p \<in> set (bp_policies b). po_hits p + po_misses p = co_demand_record_accesses (cr_coverage r) \<and>
          co_compulsory_misses (cr_coverage r) \<le> po_misses p \<and> po_misses (bp_policies b ! 2) \<le> po_misses p) \<and>
       bp_clock_minus_oracle_read_bytes b = (po_misses (bp_policies b ! 0) - po_misses (bp_policies b ! 2)) * PAYLOAD_BYTES \<and>
       0 \<le> bp_clock_minus_oracle_read_bytes b) \<and>
    sorted_wrt (\<ge>) (map (\<lambda>b. po_misses (bp_policies b ! 2)) (cr_curves r))"
proof -
  obtain mibs segments and given :: curve_input where mibs: "curve_budgets budgets = Inr mibs"
    and cut: "route_segments (ci_rows given) phase (ci_trace given \<noteq> None) = Inr (segments, cr_coverage r)"
    and curves: "simulate_curve segments mibs per_layer = Inr (cr_curves r)"
    by (rule cache_curve_eq_Inr [OF assms])
  define order' where "order' = (if segments = [] then [] else sort mibs)"
  have run: "mapm (budget_point_of segments per_layer) order' = Inr (cr_curves r)"
    using curves by (simp add: simulate_curve_def req_def order'_def split: if_split_asm)
  note points = mapm_eq_Inr [THEN iffD1, OF run]
  have increasing: "sorted_wrt (<) order'" and nonneg: "\<forall>m \<in> set order'. 0 \<le> m"
    using curve_budgets_distinct [OF mibs] by (auto simp: order'_def strict_sorted_iff)
  have falling: "sorted_wrt (\<ge>) (map (curve_misses segments BeladyPolicy) order')"
    unfolding sorted_wrt_map by (rule sorted_wrt_mono_rel [OF _ increasing]) (simp add: curve_misses_antitone)
  have each: "\<exists>mib \<ge> 0. budget_point_of segments per_layer mib = Inr b" if "b \<in> set (cr_curves r)" for b
    using nonneg mapm_witness [OF run that] by blast
  show ?thesis
  proof (rule conjI [OF _ conjI], simp add: increasing sorted_points [OF points], rule ballI)
    fix b
    assume "b \<in> set (cr_curves r)"
    then obtain mib where "budget_point_of segments per_layer mib = Inr b" "0 \<le> mib" using each by blast
    then show "bp_slots b * SLOT_BYTES + bp_unused_budget_bytes b = bp_budget_mib b * 1024 ^ 2 \<and>
       0 \<le> bp_slots b \<and> 0 \<le> bp_unused_budget_bytes b \<and> bp_unused_budget_bytes b < SLOT_BYTES \<and>
       map po_policy (bp_policies b) = [ClockPolicy, SegmentedPolicy, BeladyPolicy] \<and>
       (\<forall>p \<in> set (bp_policies b). po_hits p + po_misses p = co_demand_record_accesses (cr_coverage r) \<and>
          co_compulsory_misses (cr_coverage r) \<le> po_misses p \<and> po_misses (bp_policies b ! 2) \<le> po_misses p) \<and>
       bp_clock_minus_oracle_read_bytes b = (po_misses (bp_policies b ! 0) - po_misses (bp_policies b ! 2)) * PAYLOAD_BYTES \<and>
       0 \<le> bp_clock_minus_oracle_read_bytes b"
      by (rule point_sound [OF cut])
  qed (simp add: falling sorted_points [OF points])
qed

lemma cache_curve_sound_witness:
  "\<exists>raw r. cache_curve id sample_message id (sample_profile_files raw) (sample_profile_db raw) ''/e/p.json'' PNone None False = Inr r \<and>
     length (cr_curves r) = 6 \<and> co_demand_record_accesses (cr_coverage r) = 480 \<and>
     sorted_wrt (<) (map bp_budget_mib (cr_curves r)) \<and>
     sorted_wrt (\<ge>) (map (\<lambda>b. po_misses (bp_policies b ! 2)) (cr_curves r))"
proof -
  obtain raw where "parse raw = Inr sample_profile" "len raw \<le> MAX_BYTES" using sample_profile_text by blast
  then obtain r where r: "cache_curve id sample_message id (sample_profile_files raw) (sample_profile_db raw) ''/e/p.json'' PNone None False = Inr r"
    "length (cr_curves r) = 6" "co_demand_record_accesses (cr_coverage r) = 480"
    using cache_curve_returns_sample by blast
  show ?thesis using cache_curve_sound [OF r(1)] r by blast
qed

end
