(* ===== verification/Spec2Isabelle.thy ===== *)
theory Spec2Isabelle
  imports TraceCapture CacheCounts ReplayPolicies ReplaySound ArrivalScreens BlockProfile ReleaseGates HorizonReplay OperatorScreens
    ScreenDecisions IngestMemory MtpComparison ArtifactInventory HorizonCoverage IntervalPartition AllocationBounds SnapshotPointers MtpBalance ProfileWindow PhasePlans CleanMemory CommandClasses SoakGrowth PyText EvidenceIndex IndexIntegrity Revalidation SealedEvidence SealRoundtrip EvidenceQueries MtpQueries EvidenceAnswers CitedEvidence CitedMtp VerifiedAnswers TraceCoverage OracleAntitone CacheCurve
begin

text \<open>
  Verification development for the evidence and analysis tools of the repository, the Python files
  under \<open>src/scripts/qwen\<close>. The C++ engine writes reports, route traces and event traces; these
  tools decide what a report shows: they check its shape, recompute its counters, replay its cache
  decisions, compare two arms of an experiment and give a verdict. What is proved here is about those
  decisions, not about the engine.

  \<^bold>\<open>Language.\<close> A function is a definition with the result type \<open>py_error + 'a\<close>: \<open>Inl\<close> is the
  exception that leaves the function, \<open>Inr\<close> its value. \<open>PyFloat\<close> holds binary64 numbers as
  dyadic rationals with round-half-even, infinities and NaN; \<open>Py\<close> the dynamically typed values
  (\<open>pyval\<close>), lists, dictionaries as association lists in insertion order, equality and order as
  Python has them; \<open>PyExpr\<close> the operators, each a function on results, so that evaluation order,
  short circuits and the exception of every operator are those of the source; \<open>PyEval\<close> evaluates
  them on values of known shape. \<open>PyJson\<close>, \<open>PyDump\<close> and \<open>PyLoads\<close> are the scanner and the
  printer of the standard library's \<open>json\<close> as the scripts call them.

  \<^bold>\<open>Parts.\<close>
  \<^item> Routes to simulated misses: \<open>RouteTrace\<close> (\<open>route_trace.py\<close>: one definition per event kind of
    \<open>decode\<close>), \<open>RouteSegments\<close>, \<open>SimClock\<close>, \<open>SimSegmented\<close>, \<open>SimBelady\<close> and \<open>CacheCounts\<close>
    (\<open>cache_simulation.py\<close>: \<open>route_segments\<close>, the three policies, \<open>counts\<close>). \<open>DemandCache\<close> is the
    interface between the policies and the counting loop, a locale interpreted on each policy.
    \<open>TraceHistory\<close>, \<open>TraceCoverage\<close> and \<open>TraceCapture\<close> hold what an accepted trace says and that
    a recorded one is accepted.
  \<^item> The lease-aware replay: \<open>BlockCache\<close> (class \<open>Cache\<close> of \<open>block_cache_replay.py\<close> as a
    record), \<open>ReplayRuns\<close> (reachable caches), \<open>ReplayPolicies\<close> (agreement with the simulator),
    \<open>ReplayDecode\<close> (the loop of \<open>decode\<close>, \<open>simulate\<close>, \<open>curves\<close>), \<open>ReplaySound\<close> and
    \<open>PyLoads\<close> (its default \<open>json.loads\<close>).
  \<^item> Checks and screens: \<open>RunChecks\<close>, \<open>ScreenCache\<close>, \<open>ScreenDecisions\<close>, \<open>PerfectDraft\<close>,
    \<open>OperatorScreens\<close>, \<open>StreamedMtp\<close>, \<open>MtpComparison\<close>, \<open>TargetRecovery\<close>, \<open>HorizonReplay\<close>,
    \<open>ExactBench\<close>, \<open>ReleaseGates\<close>, one definition per function, with the name of the function
    (and of its module where two modules share a name).
  \<^item> Measurements: \<open>StepDiagnostics\<close>, \<open>RequestProfile\<close>, \<open>NativeReplay\<close>, \<open>ReadArrivals\<close>,
    \<open>ArrivalScreens\<close>, \<open>BlockProfile\<close>, \<open>IngestMemory\<close>, \<open>MtpEvidence\<close>, \<open>ArtifactInventory\<close>.
  \<^item> The evidence library: \<open>EvidenceIndex\<close> (class \<open>Index\<close> of \<open>evidence_index.py\<close>: its four tables, import,
    queries; \<open>PyText\<close> holds the text operations), \<open>SealedEvidence\<close> (\<open>seal\<close>, \<open>verify_seal\<close> and the checks
    of \<open>qualification_evidence.py\<close>), \<open>Revalidation\<close> (the confirmations recomputed from raw
    reports), \<open>EvidenceQueries\<close>, \<open>MtpQueries\<close> and \<open>EvidenceAnswers\<close> (\<open>compare\<close>, \<open>memory\<close>, \<open>timeline\<close>
    and \<open>next_experiment\<close> of \<open>evidence_queries.py\<close> and \<open>mtp_evidence.py\<close>, \<open>record\<close> of
    \<open>query_evidence.py\<close>), \<open>CacheCurve\<close> (\<open>cache_curve\<close> of \<open>cache_simulation.py\<close>). The closure of \<open>compare\<close> that
    appends to \<open>sources\<close> is a function that threads the list; the list that an exception leaves behind is
    the parameter \<open>cited\<close> of the refusal.

  \<^bold>\<open>What the lemmas show.\<close> Traces and replays: the history of every session is the
  concatenation of its committed forwards, no committed pass is lost between the two readers as
  long as the demands of the trace are within the bound of 250000 (beyond it \<open>route_segments\<close> raises),
  every row is accounted for once, the Belady oracle is minimal among all demand caches, a
  reachable replay cache keeps index, slots, queues and counters in step, never evicts a leased
  record and, without leases, decides like the simulator's CLOCK. \<open>HorizonCoverage\<close>: planned
  blocks tile the workload. \<open>IntervalPartition\<close>: the sweep of \<open>decode_timeline.partition\<close>
  against a reference that looks at one nanosecond at a time. \<open>AllocationBounds\<close>: tensors stay in
  their file, dense layouts do not overlap, the slot counts are maximal. \<open>SnapshotPointers\<close>: JSON
  pointers resolve to the reported objects. \<open>MtpBalance\<close>, \<open>ProfileWindow\<close>: totals and windows
  of multi-token-prediction reports. \<open>PhasePlans\<close>, \<open>CleanMemory\<close>, \<open>CommandClasses\<close>,
  \<open>SoakGrowth\<close>: memory plans, memory verdicts, attribution of GPU commands, the soak gate.
  \<open>IndexIntegrity\<close>: the evidence index is consistent under every sequence of imports, an import settles
  every file, and a query never returns bytes of another digest. \<open>SealRoundtrip\<close>: a fresh seal verifies,
  except that a leftover \<open>evidence-files.json.tmp\<close> is sealed and then renamed away, and what verifies is
  unchanged. \<open>CitedEvidence\<close> and \<open>CitedMtp\<close> are locales for a store of
  evidence and a store with sealed directories; \<open>VerifiedAnswers\<close> interprets them on the index and on
  \<open>verify_seal\<close>, so that the sources of every comparison and every ledger entry are verified.
  \<open>OracleAntitone\<close>: the oracle never misses more with more slots; \<open>CacheCurve\<close> rests on it.

  \<^bold>\<open>Conventions.\<close> Loop bodies are definitions of their own (\<open>account_cycle\<close>,
  \<open>window_cycle\<close>, \<open>phase_transition\<close>, \<open>soak_row\<close>, \<open>classify_group\<close>); a closure is
  lambda-lifted and named after both functions (\<open>outer_inner\<close>). A function that fills a
  dictionary of its caller returns it beside its result. A local that the source assigns on every
  path that reads it starts as None. Text and lines are the bytes of their UTF-8 encoding.
  Floats inside error messages are not printed. The keys of a replay cache are integers, as the
  trace checks have established before a lookup.

  \<^bold>\<open>Bounds and fuel.\<close> The JSON scanner recurses on fuel, \<open>2 * length + 1\<close> of its
  input; \<open>scan_fuel\<close> proves that more fuel never changes the result. Every other recursion is
  structural or has a measure. Integers are Python's, without bound; floats are rounded after every
  operation, \<open>**\<close> of a float by 2 as a rounded product.

  \<^bold>\<open>Parameters.\<close> Code that is not in the repository, or that reads a file, is an argument: the
  content behind a path (\<open>read_json\<close>, \<open>load_report\<close>), the digest (\<open>sha256\<close>), the decimal text
  of a float (\<open>float_repr\<close>), \<open>exp\<close> and \<open>log\<close> (\<open>libm\<close>), the random resampling of a confidence
  interval (\<open>resample\<close>), the native sampler (\<open>native_top_p\<close>), the frozen lock and build of a
  run (\<open>selected_lock\<close>, \<open>current_build\<close>). For the evidence library also: the resolution of a path
  (\<open>absolute\<close>), the files below a root and in a directory (\<open>tree\<close>, \<open>tree_of\<close>), what \<open>read\<close> finds at
  a path (\<open>file_system\<close>), the text of an exception (\<open>message\<close>), \<open>str.casefold\<close> (\<open>casefold\<close>), the
  reports a query reads (\<open>load_json\<close>, \<open>find_source\<close>, \<open>search_history\<close>; \<open>VerifiedAnswers\<close> puts the
  model of the index there), the reference workload of a prerequisite (\<open>work_of\<close>), its listing of
  files (\<open>files_of\<close>), and powers of floats (\<open>powers\<close>).

  \<^bold>\<open>Not modelled.\<close> The C++ engine and its kernels (another language). The runners, which start
  processes, hold locks, read clocks and write directories (class \<open>Experiment\<close>, \<open>main\<close> of every
  script, \<open>screen\<close>, \<open>capture\<close>, \<open>fixture\<close>, \<open>worker\<close>): their effects are those of the operating
  system. The \<open>build\<close> functions of the \<open>build_*\<close> scripts, which call a compiler. The
  NumPy and MLX references (\<open>reference_*.py\<close>), whose content is the floating-point arithmetic of
  those libraries. The argument parsers.
\<close>

end
